(* ===== verification/Efx_Prelude.thy ===== *)
theory Efx_Prelude
  imports Main "HOL-Library.Word" "HOL-Library.Monad_Syntax"
begin

text \<open>
  Shared vocabulary of the development: the machine types of the driver's common code, its
  return codes, bounds-checked memory, and the facts about lists and words that several
  components use.

  Two kinds of failure occur in the C and are kept apart:
  \<^item> an error return is a value of \<open>efx_rc\<close>: the code runs to its \<open>fail\<close> label and
    reports it;
  \<^item> behaviour that C leaves undefined, or that a debug build turns into a panic (an access outside the
    buffer, a call through a NULL pointer, a failed \<open>EFSYS_ASSERT\<close>), is \<open>None\<close> of an
    \<open>option\<close> result. A theorem that a call is \<open>Some\<close> is therefore a memory-safety statement.
\<close>

unbundle bit_operations_syntax

section \<open>Machine types\<close>

type_synonym u8 = "8 word"
type_synonym u16 = "16 word"
type_synonym u32 = "32 word"
type_synonym u64 = "64 word"

text \<open>
  \<open>efx_rc_t\<close> is a C \<open>int\<close>: zero on success, a positive errno value otherwise.
  \<open>RC_RAW\<close> holds any other number that the code stores in a return code.
\<close>

datatype efx_rc =
    RC_OK | EINVAL | ENOENT | ENOMEM | EFAULT | EBUSY | EEXIST | EFBIG | ENOSPC | ENOTSUP
  | EAGAIN | EMSGSIZE | EIO | EACCES | EINTR | EDEADLK | ETIMEDOUT | EALREADY | ENODEV | RC_RAW u32

definition rc_of_u32 :: "u32 \<Rightarrow> efx_rc" where
  "rc_of_u32 v = (if v = 0 then RC_OK else RC_RAW v)"

text \<open>\<open>EFSYS_ASSERT\<close>: a failed assertion ends the run.\<close>

definition efsys_assert :: "bool \<Rightarrow> unit option" where
  "efsys_assert b = (if b then Some () else None)"

lemma efsys_assert_bind [simp]: "(efsys_assert b \<bind> f) = (if b then f () else None)"
  by (simp add: efsys_assert_def)

text \<open>
  A call that is defined (it stays inside its buffers, its assertions hold, it returns) with a result that satisfies \<open>P\<close>; the
  rule for a sequence of calls.
\<close>

definition returns :: "('a \<Rightarrow> bool) \<Rightarrow> 'a option \<Rightarrow> bool" where
  "returns P m = (\<exists>x. m = Some x \<and> P x)"

lemma returns_Some [simp]: "returns P (Some x) = P x" "\<not> returns P None"
  by (simp_all add: returns_def)

lemma returns_bind: "returns Q m \<Longrightarrow> (\<And>x. m = Some x \<Longrightarrow> Q x \<Longrightarrow> returns P (f x)) \<Longrightarrow> returns P (m \<bind> f)"
  by (auto simp: returns_def)

lemma returns_mono: "returns Q m \<Longrightarrow> (\<And>x. m = Some x \<Longrightarrow> Q x \<Longrightarrow> P x) \<Longrightarrow> returns P m"
  by (auto simp: returns_def)

lemma returnsE: assumes "returns P m" obtains x where "m = Some x" "P x"
  using assms by (auto simp: returns_def)

section \<open>Memory\<close>

text \<open>A buffer is the list of its cells; an access outside it is \<open>None\<close>.\<close>

definition rd :: "'a list \<Rightarrow> nat \<Rightarrow> 'a option" where
  "rd xs i = (if i < length xs then Some (xs ! i) else None)"

definition wr :: "'a list \<Rightarrow> nat \<Rightarrow> 'a \<Rightarrow> 'a list option" where
  "wr xs i v = (if i < length xs then Some (xs[i := v]) else None)"

text \<open>\<open>rd_range xs i n\<close> reads the cells \<open>i ..< i + n\<close>; none of them has to exist when \<open>n = 0\<close>.\<close>

definition rd_range :: "'a list \<Rightarrow> nat \<Rightarrow> nat \<Rightarrow> 'a list option" where
  "rd_range xs i n = (if n = 0 then Some [] else if i + n \<le> length xs then Some (take n (drop i xs)) else None)"

definition wr_range :: "'a list \<Rightarrow> nat \<Rightarrow> 'a list \<Rightarrow> 'a list option" where
  "wr_range xs i ys =
     (if ys = [] then Some xs
      else if i + length ys \<le> length xs then Some (take i xs @ ys @ drop (i + length ys) xs) else None)"

text \<open>\<open>memmove\<close> reads its whole source before it writes: overlap is harmless, bounds are not.\<close>

definition memmove_buf :: "'a list \<Rightarrow> nat \<Rightarrow> nat \<Rightarrow> nat \<Rightarrow> 'a list option" where
  "memmove_buf xs dst src n = do { ys \<leftarrow> rd_range xs src n; wr_range xs dst ys }"

definition memset_buf :: "'a list \<Rightarrow> nat \<Rightarrow> 'a \<Rightarrow> nat \<Rightarrow> 'a list option" where
  "memset_buf xs i v n = wr_range xs i (replicate n v)"

lemma rd_Some [simp]: "i < length xs \<Longrightarrow> rd xs i = Some (xs ! i)"
  by (simp add: rd_def)

lemma rd_eq_Some [simp]: "rd xs i = Some v \<longleftrightarrow> i < length xs \<and> xs ! i = v"
  by (auto simp: rd_def)

lemma rd_eq_None [simp]: "rd xs i = None \<longleftrightarrow> length xs \<le> i"
  by (auto simp: rd_def)

lemma wr_Some [simp]: "i < length xs \<Longrightarrow> wr xs i v = Some (xs[i := v])"
  by (simp add: wr_def)

lemma wr_range_length: "wr_range xs i ys = Some zs \<Longrightarrow> length zs = length xs"
  by (auto simp: wr_range_def split: if_splits)

lemma memmove_buf_length: "memmove_buf xs d s n = Some zs \<Longrightarrow> length zs = length xs"
  by (auto simp: memmove_buf_def wr_range_length split: Option.bind_splits)

lemma memset_buf_length: "memset_buf xs i v n = Some zs \<Longrightarrow> length zs = length xs"
  by (auto simp: memset_buf_def wr_range_length)

section \<open>Words\<close>

lemma xor_cancel_right [simp]: "(a :: 'a::len word) XOR c = b XOR c \<longleftrightarrow> a = b"
  by (metis xor.assoc xor_self_eq xor.right_neutral)

lemma xor_cancel_left [simp]: "c XOR (a :: 'a::len word) = c XOR b \<longleftrightarrow> a = b"
  by (simp add: xor.commute [of c])

lemma unat_u8_less: "unat (x :: u8) < 256"
  using unsigned_less [of x] by simp

lemma unat_u16_less: "unat (x :: u16) < 65536"
  using unsigned_less [of x] by simp

lemma unat_u32_less: "unat (x :: u32) < 4294967296"
  using unsigned_less [of x] by simp

lemma unat_and_ff: "unat (x AND 0xff :: u32) < 256"
proof -
  have "x AND 0xff \<le> 0xff" by (rule word_and_le1)
  then show ?thesis by (simp add: word_le_nat_alt)
qed

section \<open>Bytes and little-endian words\<close>

text \<open>The words that \<open>memcpy\<close> leaves in a zeroed last word, and the bytes it reads from words.\<close>

fun words_of_bytes :: "u8 list \<Rightarrow> u32 list" where
  "words_of_bytes [] = []"
| "words_of_bytes [a] = [ucast a]"
| "words_of_bytes [a, b] = [ucast a OR push_bit 8 (ucast b)]"
| "words_of_bytes [a, b, c] = [ucast a OR push_bit 8 (ucast b) OR push_bit 16 (ucast c)]"
| "words_of_bytes (a # b # c # d # bs) =
     (ucast a OR push_bit 8 (ucast b) OR push_bit 16 (ucast c) OR push_bit 24 (ucast d)) # words_of_bytes bs"

definition bytes_of_word :: "u32 \<Rightarrow> u8 list" where
  "bytes_of_word w = [ucast w, ucast (drop_bit 8 w), ucast (drop_bit 16 w), ucast (drop_bit 24 w)]"

definition bytes_of_words :: "u32 list \<Rightarrow> u8 list" where
  "bytes_of_words ws = concat (map bytes_of_word ws)"

lemma bytes_of_word_pack:
  "bytes_of_word (ucast a OR push_bit 8 (ucast b) OR push_bit 16 (ucast c) OR push_bit 24 (ucast d)) = [a, b, c, d]"
proof -
  let ?w = "ucast (a::u8) OR push_bit 8 (ucast (b::u8)) OR push_bit 16 (ucast (c::u8)) OR push_bit 24 (ucast (d::u8)) :: u32"
  have "ucast ?w = a" "ucast (drop_bit 8 ?w) = b" "ucast (drop_bit 16 ?w) = c" "ucast (drop_bit 24 ?w) = d"
    by (rule bit_word_eqI; auto simp: bit_simps dest: bit_imp_le_length)+
  then show ?thesis by (simp add: bytes_of_word_def)
qed

lemma bytes_of_words_simps [simp]:
  "bytes_of_words [] = []" "bytes_of_words (w # ws) = bytes_of_word w @ bytes_of_words ws"
  by (simp_all add: bytes_of_words_def)

lemma words_of_bytes_roundtrip: "take (length bs) (bytes_of_words (words_of_bytes bs)) = bs"
proof (induction bs rule: words_of_bytes.induct)
  case (2 a)
  show ?case using bytes_of_word_pack [of a 0 0 0] by simp
next
  case (3 a b)
  show ?case using bytes_of_word_pack [of a b 0 0] by simp
next
  case (4 a b c)
  show ?case using bytes_of_word_pack [of a b c 0] by simp
next
  case (5 a b c d bs)
  then show ?case by (simp add: bytes_of_word_pack)
qed simp

lemma words_of_bytes_length: "length (words_of_bytes bs) = (length bs + 3) div 4"
  by (induction bs rule: words_of_bytes.induct) simp_all

end
