(* ===== verification/Efx_Crc32.thy ===== *)
theory Efx_Crc32
  imports Efx_Prelude
begin

text \<open>
  \<open>src/common/efx_crc32.c\<close>: the IEEE 802.3 CRC32 over a MAC address, one table lookup per byte.
  The table and the loop are translated as they stand; the bit-by-bit division by the reversed
  polynomial \<open>0xedb88320\<close> named in the source's comment is the reference they are proved equal to.
\<close>

section \<open>The code\<close>

definition efx_crc32_table :: "u32 list" where
  "efx_crc32_table =
    [0x00000000, 0x77073096, 0xee0e612c, 0x990951ba, 0x076dc419, 0x706af48f, 0xe963a535, 0x9e6495a3,
     0x0edb8832, 0x79dcb8a4, 0xe0d5e91e, 0x97d2d988, 0x09b64c2b, 0x7eb17cbd, 0xe7b82d07, 0x90bf1d91,
     0x1db71064, 0x6ab020f2, 0xf3b97148, 0x84be41de, 0x1adad47d, 0x6ddde4eb, 0xf4d4b551, 0x83d385c7,
     0x136c9856, 0x646ba8c0, 0xfd62f97a, 0x8a65c9ec, 0x14015c4f, 0x63066cd9, 0xfa0f3d63, 0x8d080df5,
     0x3b6e20c8, 0x4c69105e, 0xd56041e4, 0xa2677172, 0x3c03e4d1, 0x4b04d447, 0xd20d85fd, 0xa50ab56b,
     0x35b5a8fa, 0x42b2986c, 0xdbbbc9d6, 0xacbcf940, 0x32d86ce3, 0x45df5c75, 0xdcd60dcf, 0xabd13d59,
     0x26d930ac, 0x51de003a, 0xc8d75180, 0xbfd06116, 0x21b4f4b5, 0x56b3c423, 0xcfba9599, 0xb8bda50f,
     0x2802b89e, 0x5f058808, 0xc60cd9b2, 0xb10be924, 0x2f6f7c87, 0x58684c11, 0xc1611dab, 0xb6662d3d,
     0x76dc4190, 0x01db7106, 0x98d220bc, 0xefd5102a, 0x71b18589, 0x06b6b51f, 0x9fbfe4a5, 0xe8b8d433,
     0x7807c9a2, 0x0f00f934, 0x9609a88e, 0xe10e9818, 0x7f6a0dbb, 0x086d3d2d, 0x91646c97, 0xe6635c01,
     0x6b6b51f4, 0x1c6c6162, 0x856530d8, 0xf262004e, 0x6c0695ed, 0x1b01a57b, 0x8208f4c1, 0xf50fc457,
     0x65b0d9c6, 0x12b7e950, 0x8bbeb8ea, 0xfcb9887c, 0x62dd1ddf, 0x15da2d49, 0x8cd37cf3, 0xfbd44c65,
     0x4db26158, 0x3ab551ce, 0xa3bc0074, 0xd4bb30e2, 0x4adfa541, 0x3dd895d7, 0xa4d1c46d, 0xd3d6f4fb,
     0x4369e96a, 0x346ed9fc, 0xad678846, 0xda60b8d0, 0x44042d73, 0x33031de5, 0xaa0a4c5f, 0xdd0d7cc9,
     0x5005713c, 0x270241aa, 0xbe0b1010, 0xc90c2086, 0x5768b525, 0x206f85b3, 0xb966d409, 0xce61e49f,
     0x5edef90e, 0x29d9c998, 0xb0d09822, 0xc7d7a8b4, 0x59b33d17, 0x2eb40d81, 0xb7bd5c3b, 0xc0ba6cad,
     0xedb88320, 0x9abfb3b6, 0x03b6e20c, 0x74b1d29a, 0xead54739, 0x9dd277af, 0x04db2615, 0x73dc1683,
     0xe3630b12, 0x94643b84, 0x0d6d6a3e, 0x7a6a5aa8, 0xe40ecf0b, 0x9309ff9d, 0x0a00ae27, 0x7d079eb1,
     0xf00f9344, 0x8708a3d2, 0x1e01f268, 0x6906c2fe, 0xf762575d, 0x806567cb, 0x196c3671, 0x6e6b06e7,
     0xfed41b76, 0x89d32be0, 0x10da7a5a, 0x67dd4acc, 0xf9b9df6f, 0x8ebeeff9, 0x17b7be43, 0x60b08ed5,
     0xd6d6a3e8, 0xa1d1937e, 0x38d8c2c4, 0x4fdff252, 0xd1bb67f1, 0xa6bc5767, 0x3fb506dd, 0x48b2364b,
     0xd80d2bda, 0xaf0a1b4c, 0x36034af6, 0x41047a60, 0xdf60efc3, 0xa867df55, 0x316e8eef, 0x4669be79,
     0xcb61b38c, 0xbc66831a, 0x256fd2a0, 0x5268e236, 0xcc0c7795, 0xbb0b4703, 0x220216b9, 0x5505262f,
     0xc5ba3bbe, 0xb2bd0b28, 0x2bb45a92, 0x5cb36a04, 0xc2d7ffa7, 0xb5d0cf31, 0x2cd99e8b, 0x5bdeae1d,
     0x9b64c2b0, 0xec63f226, 0x756aa39c, 0x026d930a, 0x9c0906a9, 0xeb0e363f, 0x72076785, 0x05005713,
     0x95bf4a82, 0xe2b87a14, 0x7bb12bae, 0x0cb61b38, 0x92d28e9b, 0xe5d5be0d, 0x7cdcefb7, 0x0bdbdf21,
     0x86d3d2d4, 0xf1d4e242, 0x68ddb3f8, 0x1fda836e, 0x81be16cd, 0xf6b9265b, 0x6fb077e1, 0x18b74777,
     0x88085ae6, 0xff0f6a70, 0x66063bca, 0x11010b5c, 0x8f659eff, 0xf862ae69, 0x616bffd3, 0x166ccf45,
     0xa00ae278, 0xd70dd2ee, 0x4e048354, 0x3903b3c2, 0xa7672661, 0xd06016f7, 0x4969474d, 0x3e6e77db,
     0xaed16a4a, 0xd9d65adc, 0x40df0b66, 0x37d83bf0, 0xa9bcae53, 0xdebb9ec5, 0x47b2cf7f, 0x30b5ffe9,
     0xbdbdf21c, 0xcabac28a, 0x53b39330, 0x24b4a3a6, 0xbad03605, 0xcdd70693, 0x54de5729, 0x23d967bf,
     0xb3667a2e, 0xc4614ab8, 0x5d681b02, 0x2a6f2b94, 0xb40bbe37, 0xc30c8ea1, 0x5a05df1b, 0x2d02ef8d]"

text \<open>The loop body: \<open>crc = (crc >> 8) ^ efx_crc32_table[(crc ^ data) & 0xff]\<close>.\<close>

definition crc32_step :: "u32 \<Rightarrow> u8 \<Rightarrow> u32" where
  "crc32_step crc d = drop_bit 8 crc XOR (efx_crc32_table ! unat ((crc XOR ucast d) AND 0xff))"

fun crc32_loop :: "nat \<Rightarrow> u8 list \<Rightarrow> u32 \<Rightarrow> u32 option" where
  "crc32_loop 0 input crc = Some crc"
| "crc32_loop (Suc n) [] crc = None"
| "crc32_loop (Suc n) (d # input) crc = crc32_loop n input (crc32_step crc d)"

text \<open>
  \<open>length\<close> is a C \<open>int\<close>: the loop does not run when it is negative, and reads beyond the buffer
  (\<open>None\<close>) when it is larger than the buffer.
\<close>

definition efx_crc32_calculate :: "u32 \<Rightarrow> u8 list \<Rightarrow> int \<Rightarrow> u32 option" where
  "efx_crc32_calculate crc_init input len = crc32_loop (nat len) input crc_init"

section \<open>The reference: division by the polynomial, one bit at a time\<close>

definition crc32_bit :: "u32 \<Rightarrow> u32" where
  "crc32_bit c = (if bit c 0 then drop_bit 1 c XOR 0xedb88320 else drop_bit 1 c)"

definition crc32_byte :: "u32 \<Rightarrow> u8 \<Rightarrow> u32" where
  "crc32_byte crc d = (crc32_bit ^^ 8) (crc XOR ucast d)"

section \<open>The table is the reference\<close>

lemma crc32_bit_xor: "crc32_bit (a XOR b) = crc32_bit a XOR crc32_bit b"
  by (cases "bit a 0"; cases "bit b 0") (simp_all add: crc32_bit_def bit_xor_iff drop_bit_xor ac_simps)

lemma crc32_bits_xor: "(crc32_bit ^^ n) (a XOR b) = (crc32_bit ^^ n) a XOR (crc32_bit ^^ n) b"
  by (induction n) (simp_all add: crc32_bit_xor)

lemma crc32_bits_low_zero:
  "(\<And>i. i < k \<Longrightarrow> \<not> bit y i) \<Longrightarrow> (crc32_bit ^^ k) y = drop_bit k y"
proof (induction k)
  case (Suc k)
  then have "(crc32_bit ^^ k) y = drop_bit k y" by simp
  moreover have "\<not> bit y k" using Suc.prems by simp
  ultimately show ?case
    by (simp add: crc32_bit_def [of "drop_bit k y"] bit_drop_bit_eq drop_bit_drop_bit)
qed simp

lemma pow8: "(f ^^ 8) x = f (f (f (f (f (f (f (f x)))))))"
  by (simp add: numeral_eq_Suc)



text \<open>The table of a linear map, doubled once per bit.\<close>

fun doubled :: "u32 list \<Rightarrow> u32 list" where
  "doubled [] = [0]"
| "doubled (c # cs) = (let t = doubled cs in t @ map (\<lambda>x. x XOR c) t)"

abbreviation crc32_bits :: "nat \<Rightarrow> u32" where
  "crc32_bits n \<equiv> (crc32_bit ^^ 8) (of_nat n)"

lemma of_nat_add_bit:
  assumes "i < 2 ^ k" "k < 32"
  shows "(of_nat (2 ^ k + i) :: u32) = of_nat i XOR of_nat (2 ^ k)"
proof -
  have "(of_nat i :: u32) AND 2 ^ k = 0"
  proof (rule bit_eqI)
    fix n
    have "\<not> bit i k"
      using assms(1) by (simp add: bit_iff_odd)
    then show "bit ((of_nat i :: u32) AND 2 ^ k) n = bit 0 n"
      by (auto simp: bit_simps)
  qed
  then have "(of_nat i :: u32) + 2 ^ k = of_nat i XOR 2 ^ k"
    by (simp add: disjunctive_xor_eq_or disjunctive_add_eq_or)
  then show ?thesis by (simp add: add.commute)
qed

lemma doubled_crc32:
  "n \<le> 8 \<Longrightarrow> doubled (map (\<lambda>k. crc32_bits (2 ^ k)) (rev [0..<n])) = map crc32_bits [0..<2 ^ n]"
proof (induction n)
  case 0
  have "(crc32_bit ^^ 8) 0 = 0" by (simp add: pow8 crc32_bit_def)
  then show ?case by simp
next
  case (Suc n)
  have "map (\<lambda>i. 2 ^ n + i) [0..<2 ^ n] = [2 ^ n..<2 ^ n + 2 ^ n]"
    using map_add_upt [of "2 ^ n" "2 ^ n"] by (simp only: add.commute)
  then have "[0..<2 ^ Suc n] = [0..<2 ^ n] @ map (\<lambda>i. 2 ^ n + i) [0..<2 ^ n]"
    using upt_add_eq_append [of 0 "2 ^ n" "2 ^ n"] by (simp add: mult_2)
  moreover have "crc32_bits (2 ^ n + i) = crc32_bits i XOR crc32_bits (2 ^ n)" if "i < 2 ^ n" for i
    using Suc.prems that of_nat_add_bit [of i n] crc32_bits_xor [of 8 "of_nat i" "of_nat (2 ^ n)"] by simp
  ultimately show ?case
    using Suc by (simp add: Let_def)
qed

lemma efx_crc32_table_doubled:
  "efx_crc32_table = doubled [0xedb88320, 0x76dc4190, 0x3b6e20c8, 0x1db71064, 0x0edb8832, 0x076dc419, 0xee0e612c, 0x77073096]"
  by (simp add: efx_crc32_table_def Let_def)

lemma efx_crc32_table_eq: "efx_crc32_table = map crc32_bits [0..<256]"
proof -
  have "map (\<lambda>k. crc32_bits (2 ^ k)) (rev [0..<8]) =
    [0xedb88320, 0x76dc4190, 0x3b6e20c8, 0x1db71064, 0x0edb8832, 0x076dc419, 0xee0e612c, 0x77073096]"
    by (simp add: upt_rec pow8 crc32_bit_def bit_0)
  with doubled_crc32 [of 8] show ?thesis
    by (simp add: efx_crc32_table_doubled)
qed

lemma efx_crc32_table_nth: "n < 256 \<Longrightarrow> efx_crc32_table ! n = (crc32_bit ^^ 8) (of_nat n)"
  by (simp add: efx_crc32_table_eq)

lemma mask8: "(0xff :: u32) = mask 8"
  by (simp add: mask_numeral)

lemma crc32_step_eq: "crc32_step crc d = crc32_byte crc d"
proof -
  define x where "x = crc XOR ucast d"
  define y where "y = x AND NOT (mask 8)"
  have split: "x = (x AND mask 8) XOR y"
    unfolding y_def by (rule bit_eqI) (auto simp: bit_simps)
  have low: "\<not> bit y i" if "i < 8" for i
    using that unfolding y_def by (auto simp: bit_simps)
  have high: "drop_bit 8 y = drop_bit 8 crc"
    unfolding y_def x_def by (rule bit_eqI) (auto simp: bit_simps dest: bit_imp_le_length)
  have "(crc32_bit ^^ 8) x = (crc32_bit ^^ 8) (x AND mask 8) XOR (crc32_bit ^^ 8) y"
    by (subst split) (rule crc32_bits_xor)
  also have "(crc32_bit ^^ 8) y = drop_bit 8 crc"
    using crc32_bits_low_zero [of 8 y] low high by simp
  also have "(crc32_bit ^^ 8) (x AND mask 8) = efx_crc32_table ! unat (x AND mask 8)"
    using unat_and_ff [of x] by (simp add: efx_crc32_table_nth mask8)
  finally show ?thesis
    by (simp add: crc32_step_def crc32_byte_def x_def mask8 xor.commute)
qed


lemma crc32_loop_foldl: "n \<le> length input \<Longrightarrow> crc32_loop n input crc = Some (foldl crc32_byte crc (take n input))"
  by (induction n input crc rule: crc32_loop.induct) (simp_all add: crc32_step_eq)

lemma crc32_loop_overrun: "length input < n \<Longrightarrow> crc32_loop n input crc = None"
  by (induction n input crc rule: crc32_loop.induct) simp_all


text \<open>One bit step can be undone: the polynomial's top bit is set, so the result shows which branch was taken.\<close>

lemma crc32_bit_inj: "inj crc32_bit"
proof (rule injI)
  fix a b :: u32
  assume eq: "crc32_bit a = crc32_bit b"
  have "\<not> bit c (Suc 31)" for c :: u32
    by (auto dest: bit_imp_le_length)
  then have top: "bit (crc32_bit c) 31 = bit c 0" for c
    by (simp add: crc32_bit_def bit_xor_iff bit_drop_bit_eq) 
  have low: "bit a 0 = bit b 0" using top [of a] top [of b] eq by simp
  then have "drop_bit 1 a = drop_bit 1 b"
    using eq by (simp add: crc32_bit_def split: if_splits)
  then have high: "bit a (Suc n) = bit b (Suc n)" for n
    by (auto simp: bit_drop_bit_eq dest: arg_cong [where f = "\<lambda>x. bit x n"])
  show "a = b"
  proof (rule bit_eqI)
    show "bit a n = bit b n" for n using low high by (cases n) simp_all
  qed
qed

lemma crc32_byte_inj_state: "crc32_byte a d = crc32_byte b d \<Longrightarrow> a = b"
  using injD [OF inj_fn [OF crc32_bit_inj, of 8]] by (fastforce simp: crc32_byte_def)

lemma crc32_byte_inj_byte: "crc32_byte a d = crc32_byte a e \<Longrightarrow> d = e"
proof -
  assume "crc32_byte a d = crc32_byte a e"
  then have "(ucast d :: u32) = ucast e"
    using injD [OF inj_fn [OF crc32_bit_inj, of 8]] by (fastforce simp: crc32_byte_def)
  then have eq: "bit (ucast d :: u32) n = bit (ucast e :: u32) n" for n by simp
  show "d = e"
  proof (rule bit_word_eqI)
    fix n assume "n < LENGTH(8)"
    then show "bit d n = bit e n" using eq [of n] by (simp add: bit_simps)
  qed
qed

lemma foldl_crc32_inj: "foldl crc32_byte a xs = foldl crc32_byte b xs \<Longrightarrow> a = b"
  by (induction xs arbitrary: a b) (auto dest: crc32_byte_inj_state)


section \<open>Properties\<close>

text \<open>
  C12. \<open>efx_crc32_calculate\<close> is the bit-by-bit CRC32 of the first \<open>len\<close> bytes, from any initial
  value; a negative length leaves the initial value, a length beyond the buffer reads out of bounds.
\<close>
theorem efx_crc32_calculate_correct:
  "efx_crc32_calculate crc_init input len =
     (if nat len \<le> length input then Some (foldl crc32_byte crc_init (take (nat len) input)) else None)"
  by (simp add: efx_crc32_calculate_def crc32_loop_foldl crc32_loop_overrun)

text \<open>
  Error detection: two messages that differ in exactly one byte never have the same CRC32,
  whatever surrounds that byte and whatever the initial value.
\<close>
theorem efx_crc32_calculate_detects:
  assumes "d \<noteq> e"
  shows "efx_crc32_calculate crc_init (xs @ d # ys) (int (length (xs @ d # ys)))
       \<noteq> efx_crc32_calculate crc_init (xs @ e # ys) (int (length (xs @ e # ys)))"
  using assms by (auto simp: efx_crc32_calculate_def crc32_loop_foldl dest!: foldl_crc32_inj crc32_byte_inj_byte)

theorem efx_crc32_calculate_detects_witness:
  "efx_crc32_calculate 0xffffffff ([0x01, 0x80] @ 0xc2 # [0x00]) 4
   \<noteq> efx_crc32_calculate 0xffffffff ([0x01, 0x80] @ 0xc3 # [0x00]) 4"
  using efx_crc32_calculate_detects [where d = "0xc2" and e = "0xc3" and crc_init = "0xffffffff"
    and xs = "[0x01, 0x80]" and ys = "[0x00]"] by simp

end
