(* ===== verification/Efx_Hash.thy ===== *)
theory Efx_Hash
  imports Efx_Prelude
begin

text \<open>
  \<open>src/common/efx_hash.c\<close>: the driver's hash of dwords and of bytes (Jenkins' lookup3), in the
  little-endian and the big-endian build. Each macro and each loop is a definition; the loops run on the
  remaining input, which the C walks with a pointer and a count.
\<close>

section \<open>The code\<close>

definition EFX_HASH_INITIAL_VALUE :: u32 where
  "EFX_HASH_INITIAL_VALUE = 0xdeadbeef"

definition EFX_HASH_ROTATE :: "u32 \<Rightarrow> nat \<Rightarrow> u32" where
  "EFX_HASH_ROTATE v s = push_bit s v OR drop_bit (32 - s) v"

text \<open>
  The body of \<open>EFX_HASH_MIX\<close> is six times the same three statements with the variables in turn:
  \<open>x -= z; x ^= ROTATE(z, s); z += y\<close>.
\<close>

definition hash_mix_round :: "nat \<Rightarrow> u32 \<Rightarrow> u32 \<Rightarrow> u32 \<Rightarrow> u32 \<times> u32 \<times> u32" where
  "hash_mix_round s x y z = ((x - z) XOR EFX_HASH_ROTATE z s, y, z + y)"

definition EFX_HASH_MIX :: "u32 \<times> u32 \<times> u32 \<Rightarrow> u32 \<times> u32 \<times> u32" where
  "EFX_HASH_MIX = (\<lambda>(a, b, c).
     let (a, b, c) = hash_mix_round 4 a b c;
         (b, c, a) = hash_mix_round 6 b c a;
         (c, a, b) = hash_mix_round 8 c a b;
         (a, b, c) = hash_mix_round 16 a b c;
         (b, c, a) = hash_mix_round 19 b c a;
         (c, a, b) = hash_mix_round 4 c a b
     in (a, b, c))"

text \<open>\<open>EFX_HASH_FINALISE\<close> is seven times \<open>x ^= y; x -= ROTATE(y, s)\<close>.\<close>

definition hash_final_round :: "nat \<Rightarrow> u32 \<Rightarrow> u32 \<Rightarrow> u32" where
  "hash_final_round s x y = (x XOR y) - EFX_HASH_ROTATE y s"

definition EFX_HASH_FINALISE :: "u32 \<times> u32 \<times> u32 \<Rightarrow> u32 \<times> u32 \<times> u32" where
  "EFX_HASH_FINALISE = (\<lambda>(a, b, c).
     let c = hash_final_round 14 c b;
         a = hash_final_round 11 a c;
         b = hash_final_round 25 b a;
         c = hash_final_round 16 c b;
         a = hash_final_round 4 a c;
         b = hash_final_round 14 b a;
         c = hash_final_round 24 c b
     in (a, b, c))"

text \<open>The value returned: \<open>c\<close> of the last state.\<close>

abbreviation hash_result :: "u32 \<times> u32 \<times> u32 \<Rightarrow> u32" where
  "hash_result s \<equiv> snd (snd (EFX_HASH_FINALISE s))"

fun hash_dwords_loop :: "u32 list \<Rightarrow> u32 \<times> u32 \<times> u32 \<Rightarrow> u32" where
  "hash_dwords_loop (x0 # x1 # x2 # x3 # input) (a, b, c) =
     hash_dwords_loop (x3 # input) (EFX_HASH_MIX (a + x0, b + x1, c + x2))"
| "hash_dwords_loop [x0, x1, x2] (a, b, c) = hash_result (a + x0, b + x1, c + x2)"
| "hash_dwords_loop [x0, x1] (a, b, c) = hash_result (a + x0, b + x1, c)"
| "hash_dwords_loop [x0] (a, b, c) = hash_result (a + x0, b, c)"
| "hash_dwords_loop [] (a, b, c) = c"

definition efx_hash_dwords :: "u32 list \<Rightarrow> nat \<Rightarrow> u32 \<Rightarrow> u32 option" where
  "efx_hash_dwords input count init =
     (if count \<le> length input
      then let s = EFX_HASH_INITIAL_VALUE + of_nat count * 4 + init
           in Some (hash_dwords_loop (take count input) (s, s, s))
      else None)"

text \<open>\<open>((uint32_t)input[i]) << s\<close>\<close>

definition byte_at :: "u8 list \<Rightarrow> nat \<Rightarrow> nat \<Rightarrow> u32" where
  "byte_at input i s = push_bit s (ucast (input ! i))"

text \<open>The switch on the left-over length falls through: every case at or below the length runs.\<close>

definition hash_bytes_tail_le :: "u8 list \<Rightarrow> u32 \<times> u32 \<times> u32 \<Rightarrow> u32" where
  "hash_bytes_tail_le input = (\<lambda>(a, b, c).
     let n = length input;
         c = (if 12 \<le> n then c + byte_at input 11 24 else c);
         c = (if 11 \<le> n then c + byte_at input 10 16 else c);
         c = (if 10 \<le> n then c + byte_at input 9 8 else c);
         c = (if 9 \<le> n then c + byte_at input 8 0 else c);
         b = (if 8 \<le> n then b + byte_at input 7 24 else b);
         b = (if 7 \<le> n then b + byte_at input 6 16 else b);
         b = (if 6 \<le> n then b + byte_at input 5 8 else b);
         b = (if 5 \<le> n then b + byte_at input 4 0 else b);
         a = (if 4 \<le> n then a + byte_at input 3 24 else a);
         a = (if 3 \<le> n then a + byte_at input 2 16 else a);
         a = (if 2 \<le> n then a + byte_at input 1 8 else a);
         a = (if 1 \<le> n then a + byte_at input 0 0 else a)
     in if n = 0 then c else hash_result (a, b, c))"

function hash_bytes_loop_le :: "u8 list \<Rightarrow> u32 \<times> u32 \<times> u32 \<Rightarrow> u32" where
  "hash_bytes_loop_le input (a, b, c) =
     (if 12 < length input
      then hash_bytes_loop_le (drop 12 input) (EFX_HASH_MIX
        (a + byte_at input 0 0 + byte_at input 1 8 + byte_at input 2 16 + byte_at input 3 24,
         b + byte_at input 4 0 + byte_at input 5 8 + byte_at input 6 16 + byte_at input 7 24,
         c + byte_at input 8 0 + byte_at input 9 8 + byte_at input 10 16 + byte_at input 11 24))
      else hash_bytes_tail_le input (a, b, c))"
  by pat_completeness auto
termination by (relation "measure (\<lambda>(input, _). length input)") auto

definition efx_hash_bytes_le :: "u8 list \<Rightarrow> nat \<Rightarrow> u32 \<Rightarrow> u32 option" where
  "efx_hash_bytes_le input len init =
     (if len \<le> length input
      then let s = EFX_HASH_INITIAL_VALUE + of_nat len + init
           in Some (hash_bytes_loop_le (take len input) (s, s, s))
      else None)"

definition hash_bytes_tail_be :: "u8 list \<Rightarrow> u32 \<times> u32 \<times> u32 \<Rightarrow> u32" where
  "hash_bytes_tail_be input = (\<lambda>(a, b, c).
     let n = length input;
         c = (if 12 \<le> n then c + byte_at input 11 0 else c);
         c = (if 11 \<le> n then c + byte_at input 10 8 else c);
         c = (if 10 \<le> n then c + byte_at input 9 16 else c);
         c = (if 9 \<le> n then c + byte_at input 8 24 else c);
         b = (if 8 \<le> n then b + byte_at input 7 0 else b);
         b = (if 7 \<le> n then b + byte_at input 6 8 else b);
         b = (if 6 \<le> n then b + byte_at input 5 16 else b);
         b = (if 5 \<le> n then b + byte_at input 4 24 else b);
         a = (if 4 \<le> n then a + byte_at input 3 0 else a);
         a = (if 3 \<le> n then a + byte_at input 2 8 else a);
         a = (if 2 \<le> n then a + byte_at input 1 16 else a);
         a = (if 1 \<le> n then a + byte_at input 0 24 else a)
     in if n = 0 then c else hash_result (a, b, c))"

function hash_bytes_loop_be :: "u8 list \<Rightarrow> u32 \<times> u32 \<times> u32 \<Rightarrow> u32" where
  "hash_bytes_loop_be input (a, b, c) =
     (if 12 < length input
      then hash_bytes_loop_be (drop 12 input) (EFX_HASH_MIX
        (a + byte_at input 0 24 + byte_at input 1 16 + byte_at input 2 8 + byte_at input 3 0,
         b + byte_at input 4 24 + byte_at input 5 16 + byte_at input 6 8 + byte_at input 7 0,
         c + byte_at input 8 24 + byte_at input 9 16 + byte_at input 10 8 + byte_at input 11 0))
      else hash_bytes_tail_be input (a, b, c))"
  by pat_completeness auto
termination by (relation "measure (\<lambda>(input, _). length input)") auto

definition efx_hash_bytes_be :: "u8 list \<Rightarrow> nat \<Rightarrow> u32 \<Rightarrow> u32 option" where
  "efx_hash_bytes_be input len init =
     (if len \<le> length input
      then let s = EFX_HASH_INITIAL_VALUE + of_nat len + init
           in Some (hash_bytes_loop_be (take len input) (s, s, s))
      else None)"

declare hash_bytes_loop_le.simps [simp del] hash_bytes_loop_be.simps [simp del]

section \<open>Mixing loses nothing\<close>

definition hash_mix_unround :: "nat \<Rightarrow> u32 \<times> u32 \<times> u32 \<Rightarrow> u32 \<times> u32 \<times> u32" where
  "hash_mix_unround s = (\<lambda>(x, y, z). ((x XOR EFX_HASH_ROTATE (z - y) s) + (z - y), y, z - y))"

lemma hash_mix_unround_round: "hash_mix_unround s (hash_mix_round s x y z) = (x, y, z)"
  by (simp add: hash_mix_unround_def hash_mix_round_def xor.assoc)

lemma hash_mix_round_unround:
  "hash_mix_unround s (x, y, z) = (x', y', z') \<Longrightarrow> hash_mix_round s x' y' z' = (x, y, z)"
  by (auto simp: hash_mix_unround_def hash_mix_round_def xor.assoc)

text \<open>The inverse runs the rounds backwards.\<close>

definition hash_unmix :: "u32 \<times> u32 \<times> u32 \<Rightarrow> u32 \<times> u32 \<times> u32" where
  "hash_unmix = (\<lambda>(a, b, c).
     let (c, a, b) = hash_mix_unround 4 (c, a, b);
         (b, c, a) = hash_mix_unround 19 (b, c, a);
         (a, b, c) = hash_mix_unround 16 (a, b, c);
         (c, a, b) = hash_mix_unround 8 (c, a, b);
         (b, c, a) = hash_mix_unround 6 (b, c, a);
         (a, b, c) = hash_mix_unround 4 (a, b, c)
     in (a, b, c))"

lemma hash_mix_unroundI: "hash_mix_round s x y z = (x', y', z') \<Longrightarrow> hash_mix_unround s (x', y', z') = (x, y, z)"
  by (metis hash_mix_unround_round)

lemma hash_unmix_mix: "hash_unmix (EFX_HASH_MIX s) = s"
  unfolding EFX_HASH_MIX_def hash_unmix_def
  by (auto split: prod.splits dest!: hash_mix_unroundI)

lemma hash_mix_unmix: "EFX_HASH_MIX (hash_unmix s) = s"
  unfolding EFX_HASH_MIX_def hash_unmix_def
  by (auto split: prod.splits dest!: hash_mix_round_unround)

section \<open>Bytes against dwords\<close>

definition le_bytes :: "u32 \<Rightarrow> u8 list" where
  "le_bytes d = [ucast d, ucast (drop_bit 8 d), ucast (drop_bit 16 d), ucast (drop_bit 24 d)]"

definition be_bytes :: "u32 \<Rightarrow> u8 list" where
  "be_bytes d = [ucast (drop_bit 24 d), ucast (drop_bit 16 d), ucast (drop_bit 8 d), ucast d]"

lemma le_bytes_length [simp]: "length (le_bytes d) = 4"
  by (simp add: le_bytes_def)

lemma be_bytes_length [simp]: "length (be_bytes d) = 4"
  by (simp add: be_bytes_def)

lemma base256:
  assumes "n = q1 * 256 + r0" "q1 = q2 * 256 + r1" "q2 = q3 * 256 + r2"
  shows "r0 + r1 * 256 + r2 * 65536 + q3 * 16777216 = (n :: nat)"
  using assms by simp

lemma u32_of_bytes:
  "ucast (ucast (d :: u32) :: u8) + push_bit 8 (ucast (ucast (drop_bit 8 d) :: u8))
   + push_bit 16 (ucast (ucast (drop_bit 16 d) :: u8)) + push_bit 24 (ucast (ucast (drop_bit 24 d) :: u8)) = d"
proof -
  define n where "n = unat d"
  have n: "n < 4294967296" unfolding n_def by (rule unat_u32_less)
  have digits: "n mod 256 + n div 256 mod 256 * 256 + n div 65536 mod 256 * 65536 + n div 16777216 mod 256 * 16777216 = n"
  proof -
    have q: "n div 65536 = n div 256 div 256" "n div 16777216 = n div 256 div 256 div 256"
      by (simp_all flip: div_mult2_eq)
    have "n div 256 div 256 div 256 < 256" using n by (simp flip: div_mult2_eq add: less_mult_imp_div_less)
    then have "n div 256 div 256 div 256 mod 256 = n div 256 div 256 div 256" by simp
    then show ?thesis unfolding q
      by (simp only:) (rule base256 [OF div_mult_mod_eq [symmetric] div_mult_mod_eq [symmetric] div_mult_mod_eq [symmetric]])
  qed
  have u: "(ucast (ucast w :: u8) :: u32) = of_nat (unat w mod 256)" for w :: u32
    by (simp add: word_unat_eq_iff unsigned_ucast_eq take_bit_eq_mod unat_of_nat unat_mod_distrib)
  show ?thesis
    unfolding u push_bit_eq_mult unat_drop_bit_eq drop_bit_eq_div
    using arg_cong [OF digits, of "of_nat :: nat \<Rightarrow> u32"] by (simp add: n_def unat_div_distrib)
qed


lemma byte_at_append: "i < length xs \<Longrightarrow> byte_at (xs @ ys) i s = byte_at xs i s"
  by (simp add: byte_at_def nth_append)

lemma byte_at_append_right: "length xs \<le> i \<Longrightarrow> byte_at (xs @ ys) i s = byte_at ys (i - length xs) s"
  by (simp add: byte_at_def nth_append)

lemma le_sum: "x + byte_at (le_bytes d) 0 0 + byte_at (le_bytes d) (Suc 0) 8 + byte_at (le_bytes d) 2 16 + byte_at (le_bytes d) 3 24 = x + d"
  using u32_of_bytes [of d] by (simp add: byte_at_def le_bytes_def numeral_eq_Suc add.assoc)

lemma le_sum_rev: "x + byte_at (le_bytes d) 3 24 + byte_at (le_bytes d) 2 16 + byte_at (le_bytes d) (Suc 0) 8 + byte_at (le_bytes d) 0 0 = x + d"
  using le_sum [of x d] by (simp add: add_ac)

lemma be_sum: "x + byte_at (be_bytes d) 0 24 + byte_at (be_bytes d) (Suc 0) 16 + byte_at (be_bytes d) 2 8 + byte_at (be_bytes d) 3 0 = x + d"
  using u32_of_bytes [of d] by (simp add: byte_at_def be_bytes_def numeral_eq_Suc add_ac)

lemma be_sum_rev: "x + byte_at (be_bytes d) 3 0 + byte_at (be_bytes d) 2 8 + byte_at (be_bytes d) (Suc 0) 16 + byte_at (be_bytes d) 0 24 = x + d"
  using be_sum [of x d] by (simp add: add_ac)

lemmas hash_bytes_simps = byte_at_append byte_at_append_right le_sum le_sum_rev be_sum be_sum_rev

lemma hash_bytes_loop_le_dwords:
  "hash_bytes_loop_le (concat (map le_bytes ds)) s = hash_dwords_loop ds s"
proof (induction ds s rule: hash_dwords_loop.induct)
  case (1 x0 x1 x2 x3 ds a b c)
  then show ?case by (subst hash_bytes_loop_le.simps) (simp add: hash_bytes_simps)
qed (subst hash_bytes_loop_le.simps, simp add: hash_bytes_tail_le_def hash_bytes_simps Let_def)+

lemma hash_bytes_loop_be_dwords:
  "hash_bytes_loop_be (concat (map be_bytes ds)) s = hash_dwords_loop ds s"
proof (induction ds s rule: hash_dwords_loop.induct)
  case (1 x0 x1 x2 x3 ds a b c)
  then show ?case by (subst hash_bytes_loop_be.simps) (simp add: hash_bytes_simps)
qed (subst hash_bytes_loop_be.simps, simp add: hash_bytes_tail_be_def hash_bytes_simps Let_def)+

lemma length_concat_4: "(\<And>d. length (f d) = 4) \<Longrightarrow> length (concat (map f ds)) = 4 * length ds"
  by (induction ds) simp_all

section \<open>Properties\<close>

text \<open>
  \<open>EFX_HASH_MIX\<close> mixes its three variables reversibly, as its comment says: it is a bijection on
  the 96-bit state, so no block of the input can make two different states equal.
\<close>
theorem efx_hash_mix_bij: "bij EFX_HASH_MIX"
  by (rule o_bij [where g = hash_unmix]) (simp_all add: fun_eq_iff hash_unmix_mix hash_mix_unmix)

text \<open>
  On a little-endian machine the byte hash of a dword array's memory is the dword hash of the array: the
  two routines are interchangeable on aligned input.
\<close>
theorem efx_hash_bytes_le_dwords:
  "efx_hash_bytes_le (concat (map le_bytes ds)) (4 * length ds) init = efx_hash_dwords ds (length ds) init"
  by (simp add: efx_hash_bytes_le_def efx_hash_dwords_def length_concat_4 mult.commute hash_bytes_loop_le_dwords)

text \<open>
  The same on a big-endian machine, with the big-endian build of the byte hash.
\<close>
theorem efx_hash_bytes_be_dwords:
  "efx_hash_bytes_be (concat (map be_bytes ds)) (4 * length ds) init = efx_hash_dwords ds (length ds) init"
  by (simp add: efx_hash_bytes_be_def efx_hash_dwords_def length_concat_4 mult.commute hash_bytes_loop_be_dwords)

end
