(* ===== verification/Efx_Nvram.thy ===== *)
theory Efx_Nvram
  imports Efx_Prelude
begin

text \<open>
  \<open>src/common/efx_nvram.c\<close>: the NVRAM interface of the common code. It maps an abstract NVRAM type to a
  partition number, dispatches to the operations table of the controller family and tracks which
  type is locked for reading and writing. The tables' functions talk to the management controller;
  they are the fields of \<open>nvram_ops\<close>, over a device state \<open>'d\<close> that is left open here.
\<close>

section \<open>State\<close>

datatype efx_family =
  EFX_FAMILY_INVALID | EFX_FAMILY_FALCON | EFX_FAMILY_SIENA | EFX_FAMILY_HUNTINGTON | EFX_FAMILY_MEDFORD

datatype efx_nvram_type =
    EFX_NVRAM_INVALID | EFX_NVRAM_BOOTROM | EFX_NVRAM_BOOTROM_CFG | EFX_NVRAM_MC_FIRMWARE
  | EFX_NVRAM_MC_GOLDEN | EFX_NVRAM_PHY | EFX_NVRAM_NULLPHY | EFX_NVRAM_FPGA | EFX_NVRAM_FCFW
  | EFX_NVRAM_CPLD | EFX_NVRAM_FPGA_BACKUP | EFX_NVRAM_DYNAMIC_CFG | EFX_NVRAM_LICENSE

text \<open>
  The operations table. A function that fills a caller's buffer returns the bytes it stored, counted from the
  start of the buffer: all of them on success, possibly fewer on failure. \<open>envo_buffer_validate\<close> is NULL (\<open>None\<close>) on
  controllers that have no validation.
\<close>

record 'd nvram_ops =
  envo_test :: "'d \<Rightarrow> efx_rc \<times> 'd"
  envo_type_to_partn :: "'d \<Rightarrow> efx_nvram_type \<Rightarrow> efx_rc + u32"
  envo_partn_size :: "'d \<Rightarrow> u32 \<Rightarrow> (efx_rc + nat) \<times> 'd"
  envo_partn_rw_start :: "'d \<Rightarrow> u32 \<Rightarrow> (efx_rc + nat) \<times> 'd"
  envo_partn_read :: "'d \<Rightarrow> u32 \<Rightarrow> nat \<Rightarrow> nat \<Rightarrow> (efx_rc \<times> u8 list) \<times> 'd"
  envo_partn_erase :: "'d \<Rightarrow> u32 \<Rightarrow> nat \<Rightarrow> nat \<Rightarrow> efx_rc \<times> 'd"
  envo_partn_write :: "'d \<Rightarrow> u32 \<Rightarrow> nat \<Rightarrow> u8 list \<Rightarrow> efx_rc \<times> 'd"
  envo_partn_rw_finish :: "'d \<Rightarrow> u32 \<Rightarrow> 'd"
  envo_partn_get_version :: "'d \<Rightarrow> u32 \<Rightarrow> (efx_rc + u32 \<times> u16 list) \<times> 'd"
  envo_partn_set_version :: "'d \<Rightarrow> u32 \<Rightarrow> u16 list \<Rightarrow> efx_rc \<times> 'd"
  envo_buffer_validate :: "('d \<Rightarrow> u32 \<Rightarrow> u8 list \<Rightarrow> efx_rc) option"

definition EFX_MOD_PROBE :: u32 where "EFX_MOD_PROBE = 0x00000002"
definition EFX_MOD_NVRAM :: u32 where "EFX_MOD_NVRAM = 0x00000004"
definition EFX_NIC_MAGIC :: u32 where "EFX_NIC_MAGIC = 0x02121996"

text \<open>The part of \<open>efx_nic_t\<close> that the NVRAM code uses.\<close>

record 'd nic =
  en_magic :: u32
  en_family :: efx_family
  en_mod_flags :: u32
  en_envop :: "'d nvram_ops option"
  en_nvram_locked :: efx_nvram_type
  en_dev :: 'd

section \<open>The operations\<close>

text \<open>The assertions every operation starts with; \<open>None\<close> is a failed one.\<close>

definition nic_has_mod :: "'d nic \<Rightarrow> u32 \<Rightarrow> bool" where
  "nic_has_mod enp m \<longleftrightarrow> en_magic enp = EFX_NIC_MAGIC \<and> en_mod_flags enp AND m \<noteq> 0"

definition efx_nvram_init :: "'d nvram_ops \<Rightarrow> 'd nvram_ops \<Rightarrow> 'd nic \<Rightarrow> (efx_rc \<times> 'd nic) option" where
  "efx_nvram_init siena_ops ef10_ops enp = do {
     efsys_assert (nic_has_mod enp EFX_MOD_PROBE);
     efsys_assert (en_mod_flags enp AND EFX_MOD_NVRAM = 0);
     envop \<leftarrow> (case en_family enp of
         EFX_FAMILY_SIENA \<Rightarrow> Some siena_ops
       | EFX_FAMILY_HUNTINGTON \<Rightarrow> Some ef10_ops
       | _ \<Rightarrow> None);
     Some (RC_OK, enp\<lparr>en_envop := Some envop, en_mod_flags := en_mod_flags enp OR EFX_MOD_NVRAM\<rparr>) }"

definition efx_nvram_test :: "'d nic \<Rightarrow> (efx_rc \<times> 'd nic) option" where
  "efx_nvram_test enp = do {
     efsys_assert (nic_has_mod enp EFX_MOD_NVRAM);
     envop \<leftarrow> en_envop enp;
     let (rc, d) = envo_test envop (en_dev enp);
     Some (rc, enp\<lparr>en_dev := d\<rparr>) }"

definition efx_nvram_size :: "'d nic \<Rightarrow> efx_nvram_type \<Rightarrow> ((efx_rc \<times> nat) \<times> 'd nic) option" where
  "efx_nvram_size enp type = do {
     efsys_assert (nic_has_mod enp EFX_MOD_NVRAM);
     envop \<leftarrow> en_envop enp;
     case envo_type_to_partn envop (en_dev enp) type of
       Inl rc \<Rightarrow> Some ((rc, 0), enp)
     | Inr partn \<Rightarrow>
         (case envo_partn_size envop (en_dev enp) partn of
            (Inl rc, d) \<Rightarrow> Some ((rc, 0), enp\<lparr>en_dev := d\<rparr>)
          | (Inr sz, d) \<Rightarrow> Some ((RC_OK, sz), enp\<lparr>en_dev := d\<rparr>)) }"

definition efx_nvram_get_version ::
    "'d nic \<Rightarrow> efx_nvram_type \<Rightarrow> ((efx_rc + u32 \<times> u16 list) \<times> 'd nic) option" where
  "efx_nvram_get_version enp type = do {
     efsys_assert (nic_has_mod enp EFX_MOD_PROBE \<and> nic_has_mod enp EFX_MOD_NVRAM);
     envop \<leftarrow> en_envop enp;
     case envo_type_to_partn envop (en_dev enp) type of
       Inl rc \<Rightarrow> Some (Inl rc, enp)
     | Inr partn \<Rightarrow>
         (let (r, d) = envo_partn_get_version envop (en_dev enp) partn in Some (r, enp\<lparr>en_dev := d\<rparr>)) }"

definition efx_nvram_rw_start :: "'d nic \<Rightarrow> efx_nvram_type \<Rightarrow> ((efx_rc + nat) \<times> 'd nic) option" where
  "efx_nvram_rw_start enp type = do {
     efsys_assert (nic_has_mod enp EFX_MOD_NVRAM);
     efsys_assert (type \<noteq> EFX_NVRAM_INVALID);
     efsys_assert (en_nvram_locked enp = EFX_NVRAM_INVALID);
     envop \<leftarrow> en_envop enp;
     case envo_type_to_partn envop (en_dev enp) type of
       Inl rc \<Rightarrow> Some (Inl rc, enp)
     | Inr partn \<Rightarrow>
         (case envo_partn_rw_start envop (en_dev enp) partn of
            (Inl rc, d) \<Rightarrow> Some (Inl rc, enp\<lparr>en_dev := d\<rparr>)
          | (Inr chunk, d) \<Rightarrow> Some (Inr chunk, enp\<lparr>en_dev := d, en_nvram_locked := type\<rparr>)) }"

text \<open>Bytes stored at the start of a buffer: the buffer keeps its length, nothing lands beyond it.\<close>

definition put_bytes :: "u8 list \<Rightarrow> u8 list \<Rightarrow> u8 list" where
  "put_bytes buf bytes = take (length buf) bytes @ drop (length bytes) buf"

definition efx_nvram_read_chunk ::
    "'d nic \<Rightarrow> efx_nvram_type \<Rightarrow> nat \<Rightarrow> u8 list \<Rightarrow> ((efx_rc \<times> u8 list) \<times> 'd nic) option" where
  "efx_nvram_read_chunk enp type offset data = do {
     efsys_assert (nic_has_mod enp EFX_MOD_NVRAM);
     efsys_assert (type \<noteq> EFX_NVRAM_INVALID \<and> en_nvram_locked enp = type);
     envop \<leftarrow> en_envop enp;
     case envo_type_to_partn envop (en_dev enp) type of
       Inl rc \<Rightarrow> Some ((rc, data), enp)
     | Inr partn \<Rightarrow>
         (let ((rc, bytes), d) = envo_partn_read envop (en_dev enp) partn offset (length data)
          in Some ((rc, put_bytes data bytes), enp\<lparr>en_dev := d\<rparr>)) }"

definition efx_nvram_erase :: "'d nic \<Rightarrow> efx_nvram_type \<Rightarrow> (efx_rc \<times> 'd nic) option" where
  "efx_nvram_erase enp type = do {
     efsys_assert (nic_has_mod enp EFX_MOD_NVRAM);
     efsys_assert (type \<noteq> EFX_NVRAM_INVALID \<and> en_nvram_locked enp = type);
     envop \<leftarrow> en_envop enp;
     case envo_type_to_partn envop (en_dev enp) type of
       Inl rc \<Rightarrow> Some (rc, enp)
     | Inr partn \<Rightarrow>
         (case envo_partn_size envop (en_dev enp) partn of
            (Inl rc, d) \<Rightarrow> Some (rc, enp\<lparr>en_dev := d\<rparr>)
          | (Inr sz, d) \<Rightarrow>
              (let (rc, d) = envo_partn_erase envop d partn 0 sz in Some (rc, enp\<lparr>en_dev := d\<rparr>))) }"

definition efx_nvram_write_chunk ::
    "'d nic \<Rightarrow> efx_nvram_type \<Rightarrow> nat \<Rightarrow> u8 list \<Rightarrow> (efx_rc \<times> 'd nic) option" where
  "efx_nvram_write_chunk enp type offset data = do {
     efsys_assert (nic_has_mod enp EFX_MOD_NVRAM);
     efsys_assert (type \<noteq> EFX_NVRAM_INVALID \<and> en_nvram_locked enp = type);
     envop \<leftarrow> en_envop enp;
     case envo_type_to_partn envop (en_dev enp) type of
       Inl rc \<Rightarrow> Some (rc, enp)
     | Inr partn \<Rightarrow>
         (let (rc, d) = envo_partn_write envop (en_dev enp) partn offset data in Some (rc, enp\<lparr>en_dev := d\<rparr>)) }"

definition efx_nvram_rw_finish :: "'d nic \<Rightarrow> efx_nvram_type \<Rightarrow> 'd nic option" where
  "efx_nvram_rw_finish enp type = do {
     efsys_assert (nic_has_mod enp EFX_MOD_NVRAM);
     efsys_assert (type \<noteq> EFX_NVRAM_INVALID \<and> en_nvram_locked enp = type);
     envop \<leftarrow> en_envop enp;
     let d = (case envo_type_to_partn envop (en_dev enp) type of
                Inl rc \<Rightarrow> en_dev enp
              | Inr partn \<Rightarrow> envo_partn_rw_finish envop (en_dev enp) partn);
     Some (enp\<lparr>en_dev := d, en_nvram_locked := EFX_NVRAM_INVALID\<rparr>) }"

definition efx_nvram_set_version :: "'d nic \<Rightarrow> efx_nvram_type \<Rightarrow> u16 list \<Rightarrow> (efx_rc \<times> 'd nic) option" where
  "efx_nvram_set_version enp type version = do {
     efsys_assert (nic_has_mod enp EFX_MOD_PROBE \<and> nic_has_mod enp EFX_MOD_NVRAM);
     efsys_assert (en_nvram_locked enp = EFX_NVRAM_INVALID);
     envop \<leftarrow> en_envop enp;
     case envo_type_to_partn envop (en_dev enp) type of
       Inl rc \<Rightarrow> Some (rc, enp)
     | Inr partn \<Rightarrow>
         (let (rc, d) = envo_partn_set_version envop (en_dev enp) partn version
          in Some (rc, enp\<lparr>en_dev := d\<rparr>)) }"

text \<open>
  The guard of the call tests \<open>envo_type_to_partn\<close>, which is never NULL, where \<open>envo_buffer_validate\<close>
  is the pointer about to be called: with no validation in the table the call goes through NULL (\<open>None\<close>).
\<close>

definition efx_nvram_validate :: "'d nic \<Rightarrow> efx_nvram_type \<Rightarrow> u8 list \<Rightarrow> efx_rc option" where
  "efx_nvram_validate enp type partn_data = do {
     efsys_assert (nic_has_mod enp EFX_MOD_PROBE \<and> nic_has_mod enp EFX_MOD_NVRAM);
     envop \<leftarrow> en_envop enp;
     case envo_type_to_partn envop (en_dev enp) type of
       Inl rc \<Rightarrow> Some rc
     | Inr partn \<Rightarrow> do {
         validate \<leftarrow> envo_buffer_validate envop;
         Some (validate (en_dev enp) partn partn_data) } }"

definition efx_nvram_fini :: "'d nic \<Rightarrow> 'd nic option" where
  "efx_nvram_fini enp = do {
     efsys_assert (nic_has_mod enp EFX_MOD_PROBE \<and> nic_has_mod enp EFX_MOD_NVRAM);
     efsys_assert (en_nvram_locked enp = EFX_NVRAM_INVALID);
     Some (enp\<lparr>en_envop := None, en_mod_flags := en_mod_flags enp AND NOT EFX_MOD_NVRAM\<rparr>) }"


section \<open>Life cycle\<close>

text \<open>
  The states that a probed controller can reach through the interface. Each rule is one call that returned;
  the operations that leave the bookkeeping alone (size, read, write, erase and the versions) share the rule \<open>use\<close>, which
  changes the device only.
\<close>

inductive nvram_reachable :: "'d nvram_ops \<Rightarrow> 'd nvram_ops \<Rightarrow> 'd nic \<Rightarrow> bool"
  for siena_ops ef10_ops where
  at_probed: "nic_has_mod enp EFX_MOD_PROBE \<Longrightarrow> en_mod_flags enp AND EFX_MOD_NVRAM = 0 \<Longrightarrow>
    en_envop enp = None \<Longrightarrow> en_nvram_locked enp = EFX_NVRAM_INVALID \<Longrightarrow> nvram_reachable siena_ops ef10_ops enp"
| at_init: "nvram_reachable siena_ops ef10_ops enp \<Longrightarrow> efx_nvram_init siena_ops ef10_ops enp = Some (rc, enp') \<Longrightarrow>
    nvram_reachable siena_ops ef10_ops enp'"
| at_start: "nvram_reachable siena_ops ef10_ops enp \<Longrightarrow> efx_nvram_rw_start enp type = Some (r, enp') \<Longrightarrow>
    nvram_reachable siena_ops ef10_ops enp'"
| at_finish: "nvram_reachable siena_ops ef10_ops enp \<Longrightarrow> efx_nvram_rw_finish enp type = Some enp' \<Longrightarrow>
    nvram_reachable siena_ops ef10_ops enp'"
| at_fini: "nvram_reachable siena_ops ef10_ops enp \<Longrightarrow> efx_nvram_fini enp = Some enp' \<Longrightarrow>
    nvram_reachable siena_ops ef10_ops enp'"
| at_test: "nvram_reachable siena_ops ef10_ops enp \<Longrightarrow> efx_nvram_test enp = Some (rc, enp') \<Longrightarrow>
    nvram_reachable siena_ops ef10_ops enp'"
| at_size: "nvram_reachable siena_ops ef10_ops enp \<Longrightarrow> efx_nvram_size enp type = Some (r, enp') \<Longrightarrow>
    nvram_reachable siena_ops ef10_ops enp'"
| at_get_version: "nvram_reachable siena_ops ef10_ops enp \<Longrightarrow> efx_nvram_get_version enp type = Some (v, enp') \<Longrightarrow>
    nvram_reachable siena_ops ef10_ops enp'"
| at_set_version: "nvram_reachable siena_ops ef10_ops enp \<Longrightarrow> efx_nvram_set_version enp type ver = Some (rc, enp') \<Longrightarrow>
    nvram_reachable siena_ops ef10_ops enp'"
| at_read: "nvram_reachable siena_ops ef10_ops enp \<Longrightarrow> efx_nvram_read_chunk enp type offset buf = Some (b, enp') \<Longrightarrow>
    nvram_reachable siena_ops ef10_ops enp'"
| at_erase: "nvram_reachable siena_ops ef10_ops enp \<Longrightarrow> efx_nvram_erase enp type = Some (rc, enp') \<Longrightarrow>
    nvram_reachable siena_ops ef10_ops enp'"
| at_write: "nvram_reachable siena_ops ef10_ops enp \<Longrightarrow> efx_nvram_write_chunk enp type offset data = Some (rc, enp') \<Longrightarrow>
    nvram_reachable siena_ops ef10_ops enp'"

text \<open>The bookkeeping that no call breaks: the table is installed while the module flag is set, and a lock needs the module.\<close>

definition nvram_inv :: "'d nvram_ops \<Rightarrow> 'd nvram_ops \<Rightarrow> 'd nic \<Rightarrow> bool" where
  "nvram_inv siena_ops ef10_ops enp \<longleftrightarrow>
     nic_has_mod enp EFX_MOD_PROBE \<and>
     (if en_mod_flags enp AND EFX_MOD_NVRAM = 0
      then en_envop enp = None \<and> en_nvram_locked enp = EFX_NVRAM_INVALID
      else en_envop enp = Some (if en_family enp = EFX_FAMILY_SIENA then siena_ops else ef10_ops))"

lemma mod_flag_bits [simp]:
  "(m OR EFX_MOD_NVRAM) AND EFX_MOD_PROBE = m AND EFX_MOD_PROBE"
  "(m AND NOT EFX_MOD_NVRAM) AND EFX_MOD_PROBE = m AND EFX_MOD_PROBE"
  "(m AND NOT EFX_MOD_NVRAM) AND EFX_MOD_NVRAM = 0"
  "(m OR EFX_MOD_NVRAM) AND EFX_MOD_NVRAM = EFX_MOD_NVRAM"
  by (simp_all add: EFX_MOD_NVRAM_def EFX_MOD_PROBE_def bit.conj_disj_distrib2 and.assoc)

lemma EFX_MOD_nonzero [simp]: "EFX_MOD_NVRAM \<noteq> 0" "EFX_MOD_PROBE \<noteq> 0"
  by (simp_all add: EFX_MOD_NVRAM_def EFX_MOD_PROBE_def)

lemmas nvram_op_defs = efx_nvram_init_def efx_nvram_test_def efx_nvram_size_def efx_nvram_get_version_def
  efx_nvram_rw_start_def efx_nvram_read_chunk_def efx_nvram_erase_def efx_nvram_write_chunk_def
  efx_nvram_rw_finish_def efx_nvram_set_version_def efx_nvram_fini_def

lemma nvram_reachable_inv: "nvram_reachable siena_ops ef10_ops enp \<Longrightarrow> nvram_inv siena_ops ef10_ops enp"
  by (induction rule: nvram_reachable.induct)
    (auto simp: nvram_inv_def nic_has_mod_def nvram_op_defs
      split: if_splits option.splits sum.splits prod.splits efx_family.splits Option.bind_splits)


lemma put_bytes_length [simp]: "length (put_bytes buf bytes) = length buf"
  by (simp add: put_bytes_def)

lemma efx_nvram_read_chunk_length:
  "efx_nvram_read_chunk enp type offset data = Some ((rc, data'), enp') \<Longrightarrow> length data' = length data"
  by (auto simp: efx_nvram_read_chunk_def split: Option.bind_splits sum.splits prod.splits if_splits)

section \<open>A reference device\<close>

text \<open>
  One partition in memory behind an operations table without validation, as Siena has it. It serves the concrete instances of the
  theorems below; nothing else depends on it.
\<close>

definition ram_ops :: "u8 list nvram_ops" where
  "ram_ops = \<lparr>
     envo_test = \<lambda>d. (RC_OK, d),
     envo_type_to_partn = \<lambda>d type. if type = EFX_NVRAM_BOOTROM_CFG then Inr 8 else Inl ENOTSUP,
     envo_partn_size = \<lambda>d partn. (Inr (length d), d),
     envo_partn_rw_start = \<lambda>d partn. (Inr 4, d),
     envo_partn_read = \<lambda>d partn offset sz.
       (if offset + sz \<le> length d then ((RC_OK, take sz (drop offset d)), d) else ((EINVAL, []), d)),
     envo_partn_erase = \<lambda>d partn offset sz.
       (if offset + sz \<le> length d then (RC_OK, take offset d @ replicate sz 0xff @ drop (offset + sz) d) else (EINVAL, d)),
     envo_partn_write = \<lambda>d partn offset data.
       (if offset + length data \<le> length d then (RC_OK, take offset d @ data @ drop (offset + length data) d)
        else (EINVAL, d)),
     envo_partn_rw_finish = \<lambda>d partn. d,
     envo_partn_get_version = \<lambda>d partn. (Inr (0, [0, 0, 0, 0]), d),
     envo_partn_set_version = \<lambda>d partn version. (RC_OK, d),
     envo_buffer_validate = None \<rparr>"

definition ram_nic :: "u8 list \<Rightarrow> u8 list nic" where
  "ram_nic d = \<lparr>en_magic = EFX_NIC_MAGIC, en_family = EFX_FAMILY_SIENA, en_mod_flags = EFX_MOD_PROBE,
     en_envop = None, en_nvram_locked = EFX_NVRAM_INVALID, en_dev = d\<rparr>"

definition ram_nic_up :: "u8 list \<Rightarrow> u8 list nic" where
  "ram_nic_up d = (ram_nic d)\<lparr>en_mod_flags := EFX_MOD_PROBE OR EFX_MOD_NVRAM, en_envop := Some ram_ops\<rparr>"

lemma mod_bits_concrete [simp]:
  "EFX_MOD_PROBE AND EFX_MOD_PROBE \<noteq> 0" "EFX_MOD_PROBE AND EFX_MOD_NVRAM = 0"
  "(EFX_MOD_PROBE OR EFX_MOD_NVRAM) AND EFX_MOD_PROBE \<noteq> 0"
  "(EFX_MOD_PROBE OR EFX_MOD_NVRAM) AND EFX_MOD_NVRAM \<noteq> 0"
  by (simp_all add: EFX_MOD_PROBE_def EFX_MOD_NVRAM_def)

lemma ram_nic_init: "efx_nvram_init ram_ops ram_ops (ram_nic d) = Some (RC_OK, ram_nic_up d)"
  by (simp add: efx_nvram_init_def ram_nic_def ram_nic_up_def nic_has_mod_def)

lemma ram_nic_up_reachable: "nvram_reachable ram_ops ram_ops (ram_nic_up d)"
  by (rule at_init [OF at_probed ram_nic_init]) (simp_all add: ram_nic_def nic_has_mod_def)

section \<open>The contract of a partition\<close>

text \<open>
  A controller that is up with the table \<open>ops\<close>, in a device state \<open>ok\<close>.
\<close>

definition nvram_up :: "'d nvram_ops \<Rightarrow> ('d \<Rightarrow> bool) \<Rightarrow> 'd nic \<Rightarrow> bool" where
  "nvram_up ops ok enp \<longleftrightarrow>
     nic_has_mod enp EFX_MOD_NVRAM \<and> nic_has_mod enp EFX_MOD_PROBE \<and> en_envop enp = Some ops \<and> ok (en_dev enp)"

text \<open>
  What the clients of this interface rely on: in the device states \<open>ok\<close>, the type \<open>type\<close> is stored in
  partition \<open>partn\<close> with the bytes \<open>contents d\<close>; reads deliver them, writes replace them, the rest of the session leaves them alone.
\<close>

locale nvram_store =
  fixes ops :: "'d nvram_ops" and type :: efx_nvram_type and partn :: u32
    and ok :: "'d \<Rightarrow> bool" and contents :: "'d \<Rightarrow> u8 list"
  assumes type_to_partn: "ok d \<Longrightarrow> envo_type_to_partn ops d type = Inr partn"
    and partn_size: "ok d \<Longrightarrow> envo_partn_size ops d partn = (r, d') \<Longrightarrow>
      ok d' \<and> contents d' = contents d \<and> r \<noteq> Inl RC_OK \<and> (\<forall>sz. r = Inr sz \<longrightarrow> sz = length (contents d))"
    and rw_start: "ok d \<Longrightarrow> envo_partn_rw_start ops d partn = (s, d') \<Longrightarrow>
      ok d' \<and> contents d' = contents d \<and> s \<noteq> Inl RC_OK"
    and partn_read: "ok d \<Longrightarrow> envo_partn_read ops d partn offset n = ((rc, bytes), d') \<Longrightarrow>
      ok d' \<and> contents d' = contents d \<and>
      (rc = RC_OK \<longrightarrow> offset + n \<le> length (contents d) \<and> bytes = take n (drop offset (contents d)))"
    and partn_erase: "ok d \<Longrightarrow> envo_partn_erase ops d partn offset n = (rc, d') \<Longrightarrow>
      ok d' \<and> length (contents d') = length (contents d)"
    and partn_write: "ok d \<Longrightarrow> envo_partn_write ops d partn offset data = (rc, d') \<Longrightarrow>
      ok d' \<and> (rc = RC_OK \<longrightarrow> offset + length data \<le> length (contents d) \<and>
        contents d' = take offset (contents d) @ data @ drop (offset + length data) (contents d))"
    and rw_finish: "ok d \<Longrightarrow> ok (envo_partn_rw_finish ops d partn) \<and>
      contents (envo_partn_rw_finish ops d partn) = contents d"
begin

text \<open>The same for the calls of the interface, on a controller that has this table.\<close>

abbreviation up :: "'d nic \<Rightarrow> bool" where
  "up \<equiv> nvram_up ops ok"

lemma size_up:
  assumes "up enp" "efx_nvram_size enp type = Some ((rc, sz), enp')"
  shows "up enp' \<and> en_nvram_locked enp' = en_nvram_locked enp \<and>
    contents (en_dev enp') = contents (en_dev enp) \<and> (rc = RC_OK \<longrightarrow> sz = length (contents (en_dev enp)))"
  using assms partn_size [of "en_dev enp"]
  by (auto simp: nvram_up_def efx_nvram_size_def nic_has_mod_def type_to_partn split: sum.splits prod.splits)

lemma rw_start_up:
  assumes "up enp" "efx_nvram_rw_start enp type = Some (r, enp')"
  shows "up enp' \<and> contents (en_dev enp') = contents (en_dev enp) \<and> r \<noteq> Inl RC_OK"
  using assms rw_start [of "en_dev enp"]
  by (auto simp: nvram_up_def efx_nvram_rw_start_def nic_has_mod_def type_to_partn split: sum.splits prod.splits if_splits)

lemma rw_finish_up:
  assumes "up enp" "efx_nvram_rw_finish enp type = Some enp'"
  shows "up enp' \<and> contents (en_dev enp') = contents (en_dev enp)"
  using assms rw_finish [of "en_dev enp"]
  by (auto simp: nvram_up_def efx_nvram_rw_finish_def nic_has_mod_def type_to_partn split: sum.splits prod.splits if_splits)

lemma read_chunk_up:
  assumes "up enp" "efx_nvram_read_chunk enp type offset buf = Some ((rc, buf'), enp')"
  shows "up enp' \<and> contents (en_dev enp') = contents (en_dev enp) \<and>
    (rc = RC_OK \<longrightarrow> offset + length buf \<le> length (contents (en_dev enp)) \<and>
      buf' = take (length buf) (drop offset (contents (en_dev enp))))"
proof -
  obtain bytes d where r: "envo_partn_read ops (en_dev enp) partn offset (length buf) = ((rc, bytes), d)"
    and e: "enp' = enp\<lparr>en_dev := d\<rparr>" and b: "buf' = put_bytes buf bytes"
    using assms by (auto simp: nvram_up_def efx_nvram_read_chunk_def nic_has_mod_def type_to_partn
        split: sum.splits prod.splits if_splits)
  have "ok (en_dev enp)" using assms by (simp add: nvram_up_def)
  from partn_read [OF this r] show ?thesis
    using assms e b by (auto simp: nvram_up_def nic_has_mod_def put_bytes_def)
qed

lemma erase_up:
  assumes "up enp" "efx_nvram_erase enp type = Some (rc, enp')"
  shows "up enp' \<and> length (contents (en_dev enp')) = length (contents (en_dev enp))"
proof -
  obtain r d where sz: "envo_partn_size ops (en_dev enp) partn = (r, d)" by fastforce
  have ok: "ok (en_dev enp)" using assms by (simp add: nvram_up_def)
  note size_ok = partn_size [OF ok sz]
  show ?thesis
  proof (cases r)
    case (Inl rc')
    with assms sz size_ok show ?thesis
      by (auto simp: nvram_up_def efx_nvram_erase_def nic_has_mod_def type_to_partn split: if_splits)
  next
    case (Inr n)
    obtain rc' d' where er: "envo_partn_erase ops d partn 0 n = (rc', d')" by fastforce
    from partn_erase [OF _ er] size_ok assms sz Inr er show ?thesis
      by (auto simp: nvram_up_def efx_nvram_erase_def nic_has_mod_def type_to_partn split: if_splits)
  qed
qed

lemma write_chunk_up:
  assumes "up enp" "efx_nvram_write_chunk enp type offset data = Some (rc, enp')"
  shows "up enp' \<and> (rc = RC_OK \<longrightarrow> offset + length data \<le> length (contents (en_dev enp)) \<and>
    contents (en_dev enp') = take offset (contents (en_dev enp)) @ data @ drop (offset + length data) (contents (en_dev enp)))"
proof -
  obtain d where r: "envo_partn_write ops (en_dev enp) partn offset data = (rc, d)" and e: "enp' = enp\<lparr>en_dev := d\<rparr>"
    using assms by (auto simp: nvram_up_def efx_nvram_write_chunk_def nic_has_mod_def type_to_partn
        split: sum.splits prod.splits if_splits)
  have "ok (en_dev enp)" using assms by (simp add: nvram_up_def)
  from partn_write [OF this r] show ?thesis using assms e by (auto simp: nvram_up_def nic_has_mod_def)
qed

end

interpretation ram_store: nvram_store ram_ops EFX_NVRAM_BOOTROM_CFG 8 "\<lambda>d. True" "\<lambda>d. d"
  by unfold_locales (auto simp: ram_ops_def split: if_splits)

section \<open>Properties\<close>

text \<open>
  In every state the interface can reach, the operations table is installed exactly while the module flag is set, it is the
  table of the controller's family, and the NVRAM lock is only ever held with the module up.
\<close>
theorem efx_nvram_reachable_inv:
  assumes "nvram_reachable siena_ops ef10_ops enp"
  shows "nvram_inv siena_ops ef10_ops enp \<and>
    (en_nvram_locked enp \<noteq> EFX_NVRAM_INVALID \<longrightarrow> en_envop enp \<noteq> None)"
  using nvram_reachable_inv [OF assms] by (auto simp: nvram_inv_def split: if_splits)

theorem efx_nvram_reachable_inv_witness: "nvram_inv ram_ops ram_ops (ram_nic_up [1, 2])"
  using efx_nvram_reachable_inv [OF ram_nic_up_reachable] by blast



text \<open>
  On a controller whose table has no validation (Siena), \<open>efx_nvram_validate\<close> calls through a NULL pointer for every partition that exists,
  in every reachable state with the module up.
\<close>
theorem efx_nvram_validate_null:
  assumes "nvram_reachable siena_ops ef10_ops enp" "en_mod_flags enp AND EFX_MOD_NVRAM \<noteq> 0"
    and "en_family enp = EFX_FAMILY_SIENA" "envo_buffer_validate siena_ops = None"
    and "envo_type_to_partn siena_ops (en_dev enp) type = Inr partn"
  shows "efx_nvram_validate enp type buf = None"
  using nvram_reachable_inv [OF assms(1)] assms(2-)
  by (simp add: nvram_inv_def efx_nvram_validate_def)

theorem efx_nvram_validate_null_witness:
  "efx_nvram_validate (ram_nic_up [1, 2]) EFX_NVRAM_BOOTROM_CFG [0, 0] = None"
  by (rule efx_nvram_validate_null [OF ram_nic_up_reachable, where partn = 8])
    (simp_all add: ram_nic_up_def ram_nic_def ram_ops_def)

end
