(* ===== verification/Efx_Interfaces.thy ===== *)
theory Efx_Interfaces
  imports Efx_Prelude
begin

text \<open>The contracts that more than one component provides or relies on, as locales.\<close>

section \<open>Additive checksums\<close>

text \<open>
  The boot configuration (bytes), the VPD (bytes) and the TLV partitions (dwords) all carry a checksum cell that makes
  the sum of a region zero. What their code relies on is only that the sum is additive.
\<close>

locale additive_checksum =
  fixes csum :: "'a::ab_group_add list \<Rightarrow> 'a"
  assumes csum_Nil: "csum [] = 0"
    and csum_Cons: "csum (x # xs) = x + csum xs"
begin

lemma csum_append: "csum (xs @ ys) = csum xs + csum ys"
  by (induction xs) (simp_all add: csum_Nil csum_Cons add.assoc)

lemma csum_replicate_0: "csum (replicate n 0) = 0"
  by (induction n) (simp_all add: csum_Nil csum_Cons)

lemma csum_update: "i < length xs \<Longrightarrow> csum (xs[i := v]) = csum xs - xs ! i + v"
proof (induction xs arbitrary: i)
  case (Cons x xs)
  then show ?case by (cases i) (simp_all add: csum_Cons algebra_simps)
qed simp

text \<open>Correcting any one cell by the sum makes the sum zero.\<close>

lemma csum_fix: "i < length xs \<Longrightarrow> csum (xs[i := xs ! i - csum xs]) = 0"
  by (simp add: csum_update)

lemma csum_single_error: "i < length xs \<Longrightarrow> csum xs = 0 \<Longrightarrow> v \<noteq> xs ! i \<Longrightarrow> csum (xs[i := v]) \<noteq> 0"
  by (simp add: csum_update)

end

section \<open>Open-addressing tables\<close>

text \<open>
  A lookup in an open-addressing table relies on two laws: the probes of an entry are distinct slots, and equal entries
  have the same probes.
\<close>

type_synonym 'e slots = "nat \<Rightarrow> 'e option"

definition probe_hit :: "('e \<Rightarrow> nat \<Rightarrow> nat) \<Rightarrow> ('e \<Rightarrow> 'e \<Rightarrow> bool) \<Rightarrow> 'e slots \<Rightarrow> 'e \<Rightarrow> bool \<Rightarrow> nat \<Rightarrow> bool" where
  "probe_hit probe same slots e for_insert d =
     (case slots (probe e d) of None \<Rightarrow> for_insert | Some x \<Rightarrow> same e x)"

text \<open>The first of the probes \<open>d ..= n\<close> that is a hit.\<close>

definition probe_find ::
    "('e \<Rightarrow> nat \<Rightarrow> nat) \<Rightarrow> ('e \<Rightarrow> 'e \<Rightarrow> bool) \<Rightarrow> 'e slots \<Rightarrow> 'e \<Rightarrow> bool \<Rightarrow> nat \<Rightarrow> nat \<Rightarrow> nat option" where
  "probe_find probe same slots e for_insert d n = find (probe_hit probe same slots e for_insert) [d..<Suc n]"

definition probe_covered :: "('e \<Rightarrow> nat \<Rightarrow> nat) \<Rightarrow> 'e slots \<Rightarrow> ('e \<Rightarrow> nat) \<Rightarrow> bool" where
  "probe_covered probe slots depth \<longleftrightarrow> (\<forall>i x. slots i = Some x \<longrightarrow> (\<exists>d. 1 \<le> d \<and> d \<le> depth x \<and> probe x d = i))"

lemma probe_find_Some:
  "probe_find probe same slots e ins d n = Some d' \<longleftrightarrow>
     d \<le> d' \<and> d' \<le> n \<and> probe_hit probe same slots e ins d' \<and> (\<forall>k. d \<le> k \<and> k < d' \<longrightarrow> \<not> probe_hit probe same slots e ins k)"
proof -
  have *: "find P xs = Some y \<longleftrightarrow> (\<exists>i < length xs. P (xs ! i) \<and> y = xs ! i \<and> (\<forall>j < i. \<not> P (xs ! j)))" for P :: "nat \<Rightarrow> bool" and xs y
    by (rule find_Some_iff)
  show ?thesis (is "?L \<longleftrightarrow> ?R")
  proof
    assume ?L
    then show ?R
      unfolding probe_find_def *
    proof (elim exE conjE)
      fix i
      assume i: "i < length [d..<Suc n]" "probe_hit probe same slots e ins ([d..<Suc n] ! i)" "d' = [d..<Suc n] ! i"
        "\<forall>j < i. \<not> probe_hit probe same slots e ins ([d..<Suc n] ! j)"
      then have n: "j \<le> i \<Longrightarrow> [d..<Suc n] ! j = d + j" for j by (simp del: upt_Suc)
      have "\<not> probe_hit probe same slots e ins k" if k: "d \<le> k" "k < d'" for k
        using i(3,4) n [of "k - d"] n [of i] k by (metis le_add_diff_inverse less_imp_le nat_add_left_cancel_less order_refl)
      then show ?R using i n [of i] by (simp del: upt_Suc)
    qed
  next
    assume r: ?R
    then have "d' - d < length [d..<Suc n] \<and> [d..<Suc n] ! (d' - d) = d' \<and> (\<forall>j < d' - d. [d..<Suc n] ! j = d + j)"
      by (auto simp del: upt_Suc)
    then show ?L
      unfolding probe_find_def * using r by (intro exI [of _ "d' - d"]) (simp del: upt_Suc)
  qed
qed

lemma probe_find_None:
  "probe_find probe same slots e ins d n = None \<longleftrightarrow> (\<forall>k. d \<le> k \<and> k \<le> n \<longrightarrow> \<not> probe_hit probe same slots e ins k)"
  by (auto simp: probe_find_def find_None_iff simp del: upt_Suc)

lemma probe_find_step:
  "d \<le> n \<Longrightarrow> probe_find probe same slots e ins d n =
     (if probe_hit probe same slots e ins d then Some d else probe_find probe same slots e ins (Suc d) n)"
  by (simp add: probe_find_def upt_conv_Cons del: upt_Suc)

locale probe_table =
  fixes probe :: "'e \<Rightarrow> nat \<Rightarrow> nat"
    and same :: "'e \<Rightarrow> 'e \<Rightarrow> bool"
    and maxd :: nat
  assumes probe_inj: "1 \<le> d \<Longrightarrow> d \<le> maxd \<Longrightarrow> 1 \<le> d' \<Longrightarrow> d' \<le> maxd \<Longrightarrow> probe e d = probe e d' \<Longrightarrow> d = d'"
    and same_refl: "same e e"
    and same_sym: "same e e' \<Longrightarrow> same e' e"
    and same_probe: "same e e' \<Longrightarrow> probe e d = probe e' d"
begin

text \<open>A lookup misses nothing, as long as every entry lies within the maximal depth.\<close>

lemma lookup_complete:
  assumes "probe_covered probe slots depth" "\<And>x. depth x \<le> maxd"
  shows "probe_find probe same slots e False 1 maxd = None \<longleftrightarrow> (\<forall>i x. slots i = Some x \<longrightarrow> \<not> same e x)"
proof
  assume none: "probe_find probe same slots e False 1 maxd = None"
  show "\<forall>i x. slots i = Some x \<longrightarrow> \<not> same e x"
  proof (intro allI impI notI)
    fix i x
    assume x: "slots i = Some x" "same e x"
    then obtain d where d: "1 \<le> d" "d \<le> depth x" "probe x d = i" using assms(1) by (auto simp: probe_covered_def)
    then have "probe_hit probe same slots e False d" using x by (simp add: probe_hit_def same_probe)
    moreover have "d \<le> maxd" using d(2) assms(2) [of x] by simp
    ultimately show False using none d(1) by (simp add: probe_find_None)
  qed
qed (auto simp: probe_find_None probe_hit_def split: option.splits)

text \<open>An entry put into the slot that the search for an insertion found is found there by every later search.\<close>

lemma lookup_inserted:
  assumes "probe_find probe same slots e True 1 maxd = Some d" "slots (probe e d) = None"
  shows "probe_find probe same (slots(probe e d := Some e)) e ins 1 maxd = Some d"
proof -
  have d: "1 \<le> d" "d \<le> maxd" and before: "\<And>k. 1 \<le> k \<Longrightarrow> k < d \<Longrightarrow> \<not> probe_hit probe same slots e True k"
    using assms(1) by (auto simp: probe_find_Some)
  have "\<not> probe_hit probe same (slots(probe e d := Some e)) e ins k" if k: "1 \<le> k" "k < d" for k
  proof -
    have "probe e k \<noteq> probe e d" using probe_inj [of k d e] k d by auto
    then show ?thesis using before [OF k] by (auto simp: probe_hit_def split: option.splits)
  qed
  moreover have "probe_hit probe same (slots(probe e d := Some e)) e ins d" by (simp add: probe_hit_def same_refl)
  ultimately show ?thesis using d by (simp add: probe_find_Some)
qed

text \<open>The search for an insertion finds a slot when fewer slots are in use than it may probe.\<close>

lemma insert_room:
  assumes "card {i. slots i \<noteq> None} < maxd" "finite {i. slots i \<noteq> None}"
  shows "probe_find probe same slots e True 1 maxd \<noteq> None"
proof
  assume none: "probe_find probe same slots e True 1 maxd = None"
  have "probe e ` {1..maxd} \<subseteq> {i. slots i \<noteq> None}"
    using none by (auto simp: probe_find_None probe_hit_def split: option.splits)
  then have "card (probe e ` {1..maxd}) \<le> card {i. slots i \<noteq> None}" by (rule card_mono [OF assms(2)])
  moreover have "inj_on (probe e) {1..maxd}"
  proof (rule inj_onI)
    fix d d' assume "d \<in> {1..maxd}" "d' \<in> {1..maxd}" "probe e d = probe e d'"
    then show "d = d'" using probe_inj [of d d' e] by simp
  qed
  ultimately have "maxd \<le> card {i. slots i \<noteq> None}" by (simp add: card_image)
  with assms(1) show False by simp
qed

lemma covered_insert:
  assumes "probe_covered probe slots depth" "1 \<le> d" "\<And>x. depth x \<le> depth' x" "d \<le> depth' e"
  shows "probe_covered probe (slots(probe e d := Some e)) depth'"
  unfolding probe_covered_def
proof (intro allI impI)
  fix i x
  assume x: "(slots(probe e d := Some e)) i = Some x"
  show "\<exists>d. 1 \<le> d \<and> d \<le> depth' x \<and> probe x d = i"
  proof (cases "i = probe e d")
    case True
    with x have "x = e" by simp
    with True show ?thesis using assms(2,4) by (intro exI [of _ d]) simp
  next
    case False
    with x have "slots i = Some x" by simp
    then obtain d where "1 \<le> d" "d \<le> depth x" "probe x d = i" using assms(1) by (auto simp: probe_covered_def)
    then show ?thesis using assms(3) [of x] by (intro exI [of _ d]) simp
  qed
qed

end

lemma covered_remove: "probe_covered probe slots depth \<Longrightarrow> probe_covered probe (slots(i := None)) depth"
  by (auto simp: probe_covered_def)

end
