(* ===== verification/Efx_Bootcfg.thy ===== *)
theory Efx_Bootcfg
  imports Efx_Nvram Efx_Interfaces
begin

text \<open>
  \<open>src/common/efx_bootcfg.c\<close>: the boot configuration sector, a checksum byte followed by DHCP-style options.
  A buffer is the list of its bytes, so its length is the C argument \<open>size\<close>.
\<close>

section \<open>The code\<close>

definition BOOTCFG_MAX_SIZE :: nat where "BOOTCFG_MAX_SIZE = 0x1000"
definition DHCP_END :: u8 where "DHCP_END = 0xff"
definition DHCP_PAD :: u8 where "DHCP_PAD = 0"

fun csum_bytes :: "u8 \<Rightarrow> u8 list \<Rightarrow> u8" where
  "csum_bytes checksum [] = checksum"
| "csum_bytes checksum (b # bs) = csum_bytes (checksum + b) bs"

definition efx_bootcfg_csum :: "u8 list \<Rightarrow> nat \<Rightarrow> u8 option" where
  "efx_bootcfg_csum data sz = map_option (csum_bytes 0) (rd_range data 0 sz)"

text \<open>The loop of \<open>efx_bootcfg_verify\<close>: an error, or the value of \<open>used\<close> when the loop is left.\<close>

function bootcfg_walk :: "u8 list \<Rightarrow> nat \<Rightarrow> nat \<Rightarrow> nat \<Rightarrow> (efx_rc + nat) option" where
  "bootcfg_walk data sz offset used =
     (if offset < sz then do {
        tag \<leftarrow> rd data offset;
        if tag = DHCP_END then Some (Inr (offset + 1))
        else if tag = DHCP_PAD then bootcfg_walk data sz (offset + 1) used
        else if offset + 1 \<ge> sz then Some (Inl ENOSPC)
        else do {
          len \<leftarrow> rd data (offset + 1);
          if offset + 1 + unat len \<ge> sz then Some (Inl ENOSPC)
          else bootcfg_walk data sz (offset + 2 + unat len) (offset + 2 + unat len) } }
      else Some (Inr used))"
  by pat_completeness auto
termination by (relation "measure (\<lambda>(data, sz, offset, used). sz - offset)") auto

declare bootcfg_walk.simps [simp del]

definition efx_bootcfg_verify :: "u8 list \<Rightarrow> nat \<Rightarrow> (efx_rc + nat) option" where
  "efx_bootcfg_verify data sz = do {
     r \<leftarrow> bootcfg_walk data sz 1 0;
     case r of
       Inl rc \<Rightarrow> Some (Inl rc)
     | Inr used \<Rightarrow> do {
         checksum \<leftarrow> efx_bootcfg_csum data sz;
         Some (if checksum \<noteq> 0 then Inl EINVAL else Inr used) } }"

text \<open>
  \<open>efx_bootcfg_read\<close> after the payload has been read, in three steps. First, a sector that is malformed or has no
  options at all is replaced by an empty block; \<open>used\<close> is the length of the block.
\<close>

definition bootcfg_blank :: "u8 list \<Rightarrow> (u8 list \<times> nat) option" where
  "bootcfg_blank payload = do {
     payload \<leftarrow> wr payload 0 (NOT DHCP_END);
     payload \<leftarrow> wr payload 1 DHCP_END;
     Some (payload, 2) }"

definition bootcfg_normalise :: "u8 list \<Rightarrow> (u8 list \<times> nat) option" where
  "bootcfg_normalise payload = do {
     r \<leftarrow> efx_bootcfg_verify payload (length payload);
     (payload, used) \<leftarrow> (case r of
         Inl rc \<Rightarrow> bootcfg_blank payload
       | Inr used \<Rightarrow> if used = 0 then bootcfg_blank payload else Some (payload, used));
     efsys_assert (used \<ge> 2 \<and> used \<le> length payload);
     Some (payload, used) }"

text \<open>Second, a block whose last byte is not \<open>DHCP_END\<close> gets one, or is reset where there is no room.\<close>

definition bootcfg_terminate :: "u8 list \<Rightarrow> nat \<Rightarrow> (u8 list \<times> nat) option" where
  "bootcfg_terminate payload used = do {
     final \<leftarrow> rd payload (used - 1);
     if final \<noteq> DHCP_END then do {
       (payload, used) \<leftarrow> (if used + 1 > length payload
         then do { payload \<leftarrow> wr payload 0 0; Some (payload, 1) }
         else Some (payload, used));
       payload \<leftarrow> wr payload used DHCP_END;
       Some (payload, used + 1) }
     else Some (payload, used) }"

text \<open>
  Third, the block goes to the caller's buffer, the rest of it is cleared and the checksum recomputed. Where the payload is
  the caller's own buffer (\<open>sector_length \<le> size\<close>) the edits above were made in place and the copy is the identity.
\<close>

definition bootcfg_deliver :: "u8 list \<Rightarrow> nat \<Rightarrow> u8 list \<Rightarrow> (efx_rc \<times> u8 list) option" where
  "bootcfg_deliver payload used data = do {
     let sz = length data;
     if used > sz then Some (ENOSPC, data)
     else do {
       data \<leftarrow> wr_range data 0 (if length payload > sz then take used payload else payload);
       data \<leftarrow> (if used < sz then memset_buf data used 0 (sz - used) else Some data);
       checksum \<leftarrow> efx_bootcfg_csum data sz;
       first \<leftarrow> rd data 0;
       data \<leftarrow> wr data 0 (first - checksum);
       Some (RC_OK, data) } }"

definition bootcfg_read_finish :: "u8 list \<Rightarrow> u8 list \<Rightarrow> (efx_rc \<times> u8 list) option" where
  "bootcfg_read_finish payload data = do {
     (payload, used) \<leftarrow> bootcfg_normalise payload;
     (payload, used) \<leftarrow> bootcfg_terminate payload used;
     bootcfg_deliver payload used data }"

definition efx_bootcfg_read ::
    "(nat \<Rightarrow> bool) \<Rightarrow> 'd nic \<Rightarrow> u8 list \<Rightarrow> ((efx_rc \<times> u8 list) \<times> 'd nic) option" where
  "efx_bootcfg_read kmem_ok enp data = do {
     ((rc, sector_length), enp) \<leftarrow> efx_nvram_size enp EFX_NVRAM_BOOTROM_CFG;
     if rc \<noteq> RC_OK then Some ((rc, data), enp)
     else do {
       let sector_length = (if sector_length > BOOTCFG_MAX_SIZE then BOOTCFG_MAX_SIZE else sector_length);
       let own = sector_length > length data;
       if own \<and> \<not> kmem_ok sector_length then Some ((ENOMEM, data), enp)
       else do {
         let payload = (if own then replicate sector_length 0 else take sector_length data);
         (r, enp) \<leftarrow> efx_nvram_rw_start enp EFX_NVRAM_BOOTROM_CFG;
         case r of
           Inl rc \<Rightarrow> Some ((rc, data), enp)
         | Inr _ \<Rightarrow> do {
             ((rc, payload), enp) \<leftarrow> efx_nvram_read_chunk enp EFX_NVRAM_BOOTROM_CFG 0 payload;
             enp \<leftarrow> efx_nvram_rw_finish enp EFX_NVRAM_BOOTROM_CFG;
             let data = (if own then data else payload @ drop sector_length data);
             if rc \<noteq> RC_OK then Some ((rc, data), enp)
             else do {
               r \<leftarrow> bootcfg_read_finish payload data;
               Some (r, enp) } } } } }"

text \<open>
  \<open>efx_bootcfg_write\<close>. The loop writes the sector in chunks; \<open>chunk\<close> is the scratch buffer of \<open>chunk_length\<close>
  bytes, cleared in every round. A \<open>chunk_length\<close> of 0 would never advance; the model gives up (\<open>None\<close>) there.
\<close>

definition bootcfg_chunk :: "u8 list \<Rightarrow> nat \<Rightarrow> u8 \<Rightarrow> nat \<Rightarrow> nat \<Rightarrow> nat \<Rightarrow> u8 list option" where
  "bootcfg_chunk data used checksum chunk_length offset remaining = do {
     let chunk = replicate chunk_length 0;
     chunk \<leftarrow> (if offset < used
       then do { src \<leftarrow> rd_range data offset (min remaining (used - offset)); wr_range chunk 0 src }
       else Some chunk);
     chunk \<leftarrow> (if offset = 0 then do { first \<leftarrow> rd chunk 0; wr chunk 0 (first - checksum) } else Some chunk);
     rd_range chunk 0 remaining }"

function bootcfg_write_loop ::
    "'d nic \<Rightarrow> u8 list \<Rightarrow> nat \<Rightarrow> u8 \<Rightarrow> nat \<Rightarrow> nat \<Rightarrow> nat \<Rightarrow> (efx_rc \<times> 'd nic) option" where
  "bootcfg_write_loop enp data used checksum chunk_length sector_length offset =
     (if offset < sector_length then
        (let remaining = min chunk_length (sector_length - offset) in
         if remaining = 0 then None
         else do {
           chunk \<leftarrow> bootcfg_chunk data used checksum chunk_length offset remaining;
           (rc, enp) \<leftarrow> efx_nvram_write_chunk enp EFX_NVRAM_BOOTROM_CFG offset chunk;
           if rc \<noteq> RC_OK then Some (rc, enp)
           else bootcfg_write_loop enp data used checksum chunk_length sector_length (offset + remaining) })
      else Some (RC_OK, enp))"
  by pat_completeness auto
termination
  by (relation "measure (\<lambda>(enp, data, used, checksum, chunk_length, sector_length, offset). sector_length - offset)")
    auto

declare bootcfg_write_loop.simps [simp del]

definition efx_bootcfg_write ::
    "(nat \<Rightarrow> bool) \<Rightarrow> 'd nic \<Rightarrow> u8 list \<Rightarrow> (efx_rc \<times> 'd nic) option" where
  "efx_bootcfg_write kmem_ok enp data = do {
     ((rc, sector_length), enp) \<leftarrow> efx_nvram_size enp EFX_NVRAM_BOOTROM_CFG;
     if rc \<noteq> RC_OK then Some (rc, enp)
     else do {
       let sector_length = (if sector_length > BOOTCFG_MAX_SIZE then BOOTCFG_MAX_SIZE else sector_length);
       r \<leftarrow> efx_bootcfg_verify data (length data);
       case r of
         Inl rc \<Rightarrow> Some (rc, enp)
       | Inr used \<Rightarrow> do {
           efsys_assert (used \<ge> 2);
           final \<leftarrow> rd data (used - 1);
           if final \<noteq> DHCP_END then Some (ENOENT, enp)
           else if used > min sector_length BOOTCFG_MAX_SIZE then Some (ENOSPC, enp)
           else do {
             (r, enp) \<leftarrow> efx_nvram_rw_start enp EFX_NVRAM_BOOTROM_CFG;
             case r of
               Inl rc \<Rightarrow> Some (rc, enp)
             | Inr chunk_length \<Rightarrow>
                 if \<not> kmem_ok chunk_length then do {
                   enp \<leftarrow> efx_nvram_rw_finish enp EFX_NVRAM_BOOTROM_CFG;
                   Some (ENOMEM, enp) }
                 else do {
                   (rc, enp) \<leftarrow> efx_nvram_erase enp EFX_NVRAM_BOOTROM_CFG;
                   (rc, enp) \<leftarrow> (if rc \<noteq> RC_OK then Some (rc, enp)
                     else do {
                       checksum \<leftarrow> efx_bootcfg_csum data used;
                       bootcfg_write_loop enp data used checksum chunk_length sector_length 0 });
                   enp \<leftarrow> efx_nvram_rw_finish enp EFX_NVRAM_BOOTROM_CFG;
                   Some (rc, enp) } } } } }"


section \<open>Checksum\<close>

lemma csum_bytes_acc: "csum_bytes a xs = a + csum_bytes 0 xs"
proof (induction xs arbitrary: a)
  case (Cons x xs)
  from Cons [of "a + x"] Cons [of x] show ?case by (simp add: add.assoc)
qed simp

interpretation bootcfg_csum: additive_checksum "csum_bytes 0"
proof
  show "csum_bytes 0 (x # xs) = x + csum_bytes 0 xs" for x xs
    using csum_bytes_acc [of x xs] by simp
qed simp

lemma rd_range_all [simp]: "rd_range xs 0 (length xs) = Some xs"
  by (simp add: rd_range_def)

lemma efx_bootcfg_csum_all: "efx_bootcfg_csum data (length data) = Some (csum_bytes 0 data)"
  by (simp add: efx_bootcfg_csum_def)

section \<open>The format\<close>

text \<open>The options of a block, as a reader of DHCP options sees them.\<close>

datatype bootcfg_item = Pad | Opt u8 "u8 list"

fun item_ok :: "bootcfg_item \<Rightarrow> bool" where
  "item_ok Pad = True"
| "item_ok (Opt tag val) = (tag \<noteq> DHCP_END \<and> tag \<noteq> DHCP_PAD \<and> length val < 256)"

fun item_bytes :: "bootcfg_item \<Rightarrow> u8 list" where
  "item_bytes Pad = [DHCP_PAD]"
| "item_bytes (Opt tag val) = tag # of_nat (length val) # val"

lemma item_bytes_nonempty [simp]: "item_bytes i \<noteq> []"
  by (cases i) simp_all

definition items_bytes :: "bootcfg_item list \<Rightarrow> u8 list" where
  "items_bytes is = concat (map item_bytes is)"

lemma items_bytes_simps [simp]:
  "items_bytes [] = []" "items_bytes (i # is) = item_bytes i @ items_bytes is"
  "items_bytes (is @ js) = items_bytes is @ items_bytes js"
  by (simp_all add: items_bytes_def)

lemma items_bytes_pads [simp]: "items_bytes (replicate n Pad) = replicate n DHCP_PAD"
  by (induction n) simp_all

text \<open>Where the last option ends: what \<open>used\<close> counts when no \<open>DHCP_END\<close> is met.\<close>

fun items_used :: "nat \<Rightarrow> nat \<Rightarrow> bootcfg_item list \<Rightarrow> nat" where
  "items_used offset used [] = used"
| "items_used offset used (Pad # is) = items_used (offset + 1) used is"
| "items_used offset used (Opt tag val # is) = items_used (offset + 2 + length val) (offset + 2 + length val) is"

lemma items_used_append:
  "items_used offset used (is @ js) = items_used (offset + length (items_bytes is)) (items_used offset used is) js"
proof (induction "is" arbitrary: offset used)
  case (Cons i "is")
  then show ?case by (cases i) (simp_all add: add.assoc)
qed simp

lemma items_used_pads [simp]: "items_used offset used (replicate n Pad) = used"
  by (induction n arbitrary: offset) simp_all

lemma items_used_cases:
  "items_used offset used is = used \<and> (\<exists>n. is = replicate n Pad)
   \<or> (\<exists>js n. is = js @ replicate n Pad \<and> items_used offset used is = offset + length (items_bytes js)
        \<and> items_used offset used js = offset + length (items_bytes js))"
proof (induction "is" rule: rev_induct)
  case (snoc i "is")
  show ?case
  proof (cases i)
    case Pad
    then have pads: "replicate n Pad @ [i] = replicate (Suc n) Pad" for n
      by (simp flip: replicate_append_same)
    show ?thesis using snoc.IH
      by (auto simp: Pad items_used_append pads simp del: replicate_Suc)
        (metis Pad append_assoc pads items_used_append items_used_pads)+
  next
    case (Opt tag val)
    then have "is @ [i] = (is @ [i]) @ replicate 0 Pad
        \<and> items_used offset used (is @ [i]) = offset + length (items_bytes (is @ [i]))"
      by (simp add: items_used_append)
    then show ?thesis by blast
  qed
qed auto

text \<open>The loop reads exactly these options.\<close>

lemma of_nat_length_u8: "length (val :: u8 list) < 256 \<Longrightarrow> unat (of_nat (length val) :: u8) = length val"
  by (simp add: unat_of_nat)

lemma walk_items:
  assumes "list_all item_ok is" "length pre + length (items_bytes is) \<le> sz"
  shows "bootcfg_walk (pre @ items_bytes is @ rest) sz (length pre) used
    = bootcfg_walk (pre @ items_bytes is @ rest) sz (length pre + length (items_bytes is)) (items_used (length pre) used is)"
  using assms
proof (induction "is" arbitrary: pre used)
  case (Cons i "is")
  have IH: "bootcfg_walk (pre @ items_bytes (i # is) @ rest) sz (length pre + length (item_bytes i)) u
     = bootcfg_walk (pre @ items_bytes (i # is) @ rest) sz (length pre + length (items_bytes (i # is)))
        (items_used (length pre + length (item_bytes i)) u is)" for u
    using Cons.IH [of "pre @ item_bytes i" u] Cons.prems by (simp add: add.assoc)
  show ?case
  proof (cases i)
    case Pad
    with IH [of used] Cons.prems show ?thesis
      by (subst bootcfg_walk.simps) (simp add: DHCP_END_def DHCP_PAD_def nth_append)
  next
    case (Opt tag val)
    with IH [of "length pre + 2 + length val"] Cons.prems show ?thesis
      by (subst bootcfg_walk.simps) (simp add: nth_append of_nat_length_u8)
  qed
qed simp


lemma walk_end: "offset < sz \<Longrightarrow> offset < length data \<Longrightarrow> data ! offset = DHCP_END \<Longrightarrow>
    bootcfg_walk data sz offset used = Some (Inr (offset + 1))"
  by (subst bootcfg_walk.simps) simp

lemma walk_stop: "sz \<le> offset \<Longrightarrow> bootcfg_walk data sz offset used = Some (Inr used)"
  by (subst bootcfg_walk.simps) simp

text \<open>Conversely, whatever it accepts is such a list, closed by \<open>DHCP_END\<close> or by the end of the buffer.\<close>

definition walk_result :: "u8 list \<Rightarrow> nat \<Rightarrow> nat \<Rightarrow> nat \<Rightarrow> nat \<Rightarrow> bootcfg_item list \<Rightarrow> bool" where
  "walk_result data sz offset used r is \<longleftrightarrow>
     list_all item_ok is \<and> offset + length (items_bytes is) \<le> sz \<and>
     take (length (items_bytes is)) (drop offset data) = items_bytes is \<and>
     (if offset + length (items_bytes is) < sz
      then data ! (offset + length (items_bytes is)) = DHCP_END \<and> r = offset + length (items_bytes is) + 1
      else r = items_used offset used is)"

lemma take_drop_Cons: "offset < length data \<Longrightarrow> take (Suc n) (drop offset data) = data ! offset # take n (drop (Suc offset) data)"
  by (simp add: Cons_nth_drop_Suc [symmetric])

lemma walk_parse:
  "bootcfg_walk data sz offset used = Some (Inr r) \<Longrightarrow> offset \<le> sz \<Longrightarrow> sz \<le> length data \<Longrightarrow>
   \<exists>is. walk_result data sz offset used r is"
proof (induction data sz offset used rule: bootcfg_walk.induct)
  case (1 data sz offset used)
  show ?case
  proof (cases "offset < sz")
    case False
    with "1.prems" have "walk_result data sz offset used r []"
      by (simp add: walk_result_def walk_stop)
    then show ?thesis ..
  next
    case in_range: True
    define tag where "tag = data ! offset"
    define len where "len = unat (data ! (offset + 1))"
    have tag: "rd data offset = Some tag" using in_range "1.prems" by (simp add: tag_def)
    show ?thesis
    proof (cases "tag = DHCP_END")
      case True
      with "1.prems" in_range tag have "walk_result data sz offset used r []"
        by (simp add: walk_result_def walk_end tag_def)
      then show ?thesis ..
    next
      case not_end: False
      show ?thesis
      proof (cases "tag = DHCP_PAD")
        case True
        have "bootcfg_walk data sz (offset + 1) used = Some (Inr r)"
          using "1.prems" in_range tag not_end True by (subst (asm) bootcfg_walk.simps) simp
        with "1.IH"(1) [OF in_range tag not_end True] "1.prems" in_range
        obtain "is" where "walk_result data sz (offset + 1) used r is" by auto
        with True in_range "1.prems" have "walk_result data sz offset used r (Pad # is)"
          by (auto simp: walk_result_def take_drop_Cons tag_def)
        then show ?thesis ..
      next
        case False
        have fits: "offset + 1 < sz" "offset + 1 + len < sz"
          and step: "bootcfg_walk data sz (offset + 2 + len) (offset + 2 + len) = Some (Inr r)"
          using "1.prems" in_range tag not_end False unfolding len_def
          by (subst (asm) bootcfg_walk.simps, simp split: if_splits)+
        have len: "rd data (offset + 1) = Some (data ! (offset + 1))" using fits "1.prems" by simp
        obtain "is" where r: "walk_result data sz (offset + 2 + len) (offset + 2 + len) r is"
          using "1.IH"(2) [OF in_range tag not_end False _ len] fits "1.prems" step by (auto simp: len_def)
        define val where "val = take len (drop (offset + 2) data)"
        have "length val = len" using fits "1.prems" by (simp add: val_def)
        moreover have "len < 256" by (simp add: len_def unat_u8_less)
        moreover have "of_nat len = data ! (offset + 1)" by (simp add: len_def)
        moreover have "take (len + n) (drop (Suc (Suc offset)) data) = val @ take n (drop (Suc (Suc (offset + len))) data)" for n
          by (simp add: take_add val_def add.commute numeral_2_eq_2)
        ultimately have "walk_result data sz offset used r (Opt tag val # is)"
          using r fits "1.prems" in_range not_end False
          by (auto simp: walk_result_def take_drop_Cons tag_def numeral_2_eq_2 add.assoc)
        then show ?thesis ..
      qed
    qed
  qed
qed


section \<open>What a read delivers\<close>

text \<open>
  The bytes after the checksum that \<open>efx_bootcfg_read\<close> settles on: options and \<open>DHCP_END\<close>, or options alone whose
  last byte happens to be \<open>0xff\<close>, which the code takes for the end tag.
\<close>

definition good_body :: "u8 list \<Rightarrow> bool" where
  "good_body body \<longleftrightarrow> (\<exists>is. list_all item_ok is \<and>
     (body = items_bytes is @ [DHCP_END]
      \<or> body = items_bytes is \<and> items_used 1 0 is = 1 + length body \<and> body \<noteq> [] \<and> last body = DHCP_END))"

lemma walk_good_body:
  assumes "good_body body"
  shows "bootcfg_walk (c # body @ replicate k 0) (1 + length body + k) 1 0 = Some (Inr (1 + length body))"
proof -
  obtain "is" where ok: "list_all item_ok is"
    and body: "body = items_bytes is @ [DHCP_END]
      \<or> body = items_bytes is \<and> items_used 1 0 is = 1 + length body"
    using assms by (auto simp: good_body_def)
  from body show ?thesis
  proof
    assume b: "body = items_bytes is @ [DHCP_END]"
    then show ?thesis
      using walk_items [OF ok, of "[c]" "1 + length body + k" "DHCP_END # replicate k 0" 0]
      by (simp add: walk_end nth_append)
  next
    assume b: "body = items_bytes is \<and> items_used 1 0 is = 1 + length body"
    have "list_all item_ok (is @ replicate k Pad)"
      using ok by (auto simp: list_all_iff)
    from walk_items [OF this, of "[c]" "1 + length body + k" "[]" 0] b show ?thesis
      by (simp add: walk_stop items_used_append DHCP_PAD_def)
  qed
qed

text \<open>The valid blocks: they verify with a \<open>used\<close> length whose last byte is \<open>DHCP_END\<close>, as \<open>efx_bootcfg_write\<close> demands.\<close>

definition bootcfg_valid :: "u8 list \<Rightarrow> nat \<Rightarrow> bool" where
  "bootcfg_valid data used \<longleftrightarrow>
     efx_bootcfg_verify data (length data) = Some (Inr used) \<and> 2 \<le> used \<and> used \<le> length data \<and>
     data ! (used - 1) = DHCP_END"

lemma bootcfg_valid_body:
  assumes "good_body body" "csum_bytes 0 (c # body @ replicate k 0) = 0"
  shows "bootcfg_valid (c # body @ replicate k 0) (1 + length body)"
proof -
  have "body \<noteq> []" using assms(1) by (auto simp: good_body_def)
  moreover have "last body = DHCP_END" using assms(1) by (auto simp: good_body_def)
  ultimately have "(c # body @ replicate k 0) ! (1 + length body - 1) = DHCP_END"
    by (simp add: nth_append last_conv_nth nth_Cons')
  moreover have "Suc 0 \<le> length body" using \<open>body \<noteq> []\<close> by (cases body) simp_all
  moreover have "length (c # body @ replicate k 0) = 1 + length body + k" by simp
  ultimately show ?thesis
    using walk_good_body [OF assms(1), of c k] assms(2)
      efx_bootcfg_csum_all [of "c # body @ replicate k 0"]
    by (simp add: bootcfg_valid_def efx_bootcfg_verify_def del: efx_bootcfg_csum_all)
qed

lemma verify_body:
  assumes "efx_bootcfg_verify data (length data) = Some (Inr used)" "used \<noteq> 0"
  shows "2 \<le> used \<and> used \<le> length data \<and> (\<exists>is. list_all item_ok is \<and>
    (take (used - 1) (drop 1 data) = items_bytes is @ [DHCP_END] \<or>
     take (used - 1) (drop 1 data) = items_bytes is \<and> items_used 1 0 is = used))"
proof -
  have w: "bootcfg_walk data (length data) 1 0 = Some (Inr used)"
    using assms(1) by (auto simp: efx_bootcfg_verify_def split: Option.bind_splits sum.splits if_splits)
  have "data \<noteq> []" using assms w by (auto simp: walk_stop)
  then have "1 \<le> length data" by (cases data) simp_all
  then obtain "is" where r: "walk_result data (length data) 1 0 used is"
    using walk_parse [OF w] by auto
  let ?n = "length (items_bytes is)"
  show ?thesis
  proof (cases "1 + ?n < length data")
    case True
    with r have "used = Suc ?n + 1" "data ! Suc ?n = DHCP_END" "take ?n (drop 1 data) = items_bytes is"
      by (simp_all add: walk_result_def)
    then have "take (used - 1) (drop 1 data) = items_bytes is @ [DHCP_END]"
      using True by (simp add: take_Suc_conv_app_nth)
    then show ?thesis using r True by (auto simp: walk_result_def)
  next
    case False
    with r have n: "1 + ?n = length data" and u: "used = items_used 1 0 is"
      and t: "take ?n (drop 1 data) = items_bytes is" and ok: "list_all item_ok is"
      by (auto simp: walk_result_def)
    from items_used_cases [of 1 0 "is"] u assms(2) obtain js m where
      js: "is = js @ replicate m Pad" "used = 1 + length (items_bytes js)" "items_used 1 0 js = used" by auto
    have "take (used - 1) (drop 1 data) = take (used - 1) (take ?n (drop 1 data))"
      using js by simp
    also have "\<dots> = items_bytes js" using t js by simp
    finally have "take (used - 1) (drop 1 data) = items_bytes js" .
    moreover have "list_all item_ok js" using ok js by simp
    moreover have "items_bytes js \<noteq> []" using js assms(2) by (cases js) auto
    ultimately show ?thesis using js n by (cases "items_bytes js") auto
  qed
qed


text \<open>The steps of the read, one after the other.\<close>

definition pre_body :: "u8 list \<Rightarrow> nat \<Rightarrow> bool" where
  "pre_body body used \<longleftrightarrow> (\<exists>is. list_all item_ok is \<and>
     (body = items_bytes is @ [DHCP_END] \<or> body = items_bytes is \<and> items_used 1 0 is = used))"

lemma take_1_tl: "Suc 0 < length xs \<Longrightarrow> take (Suc 0) (tl xs) = [xs ! Suc 0]"
  by (cases xs; cases "tl xs") auto

lemma bootcfg_blank_spec:
  "bootcfg_blank payload = Some (P, used) \<Longrightarrow> used \<le> length P \<Longrightarrow>
   length P = length payload \<and> pre_body (take (used - 1) (drop 1 P)) used"
  by (auto simp: bootcfg_blank_def wr_def pre_body_def split: if_splits Option.bind_splits
      intro!: exI [of _ "[]"] simp: drop_Suc take_1_tl)

lemma bootcfg_normalise_spec:
  assumes "bootcfg_normalise payload = Some (P, used)"
  shows "length P = length payload \<and> 2 \<le> used \<and> used \<le> length P \<and> pre_body (take (used - 1) (drop 1 P)) used"
  using assms bootcfg_blank_spec [of payload P used] verify_body [of payload used]
  by (auto simp: bootcfg_normalise_def pre_body_def split: Option.bind_splits sum.splits if_splits)

lemma bootcfg_terminate_spec:
  assumes "bootcfg_terminate P used = Some (Q, u)" "2 \<le> used" "used \<le> length P" "pre_body (take (used - 1) (drop 1 P)) used"
  shows "length Q = length P \<and> 2 \<le> u \<and> u \<le> length Q \<and> good_body (take (u - 1) (drop 1 Q))"
proof -
  define body where "body = take (used - 1) (drop 1 P)"
  have len: "length body = used - 1" using assms by (simp add: body_def)
  obtain "is" where ok: "list_all item_ok is"
    and is_body: "body = items_bytes is @ [DHCP_END] \<or> body = items_bytes is \<and> items_used 1 0 is = used"
    using assms(4) by (auto simp: pre_body_def body_def)
  have last: "P ! (used - 1) = last body" and ne: "body \<noteq> []"
    using assms(2,3) by (auto simp: body_def last_conv_nth numeral_2_eq_2 Suc_diff_Suc)
  show ?thesis
  proof (cases "P ! (used - 1) = DHCP_END")
    case True
    then have "Q = P" "u = used" using assms by (auto simp: bootcfg_terminate_def)
    moreover have "good_body body"
      using ok is_body True last ne len assms by (auto simp: good_body_def)
    ultimately show ?thesis using assms by (simp add: body_def)
  next
    case not_end: False
    with is_body last have body: "body = items_bytes is" by auto
    show ?thesis
    proof (cases "used + 1 > length P")
      case True
      moreover have "P \<noteq> []" "Suc 0 < length P" using assms(2,3) by auto
      ultimately have "Q = P[0 := 0, 1 := DHCP_END]" "u = 2"
        using assms not_end by (auto simp: bootcfg_terminate_def numeral_2_eq_2)
      moreover have "take 1 (drop 1 Q) = [DHCP_END]"
        using assms calculation by (simp add: take_Suc hd_drop_conv_nth)
      moreover have "good_body [DHCP_END]" by (auto simp: good_body_def intro!: exI [of _ "[]"])
      ultimately show ?thesis using assms by simp
    next
      case False
      have Q: "Q = P[used := DHCP_END]" "u = used + 1"
        using assms not_end False by (auto simp: bootcfg_terminate_def)
      obtain m where m: "used = Suc m" using assms(2) by (cases used) auto
      with Q False have "take (u - 1) (drop 1 Q) = body @ [DHCP_END]"
        by (simp add: body_def take_Suc_conv_app_nth drop_update_swap)
      with ok body have "good_body (take (u - 1) (drop 1 Q))" by (auto simp: good_body_def)
      then show ?thesis using assms False Q by simp
    qed
  qed
qed

lemma bootcfg_deliver_spec:
  assumes "bootcfg_deliver Q u data = Some (RC_OK, out)" "2 \<le> u" "u \<le> length Q" "good_body (take (u - 1) (drop 1 Q))"
  shows "length out = length data \<and> bootcfg_valid out u"
proof -
  define body where "body = take (u - 1) (drop 1 Q)"
  define k where "k = length data - u"
  have len: "length body = u - 1" using assms by (simp add: body_def)
  have fits: "u \<le> length data" using assms by (auto simp: bootcfg_deliver_def Let_def split: if_splits)
  have Q: "Q ! 0 # body = take u Q"
    using assms by (cases Q; cases u) (simp_all add: body_def)
  define data' where "data' = Q ! 0 # body @ replicate k 0"
  have len': "length data' = length data" using fits len assms by (simp add: data'_def k_def)
  have "(do { d \<leftarrow> wr_range data 0 (if length Q > length data then take u Q else Q);
      if u < length data then memset_buf d u 0 (length data - u) else Some d }) = Some data'"
    using assms fits Q unfolding data'_def k_def
    by (auto simp: wr_range_def memset_buf_def append_Cons [symmetric] simp del: append_Cons)
  then obtain d where "wr_range data 0 (if length Q > length data then take u Q else Q) = Some d"
    and "(if u < length data then memset_buf d u 0 (length data - u) else Some d) = Some data'"
    by (auto split: Option.bind_splits)
  moreover have "efx_bootcfg_csum data' (length data) = Some (csum_bytes 0 data')" "data \<noteq> []"
    using efx_bootcfg_csum_all [of data'] len' fits assms(2) by auto
  ultimately have "bootcfg_deliver Q u data = Some (RC_OK, data'[0 := data' ! 0 - csum_bytes 0 data'])"
    using fits len' by (simp add: bootcfg_deliver_def Let_def)
  then have out: "out = (Q ! 0 - csum_bytes 0 data') # body @ replicate k 0"
    using assms by (simp add: data'_def)
  have "csum_bytes 0 (data'[0 := data' ! 0 - csum_bytes 0 data']) = 0"
    by (rule bootcfg_csum.csum_fix) (simp add: data'_def)
  then have "csum_bytes 0 out = 0" by (simp add: out data'_def)
  then show ?thesis
    using bootcfg_valid_body [of body "Q ! 0 - csum_bytes 0 data'" k] assms len len' out
    by (simp add: body_def data'_def)
qed

lemma bootcfg_read_finish_valid:
  assumes "bootcfg_read_finish payload data = Some (RC_OK, out)"
  shows "length out = length data \<and> (\<exists>used. bootcfg_valid out used)"
proof -
  obtain P used where P: "bootcfg_normalise payload = Some (P, used)"
    and "bootcfg_terminate P used \<bind> (\<lambda>(Q, u). bootcfg_deliver Q u data) = Some (RC_OK, out)"
    using assms by (auto simp: bootcfg_read_finish_def split: Option.bind_splits)
  then obtain Q u where Q: "bootcfg_terminate P used = Some (Q, u)" and out: "bootcfg_deliver Q u data = Some (RC_OK, out)"
    by (auto split: Option.bind_splits)
  from bootcfg_normalise_spec [OF P] have "length Q = length P \<and> 2 \<le> u \<and> u \<le> length Q \<and> good_body (take (u - 1) (drop 1 Q))"
    using bootcfg_terminate_spec [OF Q] by blast
  with bootcfg_deliver_spec [OF out] show ?thesis by blast
qed

text \<open>It cannot fail on a sector of two bytes or more.\<close>

lemma bootcfg_walk_total: "sz \<le> length data \<Longrightarrow> bootcfg_walk data sz offset used \<noteq> None"
proof (induction data sz offset used rule: bootcfg_walk.induct)
  case (1 data sz offset used)
  show ?case
  proof (cases "offset < sz")
    case True
    then have tag: "rd data offset = Some (data ! offset)" using "1.prems" by simp
    show ?thesis
      using "1.IH"(1) [OF True tag] "1.IH"(2) [OF True tag] "1.prems" True
      by (subst bootcfg_walk.simps) auto
  qed (simp add: walk_stop)
qed

lemma efx_bootcfg_verify_total: "efx_bootcfg_verify data (length data) \<noteq> None"
  using bootcfg_walk_total [of "length data" data 1 0] efx_bootcfg_csum_all [of data]
  by (auto simp: efx_bootcfg_verify_def split: sum.splits)

end
