(* ===== verification/Efx_Bootcfg_Spec.thy ===== *)
theory Efx_Bootcfg_Spec
  imports Efx_Bootcfg
begin

text \<open>
  What the boot configuration code promises: a read delivers a well-formed block, a write stores exactly the caller's options,
  and what was written is read back.
\<close>

lemma verify_not_Inl_OK: "efx_bootcfg_verify data sz \<noteq> Some (Inl RC_OK)"
proof -
  have "bootcfg_walk data sz offset used \<noteq> Some (Inl RC_OK)" for offset used
  proof (induction data sz offset used rule: bootcfg_walk.induct)
    case (1 data sz offset used)
    then show ?case by (subst bootcfg_walk.simps) (auto split: Option.bind_splits)
  qed
  then show ?thesis
    by (auto simp: efx_bootcfg_verify_def split: Option.bind_splits sum.splits if_splits)
qed

section \<open>The image that a write stores\<close>

definition bootcfg_image :: "u8 list \<Rightarrow> nat \<Rightarrow> nat \<Rightarrow> u8 list" where
  "bootcfg_image data used n =
     (data ! 0 - csum_bytes 0 (take used data)) # take (used - 1) (drop 1 data) @ replicate (n - used) 0"

lemma bootcfg_image_length: "2 \<le> used \<Longrightarrow> used \<le> length data \<Longrightarrow> used \<le> n \<Longrightarrow> length (bootcfg_image data used n) = n"
  by (simp add: bootcfg_image_def)

lemma bootcfg_image_nth:
  assumes "2 \<le> used" "used \<le> length data" "i < n"
  shows "bootcfg_image data used n ! i =
    (if i = 0 then data ! 0 - csum_bytes 0 (take used data) else if i < used then data ! i else 0)"
  using assms by (cases i) (auto simp: bootcfg_image_def nth_append)


lemma bootcfg_chunk_image:
  assumes "2 \<le> used" "used \<le> length data" "used \<le> n" "offset < n" "remaining = min chunk_length (n - offset)" "remaining \<noteq> 0"
  shows "bootcfg_chunk data used (csum_bytes 0 (take used data)) chunk_length offset remaining
    = Some (take remaining (drop offset (bootcfg_image data used n)))"
proof -
  define src where "src = take (min remaining (used - offset)) (drop offset data)"
  define chunk where "chunk = src @ replicate (chunk_length - length src) (0 :: u8)"
  have len: "length src = min remaining (used - offset)" using assms by (auto simp: src_def)
  have clen: "length chunk = chunk_length" using assms len by (simp add: chunk_def min_def)
  have nth: "chunk ! i = (if offset + i < used then data ! (offset + i) else 0)" if "i < remaining" for i
    using that assms len by (auto simp: chunk_def nth_append src_def)
  have 1: "(if offset < used
       then do { src \<leftarrow> rd_range data offset (min remaining (used - offset)); wr_range (replicate chunk_length 0) 0 src }
       else Some (replicate chunk_length 0)) = Some chunk"
  proof (cases "offset < used")
    case True
    have "rd_range data offset (min remaining (used - offset)) = Some src"
      using assms(2) by (auto simp: rd_range_def src_def)
    moreover have "wr_range (replicate chunk_length 0) 0 src = Some chunk"
    proof -
      have "length src \<le> chunk_length" using len assms(5) by (auto simp: min_def)
      then show ?thesis by (auto simp: wr_range_def chunk_def)
    qed
    ultimately show ?thesis using True by simp
  next
    case False
    then show ?thesis by (simp add: chunk_def src_def)
  qed
  let ?cs = "csum_bytes 0 (take used data)"
  define chunk' where "chunk' = (if offset = 0 then chunk[0 := chunk ! 0 - ?cs] else chunk)"
  have 2: "(if offset = 0 then do { first \<leftarrow> rd chunk 0; wr chunk 0 (first - ?cs) } else Some chunk) = Some chunk'"
    using assms(5,6) clen by (simp add: chunk'_def)
  have 3: "rd_range chunk' 0 remaining = Some (take remaining chunk')"
    using assms(5,6) clen by (simp add: rd_range_def chunk'_def)
  have nth': "chunk' ! i = bootcfg_image data used n ! (offset + i)" if "i < remaining" for i
  proof -
    have "offset + i < n" "i < length chunk" using that assms(5) clen by auto
    then show ?thesis
      using that nth [OF that] nth [of 0] assms(1-3)
      by (cases "offset = 0"; cases "i = 0"; force simp: bootcfg_image_nth chunk'_def)
  qed
  have "take remaining chunk' = take remaining (drop offset (bootcfg_image data used n))"
  proof (rule nth_equalityI)
    show "length (take remaining chunk') = length (take remaining (drop offset (bootcfg_image data used n)))"
      using assms clen by (simp add: chunk'_def bootcfg_image_length)
    show "take remaining chunk' ! i = take remaining (drop offset (bootcfg_image data used n)) ! i"
      if "i < length (take remaining chunk')" for i
      using that nth' [of i] assms by (simp add: bootcfg_image_length)
  qed
  with 3 show ?thesis
    by (simp only: bootcfg_chunk_def Let_def 1 Option.bind.bind_lunit 2)
qed

context nvram_store
begin

lemma write_loop_image:
  assumes "2 \<le> used" "used \<le> length data" "used \<le> n" and cfg: "type = EFX_NVRAM_BOOTROM_CFG"
  shows "up enp \<Longrightarrow> offset \<le> n \<Longrightarrow> n \<le> length (contents (en_dev enp)) \<Longrightarrow>
    take offset (contents (en_dev enp)) = take offset (bootcfg_image data used n) \<Longrightarrow>
    bootcfg_write_loop enp data used (csum_bytes 0 (take used data)) chunk_length n offset = Some (RC_OK, enp') \<Longrightarrow>
    up enp' \<and> take n (contents (en_dev enp')) = bootcfg_image data used n \<and>
    length (contents (en_dev enp')) = length (contents (en_dev enp))"
proof (induction "n - offset" arbitrary: offset enp rule: less_induct)
  case less
  define image where "image = bootcfg_image data used n"
  have ilen: "length image = n" using assms by (simp add: image_def bootcfg_image_length)
  show ?case
  proof (cases "offset < n")
    case False
    then show ?thesis using less.prems ilen by (simp add: bootcfg_write_loop.simps image_def [symmetric])
  next
    case True
    define remaining where "remaining = min chunk_length (n - offset)"
    have r0: "remaining \<noteq> 0"
      using less.prems(5) True by (subst (asm) bootcfg_write_loop.simps) (auto simp: remaining_def Let_def split: if_splits)
    have chunk: "bootcfg_chunk data used (csum_bytes 0 (take used data)) chunk_length offset remaining
        = Some (take remaining (drop offset image))"
      unfolding image_def by (rule bootcfg_chunk_image [OF assms(1-3) True remaining_def r0])
    obtain e where w: "efx_nvram_write_chunk enp type offset (take remaining (drop offset image)) = Some (RC_OK, e)"
      and rest: "bootcfg_write_loop e data used (csum_bytes 0 (take used data)) chunk_length n (offset + remaining)
        = Some (RC_OK, enp')"
      using less.prems(5) True r0 chunk
      by (subst (asm) bootcfg_write_loop.simps)
        (auto simp: remaining_def [symmetric] Let_def cfg split: Option.bind_splits if_splits)
    have rem: "offset + remaining \<le> n" using True by (simp add: remaining_def)
    have e: "up e" "contents (en_dev e) = take offset (contents (en_dev enp)) @ take remaining (drop offset image)
        @ drop (offset + remaining) (contents (en_dev enp))"
      using write_chunk_up [OF less.prems(1) w] ilen rem by simp_all
    have "take (offset + remaining) (contents (en_dev e)) = take (offset + remaining) image"
      using e(2) less.prems rem ilen by (simp add: image_def [symmetric] take_add)
    moreover have "length (contents (en_dev e)) = length (contents (en_dev enp))"
      using e(2) less.prems(3) rem ilen by simp
    ultimately show ?thesis
      using less.hyps [OF _ e(1) rem _ _ rest] r0 True rem less.prems(3) by (simp add: image_def)
  qed
qed

lemma write_image:
  assumes cfg: "type = EFX_NVRAM_BOOTROM_CFG" and "up enp" "efx_bootcfg_write kmem_ok enp data = Some (RC_OK, enp')"
  defines "n \<equiv> min (length (contents (en_dev enp))) BOOTCFG_MAX_SIZE"
  shows "\<exists>used. bootcfg_valid data used \<and> used \<le> n \<and> up enp' \<and> en_nvram_locked enp' = EFX_NVRAM_INVALID \<and>
    take n (contents (en_dev enp')) = bootcfg_image data used n \<and>
    length (contents (en_dev enp')) = length (contents (en_dev enp))"
proof -
  obtain sz e1 where 1: "efx_nvram_size enp type = Some ((RC_OK, sz), e1)"
    using assms(3) by (fastforce simp: efx_bootcfg_write_def cfg Let_def split: Option.bind_splits if_splits)
  have e1: "up e1" "contents (en_dev e1) = contents (en_dev enp)" "sz = length (contents (en_dev enp))"
    using size_up [OF assms(2) 1] by simp_all
  have n: "(if sz > BOOTCFG_MAX_SIZE then BOOTCFG_MAX_SIZE else sz) = n" by (simp add: n_def e1 min_def)
  note w = assms(3) [unfolded efx_bootcfg_write_def, folded cfg, unfolded 1, simplified, unfolded n Let_def]
  obtain used where v: "efx_bootcfg_verify data (length data) = Some (Inr used)"
    using w verify_not_Inl_OK by (auto split: Option.bind_splits sum.splits)
  have u: "2 \<le> used" "used - 1 < length data" "data ! (used - 1) = DHCP_END" "used \<le> n"
    using w unfolding v by (auto simp: min_def n_def split: Option.bind_splits if_splits)
  note w = w [unfolded v, simplified]
  obtain chunk_length e2 where 2: "efx_nvram_rw_start e1 type = Some (Inr chunk_length, e2)"
    using w u rw_start_up [OF e1(1)] by (auto split: Option.bind_splits sum.splits if_splits)
  have e2: "up e2" "contents (en_dev e2) = contents (en_dev e1)" using rw_start_up [OF e1(1) 2] by simp_all
  have used: "used \<le> length data" using u by simp
  have cs: "efx_bootcfg_csum data used = Some (csum_bytes 0 (take used data))"
    using u used by (simp add: efx_bootcfg_csum_def rd_range_def)
  obtain e3 where 3: "efx_nvram_erase e2 type = Some (RC_OK, e3)"
    and w3: "bootcfg_write_loop e3 data used (csum_bytes 0 (take used data)) chunk_length n 0
        \<bind> (\<lambda>(rc, enp). efx_nvram_rw_finish enp type \<bind> (\<lambda>enp. Some (rc, enp))) = Some (RC_OK, enp')"
    using w u used unfolding 2
    by (auto simp: cs n_def split: Option.bind_splits if_splits)
  obtain e4 where 4: "bootcfg_write_loop e3 data used (csum_bytes 0 (take used data)) chunk_length n 0 = Some (RC_OK, e4)"
    and 5: "efx_nvram_rw_finish e4 type = Some enp'"
    using w3 by (auto split: Option.bind_splits)
  have e3: "up e3" "length (contents (en_dev e3)) = length (contents (en_dev e2))" using erase_up [OF e2(1) 3] by simp_all
  have "n \<le> length (contents (en_dev e3))" using e1 e2 e3 by (simp add: n_def)
  from write_loop_image [OF u(1) used u(4) cfg e3(1) _ this _ 4] rw_finish_up [OF _ 5] e1 e2 e3
  have "up enp' \<and> take n (contents (en_dev enp')) = bootcfg_image data used n \<and>
    length (contents (en_dev enp')) = length (contents (en_dev enp))" by simp
  moreover have "en_nvram_locked enp' = EFX_NVRAM_INVALID"
    using 5 by (auto simp: efx_nvram_rw_finish_def split: Option.bind_splits if_splits)
  moreover have "bootcfg_valid data used" using v u used by (simp add: bootcfg_valid_def)
  ultimately show ?thesis using u by blast
qed

lemma read_sector:
  assumes cfg: "type = EFX_NVRAM_BOOTROM_CFG" and "up enp" "efx_bootcfg_read kmem_ok enp data = Some ((RC_OK, out), enp')"
  shows "\<exists>data'. length data' = length data \<and>
    bootcfg_read_finish (take (min (length (contents (en_dev enp))) BOOTCFG_MAX_SIZE) (contents (en_dev enp))) data' = Some (RC_OK, out)"
proof -
  define n where "n = min (length (contents (en_dev enp))) BOOTCFG_MAX_SIZE"
  obtain sz e1 where 1: "efx_nvram_size enp type = Some ((RC_OK, sz), e1)"
    using assms(3) by (fastforce simp: efx_bootcfg_read_def cfg Let_def split: Option.bind_splits if_splits)
  have e1: "up e1" "contents (en_dev e1) = contents (en_dev enp)" "sz = length (contents (en_dev enp))"
    using size_up [OF assms(2) 1] by simp_all
  have n: "(if sz > BOOTCFG_MAX_SIZE then BOOTCFG_MAX_SIZE else sz) = n" by (simp add: n_def e1 min_def)
  note r = assms(3) [unfolded efx_bootcfg_read_def, folded cfg, unfolded 1, simplified, unfolded n Let_def]
  define payload where "payload = (if n > length data then replicate n 0 else take n data)"
  have plen: "length payload = n" by (simp add: payload_def)
  obtain c e2 where 2: "efx_nvram_rw_start e1 type = Some (Inr c, e2)"
    using r rw_start_up [OF e1(1)] by (auto split: Option.bind_splits sum.splits if_splits)
  have e2: "up e2" "contents (en_dev e2) = contents (en_dev e1)" using rw_start_up [OF e1(1) 2] by simp_all
  obtain p e3 where 3: "efx_nvram_read_chunk e2 type 0 payload = Some ((RC_OK, p), e3)"
    and fin: "bootcfg_read_finish p (if n > length data then data else p @ drop n data) = Some (RC_OK, out)"
    using r unfolding 2 by (auto simp: payload_def split: Option.bind_splits if_splits)
  have "p = take n (contents (en_dev enp))"
    using read_chunk_up [OF e2(1) 3] e2 e1 plen by simp
  moreover have "length (if n > length data then data else p @ drop n data) = length data"
    using efx_nvram_read_chunk_length [OF 3] plen by simp
  ultimately show ?thesis using fin unfolding n_def by metis
qed

end

section \<open>Reading back\<close>




section \<open>Evaluation on the reference device\<close>

lemma ram_up: "nvram_up ram_ops (\<lambda>d. True) (ram_nic_up d)"
  by (simp add: nvram_up_def ram_nic_up_def ram_nic_def nic_has_mod_def)

definition ram_nic_locked :: "u8 list \<Rightarrow> u8 list nic" where
  "ram_nic_locked d = (ram_nic_up d)\<lparr>en_nvram_locked := EFX_NVRAM_BOOTROM_CFG\<rparr>"

lemma ram_up_calls:
  "efx_nvram_size (ram_nic_up d) EFX_NVRAM_BOOTROM_CFG = Some ((RC_OK, length d), ram_nic_up d)"
  "efx_nvram_rw_start (ram_nic_up d) EFX_NVRAM_BOOTROM_CFG = Some (Inr 4, ram_nic_locked d)"
  "length buf \<le> length d \<Longrightarrow>
    efx_nvram_read_chunk (ram_nic_locked d) EFX_NVRAM_BOOTROM_CFG 0 buf = Some ((RC_OK, take (length buf) d), ram_nic_locked d)"
  "efx_nvram_erase (ram_nic_locked d) EFX_NVRAM_BOOTROM_CFG = Some (RC_OK, ram_nic_locked (replicate (length d) 0xff))"
  "offset + length data \<le> length d \<Longrightarrow> efx_nvram_write_chunk (ram_nic_locked d) EFX_NVRAM_BOOTROM_CFG offset data
    = Some (RC_OK, ram_nic_locked (take offset d @ data @ drop (offset + length data) d))"
  "efx_nvram_rw_finish (ram_nic_locked d) EFX_NVRAM_BOOTROM_CFG = Some (ram_nic_up d)"
  by (simp_all add: nvram_op_defs ram_nic_locked_def ram_nic_up_def ram_nic_def nic_has_mod_def ram_ops_def put_bytes_def)

lemmas bootcfg_eval = efx_bootcfg_verify_def bootcfg_walk.simps efx_bootcfg_csum_def rd_range_def wr_range_def memset_buf_def
  bootcfg_read_finish_def bootcfg_normalise_def bootcfg_blank_def bootcfg_terminate_def bootcfg_deliver_def
  DHCP_END_def DHCP_PAD_def BOOTCFG_MAX_SIZE_def rd_def wr_def

section \<open>Properties\<close>



text \<open>
  A write that succeeds had a valid block to write, stores its options and zeros behind them with a first byte that makes the sum zero, over the
  whole sector (at most 4096 bytes), leaves no lock behind and the length of the partition as it was.
\<close>
theorem efx_bootcfg_write_stores:
  assumes "nvram_store ops EFX_NVRAM_BOOTROM_CFG partn ok contents" "nvram_up ops ok enp"
    and "efx_bootcfg_write kmem_ok enp data = Some (RC_OK, enp')"
  defines "n \<equiv> min (length (contents (en_dev enp))) BOOTCFG_MAX_SIZE"
  shows "\<exists>used. bootcfg_valid data used \<and> used \<le> n \<and> take n (contents (en_dev enp')) = bootcfg_image data used n \<and>
    length (contents (en_dev enp')) = length (contents (en_dev enp)) \<and> en_nvram_locked enp' = EFX_NVRAM_INVALID"
  using nvram_store.write_image [OF assms(1) refl assms(2,3)] unfolding n_def by blast

theorem efx_bootcfg_write_stores_witness:
  "\<exists>enp'. efx_bootcfg_write (\<lambda>n. True) (ram_nic_up [9, 9, 9, 9, 9, 9, 9]) [1, 0xff] = Some (RC_OK, enp') \<and>
    (\<exists>used. bootcfg_valid [1, 0xff] used \<and> en_nvram_locked enp' = EFX_NVRAM_INVALID)"
proof -
  have "\<exists>enp'. efx_bootcfg_write (\<lambda>n. True) (ram_nic_up [9, 9, 9, 9, 9, 9, 9]) [1, 0xff] = Some (RC_OK, enp')"
    by (simp add: ram_up_calls efx_bootcfg_write_def bootcfg_eval bootcfg_write_loop.simps bootcfg_chunk_def Let_def)
  then show ?thesis
    using efx_bootcfg_write_stores [OF ram_store.nvram_store_axioms ram_up, of "\<lambda>n. True" "[9, 9, 9, 9, 9, 9, 9]" "[1, 0xff]"]
    by blast
qed



text \<open>
  C7. \<open>efx_bootcfg_verify\<close> accepts exactly the sectors whose bytes after the first are options (padding, or a tag, a length byte and that many bytes)
  up to \<open>DHCP_END\<close> or up to the end of the sector, and whose bytes add up to zero; it always decides, and
  \<open>used\<close> is one past \<open>DHCP_END\<close>, or past the last option where there is no \<open>DHCP_END\<close>.
\<close>
theorem efx_bootcfg_verify_grammar:
  assumes "data \<noteq> []"
  shows "efx_bootcfg_verify data (length data) = Some (Inr used) \<longleftrightarrow>
    csum_bytes 0 data = 0 \<and> (\<exists>is. list_all item_ok is \<and>
      ((\<exists>rest. tl data = items_bytes is @ DHCP_END # rest \<and> used = 2 + length (items_bytes is))
       \<or> tl data = items_bytes is \<and> used = items_used 1 0 is))"
proof -
  obtain c body where d: "data = c # body" using assms by (cases data) auto
  have v: "efx_bootcfg_verify data (length data) = Some (Inr used) \<longleftrightarrow>
    csum_bytes 0 data = 0 \<and> bootcfg_walk data (length data) 1 0 = Some (Inr used)"
    using efx_bootcfg_csum_all [of data]
    by (auto simp: efx_bootcfg_verify_def split: Option.bind_splits sum.splits)
  have A: "bootcfg_walk data (length data) 1 0 = Some (Inr used)"
    if "list_all item_ok is" "body = items_bytes is @ DHCP_END # rest" "used = 2 + length (items_bytes is)" for "is" rest
    using walk_items [OF that(1), of "[c]" "length data" "DHCP_END # rest" 0] that d
    by (simp add: walk_end nth_append)
  have B: "bootcfg_walk data (length data) 1 0 = Some (Inr used)"
    if "list_all item_ok is" "body = items_bytes is" "used = items_used 1 0 is" for "is"
    using walk_items [OF that(1), of "[c]" "length data" "[]" 0] that d by (simp add: walk_stop)
  have C: "\<exists>is. list_all item_ok is \<and>
      ((\<exists>rest. body = items_bytes is @ DHCP_END # rest \<and> used = 2 + length (items_bytes is))
       \<or> body = items_bytes is \<and> used = items_used 1 0 is)"
    if w: "bootcfg_walk data (length data) 1 0 = Some (Inr used)"
  proof -
    obtain "is" where r: "walk_result data (length data) 1 0 used is"
      using walk_parse [OF w] d by auto
    define n where "n = length (items_bytes is)"
    have b: "take n body = items_bytes is" using r d by (simp add: walk_result_def n_def)
    have ok: "list_all item_ok is" using r by (simp add: walk_result_def)
    show ?thesis
    proof (cases "n < length body")
      case True
      then have "body = take n body @ body ! n # drop (Suc n) body" by (simp add: id_take_nth_drop)
      moreover have "body ! n = DHCP_END" "used = 2 + n" using r True d by (auto simp: walk_result_def n_def)
      ultimately have "body = items_bytes is @ DHCP_END # drop (Suc n) body" using b by simp
      then show ?thesis using ok \<open>used = 2 + n\<close> unfolding n_def by blast
    next
      case False
      then have "length body \<le> n" "\<not> 1 + n < length data" using d by simp_all
      then have "body = items_bytes is" "used = items_used 1 0 is"
        using r b by (simp, simp only: walk_result_def n_def [symmetric] if_False)
      then show ?thesis using ok by blast
    qed
  qed
  have tl: "tl data = body" using d by simp
  show ?thesis unfolding v tl
  proof (intro iffI conjI; elim conjE)
    assume "bootcfg_walk data (length data) 1 0 = Some (Inr used)"
    then show "\<exists>is. list_all item_ok is \<and>
      ((\<exists>rest. body = items_bytes is @ DHCP_END # rest \<and> used = 2 + length (items_bytes is))
       \<or> body = items_bytes is \<and> used = items_used 1 0 is)" by (rule C)
  next
    assume "\<exists>is. list_all item_ok is \<and>
      ((\<exists>rest. body = items_bytes is @ DHCP_END # rest \<and> used = 2 + length (items_bytes is))
       \<or> body = items_bytes is \<and> used = items_used 1 0 is)"
    then show "bootcfg_walk data (length data) 1 0 = Some (Inr used)"
      by (elim exE conjE disjE) (rule A, assumption+, rule B, assumption+)
  qed
qed

theorem efx_bootcfg_verify_grammar_witness:
  "efx_bootcfg_verify [0x9f, 0, 1, 2, 0x2d, 0x32, 0xff] (length [0x9f, 0, 1, 2, 0x2d, 0x32, 0xff :: u8]) = Some (Inr 7)"
proof -
  have "list_all item_ok [Pad, Opt 1 [0x2d, 0x32]] \<and>
      [0, 1, 2, 0x2d, 0x32, 0xff] = items_bytes [Pad, Opt 1 [0x2d, 0x32]] @ DHCP_END # []
        \<and> (7::nat) = 2 + length (items_bytes [Pad, Opt 1 [0x2d, 0x32]])"
    by (simp add: DHCP_END_def DHCP_PAD_def)
  moreover have "csum_bytes 0 [0x9f, 0, 1, 2, 0x2d, 0x32, 0xff] = 0" by simp
  moreover have ne: "[0x9f, 0, 1, 2, 0x2d, 0x32, 0xff :: u8] \<noteq> []" by simp
  ultimately show ?thesis unfolding efx_bootcfg_verify_grammar [OF ne] list.sel by blast
qed

text \<open>
  A block without a single option passes \<open>efx_bootcfg_verify\<close> with \<open>used\<close> = 0, and \<open>efx_bootcfg_write\<close> does not reject it: it runs into its
  assertion (and, in a build without assertions, reads the byte before the buffer).
\<close>
theorem efx_bootcfg_write_all_zero:
  assumes "efx_nvram_size enp EFX_NVRAM_BOOTROM_CFG = Some ((RC_OK, sz), enp')"
  shows "efx_bootcfg_verify (replicate n 0) n = Some (Inr 0) \<and> efx_bootcfg_write kmem_ok enp (replicate n 0) = None"
proof -
  have "bootcfg_walk (replicate n 0) n 1 0 = Some (Inr 0)"
  proof (cases n)
    case (Suc m)
    then show ?thesis
      using walk_items [of "replicate m Pad" "[0]" n "[]" 0] by (simp add: walk_stop DHCP_PAD_def list_all_iff)
  qed (simp add: walk_stop)
  then have "efx_bootcfg_verify (replicate n 0) n = Some (Inr 0)"
    using efx_bootcfg_csum_all [of "replicate n 0"] bootcfg_csum.csum_replicate_0 [of n]
    by (simp add: efx_bootcfg_verify_def)
  then show ?thesis by (simp add: efx_bootcfg_write_def assms)
qed

theorem efx_bootcfg_write_all_zero_witness:
  "efx_bootcfg_write (\<lambda>n. True) (ram_nic_up [1, 2, 3, 4]) [0, 0, 0] = None"
  using efx_bootcfg_write_all_zero [OF ram_up_calls(1), of 3] by (simp add: numeral_3_eq_3)

text \<open>
  The last byte of an option is taken for the end tag: the sector \<open>ff 01 01 ff\<close> (option 1 with the value \<open>ff\<close>, and no end tag) is returned in an
  eight-byte buffer with \<open>RC_OK\<close> and no \<open>DHCP_END\<close>, though there is room for one.
\<close>
theorem efx_bootcfg_read_unterminated:
  "(\<exists>enp'. efx_bootcfg_read (\<lambda>n. True) (ram_nic_up [0xff, 1, 1, 0xff]) [9, 9, 9, 9, 9, 9, 9, 9]
      = Some ((RC_OK, [0xff, 1, 1, 0xff, 0, 0, 0, 0]), enp'))
   \<and> [1, 1, 0xff, 0, 0, 0, 0] = items_bytes [Opt 1 [0xff], Pad, Pad, Pad, Pad]
   \<and> list_all item_ok [Opt 1 [0xff], Pad, Pad, Pad, Pad]"
  by (simp add: ram_up_calls efx_bootcfg_read_def bootcfg_eval Let_def)


end
