(* ===== verification/Efx_Tlv.thy ===== *)
theory Efx_Tlv
  imports Efx_Interfaces
begin

text \<open>
  The TLV partition format of EF10 controllers, \<open>src/common/ef10_nvram.c\<close> from \<open>tlv_init_block\<close> to
  \<open>tlv_update_partition_len_and_cks\<close>. A buffer is the list of its 32-bit words in host order, which is the
  order of the flash on the little-endian hosts of the driver. Pointers into it are word indices;
  \<open>NULL\<close> is \<open>None\<close>. Comparisons such as \<open>current > limit - 2\<close> are written \<open>current + 2 > limit\<close>, so that they mean on
  indices what they mean on addresses.
\<close>

section \<open>Words and bytes\<close>

definition TLV_TAG_END :: u32 where "TLV_TAG_END = 0xeeeeeeee"
definition TLV_TAG_PARTITION_HEADER :: u32 where "TLV_TAG_PARTITION_HEADER = 0xef10da7a"
definition TLV_TAG_PARTITION_TRAILER :: u32 where "TLV_TAG_PARTITION_TRAILER = 0xef101a57"
definition TLV_TAG_LICENSE :: u32 where "TLV_TAG_LICENSE = 0x30800000"

section \<open>The cursor\<close>

record tlv_cursor =
  tc_block :: nat
  tc_current :: "nat option"
  tc_end :: "nat option"
  tc_limit :: nat

definition tlv_tag :: "u32 list \<Rightarrow> tlv_cursor \<Rightarrow> u32 option" where
  "tlv_tag mem cursor = do { current \<leftarrow> tc_current cursor; rd mem current }"

definition tlv_length :: "u32 list \<Rightarrow> tlv_cursor \<Rightarrow> nat option" where
  "tlv_length mem cursor = do {
     tag \<leftarrow> tlv_tag mem cursor;
     if tag = TLV_TAG_END then Some 0
     else do { current \<leftarrow> tc_current cursor; dword \<leftarrow> rd mem (current + 1); Some (unat dword) } }"

text \<open>The outer option is a failed access, the inner one the C result, which may be \<open>NULL\<close>.\<close>

definition tlv_value :: "u32 list \<Rightarrow> tlv_cursor \<Rightarrow> nat option option" where
  "tlv_value mem cursor = do {
     tag \<leftarrow> tlv_tag mem cursor;
     Some (if tag = TLV_TAG_END then None else map_option (\<lambda>current. current + 2) (tc_current cursor)) }"

definition tlv_item :: "u32 list \<Rightarrow> tlv_cursor \<Rightarrow> nat option option" where
  "tlv_item mem cursor = do {
     tag \<leftarrow> tlv_tag mem cursor;
     Some (if tag = TLV_TAG_END then None else tc_current cursor) }"

definition TLV_DWORD_COUNT :: "nat \<Rightarrow> nat" where
  "TLV_DWORD_COUNT n = 1 + 1 + (n + 4 - 1) div 4"

definition tlv_next_item_ptr :: "u32 list \<Rightarrow> tlv_cursor \<Rightarrow> nat option" where
  "tlv_next_item_ptr mem cursor = do {
     n \<leftarrow> tlv_length mem cursor;
     current \<leftarrow> tc_current cursor;
     Some (current + TLV_DWORD_COUNT n) }"

text \<open>\<open>NULL\<close> is below every block.\<close>

definition tlv_validate_state :: "u32 list \<Rightarrow> tlv_cursor \<Rightarrow> (efx_rc \<times> tlv_cursor) option" where
  "tlv_validate_state mem cursor =
     (case tc_current cursor of
        None \<Rightarrow> Some (EINVAL, cursor)
      | Some current \<Rightarrow>
          if current < tc_block cursor then Some (EINVAL, cursor)
          else if current > tc_limit cursor then Some (EINVAL, cursor)
          else do {
            tag \<leftarrow> tlv_tag mem cursor;
            if tag \<noteq> TLV_TAG_END then
              if current + 2 > tc_limit cursor then Some (EFAULT, cursor\<lparr>tc_current := None\<rparr>)
              else do {
                next \<leftarrow> tlv_next_item_ptr mem cursor;
                if next + 1 > tc_limit cursor then Some (EFAULT, cursor\<lparr>tc_current := None\<rparr>)
                else Some (RC_OK, cursor) }
            else Some (RC_OK, cursor) })"

definition tlv_advance :: "u32 list \<Rightarrow> tlv_cursor \<Rightarrow> (efx_rc \<times> tlv_cursor) option" where
  "tlv_advance mem cursor = do {
     (rc, cursor) \<leftarrow> tlv_validate_state mem cursor;
     if rc \<noteq> RC_OK then Some (rc, cursor)
     else if tc_current cursor = tc_end cursor then Some (ENOENT, cursor\<lparr>tc_current := None\<rparr>)
     else do {
       next \<leftarrow> tlv_next_item_ptr mem cursor;
       tlv_validate_state mem (cursor\<lparr>tc_current := Some next\<rparr>) } }"

definition tlv_rewind :: "u32 list \<Rightarrow> tlv_cursor \<Rightarrow> (efx_rc \<times> tlv_cursor) option" where
  "tlv_rewind mem cursor = tlv_validate_state mem (cursor\<lparr>tc_current := Some (tc_block cursor)\<rparr>)"

text \<open>What a validated position guarantees, and that advancing goes forward: the search ends.\<close>

definition tlv_pos_ok :: "u32 list \<Rightarrow> tlv_cursor \<Rightarrow> bool" where
  "tlv_pos_ok mem cursor \<longleftrightarrow> (\<exists>current. tc_current cursor = Some current \<and>
     tc_block cursor \<le> current \<and> current \<le> tc_limit cursor \<and> current < length mem \<and>
     (mem ! current = TLV_TAG_END \<or>
      current + 1 < length mem \<and> current + TLV_DWORD_COUNT (unat (mem ! (current + 1))) + 1 \<le> tc_limit cursor))"

lemma TLV_DWORD_COUNT_ge: "2 \<le> TLV_DWORD_COUNT n"
  by (simp add: TLV_DWORD_COUNT_def)

lemma tlv_tag_Some: "tc_current cursor = Some current \<Longrightarrow> tlv_tag mem cursor = rd mem current"
  by (simp add: tlv_tag_def)

lemma tlv_next_item_ptr_Some:
  assumes "tc_current cursor = Some current"
  shows "tlv_next_item_ptr mem cursor = Some next \<longleftrightarrow> current < length mem \<and>
    (if mem ! current = TLV_TAG_END then next = current + 2
     else current + 1 < length mem \<and> next = current + TLV_DWORD_COUNT (unat (mem ! (current + 1))))"
  using assms by (auto simp: tlv_next_item_ptr_def tlv_length_def tlv_tag_def TLV_DWORD_COUNT_def split: Option.bind_splits)

lemma tlv_validate_state_OK:
  "tlv_validate_state mem cursor = Some (RC_OK, cursor') \<longleftrightarrow> cursor' = cursor \<and> tlv_pos_ok mem cursor"
  by (cases "tc_current cursor")
    (auto simp: tlv_validate_state_def tlv_pos_ok_def tlv_tag_def tlv_next_item_ptr_def tlv_length_def TLV_DWORD_COUNT_def
      split: Option.bind_splits if_splits)

lemma tlv_validate_state_bounds:
  "tlv_validate_state mem cursor = Some (rc, cursor') \<Longrightarrow>
   tc_block cursor' = tc_block cursor \<and> tc_limit cursor' = tc_limit cursor \<and> tc_end cursor' = tc_end cursor"
  by (auto simp: tlv_validate_state_def split: Option.bind_splits if_splits option.splits)

lemma tlv_validate_state_total:
  "tc_limit cursor < length mem \<Longrightarrow> tlv_validate_state mem cursor \<noteq> None"
  by (auto simp: tlv_validate_state_def tlv_next_item_ptr_def tlv_length_def tlv_tag_def
      split: option.splits Option.bind_splits)

lemma tlv_advance_OK:
  assumes "tlv_advance mem cursor = Some (RC_OK, cursor')"
  shows "\<exists>current current'. tc_current cursor = Some current \<and> tc_current cursor' = Some current' \<and> current < current' \<and>
    current' \<le> tc_limit cursor \<and> tc_limit cursor' = tc_limit cursor \<and> tc_block cursor' = tc_block cursor \<and>
    tc_end cursor' = tc_end cursor \<and> tlv_pos_ok mem cursor' \<and> tlv_pos_ok mem cursor"
  using TLV_DWORD_COUNT_ge [of "unat (mem ! (the (tc_current cursor) + 1))"] assms
  by (auto simp: tlv_advance_def tlv_validate_state_OK tlv_pos_ok_def tlv_next_item_ptr_Some split: Option.bind_splits if_splits)

section \<open>Searching\<close>

function tlv_find_loop :: "u32 list \<Rightarrow> u32 \<Rightarrow> efx_rc \<times> tlv_cursor \<Rightarrow> (efx_rc \<times> tlv_cursor) option" where
  "tlv_find_loop mem tag (rc, cursor) =
     (if rc = RC_OK then do {
        t \<leftarrow> tlv_tag mem cursor;
        if t = tag then Some (rc, cursor)
        else do {
          (rc, cursor) \<leftarrow> tlv_advance mem cursor;
          tlv_find_loop mem tag (rc, cursor) } }
      else Some (rc, cursor))"
  by pat_completeness auto
termination
  by (relation "measure (\<lambda>(mem, tag, rc, cursor). if rc = RC_OK then 1 + (1 + tc_limit cursor - the (tc_current cursor)) else 0)")
    (auto dest!: tlv_advance_OK)

declare tlv_find_loop.simps [simp del]

definition tlv_find :: "u32 list \<Rightarrow> tlv_cursor \<Rightarrow> u32 \<Rightarrow> (efx_rc \<times> tlv_cursor) option" where
  "tlv_find mem cursor tag = do { r \<leftarrow> tlv_rewind mem cursor; tlv_find_loop mem tag r }"

definition tlv_init_cursor :: "u32 list \<Rightarrow> nat \<Rightarrow> nat \<Rightarrow> nat \<Rightarrow> (efx_rc \<times> tlv_cursor) option" where
  "tlv_init_cursor mem block limit current =
     tlv_validate_state mem \<lparr>tc_block = block, tc_current = Some current, tc_end = None, tc_limit = limit\<rparr>"

text \<open>
  The two variants for a block given by its size in bytes. The pointers they form are defined where the sizes and
  offsets are whole words and the block has at least one.
\<close>

definition tlv_init_cursor_at_offset :: "u32 list \<Rightarrow> nat \<Rightarrow> nat \<Rightarrow> nat \<Rightarrow> (efx_rc \<times> tlv_cursor) option" where
  "tlv_init_cursor_at_offset mem block sz offset = do {
     efsys_assert (sz mod 4 = 0 \<and> offset mod 4 = 0 \<and> 1 \<le> block + sz div 4);
     tlv_init_cursor mem block (block + sz div 4 - 1) (block + offset div 4) }"

definition tlv_init_cursor_from_size :: "u32 list \<Rightarrow> nat \<Rightarrow> nat \<Rightarrow> (efx_rc \<times> tlv_cursor) option" where
  "tlv_init_cursor_from_size mem block sz = do {
     efsys_assert (sz mod 4 = 0 \<and> 1 \<le> block + sz div 4);
     tlv_init_cursor mem block (block + sz div 4 - 1) block }"

definition tlv_require_end :: "u32 list \<Rightarrow> tlv_cursor \<Rightarrow> (efx_rc \<times> tlv_cursor) option" where
  "tlv_require_end mem cursor =
     (if tc_end cursor = None then do {
        let pos = tc_current cursor;
        (rc, cursor) \<leftarrow> tlv_find mem cursor TLV_TAG_END;
        if rc \<noteq> RC_OK then Some (rc, cursor)
        else Some (RC_OK, cursor\<lparr>tc_end := tc_current cursor, tc_current := pos\<rparr>) }
      else Some (RC_OK, cursor))"

definition tlv_block_length_used :: "u32 list \<Rightarrow> tlv_cursor \<Rightarrow> (nat \<times> tlv_cursor) option" where
  "tlv_block_length_used mem cursor = do {
     (rc, cursor) \<leftarrow> tlv_validate_state mem cursor;
     if rc \<noteq> RC_OK then Some (0, cursor)
     else do {
       (rc, cursor) \<leftarrow> tlv_require_end mem cursor;
       if rc \<noteq> RC_OK then Some (0, cursor)
       else do {
         e \<leftarrow> tc_end cursor;
         Some ((e + 1 - tc_block cursor) * 4, cursor) } } }"

lemma tlv_find_loop_OK:
  "tlv_find_loop mem tag (rc, cursor) = Some (RC_OK, cursor') \<Longrightarrow>
   (rc = RC_OK \<longrightarrow> tlv_pos_ok mem cursor) \<Longrightarrow>
   rc = RC_OK \<and> tc_block cursor' = tc_block cursor \<and> tc_limit cursor' = tc_limit cursor \<and> tc_end cursor' = tc_end cursor \<and>
   tlv_pos_ok mem cursor' \<and> tlv_tag mem cursor' = Some tag \<and> the (tc_current cursor) \<le> the (tc_current cursor')"
proof (induction mem tag "(rc, cursor)" arbitrary: rc cursor rule: tlv_find_loop.induct)
  case (1 mem tag rc cursor)
  note loop = "1.prems"(1) [unfolded tlv_find_loop.simps [of mem tag rc cursor]]
  show ?case
  proof (cases "rc = RC_OK")
    case True
    then obtain t where t: "tlv_tag mem cursor = Some t" using loop by (auto split: Option.bind_splits)
    show ?thesis
    proof (cases "t = tag")
      case True
      then show ?thesis using loop t \<open>rc = RC_OK\<close> "1.prems"(2) by auto
    next
      case False
      then obtain rc1 c1 where a: "tlv_advance mem cursor = Some (rc1, c1)"
        and rest: "tlv_find_loop mem tag (rc1, c1) = Some (RC_OK, cursor')"
        using loop t True by (auto split: Option.bind_splits)
      have rc1: "rc1 = RC_OK" using rest by (cases "rc1 = RC_OK") (auto simp: tlv_find_loop.simps)
      note adv = tlv_advance_OK [OF a [unfolded rc1]]
      from "1.hyps" [OF True t False a _ rest] adv True show ?thesis by auto
    qed
  qed (use loop in auto)
qed

lemma tlv_find_OK:
  assumes "tlv_find mem cursor tag = Some (RC_OK, cursor')"
  shows "tc_block cursor' = tc_block cursor \<and> tc_limit cursor' = tc_limit cursor \<and> tc_end cursor' = tc_end cursor \<and>
    tlv_pos_ok mem cursor' \<and> tlv_tag mem cursor' = Some tag \<and> tc_block cursor \<le> the (tc_current cursor')"
proof -
  obtain rc c where r: "tlv_rewind mem cursor = Some (rc, c)" and l: "tlv_find_loop mem tag (rc, c) = Some (RC_OK, cursor')"
    using assms by (auto simp: tlv_find_def split: Option.bind_splits)
  have "rc = RC_OK" using l by (cases "rc = RC_OK") (auto simp: tlv_find_loop.simps)
  with r have "c = cursor\<lparr>tc_current := Some (tc_block cursor)\<rparr>" "tlv_pos_ok mem c"
    by (auto simp: tlv_rewind_def tlv_validate_state_OK)
  with tlv_find_loop_OK [OF l] show ?thesis by simp
qed

lemma tlv_require_end_OK:
  assumes "tlv_require_end mem cursor = Some (RC_OK, cursor')" "tc_end cursor = None"
  shows "\<exists>e. tc_end cursor' = Some e \<and> tc_block cursor \<le> e \<and> e \<le> tc_limit cursor \<and> e < length mem \<and> mem ! e = TLV_TAG_END \<and>
    tc_block cursor' = tc_block cursor \<and> tc_limit cursor' = tc_limit cursor \<and> tc_current cursor' = tc_current cursor"
proof -
  obtain c where f: "tlv_find mem cursor TLV_TAG_END = Some (RC_OK, c)"
    and c': "cursor' = c\<lparr>tc_end := tc_current c, tc_current := tc_current cursor\<rparr>"
    using assms by (auto simp: tlv_require_end_def Let_def split: Option.bind_splits if_splits)
  from tlv_find_OK [OF f] c' show ?thesis by (auto simp: tlv_pos_ok_def tlv_tag_def)
qed

lemma tlv_require_end_id: "tc_end cursor \<noteq> None \<Longrightarrow> tlv_require_end mem cursor = Some (RC_OK, cursor)"
  by (auto simp: tlv_require_end_def)

lemma tlv_init_cursor_OK:
  "tlv_init_cursor mem block limit current = Some (RC_OK, cursor) \<Longrightarrow>
   cursor = \<lparr>tc_block = block, tc_current = Some current, tc_end = None, tc_limit = limit\<rparr> \<and> tlv_pos_ok mem cursor"
  by (simp add: tlv_init_cursor_def tlv_validate_state_OK)

text \<open>The loop of \<open>tlv_last_segment_end\<close>.\<close>

function tlv_segments_loop :: "u32 list \<Rightarrow> nat \<Rightarrow> nat \<Rightarrow> nat \<Rightarrow> nat option" where
  "tlv_segments_loop mem limit segment_start last_segment_end = do {
     (rc, cursor) \<leftarrow> tlv_init_cursor mem segment_start limit segment_start;
     if rc \<noteq> RC_OK then Some last_segment_end
     else do {
       (rc, cursor) \<leftarrow> tlv_require_end mem cursor;
       if rc \<noteq> RC_OK then Some last_segment_end
       else do {
         e \<leftarrow> tc_end cursor;
         tlv_segments_loop mem limit (e + 1) e } } }"
  by pat_completeness auto
termination
  by (relation "measure (\<lambda>(mem, limit, segment_start, last). 1 + limit - segment_start)")
    (auto dest!: tlv_init_cursor_OK tlv_require_end_OK)

declare tlv_segments_loop.simps [simp del]

definition tlv_last_segment_end :: "u32 list \<Rightarrow> tlv_cursor \<Rightarrow> nat option" where
  "tlv_last_segment_end mem cursor = tlv_segments_loop mem (tc_limit cursor) (tc_block cursor) (tc_block cursor)"

section \<open>Editing\<close>

text \<open>\<open>tlv_write\<close> stores the tag, the length and the value padded with zeros. The pointer it returns is not used.\<close>

definition tlv_item_words :: "u32 \<Rightarrow> u8 list \<Rightarrow> u32 list" where
  "tlv_item_words tag data = tag # of_nat (length data) # words_of_bytes data"

definition tlv_write :: "u32 list \<Rightarrow> tlv_cursor \<Rightarrow> u32 \<Rightarrow> u8 list \<Rightarrow> u32 list option" where
  "tlv_write mem cursor tag data = do {
     ptr \<leftarrow> tc_current cursor;
     wr_range mem ptr (tlv_item_words tag data) }"

text \<open>
  The size arguments are \<open>size_t\<close> in C and are cut to 32 bits on the way (\<open>delta\<close>, \<open>len\<close>); no buffer of the driver comes near that size, and
  the model demands it of every item that is inserted.
\<close>

definition tlv_insert ::
    "u32 list \<Rightarrow> tlv_cursor \<Rightarrow> u32 \<Rightarrow> u8 list \<Rightarrow> (efx_rc \<times> u32 list \<times> tlv_cursor) option" where
  "tlv_insert mem cursor tag data = do {
     efsys_assert (length data < 2 ^ 32 - 16);
     (rc, cursor) \<leftarrow> tlv_validate_state mem cursor;
     if rc \<noteq> RC_OK then Some (rc, mem, cursor)
     else do {
       (rc, cursor) \<leftarrow> tlv_require_end mem cursor;
       if rc \<noteq> RC_OK then Some (rc, mem, cursor)
       else if tag = TLV_TAG_END then Some (EINVAL, mem, cursor)
       else do {
         last_segment_end \<leftarrow> tlv_last_segment_end mem cursor;
         let delta = TLV_DWORD_COUNT (length data);
         if last_segment_end + 1 + delta > tc_limit cursor then Some (ENOSPC, mem, cursor)
         else do {
           current \<leftarrow> tc_current cursor;
           mem \<leftarrow> memmove_buf mem (current + delta) current (last_segment_end + 1 - current);
           e \<leftarrow> tc_end cursor;
           let cursor = cursor\<lparr>tc_end := Some (e + delta)\<rparr>;
           mem \<leftarrow> tlv_write mem cursor tag data;
           Some (RC_OK, mem, cursor) } } } }"

definition tlv_delete :: "u32 list \<Rightarrow> tlv_cursor \<Rightarrow> (efx_rc \<times> u32 list \<times> tlv_cursor) option" where
  "tlv_delete mem cursor = do {
     (rc, cursor) \<leftarrow> tlv_validate_state mem cursor;
     if rc \<noteq> RC_OK then Some (rc, mem, cursor)
     else do {
       tag \<leftarrow> tlv_tag mem cursor;
       if tag = TLV_TAG_END then Some (EINVAL, mem, cursor)
       else do {
         n \<leftarrow> tlv_length mem cursor;
         let delta = TLV_DWORD_COUNT n;
         (rc, cursor) \<leftarrow> tlv_require_end mem cursor;
         if rc \<noteq> RC_OK then Some (rc, mem, cursor)
         else do {
           last_segment_end \<leftarrow> tlv_last_segment_end mem cursor;
           current \<leftarrow> tc_current cursor;
           mem \<leftarrow> memmove_buf mem current (current + delta) (last_segment_end + 1 - current);
           mem \<leftarrow> memset_buf mem (last_segment_end + 1 - delta) 0 delta;
           e \<leftarrow> tc_end cursor;
           Some (RC_OK, mem, cursor\<lparr>tc_end := Some (e - delta)\<rparr>) } } } }"

definition tlv_modify ::
    "u32 list \<Rightarrow> tlv_cursor \<Rightarrow> u32 \<Rightarrow> u8 list \<Rightarrow> (efx_rc \<times> u32 list \<times> tlv_cursor) option" where
  "tlv_modify mem cursor tag data = do {
     efsys_assert (length data < 2 ^ 32 - 16);
     (rc, cursor) \<leftarrow> tlv_validate_state mem cursor;
     if rc \<noteq> RC_OK then Some (rc, mem, cursor)
     else do {
       t \<leftarrow> tlv_tag mem cursor;
       if t = TLV_TAG_END then Some (EINVAL, mem, cursor)
       else if t \<noteq> tag then Some (EINVAL, mem, cursor)
       else do {
         n \<leftarrow> tlv_length mem cursor;
         let old_ndwords = TLV_DWORD_COUNT n;
         let new_ndwords = TLV_DWORD_COUNT (length data);
         (rc, cursor) \<leftarrow> tlv_require_end mem cursor;
         if rc \<noteq> RC_OK then Some (rc, mem, cursor)
         else do {
           last_segment_end \<leftarrow> tlv_last_segment_end mem cursor;
           current \<leftarrow> tc_current cursor;
           e \<leftarrow> tc_end cursor;
           if new_ndwords > old_ndwords then do {
             let delta = new_ndwords - old_ndwords;
             let pos = current + old_ndwords;
             if last_segment_end + 1 + delta > tc_limit cursor then Some (ENOSPC, mem, cursor)
             else do {
               mem \<leftarrow> memmove_buf mem (pos + delta) pos (last_segment_end + 1 - pos);
               let cursor = cursor\<lparr>tc_end := Some (e + delta)\<rparr>;
               mem \<leftarrow> tlv_write mem cursor tag data;
               Some (RC_OK, mem, cursor) } }
           else if new_ndwords < old_ndwords then do {
             let delta = old_ndwords - new_ndwords;
             let pos = current + new_ndwords;
             mem \<leftarrow> memmove_buf mem pos (pos + delta) (last_segment_end + 1 - pos);
             mem \<leftarrow> memset_buf mem (last_segment_end + 1 - delta) 0 delta;
             let cursor = cursor\<lparr>tc_end := Some (e - delta)\<rparr>;
             mem \<leftarrow> tlv_write mem cursor tag data;
             Some (RC_OK, mem, cursor) }
           else do {
             mem \<leftarrow> tlv_write mem cursor tag data;
             Some (RC_OK, mem, cursor) } } } } }"

section \<open>Length and checksum\<close>

fun dword_sum :: "u32 \<Rightarrow> u32 list \<Rightarrow> u32" where
  "dword_sum csum [] = csum"
| "dword_sum csum (w # ws) = dword_sum (csum + w) ws"

definition checksum_tlv_partition :: "u32 list \<Rightarrow> nat \<Rightarrow> tlv_cursor \<Rightarrow> u32 option" where
  "checksum_tlv_partition mem data cursor = do {
     (len, cursor) \<leftarrow> tlv_block_length_used mem cursor;
     efsys_assert (len mod 4 = 0);
     ws \<leftarrow> rd_range mem data (len div 4);
     Some (dword_sum 0 ws) }"

text \<open>
  The header has five words (tag, length, type and preset, generation, total length), the trailer four (tag, length, generation,
  checksum) and stands before the end tag. The cursor is copied, so the caller's one is left alone.
\<close>

definition tlv_update_partition_len_and_cks :: "u32 list \<Rightarrow> tlv_cursor \<Rightarrow> (efx_rc \<times> u32 list) option" where
  "tlv_update_partition_len_and_cks mem cursor = do {
     let header = tc_block cursor;
     tag \<leftarrow> rd mem header;
     if tag \<noteq> TLV_TAG_PARTITION_HEADER then Some (EFAULT, mem)
     else do {
       (new_len, cursor) \<leftarrow> tlv_block_length_used mem cursor;
       if new_len = 0 then Some (EFAULT, mem)
       else do {
         mem \<leftarrow> wr mem (header + 4) (of_nat new_len);
         generation \<leftarrow> rd mem (header + 3);
         mem \<leftarrow> wr mem (header + 3) (generation + 1);
         efsys_assert (5 \<le> header + new_len div 4);
         let trailer = header + new_len div 4 - 5;
         generation \<leftarrow> rd mem (header + 3);
         mem \<leftarrow> wr mem (trailer + 2) generation;
         csum \<leftarrow> checksum_tlv_partition mem header cursor;
         checksum \<leftarrow> rd mem (trailer + 3);
         mem \<leftarrow> wr mem (trailer + 3) (checksum - csum);
         Some (RC_OK, mem) } } }"

end
