(* ===== verification/Efx_Ef10_Buffer.thy ===== *)
theory Efx_Ef10_Buffer
  imports Efx_Tlv
begin

text \<open>
  The partition buffers of EF10 controllers, \<open>src/common/ef10_nvram.c\<close> from \<open>ef10_nvram_buffer_validate\<close> to
  \<open>ef10_nvram_buf_write_tlv\<close>: host memory holding TLV segments. A buffer \<open>mem\<close> passed with its size is a list of whole
  words, so that its size in bytes is \<open>4 * length mem\<close>; a segment inside a buffer is given by its word index and its
  size in bytes.
\<close>

section \<open>Whole buffers\<close>

text \<open>The loop \<open>for (pos = 0; pos < total_length; pos += 4) cksum += *(uint32_t *)(data + pos)\<close>.\<close>

definition sum_dwords :: "u32 list \<Rightarrow> nat \<Rightarrow> nat \<Rightarrow> u32 option" where
  "sum_dwords mem base total_length = map_option (dword_sum 0) (rd_range mem base ((total_length + 3) div 4))"

definition ef10_nvram_buffer_validate :: "u32 list \<Rightarrow> efx_rc option" where
  "ef10_nvram_buffer_validate mem =
     (if mem = [] then Some EINVAL
      else do {
        (rc, cursor) \<leftarrow> tlv_init_cursor_from_size mem 0 (4 * length mem);
        if rc \<noteq> RC_OK then Some EFAULT
        else do {
          tag \<leftarrow> tlv_tag mem cursor;
          if tag \<noteq> TLV_TAG_PARTITION_HEADER then Some EINVAL
          else do {
            item \<leftarrow> tlv_item mem cursor;
            header \<leftarrow> item;
            total_length \<leftarrow> map_option unat (rd mem (header + 4));
            if total_length > 4 * length mem then Some EFBIG
            else do {
              (rc, cursor) \<leftarrow> tlv_find mem cursor TLV_TAG_PARTITION_TRAILER;
              if rc \<noteq> RC_OK then Some EINVAL
              else do {
                item \<leftarrow> tlv_item mem cursor;
                trailer \<leftarrow> item;
                (rc, cursor) \<leftarrow> tlv_advance mem cursor;
                if rc \<noteq> RC_OK then Some EINVAL
                else do {
                  tag \<leftarrow> tlv_tag mem cursor;
                  if tag \<noteq> TLV_TAG_END then Some EINVAL
                  else do {
                    trailer_generation \<leftarrow> rd mem (trailer + 2);
                    header_generation \<leftarrow> rd mem (header + 3);
                    if trailer_generation \<noteq> header_generation then Some EINVAL
                    else do {
                      cksum \<leftarrow> sum_dwords mem 0 total_length;
                      if cksum \<noteq> 0 then Some EINVAL else Some RC_OK } } } } } } } })"

text \<open>The header item as it is inserted: type, preset, generation and total length; the trailer: generation and checksum.\<close>

definition header_value :: "u16 \<Rightarrow> u8 list" where
  "header_value partn_type = [ucast partn_type, ucast (drop_bit 8 partn_type), 0, 0, 1, 0, 0, 0, 0, 0, 0, 0]"

definition trailer_value :: "u8 list" where
  "trailer_value = [1, 0, 0, 0, 0, 0, 0, 0]"

text \<open>Note that the cursor is created with a limit one word behind the buffer, unlike everywhere else.\<close>

definition ef10_nvram_buffer_create :: "u16 \<Rightarrow> u32 list \<Rightarrow> (efx_rc \<times> u32 list) option" where
  "ef10_nvram_buffer_create partn_type mem =
     (if 4 * length mem < 36 then Some (EINVAL, mem)
      else do {
        let mem = replicate (length mem) 0xffffffff;
        mem \<leftarrow> wr mem 0 TLV_TAG_END;
        (rc, cursor) \<leftarrow> tlv_init_cursor mem 0 (length mem) 0;
        if rc \<noteq> RC_OK then Some (rc, mem)
        else do {
          (rc, mem, cursor) \<leftarrow> tlv_insert mem cursor TLV_TAG_PARTITION_HEADER (header_value partn_type);
          if rc \<noteq> RC_OK then Some (rc, mem)
          else do {
            (rc, cursor) \<leftarrow> tlv_advance mem cursor;
            if rc \<noteq> RC_OK then Some (rc, mem)
            else do {
              (rc, mem, cursor) \<leftarrow> tlv_insert mem cursor TLV_TAG_PARTITION_TRAILER trailer_value;
              if rc \<noteq> RC_OK then Some (rc, mem)
              else do {
                (rc, mem) \<leftarrow> tlv_update_partition_len_and_cks mem cursor;
                if rc \<noteq> RC_OK then Some (rc, mem)
                else do {
                  rc \<leftarrow> ef10_nvram_buffer_validate mem;
                  Some (rc, mem) } } } } } })"

definition byte_offset :: "nat \<Rightarrow> nat \<Rightarrow> u32" where
  "byte_offset position base = of_nat (4 * (position - base))"

definition ef10_nvram_buffer_find_item_start :: "u32 list \<Rightarrow> (efx_rc + u32) option" where
  "ef10_nvram_buffer_find_item_start mem = do {
     (rc, cursor) \<leftarrow> tlv_init_cursor_from_size mem 0 (4 * length mem);
     if rc \<noteq> RC_OK then Some (Inl EFAULT)
     else do {
       tag \<leftarrow> tlv_tag mem cursor;
       if tag \<noteq> TLV_TAG_PARTITION_HEADER then Some (Inl EINVAL)
       else do {
         (rc, cursor) \<leftarrow> tlv_advance mem cursor;
         if rc \<noteq> RC_OK then Some (Inl EINVAL)
         else do {
           current \<leftarrow> tc_current cursor;
           let start = byte_offset current (tc_block cursor);
           (rc, cursor) \<leftarrow> tlv_require_end mem cursor;
           Some (if rc \<noteq> RC_OK then Inl rc else Inr start) } } } }"

definition ef10_nvram_buffer_find_end :: "u32 list \<Rightarrow> (efx_rc + u32) option" where
  "ef10_nvram_buffer_find_end mem = do {
     (rc, cursor) \<leftarrow> tlv_init_cursor_from_size mem 0 (4 * length mem);
     if rc \<noteq> RC_OK then Some (Inl EFAULT)
     else do {
       (rc, cursor) \<leftarrow> tlv_require_end mem cursor;
       if rc \<noteq> RC_OK then Some (Inl rc)
       else do {
         last_segment_end \<leftarrow> tlv_last_segment_end mem cursor;
         Some (Inr (byte_offset (last_segment_end + 1) (tc_block cursor))) } } }"

text \<open>The result is \<open>Some None\<close> where the C returns \<open>B_FALSE\<close>, otherwise the start and the length.\<close>

function find_item_loop :: "u32 list \<Rightarrow> tlv_cursor \<Rightarrow> (u32 \<times> u32) option option" where
  "find_item_loop mem cursor = do {
     key \<leftarrow> tlv_item mem cursor;
     case key of
       None \<Rightarrow> Some None
     | Some current \<Rightarrow> do {
         tag \<leftarrow> tlv_tag mem cursor;
         if tag = TLV_TAG_PARTITION_HEADER \<or> tag = TLV_TAG_PARTITION_TRAILER then do {
           (rc, cursor) \<leftarrow> tlv_advance mem cursor;
           if rc \<noteq> RC_OK then Some None else find_item_loop mem cursor }
         else do {
           next \<leftarrow> tlv_next_item_ptr mem cursor;
           Some (Some (byte_offset current (tc_block cursor), byte_offset next current)) } } }"
  by pat_completeness auto
termination
  by (relation "measure (\<lambda>(mem, cursor). 1 + tc_limit cursor - the (tc_current cursor))")
    (auto dest!: tlv_advance_OK)

declare find_item_loop.simps [simp del]

definition ef10_nvram_buffer_find_item :: "u32 list \<Rightarrow> u32 \<Rightarrow> (u32 \<times> u32) option option" where
  "ef10_nvram_buffer_find_item mem offset = do {
     (rc, cursor) \<leftarrow> tlv_init_cursor_at_offset mem 0 (4 * length mem) (unat offset);
     if rc \<noteq> RC_OK then Some None else find_item_loop mem cursor }"

text \<open>The value of the item at the cursor, as the bytes that \<open>memcpy\<close> reads.\<close>

definition tlv_value_bytes :: "u32 list \<Rightarrow> tlv_cursor \<Rightarrow> nat \<Rightarrow> u8 list option" where
  "tlv_value_bytes mem cursor n = do {
     value \<leftarrow> tlv_value mem cursor;
     case value of
       None \<Rightarrow> if n = 0 then Some [] else None
     | Some ptr \<Rightarrow> do {
         ws \<leftarrow> rd_range mem ptr ((n + 3) div 4);
         Some (take n (bytes_of_words ws)) } }"

definition ef10_nvram_buffer_get_item ::
    "u32 list \<Rightarrow> u32 \<Rightarrow> u32 \<Rightarrow> u8 list \<Rightarrow> (efx_rc \<times> u8 list \<times> u32) option" where
  "ef10_nvram_buffer_get_item mem offset len item =
     (if length item < unat len then Some (ENOSPC, item, 0)
      else do {
        (rc, cursor) \<leftarrow> tlv_init_cursor_at_offset mem 0 (4 * length mem) (unat offset);
        if rc \<noteq> RC_OK then Some (rc, item, 0)
        else do {
          item_length \<leftarrow> tlv_length mem cursor;
          if unat len < item_length then Some (ENOSPC, item, 0)
          else do {
            bytes \<leftarrow> tlv_value_bytes mem cursor item_length;
            Some (RC_OK, bytes @ drop item_length item, of_nat item_length) } } })"

definition ef10_nvram_buffer_insert_item ::
    "u32 list \<Rightarrow> u32 \<Rightarrow> u8 list \<Rightarrow> (efx_rc \<times> u32 list \<times> u32) option" where
  "ef10_nvram_buffer_insert_item mem offset key = do {
     (rc, cursor) \<leftarrow> tlv_init_cursor_at_offset mem 0 (4 * length mem) (unat offset);
     if rc \<noteq> RC_OK then Some (rc, mem, 0)
     else do {
       (rc, mem, cursor) \<leftarrow> tlv_insert mem cursor TLV_TAG_LICENSE key;
       if rc \<noteq> RC_OK then Some (rc, mem, 0)
       else do {
         next \<leftarrow> tlv_next_item_ptr mem cursor;
         current \<leftarrow> tc_current cursor;
         Some (RC_OK, mem, byte_offset next current) } } }"

definition ef10_nvram_buffer_delete_item :: "u32 list \<Rightarrow> u32 \<Rightarrow> (efx_rc \<times> u32 list) option" where
  "ef10_nvram_buffer_delete_item mem offset = do {
     (rc, cursor) \<leftarrow> tlv_init_cursor_at_offset mem 0 (4 * length mem) (unat offset);
     if rc \<noteq> RC_OK then Some (rc, mem)
     else do {
       (rc, mem, cursor) \<leftarrow> tlv_delete mem cursor;
       Some (rc, mem) } }"

definition ef10_nvram_buffer_finish :: "u32 list \<Rightarrow> (efx_rc \<times> u32 list) option" where
  "ef10_nvram_buffer_finish mem = do {
     (rc, cursor) \<leftarrow> tlv_init_cursor_from_size mem 0 (4 * length mem);
     if rc \<noteq> RC_OK then Some (EFAULT, mem)
     else do {
       (rc, cursor) \<leftarrow> tlv_require_end mem cursor;
       if rc \<noteq> RC_OK then Some (rc, mem)
       else tlv_update_partition_len_and_cks mem cursor } }"

section \<open>Segments in a buffer\<close>

text \<open>
  The value is copied to memory of its own; an item without value yields no memory, which the empty list
  stands for.
\<close>

definition ef10_nvram_buf_read_tlv ::
    "(nat \<Rightarrow> bool) \<Rightarrow> u32 list \<Rightarrow> nat \<Rightarrow> nat \<Rightarrow> u32 \<Rightarrow> (efx_rc + u8 list) option" where
  "ef10_nvram_buf_read_tlv kmem_ok mem base max_seg_size tag =
     (if max_seg_size = 0 then Some (Inl EINVAL)
      else do {
        (rc, cursor) \<leftarrow> tlv_init_cursor_from_size mem base max_seg_size;
        if rc \<noteq> RC_OK then Some (Inl EFAULT)
        else do {
          (rc, cursor) \<leftarrow> tlv_find mem cursor tag;
          if rc \<noteq> RC_OK then Some (Inl ENOENT)
          else do {
            n \<leftarrow> tlv_length mem cursor;
            if n = 0 then Some (Inr [])
            else if \<not> kmem_ok n then Some (Inl ENOMEM)
            else do {
              bytes \<leftarrow> tlv_value_bytes mem cursor n;
              Some (Inr bytes) } } } })"

text \<open>
  The scan of \<open>ef10_nvram_buf_segment_size\<close> for a second header. An end tag in another place than before jumps to the
  failure label with \<open>rc\<close> still zero, so the function reports success.
\<close>

function segment_size_scan :: "u32 list \<Rightarrow> nat option \<Rightarrow> efx_rc \<times> tlv_cursor \<Rightarrow> efx_rc option" where
  "segment_size_scan mem end_tag_position (rc, cursor) =
     (if rc = RC_OK then do {
        tag \<leftarrow> tlv_tag mem cursor;
        if tag = TLV_TAG_END then
          (if tc_current cursor \<noteq> end_tag_position then Some RC_OK else Some RC_OK)
        else if tag = TLV_TAG_PARTITION_HEADER then Some EINVAL
        else do {
          (rc, cursor) \<leftarrow> tlv_advance mem cursor;
          segment_size_scan mem end_tag_position (rc, cursor) } }
      else Some rc)"
  by pat_completeness auto
termination
  by (relation "measure (\<lambda>(mem, e, rc, cursor). if rc = RC_OK then 1 + (1 + tc_limit cursor - the (tc_current cursor)) else 0)")
    (auto dest!: tlv_advance_OK)

declare segment_size_scan.simps [simp del]

definition ef10_nvram_buf_segment_size :: "u32 list \<Rightarrow> nat \<Rightarrow> nat \<Rightarrow> (efx_rc \<times> nat) option" where
  "ef10_nvram_buf_segment_size mem base max_seg_size = do {
     (rc, cursor) \<leftarrow> tlv_init_cursor_from_size mem base max_seg_size;
     if rc \<noteq> RC_OK then Some (EFAULT, 0)
     else do {
       tag \<leftarrow> tlv_tag mem cursor;
       if tag \<noteq> TLV_TAG_PARTITION_HEADER then Some (EINVAL, 0)
       else do {
         item \<leftarrow> tlv_item mem cursor;
         header \<leftarrow> item;
         seg_size \<leftarrow> map_option unat (rd mem (header + 4));
         if seg_size > max_seg_size then Some (EFBIG, seg_size)
         else do {
           (rc, cursor) \<leftarrow> tlv_find mem cursor TLV_TAG_PARTITION_TRAILER;
           if rc \<noteq> RC_OK then Some (EINVAL, seg_size)
           else do {
             (rc, cursor) \<leftarrow> tlv_advance mem cursor;
             if rc \<noteq> RC_OK then Some (EINVAL, seg_size)
             else do {
               tag \<leftarrow> tlv_tag mem cursor;
               if tag \<noteq> TLV_TAG_END then Some (EINVAL, seg_size)
               else do {
                 let end_tag_position = tc_current cursor;
                 cksum \<leftarrow> sum_dwords mem base seg_size;
                 if cksum \<noteq> 0 then Some (EINVAL, seg_size)
                 else do {
                   (segment_length, cursor) \<leftarrow> tlv_block_length_used mem cursor;
                   if segment_length > max_seg_size then Some (EINVAL, seg_size)
                   else if segment_length \<noteq> seg_size then Some (EINVAL, seg_size)
                   else do {
                     (rc, cursor) \<leftarrow> tlv_rewind mem cursor;
                     r \<leftarrow> tlv_advance mem cursor;
                     rc \<leftarrow> segment_size_scan mem end_tag_position r;
                     Some (rc, seg_size) } } } } } } } } }"

definition buf_write_trailer :: "u32 list \<Rightarrow> nat \<Rightarrow> nat \<Rightarrow> nat \<Rightarrow> nat \<Rightarrow> (u32 list) option" where
  "buf_write_trailer mem base header trailer total_length = do {
     generation \<leftarrow> map_option (\<lambda>g. g + 1) (rd mem (header + 3));
     mem \<leftarrow> wr mem (header + 4) (of_nat total_length);
     mem \<leftarrow> wr mem (header + 3) generation;
     mem \<leftarrow> wr mem (trailer + 2) generation;
     mem \<leftarrow> wr mem (trailer + 3) 0;
     cksum \<leftarrow> sum_dwords mem base total_length;
     wr mem (trailer + 3) (NOT cksum + 1) }"

definition ef10_nvram_buf_write_tlv ::
    "u32 list \<Rightarrow> nat \<Rightarrow> nat \<Rightarrow> u32 \<Rightarrow> u8 list \<Rightarrow> (efx_rc \<times> u32 list \<times> nat) option" where
  "ef10_nvram_buf_write_tlv mem base max_seg_size tag data = do {
     (rc, cursor) \<leftarrow> tlv_init_cursor_from_size mem base max_seg_size;
     if rc \<noteq> RC_OK then Some (EFAULT, mem, 0)
     else do {
       t \<leftarrow> tlv_tag mem cursor;
       if t \<noteq> TLV_TAG_PARTITION_HEADER then Some (EINVAL, mem, 0)
       else do {
         item \<leftarrow> tlv_item mem cursor;
         header \<leftarrow> item;
         (rc, cursor) \<leftarrow> tlv_find mem cursor tag;
         (rc, mem, cursor) \<leftarrow>
           (if rc = RC_OK then tlv_modify mem cursor tag data
            else do {
              (rc, cursor) \<leftarrow> tlv_find mem cursor TLV_TAG_PARTITION_TRAILER;
              if rc \<noteq> RC_OK then Some (EINVAL, mem, cursor)
              else do {
                (rc, mem, cursor) \<leftarrow> tlv_insert mem cursor tag data;
                Some (if rc \<noteq> RC_OK then EINVAL else RC_OK, mem, cursor) } });
         if rc \<noteq> RC_OK then Some (rc, mem, 0)
         else do {
           (rc, cursor) \<leftarrow> tlv_find mem cursor TLV_TAG_PARTITION_TRAILER;
           if rc \<noteq> RC_OK then Some (EINVAL, mem, 0)
           else do {
             item \<leftarrow> tlv_item mem cursor;
             trailer \<leftarrow> item;
             (total_length, cursor) \<leftarrow> tlv_block_length_used mem cursor;
             if total_length > max_seg_size then Some (ENOSPC, mem, total_length)
             else do {
               mem \<leftarrow> buf_write_trailer mem base header trailer total_length;
               Some (RC_OK, mem, total_length) } } } } } }"

end
