(* ===== verification/Efx_Tlv_Spec.thy ===== *)
theory Efx_Tlv_Spec
  imports Efx_Tlv
begin

text \<open>
  The TLV operations against their specification: a segment is a list of items closed by the end tag, and the
  operations search, insert, delete and replace items of that list, moving the segments behind it as a whole.
\<close>

section \<open>Segments as lists of items\<close>

datatype tlv_item = Item (it_tag: u32) (it_len: u32) (it_words: "u32 list")

definition titem_ok :: "tlv_item \<Rightarrow> bool" where
  "titem_ok i \<longleftrightarrow> it_tag i \<noteq> TLV_TAG_END \<and> length (it_words i) + 2 = TLV_DWORD_COUNT (unat (it_len i))"

definition titem_words :: "tlv_item \<Rightarrow> u32 list" where
  "titem_words i = it_tag i # it_len i # it_words i"

definition titems_words :: "tlv_item list \<Rightarrow> u32 list" where
  "titems_words is = concat (map titem_words is)"

definition segment_words :: "tlv_item list \<Rightarrow> u32 list" where
  "segment_words is = titems_words is @ [TLV_TAG_END]"

definition segments_words :: "tlv_item list list \<Rightarrow> u32 list" where
  "segments_words segs = concat (map segment_words segs)"

lemma titems_words_simps [simp]:
  "titems_words [] = []" "titems_words (i # is) = titem_words i @ titems_words is"
  "titems_words (is @ js) = titems_words is @ titems_words js"
  by (simp_all add: titems_words_def)

lemma segments_words_simps [simp]:
  "segments_words [] = []" "segments_words (s # segs) = titems_words s @ TLV_TAG_END # segments_words segs"
  by (simp_all add: segments_words_def segment_words_def)

lemma titem_words_length: "titem_ok i \<Longrightarrow> length (titem_words i) = TLV_DWORD_COUNT (unat (it_len i))"
  by (simp add: titem_ok_def titem_words_def)

lemma titem_words_ge: "2 \<le> length (titem_words i)"
  by (simp add: titem_words_def)

lemma titem_words_nonempty [simp]: "titem_words i \<noteq> []"
  by (simp add: titem_words_def)

text \<open>Where the first item with a tag stands; the end tag is found at the end.\<close>

fun tlv_lookup :: "u32 \<Rightarrow> nat \<Rightarrow> tlv_item list \<Rightarrow> nat option" where
  "tlv_lookup tag pos [] = (if tag = TLV_TAG_END then Some pos else None)"
| "tlv_lookup tag pos (i # is) = (if it_tag i = tag then Some pos else tlv_lookup tag (pos + length (titem_words i)) is)"

lemma tlv_lookup_END: "list_all titem_ok is \<Longrightarrow> tlv_lookup TLV_TAG_END pos is = Some (pos + length (titems_words is))"
  by (induction "is" arbitrary: pos) (auto simp: titem_ok_def)

lemma tlv_lookup_split:
  "tlv_lookup tag pos is = Some p \<Longrightarrow> tag \<noteq> TLV_TAG_END \<Longrightarrow>
   \<exists>js i ks. is = js @ i # ks \<and> it_tag i = tag \<and> (\<forall>j\<in>set js. it_tag j \<noteq> tag) \<and> p = pos + length (titems_words js)"
proof (induction "is" arbitrary: pos)
  case (Cons i "is")
  show ?case
  proof (cases "it_tag i = tag")
    case True
    then show ?thesis using Cons.prems by (intro exI [of _ "[]"] exI [of _ i] exI [of _ "is"]) auto
  next
    case False
    then have "tlv_lookup tag (pos + length (titem_words i)) is = Some p" using Cons.prems by simp
    from Cons.IH [OF this Cons.prems(2)] obtain js k ks where
      "is = js @ k # ks" "it_tag k = tag" "\<forall>j\<in>set js. it_tag j \<noteq> tag"
      "p = pos + length (titem_words i) + length (titems_words js)" by blast
    then show ?thesis using False by (intro exI [of _ "i # js"] exI [of _ k] exI [of _ ks]) auto
  qed
qed (simp split: if_splits)

lemma tlv_lookup_None: "tlv_lookup tag pos is = None \<longleftrightarrow> tag \<noteq> TLV_TAG_END \<and> (\<forall>i\<in>set is. it_tag i \<noteq> tag)"
  by (induction "is" arbitrary: pos) auto

section \<open>Positions in a segment\<close>

lemma pos_ok_item:
  assumes "mem = pre @ titem_words i @ post" "titem_ok i"
    and "tc_current cursor = Some (length pre)" "tc_block cursor \<le> length pre"
    and "length pre + length (titem_words i) + 1 \<le> tc_limit cursor"
  shows "tlv_pos_ok mem cursor" "tlv_tag mem cursor = Some (it_tag i)"
    "tlv_length mem cursor = Some (unat (it_len i))"
    "tlv_next_item_ptr mem cursor = Some (length pre + length (titem_words i))"
proof -
  have m: "mem ! length pre = it_tag i" "mem ! (length pre + 1) = it_len i" "length pre + 1 < length mem"
    using assms(1) by (simp_all add: titem_words_def nth_append)
  have l: "length (titem_words i) = TLV_DWORD_COUNT (unat (it_len i))" by (rule titem_words_length [OF assms(2)])
  have t: "it_tag i \<noteq> TLV_TAG_END" using assms(2) by (simp add: titem_ok_def)
  show "tlv_pos_ok mem cursor" using assms m l by (auto simp: tlv_pos_ok_def)
  show "tlv_tag mem cursor = Some (it_tag i)" using assms m by (simp add: tlv_tag_def)
  then show "tlv_length mem cursor = Some (unat (it_len i))" using assms m t by (simp add: tlv_length_def)
  then show "tlv_next_item_ptr mem cursor = Some (length pre + length (titem_words i))"
    using assms l by (simp add: tlv_next_item_ptr_def)
qed

lemma pos_ok_END:
  assumes "mem = pre @ TLV_TAG_END # post"
    and "tc_current cursor = Some (length pre)" "tc_block cursor \<le> length pre" "length pre \<le> tc_limit cursor"
  shows "tlv_pos_ok mem cursor" "tlv_tag mem cursor = Some TLV_TAG_END"
  using assms by (auto simp: tlv_pos_ok_def tlv_tag_def nth_append)

lemma find_loop_hit: "tlv_tag mem c = Some tag \<Longrightarrow> tlv_find_loop mem tag (RC_OK, c) = Some (RC_OK, c)"
  by (simp add: tlv_find_loop.simps)

lemma find_loop_step:
  "tlv_tag mem c = Some t \<Longrightarrow> t \<noteq> tag \<Longrightarrow> tlv_advance mem c = Some r \<Longrightarrow>
   tlv_find_loop mem tag (RC_OK, c) = tlv_find_loop mem tag r"
  by (cases r) (simp add: tlv_find_loop.simps [of mem tag RC_OK c])

lemma find_loop_stop: "rc \<noteq> RC_OK \<Longrightarrow> tlv_find_loop mem tag (rc, c) = Some (rc, c)"
  by (simp add: tlv_find_loop.simps)

text \<open>The loop of \<open>tlv_find\<close> from any item of a segment.\<close>

lemma tlv_find_loop_items:
  assumes "list_all titem_ok is" "tc_limit cursor \<le> length mem"
    and "tc_end cursor = None \<or> tc_end cursor = Some (length pre + length (titems_words is))"
    and "mem = pre @ titems_words is @ TLV_TAG_END # post" "tc_block cursor \<le> length pre"
    and "length pre + length (titems_words is) + 1 \<le> tc_limit cursor" "tc_current cursor = Some (length pre)"
  shows "(\<forall>p. tlv_lookup tag (length pre) is = Some p \<longrightarrow>
      tlv_find_loop mem tag (RC_OK, cursor) = Some (RC_OK, cursor\<lparr>tc_current := Some p\<rparr>)) \<and>
    (tlv_lookup tag (length pre) is = None \<longrightarrow> tc_end cursor \<noteq> None \<longrightarrow>
      tlv_find_loop mem tag (RC_OK, cursor) = Some (ENOENT, cursor\<lparr>tc_current := None\<rparr>))"
  using assms
proof (induction "is" arbitrary: pre cursor)
  case Nil
  have p: "tlv_pos_ok mem cursor" "tlv_tag mem cursor = Some TLV_TAG_END"
    using pos_ok_END [of mem pre post cursor] Nil.prems by simp_all
  have self: "cursor\<lparr>tc_current := Some (length pre)\<rparr> = cursor" using Nil.prems(7) by simp
  have "tlv_advance mem cursor = Some (ENOENT, cursor\<lparr>tc_current := None\<rparr>)" if "tc_end cursor \<noteq> None"
    using that p Nil.prems tlv_validate_state_OK [of mem cursor cursor] by (auto simp: tlv_advance_def)
  then show ?case
    using find_loop_hit [OF p(2)] find_loop_step [OF p(2), of tag] self
    by (auto simp: find_loop_stop)
next
  case (Cons i "is")
  define next_cursor where "next_cursor = cursor\<lparr>tc_current := Some (length (pre @ titem_words i))\<rparr>"
  have p: "tlv_pos_ok mem cursor" "tlv_tag mem cursor = Some (it_tag i)"
      "tlv_next_item_ptr mem cursor = Some (length (pre @ titem_words i))"
    using pos_ok_item [of mem pre i "titems_words is @ TLV_TAG_END # post" cursor] Cons.prems by simp_all
  have ne: "tc_current cursor \<noteq> tc_end cursor" using Cons.prems by (auto simp: titem_words_def)
  have np: "tlv_pos_ok mem next_cursor"
  proof (cases "is")
    case Nil
    then show ?thesis using Cons.prems pos_ok_END(1) [of mem "pre @ titem_words i" post next_cursor]
      by (simp add: next_cursor_def)
  next
    case (Cons j js)
    then show ?thesis using Cons.prems
        pos_ok_item(1) [of mem "pre @ titem_words i" j "titems_words js @ TLV_TAG_END # post" next_cursor]
      by (simp add: next_cursor_def)
  qed
  have adv: "tlv_advance mem cursor = Some (RC_OK, next_cursor)"
    using p np ne tlv_validate_state_OK [of mem cursor cursor] tlv_validate_state_OK [of mem next_cursor next_cursor]
    by (simp add: tlv_advance_def next_cursor_def)
  have IH: "(\<forall>p. tlv_lookup tag (length (pre @ titem_words i)) is = Some p \<longrightarrow>
      tlv_find_loop mem tag (RC_OK, next_cursor) = Some (RC_OK, next_cursor\<lparr>tc_current := Some p\<rparr>)) \<and>
    (tlv_lookup tag (length (pre @ titem_words i)) is = None \<longrightarrow> tc_end next_cursor \<noteq> None \<longrightarrow>
      tlv_find_loop mem tag (RC_OK, next_cursor) = Some (ENOENT, next_cursor\<lparr>tc_current := None\<rparr>))"
    using Cons.prems by (intro Cons.IH) (auto simp: next_cursor_def add.assoc)
  have self: "cursor\<lparr>tc_current := Some (length pre)\<rparr> = cursor" using Cons.prems(7) by simp
  show ?case
    using IH find_loop_hit [OF p(2)] find_loop_step [OF p(2) _ adv, of tag] self Cons.prems(3)
    by (cases "it_tag i = tag") (auto simp: next_cursor_def)
qed

text \<open>A segment in memory, for a cursor on it: the block starts the segment, the end tag is before the last word.\<close>

definition segment_at :: "u32 list \<Rightarrow> tlv_cursor \<Rightarrow> tlv_item list \<Rightarrow> bool" where
  "segment_at mem cursor is \<longleftrightarrow> list_all titem_ok is \<and> tc_limit cursor \<le> length mem \<and>
     tc_block cursor + length (titems_words is) + 1 \<le> tc_limit cursor \<and>
     (tc_end cursor = None \<or> tc_end cursor = Some (tc_block cursor + length (titems_words is))) \<and>
     (\<exists>pre post. mem = pre @ titems_words is @ TLV_TAG_END # post \<and> length pre = tc_block cursor)"

lemma segment_at_pos_ok:
  assumes "segment_at mem cursor (is @ js)" "tc_current cursor = Some (tc_block cursor + length (titems_words is))"
  shows "tlv_pos_ok mem cursor"
proof -
  obtain pre post where m: "mem = pre @ titems_words (is @ js) @ TLV_TAG_END # post" "length pre = tc_block cursor"
    using assms by (auto simp: segment_at_def)
  show ?thesis
  proof (cases js)
    case Nil
    then show ?thesis using m assms pos_ok_END(1) [of mem "pre @ titems_words is" post cursor]
      by (simp add: segment_at_def)
  next
    case (Cons j ks)
    then show ?thesis using m assms
        pos_ok_item(1) [of mem "pre @ titems_words is" j "titems_words ks @ TLV_TAG_END # post" cursor]
      by (simp add: segment_at_def)
  qed
qed

lemma tlv_find_segment:
  assumes "segment_at mem cursor is"
  shows "tlv_lookup tag (tc_block cursor) is = Some p \<Longrightarrow>
      tlv_find mem cursor tag = Some (RC_OK, cursor\<lparr>tc_current := Some p\<rparr>)"
    and "tlv_lookup tag (tc_block cursor) is = None \<Longrightarrow> tc_end cursor \<noteq> None \<Longrightarrow>
      tlv_find mem cursor tag = Some (ENOENT, cursor\<lparr>tc_current := None\<rparr>)"
proof -
  obtain pre post where m: "mem = pre @ titems_words is @ TLV_TAG_END # post" "length pre = tc_block cursor"
    using assms by (auto simp: segment_at_def)
  define c where "c = cursor\<lparr>tc_current := Some (tc_block cursor)\<rparr>"
  have c: "segment_at mem c is" using assms by (simp add: c_def segment_at_def)
  have "tlv_pos_ok mem c" using segment_at_pos_ok [of mem c "[]" "is"] c by (simp add: c_def)
  then have rewind: "tlv_rewind mem cursor = Some (RC_OK, c)"
    by (simp add: tlv_rewind_def c_def tlv_validate_state_OK)
  note loop = tlv_find_loop_items [of "is" c mem pre post tag]
  show "tlv_find mem cursor tag = Some (RC_OK, cursor\<lparr>tc_current := Some p\<rparr>)"
    if "tlv_lookup tag (tc_block cursor) is = Some p"
    using loop c m that rewind by (simp add: segment_at_def tlv_find_def c_def)
  show "tlv_find mem cursor tag = Some (ENOENT, cursor\<lparr>tc_current := None\<rparr>)"
    if "tlv_lookup tag (tc_block cursor) is = None" "tc_end cursor \<noteq> None"
    using loop c m that rewind by (simp add: segment_at_def tlv_find_def c_def)
qed

lemma tlv_require_end_segment:
  assumes "segment_at mem cursor is"
  shows "tlv_require_end mem cursor
    = Some (RC_OK, cursor\<lparr>tc_end := Some (tc_block cursor + length (titems_words is))\<rparr>)"
proof (cases "tc_end cursor")
  case None
  have "list_all titem_ok is" using assms by (simp add: segment_at_def)
  from tlv_find_segment(1) [OF assms tlv_lookup_END [OF this]] None
  show ?thesis by (simp add: tlv_require_end_def)
next
  case (Some e)
  then have "cursor\<lparr>tc_end := Some (tc_block cursor + length (titems_words is))\<rparr> = cursor"
    using assms by (auto simp: segment_at_def)
  then show ?thesis using Some by (simp add: tlv_require_end_def)
qed

lemma tlv_block_length_used_segment:
  assumes "segment_at mem cursor (is @ js)" "tc_current cursor = Some (tc_block cursor + length (titems_words is))"
  shows "tlv_block_length_used mem cursor = Some (4 * length (segment_words (is @ js)),
    cursor\<lparr>tc_end := Some (tc_block cursor + length (titems_words (is @ js)))\<rparr>)"
proof -
  have "tlv_validate_state mem cursor = Some (RC_OK, cursor)"
    using segment_at_pos_ok [OF assms] by (simp add: tlv_validate_state_OK)
  then show ?thesis
    using tlv_require_end_segment [OF assms(1)]
    by (simp add: tlv_block_length_used_def segment_words_def)
qed

text \<open>No segment starts at \<open>start\<close>: the walk over the segments ends there.\<close>

definition tlv_dead :: "u32 list \<Rightarrow> nat \<Rightarrow> nat \<Rightarrow> bool" where
  "tlv_dead mem limit start \<longleftrightarrow> (\<forall>prev. tlv_segments_loop mem limit start prev = Some prev)"

lemma tlv_segments_loop_segments:
  assumes "mem = pre @ segments_words segs @ tail" "list_all (list_all titem_ok) segs" "limit \<le> length mem"
    and "length pre + length (segments_words segs) \<le> limit" "tlv_dead mem limit (length pre + length (segments_words segs))"
  shows "tlv_segments_loop mem limit (length pre) prev
    = Some (if segs = [] then prev else length pre + length (segments_words segs) - 1)"
  using assms
proof (induction segs arbitrary: pre prev)
  case Nil
  then show ?case by (simp add: tlv_dead_def)
next
  case (Cons s segs)
  define c where "c = \<lparr>tc_block = length pre, tc_current = Some (length pre), tc_end = None, tc_limit = limit\<rparr>"
  define e where "e = length pre + length (titems_words s)"
  have c: "segment_at mem c s" using Cons.prems by (auto simp: segment_at_def c_def)
  have 1: "tlv_init_cursor mem (length pre) limit (length pre) = Some (RC_OK, c)"
    using segment_at_pos_ok [of mem c "[]" s] c by (simp add: tlv_init_cursor_def c_def tlv_validate_state_OK)
  have 2: "tlv_require_end mem c = Some (RC_OK, c\<lparr>tc_end := Some e\<rparr>)"
    using tlv_require_end_segment [OF c] by (simp add: c_def e_def)
  have 3: "tlv_segments_loop mem limit (e + 1) e
     = Some (if segs = [] then e else e + 1 + length (segments_words segs) - 1)"
    using Cons.IH [of "pre @ titems_words s @ [TLV_TAG_END]" e] Cons.prems by (simp add: e_def add.assoc)
  have "tlv_segments_loop mem limit (length pre) prev = tlv_segments_loop mem limit (e + 1) e"
    by (subst tlv_segments_loop.simps) (simp add: 1 2)
  then show ?case using 3 by (simp add: e_def)
qed

text \<open>
  The situation in which the editing operations are called: the cursor stands between \<open>before\<close> and \<open>after\<close> in the first segment,
  other segments may follow, and nothing that follows them is a segment.
\<close>

definition tlv_editing :: "u32 list \<Rightarrow> tlv_cursor \<Rightarrow> tlv_item list \<Rightarrow> tlv_item list \<Rightarrow> tlv_item list list \<Rightarrow> u32 list \<Rightarrow> bool"
  where
  "tlv_editing mem cursor before after segs tail \<longleftrightarrow>
     (\<exists>pre. mem = pre @ segments_words ((before @ after) # segs) @ tail \<and> length pre = tc_block cursor) \<and>
     list_all (list_all titem_ok) ((before @ after) # segs) \<and>
     tc_current cursor = Some (tc_block cursor + length (titems_words before)) \<and>
     (tc_end cursor = None \<or> tc_end cursor = Some (tc_block cursor + length (titems_words (before @ after)))) \<and>
     tc_limit cursor \<le> length mem \<and> length mem - length tail \<le> tc_limit cursor \<and>
     tlv_dead mem (tc_limit cursor) (length mem - length tail)"

lemma tlv_editing_segment:
  assumes "tlv_editing mem cursor before after segs tail"
  shows "segment_at mem cursor (before @ after)"
  using assms by (auto simp: tlv_editing_def segment_at_def)

lemma tlv_editing_last_end:
  assumes "tlv_editing mem cursor before after segs tail" "tc_limit c = tc_limit cursor" "tc_block c = tc_block cursor"
  shows "tlv_last_segment_end mem c = Some (length mem - length tail - 1)"
proof -
  obtain pre where m: "mem = pre @ segments_words ((before @ after) # segs) @ tail" "length pre = tc_block cursor"
    using assms by (auto simp: tlv_editing_def)
  moreover have "length mem - length tail = length pre + length (segments_words ((before @ after) # segs))" using m by simp
  ultimately show ?thesis
    using tlv_segments_loop_segments [of mem pre "(before @ after) # segs" tail "tc_limit cursor" "length pre"] assms
    by (simp add: tlv_last_segment_end_def tlv_editing_def)
qed

section \<open>Editing a segment\<close>

lemma rd_range_middle: "length A = a \<Longrightarrow> length B = n \<Longrightarrow> rd_range (A @ B @ C) a n = Some B"
  by (auto simp: rd_range_def)

lemma wr_range_middle: "length A = a \<Longrightarrow> length B = length Y \<Longrightarrow> wr_range (A @ B @ C) a Y = Some (A @ Y @ C)"
  by (auto simp: wr_range_def)

lemma memmove_up:
  assumes "length A = a" "delta \<le> length T"
  shows "memmove_buf (A @ B @ T) (a + delta) a (length B) = Some (A @ take delta (B @ T) @ B @ drop delta T)"
proof -
  define M1 where "M1 = take delta (B @ T)"
  define M2 where "M2 = take (length B) (drop delta (B @ T))"
  have "drop (length B) (drop delta (B @ T)) = drop delta T"
    by (cases "delta \<le> length B") simp_all
  then have "B @ T = M1 @ M2 @ drop delta T" unfolding M1_def M2_def by (metis append_take_drop_id)
  then have split: "A @ B @ T = (A @ M1) @ M2 @ drop delta T" by simp
  have len: "length (A @ M1) = a + delta" "length M2 = length B" using assms by (simp_all add: M1_def M2_def)
  have r: "rd_range (A @ B @ T) a (length B) = Some B" by (rule rd_range_middle) (simp_all add: assms)
  have "wr_range (A @ B @ T) (a + delta) B = Some ((A @ M1) @ B @ drop delta T)"
    unfolding split by (rule wr_range_middle [OF len])
  with r show ?thesis by (simp add: memmove_buf_def M1_def)
qed

lemma memmove_down:
  assumes "length A = a" "length D = delta" "n = delta + length B" "delta \<le> length T"
  shows "memmove_buf (A @ D @ B @ T) a (a + delta) n = Some (A @ B @ take delta T @ T)"
proof -
  have r: "rd_range (A @ D @ B @ T) (a + delta) n = Some (B @ take delta T)"
    using rd_range_middle [of "A @ D" "a + delta" "B @ take delta T" n "drop delta T"] assms by simp
  have "wr_range (A @ D @ B @ T) a (B @ take delta T) = Some (A @ B @ take delta T @ T)"
    using wr_range_middle [of A a "D @ B" "B @ take delta T" T] assms by simp
  with r show ?thesis by (simp add: memmove_buf_def)
qed

lemma memmove_down_overrun:
  assumes "length A = a" "length D = delta" "n = delta + length B" "length T < delta"
  shows "memmove_buf (A @ D @ B @ T) a (a + delta) n = None"
  using assms by (auto simp: memmove_buf_def rd_range_def)


definition new_item :: "u32 \<Rightarrow> u8 list \<Rightarrow> tlv_item" where
  "new_item tag data = Item tag (of_nat (length data)) (words_of_bytes data)"

lemma new_item_words: "titem_words (new_item tag data) = tlv_item_words tag data"
  by (simp add: new_item_def titem_words_def tlv_item_words_def)

lemma new_item_length: "length (tlv_item_words tag data) = TLV_DWORD_COUNT (length data)"
  by (simp add: tlv_item_words_def words_of_bytes_length TLV_DWORD_COUNT_def)

lemma new_item_ok: "tag \<noteq> TLV_TAG_END \<Longrightarrow> length data < 2 ^ 32 - 16 \<Longrightarrow> titem_ok (new_item tag data)"
  by (simp add: titem_ok_def new_item_def words_of_bytes_length TLV_DWORD_COUNT_def unat_of_nat)

lemma tlv_editing_start:
  assumes "tlv_editing mem cursor before after segs tail"
  shows "tlv_validate_state mem cursor = Some (RC_OK, cursor)"
    and "tlv_require_end mem cursor
      = Some (RC_OK, cursor\<lparr>tc_end := Some (tc_block cursor + length (titems_words (before @ after)))\<rparr>)"
proof -
  note seg = tlv_editing_segment [OF assms]
  have "tc_current cursor = Some (tc_block cursor + length (titems_words before))" using assms by (simp add: tlv_editing_def)
  from segment_at_pos_ok [OF seg this] show "tlv_validate_state mem cursor = Some (RC_OK, cursor)"
    by (simp add: tlv_validate_state_OK)
qed (rule tlv_require_end_segment [OF tlv_editing_segment [OF assms]])

lemma tlv_insert_editing:
  assumes e: "tlv_editing mem cursor before after segs tail" and tag: "tag \<noteq> TLV_TAG_END" "length data < 2 ^ 32 - 16"
  defines "used \<equiv> length mem - length tail" and "delta \<equiv> TLV_DWORD_COUNT (length data)"
    and "e' \<equiv> tc_block cursor + length (titems_words (before @ after))"
  shows "used + delta > tc_limit cursor \<Longrightarrow> tlv_insert mem cursor tag data = Some (ENOSPC, mem, cursor\<lparr>tc_end := Some e'\<rparr>)"
    and "used + delta \<le> tc_limit cursor \<Longrightarrow> tlv_insert mem cursor tag data = Some (RC_OK,
      take (tc_block cursor) mem @ segments_words ((before @ new_item tag data # after) # segs) @ drop delta tail,
      cursor\<lparr>tc_end := Some (e' + delta)\<rparr>)"
proof -
  define c where "c = cursor\<lparr>tc_end := Some e'\<rparr>"
  obtain pre where m: "mem = pre @ segments_words ((before @ after) # segs) @ tail" "length pre = tc_block cursor"
    using e by (auto simp: tlv_editing_def)
  have cur: "tc_current cursor = Some (tc_block cursor + length (titems_words before))" and lim: "tc_limit cursor \<le> length mem"
    using e by (auto simp: tlv_editing_def)
  have used: "used = length pre + length (segments_words ((before @ after) # segs))" "1 \<le> used" using m by (simp_all add: used_def)
  have lse: "tlv_last_segment_end mem c = Some (used - 1)"
    unfolding used_def by (rule tlv_editing_last_end [OF e]) (simp_all add: c_def)
  note start = tlv_editing_start [OF e, folded e'_def c_def]
  show "tlv_insert mem cursor tag data = Some (ENOSPC, mem, cursor\<lparr>tc_end := Some e'\<rparr>)" if "used + delta > tc_limit cursor"
    using that start lse tag used(2) by (simp add: tlv_insert_def delta_def c_def Let_def)
  show "tlv_insert mem cursor tag data = Some (RC_OK,
      take (tc_block cursor) mem @ segments_words ((before @ new_item tag data # after) # segs) @ drop delta tail,
      cursor\<lparr>tc_end := Some (e' + delta)\<rparr>)" if room: "used + delta \<le> tc_limit cursor"
  proof -
    define A where "A = pre @ titems_words before"
    define B where "B = titems_words after @ TLV_TAG_END # segments_words segs"
    define cur where "cur = tc_block cursor + length (titems_words before)"
    have mem: "mem = A @ B @ tail" using m by (simp add: A_def B_def)
    have a: "length A = cur" using m by (simp add: A_def cur_def)
    have fit: "delta \<le> length tail" using room lim m used by simp
    have n: "used - cur = length B" using used a by (simp add: mem A_def B_def)
    have mv: "memmove_buf mem (cur + delta) cur (used - cur) = Some (A @ take delta (B @ tail) @ B @ drop delta tail)"
      unfolding n unfolding mem by (rule memmove_up [OF a fit])
    have "length (take delta (B @ tail)) = length (tlv_item_words tag data)"
      using fit by (simp add: new_item_length delta_def)
    then have wr: "wr_range (A @ take delta (B @ tail) @ B @ drop delta tail) cur (tlv_item_words tag data)
      = Some (A @ tlv_item_words tag data @ B @ drop delta tail)"
      by (rule wr_range_middle [OF a])
    have "tlv_insert mem cursor tag data
      = Some (RC_OK, A @ tlv_item_words tag data @ B @ drop delta tail, c\<lparr>tc_end := Some (e' + delta)\<rparr>)"
      using start lse tag used(2) room mv wr e
      by (simp add: tlv_insert_def tlv_write_def delta_def [symmetric] Let_def c_def cur_def tlv_editing_def)
    then show ?thesis using m by (simp add: A_def B_def c_def new_item_words)
  qed
qed

text \<open>
  Deleting the item at the cursor. \<open>memmove\<close> is asked for \<open>delta\<close> words more than there are behind the item, so it reads that far
  past the last segment; where the buffer does not reach that far the read leaves it.
\<close>

lemma tlv_delete_editing:
  assumes e: "tlv_editing mem cursor before (i # after) segs tail"
  defines "delta \<equiv> length (titem_words i)"
    and "e' \<equiv> tc_block cursor + length (titems_words (before @ after))"
  shows "delta \<le> length tail \<Longrightarrow> tlv_delete mem cursor = Some (RC_OK,
      take (tc_block cursor) mem @ segments_words ((before @ after) # segs) @ replicate delta 0 @ tail,
      cursor\<lparr>tc_end := Some e'\<rparr>)"
    and "length tail < delta \<Longrightarrow> tlv_delete mem cursor = None"
proof -
  define c where "c = cursor\<lparr>tc_end := Some (e' + delta)\<rparr>"
  define cur where "cur = tc_block cursor + length (titems_words before)"
  define used where "used = length mem - length tail"
  obtain pre where m: "mem = pre @ segments_words ((before @ i # after) # segs) @ tail" "length pre = tc_block cursor"
    using e by (auto simp: tlv_editing_def)
  have current: "tc_current cursor = Some cur" and lim: "used \<le> tc_limit cursor" "tc_limit cursor \<le> length mem"
    and ok: "titem_ok i"
    using e by (auto simp: tlv_editing_def cur_def used_def)
  have e'': "e' + delta = tc_block cursor + length (titems_words (before @ i # after))" by (simp add: e'_def delta_def)
  note start = tlv_editing_start [OF e, folded e'' c_def]
  have lse: "tlv_last_segment_end mem c = Some (used - 1)"
    unfolding used_def by (rule tlv_editing_last_end [OF e]) (simp_all add: c_def)
  define A where "A = pre @ titems_words before"
  define B where "B = titems_words after @ TLV_TAG_END # segments_words segs"
  have mem: "mem = A @ titem_words i @ B @ tail" using m by (simp add: A_def B_def)
  have a: "length A = cur" using m by (simp add: A_def cur_def)
  have used: "used = cur + delta + length B" using a by (simp add: used_def mem delta_def)
  then have n: "used - 1 + 1 - cur = delta + length B" by (simp add: B_def)
  note pos = pos_ok_item [of mem A i "B @ tail" cursor, folded mem]
  have tl: "tlv_tag mem cursor = Some (it_tag i)" "tlv_length mem cursor = Some (unat (it_len i))"
    using pos mem a current ok lim used by (simp_all add: cur_def delta_def B_def)
  have delta: "TLV_DWORD_COUNT (unat (it_len i)) = delta" using titem_words_length [OF ok] by (simp add: delta_def)
  have tag: "it_tag i \<noteq> TLV_TAG_END" using ok by (simp add: titem_ok_def)
  note run = tlv_delete_def start tl tag delta lse Let_def
  show "tlv_delete mem cursor = None" if "length tail < delta"
  proof -
    have "memmove_buf mem cur (cur + delta) (used - 1 + 1 - cur) = None"
      unfolding n mem using memmove_down_overrun [OF a _ refl that, of "titem_words i" B] by (simp add: delta_def)
    then show ?thesis using current by (simp add: run) (simp add: c_def)
  qed
  show "tlv_delete mem cursor = Some (RC_OK,
      take (tc_block cursor) mem @ segments_words ((before @ after) # segs) @ replicate delta 0 @ tail,
      cursor\<lparr>tc_end := Some e'\<rparr>)" if fit: "delta \<le> length tail"
  proof -
    have mv: "memmove_buf mem cur (cur + delta) (used - 1 + 1 - cur) = Some (A @ B @ take delta tail @ tail)"
      unfolding n mem using memmove_down [OF a _ refl fit, of "titem_words i" B] by (simp add: delta_def)
    have "used - 1 + 1 - delta = length (A @ B)" using used a by (simp add: B_def)
    then have ms: "memset_buf (A @ B @ take delta tail @ tail) (used - 1 + 1 - delta) 0 delta
      = Some (A @ B @ replicate delta 0 @ tail)"
      using wr_range_middle [of "A @ B" "used - 1 + 1 - delta" "take delta tail" "replicate delta 0" tail] fit
      by (simp add: memset_buf_def)
    have "tlv_delete mem cursor = Some (RC_OK, A @ B @ replicate delta 0 @ tail, c\<lparr>tc_end := Some e'\<rparr>)"
      using current mv ms by (simp add: run) (simp add: c_def)
    then show ?thesis using m by (simp add: A_def B_def c_def)
  qed
qed

text \<open>Replacing the item at the cursor by one with the same tag: the item grows, shrinks (with the same overrun) or keeps its size.\<close>

lemma tlv_modify_editing:
  assumes e: "tlv_editing mem cursor before (i # after) segs tail" and size: "length data < 2 ^ 32 - 16"
  defines "old \<equiv> length (titem_words i)" and "new \<equiv> TLV_DWORD_COUNT (length data)"
    and "used \<equiv> length mem - length tail"
    and "segs' \<equiv> take (tc_block cursor) mem @ segments_words ((before @ new_item (it_tag i) data # after) # segs)"
    and "e' \<equiv> tc_block cursor + length (titems_words (before @ i # after))"
  shows "new > old \<Longrightarrow> used + (new - old) > tc_limit cursor \<Longrightarrow>
      tlv_modify mem cursor (it_tag i) data = Some (ENOSPC, mem, cursor\<lparr>tc_end := Some e'\<rparr>)"
    and "new > old \<Longrightarrow> used + (new - old) \<le> tc_limit cursor \<Longrightarrow> tlv_modify mem cursor (it_tag i) data
      = Some (RC_OK, segs' @ drop (new - old) tail, cursor\<lparr>tc_end := Some (e' + (new - old))\<rparr>)"
    and "new < old \<Longrightarrow> old - new \<le> length tail \<Longrightarrow> tlv_modify mem cursor (it_tag i) data
      = Some (RC_OK, segs' @ replicate (old - new) 0 @ tail, cursor\<lparr>tc_end := Some (e' - (old - new))\<rparr>)"
    and "new = old \<Longrightarrow> tlv_modify mem cursor (it_tag i) data
      = Some (RC_OK, segs' @ tail, cursor\<lparr>tc_end := Some e'\<rparr>)"
    and "new < old \<Longrightarrow> length tail < old - new \<Longrightarrow> tlv_modify mem cursor (it_tag i) data = None"
proof -
  define c where "c = cursor\<lparr>tc_end := Some e'\<rparr>"
  define cur where "cur = tc_block cursor + length (titems_words before)"
  obtain pre where m: "mem = pre @ segments_words ((before @ i # after) # segs) @ tail" "length pre = tc_block cursor"
    using e by (auto simp: tlv_editing_def)
  have current: "tc_current cursor = Some cur" and lim: "used \<le> tc_limit cursor" "tc_limit cursor \<le> length mem"
    and ok: "titem_ok i"
    using e by (auto simp: tlv_editing_def cur_def used_def)
  note start = tlv_editing_start [OF e, folded e'_def c_def]
  have lse0: "tlv_last_segment_end mem c = Some (used - 1)"
    unfolding used_def by (rule tlv_editing_last_end [OF e]) (simp_all add: c_def)
  define A where "A = pre @ titems_words before"
  define B where "B = titems_words after @ TLV_TAG_END # segments_words segs"
  define W where "W = tlv_item_words (it_tag i) data"
  have mem: "mem = A @ titem_words i @ B @ tail" using m by (simp add: A_def B_def)
  have a: "length A = cur" using m by (simp add: A_def cur_def)
  have w: "length W = new" by (simp add: W_def new_item_length new_def)
  have res: "segs' = A @ W @ B" using m by (simp add: segs'_def A_def B_def W_def new_item_words)
  have used: "used = cur + old + length B" using a by (simp add: used_def mem old_def)
  have "B \<noteq> []" by (simp add: B_def)
  then obtain u where usedp: "used = Suc u" using used by (cases B) auto
  have lse: "tlv_last_segment_end mem c = Some u" using lse0 usedp by simp
  note pos = pos_ok_item [of mem A i "B @ tail" cursor, folded mem]
  have tl: "tlv_tag mem cursor = Some (it_tag i)" "tlv_length mem cursor = Some (unat (it_len i))"
    using pos mem a current ok lim used by (simp_all add: cur_def old_def B_def)
  have old: "TLV_DWORD_COUNT (unat (it_len i)) = old" using titem_words_length [OF ok] by (simp add: old_def)
  have tag: "it_tag i \<noteq> TLV_TAG_END" using ok by (simp add: titem_ok_def)
  have cc: "tc_current c = Some cur" "tc_end c = Some e'" "tc_limit c = tc_limit cursor" using current by (simp_all add: c_def)
  note run = tlv_modify_def start tl tag old lse Let_def cc size new_def [symmetric] tlv_write_def W_def [symmetric]
  show "tlv_modify mem cursor (it_tag i) data = Some (ENOSPC, mem, cursor\<lparr>tc_end := Some e'\<rparr>)"
    if "new > old" "used + (new - old) > tc_limit cursor"
    using that size unfolding usedp by (simp add: run) (simp add: c_def)
  show "tlv_modify mem cursor (it_tag i) data
      = Some (RC_OK, segs' @ drop (new - old) tail, cursor\<lparr>tc_end := Some (e' + (new - old))\<rparr>)"
    if grow: "new > old" and room: "used + (new - old) \<le> tc_limit cursor"
  proof -
    define delta where "delta = new - old"
    have fit: "delta \<le> length tail" using room lim m by (simp add: used_def delta_def)
    have n: "used - (cur + old) = length B" using used by simp
    have mv: "memmove_buf mem (cur + old + delta) (cur + old) (used - (cur + old))
      = Some (A @ (titem_words i @ take delta (B @ tail)) @ B @ drop delta tail)"
      unfolding n using memmove_up [of "A @ titem_words i" "cur + old" delta tail B] a fit
      by (simp add: mem old_def)
    have "length (titem_words i @ take delta (B @ tail)) = length W"
      using fit grow w by (simp add: old_def delta_def)
    from wr_range_middle [OF a this] have wr:
      "wr_range (A @ (titem_words i @ take delta (B @ tail)) @ B @ drop delta tail) cur W = Some (A @ W @ B @ drop delta tail)" .
    have "tlv_modify mem cursor (it_tag i) data
      = Some (RC_OK, A @ W @ B @ drop delta tail, c\<lparr>tc_end := Some (e' + delta)\<rparr>)"
      using grow room mv wr size unfolding delta_def usedp by (simp add: run)
    then show ?thesis by (simp add: res delta_def c_def)
  qed
  show "tlv_modify mem cursor (it_tag i) data
      = Some (RC_OK, segs' @ replicate (old - new) 0 @ tail, cursor\<lparr>tc_end := Some (e' - (old - new))\<rparr>)"
    if shrink: "new < old" and fit: "old - new \<le> length tail"
  proof -
    define delta where "delta = old - new"
    define I where "I = take new (titem_words i)"
    define D where "D = drop new (titem_words i)"
    have mem': "mem = (A @ I) @ D @ B @ tail" by (simp add: mem I_def D_def)
    have len: "length (A @ I) = cur + new" "length D = delta" using a shrink by (simp_all add: I_def D_def delta_def old_def)
    have n: "used - (cur + new) = delta + length B" using used shrink by (simp add: delta_def)
    have mv: "memmove_buf mem (cur + new) (cur + new + delta) (used - (cur + new))
      = Some ((A @ I) @ B @ take delta tail @ tail)"
      unfolding n mem' by (rule memmove_down [OF len refl]) (use fit in \<open>simp add: delta_def\<close>)
    have "used - delta = length ((A @ I) @ B)" using used len shrink by (simp add: delta_def)
    then have ms: "memset_buf ((A @ I) @ B @ take delta tail @ tail) (used - delta) 0 delta
      = Some ((A @ I) @ B @ replicate delta 0 @ tail)"
      using wr_range_middle [of "(A @ I) @ B" "used - delta" "take delta tail" "replicate delta 0" tail] fit
      by (simp add: memset_buf_def delta_def)
    have "length I = length W" using w shrink by (simp add: I_def old_def)
    then have wr: "wr_range ((A @ I) @ B @ replicate delta 0 @ tail) cur W = Some (A @ W @ B @ replicate delta 0 @ tail)"
      using wr_range_middle [OF a, of I W "B @ replicate delta 0 @ tail"] by simp
    have "tlv_modify mem cursor (it_tag i) data
      = Some (RC_OK, A @ W @ B @ replicate delta 0 @ tail, c\<lparr>tc_end := Some (e' - delta)\<rparr>)"
      using shrink mv ms wr size unfolding delta_def usedp by (simp add: run)
    then show ?thesis by (simp add: res delta_def c_def)
  qed
  show "tlv_modify mem cursor (it_tag i) data = None" if shrink: "new < old" and over: "length tail < old - new"
  proof -
    define I where "I = take new (titem_words i)"
    define D where "D = drop new (titem_words i)"
    have mem': "mem = (A @ I) @ D @ B @ tail" by (simp add: mem I_def D_def)
    have len: "length (A @ I) = cur + new" "length D = old - new" using a shrink by (simp_all add: I_def D_def old_def)
    have n: "used - (cur + new) = old - new + length B" using used shrink by simp
    have mv: "memmove_buf mem (cur + new) (cur + new + (old - new)) (used - (cur + new)) = None"
      unfolding n mem' by (rule memmove_down_overrun [OF len refl over])
    then show ?thesis using shrink size unfolding usedp by (simp add: run)
  qed
  show "tlv_modify mem cursor (it_tag i) data = Some (RC_OK, segs' @ tail, cursor\<lparr>tc_end := Some e'\<rparr>)" if "new = old"
  proof -
    have "length (titem_words i) = length W" using that w by (simp add: old_def)
    then have "wr_range mem cur W = Some (A @ W @ B @ tail)" unfolding mem by (rule wr_range_middle [OF a])
    then have "tlv_modify mem cursor (it_tag i) data = Some (RC_OK, A @ W @ B @ tail, c)"
      using that size by (simp add: run)
    then show ?thesis by (simp add: res c_def)
  qed
qed

end
