(* ===== verification/Efx_Ef10_Buffer_Spec.thy ===== *)
theory Efx_Ef10_Buffer_Spec
  imports Efx_Ef10_Buffer Efx_Tlv_Spec
begin

text \<open>
  Correctness of the TLV operations and of the partition buffers: searching, editing and validating are safe on any
  contents, editing changes exactly the items it should, and a buffer that has been finished validates.
\<close>

section \<open>Safety on any contents\<close>

lemma tlv_pos_ok_next:
  assumes "tlv_pos_ok mem cursor"
  shows "tlv_next_item_ptr mem cursor \<noteq> None"
  using assms by (auto simp: tlv_pos_ok_def tlv_next_item_ptr_def tlv_length_def tlv_tag_def)

lemma tlv_advance_total:
  assumes "tc_limit cursor < length mem"
  shows "tlv_advance mem cursor \<noteq> None"
proof -
  obtain rc c where v: "tlv_validate_state mem cursor = Some (rc, c)"
    using tlv_validate_state_total [OF assms] by auto
  show ?thesis
  proof (cases "rc = RC_OK")
    case True
    with v have "c = cursor" "tlv_pos_ok mem cursor" by (auto simp: tlv_validate_state_OK)
    then obtain n where "tlv_next_item_ptr mem cursor = Some n" using tlv_pos_ok_next by blast
    then show ?thesis
      using v True \<open>c = cursor\<close> tlv_validate_state_total [of "cursor\<lparr>tc_current := Some n\<rparr>" mem] assms
      by (simp add: tlv_advance_def)
  qed (use v in \<open>simp add: tlv_advance_def\<close>)
qed

lemma tlv_find_loop_total:
  "tc_limit cursor < length mem \<Longrightarrow> (rc = RC_OK \<longrightarrow> tlv_pos_ok mem cursor) \<Longrightarrow> tlv_find_loop mem tag (rc, cursor) \<noteq> None"
proof (induction mem tag "(rc, cursor)" arbitrary: rc cursor rule: tlv_find_loop.induct)
  case (1 mem tag rc cursor)
  show ?case
  proof (cases "rc = RC_OK")
    case True
    then obtain t where t: "tlv_tag mem cursor = Some t" using 1 by (auto simp: tlv_pos_ok_def tlv_tag_def)
    show ?thesis
    proof (cases "t = tag")
      case False
      obtain rc1 c1 where a: "tlv_advance mem cursor = Some (rc1, c1)"
        using tlv_advance_total [OF "1.prems"(1)] by auto
      have p: "rc1 = RC_OK \<longrightarrow> tlv_pos_ok mem c1" using tlv_advance_OK a by blast
      have l: "tc_limit c1 = tc_limit cursor"
        using a by (auto simp: tlv_advance_def dest!: tlv_validate_state_bounds split: Option.bind_splits if_splits)
      show ?thesis
        using "1.hyps" [OF True t False a refl _ p] t False True a l "1.prems"(1) find_loop_step [OF t False a]
        by simp
    qed (use t True in \<open>simp add: find_loop_hit\<close>)
  qed (simp add: find_loop_stop)
qed

lemma tlv_find_total: "tc_limit cursor < length mem \<Longrightarrow> tlv_find mem cursor tag \<noteq> None"
proof -
  assume lim: "tc_limit cursor < length mem"
  let ?c = "cursor\<lparr>tc_current := Some (tc_block cursor)\<rparr>"
  obtain rc c where r: "tlv_validate_state mem ?c = Some (rc, c)"
    using tlv_validate_state_total [of ?c mem] lim by auto
  have "tc_limit c < length mem" using tlv_validate_state_bounds [OF r] lim by simp
  moreover have "rc = RC_OK \<longrightarrow> tlv_pos_ok mem c" using r by (auto simp: tlv_validate_state_OK)
  ultimately show ?thesis using tlv_find_loop_total [of c mem rc tag] r by (simp add: tlv_find_def tlv_rewind_def)
qed

lemma tlv_item_Some: "tlv_pos_ok mem cursor \<Longrightarrow> tlv_tag mem cursor = Some t \<Longrightarrow> t \<noteq> TLV_TAG_END \<Longrightarrow>
    tlv_item mem cursor = Some (tc_current cursor)"
  by (simp add: tlv_item_def)

lemma tlv_pos_ok_item_room:
  "tlv_pos_ok mem cursor \<Longrightarrow> tlv_tag mem cursor = Some t \<Longrightarrow> t \<noteq> TLV_TAG_END \<Longrightarrow>
   \<exists>current. tc_current cursor = Some current \<and> current + 3 \<le> tc_limit cursor"
  using TLV_DWORD_COUNT_ge [of "unat (mem ! (the (tc_current cursor) + 1))"]
  by (auto simp: tlv_pos_ok_def tlv_tag_def)

lemma tlv_init_cursor_from_size_whole:
  assumes "mem \<noteq> []"
  shows "\<exists>rc c. tlv_init_cursor_from_size mem 0 (4 * length mem) = Some (rc, c) \<and> tc_limit c = length mem - 1 \<and>
    tc_block c = 0 \<and> tc_end c = None \<and> (rc = RC_OK \<longrightarrow> tlv_pos_ok mem c \<and> tc_current c = Some 0)"
proof -
  define c where "c = \<lparr>tc_block = 0, tc_current = Some 0, tc_end = None, tc_limit = length mem - 1\<rparr>"
  have l: "tc_limit c < length mem" using assms by (simp add: c_def)
  obtain rc c' where v: "tlv_validate_state mem c = Some (rc, c')"
    using tlv_validate_state_total [OF l] by auto
  have "1 \<le> length mem" using assms by (cases mem) simp_all
  then have "tlv_init_cursor_from_size mem 0 (4 * length mem) = Some (rc, c')"
    using v by (simp add: tlv_init_cursor_from_size_def tlv_init_cursor_def c_def)
  moreover have "rc = RC_OK \<longrightarrow> c' = c \<and> tlv_pos_ok mem c" using v by (auto simp: tlv_validate_state_OK)
  ultimately show ?thesis using tlv_validate_state_bounds [OF v] by (auto simp: c_def)
qed

lemma sum_dwords_total: "base + (n + 3) div 4 \<le> length mem \<Longrightarrow> sum_dwords mem base n \<noteq> None"
  by (simp add: sum_dwords_def rd_range_def)

lemma buffer_validate_total:
  assumes "5 \<le> length mem"
  shows "ef10_nvram_buffer_validate mem \<noteq> None"
proof -
  have ne: "mem \<noteq> []" using assms by auto
  obtain rc c where init: "tlv_init_cursor_from_size mem 0 (4 * length mem) = Some (rc, c)"
    and c: "tc_limit c = length mem - 1" "tc_block c = 0" "rc = RC_OK \<longrightarrow> tlv_pos_ok mem c \<and> tc_current c = Some 0"
    using tlv_init_cursor_from_size_whole [OF ne] by auto
  have lim: "tc_limit c < length mem" using c assms by simp
  show ?thesis
  proof (cases "rc = RC_OK \<and> mem ! 0 = TLV_TAG_PARTITION_HEADER")
    case True
    then have tag: "tlv_tag mem c = Some TLV_TAG_PARTITION_HEADER" and item: "tlv_item mem c = Some (Some 0)"
      using c assms ne by (simp_all add: tlv_tag_def tlv_item_def rd_def TLV_TAG_PARTITION_HEADER_def TLV_TAG_END_def)
    obtain rc1 c1 where f: "tlv_find mem c TLV_TAG_PARTITION_TRAILER = Some (rc1, c1)"
      using tlv_find_total [OF lim, of TLV_TAG_PARTITION_TRAILER] by auto
    have sum: "\<exists>s. sum_dwords mem 0 n = Some s" if "n \<le> 4 * length mem" for n
      using sum_dwords_total [of 0 n mem] that by auto
    have "ef10_nvram_buffer_validate mem \<noteq> None" if "rc1 = RC_OK"
    proof -
      note ok = tlv_find_OK [OF f [unfolded that]]
      have t: "TLV_TAG_PARTITION_TRAILER \<noteq> TLV_TAG_END" by (simp add: TLV_TAG_PARTITION_TRAILER_def TLV_TAG_END_def)
      obtain t where tr: "tc_current c1 = Some t" "t + 3 \<le> length mem - 1"
        using tlv_pos_ok_item_room [of mem c1 TLV_TAG_PARTITION_TRAILER] ok t c by auto
      have it: "tlv_item mem c1 = Some (Some t)" using tlv_item_Some [of mem c1 TLV_TAG_PARTITION_TRAILER] ok t tr by simp
      obtain rc2 c2 where a: "tlv_advance mem c1 = Some (rc2, c2)" using tlv_advance_total [of c1 mem] ok lim by auto
      have "\<exists>g. tlv_tag mem c2 = Some g" if "rc2 = RC_OK"
        using tlv_advance_OK [OF a [unfolded that]] by (auto simp: tlv_pos_ok_def tlv_tag_def)
      then show ?thesis
        using True init tag item f that it a tr assms ne sum [of "unat (mem ! 4)"]
        by (cases "unat (mem ! 4) \<le> 4 * length mem")
          (auto simp: ef10_nvram_buffer_validate_def split: Option.bind_splits)
    qed
    then show ?thesis
      using True init tag item f assms ne by (cases "rc1 = RC_OK") (auto simp: ef10_nvram_buffer_validate_def)
  next
    case False
    then show ?thesis using init ne c lim assms by (auto simp: ef10_nvram_buffer_validate_def tlv_tag_def)
  qed
qed

section \<open>Checksums\<close>

lemma dword_sum_acc: "dword_sum a xs = a + dword_sum 0 xs"
proof (induction xs arbitrary: a)
  case (Cons x xs)
  from Cons [of "a + x"] Cons [of x] show ?case by (simp add: add.assoc)
qed simp

interpretation dwords_csum: additive_checksum "dword_sum 0"
proof
  show "dword_sum 0 (x # xs) = x + dword_sum 0 xs" for x xs
    using dword_sum_acc [of x xs] by simp
qed simp

section \<open>Partitions\<close>

text \<open>
  The first segment of a partition: a header of three words (type and preset, generation, total length), items, and
  a trailer of two (generation, checksum).
\<close>

definition partition_header :: "u32 \<Rightarrow> u32 \<Rightarrow> u32 \<Rightarrow> tlv_item" where
  "partition_header type_id generation total_len = Item TLV_TAG_PARTITION_HEADER 12 [type_id, generation, total_len]"

definition partition_trailer :: "u32 \<Rightarrow> u32 \<Rightarrow> tlv_item" where
  "partition_trailer generation checksum = Item TLV_TAG_PARTITION_TRAILER 8 [generation, checksum]"

definition partition_items ::
    "u32 \<Rightarrow> u32 \<Rightarrow> u32 \<Rightarrow> tlv_item list \<Rightarrow> u32 \<Rightarrow> u32 \<Rightarrow> tlv_item list" where
  "partition_items type_id generation total_len items generation' checksum =
     partition_header type_id generation total_len # items @ [partition_trailer generation' checksum]"

definition items_size :: "tlv_item list \<Rightarrow> nat" where
  "items_size items = length (titems_words items)"

lemma tlv_tags_distinct [simp]:
  "TLV_TAG_PARTITION_HEADER \<noteq> TLV_TAG_END" "TLV_TAG_PARTITION_TRAILER \<noteq> TLV_TAG_END"
  "TLV_TAG_PARTITION_HEADER \<noteq> TLV_TAG_PARTITION_TRAILER" "TLV_TAG_LICENSE \<noteq> TLV_TAG_END"
  "TLV_TAG_PARTITION_TRAILER \<noteq> TLV_TAG_PARTITION_HEADER"
  by (simp_all add: TLV_TAG_PARTITION_HEADER_def TLV_TAG_PARTITION_TRAILER_def TLV_TAG_END_def TLV_TAG_LICENSE_def)

lemma partition_header_simps [simp]:
  "it_tag (partition_header ty g n) = TLV_TAG_PARTITION_HEADER" "titem_ok (partition_header ty g n)"
  "titem_words (partition_header ty g n) = [TLV_TAG_PARTITION_HEADER, 12, ty, g, n]"
  by (simp_all add: partition_header_def titem_ok_def titem_words_def TLV_DWORD_COUNT_def)

lemma partition_trailer_simps [simp]:
  "it_tag (partition_trailer g c) = TLV_TAG_PARTITION_TRAILER" "titem_ok (partition_trailer g c)"
  "titem_words (partition_trailer g c) = [TLV_TAG_PARTITION_TRAILER, 8, g, c]"
  by (simp_all add: partition_trailer_def titem_ok_def titem_words_def TLV_DWORD_COUNT_def)

lemma partition_items_words:
  "titems_words (partition_items ty g n items g' c)
   = [TLV_TAG_PARTITION_HEADER, 12, ty, g, n] @ titems_words items @ [TLV_TAG_PARTITION_TRAILER, 8, g', c]"
  by (simp add: partition_items_def)

lemma partition_items_ok [simp]:
  "list_all titem_ok (partition_items ty g n items g' c) = list_all titem_ok items"
  by (simp add: partition_items_def)

lemma partition_items_lookup_trailer:
  "\<forall>i\<in>set items. it_tag i \<noteq> TLV_TAG_PARTITION_TRAILER \<Longrightarrow>
   tlv_lookup TLV_TAG_PARTITION_TRAILER pos (partition_items ty g n items g' c) = Some (pos + 5 + items_size items)"
proof -
  have "tlv_lookup TLV_TAG_PARTITION_TRAILER pos (js @ [partition_trailer g' c]) = Some (pos + length (titems_words js))"
    if "\<forall>i\<in>set js. it_tag i \<noteq> TLV_TAG_PARTITION_TRAILER" for js pos
    using that by (induction js arbitrary: pos) (auto simp: add.assoc)
  then show "\<forall>i\<in>set items. it_tag i \<noteq> TLV_TAG_PARTITION_TRAILER \<Longrightarrow>
    tlv_lookup TLV_TAG_PARTITION_TRAILER pos (partition_items ty g n items g' c) = Some (pos + 5 + items_size items)"
    by (simp add: partition_items_def items_size_def)
qed

text \<open>The whole buffer: the segment's words and whatever follows.\<close>

definition partition_words ::
    "u32 \<Rightarrow> u32 \<Rightarrow> u32 \<Rightarrow> tlv_item list \<Rightarrow> u32 \<Rightarrow> u32 \<Rightarrow> u32 list" where
  "partition_words ty g n items g' c =
     [TLV_TAG_PARTITION_HEADER, 12, ty, g, n] @ titems_words items @ [TLV_TAG_PARTITION_TRAILER, 8, g', c, TLV_TAG_END]"

lemma partition_words_segment: "partition_words ty g n items g' c = segment_words (partition_items ty g n items g' c)"
  by (simp add: partition_words_def segment_words_def partition_items_words)

lemma partition_words_length [simp]: "length (partition_words ty g n items g' c) = 10 + items_size items"
  by (simp add: partition_words_def items_size_def)

lemma partition_words_nth:
  "partition_words ty g n items g' c ! 0 = TLV_TAG_PARTITION_HEADER"
  "partition_words ty g n items g' c ! 3 = g" "partition_words ty g n items g' c ! 4 = n"
  "partition_words ty g n items g' c ! (7 + items_size items) = g'"
  "partition_words ty g n items g' c ! (8 + items_size items) = c"
  by (simp_all add: partition_words_def items_size_def nth_append numeral_eq_Suc nth_Cons')

lemma partition_words_update:
  "(partition_words ty g n items g' c)[3 := x] = partition_words ty x n items g' c"
  "(partition_words ty g n items g' c)[4 := x] = partition_words ty g x items g' c"
  "(partition_words ty g n items g' c)[7 + items_size items := x] = partition_words ty g n items x c"
  "(partition_words ty g n items g' c)[8 + items_size items := x] = partition_words ty g n items g' x"
  by (simp_all add: partition_words_def items_size_def list_update_append numeral_eq_Suc)

lemma partition_segment_at:
  assumes "list_all titem_ok items" "mem = partition_words ty g n items g' c @ rest" "tc_block cursor = 0"
    and "10 + items_size items \<le> tc_limit cursor" "tc_limit cursor \<le> length mem"
    and "tc_end cursor = None \<or> tc_end cursor = Some (9 + items_size items)"
  shows "segment_at mem cursor (partition_items ty g n items g' c)"
proof -
  have "mem = [] @ titems_words (partition_items ty g n items g' c) @ TLV_TAG_END # rest"
    using assms by (simp add: partition_words_segment segment_words_def)
  moreover have "length (titems_words (partition_items ty g n items g' c)) = 9 + items_size items"
    by (simp add: partition_items_words items_size_def)
  ultimately show ?thesis using assms by (auto simp: segment_at_def)
qed

text \<open>What validation makes of a buffer of this shape.\<close>

lemma rd_append: "i < length xs \<Longrightarrow> rd (xs @ ys) i = Some (xs ! i)"
  by (simp add: nth_append)

lemma wr_append: "i < length xs \<Longrightarrow> wr (xs @ ys) i v = Some (xs[i := v] @ ys)"
  by (simp add: list_update_append)

lemma buffer_validate_partition:
  assumes ok: "list_all titem_ok items" "\<forall>i\<in>set items. it_tag i \<noteq> TLV_TAG_PARTITION_TRAILER"
    and mem: "mem = partition_words ty g n items g' c @ rest" and room: "11 + items_size items \<le> length mem"
  shows "ef10_nvram_buffer_validate mem =
    (if unat n > 4 * length mem then Some EFBIG
     else if g' \<noteq> g then Some EINVAL
     else map_option (\<lambda>s. if s \<noteq> 0 then EINVAL else RC_OK) (sum_dwords mem 0 (unat n)))"
proof -
  let ?items = "partition_items ty g n items g' c"
  let ?k = "5 + items_size items"
  define cur where "cur = \<lparr>tc_block = 0, tc_current = Some 0, tc_end = None, tc_limit = length mem - 1\<rparr>"
  define c1 where "c1 = cur\<lparr>tc_current := Some ?k\<rparr>"
  define c2 where "c2 = cur\<lparr>tc_current := Some (?k + 4)\<rparr>"
  have ne: "mem \<noteq> []" "1 \<le> length mem" using room by auto
  have seg: "segment_at mem x ?items" if "x \<in> {cur, c1, c2}" for x
    using that room by (intro partition_segment_at [OF ok(1) mem]) (auto simp: cur_def c1_def c2_def)
  have split1: "?items = (partition_header ty g n # items) @ [partition_trailer g' c]"
    and split2: "?items = ?items @ []" by (simp_all add: partition_items_def)
  have len: "length (titems_words (partition_header ty g n # items)) = ?k" "length (titems_words ?items) = ?k + 4"
    by (simp_all add: items_size_def partition_items_words)
  have pos: "tlv_pos_ok mem cur" "tlv_pos_ok mem c1" "tlv_pos_ok mem c2"
    using segment_at_pos_ok [of mem cur "[]" ?items] seg [of cur]
      segment_at_pos_ok [of mem c1 "partition_header ty g n # items" "[partition_trailer g' c]"] seg [of c1] split1
      segment_at_pos_ok [of mem c2 ?items "[]"] seg [of c2] len
    by (simp_all add: cur_def c1_def c2_def items_size_def)
  have init: "tlv_init_cursor_from_size mem 0 (4 * length mem) = Some (RC_OK, cur)"
    using ne pos(1) by (simp add: tlv_init_cursor_from_size_def tlv_init_cursor_def tlv_validate_state_OK cur_def)
  have find: "tlv_find mem cur TLV_TAG_PARTITION_TRAILER = Some (RC_OK, c1)"
    using tlv_find_segment(1) [OF seg [of cur] partition_items_lookup_trailer [OF ok(2), of "tc_block cur"]]
    by (simp add: cur_def c1_def)
  have m: "mem = (partition_words ty g n items g' c @ rest)" using mem .
  have nths: "rd mem 0 = Some TLV_TAG_PARTITION_HEADER" "rd mem 3 = Some g" "rd mem 4 = Some n"
    "rd mem (7 + items_size items) = Some g'"
    unfolding mem by (subst rd_append; simp add: partition_words_nth)+
  have trl: "mem ! ?k = TLV_TAG_PARTITION_TRAILER" "mem ! (?k + 1) = 8" "mem ! (?k + 4) = TLV_TAG_END"
    unfolding mem by (simp_all add: partition_words_def items_size_def nth_append)
  have kl: "?k + 4 < length mem" using room by simp
  have tags: "tlv_tag mem cur = Some TLV_TAG_PARTITION_HEADER" "tlv_tag mem c1 = Some TLV_TAG_PARTITION_TRAILER"
    "tlv_tag mem c2 = Some TLV_TAG_END"
    using nths trl kl by (simp_all add: tlv_tag_def cur_def c1_def c2_def)
  have adv: "tlv_advance mem c1 = Some (RC_OK, c2)"
    using pos tlv_validate_state_OK [of mem c1 c1] tlv_validate_state_OK [of mem c2 c2] trl kl
    by (simp add: tlv_advance_def tlv_next_item_ptr_def tlv_length_def tlv_tag_def c1_def c2_def cur_def TLV_DWORD_COUNT_def)
  have items: "tlv_item mem cur = Some (Some 0)" "tlv_item mem c1 = Some (Some ?k)"
    using tags by (simp_all add: tlv_item_def cur_def c1_def)
  show ?thesis
    using init find adv tags items nths ne
    by (simp add: ef10_nvram_buffer_validate_def map_option_case split: option.split)
qed

lemma partition_take_length:
  "length (titems_words (take k (partition_items ty g n items g' c)))
   = length (titems_words (take k (partition_items ty' h m items h' d)))"
proof -
  have l: "length (titems_words xs) = sum_list (map (length \<circ> titem_words) xs)" for xs
    by (induction xs) simp_all
  show ?thesis unfolding l by (simp add: take_map [symmetric]) (simp add: partition_items_def)
qed

lemma block_length_used_partition:
  assumes "list_all titem_ok items" "mem = partition_words ty g n items g' c @ rest" "tc_block cursor = 0"
    and "10 + items_size items \<le> tc_limit cursor" "tc_limit cursor \<le> length mem"
    and "tc_end cursor = None \<or> tc_end cursor = Some (9 + items_size items)"
    and "tc_current cursor = Some (length (titems_words (take k (partition_items ty' h m items h' d))))"
  shows "tlv_block_length_used mem cursor
    = Some (4 * (10 + items_size items), cursor\<lparr>tc_end := Some (9 + items_size items)\<rparr>)"
proof -
  let ?items = "partition_items ty g n items g' c"
  have l: "length (titems_words ?items) = 9 + items_size items" by (simp add: partition_items_words items_size_def)
  have "segment_at mem cursor (take k ?items @ drop k ?items)"
    using partition_segment_at [OF assms(1-6)] by simp
  from tlv_block_length_used_segment [OF this] assms(3,7) partition_take_length [of k ty g n items g' c ty' h m h' d]
  show ?thesis using l by (simp add: segment_words_def)
qed

lemma update_partition:
  assumes ok: "list_all titem_ok items" and mem: "mem = partition_words ty g n items g' c @ rest" and block: "tc_block cursor = 0"
    and room: "10 + items_size items \<le> tc_limit cursor" "tc_limit cursor \<le> length mem"
    and e: "tc_end cursor = None \<or> tc_end cursor = Some (9 + items_size items)"
    and cur: "tc_current cursor = Some (length (titems_words (take k (partition_items ty g n items g' c))))"
  defines "total_len \<equiv> of_nat (4 * (10 + items_size items))"
  shows "tlv_update_partition_len_and_cks mem cursor = Some (RC_OK,
    partition_words ty (g + 1) total_len items (g + 1)
      (c - dword_sum 0 (partition_words ty (g + 1) total_len items (g + 1) c)) @ rest)"
proof -
  let ?s = "items_size items"
  let ?w = "partition_words ty (g + 1) total_len items (g + 1) c"
  define c1 where "c1 = cursor\<lparr>tc_end := Some (9 + ?s)\<rparr>"
  have used: "tlv_block_length_used mem cursor = Some (4 * (10 + ?s), c1)"
    unfolding c1_def by (rule block_length_used_partition [OF ok mem block room e cur])
  have len: "length (?w @ rest) = length mem" using mem by simp
  have used': "tlv_block_length_used (?w @ rest) c1 = Some (4 * (10 + ?s), c1)"
    using block_length_used_partition [OF ok refl, of c1 ty "g + 1" total_len "g + 1" c rest k ty g n g' c] block room cur mem
    by (simp add: c1_def)
  have rd: "rd mem 0 = Some TLV_TAG_PARTITION_HEADER"
    unfolding mem by (subst rd_append; simp add: partition_words_nth)
  have upd: "wr mem 4 total_len = Some (partition_words ty g total_len items g' c @ rest)"
    "rd (partition_words ty g total_len items g' c @ rest) 3 = Some g"
    "wr (partition_words ty g total_len items g' c @ rest) 3 (g + 1) = Some (partition_words ty (g + 1) total_len items g' c @ rest)"
    "rd (partition_words ty (g + 1) total_len items g' c @ rest) 3 = Some (g + 1)"
    "wr (partition_words ty (g + 1) total_len items g' c @ rest) (7 + ?s) (g + 1) = Some (?w @ rest)"
    "rd (?w @ rest) (8 + ?s) = Some c"
    "wr (?w @ rest) (8 + ?s) x = Some (partition_words ty (g + 1) total_len items (g + 1) x @ rest)" for x
    unfolding mem by (subst rd_append wr_append; simp add: partition_words_nth partition_words_update)+
  have ck: "checksum_tlv_partition (?w @ rest) 0 c1 = Some (dword_sum 0 ?w)"
    using used' by (simp add: checksum_tlv_partition_def rd_range_def)
  define N where "N = 4 * (10 + ?s)"
  have N: "N \<noteq> 0" "5 \<le> N div 4" "N div 4 - 5 + 2 = 7 + ?s" "N div 4 - 5 + 3 = 8 + ?s" "of_nat N = total_len"
    by (simp_all add: N_def total_len_def)
  show ?thesis
    unfolding tlv_update_partition_len_and_cks_def Let_def block used [folded N_def]
    by (simp only: rd upd ck N add_0 Option.bind.bind_lunit prod.case efsys_assert_bind if_True if_False not_True_eq_False simp_thms)
qed

text \<open>The updated partition adds up to zero, and validates.\<close>

lemma updated_csum:
  "dword_sum 0 (partition_words ty g n items g' (c - dword_sum 0 (partition_words ty g n items g' c))) = 0"
  using dwords_csum.csum_fix [of "8 + items_size items" "partition_words ty g n items g' c"]
  by (simp add: partition_words_nth partition_words_update)

lemma updated_validates:
  assumes "list_all titem_ok items" "\<forall>i\<in>set items. it_tag i \<noteq> TLV_TAG_PARTITION_TRAILER"
    and "11 + items_size items \<le> length (partition_words ty g n items g c @ rest)" "4 * (10 + items_size items) < 2 ^ 32"
    and "n = of_nat (4 * (10 + items_size items))" "dword_sum 0 (partition_words ty g n items g c) = 0"
  shows "ef10_nvram_buffer_validate (partition_words ty g n items g c @ rest) = Some RC_OK"
proof -
  have n: "unat n = 4 * (10 + items_size items)" unfolding assms(5) unat_of_nat using assms(4) by simp
  have "sum_dwords (partition_words ty g n items g c @ rest) 0 (unat n) = Some 0"
    using assms(6) by (simp add: sum_dwords_def rd_range_def n)
  with buffer_validate_partition [OF assms(1,2) refl assms(3)] assms(3) n show ?thesis by simp
qed

section \<open>Finishing and creating a buffer\<close>

lemma buffer_finish_partition:
  assumes ok: "list_all titem_ok items" and mem: "mem = partition_words ty g n items g' c @ rest"
    and room: "11 + items_size items \<le> length mem"
  defines "total_len \<equiv> of_nat (4 * (10 + items_size items))"
  shows "ef10_nvram_buffer_finish mem = Some (RC_OK, partition_words ty (g + 1) total_len items (g + 1)
      (c - dword_sum 0 (partition_words ty (g + 1) total_len items (g + 1) c)) @ rest)"
proof -
  define cur where "cur = \<lparr>tc_block = 0, tc_current = Some 0, tc_end = None, tc_limit = length mem - 1\<rparr>"
  define cur' where "cur' = cur\<lparr>tc_end := Some (9 + items_size items)\<rparr>"
  have ne: "mem \<noteq> []" "1 \<le> length mem" using room by auto
  have seg: "segment_at mem cur (partition_items ty g n items g' c)"
    using room by (intro partition_segment_at [OF ok mem]) (auto simp: cur_def)
  have init: "tlv_init_cursor_from_size mem 0 (4 * length mem) = Some (RC_OK, cur)"
    using segment_at_pos_ok [of mem cur "[]"] seg ne
    by (simp add: tlv_init_cursor_from_size_def tlv_init_cursor_def tlv_validate_state_OK cur_def)
  have req: "tlv_require_end mem cur = Some (RC_OK, cur')"
    using tlv_require_end_segment [OF seg] by (simp add: cur_def cur'_def partition_items_words items_size_def)
  have "tlv_update_partition_len_and_cks mem cur' = Some (RC_OK, partition_words ty (g + 1) total_len items (g + 1)
      (c - dword_sum 0 (partition_words ty (g + 1) total_len items (g + 1) c)) @ rest)"
    unfolding total_len_def
    using room by (intro update_partition [OF ok mem, where k = 0]) (auto simp: cur'_def cur_def)
  with init req show ?thesis by (simp add: ef10_nvram_buffer_finish_def)
qed

lemma tlv_dead_ones:
  assumes "start + 1 < length mem" "mem ! start = 0xffffffff" "mem ! (start + 1) = 0xffffffff" "limit < 2 ^ 30"
  shows "tlv_dead mem limit start"
proof -
  let ?c = "\<lparr>tc_block = start, tc_current = Some start, tc_end = None, tc_limit = limit\<rparr>"
  have nxt: "tlv_next_item_ptr mem ?c = Some (start + 1073741826)"
    using assms by (simp add: tlv_next_item_ptr_def tlv_length_def tlv_tag_def TLV_TAG_END_def TLV_DWORD_COUNT_def)
  have "\<exists>rc c. tlv_validate_state mem ?c = Some (rc, c) \<and> rc \<noteq> RC_OK"
    using assms nxt by (simp add: tlv_validate_state_def tlv_tag_def TLV_TAG_END_def)
  then obtain rc c where "tlv_init_cursor mem start limit start = Some (rc, c)" "rc \<noteq> RC_OK"
    by (auto simp: tlv_init_cursor_def)
  then show ?thesis by (subst tlv_dead_def) (simp add: tlv_segments_loop.simps)
qed

lemma u16_bytes: "ucast (ucast t :: u8) OR push_bit 8 (ucast (ucast (drop_bit 8 t) :: u8)) = (ucast (t :: u16) :: u32)"
  by (rule bit_word_eqI) (auto simp: bit_simps dest: bit_imp_le_length)

lemma header_item: "new_item TLV_TAG_PARTITION_HEADER (header_value t) = partition_header (ucast t) 1 0"
  by (simp add: new_item_def header_value_def partition_header_def u16_bytes)

lemma trailer_item: "new_item TLV_TAG_PARTITION_TRAILER trailer_value = partition_trailer 1 0"
  by (simp add: new_item_def trailer_value_def partition_trailer_def)

lemma buffer_create_words:
  assumes "11 \<le> length mem" "length mem < 2 ^ 30"
  defines "rest \<equiv> replicate (length mem - 10) 0xffffffff"
  shows "\<exists>c. ef10_nvram_buffer_create t mem = Some (RC_OK, partition_words (ucast t) 2 40 [] 2 c @ rest) \<and>
    dword_sum 0 (partition_words (ucast t) 2 40 [] 2 c) = 0"
proof -
  define L where "L = length mem"
  have L: "11 \<le> L" "L < 2 ^ 30" using assms by (simp_all add: L_def)
  define ones where "ones n = replicate n (0xffffffff :: u32)" for n
  define hdr where "hdr = partition_header (ucast t) 1 0"
  define trl where "trl = partition_trailer 1 0"
  define m0 where "m0 = TLV_TAG_END # ones (L - 1)"
  define m1 where "m1 = segments_words [[hdr]] @ ones (L - 6)"
  define m2 where "m2 = partition_words (ucast t) 1 0 [] 1 0 @ ones (L - 10)"
  define c0 where "c0 = \<lparr>tc_block = 0, tc_current = Some 0, tc_end = None, tc_limit = L\<rparr>"
  define c1 where "c1 = c0\<lparr>tc_end := Some 5\<rparr>"
  define c2 where "c2 = c1\<lparr>tc_current := Some 5\<rparr>"
  define c3 where "c3 = c2\<lparr>tc_end := Some 9\<rparr>"
  have len: "length m0 = L" "length m1 = L" "length m2 = L"
    using L by (simp_all add: m0_def m1_def m2_def ones_def hdr_def items_size_def)
  obtain n where Ln: "L = 11 + n" using L(1) by (auto simp: le_iff_add)
  have ones_nth: "i < n \<Longrightarrow> ones n ! i = 0xffffffff" for i n by (simp add: ones_def)
  have d0: "tlv_dead m0 L 1"
    by (rule tlv_dead_ones) (use L len in \<open>simp_all add: m0_def ones_nth\<close>)
  have d1: "tlv_dead m1 L 6"
    by (rule tlv_dead_ones) (use L len in \<open>simp_all add: m1_def hdr_def ones_nth\<close>)
  have e0: "tlv_editing m0 c0 [] [] [] (ones (L - 1))"
    using L d0 by (auto simp: tlv_editing_def c0_def m0_def len ones_def)
  have e1: "tlv_editing m1 c2 [hdr] [] [] (ones (L - 6))"
    using L d1 len(2) by (auto simp: tlv_editing_def c2_def c1_def c0_def m1_def hdr_def ones_def)
  have sizes: "length (header_value t) = 12" "length trailer_value = 8" "TLV_DWORD_COUNT 12 = 5" "TLV_DWORD_COUNT 8 = 4"
    by (simp_all add: header_value_def trailer_value_def TLV_DWORD_COUNT_def)
  have o: "drop 5 (ones (L - 1)) = ones (L - 6)" "drop 4 (ones (L - 6)) = ones (L - 10)" by (simp_all add: ones_def)
  have i0: "tlv_insert m0 c0 TLV_TAG_PARTITION_HEADER (header_value t) = Some (RC_OK, m1, c1)"
    using tlv_insert_editing(2) [OF e0, of TLV_TAG_PARTITION_HEADER "header_value t"] L len(1)
    by (simp add: sizes o header_item) (simp add: c0_def c1_def m1_def hdr_def ones_def)
  have i1: "tlv_insert m1 c2 TLV_TAG_PARTITION_TRAILER trailer_value = Some (RC_OK, m2, c3)"
    using tlv_insert_editing(2) [OF e1, of TLV_TAG_PARTITION_TRAILER trailer_value] L len(2)
    by (simp add: sizes o trailer_item)
      (simp add: c0_def c1_def c2_def c3_def m2_def partition_words_def hdr_def trl_def ones_def)
  have "segment_at m1 c1 [hdr]"
    using tlv_editing_segment [OF e1] by (simp add: segment_at_def c2_def)
  then have p1: "tlv_pos_ok m1 c1" using segment_at_pos_ok [of m1 c1 "[]" "[hdr]"] by (simp add: c1_def c0_def)
  have p2: "tlv_pos_ok m1 c2"
    using segment_at_pos_ok [of m1 c2 "[hdr]" "[]"] tlv_editing_segment [OF e1] by (simp add: c2_def c1_def c0_def hdr_def)
  have nx: "tlv_next_item_ptr m1 c1 = Some 5"
    by (simp add: tlv_next_item_ptr_def tlv_length_def tlv_tag_def c1_def c0_def m1_def hdr_def rd_def TLV_DWORD_COUNT_def)
  have adv: "tlv_advance m1 c1 = Some (RC_OK, c2)"
    using p1 p2 nx tlv_validate_state_OK [of m1 c1 c1] tlv_validate_state_OK [of m1 c2 c2]
    by (simp add: tlv_advance_def) (simp add: c2_def c1_def c0_def)
  define c where "c = 0 - dword_sum 0 (partition_words (ucast t) 2 40 [] 2 0)"
  have upd: "tlv_update_partition_len_and_cks m2 c3 = Some (RC_OK, partition_words (ucast t) 2 40 [] 2 c @ ones (L - 10))"
    using update_partition [of "[]" m2 "ucast t" 1 0 1 0 "ones (L - 10)" c3 1] len L
    by (simp add: m2_def c3_def c2_def c1_def c0_def c_def items_size_def partition_items_def)
  have z: "dword_sum 0 (partition_words (ucast t) 2 40 [] 2 c) = 0"
    unfolding c_def by (rule updated_csum)
  have val: "ef10_nvram_buffer_validate (partition_words (ucast t) 2 40 [] 2 c @ ones (L - 10)) = Some RC_OK"
    by (rule updated_validates [OF _ _ _ _ _ z]) (use L in \<open>simp_all add: items_size_def ones_def\<close>)
  have init: "tlv_init_cursor m0 0 L 0 = Some (RC_OK, c0)"
    using segment_at_pos_ok [of m0 c0 "[]" "[]"] tlv_editing_segment [OF e0]
    by (simp add: tlv_init_cursor_def tlv_validate_state_OK c0_def)
  have "replicate L 0xffffffff = 0xffffffff # ones (L - 1)"
    using L by (cases L) (simp_all add: ones_def)
  then have w: "wr (replicate L 0xffffffff) 0 TLV_TAG_END = Some m0" by (simp add: m0_def)
  have "ef10_nvram_buffer_create t mem = Some (RC_OK, partition_words (ucast t) 2 40 [] 2 c @ ones (L - 10))"
    using L w init i0 adv i1 upd val len(1) by (simp add: ef10_nvram_buffer_create_def L_def [symmetric] Let_def)
  then show ?thesis using z by (intro exI [of _ c]) (simp add: rest_def ones_def L_def)
qed

section \<open>Writing and reading one item\<close>

lemma partition_words_edit:
  "segments_words [partition_header ty g n # items @ [partition_trailer g' c]] @ rest = partition_words ty g n items g' c @ rest"
  by (simp add: partition_words_def)

text \<open>The last part of \<open>ef10_nvram_buf_write_tlv\<close>: trailer, lengths, generation and checksum.\<close>

lemma buf_write_tlv_finish:
  assumes ok: "list_all titem_ok items" "\<forall>i\<in>set items. it_tag i \<noteq> TLV_TAG_PARTITION_TRAILER"
    and mem: "mem = partition_words ty g n items g' c @ rest"
    and cur: "tc_block cursor = 0" "tc_limit cursor = length mem - 1" "tc_end cursor = Some (9 + items_size items)"
    and room: "11 + items_size items \<le> length mem"
  defines "total_len \<equiv> 4 * (10 + items_size items)"
  shows "\<exists>c1 ck. tlv_find mem cursor TLV_TAG_PARTITION_TRAILER = Some (RC_OK, c1) \<and>
    tlv_item mem c1 = Some (Some (5 + items_size items)) \<and> tlv_block_length_used mem c1 = Some (total_len, c1) \<and>
    buf_write_trailer mem 0 0 (5 + items_size items) total_len
      = Some (partition_words ty (g + 1) (of_nat total_len) items (g + 1) ck @ rest) \<and>
    dword_sum 0 (partition_words ty (g + 1) (of_nat total_len) items (g + 1) ck) = 0"
proof -
  let ?s = "items_size items"
  let ?items = "partition_items ty g n items g' c"
  define c1 where "c1 = cursor\<lparr>tc_current := Some (5 + ?s)\<rparr>"
  have seg: "segment_at mem cursor ?items"
    using room cur by (intro partition_segment_at [OF ok(1) mem]) auto
  have 1: "tlv_find mem cursor TLV_TAG_PARTITION_TRAILER = Some (RC_OK, c1)"
    using tlv_find_segment(1) [OF seg partition_items_lookup_trailer [OF ok(2)]] cur by (simp add: c1_def)
  have trl: "mem ! (5 + ?s) = TLV_TAG_PARTITION_TRAILER" "5 + ?s < length mem"
    using room unfolding mem by (simp_all add: partition_words_def items_size_def nth_append)
  then have 2: "tlv_item mem c1 = Some (Some (5 + ?s))"
    by (simp add: tlv_item_def tlv_tag_def c1_def)
  have "tc_current c1 = Some (length (titems_words (take (1 + length items) ?items)))"
    by (simp add: c1_def partition_items_def items_size_def)
  moreover have "c1\<lparr>tc_end := Some (9 + ?s)\<rparr> = c1" using cur by (simp add: c1_def)
  ultimately have 3: "tlv_block_length_used mem c1 = Some (total_len, c1)"
    using block_length_used_partition [OF ok(1) mem, of c1 "1 + length items" ty g n g' c] cur room
    by (simp add: c1_def total_len_def)
  let ?w = "partition_words ty (g + 1) (of_nat total_len) items (g + 1)"
  define ck where "ck = 0 - dword_sum 0 (?w 0)"
  have upd: "rd mem 3 = Some g"
    "wr mem 4 (of_nat total_len) = Some (partition_words ty g (of_nat total_len) items g' c @ rest)"
    "wr (partition_words ty g (of_nat total_len) items g' c @ rest) 3 (g + 1)
      = Some (partition_words ty (g + 1) (of_nat total_len) items g' c @ rest)"
    "wr (partition_words ty (g + 1) (of_nat total_len) items g' c @ rest) (7 + ?s) (g + 1) = Some (?w c @ rest)"
    "wr (?w c @ rest) (8 + ?s) 0 = Some (?w 0 @ rest)"
    "wr (?w 0 @ rest) (8 + ?s) ck = Some (?w ck @ rest)"
    unfolding mem by (subst rd_append wr_append; simp add: partition_words_nth partition_words_update)+
  have sum: "sum_dwords (?w 0 @ rest) 0 total_len = Some (dword_sum 0 (?w 0))"
    by (simp add: sum_dwords_def rd_range_def total_len_def)
  have idx: "5 + ?s + 2 = 7 + ?s" "5 + ?s + 3 = 8 + ?s" "NOT x + 1 = 0 - x" for x :: u32
    by (simp_all add: not_eq_complement)
  have 4: "buf_write_trailer mem 0 0 (5 + ?s) total_len = Some (?w ck @ rest)"
    unfolding buf_write_trailer_def
    by (simp only: idx add_0 upd option.map sum Option.bind.bind_lunit ck_def [symmetric])
  have "dword_sum 0 (?w ck) = 0" unfolding ck_def by (rule updated_csum)
  with 1 2 3 4 show ?thesis by blast
qed

lemma partition_lookup_item:
  assumes "tag \<notin> {TLV_TAG_PARTITION_HEADER, TLV_TAG_PARTITION_TRAILER, TLV_TAG_END}" "\<forall>i\<in>set before. it_tag i \<noteq> tag"
    "it_tag i = tag"
  shows "tlv_lookup tag pos (partition_items ty g n (before @ i # after) g' c) = Some (pos + 5 + items_size before)"
proof -
  have "tlv_lookup tag pos (before @ i # js) = Some (pos + length (titems_words before))" for js pos
    using assms by (induction before arbitrary: pos) (auto simp: add.assoc)
  then show ?thesis using assms(1) by (auto simp: partition_items_def items_size_def)
qed

lemma buf_read_tlv_partition:
  assumes ok: "list_all titem_ok items" and items: "items = before @ new_item tag data # after"
    and tag: "tag \<notin> {TLV_TAG_PARTITION_HEADER, TLV_TAG_PARTITION_TRAILER, TLV_TAG_END}" "\<forall>i\<in>set before. it_tag i \<noteq> tag"
    and size: "length data < 2 ^ 32 - 16" "kmem_ok (length data)"
    and mem: "mem = partition_words ty g n items g' c @ rest" and room: "11 + items_size items \<le> length mem"
  shows "ef10_nvram_buf_read_tlv kmem_ok mem 0 (4 * length mem) tag = Some (Inr data)"
proof -
  let ?k = "5 + items_size before"
  define cur where "cur = \<lparr>tc_block = 0, tc_current = Some 0, tc_end = None, tc_limit = length mem - 1\<rparr>"
  define c1 where "c1 = cur\<lparr>tc_current := Some ?k\<rparr>"
  have ne: "mem \<noteq> []" "1 \<le> length mem" using room by auto
  have seg: "segment_at mem cur (partition_items ty g n items g' c)"
    using room by (intro partition_segment_at [OF ok mem]) (auto simp: cur_def)
  have init: "tlv_init_cursor_from_size mem 0 (4 * length mem) = Some (RC_OK, cur)"
    using segment_at_pos_ok [of mem cur "[]"] seg ne
    by (simp add: tlv_init_cursor_from_size_def tlv_init_cursor_def tlv_validate_state_OK cur_def)
  have it: "it_tag (new_item tag data) = tag" by (simp add: new_item_def)
  have find: "tlv_find mem cur tag = Some (RC_OK, c1)"
    using tlv_find_segment(1) [OF seg, of tag ?k] partition_lookup_item [OF tag it, of 0 ty g n after g' c]
    by (simp add: items cur_def c1_def)
  define pre where "pre = [TLV_TAG_PARTITION_HEADER, 12, ty, g, n] @ titems_words before"
  define post where "post = titems_words after @ [TLV_TAG_PARTITION_TRAILER, 8, g', c, TLV_TAG_END] @ rest"
  have m: "mem = pre @ titem_words (new_item tag data) @ post" unfolding mem items pre_def post_def by (simp add: partition_words_def)
  have lp: "length pre = ?k" by (simp add: pre_def items_size_def)
  have oki: "titem_ok (new_item tag data)" using ok items by simp
  have room': "?k + length (titem_words (new_item tag data)) + 1 \<le> length mem - 1"
    unfolding m using lp by (simp add: post_def)
  note pos = pos_ok_item [OF m oki, of c1]
  have len: "tlv_length mem c1 = Some (length data)" and t: "tlv_tag mem c1 = Some tag"
    using pos lp room' size(1) it by (simp_all add: c1_def cur_def new_item_def unat_of_nat)
  have val: "tlv_value mem c1 = Some (Some (?k + 2))" using t tag by (simp add: tlv_value_def c1_def)
  have "mem = (pre @ [tag, of_nat (length data)]) @ words_of_bytes data @ post"
    using m by (simp add: new_item_words tlv_item_words_def)
  then have "rd_range mem (?k + 2) ((length data + 3) div 4) = Some (words_of_bytes data)"
    using rd_range_middle [of "pre @ [tag, of_nat (length data)]" "?k + 2" "words_of_bytes data"] lp
    by (simp add: words_of_bytes_length)
  then have "tlv_value_bytes mem c1 (length data) = Some data"
    using val by (simp add: tlv_value_bytes_def words_of_bytes_roundtrip)
  then show ?thesis using init find len size(2) ne by (simp add: ef10_nvram_buf_read_tlv_def)
qed

end
