(* ===== verification/Efx_Ef10_Props.thy ===== *)
theory Efx_Ef10_Props
  imports Efx_Ef10_Buffer_Spec
begin

text \<open>The properties of the TLV operations and of the EF10 partition buffers.\<close>

section \<open>Writing one item into a partition\<close>

text \<open>The situation of a partition buffer seen by a cursor between two of its items.\<close>

lemma partition_editing:
  assumes "list_all titem_ok (before @ after)" "mem = partition_words ty g n (before @ after) g' c @ rest"
    and "tc_block cursor = 0" "tc_limit cursor = length mem - 1" "tc_end cursor = None"
    and "tc_current cursor = Some (5 + items_size before)" "11 + items_size (before @ after) \<le> length mem"
    and "tlv_dead mem (length mem - 1) (10 + items_size (before @ after))"
  shows "tlv_editing mem cursor (partition_header ty g n # before) (after @ [partition_trailer g' c]) [] rest"
  using assms
  by (auto simp: tlv_editing_def partition_words_edit [symmetric] items_size_def partition_words_def)

lemma items_size_simps [simp]:
  "items_size [] = 0" "items_size (i # is) = length (titem_words i) + items_size is"
  "items_size (is @ js) = items_size is + items_size js"
  by (simp_all add: items_size_def)

lemma tlv_advance_bounds: "tlv_advance mem c = Some (rc, c') \<Longrightarrow>
    tc_block c' = tc_block c \<and> tc_limit c' = tc_limit c \<and> tc_end c' = tc_end c"
  by (auto simp: tlv_advance_def dest!: tlv_validate_state_bounds split: Option.bind_splits if_splits)

lemma tlv_find_bounds:
  assumes "tlv_find mem c tag = Some (rc, c')"
  shows "tc_block c' = tc_block c \<and> tc_limit c' = tc_limit c \<and> tc_end c' = tc_end c"
proof -
  have loop: "tlv_find_loop mem tag (r, x) = Some (rc, c') \<Longrightarrow>
    tc_block c' = tc_block x \<and> tc_limit c' = tc_limit x \<and> tc_end c' = tc_end x" for r x
  proof (induction mem tag "(r, x)" arbitrary: r x rule: tlv_find_loop.induct)
    case (1 mem tag r x)
    note l = "1.prems" [unfolded tlv_find_loop.simps [of mem tag r x]]
    show ?case
    proof (cases "r = RC_OK")
      case True
      then obtain t where t: "tlv_tag mem x = Some t" using l by (auto split: Option.bind_splits)
      show ?thesis
      proof (cases "t = tag")
        case False
        then obtain r1 x1 where a: "tlv_advance mem x = Some (r1, x1)" and rest: "tlv_find_loop mem tag (r1, x1) = Some (rc, c')"
          using l t True by (auto split: Option.bind_splits)
        from "1.hyps" [OF True t False a refl rest] tlv_advance_bounds [OF a] show ?thesis by simp
      qed (use l t True in auto)
    qed (use l in auto)
  qed
  show ?thesis
    using assms loop by (fastforce simp: tlv_find_def tlv_rewind_def dest!: tlv_validate_state_bounds split: Option.bind_splits)
qed

text \<open>The step in the middle of \<open>ef10_nvram_buf_write_tlv\<close> that modifies the item or inserts it before the trailer.\<close>

definition buf_write_step ::
    "u32 list \<Rightarrow> tlv_cursor \<Rightarrow> u32 \<Rightarrow> u8 list \<Rightarrow> (efx_rc \<times> u32 list \<times> tlv_cursor) option" where
  "buf_write_step mem cursor tag data = do {
     (rc, cursor) \<leftarrow> tlv_find mem cursor tag;
     if rc = RC_OK then tlv_modify mem cursor tag data
     else do {
       (rc, cursor) \<leftarrow> tlv_find mem cursor TLV_TAG_PARTITION_TRAILER;
       if rc \<noteq> RC_OK then Some (EINVAL, mem, cursor)
       else do {
         (rc, mem, cursor) \<leftarrow> tlv_insert mem cursor tag data;
         Some (if rc \<noteq> RC_OK then EINVAL else RC_OK, mem, cursor) } } }"

text \<open>The items after the write: the first item with the tag is replaced, or a new one comes last.\<close>

fun items_write :: "u32 \<Rightarrow> u8 list \<Rightarrow> tlv_item list \<Rightarrow> tlv_item list" where
  "items_write tag data [] = [new_item tag data]"
| "items_write tag data (i # is) = (if it_tag i = tag then new_item tag data # is else i # items_write tag data is)"

lemma items_write_split:
  "(\<exists>before i after. is = before @ i # after \<and> it_tag i = tag \<and> (\<forall>j\<in>set before. it_tag j \<noteq> tag) \<and>
     items_write tag data is = before @ new_item tag data # after)
   \<or> (\<forall>i\<in>set is. it_tag i \<noteq> tag) \<and> items_write tag data is = is @ [new_item tag data]"
proof (induction "is")
  case (Cons i "is")
  show ?case
  proof (cases "it_tag i = tag")
    case True
    then show ?thesis by (intro disjI1 exI [of _ "[]"] exI [of _ i] exI [of _ "is"]) simp
  next
    case False
    from Cons.IH show ?thesis
    proof (elim disjE exE conjE)
      fix before j after
      assume "is = before @ j # after" "it_tag j = tag" "\<forall>j\<in>set before. it_tag j \<noteq> tag"
        "items_write tag data is = before @ new_item tag data # after"
      then show ?thesis using False
        by (intro disjI1 exI [of _ "i # before"] exI [of _ j] exI [of _ after]) simp
    qed (use False in simp)
  qed
qed simp

lemma buf_write_step_partition:
  assumes ok: "list_all titem_ok items" "\<forall>i\<in>set items. it_tag i \<noteq> TLV_TAG_PARTITION_TRAILER"
    and tag: "tag \<notin> {TLV_TAG_PARTITION_HEADER, TLV_TAG_PARTITION_TRAILER, TLV_TAG_END}" and size: "length data < 2 ^ 32 - 16"
    and mem: "mem = partition_words ty g n items g' c @ rest" and room: "11 + items_size items \<le> length mem"
    and dead: "tlv_dead mem (length mem - 1) (10 + items_size items)"
    and cur: "cursor = \<lparr>tc_block = 0, tc_current = Some 0, tc_end = None, tc_limit = length mem - 1\<rparr>"
    and absent: "(\<forall>i\<in>set items. it_tag i \<noteq> tag) \<Longrightarrow> \<exists>rc c1. tlv_find mem cursor tag = Some (rc, c1) \<and> rc \<noteq> RC_OK"
    and step: "buf_write_step mem cursor tag data = Some (RC_OK, mem', cursor')"
  defines "items' \<equiv> items_write tag data items"
  shows "(\<exists>rest'. mem' = partition_words ty g n items' g' c @ rest') \<and> length mem' = length mem \<and>
    11 + items_size items' \<le> length mem' \<and> tc_block cursor' = 0 \<and> tc_limit cursor' = length mem - 1 \<and>
    tc_end cursor' = Some (9 + items_size items')"
proof -
  let ?s = "items_size items"
  define seg_len where "seg_len = 10 + ?s"
  have used: "length mem - length rest = seg_len" using mem by (simp add: seg_len_def)
  have seg: "segment_at mem cursor (partition_items ty g n items g' c)"
    using room by (intro partition_segment_at [OF ok(1) mem]) (auto simp: cur)
  from items_write_split [of "items" tag data] show ?thesis
  proof (elim disjE exE conjE)
    fix before i after
    assume items: "items = before @ i # after" and i: "it_tag i = tag" and before: "\<forall>j\<in>set before. it_tag j \<noteq> tag"
      and w: "items_write tag data items = before @ new_item tag data # after"
    define c1 where "c1 = cursor\<lparr>tc_current := Some (5 + items_size before)\<rparr>"
    have find: "tlv_find mem cursor tag = Some (RC_OK, c1)"
      using tlv_find_segment(1) [OF seg, of tag "5 + items_size before"] partition_lookup_item [OF tag before i, of 0 ty g n after g' c]
      by (simp add: items cur c1_def)
    have e: "tlv_editing mem c1 (partition_header ty g n # before) (i # (after @ [partition_trailer g' c])) [] rest"
      using partition_editing [of before "i # after" mem ty g n g' c rest c1] ok(1) mem room dead
      by (simp add: c1_def cur items)
    note m = tlv_modify_editing [OF e size, unfolded i used]
    have st: "tlv_modify mem c1 tag data = Some (RC_OK, mem', cursor')"
      using step find by (simp add: buf_write_step_def)
    define old where "old = length (titem_words i)"
    define new where "new = TLV_DWORD_COUNT (length data)"
    have sizes: "items_size items' + old = ?s + new"
    proof -
      have "items' = before @ new_item tag data # after" using w by (simp add: items'_def)
      then show ?thesis by (simp add: items new_item_words new_item_length old_def new_def)
    qed
    have old_le: "old \<le> ?s" by (simp add: items old_def)
    have pw: "take (tc_block c1) mem @ segments_words [(partition_header ty g n # before) @ new_item tag data # after @ [partition_trailer g' c]]
       = partition_words ty g n items' g' c"
      by (simp add: items'_def w c1_def cur partition_words_def)
    have e': "tc_block c1 + length (titems_words ((partition_header ty g n # before) @ i # after @ [partition_trailer g' c])) = 9 + ?s"
      by (simp add: c1_def cur items) (simp add: items_size_def)
    have lim: "tc_limit c1 = length mem - 1" by (simp add: c1_def cur)
    have lrest: "length rest = length mem - seg_len" "seg_len < length mem" using mem room by (auto simp: seg_len_def)
    note m = m [unfolded pw e' lim, folded old_def new_def]
    have cc: "tc_block c1 = 0" by (simp add: c1_def cur)
    consider "new > old" "seg_len + (new - old) > length mem - 1" | "new > old" "seg_len + (new - old) \<le> length mem - 1"
      | "new < old" "old - new \<le> length rest" | "new = old" | "new < old" "length rest < old - new" by linarith
    then show ?thesis
    proof cases
      case 1
      with m(1) st show ?thesis by simp
    next
      case 2
      with m(2) st have "mem' = partition_words ty g n items' g' c @ drop (new - old) rest"
        "cursor' = c1\<lparr>tc_end := Some (9 + ?s + (new - old))\<rparr>" by simp_all
      with 2 lrest cc lim sizes room show ?thesis by (auto simp: seg_len_def)
    next
      case 3
      with m(3) st have "mem' = partition_words ty g n items' g' c @ replicate (old - new) 0 @ rest"
        "cursor' = c1\<lparr>tc_end := Some (9 + ?s - (old - new))\<rparr>" by simp_all
      with 3 lrest cc lim sizes room old_le show ?thesis by (auto simp: seg_len_def)
    next
      case 4
      with m(4) st have "mem' = partition_words ty g n items' g' c @ rest" "cursor' = c1\<lparr>tc_end := Some (9 + ?s)\<rparr>" by simp_all
      with 4 lrest cc lim sizes room show ?thesis by (auto simp: seg_len_def)
    next
      case 5
      with m(5) st show ?thesis by simp
    qed
  next
    assume none: "\<forall>i\<in>set items. it_tag i \<noteq> tag" and w: "items_write tag data items = items @ [new_item tag data]"
    obtain rc c1 where find: "tlv_find mem cursor tag = Some (rc, c1)" "rc \<noteq> RC_OK" using absent [OF none] by blast
    have b: "tc_block c1 = 0" "tc_end c1 = None" "tc_limit c1 = length mem - 1"
      using tlv_find_bounds [OF find(1)] by (simp_all add: cur)
    define c2 where "c2 = c1\<lparr>tc_current := Some (5 + ?s)\<rparr>"
    have "segment_at mem c1 (partition_items ty g n items g' c)"
      using room b by (intro partition_segment_at [OF ok(1) mem]) auto
    from tlv_find_segment(1) [OF this partition_items_lookup_trailer [OF ok(2)]] b
    have find2: "tlv_find mem c1 TLV_TAG_PARTITION_TRAILER = Some (RC_OK, c2)" by (simp add: c2_def)
    have e: "tlv_editing mem c2 (partition_header ty g n # items) [partition_trailer g' c] [] rest"
      using partition_editing [of items "[]" mem ty g n g' c rest c2] ok(1) mem room dead b by (simp add: c2_def)
    have tagE: "tag \<noteq> TLV_TAG_END" using tag by simp
    define new where "new = TLV_DWORD_COUNT (length data)"
    note m = tlv_insert_editing [OF e tagE size, unfolded used, folded new_def]
    have pw: "take (tc_block c2) mem @ segments_words [(partition_header ty g n # items) @ new_item tag data # [partition_trailer g' c]] @ X
       = partition_words ty g n items' g' c @ X" for X
      using b by (simp add: items'_def w c2_def partition_words_def)
    have e': "tc_block c2 + length (titems_words ((partition_header ty g n # items) @ [partition_trailer g' c])) = 9 + ?s"
      using b by (simp add: c2_def) (simp add: items_size_def)
    have lim: "tc_limit c2 = length mem - 1" "tc_block c2 = 0" using b by (simp_all add: c2_def)
    have lrest: "length rest = length mem - seg_len" "seg_len < length mem" using mem room by (auto simp: seg_len_def)
    have sizes: "items_size items' = ?s + new" by (simp add: items'_def w new_item_words new_item_length new_def)
    note m = m [unfolded pw e' lim(1)]
    have st: "tlv_insert mem c2 tag data = Some (RC_OK, mem', cursor')"
      using step find find2 by (auto simp: buf_write_step_def split: Option.bind_splits if_splits)
    show ?thesis
    proof (cases "seg_len + new > length mem - 1")
      case True
      with m(1) st show ?thesis by simp
    next
      case False
      with m(2) st have "mem' = partition_words ty g n items' g' c @ drop new rest"
        "cursor' = c2\<lparr>tc_end := Some (9 + ?s + new)\<rparr>" by simp_all
      with False lrest lim sizes room show ?thesis by (auto simp: seg_len_def)
    qed
  qed
qed

lemma items_write_ok:
  assumes "list_all titem_ok items" "\<forall>i\<in>set items. it_tag i \<noteq> TLV_TAG_PARTITION_TRAILER"
    and "tag \<notin> {TLV_TAG_PARTITION_HEADER, TLV_TAG_PARTITION_TRAILER, TLV_TAG_END}" "length data < 2 ^ 32 - 16"
  shows "list_all titem_ok (items_write tag data items)"
    "\<forall>i\<in>set (items_write tag data items). it_tag i \<noteq> TLV_TAG_PARTITION_TRAILER"
    "\<exists>before after. items_write tag data items = before @ new_item tag data # after \<and> (\<forall>i\<in>set before. it_tag i \<noteq> tag)"
proof -
  have new: "titem_ok (new_item tag data)" "it_tag (new_item tag data) = tag"
    using assms new_item_ok [of tag data] by (simp_all add: new_item_def)
  from items_write_split [of items tag data] assms new
  show "list_all titem_ok (items_write tag data items)"
    "\<forall>i\<in>set (items_write tag data items). it_tag i \<noteq> TLV_TAG_PARTITION_TRAILER"
    "\<exists>before after. items_write tag data items = before @ new_item tag data # after \<and> (\<forall>i\<in>set before. it_tag i \<noteq> tag)"
    by (elim disjE exE conjE; force)+
qed

lemma buf_write_tlv_unfold:
  assumes "ef10_nvram_buf_write_tlv mem 0 sz tag data = Some (RC_OK, mem', total_len)"
  shows "\<exists>c c1 c2 c3 mem1 trailer. tlv_init_cursor_from_size mem 0 sz = Some (RC_OK, c) \<and>
    buf_write_step mem c tag data = Some (RC_OK, mem1, c1) \<and> tlv_find mem1 c1 TLV_TAG_PARTITION_TRAILER = Some (RC_OK, c2) \<and>
    tlv_item mem1 c2 = Some (Some trailer) \<and> tlv_block_length_used mem1 c2 = Some (total_len, c3) \<and>
    buf_write_trailer mem1 0 (the (tc_current c)) trailer total_len = Some mem'"
proof -
  note w = assms [unfolded ef10_nvram_buf_write_tlv_def]
  obtain c where c: "tlv_init_cursor_from_size mem 0 sz = Some (RC_OK, c)" using w by (auto split: Option.bind_splits if_splits)
  obtain header where h: "tlv_item mem c = Some (Some header)"
    using w c by (auto split: Option.bind_splits if_splits)
  then have hc: "header = the (tc_current c)" by (auto simp: tlv_item_def split: Option.bind_splits if_splits)
  have "\<exists>mem1 c1. buf_write_step mem c tag data = Some (RC_OK, mem1, c1) \<and>
    (\<exists>c2 trailer c3. tlv_find mem1 c1 TLV_TAG_PARTITION_TRAILER = Some (RC_OK, c2) \<and> tlv_item mem1 c2 = Some (Some trailer) \<and>
      tlv_block_length_used mem1 c2 = Some (total_len, c3) \<and> buf_write_trailer mem1 0 header trailer total_len = Some mem')"
    using w c h unfolding buf_write_step_def
    by (auto split: Option.bind_splits if_splits)
  then show ?thesis using c hc by blast
qed

lemmas tlv_eval = tlv_init_cursor_from_size_def tlv_init_cursor_def tlv_init_cursor_at_offset_def tlv_validate_state_def
  tlv_tag_def tlv_length_def tlv_next_item_ptr_def tlv_item_def tlv_value_def tlv_find_def tlv_rewind_def
  tlv_find_loop.simps tlv_advance_def tlv_require_end_def tlv_last_segment_end_def tlv_segments_loop.simps
  tlv_block_length_used_def TLV_DWORD_COUNT_def TLV_TAG_END_def TLV_TAG_PARTITION_HEADER_def
  TLV_TAG_PARTITION_TRAILER_def TLV_TAG_LICENSE_def tlv_insert_def tlv_delete_def tlv_modify_def tlv_write_def
  tlv_item_words_def memmove_buf_def memset_buf_def rd_range_def wr_range_def rd_def wr_def sum_dwords_def

text \<open>A partition without items in a buffer of 17 words, for the concrete instances.\<close>

definition sample_partition :: "u32 list" where
  "sample_partition = [0xef10da7a, 12, 0, 1, 40, 0xef101a57, 8, 1, 0x32f01c03, 0xeeeeeeee,
     0xffffffff, 0xffffffff, 0xffffffff, 0xffffffff, 0xffffffff, 0xffffffff, 0xffffffff]"

lemma sample_partition_words:
  "sample_partition = partition_words 0 1 40 [] 1 0x32f01c03 @ replicate 7 0xffffffff" "length sample_partition = 17"
  by (simp_all add: sample_partition_def partition_words_def TLV_TAG_END_def TLV_TAG_PARTITION_HEADER_def
      TLV_TAG_PARTITION_TRAILER_def numeral_eq_Suc)

lemma sample_partition_dead: "tlv_dead sample_partition 16 10"
  by (rule tlv_dead_ones) (simp_all add: sample_partition_def)

section \<open>Properties\<close>

text \<open>
  C1. Adding or replacing one TLV item: a write that succeeds replaces the first item with that tag, or appends the item before the
  trailer, and leaves every other item as it was; the result is a partition that validates, with the next generation number and
  its new length, and reading the tag back returns exactly the bytes written. (The buffer holds one segment of fewer than 2^30 words;
  for a new tag the search must not find it behind the end tag.)
\<close>
theorem ef10_nvram_buf_write_read:
  assumes "list_all titem_ok items" "\<forall>i\<in>set items. it_tag i \<noteq> TLV_TAG_PARTITION_TRAILER"
    and "tag \<notin> {TLV_TAG_PARTITION_HEADER, TLV_TAG_PARTITION_TRAILER, TLV_TAG_END}"
    and "length data < 2 ^ 32 - 16" "kmem_ok (length data)"
    and "mem = partition_words ty g n items g' c @ rest" "11 + items_size items \<le> length mem" "length mem < 2 ^ 30"
    and "tlv_dead mem (length mem - 1) (10 + items_size items)"
    and "(\<forall>i\<in>set items. it_tag i \<noteq> tag) \<longrightarrow>
      ef10_nvram_buf_read_tlv (\<lambda>n. True) mem 0 (4 * length mem) tag = Some (Inl ENOENT)"
    and "ef10_nvram_buf_write_tlv mem 0 (4 * length mem) tag data = Some (RC_OK, mem', total_len)"
  shows "total_len = 4 * (10 + items_size (items_write tag data items)) \<and>
    (\<exists>ck rest'. mem' = partition_words ty (g + 1) (of_nat total_len) (items_write tag data items) (g + 1) ck @ rest') \<and>
    ef10_nvram_buffer_validate mem' = Some RC_OK \<and>
    ef10_nvram_buf_read_tlv kmem_ok mem' 0 (4 * length mem') tag = Some (Inr data)"
proof -
  define items' where "items' = items_write tag data items"
  define cur where "cur = \<lparr>tc_block = 0, tc_current = Some 0, tc_end = None, tc_limit = length mem - 1\<rparr>"
  note ok = assms(1,2) and tag = assms(3) and size = assms(4) and mem = assms(6) and room = assms(7)
  have ok': "list_all titem_ok items'" "\<forall>i\<in>set items'. it_tag i \<noteq> TLV_TAG_PARTITION_TRAILER"
    using items_write_ok(1,2) [OF ok tag size] by (simp_all add: items'_def)
  have ne: "mem \<noteq> []" "1 \<le> length mem" using room by auto
  have "segment_at mem cur (partition_items ty g n items g' c)"
    using room by (intro partition_segment_at [OF ok(1) mem]) (auto simp: cur_def)
  then have init: "tlv_init_cursor_from_size mem 0 (4 * length mem) = Some (RC_OK, cur)"
    using segment_at_pos_ok [of mem cur "[]"] ne
    by (simp add: tlv_init_cursor_from_size_def tlv_init_cursor_def tlv_validate_state_OK cur_def)
  obtain c1 c2 c3 mem1 trailer where step: "buf_write_step mem cur tag data = Some (RC_OK, mem1, c1)"
    and f: "tlv_find mem1 c1 TLV_TAG_PARTITION_TRAILER = Some (RC_OK, c2)" "tlv_item mem1 c2 = Some (Some trailer)"
      "tlv_block_length_used mem1 c2 = Some (total_len, c3)" "buf_write_trailer mem1 0 0 trailer total_len = Some mem'"
    using buf_write_tlv_unfold [OF assms(11)] init by (auto simp: cur_def)
  have absent: "\<exists>rc c1. tlv_find mem cur tag = Some (rc, c1) \<and> rc \<noteq> RC_OK" if "\<forall>i\<in>set items. it_tag i \<noteq> tag"
    using assms(10) that init ne by (auto simp: ef10_nvram_buf_read_tlv_def split: Option.bind_splits if_splits)
  obtain rest' where mem1: "mem1 = partition_words ty g n items' g' c @ rest'" and len1: "length mem1 = length mem"
    and c1: "11 + items_size items' \<le> length mem1" "tc_block c1 = 0" "tc_limit c1 = length mem - 1" "tc_end c1 = Some (9 + items_size items')"
    using buf_write_step_partition [OF ok tag size mem room assms(9) cur_def absent step] by (auto simp: items'_def)
  obtain ck where mem': "mem' = partition_words ty (g + 1) (of_nat total_len) items' (g + 1) ck @ rest'"
    and total: "total_len = 4 * (10 + items_size items')"
    and zero: "dword_sum 0 (partition_words ty (g + 1) (of_nat total_len) items' (g + 1) ck) = 0"
    using buf_write_tlv_finish [OF ok' mem1 c1(2) _ c1(4,1)] c1(3) len1 f by fastforce
  have len': "length mem' = length mem" using len1 by (simp add: mem' mem1)
  have room': "11 + items_size items' \<le> length mem'" using c1(1) len1 len' by simp
  have val: "ef10_nvram_buffer_validate mem' = Some RC_OK"
    unfolding mem' by (rule updated_validates [OF ok' _ _ _ zero]) (use room' len' assms(8) total in \<open>simp_all add: mem'\<close>)
  obtain before after where split: "items' = before @ new_item tag data # after" "\<forall>i\<in>set before. it_tag i \<noteq> tag"
    using items_write_ok(3) [OF ok tag size] by (auto simp: items'_def)
  have read: "ef10_nvram_buf_read_tlv kmem_ok mem' 0 (4 * length mem') tag = Some (Inr data)"
    by (rule buf_read_tlv_partition [where kmem_ok = kmem_ok, OF ok'(1) split(1) tag split(2) size assms(5) mem' room'])
  show ?thesis using val read mem' total by (auto simp: items'_def)
qed

theorem ef10_nvram_buf_write_read_witness:
  "\<exists>mem' total_len. ef10_nvram_buf_write_tlv sample_partition 0 68 5 [1, 2, 3] = Some (RC_OK, mem', total_len) \<and>
    ef10_nvram_buffer_validate mem' = Some RC_OK \<and>
    ef10_nvram_buf_read_tlv (\<lambda>n. True) mem' 0 (4 * length mem') 5 = Some (Inr [1, 2, 3])"
proof -
  obtain mem' total_len where w: "ef10_nvram_buf_write_tlv sample_partition 0 (4 * length sample_partition) 5 [1, 2, 3]
      = Some (RC_OK, mem', total_len)"
    by (simp add: ef10_nvram_buf_write_tlv_def buf_write_trailer_def tlv_eval sample_partition_def Let_def)
  have r: "ef10_nvram_buf_read_tlv (\<lambda>n. True) sample_partition 0 (4 * length sample_partition) 5 = Some (Inl ENOENT)"
    by (simp add: ef10_nvram_buf_read_tlv_def tlv_eval sample_partition_def)
  have "ef10_nvram_buffer_validate mem' = Some RC_OK \<and>
    ef10_nvram_buf_read_tlv (\<lambda>n. True) mem' 0 (4 * length mem') 5 = Some (Inr [1, 2, 3])"
    using ef10_nvram_buf_write_read [of "[]" 5 "[1, 2, 3]" "\<lambda>n. True" sample_partition 0 1 40 1 "0x32f01c03" "replicate 7 0xffffffff"
        mem' total_len] w r sample_partition_words sample_partition_dead
    by (simp add: TLV_TAG_END_def TLV_TAG_PARTITION_HEADER_def TLV_TAG_PARTITION_TRAILER_def)
  with w show ?thesis by (simp add: sample_partition_words(2))
qed

text \<open>
  Creating a partition in a buffer of 44 bytes or more succeeds: the buffer then holds a header with the given type, generation 2 and
  its own length of 40 bytes, a trailer, and the end tag, with words of ones behind; the words up to the end tag add up to zero and the buffer validates.
\<close>
theorem ef10_nvram_buffer_create_valid:
  assumes "44 \<le> 4 * length mem" "4 * length mem < 2 ^ 32"
  shows "\<exists>mem' ck. ef10_nvram_buffer_create partn_type mem = Some (RC_OK, mem') \<and>
    mem' = partition_words (ucast partn_type) 2 40 [] 2 ck @ replicate (length mem - 10) 0xffffffff \<and>
    dword_sum 0 (take 10 mem') = 0 \<and> ef10_nvram_buffer_validate mem' = Some RC_OK"
proof -
  obtain ck where c: "ef10_nvram_buffer_create partn_type mem
      = Some (RC_OK, partition_words (ucast partn_type) 2 40 [] 2 ck @ replicate (length mem - 10) 0xffffffff)"
    and z: "dword_sum 0 (partition_words (ucast partn_type) 2 40 [] 2 ck) = 0"
    using buffer_create_words [of mem partn_type] assms by auto
  have "ef10_nvram_buffer_validate (partition_words (ucast partn_type) 2 40 [] 2 ck @ replicate (length mem - 10) 0xffffffff)
      = Some RC_OK"
    by (rule updated_validates [OF _ _ _ _ _ z]) (use assms in simp_all)
  with c z show ?thesis by auto
qed

theorem ef10_nvram_buffer_create_valid_witness:
  "\<exists>mem'. ef10_nvram_buffer_create 0x1234 (replicate 12 7) = Some (RC_OK, mem') \<and> ef10_nvram_buffer_validate mem' = Some RC_OK"
  using ef10_nvram_buffer_create_valid [of "replicate 12 7" "0x1234"] by auto

text \<open>
  Finishing an edited partition repairs it: whatever length, generation and checksum fields it had, afterwards they describe its
  contents with the next generation number, all items are as before, and the buffer validates.
\<close>
theorem ef10_nvram_buffer_finish_valid:
  assumes "list_all titem_ok items" "\<forall>i\<in>set items. it_tag i \<noteq> TLV_TAG_PARTITION_TRAILER"
    and "mem = partition_words ty g n items g' c @ rest" "11 + items_size items \<le> length mem" "4 * length mem < 2 ^ 32"
  shows "\<exists>ck. ef10_nvram_buffer_finish mem
      = Some (RC_OK, partition_words ty (g + 1) (of_nat (4 * (10 + items_size items))) items (g + 1) ck @ rest) \<and>
    ef10_nvram_buffer_validate
      (partition_words ty (g + 1) (of_nat (4 * (10 + items_size items))) items (g + 1) ck @ rest) = Some RC_OK"
proof -
  define total_len :: u32 where "total_len = of_nat (4 * (10 + items_size items))"
  define ck where "ck = c - dword_sum 0 (partition_words ty (g + 1) total_len items (g + 1) c)"
  have z: "dword_sum 0 (partition_words ty (g + 1) total_len items (g + 1) ck) = 0"
    unfolding ck_def by (rule updated_csum)
  have f: "ef10_nvram_buffer_finish mem = Some (RC_OK, partition_words ty (g + 1) total_len items (g + 1) ck @ rest)"
    using buffer_finish_partition [OF assms(1,3,4)] unfolding ck_def total_len_def .
  have "ef10_nvram_buffer_validate (partition_words ty (g + 1) total_len items (g + 1) ck @ rest) = Some RC_OK"
    by (rule updated_validates [OF assms(1,2) _ _ _ z]) (use assms in \<open>simp_all add: total_len_def\<close>)
  with f show ?thesis unfolding total_len_def by blast
qed

theorem ef10_nvram_buffer_finish_valid_witness:
  "\<exists>mem'. ef10_nvram_buffer_finish sample_partition = Some (RC_OK, mem') \<and> ef10_nvram_buffer_validate mem' = Some RC_OK"
proof -
  have "list_all titem_ok []" "\<forall>i\<in>set []. it_tag i \<noteq> TLV_TAG_PARTITION_TRAILER" by simp_all
  from ef10_nvram_buffer_finish_valid [OF this sample_partition_words(1)] show ?thesis
    by (auto simp: sample_partition_words(2) sample_partition_words(1) [symmetric])
qed

text \<open>
  C10. Validation is safe on any contents: for every buffer of five words or more, whatever its bytes, \<open>ef10_nvram_buffer_validate\<close>
  ends with a verdict and reads nothing outside the buffer.
\<close>
theorem ef10_nvram_buffer_validate_safe:
  assumes "5 \<le> length mem"
  shows "\<exists>rc. ef10_nvram_buffer_validate mem = Some rc"
  using buffer_validate_total [OF assms] by auto

theorem ef10_nvram_buffer_validate_safe_witness:
  "\<exists>rc. ef10_nvram_buffer_validate [0xef10da7a, 0, 0, 0, 0] = Some rc"
  using ef10_nvram_buffer_validate_safe [of "[0xef10da7a, 0, 0, 0, 0]"] by simp

text \<open>
  \<open>tlv_find\<close> on a segment stops at the first item with the tag (the end tag included), and, once the end of the segment is known, reports
  \<open>ENOENT\<close> exactly for the tags that no item has.
\<close>
theorem tlv_find_first:
  assumes "segment_at mem cursor is"
  shows "(\<forall>before i after. is = before @ i # after \<longrightarrow> it_tag i = tag \<longrightarrow> (\<forall>j\<in>set before. it_tag j \<noteq> tag) \<longrightarrow>
      tlv_find mem cursor tag = Some (RC_OK, cursor\<lparr>tc_current := Some (tc_block cursor + length (titems_words before))\<rparr>)) \<and>
    (tc_end cursor \<noteq> None \<longrightarrow> tag \<noteq> TLV_TAG_END \<longrightarrow> (\<forall>i\<in>set is. it_tag i \<noteq> tag) \<longrightarrow>
      tlv_find mem cursor tag = Some (ENOENT, cursor\<lparr>tc_current := None\<rparr>))"
proof -
  have "tlv_lookup tag pos (before @ i # after) = Some (pos + length (titems_words before))"
    if "it_tag i = tag" "\<forall>j\<in>set before. it_tag j \<noteq> tag" for before i after pos
    using that by (induction before arbitrary: pos) (auto simp: add.assoc)
  then show ?thesis
    using tlv_find_segment [OF assms, of tag] tlv_lookup_None [of tag "tc_block cursor" "is"] by auto
qed

theorem tlv_find_first_witness:
  "tlv_find sample_partition \<lparr>tc_block = 0, tc_current = Some 0, tc_end = None, tc_limit = 16\<rparr> TLV_TAG_PARTITION_TRAILER
   = Some (RC_OK, \<lparr>tc_block = 0, tc_current = Some 5, tc_end = None, tc_limit = 16\<rparr>)"
proof -
  define c where "c = \<lparr>tc_block = 0, tc_current = Some 0, tc_end = None, tc_limit = 16\<rparr>"
  have "segment_at sample_partition c (partition_items 0 1 40 [] 1 0x32f01c03)"
    by (rule partition_segment_at [OF _ sample_partition_words(1)]) (simp_all add: c_def sample_partition_words(2))
  from conjunct1 [OF tlv_find_first [OF this, of TLV_TAG_PARTITION_TRAILER], rule_format,
      of "[partition_header 0 1 40]" "partition_trailer 1 0x32f01c03" "[]"]
  show ?thesis by (simp add: partition_items_def c_def)
qed

text \<open>
  C8. \<open>tlv_insert\<close> puts the item at the cursor, before the item the cursor was on, and moves everything up to the end of the last segment
  by the size of the new item; where the buffer has no room for that it returns \<open>ENOSPC\<close> and changes nothing.
\<close>
theorem tlv_insert_correct:
  assumes "tlv_editing mem cursor before after segs tail" "tag \<noteq> TLV_TAG_END" "length data < 2 ^ 32 - 16"
  shows "tlv_insert mem cursor tag data =
    (let e = tc_block cursor + length (titems_words (before @ after)); delta = TLV_DWORD_COUNT (length data) in
     if length mem - length tail + delta > tc_limit cursor then Some (ENOSPC, mem, cursor\<lparr>tc_end := Some e\<rparr>)
     else Some (RC_OK,
       take (tc_block cursor) mem @ segments_words ((before @ new_item tag data # after) # segs) @ drop delta tail,
       cursor\<lparr>tc_end := Some (e + delta)\<rparr>))"
  using tlv_insert_editing [OF assms] by (simp add: Let_def del: segments_words_simps)

theorem tlv_insert_correct_witness:
  "\<exists>c. tlv_insert sample_partition \<lparr>tc_block = 0, tc_current = Some 5, tc_end = None, tc_limit = 16\<rparr> 5 [1, 2, 3] =
    Some (RC_OK, partition_words 0 1 40 [new_item 5 [1, 2, 3]] 1 0x32f01c03 @ replicate 4 0xffffffff, c)"
proof -
  define c where "c = \<lparr>tc_block = 0, tc_current = Some 5, tc_end = None, tc_limit = 16\<rparr>"
  have e: "tlv_editing sample_partition c [partition_header 0 1 40] [partition_trailer 1 0x32f01c03] [] (replicate 7 0xffffffff)"
    using partition_editing [of "[]" "[]" sample_partition 0 1 40 1 "0x32f01c03" "replicate 7 0xffffffff" c]
      sample_partition_words sample_partition_dead by (simp add: c_def)
  have "5 \<noteq> TLV_TAG_END" by (simp add: TLV_TAG_END_def)
  from tlv_insert_correct [OF e this, of "[1, 2, 3]"] show ?thesis
    by (simp add: c_def sample_partition_words(2) Let_def TLV_DWORD_COUNT_def partition_words_def)
qed

text \<open>
  C9. \<open>tlv_delete\<close> removes exactly the item at the cursor, moves what follows down and clears the words it frees, provided that as many words as the
  item has follow the last segment in the buffer; with fewer, its \<open>memmove\<close> reads past the end of the buffer.
\<close>
theorem tlv_delete_correct:
  assumes "tlv_editing mem cursor before (i # after) segs tail"
  shows "tlv_delete mem cursor =
    (let delta = length (titem_words i) in
     if length tail < delta then None
     else Some (RC_OK,
       take (tc_block cursor) mem @ segments_words ((before @ after) # segs) @ replicate delta 0 @ tail,
       cursor\<lparr>tc_end := Some (tc_block cursor + length (titems_words (before @ after)))\<rparr>))"
  using tlv_delete_editing [OF assms] by (simp add: Let_def del: segments_words_simps)

theorem tlv_delete_correct_witness:
  "tlv_delete [7, 4, 99, 0xeeeeeeee, 0xffffffff, 0xffffffff, 0xffffffff]
     \<lparr>tc_block = 0, tc_current = Some 0, tc_end = None, tc_limit = 6\<rparr>
   = Some (RC_OK, [0xeeeeeeee, 0, 0, 0, 0xffffffff, 0xffffffff, 0xffffffff],
       \<lparr>tc_block = 0, tc_current = Some 0, tc_end = Some 0, tc_limit = 6\<rparr>)"
proof -
  define mem :: "u32 list" where "mem = [7, 4, 99, 0xeeeeeeee, 0xffffffff, 0xffffffff, 0xffffffff]"
  define c where "c = \<lparr>tc_block = 0, tc_current = Some 0, tc_end = None, tc_limit = 6\<rparr>"
  have "tlv_dead mem 6 (Suc (Suc (Suc (Suc 0))))" by (rule tlv_dead_ones) (simp_all add: mem_def)
  then have "tlv_editing mem c [] [Item 7 4 [99]] [] [0xffffffff, 0xffffffff, 0xffffffff]"
    by (simp add: tlv_editing_def c_def mem_def titem_words_def titem_ok_def TLV_TAG_END_def TLV_DWORD_COUNT_def)
  from tlv_delete_correct [OF this] show ?thesis
    by (simp add: c_def mem_def titem_words_def TLV_TAG_END_def Let_def numeral_3_eq_3)
qed

text \<open>
  A search can leave the segment: while the end of the segment is not known, \<open>tlv_find\<close> steps over the end tag, so reading a tag that no item of
  the segment has returns words that follow the segment as if they were an item.
\<close>
theorem ef10_nvram_buf_read_tlv_past_end:
  "ef10_nvram_buf_read_tlv (\<lambda>n. True)
     [0xef10da7a, 12, 0, 1, 40, 0xef101a57, 8, 1, 0x32f01c03, 0xeeeeeeee, 0, 5, 4, 0x2a, 0xeeeeeeee, 0] 0 64 5
   = Some (Inr [0x2a, 0, 0, 0]) \<and>
   [0xef10da7a, 12, 0, 1, 40, 0xef101a57, 8, 1, 0x32f01c03, 0xeeeeeeee, 0, 5, 4, 0x2a, 0xeeeeeeee, 0]
     = partition_words 0 1 40 [] 1 0x32f01c03 @ [0, 5, 4, 0x2a, 0xeeeeeeee, 0]"
  by (simp add: ef10_nvram_buf_read_tlv_def tlv_eval tlv_value_bytes_def bytes_of_word_def partition_words_def)

end
