(* ===== verification/Efx_Filter.thy ===== *)
theory Efx_Filter
  imports Efx_Nvram
begin

text \<open>
  \<open>src/common/efx_filter.c\<close>, the part common to the controller families: the filter interface, which dispatches to the
  operations table of the family, and the construction of filter specifications. Bit fields keep their width, so that
  storing into them cuts the value as the C does.
\<close>

section \<open>Specifications\<close>

definition EFX_FILTER_FLAG_RX_RSS :: "6 word" where "EFX_FILTER_FLAG_RX_RSS = 0x01"
definition EFX_FILTER_FLAG_RX_SCATTER :: "6 word" where "EFX_FILTER_FLAG_RX_SCATTER = 0x02"
definition EFX_FILTER_FLAG_RX :: "6 word" where "EFX_FILTER_FLAG_RX = 0x08"
definition EFX_FILTER_FLAG_TX :: "6 word" where "EFX_FILTER_FLAG_TX = 0x10"

definition EFX_FILTER_MATCH_REM_HOST :: "12 word" where "EFX_FILTER_MATCH_REM_HOST = 0x0001"
definition EFX_FILTER_MATCH_LOC_HOST :: "12 word" where "EFX_FILTER_MATCH_LOC_HOST = 0x0002"
definition EFX_FILTER_MATCH_REM_PORT :: "12 word" where "EFX_FILTER_MATCH_REM_PORT = 0x0008"
definition EFX_FILTER_MATCH_LOC_MAC :: "12 word" where "EFX_FILTER_MATCH_LOC_MAC = 0x0010"
definition EFX_FILTER_MATCH_LOC_PORT :: "12 word" where "EFX_FILTER_MATCH_LOC_PORT = 0x0020"
definition EFX_FILTER_MATCH_ETHER_TYPE :: "12 word" where "EFX_FILTER_MATCH_ETHER_TYPE = 0x0040"
definition EFX_FILTER_MATCH_OUTER_VID :: "12 word" where "EFX_FILTER_MATCH_OUTER_VID = 0x0100"
definition EFX_FILTER_MATCH_IP_PROTO :: "12 word" where "EFX_FILTER_MATCH_IP_PROTO = 0x0200"
definition EFX_FILTER_MATCH_LOC_MAC_IG :: "12 word" where "EFX_FILTER_MATCH_LOC_MAC_IG = 0x0400"

definition EFX_ETHER_TYPE_IPV4 :: u16 where "EFX_ETHER_TYPE_IPV4 = 0x0800"
definition EFX_IPPROTO_TCP :: u8 where "EFX_IPPROTO_TCP = 6"
definition EFX_IPPROTO_UDP :: u8 where "EFX_IPPROTO_UDP = 17"
definition EFX_FILTER_PRI_REQUIRED :: "2 word" where "EFX_FILTER_PRI_REQUIRED = 3"
definition EFX_FILTER_SPEC_RSS_CONTEXT_DEFAULT :: u32 where "EFX_FILTER_SPEC_RSS_CONTEXT_DEFAULT = 0xffffffff"
definition EFX_FILTER_SPEC_VID_UNSPEC :: u16 where "EFX_FILTER_SPEC_VID_UNSPEC = 0xffff"

text \<open>The two host fields are 128 bits; only their first word is ever used here, for IPv4.\<close>

record efx_filter_spec =
  efs_match_flags :: "12 word"
  efs_priority :: "2 word"
  efs_flags :: "6 word"
  efs_dmaq_id :: "12 word"
  efs_rss_context :: u32
  efs_outer_vid :: u16
  efs_inner_vid :: u16
  efs_loc_mac :: "u8 list"
  efs_rem_mac :: "u8 list"
  efs_ether_type :: u16
  efs_ip_proto :: u8
  efs_loc_port :: u16
  efs_rem_port :: u16
  efs_rem_host :: "u32 list"
  efs_loc_host :: "u32 list"

definition zero_filter_spec :: efx_filter_spec where
  "zero_filter_spec = \<lparr>efs_match_flags = 0, efs_priority = 0, efs_flags = 0, efs_dmaq_id = 0, efs_rss_context = 0,
     efs_outer_vid = 0, efs_inner_vid = 0, efs_loc_mac = replicate 6 0, efs_rem_mac = replicate 6 0, efs_ether_type = 0,
     efs_ip_proto = 0, efs_loc_port = 0, efs_rem_port = 0, efs_rem_host = replicate 4 0, efs_loc_host = replicate 4 0\<rparr>"

definition efx_filter_spec_init_rx :: "2 word \<Rightarrow> 6 word \<Rightarrow> u32 \<Rightarrow> efx_filter_spec option" where
  "efx_filter_spec_init_rx priority flags er_index = do {
     efsys_assert (flags AND NOT (EFX_FILTER_FLAG_RX_RSS OR EFX_FILTER_FLAG_RX_SCATTER) = 0);
     Some (zero_filter_spec\<lparr>efs_priority := priority, efs_flags := EFX_FILTER_FLAG_RX OR flags,
       efs_rss_context := EFX_FILTER_SPEC_RSS_CONTEXT_DEFAULT, efs_dmaq_id := ucast (ucast er_index :: u16)\<rparr>) }"

definition efx_filter_spec_init_tx :: "u32 \<Rightarrow> efx_filter_spec" where
  "efx_filter_spec_init_tx et_index =
     zero_filter_spec\<lparr>efs_priority := EFX_FILTER_PRI_REQUIRED, efs_flags := EFX_FILTER_FLAG_TX,
       efs_dmaq_id := ucast (ucast et_index :: u16)\<rparr>"

definition efx_filter_spec_set_ipv4_local :: "efx_filter_spec \<Rightarrow> u8 \<Rightarrow> u32 \<Rightarrow> u16 \<Rightarrow> efx_rc \<times> efx_filter_spec" where
  "efx_filter_spec_set_ipv4_local spec proto host port =
     (RC_OK, spec\<lparr>efs_match_flags := efs_match_flags spec OR EFX_FILTER_MATCH_ETHER_TYPE OR EFX_FILTER_MATCH_IP_PROTO
          OR EFX_FILTER_MATCH_LOC_HOST OR EFX_FILTER_MATCH_LOC_PORT,
        efs_ether_type := EFX_ETHER_TYPE_IPV4, efs_ip_proto := proto,
        efs_loc_host := (efs_loc_host spec)[0 := host], efs_loc_port := port\<rparr>)"

definition efx_filter_spec_set_ipv4_full ::
    "efx_filter_spec \<Rightarrow> u8 \<Rightarrow> u32 \<Rightarrow> u16 \<Rightarrow> u32 \<Rightarrow> u16 \<Rightarrow> efx_rc \<times> efx_filter_spec" where
  "efx_filter_spec_set_ipv4_full spec proto lhost lport rhost rport =
     (RC_OK, spec\<lparr>efs_match_flags := efs_match_flags spec OR EFX_FILTER_MATCH_ETHER_TYPE OR EFX_FILTER_MATCH_IP_PROTO
          OR EFX_FILTER_MATCH_LOC_HOST OR EFX_FILTER_MATCH_LOC_PORT
          OR EFX_FILTER_MATCH_REM_HOST OR EFX_FILTER_MATCH_REM_PORT,
        efs_ether_type := EFX_ETHER_TYPE_IPV4, efs_ip_proto := proto,
        efs_loc_host := (efs_loc_host spec)[0 := lhost], efs_loc_port := lport,
        efs_rem_host := (efs_rem_host spec)[0 := rhost], efs_rem_port := rport\<rparr>)"

text \<open>The address is asserted not to be NULL.\<close>

definition efx_filter_spec_set_eth_local ::
    "efx_filter_spec \<Rightarrow> u16 \<Rightarrow> u8 list option \<Rightarrow> (efx_rc \<times> efx_filter_spec) option" where
  "efx_filter_spec_set_eth_local spec vid addr = do {
     efsys_assert (addr \<noteq> None);
     if vid = EFX_FILTER_SPEC_VID_UNSPEC \<and> addr = None then Some (EINVAL, spec)
     else do {
       let spec = (if vid \<noteq> EFX_FILTER_SPEC_VID_UNSPEC
         then spec\<lparr>efs_match_flags := efs_match_flags spec OR EFX_FILTER_MATCH_OUTER_VID, efs_outer_vid := vid\<rparr>
         else spec);
       (case addr of
          None \<Rightarrow> Some (RC_OK, spec)
        | Some mac \<Rightarrow> do {
            bytes \<leftarrow> rd_range mac 0 6;
            Some (RC_OK, spec\<lparr>efs_match_flags := efs_match_flags spec OR EFX_FILTER_MATCH_LOC_MAC, efs_loc_mac := bytes\<rparr>) }) } }"

definition efx_filter_spec_set_uc_def :: "efx_filter_spec \<Rightarrow> efx_rc \<times> efx_filter_spec" where
  "efx_filter_spec_set_uc_def spec =
     (RC_OK, spec\<lparr>efs_match_flags := efs_match_flags spec OR EFX_FILTER_MATCH_LOC_MAC_IG\<rparr>)"

definition efx_filter_spec_set_mc_def :: "efx_filter_spec \<Rightarrow> efx_rc \<times> efx_filter_spec" where
  "efx_filter_spec_set_mc_def spec =
     (RC_OK, spec\<lparr>efs_match_flags := efs_match_flags spec OR EFX_FILTER_MATCH_LOC_MAC_IG,
        efs_loc_mac := (efs_loc_mac spec)[0 := 1]\<rparr>)"

section \<open>The filter interface\<close>

definition EFX_MOD_FILTER :: u32 where "EFX_MOD_FILTER = 0x00001000"

text \<open>
  The part of \<open>efx_nic_t\<close> that the filter code uses, \<open>en_efop\<close> apart: \<open>'h\<close> is the filter state of the controller family
  with its hardware.
\<close>

record 'h filter_dev =
  fd_magic :: u32
  fd_family :: efx_family
  fd_mod_flags :: u32
  fd_features :: u32
  fd_rss_context :: u32
  fd_hw :: 'h

text \<open>
  The operations table. \<open>efo_supported_filters\<close> gets the caller's array (\<open>None\<close> for NULL) and returns it with the length.
  \<open>efo_reconfigure\<close> is NULL on Siena; its arguments are the MAC address, the flags all_unicst, mulcst, all_mulcst,
  brdcst, and the multicast addresses with their count.
\<close>

record 'h filter_ops =
  efo_init :: "'h filter_dev \<Rightarrow> (efx_rc \<times> 'h filter_dev) option"
  efo_fini :: "'h filter_dev \<Rightarrow> 'h filter_dev option"
  efo_restore :: "'h filter_dev \<Rightarrow> (efx_rc \<times> 'h filter_dev) option"
  efo_add :: "'h filter_dev \<Rightarrow> efx_filter_spec \<Rightarrow> bool \<Rightarrow> (efx_rc \<times> 'h filter_dev) option"
  efo_delete :: "'h filter_dev \<Rightarrow> efx_filter_spec \<Rightarrow> (efx_rc \<times> 'h filter_dev) option"
  efo_supported_filters :: "'h filter_dev \<Rightarrow> u8 list option \<Rightarrow> (efx_rc + u8 list \<times> nat) option"
  efo_reconfigure :: "('h filter_dev \<Rightarrow> u8 list \<Rightarrow> bool \<Rightarrow> bool \<Rightarrow> bool \<Rightarrow> bool \<Rightarrow> u8 list \<Rightarrow> u32
    \<Rightarrow> (efx_rc \<times> 'h filter_dev) option) option"

record 'h filter_nic =
  fn_dev :: "'h filter_dev"
  en_efop :: "'h filter_ops option"

definition filter_up :: "'h filter_nic \<Rightarrow> bool" where
  "filter_up enp = (fd_mod_flags (fn_dev enp) AND EFX_MOD_FILTER \<noteq> 0)"

definition filter_probed :: "'h filter_nic \<Rightarrow> bool" where
  "filter_probed enp = (fd_magic (fn_dev enp) = EFX_NIC_MAGIC \<and> fd_mod_flags (fn_dev enp) AND EFX_MOD_PROBE \<noteq> 0)"

definition efx_filter_insert :: "'h filter_nic \<Rightarrow> efx_filter_spec \<Rightarrow> (efx_rc \<times> 'h filter_nic) option" where
  "efx_filter_insert enp spec = do {
     efsys_assert (filter_up enp);
     efsys_assert (efs_flags spec AND EFX_FILTER_FLAG_RX \<noteq> 0);
     efop \<leftarrow> en_efop enp;
     (rc, dev) \<leftarrow> efo_add efop (fn_dev enp) spec False;
     Some (rc, enp\<lparr>fn_dev := dev\<rparr>) }"

definition efx_filter_remove :: "'h filter_nic \<Rightarrow> efx_filter_spec \<Rightarrow> (efx_rc \<times> 'h filter_nic) option" where
  "efx_filter_remove enp spec = do {
     efsys_assert (filter_up enp);
     efsys_assert (efs_flags spec AND EFX_FILTER_FLAG_RX \<noteq> 0);
     efop \<leftarrow> en_efop enp;
     let spec = spec\<lparr>efs_rss_context := fd_rss_context (fn_dev enp)\<rparr>;
     (rc, dev) \<leftarrow> efo_delete efop (fn_dev enp) spec;
     Some (rc, enp\<lparr>fn_dev := dev\<rparr>) }"

definition efx_filter_restore :: "'h filter_nic \<Rightarrow> (efx_rc \<times> 'h filter_nic) option" where
  "efx_filter_restore enp = do {
     efsys_assert (filter_up enp);
     efop \<leftarrow> en_efop enp;
     (rc, dev) \<leftarrow> efo_restore efop (fn_dev enp);
     Some (rc, enp\<lparr>fn_dev := dev\<rparr>) }"

definition efx_filter_init :: "'h filter_ops \<Rightarrow> 'h filter_ops \<Rightarrow> 'h filter_nic \<Rightarrow> (efx_rc \<times> 'h filter_nic) option" where
  "efx_filter_init siena_ops ef10_ops enp = do {
     efsys_assert (filter_probed enp);
     efsys_assert (\<not> filter_up enp);
     efop \<leftarrow> (case fd_family (fn_dev enp) of
         EFX_FAMILY_SIENA \<Rightarrow> Some siena_ops
       | EFX_FAMILY_HUNTINGTON \<Rightarrow> Some ef10_ops
       | _ \<Rightarrow> None);
     (rc, dev) \<leftarrow> efo_init efop (fn_dev enp);
     if rc \<noteq> RC_OK
     then Some (rc, enp\<lparr>fn_dev := dev\<lparr>fd_mod_flags := fd_mod_flags dev AND NOT EFX_MOD_FILTER\<rparr>, en_efop := None\<rparr>)
     else Some (RC_OK, enp\<lparr>fn_dev := dev\<lparr>fd_mod_flags := fd_mod_flags dev OR EFX_MOD_FILTER\<rparr>, en_efop := Some efop\<rparr>) }"

definition efx_filter_fini :: "'h filter_nic \<Rightarrow> 'h filter_nic option" where
  "efx_filter_fini enp = do {
     efsys_assert (filter_probed enp \<and> filter_up enp);
     efop \<leftarrow> en_efop enp;
     dev \<leftarrow> efo_fini efop (fn_dev enp);
     Some (enp\<lparr>fn_dev := dev\<lparr>fd_mod_flags := fd_mod_flags dev AND NOT EFX_MOD_FILTER\<rparr>, en_efop := None\<rparr>) }"

definition efx_filter_supported_filters ::
    "'h filter_nic \<Rightarrow> u8 list option \<Rightarrow> (efx_rc + u8 list \<times> nat) option" where
  "efx_filter_supported_filters enp list = do {
     efsys_assert (filter_probed enp \<and> filter_up enp);
     efop \<leftarrow> en_efop enp;
     efo_supported_filters efop (fn_dev enp) list }"

definition efx_filter_reconfigure ::
    "'h filter_nic \<Rightarrow> u8 list \<Rightarrow> bool \<Rightarrow> bool \<Rightarrow> bool \<Rightarrow> bool \<Rightarrow> u8 list \<Rightarrow> u32 \<Rightarrow> (efx_rc \<times> 'h filter_nic) option" where
  "efx_filter_reconfigure enp mac_addr all_unicst mulcst all_mulcst brdcst addrs count = do {
     efsys_assert (filter_probed enp \<and> filter_up enp);
     efop \<leftarrow> en_efop enp;
     (case efo_reconfigure efop of
        None \<Rightarrow> Some (RC_OK, enp)
      | Some reconfigure \<Rightarrow> do {
          (rc, dev) \<leftarrow> reconfigure (fn_dev enp) mac_addr all_unicst mulcst all_mulcst brdcst addrs count;
          Some (rc, enp\<lparr>fn_dev := dev\<rparr>) }) }"

end
