(* ===== verification/Efx_Oword.thy ===== *)
theory Efx_Oword
  imports Efx_Prelude
begin

text \<open>
  \<open>src/common/efx_types.h\<close>: the 128-bit octowords that registers and table rows are made of, and the accessors of
  their bit fields, in the version for machines without 64-bit accesses (\<open>EFSYS_USE_UINT64\<close> is 0). A field is given by
  its lowest bit and its width. Inserting a value shifts it and does not mask it.
\<close>

section \<open>Octowords\<close>

datatype efx_oword = Oword (eo_u32_0: u32) (eo_u32_1: u32) (eo_u32_2: u32) (eo_u32_3: u32)

definition efx_mask32 :: "nat \<Rightarrow> u32" where
  "efx_mask32 width = (if width = 32 then NOT 0 else push_bit width 1 - 1)"

definition efx_insert_native32 :: "nat \<Rightarrow> nat \<Rightarrow> nat \<Rightarrow> nat \<Rightarrow> u32 \<Rightarrow> u32" where
  "efx_insert_native32 dmin dmax low high v =
     (if low > dmax \<or> high < dmin then 0
      else if low > dmin then push_bit (low - dmin) v else drop_bit (dmin - low) v)"

definition efx_extract_native32 :: "u32 \<Rightarrow> nat \<Rightarrow> nat \<Rightarrow> nat \<Rightarrow> nat \<Rightarrow> u32" where
  "efx_extract_native32 e dmin dmax low high =
     (if low > dmax \<or> high < dmin then 0
      else if low > dmin then drop_bit (low - dmin) e else push_bit (dmin - low) e)"

definition efx_insert_field32 :: "nat \<Rightarrow> nat \<Rightarrow> nat \<Rightarrow> nat \<Rightarrow> u32 \<Rightarrow> u32" where
  "efx_insert_field32 dmin dmax lbn width v = efx_insert_native32 dmin dmax lbn (lbn + width - 1) v"

text \<open>A field with its value, in an \<open>EFX_POPULATE_OWORD\<close>.\<close>

type_synonym oword_fields = "(nat \<times> nat \<times> u32) list"

text \<open>A field, named by its lowest bit and its width, with its value.\<close>

definition fset :: "nat \<times> nat \<Rightarrow> u32 \<Rightarrow> nat \<times> nat \<times> u32" where
  "fset f v = (fst f, snd f, v)"

definition efx_insert_fields32 :: "nat \<Rightarrow> nat \<Rightarrow> oword_fields \<Rightarrow> u32" where
  "efx_insert_fields32 dmin dmax fields =
     foldr (\<lambda>(lbn, width, v) acc. efx_insert_field32 dmin dmax lbn width v OR acc) fields 0"

definition efx_populate_oword :: "oword_fields \<Rightarrow> efx_oword" where
  "efx_populate_oword fields =
     Oword (efx_insert_fields32 0 31 fields) (efx_insert_fields32 32 63 fields)
           (efx_insert_fields32 64 95 fields) (efx_insert_fields32 96 127 fields)"

definition efx_set_dword :: "u32 \<Rightarrow> nat \<Rightarrow> nat \<Rightarrow> nat \<Rightarrow> nat \<Rightarrow> u32 \<Rightarrow> u32" where
  "efx_set_dword e dmin dmax lbn width v =
     (e AND NOT (efx_insert_field32 dmin dmax lbn width (efx_mask32 width))) OR efx_insert_field32 dmin dmax lbn width v"

fun efx_set_oword_field :: "efx_oword \<Rightarrow> nat \<Rightarrow> nat \<Rightarrow> u32 \<Rightarrow> efx_oword" where
  "efx_set_oword_field (Oword a b c d) lbn width v =
     Oword (efx_set_dword a 0 31 lbn width v) (efx_set_dword b 32 63 lbn width v)
           (efx_set_dword c 64 95 lbn width v) (efx_set_dword d 96 127 lbn width v)"

fun efx_oword_field :: "efx_oword \<Rightarrow> nat \<Rightarrow> nat \<Rightarrow> u32" where
  "efx_oword_field (Oword a b c d) lbn width =
     (let high = lbn + width - 1 in
      (efx_extract_native32 a 0 31 lbn high OR efx_extract_native32 b 32 63 lbn high
       OR efx_extract_native32 c 64 95 lbn high OR efx_extract_native32 d 96 127 lbn high) AND efx_mask32 width)"

text \<open>The same accessors of a 32-bit doubleword, \<open>efx_dword_t\<close>.\<close>

definition efx_populate_dword :: "oword_fields \<Rightarrow> u32" where
  "efx_populate_dword fields = efx_insert_fields32 0 31 fields"

definition efx_dword_field :: "u32 \<Rightarrow> nat \<Rightarrow> nat \<Rightarrow> u32" where
  "efx_dword_field d lbn width = efx_extract_native32 d 0 31 lbn (lbn + width - 1) AND efx_mask32 width"

text \<open>The same accessors of a 64-bit quadword, \<open>efx_qword_t\<close>.\<close>

datatype efx_qword = Qword (eq_u32_0: u32) (eq_u32_1: u32)

fun efx_qword_field :: "efx_qword \<Rightarrow> nat \<Rightarrow> nat \<Rightarrow> u32" where
  "efx_qword_field (Qword a b) lbn width =
     (let high = lbn + width - 1 in
      (efx_extract_native32 a 0 31 lbn high OR efx_extract_native32 b 32 63 lbn high) AND efx_mask32 width)"

definition efx_populate_qword :: "oword_fields \<Rightarrow> efx_qword" where
  "efx_populate_qword fields = Qword (efx_insert_fields32 0 31 fields) (efx_insert_fields32 32 63 fields)"

definition EFX_SET_QWORD :: efx_qword where
  "EFX_SET_QWORD = efx_populate_qword [(0, 32, 0xffffffff), (32, 32, 0xffffffff)]"

definition EFX_ZERO_OWORD :: efx_oword where "EFX_ZERO_OWORD = Oword 0 0 0 0"

section \<open>Bits of an octoword\<close>

fun obit :: "efx_oword \<Rightarrow> nat \<Rightarrow> bool" where
  "obit (Oword a b c d) k =
     (if k < 32 then bit a k else if k < 64 then bit b (k - 32) else if k < 96 then bit c (k - 64) else bit d (k - 96))"

lemma bit_mask32 [simp]: "w \<le> 32 \<Longrightarrow> bit (efx_mask32 w) j \<longleftrightarrow> j < w"
proof (cases "w = 32")
  case True
  then show ?thesis by (auto simp: efx_mask32_def bit_simps dest: bit_imp_le_length)
next
  case False
  assume "w \<le> 32"
  with False have "efx_mask32 w = mask w"
    by (simp add: efx_mask32_def mask_eq_decr_exp flip: push_bit_eq_mult push_bit_of_1)
  with \<open>w \<le> 32\<close> show ?thesis by (auto simp: bit_simps)
qed

lemma bit_insert_field32:
  "j < 32 \<Longrightarrow> 0 < w \<Longrightarrow> bit (efx_insert_field32 m (m + 31) lbn w v) j \<longleftrightarrow>
     lbn \<le> m + 31 \<and> m < lbn + w \<and> lbn \<le> m + j \<and> bit v (m + j - lbn)"
  by (auto simp: efx_insert_field32_def efx_insert_native32_def bit_simps not_less add.commute)

text \<open>A value fits its field when it is below \<open>2 ^ width\<close>.\<close>

lemma fits_bit: "unat (v :: u32) < 2 ^ w \<Longrightarrow> bit v n \<Longrightarrow> n < w"
proof (rule ccontr)
  assume v: "unat v < 2 ^ w" and b: "bit v n" and n: "\<not> n < w"
  have "take_bit w v = v"
    by (rule word_unat_eq_iff [THEN iffD2]) (simp add: unsigned_take_bit_eq take_bit_nat_eq_self v)
  then have "bit (take_bit w v) n" using b by simp
  with n show False by (simp add: bit_simps)
qed

lemma bit_set_dword:
  assumes "j < 32" "0 < w" "w \<le> 32" "unat v < 2 ^ w"
  shows "bit (efx_set_dword e m (m + 31) lbn w v) j \<longleftrightarrow>
    (if lbn \<le> m + j \<and> m + j < lbn + w then bit v (m + j - lbn) else bit e j)"
  using assms(1-3) by (auto simp: efx_set_dword_def bit_insert_field32 bit_simps dest: fits_bit [OF assms(4)])

lemmas bit_set_dword_lit = bit_set_dword [of _ _ _ _ 0] bit_set_dword [of _ _ _ _ 32]
  bit_set_dword [of _ _ _ _ 64] bit_set_dword [of _ _ _ _ 96]

lemma obit_set_oword_field:
  assumes "k < 128" "0 < w" "w \<le> 32" "unat v < 2 ^ w"
  shows "obit (efx_set_oword_field ow lbn w v) k \<longleftrightarrow> (if lbn \<le> k \<and> k < lbn + w then bit v (k - lbn) else obit ow k)"
  using assms(1) by (cases ow) (simp add: bit_set_dword_lit [OF _ assms(2-4), simplified])

lemma bit_extract_native32:
  "j < 32 \<Longrightarrow> 0 < w \<Longrightarrow> w \<le> 32 \<Longrightarrow> j < w \<Longrightarrow>
     bit (efx_extract_native32 e m (m + 31) lbn (lbn + w - 1)) j \<longleftrightarrow> m \<le> lbn + j \<and> lbn + j \<le> m + 31 \<and> bit e (lbn + j - m)"
  by (auto simp: efx_extract_native32_def bit_simps not_less add.commute dest: bit_imp_le_length)

lemmas bit_extract_lit = bit_extract_native32 [of _ _ _ 0] bit_extract_native32 [of _ _ _ 32]
  bit_extract_native32 [of _ _ _ 64] bit_extract_native32 [of _ _ _ 96]

lemma bit_oword_field:
  assumes "0 < w" "w \<le> 32" "lbn + w \<le> 128"
  shows "bit (efx_oword_field ow lbn w) j \<longleftrightarrow> j < w \<and> obit ow (lbn + j)"
proof (cases "j < w")
  case True
  then have "j < 32" using assms(2) by simp
  then show ?thesis using True assms
    by (cases ow) (auto simp: Let_def bit_simps bit_extract_lit [OF _ assms(1,2), simplified] dest: bit_imp_le_length)
qed (use assms in \<open>cases ow; simp add: Let_def bit_simps\<close>)

lemma oword_field_eqI:
  assumes "0 < w" "w \<le> 32" "lbn + w \<le> 128" "unat v < 2 ^ w" "\<And>j. j < w \<Longrightarrow> obit ow (lbn + j) \<longleftrightarrow> bit v j"
  shows "efx_oword_field ow lbn w = v"
proof (rule bit_word_eqI)
  fix n
  show "bit (efx_oword_field ow lbn w) n \<longleftrightarrow> bit v n"
    using assms(5) fits_bit [OF assms(4)] by (auto simp: bit_oword_field [OF assms(1-3)])
qed

lemma oword_field_set:
  "0 < w \<Longrightarrow> w \<le> 32 \<Longrightarrow> lbn + w \<le> 128 \<Longrightarrow> unat v < 2 ^ w \<Longrightarrow> efx_oword_field (efx_set_oword_field ow lbn w v) lbn w = v"
  by (rule oword_field_eqI) (simp_all add: obit_set_oword_field)

lemma oword_field_set_other:
  assumes "0 < w" "w \<le> 32" "unat v < 2 ^ w" "0 < w'" "w' \<le> 32" "lbn' + w' \<le> 128" "lbn' + w' \<le> lbn \<or> lbn + w \<le> lbn'"
  shows "efx_oword_field (efx_set_oword_field ow lbn w v) lbn' w' = efx_oword_field ow lbn' w'"
proof (rule bit_word_eqI)
  fix n
  show "bit (efx_oword_field (efx_set_oword_field ow lbn w v) lbn' w') n \<longleftrightarrow> bit (efx_oword_field ow lbn' w') n"
    using assms by (auto simp: bit_oword_field obit_set_oword_field)
qed

lemma bit_insert_fields32:
  "bit (efx_insert_fields32 m n fields) j \<longleftrightarrow> (\<exists>(lbn, w, v) \<in> set fields. bit (efx_insert_field32 m n lbn w v) j)"
  by (induction fields) (auto simp: efx_insert_fields32_def bit_simps)

lemma obit_populate:
  assumes "\<forall>(lbn, w, v) \<in> set fields. 0 < w \<and> unat v < 2 ^ w" "k < 128"
  shows "obit (efx_populate_oword fields) k \<longleftrightarrow> (\<exists>(lbn, w, v) \<in> set fields. lbn \<le> k \<and> bit v (k - lbn))"
proof -
  have *: "bit (efx_insert_fields32 m (m + 31) fields) j \<longleftrightarrow> (\<exists>(lbn, w, v) \<in> set fields. lbn \<le> m + j \<and> bit v (m + j - lbn))"
    if j: "j < 32" for m j
  proof -
    have "bit (efx_insert_field32 m (m + 31) lbn w v) j \<longleftrightarrow> lbn \<le> m + j \<and> bit v (m + j - lbn)" if "(lbn, w, v) \<in> set fields" for lbn w v
    proof -
      have w: "0 < w" "unat v < 2 ^ w" using assms(1) that by auto
      show ?thesis using fits_bit [OF w(2), of "m + j - lbn"] j by (auto simp: bit_insert_field32 [OF j w(1)])
    qed
    then show ?thesis unfolding bit_insert_fields32 by (intro bex_cong refl) auto
  qed
  show ?thesis
    using assms(2) * [of k 0] * [of "k - 32" 32] * [of "k - 64" 64] * [of "k - 96" 96]
    by (simp add: efx_populate_oword_def)
qed

section \<open>Properties\<close>

text \<open>Two different fields of a layout do not overlap, and each lies within the octoword.\<close>

definition field_ok :: "nat \<times> nat \<times> u32 \<Rightarrow> bool" where
  "field_ok f = (case f of (lbn, w, v) \<Rightarrow> 0 < w \<and> w \<le> 32 \<and> lbn + w \<le> 128 \<and> unat v < 2 ^ w)"

fun fields_apart :: "nat \<times> nat \<times> u32 \<Rightarrow> nat \<times> nat \<times> u32 \<Rightarrow> bool" where
  "fields_apart (lbn, w, v) (lbn', w', v') = (lbn' + w' \<le> lbn \<or> lbn + w \<le> lbn')"

definition oword_layout :: "oword_fields \<Rightarrow> bool" where
  "oword_layout fields = (list_all field_ok fields \<and> sorted_wrt fields_apart fields)"

lemma fields_apart_sym: "fields_apart f g \<Longrightarrow> fields_apart g f"
  by (cases f; cases g) auto

lemma sorted_wrt_apart:
  "sorted_wrt fields_apart fields \<Longrightarrow> f \<in> set fields \<Longrightarrow> g \<in> set fields \<Longrightarrow> f = g \<or> fields_apart f g"
  by (induction fields) (auto intro: fields_apart_sym)

text \<open>
  A field that was set reads back as the value that fits it, and setting it leaves every field that it does not
  overlap as it was.
\<close>

theorem oword_set_get:
  assumes "field_ok (lbn, w, v)"
  shows "efx_oword_field (efx_set_oword_field ow lbn w v) lbn w = v
    \<and> (\<forall>lbn' w'. 0 < w' \<and> w' \<le> 32 \<and> lbn' + w' \<le> 128 \<and> fields_apart (lbn, w, v) (lbn', w', 0)
         \<longrightarrow> efx_oword_field (efx_set_oword_field ow lbn w v) lbn' w' = efx_oword_field ow lbn' w')"
  using assms by (auto simp: field_ok_def oword_field_set oword_field_set_other)

theorem oword_set_get_witness:
  "efx_oword_field (efx_set_oword_field (Oword 1 2 3 4) 89 8 0x5a) 89 8 = 0x5a"
  by (rule conjunct1 [OF oword_set_get]) (simp add: field_ok_def)

lemma oword_populate_fields:
  assumes "oword_layout fields"
  shows "(\<forall>(lbn, w, v) \<in> set fields. efx_oword_field (efx_populate_oword fields) lbn w = v)
    \<and> (\<forall>k < 128. (\<forall>(lbn, w, v) \<in> set fields. \<not> (lbn \<le> k \<and> k < lbn + w)) \<longrightarrow> \<not> obit (efx_populate_oword fields) k)"
proof -
  have ok: "f \<in> set fields \<Longrightarrow> field_ok f" for f
    using assms by (auto simp: oword_layout_def list_all_iff)
  have fits: "\<forall>(lbn, w, v) \<in> set fields. 0 < w \<and> unat v < 2 ^ w"
    using ok by (fastforce simp: field_ok_def)
  have "efx_oword_field (efx_populate_oword fields) lbn w = v" if f: "(lbn, w, v) \<in> set fields" for lbn w v
  proof (rule oword_field_eqI)
    fix j assume j: "j < w"
    have bounds: "lbn + w \<le> 128" using ok [OF f] by (simp add: field_ok_def)
    have same: "v' = v \<and> lbn' = lbn" if g: "(lbn', w', v') \<in> set fields" and b: "bit v' (lbn + j - lbn')" "lbn' \<le> lbn + j" for lbn' w' v'
    proof -
      have "lbn + j - lbn' < w'" using fits g b(1) by (auto dest: fits_bit)
      then have "\<not> fields_apart (lbn, w, v) (lbn', w', v')" using j b(2) by auto
      then show ?thesis
        using assms sorted_wrt_apart [OF _ f g] by (simp add: oword_layout_def)
    qed
    have "(\<exists>(lbn', w', v') \<in> set fields. lbn' \<le> lbn + j \<and> bit v' (lbn + j - lbn')) \<longleftrightarrow> bit v j" (is "?E \<longleftrightarrow> _")
    proof
      assume ?E
      then obtain lbn' w' v' where "(lbn', w', v') \<in> set fields" "lbn' \<le> lbn + j" "bit v' (lbn + j - lbn')" by blast
      with same show "bit v j" by fastforce
    next
      assume "bit v j"
      with f show ?E by (intro bexI [OF _ f]) simp
    qed
    then show "obit (efx_populate_oword fields) (lbn + j) \<longleftrightarrow> bit v j"
      using obit_populate [OF fits, of "lbn + j"] bounds j by simp
  qed (use ok [OF f] in \<open>simp_all add: field_ok_def\<close>)
  moreover have "\<not> obit (efx_populate_oword fields) k"
    if "k < 128" "\<forall>(lbn, w, v) \<in> set fields. \<not> (lbn \<le> k \<and> k < lbn + w)" for k
  proof -
    have "\<not> bit v (k - lbn)" if "(lbn, w, v) \<in> set fields" "lbn \<le> k" for lbn w v
      using fits_bit [of v w "k - lbn"] fits \<open>\<forall>(lbn, w, v) \<in> set fields. \<not> (lbn \<le> k \<and> k < lbn + w)\<close> that by fastforce
    then show ?thesis using obit_populate [OF fits that(1)] by auto
  qed
  ultimately show ?thesis by auto
qed

text \<open>
  An octoword populated with fields that lie within it, do not overlap and fit their values has each of these values
  in its field and zero bits everywhere else.
\<close>

theorem oword_populate_get:
  assumes "oword_layout fields"
  shows "(\<forall>(lbn, w, v) \<in> set fields. efx_oword_field (efx_populate_oword fields) lbn w = v)
    \<and> (\<forall>k < 128. (\<forall>(lbn, w, v) \<in> set fields. \<not> (lbn \<le> k \<and> k < lbn + w)) \<longrightarrow> \<not> obit (efx_populate_oword fields) k)"
  by (rule oword_populate_fields [OF assms])

theorem oword_populate_get_witness:
  "efx_oword_field (efx_populate_oword [(110, 1, 1), (96, 12, 0xabc), (61, 12, 7)]) 61 12 = 7"
  using conjunct1 [OF oword_populate_get [of "[(110, 1, 1), (96, 12, 0xabc), (61, 12, 7)]"]]
  by (simp add: oword_layout_def field_ok_def del: efx_oword_field.simps)

section \<open>Doublewords\<close>

lemma bit_dword_field: "0 < w \<Longrightarrow> lbn + w \<le> 32 \<Longrightarrow> bit (efx_dword_field d lbn w) j \<longleftrightarrow> j < w \<and> bit d (lbn + j)"
  using bit_extract_native32 [of j w d 0 lbn] by (cases "j < w") (auto simp: efx_dword_field_def bit_simps)

lemma efx_dword_field_bound: "0 < w \<Longrightarrow> lbn + w \<le> 32 \<Longrightarrow> unat (efx_dword_field d lbn w) < 2 ^ w"
proof -
  assume w: "0 < w" "lbn + w \<le> 32"
  have "take_bit w (efx_dword_field d lbn w) = efx_dword_field d lbn w"
    by (rule bit_word_eqI) (auto simp: bit_dword_field [OF w] bit_simps)
  then have "take_bit w (unat (efx_dword_field d lbn w)) = unat (efx_dword_field d lbn w)"
    by (simp flip: unsigned_take_bit_eq)
  then show ?thesis by (simp flip: take_bit_nat_eq_self_iff)
qed

lemma bit_efx_dword_field1: "lbn < 32 \<Longrightarrow> efx_dword_field d lbn 1 \<noteq> 0 \<longleftrightarrow> bit d lbn"
proof -
  assume "lbn < 32"
  then have "bit (efx_dword_field d lbn 1) j \<longleftrightarrow> j = 0 \<and> bit d lbn" for j
    using bit_dword_field [of 1 lbn d j] by auto
  then show ?thesis by (metis bit_0_eq bit_word_eqI bot_apply bot_bool_def)
qed

text \<open>A doubleword populated with fields that do not overlap returns each of them.\<close>

lemma dword_populate_get:
  assumes layout: "oword_layout fields" and low: "\<forall>(lbn, w, v) \<in> set fields. lbn + w \<le> 32"
    and f: "(lbn, w, v) \<in> set fields"
  shows "efx_dword_field (efx_populate_dword fields) lbn w = v"
proof (rule bit_word_eqI)
  fix n assume "n < LENGTH(32)"
  have ok: "0 < w" "lbn + w \<le> 32" and fits: "unat v < 2 ^ w"
    using layout low f by (auto simp: oword_layout_def list_all_iff field_ok_def)
  have "bit (efx_insert_field32 0 31 lbn' w' v') (lbn + n) \<longleftrightarrow> lbn' \<le> lbn + n \<and> bit v' (lbn + n - lbn')"
    if n: "n < w" and g: "(lbn', w', v') \<in> set fields" for lbn' w' v'
  proof -
    have "0 < w'" using layout g by (auto simp: oword_layout_def list_all_iff field_ok_def)
    then show ?thesis using bit_insert_field32 [of "lbn + n" w' 0 lbn' v'] n ok by auto
  qed
  moreover have "lbn' = lbn \<and> v' = v"
    if n: "n < w" and g: "(lbn', w', v') \<in> set fields" and b: "lbn' \<le> lbn + n" "bit v' (lbn + n - lbn')" for lbn' w' v'
  proof -
    have "unat v' < 2 ^ w'" using layout g by (auto simp: oword_layout_def list_all_iff field_ok_def)
    then have "lbn + n - lbn' < w'" using b(2) by (rule fits_bit)
    then have "\<not> fields_apart (lbn, w, v) (lbn', w', v')" using n b(1) by auto
    then show ?thesis using layout sorted_wrt_apart [OF _ f g] by (simp add: oword_layout_def)
  qed
  ultimately have one: "bit (efx_insert_field32 0 31 lbn' w' v') (lbn + n) \<Longrightarrow> bit v n"
    if "n < w" "(lbn', w', v') \<in> set fields" for lbn' w' v'
    using that by (metis add_diff_cancel_left')
  have "bit (efx_insert_field32 0 31 lbn w v) (lbn + n) \<longleftrightarrow> bit v n" if "n < w"
    using bit_insert_field32 [of "lbn + n" w 0 lbn v] that ok by auto
  with one f have "bit (efx_populate_dword fields) (lbn + n) \<longleftrightarrow> bit v n" if "n < w"
    using that unfolding efx_populate_dword_def bit_insert_fields32 by (auto intro!: bexI [OF _ f] dest: one)
  then show "bit (efx_dword_field (efx_populate_dword fields) lbn w) n \<longleftrightarrow> bit v n"
    using fits_bit [OF fits, of n] ok by (auto simp: bit_dword_field)
qed

section \<open>Quadwords\<close>

text \<open>A quadword is the low half of an octoword whose high half is zero.\<close>

fun oword_of_qword :: "efx_qword \<Rightarrow> efx_oword" where
  "oword_of_qword (Qword a b) = Oword a b 0 0"

lemma extract_native32_0: "efx_extract_native32 0 m n low high = 0"
  by (simp add: efx_extract_native32_def)

lemma qword_field_oword: "efx_qword_field q lbn w = efx_oword_field (oword_of_qword q) lbn w"
  by (cases q) (simp add: Let_def extract_native32_0)

lemma bit_qword_field:
  "0 < w \<Longrightarrow> w \<le> 32 \<Longrightarrow> lbn + w \<le> 64 \<Longrightarrow> bit (efx_qword_field q lbn w) j \<longleftrightarrow> j < w \<and> obit (oword_of_qword q) (lbn + j)"
  by (simp add: qword_field_oword bit_oword_field)

lemma unat_field_bound:
  assumes "\<And>j. bit (x :: u32) j \<Longrightarrow> j < w"
  shows "unat x < 2 ^ w"
proof -
  have "take_bit w x = x" using assms by (intro bit_word_eqI) (auto simp: bit_simps)
  then have "take_bit w (unat x) = unat x" by (simp flip: unsigned_take_bit_eq)
  then show ?thesis by (simp flip: take_bit_nat_eq_self_iff)
qed

lemma efx_qword_field_bound:
  assumes "0 < w" "w \<le> 32" "lbn + w \<le> 64"
  shows "unat (efx_qword_field q lbn w) < 2 ^ w"
  by (rule unat_field_bound) (simp add: bit_qword_field [OF assms])

lemma insert_fields32_high: "\<forall>(lbn, w, v) \<in> set fields. lbn + w \<le> 64 \<Longrightarrow> \<forall>(lbn, w, v) \<in> set fields. 0 < w \<Longrightarrow> 64 \<le> m \<Longrightarrow>
    efx_insert_fields32 m n fields = 0"
  by (induction fields) (auto simp: efx_insert_fields32_def efx_insert_field32_def efx_insert_native32_def)

lemma qword_populate_get:
  assumes layout: "oword_layout fields" and low: "\<forall>(lbn, w, v) \<in> set fields. lbn + w \<le> 64"
    and f: "(lbn, w, v) \<in> set fields"
  shows "efx_qword_field (efx_populate_qword fields) lbn w = v"
proof -
  have "\<forall>(lbn, w, v) \<in> set fields. 0 < w"
    using layout by (auto simp: oword_layout_def list_all_iff field_ok_def)
  then have "oword_of_qword (efx_populate_qword fields) = efx_populate_oword fields"
    using low by (simp add: efx_populate_qword_def efx_populate_oword_def insert_fields32_high)
  then show ?thesis
    using conjunct1 [OF oword_populate_fields [OF layout]] f by (auto simp: qword_field_oword)
qed

end
