(* ===== verification/Efx_Siena_Filter.thy ===== *)
theory Efx_Siena_Filter
  imports Efx_Filter Efx_Oword
begin

text \<open>
  \<open>src/common/efx_filter.c\<close>, the Siena part: filter specifications become entries of four hardware hash tables, which the
  driver mirrors in memory. The lock around each operation is not modelled: the operations are atomic steps.
\<close>

section \<open>Siena entries\<close>

datatype siena_filter_type =
    EFX_SIENA_FILTER_RX_TCP_FULL | EFX_SIENA_FILTER_RX_TCP_WILD | EFX_SIENA_FILTER_RX_UDP_FULL
  | EFX_SIENA_FILTER_RX_UDP_WILD | EFX_SIENA_FILTER_RX_MAC_FULL | EFX_SIENA_FILTER_RX_MAC_WILD
  | EFX_SIENA_FILTER_TX_TCP_FULL | EFX_SIENA_FILTER_TX_TCP_WILD | EFX_SIENA_FILTER_TX_UDP_FULL
  | EFX_SIENA_FILTER_TX_UDP_WILD | EFX_SIENA_FILTER_TX_MAC_FULL | EFX_SIENA_FILTER_TX_MAC_WILD

datatype siena_tbl_id =
    EFX_SIENA_FILTER_TBL_RX_IP | EFX_SIENA_FILTER_TBL_RX_MAC | EFX_SIENA_FILTER_TBL_TX_IP | EFX_SIENA_FILTER_TBL_TX_MAC

text \<open>\<open>sfs_dword\<close> has three words.\<close>

record siena_filter_spec =
  sfs_type :: siena_filter_type
  sfs_flags :: u32
  sfs_dmaq_id :: u32
  sfs_dword0 :: u32
  sfs_dword1 :: u32
  sfs_dword2 :: u32

definition ipv4_local_flags :: "12 word" where
  "ipv4_local_flags = EFX_FILTER_MATCH_ETHER_TYPE OR EFX_FILTER_MATCH_IP_PROTO OR EFX_FILTER_MATCH_LOC_HOST
     OR EFX_FILTER_MATCH_LOC_PORT"

definition ipv4_full_flags :: "12 word" where
  "ipv4_full_flags = ipv4_local_flags OR EFX_FILTER_MATCH_REM_HOST OR EFX_FILTER_MATCH_REM_PORT"

definition siena_ip_spec :: "efx_filter_spec \<Rightarrow> bool \<Rightarrow> (efx_rc + siena_filter_spec) option" where
  "siena_ip_spec gen_spec is_full = do {
     let tx = (efs_flags gen_spec AND EFX_FILTER_FLAG_TX \<noteq> 0);
     if efs_ether_type gen_spec \<noteq> EFX_ETHER_TYPE_IPV4 then Some (Inl ENOTSUP)
     else if efs_loc_port gen_spec = 0 \<or> is_full \<and> efs_rem_port gen_spec = 0 then Some (Inl EINVAL)
     else do {
       let type = (if efs_ip_proto gen_spec = EFX_IPPROTO_TCP then
            Some (if tx then if is_full then EFX_SIENA_FILTER_TX_TCP_FULL else EFX_SIENA_FILTER_TX_TCP_WILD
                  else if is_full then EFX_SIENA_FILTER_RX_TCP_FULL else EFX_SIENA_FILTER_RX_TCP_WILD)
          else if efs_ip_proto gen_spec = EFX_IPPROTO_UDP then
            Some (if tx then if is_full then EFX_SIENA_FILTER_TX_UDP_FULL else EFX_SIENA_FILTER_TX_UDP_WILD
                  else if is_full then EFX_SIENA_FILTER_RX_UDP_FULL else EFX_SIENA_FILTER_RX_UDP_WILD)
          else None);
       case type of
         None \<Rightarrow> Some (Inl ENOTSUP)
       | Some type \<Rightarrow> do {
           lhost \<leftarrow> rd (efs_loc_host gen_spec) 0;
           rem \<leftarrow> rd (efs_rem_host gen_spec) 0;
           let lport = efs_loc_port gen_spec;
           let rhost = (if is_full then rem else 0);
           let rport = (if is_full then efs_rem_port gen_spec else 0);
           let (host1, host2) = (if tx then (lhost, rhost) else (rhost, lhost));
           let (port1, port2) =
             (if tx then if type = EFX_SIENA_FILTER_TX_UDP_WILD then (rport, lport) else (lport, rport)
              else if type = EFX_SIENA_FILTER_RX_UDP_WILD then (lport, rport) else (rport, lport));
           Some (Inr \<lparr>sfs_type = type, sfs_flags = ucast (efs_flags gen_spec), sfs_dmaq_id = ucast (efs_dmaq_id gen_spec),
             sfs_dword0 = push_bit 16 host1 OR ucast port1,
             sfs_dword1 = push_bit 16 (ucast port2) OR drop_bit 16 host1,
             sfs_dword2 = host2\<rparr>) } } }"

definition siena_mac_spec :: "efx_filter_spec \<Rightarrow> bool \<Rightarrow> (efx_rc + siena_filter_spec) option" where
  "siena_mac_spec gen_spec is_full = do {
     let tx = (efs_flags gen_spec AND EFX_FILTER_FLAG_TX \<noteq> 0);
     m0 \<leftarrow> rd (efs_loc_mac gen_spec) 0; m1 \<leftarrow> rd (efs_loc_mac gen_spec) 1; m2 \<leftarrow> rd (efs_loc_mac gen_spec) 2;
     m3 \<leftarrow> rd (efs_loc_mac gen_spec) 3; m4 \<leftarrow> rd (efs_loc_mac gen_spec) 4; m5 \<leftarrow> rd (efs_loc_mac gen_spec) 5;
     Some (Inr \<lparr>
       sfs_type = (if tx then if is_full then EFX_SIENA_FILTER_TX_MAC_FULL else EFX_SIENA_FILTER_TX_MAC_WILD
                   else if is_full then EFX_SIENA_FILTER_RX_MAC_FULL else EFX_SIENA_FILTER_RX_MAC_WILD),
       sfs_flags = ucast (efs_flags gen_spec), sfs_dmaq_id = ucast (efs_dmaq_id gen_spec),
       sfs_dword0 = (if is_full then ucast (efs_outer_vid gen_spec) else 0),
       sfs_dword1 = push_bit 24 (ucast m2) OR push_bit 16 (ucast m3) OR push_bit 8 (ucast m4) OR ucast m5,
       sfs_dword2 = push_bit 8 (ucast m0) OR ucast m1\<rparr>) }"

definition siena_filter_spec_from_gen_spec :: "efx_filter_spec \<Rightarrow> (efx_rc + siena_filter_spec) option" where
  "siena_filter_spec_from_gen_spec gen_spec = do {
     efsys_assert (if efs_flags gen_spec AND EFX_FILTER_FLAG_TX \<noteq> 0 then efs_flags gen_spec = EFX_FILTER_FLAG_TX
       else efs_flags gen_spec AND EFX_FILTER_FLAG_RX \<noteq> 0);
     if efs_flags gen_spec AND EFX_FILTER_FLAG_RX_RSS \<noteq> 0 \<and> efs_rss_context gen_spec \<noteq> 0 then Some (Inl EINVAL)
     else if efs_match_flags gen_spec = ipv4_full_flags then siena_ip_spec gen_spec True
     else if efs_match_flags gen_spec = ipv4_local_flags then siena_ip_spec gen_spec False
     else if efs_match_flags gen_spec = EFX_FILTER_MATCH_LOC_MAC OR EFX_FILTER_MATCH_OUTER_VID then siena_mac_spec gen_spec True
     else if efs_match_flags gen_spec = EFX_FILTER_MATCH_LOC_MAC then siena_mac_spec gen_spec False
     else None }"

fun siena_filter_tbl_id :: "siena_filter_type \<Rightarrow> siena_tbl_id" where
  "siena_filter_tbl_id EFX_SIENA_FILTER_RX_TCP_FULL = EFX_SIENA_FILTER_TBL_RX_IP"
| "siena_filter_tbl_id EFX_SIENA_FILTER_RX_TCP_WILD = EFX_SIENA_FILTER_TBL_RX_IP"
| "siena_filter_tbl_id EFX_SIENA_FILTER_RX_UDP_FULL = EFX_SIENA_FILTER_TBL_RX_IP"
| "siena_filter_tbl_id EFX_SIENA_FILTER_RX_UDP_WILD = EFX_SIENA_FILTER_TBL_RX_IP"
| "siena_filter_tbl_id EFX_SIENA_FILTER_RX_MAC_FULL = EFX_SIENA_FILTER_TBL_RX_MAC"
| "siena_filter_tbl_id EFX_SIENA_FILTER_RX_MAC_WILD = EFX_SIENA_FILTER_TBL_RX_MAC"
| "siena_filter_tbl_id EFX_SIENA_FILTER_TX_TCP_FULL = EFX_SIENA_FILTER_TBL_TX_IP"
| "siena_filter_tbl_id EFX_SIENA_FILTER_TX_TCP_WILD = EFX_SIENA_FILTER_TBL_TX_IP"
| "siena_filter_tbl_id EFX_SIENA_FILTER_TX_UDP_FULL = EFX_SIENA_FILTER_TBL_TX_IP"
| "siena_filter_tbl_id EFX_SIENA_FILTER_TX_UDP_WILD = EFX_SIENA_FILTER_TBL_TX_IP"
| "siena_filter_tbl_id EFX_SIENA_FILTER_TX_MAC_FULL = EFX_SIENA_FILTER_TBL_TX_MAC"
| "siena_filter_tbl_id EFX_SIENA_FILTER_TX_MAC_WILD = EFX_SIENA_FILTER_TBL_TX_MAC"

text \<open>The entry of the hardware table and the key that the filter is hashed by.\<close>

definition siena_filter_build :: "siena_filter_spec \<Rightarrow> efx_oword \<times> u32" where
  "siena_filter_build spec =
     (let type = sfs_type spec;
          rss = (if sfs_flags spec AND ucast EFX_FILTER_FLAG_RX_RSS \<noteq> 0 then 1 else 0);
          scatter = (if sfs_flags spec AND ucast EFX_FILTER_FLAG_RX_SCATTER \<noteq> 0 then 1 else 0);
          (filter, dword3) =
            (case siena_filter_tbl_id type of
               EFX_SIENA_FILTER_TBL_RX_IP \<Rightarrow>
                 let is_udp = (if type = EFX_SIENA_FILTER_RX_UDP_FULL \<or> type = EFX_SIENA_FILTER_RX_UDP_WILD then 1 else 0)
                 in (efx_populate_oword [(110, 1, rss), (109, 1, scatter), (108, 1, is_udp), (96, 12, sfs_dmaq_id spec),
                       (64, 32, sfs_dword2 spec), (32, 32, sfs_dword1 spec), (0, 32, sfs_dword0 spec)],
                     is_udp)
             | EFX_SIENA_FILTER_TBL_RX_MAC \<Rightarrow>
                 let is_wild = (if type = EFX_SIENA_FILTER_RX_MAC_WILD then 1 else 0)
                 in (efx_populate_oword [(75, 1, rss), (74, 1, scatter), (61, 12, sfs_dmaq_id spec), (60, 1, is_wild),
                       (44, 16, sfs_dword2 spec), (12, 32, sfs_dword1 spec), (0, 12, sfs_dword0 spec)],
                     is_wild)
             | EFX_SIENA_FILTER_TBL_TX_IP \<Rightarrow>
                 let is_udp = (if type = EFX_SIENA_FILTER_TX_UDP_FULL \<or> type = EFX_SIENA_FILTER_TX_UDP_WILD then 1 else 0)
                 in (efx_populate_oword [(108, 1, is_udp), (96, 12, sfs_dmaq_id spec),
                       (64, 32, sfs_dword2 spec), (32, 32, sfs_dword1 spec), (0, 32, sfs_dword0 spec)],
                     is_udp OR push_bit 1 (sfs_dmaq_id spec))
             | EFX_SIENA_FILTER_TBL_TX_MAC \<Rightarrow>
                 let is_wild = (if type = EFX_SIENA_FILTER_TX_MAC_WILD then 1 else 0)
                 in (efx_populate_oword [(61, 12, sfs_dmaq_id spec), (60, 1, is_wild),
                       (44, 16, sfs_dword2 spec), (12, 32, sfs_dword1 spec), (0, 12, sfs_dword0 spec)],
                     is_wild OR push_bit 1 (sfs_dmaq_id spec)))
      in (filter, sfs_dword0 spec XOR sfs_dword1 spec XOR sfs_dword2 spec XOR dword3))"

definition siena_filter_tbl_hash :: "u32 \<Rightarrow> u16" where
  "siena_filter_tbl_hash key =
     (let tmp = 0x1fff XOR ucast (drop_bit 16 key);
          tmp = tmp XOR drop_bit 3 tmp XOR drop_bit 6 tmp;
          tmp = tmp XOR drop_bit 9 tmp;
          tmp = tmp XOR push_bit 13 tmp XOR ucast (key AND 0xffff);
          tmp = tmp XOR drop_bit 3 tmp XOR drop_bit 6 tmp
      in tmp XOR drop_bit 9 tmp)"

definition siena_filter_tbl_increment :: "u32 \<Rightarrow> u16" where
  "siena_filter_tbl_increment key = ucast (key * 2 - 1)"

definition siena_filter_equal :: "siena_filter_spec \<Rightarrow> siena_filter_spec \<Rightarrow> bool" where
  "siena_filter_equal left right =
     (let tbl_id = siena_filter_tbl_id (sfs_type left) in
      if sfs_type left \<noteq> sfs_type right then False
      else if (sfs_dword0 left, sfs_dword1 left, sfs_dword2 left) \<noteq> (sfs_dword0 right, sfs_dword1 right, sfs_dword2 right)
      then False
      else if (tbl_id = EFX_SIENA_FILTER_TBL_TX_IP \<or> tbl_id = EFX_SIENA_FILTER_TBL_TX_MAC)
        \<and> sfs_dmaq_id left \<noteq> sfs_dmaq_id right then False
      else True)"

section \<open>Tables\<close>

text \<open>
  A table is mirrored by a bitmap of the used entries and an array of the specifications, both NULL until they are
  allocated.
\<close>

record siena_filter_tbl =
  sft_size :: nat
  sft_used :: int
  sft_bitmap :: "u32 list option"
  sft_spec :: "siena_filter_spec list option"

record siena_filter =
  sf_tbl :: "siena_tbl_id \<Rightarrow> siena_filter_tbl"
  sf_depth :: "siena_filter_type \<Rightarrow> nat"

text \<open>What \<open>memset\<close> to zero makes of a specification: type 0.\<close>

definition zero_siena_spec :: siena_filter_spec where
  "zero_siena_spec = \<lparr>sfs_type = EFX_SIENA_FILTER_RX_TCP_FULL, sfs_flags = 0, sfs_dmaq_id = 0,
     sfs_dword0 = 0, sfs_dword1 = 0, sfs_dword2 = 0\<rparr>"

text \<open>The hardware: the registers \<open>FR_AZ_RX_FILTER_CTL_REG\<close> and \<open>FR_AZ_TX_CFG_REG\<close>, and the rows of the four tables.\<close>

record siena_hw =
  hw_rx_filter_ctl :: efx_oword
  hw_tx_cfg :: efx_oword
  hw_rows :: "siena_tbl_id \<Rightarrow> nat \<Rightarrow> efx_oword"

definition siena_filter_test_used :: "siena_filter_tbl \<Rightarrow> nat \<Rightarrow> bool option" where
  "siena_filter_test_used sftp index = do {
     bitmap \<leftarrow> sft_bitmap sftp;
     w \<leftarrow> rd bitmap (index div 32);
     Some (w AND push_bit (index mod 32) 1 \<noteq> 0) }"

definition siena_filter_set_used :: "siena_filter_tbl \<Rightarrow> nat \<Rightarrow> siena_filter_tbl option" where
  "siena_filter_set_used sftp index = do {
     bitmap \<leftarrow> sft_bitmap sftp;
     w \<leftarrow> rd bitmap (index div 32);
     bitmap \<leftarrow> wr bitmap (index div 32) (w OR push_bit (index mod 32) 1);
     Some (sftp\<lparr>sft_bitmap := Some bitmap, sft_used := sft_used sftp + 1\<rparr>) }"

text \<open>The assertion on \<open>sft_used\<close> compares as unsigned: it cannot fail.\<close>

definition siena_filter_clear_used :: "siena_filter_tbl \<Rightarrow> nat \<Rightarrow> siena_filter_tbl option" where
  "siena_filter_clear_used sftp index = do {
     bitmap \<leftarrow> sft_bitmap sftp;
     w \<leftarrow> rd bitmap (index div 32);
     bitmap \<leftarrow> wr bitmap (index div 32) (w AND NOT (push_bit (index mod 32) 1));
     Some (sftp\<lparr>sft_bitmap := Some bitmap, sft_used := sft_used sftp - 1\<rparr>) }"

fun siena_filter_reset_search_depth :: "siena_filter \<Rightarrow> siena_tbl_id \<Rightarrow> siena_filter" where
  "siena_filter_reset_search_depth sfp EFX_SIENA_FILTER_TBL_RX_IP = sfp\<lparr>sf_depth := (sf_depth sfp)(
     EFX_SIENA_FILTER_RX_TCP_FULL := 0, EFX_SIENA_FILTER_RX_TCP_WILD := 0,
     EFX_SIENA_FILTER_RX_UDP_FULL := 0, EFX_SIENA_FILTER_RX_UDP_WILD := 0)\<rparr>"
| "siena_filter_reset_search_depth sfp EFX_SIENA_FILTER_TBL_RX_MAC = sfp\<lparr>sf_depth := (sf_depth sfp)(
     EFX_SIENA_FILTER_RX_MAC_FULL := 0, EFX_SIENA_FILTER_RX_MAC_WILD := 0)\<rparr>"
| "siena_filter_reset_search_depth sfp EFX_SIENA_FILTER_TBL_TX_IP = sfp\<lparr>sf_depth := (sf_depth sfp)(
     EFX_SIENA_FILTER_TX_TCP_FULL := 0, EFX_SIENA_FILTER_TX_TCP_WILD := 0,
     EFX_SIENA_FILTER_TX_UDP_FULL := 0, EFX_SIENA_FILTER_TX_UDP_WILD := 0)\<rparr>"
| "siena_filter_reset_search_depth sfp EFX_SIENA_FILTER_TBL_TX_MAC = sfp\<lparr>sf_depth := (sf_depth sfp)(
     EFX_SIENA_FILTER_TX_MAC_FULL := 0, EFX_SIENA_FILTER_TX_MAC_WILD := 0)\<rparr>"

definition FILTER_CTL_SRCH_FUDGE_WILD :: nat where "FILTER_CTL_SRCH_FUDGE_WILD = 3"
definition FILTER_CTL_SRCH_FUDGE_FULL :: nat where "FILTER_CTL_SRCH_FUDGE_FULL = 1"
definition FILTER_CTL_SRCH_MAX :: nat where "FILTER_CTL_SRCH_MAX = 200"

definition siena_filter_push_rx_limits :: "siena_filter \<Rightarrow> siena_hw \<Rightarrow> siena_hw" where
  "siena_filter_push_rx_limits sfp hw =
     (let oword = hw_rx_filter_ctl hw;
          depth = (\<lambda>type fudge. of_nat (sf_depth sfp type + fudge));
          oword = efx_set_oword_field oword 0 8 (depth EFX_SIENA_FILTER_RX_TCP_FULL FILTER_CTL_SRCH_FUDGE_FULL);
          oword = efx_set_oword_field oword 8 8 (depth EFX_SIENA_FILTER_RX_TCP_WILD FILTER_CTL_SRCH_FUDGE_WILD);
          oword = efx_set_oword_field oword 32 8 (depth EFX_SIENA_FILTER_RX_UDP_FULL FILTER_CTL_SRCH_FUDGE_FULL);
          oword = efx_set_oword_field oword 16 8 (depth EFX_SIENA_FILTER_RX_UDP_WILD FILTER_CTL_SRCH_FUDGE_WILD);
          oword = (if sft_size (sf_tbl sfp EFX_SIENA_FILTER_TBL_RX_MAC) \<noteq> 0 then
             (let oword = efx_set_oword_field oword 86 8 (depth EFX_SIENA_FILTER_RX_MAC_FULL FILTER_CTL_SRCH_FUDGE_FULL)
              in efx_set_oword_field oword 94 8 (depth EFX_SIENA_FILTER_RX_MAC_WILD FILTER_CTL_SRCH_FUDGE_WILD))
             else oword)
      in hw\<lparr>hw_rx_filter_ctl := oword\<rparr>)"

definition siena_filter_push_tx_limits :: "siena_filter \<Rightarrow> siena_hw \<Rightarrow> siena_hw" where
  "siena_filter_push_tx_limits sfp hw =
     (let oword = hw_tx_cfg hw;
          depth = (\<lambda>type fudge. of_nat (sf_depth sfp type + fudge));
          oword = (if sft_size (sf_tbl sfp EFX_SIENA_FILTER_TBL_TX_IP) \<noteq> 0 then
             (let oword = efx_set_oword_field oword 65 8 (depth EFX_SIENA_FILTER_TX_TCP_FULL FILTER_CTL_SRCH_FUDGE_FULL);
                  oword = efx_set_oword_field oword 73 8 (depth EFX_SIENA_FILTER_TX_TCP_WILD FILTER_CTL_SRCH_FUDGE_WILD);
                  oword = efx_set_oword_field oword 81 8 (depth EFX_SIENA_FILTER_TX_UDP_FULL FILTER_CTL_SRCH_FUDGE_FULL)
              in efx_set_oword_field oword 89 8 (depth EFX_SIENA_FILTER_TX_UDP_WILD FILTER_CTL_SRCH_FUDGE_WILD))
             else oword);
          oword = (if sft_size (sf_tbl sfp EFX_SIENA_FILTER_TBL_TX_MAC) \<noteq> 0 then
             (let oword = efx_set_oword_field oword 97 8 (depth EFX_SIENA_FILTER_TX_MAC_FULL FILTER_CTL_SRCH_FUDGE_FULL)
              in efx_set_oword_field oword 105 8 (depth EFX_SIENA_FILTER_TX_MAC_WILD FILTER_CTL_SRCH_FUDGE_WILD))
             else oword)
      in hw\<lparr>hw_tx_cfg := oword\<rparr>)"

definition siena_hw_write :: "siena_hw \<Rightarrow> siena_tbl_id \<Rightarrow> nat \<Rightarrow> efx_oword \<Rightarrow> siena_hw" where
  "siena_hw_write hw tbl_id index eop = hw\<lparr>hw_rows := (hw_rows hw)(tbl_id := (hw_rows hw tbl_id)(index := eop))\<rparr>"

fun siena_filter_push_entry :: "siena_hw \<Rightarrow> siena_filter_type \<Rightarrow> nat \<Rightarrow> efx_oword \<Rightarrow> efx_rc \<times> siena_hw" where
  "siena_filter_push_entry hw EFX_SIENA_FILTER_RX_TCP_FULL index eop = (RC_OK, siena_hw_write hw EFX_SIENA_FILTER_TBL_RX_IP index eop)"
| "siena_filter_push_entry hw EFX_SIENA_FILTER_RX_TCP_WILD index eop = (RC_OK, siena_hw_write hw EFX_SIENA_FILTER_TBL_RX_IP index eop)"
| "siena_filter_push_entry hw EFX_SIENA_FILTER_RX_UDP_FULL index eop = (RC_OK, siena_hw_write hw EFX_SIENA_FILTER_TBL_RX_IP index eop)"
| "siena_filter_push_entry hw EFX_SIENA_FILTER_RX_UDP_WILD index eop = (RC_OK, siena_hw_write hw EFX_SIENA_FILTER_TBL_RX_IP index eop)"
| "siena_filter_push_entry hw EFX_SIENA_FILTER_RX_MAC_FULL index eop = (RC_OK, siena_hw_write hw EFX_SIENA_FILTER_TBL_RX_MAC index eop)"
| "siena_filter_push_entry hw EFX_SIENA_FILTER_RX_MAC_WILD index eop = (RC_OK, siena_hw_write hw EFX_SIENA_FILTER_TBL_RX_MAC index eop)"
| "siena_filter_push_entry hw EFX_SIENA_FILTER_TX_TCP_FULL index eop = (RC_OK, siena_hw_write hw EFX_SIENA_FILTER_TBL_TX_IP index eop)"
| "siena_filter_push_entry hw EFX_SIENA_FILTER_TX_TCP_WILD index eop = (RC_OK, siena_hw_write hw EFX_SIENA_FILTER_TBL_TX_IP index eop)"
| "siena_filter_push_entry hw EFX_SIENA_FILTER_TX_UDP_FULL index eop = (RC_OK, siena_hw_write hw EFX_SIENA_FILTER_TBL_TX_IP index eop)"
| "siena_filter_push_entry hw EFX_SIENA_FILTER_TX_UDP_WILD index eop = (RC_OK, siena_hw_write hw EFX_SIENA_FILTER_TBL_TX_IP index eop)"
| "siena_filter_push_entry hw EFX_SIENA_FILTER_TX_MAC_FULL index eop = (RC_OK, siena_hw_write hw EFX_SIENA_FILTER_TBL_TX_MAC index eop)"
| "siena_filter_push_entry hw EFX_SIENA_FILTER_TX_MAC_WILD index eop = (RC_OK, siena_hw_write hw EFX_SIENA_FILTER_TBL_TX_MAC index eop)"

text \<open>
  The search loop, from the probe numbered \<open>depth\<close> at \<open>filter_idx\<close>: the index and the depth found, or the error. The C
  compares \<open>depth\<close> for equality with its maximum, which it starts below.
\<close>

function siena_filter_search_loop ::
    "siena_filter_tbl \<Rightarrow> siena_filter_spec \<Rightarrow> bool \<Rightarrow> u32 \<Rightarrow> u32 \<Rightarrow> nat \<Rightarrow> (efx_rc + nat \<times> nat) option" where
  "siena_filter_search_loop sftp spec for_insert incr filter_idx depth = do {
     used \<leftarrow> siena_filter_test_used sftp (unat filter_idx);
     hit \<leftarrow> (if used then do {
               specs \<leftarrow> sft_spec sftp;
               saved \<leftarrow> rd specs (unat filter_idx);
               Some (siena_filter_equal spec saved) }
             else Some for_insert);
     if hit then Some (Inr (unat filter_idx, depth))
     else if depth \<ge> FILTER_CTL_SRCH_MAX then Some (Inl (if for_insert then EBUSY else ENOENT))
     else siena_filter_search_loop sftp spec for_insert incr
            ((filter_idx + incr) AND (of_nat (sft_size sftp) - 1)) (depth + 1) }"
  by pat_completeness auto
termination by (relation "measure (\<lambda>(_, _, _, _, _, depth). FILTER_CTL_SRCH_MAX - depth)") auto

declare siena_filter_search_loop.simps [simp del]

definition siena_filter_search ::
    "siena_filter_tbl \<Rightarrow> siena_filter_spec \<Rightarrow> u32 \<Rightarrow> bool \<Rightarrow> (efx_rc + nat \<times> nat) option" where
  "siena_filter_search sftp spec key for_insert =
     (let hash = ucast (siena_filter_tbl_hash key);
          incr = ucast (siena_filter_tbl_increment key)
      in siena_filter_search_loop sftp spec for_insert incr (hash AND (of_nat (sft_size sftp) - 1)) 1)"

definition siena_filter_clear_entry ::
    "siena_hw \<Rightarrow> siena_filter_tbl \<Rightarrow> nat \<Rightarrow> (siena_hw \<times> siena_filter_tbl) option" where
  "siena_filter_clear_entry hw sftp index = do {
     used \<leftarrow> siena_filter_test_used sftp index;
     if used then do {
       sftp \<leftarrow> siena_filter_clear_used sftp index;
       specs \<leftarrow> sft_spec sftp;
       saved \<leftarrow> rd specs index;
       let (_, hw) = siena_filter_push_entry hw (sfs_type saved) index EFX_ZERO_OWORD;
       specs \<leftarrow> wr specs index zero_siena_spec;
       Some (hw, sftp\<lparr>sft_spec := Some specs\<rparr>) }
     else Some (hw, sftp) }"

section \<open>Operations\<close>

text \<open>A pointer to memory that the driver allocates and frees.\<close>

datatype 'a ptr = PNull | PFreed | PPtr 'a

fun deref :: "'a ptr \<Rightarrow> 'a option" where
  "deref (PPtr x) = Some x"
| "deref _ = None"

record siena_filter_state =
  ef_siena_filter :: "siena_filter ptr"
  sf_hw :: siena_hw

type_synonym siena_dev = "siena_filter_state filter_dev"

definition siena_put :: "siena_dev \<Rightarrow> siena_filter \<Rightarrow> siena_hw \<Rightarrow> siena_dev" where
  "siena_put enp sfp hw = enp\<lparr>fd_hw := \<lparr>ef_siena_filter = PPtr sfp, sf_hw = hw\<rparr>\<rparr>"

definition put_tbl :: "siena_filter \<Rightarrow> siena_tbl_id \<Rightarrow> siena_filter_tbl \<Rightarrow> siena_filter" where
  "put_tbl sfp tbl_id sftp = sfp\<lparr>sf_tbl := (sf_tbl sfp)(tbl_id := sftp)\<rparr>"

fun siena_filter_clear_entries ::
    "siena_hw \<Rightarrow> siena_filter_tbl \<Rightarrow> nat list \<Rightarrow> (siena_hw \<times> siena_filter_tbl) option" where
  "siena_filter_clear_entries hw sftp [] = Some (hw, sftp)"
| "siena_filter_clear_entries hw sftp (index # rest) = do {
     (hw, sftp) \<leftarrow> siena_filter_clear_entry hw sftp index;
     siena_filter_clear_entries hw sftp rest }"

definition siena_filter_tbl_clear :: "siena_dev \<Rightarrow> siena_tbl_id \<Rightarrow> siena_dev option" where
  "siena_filter_tbl_clear enp tbl_id = do {
     sfp \<leftarrow> deref (ef_siena_filter (fd_hw enp));
     let sftp = sf_tbl sfp tbl_id;
     (hw, sftp) \<leftarrow> siena_filter_clear_entries (sf_hw (fd_hw enp)) sftp [0..<sft_size sftp];
     let sfp = put_tbl sfp tbl_id sftp;
     let sfp = (if sft_used sftp = 0 then siena_filter_reset_search_depth sfp tbl_id else sfp);
     Some (siena_put enp sfp hw) }"

definition siena_bitmap_size :: "siena_filter_tbl \<Rightarrow> nat" where
  "siena_bitmap_size sftp = (sft_size sftp + 4 * 8 - 1) div 8"

definition siena_tbls :: "siena_tbl_id list" where
  "siena_tbls = [EFX_SIENA_FILTER_TBL_RX_IP, EFX_SIENA_FILTER_TBL_RX_MAC,
     EFX_SIENA_FILTER_TBL_TX_IP, EFX_SIENA_FILTER_TBL_TX_MAC]"

text \<open>
  \<open>alloc n\<close> tells whether the n-th allocation of the call succeeds. Memory is allocated zeroed; a bitmap holds the whole
  dwords of its allocation.
\<close>

fun siena_filter_alloc_tbls :: "(nat \<Rightarrow> bool) \<Rightarrow> nat \<Rightarrow> siena_tbl_id list \<Rightarrow> siena_filter \<Rightarrow> efx_rc \<times> siena_filter" where
  "siena_filter_alloc_tbls alloc n [] sfp = (RC_OK, sfp)"
| "siena_filter_alloc_tbls alloc n (tbl_id # rest) sfp =
     (let sftp = sf_tbl sfp tbl_id in
      if sft_size sftp = 0 then siena_filter_alloc_tbls alloc n rest sfp
      else if \<not> alloc n then (ENOMEM, sfp)
      else
        (let sftp = sftp\<lparr>sft_bitmap := Some (replicate (siena_bitmap_size sftp div 4) 0)\<rparr> in
         if \<not> alloc (n + 1) then (ENOMEM, put_tbl sfp tbl_id sftp)
         else siena_filter_alloc_tbls alloc (n + 2) rest
                (put_tbl sfp tbl_id (sftp\<lparr>sft_spec := Some (replicate (sft_size sftp) zero_siena_spec)\<rparr>))))"

text \<open>The buffers are freed with the size they were allocated with; the structure is freed, its pointer kept.\<close>

definition siena_filter_fini :: "siena_dev \<Rightarrow> siena_dev option" where
  "siena_filter_fini enp = do {
     efsys_assert (fd_magic enp = EFX_NIC_MAGIC \<and> fd_mod_flags enp AND EFX_MOD_PROBE \<noteq> 0);
     case ef_siena_filter (fd_hw enp) of
       PNull \<Rightarrow> Some enp
     | PFreed \<Rightarrow> None
     | PPtr sfp \<Rightarrow> do {
         efsys_assert (list_all (\<lambda>tbl_id. let sftp = sf_tbl sfp tbl_id in
             pred_option (\<lambda>bitmap. length bitmap = siena_bitmap_size sftp div 4) (sft_bitmap sftp)
           \<and> pred_option (\<lambda>specs. length specs = sft_size sftp) (sft_spec sftp)) siena_tbls);
         Some (enp\<lparr>fd_hw := (fd_hw enp)\<lparr>ef_siena_filter := PFreed\<rparr>\<rparr>) } }"

definition empty_siena_tbl :: "nat \<Rightarrow> siena_filter_tbl" where
  "empty_siena_tbl sz = \<lparr>sft_size = sz, sft_used = 0, sft_bitmap = None, sft_spec = None\<rparr>"

fun siena_tbl_rows :: "siena_tbl_id \<Rightarrow> nat" where
  "siena_tbl_rows EFX_SIENA_FILTER_TBL_RX_IP = 8192"
| "siena_tbl_rows EFX_SIENA_FILTER_TBL_RX_MAC = 512"
| "siena_tbl_rows EFX_SIENA_FILTER_TBL_TX_IP = 8192"
| "siena_tbl_rows EFX_SIENA_FILTER_TBL_TX_MAC = 512"

definition siena_filter_init :: "(nat \<Rightarrow> bool) \<Rightarrow> siena_dev \<Rightarrow> (efx_rc \<times> siena_dev) option" where
  "siena_filter_init alloc enp =
     (if \<not> alloc 0 then Some (ENOMEM, enp)
      else do {
        let sfp = \<lparr>sf_tbl = (\<lambda>_. empty_siena_tbl 0), sf_depth = (\<lambda>_. 0)\<rparr>;
        let (rc, sfp) = (if fd_family enp = EFX_FAMILY_SIENA
          then siena_filter_alloc_tbls alloc 1 siena_tbls (sfp\<lparr>sf_tbl := (\<lambda>tbl_id. empty_siena_tbl (siena_tbl_rows tbl_id))\<rparr>)
          else (ENOTSUP, sfp));
        let enp = siena_put enp sfp (sf_hw (fd_hw enp));
        if rc = RC_OK then Some (RC_OK, enp)
        else do { enp \<leftarrow> siena_filter_fini enp; Some (rc, enp) } })"

text \<open>\<open>siena_filter_restore\<close> takes the key that \<open>siena_filter_build\<close> returns for a return code.\<close>

fun siena_filter_restore_tbl ::
    "siena_hw \<Rightarrow> siena_filter_tbl \<Rightarrow> nat list \<Rightarrow> (efx_rc \<times> siena_hw) option" where
  "siena_filter_restore_tbl hw sftp [] = Some (RC_OK, hw)"
| "siena_filter_restore_tbl hw sftp (filter_idx # rest) = do {
     used \<leftarrow> siena_filter_test_used sftp filter_idx;
     if \<not> used then siena_filter_restore_tbl hw sftp rest
     else do {
       specs \<leftarrow> sft_spec sftp;
       spec \<leftarrow> rd specs filter_idx;
       let (filter, rc) = siena_filter_build spec;
       if rc \<noteq> 0 then Some (rc_of_u32 rc, hw)
       else do {
         let (rc, hw) = siena_filter_push_entry hw (sfs_type spec) filter_idx filter;
         if rc \<noteq> RC_OK then Some (rc, hw) else siena_filter_restore_tbl hw sftp rest } } }"

fun siena_filter_restore_tbls ::
    "siena_hw \<Rightarrow> siena_filter \<Rightarrow> siena_tbl_id list \<Rightarrow> (efx_rc \<times> siena_hw) option" where
  "siena_filter_restore_tbls hw sfp [] = Some (RC_OK, hw)"
| "siena_filter_restore_tbls hw sfp (tbl_id # rest) = do {
     let sftp = sf_tbl sfp tbl_id;
     (rc, hw) \<leftarrow> siena_filter_restore_tbl hw sftp [0..<sft_size sftp];
     if rc \<noteq> RC_OK then Some (rc, hw) else siena_filter_restore_tbls hw sfp rest }"

definition siena_filter_restore :: "siena_dev \<Rightarrow> (efx_rc \<times> siena_dev) option" where
  "siena_filter_restore enp = do {
     sfp \<leftarrow> deref (ef_siena_filter (fd_hw enp));
     (rc, hw) \<leftarrow> siena_filter_restore_tbls (sf_hw (fd_hw enp)) sfp siena_tbls;
     if rc \<noteq> RC_OK then Some (rc, siena_put enp sfp hw)
     else do {
       let hw = siena_filter_push_rx_limits sfp hw;
       let hw = siena_filter_push_tx_limits sfp hw;
       Some (RC_OK, siena_put enp sfp hw) } }"

text \<open>\<open>siena_filter_add\<close> from the point where the specification is translated.\<close>

definition siena_filter_add_spec ::
    "siena_filter \<Rightarrow> siena_hw \<Rightarrow> siena_filter_spec \<Rightarrow> bool \<Rightarrow> (efx_rc \<times> siena_filter \<times> siena_hw) option" where
  "siena_filter_add_spec sfp hw sf_spec may_replace = do {
     let tbl_id = siena_filter_tbl_id (sfs_type sf_spec);
     let sftp = sf_tbl sfp tbl_id;
     if sft_size sftp = 0 then Some (EINVAL, sfp, hw)
     else do {
       let (filter, key) = siena_filter_build sf_spec;
       r \<leftarrow> siena_filter_search sftp sf_spec key True;
       (case r of
          Inl rc \<Rightarrow> Some (rc, sfp, hw)
        | Inr (filter_idx, depth) \<Rightarrow> do {
            efsys_assert (filter_idx < sft_size sftp);
            used \<leftarrow> siena_filter_test_used sftp filter_idx;
            if used \<and> \<not> may_replace then Some (EEXIST, sfp, hw)
            else do {
              sftp \<leftarrow> siena_filter_set_used sftp filter_idx;
              specs \<leftarrow> sft_spec sftp;
              specs \<leftarrow> wr specs filter_idx sf_spec;
              let sfp = put_tbl sfp tbl_id (sftp\<lparr>sft_spec := Some specs\<rparr>);
              let (sfp, hw) = (if sf_depth sfp (sfs_type sf_spec) < depth
                then
                  (let sfp = sfp\<lparr>sf_depth := (sf_depth sfp)(sfs_type sf_spec := depth)\<rparr> in
                   (sfp, if tbl_id = EFX_SIENA_FILTER_TBL_TX_IP \<or> tbl_id = EFX_SIENA_FILTER_TBL_TX_MAC
                         then siena_filter_push_tx_limits sfp hw else siena_filter_push_rx_limits sfp hw))
                else (sfp, hw));
              let (_, hw) = siena_filter_push_entry hw (sfs_type sf_spec) filter_idx filter;
              Some (RC_OK, sfp, hw) } }) } }"

definition siena_filter_add :: "siena_dev \<Rightarrow> efx_filter_spec \<Rightarrow> bool \<Rightarrow> (efx_rc \<times> siena_dev) option" where
  "siena_filter_add enp spec may_replace = do {
     r \<leftarrow> siena_filter_spec_from_gen_spec spec;
     (case r of
        Inl rc \<Rightarrow> Some (rc, enp)
      | Inr sf_spec \<Rightarrow> do {
          sfp \<leftarrow> deref (ef_siena_filter (fd_hw enp));
          (rc, sfp, hw) \<leftarrow> siena_filter_add_spec sfp (sf_hw (fd_hw enp)) sf_spec may_replace;
          Some (rc, siena_put enp sfp hw) }) }"

definition siena_filter_delete_spec ::
    "siena_filter \<Rightarrow> siena_hw \<Rightarrow> siena_filter_spec \<Rightarrow> (efx_rc \<times> siena_filter \<times> siena_hw) option" where
  "siena_filter_delete_spec sfp hw sf_spec = do {
     let tbl_id = siena_filter_tbl_id (sfs_type sf_spec);
     let sftp = sf_tbl sfp tbl_id;
     let (_, key) = siena_filter_build sf_spec;
     r \<leftarrow> siena_filter_search sftp sf_spec key False;
     (case r of
        Inl rc \<Rightarrow> Some (rc, sfp, hw)
      | Inr (filter_idx, _) \<Rightarrow> do {
          (hw, sftp) \<leftarrow> siena_filter_clear_entry hw sftp filter_idx;
          let sfp = put_tbl sfp tbl_id sftp;
          let sfp = (if sft_used sftp = 0 then siena_filter_reset_search_depth sfp tbl_id else sfp);
          Some (RC_OK, sfp, hw) }) }"

definition siena_filter_delete :: "siena_dev \<Rightarrow> efx_filter_spec \<Rightarrow> (efx_rc \<times> siena_dev) option" where
  "siena_filter_delete enp spec = do {
     r \<leftarrow> siena_filter_spec_from_gen_spec spec;
     (case r of
        Inl rc \<Rightarrow> Some (rc, enp)
      | Inr sf_spec \<Rightarrow> do {
          sfp \<leftarrow> deref (ef_siena_filter (fd_hw enp));
          (rc, sfp, hw) \<leftarrow> siena_filter_delete_spec sfp (sf_hw (fd_hw enp)) sf_spec;
          Some (rc, siena_put enp sfp hw) }) }"

definition EFX_FEATURE_MAC_HEADER_FILTERS :: u32 where "EFX_FEATURE_MAC_HEADER_FILTERS = 0x00000080"

text \<open>The match flags as little-endian dwords, as the array has them in memory.\<close>

definition match_bytes :: "12 word \<Rightarrow> u8 list" where
  "match_bytes m = [ucast m, ucast (drop_bit 8 m), 0, 0]"

text \<open>\<open>memcpy\<close> gets the number of the matches as the number of the bytes to copy.\<close>

definition siena_filter_supported_filters :: "siena_dev \<Rightarrow> u8 list option \<Rightarrow> (efx_rc + u8 list \<times> nat) option" where
  "siena_filter_supported_filters enp list =
     (case list of
        None \<Rightarrow> Some (Inl EINVAL)
      | Some list \<Rightarrow> do {
          let rx_matches = [ipv4_full_flags, ipv4_local_flags]
            @ (if fd_features enp AND EFX_FEATURE_MAC_HEADER_FILTERS \<noteq> 0
               then [EFX_FILTER_MATCH_OUTER_VID OR EFX_FILTER_MATCH_LOC_MAC, EFX_FILTER_MATCH_LOC_MAC] else []);
          let n = length rx_matches;
          bytes \<leftarrow> rd_range (concat (map match_bytes rx_matches)) 0 n;
          list \<leftarrow> wr_range list 0 bytes;
          Some (Inr (list, n)) })"

definition siena_filter_ops :: "(nat \<Rightarrow> bool) \<Rightarrow> siena_filter_state filter_ops" where
  "siena_filter_ops alloc = \<lparr>efo_init = siena_filter_init alloc, efo_fini = siena_filter_fini, efo_restore = siena_filter_restore,
     efo_add = siena_filter_add, efo_delete = siena_filter_delete,
     efo_supported_filters = siena_filter_supported_filters, efo_reconfigure = None\<rparr>"

end
