(* ===== verification/Efx_Siena_Spec.thy ===== *)
theory Efx_Siena_Spec
  imports Efx_Siena_Filter Efx_Interfaces
begin

text \<open>
  Lemmas about the Siena filter tables: the probe sequence as arithmetic, the interpretation of \<open>probe_table\<close> on the
  driver's hash and comparison, the search as the first hit of the probe sequence, and the invariant that ties the mirror
  of a table to the hardware.
\<close>

section \<open>The probe sequence\<close>

fun siena_tbl_bits :: "siena_tbl_id \<Rightarrow> nat" where
  "siena_tbl_bits EFX_SIENA_FILTER_TBL_RX_IP = 13"
| "siena_tbl_bits EFX_SIENA_FILTER_TBL_RX_MAC = 9"
| "siena_tbl_bits EFX_SIENA_FILTER_TBL_TX_IP = 13"
| "siena_tbl_bits EFX_SIENA_FILTER_TBL_TX_MAC = 9"

lemma siena_tbl_rows_bits: "siena_tbl_rows t = 2 ^ siena_tbl_bits t"
  by (cases t) simp_all

lemma siena_tbl_bits_bounds: "9 \<le> siena_tbl_bits t \<and> siena_tbl_bits t \<le> 13"
  by (cases t) simp_all

definition siena_key :: "siena_filter_spec \<Rightarrow> u32" where
  "siena_key spec = snd (siena_filter_build spec)"

definition siena_probe :: "siena_filter_spec \<Rightarrow> nat \<Rightarrow> nat" where
  "siena_probe spec d =
     (unat (siena_filter_tbl_hash (siena_key spec)) + (d - 1) * unat (siena_filter_tbl_increment (siena_key spec)))
       mod siena_tbl_rows (siena_filter_tbl_id (sfs_type spec))"

lemma increment_odd: "odd (unat (siena_filter_tbl_increment key))"
proof -
  have "bit (key * 2 - 1) 0"
  proof -
    have "even ((key * 2 - 1) + 1)" by simp
    then have "odd (key * 2 - 1)" by (simp only: even_plus_one_iff not_False_eq_True)
    then show ?thesis by (simp add: bit_0)
  qed
  then have "bit (unat (siena_filter_tbl_increment key)) 0"
    by (simp add: siena_filter_tbl_increment_def bit_simps del: bit_0)
  then show ?thesis by (simp add: bit_0)
qed

lemma odd_step_inj:
  fixes c :: nat
  assumes "odd c" "(h + a * c) mod 2 ^ k = (h + b * c) mod 2 ^ k" "a \<le> b" "b - a < 2 ^ k"
  shows "a = b"
proof -
  have "2 ^ k dvd (h + b * c) - (h + a * c)"
    using assms(2,3) by (metis mod_eq_dvd_iff_nat add_le_mono1 add_left_mono mult_le_mono1)
  then have "2 ^ k dvd (b - a) * c" by (simp add: diff_mult_distrib)
  moreover have "coprime (2 ^ k) c" using assms(1) by simp
  ultimately have "2 ^ k dvd b - a" by (simp add: coprime_dvd_mult_left_iff)
  then show ?thesis using assms(3,4) by (metis diff_is_0_eq dvd_imp_le le_antisym not_less zero_less_iff_neq_zero)
qed

lemma siena_equal_key:
  assumes "siena_filter_equal s s'"
  shows "siena_key s = siena_key s' \<and> sfs_type s = sfs_type s'"
  using assms
  by (auto simp: siena_filter_equal_def siena_key_def siena_filter_build_def Let_def split: if_splits siena_tbl_id.splits)

interpretation sft: probe_table siena_probe siena_filter_equal FILTER_CTL_SRCH_MAX
proof (unfold_locales, goal_cases)
  case (1 d d' e)
  let ?k = "siena_tbl_bits (siena_filter_tbl_id (sfs_type e))"
  have *: "d = d'" if h: "1 \<le> d" "d \<le> d'" "d' \<le> 200" "siena_probe e d = siena_probe e d'" for d d'
  proof -
    have "200 < (2::nat) ^ ?k"
      using siena_tbl_bits_bounds [of "siena_filter_tbl_id (sfs_type e)"]
        power_increasing [of 9 ?k "2::nat"] by simp
    then have "d - 1 = d' - 1"
      using h by (intro odd_step_inj [OF increment_odd, of "unat (siena_filter_tbl_hash (siena_key e))" "d - 1" "siena_key e" ?k "d' - 1"])
        (auto simp: siena_probe_def siena_tbl_rows_bits)
    with h show ?thesis by simp
  qed
  have m: "d \<le> 200" "d' \<le> 200" using 1(2,4) by (simp_all add: FILTER_CTL_SRCH_MAX_def)
  show ?case
  proof (cases "d \<le> d'")
    case True
    show ?thesis by (rule * [OF 1(1) True m(2) 1(5)])
  next
    case False
    then have "d' \<le> d" by simp
    from * [OF 1(3) this m(1) 1(5) [symmetric]] show ?thesis by (rule sym)
  qed
next
  case (2 e)
  show ?case by (simp add: siena_filter_equal_def)
next
  case (3 e e')
  then show ?case by (auto simp: siena_filter_equal_def Let_def split: if_splits)
next
  case (4 e e' d)
  then show ?case using siena_equal_key [OF 4] by (simp add: siena_probe_def)
qed

section \<open>The search\<close>

text \<open>The memory of a table: a power of two of entries, a bitmap and an array that cover them.\<close>

definition siena_tbl_wf :: "nat \<Rightarrow> siena_filter_tbl \<Rightarrow> bool" where
  "siena_tbl_wf k sftp \<longleftrightarrow> k \<le> 16 \<and> sft_size sftp = 2 ^ k
     \<and> (\<exists>bitmap specs. sft_bitmap sftp = Some bitmap \<and> sft_spec sftp = Some specs
          \<and> 2 ^ k \<le> 32 * length bitmap \<and> length specs = 2 ^ k)"

definition siena_used :: "siena_filter_tbl \<Rightarrow> nat \<Rightarrow> bool" where
  "siena_used sftp i = (siena_filter_test_used sftp i = Some True)"

definition siena_slots :: "siena_filter_tbl \<Rightarrow> siena_filter_spec slots" where
  "siena_slots sftp i = (if i < sft_size sftp \<and> siena_used sftp i then Some (the (sft_spec sftp) ! i) else None)"

lemma test_used_bit:
  assumes "siena_tbl_wf k sftp" "i < 2 ^ k"
  shows "siena_filter_test_used sftp i = Some (siena_used sftp i)
    \<and> siena_used sftp i = bit (the (sft_bitmap sftp) ! (i div 32)) (i mod 32)"
proof -
  obtain bitmap where "sft_bitmap sftp = Some bitmap" "i div 32 < length bitmap"
    using assms by (auto simp: siena_tbl_wf_def less_mult_imp_div_less mult.commute)
  then show ?thesis by (simp add: siena_used_def siena_filter_test_used_def and_exp_eq_0_iff_not_bit)
qed

lemma hit_step:
  assumes "siena_tbl_wf k sftp" "i < 2 ^ k"
  shows "(do { used \<leftarrow> siena_filter_test_used sftp i;
             (if used then do { specs \<leftarrow> sft_spec sftp; saved \<leftarrow> rd specs i; Some (siena_filter_equal spec saved) }
              else Some ins) })
    = Some (case siena_slots sftp i of None \<Rightarrow> ins | Some x \<Rightarrow> siena_filter_equal spec x)"
  using assms test_used_bit [OF assms] by (auto simp: siena_slots_def siena_tbl_wf_def)

lemma idx_step:
  assumes "p < 2 ^ k" "k \<le> 16"
  shows "(of_nat p + ucast (c :: u16)) AND (of_nat (2 ^ k) - 1 :: u32) = of_nat ((p + unat c) mod 2 ^ k)"
proof -
  have m: "(of_nat (2 ^ k) - 1 :: u32) = mask k" by (simp add: mask_eq_decr_exp)
  have c: "(ucast c :: u32) = of_nat (unat c)" by simp
  have "(of_nat p + ucast c :: u32) AND mask k = take_bit k (of_nat (p + unat c))"
    by (simp add: take_bit_eq_mask)
  also have "\<dots> = of_nat (take_bit k (p + unat c))" by (simp only: take_bit_of_nat)
  finally show ?thesis by (simp only: m take_bit_eq_mod)
qed

lemma unat_idx: "p < 2 ^ k \<Longrightarrow> k \<le> 16 \<Longrightarrow> unat (of_nat p :: u32) = p"
proof -
  assume "p < 2 ^ k" "k \<le> 16"
  moreover have "(2::nat) ^ k \<le> 2 ^ 16" using \<open>k \<le> 16\<close> by (intro power_increasing) simp_all
  ultimately show ?thesis by (simp add: unat_of_nat)
qed

lemma bind_bind: "do { x \<leftarrow> (A :: 'a option); y \<leftarrow> (B x :: 'b option); (C y :: 'c option) } = do { y \<leftarrow> (do { x \<leftarrow> A; B x }); C y }"
  by (cases A) simp_all

lemma probe_find_empty: "n < d \<Longrightarrow> probe_find probe same slots e ins d n = None"
  by (simp add: probe_find_def)

lemma search_loop_find:
  assumes wf: "siena_tbl_wf k sftp" and pr: "\<And>d. probe d = (h + (d - 1) * unat c) mod 2 ^ k"
    and "1 \<le> d" "d \<le> FILTER_CTL_SRCH_MAX"
  shows "siena_filter_search_loop sftp spec ins (ucast (c :: u16)) (of_nat (probe d)) d
    = Some (case probe_find (\<lambda>_. probe) siena_filter_equal (siena_slots sftp) spec ins d FILTER_CTL_SRCH_MAX of
              None \<Rightarrow> Inl (if ins then EBUSY else ENOENT) | Some d' \<Rightarrow> Inr (probe d', d'))"
  using assms(3,4)
proof (induction "FILTER_CTL_SRCH_MAX - d" arbitrary: d rule: less_induct)
  case less
  have k: "k \<le> 16" and sz: "sft_size sftp = 2 ^ k" using wf by (simp_all add: siena_tbl_wf_def)
  have p: "probe d < 2 ^ k" by (simp add: pr)
  have "probe (d + 1) = (probe d + unat c) mod 2 ^ k"
  proof -
    have "d = Suc (d - 1)" using less(2) by simp
    then have "h + d * unat c = (h + (d - 1) * unat c) + unat c" by (metis add.assoc add.commute mult_Suc)
    then show ?thesis by (simp add: pr mod_add_left_eq add.assoc)
  qed
  then have nxt: "(of_nat (probe d) + ucast c) AND (of_nat (sft_size sftp) - 1) = (of_nat (probe (d + 1)) :: u32)"
    unfolding sz idx_step [OF p k] by simp
  let ?hit = "probe_hit (\<lambda>_. probe) siena_filter_equal (siena_slots sftp) spec ins d"
  have hit: "(do { used \<leftarrow> siena_filter_test_used sftp (probe d);
        (if used then do { specs \<leftarrow> sft_spec sftp; saved \<leftarrow> rd specs (probe d);
            Some (siena_filter_equal spec saved) } else Some ins) }) = Some ?hit"
    unfolding hit_step [OF wf p] by (simp add: probe_hit_def)
  have step: "siena_filter_search_loop sftp spec ins (ucast c) (of_nat (probe d)) d =
     (if ?hit then Some (Inr (probe d, d))
      else if d \<ge> FILTER_CTL_SRCH_MAX then Some (Inl (if ins then EBUSY else ENOENT))
      else siena_filter_search_loop sftp spec ins (ucast c) (of_nat (probe (d + 1))) (d + 1))"
    by (subst siena_filter_search_loop.simps, subst bind_bind) (simp only: hit bind.bind_lunit unat_idx [OF p k] nxt)
  show ?case
  proof (cases "?hit \<or> d \<ge> FILTER_CTL_SRCH_MAX")
    case True
    then show ?thesis
      using less(2,3) unfolding step by (auto simp: probe_find_step probe_find_empty)
  next
    case False
    have "siena_filter_search_loop sftp spec ins (ucast c) (of_nat (probe (d + 1))) (d + 1)
      = Some (case probe_find (\<lambda>_. probe) siena_filter_equal (siena_slots sftp) spec ins (d + 1) FILTER_CTL_SRCH_MAX of
                None \<Rightarrow> Inl (if ins then EBUSY else ENOENT) | Some d' \<Rightarrow> Inr (probe d', d'))"
      using False by (intro less(1)) arith+
    then show ?thesis using False less(3) unfolding step by (simp add: probe_find_step)
  qed
qed

lemma search_find:
  assumes "siena_tbl_wf (siena_tbl_bits (siena_filter_tbl_id (sfs_type spec))) sftp"
  shows "siena_filter_search sftp spec (siena_key spec) ins
    = Some (case probe_find siena_probe siena_filter_equal (siena_slots sftp) spec ins 1 FILTER_CTL_SRCH_MAX of
              None \<Rightarrow> Inl (if ins then EBUSY else ENOENT) | Some d \<Rightarrow> Inr (siena_probe spec d, d))"
proof -
  let ?k = "siena_tbl_bits (siena_filter_tbl_id (sfs_type spec))"
  let ?h = "siena_filter_tbl_hash (siena_key spec)"
  have k: "?k \<le> 16" and sz: "sft_size sftp = 2 ^ ?k" using assms by (simp_all add: siena_tbl_wf_def)
  have "ucast ?h AND (of_nat (sft_size sftp) - 1) = (of_nat (siena_probe spec 1) :: u32)"
    using idx_step [of 0 ?k ?h] k unfolding sz by (simp add: siena_probe_def siena_tbl_rows_bits)
  then have "siena_filter_search sftp spec (siena_key spec) ins
    = siena_filter_search_loop sftp spec ins (ucast (siena_filter_tbl_increment (siena_key spec))) (of_nat (siena_probe spec 1)) 1"
    by (simp add: siena_filter_search_def)
  also have "\<dots> = Some (case probe_find (\<lambda>_. siena_probe spec) siena_filter_equal (siena_slots sftp) spec ins 1 FILTER_CTL_SRCH_MAX of
              None \<Rightarrow> Inl (if ins then EBUSY else ENOENT) | Some d \<Rightarrow> Inr (siena_probe spec d, d))"
    by (rule search_loop_find [OF assms, where h = "unat ?h"])
      (simp_all add: siena_probe_def siena_tbl_rows_bits FILTER_CTL_SRCH_MAX_def)
  also have "probe_find (\<lambda>_. siena_probe spec) siena_filter_equal (siena_slots sftp) spec ins 1 FILTER_CTL_SRCH_MAX
    = probe_find siena_probe siena_filter_equal (siena_slots sftp) spec ins 1 FILTER_CTL_SRCH_MAX"
    unfolding probe_find_def by (rule arg_cong [where f = "\<lambda>P. find P [1..<Suc FILTER_CTL_SRCH_MAX]"])
      (simp add: fun_eq_iff probe_hit_def)
  finally show ?thesis .
qed

section \<open>The invariant of a table\<close>

text \<open>
  The mirror of a table and its hardware rows: the bitmap counts the used entries, every used entry belongs to the table
  and its row holds what \<open>siena_filter_build\<close> makes of it, every other entry and row is zero.
\<close>

definition siena_tbl_inv :: "siena_tbl_id \<Rightarrow> siena_filter_tbl \<Rightarrow> (nat \<Rightarrow> efx_oword) \<Rightarrow> bool" where
  "siena_tbl_inv t sftp rows \<longleftrightarrow> siena_tbl_wf (siena_tbl_bits t) sftp
     \<and> sft_used sftp = int (card {i. siena_slots sftp i \<noteq> None})
     \<and> (\<forall>i < sft_size sftp. case siena_slots sftp i of
          None \<Rightarrow> the (sft_spec sftp) ! i = zero_siena_spec \<and> rows i = EFX_ZERO_OWORD
        | Some x \<Rightarrow> siena_filter_tbl_id (sfs_type x) = t \<and> rows i = fst (siena_filter_build x))"

lemma slots_finite: "finite {i. siena_slots sftp i \<noteq> None}"
  by (rule finite_subset [of _ "{..<sft_size sftp}"]) (auto simp: siena_slots_def)

lemma tbl_inv_wf: "siena_tbl_inv t sftp rows \<Longrightarrow> siena_tbl_wf (siena_tbl_bits t) sftp"
  by (simp add: siena_tbl_inv_def)

lemma bit_of_nth_update:
  fixes bitmap :: "u32 list"
  assumes "i div 32 < length bitmap" "j div 32 < length bitmap"
  shows "bit ((bitmap[i div 32 := bitmap ! (i div 32) OR push_bit (i mod 32) 1]) ! (j div 32)) (j mod 32)
      \<longleftrightarrow> j = i \<or> bit (bitmap ! (j div 32)) (j mod 32)"
    and "bit ((bitmap[i div 32 := bitmap ! (i div 32) AND NOT (push_bit (i mod 32) 1)]) ! (j div 32)) (j mod 32)
      \<longleftrightarrow> j \<noteq> i \<and> bit (bitmap ! (j div 32)) (j mod 32)"
proof -
  have same: "i div 32 = j div 32 \<Longrightarrow> i mod 32 = j mod 32 \<longleftrightarrow> j = i"
    by (metis div_mult_mod_eq)
  have b1: "bit (push_bit n 1 :: u32) m \<longleftrightarrow> m = n" if "m < 32" for n m
    using that by (auto simp: bit_simps)
  have m: "j mod 32 < 32" by simp
  show "bit ((bitmap[i div 32 := bitmap ! (i div 32) OR push_bit (i mod 32) 1]) ! (j div 32)) (j mod 32)
      \<longleftrightarrow> j = i \<or> bit (bitmap ! (j div 32)) (j mod 32)"
    using assms same b1 [OF m, of "i mod 32"] by (cases "i div 32 = j div 32") (auto simp: bit_or_iff simp del: push_bit_of_1)
  show "bit ((bitmap[i div 32 := bitmap ! (i div 32) AND NOT (push_bit (i mod 32) 1)]) ! (j div 32)) (j mod 32)
      \<longleftrightarrow> j \<noteq> i \<and> bit (bitmap ! (j div 32)) (j mod 32)"
    using assms same b1 [OF m, of "i mod 32"]
    by (cases "i div 32 = j div 32") (auto simp: bit_and_iff bit_not_iff simp del: push_bit_of_1)
qed

lemma set_used_slots:
  assumes wf: "siena_tbl_wf k sftp" and i: "i < 2 ^ k"
  shows "\<exists>sftp'. siena_filter_set_used sftp i = Some sftp' \<and> siena_tbl_wf k sftp' \<and> sft_spec sftp' = sft_spec sftp
    \<and> sft_used sftp' = sft_used sftp + 1 \<and> sft_size sftp' = sft_size sftp
    \<and> (\<forall>j < 2 ^ k. siena_used sftp' j \<longleftrightarrow> j = i \<or> siena_used sftp j)"
proof -
  obtain bitmap specs where b: "sft_bitmap sftp = Some bitmap" "2 ^ k \<le> 32 * length bitmap" "sft_spec sftp = Some specs" "length specs = 2 ^ k"
    using wf by (auto simp: siena_tbl_wf_def)
  have l: "j < 2 ^ k \<Longrightarrow> j div 32 < length bitmap" for j
    using b(2) by (simp add: less_mult_imp_div_less mult.commute)
  let ?bm = "bitmap[i div 32 := bitmap ! (i div 32) OR push_bit (i mod 32) 1]"
  let ?t = "sftp\<lparr>sft_bitmap := Some ?bm, sft_used := sft_used sftp + 1\<rparr>"
  have t: "siena_filter_set_used sftp i = Some ?t" using b l [OF i] by (simp add: siena_filter_set_used_def del: push_bit_of_1)
  have wf': "siena_tbl_wf k ?t" using wf b by (simp add: siena_tbl_wf_def)
  have "siena_used ?t j \<longleftrightarrow> j = i \<or> siena_used sftp j" if j: "j < 2 ^ k" for j
    using test_used_bit [OF wf j] test_used_bit [OF wf' j] bit_of_nth_update(1) [OF l [OF i] l [OF j]] b
    by (simp del: push_bit_of_1)
  with t wf' show ?thesis by (intro exI [of _ ?t]) simp
qed

lemma clear_used_slots:
  assumes wf: "siena_tbl_wf k sftp" and i: "i < 2 ^ k"
  shows "\<exists>sftp'. siena_filter_clear_used sftp i = Some sftp' \<and> siena_tbl_wf k sftp' \<and> sft_spec sftp' = sft_spec sftp
    \<and> sft_used sftp' = sft_used sftp - 1 \<and> sft_size sftp' = sft_size sftp
    \<and> (\<forall>j < 2 ^ k. siena_used sftp' j \<longleftrightarrow> j \<noteq> i \<and> siena_used sftp j)"
proof -
  obtain bitmap specs where b: "sft_bitmap sftp = Some bitmap" "2 ^ k \<le> 32 * length bitmap" "sft_spec sftp = Some specs" "length specs = 2 ^ k"
    using wf by (auto simp: siena_tbl_wf_def)
  have l: "j < 2 ^ k \<Longrightarrow> j div 32 < length bitmap" for j
    using b(2) by (simp add: less_mult_imp_div_less mult.commute)
  let ?bm = "bitmap[i div 32 := bitmap ! (i div 32) AND NOT (push_bit (i mod 32) 1)]"
  let ?t = "sftp\<lparr>sft_bitmap := Some ?bm, sft_used := sft_used sftp - 1\<rparr>"
  have t: "siena_filter_clear_used sftp i = Some ?t" using b l [OF i] by (simp add: siena_filter_clear_used_def del: push_bit_of_1)
  have wf': "siena_tbl_wf k ?t" using wf b by (simp add: siena_tbl_wf_def)
  have "siena_used ?t j \<longleftrightarrow> j \<noteq> i \<and> siena_used sftp j" if j: "j < 2 ^ k" for j
    using test_used_bit [OF wf j] test_used_bit [OF wf' j] bit_of_nth_update(2) [OF l [OF i] l [OF j]] b
    by (simp del: push_bit_of_1)
  with t wf' show ?thesis by (intro exI [of _ ?t]) simp
qed

lemma slots_card_insert:
  assumes "slots i = None" "finite {j. slots j \<noteq> None}"
  shows "card {j. (slots(i := Some x)) j \<noteq> None} = Suc (card {j. slots j \<noteq> None})"
proof -
  have "{j. (slots(i := Some x)) j \<noteq> None} = insert i {j. slots j \<noteq> None}" by auto
  with assms show ?thesis by simp
qed

lemma slots_card_remove:
  assumes "slots i \<noteq> None" "finite {j. slots j \<noteq> None}"
  shows "Suc (card {j. (slots(i := None)) j \<noteq> None}) = card {j. slots j \<noteq> None}"
proof -
  have eq: "{j. (slots(i := None)) j \<noteq> None} = {j. slots j \<noteq> None} - {i}" by auto
  show ?thesis unfolding eq by (rule card_Suc_Diff1 [OF assms(2)]) (use assms(1) in simp)
qed

lemma tbl_inv_size: "siena_tbl_inv t sftp rows \<Longrightarrow> sft_size sftp = 2 ^ siena_tbl_bits t"
  by (simp add: siena_tbl_inv_def siena_tbl_wf_def)

text \<open>Storing an entry into an unused slot.\<close>

lemma tbl_inv_store:
  assumes inv: "siena_tbl_inv t sftp rows" and i: "i < sft_size sftp" "siena_slots sftp i = None"
    and x: "siena_filter_tbl_id (sfs_type x) = t"
  shows "\<exists>sftp' specs. siena_filter_set_used sftp i = Some sftp' \<and> sft_spec sftp' = Some specs \<and> i < length specs
    \<and> siena_slots (sftp'\<lparr>sft_spec := Some (specs[i := x])\<rparr>) = (siena_slots sftp)(i := Some x)
    \<and> siena_tbl_inv t (sftp'\<lparr>sft_spec := Some (specs[i := x])\<rparr>) (rows(i := fst (siena_filter_build x)))"
proof -
  have wf: "siena_tbl_wf (siena_tbl_bits t) sftp" and sz: "sft_size sftp = 2 ^ siena_tbl_bits t"
    using inv by (simp_all add: tbl_inv_wf tbl_inv_size)
  obtain sftp' where s: "siena_filter_set_used sftp i = Some sftp'" "siena_tbl_wf (siena_tbl_bits t) sftp'"
      "sft_spec sftp' = sft_spec sftp" "sft_used sftp' = sft_used sftp + 1" "sft_size sftp' = sft_size sftp"
      and u: "\<And>j. j < 2 ^ siena_tbl_bits t \<Longrightarrow> siena_used sftp' j \<longleftrightarrow> j = i \<or> siena_used sftp j"
    using set_used_slots [OF wf] i(1) sz by auto
  obtain specs where sp: "sft_spec sftp = Some specs" "length specs = 2 ^ siena_tbl_bits t"
    using wf by (auto simp: siena_tbl_wf_def)
  let ?t = "sftp'\<lparr>sft_spec := Some (specs[i := x])\<rparr>"
  have used: "siena_used ?t j = siena_used sftp' j" for j
    by (simp add: siena_used_def siena_filter_test_used_def)
  have slots: "siena_slots ?t = (siena_slots sftp)(i := Some x)"
    using i(1) sp s(5) u sz by (auto simp: fun_eq_iff siena_slots_def used)
  have wf': "siena_tbl_wf (siena_tbl_bits t) ?t" using s(2) sp by (auto simp: siena_tbl_wf_def)
  have "siena_tbl_inv t ?t (rows(i := fst (siena_filter_build x)))"
    unfolding siena_tbl_inv_def slots
  proof (intro conjI allI impI)
    show "sft_used ?t = int (card {j. ((siena_slots sftp)(i := Some x)) j \<noteq> None})"
      using inv s(4) slots_card_insert [OF i(2) slots_finite, of x] by (simp add: siena_tbl_inv_def)
    fix j
    assume "j < sft_size ?t"
    then have j: "j < sft_size sftp" using s(5) by simp
    then show "case ((siena_slots sftp)(i := Some x)) j of
          None \<Rightarrow> the (sft_spec ?t) ! j = zero_siena_spec \<and> (rows(i := fst (siena_filter_build x))) j = EFX_ZERO_OWORD
        | Some y \<Rightarrow> siena_filter_tbl_id (sfs_type y) = t \<and> (rows(i := fst (siena_filter_build x))) j = fst (siena_filter_build y)"
      using inv x sp unfolding siena_tbl_inv_def by (cases "j = i") (auto split: option.splits)
  qed (rule wf')
  with s sp slots i sz show ?thesis by (intro exI [of _ sftp'] exI [of _ specs]) auto
qed

lemma push_entry_eq: "siena_filter_push_entry hw type i eop = (RC_OK, siena_hw_write hw (siena_filter_tbl_id type) i eop)"
  by (cases type) simp_all

text \<open>Clearing a used entry.\<close>

lemma clear_entry_used:
  assumes inv: "siena_tbl_inv t sftp (hw_rows hw t)" and i: "siena_slots sftp i = Some x"
  shows "\<exists>sftp'. siena_filter_clear_entry hw sftp i = Some (siena_hw_write hw t i EFX_ZERO_OWORD, sftp')
    \<and> siena_slots sftp' = (siena_slots sftp)(i := None)
    \<and> siena_tbl_inv t sftp' ((hw_rows hw t)(i := EFX_ZERO_OWORD))"
proof -
  have wf: "siena_tbl_wf (siena_tbl_bits t) sftp" and sz: "sft_size sftp = 2 ^ siena_tbl_bits t"
    using inv by (simp_all add: tbl_inv_wf tbl_inv_size)
  have il: "i < sft_size sftp" "siena_used sftp i" and x: "the (sft_spec sftp) ! i = x" using i by (auto simp: siena_slots_def split: if_splits)
  obtain sftp' where s: "siena_filter_clear_used sftp i = Some sftp'" "siena_tbl_wf (siena_tbl_bits t) sftp'"
      "sft_spec sftp' = sft_spec sftp" "sft_used sftp' = sft_used sftp - 1" "sft_size sftp' = sft_size sftp"
      and u: "\<And>j. j < 2 ^ siena_tbl_bits t \<Longrightarrow> siena_used sftp' j \<longleftrightarrow> j \<noteq> i \<and> siena_used sftp j"
    using clear_used_slots [OF wf] il(1) sz by auto
  obtain specs where sp: "sft_spec sftp = Some specs" "length specs = 2 ^ siena_tbl_bits t"
    using wf by (auto simp: siena_tbl_wf_def)
  let ?t = "sftp'\<lparr>sft_spec := Some (specs[i := zero_siena_spec])\<rparr>"
  have used: "siena_used ?t j = siena_used sftp' j" for j
    by (simp add: siena_used_def siena_filter_test_used_def)
  have slots: "siena_slots ?t = (siena_slots sftp)(i := None)"
    using il(1) sp s(5) u sz by (auto simp: fun_eq_iff siena_slots_def used)
  have wf': "siena_tbl_wf (siena_tbl_bits t) ?t" using s(2) sp by (auto simp: siena_tbl_wf_def)
  have t: "siena_filter_tbl_id (sfs_type x) = t"
    using inv il(1) i unfolding siena_tbl_inv_def by (auto split: option.splits)
  have "siena_filter_test_used sftp i = Some True" using il(2) by (simp add: siena_used_def)
  then have call: "siena_filter_clear_entry hw sftp i = Some (siena_hw_write hw t i EFX_ZERO_OWORD, ?t)"
    using s sp x t il sz by (simp add: siena_filter_clear_entry_def push_entry_eq)
  have "siena_tbl_inv t ?t ((hw_rows hw t)(i := EFX_ZERO_OWORD))"
    unfolding siena_tbl_inv_def slots
  proof (intro conjI allI impI)
    have "siena_slots sftp i \<noteq> None" using i by simp
    then show "sft_used ?t = int (card {j. ((siena_slots sftp)(i := None)) j \<noteq> None})"
      using inv s(4) slots_card_remove [of "siena_slots sftp" i] slots_finite [of sftp] by (simp add: siena_tbl_inv_def)
    fix j
    assume "j < sft_size ?t"
    then have j: "j < sft_size sftp" using s(5) by simp
    then show "case ((siena_slots sftp)(i := None)) j of
          None \<Rightarrow> the (sft_spec ?t) ! j = zero_siena_spec \<and> ((hw_rows hw t)(i := EFX_ZERO_OWORD)) j = EFX_ZERO_OWORD
        | Some y \<Rightarrow> siena_filter_tbl_id (sfs_type y) = t \<and> ((hw_rows hw t)(i := EFX_ZERO_OWORD)) j = fst (siena_filter_build y)"
      using inv sp sz unfolding siena_tbl_inv_def by (cases "j = i") (auto split: option.splits)
  qed (rule wf')
  with call slots show ?thesis by blast
qed

section \<open>Search limits\<close>

text \<open>The field of the search limit of a filter type, and by how much it exceeds the depth.\<close>

fun siena_limit_lbn :: "siena_filter_type \<Rightarrow> nat" where
  "siena_limit_lbn EFX_SIENA_FILTER_RX_TCP_FULL = 0" | "siena_limit_lbn EFX_SIENA_FILTER_RX_TCP_WILD = 8"
| "siena_limit_lbn EFX_SIENA_FILTER_RX_UDP_FULL = 32" | "siena_limit_lbn EFX_SIENA_FILTER_RX_UDP_WILD = 16"
| "siena_limit_lbn EFX_SIENA_FILTER_RX_MAC_FULL = 86" | "siena_limit_lbn EFX_SIENA_FILTER_RX_MAC_WILD = 94"
| "siena_limit_lbn EFX_SIENA_FILTER_TX_TCP_FULL = 65" | "siena_limit_lbn EFX_SIENA_FILTER_TX_TCP_WILD = 73"
| "siena_limit_lbn EFX_SIENA_FILTER_TX_UDP_FULL = 81" | "siena_limit_lbn EFX_SIENA_FILTER_TX_UDP_WILD = 89"
| "siena_limit_lbn EFX_SIENA_FILTER_TX_MAC_FULL = 97" | "siena_limit_lbn EFX_SIENA_FILTER_TX_MAC_WILD = 105"

definition siena_is_tx :: "siena_filter_type \<Rightarrow> bool" where
  "siena_is_tx type = (siena_filter_tbl_id type \<in> {EFX_SIENA_FILTER_TBL_TX_IP, EFX_SIENA_FILTER_TBL_TX_MAC})"

definition siena_fudge :: "siena_filter_type \<Rightarrow> nat" where
  "siena_fudge type =
     (if type \<in> {EFX_SIENA_FILTER_RX_TCP_FULL, EFX_SIENA_FILTER_RX_UDP_FULL, EFX_SIENA_FILTER_RX_MAC_FULL,
        EFX_SIENA_FILTER_TX_TCP_FULL, EFX_SIENA_FILTER_TX_UDP_FULL, EFX_SIENA_FILTER_TX_MAC_FULL} then 1 else 3)"

definition siena_hw_limit :: "siena_hw \<Rightarrow> siena_filter_type \<Rightarrow> nat" where
  "siena_hw_limit hw type =
     unat (efx_oword_field (if siena_is_tx type then hw_tx_cfg hw else hw_rx_filter_ctl hw) (siena_limit_lbn type) 8)"

lemma depth_fits: "d \<le> 200 \<Longrightarrow> f \<le> 3 \<Longrightarrow> unat (of_nat (d + f) :: u32) = d + f"
  by (simp add: unat_of_nat flip: of_nat_add)

text \<open>The limits pushed are 8-bit fields that fit the depth with its excess.\<close>

lemma limit_field:
  assumes "unat v < 2 ^ 8"
  shows "lbn + 8 \<le> 128 \<Longrightarrow> efx_oword_field (efx_set_oword_field ow lbn 8 v) lbn 8 = v"
    and "lbn + 8 \<le> 128 \<Longrightarrow> lbn' + 8 \<le> 128 \<Longrightarrow> lbn' + 8 \<le> lbn \<or> lbn + 8 \<le> lbn' \<Longrightarrow>
      efx_oword_field (efx_set_oword_field ow lbn 8 v) lbn' 8 = efx_oword_field ow lbn' 8"
  using assms by (simp_all add: oword_field_set oword_field_set_other del: efx_oword_field.simps)

lemma push_rx_limits:
  assumes "\<And>type. sf_depth sfp type \<le> 200" "sft_size (sf_tbl sfp EFX_SIENA_FILTER_TBL_RX_MAC) \<noteq> 0"
  shows "siena_hw_limit (siena_filter_push_rx_limits sfp hw) type
    = (if siena_is_tx type then siena_hw_limit hw type else sf_depth sfp type + siena_fudge type)"
proof -
  define L :: "siena_filter_type \<Rightarrow> nat \<Rightarrow> u32" where "L ty f = of_nat (sf_depth sfp ty + f)" for ty f
  have v: "f \<le> 3 \<Longrightarrow> unat (L ty f) = sf_depth sfp ty + f" for ty f
    unfolding L_def using depth_fits assms(1) by blast
  have v1: "unat (L ty 1) = sf_depth sfp ty + 1" "unat (L ty 3) = sf_depth sfp ty + 3" for ty by (simp_all add: v)
  have lt: "unat (L ty 1) < 2 ^ 8" "unat (L ty 3) < 2 ^ 8" for ty using assms(1) [of ty] by (simp_all add: v)
  show ?thesis
    using assms(2) unfolding siena_filter_push_rx_limits_def Let_def L_def [symmetric] FILTER_CTL_SRCH_FUDGE_FULL_def FILTER_CTL_SRCH_FUDGE_WILD_def
    by (cases type) (simp_all del: efx_oword_field.simps One_nat_def add: siena_hw_limit_def siena_is_tx_def siena_fudge_def
        limit_field [OF lt(1)] limit_field [OF lt(2)] v1)
qed

lemma push_tx_limits:
  assumes "\<And>type. sf_depth sfp type \<le> 200" "sft_size (sf_tbl sfp EFX_SIENA_FILTER_TBL_TX_MAC) \<noteq> 0"
    "sft_size (sf_tbl sfp EFX_SIENA_FILTER_TBL_TX_IP) \<noteq> 0"
  shows "siena_hw_limit (siena_filter_push_tx_limits sfp hw) type
    = (if siena_is_tx type then sf_depth sfp type + siena_fudge type else siena_hw_limit hw type)"
proof -
  define L :: "siena_filter_type \<Rightarrow> nat \<Rightarrow> u32" where "L ty f = of_nat (sf_depth sfp ty + f)" for ty f
  have v: "f \<le> 3 \<Longrightarrow> unat (L ty f) = sf_depth sfp ty + f" for ty f
    unfolding L_def using depth_fits assms(1) by blast
  have v1: "unat (L ty 1) = sf_depth sfp ty + 1" "unat (L ty 3) = sf_depth sfp ty + 3" for ty by (simp_all add: v)
  have lt: "unat (L ty 1) < 2 ^ 8" "unat (L ty 3) < 2 ^ 8" for ty using assms(1) [of ty] by (simp_all add: v)
  show ?thesis
    using assms(2,3) unfolding siena_filter_push_tx_limits_def Let_def L_def [symmetric] FILTER_CTL_SRCH_FUDGE_FULL_def FILTER_CTL_SRCH_FUDGE_WILD_def
    by (cases type) (simp_all del: efx_oword_field.simps One_nat_def add: siena_hw_limit_def siena_is_tx_def siena_fudge_def
        limit_field [OF lt(1)] limit_field [OF lt(2)] v1)
qed

end
