(* ===== verification/Efx_Siena_State.thy ===== *)
theory Efx_Siena_State
  imports Efx_Siena_Spec "HOL-Library.Multiset"
begin

text \<open>
  What inserting into and removing from the Siena filter tables does to the whole filter state, its invariant, and the life
  cycle of the filter component.
\<close>

section \<open>The invariant of the filter state\<close>

definition siena_inv :: "siena_filter \<Rightarrow> siena_hw \<Rightarrow> bool" where
  "siena_inv sfp hw \<longleftrightarrow> (\<forall>t. siena_tbl_inv t (sf_tbl sfp t) (hw_rows hw t))
     \<and> (\<forall>t. probe_covered siena_probe (siena_slots (sf_tbl sfp t)) (\<lambda>x. sf_depth sfp (sfs_type x)))
     \<and> (\<forall>type. sf_depth sfp type \<le> FILTER_CTL_SRCH_MAX)
     \<and> (\<forall>type. sf_depth sfp type \<noteq> 0 \<longrightarrow> siena_hw_limit hw type = sf_depth sfp type + siena_fudge type)"

lemma siena_invD:
  assumes "siena_inv sfp hw"
  shows "siena_tbl_inv t (sf_tbl sfp t) (hw_rows hw t)"
    "probe_covered siena_probe (siena_slots (sf_tbl sfp t)) (\<lambda>x. sf_depth sfp (sfs_type x))"
    "sf_depth sfp type \<le> FILTER_CTL_SRCH_MAX" "sf_depth sfp type \<le> 200"
    "sf_depth sfp type \<noteq> 0 \<Longrightarrow> siena_hw_limit hw type = sf_depth sfp type + siena_fudge type"
    "sft_size (sf_tbl sfp t) \<noteq> 0"
proof -
  show inv: "siena_tbl_inv t (sf_tbl sfp t) (hw_rows hw t)" using assms by (simp add: siena_inv_def)
  then show "sft_size (sf_tbl sfp t) \<noteq> 0" using tbl_inv_size by fastforce
qed (use assms in \<open>auto simp: siena_inv_def FILTER_CTL_SRCH_MAX_def\<close>)

text \<open>The entries of a table, and all of them, as multisets.\<close>

definition slots_mset :: "'e slots \<Rightarrow> 'e multiset" where
  "slots_mset slots = image_mset (\<lambda>i. the (slots i)) (mset_set {i. slots i \<noteq> None})"

definition siena_installed :: "siena_filter \<Rightarrow> siena_tbl_id \<Rightarrow> siena_filter_spec multiset" where
  "siena_installed sfp t = slots_mset (siena_slots (sf_tbl sfp t))"

lemma slots_mset_insert:
  assumes "slots i = None" "finite {j. slots j \<noteq> None}"
  shows "slots_mset (slots(i := Some x)) = add_mset x (slots_mset slots)"
proof -
  have eq: "{j. (slots(i := Some x)) j \<noteq> None} = insert i {j. slots j \<noteq> None}" by auto
  have "image_mset (\<lambda>j. the ((slots(i := Some x)) j)) (mset_set {j. slots j \<noteq> None}) = slots_mset slots"
    unfolding slots_mset_def by (rule image_mset_cong) (use assms in auto)
  then show ?thesis unfolding slots_mset_def eq using assms by (simp add: slots_mset_def)
qed

lemma slots_mset_remove:
  assumes "slots i = Some x" "finite {j. slots j \<noteq> None}"
  shows "slots_mset slots = add_mset x (slots_mset (slots(i := None)))"
proof -
  have "(slots(i := None))(i := Some x) = slots" using assms(1) by auto
  moreover have "finite {j. (slots(i := None)) j \<noteq> None}" by (rule finite_subset [OF _ assms(2)]) auto
  ultimately show ?thesis using slots_mset_insert [of "slots(i := None)" i x] by simp
qed

lemma slots_mset_mem: "finite {j. slots j \<noteq> None} \<Longrightarrow> x \<in># slots_mset slots \<longleftrightarrow> (\<exists>i. slots i = Some x)"
  by (force simp: slots_mset_def)

section \<open>Inserting\<close>

lemma put_tbl_sel [simp]:
  "sf_tbl (put_tbl sfp t s) = (sf_tbl sfp)(t := s)" "sf_depth (put_tbl sfp t s) = sf_depth sfp"
  by (simp_all add: put_tbl_def)

lemma hw_limit_write [simp]: "siena_hw_limit (siena_hw_write hw t i v) type = siena_hw_limit hw type"
  by (simp add: siena_hw_limit_def siena_hw_write_def)

lemma hw_rows_write [simp]: "hw_rows (siena_hw_write hw t i v) = (hw_rows hw)(t := (hw_rows hw t)(i := v))"
  by (simp add: siena_hw_write_def)

lemma hw_rows_push [simp]:
  "hw_rows (siena_filter_push_rx_limits sfp hw) = hw_rows hw"
  "hw_rows (siena_filter_push_tx_limits sfp hw) = hw_rows hw"
  by (simp_all add: siena_filter_push_rx_limits_def siena_filter_push_tx_limits_def Let_def)

text \<open>The limits after the push that follows a deeper insertion.\<close>

definition push_limits :: "siena_tbl_id \<Rightarrow> siena_filter \<Rightarrow> siena_hw \<Rightarrow> siena_hw" where
  "push_limits t sfp hw = (if t = EFX_SIENA_FILTER_TBL_TX_IP \<or> t = EFX_SIENA_FILTER_TBL_TX_MAC
     then siena_filter_push_tx_limits sfp hw else siena_filter_push_rx_limits sfp hw)"

lemma push_limits_limit:
  assumes "\<And>type. sf_depth sfp type \<le> 200" "\<And>t. sft_size (sf_tbl sfp t) \<noteq> 0"
  shows "siena_hw_limit (push_limits (siena_filter_tbl_id type') sfp hw) type
    = (if siena_is_tx type = siena_is_tx type' then sf_depth sfp type + siena_fudge type else siena_hw_limit hw type)"
  using push_rx_limits [OF assms(1,2), of hw type] push_tx_limits [OF assms(1,2,2), of hw type]
  by (auto simp: push_limits_def siena_is_tx_def)

lemma push_limits_rows [simp]: "hw_rows (push_limits t sfp hw) = hw_rows hw"
  by (simp add: push_limits_def)

text \<open>The search of an operation, in a state that satisfies the invariant.\<close>

lemma op_search:
  assumes inv: "siena_inv sfp hw" and t: "t = siena_filter_tbl_id (sfs_type x)"
    and slots: "slots = siena_slots (sf_tbl sfp t)"
  shows "siena_filter_search (sf_tbl sfp t) x (snd (siena_filter_build x)) ins =
     Some (case probe_find siena_probe siena_filter_equal slots x ins 1 FILTER_CTL_SRCH_MAX of
              None \<Rightarrow> Inl (if ins then EBUSY else ENOENT) | Some d \<Rightarrow> Inr (siena_probe x d, d))"
    and "siena_filter_test_used (sf_tbl sfp t) (siena_probe x d) = Some (slots (siena_probe x d) \<noteq> None)"
    and "siena_probe x d < sft_size (sf_tbl sfp t)"
proof -
  let ?s = "sf_tbl sfp t"
  have wf: "siena_tbl_wf (siena_tbl_bits t) ?s" and sz: "sft_size ?s = 2 ^ siena_tbl_bits t"
    using tbl_inv_wf tbl_inv_size siena_invD(1) [OF inv] by blast+
  show lt: "siena_probe x d < sft_size ?s"
    unfolding siena_probe_def sz siena_tbl_rows_bits by (simp add: t)
  show "siena_filter_search ?s x (snd (siena_filter_build x)) ins =
     Some (case probe_find siena_probe siena_filter_equal slots x ins 1 FILTER_CTL_SRCH_MAX of
              None \<Rightarrow> Inl (if ins then EBUSY else ENOENT) | Some d \<Rightarrow> Inr (siena_probe x d, d))"
    using search_find [of x ?s ins] wf by (simp add: slots t siena_key_def)
  show "siena_filter_test_used ?s (siena_probe x d) = Some (slots (siena_probe x d) \<noteq> None)"
    using test_used_bit [OF wf, of "siena_probe x d"] lt sz slots by (auto simp: siena_slots_def)
qed

lemma add_spec_busy:
  assumes inv: "siena_inv sfp hw" and t: "t = siena_filter_tbl_id (sfs_type x)"
    and slots: "slots = siena_slots (sf_tbl sfp t)"
    and "probe_find siena_probe siena_filter_equal slots x True 1 FILTER_CTL_SRCH_MAX = None"
  shows "siena_filter_add_spec sfp hw x False = Some (EBUSY, sfp, hw)"
  using siena_invD(6) [OF inv, of t] assms(4)
  by (simp add: siena_filter_add_spec_def Let_def t [symmetric] op_search(1) [OF inv t slots] split_beta)

lemma add_spec_exists:
  assumes inv: "siena_inv sfp hw" and t: "t = siena_filter_tbl_id (sfs_type x)"
    and slots: "slots = siena_slots (sf_tbl sfp t)"
    and "probe_find siena_probe siena_filter_equal slots x True 1 FILTER_CTL_SRCH_MAX = Some d"
    and "slots (siena_probe x d) \<noteq> None"
  shows "siena_filter_add_spec sfp hw x False = Some (EEXIST, sfp, hw)"
  using siena_invD(6) [OF inv, of t] assms(4,5)
  by (simp add: siena_filter_add_spec_def Let_def t [symmetric] op_search [OF inv t slots] split_beta)

lemma add_spec_ok:
  assumes inv: "siena_inv sfp hw" and t: "t = siena_filter_tbl_id (sfs_type x)"
    and slots: "slots = siena_slots (sf_tbl sfp t)"
    and d: "probe_find siena_probe siena_filter_equal slots x True 1 FILTER_CTL_SRCH_MAX = Some d"
    and free: "slots (siena_probe x d) = None"
  shows "\<exists>sfp' hw'. siena_filter_add_spec sfp hw x False = Some (RC_OK, sfp', hw') \<and> siena_inv sfp' hw'
        \<and> siena_slots (sf_tbl sfp' t) = slots(siena_probe x d := Some x)
        \<and> (\<forall>t'. t' \<noteq> t \<longrightarrow> sf_tbl sfp' t' = sf_tbl sfp t' \<and> hw_rows hw' t' = hw_rows hw t')
        \<and> hw_rows hw' t = (hw_rows hw t)(siena_probe x d := fst (siena_filter_build x))
        \<and> sf_depth sfp' = (sf_depth sfp)(sfs_type x := max (sf_depth sfp (sfs_type x)) d)"
proof -
  let ?s = "sf_tbl sfp t"
  note I = siena_invD [OF inv]
  note lt = op_search(3) [OF inv t slots]
  note srch = op_search(1) [OF inv t slots] and tu = op_search(2) [OF inv t slots]
  let ?i = "siena_probe x d"
  have db: "1 \<le> d" "d \<le> FILTER_CTL_SRCH_MAX" using d by (simp_all add: probe_find_Some)
  obtain s' specs where st: "siena_filter_set_used ?s ?i = Some s'" "sft_spec s' = Some specs" "?i < length specs"
      "siena_slots (s'\<lparr>sft_spec := Some (specs[?i := x])\<rparr>) = slots(?i := Some x)"
      "siena_tbl_inv t (s'\<lparr>sft_spec := Some (specs[?i := x])\<rparr>) ((hw_rows hw t)(?i := fst (siena_filter_build x)))"
    using tbl_inv_store [OF I(1) lt free [unfolded slots] t [symmetric]] unfolding slots by blast
  define s2 where "s2 = s'\<lparr>sft_spec := Some (specs[?i := x])\<rparr>"
  define deeper where "deeper \<longleftrightarrow> sf_depth sfp (sfs_type x) < d"
  define sfp2 where "sfp2 = (if deeper
      then (put_tbl sfp t s2)\<lparr>sf_depth := (sf_depth sfp)(sfs_type x := d)\<rparr> else put_tbl sfp t s2)"
  define hw2 where "hw2 = siena_hw_write (if deeper then push_limits t sfp2 hw else hw) t ?i (fst (siena_filter_build x))"
  have call: "siena_filter_add_spec sfp hw x False = Some (RC_OK, sfp2, hw2)"
    using I(6) [of t] st(1-3) lt [of d]
    by (simp add: siena_filter_add_spec_def Let_def t [symmetric] srch tu split_beta d [unfolded One_nat_def] free push_entry_eq
      sfp2_def hw2_def deeper_def s2_def put_tbl_def push_limits_def)
  have dep: "sf_depth sfp2 = (sf_depth sfp)(sfs_type x := max (sf_depth sfp (sfs_type x)) d)"
    by (auto simp: sfp2_def deeper_def put_tbl_def max_def)
  have tbl: "sf_tbl sfp2 = (sf_tbl sfp)(t := s2)" by (simp add: sfp2_def put_tbl_def)
  have rows: "hw_rows hw2 = (hw_rows hw)(t := (hw_rows hw t)(?i := fst (siena_filter_build x)))"
    by (simp add: hw2_def)
  have max: "sf_depth sfp2 type \<le> FILTER_CTL_SRCH_MAX" for type
    using I(3) [of type] I(3) [of "sfs_type x"] db(2) by (simp add: dep)
  have inv_t: "siena_tbl_inv t' (sf_tbl sfp2 t') (hw_rows hw2 t')" for t'
    using st(5) I(1) [of t'] by (simp add: tbl rows s2_def)
  have cov: "probe_covered siena_probe (siena_slots (sf_tbl sfp2 t')) (\<lambda>y. sf_depth sfp2 (sfs_type y))" for t'
  proof -
    have grow: "sf_depth sfp (sfs_type y) \<le> sf_depth sfp2 (sfs_type y)" for y by (simp add: dep)
    show ?thesis
    proof (cases "t' = t")
      case True
      have "probe_covered siena_probe (slots(?i := Some x)) (\<lambda>y. sf_depth sfp2 (sfs_type y))"
        by (rule sft.covered_insert [OF I(2) [of t, folded slots] db(1) grow]) (simp add: dep)
      with True st(4) show ?thesis by (simp add: tbl s2_def)
    next
      case False
      then have "sf_tbl sfp2 t' = sf_tbl sfp t'" by (simp add: tbl)
      moreover have "probe_covered siena_probe (siena_slots (sf_tbl sfp t')) (\<lambda>y. sf_depth sfp2 (sfs_type y))"
        unfolding probe_covered_def
      proof (intro allI impI)
        fix i y assume "siena_slots (sf_tbl sfp t') i = Some y"
        then obtain d' where "1 \<le> d'" "d' \<le> sf_depth sfp (sfs_type y)" "siena_probe y d' = i"
          using I(2) [of t'] by (auto simp: probe_covered_def)
        then show "\<exists>d. 1 \<le> d \<and> d \<le> sf_depth sfp2 (sfs_type y) \<and> siena_probe y d = i"
          using grow [of y] by (intro exI [of _ d']) simp
      qed
      ultimately show ?thesis by simp
    qed
  qed
  have lim: "siena_hw_limit hw2 type = sf_depth sfp2 type + siena_fudge type" if nz: "sf_depth sfp2 type \<noteq> 0" for type
  proof (cases deeper)
    case True
    have "siena_hw_limit hw2 type
      = (if siena_is_tx type = siena_is_tx (sfs_type x) then sf_depth sfp2 type + siena_fudge type else siena_hw_limit hw type)"
      unfolding hw2_def hw_limit_write using True max
      by (simp add: t push_limits_limit tbl_inv_size [OF inv_t] FILTER_CTL_SRCH_MAX_def)
    moreover have "sf_depth sfp2 type = sf_depth sfp type" if "siena_is_tx type \<noteq> siena_is_tx (sfs_type x)"
      using that by (auto simp: dep)
    ultimately show ?thesis using I(5) [of type] nz by (cases "siena_is_tx type = siena_is_tx (sfs_type x)") simp_all
  next
    case False
    then have "sf_depth sfp2 = sf_depth sfp" "siena_hw_limit hw2 type = siena_hw_limit hw type"
      by (simp_all add: dep deeper_def max_def hw2_def)
    with I(5) [of type] nz show ?thesis by simp
  qed
  have "siena_inv sfp2 hw2" using inv_t cov max lim by (simp add: siena_inv_def)
  with call st(4) tbl rows dep show ?thesis by (intro exI [of _ sfp2] exI [of _ hw2]) (simp add: s2_def)
qed

section \<open>Removing\<close>

lemma reset_depth [simp]:
  "sf_depth (siena_filter_reset_search_depth sfp t) type = (if siena_filter_tbl_id type = t then 0 else sf_depth sfp type)"
  "sf_tbl (siena_filter_reset_search_depth sfp t) = sf_tbl sfp"
  by (cases t; cases type; simp) (cases t; simp)

text \<open>What a table has lost may only lower its depths, and to zero only when it is empty.\<close>

definition reset_if_empty :: "siena_filter \<Rightarrow> siena_tbl_id \<Rightarrow> siena_filter" where
  "reset_if_empty sfp t = (if sft_used (sf_tbl sfp t) = 0 then siena_filter_reset_search_depth sfp t else sfp)"

lemma reset_if_empty_tbl [simp]: "sf_tbl (reset_if_empty sfp t) = sf_tbl sfp"
  by (simp add: reset_if_empty_def)

lemma tbl_inv_used: "siena_tbl_inv t sftp rows \<Longrightarrow> sft_used sftp = 0 \<longleftrightarrow> (\<forall>i. siena_slots sftp i = None)"
  using slots_finite [of sftp] by (auto simp: siena_tbl_inv_def)

lemma tbl_inv_type: "siena_tbl_inv t sftp rows \<Longrightarrow> siena_slots sftp i = Some x \<Longrightarrow> siena_filter_tbl_id (sfs_type x) = t"
  unfolding siena_tbl_inv_def by (cases "i < sft_size sftp") (auto simp: siena_slots_def)

lemma inv_shrink:
  assumes inv: "siena_inv sfp hw" and tbl: "siena_tbl_inv t sftp (hw_rows hw' t)"
    and slots: "\<And>i x. siena_slots sftp i = Some x \<Longrightarrow> siena_slots (sf_tbl sfp t) i = Some x"
    and rows: "\<And>t'. t' \<noteq> t \<Longrightarrow> hw_rows hw' t' = hw_rows hw t'"
    and lim: "\<And>type. siena_hw_limit hw' type = siena_hw_limit hw type"
  shows "siena_inv (reset_if_empty (put_tbl sfp t sftp) t) hw'"
proof -
  note I = siena_invD [OF inv]
  let ?sfp = "reset_if_empty (put_tbl sfp t sftp) t"
  have t: "sf_tbl ?sfp = (sf_tbl sfp)(t := sftp)" by (simp add: put_tbl_def)
  have dep: "sf_depth ?sfp type = (if sft_used sftp = 0 \<and> siena_filter_tbl_id type = t then 0 else sf_depth sfp type)" for type
    by (simp add: reset_if_empty_def put_tbl_def)
  have inv': "siena_tbl_inv t' (sf_tbl ?sfp t') (hw_rows hw' t')" for t'
    using I(1) [of t'] tbl rows [of t'] by (cases "t' = t") simp_all
  have "probe_covered siena_probe (siena_slots (sf_tbl ?sfp t')) (\<lambda>x. sf_depth ?sfp (sfs_type x))" for t'
    unfolding probe_covered_def
  proof (intro allI impI)
    fix i x
    assume x: "siena_slots (sf_tbl ?sfp t') i = Some x"
    then have "siena_slots (sf_tbl sfp t') i = Some x" using slots [of i x] by (cases "t' = t") (simp_all add: t)
    then obtain d where d: "1 \<le> d" "d \<le> sf_depth sfp (sfs_type x)" "siena_probe x d = i"
      using I(2) [of t'] by (auto simp: probe_covered_def)
    have "\<not> (sft_used sftp = 0 \<and> siena_filter_tbl_id (sfs_type x) = t)"
      using x tbl_inv_type [OF inv' x] tbl_inv_used [OF tbl] by (cases "t' = t") (auto simp: t)
    then show "\<exists>d. 1 \<le> d \<and> d \<le> sf_depth ?sfp (sfs_type x) \<and> siena_probe x d = i"
      using d by (intro exI [of _ d]) (simp add: dep)
  qed
  moreover have "sf_depth ?sfp type \<le> FILTER_CTL_SRCH_MAX" for type using I(3) [of type] by (simp add: dep)
  moreover have "sf_depth ?sfp type \<noteq> 0 \<Longrightarrow> siena_hw_limit hw' type = sf_depth ?sfp type + siena_fudge type" for type
    using I(5) [of type] by (auto simp: dep lim split: if_splits)
  ultimately show ?thesis using inv' by (simp add: siena_inv_def)
qed

lemma delete_spec_none:
  assumes inv: "siena_inv sfp hw" and t: "t = siena_filter_tbl_id (sfs_type x)"
    and slots: "slots = siena_slots (sf_tbl sfp t)"
    and "probe_find siena_probe siena_filter_equal slots x False 1 FILTER_CTL_SRCH_MAX = None"
  shows "siena_filter_delete_spec sfp hw x = Some (ENOENT, sfp, hw)"
  using assms(4) by (simp add: siena_filter_delete_spec_def Let_def t [symmetric] op_search(1) [OF inv t slots] split_beta)

lemma delete_spec_ok:
  assumes inv: "siena_inv sfp hw" and t: "t = siena_filter_tbl_id (sfs_type x)"
    and slots: "slots = siena_slots (sf_tbl sfp t)"
    and d: "probe_find siena_probe siena_filter_equal slots x False 1 FILTER_CTL_SRCH_MAX = Some d"
  shows "\<exists>sfp' hw'. siena_filter_delete_spec sfp hw x = Some (RC_OK, sfp', hw') \<and> siena_inv sfp' hw'
    \<and> siena_slots (sf_tbl sfp' t) = slots(siena_probe x d := None)
    \<and> (\<forall>t'. t' \<noteq> t \<longrightarrow> sf_tbl sfp' t' = sf_tbl sfp t' \<and> hw_rows hw' t' = hw_rows hw t')
    \<and> hw_rows hw' t = (hw_rows hw t)(siena_probe x d := EFX_ZERO_OWORD)"
proof -
  let ?i = "siena_probe x d" and ?s = "sf_tbl sfp t"
  obtain y where y: "siena_slots ?s ?i = Some y"
    using d slots by (auto simp: probe_find_Some probe_hit_def split: option.splits)
  obtain s' where s: "siena_filter_clear_entry hw ?s ?i = Some (siena_hw_write hw t ?i EFX_ZERO_OWORD, s')"
      "siena_slots s' = (siena_slots ?s)(?i := None)" "siena_tbl_inv t s' ((hw_rows hw t)(?i := EFX_ZERO_OWORD))"
    using clear_entry_used [OF siena_invD(1) [OF inv] y] by blast
  let ?hw = "siena_hw_write hw t ?i EFX_ZERO_OWORD" and ?sfp = "reset_if_empty (put_tbl sfp t s') t"
  have "siena_filter_delete_spec sfp hw x = Some (RC_OK, ?sfp, ?hw)"
    using s(1) by (simp add: siena_filter_delete_spec_def Let_def t [symmetric] op_search(1) [OF inv t slots] split_beta
      d [unfolded One_nat_def] reset_if_empty_def put_tbl_def)
  moreover have "siena_inv ?sfp ?hw"
    by (rule inv_shrink [OF inv]) (use s(2,3) in \<open>auto split: if_splits\<close>)
  ultimately show ?thesis using s(2) by (intro exI [of _ ?sfp] exI [of _ ?hw]) (simp add: put_tbl_def slots)
qed

section \<open>The other operations\<close>

lemma clear_entry_unused:
  "siena_tbl_wf k sftp \<Longrightarrow> i < 2 ^ k \<Longrightarrow> siena_slots sftp i = None \<Longrightarrow> siena_filter_clear_entry hw sftp i = Some (hw, sftp)"
  using test_used_bit [of k sftp i] by (auto simp: siena_filter_clear_entry_def siena_slots_def siena_tbl_wf_def split: if_splits)

lemma clear_entries:
  assumes "siena_tbl_inv t sftp (hw_rows hw t)" "\<forall>i \<in> set is. i < sft_size sftp"
  shows "\<exists>hw' sftp'. siena_filter_clear_entries hw sftp is = Some (hw', sftp') \<and> siena_tbl_inv t sftp' (hw_rows hw' t)
    \<and> (\<forall>i. siena_slots sftp' i = (if i \<in> set is then None else siena_slots sftp i))
    \<and> (\<forall>t'. t' \<noteq> t \<longrightarrow> hw_rows hw' t' = hw_rows hw t') \<and> (\<forall>type. siena_hw_limit hw' type = siena_hw_limit hw type)"
  using assms
proof (induction "is" arbitrary: hw sftp)
  case (Cons i "is")
  have sz: "sft_size sftp = 2 ^ siena_tbl_bits t" by (rule tbl_inv_size [OF Cons.prems(1)])
  obtain hw1 s1 where one: "siena_filter_clear_entry hw sftp i = Some (hw1, s1)" "siena_tbl_inv t s1 (hw_rows hw1 t)"
      "siena_slots s1 = (siena_slots sftp)(i := None)" "\<forall>t'. t' \<noteq> t \<longrightarrow> hw_rows hw1 t' = hw_rows hw t'"
      "\<forall>type. siena_hw_limit hw1 type = siena_hw_limit hw type"
  proof (cases "siena_slots sftp i")
    case None
    have "(siena_slots sftp)(i := None) = siena_slots sftp" using None by auto
    with that [of hw sftp] None Cons.prems sz show ?thesis
      using clear_entry_unused [OF tbl_inv_wf [OF Cons.prems(1)], of i hw] by simp
  next
    case (Some y)
    from clear_entry_used [OF Cons.prems(1) Some] that show ?thesis by fastforce
  qed
  have "\<forall>i \<in> set is. i < sft_size s1"
    using Cons.prems(2) tbl_inv_size [OF one(2)] sz by simp
  from Cons.IH [OF one(2) this] one show ?case by fastforce
qed (simp add: siena_filter_clear_entries.simps)

lemma tbl_clear_ok:
  assumes "ef_siena_filter (fd_hw enp) = PPtr sfp" "siena_inv sfp (sf_hw (fd_hw enp))"
  shows "\<exists>sfp' hw'. siena_filter_tbl_clear enp t = Some (siena_put enp sfp' hw') \<and> siena_inv sfp' hw'
    \<and> siena_slots (sf_tbl sfp' t) = (\<lambda>_. None) \<and> (\<forall>t'. t' \<noteq> t \<longrightarrow> sf_tbl sfp' t' = sf_tbl sfp t')"
proof -
  let ?s = "sf_tbl sfp t"
  obtain hw' s' where c: "siena_filter_clear_entries (sf_hw (fd_hw enp)) ?s [0..<sft_size ?s] = Some (hw', s')"
      "siena_tbl_inv t s' (hw_rows hw' t)"
      "\<forall>i. siena_slots s' i = (if i < sft_size ?s then None else siena_slots ?s i)"
      "\<forall>t'. t' \<noteq> t \<longrightarrow> hw_rows hw' t' = hw_rows (sf_hw (fd_hw enp)) t'"
      "\<forall>type. siena_hw_limit hw' type = siena_hw_limit (sf_hw (fd_hw enp)) type"
    using clear_entries [OF siena_invD(1) [OF assms(2)], of "[0..<sft_size ?s]" t] by auto
  have none: "siena_slots s' = (\<lambda>_. None)" using c(3) by (auto simp: siena_slots_def)
  let ?sfp = "reset_if_empty (put_tbl sfp t s') t"
  have "siena_inv ?sfp hw'" by (rule inv_shrink [OF assms(2) c(2)]) (use c none in auto)
  moreover have "siena_filter_tbl_clear enp t = Some (siena_put enp ?sfp hw')"
    using assms(1) c(1) by (simp add: siena_filter_tbl_clear_def Let_def reset_if_empty_def)
  ultimately show ?thesis using none by (intro exI [of _ ?sfp] exI [of _ hw']) simp
qed

text \<open>The tables after a successful initialisation are empty.\<close>

definition fresh_tbl :: "siena_tbl_id \<Rightarrow> siena_filter_tbl" where
  "fresh_tbl t = \<lparr>sft_size = siena_tbl_rows t, sft_used = 0,
     sft_bitmap = Some (replicate (2 ^ siena_tbl_bits t div 32) 0), sft_spec = Some (replicate (siena_tbl_rows t) zero_siena_spec)\<rparr>"

lemma fresh_tbl_inv: "\<forall>i. rows i = EFX_ZERO_OWORD \<Longrightarrow> siena_tbl_inv t (fresh_tbl t) rows"
  and fresh_tbl_slots: "siena_slots (fresh_tbl t) = (\<lambda>_. None)"
proof -
  have p: "32 * (2 ^ siena_tbl_bits t div 32) = (2::nat) ^ siena_tbl_bits t" by (cases t) simp_all
  have wf: "siena_tbl_wf (siena_tbl_bits t) (fresh_tbl t)"
    using siena_tbl_bits_bounds [of t] p by (simp add: siena_tbl_wf_def fresh_tbl_def siena_tbl_rows_bits)
  have "\<not> siena_used (fresh_tbl t) i" if i: "i < 2 ^ siena_tbl_bits t" for i
  proof -
    have "i div 32 < 2 ^ siena_tbl_bits t div 32" using i p by (simp add: less_mult_imp_div_less mult.commute)
    then show ?thesis using test_used_bit [OF wf i] by (simp add: fresh_tbl_def)
  qed
  then show slots: "siena_slots (fresh_tbl t) = (\<lambda>_. None)"
    by (auto simp: siena_slots_def fun_eq_iff fresh_tbl_def siena_tbl_rows_bits)
  show "siena_tbl_inv t (fresh_tbl t) rows" if "\<forall>i. rows i = EFX_ZERO_OWORD"
    unfolding siena_tbl_inv_def slots using wf that by (simp add: fresh_tbl_def)
qed

lemma alloc_tbls_ok:
  assumes "siena_filter_alloc_tbls alloc n ts sfp = (RC_OK, sfp')" "\<forall>t. sft_size (sf_tbl sfp t) = siena_tbl_rows t" "distinct ts"
    "\<forall>t \<in> set ts. sf_tbl sfp t = empty_siena_tbl (siena_tbl_rows t)"
  shows "sf_tbl sfp' = (\<lambda>t. if t \<in> set ts then fresh_tbl t else sf_tbl sfp t) \<and> sf_depth sfp' = sf_depth sfp"
  using assms
proof (induction ts arbitrary: n sfp)
  case (Cons t ts)
  let ?s = "empty_siena_tbl (siena_tbl_rows t)"
  have nz: "siena_tbl_rows t \<noteq> 0" by (simp add: siena_tbl_rows_bits)
  have bm: "siena_bitmap_size ?s div 4 = 2 ^ siena_tbl_bits t div 32"
    by (cases t) (simp_all add: siena_bitmap_size_def empty_siena_tbl_def)
  let ?sfp = "put_tbl sfp t (fresh_tbl t)"
  have fresh: "?s\<lparr>sft_bitmap := Some (replicate (siena_bitmap_size ?s div 4) 0),
        sft_spec := Some (replicate (siena_tbl_rows t) zero_siena_spec)\<rparr> = fresh_tbl t"
    unfolding bm by (simp add: fresh_tbl_def empty_siena_tbl_def)
  have s: "sf_tbl sfp t = ?s" using Cons.prems(4) by simp
  have "siena_filter_alloc_tbls alloc (n + 2) ts ?sfp = (RC_OK, sfp')"
    using Cons.prems(1) nz fresh
    by (auto simp: s Let_def empty_siena_tbl_def [of "siena_tbl_rows t"] split: if_splits)
  from Cons.IH [OF this] Cons.prems(2-4) have
    "sf_tbl sfp' = (\<lambda>t'. if t' \<in> set ts then fresh_tbl t' else sf_tbl ?sfp t') \<and> sf_depth sfp' = sf_depth ?sfp"
    by (auto simp: fresh_tbl_def)
  then show ?case using Cons.prems(3) by (auto simp: fun_eq_iff)
qed simp

lemma siena_init_ok:
  assumes "siena_filter_init alloc enp = Some (RC_OK, enp')" "\<forall>t i. hw_rows (sf_hw (fd_hw enp)) t i = EFX_ZERO_OWORD"
  shows "\<exists>sfp. enp' = siena_put enp sfp (sf_hw (fd_hw enp)) \<and> siena_inv sfp (sf_hw (fd_hw enp))
    \<and> sf_tbl sfp = fresh_tbl"
proof -
  let ?sfp0 = "\<lparr>sf_tbl = (\<lambda>tbl_id. empty_siena_tbl (siena_tbl_rows tbl_id)), sf_depth = (\<lambda>_. 0)\<rparr>"
  have a: "alloc 0" using assms(1) by (auto simp: siena_filter_init_def split: if_splits)
  obtain rc sfp where r: "siena_filter_alloc_tbls alloc 1 siena_tbls ?sfp0 = (rc, sfp)" by fastforce
  have ok: "rc = RC_OK \<and> enp' = siena_put enp sfp (sf_hw (fd_hw enp))"
    using assms(1) a r by (auto simp: siena_filter_init_def Let_def split: if_splits Option.bind_splits)
  have "sf_tbl sfp = (\<lambda>t. if t \<in> set siena_tbls then fresh_tbl t else sf_tbl ?sfp0 t) \<and> sf_depth sfp = sf_depth ?sfp0"
    by (rule alloc_tbls_ok [of alloc 1]) (use r ok in \<open>simp_all add: empty_siena_tbl_def siena_tbls_def\<close>)
  moreover have "t \<in> set siena_tbls" for t by (cases t) (simp_all add: siena_tbls_def)
  ultimately have tbl: "sf_tbl sfp = fresh_tbl" and dep: "sf_depth sfp = (\<lambda>_. 0)" by auto
  have "siena_inv sfp (sf_hw (fd_hw enp))"
    unfolding siena_inv_def by (auto simp: tbl dep fresh_tbl_slots probe_covered_def intro!: fresh_tbl_inv simp: assms(2))
  with ok tbl show ?thesis by blast
qed

text \<open>Restoring writes what the rows hold already, and the limits.\<close>

lemma restore_tbl_rows:
  assumes "siena_tbl_inv t sftp (hw_rows hw t)" "\<forall>i \<in> set is. i < sft_size sftp"
    "siena_filter_restore_tbl hw sftp is = Some (rc, hw')"
  shows "hw_rows hw' = hw_rows hw \<and> (\<forall>type. siena_hw_limit hw' type = siena_hw_limit hw type)"
  using assms
proof (induction "is" arbitrary: hw)
  case (Cons i "is")
  have wf: "siena_tbl_wf (siena_tbl_bits t) sftp" and sz: "sft_size sftp = 2 ^ siena_tbl_bits t" and i: "i < sft_size sftp"
    using Cons.prems(1,2) by (auto intro: tbl_inv_wf tbl_inv_size)
  obtain specs where sp: "sft_spec sftp = Some specs" "length specs = sft_size sftp"
    using wf sz by (auto simp: siena_tbl_wf_def)
  have tu: "siena_filter_test_used sftp i = Some (siena_used sftp i)"
    using test_used_bit [OF wf] i sz by simp
  show ?case
  proof (cases "siena_used sftp i \<and> snd (siena_filter_build (specs ! i)) = 0")
    case True
    then have x: "siena_slots sftp i = Some (specs ! i)" using i sp by (simp add: siena_slots_def)
    have row: "siena_filter_tbl_id (sfs_type (specs ! i)) = t" "hw_rows hw t i = fst (siena_filter_build (specs ! i))"
      using Cons.prems(1) i x unfolding siena_tbl_inv_def by (auto split: option.splits)
    let ?hw = "siena_hw_write hw t i (fst (siena_filter_build (specs ! i)))"
    have same: "hw_rows ?hw = hw_rows hw" using row(2) by (auto simp: fun_eq_iff)
    have inv': "siena_tbl_inv t sftp (hw_rows ?hw t)" unfolding same by (rule Cons.prems(1))
    have "siena_filter_restore_tbl ?hw sftp is = Some (rc, hw')"
      using Cons.prems(3) True tu sp i row(1) by (simp add: split_beta push_entry_eq)
    from Cons.IH [OF inv' _ this] Cons.prems(2) show ?thesis unfolding same by simp
  next
    case False
    with Cons.prems(3) tu sp i Cons.IH [OF Cons.prems(1)] Cons.prems(2) show ?thesis
      by (auto simp: split_beta split: if_splits)
  qed
qed simp

lemma restore_tbls_rows:
  assumes "\<And>t. siena_tbl_inv t (sf_tbl sfp t) (hw_rows hw t)" "siena_filter_restore_tbls hw sfp ts = Some (rc, hw')"
  shows "hw_rows hw' = hw_rows hw \<and> (\<forall>type. siena_hw_limit hw' type = siena_hw_limit hw type)"
  using assms
proof (induction ts arbitrary: hw)
  case (Cons t ts)
  obtain rc1 hw1 where one: "siena_filter_restore_tbl hw (sf_tbl sfp t) [0..<sft_size (sf_tbl sfp t)] = Some (rc1, hw1)"
    using Cons.prems(2) by (auto simp: Let_def split: Option.bind_splits)
  have rows: "hw_rows hw1 = hw_rows hw" "\<forall>type. siena_hw_limit hw1 type = siena_hw_limit hw type"
    using restore_tbl_rows [OF Cons.prems(1) _ one] by auto
  show ?case
  proof (cases "rc1 = RC_OK")
    case True
    then have "siena_filter_restore_tbls hw1 sfp ts = Some (rc, hw')" using Cons.prems(2) one by simp
    with Cons.IH [of hw1] Cons.prems(1) rows show ?thesis by simp
  next
    case False
    with Cons.prems(2) one rows show ?thesis by simp
  qed
qed simp

lemma siena_restore_inv:
  assumes "ef_siena_filter (fd_hw enp) = PPtr sfp" "siena_inv sfp (sf_hw (fd_hw enp))"
    "siena_filter_restore enp = Some (rc, enp')"
  shows "\<exists>hw'. enp' = siena_put enp sfp hw' \<and> siena_inv sfp hw'"
proof -
  note I = siena_invD [OF assms(2)]
  obtain rc1 hw1 where r: "siena_filter_restore_tbls (sf_hw (fd_hw enp)) sfp siena_tbls = Some (rc1, hw1)"
    using assms(1,3) by (auto simp: siena_filter_restore_def split: Option.bind_splits)
  have rows: "hw_rows hw1 = hw_rows (sf_hw (fd_hw enp))"
      "siena_hw_limit hw1 type = siena_hw_limit (sf_hw (fd_hw enp)) type" for type
    using restore_tbls_rows [OF I(1) r] by auto
  let ?hw2 = "siena_filter_push_tx_limits sfp (siena_filter_push_rx_limits sfp hw1)"
  have lim: "siena_hw_limit ?hw2 type = sf_depth sfp type + siena_fudge type" for type
    using push_tx_limits [OF I(4) I(6) I(6), of "siena_filter_push_rx_limits sfp hw1" type]
      push_rx_limits [OF I(4) I(6), of hw1 type] by simp
  have "siena_inv sfp hw1" using assms(2) rows by (simp add: siena_inv_def)
  moreover have "siena_inv sfp ?hw2" using assms(2) rows lim by (simp add: siena_inv_def)
  ultimately show ?thesis using assms(1,3) r by (auto simp: siena_filter_restore_def Let_def split: if_splits)
qed

section \<open>Life cycle\<close>

text \<open>
  The states that the filter interface reaches on a Siena controller: after an initialisation that found the hardware
  tables clear, by any sequence of insertions, removals, restorations and clearings. The receive scaling context may
  change in between.
\<close>

inductive siena_filter_reach :: "siena_filter_state filter_nic \<Rightarrow> bool" where
  init: "fd_family (fn_dev enp) = EFX_FAMILY_SIENA \<Longrightarrow> \<forall>t i. hw_rows (sf_hw (fd_hw (fn_dev enp))) t i = EFX_ZERO_OWORD
    \<Longrightarrow> efx_filter_init (siena_filter_ops alloc) ef10_ops enp = Some (RC_OK, enp') \<Longrightarrow> siena_filter_reach enp'"
| insert: "siena_filter_reach enp \<Longrightarrow> efx_filter_insert enp spec = Some (rc, enp') \<Longrightarrow> siena_filter_reach enp'"
| remove: "siena_filter_reach enp \<Longrightarrow> efx_filter_remove enp spec = Some (rc, enp') \<Longrightarrow> siena_filter_reach enp'"
| restore: "siena_filter_reach enp \<Longrightarrow> efx_filter_restore enp = Some (rc, enp') \<Longrightarrow> siena_filter_reach enp'"
| clear: "siena_filter_reach enp \<Longrightarrow> siena_filter_tbl_clear (fn_dev enp) t = Some dev \<Longrightarrow> siena_filter_reach (enp\<lparr>fn_dev := dev\<rparr>)"
| rss: "siena_filter_reach enp \<Longrightarrow> siena_filter_reach (enp\<lparr>fn_dev := (fn_dev enp)\<lparr>fd_rss_context := c\<rparr>\<rparr>)"

definition filter_inv :: "siena_filter_state filter_nic \<Rightarrow> bool" where
  "filter_inv enp \<longleftrightarrow> filter_up enp \<and> (\<exists>alloc. en_efop enp = Some (siena_filter_ops alloc))
     \<and> (\<exists>sfp. ef_siena_filter (fd_hw (fn_dev enp)) = PPtr sfp \<and> siena_inv sfp (sf_hw (fd_hw (fn_dev enp))))"

definition nic_put :: "siena_filter_state filter_nic \<Rightarrow> siena_filter \<Rightarrow> siena_hw \<Rightarrow> siena_filter_state filter_nic" where
  "nic_put enp sfp hw = enp\<lparr>fn_dev := siena_put (fn_dev enp) sfp hw\<rparr>"

lemma nic_put_sel [simp]:
  "ef_siena_filter (fd_hw (fn_dev (nic_put enp sfp hw))) = PPtr sfp"
  "sf_hw (fd_hw (fn_dev (nic_put enp sfp hw))) = hw"
  "filter_up (nic_put enp sfp hw) = filter_up enp" "en_efop (nic_put enp sfp hw) = en_efop enp"
  "fd_rss_context (fn_dev (nic_put enp sfp hw)) = fd_rss_context (fn_dev enp)"
  by (simp_all add: nic_put_def siena_put_def filter_up_def)

lemma nic_put_same: "ef_siena_filter (fd_hw (fn_dev enp)) = PPtr sfp \<Longrightarrow> nic_put enp sfp (sf_hw (fd_hw (fn_dev enp))) = enp"
  by (simp add: nic_put_def siena_put_def)

lemma filter_inv_put: "filter_inv enp \<Longrightarrow> siena_inv sfp hw \<Longrightarrow> filter_inv (nic_put enp sfp hw)"
  by (simp add: filter_inv_def)

lemma insert_api:
  assumes "filter_up enp" "en_efop enp = Some (siena_filter_ops alloc)" "ef_siena_filter (fd_hw (fn_dev enp)) = PPtr sfp"
    "efs_flags spec AND EFX_FILTER_FLAG_RX \<noteq> 0" "siena_filter_spec_from_gen_spec spec = Some r"
  shows "efx_filter_insert enp spec = (case r of Inl rc \<Rightarrow> Some (rc, enp)
    | Inr x \<Rightarrow> map_option (\<lambda>(rc, sfp, hw). (rc, nic_put enp sfp hw)) (siena_filter_add_spec sfp (sf_hw (fd_hw (fn_dev enp))) x False))"
  using assms by (auto simp: efx_filter_insert_def siena_filter_ops_def siena_filter_add_def nic_put_def
    split: sum.splits Option.bind_splits)

lemma remove_api:
  assumes "filter_up enp" "en_efop enp = Some (siena_filter_ops alloc)" "ef_siena_filter (fd_hw (fn_dev enp)) = PPtr sfp"
    "efs_flags spec AND EFX_FILTER_FLAG_RX \<noteq> 0"
    "siena_filter_spec_from_gen_spec (spec\<lparr>efs_rss_context := fd_rss_context (fn_dev enp)\<rparr>) = Some r"
  shows "efx_filter_remove enp spec = (case r of Inl rc \<Rightarrow> Some (rc, enp)
    | Inr x \<Rightarrow> map_option (\<lambda>(rc, sfp, hw). (rc, nic_put enp sfp hw)) (siena_filter_delete_spec sfp (sf_hw (fd_hw (fn_dev enp))) x))"
  using assms by (auto simp: efx_filter_remove_def siena_filter_ops_def siena_filter_delete_def nic_put_def
    split: sum.splits Option.bind_splits)

lemma add_spec_inv:
  assumes "siena_inv sfp hw"
  shows "\<exists>rc sfp' hw'. siena_filter_add_spec sfp hw x False = Some (rc, sfp', hw') \<and> siena_inv sfp' hw'"
proof -
  let ?t = "siena_filter_tbl_id (sfs_type x)"
  let ?slots = "siena_slots (sf_tbl sfp ?t)"
  show ?thesis
  proof (cases "probe_find siena_probe siena_filter_equal ?slots x True 1 FILTER_CTL_SRCH_MAX")
    case None
    with add_spec_busy [OF assms refl refl] assms show ?thesis by blast
  next
    case (Some d)
    with add_spec_exists [OF assms refl refl Some] add_spec_ok [OF assms refl refl Some] assms show ?thesis
      by (cases "?slots (siena_probe x d) = None") blast+
  qed
qed

lemma delete_spec_inv:
  assumes "siena_inv sfp hw"
  shows "\<exists>rc sfp' hw'. siena_filter_delete_spec sfp hw x = Some (rc, sfp', hw') \<and> siena_inv sfp' hw'"
proof (cases "probe_find siena_probe siena_filter_equal (siena_slots (sf_tbl sfp (siena_filter_tbl_id (sfs_type x)))) x False 1 FILTER_CTL_SRCH_MAX")
  case None
  with delete_spec_none [OF assms refl refl] assms show ?thesis by blast
next
  case (Some d)
  with delete_spec_ok [OF assms refl refl Some] show ?thesis by blast
qed

lemma insert_Some_translates:
  "filter_inv enp \<Longrightarrow> efx_filter_insert enp spec = Some r \<Longrightarrow>
     efs_flags spec AND EFX_FILTER_FLAG_RX \<noteq> 0 \<and> siena_filter_spec_from_gen_spec spec \<noteq> None"
  by (auto simp: filter_inv_def efx_filter_insert_def siena_filter_ops_def siena_filter_add_def split: if_splits Option.bind_splits)

lemma remove_Some_translates:
  "filter_inv enp \<Longrightarrow> efx_filter_remove enp spec = Some r \<Longrightarrow> efs_flags spec AND EFX_FILTER_FLAG_RX \<noteq> 0
     \<and> siena_filter_spec_from_gen_spec (spec\<lparr>efs_rss_context := fd_rss_context (fn_dev enp)\<rparr>) \<noteq> None"
  by (auto simp: filter_inv_def efx_filter_remove_def siena_filter_ops_def siena_filter_delete_def split: if_splits Option.bind_splits)

lemma insert_inv: "filter_inv enp \<Longrightarrow> efx_filter_insert enp spec = Some (rc, enp') \<Longrightarrow> filter_inv enp'"
proof -
  assume inv: "filter_inv enp" and call: "efx_filter_insert enp spec = Some (rc, enp')"
  obtain alloc sfp where st: "filter_up enp" "en_efop enp = Some (siena_filter_ops alloc)"
      "ef_siena_filter (fd_hw (fn_dev enp)) = PPtr sfp" "siena_inv sfp (sf_hw (fd_hw (fn_dev enp)))"
    using inv by (auto simp: filter_inv_def)
  obtain r where r: "efs_flags spec AND EFX_FILTER_FLAG_RX \<noteq> 0" "siena_filter_spec_from_gen_spec spec = Some r"
    using insert_Some_translates [OF inv call] by auto
  show ?thesis
  proof (cases r)
    case (Inl rc')
    with call insert_api [OF st(1-3) r] inv show ?thesis by simp
  next
    case (Inr x)
    from add_spec_inv [OF st(4), of x] obtain rc' sfp' hw' where
      "siena_filter_add_spec sfp (sf_hw (fd_hw (fn_dev enp))) x False = Some (rc', sfp', hw')" "siena_inv sfp' hw'" by blast
    with call insert_api [OF st(1-3) r] filter_inv_put [OF inv] Inr show ?thesis by auto
  qed
qed

lemma remove_inv: "filter_inv enp \<Longrightarrow> efx_filter_remove enp spec = Some (rc, enp') \<Longrightarrow> filter_inv enp'"
proof -
  assume inv: "filter_inv enp" and call: "efx_filter_remove enp spec = Some (rc, enp')"
  obtain alloc sfp where st: "filter_up enp" "en_efop enp = Some (siena_filter_ops alloc)"
      "ef_siena_filter (fd_hw (fn_dev enp)) = PPtr sfp" "siena_inv sfp (sf_hw (fd_hw (fn_dev enp)))"
    using inv by (auto simp: filter_inv_def)
  obtain r where r: "efs_flags spec AND EFX_FILTER_FLAG_RX \<noteq> 0"
      "siena_filter_spec_from_gen_spec (spec\<lparr>efs_rss_context := fd_rss_context (fn_dev enp)\<rparr>) = Some r"
    using remove_Some_translates [OF inv call] by auto
  show ?thesis
  proof (cases r)
    case (Inl rc')
    with call remove_api [OF st(1-3) r] inv show ?thesis by simp
  next
    case (Inr x)
    from delete_spec_inv [OF st(4), of x] obtain rc' sfp' hw' where
      "siena_filter_delete_spec sfp (sf_hw (fd_hw (fn_dev enp))) x = Some (rc', sfp', hw')" "siena_inv sfp' hw'" by blast
    with call remove_api [OF st(1-3) r] filter_inv_put [OF inv] Inr show ?thesis by auto
  qed
qed

end
