(* ===== verification/Efx_Filter_Props.thy ===== *)
theory Efx_Filter_Props
  imports Efx_Siena_State
begin

text \<open>The properties of the filter component, over the states that the filter interface reaches on a Siena controller.\<close>

section \<open>The invariant\<close>

lemma init_inv:
  assumes "fd_family (fn_dev enp) = EFX_FAMILY_SIENA" "\<forall>t i. hw_rows (sf_hw (fd_hw (fn_dev enp))) t i = EFX_ZERO_OWORD"
    "efx_filter_init (siena_filter_ops alloc) ef10_ops enp = Some (RC_OK, enp')"
  shows "filter_inv enp' \<and> (\<exists>sfp. ef_siena_filter (fd_hw (fn_dev enp')) = PPtr sfp \<and> sf_tbl sfp = fresh_tbl)"
proof -
  obtain dev where dev: "siena_filter_init alloc (fn_dev enp) = Some (RC_OK, dev)"
      "enp' = enp\<lparr>fn_dev := dev\<lparr>fd_mod_flags := fd_mod_flags dev OR EFX_MOD_FILTER\<rparr>, en_efop := Some (siena_filter_ops alloc)\<rparr>"
    using assms(1,3) by (auto simp: efx_filter_init_def siena_filter_ops_def split: if_splits Option.bind_splits)
  obtain sfp where "dev = siena_put (fn_dev enp) sfp (sf_hw (fd_hw (fn_dev enp)))"
      "siena_inv sfp (sf_hw (fd_hw (fn_dev enp)))" "sf_tbl sfp = fresh_tbl"
    using siena_init_ok [OF dev(1) assms(2)] by blast
  moreover have "(x OR EFX_MOD_FILTER) AND EFX_MOD_FILTER \<noteq> 0" for x
  proof -
    have "bit ((x OR EFX_MOD_FILTER) AND EFX_MOD_FILTER) 12" by (simp add: EFX_MOD_FILTER_def bit_simps)
    then show ?thesis by auto
  qed
  ultimately show ?thesis using dev(2) by (auto simp: filter_inv_def filter_up_def siena_put_def)
qed

lemma reach_filter_inv: "siena_filter_reach enp \<Longrightarrow> filter_inv enp"
proof (induction rule: siena_filter_reach.induct)
  case (init enp alloc ef10_ops enp')
  then show ?case using init_inv by blast
next
  case (restore enp rc enp')
  then obtain alloc sfp where st: "filter_up enp" "en_efop enp = Some (siena_filter_ops alloc)"
      "ef_siena_filter (fd_hw (fn_dev enp)) = PPtr sfp" "siena_inv sfp (sf_hw (fd_hw (fn_dev enp)))"
    by (auto simp: filter_inv_def)
  obtain dev where dev: "siena_filter_restore (fn_dev enp) = Some (rc, dev)" "enp' = enp\<lparr>fn_dev := dev\<rparr>"
    using restore(2) st(1,2) by (auto simp: efx_filter_restore_def siena_filter_ops_def split: Option.bind_splits)
  from siena_restore_inv [OF st(3,4) dev(1)] dev(2) filter_inv_put [OF restore(3)] show ?case
    by (auto simp: nic_put_def)
next
  case (clear enp t dev)
  then obtain sfp where st: "ef_siena_filter (fd_hw (fn_dev enp)) = PPtr sfp" "siena_inv sfp (sf_hw (fd_hw (fn_dev enp)))"
    by (auto simp: filter_inv_def)
  from tbl_clear_ok [OF st, of t] clear filter_inv_put [OF clear(3)] show ?case by (auto simp: nic_put_def)
next
  case (rss enp c)
  then show ?case by (auto simp: filter_inv_def filter_up_def)
qed (blast intro: insert_inv remove_inv)+

text \<open>The filters installed in a table, with their multiplicity.\<close>

definition filters_installed :: "siena_filter_state filter_nic \<Rightarrow> siena_tbl_id \<Rightarrow> siena_filter_spec multiset" where
  "filters_installed enp t = (case ef_siena_filter (fd_hw (fn_dev enp)) of PPtr sfp \<Rightarrow> siena_installed sfp t | _ \<Rightarrow> {#})"

abbreviation filter_hw :: "siena_filter_state filter_nic \<Rightarrow> siena_hw" where
  "filter_hw enp \<equiv> sf_hw (fd_hw (fn_dev enp))"

lemma reach_obtain:
  assumes "siena_filter_reach enp"
  obtains alloc sfp where "filter_up enp" "en_efop enp = Some (siena_filter_ops alloc)"
    "ef_siena_filter (fd_hw (fn_dev enp)) = PPtr sfp" "siena_inv sfp (filter_hw enp)"
    "filters_installed enp = siena_installed sfp"
  using reach_filter_inv [OF assms] by (auto simp: filter_inv_def filters_installed_def fun_eq_iff)

lemma installed_iff: "x \<in># siena_installed sfp t \<longleftrightarrow> (\<exists>i. siena_slots (sf_tbl sfp t) i = Some x)"
  unfolding siena_installed_def by (rule slots_mset_mem [OF slots_finite])

text \<open>A controller before the filters are initialised.\<close>

definition sample_filter_nic :: "siena_filter_state filter_nic" where
  "sample_filter_nic = \<lparr>fn_dev = \<lparr>fd_magic = EFX_NIC_MAGIC, fd_family = EFX_FAMILY_SIENA, fd_mod_flags = EFX_MOD_PROBE,
     fd_features = 0, fd_rss_context = 0,
     fd_hw = \<lparr>ef_siena_filter = PNull, sf_hw = \<lparr>hw_rx_filter_ctl = EFX_ZERO_OWORD, hw_tx_cfg = EFX_ZERO_OWORD,
       hw_rows = (\<lambda>_ _. EFX_ZERO_OWORD)\<rparr>\<rparr>\<rparr>, en_efop = None\<rparr>"

definition sample_filter_up :: "siena_filter_state filter_nic" where
  "sample_filter_up = snd (the (efx_filter_init (siena_filter_ops (\<lambda>_. True)) (siena_filter_ops (\<lambda>_. True)) sample_filter_nic))"

lemma sample_filter_init:
  "efx_filter_init (siena_filter_ops (\<lambda>_. True)) (siena_filter_ops (\<lambda>_. True)) sample_filter_nic = Some (RC_OK, sample_filter_up)"
proof -
  have "\<exists>e. efx_filter_init (siena_filter_ops (\<lambda>_. True)) (siena_filter_ops (\<lambda>_. True)) sample_filter_nic = Some (RC_OK, e)"
    by (simp add: efx_filter_init_def siena_filter_ops_def sample_filter_nic_def filter_probed_def filter_up_def
      EFX_MOD_PROBE_def EFX_MOD_FILTER_def siena_filter_init_def siena_tbls_def empty_siena_tbl_def Let_def)
  then show ?thesis by (auto simp: sample_filter_up_def)
qed

lemma sample_reach: "siena_filter_reach sample_filter_up"
  by (rule siena_filter_reach.init [OF _ _ sample_filter_init]) (simp_all add: sample_filter_nic_def)

lemma sample_tbl: "\<exists>sfp. ef_siena_filter (fd_hw (fn_dev sample_filter_up)) = PPtr sfp \<and> sf_tbl sfp = fresh_tbl"
  using init_inv [OF _ _ sample_filter_init] by (simp add: sample_filter_nic_def)

text \<open>The specification of a TCP listener: default queue, any remote end.\<close>

definition tcp_listener :: "u32 \<Rightarrow> u16 \<Rightarrow> efx_filter_spec" where
  "tcp_listener host port =
     snd (efx_filter_spec_set_ipv4_local (the (efx_filter_spec_init_rx 0 0 0)) EFX_IPPROTO_TCP host port)"

definition tcp_listener_entry :: "u32 \<Rightarrow> u16 \<Rightarrow> siena_filter_spec" where
  "tcp_listener_entry host port = \<lparr>sfs_type = EFX_SIENA_FILTER_RX_TCP_WILD, sfs_flags = 8, sfs_dmaq_id = 0,
     sfs_dword0 = 0, sfs_dword1 = push_bit 16 (ucast port), sfs_dword2 = host\<rparr>"

lemmas filter_const_defs = EFX_FILTER_FLAG_RX_RSS_def EFX_FILTER_FLAG_RX_SCATTER_def EFX_FILTER_FLAG_RX_def EFX_FILTER_FLAG_TX_def
  EFX_FILTER_MATCH_REM_HOST_def EFX_FILTER_MATCH_LOC_HOST_def EFX_FILTER_MATCH_REM_PORT_def EFX_FILTER_MATCH_LOC_MAC_def
  EFX_FILTER_MATCH_LOC_PORT_def EFX_FILTER_MATCH_ETHER_TYPE_def EFX_FILTER_MATCH_OUTER_VID_def EFX_FILTER_MATCH_IP_PROTO_def
  EFX_FILTER_MATCH_LOC_MAC_IG_def EFX_ETHER_TYPE_IPV4_def EFX_IPPROTO_TCP_def EFX_IPPROTO_UDP_def ipv4_local_flags_def ipv4_full_flags_def

lemma replicate4: "replicate 4 v = [v, v, v, v]"
  by (simp add: numeral_eq_Suc)

lemma tcp_listener_flags:
  "efs_flags (tcp_listener host port) = 8" "efs_flags (tcp_listener host port) AND EFX_FILTER_FLAG_RX \<noteq> 0"
  by (simp_all add: tcp_listener_def efx_filter_spec_set_ipv4_local_def efx_filter_spec_init_rx_def filter_const_defs zero_filter_spec_def)

lemma tcp_listener_translates:
  "port \<noteq> 0 \<Longrightarrow> siena_filter_spec_from_gen_spec ((tcp_listener host port)\<lparr>efs_rss_context := c\<rparr>) = Some (Inr (tcp_listener_entry host port))"
  "port \<noteq> 0 \<Longrightarrow> siena_filter_spec_from_gen_spec (tcp_listener host port) = Some (Inr (tcp_listener_entry host port))"
  by (simp_all add: siena_filter_spec_from_gen_spec_def tcp_listener_def efx_filter_spec_set_ipv4_local_def efx_filter_spec_init_rx_def
    filter_const_defs zero_filter_spec_def siena_ip_spec_def tcp_listener_entry_def replicate4)

lemma tcp_listener_tbl: "siena_filter_tbl_id (sfs_type (tcp_listener_entry host port)) = EFX_SIENA_FILTER_TBL_RX_IP"
  by (simp add: tcp_listener_entry_def)

lemma sample_empty: "filters_installed sample_filter_up t = {#}"
  using sample_tbl by (auto simp: filters_installed_def siena_installed_def fresh_tbl_slots slots_mset_def)

text \<open>
  C4. In every reachable state each table's used count is the number of its installed filters, the hardware finds every
  installed filter within the search limit that the driver has programmed (the limit less the excess that the pipeline
  needs), at a row that holds what \<open>siena_filter_build\<close> makes of it, and every row without a filter is zero.
\<close>

theorem siena_filter_reach_inv:
  assumes "siena_filter_reach enp"
  shows "\<exists>sfp. ef_siena_filter (fd_hw (fn_dev enp)) = PPtr sfp
    \<and> (\<forall>t. sft_used (sf_tbl sfp t) = int (size (filters_installed enp t))
       \<and> (\<forall>x \<in># filters_installed enp t. siena_filter_tbl_id (sfs_type x) = t
            \<and> (\<exists>d. 1 \<le> d \<and> d + siena_fudge (sfs_type x) \<le> siena_hw_limit (filter_hw enp) (sfs_type x)
                 \<and> hw_rows (filter_hw enp) t (siena_probe x d) = fst (siena_filter_build x)))
       \<and> (\<forall>i < siena_tbl_rows t. siena_slots (sf_tbl sfp t) i = None \<longrightarrow> hw_rows (filter_hw enp) t i = EFX_ZERO_OWORD))"
proof -
  obtain alloc sfp where st: "ef_siena_filter (fd_hw (fn_dev enp)) = PPtr sfp" "siena_inv sfp (filter_hw enp)"
      "filters_installed enp = siena_installed sfp"
    by (rule reach_obtain [OF assms])
  note I = siena_invD [OF st(2)]
  have "siena_filter_tbl_id (sfs_type x) = t
      \<and> (\<exists>d. 1 \<le> d \<and> d + siena_fudge (sfs_type x) \<le> siena_hw_limit (filter_hw enp) (sfs_type x)
             \<and> hw_rows (filter_hw enp) t (siena_probe x d) = fst (siena_filter_build x))"
    if x: "x \<in># siena_installed sfp t" for x t
  proof -
    obtain i where i: "siena_slots (sf_tbl sfp t) i = Some x" using x by (auto simp: installed_iff)
    then obtain d where d: "1 \<le> d" "d \<le> sf_depth sfp (sfs_type x)" "siena_probe x d = i"
      using I(2) [of t] by (auto simp: probe_covered_def)
    have "i < sft_size (sf_tbl sfp t)" using i by (auto simp: siena_slots_def split: if_splits)
    then have "siena_filter_tbl_id (sfs_type x) = t" "hw_rows (filter_hw enp) t i = fst (siena_filter_build x)"
      using I(1) [of t] i unfolding siena_tbl_inv_def by (auto split: option.splits)
    then show ?thesis using d I(5) [of "sfs_type x"] by (intro conjI exI [of _ d]) simp_all
  qed
  moreover have "hw_rows (filter_hw enp) t i = EFX_ZERO_OWORD"
    if "i < siena_tbl_rows t" "siena_slots (sf_tbl sfp t) i = None" for t i
    using I(1) [of t] that tbl_inv_size [OF I(1), of t] unfolding siena_tbl_inv_def siena_tbl_rows_bits by auto
  moreover have "sft_used (sf_tbl sfp t) = int (size (siena_installed sfp t))" for t
    using I(1) [of t] by (simp add: siena_tbl_inv_def siena_installed_def slots_mset_def)
  ultimately show ?thesis using st by auto
qed

theorem siena_filter_reach_inv_witness: "\<exists>sfp. ef_siena_filter (fd_hw (fn_dev sample_filter_up)) = PPtr sfp"
  using siena_filter_reach_inv [OF sample_reach] by blast

section \<open>Inserting and removing\<close>

text \<open>
  C5. Inserting a filter on a Siena controller ends in one of three ways: the filter is added to those of its table and its
  hardware row written, nothing else changing; or \<open>EEXIST\<close> because an equal filter is installed; or \<open>EBUSY\<close> because
  200 or more filters are installed in the table. In the last two cases nothing changes.
\<close>

theorem efx_filter_insert_siena:
  assumes "siena_filter_reach enp" "efs_flags spec AND EFX_FILTER_FLAG_RX \<noteq> 0"
    "siena_filter_spec_from_gen_spec spec = Some (Inr x)" "t = siena_filter_tbl_id (sfs_type x)"
  shows "\<exists>rc enp'. efx_filter_insert enp spec = Some (rc, enp')
    \<and> (rc = RC_OK \<and> filters_installed enp' = (filters_installed enp)(t := add_mset x (filters_installed enp t))
         \<and> (\<exists>i < siena_tbl_rows t. hw_rows (filter_hw enp) t i = EFX_ZERO_OWORD
              \<and> hw_rows (filter_hw enp') = (hw_rows (filter_hw enp))(t := (hw_rows (filter_hw enp) t)(i := fst (siena_filter_build x))))
       \<or> rc = EEXIST \<and> enp' = enp \<and> (\<exists>y \<in># filters_installed enp t. siena_filter_equal x y)
       \<or> rc = EBUSY \<and> enp' = enp \<and> 200 \<le> size (filters_installed enp t))"
proof -
  obtain alloc sfp where st: "filter_up enp" "en_efop enp = Some (siena_filter_ops alloc)"
      "ef_siena_filter (fd_hw (fn_dev enp)) = PPtr sfp" "siena_inv sfp (filter_hw enp)"
      "filters_installed enp = siena_installed sfp"
    by (rule reach_obtain [OF assms(1)])
  let ?slots = "siena_slots (sf_tbl sfp t)"
  note api = insert_api [OF st(1-3) assms(2,3), simplified]
  show ?thesis
  proof (cases "probe_find siena_probe siena_filter_equal ?slots x True 1 FILTER_CTL_SRCH_MAX")
    case None
    have "\<not> card {i. ?slots i \<noteq> None} < FILTER_CTL_SRCH_MAX"
      using sft.insert_room [OF _ slots_finite, of "sf_tbl sfp t" x] None by blast
    then have "200 \<le> size (siena_installed sfp t)"
      by (simp add: siena_installed_def slots_mset_def FILTER_CTL_SRCH_MAX_def)
    with add_spec_busy [OF st(4) assms(4) refl None] api st(5) nic_put_same [OF st(3)] show ?thesis by simp
  next
    case (Some d)
    show ?thesis
    proof (cases "?slots (siena_probe x d)")
      case (Some y)
      with \<open>probe_find _ _ _ _ _ _ _ = Some d\<close> have "siena_filter_equal x y" by (simp add: probe_find_Some probe_hit_def)
      moreover have "y \<in># siena_installed sfp t" using Some by (auto simp: installed_iff)
      moreover have "siena_filter_add_spec sfp (filter_hw enp) x False = Some (EEXIST, sfp, filter_hw enp)"
        by (rule add_spec_exists [OF st(4) assms(4) refl \<open>probe_find _ _ _ _ _ _ _ = Some d\<close>]) (simp add: Some)
      ultimately show ?thesis using api st(5) nic_put_same [OF st(3)] by auto
    next
      case None
      obtain sfp' hw' where ok: "siena_filter_add_spec sfp (filter_hw enp) x False = Some (RC_OK, sfp', hw')"
          "siena_slots (sf_tbl sfp' t) = ?slots(siena_probe x d := Some x)"
          "\<forall>t'. t' \<noteq> t \<longrightarrow> sf_tbl sfp' t' = sf_tbl sfp t' \<and> hw_rows hw' t' = hw_rows (filter_hw enp) t'"
          "hw_rows hw' t = (hw_rows (filter_hw enp) t)(siena_probe x d := fst (siena_filter_build x))"
        using add_spec_ok [OF st(4) assms(4) refl \<open>probe_find _ _ _ _ _ _ _ = Some d\<close> None] by blast
      have i: "siena_probe x d < siena_tbl_rows t" by (simp add: siena_probe_def assms(4) siena_tbl_rows_bits)
      moreover have "hw_rows (filter_hw enp) t (siena_probe x d) = EFX_ZERO_OWORD"
        using siena_invD(1) [OF st(4), of t] i None unfolding siena_tbl_inv_def siena_tbl_wf_def siena_tbl_rows_bits by auto
      moreover have "siena_installed sfp' = (siena_installed sfp)(t := add_mset x (siena_installed sfp t))"
        by (rule ext) (use ok(2,3) slots_mset_insert [OF None slots_finite, of x] in \<open>simp add: siena_installed_def\<close>)
      moreover have "hw_rows hw' = (hw_rows (filter_hw enp))(t := (hw_rows (filter_hw enp) t)(siena_probe x d := fst (siena_filter_build x)))"
        using ok(3,4) by (auto simp: fun_eq_iff)
      moreover have "filters_installed (nic_put enp sfp' hw') = siena_installed sfp'"
        by (simp add: filters_installed_def fun_eq_iff)
      ultimately show ?thesis using api ok(1) st(5) by auto
    qed
  qed
qed

theorem efx_filter_insert_siena_witness:
  "\<exists>enp'. efx_filter_insert sample_filter_up (tcp_listener 1 80) = Some (RC_OK, enp')
     \<and> filters_installed enp' EFX_SIENA_FILTER_TBL_RX_IP = {# tcp_listener_entry 1 80 #}"
  using efx_filter_insert_siena [OF sample_reach tcp_listener_flags(2) tcp_listener_translates(2), of 80 EFX_SIENA_FILTER_TBL_RX_IP 1]
  by (auto simp: tcp_listener_tbl sample_empty)

text \<open>
  C6. Removing a filter on a Siena controller takes exactly one filter equal to it out of its table and clears its row, or
  reports \<open>ENOENT\<close>, changing nothing, exactly when no equal filter is installed.
\<close>

theorem efx_filter_remove_siena:
  assumes "siena_filter_reach enp" "efs_flags spec AND EFX_FILTER_FLAG_RX \<noteq> 0"
    "siena_filter_spec_from_gen_spec (spec\<lparr>efs_rss_context := fd_rss_context (fn_dev enp)\<rparr>) = Some (Inr x)"
    "t = siena_filter_tbl_id (sfs_type x)"
  shows "\<exists>rc enp'. efx_filter_remove enp spec = Some (rc, enp')
    \<and> (if \<exists>y \<in># filters_installed enp t. siena_filter_equal x y
       then rc = RC_OK \<and> (\<exists>y. siena_filter_equal x y \<and> y \<in># filters_installed enp t
          \<and> filters_installed enp' = (filters_installed enp)(t := filters_installed enp t - {#y#})
          \<and> (\<exists>i. hw_rows (filter_hw enp) t i = fst (siena_filter_build y)
               \<and> hw_rows (filter_hw enp') = (hw_rows (filter_hw enp))(t := (hw_rows (filter_hw enp) t)(i := EFX_ZERO_OWORD))))
       else rc = ENOENT \<and> enp' = enp)"
proof -
  obtain alloc sfp where st: "filter_up enp" "en_efop enp = Some (siena_filter_ops alloc)"
      "ef_siena_filter (fd_hw (fn_dev enp)) = PPtr sfp" "siena_inv sfp (filter_hw enp)"
      "filters_installed enp = siena_installed sfp"
    by (rule reach_obtain [OF assms(1)])
  let ?slots = "siena_slots (sf_tbl sfp t)"
  note api = remove_api [OF st(1-3) assms(2,3), simplified]
  have complete: "probe_find siena_probe siena_filter_equal ?slots x False 1 FILTER_CTL_SRCH_MAX = None
      \<longleftrightarrow> \<not> (\<exists>y \<in># siena_installed sfp t. siena_filter_equal x y)"
    using sft.lookup_complete [OF siena_invD(2) [OF st(4)] siena_invD(3) [OF st(4)], of t x] by (auto simp: installed_iff)
  show ?thesis
  proof (cases "probe_find siena_probe siena_filter_equal ?slots x False 1 FILTER_CTL_SRCH_MAX")
    case None
    with complete delete_spec_none [OF st(4) assms(4) refl None] api st(5) nic_put_same [OF st(3)] show ?thesis by simp
  next
    case (Some d)
    then obtain y where y: "?slots (siena_probe x d) = Some y" "siena_filter_equal x y"
      by (auto simp: probe_find_Some probe_hit_def split: option.splits)
    obtain sfp' hw' where ok: "siena_filter_delete_spec sfp (filter_hw enp) x = Some (RC_OK, sfp', hw')"
        "siena_slots (sf_tbl sfp' t) = ?slots(siena_probe x d := None)"
        "\<forall>t'. t' \<noteq> t \<longrightarrow> sf_tbl sfp' t' = sf_tbl sfp t' \<and> hw_rows hw' t' = hw_rows (filter_hw enp) t'"
        "hw_rows hw' t = (hw_rows (filter_hw enp) t)(siena_probe x d := EFX_ZERO_OWORD)"
      using delete_spec_ok [OF st(4) assms(4) refl Some] by blast
    have row: "hw_rows (filter_hw enp) t (siena_probe x d) = fst (siena_filter_build y)"
    proof -
      have "siena_probe x d < sft_size (sf_tbl sfp t)" using y(1) by (auto simp: siena_slots_def split: if_splits)
      then show ?thesis using siena_invD(1) [OF st(4), of t] y(1) unfolding siena_tbl_inv_def by (auto split: option.splits)
    qed
    have mem: "y \<in># siena_installed sfp t" using y(1) by (auto simp: installed_iff)
    have inst: "siena_installed sfp' = (siena_installed sfp)(t := siena_installed sfp t - {#y#})"
      by (rule ext) (use ok(2,3) slots_mset_remove [OF y(1) slots_finite] in \<open>simp add: siena_installed_def\<close>)
    have rows: "hw_rows hw' = (hw_rows (filter_hw enp))(t := (hw_rows (filter_hw enp) t)(siena_probe x d := EFX_ZERO_OWORD))"
      using ok(3,4) by (auto simp: fun_eq_iff)
    have put: "filters_installed (nic_put enp sfp' hw') = siena_installed sfp'" by (simp add: filters_installed_def fun_eq_iff)
    have "\<exists>y \<in># filters_installed enp t. siena_filter_equal x y" using mem y(2) st(5) by auto
    with api ok(1) st(5) mem y(2) inst rows put row show ?thesis by auto
  qed
qed

theorem efx_filter_remove_siena_witness:
  "efx_filter_remove sample_filter_up (tcp_listener 1 80) = Some (ENOENT, sample_filter_up)"
  using efx_filter_remove_siena [OF sample_reach tcp_listener_flags(2) tcp_listener_translates(1), of 80 EFX_SIENA_FILTER_TBL_RX_IP 1]
  by (auto simp: tcp_listener_tbl sample_empty)

text \<open>What an insertion that succeeded has done, for the proofs that go on from it.\<close>

lemma insert_okE:
  assumes "siena_filter_reach enp" "efs_flags spec AND EFX_FILTER_FLAG_RX \<noteq> 0"
    "siena_filter_spec_from_gen_spec spec = Some (Inr x)" "efx_filter_insert enp spec = Some (RC_OK, enp')"
    "t = siena_filter_tbl_id (sfs_type x)"
  obtains alloc sfp sfp' hw' d where "filter_up enp" "en_efop enp = Some (siena_filter_ops alloc)"
    "ef_siena_filter (fd_hw (fn_dev enp)) = PPtr sfp" "siena_inv sfp (filter_hw enp)"
    "filters_installed enp = siena_installed sfp"
    "enp' = nic_put enp sfp' hw'" "siena_inv sfp' hw'"
    "probe_find siena_probe siena_filter_equal (siena_slots (sf_tbl sfp t)) x True 1 FILTER_CTL_SRCH_MAX = Some d"
    "siena_slots (sf_tbl sfp t) (siena_probe x d) = None"
    "siena_slots (sf_tbl sfp' t) = (siena_slots (sf_tbl sfp t))(siena_probe x d := Some x)"
    "\<forall>t'. t' \<noteq> t \<longrightarrow> sf_tbl sfp' t' = sf_tbl sfp t' \<and> hw_rows hw' t' = hw_rows (filter_hw enp) t'"
    "hw_rows hw' t = (hw_rows (filter_hw enp) t)(siena_probe x d := fst (siena_filter_build x))"
proof -
  obtain alloc sfp where st: "filter_up enp" "en_efop enp = Some (siena_filter_ops alloc)"
      "ef_siena_filter (fd_hw (fn_dev enp)) = PPtr sfp" "siena_inv sfp (filter_hw enp)"
      "filters_installed enp = siena_installed sfp"
    by (rule reach_obtain [OF assms(1)])
  note api = insert_api [OF st(1-3) assms(2,3), simplified]
  obtain d where d: "probe_find siena_probe siena_filter_equal (siena_slots (sf_tbl sfp t)) x True 1 FILTER_CTL_SRCH_MAX = Some d"
    using add_spec_busy [OF st(4) assms(5) refl] api assms(4) by fastforce
  have free: "siena_slots (sf_tbl sfp t) (siena_probe x d) = None"
    using add_spec_exists [OF st(4) assms(5) refl d] api assms(4) by fastforce
  from add_spec_ok [OF st(4) assms(5) refl d free] api assms(4) st that [OF st _ _ d free] show ?thesis by auto
qed

lemma sample_insert:
  "\<exists>enp'. efx_filter_insert sample_filter_up (tcp_listener 1 80) = Some (RC_OK, enp')
     \<and> filters_installed enp' EFX_SIENA_FILTER_TBL_RX_IP = {# tcp_listener_entry 1 80 #}"
proof -
  obtain alloc sfp where st: "filter_up sample_filter_up" "en_efop sample_filter_up = Some (siena_filter_ops alloc)"
      "ef_siena_filter (fd_hw (fn_dev sample_filter_up)) = PPtr sfp" "siena_inv sfp (filter_hw sample_filter_up)"
    by (rule reach_obtain [OF sample_reach])
  have tbl: "sf_tbl sfp = fresh_tbl" using sample_tbl st(3) by auto
  let ?x = "tcp_listener_entry 1 80"
  have find: "probe_find siena_probe siena_filter_equal (siena_slots (sf_tbl sfp EFX_SIENA_FILTER_TBL_RX_IP)) ?x True 1 FILTER_CTL_SRCH_MAX = Some 1"
    by (auto simp: probe_find_Some probe_hit_def tbl fresh_tbl_slots FILTER_CTL_SRCH_MAX_def)
  obtain sfp' hw' where "siena_filter_add_spec sfp (filter_hw sample_filter_up) ?x False = Some (RC_OK, sfp', hw')"
      "siena_slots (sf_tbl sfp' EFX_SIENA_FILTER_TBL_RX_IP) = (\<lambda>_. None)(siena_probe ?x 1 := Some ?x)"
    using add_spec_ok [OF st(4) tcp_listener_tbl [symmetric] refl find] by (auto simp: tbl fresh_tbl_slots)
  then show ?thesis
    using insert_api [OF st(1-3) tcp_listener_flags(2) tcp_listener_translates(2), of 80 1]
    by (simp add: filters_installed_def siena_installed_def slots_mset_insert) (simp add: slots_mset_def)
qed

lemma restore_tbl_total:
  assumes "siena_tbl_inv t sftp rows" "\<forall>i \<in> set is. i < sft_size sftp"
  shows "\<exists>r. siena_filter_restore_tbl hw sftp is = Some r"
  using assms(2)
proof (induction "is" arbitrary: hw)
  case (Cons j "is")
  have wf: "siena_tbl_wf (siena_tbl_bits t) sftp" and sz: "sft_size sftp = 2 ^ siena_tbl_bits t" and j: "j < sft_size sftp"
    using assms(1) Cons.prems by (auto intro: tbl_inv_wf tbl_inv_size)
  obtain specs where sp: "sft_spec sftp = Some specs" "length specs = sft_size sftp"
    using wf sz by (auto simp: siena_tbl_wf_def)
  show ?case using test_used_bit [OF wf, of j] j sz sp Cons by (auto simp: split_beta push_entry_eq)
qed simp

lemma restore_tbl_fails:
  assumes "siena_tbl_inv t sftp rows" "siena_slots sftp i = Some x" "snd (siena_filter_build x) \<noteq> 0"
    "i \<in> set is" "\<forall>i \<in> set is. i < sft_size sftp"
  shows "\<exists>rc hw'. siena_filter_restore_tbl hw sftp is = Some (rc, hw') \<and> rc \<noteq> RC_OK"
  using assms(4,5)
proof (induction "is" arbitrary: hw)
  case (Cons j "is")
  have wf: "siena_tbl_wf (siena_tbl_bits t) sftp" and sz: "sft_size sftp = 2 ^ siena_tbl_bits t" and j: "j < sft_size sftp"
    using assms(1) Cons.prems by (auto intro: tbl_inv_wf tbl_inv_size)
  obtain specs where sp: "sft_spec sftp = Some specs" "length specs = sft_size sftp"
    using wf sz by (auto simp: siena_tbl_wf_def)
  have tu: "siena_filter_test_used sftp j = Some (siena_used sftp j)"
    using test_used_bit [OF wf] j sz by simp
  have raw: "v \<noteq> 0 \<Longrightarrow> rc_of_u32 v \<noteq> RC_OK" for v by (simp add: rc_of_u32_def)
  show ?case
  proof (cases "siena_used sftp j \<and> snd (siena_filter_build (specs ! j)) \<noteq> 0")
    case True
    then show ?thesis using tu sp j raw by (simp add: split_beta)
  next
    case False
    then have "j \<noteq> i" using assms(2,3) sp by (auto simp: siena_slots_def split: if_splits)
    then show ?thesis using False Cons tu sp j by (auto simp: split_beta push_entry_eq)
  qed
qed simp

lemma restore_tbls_fails:
  assumes "\<And>t. siena_tbl_inv t (sf_tbl sfp t) (hw_rows hw t)" "t \<in> set ts" "siena_slots (sf_tbl sfp t) i = Some x"
    "snd (siena_filter_build x) \<noteq> 0"
  shows "\<exists>rc hw'. siena_filter_restore_tbls hw sfp ts = Some (rc, hw') \<and> rc \<noteq> RC_OK"
  using assms(1,2)
proof (induction ts arbitrary: hw)
  case (Cons t' ts)
  let ?is = "[0..<sft_size (sf_tbl sfp t')]"
  show ?case
  proof (cases "t' = t")
    case True
    have "i \<in> set ?is" using assms(3) True by (auto simp: siena_slots_def split: if_splits)
    moreover have "\<forall>i \<in> set ?is. i < sft_size (sf_tbl sfp t)" using True by simp
    ultimately obtain rc hw' where "siena_filter_restore_tbl hw (sf_tbl sfp t') ?is = Some (rc, hw')" "rc \<noteq> RC_OK"
      using restore_tbl_fails [OF Cons.prems(1) assms(3,4), of ?is] True by blast
    then show ?thesis by (simp add: Let_def)
  next
    case False
    obtain rc hw1 where one: "siena_filter_restore_tbl hw (sf_tbl sfp t') ?is = Some (rc, hw1)"
      using restore_tbl_total [OF Cons.prems(1) [of t'], of ?is hw] by auto
    have rows: "hw_rows hw1 = hw_rows hw" using restore_tbl_rows [OF Cons.prems(1) _ one] by simp
    show ?thesis
    proof (cases "rc = RC_OK")
      case True
      have "t \<in> set ts" using Cons.prems(2) False by simp
      with Cons.IH [of hw1] Cons.prems(1) rows True one show ?thesis by (simp add: Let_def)
    next
      case False
      with one show ?thesis by (simp add: Let_def)
    qed
  qed
qed simp

text \<open>
  A filter that was inserted is refused a second time with \<open>EEXIST\<close>, and removing it succeeds and leaves the installed
  filters and the hardware rows of all tables as they were before the insertion.
\<close>

theorem efx_filter_insert_remove:
  assumes "siena_filter_reach enp" "efs_flags spec AND EFX_FILTER_FLAG_RX \<noteq> 0"
    "siena_filter_spec_from_gen_spec spec = Some (Inr x)"
    "siena_filter_spec_from_gen_spec (spec\<lparr>efs_rss_context := fd_rss_context (fn_dev enp)\<rparr>) = Some (Inr x)"
    "efx_filter_insert enp spec = Some (RC_OK, enp1)"
  shows "efx_filter_insert enp1 spec = Some (EEXIST, enp1)
    \<and> (\<exists>enp2. efx_filter_remove enp1 spec = Some (RC_OK, enp2) \<and> filters_installed enp2 = filters_installed enp
         \<and> hw_rows (filter_hw enp2) = hw_rows (filter_hw enp))"
proof -
  define t where "t = siena_filter_tbl_id (sfs_type x)"
  obtain alloc sfp sfp1 hw1 d where st: "filter_up enp" "en_efop enp = Some (siena_filter_ops alloc)"
      "filters_installed enp = siena_installed sfp" "siena_inv sfp (filter_hw enp)"
      "enp1 = nic_put enp sfp1 hw1" "siena_inv sfp1 hw1"
      and d: "probe_find siena_probe siena_filter_equal (siena_slots (sf_tbl sfp t)) x True 1 FILTER_CTL_SRCH_MAX = Some d"
      and free: "siena_slots (sf_tbl sfp t) (siena_probe x d) = None"
      and slots1: "siena_slots (sf_tbl sfp1 t) = (siena_slots (sf_tbl sfp t))(siena_probe x d := Some x)"
      and other1: "\<forall>t'. t' \<noteq> t \<longrightarrow> sf_tbl sfp1 t' = sf_tbl sfp t' \<and> hw_rows hw1 t' = hw_rows (filter_hw enp) t'"
      and row1: "hw_rows hw1 t = (hw_rows (filter_hw enp) t)(siena_probe x d := fst (siena_filter_build x))"
    by (rule insert_okE [OF assms(1-3,5) t_def]) blast
  note found = sft.lookup_inserted [OF d free, folded slots1]
  have up1: "filter_up enp1" "en_efop enp1 = Some (siena_filter_ops alloc)" "ef_siena_filter (fd_hw (fn_dev enp1)) = PPtr sfp1"
      "filter_hw enp1 = hw1" "fd_rss_context (fn_dev enp1) = fd_rss_context (fn_dev enp)"
    using st(1,2) by (simp_all add: st(5))
  have "siena_filter_add_spec sfp1 hw1 x False = Some (EEXIST, sfp1, hw1)"
    by (rule add_spec_exists [OF st(6) t_def refl found]) (simp add: slots1)
  then have again: "efx_filter_insert enp1 spec = Some (EEXIST, enp1)"
    using insert_api [OF up1(1-3) assms(2,3)] nic_put_same [OF up1(3)] by (simp add: up1(4))
  obtain sfp2 hw2 where del: "siena_filter_delete_spec sfp1 hw1 x = Some (RC_OK, sfp2, hw2)"
      "siena_slots (sf_tbl sfp2 t) = (siena_slots (sf_tbl sfp1 t))(siena_probe x d := None)"
      "\<forall>t'. t' \<noteq> t \<longrightarrow> sf_tbl sfp2 t' = sf_tbl sfp1 t' \<and> hw_rows hw2 t' = hw_rows hw1 t'"
      "hw_rows hw2 t = (hw_rows hw1 t)(siena_probe x d := EFX_ZERO_OWORD)"
    using delete_spec_ok [OF st(6) t_def refl found] by blast
  have rem: "efx_filter_remove enp1 spec = Some (RC_OK, nic_put enp1 sfp2 hw2)"
    using remove_api [OF up1(1-3) assms(2)] assms(4) del(1) by (simp add: up1(4,5))
  have "siena_probe x d < siena_tbl_rows t" by (simp add: siena_probe_def t_def siena_tbl_rows_bits)
  then have zero: "hw_rows (filter_hw enp) t (siena_probe x d) = EFX_ZERO_OWORD"
    using siena_invD(1) [OF st(4), of t] free unfolding siena_tbl_inv_def siena_tbl_wf_def siena_tbl_rows_bits by auto
  have "siena_slots (sf_tbl sfp2 t') = siena_slots (sf_tbl sfp t')" for t'
    using del(2,3) slots1 other1 free by (cases "t' = t") (auto simp: fun_eq_iff)
  then have "siena_installed sfp2 = siena_installed sfp" unfolding siena_installed_def by presburger
  moreover have "hw_rows hw2 t' = hw_rows (filter_hw enp) t'" for t'
    using del(3,4) row1 other1 zero by (cases "t' = t") (auto simp: fun_eq_iff)
  ultimately show ?thesis using again rem st(3) by (auto simp: filters_installed_def fun_eq_iff)
qed

theorem efx_filter_insert_remove_witness:
  "\<exists>enp1. siena_filter_reach enp1 \<and> efx_filter_insert enp1 (tcp_listener 1 80) = Some (EEXIST, enp1)"
proof -
  obtain enp1 where enp1: "efx_filter_insert sample_filter_up (tcp_listener 1 80) = Some (RC_OK, enp1)"
    using sample_insert by blast
  have "efx_filter_insert enp1 (tcp_listener 1 80) = Some (EEXIST, enp1)"
    by (rule conjunct1 [OF efx_filter_insert_remove [OF sample_reach tcp_listener_flags(2) tcp_listener_translates(2)
          tcp_listener_translates(1) enp1]]) simp_all
  with siena_filter_reach.insert [OF sample_reach enp1] show ?thesis by blast
qed

text \<open>
  After any installed filter whose key is not zero, \<open>efx_filter_restore\<close> reports an error: it takes the key that
  \<open>siena_filter_build\<close> returns for a return code and gives up.
\<close>

theorem efx_filter_restore_fails:
  assumes "siena_filter_reach enp" "x \<in># filters_installed enp t" "snd (siena_filter_build x) \<noteq> 0"
  shows "\<exists>rc enp'. efx_filter_restore enp = Some (rc, enp') \<and> rc \<noteq> RC_OK"
proof -
  obtain alloc sfp where st: "filter_up enp" "en_efop enp = Some (siena_filter_ops alloc)"
      "ef_siena_filter (fd_hw (fn_dev enp)) = PPtr sfp" "siena_inv sfp (filter_hw enp)"
      "filters_installed enp = siena_installed sfp"
    by (rule reach_obtain [OF assms(1)])
  obtain i where i: "siena_slots (sf_tbl sfp t) i = Some x" using assms(2) st(5) by (auto simp: installed_iff)
  have "t \<in> set siena_tbls" by (cases t) (simp_all add: siena_tbls_def)
  with restore_tbls_fails [OF _ _ i assms(3)] siena_invD(1) [OF st(4)]
  obtain rc hw' where "siena_filter_restore_tbls (filter_hw enp) sfp siena_tbls = Some (rc, hw')" "rc \<noteq> RC_OK" by blast
  with st show ?thesis by (auto simp: efx_filter_restore_def siena_filter_ops_def siena_filter_restore_def)
qed

theorem efx_filter_restore_fails_witness:
  "\<exists>(enp :: siena_filter_state filter_nic) rc enp'. efx_filter_restore enp = Some (rc, enp') \<and> rc \<noteq> RC_OK"
proof -
  obtain enp where enp: "efx_filter_insert sample_filter_up (tcp_listener 1 80) = Some (RC_OK, enp)"
      "filters_installed enp EFX_SIENA_FILTER_TBL_RX_IP = {# tcp_listener_entry 1 80 #}"
    using sample_insert by blast
  have reach: "siena_filter_reach enp" by (rule siena_filter_reach.insert [OF sample_reach enp(1)])
  have key: "snd (siena_filter_build (tcp_listener_entry 1 80)) \<noteq> 0"
    by (simp add: siena_filter_build_def tcp_listener_entry_def)
  have mem: "tcp_listener_entry 1 80 \<in># filters_installed enp EFX_SIENA_FILTER_TBL_RX_IP" by (simp add: enp(2))
  show ?thesis by (rule exI [of _ enp]) (rule efx_filter_restore_fails [OF reach mem key])
qed

text \<open>
  \<open>siena_filter_supported_filters\<close> announces four kinds of filter on a controller with MAC filters and copies only the
  first of them: the count of the kinds is taken for the number of bytes.
\<close>

theorem siena_supported_filters_short:
  assumes "fd_features enp AND EFX_FEATURE_MAC_HEADER_FILTERS \<noteq> 0" "4 \<le> length list"
  shows "siena_filter_supported_filters enp (Some list) = Some (Inr (match_bytes ipv4_full_flags @ drop 4 list, 4))"
proof -
  have four: "Suc (Suc (Suc (Suc 0))) = 4" by simp
  show ?thesis
    using assms by (simp add: siena_filter_supported_filters_def Let_def rd_range_def wr_range_def match_bytes_def four)
qed

theorem siena_supported_filters_short_witness:
  "siena_filter_supported_filters (fn_dev sample_filter_nic\<lparr>fd_features := 0x80\<rparr>) (Some (replicate 16 0xee))
     = Some (Inr (match_bytes ipv4_full_flags @ drop 4 (replicate 16 0xee), 4))"
  by (rule siena_supported_filters_short) (simp_all add: EFX_FEATURE_MAC_HEADER_FILTERS_def)

section \<open>Duplicates\<close>

text \<open>Two listeners whose filters have the same key, and so the same probes.\<close>

lemma listener_key: "siena_key (tcp_listener_entry host port) = push_bit 16 (ucast port) XOR host"
  by (simp add: siena_key_def siena_filter_build_def tcp_listener_entry_def)

lemma collide: "siena_probe (tcp_listener_entry 0x30001 2) = siena_probe (tcp_listener_entry 1 1)"
proof -
  have "siena_key (tcp_listener_entry 0x30001 2) = siena_key (tcp_listener_entry 1 1)" by (simp add: listener_key)
  then show ?thesis by (simp add: fun_eq_iff siena_probe_def tcp_listener_tbl)
qed

lemma listeners_differ: "\<not> siena_filter_equal (tcp_listener_entry 0x30001 2) (tcp_listener_entry 1 1)"
  by (simp add: siena_filter_equal_def tcp_listener_entry_def)

text \<open>The slots of the table of the received IP filters.\<close>

definition rx_ip_slots :: "siena_filter_state filter_nic \<Rightarrow> siena_filter_spec slots \<Rightarrow> bool" where
  "rx_ip_slots enp slots \<longleftrightarrow> filter_inv enp
     \<and> (\<exists>sfp. ef_siena_filter (fd_hw (fn_dev enp)) = PPtr sfp \<and> siena_slots (sf_tbl sfp EFX_SIENA_FILTER_TBL_RX_IP) = slots)"

lemma rx_ip_obtain:
  assumes "rx_ip_slots enp slots"
  obtains alloc sfp where "filter_up enp" "en_efop enp = Some (siena_filter_ops alloc)"
    "ef_siena_filter (fd_hw (fn_dev enp)) = PPtr sfp" "siena_inv sfp (filter_hw enp)"
    "siena_slots (sf_tbl sfp EFX_SIENA_FILTER_TBL_RX_IP) = slots" "filter_inv enp"
proof -
  obtain sfp where sfp: "ef_siena_filter (fd_hw (fn_dev enp)) = PPtr sfp"
      "siena_slots (sf_tbl sfp EFX_SIENA_FILTER_TBL_RX_IP) = slots" and inv: "filter_inv enp"
    using assms by (auto simp: rx_ip_slots_def)
  obtain alloc where "filter_up enp" "en_efop enp = Some (siena_filter_ops alloc)" "siena_inv sfp (filter_hw enp)"
    using inv sfp(1) by (auto simp: filter_inv_def)
  from that [OF this(1,2) sfp(1) this(3) sfp(2) inv] show thesis .
qed

lemma rx_ip_insert:
  assumes "rx_ip_slots enp slots" "port \<noteq> 0"
    "probe_find siena_probe siena_filter_equal slots (tcp_listener_entry host port) True 1 FILTER_CTL_SRCH_MAX = Some d"
    "slots (siena_probe (tcp_listener_entry host port) d) = None"
  shows "\<exists>enp'. efx_filter_insert enp (tcp_listener host port) = Some (RC_OK, enp')
    \<and> rx_ip_slots enp' (slots(siena_probe (tcp_listener_entry host port) d := Some (tcp_listener_entry host port)))"
proof -
  obtain alloc sfp where st: "filter_up enp" "en_efop enp = Some (siena_filter_ops alloc)"
      "ef_siena_filter (fd_hw (fn_dev enp)) = PPtr sfp" "siena_inv sfp (filter_hw enp)"
      "siena_slots (sf_tbl sfp EFX_SIENA_FILTER_TBL_RX_IP) = slots" "filter_inv enp"
    by (rule rx_ip_obtain [OF assms(1)])
  from add_spec_ok [OF st(4) tcp_listener_tbl [symmetric] st(5) [symmetric] assms(3,4)]
    insert_api [OF st(1-3) tcp_listener_flags(2) tcp_listener_translates(2) [OF assms(2)], of host] filter_inv_put [OF st(6)]
  show ?thesis by (auto simp: rx_ip_slots_def)
qed

lemma rx_ip_remove:
  assumes "rx_ip_slots enp slots" "port \<noteq> 0"
    "probe_find siena_probe siena_filter_equal slots (tcp_listener_entry host port) False 1 FILTER_CTL_SRCH_MAX = Some d"
  shows "\<exists>enp'. efx_filter_remove enp (tcp_listener host port) = Some (RC_OK, enp')
    \<and> rx_ip_slots enp' (slots(siena_probe (tcp_listener_entry host port) d := None))"
proof -
  obtain alloc sfp where st: "filter_up enp" "en_efop enp = Some (siena_filter_ops alloc)"
      "ef_siena_filter (fd_hw (fn_dev enp)) = PPtr sfp" "siena_inv sfp (filter_hw enp)"
      "siena_slots (sf_tbl sfp EFX_SIENA_FILTER_TBL_RX_IP) = slots" "filter_inv enp"
    by (rule rx_ip_obtain [OF assms(1)])
  from delete_spec_ok [OF st(4) tcp_listener_tbl [symmetric] st(5) [symmetric] assms(3)]
    remove_api [OF st(1-3) tcp_listener_flags(2) tcp_listener_translates(1) [OF assms(2)], of host] filter_inv_put [OF st(6)]
  show ?thesis by (auto simp: rx_ip_slots_def)
qed

lemma rx_ip_installed: "rx_ip_slots enp slots \<Longrightarrow> filters_installed enp EFX_SIENA_FILTER_TBL_RX_IP = slots_mset slots"
  by (auto simp: rx_ip_slots_def filters_installed_def siena_installed_def)

text \<open>
  C13. The search for an insertion stops at the first unused entry, before an equal filter that an earlier collision has
  put further along. So a filter can be installed twice: insert two filters with the same key, remove the first and insert
  the second again.
\<close>

theorem efx_filter_insert_duplicate:
  "\<exists>enp1 enp2 enp3 enp4. efx_filter_insert sample_filter_up (tcp_listener 1 1) = Some (RC_OK, enp1)
     \<and> efx_filter_insert enp1 (tcp_listener 0x30001 2) = Some (RC_OK, enp2)
     \<and> efx_filter_remove enp2 (tcp_listener 1 1) = Some (RC_OK, enp3)
     \<and> efx_filter_insert enp3 (tcp_listener 0x30001 2) = Some (RC_OK, enp4)
     \<and> filters_installed enp4 EFX_SIENA_FILTER_TBL_RX_IP = {# tcp_listener_entry 0x30001 2, tcp_listener_entry 0x30001 2 #}"
proof -
  let ?a = "tcp_listener_entry 1 1" and ?b = "tcp_listener_entry 0x30001 2"
  let ?P = "siena_probe ?a"
  have nz: "(1 :: u16) \<noteq> 0" "(2 :: u16) \<noteq> 0" by simp_all
  have two: "?P 1 \<noteq> ?P 2" using sft.probe_inj [of 1 2 ?a] by (auto simp: FILTER_CTL_SRCH_MAX_def)
  have le: "1 \<le> FILTER_CTL_SRCH_MAX" "2 \<le> FILTER_CTL_SRCH_MAX" by (simp_all add: FILTER_CTL_SRCH_MAX_def)
  let ?s1 = "(\<lambda>_. None)(?P 1 := Some ?a)"
  let ?s2 = "?s1(?P 2 := Some ?b)"
  let ?s3 = "?s2(?P 1 := None)"
  have s0: "rx_ip_slots sample_filter_up (\<lambda>_. None)"
    using sample_tbl reach_filter_inv [OF sample_reach] by (auto simp: rx_ip_slots_def fresh_tbl_slots)
  have f1: "probe_find siena_probe siena_filter_equal (\<lambda>_. None) ?a True 1 FILTER_CTL_SRCH_MAX = Some 1"
    using le by (auto simp: probe_find_Some probe_hit_def)
  obtain e1 where e1: "efx_filter_insert sample_filter_up (tcp_listener 1 1) = Some (RC_OK, e1)" "rx_ip_slots e1 ?s1"
    using rx_ip_insert [OF s0 nz(1) f1] by blast
  have f2: "probe_find siena_probe siena_filter_equal ?s1 ?b True 1 FILTER_CTL_SRCH_MAX = Some 2"
  proof -
    have no: "\<not> probe_hit siena_probe siena_filter_equal ?s1 ?b True 1" by (simp add: probe_hit_def collide listeners_differ)
    have "probe_hit siena_probe siena_filter_equal ?s1 ?b True 2" using two by (simp add: probe_hit_def collide)
    moreover have "\<not> probe_hit siena_probe siena_filter_equal ?s1 ?b True k" if "1 \<le> k \<and> k < 2" for k
    proof -
      have "k = 1" using that by simp
      with no show ?thesis by simp
    qed
    ultimately show ?thesis unfolding probe_find_Some using le(2) by (intro conjI) simp_all
  qed
  have free2: "?s1 (siena_probe ?b 2) = None" using two by (simp add: collide)
  obtain e2 where e2: "efx_filter_insert e1 (tcp_listener 0x30001 2) = Some (RC_OK, e2)" "rx_ip_slots e2 ?s2"
    using rx_ip_insert [OF e1(2) nz(2) f2 free2, unfolded collide] by blast
  have f3: "probe_find siena_probe siena_filter_equal ?s2 ?a False 1 FILTER_CTL_SRCH_MAX = Some 1"
    using le two by (auto simp: probe_find_Some probe_hit_def sft.same_refl)
  obtain e3 where e3: "efx_filter_remove e2 (tcp_listener 1 1) = Some (RC_OK, e3)" "rx_ip_slots e3 ?s3"
    using rx_ip_remove [OF e2(2) nz(1) f3] by blast
  have f4: "probe_find siena_probe siena_filter_equal ?s3 ?b True 1 FILTER_CTL_SRCH_MAX = Some 1"
    using le by (auto simp: probe_find_Some probe_hit_def collide)
  have free4: "?s3 (siena_probe ?b 1) = None" by (simp add: collide)
  obtain e4 where e4: "efx_filter_insert e3 (tcp_listener 0x30001 2) = Some (RC_OK, e4)" "rx_ip_slots e4 (?s3(?P 1 := Some ?b))"
    using rx_ip_insert [OF e3(2) nz(2) f4 free4, unfolded collide] by blast
  have s3: "?s3 = (\<lambda>_. None)(?P 2 := Some ?b)" using two by (auto simp: fun_eq_iff)
  have "slots_mset (?s3(?P 1 := Some ?b)) = {# ?b, ?b #}"
    unfolding s3 using two by (simp add: slots_mset_insert) (simp add: slots_mset_def)
  with e1 e2 e3 e4 show ?thesis by (auto simp: rx_ip_installed)
qed

section \<open>Translation\<close>

text \<open>The packed words determine what they are packed from.\<close>

lemma unpack_ip:
  fixes h :: u32 and p q :: u16
  shows "ucast (push_bit 16 h OR ucast p) = p"
    and "ucast (drop_bit 16 (push_bit 16 (ucast q) OR drop_bit 16 h)) = q"
    and "drop_bit 16 (push_bit 16 h OR ucast p) OR push_bit 16 (push_bit 16 (ucast q) OR drop_bit 16 h) = h"
  by (rule bit_word_eqI; auto simp: bit_simps dest: bit_imp_le_length)+

lemma pack_ip:
  fixes h h' :: u32 and p q p' q' :: u16
  shows "push_bit 16 h OR ucast p = push_bit 16 h' OR ucast p'
      \<and> push_bit 16 (ucast q) OR drop_bit 16 h = push_bit 16 (ucast q') OR drop_bit 16 h'
    \<longleftrightarrow> h = h' \<and> p = p' \<and> q = q'"
  using unpack_ip(1) [of h p] unpack_ip(1) [of h' p'] unpack_ip(2) [of q h] unpack_ip(2) [of q' h']
    unpack_ip(3) [of h p q] unpack_ip(3) [of h' p' q'] by metis

lemma unpack_mac4:
  fixes a b c d :: u8
  defines "w \<equiv> push_bit 24 (ucast a) OR push_bit 16 (ucast b) OR push_bit 8 (ucast c) OR ucast d :: u32"
  shows "ucast (drop_bit 24 w) = a" "ucast (drop_bit 16 w) = b" "ucast (drop_bit 8 w) = c" "ucast w = d"
  unfolding w_def by (rule bit_word_eqI; auto simp: bit_simps dest: bit_imp_le_length)+

lemma unpack_mac2:
  fixes a b :: u8
  shows "ucast (drop_bit 8 (push_bit 8 (ucast a) OR ucast b :: u32)) = a" "ucast (push_bit 8 (ucast a) OR ucast b :: u32) = b"
  by (rule bit_word_eqI; auto simp: bit_simps dest: bit_imp_le_length)+

lemma pack_mac:
  fixes a b c d e f a' b' c' d' e' f' :: u8
  shows "push_bit 24 (ucast c) OR push_bit 16 (ucast d) OR push_bit 8 (ucast e) OR ucast f
        = (push_bit 24 (ucast c') OR push_bit 16 (ucast d') OR push_bit 8 (ucast e') OR ucast f' :: u32)
      \<and> push_bit 8 (ucast a) OR ucast b = (push_bit 8 (ucast a') OR ucast b' :: u32)
    \<longleftrightarrow> [a, b, c, d, e, f] = [a', b', c', d', e', f']"
  using unpack_mac4 [of c d e f] unpack_mac4 [of c' d' e' f'] unpack_mac2 [of a b] unpack_mac2 [of a' b'] by (metis list.inject)

text \<open>What a specification matches: direction, kind, and the fields that its kind looks at, the queue for a transmit filter.\<close>

definition gen_is_tx :: "efx_filter_spec \<Rightarrow> bool" where
  "gen_is_tx g = (efs_flags g AND EFX_FILTER_FLAG_TX \<noteq> 0)"

definition gen_is_ip :: "efx_filter_spec \<Rightarrow> bool" where
  "gen_is_ip g = (efs_match_flags g = ipv4_full_flags \<or> efs_match_flags g = ipv4_local_flags)"

definition gen_is_full :: "efx_filter_spec \<Rightarrow> bool" where
  "gen_is_full g = (efs_match_flags g = ipv4_full_flags \<or> efs_match_flags g = EFX_FILTER_MATCH_LOC_MAC OR EFX_FILTER_MATCH_OUTER_VID)"

definition filter_tuple where
  "filter_tuple g =
    (gen_is_tx g, efs_match_flags g, if gen_is_tx g then efs_dmaq_id g else 0,
     if gen_is_ip g
     then Inl (efs_ip_proto g, efs_loc_host g ! 0, efs_loc_port g,
            if gen_is_full g then Some (efs_rem_host g ! 0, efs_rem_port g) else None)
     else Inr (take 6 (efs_loc_mac g), if gen_is_full g then Some (efs_outer_vid g) else None))"

text \<open>The entry as a function of the tuple's parts.\<close>

fun entry_type :: "bool \<Rightarrow> bool \<Rightarrow> bool \<Rightarrow> bool \<Rightarrow> siena_filter_type" where
  "entry_type ip tx udp full =
     (if ip then if tx then if udp then if full then EFX_SIENA_FILTER_TX_UDP_FULL else EFX_SIENA_FILTER_TX_UDP_WILD
                            else if full then EFX_SIENA_FILTER_TX_TCP_FULL else EFX_SIENA_FILTER_TX_TCP_WILD
                 else if udp then if full then EFX_SIENA_FILTER_RX_UDP_FULL else EFX_SIENA_FILTER_RX_UDP_WILD
                      else if full then EFX_SIENA_FILTER_RX_TCP_FULL else EFX_SIENA_FILTER_RX_TCP_WILD
      else if tx then if full then EFX_SIENA_FILTER_TX_MAC_FULL else EFX_SIENA_FILTER_TX_MAC_WILD
           else if full then EFX_SIENA_FILTER_RX_MAC_FULL else EFX_SIENA_FILTER_RX_MAC_WILD)"

definition pack_dwords :: "u32 \<Rightarrow> u16 \<Rightarrow> u16 \<Rightarrow> u32 \<Rightarrow> u32 \<times> u32 \<times> u32" where
  "pack_dwords host1 port1 port2 host2 = (push_bit 16 host1 OR ucast port1, push_bit 16 (ucast port2) OR drop_bit 16 host1, host2)"

lemma pack_dwords_eq: "pack_dwords h p q g = pack_dwords h' p' q' g' \<longleftrightarrow> h = h' \<and> p = p' \<and> q = q' \<and> g = g'"
  unfolding pack_dwords_def using pack_ip [of h p h' p' q q'] by auto

definition entry_dwords :: "siena_filter_spec \<Rightarrow> u32 \<times> u32 \<times> u32" where
  "entry_dwords x = (sfs_dword0 x, sfs_dword1 x, sfs_dword2 x)"

lemma ip_specD:
  assumes "siena_ip_spec g full = Some (Inr x)"
  defines "tx \<equiv> gen_is_tx g" and "udp \<equiv> efs_ip_proto g = EFX_IPPROTO_UDP"
  defines "lhost \<equiv> efs_loc_host g ! 0" and "rhost \<equiv> (if full then efs_rem_host g ! 0 else 0)"
    and "lport \<equiv> efs_loc_port g" and "rport \<equiv> (if full then efs_rem_port g else 0)"
  shows "sfs_type x = entry_type True tx udp full \<and> efs_ip_proto g = (if udp then EFX_IPPROTO_UDP else EFX_IPPROTO_TCP)
    \<and> sfs_dmaq_id x = ucast (efs_dmaq_id g)
    \<and> entry_dwords x = (if tx then if udp \<and> \<not> full then pack_dwords lhost rport lport rhost else pack_dwords lhost lport rport rhost
                       else if udp \<and> \<not> full then pack_dwords rhost lport rport lhost else pack_dwords rhost rport lport lhost)"
  using assms(1) unfolding tx_def udp_def lhost_def rhost_def lport_def rport_def
  by (auto simp: siena_ip_spec_def gen_is_tx_def EFX_IPPROTO_TCP_def EFX_IPPROTO_UDP_def Let_def entry_dwords_def pack_dwords_def
    split: if_splits Option.bind_splits)

lemma mac_specD:
  assumes "siena_mac_spec g full = Some (Inr x)"
  shows "sfs_type x = entry_type False (gen_is_tx g) udp full \<and> sfs_dmaq_id x = ucast (efs_dmaq_id g)
    \<and> (\<exists>a b c d e f. take 6 (efs_loc_mac g) = [a, b, c, d, e, f]
       \<and> entry_dwords x = (if full then ucast (efs_outer_vid g) else 0,
          push_bit 24 (ucast c) OR push_bit 16 (ucast d) OR push_bit 8 (ucast e) OR ucast f, push_bit 8 (ucast a) OR ucast b))"
proof -
  have six: "5 < length xs \<Longrightarrow> take 6 xs = [xs ! 0, xs ! 1, xs ! 2, xs ! 3, xs ! 4, xs ! 5]" for xs :: "u8 list"
    by (rule nth_equalityI) (auto simp: less_Suc_eq numeral_eq_Suc)
  show ?thesis
    using assms by (auto simp: siena_mac_spec_def gen_is_tx_def Let_def six entry_dwords_def split: Option.bind_splits)
qed

lemma translate_cases:
  assumes "siena_filter_spec_from_gen_spec g = Some (Inr x)"
  obtains "gen_is_ip g" "siena_ip_spec g (gen_is_full g) = Some (Inr x)"
      "efs_match_flags g = (if gen_is_full g then ipv4_full_flags else ipv4_local_flags)"
    | "\<not> gen_is_ip g" "siena_mac_spec g (gen_is_full g) = Some (Inr x)"
      "efs_match_flags g = (if gen_is_full g then EFX_FILTER_MATCH_LOC_MAC OR EFX_FILTER_MATCH_OUTER_VID else EFX_FILTER_MATCH_LOC_MAC)"
proof -
  have d: "ipv4_full_flags \<noteq> ipv4_local_flags" "ipv4_full_flags \<noteq> EFX_FILTER_MATCH_LOC_MAC"
    "ipv4_local_flags \<noteq> EFX_FILTER_MATCH_LOC_MAC" "EFX_FILTER_MATCH_LOC_MAC OR EFX_FILTER_MATCH_OUTER_VID \<noteq> EFX_FILTER_MATCH_LOC_MAC"
    "ipv4_full_flags \<noteq> EFX_FILTER_MATCH_LOC_MAC OR EFX_FILTER_MATCH_OUTER_VID"
    "ipv4_local_flags \<noteq> EFX_FILTER_MATCH_LOC_MAC OR EFX_FILTER_MATCH_OUTER_VID"
    by (simp_all add: ipv4_full_flags_def ipv4_local_flags_def EFX_FILTER_MATCH_REM_HOST_def EFX_FILTER_MATCH_LOC_HOST_def
      EFX_FILTER_MATCH_REM_PORT_def EFX_FILTER_MATCH_LOC_MAC_def EFX_FILTER_MATCH_LOC_PORT_def EFX_FILTER_MATCH_ETHER_TYPE_def
      EFX_FILTER_MATCH_OUTER_VID_def EFX_FILTER_MATCH_IP_PROTO_def)
  show thesis
    using assms that d d [symmetric] unfolding siena_filter_spec_from_gen_spec_def gen_is_ip_def gen_is_full_def
    by (auto split: if_splits)
qed

lemma equal_alt:
  "siena_filter_equal x y \<longleftrightarrow> sfs_type x = sfs_type y \<and> entry_dwords x = entry_dwords y
     \<and> (siena_is_tx (sfs_type x) \<longrightarrow> sfs_dmaq_id x = sfs_dmaq_id y)"
  by (auto simp: siena_filter_equal_def entry_dwords_def siena_is_tx_def Let_def)

lemma entry_type_tx: "siena_is_tx (entry_type ip tx udp full) = tx"
  by (simp add: siena_is_tx_def)

lemma entry_type_inj:
  "entry_type ip tx udp full = entry_type ip' tx' udp' full' \<longleftrightarrow> ip = ip' \<and> tx = tx' \<and> full = full' \<and> (ip \<longrightarrow> udp = udp')"
  by simp

lemma ucast_inj_32:
  "(ucast (a :: 12 word) :: u32) = ucast b \<longleftrightarrow> a = b" "(ucast (c :: u16) :: u32) = ucast d \<longleftrightarrow> c = d"
proof -
  have "a = b" if "(ucast a :: u32) = ucast b"
  proof (rule bit_word_eqI)
    fix n assume "n < LENGTH(12)"
    then show "bit a n = bit b n" using arg_cong [OF that, of "\<lambda>w. bit w n"] by (simp add: bit_simps)
  qed
  then show "(ucast a :: u32) = ucast b \<longleftrightarrow> a = b" by blast
  have "c = d" if "(ucast c :: u32) = ucast d"
  proof (rule bit_word_eqI)
    fix n assume "n < LENGTH(16)"
    then show "bit c n = bit d n" using arg_cong [OF that, of "\<lambda>w. bit w n"] by (simp add: bit_simps)
  qed
  then show "(ucast c :: u32) = ucast d \<longleftrightarrow> c = d" by blast
qed

lemma ip_entries_equal:
  assumes a: "siena_ip_spec a full = Some (Inr x)" and b: "siena_ip_spec b full = Some (Inr y)" and "gen_is_tx a = gen_is_tx b"
  shows "sfs_type x = sfs_type y \<and> entry_dwords x = entry_dwords y \<longleftrightarrow>
    efs_ip_proto a = efs_ip_proto b \<and> efs_loc_host a ! 0 = efs_loc_host b ! 0 \<and> efs_loc_port a = efs_loc_port b
    \<and> (full \<longrightarrow> efs_rem_host a ! 0 = efs_rem_host b ! 0 \<and> efs_rem_port a = efs_rem_port b)"
proof -
  have p: "EFX_IPPROTO_TCP \<noteq> EFX_IPPROTO_UDP" by (simp add: EFX_IPPROTO_TCP_def EFX_IPPROTO_UDP_def)
  show ?thesis
    using ip_specD [OF a] ip_specD [OF b] assms(3) p
    by (cases "gen_is_tx b"; cases full; cases "efs_ip_proto a = EFX_IPPROTO_UDP"; cases "efs_ip_proto b = EFX_IPPROTO_UDP")
      (auto simp: pack_dwords_eq)
qed

lemma mac_entries_equal:
  assumes a: "siena_mac_spec a full = Some (Inr x)" and b: "siena_mac_spec b full = Some (Inr y)" and "gen_is_tx a = gen_is_tx b"
  shows "sfs_type x = sfs_type y \<and> entry_dwords x = entry_dwords y \<longleftrightarrow>
    take 6 (efs_loc_mac a) = take 6 (efs_loc_mac b) \<and> (full \<longrightarrow> efs_outer_vid a = efs_outer_vid b)"
proof -
  obtain p q r s t u where A: "take 6 (efs_loc_mac a) = [p, q, r, s, t, u]"
      "entry_dwords x = (if full then ucast (efs_outer_vid a) else 0,
          push_bit 24 (ucast r) OR push_bit 16 (ucast s) OR push_bit 8 (ucast t) OR ucast u, push_bit 8 (ucast p) OR ucast q)"
    using mac_specD [OF a] by blast
  obtain p' q' r' s' t' u' where B: "take 6 (efs_loc_mac b) = [p', q', r', s', t', u']"
      "entry_dwords y = (if full then ucast (efs_outer_vid b) else 0,
          push_bit 24 (ucast r') OR push_bit 16 (ucast s') OR push_bit 8 (ucast t') OR ucast u', push_bit 8 (ucast p') OR ucast q')"
    using mac_specD [OF b] by blast
  have "sfs_type x = sfs_type y"
    using mac_specD [OF a, of True] mac_specD [OF b, of True] assms(3) by simp
  then show ?thesis
    unfolding A B prod.inject pack_mac [of r s t u r' s' t' u' p q p' q', symmetric] by (auto simp: ucast_inj_32)
qed

lemma kind_flags:
  assumes "siena_filter_spec_from_gen_spec g = Some (Inr x)"
  shows "efs_match_flags g = (if gen_is_ip g then if gen_is_full g then 0x26b else 0x262 else if gen_is_full g then 0x110 else 0x10)"
  by (rule translate_cases [OF assms]) (simp_all add: ipv4_full_flags_def ipv4_local_flags_def EFX_FILTER_MATCH_REM_HOST_def
    EFX_FILTER_MATCH_LOC_HOST_def EFX_FILTER_MATCH_REM_PORT_def EFX_FILTER_MATCH_LOC_MAC_def EFX_FILTER_MATCH_LOC_PORT_def
    EFX_FILTER_MATCH_ETHER_TYPE_def EFX_FILTER_MATCH_OUTER_VID_def EFX_FILTER_MATCH_IP_PROTO_def)

text \<open>
  The translation to entries loses nothing that matters: two specifications that the driver accepts become entries
  that it takes to be equal exactly when they match the same packets (and, for transmit filters, name the same queue).
\<close>

theorem siena_filter_spec_equal:
  assumes a: "siena_filter_spec_from_gen_spec a = Some (Inr x)" and b: "siena_filter_spec_from_gen_spec b = Some (Inr y)"
  shows "siena_filter_equal x y \<longleftrightarrow> filter_tuple a = filter_tuple b"
proof -
  have e: "sfs_type z = entry_type (gen_is_ip g) (gen_is_tx g) (efs_ip_proto g = EFX_IPPROTO_UDP) (gen_is_full g)
      \<and> sfs_dmaq_id z = ucast (efs_dmaq_id g)" if "siena_filter_spec_from_gen_spec g = Some (Inr z)" for g z
    using that
  proof (rule translate_cases)
    assume "gen_is_ip g" "siena_ip_spec g (gen_is_full g) = Some (Inr z)"
    then show ?thesis using ip_specD [of g "gen_is_full g" z] by simp
  next
    assume "\<not> gen_is_ip g" "siena_mac_spec g (gen_is_full g) = Some (Inr z)"
    then show ?thesis using mac_specD [of g "gen_is_full g" z] by simp
  qed
  have flags: "efs_match_flags a = efs_match_flags b \<longleftrightarrow> gen_is_ip a = gen_is_ip b \<and> gen_is_full a = gen_is_full b"
    using kind_flags [of a x] kind_flags [of b y] a b by (cases "gen_is_ip a"; cases "gen_is_ip b"; cases "gen_is_full a"; cases "gen_is_full b") simp_all
  have tx: "siena_is_tx (sfs_type x) = gen_is_tx a" by (simp only: e [OF a] entry_type_tx)
  show ?thesis
  proof (cases "gen_is_ip a = gen_is_ip b \<and> gen_is_tx a = gen_is_tx b \<and> gen_is_full a = gen_is_full b")
    case False
    then have "sfs_type x \<noteq> sfs_type y" by (simp only: e [OF a] e [OF b] entry_type_inj) blast
    moreover have "filter_tuple a \<noteq> filter_tuple b" using False flags by (auto simp: filter_tuple_def)
    ultimately show ?thesis by (simp add: equal_alt)
  next
    case True
    have q: "sfs_dmaq_id x = sfs_dmaq_id y \<longleftrightarrow> efs_dmaq_id a = efs_dmaq_id b" using e [OF a] e [OF b] by (simp add: ucast_inj_32)
    show ?thesis
    proof (cases "gen_is_ip a")
      case ip: True
      have "siena_ip_spec a (gen_is_full a) = Some (Inr x)"
        by (rule translate_cases [OF a]) (use ip in simp_all)
      moreover have "siena_ip_spec b (gen_is_full a) = Some (Inr y)"
        by (rule translate_cases [OF b]) (use ip True in simp_all)
      ultimately show ?thesis using ip_entries_equal [of a "gen_is_full a" x b y] True ip flags by (auto simp: equal_alt filter_tuple_def tx q)
    next
      case mac: False
      have "siena_mac_spec a (gen_is_full a) = Some (Inr x)"
        by (rule translate_cases [OF a]) (use mac in simp_all)
      moreover have "siena_mac_spec b (gen_is_full a) = Some (Inr y)"
        by (rule translate_cases [OF b]) (use mac True in simp_all)
      ultimately show ?thesis using mac_entries_equal [of a "gen_is_full a" x b y] True mac flags by (auto simp: equal_alt filter_tuple_def tx q)
    qed
  qed
qed

theorem siena_filter_spec_equal_witness:
  "\<exists>a b x y. siena_filter_spec_from_gen_spec a = Some (Inr x) \<and> siena_filter_spec_from_gen_spec b = Some (Inr y)
     \<and> siena_filter_equal x y = (filter_tuple a = filter_tuple b)"
  using siena_filter_spec_equal [OF tcp_listener_translates(2) tcp_listener_translates(2), of 80 81 1 1]
    tcp_listener_translates(2) [of 80 1] tcp_listener_translates(2) [of 81 1] by fastforce

end
