(* ===== verification/Efx_Mcdi.thy ===== *)
theory Efx_Mcdi
  imports Efx_Nvram Efx_Oword
begin

text \<open>
  The management controller (MC) command interface: \<open>src/common/efx_mcdi.c\<close>, the two transports
  \<open>src/common/siena_mcdi.c\<close> and \<open>src/common/ef10_mcdi.c\<close>, and their structures in \<open>src/common/efx_mcdi.h\<close>.

  \<^item> A request is a record; requests live in a store, and \<open>emi_pending_req\<close> is the address of one, since the caller of a
    request and the completion paths share it.
  \<^item> The controller itself is hardware. What the driver sees of it is \<open>mcdi_hw\<close>: the shared memory of Siena, the
    host buffer that EF10 firmware reads and writes by DMA, the doorbells and the status word. What the controller does to
    them between two steps of the driver is left open.
  \<^item> Every function runs to completion under the \<open>en_eslp\<close> lock or touches only the request that it took out of
    \<open>emi_pending_req\<close>, so it is one step.
\<close>

section \<open>Requests, interface state, hardware\<close>

record efx_mcdi_req =
  emr_quiet :: bool
  emr_cmd :: u32
  emr_in_buf :: "u8 list"
  emr_in_length :: nat
  emr_rc :: efx_rc
  emr_out_buf :: "u8 list option"
  emr_out_length :: nat
  emr_out_length_used :: nat
  emr_err_code :: u32
  emr_err_arg :: u32

record efx_mcdi_iface =
  emi_port :: u32
  emi_max_version :: u32
  emi_seq :: u32
  emi_pending_req :: "nat option"
  emi_ev_cpl :: bool
  emi_new_epoch :: bool
  emi_aborted :: int
  emi_poll_cnt :: u32
  emi_mc_reboot_status :: u32

record mcdi_hw =
  hw_smem :: "u32 list"
  hw_cs_debug :: efx_oword
  hw_sft_status :: u32
  hw_dma :: "u32 list"
  hw_db_lwrd :: u32
  hw_db_hwrd :: u32

text \<open>What the transports use of \<open>efx_nic_t\<close>; \<open>md_esmp\<close> is the bus address of \<open>emt_dma_mem\<close>, which may be NULL.\<close>

record mcdi_dev =
  md_family :: efx_family
  md_features :: u32
  md_privilege_mask :: u32
  md_esmp :: "u64 option"
  md_emip :: efx_mcdi_iface
  md_hw :: mcdi_hw

datatype efx_mcdi_feature_id =
  EFX_MCDI_FEATURE_FW_UPDATE | EFX_MCDI_FEATURE_LINK_CONTROL | EFX_MCDI_FEATURE_MACADDR_CHANGE
  | EFX_MCDI_FEATURE_MAC_SPOOFING | EFX_MCDI_FEATURE_NIDS

record mcdi_ops =
  emco_init :: "mcdi_dev \<Rightarrow> (efx_rc \<times> mcdi_dev) option"
  emco_send_request :: "u32 list \<Rightarrow> u8 list \<Rightarrow> nat \<Rightarrow> mcdi_dev \<Rightarrow> mcdi_dev option"
  emco_poll_reboot :: "mcdi_dev \<Rightarrow> (efx_rc \<times> mcdi_dev) option"
  emco_poll_response :: "mcdi_dev \<Rightarrow> bool option"
  emco_read_response :: "nat \<Rightarrow> nat \<Rightarrow> mcdi_dev \<Rightarrow> u8 list option"
  emco_fini :: "mcdi_dev \<Rightarrow> mcdi_dev option"
  emco_feature_supported :: "mcdi_dev \<Rightarrow> efx_mcdi_feature_id \<Rightarrow> (efx_rc + bool) option"

definition EFX_MOD_MCDI :: u32 where "EFX_MOD_MCDI = 0x00000001"
definition EFX_FEATURE_MCDI :: u32 where "EFX_FEATURE_MCDI = 0x00000020"
definition EFX_FEATURE_MCDI_DMA :: u32 where "EFX_FEATURE_MCDI_DMA = 0x00000200"

section \<open>Message headers\<close>

definition MCDI_HEADER_CODE :: "nat \<times> nat" where "MCDI_HEADER_CODE = (0, 7)"
definition MCDI_HEADER_RESYNC :: "nat \<times> nat" where "MCDI_HEADER_RESYNC = (7, 1)"
definition MCDI_HEADER_DATALEN :: "nat \<times> nat" where "MCDI_HEADER_DATALEN = (8, 8)"
definition MCDI_HEADER_SEQ :: "nat \<times> nat" where "MCDI_HEADER_SEQ = (16, 4)"
definition MCDI_HEADER_NOT_EPOCH :: "nat \<times> nat" where "MCDI_HEADER_NOT_EPOCH = (21, 1)"
definition MCDI_HEADER_ERROR :: "nat \<times> nat" where "MCDI_HEADER_ERROR = (22, 1)"
definition MCDI_HEADER_RESPONSE :: "nat \<times> nat" where "MCDI_HEADER_RESPONSE = (23, 1)"
definition MCDI_HEADER_XFLAGS :: "nat \<times> nat" where "MCDI_HEADER_XFLAGS = (24, 8)"
definition MC_CMD_V2_EXTN_IN_EXTENDED_CMD :: "nat \<times> nat" where "MC_CMD_V2_EXTN_IN_EXTENDED_CMD = (0, 15)"
definition MC_CMD_V2_EXTN_IN_ACTUAL_LEN :: "nat \<times> nat" where "MC_CMD_V2_EXTN_IN_ACTUAL_LEN = (16, 10)"

definition MCDI_HEADER_XFLAGS_EVREQ :: u32 where "MCDI_HEADER_XFLAGS_EVREQ = 0x01"
definition MC_CMD_V2_EXTN :: u32 where "MC_CMD_V2_EXTN = 0x7f"
definition MC_CMD_CMD_SPACE_ESCAPE_7 :: u32 where "MC_CMD_CMD_SPACE_ESCAPE_7 = 0x7f"
definition MCDI_CTL_SDU_LEN_MAX_V1 :: nat where "MCDI_CTL_SDU_LEN_MAX_V1 = 0xfc"
definition MCDI_CTL_SDU_LEN_MAX_V2 :: nat where "MCDI_CTL_SDU_LEN_MAX_V2 = 0x400"
definition MC_CMD_REBOOT :: u32 where "MC_CMD_REBOOT = 0x3d"

text \<open>A field of a doubleword.\<close>

definition dfield :: "u32 \<Rightarrow> nat \<times> nat \<Rightarrow> u32" where
  "dfield d f = efx_dword_field d (fst f) (snd f)"

text \<open>The sequence number of the last request, as both ends see it.\<close>

definition mcdi_seq_mask :: u32 where "mcdi_seq_mask = efx_mask32 (snd MCDI_HEADER_SEQ)"

text \<open>The header that \<open>efx_mcdi_request_start\<close> builds: one doubleword, or two for version 2.\<close>

definition mcdi_request_header :: "u32 \<Rightarrow> bool \<Rightarrow> u32 \<Rightarrow> bool \<Rightarrow> u32 \<Rightarrow> nat \<Rightarrow> u32 list" where
  "mcdi_request_header max_version new_epoch seq ev_cpl cmd in_length =
     (let xflags = (if ev_cpl then MCDI_HEADER_XFLAGS_EVREQ else 0);
          not_epoch = (if new_epoch then 0 else 1);
          dword = (\<lambda>code datalen. efx_populate_dword
            [fset MCDI_HEADER_CODE code, fset MCDI_HEADER_RESYNC 1, fset MCDI_HEADER_DATALEN datalen,
             fset MCDI_HEADER_SEQ seq, fset MCDI_HEADER_NOT_EPOCH not_epoch, fset MCDI_HEADER_ERROR 0,
             fset MCDI_HEADER_RESPONSE 0, fset MCDI_HEADER_XFLAGS xflags])
      in if 2 \<le> max_version \<and> (MC_CMD_CMD_SPACE_ESCAPE_7 < cmd \<or> MCDI_CTL_SDU_LEN_MAX_V1 < in_length)
         then [dword MC_CMD_V2_EXTN 0,
               efx_populate_dword [fset MC_CMD_V2_EXTN_IN_EXTENDED_CMD cmd, fset MC_CMD_V2_EXTN_IN_ACTUAL_LEN (of_nat in_length)]]
         else [dword cmd (of_nat in_length)])"

section \<open>The Siena transport\<close>

definition SIENA_MCDI_PDU :: "efx_mcdi_iface \<Rightarrow> nat" where
  "SIENA_MCDI_PDU emip = (if emi_port emip = 1 then 0x008 div 4 else 0x108 div 4)"

definition SIENA_MCDI_DOORBELL :: "efx_mcdi_iface \<Rightarrow> nat" where
  "SIENA_MCDI_DOORBELL emip = (if emi_port emip = 1 then 0x000 div 4 else 0x004 div 4)"

definition siena_port_ok :: "efx_mcdi_iface \<Rightarrow> bool" where
  "siena_port_ok emip = (emi_port emip = 1 \<or> emi_port emip = 2)"

definition le_dword :: "u8 list \<Rightarrow> u32" where
  "le_dword bs = hd (words_of_bytes bs)"

text \<open>The payload goes out in doublewords: the last one reads past an \<open>sdu_len\<close> that is not a multiple of four.\<close>

function siena_mcdi_write_payload :: "nat \<Rightarrow> u8 list \<Rightarrow> nat \<Rightarrow> nat \<Rightarrow> u32 list \<Rightarrow> u32 list option" where
  "siena_mcdi_write_payload pdur sdup sdu_len pos smem =
     (if pos < sdu_len
      then do {
        bytes \<leftarrow> rd_range sdup pos 4;
        smem \<leftarrow> wr smem (pdur + 1 + pos div 4) (le_dword bytes);
        siena_mcdi_write_payload pdur sdup sdu_len (pos + 4) smem }
      else Some smem)"
  by pat_completeness auto
termination by (relation "measure (\<lambda>(pdur, sdup, sdu_len, pos, smem). sdu_len - pos)") auto

definition siena_mcdi_send_request :: "u32 list \<Rightarrow> u8 list \<Rightarrow> nat \<Rightarrow> mcdi_dev \<Rightarrow> mcdi_dev option" where
  "siena_mcdi_send_request hdrp sdup sdu_len dev = do {
     efsys_assert (md_family dev = EFX_FAMILY_SIENA);
     efsys_assert (siena_port_ok (md_emip dev));
     let pdur = SIENA_MCDI_PDU (md_emip dev);
     let dbr = SIENA_MCDI_DOORBELL (md_emip dev);
     efsys_assert (length hdrp = 1);
     smem \<leftarrow> wr (hw_smem (md_hw dev)) pdur (hd hdrp);
     smem \<leftarrow> siena_mcdi_write_payload pdur sdup sdu_len 0 smem;
     smem \<leftarrow> wr smem dbr 0xd004be11;
     Some (dev\<lparr>md_hw := (md_hw dev)\<lparr>hw_smem := smem\<rparr>\<rparr>) }"

definition siena_mcdi_poll_reboot :: "mcdi_dev \<Rightarrow> (efx_rc \<times> mcdi_dev) option" where
  "siena_mcdi_poll_reboot dev = Some (RC_OK, dev)"

definition siena_mcdi_poll_response :: "mcdi_dev \<Rightarrow> bool option" where
  "siena_mcdi_poll_response dev = do {
     efsys_assert (siena_port_ok (md_emip dev));
     hdr \<leftarrow> rd (hw_smem (md_hw dev)) (SIENA_MCDI_PDU (md_emip dev));
     Some (dfield hdr MCDI_HEADER_RESPONSE \<noteq> 0) }"

text \<open>
  The copy loop of both transports: \<open>word i\<close> reads the doubleword at the byte offset \<open>i\<close>, and the last \<open>memcpy\<close> takes
  what is left of the length.
\<close>

function mcdi_read_dwords :: "(nat \<Rightarrow> u32 option) \<Rightarrow> nat \<Rightarrow> nat \<Rightarrow> nat \<Rightarrow> u8 list option" where
  "mcdi_read_dwords word offset len pos =
     (if pos < len
      then do {
        data \<leftarrow> word (offset + pos);
        rest \<leftarrow> mcdi_read_dwords word offset len (pos + 4);
        Some (take (len - pos) (bytes_of_word data) @ rest) }
      else Some [])"
  by pat_completeness auto
termination by (relation "measure (\<lambda>(word, offset, len, pos). len - pos)") auto

definition siena_mcdi_read_response :: "nat \<Rightarrow> nat \<Rightarrow> mcdi_dev \<Rightarrow> u8 list option" where
  "siena_mcdi_read_response offset len dev = do {
     efsys_assert (siena_port_ok (md_emip dev));
     let pdur = SIENA_MCDI_PDU (md_emip dev);
     mcdi_read_dwords (\<lambda>i. rd (hw_smem (md_hw dev)) (pdur + i div 4)) offset len 0 }"

definition siena_mcdi_init :: "mcdi_dev \<Rightarrow> (efx_rc \<times> mcdi_dev) option" where
  "siena_mcdi_init dev = do {
     efsys_assert (md_family dev = EFX_FAMILY_SIENA);
     let emip = md_emip dev;
     let portnum = efx_oword_field (hw_cs_debug (md_hw dev)) 40 2;
     if 2 < portnum then Some (EINVAL, dev)
     else do {
       let emip = emip\<lparr>emi_port := (if portnum = 0 then 1 else portnum)\<rparr>;
       let dev = dev\<lparr>md_emip := emip\<lparr>emi_max_version := 1\<rparr>\<rparr>;
       (_, dev) \<leftarrow> siena_mcdi_poll_reboot dev;
       Some (RC_OK, dev) } }"

definition siena_mcdi_fini :: "mcdi_dev \<Rightarrow> mcdi_dev option" where
  "siena_mcdi_fini dev = Some dev"

definition siena_mcdi_feature_supported :: "mcdi_dev \<Rightarrow> efx_mcdi_feature_id \<Rightarrow> (efx_rc + bool) option" where
  "siena_mcdi_feature_supported dev fid = do {
     efsys_assert (md_family dev = EFX_FAMILY_SIENA);
     Some (case fid of
         EFX_MCDI_FEATURE_FW_UPDATE \<Rightarrow> Inr True
       | EFX_MCDI_FEATURE_LINK_CONTROL \<Rightarrow> Inr True
       | EFX_MCDI_FEATURE_MACADDR_CHANGE \<Rightarrow> Inr True
       | EFX_MCDI_FEATURE_MAC_SPOOFING \<Rightarrow> Inr True
       | _ \<Rightarrow> Inl ENOTSUP) }"

section \<open>The EF10 transport\<close>

definition ef10_family :: "mcdi_dev \<Rightarrow> bool" where
  "ef10_family dev = (md_family dev = EFX_FAMILY_HUNTINGTON \<or> md_family dev = EFX_FAMILY_MEDFORD)"

definition mem_readd :: "u32 list \<Rightarrow> nat \<Rightarrow> u32 option" where
  "mem_readd mem offset = do { efsys_assert (offset mod 4 = 0); rd mem (offset div 4) }"

definition mem_writed :: "u32 list \<Rightarrow> nat \<Rightarrow> u32 \<Rightarrow> u32 list option" where
  "mem_writed mem offset v = do { efsys_assert (offset mod 4 = 0); wr mem (offset div 4) v }"

fun ef10_mcdi_write_header :: "u32 list \<Rightarrow> nat \<Rightarrow> u32 list \<Rightarrow> u32 list option" where
  "ef10_mcdi_write_header [] pos mem = Some mem"
| "ef10_mcdi_write_header (dword # hdrp) pos mem = do { mem \<leftarrow> mem_writed mem pos dword; ef10_mcdi_write_header hdrp (pos + 4) mem }"

function ef10_mcdi_write_payload :: "nat \<Rightarrow> u8 list \<Rightarrow> nat \<Rightarrow> nat \<Rightarrow> u32 list \<Rightarrow> u32 list option" where
  "ef10_mcdi_write_payload hdr_len sdup sdu_len pos mem =
     (if pos < sdu_len
      then do {
        bytes \<leftarrow> rd_range sdup pos 4;
        mem \<leftarrow> mem_writed mem (hdr_len + pos) (le_dword bytes);
        ef10_mcdi_write_payload hdr_len sdup sdu_len (pos + 4) mem }
      else Some mem)"
  by pat_completeness auto
termination by (relation "measure (\<lambda>(hdr_len, sdup, sdu_len, pos, mem). sdu_len - pos)") auto

definition ef10_mcdi_send_request :: "u32 list \<Rightarrow> u8 list \<Rightarrow> nat \<Rightarrow> mcdi_dev \<Rightarrow> mcdi_dev option" where
  "ef10_mcdi_send_request hdrp sdup sdu_len dev = do {
     addr \<leftarrow> md_esmp dev;
     efsys_assert (ef10_family dev);
     mem \<leftarrow> ef10_mcdi_write_header hdrp 0 (hw_dma (md_hw dev));
     mem \<leftarrow> ef10_mcdi_write_payload (4 * length hdrp) sdup sdu_len 0 mem;
     let hw = (md_hw dev)\<lparr>hw_dma := mem\<rparr>;
     let hw = hw\<lparr>hw_db_lwrd := ucast (drop_bit 32 addr)\<rparr>;
     let hw = hw\<lparr>hw_db_hwrd := ucast (addr AND 0xffffffff)\<rparr>;
     Some (dev\<lparr>md_hw := hw\<rparr>) }"

definition ef10_mcdi_poll_response :: "mcdi_dev \<Rightarrow> bool option" where
  "ef10_mcdi_poll_response dev = do {
     _ \<leftarrow> md_esmp dev;
     hdr \<leftarrow> mem_readd (hw_dma (md_hw dev)) 0;
     Some (dfield hdr MCDI_HEADER_RESPONSE \<noteq> 0) }"

definition ef10_mcdi_read_response :: "nat \<Rightarrow> nat \<Rightarrow> mcdi_dev \<Rightarrow> u8 list option" where
  "ef10_mcdi_read_response offset len dev = do {
     _ \<leftarrow> md_esmp dev;
     mcdi_read_dwords (mem_readd (hw_dma (md_hw dev))) offset len 0 }"

definition ef10_mcdi_poll_reboot :: "mcdi_dev \<Rightarrow> (efx_rc \<times> mcdi_dev) option" where
  "ef10_mcdi_poll_reboot dev =
     (let old_status = emi_mc_reboot_status (md_emip dev);
          new_status = hw_sft_status (md_hw dev);
          dev = (if new_status \<noteq> old_status then dev\<lparr>md_emip := (md_emip dev)\<lparr>emi_mc_reboot_status := new_status\<rparr>\<rparr> else dev)
      in Some (RC_OK, dev))"

definition ef10_mcdi_init :: "mcdi_dev \<Rightarrow> (efx_rc \<times> mcdi_dev) option" where
  "ef10_mcdi_init dev = do {
     efsys_assert (ef10_family dev);
     efsys_assert (md_features dev AND EFX_FEATURE_MCDI_DMA \<noteq> 0);
     let dev = dev\<lparr>md_emip := (md_emip dev)\<lparr>emi_max_version := 2\<rparr>\<rparr>;
     case md_esmp dev of
       None \<Rightarrow> Some (EINVAL, dev)
     | Some addr \<Rightarrow>
         if addr AND 0xFF \<noteq> 0 then Some (EINVAL, dev)
         else do {
           let dev = dev\<lparr>md_hw := (md_hw dev)\<lparr>hw_db_hwrd := 1\<rparr>\<rparr>;
           (_, dev) \<leftarrow> ef10_mcdi_poll_reboot dev;
           Some (RC_OK, dev\<lparr>md_emip := (md_emip dev)\<lparr>emi_new_epoch := True\<rparr>\<rparr>) } }"

definition ef10_mcdi_fini :: "mcdi_dev \<Rightarrow> mcdi_dev option" where
  "ef10_mcdi_fini dev = Some (dev\<lparr>md_emip := (md_emip dev)\<lparr>emi_new_epoch := False\<rparr>\<rparr>)"

definition efx_mcdi_have_privilege :: "u32 \<Rightarrow> u32 \<Rightarrow> bool" where
  "efx_mcdi_have_privilege pmask priv = (pmask AND priv = priv)"

definition ef10_mcdi_feature_supported :: "mcdi_dev \<Rightarrow> efx_mcdi_feature_id \<Rightarrow> (efx_rc + bool) option" where
  "ef10_mcdi_feature_supported dev fid = do {
     efsys_assert (ef10_family dev);
     let have = efx_mcdi_have_privilege (md_privilege_mask dev);
     let ADMIN = have 0x1; let LINK = have 0x2; let MAC_SPOOFING = have 0x20;
     let MAC_SPOOFING_TX = have 0x800; let CHANGE_MAC = have 0x1000;
     Some (case fid of
         EFX_MCDI_FEATURE_FW_UPDATE \<Rightarrow> Inr ADMIN
       | EFX_MCDI_FEATURE_LINK_CONTROL \<Rightarrow> Inr (LINK \<or> ADMIN)
       | EFX_MCDI_FEATURE_MACADDR_CHANGE \<Rightarrow> Inr (CHANGE_MAC \<or> MAC_SPOOFING \<or> ADMIN)
       | EFX_MCDI_FEATURE_MAC_SPOOFING \<Rightarrow> Inr (MAC_SPOOFING_TX \<or> MAC_SPOOFING \<or> ADMIN)
       | _ \<Rightarrow> Inl ENOTSUP) }"

declare siena_mcdi_write_payload.simps [simp del] ef10_mcdi_write_payload.simps [simp del] mcdi_read_dwords.simps [simp del]

section \<open>The interface\<close>

definition efx_mcdi_siena_ops :: mcdi_ops where
  "efx_mcdi_siena_ops = \<lparr>emco_init = siena_mcdi_init, emco_send_request = siena_mcdi_send_request,
     emco_poll_reboot = siena_mcdi_poll_reboot, emco_poll_response = siena_mcdi_poll_response,
     emco_read_response = siena_mcdi_read_response, emco_fini = siena_mcdi_fini,
     emco_feature_supported = siena_mcdi_feature_supported\<rparr>"

definition efx_mcdi_ef10_ops :: mcdi_ops where
  "efx_mcdi_ef10_ops = \<lparr>emco_init = ef10_mcdi_init, emco_send_request = ef10_mcdi_send_request,
     emco_poll_reboot = ef10_mcdi_poll_reboot, emco_poll_response = ef10_mcdi_poll_response,
     emco_read_response = ef10_mcdi_read_response, emco_fini = ef10_mcdi_fini,
     emco_feature_supported = ef10_mcdi_feature_supported\<rparr>"

datatype efx_mcdi_exception = EFX_MCDI_EXCEPTION_MC_REBOOT | EFX_MCDI_EXCEPTION_MC_BADASSERT

text \<open>The callbacks that the driver registers act on its own context \<open>'c\<close>; \<open>emt_dma_addr\<close> is the address of \<open>emt_dma_mem\<close>.\<close>

record 'c mcdi_transport =
  emt_dma_addr :: "u64 option"
  emt_ev_cpl :: "'c \<Rightarrow> 'c option"
  emt_exception :: "efx_mcdi_exception \<Rightarrow> 'c \<Rightarrow> 'c option"

record 'c mcdi_nic =
  mn_mod_flags :: u32
  mn_dev :: mcdi_dev
  mn_emcop :: "mcdi_ops option"
  mn_emtp :: "'c mcdi_transport option"
  mn_ctx :: 'c
  mn_reqs :: "nat \<Rightarrow> efx_mcdi_req"

abbreviation mn_emip :: "'c mcdi_nic \<Rightarrow> efx_mcdi_iface" where
  "mn_emip enp \<equiv> md_emip (mn_dev enp)"

definition mcdi_set_emip :: "efx_mcdi_iface \<Rightarrow> 'c mcdi_nic \<Rightarrow> 'c mcdi_nic" where
  "mcdi_set_emip emip enp = enp\<lparr>mn_dev := (mn_dev enp)\<lparr>md_emip := emip\<rparr>\<rparr>"

definition mcdi_set_hw :: "mcdi_hw \<Rightarrow> 'c mcdi_nic \<Rightarrow> 'c mcdi_nic" where
  "mcdi_set_hw hw enp = enp\<lparr>mn_dev := (mn_dev enp)\<lparr>md_hw := hw\<rparr>\<rparr>"

definition mcdi_set_req :: "nat \<Rightarrow> efx_mcdi_req \<Rightarrow> 'c mcdi_nic \<Rightarrow> 'c mcdi_nic" where
  "mcdi_set_req emrp req enp = enp\<lparr>mn_reqs := (mn_reqs enp)(emrp := req)\<rparr>"

definition mcdi_ready :: "'c mcdi_nic \<Rightarrow> bool" where
  "mcdi_ready enp = (mn_mod_flags enp AND EFX_MOD_MCDI \<noteq> 0 \<and> md_features (mn_dev enp) AND EFX_FEATURE_MCDI \<noteq> 0)"

definition efx_mcdi_init :: "'c mcdi_nic \<Rightarrow> 'c mcdi_transport option \<Rightarrow> (efx_rc \<times> 'c mcdi_nic) option" where
  "efx_mcdi_init enp emtp = do {
     efsys_assert (mn_mod_flags enp = 0);
     let failed = (\<lambda>enp. enp\<lparr>mn_emcop := None, mn_emtp := None, mn_dev := (mn_dev enp)\<lparr>md_esmp := None\<rparr>,
                             mn_mod_flags := mn_mod_flags enp AND NOT EFX_MOD_MCDI\<rparr>);
     emcop \<leftarrow> (case md_family (mn_dev enp) of
         EFX_FAMILY_SIENA \<Rightarrow> Some efx_mcdi_siena_ops
       | EFX_FAMILY_HUNTINGTON \<Rightarrow> Some efx_mcdi_ef10_ops
       | _ \<Rightarrow> None);
     let esmp = Option.bind emtp emt_dma_addr;
     if md_features (mn_dev enp) AND EFX_FEATURE_MCDI_DMA \<noteq> 0 \<and> esmp = None then Some (EINVAL, failed enp)
     else do {
       let enp = enp\<lparr>mn_emtp := emtp, mn_dev := (mn_dev enp)\<lparr>md_esmp := esmp\<rparr>\<rparr>;
       (rc, dev) \<leftarrow> emco_init emcop (mn_dev enp);
       let enp = enp\<lparr>mn_dev := dev\<rparr>;
       if rc \<noteq> RC_OK then Some (rc, failed enp)
       else Some (RC_OK, enp\<lparr>mn_emcop := Some emcop, mn_mod_flags := mn_mod_flags enp OR EFX_MOD_MCDI\<rparr>) } }"

definition efx_mcdi_fini :: "'c mcdi_nic \<Rightarrow> 'c mcdi_nic option" where
  "efx_mcdi_fini enp = do {
     efsys_assert (mn_mod_flags enp = EFX_MOD_MCDI);
     dev \<leftarrow> (case mn_emcop enp of None \<Rightarrow> Some (mn_dev enp) | Some emcop \<Rightarrow> emco_fini emcop (mn_dev enp));
     let dev = dev\<lparr>md_emip := (md_emip dev)\<lparr>emi_port := 0, emi_aborted := 0\<rparr>\<rparr>;
     Some (enp\<lparr>mn_dev := dev, mn_emcop := None, mn_mod_flags := mn_mod_flags enp AND NOT EFX_MOD_MCDI\<rparr>) }"

definition efx_mcdi_new_epoch :: "'c mcdi_nic \<Rightarrow> 'c mcdi_nic" where
  "efx_mcdi_new_epoch enp = mcdi_set_emip ((mn_emip enp)\<lparr>emi_new_epoch := True\<rparr>) enp"

definition efx_mcdi_send_request :: "'c mcdi_nic \<Rightarrow> u32 list \<Rightarrow> u8 list \<Rightarrow> nat \<Rightarrow> 'c mcdi_nic option" where
  "efx_mcdi_send_request enp hdrp sdup sdu_len = do {
     emcop \<leftarrow> mn_emcop enp;
     dev \<leftarrow> emco_send_request emcop hdrp sdup sdu_len (mn_dev enp);
     Some (enp\<lparr>mn_dev := dev\<rparr>) }"

definition efx_mcdi_poll_reboot :: "'c mcdi_nic \<Rightarrow> (efx_rc \<times> 'c mcdi_nic) option" where
  "efx_mcdi_poll_reboot enp = do {
     emcop \<leftarrow> mn_emcop enp;
     (rc, dev) \<leftarrow> emco_poll_reboot emcop (mn_dev enp);
     Some (rc, enp\<lparr>mn_dev := dev\<rparr>) }"

definition efx_mcdi_poll_response :: "'c mcdi_nic \<Rightarrow> bool option" where
  "efx_mcdi_poll_response enp = do { emcop \<leftarrow> mn_emcop enp; emco_poll_response emcop (mn_dev enp) }"

definition efx_mcdi_read_response :: "'c mcdi_nic \<Rightarrow> nat \<Rightarrow> nat \<Rightarrow> u8 list option" where
  "efx_mcdi_read_response enp offset len = do { emcop \<leftarrow> mn_emcop enp; emco_read_response emcop offset len (mn_dev enp) }"

section \<open>Requests\<close>

definition efx_mcdi_request_start :: "'c mcdi_nic \<Rightarrow> nat \<Rightarrow> bool \<Rightarrow> 'c mcdi_nic option" where
  "efx_mcdi_request_start enp emrp ev_cpl = do {
     efsys_assert (mcdi_ready enp);
     let emip = mn_emip enp;
     efsys_assert (emi_pending_req emip = None);
     let seq = emi_seq emip AND mcdi_seq_mask;
     let new_epoch = emi_new_epoch emip;
     let max_version = emi_max_version emip;
     let emip = emip\<lparr>emi_pending_req := Some emrp, emi_ev_cpl := ev_cpl, emi_poll_cnt := 0, emi_seq := emi_seq emip + 1\<rparr>;
     let enp = mcdi_set_emip emip enp;
     let req = mn_reqs enp emrp;
     let hdr = mcdi_request_header max_version new_epoch seq ev_cpl (emr_cmd req) (emr_in_length req);
     efx_mcdi_send_request enp hdr (emr_in_buf req) (emr_in_length req) }"

definition efx_mcdi_request_errcode :: "u32 \<Rightarrow> efx_rc" where
  "efx_mcdi_request_errcode err =
     (if err = 1 then EACCES else if err = 2 then ENOENT else if err = 4 then EINTR else if err = 13 then EACCES
      else if err = 16 then EBUSY else if err = 22 then EINVAL else if err = 35 then EDEADLK else if err = 38 then ENOTSUP
      else if err = 62 then ETIMEDOUT else if err = 95 then ENOTSUP else if err = 114 then EALREADY
      else if err = 11 then EAGAIN else if err = 28 then ENOSPC
      else if err = 0x1000 then ENOMEM else if err = 0x1001 then ENOENT else if err = 0x1002 then ENOENT
      else if err = 0x1003 then ENODEV else if err = 0x1004 then EINVAL else if err = 0x1005 then ENODEV
      else if err = 0x1006 then EINVAL else if err = 0x1007 then EINVAL else if err = 0x1008 then EINVAL
      else if err = 0x1009 then EEXIST else if err = 0x1010 then EAGAIN
      else EIO)"

text \<open>
  The header of a response. The result is the code, sequence number, error flag, data length and header length; the second
  doubleword exists only in the version 2 format.
\<close>

definition mcdi_parse_header :: "'c mcdi_nic \<Rightarrow> (u32 \<times> u32 \<times> u32 \<times> nat \<times> nat) option" where
  "mcdi_parse_header enp = do {
     hdr0 \<leftarrow> efx_mcdi_read_response enp 0 4;
     let hdr0 = le_dword hdr0;
     let cmd = dfield hdr0 MCDI_HEADER_CODE;
     let seq = dfield hdr0 MCDI_HEADER_SEQ;
     let error = dfield hdr0 MCDI_HEADER_ERROR;
     if cmd \<noteq> MC_CMD_V2_EXTN then Some (cmd, seq, error, unat (dfield hdr0 MCDI_HEADER_DATALEN), 4)
     else do {
       hdr1 \<leftarrow> efx_mcdi_read_response enp 4 4;
       let hdr1 = le_dword hdr1;
       Some (dfield hdr1 MC_CMD_V2_EXTN_IN_EXTENDED_CMD, seq, error, unat (dfield hdr1 MC_CMD_V2_EXTN_IN_ACTUAL_LEN), 8) } }"

definition efx_mcdi_read_response_header :: "'c mcdi_nic \<Rightarrow> nat \<Rightarrow> 'c mcdi_nic option" where
  "efx_mcdi_read_response_header enp emrp = do {
     (cmd, seq, error, data_len, hdr_len) \<leftarrow> mcdi_parse_header enp;
     let req = mn_reqs enp emrp;
     let fail = (\<lambda>enp req rc. mcdi_set_req emrp (req\<lparr>emr_rc := rc, emr_out_length_used := 0\<rparr>) enp);
     if error \<noteq> 0 \<and> data_len = 0 then do { (_, enp) \<leftarrow> efx_mcdi_poll_reboot enp; Some (fail enp req EIO) }
     else if cmd \<noteq> emr_cmd req \<or> seq \<noteq> (emi_seq (mn_emip enp) - 1) AND mcdi_seq_mask then Some (fail enp req EIO)
     else if error \<noteq> 0 then do {
       let err_len = min data_len 8;
       err \<leftarrow> efx_mcdi_read_response enp hdr_len err_len;
       let err_code = (if 4 \<le> err_len then le_dword (take 4 err) else 71);
       let err_arg = (if 8 \<le> err_len then le_dword (drop 4 err) else 0);
       let req = req\<lparr>emr_err_code := err_code, emr_err_arg := err_arg\<rparr>;
       Some (fail enp req (efx_mcdi_request_errcode err_code)) }
     else Some (mcdi_set_req emrp (req\<lparr>emr_rc := RC_OK, emr_out_length_used := data_len\<rparr>) enp) }"

definition efx_mcdi_finish_response :: "'c mcdi_nic \<Rightarrow> nat \<Rightarrow> 'c mcdi_nic option" where
  "efx_mcdi_finish_response enp emrp =
     (let req = mn_reqs enp emrp in
      case emr_out_buf req of
        None \<Rightarrow> Some enp
      | Some out_buf \<Rightarrow> do {
          hdr0 \<leftarrow> efx_mcdi_read_response enp 0 4;
          (hdr_len, used) \<leftarrow>
            (if dfield (le_dword hdr0) MCDI_HEADER_CODE = MC_CMD_V2_EXTN
             then do { hdr1 \<leftarrow> efx_mcdi_read_response enp 4 4;
                       Some (8, unat (dfield (le_dword hdr1) MC_CMD_V2_EXTN_IN_ACTUAL_LEN)) }
             else Some (4, emr_out_length_used req));
          let bytes = min used (emr_out_length req);
          data \<leftarrow> efx_mcdi_read_response enp hdr_len bytes;
          out_buf \<leftarrow> wr_range out_buf 0 data;
          Some (mcdi_set_req emrp (req\<lparr>emr_out_length_used := used, emr_out_buf := Some out_buf\<rparr>) enp) })"

definition efx_mcdi_raise_exception :: "'c mcdi_nic \<Rightarrow> nat option \<Rightarrow> efx_rc \<Rightarrow> 'c mcdi_nic option" where
  "efx_mcdi_raise_exception enp emrp rc = do {
     efsys_assert (rc = EIO \<or> rc = EINTR);
     if (case emrp of None \<Rightarrow> False | Some r \<Rightarrow> emr_cmd (mn_reqs enp r) = MC_CMD_REBOOT) \<and> rc = EIO then Some enp
     else do {
       emtp \<leftarrow> mn_emtp enp;
       ctx \<leftarrow> emt_exception emtp (if rc = EIO then EFX_MCDI_EXCEPTION_MC_REBOOT else EFX_MCDI_EXCEPTION_MC_BADASSERT) (mn_ctx enp);
       Some (enp\<lparr>mn_ctx := ctx\<rparr>) } }"

text \<open>The exit of \<open>efx_mcdi_request_poll\<close> at \<open>fail1\<close>.\<close>

definition mcdi_poll_failed :: "'c mcdi_nic \<Rightarrow> nat \<Rightarrow> efx_rc \<Rightarrow> (bool \<times> 'c mcdi_nic) option" where
  "mcdi_poll_failed enp emrp rc = do {
     enp \<leftarrow> (if rc = EIO \<or> rc = EINTR then efx_mcdi_raise_exception enp (Some emrp) rc else Some enp);
     Some (True, enp) }"

definition efx_mcdi_request_poll :: "'c mcdi_nic \<Rightarrow> (bool \<times> 'c mcdi_nic) option" where
  "efx_mcdi_request_poll enp = do {
     efsys_assert (mcdi_ready enp);
     emrp \<leftarrow> emi_pending_req (mn_emip enp);
     efsys_assert (\<not> emi_ev_cpl (mn_emip enp));
     let cnt = emi_poll_cnt (mn_emip enp);
     let enp = mcdi_set_emip ((mn_emip enp)\<lparr>emi_poll_cnt := cnt + 1\<rparr>) enp;
     (rc, enp) \<leftarrow> (if cnt = 0 then efx_mcdi_poll_reboot enp else Some (RC_OK, enp));
     if rc \<noteq> RC_OK then mcdi_poll_failed (mcdi_set_emip ((mn_emip enp)\<lparr>emi_pending_req := None\<rparr>) enp) emrp rc
     else do {
       available \<leftarrow> efx_mcdi_poll_response enp;
       if \<not> available then Some (False, enp)
       else do {
         enp \<leftarrow> efx_mcdi_read_response_header enp emrp;
         let enp = mcdi_set_emip ((mn_emip enp)\<lparr>emi_pending_req := None\<rparr>) enp;
         let rc = emr_rc (mn_reqs enp emrp);
         if rc \<noteq> RC_OK then mcdi_poll_failed enp emrp rc
         else do { enp \<leftarrow> efx_mcdi_finish_response enp emrp; Some (True, enp) } } } }"

definition efx_mcdi_request_abort :: "'c mcdi_nic \<Rightarrow> (bool \<times> 'c mcdi_nic) option" where
  "efx_mcdi_request_abort enp = do {
     efsys_assert (mcdi_ready enp);
     case emi_pending_req (mn_emip enp) of
       None \<Rightarrow> Some (False, enp)
     | Some emrp \<Rightarrow>
         let emip = (mn_emip enp)\<lparr>emi_pending_req := None\<rparr>;
             enp = mcdi_set_req emrp ((mn_reqs enp emrp)\<lparr>emr_out_length_used := 0, emr_rc := ETIMEDOUT\<rparr>) enp;
             emip = (if emi_ev_cpl emip then emip\<lparr>emi_aborted := emi_aborted emip + 1\<rparr> else emip)
         in Some (True, mcdi_set_emip emip enp) }"

section \<open>Events\<close>

text \<open>Whether a completion event is the one that the pending request waits for.\<close>

definition mcdi_cpl_matches :: "'c mcdi_nic \<Rightarrow> u32 \<Rightarrow> bool" where
  "mcdi_cpl_matches enp seq =
     (emi_pending_req (mn_emip enp) \<noteq> None \<and> emi_ev_cpl (mn_emip enp) \<and> seq = (emi_seq (mn_emip enp) - 1) AND mcdi_seq_mask)"

definition mcdi_call_ev_cpl :: "'c mcdi_nic \<Rightarrow> 'c mcdi_nic option" where
  "mcdi_call_ev_cpl enp = do { emtp \<leftarrow> mn_emtp enp; ctx \<leftarrow> emt_ev_cpl emtp (mn_ctx enp); Some (enp\<lparr>mn_ctx := ctx\<rparr>) }"

definition efx_mcdi_ev_cpl :: "'c mcdi_nic \<Rightarrow> u32 \<Rightarrow> nat \<Rightarrow> u32 \<Rightarrow> 'c mcdi_nic option" where
  "efx_mcdi_ev_cpl enp seq outlen errcode = do {
     efsys_assert (mcdi_ready enp);
     let emip = mn_emip enp;
     if \<not> mcdi_cpl_matches enp seq
     then do {
       efsys_assert (0 < emi_aborted emip);
       Some (mcdi_set_emip (emip\<lparr>emi_aborted := emi_aborted emip - 1\<rparr>) enp) }
     else do {
       emrp \<leftarrow> emi_pending_req emip;
       let enp = mcdi_set_emip (emip\<lparr>emi_pending_req := None\<rparr>) enp;
       let req = mn_reqs enp emrp;
       enp \<leftarrow> (if 2 \<le> emi_max_version (mn_emip enp) then efx_mcdi_read_response_header enp emrp
               else if errcode \<noteq> 0
                 then Some (mcdi_set_req emrp (req\<lparr>emr_out_length_used := 0, emr_rc := efx_mcdi_request_errcode errcode\<rparr>) enp)
                 else Some (mcdi_set_req emrp (req\<lparr>emr_out_length_used := outlen, emr_rc := RC_OK\<rparr>) enp));
       enp \<leftarrow> (if errcode = 0 then efx_mcdi_finish_response enp emrp else Some enp);
       mcdi_call_ev_cpl enp } }"

definition efx_mcdi_ev_death :: "'c mcdi_nic \<Rightarrow> efx_rc \<Rightarrow> 'c mcdi_nic option" where
  "efx_mcdi_ev_death enp rc = do {
     let emrp = emi_pending_req (mn_emip enp);
     let ev_cpl = emi_ev_cpl (mn_emip enp);
     let enp = (case emrp of
         Some r \<Rightarrow>
           if ev_cpl
           then mcdi_set_emip ((mn_emip enp)\<lparr>emi_pending_req := None, emi_aborted := emi_aborted (mn_emip enp) + 1\<rparr>)
                  (mcdi_set_req r ((mn_reqs enp r)\<lparr>emr_out_length_used := 0, emr_rc := rc\<rparr>) enp)
           else enp
       | None \<Rightarrow> enp);
     enp \<leftarrow> (if rc = EIO \<or> rc = EINTR then do { (_, enp) \<leftarrow> efx_mcdi_poll_reboot enp; Some (efx_mcdi_new_epoch enp) } else Some enp);
     enp \<leftarrow> efx_mcdi_raise_exception enp emrp rc;
     if emrp \<noteq> None \<and> ev_cpl then mcdi_call_ev_cpl enp else Some enp }"

end
