(* ===== verification/Efx_Mcdi_Channel.thy ===== *)
theory Efx_Mcdi_Channel
  imports Efx_Mcdi
begin

text \<open>
  The contract between the MCDI code and a transport: the locale \<open>mcdi_channel\<close>, interpreted on the Siena and the EF10
  operations. A transport shows the driver a message buffer (the PDU), a list of doublewords.
\<close>

section \<open>Doublewords and bytes\<close>

lemma length_bytes_of_word [simp]: "length (bytes_of_word w) = 4"
  by (simp add: bytes_of_word_def)

lemma length_bytes_of_words [simp]: "length (bytes_of_words ws) = 4 * length ws"
  by (induction ws) simp_all

lemma dword_of_bytes: "ucast (ucast w :: u8) OR push_bit 8 (ucast (ucast (drop_bit 8 w) :: u8))
    OR push_bit 16 (ucast (ucast (drop_bit 16 w) :: u8)) OR push_bit 24 (ucast (ucast (drop_bit 24 w) :: u8)) = (w :: u32)"
proof (rule bit_word_eqI)
  fix n assume "n < LENGTH(32)"
  then consider "n < 8" | "8 \<le> n" "n < 16" | "16 \<le> n" "n < 24" | "24 \<le> n" "n < 32" by force
  then show "bit (ucast (ucast w :: u8) OR push_bit 8 (ucast (ucast (drop_bit 8 w) :: u8))
    OR push_bit 16 (ucast (ucast (drop_bit 16 w) :: u8)) OR push_bit 24 (ucast (ucast (drop_bit 24 w) :: u8)) :: u32) n = bit w n"
    by cases (auto simp: bit_simps)
qed

lemma words_of_bytes_word [simp]: "words_of_bytes (bytes_of_word w @ bs) = w # words_of_bytes bs"
  by (simp add: bytes_of_word_def dword_of_bytes)

lemma le_dword_bytes [simp]: "le_dword (bytes_of_word w) = w"
  using words_of_bytes_word [of w "[]"] by (simp add: le_dword_def)

lemma drop_bytes_of_words: "drop (4 * i) (bytes_of_words ws) = bytes_of_words (drop i ws)"
proof (induction ws arbitrary: i)
  case (Cons w ws)
  show ?case
  proof (cases i)
    case (Suc j)
    have "drop (4 * i) (bytes_of_words (w # ws)) = drop (4 * j) (drop 4 (bytes_of_word w @ bytes_of_words ws))"
      by (simp only: Suc drop_drop) simp
    then show ?thesis using Suc Cons.IH by simp
  qed simp
qed simp

lemma drop_bytes_at:
  "i < length ws \<Longrightarrow> drop (4 * i) (bytes_of_words ws) = bytes_of_word (ws ! i) @ drop (4 * (i + 1)) (bytes_of_words ws)"
  by (simp only: drop_bytes_of_words Cons_nth_drop_Suc [symmetric] bytes_of_words_simps Suc_eq_plus1)

lemma mcdi_read_dwords_pdu:
  assumes word: "\<And>i. i < length ws \<Longrightarrow> word (4 * i) = Some (ws ! i)"
  shows "offset + len \<le> 4 * length ws \<Longrightarrow> offset = 4 * i \<Longrightarrow> pos = 4 * j
    \<Longrightarrow> mcdi_read_dwords word offset len pos = Some (take (len - pos) (drop (offset + pos) (bytes_of_words ws)))"
  using word
proof (induction word offset len pos arbitrary: j rule: mcdi_read_dwords.induct)
  case (1 word offset len pos)
  show ?case
  proof (cases "pos < len")
    case True
    then have k: "i + j < length ws" using 1 by simp
    have at: "drop (offset + pos) (bytes_of_words ws)
        = bytes_of_word (ws ! (i + j)) @ drop (offset + (pos + 4)) (bytes_of_words ws)"
      using drop_bytes_at [OF k] 1(3,4) by (simp add: algebra_simps)
    have "word (offset + pos) = Some (ws ! (i + j))"
      using 1(5) [OF k] 1(3,4) by (simp add: algebra_simps)
    moreover have "mcdi_read_dwords word offset len (pos + 4)
        = Some (take (len - (pos + 4)) (drop (offset + (pos + 4)) (bytes_of_words ws)))"
      by (rule 1(1) [OF True calculation 1(2,3), of "j + 1"]) (use 1(4,5) in simp_all)
    ultimately show ?thesis using True by (subst mcdi_read_dwords.simps) (simp add: at)
  qed (simp add: mcdi_read_dwords.simps)
qed

text \<open>Both transports write a payload as consecutive doublewords.\<close>

lemma wr_next: "k < length xs \<Longrightarrow> take k (xs[k := v]) = take k xs"
  by simp

lemma wr_chain:
  "k < length xs \<Longrightarrow> take (k + 1) (xs[k := w]) @ ws @ drop m (xs[k := w]) = take k xs @ (w # ws) @ drop m (xs[k := w])"
  by (simp add: take_Suc_conv_app_nth)

lemma list4: "4 \<le> length xs \<Longrightarrow> \<exists>a b c d ys. xs = a # b # c # d # ys"
  by (auto simp: numeral_eq_Suc Suc_le_length_iff)

lemma words_of_bytes_take4:
  assumes "pos + 4 \<le> length bs"
  shows "words_of_bytes (take (4 * Suc n) (drop pos bs))
    = le_dword (take 4 (drop pos bs)) # words_of_bytes (take (4 * n) (drop (pos + 4) bs))"
proof -
  obtain a b c d rest where xs: "drop pos bs = a # b # c # d # rest"
    using list4 [of "drop pos bs"] assms by (metis add_le_imp_le_diff add.commute length_drop)
  have "drop (pos + 4) bs = drop 4 (drop pos bs)" by (simp add: add.commute)
  then have "drop (pos + 4) bs = rest" by (simp add: xs)
  moreover have four: "4 * Suc n = Suc (Suc (Suc (Suc (4 * n))))" by simp
  ultimately show ?thesis unfolding four xs by (simp add: le_dword_def)
qed

text \<open>Writing \<open>n\<close> doublewords from the position \<open>k\<close> on.\<close>

definition put_words :: "u32 list \<Rightarrow> nat \<Rightarrow> u32 list \<Rightarrow> u32 list" where
  "put_words mem k ws = take k mem @ ws @ drop (k + length ws) mem"

lemma put_words_Nil [simp]: "put_words mem k [] = mem"
  by (simp add: put_words_def)

lemma length_put_words [simp]: "k + length ws \<le> length mem \<Longrightarrow> length (put_words mem k ws) = length mem"
  by (simp add: put_words_def)

lemma put_words_Cons: "k < length mem \<Longrightarrow> put_words (mem[k := w]) (k + 1) ws = put_words mem k (w # ws)"
  by (simp add: put_words_def take_Suc_conv_app_nth)

lemma siena_mcdi_write_payload_ok:
  "sdu_len = pos + r \<Longrightarrow> n = (r + 3) div 4 \<Longrightarrow> pos = 4 * j \<Longrightarrow> pos + 4 * n \<le> length sdup
    \<Longrightarrow> pdur + 1 + j + n \<le> length smem
    \<Longrightarrow> siena_mcdi_write_payload pdur sdup sdu_len pos smem
      = Some (put_words smem (pdur + 1 + j) (words_of_bytes (take (4 * n) (drop pos sdup))))"
proof (induction n arbitrary: pos r j smem)
  case 0
  then have "r = 0" by (cases r) simp_all
  with 0 show ?case by (simp add: siena_mcdi_write_payload.simps)
next
  case (Suc n)
  have r: "0 < r" using Suc.prems(2) by (cases r) simp_all
  let ?w = "le_dword (take 4 (drop pos sdup))"
  have rd: "rd_range sdup pos 4 = Some (take 4 (drop pos sdup))" using Suc.prems(4) by (simp add: rd_range_def)
  have "siena_mcdi_write_payload pdur sdup sdu_len (pos + 4) (smem[pdur + 1 + j := ?w])
      = Some (put_words (smem[pdur + 1 + j := ?w]) (pdur + 1 + (j + 1)) (words_of_bytes (take (4 * n) (drop (pos + 4) sdup))))"
  proof (cases "4 \<le> r")
    case True
    then show ?thesis by (intro Suc.IH [of _ "r - 4"]) (use Suc.prems in auto)
  next
    case False
    then have "n = 0" using Suc.prems(2) by simp
    with False Suc.prems(1) show ?thesis by (simp add: siena_mcdi_write_payload.simps)
  qed
  then show ?case
    using r rd Suc.prems put_words_Cons [of "pdur + 1 + j" smem ?w] words_of_bytes_take4 [of pos sdup n]
    by (subst siena_mcdi_write_payload.simps) simp
qed

lemma ef10_mcdi_write_payload_ok:
  "sdu_len = pos + r \<Longrightarrow> n = (r + 3) div 4 \<Longrightarrow> pos = 4 * j \<Longrightarrow> pos + 4 * n \<le> length sdup
    \<Longrightarrow> h + j + n \<le> length mem
    \<Longrightarrow> ef10_mcdi_write_payload (4 * h) sdup sdu_len pos mem
      = Some (put_words mem (h + j) (words_of_bytes (take (4 * n) (drop pos sdup))))"
proof (induction n arbitrary: pos r j mem)
  case 0
  then have "r = 0" by (cases r) simp_all
  with 0 show ?case by (simp add: ef10_mcdi_write_payload.simps)
next
  case (Suc n)
  have r: "0 < r" using Suc.prems(2) by (cases r) simp_all
  let ?w = "le_dword (take 4 (drop pos sdup))"
  have rd: "rd_range sdup pos 4 = Some (take 4 (drop pos sdup))" using Suc.prems(4) by (simp add: rd_range_def)
  have at: "(4 * h + pos) div 4 = h + j" "(4 * h + pos) mod 4 = 0" using Suc.prems(3) by simp_all
  have "ef10_mcdi_write_payload (4 * h) sdup sdu_len (pos + 4) (mem[h + j := ?w])
      = Some (put_words (mem[h + j := ?w]) (h + (j + 1)) (words_of_bytes (take (4 * n) (drop (pos + 4) sdup))))"
  proof (cases "4 \<le> r")
    case True
    then show ?thesis by (intro Suc.IH [of _ "r - 4"]) (use Suc.prems in auto)
  next
    case False
    then have "n = 0" using Suc.prems(2) by simp
    with False Suc.prems(1) show ?thesis by (simp add: ef10_mcdi_write_payload.simps)
  qed
  then show ?case
    using r rd at Suc.prems put_words_Cons [of "h + j" mem ?w] words_of_bytes_take4 [of pos sdup n]
    by (subst ef10_mcdi_write_payload.simps) (simp add: mem_writed_def)
qed

text \<open>Without room in the buffer, the loop runs past its end.\<close>

lemma ef10_mcdi_write_payload_overflow:
  "sdu_len = pos + 4 * n \<Longrightarrow> pos = 4 * j \<Longrightarrow> sdu_len \<le> length sdup \<Longrightarrow> length mem < h + j + n
    \<Longrightarrow> h + j \<le> length mem \<Longrightarrow> ef10_mcdi_write_payload (4 * h) sdup sdu_len pos mem = None"
proof (induction n arbitrary: pos j mem)
  case (Suc n)
  let ?w = "le_dword (take 4 (drop pos sdup))"
  have rd: "rd_range sdup pos 4 = Some (take 4 (drop pos sdup))" using Suc.prems(1,3) by (simp add: rd_range_def)
  have at: "(4 * h + pos) div 4 = h + j" "(4 * h + pos) mod 4 = 0" using Suc.prems(2) by simp_all
  show ?case
  proof (cases "h + j < length mem")
    case True
    have "ef10_mcdi_write_payload (4 * h) sdup sdu_len (pos + 4) (mem[h + j := ?w]) = None"
      by (rule Suc.IH [of _ "j + 1"]) (use Suc.prems True in auto)
    with True rd at Suc.prems(1) show ?thesis by (subst ef10_mcdi_write_payload.simps) (simp add: mem_writed_def)
  next
    case False
    with rd at Suc.prems(1,5) show ?thesis by (subst ef10_mcdi_write_payload.simps) (simp add: mem_writed_def wr_def)
  qed
qed simp

lemma ef10_mcdi_write_header_ok:
  "j + length hdrp \<le> length mem \<Longrightarrow> ef10_mcdi_write_header hdrp (4 * j) mem = Some (put_words mem j hdrp)"
proof (induction hdrp arbitrary: j mem)
  case (Cons w hdrp)
  then show ?case
    using Cons.IH [of "j + 1" "mem[j := w]"] put_words_Cons [of j mem w hdrp] by (simp add: mem_writed_def add.commute)
qed simp

section \<open>The contract of a transport\<close>

text \<open>What the controller can change of its hardware: the contents, not the sizes.\<close>

definition mcdi_hw_same_size :: "mcdi_hw \<Rightarrow> mcdi_hw \<Rightarrow> bool" where
  "mcdi_hw_same_size hw hw' = (length (hw_smem hw) = length (hw_smem hw') \<and> length (hw_dma hw) = length (hw_dma hw'))"

text \<open>
  \<open>ok\<close> is the transport's own invariant of the device, \<open>pdu\<close> the message buffer, \<open>hdr_max\<close> the longest header it
  can send, which has to be enough for the protocol version of the interface. A payload whose length is no multiple of four has to lie in a buffer that is long enough for its last doubleword.
\<close>

locale mcdi_channel =
  fixes ops :: mcdi_ops and ok :: "mcdi_dev \<Rightarrow> bool" and pdu :: "mcdi_dev \<Rightarrow> u32 list" and hdr_max :: nat
  assumes pdu_len: "ok dev \<Longrightarrow> 64 \<le> length (pdu dev)"
    and version: "ok dev \<Longrightarrow> (if 2 \<le> emi_max_version (md_emip dev) then 2 else 1) \<le> hdr_max"
    and set_hw: "ok dev \<Longrightarrow> mcdi_hw_same_size hw (md_hw dev)
      \<Longrightarrow> ok (dev\<lparr>md_hw := hw\<rparr>) \<and> length (pdu (dev\<lparr>md_hw := hw\<rparr>)) = length (pdu dev)"
    and set_emip: "ok dev \<Longrightarrow> emi_port emip = emi_port (md_emip dev)
      \<Longrightarrow> emi_max_version emip = emi_max_version (md_emip dev)
      \<Longrightarrow> ok (dev\<lparr>md_emip := emip\<rparr>) \<and> pdu (dev\<lparr>md_emip := emip\<rparr>) = pdu dev"
    and poll_reboot: "ok dev \<Longrightarrow> \<exists>s. emco_poll_reboot ops dev
      = Some (RC_OK, dev\<lparr>md_emip := (md_emip dev)\<lparr>emi_mc_reboot_status := s\<rparr>\<rparr>)"
    and poll_response: "ok dev \<Longrightarrow> emco_poll_response ops dev = Some (dfield (pdu dev ! 0) MCDI_HEADER_RESPONSE \<noteq> 0)"
    and read_response: "ok dev \<Longrightarrow> offset mod 4 = 0 \<Longrightarrow> offset + len \<le> 4 * length (pdu dev)
      \<Longrightarrow> emco_read_response ops offset len dev = Some (take len (drop offset (bytes_of_words (pdu dev))))"
    and send_request: "ok dev \<Longrightarrow> hdr \<noteq> [] \<Longrightarrow> length hdr \<le> hdr_max \<Longrightarrow> n = (sdu_len + 3) div 4
      \<Longrightarrow> 4 * n \<le> length sdup \<Longrightarrow> length hdr + n \<le> length (pdu dev)
      \<Longrightarrow> \<exists>hw. emco_send_request ops hdr sdup sdu_len dev = Some (dev\<lparr>md_hw := hw\<rparr>) \<and> ok (dev\<lparr>md_hw := hw\<rparr>)
            \<and> pdu (dev\<lparr>md_hw := hw\<rparr>) = put_words (pdu dev) 0 (hdr @ words_of_bytes (take (4 * n) sdup))"

definition siena_chan_ok :: "mcdi_dev \<Rightarrow> bool" where
  "siena_chan_ok dev =
     (md_family dev = EFX_FAMILY_SIENA \<and> siena_port_ok (md_emip dev) \<and> emi_max_version (md_emip dev) = 1 \<and> length (hw_smem (md_hw dev)) = 512)"

definition siena_pdu :: "mcdi_dev \<Rightarrow> u32 list" where
  "siena_pdu dev = take 64 (drop (SIENA_MCDI_PDU (md_emip dev)) (hw_smem (md_hw dev)))"

definition ef10_chan_ok :: "mcdi_dev \<Rightarrow> bool" where
  "ef10_chan_ok dev =
     (ef10_family dev \<and> emi_max_version (md_emip dev) = 2 \<and> md_esmp dev \<noteq> None \<and> 64 \<le> length (hw_dma (md_hw dev)))"

definition ef10_pdu :: "mcdi_dev \<Rightarrow> u32 list" where
  "ef10_pdu dev = hw_dma (md_hw dev)"

lemma siena_pdu_row: "siena_chan_ok dev \<Longrightarrow> SIENA_MCDI_PDU (md_emip dev) + 64 \<le> 512"
  by (simp add: SIENA_MCDI_PDU_def)

lemma siena_pdu_nth:
  "siena_chan_ok dev \<Longrightarrow> i < 64 \<Longrightarrow> rd (hw_smem (md_hw dev)) (SIENA_MCDI_PDU (md_emip dev) + i) = Some (siena_pdu dev ! i)"
  using siena_pdu_row [of dev] by (simp add: siena_pdu_def siena_chan_ok_def)

lemma siena_pdu_length: "siena_chan_ok dev \<Longrightarrow> length (siena_pdu dev) = 64"
  using siena_pdu_row [of dev] by (simp add: siena_pdu_def siena_chan_ok_def)

lemma siena_read_response_ok:
  assumes "siena_chan_ok dev" "offset mod 4 = 0" "offset + len \<le> 4 * length (siena_pdu dev)"
  shows "siena_mcdi_read_response offset len dev = Some (take len (drop offset (bytes_of_words (siena_pdu dev))))"
proof -
  obtain i where i: "offset = 4 * i" using assms(2) by (auto simp: mod_eq_0_iff_dvd)
  have "mcdi_read_dwords (\<lambda>i. rd (hw_smem (md_hw dev)) (SIENA_MCDI_PDU (md_emip dev) + i div 4)) offset len 0
      = Some (take (len - 0) (drop (offset + 0) (bytes_of_words (siena_pdu dev))))"
    by (rule mcdi_read_dwords_pdu [of _ _ _ _ i _ 0])
      (use assms(1,3) i siena_pdu_nth siena_pdu_length in \<open>simp_all del: rd_eq_Some\<close>)
  then show ?thesis using assms(1) by (simp add: siena_mcdi_read_response_def siena_chan_ok_def)
qed

lemma put_words_low: "k + length ws \<le> m \<Longrightarrow> take m (put_words xs k ws) = put_words (take m xs) k ws"
  by (cases "m = k") (auto simp: put_words_def take_drop min_def)

lemma siena_send_request_ok:
  assumes ok: "siena_chan_ok dev" and hdr: "hdr \<noteq> []" "length hdr \<le> 1" and n: "n = (sdu_len + 3) div 4"
    and len: "4 * n \<le> length sdup" "length hdr + n \<le> length (siena_pdu dev)"
  shows "\<exists>hw. siena_mcdi_send_request hdr sdup sdu_len dev = Some (dev\<lparr>md_hw := hw\<rparr>) \<and> siena_chan_ok (dev\<lparr>md_hw := hw\<rparr>)
    \<and> siena_pdu (dev\<lparr>md_hw := hw\<rparr>) = put_words (siena_pdu dev) 0 (hdr @ words_of_bytes (take (4 * n) sdup))"
proof -
  let ?p = "SIENA_MCDI_PDU (md_emip dev)" and ?smem = "hw_smem (md_hw dev)" and ?ws = "words_of_bytes (take (4 * n) sdup)"
  let ?d = "SIENA_MCDI_DOORBELL (md_emip dev)"
  obtain h where h: "hdr = [h]" using hdr by (cases hdr) simp_all
  have ws: "length ?ws = n" using len(1) by (simp add: words_of_bytes_length)
  have p: "?d < 2" "2 \<le> ?p" "?p + 64 \<le> 512" "1 + n \<le> 64" "length ?smem = 512"
    using len(2) h siena_pdu_length [OF ok] siena_pdu_row [OF ok] ok
    by (simp_all add: SIENA_MCDI_DOORBELL_def SIENA_MCDI_PDU_def siena_chan_ok_def)
  have w: "siena_mcdi_write_payload ?p sdup sdu_len 0 (?smem[?p := h]) = Some (put_words ?smem ?p (h # ?ws))"
    using siena_mcdi_write_payload_ok [of sdu_len 0 sdu_len n 0 sdup ?p "?smem[?p := h]"] n len(1) p
      put_words_Cons [of ?p ?smem h ?ws] by simp
  define smem where "smem = (put_words ?smem ?p (h # ?ws))[?d := 0xd004be11]"
  have len': "length smem = 512" using p ws by (simp add: smem_def)
  have "siena_mcdi_send_request hdr sdup sdu_len dev = Some (dev\<lparr>md_hw := (md_hw dev)\<lparr>hw_smem := smem\<rparr>\<rparr>)"
    using ok p ws by (simp add: siena_mcdi_send_request_def h w smem_def siena_chan_ok_def)
  moreover have "take 64 (drop ?p smem) = put_words (take 64 (drop ?p ?smem)) 0 (h # ?ws)"
  proof -
    have "drop ?p smem = put_words (drop ?p ?smem) 0 (h # ?ws)"
      using p ws by (simp add: smem_def put_words_def drop_update_cancel add.commute)
    then show ?thesis using put_words_low [of 0 "h # ?ws" 64] ws p(4) by simp
  qed
  ultimately show ?thesis using len' ok
    by (intro exI [of _ "(md_hw dev)\<lparr>hw_smem := smem\<rparr>"]) (simp add: siena_chan_ok_def siena_pdu_def h)
qed

interpretation siena_chan: mcdi_channel efx_mcdi_siena_ops siena_chan_ok siena_pdu 1
proof unfold_locales
  show "siena_chan_ok dev \<Longrightarrow> 64 \<le> length (siena_pdu dev)" for dev
    by (simp add: siena_pdu_length)
  show "siena_chan_ok dev \<Longrightarrow> (if 2 \<le> emi_max_version (md_emip dev) then 2 else 1) \<le> (1 :: nat)" for dev
    by (simp add: siena_chan_ok_def word_le_nat_alt)
  show "siena_chan_ok dev \<Longrightarrow> mcdi_hw_same_size hw (md_hw dev)
      \<Longrightarrow> siena_chan_ok (dev\<lparr>md_hw := hw\<rparr>) \<and> length (siena_pdu (dev\<lparr>md_hw := hw\<rparr>)) = length (siena_pdu dev)" for dev hw
    by (simp add: siena_chan_ok_def siena_pdu_def mcdi_hw_same_size_def)
  show "siena_chan_ok dev \<Longrightarrow> emi_port emip = emi_port (md_emip dev)
      \<Longrightarrow> emi_max_version emip = emi_max_version (md_emip dev)
      \<Longrightarrow> siena_chan_ok (dev\<lparr>md_emip := emip\<rparr>) \<and> siena_pdu (dev\<lparr>md_emip := emip\<rparr>) = siena_pdu dev" for dev emip
    by (simp add: siena_chan_ok_def siena_pdu_def siena_port_ok_def SIENA_MCDI_PDU_def)
  show "siena_chan_ok dev \<Longrightarrow> \<exists>s. emco_poll_reboot efx_mcdi_siena_ops dev
      = Some (RC_OK, dev\<lparr>md_emip := (md_emip dev)\<lparr>emi_mc_reboot_status := s\<rparr>\<rparr>)" for dev
    by (intro exI [of _ "emi_mc_reboot_status (md_emip dev)"]) (simp add: efx_mcdi_siena_ops_def siena_mcdi_poll_reboot_def)
  show "siena_chan_ok dev \<Longrightarrow> emco_poll_response efx_mcdi_siena_ops dev
      = Some (dfield (siena_pdu dev ! 0) MCDI_HEADER_RESPONSE \<noteq> 0)" for dev
    using siena_pdu_nth [of dev 0]
    by (simp add: efx_mcdi_siena_ops_def siena_mcdi_poll_response_def siena_chan_ok_def del: rd_eq_Some)
  show "siena_chan_ok dev \<Longrightarrow> offset mod 4 = 0 \<Longrightarrow> offset + len \<le> 4 * length (siena_pdu dev)
      \<Longrightarrow> emco_read_response efx_mcdi_siena_ops offset len dev = Some (take len (drop offset (bytes_of_words (siena_pdu dev))))" for dev offset len
    by (simp add: efx_mcdi_siena_ops_def siena_read_response_ok)
qed (simp add: efx_mcdi_siena_ops_def siena_send_request_ok)

lemma ef10_read_response_ok:
  assumes "ef10_chan_ok dev" "offset mod 4 = 0" "offset + len \<le> 4 * length (ef10_pdu dev)"
  shows "ef10_mcdi_read_response offset len dev = Some (take len (drop offset (bytes_of_words (ef10_pdu dev))))"
proof -
  obtain i where i: "offset = 4 * i" using assms(2) by (auto simp: mod_eq_0_iff_dvd)
  have "mcdi_read_dwords (mem_readd (ef10_pdu dev)) offset len 0
      = Some (take (len - 0) (drop (offset + 0) (bytes_of_words (ef10_pdu dev))))"
    by (rule mcdi_read_dwords_pdu [of _ _ _ _ i _ 0]) (use assms(3) i in \<open>simp_all add: mem_readd_def\<close>)
  then show ?thesis using assms(1) by (auto simp: ef10_mcdi_read_response_def ef10_chan_ok_def ef10_pdu_def)
qed

lemma put_words_append: "put_words (put_words mem 0 hdr) (length hdr) ws = put_words mem 0 (hdr @ ws)"
  by (simp add: put_words_def add.commute)

lemma ef10_send_request_ok:
  assumes ok: "ef10_chan_ok dev" and n: "n = (sdu_len + 3) div 4"
    and len: "4 * n \<le> length sdup" "length hdr + n \<le> length (ef10_pdu dev)"
  shows "\<exists>hw. ef10_mcdi_send_request hdr sdup sdu_len dev = Some (dev\<lparr>md_hw := hw\<rparr>) \<and> ef10_chan_ok (dev\<lparr>md_hw := hw\<rparr>)
    \<and> ef10_pdu (dev\<lparr>md_hw := hw\<rparr>) = put_words (ef10_pdu dev) 0 (hdr @ words_of_bytes (take (4 * n) sdup))"
proof -
  let ?mem = "hw_dma (md_hw dev)" and ?ws = "words_of_bytes (take (4 * n) sdup)"
  obtain addr where a: "md_esmp dev = Some addr" using ok by (auto simp: ef10_chan_ok_def)
  have ws: "length ?ws = n" using len(1) by (simp add: words_of_bytes_length)
  have h: "ef10_mcdi_write_header hdr 0 ?mem = Some (put_words ?mem 0 hdr)"
    using ef10_mcdi_write_header_ok [of 0 hdr ?mem] len(2) by (simp add: ef10_pdu_def)
  have w: "ef10_mcdi_write_payload (4 * length hdr) sdup sdu_len 0 (put_words ?mem 0 hdr) = Some (put_words ?mem 0 (hdr @ ?ws))"
    using ef10_mcdi_write_payload_ok [of sdu_len 0 sdu_len n 0 sdup "length hdr" "put_words ?mem 0 hdr"] n len
    by (simp add: ef10_pdu_def put_words_append)
  let ?hw = "(md_hw dev)\<lparr>hw_dma := put_words ?mem 0 (hdr @ ?ws), hw_db_lwrd := ucast (drop_bit 32 addr),
    hw_db_hwrd := ucast (addr AND 0xffffffff)\<rparr>"
  have "ef10_mcdi_send_request hdr sdup sdu_len dev = Some (dev\<lparr>md_hw := ?hw\<rparr>)"
    using ok by (simp add: ef10_mcdi_send_request_def a h w ef10_chan_ok_def)
  then show ?thesis using ok len(2) ws
    by (intro exI [of _ ?hw]) (simp add: ef10_chan_ok_def ef10_family_def ef10_pdu_def)
qed

interpretation ef10_chan: mcdi_channel efx_mcdi_ef10_ops ef10_chan_ok ef10_pdu 2
proof unfold_locales
  show "ef10_chan_ok dev \<Longrightarrow> \<exists>s. emco_poll_reboot efx_mcdi_ef10_ops dev
      = Some (RC_OK, dev\<lparr>md_emip := (md_emip dev)\<lparr>emi_mc_reboot_status := s\<rparr>\<rparr>)" for dev
    by (intro exI [of _ "hw_sft_status (md_hw dev)"]) (auto simp: efx_mcdi_ef10_ops_def ef10_mcdi_poll_reboot_def Let_def)
  show "ef10_chan_ok dev \<Longrightarrow> emco_poll_response efx_mcdi_ef10_ops dev
      = Some (dfield (ef10_pdu dev ! 0) MCDI_HEADER_RESPONSE \<noteq> 0)" for dev
    by (auto simp: efx_mcdi_ef10_ops_def ef10_mcdi_poll_response_def ef10_chan_ok_def ef10_pdu_def mem_readd_def rd_def)
  show "ef10_chan_ok dev \<Longrightarrow> offset mod 4 = 0 \<Longrightarrow> offset + len \<le> 4 * length (ef10_pdu dev)
      \<Longrightarrow> emco_read_response efx_mcdi_ef10_ops offset len dev = Some (take len (drop offset (bytes_of_words (ef10_pdu dev))))" for dev offset len
    by (simp add: efx_mcdi_ef10_ops_def ef10_read_response_ok)
  show "ef10_chan_ok dev \<Longrightarrow> 64 \<le> length (ef10_pdu dev)" for dev
    by (simp add: ef10_chan_ok_def ef10_pdu_def)
  show "ef10_chan_ok dev \<Longrightarrow> (if 2 \<le> emi_max_version (md_emip dev) then 2 else 1) \<le> (2 :: nat)" for dev
    by (simp add: ef10_chan_ok_def)
  show "ef10_chan_ok dev \<Longrightarrow> mcdi_hw_same_size hw (md_hw dev)
      \<Longrightarrow> ef10_chan_ok (dev\<lparr>md_hw := hw\<rparr>) \<and> length (ef10_pdu (dev\<lparr>md_hw := hw\<rparr>)) = length (ef10_pdu dev)" for dev hw
    by (simp add: ef10_chan_ok_def ef10_pdu_def mcdi_hw_same_size_def ef10_family_def)
  show "ef10_chan_ok dev \<Longrightarrow> emi_port emip = emi_port (md_emip dev)
      \<Longrightarrow> emi_max_version emip = emi_max_version (md_emip dev)
      \<Longrightarrow> ef10_chan_ok (dev\<lparr>md_emip := emip\<rparr>) \<and> ef10_pdu (dev\<lparr>md_emip := emip\<rparr>) = ef10_pdu dev" for dev emip
    by (simp add: ef10_chan_ok_def ef10_pdu_def ef10_family_def)
qed (simp add: efx_mcdi_ef10_ops_def ef10_send_request_ok)

end
