(* ===== verification/Efx_Mcdi_Spec.thy ===== *)
theory Efx_Mcdi_Spec
  imports Efx_Mcdi_Channel
begin

text \<open>
  What the MCDI requests do, over any transport that keeps the contract \<open>mcdi_channel\<close>: the outcome of a request is a
  function of the message buffer.
\<close>

section \<open>Replies\<close>

text \<open>Code, sequence number, error flag, data length and header length of the reply in a message buffer.\<close>

definition mcdi_reply :: "u32 list \<Rightarrow> u32 \<times> u32 \<times> u32 \<times> nat \<times> nat" where
  "mcdi_reply pdu =
     (let seq = dfield (pdu ! 0) MCDI_HEADER_SEQ; error = dfield (pdu ! 0) MCDI_HEADER_ERROR in
      if dfield (pdu ! 0) MCDI_HEADER_CODE \<noteq> MC_CMD_V2_EXTN
      then (dfield (pdu ! 0) MCDI_HEADER_CODE, seq, error, unat (dfield (pdu ! 0) MCDI_HEADER_DATALEN), 4)
      else (dfield (pdu ! 1) MC_CMD_V2_EXTN_IN_EXTENDED_CMD, seq, error, unat (dfield (pdu ! 1) MC_CMD_V2_EXTN_IN_ACTUAL_LEN), 8))"

definition mcdi_bytes :: "u32 list \<Rightarrow> nat \<Rightarrow> nat \<Rightarrow> u8 list" where
  "mcdi_bytes pdu offset n = take n (drop offset (bytes_of_words pdu))"

definition mcdi_replied :: "u32 list \<Rightarrow> bool" where
  "mcdi_replied pdu = (dfield (pdu ! 0) MCDI_HEADER_RESPONSE \<noteq> 0)"

text \<open>The outcome that a reply gives a request with the sequence number \<open>seq\<close>.\<close>

definition mcdi_outcome :: "u32 list \<Rightarrow> u32 \<Rightarrow> efx_mcdi_req \<Rightarrow> efx_mcdi_req" where
  "mcdi_outcome pdu seq req =
     (case mcdi_reply pdu of (cmd, rseq, error, data_len, hdr_len) \<Rightarrow>
        if error \<noteq> 0 \<and> data_len = 0 \<or> cmd \<noteq> emr_cmd req \<or> rseq \<noteq> seq then req\<lparr>emr_rc := EIO, emr_out_length_used := 0\<rparr>
        else if error \<noteq> 0 then
          (let n = min data_len 8; err = mcdi_bytes pdu hdr_len n;
               code = (if 4 \<le> n then le_dword (take 4 err) else 71); arg = (if 8 \<le> n then le_dword (drop 4 err) else 0)
           in req\<lparr>emr_err_code := code, emr_err_arg := arg, emr_rc := efx_mcdi_request_errcode code, emr_out_length_used := 0\<rparr>)
        else req\<lparr>emr_rc := RC_OK, emr_out_length_used := data_len\<rparr>)"

text \<open>The payload that a reply delivers into the buffer of the request.\<close>

definition mcdi_deliver :: "u32 list \<Rightarrow> efx_mcdi_req \<Rightarrow> efx_mcdi_req" where
  "mcdi_deliver pdu req =
     (case mcdi_reply pdu of (cmd, rseq, error, data_len, hdr_len) \<Rightarrow>
      case emr_out_buf req of
        None \<Rightarrow> req
      | Some buf \<Rightarrow>
          (let used = (if hdr_len = 8 then data_len else emr_out_length_used req);
               data = mcdi_bytes pdu hdr_len (min used (emr_out_length req))
           in req\<lparr>emr_out_length_used := used, emr_out_buf := Some (data @ drop (length data) buf)\<rparr>))"

definition mcdi_out_fits :: "u32 list \<Rightarrow> efx_mcdi_req \<Rightarrow> bool" where
  "mcdi_out_fits pdu req =
     ((case emr_out_buf req of None \<Rightarrow> True | Some buf \<Rightarrow> emr_out_length req \<le> length buf) \<and> 8 + emr_out_length req \<le> 4 * length pdu)"

definition mcdi_in_fits :: "nat \<Rightarrow> u32 list \<Rightarrow> efx_mcdi_req \<Rightarrow> bool" where
  "mcdi_in_fits hdr_len pdu req =
     (let n = (emr_in_length req + 3) div 4 in 4 * n \<le> length (emr_in_buf req) \<and> hdr_len + n \<le> length pdu)"

definition mcdi_up :: "mcdi_ops \<Rightarrow> (mcdi_dev \<Rightarrow> bool) \<Rightarrow> 'c mcdi_nic \<Rightarrow> bool" where
  "mcdi_up ops ok enp = (mcdi_ready enp \<and> mn_emcop enp = Some ops \<and> ok (mn_dev enp))"

abbreviation mcdi_seq :: "efx_mcdi_iface \<Rightarrow> u32" where
  "mcdi_seq emip \<equiv> (emi_seq emip - 1) AND mcdi_seq_mask"

lemma mcdi_outcome_out [simp]:
  "emr_out_buf (mcdi_outcome pdu seq req) = emr_out_buf req" "emr_out_length (mcdi_outcome pdu seq req) = emr_out_length req"
  "emr_cmd (mcdi_outcome pdu seq req) = emr_cmd req"
  by (simp_all add: mcdi_outcome_def Let_def split: prod.split)

lemma mcdi_deliver_same [simp]: "emr_rc (mcdi_deliver pdu req) = emr_rc req" "emr_cmd (mcdi_deliver pdu req) = emr_cmd req"
  by (simp_all add: mcdi_deliver_def Let_def split: prod.split option.split)

lemma mcdi_reply_hdr_len: "mcdi_reply pdu = (cmd, rseq, error, data_len, hdr_len) \<Longrightarrow> hdr_len = 4 \<or> hdr_len = 8"
  by (auto simp: mcdi_reply_def Let_def split: if_splits)

lemma mcdi_set_simps [simp]:
  "mn_dev (mcdi_set_req r q enp) = mn_dev enp" "mn_emcop (mcdi_set_req r q enp) = mn_emcop enp"
  "mn_emtp (mcdi_set_req r q enp) = mn_emtp enp" "mn_ctx (mcdi_set_req r q enp) = mn_ctx enp"
  "mn_mod_flags (mcdi_set_req r q enp) = mn_mod_flags enp"
  "mn_reqs (mcdi_set_req r q enp) = (mn_reqs enp)(r := q)" "mcdi_ready (mcdi_set_req r q enp) = mcdi_ready enp"
  "mn_dev (mcdi_set_emip e enp) = (mn_dev enp)\<lparr>md_emip := e\<rparr>" "mn_emcop (mcdi_set_emip e enp) = mn_emcop enp"
  "mn_emtp (mcdi_set_emip e enp) = mn_emtp enp" "mn_ctx (mcdi_set_emip e enp) = mn_ctx enp"
  "mn_mod_flags (mcdi_set_emip e enp) = mn_mod_flags enp"
  "mn_reqs (mcdi_set_emip e enp) = mn_reqs enp" "mcdi_ready (mcdi_set_emip e enp) = mcdi_ready enp"
  by (simp_all add: mcdi_set_req_def mcdi_set_emip_def mcdi_ready_def)

lemma mcdi_set_emip_same [simp]: "mcdi_set_emip (mn_emip enp) enp = enp"
  by (simp add: mcdi_set_emip_def)

lemma mcdi_set_emip_twice [simp]: "mcdi_set_emip e (mcdi_set_emip e' enp) = mcdi_set_emip e enp"
  by (simp add: mcdi_set_emip_def)

lemma mcdi_set_req_twice [simp]: "mcdi_set_req r q (mcdi_set_req r q' enp) = mcdi_set_req r q enp"
  by (simp add: mcdi_set_req_def)

lemma mcdi_set_comm: "mcdi_set_emip e (mcdi_set_req r q enp) = mcdi_set_req r q (mcdi_set_emip e enp)"
  by (simp add: mcdi_set_emip_def mcdi_set_req_def)

lemma set_status_same [simp]: "e\<lparr>emi_mc_reboot_status := emi_mc_reboot_status e\<rparr> = e"
  by simp

text \<open>The state after a request was started, with the hardware \<open>hw\<close> that sending it left.\<close>

definition mcdi_started :: "'c mcdi_nic \<Rightarrow> nat \<Rightarrow> bool \<Rightarrow> mcdi_hw \<Rightarrow> 'c mcdi_nic" where
  "mcdi_started enp r ev_cpl hw = enp\<lparr>mn_dev := (mn_dev enp)\<lparr>md_emip := (mn_emip enp)\<lparr>emi_pending_req := Some r,
     emi_ev_cpl := ev_cpl, emi_poll_cnt := 0, emi_seq := emi_seq (mn_emip enp) + 1\<rparr>, md_hw := hw\<rparr>\<rparr>"

section \<open>Over any transport\<close>

context mcdi_channel
begin

lemma up_set_emip: "mcdi_up ops ok enp \<Longrightarrow> emi_port e = emi_port (mn_emip enp) \<Longrightarrow>
    emi_max_version e = emi_max_version (mn_emip enp) \<Longrightarrow>
    mcdi_up ops ok (mcdi_set_emip e enp) \<and> pdu (mn_dev (mcdi_set_emip e enp)) = pdu (mn_dev enp)"
  by (simp add: mcdi_up_def set_emip)

lemma up_read: "mcdi_up ops ok enp \<Longrightarrow> offset mod 4 = 0 \<Longrightarrow> offset + len \<le> 4 * length (pdu (mn_dev enp))
    \<Longrightarrow> efx_mcdi_read_response enp offset len = Some (mcdi_bytes (pdu (mn_dev enp)) offset len)"
  by (simp add: efx_mcdi_read_response_def mcdi_up_def read_response mcdi_bytes_def)

lemma up_read_hdr:
  assumes "mcdi_up ops ok enp"
  shows "efx_mcdi_read_response enp 0 4 = Some (bytes_of_word (pdu (mn_dev enp) ! 0))"
    and "efx_mcdi_read_response enp 4 4 = Some (bytes_of_word (pdu (mn_dev enp) ! 1))"
proof -
  have len: "64 \<le> length (pdu (mn_dev enp))" using assms pdu_len by (simp add: mcdi_up_def)
  show "efx_mcdi_read_response enp 0 4 = Some (bytes_of_word (pdu (mn_dev enp) ! 0))"
    using up_read [OF assms, of 0 4] drop_bytes_at [of 0 "pdu (mn_dev enp)"] len
    by (cases "pdu (mn_dev enp)") (simp_all add: mcdi_bytes_def)
  show "efx_mcdi_read_response enp 4 4 = Some (bytes_of_word (pdu (mn_dev enp) ! 1))"
    using up_read [OF assms, of 4 4] drop_bytes_at [of 1 "pdu (mn_dev enp)"] len by (simp add: mcdi_bytes_def)
qed

lemma up_parse: "mcdi_up ops ok enp \<Longrightarrow> mcdi_parse_header enp = Some (mcdi_reply (pdu (mn_dev enp)))"
  by (simp add: mcdi_parse_header_def up_read_hdr mcdi_reply_def Let_def)

lemma up_poll_reboot:
  assumes "mcdi_up ops ok enp"
  obtains s where "efx_mcdi_poll_reboot enp = Some (RC_OK, mcdi_set_emip ((mn_emip enp)\<lparr>emi_mc_reboot_status := s\<rparr>) enp)"
  using assms poll_reboot [of "mn_dev enp"] by (auto simp: efx_mcdi_poll_reboot_def mcdi_up_def mcdi_set_emip_def)

lemma up_read_header:
  assumes up: "mcdi_up ops ok enp"
  obtains s where "efx_mcdi_read_response_header enp r
    = Some (mcdi_set_req r (mcdi_outcome (pdu (mn_dev enp)) (mcdi_seq (mn_emip enp)) (mn_reqs enp r))
        (mcdi_set_emip ((mn_emip enp)\<lparr>emi_mc_reboot_status := s\<rparr>) enp))"
proof -
  let ?pdu = "pdu (mn_dev enp)"
  obtain cmd rseq error dlen hlen where reply: "mcdi_reply ?pdu = (cmd, rseq, error, dlen, hlen)" by (metis prod_cases5)
  note parse = up_parse [OF up, unfolded reply]
  have same: "mcdi_set_emip ((mn_emip enp)\<lparr>emi_mc_reboot_status := emi_mc_reboot_status (mn_emip enp)\<rparr>) enp = enp" by simp
  have len: "hlen mod 4 = 0" "hlen + min dlen 8 \<le> 4 * length ?pdu"
    using mcdi_reply_hdr_len [OF reply] pdu_len [of "mn_dev enp"] up by (auto simp: mcdi_up_def)
  show thesis
  proof (cases "error \<noteq> 0 \<and> dlen = 0")
    case True
    obtain s where "efx_mcdi_poll_reboot enp = Some (RC_OK, mcdi_set_emip ((mn_emip enp)\<lparr>emi_mc_reboot_status := s\<rparr>) enp)"
      by (rule up_poll_reboot [OF up])
    then show ?thesis using True
      by (intro that [of s]) (simp add: efx_mcdi_read_response_header_def parse mcdi_outcome_def reply Let_def)
  next
    case False
    then show ?thesis using up_read [OF up len]
      by (intro that [of "emi_mc_reboot_status (mn_emip enp)"])
        (auto simp: efx_mcdi_read_response_header_def parse mcdi_outcome_def reply Let_def same)
  qed
qed

lemma up_finish:
  assumes up: "mcdi_up ops ok enp" and fits: "mcdi_out_fits (pdu (mn_dev enp)) (mn_reqs enp r)"
  shows "efx_mcdi_finish_response enp r = Some (mcdi_set_req r (mcdi_deliver (pdu (mn_dev enp)) (mn_reqs enp r)) enp)"
proof (cases "emr_out_buf (mn_reqs enp r)")
  case None
  have "mcdi_set_req r (mn_reqs enp r) enp = enp" by (simp add: mcdi_set_req_def)
  with None show ?thesis by (simp add: efx_mcdi_finish_response_def mcdi_deliver_def split: prod.split)
next
  case (Some buf)
  let ?pdu = "pdu (mn_dev enp)" and ?req = "mn_reqs enp r"
  obtain cmd rseq error dlen hlen where reply: "mcdi_reply ?pdu = (cmd, rseq, error, dlen, hlen)" by (metis prod_cases5)
  define used where "used = (if hlen = 8 then dlen else emr_out_length_used ?req)"
  have h: "hlen = 4 \<or> hlen = 8" by (rule mcdi_reply_hdr_len [OF reply])
  have hdr: "(if dfield (?pdu ! 0) MCDI_HEADER_CODE = MC_CMD_V2_EXTN
      then do { hdr1 \<leftarrow> efx_mcdi_read_response enp 4 4;
                Some (8, unat (dfield (le_dword hdr1) MC_CMD_V2_EXTN_IN_ACTUAL_LEN)) }
      else Some (4, emr_out_length_used ?req)) = Some (hlen, used)"
    using reply by (auto simp: up_read_hdr [OF up] mcdi_reply_def used_def Let_def split: if_splits)
  have rd: "efx_mcdi_read_response enp hlen (min used (emr_out_length ?req)) = Some (mcdi_bytes ?pdu hlen (min used (emr_out_length ?req)))"
    by (rule up_read [OF up]) (use h fits in \<open>auto simp: mcdi_out_fits_def\<close>)
  have "length (mcdi_bytes ?pdu hlen (min used (emr_out_length ?req))) \<le> length buf"
    using fits Some by (auto simp: mcdi_bytes_def mcdi_out_fits_def min_def)
  then show ?thesis
    by (simp add: efx_mcdi_finish_response_def Some up_read_hdr [OF up] hdr rd mcdi_deliver_def reply wr_range_def Let_def
        flip: used_def)
qed

text \<open>One poll of a request that waits for a polled completion.\<close>

lemma up_poll:
  assumes up: "mcdi_up ops ok enp" and pend: "emi_pending_req (mn_emip enp) = Some r" "\<not> emi_ev_cpl (mn_emip enp)"
    and fits: "mcdi_out_fits (pdu (mn_dev enp)) (mn_reqs enp r)"
  obtains s where "efx_mcdi_request_poll enp =
    (let emip = (mn_emip enp)\<lparr>emi_poll_cnt := emi_poll_cnt (mn_emip enp) + 1, emi_mc_reboot_status := s\<rparr>;
         msg = pdu (mn_dev enp);
         req = mcdi_outcome msg (mcdi_seq (mn_emip enp)) (mn_reqs enp r);
         done = mcdi_set_emip (emip\<lparr>emi_pending_req := None\<rparr>) enp
     in if \<not> mcdi_replied msg then Some (False, mcdi_set_emip emip enp)
        else if emr_rc req \<noteq> RC_OK then mcdi_poll_failed (mcdi_set_req r req done) r (emr_rc req)
        else Some (True, mcdi_set_req r (mcdi_deliver msg req) done))"
proof -
  let ?e0 = "(mn_emip enp)\<lparr>emi_poll_cnt := emi_poll_cnt (mn_emip enp) + 1\<rparr>"
  let ?msg = "pdu (mn_dev enp)"
  have ready: "mcdi_ready enp" using up by (simp add: mcdi_up_def)
  have up0: "mcdi_up ops ok (mcdi_set_emip ?e0 enp)" using up_set_emip [OF up, of ?e0] by simp
  obtain s where reboot: "(if emi_poll_cnt (mn_emip enp) = 0 then efx_mcdi_poll_reboot (mcdi_set_emip ?e0 enp)
      else Some (RC_OK, mcdi_set_emip ?e0 enp)) = Some (RC_OK, mcdi_set_emip (?e0\<lparr>emi_mc_reboot_status := s\<rparr>) enp)"
  proof (cases "emi_poll_cnt (mn_emip enp) = 0")
    case True
    then show ?thesis using up_poll_reboot [OF up0] that by auto
  next
    case False
    then show ?thesis by (intro that [of "emi_mc_reboot_status (mn_emip enp)"]) simp
  qed
  define e1 where "e1 = ?e0\<lparr>emi_mc_reboot_status := s\<rparr>"
  define enp1 where "enp1 = mcdi_set_emip e1 enp"
  have up1: "mcdi_up ops ok enp1" and msg1: "pdu (mn_dev enp1) = ?msg"
    using up_set_emip [OF up, of e1] by (simp_all add: e1_def enp1_def)
  have e1: "mn_emip enp1 = e1" "mn_reqs enp1 = mn_reqs enp" "mcdi_seq e1 = mcdi_seq (mn_emip enp)"
    by (simp_all add: enp1_def e1_def)
  have resp: "efx_mcdi_poll_response enp1 = Some (mcdi_replied ?msg)"
    using up1 msg1 poll_response [of "mn_dev enp1"] by (simp add: efx_mcdi_poll_response_def mcdi_up_def mcdi_replied_def)
  let ?req = "mcdi_outcome ?msg (mcdi_seq (mn_emip enp)) (mn_reqs enp r)"
  obtain t where rrh: "efx_mcdi_read_response_header enp1 r
      = Some (mcdi_set_req r ?req (mcdi_set_emip (e1\<lparr>emi_mc_reboot_status := t\<rparr>) enp1))"
    using up_read_header [OF up1, of r] msg1 e1 by auto
  define e2 where "e2 = e1\<lparr>emi_mc_reboot_status := t, emi_pending_req := None\<rparr>"
  define enp2 where "enp2 = mcdi_set_req r ?req (mcdi_set_emip e2 enp)"
  have set2: "mcdi_set_emip (mn_emip (mcdi_set_req r ?req (mcdi_set_emip (e1\<lparr>emi_mc_reboot_status := t\<rparr>) enp1))\<lparr>emi_pending_req := None\<rparr>)
      (mcdi_set_req r ?req (mcdi_set_emip (e1\<lparr>emi_mc_reboot_status := t\<rparr>) enp1)) = enp2"
    by (simp add: enp1_def enp2_def e2_def mcdi_set_comm)
  have up2: "mcdi_up ops ok enp2" and msg2: "pdu (mn_dev enp2) = ?msg"
    using up_set_emip [OF up, of e2] by (simp_all add: e2_def e1_def enp2_def mcdi_up_def)
  have fits2: "mcdi_out_fits (pdu (mn_dev enp2)) (mn_reqs enp2 r)" unfolding msg2 using fits by (simp add: enp2_def mcdi_out_fits_def split: option.splits)
  have fin: "efx_mcdi_finish_response enp2 r = Some (mcdi_set_req r (mcdi_deliver ?msg ?req) (mcdi_set_emip e2 enp))"
    using up_finish [OF up2 fits2] unfolding msg2 by (simp add: enp2_def)
  have poll: "efx_mcdi_request_poll enp =
      (if \<not> mcdi_replied ?msg then Some (False, enp1)
       else if emr_rc ?req \<noteq> RC_OK then mcdi_poll_failed enp2 r (emr_rc ?req)
       else Some (True, mcdi_set_req r (mcdi_deliver ?msg ?req) (mcdi_set_emip e2 enp)))"
    using ready pend reboot resp rrh fin set2 unfolding e1_def [symmetric] enp1_def [symmetric]
    by (simp add: efx_mcdi_request_poll_def Let_def) (simp add: enp2_def)
  show thesis
  proof (cases "mcdi_replied ?msg")
    case True
    with poll show ?thesis by (intro that [of t]) (simp add: enp2_def e2_def e1_def Let_def)
  next
    case False
    with poll show ?thesis by (intro that [of s]) (simp add: enp1_def e1_def Let_def)
  qed
qed

text \<open>Starting a request.\<close>

lemma up_start:
  assumes up: "mcdi_up ops ok enp" and idle: "emi_pending_req (mn_emip enp) = None"
    and hdr: "hdr = mcdi_request_header (emi_max_version (mn_emip enp)) (emi_new_epoch (mn_emip enp))
        (emi_seq (mn_emip enp) AND mcdi_seq_mask) ev_cpl (emr_cmd (mn_reqs enp r)) (emr_in_length (mn_reqs enp r))"
    and fits: "mcdi_in_fits (length hdr) (pdu (mn_dev enp)) (mn_reqs enp r)"
  obtains hw where "efx_mcdi_request_start enp r ev_cpl = Some (mcdi_started enp r ev_cpl hw)"
    "mcdi_up ops ok (mcdi_started enp r ev_cpl hw)"
    "pdu (mn_dev (mcdi_started enp r ev_cpl hw)) = put_words (pdu (mn_dev enp)) 0
       (hdr @ words_of_bytes (take (4 * ((emr_in_length (mn_reqs enp r) + 3) div 4)) (emr_in_buf (mn_reqs enp r))))"
proof -
  let ?e = "(mn_emip enp)\<lparr>emi_pending_req := Some r, emi_ev_cpl := ev_cpl, emi_poll_cnt := 0, emi_seq := emi_seq (mn_emip enp) + 1\<rparr>"
  let ?req = "mn_reqs enp r" and ?n = "(emr_in_length (mn_reqs enp r) + 3) div 4"
  define dev1 where "dev1 = (mn_dev enp)\<lparr>md_emip := ?e\<rparr>"
  have ready: "mcdi_ready enp" "mn_emcop enp = Some ops" using up by (simp_all add: mcdi_up_def)
  have dev1: "ok dev1" "pdu dev1 = pdu (mn_dev enp)"
    using up_set_emip [OF up, of ?e] by (simp_all add: dev1_def mcdi_up_def)
  have hmax: "length hdr \<le> hdr_max"
    using version [of "mn_dev enp"] up by (auto simp: mcdi_up_def hdr mcdi_request_header_def Let_def split: if_splits)
  have ne: "hdr \<noteq> []" by (simp add: hdr mcdi_request_header_def Let_def)
  obtain hw where send: "emco_send_request ops hdr (emr_in_buf ?req) (emr_in_length ?req) dev1 = Some (dev1\<lparr>md_hw := hw\<rparr>)"
    "ok (dev1\<lparr>md_hw := hw\<rparr>)" "pdu (dev1\<lparr>md_hw := hw\<rparr>) = put_words (pdu dev1) 0 (hdr @ words_of_bytes (take (4 * ?n) (emr_in_buf ?req)))"
    using send_request [OF dev1(1) ne hmax refl, of "emr_in_length ?req" "emr_in_buf ?req"] fits
    by (auto simp: mcdi_in_fits_def dev1(2) Let_def)
  have "mn_dev (mcdi_set_emip ?e enp) = dev1" by (simp add: dev1_def)
  then have start: "efx_mcdi_request_start enp r ev_cpl = Some ((mcdi_set_emip ?e enp)\<lparr>mn_dev := dev1\<lparr>md_hw := hw\<rparr>\<rparr>)"
    using ready idle send(1)
    by (simp add: efx_mcdi_request_start_def efx_mcdi_send_request_def hdr [symmetric] Let_def del: mcdi_set_simps(8))
  show thesis
  proof (rule that [of hw])
    show "efx_mcdi_request_start enp r ev_cpl = Some (mcdi_started enp r ev_cpl hw)"
      using start by (simp add: mcdi_set_emip_def dev1_def mcdi_started_def)
  qed (use send ready dev1(2) in \<open>simp_all add: mcdi_up_def mcdi_ready_def dev1_def mcdi_started_def\<close>)
qed

end

end
