(* ===== verification/Efx_Mcdi_Driver.thy ===== *)
theory Efx_Mcdi_Driver
  imports Efx_Mcdi_Spec
begin

text \<open>
  The illumos driver's side of MCDI, \<open>src/sfxge_mcdi.c\<close>: one request at a time, started and then polled until it
  completes or the watchdog expires. The controller's work between two polls is the parameter \<open>mc\<close>, the clock the
  parameter \<open>lbolt\<close> (its reading before the first poll, and after the poll number \<open>i\<close> that found no reply), and \<open>watchdog\<close>
  is \<open>SFXGE_MCDI_WATCHDOG_INTERVAL\<close> in clock ticks. The loop is a partial function: \<open>None\<close> is a failed assertion, an access out
  of bounds, or a call that does not return.
\<close>

section \<open>State and callbacks\<close>

datatype sfxge_mcdi_state = SFXGE_MCDI_UNINITIALIZED | SFXGE_MCDI_INITIALIZED | SFXGE_MCDI_BUSY | SFXGE_MCDI_COMPLETED

text \<open>\<open>sm_restarts\<close> lists the reasons of the restarts that were handed to \<open>sfxge_restart_dispatch\<close>.\<close>

record sfxge_mcdi =
  sm_state :: sfxge_mcdi_state
  sm_restarts :: "string list"

text \<open>The result \<open>Some None\<close> of \<open>sfxge_mcdi_acquire\<close> is a thread that has to wait on the condition variable.\<close>

definition sfxge_mcdi_acquire :: "sfxge_mcdi \<Rightarrow> sfxge_mcdi option option" where
  "sfxge_mcdi_acquire smp = do {
     efsys_assert (sm_state smp \<noteq> SFXGE_MCDI_UNINITIALIZED);
     Some (if sm_state smp \<noteq> SFXGE_MCDI_INITIALIZED then None else Some (smp\<lparr>sm_state := SFXGE_MCDI_BUSY\<rparr>)) }"

definition sfxge_mcdi_release :: "sfxge_mcdi \<Rightarrow> sfxge_mcdi option" where
  "sfxge_mcdi_release smp = do {
     efsys_assert (sm_state smp = SFXGE_MCDI_BUSY \<or> sm_state smp = SFXGE_MCDI_COMPLETED);
     Some (smp\<lparr>sm_state := SFXGE_MCDI_INITIALIZED\<rparr>) }"

definition sfxge_restart_dispatch :: "string \<Rightarrow> sfxge_mcdi \<Rightarrow> sfxge_mcdi" where
  "sfxge_restart_dispatch reason smp = smp\<lparr>sm_restarts := sm_restarts smp @ [reason]\<rparr>"

definition sfxge_mcdi_timeout :: "sfxge_mcdi \<Rightarrow> sfxge_mcdi" where
  "sfxge_mcdi_timeout smp = sfxge_restart_dispatch ''MCDI timeout'' smp"

definition sfxge_mcdi_ev_cpl :: "sfxge_mcdi \<Rightarrow> sfxge_mcdi option" where
  "sfxge_mcdi_ev_cpl smp = do {
     efsys_assert (sm_state smp = SFXGE_MCDI_BUSY);
     Some (smp\<lparr>sm_state := SFXGE_MCDI_COMPLETED\<rparr>) }"

definition sfxge_mcdi_exception :: "efx_mcdi_exception \<Rightarrow> sfxge_mcdi \<Rightarrow> sfxge_mcdi option" where
  "sfxge_mcdi_exception eme smp = Some (sfxge_restart_dispatch
     (case eme of EFX_MCDI_EXCEPTION_MC_REBOOT \<Rightarrow> ''MC_REBOOT'' | EFX_MCDI_EXCEPTION_MC_BADASSERT \<Rightarrow> ''MC_BADASSERT'') smp)"

definition sfxge_mcdi_emt :: "u64 \<Rightarrow> sfxge_mcdi mcdi_transport" where
  "sfxge_mcdi_emt addr = \<lparr>emt_dma_addr = Some addr, emt_ev_cpl = sfxge_mcdi_ev_cpl, emt_exception = sfxge_mcdi_exception\<rparr>"

section \<open>Executing a request\<close>

definition mcdi_set_ctx :: "'c \<Rightarrow> 'c mcdi_nic \<Rightarrow> 'c mcdi_nic" where
  "mcdi_set_ctx ctx enp = enp\<lparr>mn_ctx := ctx\<rparr>"

partial_function (option) sfxge_mcdi_poll ::
  "(nat \<Rightarrow> mcdi_hw \<Rightarrow> mcdi_hw) \<Rightarrow> (nat \<Rightarrow> int) \<Rightarrow> int \<Rightarrow> nat \<Rightarrow> sfxge_mcdi mcdi_nic \<Rightarrow> sfxge_mcdi mcdi_nic option" where
  "sfxge_mcdi_poll mc lbolt timeout i enp =
     efx_mcdi_request_poll (mcdi_set_hw (mc i (md_hw (mn_dev enp))) enp) \<bind> (\<lambda>(done, enp).
       if done then Some enp
       else if timeout < lbolt i
         then efx_mcdi_request_abort enp \<bind> (\<lambda>(aborted, enp).
                if aborted then Some (mcdi_set_ctx (sfxge_mcdi_timeout (mn_ctx enp)) enp) else None)
         else sfxge_mcdi_poll mc lbolt timeout (i + 1) enp)"

definition sfxge_mcdi_execute ::
  "(nat \<Rightarrow> mcdi_hw \<Rightarrow> mcdi_hw) \<Rightarrow> (nat \<Rightarrow> int) \<Rightarrow> int \<Rightarrow> int \<Rightarrow> nat \<Rightarrow> sfxge_mcdi mcdi_nic \<Rightarrow> sfxge_mcdi mcdi_nic option" where
  "sfxge_mcdi_execute mc lbolt now watchdog emrp enp = do {
     acquired \<leftarrow> sfxge_mcdi_acquire (mn_ctx enp);
     smp \<leftarrow> acquired;
     enp \<leftarrow> efx_mcdi_request_start (mcdi_set_ctx smp enp) emrp False;
     enp \<leftarrow> sfxge_mcdi_poll mc lbolt (now + watchdog) 0 enp;
     smp \<leftarrow> sfxge_mcdi_release (mn_ctx enp);
     Some (mcdi_set_ctx smp enp) }"

section \<open>Attaching\<close>

text \<open>
  \<open>sfxge_dma_buffer_create\<close> is the parameter \<open>dma_create\<close>: the bus address of a zeroed buffer of the length asked for, or
  an error.
\<close>

definition sfxge_mcdi_init :: "(nat \<Rightarrow> efx_rc + u64) \<Rightarrow> sfxge_mcdi mcdi_nic \<Rightarrow> (efx_rc \<times> sfxge_mcdi mcdi_nic) option" where
  "sfxge_mcdi_init dma_create enp = do {
     efsys_assert (sm_state (mn_ctx enp) = SFXGE_MCDI_UNINITIALIZED);
     let msg_buf_size = 4 + MCDI_CTL_SDU_LEN_MAX_V2;
     case dma_create msg_buf_size of
       Inl rc \<Rightarrow> Some (rc, enp)
     | Inr addr \<Rightarrow> do {
         let enp = mcdi_set_hw ((md_hw (mn_dev enp))\<lparr>hw_dma := replicate (msg_buf_size div 4) 0\<rparr>) enp;
         let enp = mcdi_set_ctx ((mn_ctx enp)\<lparr>sm_state := SFXGE_MCDI_INITIALIZED\<rparr>) enp;
         (rc, enp) \<leftarrow> efx_mcdi_init enp (Some (sfxge_mcdi_emt addr));
         if rc \<noteq> RC_OK
         then Some (rc, mcdi_set_ctx ((mn_ctx enp)\<lparr>sm_state := SFXGE_MCDI_UNINITIALIZED\<rparr>)
                          (mcdi_set_hw ((md_hw (mn_dev enp))\<lparr>hw_dma := []\<rparr>) enp))
         else Some (RC_OK, enp) } }"

definition sfxge_mcdi_fini :: "sfxge_mcdi mcdi_nic \<Rightarrow> sfxge_mcdi mcdi_nic option" where
  "sfxge_mcdi_fini enp = do {
     efsys_assert (sm_state (mn_ctx enp) = SFXGE_MCDI_INITIALIZED);
     enp \<leftarrow> efx_mcdi_fini enp;
     let enp = enp\<lparr>mn_emtp := None, mn_dev := (mn_dev enp)\<lparr>md_esmp := None\<rparr>\<rparr>;
     let enp = mcdi_set_hw ((md_hw (mn_dev enp))\<lparr>hw_dma := []\<rparr>) enp;
     Some (mcdi_set_ctx ((mn_ctx enp)\<lparr>sm_state := SFXGE_MCDI_UNINITIALIZED\<rparr>) enp) }"

end
