(* ===== verification/Efx_Mcdi_Exec.thy ===== *)
theory Efx_Mcdi_Exec
  imports Efx_Mcdi_Driver
begin

text \<open>
  The polling loop of the driver over any transport, and then over the two transports of the common code: a request
  always comes back, with the outcome of the first reply or a timeout.
\<close>

section \<open>The loop\<close>

text \<open>The hardware after the controller acted before the poll number \<open>i\<close>.\<close>

primrec mc_run :: "(nat \<Rightarrow> mcdi_hw \<Rightarrow> mcdi_hw) \<Rightarrow> mcdi_hw \<Rightarrow> nat \<Rightarrow> mcdi_hw" where
  "mc_run mc hw 0 = mc 0 hw"
| "mc_run mc hw (Suc i) = mc (Suc i) (mc_run mc hw i)"

text \<open>What a reply makes of a request.\<close>

definition mcdi_final :: "u32 list \<Rightarrow> u32 \<Rightarrow> efx_mcdi_req \<Rightarrow> efx_mcdi_req" where
  "mcdi_final msg seq req =
     (let q = mcdi_outcome msg seq req in if emr_rc q = RC_OK then mcdi_deliver msg q else q)"

text \<open>The restarts that a finished request asks for.\<close>

definition mcdi_restarts :: "efx_mcdi_req \<Rightarrow> string list" where
  "mcdi_restarts req =
     (if emr_rc req = EIO then if emr_cmd req = MC_CMD_REBOOT then [] else [''MC_REBOOT'']
      else if emr_rc req = EINTR then [''MC_BADASSERT''] else [])"

definition mcdi_restarted :: "string list \<Rightarrow> sfxge_mcdi \<Rightarrow> sfxge_mcdi" where
  "mcdi_restarted rs smp = smp\<lparr>sm_restarts := sm_restarts smp @ rs\<rparr>"

lemma mcdi_restarted_Nil [simp]: "mcdi_restarted [] smp = smp"
  by (simp add: mcdi_restarted_def)

lemma mcdi_set_ctx_simps [simp]:
  "mn_dev (mcdi_set_ctx c enp) = mn_dev enp" "mn_reqs (mcdi_set_ctx c enp) = mn_reqs enp" "mn_ctx (mcdi_set_ctx c enp) = c"
  "mn_emcop (mcdi_set_ctx c enp) = mn_emcop enp" "mn_emtp (mcdi_set_ctx c enp) = mn_emtp enp"
  "mn_mod_flags (mcdi_set_ctx c enp) = mn_mod_flags enp" "mcdi_ready (mcdi_set_ctx c enp) = mcdi_ready enp"
  "mcdi_up ops ok (mcdi_set_ctx c enp) = mcdi_up ops ok enp" "mcdi_set_ctx (mn_ctx enp) enp = enp"
  by (simp_all add: mcdi_set_ctx_def mcdi_ready_def mcdi_up_def)

lemma mcdi_poll_failed_restarts:
  assumes emtp: "mn_emtp enp = Some (sfxge_mcdi_emt addr)" and rc: "emr_rc (mn_reqs enp r) \<noteq> RC_OK"
  shows "mcdi_poll_failed enp r (emr_rc (mn_reqs enp r))
    = Some (True, mcdi_set_ctx (mcdi_restarted (mcdi_restarts (mn_reqs enp r)) (mn_ctx enp)) enp)"
proof -
  let ?q = "mn_reqs enp r"
  consider (reboot) "emr_rc ?q = EIO" "emr_cmd ?q = MC_CMD_REBOOT" | (exc) "emr_rc ?q = EIO" "emr_cmd ?q \<noteq> MC_CMD_REBOOT"
    | (intr) "emr_rc ?q = EINTR" | (other) "emr_rc ?q \<noteq> EIO" "emr_rc ?q \<noteq> EINTR" by blast
  then show ?thesis
    by cases (simp_all add: mcdi_poll_failed_def efx_mcdi_raise_exception_def mcdi_restarts_def mcdi_restarted_def emtp
        sfxge_mcdi_emt_def sfxge_mcdi_exception_def sfxge_restart_dispatch_def mcdi_set_ctx_def)
qed

text \<open>The state of a polled request, of the start state \<open>enp0\<close>: only the hardware, the poll count and the status word change.\<close>

definition poll_state :: "'c mcdi_nic \<Rightarrow> mcdi_hw \<Rightarrow> u32 \<Rightarrow> u32 \<Rightarrow> 'c mcdi_nic" where
  "poll_state enp0 hw c s = mcdi_set_hw hw (mcdi_set_emip ((mn_emip enp0)\<lparr>emi_poll_cnt := c, emi_mc_reboot_status := s\<rparr>) enp0)"

text \<open>The interface state, apart from the pending request and what polling counts.\<close>

definition mcdi_settled :: "efx_mcdi_iface \<Rightarrow> efx_mcdi_iface" where
  "mcdi_settled e = e\<lparr>emi_pending_req := None, emi_poll_cnt := 0, emi_mc_reboot_status := 0\<rparr>"

text \<open>What the loop leaves, when it stops at the poll \<open>j\<close> with the message \<open>msg\<close>.\<close>

definition poll_done :: "sfxge_mcdi mcdi_nic \<Rightarrow> nat \<Rightarrow> u32 list \<Rightarrow> sfxge_mcdi mcdi_nic \<Rightarrow> bool" where
  "poll_done enp0 r msg enp' =
     (let req = (if mcdi_replied msg then mcdi_final msg (mcdi_seq (mn_emip enp0)) (mn_reqs enp0 r)
                 else (mn_reqs enp0 r)\<lparr>emr_out_length_used := 0, emr_rc := ETIMEDOUT\<rparr>);
          rs = (if mcdi_replied msg then mcdi_restarts req else [''MCDI timeout''])
      in mn_reqs enp' = (mn_reqs enp0)(r := req) \<and> mn_ctx enp' = mcdi_restarted rs (mn_ctx enp0)
         \<and> mn_emtp enp' = mn_emtp enp0
         \<and> emi_pending_req (mn_emip enp') = None \<and> mcdi_settled (mn_emip enp') = mcdi_settled (mn_emip enp0))"

lemma mcdi_final_OK_or: "emr_cmd (mcdi_final msg seq req) = emr_cmd req"
  by (simp add: mcdi_final_def Let_def)

text \<open>The header of a request that is started in this state.\<close>

definition mcdi_req_header :: "'c mcdi_nic \<Rightarrow> nat \<Rightarrow> bool \<Rightarrow> u32 list" where
  "mcdi_req_header enp r ev_cpl = mcdi_request_header (emi_max_version (mn_emip enp)) (emi_new_epoch (mn_emip enp))
     (emi_seq (mn_emip enp) AND mcdi_seq_mask) ev_cpl (emr_cmd (mn_reqs enp r)) (emr_in_length (mn_reqs enp r))"

text \<open>
  A completed \<open>sfxge_mcdi_execute\<close>: \<open>hw\<close> is the hardware after the request was sent, \<open>j\<close> the number of the last poll,
  \<open>enp'\<close> the state it leaves.
\<close>

definition mcdi_executed :: "(mcdi_dev \<Rightarrow> u32 list) \<Rightarrow> (nat \<Rightarrow> mcdi_hw \<Rightarrow> mcdi_hw) \<Rightarrow> int \<Rightarrow> (nat \<Rightarrow> int) \<Rightarrow> sfxge_mcdi mcdi_nic
    \<Rightarrow> nat \<Rightarrow> mcdi_hw \<Rightarrow> sfxge_mcdi mcdi_nic \<Rightarrow> nat \<Rightarrow> bool" where
  "mcdi_executed pdu mc timeout lbolt enp r hw enp' j =
     (let msg = (\<lambda>i. pdu ((mn_dev enp)\<lparr>md_hw := mc_run mc hw i\<rparr>));
          req = mn_reqs enp r;
          payload = words_of_bytes (take (4 * ((emr_in_length req + 3) div 4)) (emr_in_buf req));
          replied = mcdi_replied (msg j);
          req' = (if replied then mcdi_final (msg j) (emi_seq (mn_emip enp) AND mcdi_seq_mask) req
                  else req\<lparr>emr_out_length_used := 0, emr_rc := ETIMEDOUT\<rparr>);
          rs = (if replied then mcdi_restarts req' else [''MCDI timeout''])
      in pdu ((mn_dev enp)\<lparr>md_hw := hw\<rparr>) = put_words (pdu (mn_dev enp)) 0 (mcdi_req_header enp r False @ payload)
         \<and> (\<forall>i. i < j \<longrightarrow> \<not> mcdi_replied (msg i) \<and> lbolt i \<le> timeout) \<and> (replied \<or> timeout < lbolt j)
         \<and> mn_reqs enp' = (mn_reqs enp)(r := req') \<and> mn_ctx enp' = mcdi_restarted rs (mn_ctx enp) \<and> mn_emtp enp' = mn_emtp enp
         \<and> emi_pending_req (mn_emip enp') = None
         \<and> mcdi_settled (mn_emip enp') = (mcdi_settled (mn_emip enp))\<lparr>emi_seq := emi_seq (mn_emip enp) + 1, emi_ev_cpl := False\<rparr>)"

context mcdi_channel
begin

lemma poll_state_up:
  assumes up: "mcdi_up ops ok enp0" and size: "mcdi_hw_same_size hw (md_hw (mn_dev enp0))"
  shows "mcdi_up ops ok (poll_state enp0 hw c s)"
    and "pdu (mn_dev (poll_state enp0 hw c s)) = pdu ((mn_dev enp0)\<lparr>md_hw := hw\<rparr>)"
    and "length (pdu ((mn_dev enp0)\<lparr>md_hw := hw\<rparr>)) = length (pdu (mn_dev enp0))"
proof -
  let ?e = "(mn_emip enp0)\<lparr>emi_poll_cnt := c, emi_mc_reboot_status := s\<rparr>"
  have hw: "ok ((mn_dev enp0)\<lparr>md_hw := hw\<rparr>)" "length (pdu ((mn_dev enp0)\<lparr>md_hw := hw\<rparr>)) = length (pdu (mn_dev enp0))"
    using up set_hw [of "mn_dev enp0" hw] size by (simp_all add: mcdi_up_def)
  have dev: "mn_dev (poll_state enp0 hw c s) = ((mn_dev enp0)\<lparr>md_hw := hw\<rparr>)\<lparr>md_emip := ?e\<rparr>"
    by (simp add: poll_state_def mcdi_set_hw_def)
  show "pdu (mn_dev (poll_state enp0 hw c s)) = pdu ((mn_dev enp0)\<lparr>md_hw := hw\<rparr>)"
    "length (pdu ((mn_dev enp0)\<lparr>md_hw := hw\<rparr>)) = length (pdu (mn_dev enp0))"
    using set_emip [OF hw(1), of ?e] hw(2) by (simp_all only: dev) simp_all
  have "ok (mn_dev (poll_state enp0 hw c s))" using set_emip [OF hw(1), of ?e] by (simp only: dev) simp
  then show "mcdi_up ops ok (poll_state enp0 hw c s)"
    using up by (simp add: mcdi_up_def poll_state_def mcdi_set_hw_def mcdi_set_emip_def mcdi_ready_def)
qed

lemma poll_once:
  assumes up: "mcdi_up ops ok enp0" and size: "mcdi_hw_same_size hw (md_hw (mn_dev enp0))"
    and pend: "emi_pending_req (mn_emip enp0) = Some r" "\<not> emi_ev_cpl (mn_emip enp0)"
    and fits: "mcdi_out_fits (pdu (mn_dev enp0)) (mn_reqs enp0 r)"
    and emtp: "mn_emtp enp0 = Some (sfxge_mcdi_emt addr)"
    and msg: "msg = pdu ((mn_dev enp0)\<lparr>md_hw := hw\<rparr>)"
  shows "if mcdi_replied msg
    then \<exists>enp'. efx_mcdi_request_poll (poll_state enp0 hw c s) = Some (True, enp') \<and> poll_done enp0 r msg enp' \<and> mcdi_up ops ok enp'
    else \<exists>s'. efx_mcdi_request_poll (poll_state enp0 hw c s) = Some (False, poll_state enp0 hw (c + 1) s')"
proof -
  let ?enp = "poll_state enp0 hw c s"
  have same: "mn_reqs ?enp = mn_reqs enp0" "mn_ctx ?enp = mn_ctx enp0" "mn_emtp ?enp = mn_emtp enp0"
    "mn_emip ?enp = (mn_emip enp0)\<lparr>emi_poll_cnt := c, emi_mc_reboot_status := s\<rparr>"
    by (simp_all add: poll_state_def mcdi_set_hw_def)
  note up1 = poll_state_up(1) [OF up size, of c s] and len1 = poll_state_up(3) [OF up size]
  have msg1: "pdu (mn_dev ?enp) = msg" using poll_state_up(2) [OF up size] msg by simp
  have fits1: "mcdi_out_fits (pdu (mn_dev ?enp)) (mn_reqs ?enp r)"
    using fits len1 by (simp add: mcdi_out_fits_def same msg1 msg)
  have pend1: "emi_pending_req (mn_emip ?enp) = Some r" "\<not> emi_ev_cpl (mn_emip ?enp)" using pend by (simp_all add: same)
  let ?q = "mcdi_outcome msg (mcdi_seq (mn_emip enp0)) (mn_reqs enp0 r)"
  obtain t where poll: "efx_mcdi_request_poll ?enp =
    (let emip = (mn_emip enp0)\<lparr>emi_poll_cnt := c + 1, emi_mc_reboot_status := t\<rparr>;
         done = mcdi_set_emip (emip\<lparr>emi_pending_req := None\<rparr>) ?enp
     in if \<not> mcdi_replied msg then Some (False, mcdi_set_emip emip ?enp)
        else if emr_rc ?q \<noteq> RC_OK then mcdi_poll_failed (mcdi_set_req r ?q done) r (emr_rc ?q)
        else Some (True, mcdi_set_req r (mcdi_deliver msg ?q) done))"
    using up_poll [OF up1 pend1 fits1] by (auto simp: msg1 same Let_def)
  let ?d = "mcdi_set_emip ((mn_emip enp0)\<lparr>emi_poll_cnt := c + 1, emi_mc_reboot_status := t, emi_pending_req := None\<rparr>) ?enp"
  show ?thesis
  proof (cases "mcdi_replied msg")
    case False
    with poll have "efx_mcdi_request_poll ?enp = Some (False, poll_state enp0 hw (c + 1) t)"
      by (simp add: poll_state_def mcdi_set_hw_def mcdi_set_emip_def Let_def)
    with False show ?thesis by auto
  next
    case True
    have up2: "mcdi_up ops ok ?d" using up_set_emip [OF up1] by (simp add: same)
    have up3: "mcdi_up ops ok (mcdi_set_req r x ?d)" for x using up2 by (simp add: mcdi_up_def)
    show ?thesis
    proof (cases "emr_rc ?q = RC_OK")
      case ok: True
      have fin: "mcdi_final msg (mcdi_seq (mn_emip enp0)) (mn_reqs enp0 r) = mcdi_deliver msg ?q"
        by (simp add: mcdi_final_def ok)
      have "mcdi_restarts (mcdi_deliver msg ?q) = []" by (simp add: mcdi_restarts_def ok)
      then have "poll_done enp0 r msg (mcdi_set_req r (mcdi_deliver msg ?q) ?d)"
        using True by (simp add: poll_done_def fin same Let_def mcdi_settled_def)
      with True ok poll up3 show ?thesis by (simp add: Let_def)
    next
      case bad: False
      have fin: "mcdi_final msg (mcdi_seq (mn_emip enp0)) (mn_reqs enp0 r) = ?q"
        using bad by (simp add: mcdi_final_def)
      let ?f = "mcdi_set_ctx (mcdi_restarted (mcdi_restarts ?q) (mn_ctx enp0)) (mcdi_set_req r ?q ?d)"
      have "mcdi_poll_failed (mcdi_set_req r ?q ?d) r (emr_rc ?q) = Some (True, ?f)"
        using mcdi_poll_failed_restarts [of "mcdi_set_req r ?q ?d" addr r] emtp bad by (simp add: same)
      moreover have "poll_done enp0 r msg ?f"
        using True by (simp add: poll_done_def fin same Let_def mcdi_settled_def)
      ultimately show ?thesis using True bad poll up3 by (simp add: Let_def)
    qed
  qed
qed

lemma poll_abort:
  assumes up: "mcdi_up ops ok enp0" and size: "mcdi_hw_same_size hw (md_hw (mn_dev enp0))"
    and pend: "emi_pending_req (mn_emip enp0) = Some r" "\<not> emi_ev_cpl (mn_emip enp0)" and msg: "\<not> mcdi_replied msg"
  shows "\<exists>enp'. efx_mcdi_request_abort (poll_state enp0 hw c s) = Some (True, enp')
    \<and> poll_done enp0 r msg (mcdi_set_ctx (sfxge_mcdi_timeout (mn_ctx enp')) enp') \<and> mcdi_up ops ok enp'"
proof -
  let ?enp = "poll_state enp0 hw c s"
  let ?e = "(mn_emip enp0)\<lparr>emi_poll_cnt := c, emi_mc_reboot_status := s, emi_pending_req := None\<rparr>"
  let ?req = "(mn_reqs enp0 r)\<lparr>emr_out_length_used := 0, emr_rc := ETIMEDOUT\<rparr>"
  have same: "mn_reqs ?enp = mn_reqs enp0" "mn_ctx ?enp = mn_ctx enp0" "mn_emtp ?enp = mn_emtp enp0"
    "mn_emip ?enp = (mn_emip enp0)\<lparr>emi_poll_cnt := c, emi_mc_reboot_status := s\<rparr>"
    by (simp_all add: poll_state_def mcdi_set_hw_def)
  note up1 = poll_state_up(1) [OF up size, of c s]
  have ready: "mcdi_ready ?enp" using up1 by (simp add: mcdi_up_def)
  have "efx_mcdi_request_abort ?enp = Some (True, mcdi_set_emip ?e (mcdi_set_req r ?req ?enp))"
    using ready pend by (simp add: efx_mcdi_request_abort_def same Let_def)
  moreover have "mcdi_up ops ok (mcdi_set_emip ?e (mcdi_set_req r ?req ?enp))"
    using up_set_emip [OF up1, of ?e] by (simp add: mcdi_up_def same)
  ultimately show ?thesis using msg
    by (intro exI [of _ "mcdi_set_emip ?e (mcdi_set_req r ?req ?enp)"])
      (simp add: poll_done_def same Let_def mcdi_settled_def mcdi_restarted_def sfxge_mcdi_timeout_def sfxge_restart_dispatch_def)
qed

lemma poll_loop:
  assumes up: "mcdi_up ops ok enp0" and size: "\<And>i. mcdi_hw_same_size (mc_run mc hw0 i) (md_hw (mn_dev enp0))"
    and pend: "emi_pending_req (mn_emip enp0) = Some r" "\<not> emi_ev_cpl (mn_emip enp0)"
    and fits: "mcdi_out_fits (pdu (mn_dev enp0)) (mn_reqs enp0 r)"
    and emtp: "mn_emtp enp0 = Some (sfxge_mcdi_emt addr)"
    and msg: "\<And>i. msg i = pdu ((mn_dev enp0)\<lparr>md_hw := mc_run mc hw0 i\<rparr>)"
    and wd: "timeout < lbolt k"
  shows "i \<le> k \<Longrightarrow> mc i hw = mc_run mc hw0 i \<Longrightarrow>
    \<exists>enp' j. i \<le> j \<and> j \<le> k \<and> sfxge_mcdi_poll mc lbolt timeout i (poll_state enp0 hw c s) = Some enp'
      \<and> poll_done enp0 r (msg j) enp' \<and> mcdi_up ops ok enp'
      \<and> (\<forall>m. i \<le> m \<and> m < j \<longrightarrow> \<not> mcdi_replied (msg m) \<and> lbolt m \<le> timeout)
      \<and> (mcdi_replied (msg j) \<or> timeout < lbolt j)"
proof (induction "k - i" arbitrary: i hw c s rule: less_induct)
  case less
  let ?hw = "mc_run mc hw0 i"
  have step: "mcdi_set_hw (mc i (md_hw (mn_dev (poll_state enp0 hw c s)))) (poll_state enp0 hw c s) = poll_state enp0 ?hw c s"
    using less.prems(2) by (simp add: poll_state_def mcdi_set_hw_def)
  note once = poll_once [OF up size pend fits emtp msg [of i], of c s]
  show ?case
  proof (cases "mcdi_replied (msg i)")
    case True
    with once obtain enp' where "efx_mcdi_request_poll (poll_state enp0 ?hw c s) = Some (True, enp')"
      "poll_done enp0 r (msg i) enp'" "mcdi_up ops ok enp'" by auto
    with True step less.prems(1) show ?thesis
      by (intro exI [of _ enp'] exI [of _ i]) (auto simp: sfxge_mcdi_poll.simps)
  next
    case no_reply: False
    with once obtain s' where poll: "efx_mcdi_request_poll (poll_state enp0 ?hw c s) = Some (False, poll_state enp0 ?hw (c + 1) s')"
      by auto
    show ?thesis
    proof (cases "timeout < lbolt i")
      case True
      obtain enp' where abort: "efx_mcdi_request_abort (poll_state enp0 ?hw (c + 1) s') = Some (True, enp')"
        "poll_done enp0 r (msg i) (mcdi_set_ctx (sfxge_mcdi_timeout (mn_ctx enp')) enp')" "mcdi_up ops ok enp'"
        using poll_abort [OF up size pend no_reply, of i "c + 1" s'] by auto
      with True step poll no_reply less.prems(1) show ?thesis
        by (intro exI [of _ "mcdi_set_ctx (sfxge_mcdi_timeout (mn_ctx enp')) enp'"] exI [of _ i])
          (auto simp: sfxge_mcdi_poll.simps)
    next
      case False
      with wd less.prems(1) have i: "i < k" by (cases "i = k") auto
      have next_i: "k - (i + 1) < k - i" "i + 1 \<le> k" "mc (i + 1) ?hw = mc_run mc hw0 (i + 1)" using i by simp_all
      obtain enp' j where rest: "i + 1 \<le> j" "j \<le> k" "sfxge_mcdi_poll mc lbolt timeout (i + 1) (poll_state enp0 ?hw (c + 1) s') = Some enp'"
        "poll_done enp0 r (msg j) enp'" "mcdi_up ops ok enp'"
        "\<forall>m. i + 1 \<le> m \<and> m < j \<longrightarrow> \<not> mcdi_replied (msg m) \<and> lbolt m \<le> timeout" "mcdi_replied (msg j) \<or> timeout < lbolt j"
        using less.hyps [OF next_i] by metis
      have "sfxge_mcdi_poll mc lbolt timeout i (poll_state enp0 hw c s) = Some enp'"
        using step poll False rest(3) by (subst sfxge_mcdi_poll.simps) simp
      moreover have "\<not> mcdi_replied (msg m) \<and> lbolt m \<le> timeout" if "i \<le> m" "m < j" for m
        using that rest(6) no_reply False by (cases "m = i") auto
      ultimately show ?thesis using rest by (intro exI [of _ enp'] exI [of _ j]) auto
    qed
  qed
qed

text \<open>The whole of \<open>sfxge_mcdi_execute\<close>. The message \<open>msg i\<close> is what the driver sees at the poll number \<open>i\<close>.\<close>

lemma execute:
  assumes up: "mcdi_up ops ok enp" and init: "sm_state (mn_ctx enp) = SFXGE_MCDI_INITIALIZED"
    and idle: "emi_pending_req (mn_emip enp) = None" and emtp: "mn_emtp enp = Some (sfxge_mcdi_emt addr)"
    and hdr: "hdr = mcdi_req_header enp r False"
    and fits: "mcdi_in_fits (length hdr) (pdu (mn_dev enp)) (mn_reqs enp r)" "mcdi_out_fits (pdu (mn_dev enp)) (mn_reqs enp r)"
    and mc: "\<And>i hw. mcdi_hw_same_size (mc i hw) hw" and wd: "now + watchdog < lbolt k"
  shows "\<exists>hw enp' j. mcdi_executed pdu mc (now + watchdog) lbolt enp r hw enp' j \<and> j \<le> k
    \<and> sfxge_mcdi_execute mc lbolt now watchdog r enp = Some enp' \<and> mcdi_up ops ok enp'"
proof -
  let ?busy = "(mn_ctx enp)\<lparr>sm_state := SFXGE_MCDI_BUSY\<rparr>"
  let ?enp1 = "mcdi_set_ctx ?busy enp"
  have up1: "mcdi_up ops ok ?enp1" using up by simp
  obtain hw where start: "efx_mcdi_request_start ?enp1 r False = Some (mcdi_started ?enp1 r False hw)"
    "mcdi_up ops ok (mcdi_started ?enp1 r False hw)"
    "pdu (mn_dev (mcdi_started ?enp1 r False hw)) = put_words (pdu (mn_dev enp)) 0
       (hdr @ words_of_bytes (take (4 * ((emr_in_length (mn_reqs enp r) + 3) div 4)) (emr_in_buf (mn_reqs enp r))))"
    by (rule up_start [OF up1, of hdr False r]) (use idle fits hdr in \<open>simp_all add: mcdi_req_header_def\<close>)
  define enp0 where "enp0 = mcdi_started ?enp1 r False hw"
  define e0 where "e0 = mn_emip enp0"
  have enp0: "mn_reqs enp0 = mn_reqs enp" "mn_ctx enp0 = ?busy" "mn_emtp enp0 = Some (sfxge_mcdi_emt addr)"
    "md_hw (mn_dev enp0) = hw" "emi_pending_req e0 = Some r" "\<not> emi_ev_cpl e0"
    "mcdi_seq e0 = emi_seq (mn_emip enp) AND mcdi_seq_mask"
    by (simp_all add: enp0_def e0_def mcdi_started_def mcdi_set_ctx_def emtp)
  have same: "enp0 = poll_state enp0 hw (emi_poll_cnt e0) (emi_mc_reboot_status e0)"
    using enp0(4) by (simp add: poll_state_def mcdi_set_hw_def mcdi_set_emip_def e0_def)
  have sizes: "mcdi_hw_same_size (mc_run mc hw i) hw" for i
  proof (induction i)
    case (Suc i)
    then show ?case using mc [of "Suc i" "mc_run mc hw i"] by (simp add: mcdi_hw_same_size_def)
  qed (simp add: mc)
  have sizes0: "mcdi_hw_same_size (mc_run mc hw i) (md_hw (mn_dev enp0))" for i
    by (simp add: sizes enp0(4))
  define msg where "msg i = pdu ((mn_dev enp)\<lparr>md_hw := mc_run mc hw i\<rparr>)" for i
  have port: "emi_port e0 = emi_port (mn_emip enp)" "emi_max_version e0 = emi_max_version (mn_emip enp)"
    by (simp_all add: enp0_def e0_def mcdi_started_def)
  have started: "put_words (pdu (mn_dev enp)) 0 (hdr @ words_of_bytes (take (4 * ((emr_in_length (mn_reqs enp r) + 3) div 4)) (emr_in_buf (mn_reqs enp r))))
    = pdu (mn_dev enp0)" by (simp add: enp0_def start(3))
  have "length (hdr @ words_of_bytes (take (4 * ((emr_in_length (mn_reqs enp r) + 3) div 4)) (emr_in_buf (mn_reqs enp r)))) \<le> length (pdu (mn_dev enp))"
    using fits(1) by (simp add: mcdi_in_fits_def words_of_bytes_length Let_def)
  then have len0: "length (pdu (mn_dev enp0)) = length (pdu (mn_dev enp))" by (simp flip: started)
  have same_pdu: "pdu ((mn_dev enp)\<lparr>md_hw := h\<rparr>) = pdu ((mn_dev enp0)\<lparr>md_hw := h\<rparr>)" if "mcdi_hw_same_size h hw" for h
  proof -
    have "ok ((mn_dev enp0)\<lparr>md_hw := h\<rparr>)"
      using start(2) set_hw [of "mn_dev enp0" h] that by (simp add: mcdi_up_def enp0(4) flip: enp0_def)
    moreover have "(mn_dev enp)\<lparr>md_hw := h\<rparr> = ((mn_dev enp0)\<lparr>md_hw := h\<rparr>)\<lparr>md_emip := mn_emip enp\<rparr>"
      by (simp add: enp0_def mcdi_started_def)
    ultimately show ?thesis
      using set_emip [of "(mn_dev enp0)\<lparr>md_hw := h\<rparr>" "mn_emip enp"] port by (simp add: e0_def)
  qed
  have msg: "msg i = pdu ((mn_dev enp0)\<lparr>md_hw := mc_run mc hw i\<rparr>)" for i
    unfolding msg_def by (rule same_pdu [OF sizes])
  have sent: "pdu ((mn_dev enp)\<lparr>md_hw := hw\<rparr>) = pdu (mn_dev enp0)"
  proof -
    have "(mn_dev enp0)\<lparr>md_hw := hw\<rparr> = mn_dev enp0" by (simp flip: enp0(4))
    then show ?thesis using same_pdu [of hw] by (simp add: mcdi_hw_same_size_def)
  qed
  have fits0: "mcdi_out_fits (pdu (mn_dev enp0)) (mn_reqs enp0 r)"
    using fits(2) len0 by (simp add: mcdi_out_fits_def enp0)
  obtain enp1 j where loop: "j \<le> k" "sfxge_mcdi_poll mc lbolt (now + watchdog) 0 enp0 = Some enp1"
      "poll_done enp0 r (msg j) enp1" "mcdi_up ops ok enp1"
      "\<forall>m. m < j \<longrightarrow> \<not> mcdi_replied (msg m) \<and> lbolt m \<le> now + watchdog" "mcdi_replied (msg j) \<or> now + watchdog < lbolt j"
    using poll_loop [where i = 0 and hw = hw and ?hw0.0 = hw and lbolt = lbolt and timeout = "now + watchdog"
          and k = k and msg = msg and c = "emi_poll_cnt e0" and s = "emi_mc_reboot_status e0",
        OF start(2) [folded enp0_def] sizes0 enp0(5,6) [unfolded e0_def] fits0 enp0(3) msg wd, folded same]
    by auto
  have seq0: "mcdi_seq (mn_emip enp0) = emi_seq (mn_emip enp) AND mcdi_seq_mask" using enp0(7) by (simp add: e0_def)
  have settled: "mcdi_settled (mn_emip enp0) = (mcdi_settled (mn_emip enp))\<lparr>emi_seq := emi_seq (mn_emip enp) + 1, emi_ev_cpl := False\<rparr>"
    by (simp add: mcdi_settled_def enp0_def mcdi_started_def)
  let ?enp' = "mcdi_set_ctx ((mn_ctx enp1)\<lparr>sm_state := SFXGE_MCDI_INITIALIZED\<rparr>) enp1"
  note fin = loop(3) [unfolded poll_done_def Let_def]
  have busy: "sm_state (mn_ctx enp1) = SFXGE_MCDI_BUSY"
    using fin enp0(2) by (simp add: mcdi_restarted_def)
  have ctx: "(mn_ctx enp1)\<lparr>sm_state := SFXGE_MCDI_INITIALIZED\<rparr> = mcdi_restarted rs (mn_ctx enp)"
    if "mn_ctx enp1 = mcdi_restarted rs (mn_ctx enp0)" for rs
    using that enp0(2) init by (simp add: mcdi_restarted_def)
  have "sfxge_mcdi_execute mc lbolt now watchdog r enp = Some ?enp'"
    using init start(1) loop(2) busy
    by (simp add: sfxge_mcdi_execute_def sfxge_mcdi_acquire_def sfxge_mcdi_release_def flip: enp0_def)
  moreover have "mcdi_executed pdu mc (now + watchdog) lbolt enp r hw ?enp' j"
    using loop(5,6) fin ctx enp0 port
    by (simp add: mcdi_executed_def Let_def sent started [folded hdr] flip: msg_def hdr) (simp add: emtp settled seq0)
  ultimately show ?thesis using loop(1,4) by (intro exI [of _ hw] exI [of _ ?enp'] exI [of _ j]) simp
qed

end

end
