(* ===== verification/Efx_Mcdi_Credit.thy ===== *)
theory Efx_Mcdi_Credit
  imports Efx_Mcdi "HOL-Library.Multiset"
begin

text \<open>
  The completion credits of MCDI: \<open>emi_aborted\<close> counts the requests that were given up while their completion event was
  still to come. The reachable states are those of any interleaving of requests, polls, timeouts, completion events, death
  events and actions of the controller; \<open>out\<close> is the multiset of the sequence numbers whose completion events are outstanding.
\<close>

section \<open>What the credits depend on\<close>

text \<open>Whether an event completes the pending request, the sequence number, the credits.\<close>

definition credit_view :: "efx_mcdi_iface \<Rightarrow> bool \<times> u32 \<times> int" where
  "credit_view e = (emi_pending_req e \<noteq> None \<and> emi_ev_cpl e, emi_seq e, emi_aborted e)"

definition dev_same :: "mcdi_dev \<Rightarrow> mcdi_dev \<Rightarrow> bool" where
  "dev_same d d' = (md_features d' = md_features d \<and> credit_view (md_emip d') = credit_view (md_emip d))"

definition nic_same :: "'c mcdi_nic \<Rightarrow> 'c mcdi_nic \<Rightarrow> bool" where
  "nic_same enp enp' =
     (mn_emcop enp' = mn_emcop enp \<and> mn_mod_flags enp' = mn_mod_flags enp \<and> dev_same (mn_dev enp) (mn_dev enp'))"

lemma nic_same_refl [simp]: "nic_same enp enp"
  by (simp add: nic_same_def dev_same_def)

lemma nic_same_trans: "nic_same a b \<Longrightarrow> nic_same b c \<Longrightarrow> nic_same a c"
  by (simp add: nic_same_def dev_same_def)

lemma nic_same_set_req [simp]: "nic_same enp (mcdi_set_req r q enp')  = nic_same enp enp'"
  by (simp add: nic_same_def mcdi_set_req_def)

lemma nic_same_ready: "nic_same enp enp' \<Longrightarrow> mcdi_ready enp' = mcdi_ready enp"
  by (simp add: nic_same_def dev_same_def mcdi_ready_def)

lemma call_ev_cpl_same: "mcdi_call_ev_cpl enp = Some enp' \<Longrightarrow> nic_same enp enp'"
  by (auto simp: mcdi_call_ev_cpl_def nic_same_def dev_same_def split: Option.bind_splits)

lemma raise_exception_same: "efx_mcdi_raise_exception enp emrp rc = Some enp' \<Longrightarrow> nic_same enp enp'"
  by (auto simp: efx_mcdi_raise_exception_def nic_same_def dev_same_def split: Option.bind_splits if_splits)

lemma finish_response_same: "efx_mcdi_finish_response enp r = Some enp' \<Longrightarrow> nic_same enp enp'"
  by (auto simp: efx_mcdi_finish_response_def Let_def split: Option.bind_splits if_splits option.splits prod.splits)

section \<open>Transports leave the credits alone\<close>

locale mcdi_frame =
  fixes ops :: mcdi_ops
  assumes send_frame: "emco_send_request ops hdr sdup sdu_len dev = Some dev' \<Longrightarrow> dev_same dev dev'"
    and reboot_frame: "emco_poll_reboot ops dev = Some (rc, dev') \<Longrightarrow> dev_same dev dev'"
begin

lemma poll_reboot_same: "mn_emcop enp = Some ops \<Longrightarrow> efx_mcdi_poll_reboot enp = Some (rc, enp') \<Longrightarrow> nic_same enp enp'"
  by (auto simp: efx_mcdi_poll_reboot_def nic_same_def dest: reboot_frame split: Option.bind_splits prod.splits)

lemma read_header_same:
  assumes "mn_emcop enp = Some ops" "efx_mcdi_read_response_header enp r = Some enp'"
  shows "nic_same enp enp'"
  using assms poll_reboot_same [OF assms(1)]
  by (auto simp: efx_mcdi_read_response_header_def Let_def split: Option.bind_splits if_splits prod.splits)

lemma start_credit:
  assumes "mn_emcop enp = Some ops" "efx_mcdi_request_start enp r ev = Some enp'"
  shows "mn_emcop enp' = mn_emcop enp \<and> mcdi_ready enp' \<and> emi_pending_req (mn_emip enp) = None
    \<and> credit_view (mn_emip enp') = (ev, emi_seq (mn_emip enp) + 1, emi_aborted (mn_emip enp))"
  using assms
  by (auto simp: efx_mcdi_request_start_def efx_mcdi_send_request_def mcdi_ready_def mcdi_set_emip_def credit_view_def dev_same_def Let_def
      dest!: send_frame split: Option.bind_splits if_splits)

lemma set_emip_same:
  "credit_view e = credit_view (mn_emip enp) \<Longrightarrow> nic_same enp (mcdi_set_emip e enp)"
  by (simp add: nic_same_def dev_same_def mcdi_set_emip_def)

lemma poll_failed_same: "mcdi_poll_failed enp r rc = Some (b, enp') \<Longrightarrow> nic_same enp enp'"
  by (auto simp: mcdi_poll_failed_def dest: raise_exception_same split: Option.bind_splits if_splits)

lemma poll_credit:
  assumes ops: "mn_emcop enp = Some ops" and poll: "efx_mcdi_request_poll enp = Some (b, enp')"
  shows "nic_same enp enp'"
proof -
  let ?e1 = "(mn_emip enp)\<lparr>emi_poll_cnt := emi_poll_cnt (mn_emip enp) + 1\<rparr>"
  let ?enp1 = "mcdi_set_emip ?e1 enp"
  from poll have ev: "\<not> emi_ev_cpl (mn_emip enp)" "mcdi_ready enp"
    by (auto simp: efx_mcdi_request_poll_def split: Option.bind_splits if_splits)
  have s1: "nic_same enp ?enp1" by (rule set_emip_same) (simp add: credit_view_def)
  obtain r rc enp2 where r: "emi_pending_req (mn_emip enp) = Some r"
    and reboot: "(if emi_poll_cnt (mn_emip enp) = 0 then efx_mcdi_poll_reboot ?enp1 else Some (RC_OK, ?enp1)) = Some (rc, enp2)"
    using poll by (auto simp: efx_mcdi_request_poll_def Let_def split: Option.bind_splits if_splits)
  have ops1: "mn_emcop ?enp1 = Some ops" using ops by (simp add: mcdi_set_emip_def)
  have "nic_same ?enp1 enp2"
    using reboot poll_reboot_same [OF ops1] by (auto split: if_splits)
  then have s2: "nic_same enp enp2" by (rule nic_same_trans [OF s1])
  have ops2: "mn_emcop enp2 = Some ops" using s2 ops by (simp add: nic_same_def)
  have idle: "nic_same enp (mcdi_set_emip ((mn_emip e)\<lparr>emi_pending_req := None\<rparr>) e)" if "nic_same enp e" for e
    using that ev(1) by (auto simp: nic_same_def dev_same_def mcdi_set_emip_def credit_view_def)
  have rest: "(if rc \<noteq> RC_OK then mcdi_poll_failed (mcdi_set_emip ((mn_emip enp2)\<lparr>emi_pending_req := None\<rparr>) enp2) r rc
     else do {
       available \<leftarrow> efx_mcdi_poll_response enp2;
       if \<not> available then Some (False, enp2)
       else do {
         enp \<leftarrow> efx_mcdi_read_response_header enp2 r;
         let enp = mcdi_set_emip ((mn_emip enp)\<lparr>emi_pending_req := None\<rparr>) enp;
         let rc = emr_rc (mn_reqs enp r);
         if rc \<noteq> RC_OK then mcdi_poll_failed enp r rc
         else do { enp \<leftarrow> efx_mcdi_finish_response enp r; Some (True, enp) } } }) = Some (b, enp')"
    using poll ev r reboot by (simp add: efx_mcdi_request_poll_def Let_def)
  consider (failed) "mcdi_poll_failed (mcdi_set_emip ((mn_emip enp2)\<lparr>emi_pending_req := None\<rparr>) enp2) r rc = Some (b, enp')"
    | (waiting) "enp' = enp2"
    | (replied) enp3 where "efx_mcdi_read_response_header enp2 r = Some enp3"
        "nic_same (mcdi_set_emip ((mn_emip enp3)\<lparr>emi_pending_req := None\<rparr>) enp3) enp'"
    using rest
    by (auto simp: Let_def dest: poll_failed_same finish_response_same split: if_splits Option.bind_splits)
  then show ?thesis
  proof cases
    case failed
    then show ?thesis using idle [OF s2] poll_failed_same nic_same_trans by blast
  next
    case replied
    have "nic_same enp enp3" using nic_same_trans [OF s2 read_header_same [OF ops2 replied(1)]] .
    from nic_same_trans [OF idle [OF this] replied(2)] show ?thesis .
  qed (simp add: s2)
qed

lemma abort_credit:
  assumes "efx_mcdi_request_abort enp = Some (b, enp')"
  shows "mn_emcop enp' = mn_emcop enp \<and> mcdi_ready enp'
    \<and> (case credit_view (mn_emip enp) of (p, s, a) \<Rightarrow> credit_view (mn_emip enp') = (False, s, if p then a + 1 else a))"
  using assms
  by (auto simp: efx_mcdi_request_abort_def credit_view_def mcdi_set_emip_def mcdi_set_req_def mcdi_ready_def Let_def
      split: option.splits if_splits)

lemma ev_cpl_credit:
  assumes ops: "mn_emcop enp = Some ops" and cpl: "efx_mcdi_ev_cpl enp seq outlen err = Some enp'"
  shows "mn_emcop enp' = mn_emcop enp \<and> mcdi_ready enp'
    \<and> (case credit_view (mn_emip enp) of (p, s, a) \<Rightarrow>
         if mcdi_cpl_matches enp seq then credit_view (mn_emip enp') = (False, s, a)
         else credit_view (mn_emip enp') = (p, s, a - 1) \<and> 0 < a)"
proof (cases "mcdi_cpl_matches enp seq")
  case False
  with cpl show ?thesis
    by (auto simp: efx_mcdi_ev_cpl_def credit_view_def mcdi_set_emip_def mcdi_ready_def Let_def split: if_splits)
next
  case True
  then obtain r where r: "emi_pending_req (mn_emip enp) = Some r" by (auto simp: mcdi_cpl_matches_def)
  have ready: "mcdi_ready enp" using cpl by (auto simp: efx_mcdi_ev_cpl_def split: if_splits)
  define enp1 where "enp1 = mcdi_set_emip ((mn_emip enp)\<lparr>emi_pending_req := None\<rparr>) enp"
  have enp1: "mn_emcop enp1 = Some ops" "mcdi_ready enp1" "mn_emcop enp1 = mn_emcop enp"
    "credit_view (mn_emip enp1) = (False, emi_seq (mn_emip enp), emi_aborted (mn_emip enp))"
    using ops ready by (simp_all add: enp1_def mcdi_set_emip_def mcdi_ready_def credit_view_def)
  let ?req = "mn_reqs enp1 r"
  obtain enp2 enp3 where
    hdr: "(if 2 \<le> emi_max_version (mn_emip enp1) then efx_mcdi_read_response_header enp1 r
           else if err \<noteq> 0
             then Some (mcdi_set_req r (?req\<lparr>emr_out_length_used := 0, emr_rc := efx_mcdi_request_errcode err\<rparr>) enp1)
             else Some (mcdi_set_req r (?req\<lparr>emr_out_length_used := outlen, emr_rc := RC_OK\<rparr>) enp1)) = Some enp2"
    and fin: "(if err = 0 then efx_mcdi_finish_response enp2 r else Some enp2) = Some enp3"
    and call: "mcdi_call_ev_cpl enp3 = Some enp'"
    using cpl True ready r unfolding enp1_def by (auto simp: efx_mcdi_ev_cpl_def Let_def bind_eq_Some_conv)
  have "nic_same enp1 enp2" using hdr read_header_same [OF enp1(1)] by (auto split: if_splits)
  moreover have "nic_same enp2 enp3" using fin finish_response_same by (auto split: if_splits)
  ultimately have same: "nic_same enp1 enp'" using call_ev_cpl_same [OF call] nic_same_trans by blast
  show ?thesis using same enp1 nic_same_ready [OF same] True by (auto simp: nic_same_def dev_same_def credit_view_def)
qed

lemma ev_death_credit:
  assumes ops: "mn_emcop enp = Some ops" and ready: "mcdi_ready enp" and death: "efx_mcdi_ev_death enp rc = Some enp'"
  shows "mn_emcop enp' = mn_emcop enp \<and> mcdi_ready enp'
    \<and> (case credit_view (mn_emip enp) of (p, s, a) \<Rightarrow> credit_view (mn_emip enp') = (False, s, if p then a + 1 else a))"
proof -
  define enp1 where "enp1 = (case emi_pending_req (mn_emip enp) of
         Some r \<Rightarrow>
           if emi_ev_cpl (mn_emip enp)
           then mcdi_set_emip ((mn_emip enp)\<lparr>emi_pending_req := None, emi_aborted := emi_aborted (mn_emip enp) + 1\<rparr>)
                  (mcdi_set_req r ((mn_reqs enp r)\<lparr>emr_out_length_used := 0, emr_rc := rc\<rparr>) enp)
           else enp
       | None \<Rightarrow> enp)"
  have enp1: "mn_emcop enp1 = Some ops" "mcdi_ready enp1"
    "case credit_view (mn_emip enp) of (p, s, a) \<Rightarrow> credit_view (mn_emip enp1) = (False, s, if p then a + 1 else a)"
    using ops ready
    by (auto simp: enp1_def mcdi_set_emip_def mcdi_set_req_def mcdi_ready_def credit_view_def split: option.splits)
  obtain enp2 enp3 where
    boot: "(if rc = EIO \<or> rc = EINTR then do { (_, enp) \<leftarrow> efx_mcdi_poll_reboot enp1; Some (efx_mcdi_new_epoch enp) } else Some enp1) = Some enp2"
    and exc: "efx_mcdi_raise_exception enp2 (emi_pending_req (mn_emip enp)) rc = Some enp3"
    and call: "nic_same enp3 enp'"
    using death
    by (auto simp: efx_mcdi_ev_death_def Let_def bind_eq_Some_conv simp flip: enp1_def dest: call_ev_cpl_same split: if_splits)
  have epoch: "nic_same e (efx_mcdi_new_epoch e)" for e :: "'a mcdi_nic"
    by (simp add: efx_mcdi_new_epoch_def set_emip_same credit_view_def)
  have "nic_same enp1 enp2"
    using boot poll_reboot_same [OF enp1(1)] epoch
    by (auto split: if_splits prod.splits Option.bind_splits intro: nic_same_trans)
  then have same: "nic_same enp1 enp'" using nic_same_trans [OF _ raise_exception_same [OF exc]] call nic_same_trans by blast
  show ?thesis using same enp1 ops nic_same_ready [OF same] by (auto simp: nic_same_def dev_same_def)
qed

end

lemma siena_send_frame: "siena_mcdi_send_request hdr sdup n dev = Some dev' \<Longrightarrow> dev_same dev dev'"
  by (auto simp: siena_mcdi_send_request_def dev_same_def Let_def split: Option.bind_splits if_splits)

lemma ef10_send_frame: "ef10_mcdi_send_request hdr sdup n dev = Some dev' \<Longrightarrow> dev_same dev dev'"
  by (auto simp: ef10_mcdi_send_request_def dev_same_def Let_def split: Option.bind_splits if_splits)

interpretation siena_frame: mcdi_frame efx_mcdi_siena_ops
  by unfold_locales (auto simp: efx_mcdi_siena_ops_def siena_mcdi_poll_reboot_def dev_same_def dest: siena_send_frame)

interpretation ef10_frame: mcdi_frame efx_mcdi_ef10_ops
  by unfold_locales
    (auto simp: efx_mcdi_ef10_ops_def ef10_mcdi_poll_reboot_def dev_same_def credit_view_def Let_def dest: ef10_send_frame split: if_splits)

section \<open>Reachable states\<close>

text \<open>
  A request with event completion puts its sequence number into \<open>out\<close>; the controller delivers any of the outstanding
  events; a reboot or assertion, which a death event reports, loses them all. The rules \<open>mc\<close> and \<open>fill\<close> are the
  controller writing its memory and a caller preparing a request that is not the pending one.
\<close>

inductive mcdi_reach :: "'c mcdi_nic \<Rightarrow> u32 multiset \<Rightarrow> bool" where
  init: "mn_emcop enp \<in> {Some efx_mcdi_siena_ops, Some efx_mcdi_ef10_ops} \<Longrightarrow> mcdi_ready enp
    \<Longrightarrow> emi_pending_req (mn_emip enp) = None \<Longrightarrow> emi_aborted (mn_emip enp) = 0 \<Longrightarrow> mcdi_reach enp {#}"
| start: "mcdi_reach enp out \<Longrightarrow> efx_mcdi_request_start enp r ev = Some enp'
    \<Longrightarrow> mcdi_reach enp' (if ev then add_mset (emi_seq (mn_emip enp) AND mcdi_seq_mask) out else out)"
| poll: "mcdi_reach enp out \<Longrightarrow> efx_mcdi_request_poll enp = Some (b, enp') \<Longrightarrow> mcdi_reach enp' out"
| abort: "mcdi_reach enp out \<Longrightarrow> efx_mcdi_request_abort enp = Some (b, enp') \<Longrightarrow> mcdi_reach enp' out"
| complete: "mcdi_reach enp out \<Longrightarrow> seq \<in># out \<Longrightarrow> efx_mcdi_ev_cpl enp seq outlen err = Some enp'
    \<Longrightarrow> mcdi_reach enp' (out - {#seq#})"
| death: "mcdi_reach enp out \<Longrightarrow> efx_mcdi_ev_death enp rc = Some enp' \<Longrightarrow> mcdi_reach enp' {#}"
| mc: "mcdi_reach enp out \<Longrightarrow> mcdi_reach (mcdi_set_hw hw enp) out"
| fill: "mcdi_reach enp out \<Longrightarrow> emi_pending_req (mn_emip enp) \<noteq> Some r \<Longrightarrow> mcdi_reach (mcdi_set_req r q enp) out"

text \<open>
  The invariant: every outstanding event is paid for, by a credit or by the pending request, whose own event is among them.
\<close>

definition credit_inv :: "bool \<times> u32 \<times> int \<Rightarrow> u32 multiset \<Rightarrow> bool" where
  "credit_inv v out = (case v of (p, s, a) \<Rightarrow>
     0 \<le> a \<and> int (size out) \<le> a + (if p then 1 else 0) \<and> (p \<longrightarrow> (s - 1) AND mcdi_seq_mask \<in># out))"

lemma credit_inv_simps:
  "credit_inv (False, s, a) out = (0 \<le> a \<and> int (size out) \<le> a)"
  "credit_inv (True, s, a) out = (0 \<le> a \<and> int (size out) \<le> a + 1 \<and> (s - 1) AND mcdi_seq_mask \<in># out)"
  by (simp_all add: credit_inv_def)

lemma credit_inv_abort: "credit_inv (p, s, a) out \<Longrightarrow> credit_inv (False, s, if p then a + 1 else a) out"
  by (cases p) (simp_all add: credit_inv_simps)

lemma in_size_pos: "x \<in># M \<Longrightarrow> 0 < size M"
  by (auto dest!: multi_member_split)

lemma size_remove: "seq \<in># out \<Longrightarrow> int (size (out - {#seq#})) = int (size out) - 1"
proof -
  assume m: "seq \<in># out"
  then have "0 < size out" by (rule in_size_pos)
  with m show ?thesis by (simp add: size_Diff_singleton of_nat_diff)
qed

text \<open>An event that does not complete the pending request finds a credit.\<close>

lemma credit_available:
  assumes inv: "credit_inv (credit_view (mn_emip enp)) out" and seq: "seq \<in># out" and stale: "\<not> mcdi_cpl_matches enp seq"
  shows "0 < emi_aborted (mn_emip enp)"
proof (cases "emi_pending_req (mn_emip enp) \<noteq> None \<and> emi_ev_cpl (mn_emip enp)")
  case True
  let ?cur = "(emi_seq (mn_emip enp) - 1) AND mcdi_seq_mask"
  have ne: "seq \<noteq> ?cur" using stale True by (auto simp: mcdi_cpl_matches_def)
  have cur: "?cur \<in># out" and le: "int (size out) \<le> emi_aborted (mn_emip enp) + 1"
    using inv True by (simp_all add: credit_view_def credit_inv_simps)
  have "?cur \<in># out - {#seq#}" using cur ne by (simp add: in_diff_count)
  then have "0 < size (out - {#seq#})" by (rule in_size_pos)
  then show ?thesis using le size_remove [OF seq] by simp
next
  case False
  then have "credit_view (mn_emip enp) = (False, emi_seq (mn_emip enp), emi_aborted (mn_emip enp))" by (simp add: credit_view_def)
  then show ?thesis using inv seq by (cases "size out") (auto simp: credit_inv_simps)
qed

lemma credit_inv_complete:
  assumes inv: "credit_inv (p, s, a) out" and seq: "seq \<in># out" and ne: "p \<Longrightarrow> seq \<noteq> (s - 1) AND mcdi_seq_mask" and a: "0 < a"
  shows "credit_inv (p, s, a - 1) (out - {#seq#})"
  using inv ne a size_remove [OF seq] by (cases p) (auto simp: credit_inv_simps in_diff_count)

lemma either_ops:
  "c \<in> {Some efx_mcdi_siena_ops, Some efx_mcdi_ef10_ops} \<Longrightarrow> (c = Some efx_mcdi_siena_ops \<Longrightarrow> P)
    \<Longrightarrow> (c = Some efx_mcdi_ef10_ops \<Longrightarrow> P) \<Longrightarrow> P"
  by auto

lemma mcdi_reach_inv:
  "mcdi_reach enp out \<Longrightarrow> mn_emcop enp \<in> {Some efx_mcdi_siena_ops, Some efx_mcdi_ef10_ops} \<and> mcdi_ready enp
    \<and> credit_inv (credit_view (mn_emip enp)) out"
proof (induction rule: mcdi_reach.induct)
  case (init enp)
  then show ?case by (simp add: credit_view_def credit_inv_simps)
next
  case (start enp out r ev enp')
  have s: "mn_emcop enp' = mn_emcop enp \<and> mcdi_ready enp' \<and> emi_pending_req (mn_emip enp) = None
    \<and> credit_view (mn_emip enp') = (ev, emi_seq (mn_emip enp) + 1, emi_aborted (mn_emip enp))"
    by (rule either_ops [OF conjunct1 [OF start.IH]])
      (erule siena_frame.start_credit [OF _ start.hyps(2)] ef10_frame.start_credit [OF _ start.hyps(2)])+
  with start.IH show ?case by (cases ev) (auto simp: credit_inv_simps credit_view_def)
next
  case (poll enp out b enp')
  have same: "nic_same enp enp'"
    by (rule either_ops [OF conjunct1 [OF poll.IH]])
      (erule siena_frame.poll_credit [OF _ poll.hyps(2)] ef10_frame.poll_credit [OF _ poll.hyps(2)])+
  with poll.IH nic_same_ready [OF same] show ?case by (simp add: nic_same_def dev_same_def)
next
  case (abort enp out b enp')
  obtain p s a where v: "credit_view (mn_emip enp) = (p, s, a)" by (cases "credit_view (mn_emip enp)")
  show ?case using siena_frame.abort_credit [OF abort.hyps(2)] abort.IH credit_inv_abort [of p s a out] by (simp add: v)
next
  case (complete enp out seq outlen err enp')
  obtain p s a where v: "credit_view (mn_emip enp) = (p, s, a)" by (cases "credit_view (mn_emip enp)")
  have c: "mn_emcop enp' = mn_emcop enp \<and> mcdi_ready enp'
    \<and> (case credit_view (mn_emip enp) of (p, s, a) \<Rightarrow>
         if mcdi_cpl_matches enp seq then credit_view (mn_emip enp') = (False, s, a)
         else credit_view (mn_emip enp') = (p, s, a - 1) \<and> 0 < a)"
    by (rule either_ops [OF conjunct1 [OF complete.IH]])
      (erule siena_frame.ev_cpl_credit [OF _ complete.hyps(3)] ef10_frame.ev_cpl_credit [OF _ complete.hyps(3)])+
  show ?case
  proof (cases "mcdi_cpl_matches enp seq")
    case True
    then have "p" using v by (auto simp: mcdi_cpl_matches_def credit_view_def)
    then show ?thesis using c complete.IH True v size_remove [OF complete.hyps(2)] by (simp add: credit_inv_simps)
  next
    case False
    then have "p \<Longrightarrow> seq \<noteq> (s - 1) AND mcdi_seq_mask" using v by (auto simp: mcdi_cpl_matches_def credit_view_def)
    then show ?thesis using c complete.IH False v credit_inv_complete [of p s a out seq] complete.hyps(2) by simp
  qed
next
  case (death enp out rc enp')
  obtain p s a where v: "credit_view (mn_emip enp) = (p, s, a)" by (cases "credit_view (mn_emip enp)")
  have "mn_emcop enp' = mn_emcop enp \<and> mcdi_ready enp'
    \<and> (case credit_view (mn_emip enp) of (p, s, a) \<Rightarrow> credit_view (mn_emip enp') = (False, s, if p then a + 1 else a))"
    by (rule either_ops [OF conjunct1 [OF death.IH]])
      (erule siena_frame.ev_death_credit [OF _ conjunct1 [OF conjunct2 [OF death.IH]] death.hyps(2)]
         ef10_frame.ev_death_credit [OF _ conjunct1 [OF conjunct2 [OF death.IH]] death.hyps(2)])+
  then show ?case using death.IH by (auto simp: v credit_inv_def)
next
  case (mc enp out hw)
  then show ?case by (simp add: mcdi_set_hw_def mcdi_ready_def)
next
  case (fill enp out r q)
  then show ?case by (simp add: mcdi_set_req_def mcdi_ready_def)
qed

end
