(* ===== verification/Efx_Mcdi_Props.thy ===== *)
theory Efx_Mcdi_Props
  imports Efx_Mcdi_Exec Efx_Mcdi_Credit
begin

text \<open>
  The properties of MCDI, over the two transports and the illumos driver: headers, whole requests, completion credits,
  attaching, and the size of the driver's message buffer.
\<close>

section \<open>Headers\<close>

lemma seq_mask: "mcdi_seq_mask = 15"
  by (simp add: mcdi_seq_mask_def MCDI_HEADER_SEQ_def efx_mask32_def)

lemma seq_fits: "unat (s AND mcdi_seq_mask) < 16"
proof -
  have "s AND 15 \<le> 15" by (rule word_and_le1)
  then show ?thesis by (simp add: seq_mask word_le_nat_alt)
qed

lemmas mcdi_fields = MCDI_HEADER_CODE_def MCDI_HEADER_RESYNC_def MCDI_HEADER_DATALEN_def MCDI_HEADER_SEQ_def
  MCDI_HEADER_NOT_EPOCH_def MCDI_HEADER_ERROR_def MCDI_HEADER_RESPONSE_def MCDI_HEADER_XFLAGS_def
  MC_CMD_V2_EXTN_IN_EXTENDED_CMD_def MC_CMD_V2_EXTN_IN_ACTUAL_LEN_def

text \<open>The fields of a first doubleword, and of a second one.\<close>

definition hdr_fields :: "u32 \<Rightarrow> u32 \<Rightarrow> u32 \<Rightarrow> u32 \<Rightarrow> u32 \<Rightarrow> oword_fields" where
  "hdr_fields code datalen seq not_epoch xflags =
     [fset MCDI_HEADER_CODE code, fset MCDI_HEADER_RESYNC 1, fset MCDI_HEADER_DATALEN datalen,
      fset MCDI_HEADER_SEQ seq, fset MCDI_HEADER_NOT_EPOCH not_epoch, fset MCDI_HEADER_ERROR 0,
      fset MCDI_HEADER_RESPONSE 0, fset MCDI_HEADER_XFLAGS xflags]"

lemma hdr_fields_get:
  assumes "unat code < 128" "unat datalen < 256" "unat seq < 16" "unat not_epoch < 2" "unat xflags < 256"
  shows "\<forall>(lbn, w, v) \<in> set (hdr_fields code datalen seq not_epoch xflags).
    efx_dword_field (efx_populate_dword (hdr_fields code datalen seq not_epoch xflags)) lbn w = v"
proof -
  let ?fs = "hdr_fields code datalen seq not_epoch xflags"
  have "oword_layout ?fs" using assms by (simp add: hdr_fields_def oword_layout_def field_ok_def fset_def mcdi_fields)
  moreover have "\<forall>(lbn, w, v) \<in> set ?fs. lbn + w \<le> 32" by (simp add: hdr_fields_def fset_def mcdi_fields)
  ultimately show ?thesis using dword_populate_get by fast
qed

lemma hdr_dfields:
  assumes "unat code < 128" "unat datalen < 256" "unat seq < 16" "unat not_epoch < 2" "unat xflags < 256"
  defines "d \<equiv> efx_populate_dword (hdr_fields code datalen seq not_epoch xflags)"
  shows "dfield d MCDI_HEADER_CODE = code" "dfield d MCDI_HEADER_DATALEN = datalen" "dfield d MCDI_HEADER_SEQ = seq"
    "dfield d MCDI_HEADER_NOT_EPOCH = not_epoch" "dfield d MCDI_HEADER_ERROR = 0" "dfield d MCDI_HEADER_RESPONSE = 0"
    "dfield d MCDI_HEADER_XFLAGS = xflags"
  using hdr_fields_get [OF assms(1-5)] unfolding d_def dfield_def
  by (simp_all add: hdr_fields_def fset_def)

lemma ext_dfields:
  assumes "unat cmd < 32768" "unat len < 1024"
  defines "d \<equiv> efx_populate_dword [fset MC_CMD_V2_EXTN_IN_EXTENDED_CMD cmd, fset MC_CMD_V2_EXTN_IN_ACTUAL_LEN len]"
  shows "dfield d MC_CMD_V2_EXTN_IN_EXTENDED_CMD = cmd" "dfield d MC_CMD_V2_EXTN_IN_ACTUAL_LEN = len"
proof -
  let ?fs = "[fset MC_CMD_V2_EXTN_IN_EXTENDED_CMD cmd, fset MC_CMD_V2_EXTN_IN_ACTUAL_LEN len]"
  have "oword_layout ?fs" using assms by (simp add: oword_layout_def field_ok_def fset_def mcdi_fields)
  moreover have "\<forall>(lbn, w, v) \<in> set ?fs. lbn + w \<le> 32" by (simp add: fset_def mcdi_fields)
  ultimately have "\<forall>(lbn, w, v) \<in> set ?fs. efx_dword_field (efx_populate_dword ?fs) lbn w = v"
    using dword_populate_get by fast
  then show "dfield d MC_CMD_V2_EXTN_IN_EXTENDED_CMD = cmd" "dfield d MC_CMD_V2_EXTN_IN_ACTUAL_LEN = len"
    by (simp_all add: dfield_def d_def fset_def)
qed

text \<open>
  A request header reads back, by the code that parses a reply, as the command, the sequence number and the payload length of
  the request, in both header versions and for every command other than the escape code itself, as long as the protocol version
  can express it; it is neither an error nor a reply, it asks for a new epoch exactly when the interface does, and for an event
  exactly when the caller does.
\<close>

theorem mcdi_header_roundtrip:
  assumes hdr: "hdr = mcdi_request_header max_version new_epoch (s AND mcdi_seq_mask) ev_cpl cmd in_length"
    and cmd: "cmd \<noteq> MC_CMD_V2_EXTN" "unat cmd < 0x8000" and len: "in_length < 0x400"
    and v1: "2 \<le> max_version \<or> unat cmd < 0x80 \<and> in_length < 0x100"
  shows "mcdi_reply (hdr @ rest) = (cmd, s AND mcdi_seq_mask, 0, in_length, 4 * length hdr) \<and> \<not> mcdi_replied (hdr @ rest)
    \<and> (dfield (hdr ! 0) MCDI_HEADER_NOT_EPOCH = 0 \<longleftrightarrow> new_epoch)
    \<and> (dfield (hdr ! 0) MCDI_HEADER_XFLAGS = MCDI_HEADER_XFLAGS_EVREQ \<longleftrightarrow> ev_cpl)"
proof -
  let ?ne = "if new_epoch then 0 else 1 :: u32" and ?x = "if ev_cpl then MCDI_HEADER_XFLAGS_EVREQ else 0"
  have x: "unat ?ne < 2" "unat ?x < 256" "?x = MCDI_HEADER_XFLAGS_EVREQ \<longleftrightarrow> ev_cpl" "?ne = 0 \<longleftrightarrow> new_epoch"
    by (simp_all add: MCDI_HEADER_XFLAGS_EVREQ_def)
  have seq: "unat (s AND mcdi_seq_mask) < 16" by (rule seq_fits)
  have lenw: "unat (of_nat in_length :: u32) = in_length" using len by (simp add: unat_of_nat)
  show ?thesis
  proof (cases "2 \<le> max_version \<and> (MC_CMD_CMD_SPACE_ESCAPE_7 < cmd \<or> MCDI_CTL_SDU_LEN_MAX_V1 < in_length)")
    case True
    have "hdr = [efx_populate_dword (hdr_fields MC_CMD_V2_EXTN 0 (s AND mcdi_seq_mask) ?ne ?x),
        efx_populate_dword [fset MC_CMD_V2_EXTN_IN_EXTENDED_CMD cmd, fset MC_CMD_V2_EXTN_IN_ACTUAL_LEN (of_nat in_length)]]"
      unfolding hdr mcdi_request_header_def hdr_fields_def Let_def using True by simp
    then show ?thesis
      using hdr_dfields [of MC_CMD_V2_EXTN 0, OF _ _ seq x(1,2)] ext_dfields [of cmd "of_nat in_length"] cmd len lenw x(3,4)
      by (simp add: mcdi_reply_def mcdi_replied_def MC_CMD_V2_EXTN_def Let_def)
  next
    case False
    have code: "unat cmd < 128" using False v1 by (auto simp: MC_CMD_CMD_SPACE_ESCAPE_7_def word_less_nat_alt)
    have dl: "in_length < 256" using False v1 by (auto simp: MCDI_CTL_SDU_LEN_MAX_V1_def)
    have "hdr = [efx_populate_dword (hdr_fields cmd (of_nat in_length) (s AND mcdi_seq_mask) ?ne ?x)]"
      unfolding hdr mcdi_request_header_def hdr_fields_def Let_def using False by simp
    then show ?thesis
      using hdr_dfields [of cmd "of_nat in_length", OF code _ seq x(1,2)] cmd(1) dl lenw x(3,4)
      by (simp add: mcdi_reply_def mcdi_replied_def Let_def)
  qed
qed

theorem mcdi_header_roundtrip_witness:
  "mcdi_reply (mcdi_request_header 2 True (5 AND mcdi_seq_mask) False 0x8a 12 @ []) = (0x8a, 5 AND mcdi_seq_mask, 0, 12, 8)"
  using conjunct1 [OF mcdi_header_roundtrip [where max_version = 2 and new_epoch = True and s = 5 and ev_cpl = False and cmd = "0x8a"
      and in_length = 12 and rest = "[]", OF refl]]
  by (simp add: MC_CMD_V2_EXTN_def mcdi_request_header_def MC_CMD_CMD_SPACE_ESCAPE_7_def Let_def)

section \<open>Whole requests\<close>

text \<open>
  An interface that is attached to one of the two transports, its message buffer, and a request that fits it: the payload
  lies in the request's buffer up to its last doubleword and in the message buffer behind the header, and the buffer for the
  reply is as long as the request says.
\<close>

definition mcdi_attached :: "'c mcdi_nic \<Rightarrow> bool" where
  "mcdi_attached enp = (mcdi_up efx_mcdi_siena_ops siena_chan_ok enp \<or> mcdi_up efx_mcdi_ef10_ops ef10_chan_ok enp)"

definition mcdi_pdu :: "mcdi_dev \<Rightarrow> u32 list" where
  "mcdi_pdu dev = (if md_family dev = EFX_FAMILY_SIENA then siena_pdu dev else ef10_pdu dev)"

definition mcdi_req_fits :: "'c mcdi_nic \<Rightarrow> nat \<Rightarrow> bool" where
  "mcdi_req_fits enp r =
     (mcdi_in_fits (length (mcdi_req_header enp r False)) (mcdi_pdu (mn_dev enp)) (mn_reqs enp r)
      \<and> mcdi_out_fits (mcdi_pdu (mn_dev enp)) (mn_reqs enp r))"

lemma mcdi_pdu_siena: "mcdi_up efx_mcdi_siena_ops siena_chan_ok enp \<Longrightarrow> mcdi_pdu ((mn_dev enp)\<lparr>md_hw := hw\<rparr>) = siena_pdu ((mn_dev enp)\<lparr>md_hw := hw\<rparr>)"
  by (simp add: mcdi_up_def siena_chan_ok_def mcdi_pdu_def)

lemma mcdi_pdu_ef10: "mcdi_up efx_mcdi_ef10_ops ef10_chan_ok enp \<Longrightarrow> mcdi_pdu ((mn_dev enp)\<lparr>md_hw := hw\<rparr>) = ef10_pdu ((mn_dev enp)\<lparr>md_hw := hw\<rparr>)"
  by (auto simp: mcdi_up_def ef10_chan_ok_def ef10_family_def mcdi_pdu_def)

lemma mcdi_executed_pdu:
  assumes "\<And>hw. pdu ((mn_dev enp)\<lparr>md_hw := hw\<rparr>) = pdu' ((mn_dev enp)\<lparr>md_hw := hw\<rparr>)"
  shows "mcdi_executed pdu mc timeout lbolt enp r hw enp' j = mcdi_executed pdu' mc timeout lbolt enp r hw enp' j"
proof -
  have "pdu (mn_dev enp) = pdu' (mn_dev enp)" using assms [of "md_hw (mn_dev enp)"] by simp
  then show ?thesis by (simp add: mcdi_executed_def assms)
qed

text \<open>
  C17. Whatever the controller writes into its memory, a request of the driver comes back without a failed assertion or an
  access outside a buffer, at the latest with the first poll after the watchdog time: the header and the payload were sent, the
  request ends with the outcome of the first reply that a poll finds (payload delivered, error translated, restart asked for
  after a reboot or an assertion) or else with a timeout and one restart, and the interface and the driver are idle again.
\<close>

theorem sfxge_mcdi_execute_returns:
  assumes "mcdi_attached enp" and init: "sm_state (mn_ctx enp) = SFXGE_MCDI_INITIALIZED"
    and idle: "emi_pending_req (mn_emip enp) = None" and emtp: "mn_emtp enp = Some (sfxge_mcdi_emt addr)"
    and fits: "mcdi_req_fits enp r" and mc: "\<And>i hw. mcdi_hw_same_size (mc i hw) hw" and wd: "now + watchdog < lbolt k"
  shows "\<exists>hw enp' j. j \<le> k \<and> sfxge_mcdi_execute mc lbolt now watchdog r enp = Some enp' \<and> mcdi_attached enp'
    \<and> sm_state (mn_ctx enp') = SFXGE_MCDI_INITIALIZED
    \<and> mcdi_executed mcdi_pdu mc (now + watchdog) lbolt enp r hw enp' j"
proof -
  have st: "sm_state (mn_ctx enp') = SFXGE_MCDI_INITIALIZED" if "mcdi_executed pdu mc t lbolt enp r hw enp' j" for pdu t hw enp' j
    using that init by (auto simp: mcdi_executed_def mcdi_restarted_def Let_def)
  consider (s) "mcdi_up efx_mcdi_siena_ops siena_chan_ok enp" | (e) "mcdi_up efx_mcdi_ef10_ops ef10_chan_ok enp"
    using assms(1) by (auto simp: mcdi_attached_def)
  then show ?thesis
  proof cases
    case s
    note p = mcdi_pdu_siena [OF s] 
    have f: "mcdi_in_fits (length (mcdi_req_header enp r False)) (siena_pdu (mn_dev enp)) (mn_reqs enp r)"
      "mcdi_out_fits (siena_pdu (mn_dev enp)) (mn_reqs enp r)"
      using fits p [of "md_hw (mn_dev enp)"] by (simp_all add: mcdi_req_fits_def)
    obtain hw enp' j where x: "mcdi_executed siena_pdu mc (now + watchdog) lbolt enp r hw enp' j" "j \<le> k"
      "sfxge_mcdi_execute mc lbolt now watchdog r enp = Some enp'" "mcdi_up efx_mcdi_siena_ops siena_chan_ok enp'"
      using siena_chan.execute [where mc = mc and now = now and watchdog = watchdog and lbolt = lbolt and k = k,
          OF s init idle emtp refl f mc wd] by blast
    then show ?thesis using st [OF x(1)] x(1) [folded mcdi_executed_pdu [of mcdi_pdu enp siena_pdu, OF p]]
      by (intro exI [of _ hw] exI [of _ enp'] exI [of _ j]) (simp add: mcdi_attached_def)
  next
    case e
    note p = mcdi_pdu_ef10 [OF e]
    have f: "mcdi_in_fits (length (mcdi_req_header enp r False)) (ef10_pdu (mn_dev enp)) (mn_reqs enp r)"
      "mcdi_out_fits (ef10_pdu (mn_dev enp)) (mn_reqs enp r)"
      using fits p [of "md_hw (mn_dev enp)"] by (simp_all add: mcdi_req_fits_def)
    obtain hw enp' j where x: "mcdi_executed ef10_pdu mc (now + watchdog) lbolt enp r hw enp' j" "j \<le> k"
      "sfxge_mcdi_execute mc lbolt now watchdog r enp = Some enp'" "mcdi_up efx_mcdi_ef10_ops ef10_chan_ok enp'"
      using ef10_chan.execute [where mc = mc and now = now and watchdog = watchdog and lbolt = lbolt and k = k,
          OF e init idle emtp refl f mc wd] by blast
    then show ?thesis using st [OF x(1)] x(1) [folded mcdi_executed_pdu [of mcdi_pdu enp ef10_pdu, OF p]]
      by (intro exI [of _ hw] exI [of _ enp'] exI [of _ j]) (simp add: mcdi_attached_def)
  qed
qed

text \<open>A Siena interface on port 1 with one request of four payload bytes, and an EF10 one as \<open>sfxge_mcdi_init\<close> leaves it.\<close>

definition demo_req :: efx_mcdi_req where
  "demo_req = \<lparr>emr_quiet = False, emr_cmd = 0x05, emr_in_buf = [1, 2, 3, 4], emr_in_length = 4, emr_rc = RC_OK,
     emr_out_buf = Some (replicate 8 0), emr_out_length = 8, emr_out_length_used = 0, emr_err_code = 0, emr_err_arg = 0\<rparr>"

definition demo_emip :: efx_mcdi_iface where
  "demo_emip = \<lparr>emi_port = 1, emi_max_version = 1, emi_seq = 0, emi_pending_req = None, emi_ev_cpl = False, emi_new_epoch = False,
     emi_aborted = 0, emi_poll_cnt = 0, emi_mc_reboot_status = 0\<rparr>"

definition demo_hw :: mcdi_hw where
  "demo_hw = \<lparr>hw_smem = replicate 512 0, hw_cs_debug = Oword 0 0 0 0, hw_sft_status = 0, hw_dma = [], hw_db_lwrd = 0, hw_db_hwrd = 0\<rparr>"

definition demo_dev :: mcdi_dev where
  "demo_dev = \<lparr>md_family = EFX_FAMILY_SIENA, md_features = EFX_FEATURE_MCDI, md_privilege_mask = 0, md_esmp = None,
     md_emip = demo_emip, md_hw = demo_hw\<rparr>"

definition demo_nic :: "sfxge_mcdi mcdi_nic" where
  "demo_nic = \<lparr>mn_mod_flags = EFX_MOD_MCDI, mn_dev = demo_dev, mn_emcop = Some efx_mcdi_siena_ops, mn_emtp = Some (sfxge_mcdi_emt 0),
     mn_ctx = \<lparr>sm_state = SFXGE_MCDI_INITIALIZED, sm_restarts = []\<rparr>, mn_reqs = (\<lambda>_. demo_req)\<rparr>"

lemmas demo_defs = demo_req_def demo_emip_def demo_hw_def demo_dev_def demo_nic_def

lemma demo_up: "mcdi_up efx_mcdi_siena_ops siena_chan_ok demo_nic"
  by (simp add: mcdi_up_def mcdi_ready_def siena_chan_ok_def siena_port_ok_def demo_defs EFX_MOD_MCDI_def EFX_FEATURE_MCDI_def)

lemma demo_attached: "mcdi_attached demo_nic"
  by (simp add: mcdi_attached_def demo_up)

lemma demo_fits: "mcdi_req_fits demo_nic 0"
proof -
  have len: "length (mcdi_pdu (mn_dev demo_nic)) = 64"
    using siena_pdu_length [of "mn_dev demo_nic"] demo_up by (simp add: mcdi_pdu_def mcdi_up_def demo_nic_def demo_dev_def)
  have "length (mcdi_req_header demo_nic 0 False) = 1"
    by (simp add: mcdi_req_header_def mcdi_request_header_def demo_defs MC_CMD_CMD_SPACE_ESCAPE_7_def MCDI_CTL_SDU_LEN_MAX_V1_def)
  then show ?thesis using len
    by (simp add: mcdi_req_fits_def mcdi_in_fits_def mcdi_out_fits_def demo_req_def demo_nic_def Let_def)
qed

theorem sfxge_mcdi_execute_returns_witness:
  "\<exists>enp'. sfxge_mcdi_execute (\<lambda>i hw. hw) (\<lambda>i. 1) 0 0 0 demo_nic = Some enp' \<and> sm_state (mn_ctx enp') = SFXGE_MCDI_INITIALIZED"
proof -
  have "\<exists>hw enp' j. j \<le> 0 \<and> sfxge_mcdi_execute (\<lambda>i hw. hw) (\<lambda>i. 1) 0 0 0 demo_nic = Some enp' \<and> mcdi_attached enp'
    \<and> sm_state (mn_ctx enp') = SFXGE_MCDI_INITIALIZED
    \<and> mcdi_executed mcdi_pdu (\<lambda>i hw. hw) (0 + 0) (\<lambda>i. 1) demo_nic 0 hw enp' j"
    by (rule sfxge_mcdi_execute_returns [OF demo_attached _ _ _ demo_fits, where addr = 0])
      (simp_all add: demo_nic_def demo_dev_def demo_emip_def mcdi_hw_same_size_def)
  then show ?thesis by blast
qed

section \<open>Completion events\<close>

text \<open>
  C18. In every state that any interleaving of requests, polls, timeouts, completion and death events and actions of the controller
  can reach, an outstanding completion event that does not belong to the pending request finds a credit: the assertion
  of \<open>efx_mcdi_ev_cpl\<close> holds, the event only takes the credit, and no request is touched.
\<close>

theorem mcdi_completion_covered:
  assumes "mcdi_reach enp out" and "seq \<in># out" and "\<not> mcdi_cpl_matches enp seq"
  shows "0 < emi_aborted (mn_emip enp)
    \<and> efx_mcdi_ev_cpl enp seq outlen errcode = Some (mcdi_set_emip ((mn_emip enp)\<lparr>emi_aborted := emi_aborted (mn_emip enp) - 1\<rparr>) enp)"
proof -
  have inv: "mcdi_ready enp" "credit_inv (credit_view (mn_emip enp)) out" using mcdi_reach_inv [OF assms(1)] by simp_all
  have "0 < emi_aborted (mn_emip enp)" by (rule credit_available [OF inv(2) assms(2,3)])
  with inv(1) assms(3) show ?thesis by (simp add: efx_mcdi_ev_cpl_def Let_def)
qed

text \<open>The witness: a request with event completion, timed out.\<close>

lemma demo_reach: "\<exists>enp :: sfxge_mcdi mcdi_nic. mcdi_reach enp {#0#} \<and> emi_pending_req (mn_emip enp) = None"
proof -
  have r0: "mcdi_reach demo_nic {#}"
    using demo_up by (intro mcdi_reach.init) (simp_all add: mcdi_up_def demo_nic_def demo_dev_def demo_emip_def)
  obtain hw where s: "efx_mcdi_request_start demo_nic 0 True = Some (mcdi_started demo_nic 0 True hw)"
    by (rule siena_chan.up_start [OF demo_up _ refl, of True 0])
      (use demo_fits in \<open>simp_all add: mcdi_req_fits_def mcdi_req_header_def mcdi_pdu_def mcdi_request_header_def demo_defs Let_def
         MC_CMD_CMD_SPACE_ESCAPE_7_def MCDI_CTL_SDU_LEN_MAX_V1_def\<close>)
  have r1: "mcdi_reach (mcdi_started demo_nic 0 True hw) {#0#}"
    using mcdi_reach.start [OF r0 s] by (simp add: demo_defs)
  have ready: "mcdi_ready (mcdi_started demo_nic 0 True hw)"
    using demo_up by (simp add: mcdi_up_def mcdi_ready_def mcdi_started_def)
  then obtain enp' where "efx_mcdi_request_abort (mcdi_started demo_nic 0 True hw) = Some (True, enp')"
    "emi_pending_req (mn_emip enp') = None"
    by (simp add: efx_mcdi_request_abort_def mcdi_started_def Let_def)
  with mcdi_reach.abort [OF r1] show ?thesis by blast
qed

theorem mcdi_completion_covered_witness:
  "\<exists>enp :: sfxge_mcdi mcdi_nic. mcdi_reach enp {#0#} \<and> 0 < emi_aborted (mn_emip enp)"
proof -
  obtain enp :: "sfxge_mcdi mcdi_nic" where e: "mcdi_reach enp {#0#}" "emi_pending_req (mn_emip enp) = None"
    using demo_reach by blast
  have "0 < emi_aborted (mn_emip enp)"
    by (rule conjunct1 [OF mcdi_completion_covered [OF e(1), of 0]]) (simp_all add: mcdi_cpl_matches_def e(2))
  with e(1) show ?thesis by blast
qed

section \<open>Attaching\<close>

text \<open>When attaching succeeds, given what \<open>sfxge_dma_buffer_create\<close> returned.\<close>

definition mcdi_can_attach :: "mcdi_dev \<Rightarrow> efx_rc + u64 \<Rightarrow> bool" where
  "mcdi_can_attach dev buffer =
     (case buffer of
        Inl rc \<Rightarrow> False
      | Inr addr \<Rightarrow> if md_family dev = EFX_FAMILY_SIENA then efx_oword_field (hw_cs_debug (md_hw dev)) 40 2 \<le> 2 else addr AND 0xFF = 0)"

text \<open>An interface with nothing attached, on a controller that the code supports.\<close>

definition mcdi_detached :: "sfxge_mcdi mcdi_nic \<Rightarrow> bool" where
  "mcdi_detached enp =
     (sm_state (mn_ctx enp) = SFXGE_MCDI_UNINITIALIZED \<and> mn_mod_flags enp = 0 \<and> emi_pending_req (mn_emip enp) = None
      \<and> md_features (mn_dev enp) AND EFX_FEATURE_MCDI \<noteq> 0
      \<and> (md_family (mn_dev enp) = EFX_FAMILY_SIENA \<and> length (hw_smem (md_hw (mn_dev enp))) = 512
         \<or> md_family (mn_dev enp) = EFX_FAMILY_HUNTINGTON \<and> md_features (mn_dev enp) AND EFX_FEATURE_MCDI_DMA \<noteq> 0))"

lemma port_12: "(p :: u32) \<le> 2 \<Longrightarrow> (if p = 0 then 1 else p) = 1 \<or> (if p = 0 then 1 else p) = 2"
proof -
  assume "p \<le> 2"
  then have "unat p \<le> 2" by (simp add: word_le_nat_alt)
  then have "unat p = 0 \<or> unat p = 1 \<or> unat p = 2" by linarith
  then show ?thesis by (auto simp: word_unat_eq_iff)
qed

lemma sfxge_mcdi_init_siena:
  assumes det: "mcdi_detached enp" and fam: "md_family (mn_dev enp) = EFX_FAMILY_SIENA" and dma: "dma_create 1028 = Inr addr"
  shows "\<exists>rc enp'. sfxge_mcdi_init dma_create enp = Some (rc, enp')
    \<and> (if mcdi_can_attach (mn_dev enp) (Inr addr)
        then rc = RC_OK \<and> mcdi_attached enp' \<and> sm_state (mn_ctx enp') = SFXGE_MCDI_INITIALIZED
             \<and> emi_pending_req (mn_emip enp') = None \<and> mn_emtp enp' = Some (sfxge_mcdi_emt addr)
        else rc = EINVAL \<and> mcdi_detached enp')"
proof -
  let ?p = "efx_oword_field (hw_cs_debug (md_hw (mn_dev enp))) 40 2"
  have len: "length (hw_smem (md_hw (mn_dev enp))) = 512" using det fam by (auto simp: mcdi_detached_def)
  show ?thesis
  proof (cases "?p \<le> 2")
    case True
    then show ?thesis using det fam dma len port_12 [OF True]
      by (auto simp: sfxge_mcdi_init_def MCDI_CTL_SDU_LEN_MAX_V2_def efx_mcdi_init_def sfxge_mcdi_emt_def efx_mcdi_siena_ops_def
          siena_mcdi_init_def siena_mcdi_poll_reboot_def mcdi_detached_def mcdi_can_attach_def mcdi_set_hw_def mcdi_set_ctx_def not_less
          mcdi_attached_def mcdi_up_def mcdi_ready_def EFX_MOD_MCDI_def siena_chan_ok_def siena_port_ok_def Let_def)
  next
    case False
    then show ?thesis using det fam dma len
      by (auto simp: sfxge_mcdi_init_def MCDI_CTL_SDU_LEN_MAX_V2_def efx_mcdi_init_def sfxge_mcdi_emt_def efx_mcdi_siena_ops_def
          siena_mcdi_init_def mcdi_detached_def mcdi_can_attach_def mcdi_set_hw_def mcdi_set_ctx_def Let_def)
  qed
qed

lemma sfxge_mcdi_init_ef10:
  assumes det: "mcdi_detached enp" and fam: "md_family (mn_dev enp) = EFX_FAMILY_HUNTINGTON" and dma: "dma_create 1028 = Inr addr"
  shows "\<exists>rc enp'. sfxge_mcdi_init dma_create enp = Some (rc, enp')
    \<and> (if mcdi_can_attach (mn_dev enp) (Inr addr)
        then rc = RC_OK \<and> mcdi_attached enp' \<and> sm_state (mn_ctx enp') = SFXGE_MCDI_INITIALIZED
             \<and> emi_pending_req (mn_emip enp') = None \<and> mn_emtp enp' = Some (sfxge_mcdi_emt addr)
        else rc = EINVAL \<and> mcdi_detached enp')"
proof -
  have feat: "md_features (mn_dev enp) AND EFX_FEATURE_MCDI_DMA \<noteq> 0" using det fam by (auto simp: mcdi_detached_def)
  show ?thesis using det fam dma feat
    by (cases "addr AND 0xFF = 0")
      (auto simp: sfxge_mcdi_init_def MCDI_CTL_SDU_LEN_MAX_V2_def efx_mcdi_init_def sfxge_mcdi_emt_def efx_mcdi_ef10_ops_def
          ef10_mcdi_init_def ef10_mcdi_poll_reboot_def mcdi_detached_def mcdi_can_attach_def mcdi_set_hw_def mcdi_set_ctx_def
          mcdi_attached_def mcdi_up_def mcdi_ready_def EFX_MOD_MCDI_def ef10_chan_ok_def ef10_family_def Let_def)
qed

text \<open>
  Attaching a detached interface of a supported controller never fails an assertion. It succeeds exactly when the message
  buffer can be had, is 256-byte aligned on EF10, and a Siena controller reports a port number of at most 2; then the interface is
  attached and idle with the driver's callbacks. Otherwise it returns the error and leaves the interface detached.
\<close>

theorem sfxge_mcdi_init_attached:
  assumes det: "mcdi_detached enp" and dma: "dma_create 1028 \<noteq> Inl RC_OK"
  shows "\<exists>rc enp'. sfxge_mcdi_init dma_create enp = Some (rc, enp')
    \<and> (rc = RC_OK \<longleftrightarrow> mcdi_can_attach (mn_dev enp) (dma_create 1028))
    \<and> (if rc = RC_OK
        then mcdi_attached enp' \<and> sm_state (mn_ctx enp') = SFXGE_MCDI_INITIALIZED \<and> emi_pending_req (mn_emip enp') = None
             \<and> (\<exists>addr. dma_create 1028 = Inr addr \<and> mn_emtp enp' = Some (sfxge_mcdi_emt addr))
        else mcdi_detached enp')"
proof (cases "dma_create 1028")
  case (Inl rc)
  then show ?thesis using det dma
    by (auto simp: sfxge_mcdi_init_def MCDI_CTL_SDU_LEN_MAX_V2_def mcdi_can_attach_def mcdi_detached_def)
next
  case (Inr addr)
  have "md_family (mn_dev enp) = EFX_FAMILY_SIENA \<or> md_family (mn_dev enp) = EFX_FAMILY_HUNTINGTON"
    using det by (auto simp: mcdi_detached_def)
  then show ?thesis
  proof
    assume "md_family (mn_dev enp) = EFX_FAMILY_SIENA"
    from sfxge_mcdi_init_siena [OF det this, of dma_create, OF Inr] show ?thesis by (auto simp: Inr split: if_splits)
  next
    assume "md_family (mn_dev enp) = EFX_FAMILY_HUNTINGTON"
    from sfxge_mcdi_init_ef10 [OF det this, of dma_create, OF Inr] show ?thesis by (auto simp: Inr split: if_splits)
  qed
qed

definition demo_detached :: "sfxge_mcdi mcdi_nic" where
  "demo_detached = demo_nic\<lparr>mn_mod_flags := 0, mn_emcop := None, mn_emtp := None,
     mn_ctx := \<lparr>sm_state = SFXGE_MCDI_UNINITIALIZED, sm_restarts = []\<rparr>,
     mn_dev := demo_dev\<lparr>md_family := EFX_FAMILY_HUNTINGTON, md_features := EFX_FEATURE_MCDI OR EFX_FEATURE_MCDI_DMA\<rparr>\<rparr>"

lemma demo_detached: "mcdi_detached demo_detached"
  by (simp add: mcdi_detached_def demo_detached_def demo_dev_def demo_emip_def EFX_FEATURE_MCDI_def EFX_FEATURE_MCDI_DMA_def)

theorem sfxge_mcdi_init_attached_witness:
  "\<exists>enp'. sfxge_mcdi_init (\<lambda>n. Inr 0x1000) demo_detached = Some (RC_OK, enp') \<and> mcdi_attached enp'"
proof -
  have ok: "mcdi_can_attach (mn_dev demo_detached) (Inr 0x1000)"
    by (simp add: mcdi_can_attach_def demo_detached_def demo_dev_def)
  obtain rc enp' where r: "sfxge_mcdi_init (\<lambda>n. Inr 0x1000) demo_detached = Some (rc, enp')"
    "rc = RC_OK \<longleftrightarrow> mcdi_can_attach (mn_dev demo_detached) (Inr 0x1000)"
    "if rc = RC_OK then mcdi_attached enp' else mcdi_detached enp'"
    using sfxge_mcdi_init_attached [OF demo_detached, of "\<lambda>n. Inr 0x1000"] by (auto split: if_splits)
  with ok show ?thesis by auto
qed

section \<open>The largest request\<close>

lemma sfxge_mcdi_init_dma:
  assumes fam: "md_family (mn_dev enp) = EFX_FAMILY_HUNTINGTON" and init: "sfxge_mcdi_init dma_create enp = Some (RC_OK, enp')"
    and dma: "dma_create 1028 = Inr addr"
  shows "length (hw_dma (md_hw (mn_dev enp'))) = 257 \<and> mn_emcop enp' = Some efx_mcdi_ef10_ops \<and> mn_reqs enp' = mn_reqs enp
    \<and> emi_max_version (mn_emip enp') = 2 \<and> emi_seq (mn_emip enp') = emi_seq (mn_emip enp)"
  using assms
  by (auto simp: sfxge_mcdi_init_def MCDI_CTL_SDU_LEN_MAX_V2_def efx_mcdi_init_def sfxge_mcdi_emt_def efx_mcdi_ef10_ops_def
      ef10_mcdi_init_def ef10_mcdi_poll_reboot_def mcdi_set_hw_def mcdi_set_ctx_def Let_def split: if_splits)

text \<open>
  The message buffer that the driver allocates has room for a one-doubleword header and the largest payload, while the
  largest payload needs the two-doubleword header: on EF10, starting a request of \<open>MCDI_CTL_SDU_LEN_MAX_V2\<close> bytes
  writes past the end of the buffer, and its length field, ten bits wide, would say zero.
\<close>

theorem sfxge_mcdi_max_request_overflows:
  assumes det: "mcdi_detached enp" and fam: "md_family (mn_dev enp) = EFX_FAMILY_HUNTINGTON"
    and init: "sfxge_mcdi_init dma_create enp = Some (RC_OK, enp')" and dma: "dma_create 1028 = Inr addr"
    and req: "emr_in_length (mn_reqs enp r) = MCDI_CTL_SDU_LEN_MAX_V2" "length (emr_in_buf (mn_reqs enp r)) = MCDI_CTL_SDU_LEN_MAX_V2"
      "emr_cmd (mn_reqs enp r) = 0x8a"
  shows "efx_mcdi_request_start enp' r ev = None
    \<and> dfield (mcdi_req_header enp' r ev ! 1) MC_CMD_V2_EXTN_IN_ACTUAL_LEN = 0"
proof -
  note e = sfxge_mcdi_init_dma [OF fam init dma]
  let ?h = "mcdi_req_header enp' r ev"
  have h2: "length ?h = 2" and h1: "?h ! 1 = efx_populate_dword [fset MC_CMD_V2_EXTN_IN_EXTENDED_CMD 0x8a, fset MC_CMD_V2_EXTN_IN_ACTUAL_LEN 0x400]"
    using e req by (simp_all add: mcdi_req_header_def mcdi_request_header_def MCDI_CTL_SDU_LEN_MAX_V1_def MCDI_CTL_SDU_LEN_MAX_V2_def Let_def)
  have len0: "dfield (?h ! 1) MC_CMD_V2_EXTN_IN_ACTUAL_LEN = 0"
    unfolding h1 by (simp add: dfield_def efx_populate_dword_def efx_insert_fields32_def efx_insert_field32_def efx_insert_native32_def
        efx_dword_field_def efx_extract_native32_def efx_mask32_def fset_def mcdi_fields)
  let ?mem = "hw_dma (md_hw (mn_dev enp'))"
  have hdr: "ef10_mcdi_write_header ?h 0 ?mem = Some (put_words ?mem 0 ?h)"
    using ef10_mcdi_write_header_ok [of 0 ?h ?mem] h2 e by simp
  have over: "ef10_mcdi_write_payload 8 (emr_in_buf (mn_reqs enp' r)) (emr_in_length (mn_reqs enp' r)) 0 (put_words ?mem 0 ?h) = None"
    using ef10_mcdi_write_payload_overflow [of _ 0 256 0 _ "put_words ?mem 0 ?h" 2] e h2 req by (simp add: MCDI_CTL_SDU_LEN_MAX_V2_def)
  have "ef10_mcdi_send_request ?h (emr_in_buf (mn_reqs enp' r)) (emr_in_length (mn_reqs enp' r)) dev = None"
    if "md_hw dev = md_hw (mn_dev enp')" for dev
    using hdr over that h2 by (simp add: ef10_mcdi_send_request_def split: Option.bind_splits)
  then have "efx_mcdi_request_start enp' r ev = None"
    using e by (simp add: efx_mcdi_request_start_def efx_mcdi_send_request_def efx_mcdi_ef10_ops_def mcdi_req_header_def Let_def)
  with len0 show ?thesis by simp
qed

theorem sfxge_mcdi_max_request_overflows_witness:
  "\<exists>enp'. efx_mcdi_request_start enp' 0 False = (None :: sfxge_mcdi mcdi_nic option)"
proof -
  let ?req = "demo_req\<lparr>emr_cmd := 0x8a, emr_in_length := MCDI_CTL_SDU_LEN_MAX_V2, emr_in_buf := replicate MCDI_CTL_SDU_LEN_MAX_V2 0\<rparr>"
  let ?enp = "demo_detached\<lparr>mn_reqs := \<lambda>_. ?req\<rparr>"
  have det: "mcdi_detached ?enp" using demo_detached by (simp add: mcdi_detached_def)
  obtain rc enp' where i: "sfxge_mcdi_init (\<lambda>n. Inr 0x1000) ?enp = Some (rc, enp')"
    "rc = RC_OK \<longleftrightarrow> mcdi_can_attach (mn_dev ?enp) (Inr 0x1000)"
    using sfxge_mcdi_init_ef10 [where dma_create = "\<lambda>n. Inr 0x1000" and addr = "0x1000", OF det]
    by (auto simp: demo_detached_def demo_dev_def mcdi_can_attach_def)
  have "rc = RC_OK" using i(2) by (simp add: mcdi_can_attach_def demo_detached_def demo_dev_def)
  then have "efx_mcdi_request_start enp' 0 False = None
      \<and> dfield (mcdi_req_header enp' 0 False ! 1) MC_CMD_V2_EXTN_IN_ACTUAL_LEN = 0"
    using i(1) by (intro sfxge_mcdi_max_request_overflows [OF det, where dma_create = "\<lambda>n. Inr 0x1000"])
      (simp_all add: demo_detached_def demo_dev_def demo_nic_def)
  then show ?thesis by blast
qed

end
