(* ===== verification/Efx_Vpd.thy ===== *)
theory Efx_Vpd
  imports Efx_Prelude
begin

text \<open>
  Vital product data, \<open>src/common/efx_vpd.c\<close>: the dispatching interface and the operations on a hunk, which is a sequence of
  tagged resources. A resource has a one-byte header (small) or a three-byte one (large); the read-only resource is a sequence of
  keywords, each with a length byte, and its last keyword \<open>RV\<close> makes the bytes up to it sum to zero.

  The buffer is \<open>caddr_t\<close>, a pointer to signed characters: where the code puts a byte into a wider value it is sign-extended,
  unless it is shifted to the top of that value. Offsets are natural numbers (the code's are \<open>unsigned int\<close>, and a hunk
  is below 4 GB). A function returns \<open>None\<close> for an access outside the buffer or a failed assertion.
\<close>

section \<open>Tags and keywords\<close>

datatype efx_vpd_tag = EFX_VPD_ID | EFX_VPD_END | EFX_VPD_RO | EFX_VPD_RW

type_synonym efx_vpd_keyword = u16

record efx_vpd_value =
  evv_tag :: efx_vpd_tag
  evv_keyword :: efx_vpd_keyword
  evv_length :: u8
  evv_value :: "u8 list"

text \<open>A result with the C error code.\<close>

type_synonym 'a vpd_result = "(efx_rc + 'a) option"

definition vpd_bind :: "'a vpd_result \<Rightarrow> ('a \<Rightarrow> 'b vpd_result) \<Rightarrow> 'b vpd_result" where
  "vpd_bind m f = (case m of None \<Rightarrow> None | Some (Inl rc) \<Rightarrow> Some (Inl rc) | Some (Inr x) \<Rightarrow> f x)"

lemma vpd_bind_simps [simp]:
  "vpd_bind None f = None" "vpd_bind (Some (Inl rc)) f = Some (Inl rc)" "vpd_bind (Some (Inr x)) f = f x"
  by (simp_all add: vpd_bind_def)

lemma vpd_bind_cong [fundef_cong]:
  "m = m' \<Longrightarrow> (\<And>x. m' = Some (Inr x) \<Longrightarrow> f x = f' x) \<Longrightarrow> vpd_bind m f = vpd_bind m' f'"
  by (auto simp: vpd_bind_def split: option.splits sum.splits)

lemma vpd_bind_eq_Inr: "vpd_bind m f = Some (Inr y) \<longleftrightarrow> (\<exists>x. m = Some (Inr x) \<and> f x = Some (Inr y))"
  by (auto simp: vpd_bind_def split: option.splits sum.splits)

text \<open>A 16-bit value from two signed characters: the low one is sign-extended over the high one.\<close>

definition vpd_word :: "u8 \<Rightarrow> u8 \<Rightarrow> u16" where
  "vpd_word lo hi = scast lo OR push_bit 8 (ucast hi)"

definition EFX_VPD_KEYWORD :: "u8 \<Rightarrow> u8 \<Rightarrow> efx_vpd_keyword" where
  "EFX_VPD_KEYWORD x y = vpd_word x y"

text \<open>The keyword \<open>RV\<close>.\<close>

definition VPD_RV :: efx_vpd_keyword where "VPD_RV = EFX_VPD_KEYWORD 0x52 0x56"

definition vpd_tag_of_name :: "nat \<Rightarrow> efx_vpd_tag option" where
  "vpd_tag_of_name name =
     (if name = 0x0f then Some EFX_VPD_END else if name = 0x02 then Some EFX_VPD_ID
      else if name = 0x10 then Some EFX_VPD_RO else None)"

text \<open>Type, name, header length and length of the resource whose header starts at \<open>offset\<close>.\<close>

definition vpd_tag_header :: "u8 list \<Rightarrow> nat \<Rightarrow> nat \<Rightarrow> (nat \<times> nat \<times> nat) vpd_result" where
  "vpd_tag_header data sz offset = do {
     byte \<leftarrow> rd data offset;
     if \<not> bit byte 7 then Some (Inr (1, unat (drop_bit 3 byte AND 0x0f), unat (byte AND 0x07)))
     else if sz < offset + 3 then Some (Inl EFAULT)
     else do {
       lo \<leftarrow> rd data (offset + 1);
       hi \<leftarrow> rd data (offset + 2);
       Some (Inr (3, unat (byte AND 0x7f), unat (vpd_word lo hi))) } }"

text \<open>The result is the offset behind the header, the tag and its length.\<close>

definition efx_vpd_next_tag :: "u8 list \<Rightarrow> nat \<Rightarrow> nat \<Rightarrow> (nat \<times> efx_vpd_tag \<times> nat) vpd_result" where
  "efx_vpd_next_tag data sz offset =
     (if sz \<le> offset then Some (Inl EFAULT)
      else vpd_bind (vpd_tag_header data sz offset) (\<lambda>(headlen, name, len).
        if sz < offset + headlen + len then Some (Inl EFAULT)
        else case vpd_tag_of_name name of
            None \<Rightarrow> Some (Inl EFAULT)
          | Some tag \<Rightarrow> Some (Inr (offset + headlen, tag, len))))"

text \<open>The keyword at \<open>pos\<close> of a resource of \<open>sz\<close> bytes that starts at \<open>base\<close>.\<close>

definition efx_vpd_next_keyword :: "u8 list \<Rightarrow> nat \<Rightarrow> nat \<Rightarrow> nat \<Rightarrow> (efx_vpd_keyword \<times> nat) vpd_result" where
  "efx_vpd_next_keyword data base sz pos =
     (if sz < pos + 3 then Some (Inl EFAULT)
      else do {
        k0 \<leftarrow> rd data (base + pos);
        k1 \<leftarrow> rd data (base + pos + 1);
        l \<leftarrow> rd data (base + pos + 2);
        let len = unat l;
        if len = 0 \<or> sz < pos + 3 + len then Some (Inl EFAULT)
        else Some (Inr (EFX_VPD_KEYWORD k0 k1, len)) })"

lemma next_tag_bounds:
  "efx_vpd_next_tag data sz offset = Some (Inr (o', tag, len)) \<Longrightarrow> offset < o' \<and> o' + len \<le> sz"
  by (auto simp: efx_vpd_next_tag_def vpd_tag_header_def vpd_bind_eq_Inr split: if_splits option.splits Option.bind_splits)

lemma next_keyword_bounds:
  "efx_vpd_next_keyword data base sz pos = Some (Inr (kw, len)) \<Longrightarrow> 0 < len \<and> pos + 3 + len \<le> sz"
  by (auto simp: efx_vpd_next_keyword_def Let_def split: if_splits Option.bind_splits)

section \<open>Reading a hunk\<close>

function efx_vpd_hunk_length_from :: "u8 list \<Rightarrow> nat \<Rightarrow> nat \<Rightarrow> nat vpd_result" where
  "efx_vpd_hunk_length_from data sz offset =
     vpd_bind (efx_vpd_next_tag data sz offset) (\<lambda>(offset, tag, taglen).
       if tag = EFX_VPD_END then Some (Inr (offset + taglen))
       else efx_vpd_hunk_length_from data sz (offset + taglen))"
  by pat_completeness auto
termination by (relation "measure (\<lambda>(data, sz, offset). sz - offset)") (auto dest: next_tag_bounds)

definition efx_vpd_hunk_length :: "u8 list \<Rightarrow> nat \<Rightarrow> nat vpd_result" where
  "efx_vpd_hunk_length data sz = efx_vpd_hunk_length_from data sz 0"

definition vpd_sum :: "u8 list \<Rightarrow> nat \<Rightarrow> u8 option" where
  "vpd_sum data n = do { bs \<leftarrow> rd_range data 0 n; Some (sum_list bs) }"

text \<open>The keywords of one resource; the result is the new value of \<open>cksummed\<close>.\<close>

function vpd_verify_keywords :: "u8 list \<Rightarrow> nat \<Rightarrow> nat \<Rightarrow> nat \<Rightarrow> bool \<Rightarrow> bool vpd_result" where
  "vpd_verify_keywords data offset taglen pos cksummed =
     (if pos = taglen then Some (Inr cksummed)
      else if cksummed then Some (Inl EFAULT)
      else vpd_bind (efx_vpd_next_keyword data offset taglen pos) (\<lambda>(keyword, keylen).
        if keyword = VPD_RV
        then do {
          cksum \<leftarrow> vpd_sum data (offset + pos + 4);
          if cksum \<noteq> 0 then Some (Inl EFAULT)
          else vpd_verify_keywords data offset taglen (pos + (3 + keylen)) True }
        else vpd_verify_keywords data offset taglen (pos + (3 + keylen)) cksummed))"
  by pat_completeness auto
termination
  by (relation "measure (\<lambda>(data, offset, taglen, pos, cksummed). taglen - pos)") (auto dest: next_keyword_bounds)

function vpd_verify_tags :: "u8 list \<Rightarrow> nat \<Rightarrow> nat \<Rightarrow> bool \<Rightarrow> bool vpd_result" where
  "vpd_verify_tags data sz offset cksummed =
     vpd_bind (efx_vpd_next_tag data sz offset) (\<lambda>(offset, tag, taglen).
       if tag = EFX_VPD_END then Some (Inr cksummed)
       else if tag = EFX_VPD_ID then vpd_verify_tags data sz (offset + taglen) cksummed
       else vpd_bind (vpd_verify_keywords data offset taglen 0 cksummed) (\<lambda>cksummed.
              vpd_verify_tags data sz (offset + taglen) cksummed))"
  by pat_completeness auto
termination by (relation "measure (\<lambda>(data, sz, offset, cksummed). sz - offset)") (auto dest: next_tag_bounds)

text \<open>The value that \<open>cksummedp\<close> receives is \<open>B_TRUE\<close> whenever the result is no error.\<close>

definition efx_vpd_hunk_verify :: "u8 list \<Rightarrow> nat \<Rightarrow> bool vpd_result" where
  "efx_vpd_hunk_verify data sz =
     vpd_bind (vpd_verify_tags data sz 0 False) (\<lambda>cksummed.
       if \<not> cksummed then Some (Inl EFAULT) else Some (Inr cksummed))"

text \<open>What \<open>efx_vpd_hunk_next\<close> reports, and the next value of \<open>*contp\<close>.\<close>

record vpd_entry =
  ve_tag :: efx_vpd_tag
  ve_keyword :: efx_vpd_keyword
  ve_payload :: nat
  ve_paylen :: nat

text \<open>The keywords of one resource: \<open>Inl\<close> is the entry with the index looked for, \<open>Inr\<close> the index after the last one.\<close>

function vpd_next_keywords :: "u8 list \<Rightarrow> nat \<Rightarrow> efx_vpd_tag \<Rightarrow> nat \<Rightarrow> nat \<Rightarrow> nat \<Rightarrow> nat \<Rightarrow> ((vpd_entry \<times> nat) + nat) vpd_result" where
  "vpd_next_keywords data offset tag taglen cont pos index =
     (if pos = taglen then Some (Inr (Inr index))
      else vpd_bind (efx_vpd_next_keyword data offset taglen pos) (\<lambda>(keyword, keylen).
        if index = cont
        then Some (Inr (Inl (\<lparr>ve_tag = tag, ve_keyword = keyword, ve_payload = offset + pos + 3, ve_paylen = keylen\<rparr>, index + 1)))
        else vpd_next_keywords data offset tag taglen cont (pos + (3 + keylen)) (index + 1)))"
  by pat_completeness auto
termination
  by (relation "measure (\<lambda>(data, offset, tag, taglen, cont, pos, index). taglen - pos)") (auto dest: next_keyword_bounds)

function vpd_next_tags :: "u8 list \<Rightarrow> nat \<Rightarrow> nat \<Rightarrow> nat \<Rightarrow> nat \<Rightarrow> (vpd_entry \<times> nat) vpd_result" where
  "vpd_next_tags data sz cont offset index =
     vpd_bind (efx_vpd_next_tag data sz offset) (\<lambda>(offset, tag, taglen).
       if tag = EFX_VPD_END
       then Some (Inr (\<lparr>ve_tag = tag, ve_keyword = 0, ve_payload = offset, ve_paylen = 0\<rparr>, 0))
       else if tag = EFX_VPD_ID then
         if index = cont
         then (if taglen < 0x100
               then Some (Inr (\<lparr>ve_tag = tag, ve_keyword = 0, ve_payload = offset, ve_paylen = min taglen 0xff\<rparr>, index + 1))
               else None)
         else vpd_next_tags data sz cont (offset + taglen) (index + 1)
       else vpd_bind (vpd_next_keywords data offset tag taglen cont 0 index) (\<lambda>r.
         case r of Inl found \<Rightarrow> Some (Inr found) | Inr index \<Rightarrow> vpd_next_tags data sz cont (offset + taglen) index))"
  by pat_completeness auto
termination by (relation "measure (\<lambda>(data, sz, cont, offset, index). sz - offset)") (auto dest: next_tag_bounds)

definition efx_vpd_hunk_next :: "u8 list \<Rightarrow> nat \<Rightarrow> nat \<Rightarrow> (vpd_entry \<times> nat) vpd_result" where
  "efx_vpd_hunk_next data sz cont = vpd_next_tags data sz cont 0 0"

text \<open>The payload of a keyword, as its offset and length.\<close>

function vpd_get_keywords :: "u8 list \<Rightarrow> nat \<Rightarrow> nat \<Rightarrow> efx_vpd_keyword \<Rightarrow> nat \<Rightarrow> (nat \<times> nat) option vpd_result" where
  "vpd_get_keywords data offset taglen keyword pos =
     (if pos = taglen then Some (Inr None)
      else vpd_bind (efx_vpd_next_keyword data offset taglen pos) (\<lambda>(ikeyword, keylen).
        if ikeyword = keyword then Some (Inr (Some (offset + pos + 3, keylen)))
        else vpd_get_keywords data offset taglen keyword (pos + (3 + keylen))))"
  by pat_completeness auto
termination
  by (relation "measure (\<lambda>(data, offset, taglen, keyword, pos). taglen - pos)") (auto dest: next_keyword_bounds)

function vpd_get_tags :: "u8 list \<Rightarrow> nat \<Rightarrow> efx_vpd_tag \<Rightarrow> efx_vpd_keyword \<Rightarrow> nat \<Rightarrow> (nat \<times> nat) vpd_result" where
  "vpd_get_tags data sz tag keyword offset =
     vpd_bind (efx_vpd_next_tag data sz offset) (\<lambda>(offset, itag, taglen).
       if itag = EFX_VPD_END then Some (Inl ENOENT)
       else if itag \<noteq> tag then vpd_get_tags data sz tag keyword (offset + taglen)
       else if itag = EFX_VPD_ID then (if taglen < 0x100 then Some (Inr (offset, min taglen 0xff)) else None)
       else vpd_bind (vpd_get_keywords data offset taglen keyword 0) (\<lambda>found.
         case found of Some p \<Rightarrow> Some (Inr p) | None \<Rightarrow> vpd_get_tags data sz tag keyword (offset + taglen)))"
  by pat_completeness auto
termination by (relation "measure (\<lambda>(data, sz, tag, keyword, offset). sz - offset)") (auto dest: next_tag_bounds)

definition efx_vpd_hunk_get :: "u8 list \<Rightarrow> nat \<Rightarrow> efx_vpd_tag \<Rightarrow> efx_vpd_keyword \<Rightarrow> (nat \<times> nat) vpd_result" where
  "efx_vpd_hunk_get data sz tag keyword = vpd_get_tags data sz tag keyword 0"

declare efx_vpd_hunk_length_from.simps [simp del] vpd_verify_keywords.simps [simp del] vpd_verify_tags.simps [simp del]
  vpd_next_keywords.simps [simp del] vpd_next_tags.simps [simp del] vpd_get_keywords.simps [simp del] vpd_get_tags.simps [simp del]

section \<open>Writing a hunk\<close>

definition efx_vpd_blank_pid :: "u8 list" where "efx_vpd_blank_pid = [0x82, 0x01, 0x00, 0x32]"
definition efx_vpd_blank_r :: "u8 list" where "efx_vpd_blank_r = [0x90, 0x04, 0x00, 0x52, 0x56, 0x01, 0x00]"

text \<open>The end tag that is appended: a small resource of length 0.\<close>

definition vpd_end_byte :: u8 where
  "vpd_end_byte = push_bit 7 0 OR push_bit 3 0x0f OR push_bit 0 0"

definition efx_vpd_hunk_reinit :: "u8 list \<Rightarrow> nat \<Rightarrow> bool \<Rightarrow> (efx_rc \<times> u8 list) option" where
  "efx_vpd_hunk_reinit data sz wantpid =
     (if sz < 0x100 then Some (ENOSPC, data)
      else do {
        (data, offset) \<leftarrow>
          (if wantpid then do { data \<leftarrow> wr_range data 0 efx_vpd_blank_pid; Some (data, length efx_vpd_blank_pid) }
           else Some (data, 0));
        data \<leftarrow> wr_range data offset efx_vpd_blank_r;
        let offset = offset + length efx_vpd_blank_r;
        cksum \<leftarrow> vpd_sum data offset;
        old \<leftarrow> rd data (offset - 1);
        data \<leftarrow> wr data (offset - 1) (old - cksum);
        data \<leftarrow> wr data offset vpd_end_byte;
        Some (RC_OK, data) })"

text \<open>
  Where \<open>efx_vpd_hunk_set\<close> changes the hunk: the offset and length of the resource, the position of the keyword in it, and
  the offsets behind the old and the new contents.
\<close>

record vpd_place =
  vp_offset :: nat
  vp_taglen :: nat
  vp_pos :: nat
  vp_source :: nat
  vp_dest :: nat

text \<open>
  The search among the keywords of the read-only resource. The result \<open>Inr None\<close> is the early return that deletes a keyword that is not there;
  when the loop ends without a keyword to change, \<open>source\<close> and \<open>dest\<close> keep the value 0.
\<close>

function vpd_set_keywords :: "u8 list \<Rightarrow> nat \<Rightarrow> nat \<Rightarrow> efx_vpd_keyword \<Rightarrow> nat \<Rightarrow> nat \<Rightarrow> vpd_place option vpd_result" where
  "vpd_set_keywords data offset taglen keyword len pos =
     (if pos = taglen
      then Some (Inr (Some \<lparr>vp_offset = offset, vp_taglen = taglen, vp_pos = pos, vp_source = 0, vp_dest = 0\<rparr>))
      else vpd_bind (efx_vpd_next_keyword data offset taglen pos) (\<lambda>(ikeyword, keylen).
        let place = (\<lambda>source dest. Some (Inr (Some
              \<lparr>vp_offset = offset, vp_taglen = taglen, vp_pos = pos, vp_source = source, vp_dest = dest\<rparr>))) in
        if ikeyword = keyword \<and> len = 0 then place (offset + pos + 3 + keylen) (offset + pos)
        else if ikeyword = keyword then place (offset + pos + 3 + keylen) (offset + pos + 3 + len)
        else if ikeyword = VPD_RV then
          if pos + 3 + keylen \<noteq> taglen then None
          else if len = 0 then Some (Inr None)
          else place (offset + pos) (offset + pos + 3 + len)
        else vpd_set_keywords data offset taglen keyword len (pos + (3 + keylen))))"
  by pat_completeness auto
termination
  by (relation "measure (\<lambda>(data, offset, taglen, keyword, len, pos). taglen - pos)") (auto dest: next_keyword_bounds)

function vpd_set_tags :: "u8 list \<Rightarrow> nat \<Rightarrow> efx_vpd_value \<Rightarrow> nat \<Rightarrow> vpd_place option vpd_result" where
  "vpd_set_tags data sz evvp taghead =
     vpd_bind (efx_vpd_next_tag data sz taghead) (\<lambda>(offset, tag, taglen).
       if tag = EFX_VPD_END then Some (Inl ENOENT)
       else if tag \<noteq> evv_tag evvp then vpd_set_tags data sz evvp (offset + taglen)
       else if offset - taghead \<noteq> 3 then Some (Inl EINVAL)
       else if tag = EFX_VPD_ID
         then Some (Inr (Some \<lparr>vp_offset = offset, vp_taglen = taglen, vp_pos = 0,
                               vp_source = offset + taglen, vp_dest = offset + unat (evv_length evvp)\<rparr>))
       else vpd_set_keywords data offset taglen (evv_keyword evvp) (unat (evv_length evvp)) 0)"
  by pat_completeness auto
termination by (relation "measure (\<lambda>(data, sz, evvp, offset). sz - offset)") (auto dest: next_tag_bounds)

text \<open>The new contents: the trailing data move, then the value, its keyword header and the length of the resource are stored.\<close>

definition vpd_store :: "u8 list \<Rightarrow> nat \<Rightarrow> efx_vpd_value \<Rightarrow> vpd_place \<Rightarrow> u8 list option" where
  "vpd_store data used evvp p =
     (let len = unat (evv_length evvp); offset = vp_offset p; pos = vp_pos p in
      do {
        data \<leftarrow> memmove_buf data (vp_dest p) (vp_source p) (used - vp_source p);
        value \<leftarrow> rd_range (evv_value evvp) 0 len;
        data \<leftarrow> (if len = 0 then Some data
                 else do { efsys_assert (len \<le> vp_dest p); wr_range data (vp_dest p - len) value });
        data \<leftarrow> (if evv_tag evvp \<noteq> EFX_VPD_ID \<and> 0 < len
                 then wr_range data (offset + pos) [ucast (evv_keyword evvp), ucast (drop_bit 8 (evv_keyword evvp)), evv_length evvp]
                 else Some data);
        let taglen = (of_nat (vp_taglen p) :: u16) + (of_nat (vp_dest p) - of_nat (vp_source p));
        wr_range data (offset - 2) [ucast taglen, ucast (drop_bit 8 taglen)] })"

text \<open>The checksum phase: every \<open>RV\<close> keyword of a read-only resource gets a new payload byte; the result ends behind the end tag.\<close>

function vpd_cksum_keywords :: "u8 list \<Rightarrow> nat \<Rightarrow> nat \<Rightarrow> nat \<Rightarrow> u8 list vpd_result" where
  "vpd_cksum_keywords data offset taglen pos =
     (if pos = taglen then Some (Inr data)
      else vpd_bind (efx_vpd_next_keyword data offset taglen pos) (\<lambda>(keyword, keylen).
        if keyword = VPD_RV
        then do {
          cksum \<leftarrow> vpd_sum data (offset + pos + 3);
          data \<leftarrow> wr data (offset + pos + 3) (- cksum);
          Some (Inr data) }
        else vpd_cksum_keywords data offset taglen (pos + (3 + keylen))))"
  by pat_completeness auto
termination
  by (relation "measure (\<lambda>(data, offset, taglen, pos). taglen - pos)") (auto dest: next_keyword_bounds)

function vpd_cksum_tags :: "u8 list \<Rightarrow> nat \<Rightarrow> nat \<Rightarrow> (u8 list \<times> efx_rc + u8 list \<times> nat) option" where
  "vpd_cksum_tags data sz offset =
     (case efx_vpd_next_tag data sz offset of
        None \<Rightarrow> None
      | Some (Inl rc) \<Rightarrow> Some (Inl (data, rc))
      | Some (Inr (offset, tag, taglen)) \<Rightarrow>
          if tag = EFX_VPD_END then Some (Inr (data, offset + taglen))
          else if tag = EFX_VPD_RO
            then (case vpd_cksum_keywords data offset taglen 0 of
                    None \<Rightarrow> None
                  | Some (Inl rc) \<Rightarrow> Some (Inl (data, rc))
                  | Some (Inr data) \<Rightarrow> vpd_cksum_tags data sz (offset + taglen))
          else vpd_cksum_tags data sz (offset + taglen))"
  by pat_completeness auto
termination by (relation "measure (\<lambda>(data, sz, offset). sz - offset)") (auto dest: next_tag_bounds)

declare vpd_set_keywords.simps [simp del] vpd_set_tags.simps [simp del] vpd_cksum_keywords.simps [simp del] vpd_cksum_tags.simps [simp del]

text \<open>The checks of the value that come first.\<close>

definition vpd_value_ok :: "efx_vpd_value \<Rightarrow> bool" where
  "vpd_value_ok evvp =
     (case evv_tag evvp of
        EFX_VPD_ID \<Rightarrow> evv_keyword evvp = 0 \<and> evv_length evvp \<noteq> 0
      | EFX_VPD_RO \<Rightarrow> evv_keyword evvp \<noteq> VPD_RV
      | _ \<Rightarrow> False)"

definition efx_vpd_hunk_set :: "u8 list \<Rightarrow> nat \<Rightarrow> efx_vpd_value \<Rightarrow> (efx_rc \<times> u8 list) option" where
  "efx_vpd_hunk_set data sz evvp =
     (if \<not> vpd_value_ok evvp then Some (EINVAL, data)
      else case efx_vpd_hunk_length data sz of
        None \<Rightarrow> None
      | Some (Inl rc) \<Rightarrow> Some (rc, data)
      | Some (Inr used) \<Rightarrow>
          (case vpd_set_tags data sz evvp 0 of
             None \<Rightarrow> None
           | Some (Inl rc) \<Rightarrow> Some (rc, data)
           | Some (Inr None) \<Rightarrow> Some (RC_OK, data)
           | Some (Inr (Some p)) \<Rightarrow>
               if sz + vp_source p < used + vp_dest p then Some (ENOSPC, data)
               else do {
                 data \<leftarrow> vpd_store data used evvp p;
                 r \<leftarrow> vpd_cksum_tags data sz 0;
                 case r of
                   Inl (data, rc) \<Rightarrow> Some (rc, data)
                 | Inr (data, last_ofst) \<Rightarrow> do {
                     data \<leftarrow> memset_buf data last_ofst 0xff (sz - last_ofst);
                     Some (RC_OK, data) } }))"

end
