(* ===== verification/Efx_Vpd_Spec.thy ===== *)
theory Efx_Vpd_Spec
  imports Efx_Vpd
begin

text \<open>
  A hunk as a list of resources, its bytes, and what the operations on the buffer do in terms of it: the loops of
  \<open>efx_vpd.c\<close> skip the resources and keywords that they do not look for.
\<close>

section \<open>Hunks and their bytes\<close>

type_synonym vpd_keywords = "(efx_vpd_keyword \<times> u8 list) list"

datatype vpd_item = VID "u8 list" | VRO vpd_keywords

definition le_word :: "u16 \<Rightarrow> u8 list" where
  "le_word w = [ucast w, ucast (drop_bit 8 w)]"

fun kw_bytes :: "efx_vpd_keyword \<times> u8 list \<Rightarrow> u8 list" where
  "kw_bytes (k, v) = le_word k @ [of_nat (length v)] @ v"

definition kws_bytes :: "vpd_keywords \<Rightarrow> u8 list" where
  "kws_bytes kws = concat (map kw_bytes kws)"

fun vitem_body :: "vpd_item \<Rightarrow> u8 list" where
  "vitem_body (VID bs) = bs"
| "vitem_body (VRO kws) = kws_bytes kws"

fun vitem_byte :: "vpd_item \<Rightarrow> u8" where
  "vitem_byte (VID bs) = 0x82"
| "vitem_byte (VRO kws) = 0x90"

fun vitem_tag :: "vpd_item \<Rightarrow> efx_vpd_tag" where
  "vitem_tag (VID bs) = EFX_VPD_ID"
| "vitem_tag (VRO kws) = EFX_VPD_RO"

definition vitem_bytes :: "vpd_item \<Rightarrow> u8 list" where
  "vitem_bytes it = vitem_byte it # le_word (of_nat (length (vitem_body it))) @ vitem_body it"

definition vitems_bytes :: "vpd_item list \<Rightarrow> u8 list" where
  "vitems_bytes items = concat (map vitem_bytes items)"

definition hunk_bytes :: "vpd_item list \<Rightarrow> u8 list" where
  "hunk_bytes items = vitems_bytes items @ [vpd_end_byte]"

text \<open>
  The hunks that the code can read: because of the sign extension, bit 7 of a length and of a keyword has to be clear.
\<close>

definition word_ok :: "u16 \<Rightarrow> bool" where
  "word_ok w = (\<not> bit w 7)"

definition kw_ok :: "efx_vpd_keyword \<times> u8 list \<Rightarrow> bool" where
  "kw_ok kv = (word_ok (fst kv) \<and> 0 < length (snd kv) \<and> length (snd kv) < 256)"

definition vitem_ok :: "vpd_item \<Rightarrow> bool" where
  "vitem_ok it = (length (vitem_body it) < 65536 \<and> word_ok (of_nat (length (vitem_body it)))
     \<and> (case it of VID bs \<Rightarrow> True | VRO kws \<Rightarrow> list_all kw_ok kws))"

lemma kws_bytes_simps [simp]: "kws_bytes [] = []" "kws_bytes (kv # kws) = kw_bytes kv @ kws_bytes kws"
  "kws_bytes (xs @ ys) = kws_bytes xs @ kws_bytes ys"
  by (simp_all add: kws_bytes_def)

lemma vitems_bytes_simps [simp]: "vitems_bytes [] = []" "vitems_bytes (it # items) = vitem_bytes it @ vitems_bytes items"
  "vitems_bytes (xs @ ys) = vitems_bytes xs @ vitems_bytes ys"
  by (simp_all add: vitems_bytes_def)

lemma length_le_word [simp]: "length (le_word w) = 2"
  by (simp add: le_word_def)

lemma length_kw_bytes [simp]: "length (kw_bytes kv) = 3 + length (snd kv)"
  by (cases kv) (simp add: le_word_def)

lemma length_vitem_bytes [simp]: "length (vitem_bytes it) = 3 + length (vitem_body it)"
  by (simp add: vitem_bytes_def le_word_def)

lemma vpd_word_le: "word_ok w \<Longrightarrow> vpd_word (ucast w) (ucast (drop_bit 8 w)) = w"
proof (rule bit_word_eqI)
  fix n assume w: "word_ok w" and "n < LENGTH(16)"
  then consider "n < 7" | "n = 7" | "8 \<le> n" "n < 16" by force
  then show "bit (vpd_word (ucast w) (ucast (drop_bit 8 w))) n = bit w n"
    using w by cases (auto simp: vpd_word_def word_ok_def bit_simps min_def)
qed

lemma VPD_RV_val: "VPD_RV = 0x5652"
  by (simp add: VPD_RV_def EFX_VPD_KEYWORD_def vpd_word_def)

section \<open>One resource, one keyword\<close>

text \<open>Reading behind a prefix.\<close>

lemma rd_append0: "rd (pre @ x # xs) (length pre) = Some x"
  by (simp add: rd_def nth_append)

lemma rd_append1: "rd (pre @ x # y # xs) (Suc (length pre)) = Some y"
  by (simp add: rd_def nth_append)

lemma rd_append2: "rd (pre @ x # y # z # xs) (Suc (Suc (length pre))) = Some z"
  by (simp add: rd_def nth_append)

lemma next_tag_item:
  assumes data: "data = pre @ vitem_bytes it @ post" and ok: "vitem_ok it" and sz: "length pre + 3 + length (vitem_body it) \<le> sz"
  shows "efx_vpd_next_tag data sz (length pre) = Some (Inr (length pre + 3, vitem_tag it, length (vitem_body it)))"
proof -
  let ?w = "of_nat (length (vitem_body it)) :: u16"
  have d: "data = pre @ vitem_byte it # ucast ?w # ucast (drop_bit 8 ?w) # vitem_body it @ post"
    by (simp add: data vitem_bytes_def le_word_def)
  have len: "unat (vpd_word (ucast ?w) (ucast (drop_bit 8 ?w))) = length (vitem_body it)"
    using ok by (simp add: vitem_ok_def vpd_word_le unat_of_nat)
  have name: "bit (vitem_byte it) 7" "vpd_tag_of_name (unat (vitem_byte it AND 0x7f)) = Some (vitem_tag it)"
    by (cases it; simp add: vpd_tag_of_name_def bit_simps)+
  have "vpd_tag_header data sz (length pre) = Some (Inr (3, unat (vitem_byte it AND 0x7f), length (vitem_body it)))"
    using sz name(1) len by (simp add: vpd_tag_header_def d rd_append0 rd_append1 rd_append2)
  then show ?thesis using sz name(2) by (simp add: efx_vpd_next_tag_def)
qed

lemma next_tag_end:
  assumes data: "data = pre @ vpd_end_byte # post" and sz: "length pre < sz"
  shows "efx_vpd_next_tag data sz (length pre) = Some (Inr (length pre + 1, EFX_VPD_END, 0))"
proof -
  have e: "vpd_end_byte = 0x78" by (simp add: vpd_end_byte_def)
  have "vpd_tag_header data sz (length pre) = Some (Inr (1, 0x0f, 0))"
    unfolding data e by (simp add: vpd_tag_header_def rd_append0)
  then show ?thesis using sz by (simp add: efx_vpd_next_tag_def vpd_tag_of_name_def)
qed

lemma next_keyword_kw:
  assumes data: "data = pre @ kw_bytes (k, v) @ post" and ok: "kw_ok (k, v)"
    and pos: "length pre = base + pos" and sz: "pos + 3 + length v \<le> sz"
  shows "efx_vpd_next_keyword data base sz pos = Some (Inr (k, length v))"
proof -
  have d: "data = pre @ ucast k # ucast (drop_bit 8 k) # of_nat (length v) # v @ post"
    by (simp add: data le_word_def)
  have r: "rd data (base + pos) = Some (ucast k)" "rd data (Suc (base + pos)) = Some (ucast (drop_bit 8 k))"
    "rd data (Suc (Suc (base + pos))) = Some (of_nat (length v))"
    by (simp_all add: d rd_append0 rd_append1 rd_append2 flip: pos)
  have l: "unat (of_nat (length v) :: u8) = length v" using ok by (simp add: kw_ok_def unat_of_nat)
  show ?thesis using ok sz by (simp add: efx_vpd_next_keyword_def r l EFX_VPD_KEYWORD_def vpd_word_le kw_ok_def Let_def del: rd_eq_Some)
qed

section \<open>Loops over keywords and resources\<close>

text \<open>
  Each loop passes over the keywords that are not the ones it looks for: whatever a loop \<open>L\<close> does at a position, when one
  step over an uninteresting keyword does not change it, then neither does a sequence of them.
\<close>

definition kw_skips :: "u8 list \<Rightarrow> nat \<Rightarrow> nat \<Rightarrow> efx_vpd_keyword set \<Rightarrow> (nat \<Rightarrow> 'a) \<Rightarrow> bool" where
  "kw_skips data offset taglen stop L =
     (\<forall>pos k n. efx_vpd_next_keyword data offset taglen pos = Some (Inr (k, n)) \<longrightarrow> pos \<noteq> taglen \<longrightarrow> k \<notin> stop
        \<longrightarrow> L pos = L (pos + (3 + n)))"

lemma keywords_skip:
  assumes step: "kw_skips data offset taglen stop L"
  shows "list_all kw_ok kws \<Longrightarrow> fst ` set kws \<inter> stop = {} \<Longrightarrow> data = pre @ kws_bytes kws @ post
    \<Longrightarrow> length pre = offset + pos \<Longrightarrow> pos + length (kws_bytes kws) \<le> taglen
    \<Longrightarrow> L pos = L (pos + length (kws_bytes kws))"
proof (induction kws arbitrary: pre pos)
  case (Cons kv kws)
  obtain k v where kv: "kv = (k, v)" by (cases kv)
  have kw: "efx_vpd_next_keyword data offset taglen pos = Some (Inr (k, length v))"
    by (rule next_keyword_kw [of _ pre _ _ "kws_bytes kws @ post"]) (use Cons.prems kv in auto)
  have "pos \<noteq> taglen" "k \<notin> stop" using Cons.prems kv by auto
  then have "L pos = L (pos + (3 + length v))" using step kw by (simp add: kw_skips_def)
  also have "\<dots> = L (pos + (3 + length v) + length (kws_bytes kws))"
    by (rule Cons.IH [of "pre @ kw_bytes kv"]) (use Cons.prems kv in auto)
  also have "pos + (3 + length v) + length (kws_bytes kws) = pos + length (kws_bytes (kv # kws))"
    by (simp add: kv le_word_def)
  finally show ?case .
qed simp

lemma get_keywords_step: "kw_skips data offset taglen {keyword} (vpd_get_keywords data offset taglen keyword)"
  unfolding kw_skips_def by (auto simp: vpd_get_keywords.simps [of data offset taglen keyword])

lemma set_keywords_step: "kw_skips data offset taglen {keyword, VPD_RV} (vpd_set_keywords data offset taglen keyword len)"
  unfolding kw_skips_def by (auto simp: vpd_set_keywords.simps [of data offset taglen keyword len])

lemma cksum_keywords_step: "kw_skips data offset taglen {VPD_RV} (vpd_cksum_keywords data offset taglen)"
  unfolding kw_skips_def by (auto simp: vpd_cksum_keywords.simps [of data offset taglen])

lemma verify_keywords_step: "kw_skips data offset taglen {VPD_RV} (\<lambda>pos. vpd_verify_keywords data offset taglen pos False)"
  unfolding kw_skips_def by (auto simp: vpd_verify_keywords.simps [of data offset taglen])

lemmas get_keywords_skip = keywords_skip [OF get_keywords_step]
lemmas set_keywords_skip = keywords_skip [OF set_keywords_step]
lemmas cksum_keywords_skip = keywords_skip [OF cksum_keywords_step]
lemmas verify_keywords_skip = keywords_skip [OF verify_keywords_step]

text \<open>The same for the resources that are not read-only ones.\<close>

definition tag_skips :: "u8 list \<Rightarrow> nat \<Rightarrow> (nat \<Rightarrow> 'a) \<Rightarrow> bool" where
  "tag_skips data sz L = (\<forall>offset h n. efx_vpd_next_tag data sz offset = Some (Inr (h, EFX_VPD_ID, n)) \<longrightarrow> L offset = L (h + n))"

definition is_VID :: "vpd_item \<Rightarrow> bool" where
  "is_VID it = (case it of VID bs \<Rightarrow> True | VRO kws \<Rightarrow> False)"

lemma is_VID_simps [simp]: "is_VID (VID bs)" "\<not> is_VID (VRO kws)"
  by (simp_all add: is_VID_def)

lemma tags_skip:
  assumes step: "tag_skips data sz L"
  shows "list_all vitem_ok items \<Longrightarrow> list_all is_VID items \<Longrightarrow> data = pre @ vitems_bytes items @ post
    \<Longrightarrow> length pre = offset \<Longrightarrow> offset + length (vitems_bytes items) \<le> sz
    \<Longrightarrow> L offset = L (offset + length (vitems_bytes items))"
proof (induction items arbitrary: pre offset)
  case (Cons it items)
  obtain bs where it: "it = VID bs" using Cons.prems(2) by (cases it) auto
  have "efx_vpd_next_tag data sz offset = Some (Inr (offset + 3, EFX_VPD_ID, length bs))"
    using next_tag_item [of data pre it "vitems_bytes items @ post" sz] Cons.prems it by auto
  then have "L offset = L (offset + 3 + length bs)" using step by (simp add: tag_skips_def)
  also have "\<dots> = L (offset + 3 + length bs + length (vitems_bytes items))"
    by (rule Cons.IH [of "pre @ vitem_bytes it"]) (use Cons.prems it in auto)
  also have "offset + 3 + length bs + length (vitems_bytes items) = offset + length (vitems_bytes (it # items))" by (simp add: it)
  finally show ?case .
qed simp

lemma verify_tags_step: "tag_skips data sz (\<lambda>offset. vpd_verify_tags data sz offset c)"
  unfolding tag_skips_def by (auto simp: vpd_verify_tags.simps [of data sz])

lemma get_tags_step: "tag_skips data sz (vpd_get_tags data sz EFX_VPD_RO keyword)"
  unfolding tag_skips_def by (auto simp: vpd_get_tags.simps [of data sz])

lemma set_tags_step: "evv_tag evvp = EFX_VPD_RO \<Longrightarrow> tag_skips data sz (vpd_set_tags data sz evvp)"
  unfolding tag_skips_def by (auto simp: vpd_set_tags.simps [of data sz])

lemma cksum_tags_step: "tag_skips data sz (vpd_cksum_tags data sz)"
  unfolding tag_skips_def by (auto simp: vpd_cksum_tags.simps [of data sz])

lemmas verify_tags_skip = tags_skip [OF verify_tags_step]
lemmas get_tags_skip = tags_skip [OF get_tags_step]
lemmas set_tags_skip = tags_skip [OF set_tags_step]
lemmas cksum_tags_skip = tags_skip [OF cksum_tags_step]

text \<open>The length of any well-formed hunk.\<close>

lemma hunk_length_bytes:
  "list_all vitem_ok items \<Longrightarrow> data = pre @ hunk_bytes items @ post \<Longrightarrow> length pre = offset
    \<Longrightarrow> offset + length (hunk_bytes items) \<le> sz
    \<Longrightarrow> efx_vpd_hunk_length_from data sz offset = Some (Inr (offset + length (hunk_bytes items)))"
proof (induction items arbitrary: pre offset)
  case Nil
  then have "efx_vpd_next_tag data sz offset = Some (Inr (offset + 1, EFX_VPD_END, 0))"
    using next_tag_end [of data pre post sz] by (simp add: hunk_bytes_def)
  then show ?case by (subst efx_vpd_hunk_length_from.simps) (simp add: hunk_bytes_def)
next
  case (Cons it items)
  have tag: "efx_vpd_next_tag data sz offset = Some (Inr (offset + 3, vitem_tag it, length (vitem_body it)))"
    using next_tag_item [of data pre it "hunk_bytes items @ post" sz] Cons.prems by (auto simp: hunk_bytes_def)
  have "efx_vpd_hunk_length_from data sz (offset + 3 + length (vitem_body it))
      = Some (Inr (offset + 3 + length (vitem_body it) + length (hunk_bytes items)))"
    by (rule Cons.IH [of "pre @ vitem_bytes it"]) (use Cons.prems in \<open>auto simp: hunk_bytes_def\<close>)
  moreover have "vitem_tag it \<noteq> EFX_VPD_END" by (cases it) simp_all
  ultimately show ?case using tag by (subst efx_vpd_hunk_length_from.simps) (simp add: hunk_bytes_def)
qed

end
