(* ===== verification/Efx_Vpd_Set.thy ===== *)
theory Efx_Vpd_Set
  imports Efx_Vpd_Spec
begin

text \<open>
  What \<open>efx_vpd_hunk_set\<close> does to a hunk with one read-only resource: the keyword of the value is replaced, inserted in front of
  \<open>RV\<close> or deleted, the checksum byte is made right, and the space behind the hunk is filled.
\<close>

section \<open>The abstract operation\<close>

definition kw_new :: "efx_vpd_keyword \<Rightarrow> u8 list \<Rightarrow> vpd_keywords" where
  "kw_new k v = (if v = [] then [] else [(k, v)])"

fun kws_set :: "efx_vpd_keyword \<Rightarrow> u8 list \<Rightarrow> vpd_keywords \<Rightarrow> vpd_keywords" where
  "kws_set k v [] = kw_new k v"
| "kws_set k v ((k', v') # kws) = (if k' = k then kw_new k v @ kws else (k', v') # kws_set k v kws)"

lemma kws_set_split:
  obtains as old bs where "kws = as @ old @ bs" "kws_set k v kws = as @ kw_new k v @ bs" "k \<notin> fst ` set as"
    "old = [] \<and> bs = [] \<and> k \<notin> fst ` set kws \<or> (\<exists>v0. old = [(k, v0)])"
proof -
  have "\<exists>as old bs. kws = as @ old @ bs \<and> kws_set k v kws = as @ kw_new k v @ bs \<and> k \<notin> fst ` set as
    \<and> (old = [] \<and> bs = [] \<and> k \<notin> fst ` set kws \<or> (\<exists>v0. old = [(k, v0)]))"
  proof (induction kws)
    case (Cons kv kws)
    obtain k' v' where kv: "kv = (k', v')" by (cases kv)
    obtain as old bs where ih: "kws = as @ old @ bs" "kws_set k v kws = as @ kw_new k v @ bs" "k \<notin> fst ` set as"
      "old = [] \<and> bs = [] \<and> k \<notin> fst ` set kws \<or> (\<exists>v0. old = [(k, v0)])"
      using Cons.IH by blast
    show ?case
    proof (cases "k' = k")
      case True
      then show ?thesis using kv by (intro exI [of _ "[]"] exI [of _ "[kv]"] exI [of _ kws]) simp
    next
      case False
      then show ?thesis using kv ih by (intro exI [of _ "kv # as"] exI [of _ old] exI [of _ bs]) auto
    qed
  qed simp
  then show ?thesis using that by blast
qed

lemma keys_kws_set: "fst ` set (kws_set k v kws) \<subseteq> insert k (fst ` set kws)"
  by (induction k v kws rule: kws_set.induct) (auto simp: kw_new_def)

lemma map_of_kws_set:
  "distinct (map fst kws) \<Longrightarrow> map_of (kws_set k v kws) k' = (if k' \<noteq> k then map_of kws k' else if v = [] then None else Some v)"
  by (induction k v kws rule: kws_set.induct) (auto simp: kw_new_def simp flip: map_of_eq_None_iff)

lemma map_of_SomeE:
  fixes kws :: vpd_keywords
  assumes "map_of kws k = Some v"
  obtains as bs where "kws = as @ (k, v) # bs" "k \<notin> fst ` set as"
proof -
  have "\<exists>as bs. kws = as @ (k, v) # bs \<and> k \<notin> fst ` set as" using assms
  proof (induction kws)
    case (Cons kv kws)
    show ?case
    proof (cases "fst kv = k")
      case True
      with Cons.prems have "kv # kws = [] @ (k, v) # kws \<and> k \<notin> fst ` set ([] :: vpd_keywords)" by (cases kv) simp
      then show ?thesis by blast
    next
      case False
      with Cons obtain as bs where "kws = as @ (k, v) # bs" "k \<notin> fst ` set as" by (auto split: if_splits)
      then have "kv # kws = (kv # as) @ (k, v) # bs \<and> k \<notin> fst ` set (kv # as)" using False by auto
      then show ?thesis by blast
    qed
  qed simp
  then show ?thesis using that by blast
qed

lemma kws_set_noop: "k \<notin> fst ` set kws \<Longrightarrow> kws_set k [] kws = kws"
  by (induction k "[] :: u8 list" kws rule: kws_set.induct) (auto simp: kw_new_def)

text \<open>A hunk whose read-only resource ends with \<open>RV\<close>, as its bytes: the checksum byte is explicit.\<close>

definition ro_items :: "u8 list list \<Rightarrow> vpd_keywords \<Rightarrow> u8 \<Rightarrow> u8 list \<Rightarrow> u8 list list \<Rightarrow> vpd_item list" where
  "ro_items ids kws c pad ids' = map VID ids @ VRO (kws @ [(VPD_RV, c # pad)]) # map VID ids'"

definition ro_prefix :: "u8 list list \<Rightarrow> vpd_keywords \<Rightarrow> u8 list \<Rightarrow> u8 list" where
  "ro_prefix ids kws pad = vitems_bytes (map VID ids) @ 0x90 # le_word (of_nat (length (kws_bytes kws) + 4 + length pad))
     @ kws_bytes kws @ le_word VPD_RV @ [of_nat (1 + length pad)]"

definition ro_cksum :: "u8 list list \<Rightarrow> vpd_keywords \<Rightarrow> u8 list \<Rightarrow> u8" where
  "ro_cksum ids kws pad = - sum_list (ro_prefix ids kws pad)"

lemma ro_hunk_bytes:
  "hunk_bytes (ro_items ids kws c pad ids') = ro_prefix ids kws pad @ c # pad @ vitems_bytes (map VID ids') @ [vpd_end_byte]"
  by (simp add: hunk_bytes_def ro_items_def ro_prefix_def vitem_bytes_def ac_simps)

lemma list_all_is_VID [simp]: "list_all is_VID (map VID ids)"
  by (simp add: list_all_iff)

section \<open>The search\<close>

text \<open>The place that is changed, when the keyword splits the keywords into \<open>as\<close>, \<open>old\<close> and \<open>bs\<close>.\<close>

definition ro_place :: "nat \<Rightarrow> nat \<Rightarrow> vpd_keywords \<Rightarrow> vpd_keywords \<Rightarrow> nat \<Rightarrow> vpd_place" where
  "ro_place offset taglen as old n =
     \<lparr>vp_offset = offset, vp_taglen = taglen, vp_pos = length (kws_bytes as),
      vp_source = offset + length (kws_bytes as) + length (kws_bytes old),
      vp_dest = offset + length (kws_bytes as) + n\<rparr>"

lemma kw_new_length: "length (kws_bytes (kw_new k v)) = (if v = [] then 0 else 3 + length v)"
  by (simp add: kw_new_def)

lemma set_keywords_place:
  assumes data: "data = pre @ kws_bytes (as @ old @ bs @ [(VPD_RV, c # pad)]) @ post" and pre: "length pre = offset"
    and ok: "list_all kw_ok (as @ old @ bs @ [(VPD_RV, c # pad)])"
    and k: "k \<notin> fst ` set as" "k \<noteq> VPD_RV" "VPD_RV \<notin> fst ` set as"
    and old: "old = [] \<and> bs = [] \<or> (\<exists>v0. old = [(k, v0)])"
    and taglen: "taglen = length (kws_bytes (as @ old @ bs @ [(VPD_RV, c # pad)]))"
  shows "vpd_set_keywords data offset taglen k len 0 =
    Some (Inr (if old = [] \<and> len = 0 then None
               else Some (ro_place offset taglen as old (if len = 0 then 0 else 3 + len))))"
proof -
  let ?pos = "length (kws_bytes as)"
  have skip: "vpd_set_keywords data offset taglen k len 0 = vpd_set_keywords data offset taglen k len (0 + ?pos)"
    by (rule set_keywords_skip [where pre = pre and post = "kws_bytes (old @ bs @ [(VPD_RV, c # pad)]) @ post" and data = data]) (use assms in auto)
  consider (none) "old = []" "bs = []" | (some) v0 where "old = [(k, v0)]" using old by blast
  then show ?thesis
  proof cases
    case none
    have "efx_vpd_next_keyword data offset taglen ?pos = Some (Inr (VPD_RV, length (c # pad)))"
      by (rule next_keyword_kw [of _ "pre @ kws_bytes as" _ _ post]) (use assms none in auto)
    moreover have "?pos \<noteq> taglen" "?pos + 3 + length (c # pad) = taglen" using taglen none by auto
    ultimately show ?thesis unfolding skip add_0
      by (subst vpd_set_keywords.simps) (use k none in \<open>auto simp: ro_place_def Let_def add.assoc\<close>)
  next
    case some
    have "efx_vpd_next_keyword data offset taglen ?pos = Some (Inr (k, length v0))"
      by (rule next_keyword_kw [of _ "pre @ kws_bytes as" _ _ "kws_bytes (bs @ [(VPD_RV, c # pad)]) @ post"]) (use assms some in auto)
    moreover have "?pos \<noteq> taglen" using taglen some by auto
    ultimately show ?thesis unfolding skip add_0
      by (subst vpd_set_keywords.simps) (use k some in \<open>auto simp: ro_place_def Let_def add.assoc\<close>)
  qed
qed

lemma set_tags_place:
  assumes data: "data = hunk_bytes (ro_items ids kws c pad ids') @ rest" and sz: "length data \<le> sz"
    and ok: "list_all vitem_ok (ro_items ids kws c pad ids')"
    and tag: "evv_tag evvp = EFX_VPD_RO" and k: "evv_keyword evvp = k" "k \<noteq> VPD_RV" "VPD_RV \<notin> fst ` set kws"
    and split: "kws = as @ old @ bs" "k \<notin> fst ` set as" "old = [] \<and> bs = [] \<or> (\<exists>v0. old = [(k, v0)])"
  shows "vpd_set_tags data sz evvp 0 = (let len = unat (evv_length evvp) in
    Some (Inr (if old = [] \<and> len = 0 then None
               else Some (ro_place (length (vitems_bytes (map VID ids)) + 3) (length (kws_bytes kws) + 4 + length pad) as old
                           (if len = 0 then 0 else 3 + len)))))"
proof -
  let ?pre = "vitems_bytes (map VID ids)" and ?ro = "VRO (kws @ [(VPD_RV, c # pad)])"
  let ?post = "vitems_bytes (map VID ids') @ vpd_end_byte # rest"
  have d: "data = ?pre @ vitem_bytes ?ro @ ?post" by (simp add: data ro_items_def hunk_bytes_def)
  have okr: "vitem_ok ?ro" "list_all vitem_ok (map VID ids)" using ok by (simp_all add: ro_items_def)
  have skip: "vpd_set_tags data sz evvp 0 = vpd_set_tags data sz evvp (0 + length ?pre)"
    by (rule set_tags_skip [where pre = "[]" and post = "vitem_bytes ?ro @ ?post", OF tag okr(2)]) (use d sz in auto)
  have nt: "efx_vpd_next_tag data sz (length ?pre) = Some (Inr (length ?pre + 3, EFX_VPD_RO, length (kws_bytes kws) + 4 + length pad))"
    using next_tag_item [OF d okr(1), of sz] d sz by (auto simp: add.commute)
  have "vpd_set_keywords data (length ?pre + 3) (length (kws_bytes kws) + 4 + length pad) k (unat (evv_length evvp)) 0
      = Some (Inr (if old = [] \<and> unat (evv_length evvp) = 0 then None
          else Some (ro_place (length ?pre + 3) (length (kws_bytes kws) + 4 + length pad) as old
             (if unat (evv_length evvp) = 0 then 0 else 3 + unat (evv_length evvp)))))"
    by (rule set_keywords_place [where pre = "?pre @ 0x90 # le_word (of_nat (length (kws_bytes kws) + 4 + length pad))" and c = c and pad = pad
          and bs = bs and post = ?post])
      (use okr d k split in \<open>auto simp: vitem_bytes_def vitem_ok_def ac_simps\<close>)
  then show ?thesis unfolding skip add_0 Let_def
    by (subst vpd_set_tags.simps) (simp add: tag k nt)
qed

section \<open>The new contents\<close>

lemma rd_range_append: "length X = a \<Longrightarrow> length B = n \<Longrightarrow> rd_range (X @ B @ C) a n = Some B"
  by (auto simp: rd_range_def)

lemma wr_range_append: "length X = a \<Longrightarrow> length D = length B \<Longrightarrow> wr_range (X @ B @ C) a D = Some (X @ D @ C)"
  by (auto simp: wr_range_def)

text \<open>Moving the trailing data \<open>T\<close> so that \<open>n\<close> bytes are free in front of it.\<close>

lemma memmove_gap:
  assumes "n + length T \<le> length old + length T + length R"
  obtains J R' where "memmove_buf (X @ old @ T @ R) (length X + n) (length X + length old) (length T) = Some (X @ J @ T @ R')"
    "length J = n" "length R' = length old + length R - n"
proof
  let ?d = "old @ T @ R"
  have r: "rd_range ((X @ old) @ T @ R) (length X + length old) (length T) = Some T"
    by (rule rd_range_append) simp_all
  show "memmove_buf (X @ ?d) (length X + n) (length X + length old) (length T)
      = Some (X @ take n ?d @ T @ drop (n + length T) ?d)"
    using r assms append_take_drop_id [of n ?d] by (cases "T = []") (auto simp: memmove_buf_def wr_range_def simp del: append_take_drop_id)
qed (use assms in auto)

lemma vpd_store_ro:
  assumes place: "p = ro_place (length P + 3) (length A + length O' + length T0) as old n" and A: "A = kws_bytes as" and O': "O' = kws_bytes old"
    and tag: "evv_tag evvp = EFX_VPD_RO" and k: "evv_keyword evvp = k"
    and v: "length v = unat (evv_length evvp)" "take (length v) (evv_value evvp) = v" "length v \<le> length (evv_value evvp)"
    and n: "n = length (kws_bytes (kw_new k v))"
    and used: "used = length P + 3 + length A + length O' + length T" and fits: "n \<le> length O' + length R"
  obtains R' where "vpd_store (P @ b # lo # hi # A @ O' @ T @ R) used evvp p
      = Some (P @ b # le_word (of_nat (length A + n + length T0)) @ A @ kws_bytes (kw_new k v) @ T @ R')"
    "length R' = length O' + length R - n"
proof -
  define a where "a = length (P @ b # lo # hi # A)"
  obtain J R' where mv: "memmove_buf ((P @ b # lo # hi # A) @ O' @ T @ R) (a + n) (a + length O') (length T)
      = Some ((P @ b # lo # hi # A) @ J @ T @ R')"
    and J: "length J = n" and R': "length R' = length O' + length R - n"
    unfolding a_def by (rule memmove_gap [of n T O' R "P @ b # lo # hi # A"]) (use fits in auto)
  have pl: "vp_dest p = a + n" "vp_source p = a + length O'" "vp_offset p + vp_pos p = a" "vp_offset p - 2 = Suc (length P)"
      "vp_taglen p = length A + length O' + length T0" "used - (a + length O') = length T"
    using used by (simp_all add: place ro_place_def a_def A O')
  have val: "rd_range (evv_value evvp) 0 (unat (evv_length evvp)) = Some v"
    using v by (auto simp: rd_range_def)
  have tl: "of_nat (length A + length O' + length T0) + (of_nat (a + n) - of_nat (a + length O'))
      = (of_nat (length A + n + length T0) :: u16)" by (simp add: algebra_simps)
  have hdr: "wr_range (P @ b # lo # hi # A @ K @ T @ R') (Suc (length P)) [ucast w, ucast (drop_bit 8 w)]
      = Some (P @ b # le_word w @ A @ K @ T @ R')" for K and w :: u16
    using wr_range_append [of "P @ [b]" "Suc (length P)" "le_word w" "[lo, hi]" "A @ K @ T @ R'"] by (simp add: le_word_def)
  have "vpd_store (P @ b # lo # hi # A @ O' @ T @ R) used evvp p
      = Some (P @ b # le_word (of_nat (length A + n + length T0)) @ A @ kws_bytes (kw_new k v) @ T @ R')"
  proof (cases "v = []")
    case True
    then have len: "unat (evv_length evvp) = 0" "J = []" "n = 0" using v J n by (simp_all add: kw_new_def)
    show ?thesis using mv val tl hdr [where K = "[]"] True
      by (simp add: vpd_store_def Let_def tag pl len kw_new_def)
  next
    case False
    then obtain J1 J2 where JJ: "J = J1 @ J2" "length J1 = 3" "length J2 = length v"
      using J n by (metis append_take_drop_id kw_new_length length_append length_take length_drop add_diff_cancel_left' min_absorb2 le_add1)
    have w1: "wr_range ((P @ b # lo # hi # A @ J1) @ J2 @ T @ R') (a + 3) v = Some ((P @ b # lo # hi # A @ J1) @ v @ T @ R')"
      by (rule wr_range_append) (use JJ in \<open>auto simp: a_def\<close>)
    have w2: "wr_range ((P @ b # lo # hi # A) @ J1 @ v @ T @ R') a (le_word k @ [evv_length evvp])
        = Some ((P @ b # lo # hi # A) @ (le_word k @ [evv_length evvp]) @ v @ T @ R')"
      by (rule wr_range_append) (use JJ in \<open>auto simp: a_def\<close>)
    have kb: "kws_bytes (kw_new k v) = le_word k @ evv_length evvp # v" using False by (simp add: kw_new_def v(1))
    have nn: "n = 3 + length v" "unat (evv_length evvp) = length v" "0 < length v" using n False by (simp_all add: kw_new_def le_word_def flip: v(1))
    show ?thesis
      using mv val tl hdr [where K = "le_word k @ evv_length evvp # v"] w1 w2
      by (simp add: vpd_store_def Let_def tag pl k nn kb JJ le_word_def algebra_simps False)
  qed
  then show ?thesis using R' that by blast
qed

section \<open>The checksum\<close>

lemma vpd_sum_append: "vpd_sum (xs @ ys) (length xs) = Some (sum_list xs)"
  by (auto simp: vpd_sum_def rd_range_def)

lemma vpd_wr_append: "wr (xs @ x # ys) (length xs) y = Some (xs @ y # ys)"
  by simp

text \<open>The bytes in front of the keyword \<open>RV\<close>, in front of its payload, and where the read-only resource starts.\<close>

lemma ro_prefix_split: "ro_prefix ids kws pad =
    (vitems_bytes (map VID ids) @ 0x90 # le_word (of_nat (length (kws_bytes kws) + 4 + length pad))) @ kws_bytes kws
      @ le_word VPD_RV @ [of_nat (1 + length pad)]"
  by (simp add: ro_prefix_def)

definition ro_end :: "u8 list \<Rightarrow> u8 list list \<Rightarrow> u8 list \<Rightarrow> u8 list" where
  "ro_end pad ids' rest = pad @ vitems_bytes (map VID ids') @ vpd_end_byte # rest"

lemma ro_data: "hunk_bytes (ro_items ids kws c pad ids') @ rest = ro_prefix ids kws pad @ c # ro_end pad ids' rest"
  by (simp add: ro_hunk_bytes ro_end_def)

text \<open>What every loop meets in such a hunk.\<close>

lemma ro_next_tag:
  assumes "data = ro_prefix ids kws pad @ c # ro_end pad ids' rest" "list_all vitem_ok (ro_items ids kws c pad ids')" "length data \<le> sz"
  shows "efx_vpd_next_tag data sz (length (vitems_bytes (map VID ids)))
     = Some (Inr (length (vitems_bytes (map VID ids)) + 3, EFX_VPD_RO, length (kws_bytes kws) + 4 + length pad))"
  using next_tag_item [of data "vitems_bytes (map VID ids)" "VRO (kws @ [(VPD_RV, c # pad)])" "vitems_bytes (map VID ids') @ vpd_end_byte # rest" sz] assms
  by (simp add: ro_items_def ro_prefix_def ro_end_def vitem_bytes_def ac_simps)

lemma ro_next_rv:
  assumes "data = ro_prefix ids kws pad @ c # ro_end pad ids' rest" "list_all vitem_ok (ro_items ids kws c pad ids')"
  shows "efx_vpd_next_keyword data (length (vitems_bytes (map VID ids)) + 3) (length (kws_bytes kws) + 4 + length pad) (length (kws_bytes kws))
     = Some (Inr (VPD_RV, 1 + length pad))"
  using next_keyword_kw [of data "vitems_bytes (map VID ids) @ 0x90 # le_word (of_nat (length (kws_bytes kws) + 4 + length pad)) @ kws_bytes kws" VPD_RV "c # pad"
      "vitems_bytes (map VID ids') @ vpd_end_byte # rest" "length (vitems_bytes (map VID ids)) + 3" "length (kws_bytes kws)" "length (kws_bytes kws) + 4 + length pad"] assms
  by (simp add: ro_items_def vitem_ok_def ro_prefix_def ro_end_def)

lemma ro_next_end:
  assumes "data = ro_prefix ids kws pad @ c # ro_end pad ids' rest" "length data \<le> sz"
  shows "efx_vpd_next_tag data sz (length (vitems_bytes (map VID ids)) + 3 + (length (kws_bytes kws) + 4 + length pad) + length (vitems_bytes (map VID ids')))
     = Some (Inr (length (vitems_bytes (map VID ids)) + 3 + (length (kws_bytes kws) + 4 + length pad) + length (vitems_bytes (map VID ids')) + 1, EFX_VPD_END, 0))"
proof -
  let ?P = "ro_prefix ids kws pad @ c # pad @ vitems_bytes (map VID ids')"
  have at: "length (vitems_bytes (map VID ids)) + 3 + (length (kws_bytes kws) + 4 + length pad) + length (vitems_bytes (map VID ids')) = length ?P"
    by (simp add: ro_prefix_def)
  show ?thesis unfolding at by (rule next_tag_end [of _ _ rest]) (use assms in \<open>auto simp: ro_end_def\<close>)
qed

lemma cksum_keywords_ro:
  assumes data: "data = ro_prefix ids kws pad @ c # ro_end pad ids' rest" and ok: "list_all vitem_ok (ro_items ids kws c pad ids')"
    and rv: "VPD_RV \<notin> fst ` set kws"
  shows "vpd_cksum_keywords data (length (vitems_bytes (map VID ids)) + 3) (length (kws_bytes kws) + 4 + length pad) 0
     = Some (Inr (ro_prefix ids kws pad @ ro_cksum ids kws pad # ro_end pad ids' rest))"
proof -
  let ?o = "length (vitems_bytes (map VID ids)) + 3" and ?t = "length (kws_bytes kws) + 4 + length pad"
  have skip: "vpd_cksum_keywords data ?o ?t 0 = vpd_cksum_keywords data ?o ?t (0 + length (kws_bytes kws))"
    by (rule cksum_keywords_skip [where pre = "vitems_bytes (map VID ids) @ 0x90 # le_word (of_nat ?t)" and data = data
         and post = "le_word VPD_RV @ [of_nat (1 + length pad)] @ c # ro_end pad ids' rest"])
      (use data ok rv in \<open>auto simp: ro_prefix_split ro_items_def vitem_ok_def\<close>)
  have at: "?o + length (kws_bytes kws) + 3 = length (ro_prefix ids kws pad)" by (simp add: ro_prefix_def)
  show ?thesis unfolding skip add_0
    by (subst vpd_cksum_keywords.simps)
      (simp add: ro_next_rv [OF refl ok] at data vpd_sum_append vpd_wr_append ro_cksum_def del: wr_Some)
qed

lemma cksum_tags_ro:
  assumes data: "data = hunk_bytes (ro_items ids kws c pad ids') @ rest" and ok: "list_all vitem_ok (ro_items ids kws c pad ids')"
    and rv: "VPD_RV \<notin> fst ` set kws" and sz: "length data \<le> sz"
  shows "vpd_cksum_tags data sz 0 = Some (Inr (hunk_bytes (ro_items ids kws (ro_cksum ids kws pad) pad ids') @ rest,
     length (hunk_bytes (ro_items ids kws c pad ids'))))"
proof -
  let ?l = "length (vitems_bytes (map VID ids))" and ?t = "length (kws_bytes kws) + 4 + length pad"
  let ?data' = "hunk_bytes (ro_items ids kws (ro_cksum ids kws pad) pad ids') @ rest"
  note d = data [unfolded ro_data]
  have oks: "list_all vitem_ok (map VID ids')" using ok by (simp add: ro_items_def)
  have skip: "vpd_cksum_tags data sz 0 = vpd_cksum_tags data sz (0 + ?l)"
    by (rule cksum_tags_skip [where pre = "[]" and post = "0x90 # le_word (of_nat ?t) @ kws_bytes kws
         @ le_word VPD_RV @ [of_nat (1 + length pad)] @ c # ro_end pad ids' rest"])
      (use d ok sz in \<open>auto simp: ro_prefix_split ro_items_def\<close>)
  have skip': "vpd_cksum_tags ?data' sz (?l + 3 + ?t) = vpd_cksum_tags ?data' sz (?l + 3 + ?t + length (vitems_bytes (map VID ids')))"
    by (rule cksum_tags_skip [where pre = "ro_prefix ids kws pad @ ro_cksum ids kws pad # pad" and post = "vpd_end_byte # rest"])
      (use d oks sz in \<open>auto simp: ro_prefix_def ro_end_def ro_data\<close>)
  have nend: "efx_vpd_next_tag ?data' sz (?l + 3 + ?t + length (vitems_bytes (map VID ids')))
      = Some (Inr (?l + 3 + ?t + length (vitems_bytes (map VID ids')) + 1, EFX_VPD_END, 0))"
    by (rule ro_next_end [OF ro_data]) (use d sz in \<open>simp add: ro_data\<close>)
  have fin: "vpd_cksum_tags ?data' sz (?l + 3 + ?t) = Some (Inr (?data', length (hunk_bytes (ro_items ids kws c pad ids'))))"
    unfolding skip' by (subst vpd_cksum_tags.simps, unfold nend) (simp add: ro_hunk_bytes ro_prefix_def)
  show ?thesis unfolding skip add_0
    by (subst vpd_cksum_tags.simps)
      (use fin in \<open>simp add: ro_next_tag [OF d ok sz] cksum_keywords_ro [OF d ok rv] flip: ro_data\<close>)
qed

section \<open>Setting a keyword\<close>

text \<open>The read-only resource around the keyword that changes.\<close>

lemma ro_data_split:
  assumes "kws = as @ old @ bs"
  shows "hunk_bytes (ro_items ids kws c pad ids') @ rest = vitems_bytes (map VID ids) @ 0x90
      # ucast (of_nat (length (kws_bytes kws) + 4 + length pad) :: u16) # ucast (drop_bit 8 (of_nat (length (kws_bytes kws) + 4 + length pad) :: u16))
      # kws_bytes as @ kws_bytes old @ (kws_bytes bs @ kw_bytes (VPD_RV, c # pad) @ vitems_bytes (map VID ids') @ [vpd_end_byte]) @ rest"
  by (simp add: ro_hunk_bytes ro_prefix_def assms le_word_def)

lemma hunk_set_ro:
  fixes evvp :: efx_vpd_value
  defines "k \<equiv> evv_keyword evvp" and "v \<equiv> take (unat (evv_length evvp)) (evv_value evvp)"
  assumes data: "data = hunk_bytes (ro_items ids kws c pad ids') @ rest" and ok: "list_all vitem_ok (ro_items ids kws c pad ids')"
    and rv: "VPD_RV \<notin> fst ` set kws" and tag: "evv_tag evvp = EFX_VPD_RO" and krv: "k \<noteq> VPD_RV"
    and len: "unat (evv_length evvp) \<le> length (evv_value evvp)"
    and ok': "list_all vitem_ok (ro_items ids (kws_set k v kws) c pad ids')"
    and fits: "length (hunk_bytes (ro_items ids (kws_set k v kws) c pad ids')) \<le> length data"
    and change: "v \<noteq> [] \<or> k \<in> fst ` set kws"
  shows "efx_vpd_hunk_set data (length data) evvp =
    (let h = hunk_bytes (ro_items ids (kws_set k v kws) (ro_cksum ids (kws_set k v kws) pad) pad ids')
     in Some (RC_OK, h @ replicate (length data - length h) 0xff))"
proof -
  obtain as old bs where sp: "kws = as @ old @ bs" and sp': "kws_set k v kws = as @ kw_new k v @ bs" and kas: "k \<notin> fst ` set as"
    and old: "old = [] \<and> bs = [] \<and> k \<notin> fst ` set kws \<or> (\<exists>v0. old = [(k, v0)])"
    by (rule kws_set_split)
  let ?l = "length (vitems_bytes (map VID ids))" and ?n = "length (kws_bytes (kw_new k v))"
  let ?T = "kws_bytes bs @ kw_bytes (VPD_RV, c # pad) @ vitems_bytes (map VID ids') @ [vpd_end_byte]"
  let ?tail = "kws_bytes bs @ kw_bytes (VPD_RV, c # pad)"
  define used where "used = length (hunk_bytes (ro_items ids kws c pad ids'))"
  define p where "p = ro_place (?l + 3) (length (kws_bytes kws) + 4 + length pad) as old ?n"
  have kd: "evv_keyword evvp = k" by (simp add: k_def)
  have vlen: "length v = unat (evv_length evvp)" using len by (simp add: v_def)
  have hl: "efx_vpd_hunk_length data (length data) = Some (Inr used)"
    unfolding efx_vpd_hunk_length_def used_def
    using hunk_length_bytes [OF ok, of data "[]" rest 0 "length data"] data by simp
  have nn: "(if unat (evv_length evvp) = 0 then 0 else 3 + unat (evv_length evvp)) = ?n"
    by (auto simp: kw_new_def le_word_def simp flip: vlen)
  have "\<not> (old = [] \<and> unat (evv_length evvp) = 0)" using change old vlen by auto
  then have st: "vpd_set_tags data (length data) evvp 0 = Some (Inr (Some p))"
    using set_tags_place [OF data le_refl ok tag kd krv rv sp kas] old nn by (auto simp: p_def Let_def)
  have used': "used = ?l + 3 + length (kws_bytes as) + length (kws_bytes old) + length ?T"
    by (simp add: used_def ro_hunk_bytes ro_prefix_def sp)
  have lh: "length (hunk_bytes (ro_items ids (kws_set k v kws) c pad ids')) + length (kws_bytes old) = used + ?n"
    unfolding used' by (simp add: ro_hunk_bytes ro_prefix_def sp')
  have ld: "length data = used + length rest" by (simp add: data used_def)
  have room: "\<not> length data + vp_source p < used + vp_dest p" "?n \<le> length (kws_bytes old) + length rest"
    using fits lh ld by (auto simp: p_def ro_place_def)
  have pl: "p = ro_place (?l + 3) (length (kws_bytes as) + length (kws_bytes old) + length ?tail) as old ?n"
    by (simp add: p_def sp ro_place_def)
  obtain R' where store: "vpd_store data used evvp p
      = Some (vitems_bytes (map VID ids) @ 0x90 # le_word (of_nat (length (kws_bytes as) + ?n + length ?tail)) @ kws_bytes as @ kws_bytes (kw_new k v) @ ?T @ R')"
    and R': "length R' = length (kws_bytes old) + length rest - ?n"
    unfolding data ro_data_split [OF sp]
    by (rule vpd_store_ro [OF pl refl refl tag kd vlen _ _ refl used' room(2)]) (use vlen len in \<open>auto simp: v_def\<close>)
  let ?h = "\<lambda>c. hunk_bytes (ro_items ids (kws_set k v kws) c pad ids')"
  have new: "vpd_store data used evvp p = Some (?h c @ R')"
    unfolding store by (simp add: ro_hunk_bytes ro_prefix_def sp' ac_simps)
  have rv': "VPD_RV \<notin> fst ` set (kws_set k v kws)" using rv krv keys_kws_set [of k v kws] by auto
  have lens: "length (?h x) = length (?h c)" for x by (simp add: ro_hunk_bytes)
  have lR: "length data = length (?h c) + length R'" using R' lh ld room(2) by simp
  have ck: "vpd_cksum_tags (?h c @ R') (length data) 0 = Some (Inr (?h (ro_cksum ids (kws_set k v kws) pad) @ R', length (?h c)))"
    by (rule cksum_tags_ro [OF refl ok' rv']) (simp add: lR)
  have vo: "vpd_value_ok evvp" using krv tag by (simp add: vpd_value_ok_def k_def)
  have ms: "memset_buf (?h x @ R') (length (?h c)) 0xff (length R') = Some (?h x @ replicate (length R') 0xff)" for x
    using wr_range_append [of "?h x" "length (?h c)" "replicate (length R') 0xff" R' "[]"] by (simp add: memset_buf_def lens [of x])
  show ?thesis
    using vo hl st room(1) new ck ms lR by (simp add: efx_vpd_hunk_set_def Let_def lens [of "ro_cksum ids (kws_set k v kws) pad"])
qed

text \<open>When there is no room, and when a keyword that is not there is deleted, the buffer stays as it is.\<close>

lemma hunk_set_unchanged:
  fixes evvp :: efx_vpd_value
  defines "k \<equiv> evv_keyword evvp" and "v \<equiv> take (unat (evv_length evvp)) (evv_value evvp)"
  assumes data: "data = hunk_bytes (ro_items ids kws c pad ids') @ rest" and ok: "list_all vitem_ok (ro_items ids kws c pad ids')"
    and rv: "VPD_RV \<notin> fst ` set kws" and tag: "evv_tag evvp = EFX_VPD_RO" and krv: "k \<noteq> VPD_RV"
    and len: "unat (evv_length evvp) \<le> length (evv_value evvp)"
  shows "v = [] \<Longrightarrow> k \<notin> fst ` set kws \<Longrightarrow> efx_vpd_hunk_set data (length data) evvp = Some (RC_OK, data)"
    and "length data < length (hunk_bytes (ro_items ids (kws_set k v kws) c pad ids')) \<Longrightarrow> efx_vpd_hunk_set data (length data) evvp = Some (ENOSPC, data)"
proof -
  obtain as old bs where sp: "kws = as @ old @ bs" and sp': "kws_set k v kws = as @ kw_new k v @ bs" and kas: "k \<notin> fst ` set as"
    and old: "old = [] \<and> bs = [] \<and> k \<notin> fst ` set kws \<or> (\<exists>v0. old = [(k, v0)])"
    by (rule kws_set_split)
  define used where "used = length (hunk_bytes (ro_items ids kws c pad ids'))"
  have kd: "evv_keyword evvp = k" by (simp add: k_def)
  have vlen: "length v = unat (evv_length evvp)" using len by (simp add: v_def)
  have hl: "efx_vpd_hunk_length data (length data) = Some (Inr used)"
    unfolding efx_vpd_hunk_length_def used_def
    using hunk_length_bytes [OF ok, of data "[]" rest 0 "length data"] data by simp
  have vo: "vpd_value_ok evvp" using krv tag by (simp add: vpd_value_ok_def k_def)
  have old': "old = [] \<and> bs = [] \<or> (\<exists>v0. old = [(k, v0)])" using old by blast
  note st = set_tags_place [OF data le_refl ok tag kd krv rv sp kas old', unfolded Let_def]
  show "efx_vpd_hunk_set data (length data) evvp = Some (RC_OK, data)" if "v = []" "k \<notin> fst ` set kws"
  proof -
    have "old = []" "unat (evv_length evvp) = 0" using that old sp vlen by auto
    then show ?thesis using vo hl st by (simp add: efx_vpd_hunk_set_def)
  qed
  show "efx_vpd_hunk_set data (length data) evvp = Some (ENOSPC, data)"
    if big: "length data < length (hunk_bytes (ro_items ids (kws_set k v kws) c pad ids'))"
  proof -
    have lens: "length (hunk_bytes (ro_items ids (kws_set k v kws) c pad ids')) + length (kws_bytes old) = used + length (kws_bytes (kw_new k v))"
      using arg_cong [OF sp', of "length \<circ> kws_bytes"] arg_cong [OF sp, of "length \<circ> kws_bytes"]
      by (simp add: used_def ro_hunk_bytes ro_prefix_def)
    have "length (kws_bytes (kw_new k v)) \<noteq> 0" using lens big by (auto simp: used_def data)
    then have n: "unat (evv_length evvp) \<noteq> 0" "length (kws_bytes (kw_new k v)) = 3 + unat (evv_length evvp)"
      by (auto simp: kw_new_def le_word_def simp flip: vlen split: if_splits)
    show ?thesis using vo hl st n lens big
      by (simp add: efx_vpd_hunk_set_def ro_place_def)
  qed
qed

section \<open>Verifying and looking up\<close>

lemma verify_keywords_ro:
  assumes data: "data = ro_prefix ids kws pad @ c # ro_end pad ids' rest" and ok: "list_all vitem_ok (ro_items ids kws c pad ids')"
    and rv: "VPD_RV \<notin> fst ` set kws"
  shows "vpd_verify_keywords data (length (vitems_bytes (map VID ids)) + 3) (length (kws_bytes kws) + 4 + length pad) 0 False
     = Some (if c = ro_cksum ids kws pad then Inr True else Inl EFAULT)"
proof -
  let ?o = "length (vitems_bytes (map VID ids)) + 3" and ?t = "length (kws_bytes kws) + 4 + length pad"
  have skip: "vpd_verify_keywords data ?o ?t 0 False = vpd_verify_keywords data ?o ?t (0 + length (kws_bytes kws)) False"
    by (rule verify_keywords_skip [where pre = "vitems_bytes (map VID ids) @ 0x90 # le_word (of_nat ?t)" and data = data
         and post = "le_word VPD_RV @ [of_nat (1 + length pad)] @ c # ro_end pad ids' rest"])
      (use data ok rv in \<open>auto simp: ro_prefix_split ro_items_def vitem_ok_def\<close>)
  have at: "?o + length (kws_bytes kws) + 4 = length (ro_prefix ids kws pad @ [c])" by (simp add: ro_prefix_def)
  have sum: "vpd_sum data (length (ro_prefix ids kws pad @ [c])) = Some (sum_list (ro_prefix ids kws pad) + c)"
    using vpd_sum_append [of "ro_prefix ids kws pad @ [c]" "ro_end pad ids' rest"] data by simp
  have z: "sum_list (ro_prefix ids kws pad) + c = 0 \<longleftrightarrow> c = ro_cksum ids kws pad"
    by (metis ro_cksum_def add.commute add.right_inverse add_eq_0_iff)
  have stop: "vpd_verify_keywords data ?o ?t ?t True = Some (Inr True)" by (subst vpd_verify_keywords.simps) simp
  have fit: "length (kws_bytes kws) + (3 + (1 + length pad)) = ?t" "length (kws_bytes kws) \<noteq> ?t" by simp_all
  show ?thesis unfolding skip add_0
    by (subst vpd_verify_keywords.simps, unfold ro_next_rv [OF data ok] at)
      (simp only: fit vpd_bind_simps prod.case sum z stop option.simps Option.bind.simps if_True if_False simp_thms split: if_splits, simp)
qed

lemma hunk_verify_ro:
  assumes data: "data = hunk_bytes (ro_items ids kws c pad ids') @ rest" and ok: "list_all vitem_ok (ro_items ids kws c pad ids')"
    and rv: "VPD_RV \<notin> fst ` set kws" and sz: "length data \<le> sz"
  shows "efx_vpd_hunk_verify data sz = Some (if c = ro_cksum ids kws pad then Inr True else Inl EFAULT)"
proof -
  let ?l = "length (vitems_bytes (map VID ids))" and ?t = "length (kws_bytes kws) + 4 + length pad"
  note d = data [unfolded ro_data]
  have oks: "list_all vitem_ok (map VID ids')" using ok by (simp add: ro_items_def)
  have skip: "vpd_verify_tags data sz 0 False = vpd_verify_tags data sz (0 + ?l) False"
    by (rule verify_tags_skip [where pre = "[]" and post = "0x90 # le_word (of_nat ?t) @ kws_bytes kws
         @ le_word VPD_RV @ [of_nat (1 + length pad)] @ c # ro_end pad ids' rest"])
      (use d ok sz in \<open>auto simp: ro_prefix_split ro_items_def\<close>)
  have skip': "vpd_verify_tags data sz (?l + 3 + ?t) True = vpd_verify_tags data sz (?l + 3 + ?t + length (vitems_bytes (map VID ids'))) True"
    by (rule verify_tags_skip [where pre = "ro_prefix ids kws pad @ c # pad" and post = "vpd_end_byte # rest"])
      (use d oks sz in \<open>auto simp: ro_prefix_def ro_end_def\<close>)
  have fin: "vpd_verify_tags data sz (?l + 3 + ?t) True = Some (Inr True)"
    unfolding skip' by (subst vpd_verify_tags.simps, unfold ro_next_end [OF d sz]) simp
  have "vpd_verify_tags data sz ?l False = Some (if c = ro_cksum ids kws pad then Inr True else Inl EFAULT)"
    by (subst vpd_verify_tags.simps, unfold ro_next_tag [OF d ok sz])
      (use fin in \<open>simp add: verify_keywords_ro [OF d ok rv]\<close>)
  then show ?thesis unfolding efx_vpd_hunk_verify_def skip add_0 by simp
qed

text \<open>What a caller of \<open>efx_vpd_hunk_get\<close> reads: the bytes at the offset that it reports.\<close>

definition vpd_lookup :: "u8 list \<Rightarrow> nat \<Rightarrow> efx_vpd_keyword \<Rightarrow> u8 list vpd_result" where
  "vpd_lookup data sz k = vpd_bind (efx_vpd_hunk_get data sz EFX_VPD_RO k) (\<lambda>(p, n). do { bs \<leftarrow> rd_range data p n; Some (Inr bs) })"

definition vpd_found :: "u8 list option \<Rightarrow> u8 list vpd_result" where
  "vpd_found found = Some (case found of None \<Rightarrow> Inl ENOENT | Some v \<Rightarrow> Inr v)"

lemma get_keywords_found:
  assumes data: "data = pre @ kws_bytes (as @ (k, v) # bs) @ post" and pre: "length pre = offset" and ok: "list_all kw_ok (as @ (k, v) # bs)"
    and k: "k \<notin> fst ` set as" and taglen: "taglen = length (kws_bytes (as @ (k, v) # bs))"
  shows "vpd_get_keywords data offset taglen k 0 = Some (Inr (Some (offset + length (kws_bytes as) + 3, length v)))"
proof -
  have skip: "vpd_get_keywords data offset taglen k 0 = vpd_get_keywords data offset taglen k (0 + length (kws_bytes as))"
    by (rule get_keywords_skip [where pre = pre and data = data and post = "kws_bytes ((k, v) # bs) @ post"]) (use assms in auto)
  have "efx_vpd_next_keyword data offset taglen (length (kws_bytes as)) = Some (Inr (k, length v))"
    by (rule next_keyword_kw [of _ "pre @ kws_bytes as" _ _ "kws_bytes bs @ post"]) (use assms in auto)
  moreover have "length (kws_bytes as) \<noteq> taglen" using taglen by simp
  ultimately show ?thesis unfolding skip add_0 by (subst vpd_get_keywords.simps) simp
qed

lemma get_keywords_none:
  assumes data: "data = pre @ kws_bytes kws @ post" and pre: "length pre = offset" and ok: "list_all kw_ok kws" and k: "k \<notin> fst ` set kws"
  shows "vpd_get_keywords data offset (length (kws_bytes kws)) k 0 = Some (Inr None)"
proof -
  have skip: "vpd_get_keywords data offset (length (kws_bytes kws)) k 0 = vpd_get_keywords data offset (length (kws_bytes kws)) k (0 + length (kws_bytes kws))"
    by (rule get_keywords_skip [where pre = pre and data = data and post = post]) (use assms in auto)
  show ?thesis unfolding skip add_0 by (subst vpd_get_keywords.simps) simp
qed

lemma vpd_lookup_ro:
  assumes data: "data = hunk_bytes (ro_items ids kws c pad ids') @ rest" and ok: "list_all vitem_ok (ro_items ids kws c pad ids')"
    and sz: "length data \<le> sz" and k: "k \<noteq> VPD_RV"
  shows "vpd_lookup data sz k = vpd_found (map_of kws k)"
proof -
  let ?l = "length (vitems_bytes (map VID ids))" and ?t = "length (kws_bytes kws) + 4 + length pad"
  let ?pre = "vitems_bytes (map VID ids) @ 0x90 # le_word (of_nat ?t)" and ?all = "kws @ [(VPD_RV, c # pad)]"
  note d = data [unfolded ro_data]
  have d': "data = ?pre @ kws_bytes ?all @ vitems_bytes (map VID ids') @ vpd_end_byte # rest" using d by (simp add: ro_prefix_split ro_end_def)
  have oks: "list_all vitem_ok (map VID ids')" "list_all kw_ok ?all" using ok by (simp_all add: ro_items_def vitem_ok_def)
  have t: "?t = length (kws_bytes ?all)" by simp
  have skip: "vpd_get_tags data sz EFX_VPD_RO k 0 = vpd_get_tags data sz EFX_VPD_RO k (0 + ?l)"
    by (rule get_tags_skip [where pre = "[]" and post = "0x90 # le_word (of_nat ?t) @ kws_bytes kws
         @ le_word VPD_RV @ [of_nat (1 + length pad)] @ c # ro_end pad ids' rest"])
      (use d ok sz in \<open>auto simp: ro_prefix_split ro_items_def\<close>)
  show ?thesis
  proof (cases "map_of kws k")
    case None
    have kn: "vpd_get_keywords data (?l + 3) ?t k 0 = Some (Inr None)"
      unfolding t by (rule get_keywords_none [where pre = ?pre, OF d' _ oks(2)]) (use None k in \<open>auto simp: map_of_eq_None_iff\<close>)
    have skip': "vpd_get_tags data sz EFX_VPD_RO k (?l + 3 + ?t) = vpd_get_tags data sz EFX_VPD_RO k (?l + 3 + ?t + length (vitems_bytes (map VID ids')))"
      by (rule get_tags_skip [where pre = "ro_prefix ids kws pad @ c # pad" and post = "vpd_end_byte # rest"])
        (use d oks sz in \<open>auto simp: ro_prefix_def ro_end_def\<close>)
    have fin: "vpd_get_tags data sz EFX_VPD_RO k (?l + 3 + ?t) = Some (Inl ENOENT)"
      unfolding skip' by (subst vpd_get_tags.simps, unfold ro_next_end [OF d sz]) simp
    have "vpd_get_tags data sz EFX_VPD_RO k ?l = Some (Inl ENOENT)"
      by (subst vpd_get_tags.simps, unfold ro_next_tag [OF d ok sz]) (use fin kn in simp)
    then show ?thesis unfolding vpd_lookup_def efx_vpd_hunk_get_def skip add_0 by (simp add: None vpd_found_def)
  next
    case (Some v)
    then obtain as bs where sp: "kws = as @ (k, v) # bs" "k \<notin> fst ` set as"
      by (rule map_of_SomeE)
    have kn: "vpd_get_keywords data (?l + 3) ?t k 0 = Some (Inr (Some (?l + 3 + length (kws_bytes as) + 3, length v)))"
      by (rule get_keywords_found [where pre = ?pre and bs = "bs @ [(VPD_RV, c # pad)]" and post = "vitems_bytes (map VID ids') @ vpd_end_byte # rest"])
        (use d' oks(2) sp in auto)
    have "vpd_get_tags data sz EFX_VPD_RO k ?l = Some (Inr (?l + 3 + length (kws_bytes as) + 3, length v))"
      by (subst vpd_get_tags.simps, unfold ro_next_tag [OF d ok sz]) (use kn in simp)
    moreover have "rd_range data (?l + 3 + length (kws_bytes as) + 3) (length v) = Some v"
      using rd_range_append [of "?pre @ kws_bytes as @ le_word k @ [of_nat (length v)]" "?l + 3 + length (kws_bytes as) + 3" v "length v"
          "kws_bytes (bs @ [(VPD_RV, c # pad)]) @ vitems_bytes (map VID ids') @ vpd_end_byte # rest"] d' sp by simp
    ultimately show ?thesis unfolding vpd_lookup_def efx_vpd_hunk_get_def skip add_0 by (simp add: Some vpd_found_def)
  qed
qed

section \<open>A new hunk\<close>

text \<open>\<open>efx_vpd_hunk_reinit\<close> writes a hunk with only the keyword \<open>RV\<close>, and keeps what is behind it.\<close>

definition blank_ids :: "bool \<Rightarrow> u8 list list" where
  "blank_ids wantpid = (if wantpid then [[0x32]] else [])"

lemma blank_hunk:
  "hunk_bytes (ro_items (blank_ids False) [] c [] []) = [0x90, 4, 0, 0x52, 0x56, 1, c, 0x78]"
  "hunk_bytes (ro_items (blank_ids True) [] c [] []) = [0x82, 1, 0, 0x32, 0x90, 4, 0, 0x52, 0x56, 1, c, 0x78]"
  by (simp_all add: hunk_bytes_def ro_items_def blank_ids_def vitem_bytes_def le_word_def VPD_RV_val vpd_end_byte_def)

lemma blank_cksum: "ro_cksum (blank_ids wantpid) [] [] = (if wantpid then 0x0e else 0xc3)"
  by (simp add: ro_cksum_def ro_prefix_def blank_ids_def vitem_bytes_def le_word_def VPD_RV_val)

lemma drop_update_head: "n < length xs \<Longrightarrow> (drop n xs)[0 := x] = x # drop (Suc n) xs"
  by (simp flip: Cons_nth_drop_Suc)

lemma hunk_reinit_ro:
  assumes "0x100 \<le> length data"
  shows "efx_vpd_hunk_reinit data (length data) wantpid
     = Some (RC_OK, hunk_bytes (ro_items (blank_ids wantpid) [] (ro_cksum (blank_ids wantpid) [] []) [] [])
         @ drop (length (hunk_bytes (ro_items (blank_ids wantpid) [] 0 [] []))) data)"
proof -
  have n: "Suc (Suc (Suc (Suc (Suc (Suc (Suc 0)))))) \<le> length data - Suc (Suc (Suc (Suc 0)))"
    "Suc (Suc (Suc (Suc (Suc (Suc (Suc 0)))))) < length data" "Suc (Suc (Suc (Suc (Suc (Suc (Suc (Suc (Suc (Suc (Suc 0)))))))))) < length data"
    using assms by linarith+
  show ?thesis using assms n
    by (cases wantpid)
      (simp_all add: efx_vpd_hunk_reinit_def blank_cksum blank_hunk wr_range_def rd_range_def vpd_sum_def efx_vpd_blank_pid_def
        efx_vpd_blank_r_def vpd_end_byte_def Let_def drop_update_head)
qed

end
