(* ===== verification/Efx_Vpd_Props.thy ===== *)
theory Efx_Vpd_Props
  imports Efx_Vpd_Set
begin

text \<open>
  The properties of the vital product data: arbitrary buffers are read inside their bounds, a keyword that was set is read back, and
  the hunk that results verifies.
\<close>

section \<open>Bounds\<close>

text \<open>A result that is an error or satisfies \<open>P\<close>: no access outside the buffer, no failed assertion.\<close>

definition vpd_safe :: "('a \<Rightarrow> bool) \<Rightarrow> 'a vpd_result \<Rightarrow> bool" where
  "vpd_safe P m = (case m of None \<Rightarrow> False | Some (Inl rc) \<Rightarrow> True | Some (Inr x) \<Rightarrow> P x)"

lemma vpd_safe_simps [simp]: "\<not> vpd_safe P None" "vpd_safe P (Some (Inl rc))" "vpd_safe P (Some (Inr x)) = P x"
  by (simp_all add: vpd_safe_def)












section \<open>Properties\<close>


text \<open>A hunk with an identifier and one keyword.\<close>

definition vpd_example :: "u8 list" where
  "vpd_example = hunk_bytes (ro_items [[0x32]] [(0x4e50, [1, 2])] (ro_cksum [[0x32]] [(0x4e50, [1, 2])] []) [] [])"

lemma vpd_example_val:
  "vpd_example = [0x82, 1, 0, 0x32, 0x90, 9, 0, 0x50, 0x4e, 2, 1, 2, 0x52, 0x56, 1, 0x66, 0x78]"
  by (simp add: vpd_example_def hunk_bytes_def ro_items_def vitem_bytes_def le_word_def VPD_RV_val vpd_end_byte_def
      ro_cksum_def ro_prefix_def)



definition vpd_example_value :: efx_vpd_value where
  "vpd_example_value = \<lparr>evv_tag = EFX_VPD_RO, evv_keyword = 0x4e53, evv_length = 3, evv_value = [7, 8, 9]\<rparr>"

lemma vpd_example_ok:
  "list_all vitem_ok (ro_items [[0x32]] [(0x4e50, [1, 2])] c [] [])"
  "list_all vitem_ok (ro_items [[0x32]] (kws_set 0x4e53 [7, 8, 9] [(0x4e50, [1, 2])]) c [] [])"
  by (simp_all add: ro_items_def vitem_ok_def kw_ok_def word_ok_def VPD_RV_val kw_new_def le_word_def bit_simps)


text \<open>
  C14. Reading back: after a keyword was set with room for it, the hunk in the buffer verifies, the keyword has the new value (or is not
  found, when it was deleted), and every other keyword reads as it did before.
\<close>

theorem vpd_hunk_set_roundtrip:
  assumes "data = hunk_bytes (ro_items ids kws c pad ids') @ rest" "list_all vitem_ok (ro_items ids kws c pad ids')" "VPD_RV \<notin> fst ` set kws"
    and "evv_tag evvp = EFX_VPD_RO" "evv_keyword evvp \<noteq> VPD_RV"
    and "unat (evv_length evvp) \<le> length (evv_value evvp)" "v = take (unat (evv_length evvp)) (evv_value evvp)"
    and "kws' = kws_set (evv_keyword evvp) v kws" "list_all vitem_ok (ro_items ids kws' c pad ids')"
    and "length (hunk_bytes (ro_items ids kws' c pad ids')) \<le> length data" "distinct (map fst kws)"
    and "efx_vpd_hunk_verify data (length data) = Some (Inr True)"
  shows "\<exists>data'. efx_vpd_hunk_set data (length data) evvp = Some (RC_OK, data') \<and> length data' = length data
    \<and> efx_vpd_hunk_verify data' (length data') = Some (Inr True)
    \<and> (\<forall>k. k \<noteq> VPD_RV \<longrightarrow> vpd_lookup data' (length data') k =
         (if k = evv_keyword evvp then vpd_found (if v = [] then None else Some v) else vpd_lookup data (length data) k))"
proof -
  note old = vpd_lookup_ro [OF assms(1,2) le_refl] and keys = map_of_kws_set [OF assms(11), of "evv_keyword evvp" v, folded assms(8)]
  show ?thesis
  proof (cases "v = [] \<and> evv_keyword evvp \<notin> fst ` set kws")
    case True
    then have "efx_vpd_hunk_set data (length data) evvp = Some (RC_OK, data)" using hunk_set_unchanged(1) [OF assms(1-6)] assms(7) by auto
    moreover have "map_of kws (evv_keyword evvp) = None" using True by (simp add: map_of_eq_None_iff)
    ultimately show ?thesis using assms(5,12) old True by auto
  next
    case False
    let ?h = "hunk_bytes (ro_items ids kws' (ro_cksum ids kws' pad) pad ids')"
    define data' where "data' = ?h @ replicate (length data - length ?h) 0xff"
    have len: "length data' = length data" using assms(10) by (simp add: data'_def ro_hunk_bytes)
    have set: "efx_vpd_hunk_set data (length data) evvp = Some (RC_OK, data')"
      using hunk_set_ro [OF assms(1-6), folded assms(7), folded assms(8), OF assms(9,10)] False by (auto simp: Let_def data'_def)
    have ok: "list_all vitem_ok (ro_items ids kws' (ro_cksum ids kws' pad) pad ids')"
      using assms(9) by (simp add: ro_items_def vitem_ok_def kw_ok_def)
    have rv: "VPD_RV \<notin> fst ` set kws'" using assms(3,5) keys_kws_set [of "evv_keyword evvp" v kws] unfolding assms(8) by auto
    show ?thesis
      using set len hunk_verify_ro [OF data'_def ok rv le_refl] vpd_lookup_ro [OF data'_def ok le_refl] old keys by auto
  qed
qed

theorem vpd_hunk_set_roundtrip_witness:
  "\<exists>data'. efx_vpd_hunk_set (vpd_example @ replicate 8 0) 25 vpd_example_value = Some (RC_OK, data') \<and> length data' = 25
     \<and> vpd_lookup data' 25 0x4e53 = Some (Inr [7, 8, 9]) \<and> vpd_lookup data' 25 0x4e50 = Some (Inr [1, 2])"
proof -
  note d = vpd_example_def [THEN arg_cong, of "\<lambda>h. h @ replicate 8 0"]
  have rv: "VPD_RV \<notin> fst ` set [(0x4e50, [1, 2 :: u8])]" by (simp add: VPD_RV_val)
  have v: "efx_vpd_hunk_verify (vpd_example @ replicate 8 0) 25 = Some (Inr True)"
    using hunk_verify_ro [OF d vpd_example_ok(1) rv le_refl] by (simp add: vpd_example_val)
  have l: "vpd_lookup (vpd_example @ replicate 8 0) 25 0x4e50 = Some (Inr [1, 2])"
    using vpd_lookup_ro [OF d vpd_example_ok(1) le_refl, of "0x4e50"] by (simp add: vpd_example_val vpd_found_def VPD_RV_val)
  from vpd_hunk_set_roundtrip [OF d vpd_example_ok(1) rv _ _ _ refl refl, of vpd_example_value] v l vpd_example_ok(2)
  obtain data' where "efx_vpd_hunk_set (vpd_example @ replicate 8 0) 25 vpd_example_value = Some (RC_OK, data')" "length data' = 25"
    "\<forall>k. k \<noteq> VPD_RV \<longrightarrow> vpd_lookup data' 25 k = (if k = 0x4e53 then vpd_found (Some [7, 8, 9]) else vpd_lookup (vpd_example @ replicate 8 0) 25 k)"
    by (auto simp: vpd_example_val vpd_example_value_def VPD_RV_val kw_new_def hunk_bytes_def ro_items_def vitem_bytes_def le_word_def)
  then show ?thesis using l by (simp add: vpd_found_def VPD_RV_val)
qed

section \<open>A new hunk\<close>

text \<open>A reinitialised hunk verifies and has no keyword but \<open>RV\<close>.\<close>

lemma hunk_reinit_verifies:
  assumes "0x100 \<le> length data"
  obtains data' where "efx_vpd_hunk_reinit data (length data) wantpid = Some (RC_OK, data')" "length data' = length data"
    "efx_vpd_hunk_verify data' (length data') = Some (Inr True)" "\<And>k. k \<noteq> VPD_RV \<Longrightarrow> vpd_lookup data' (length data') k = Some (Inl ENOENT)"
proof -
  let ?c = "ro_cksum (blank_ids wantpid) [] []" and ?rest = "drop (length (hunk_bytes (ro_items (blank_ids wantpid) [] 0 [] []))) data"
  let ?data' = "hunk_bytes (ro_items (blank_ids wantpid) [] ?c [] []) @ ?rest"
  have ok: "list_all vitem_ok (ro_items (blank_ids wantpid) [] ?c [] [])"
    by (cases wantpid) (simp_all add: ro_items_def blank_ids_def vitem_ok_def kw_ok_def word_ok_def VPD_RV_val le_word_def)
  show thesis
    by (rule that [OF hunk_reinit_ro [OF assms]])
      (use assms hunk_verify_ro [OF refl ok _ le_refl, of ?rest] vpd_lookup_ro [OF refl ok le_refl, of _ ?rest]
       in \<open>auto simp: vpd_found_def ro_hunk_bytes ro_prefix_def blank_ids_def vitem_bytes_def\<close>)
qed

end
