(* ===== verification/Efx_Mc_Cmd.thy ===== *)
theory Efx_Mc_Cmd
  imports Efx_Mcdi
begin

text \<open>
  Single commands to the management controller, as the common code builds them: the accessors of \<open>src/common/efx_mcdi.h\<close> for
  request and response buffers, and \<open>efx_mcdi_execute\<close>. What executes a request (the driver's \<open>emt_execute\<close> with the
  controller behind it) and the kernel's allocator are not part of the common code: they are the parameter \<open>mc_env\<close>, over a
  state \<open>'m\<close> of theirs.
\<close>

record 'm mc_env =
  env_execute :: "efx_mcdi_req \<Rightarrow> 'm \<Rightarrow> efx_mcdi_req \<times> 'm"
  env_alloc :: "'m \<Rightarrow> bool \<times> 'm"

text \<open>A request whose fields the code sets before \<open>efx_mcdi_execute\<close>; the others are uninitialised in the C.\<close>

definition mcdi_req :: "u32 \<Rightarrow> u8 list \<Rightarrow> nat \<Rightarrow> u8 list \<Rightarrow> nat \<Rightarrow> efx_mcdi_req" where
  "mcdi_req cmd in_buf in_length out_buf out_length =
     \<lparr>emr_quiet = False, emr_cmd = cmd, emr_in_buf = in_buf, emr_in_length = in_length, emr_rc = RC_OK, emr_out_buf = Some out_buf,
      emr_out_length = out_length, emr_out_length_used = 0, emr_err_code = 0, emr_err_arg = 0\<rparr>"

definition mcdi_in_set_byte :: "nat \<Rightarrow> u8 \<Rightarrow> u8 list \<Rightarrow> u8 list option" where
  "mcdi_in_set_byte ofst v payload = wr payload ofst v"

definition mcdi_in_set_word :: "nat \<Rightarrow> u16 \<Rightarrow> u8 list \<Rightarrow> u8 list option" where
  "mcdi_in_set_word ofst v payload = wr_range payload ofst [ucast v, ucast (drop_bit 8 v)]"

definition mcdi_in_set_dword :: "nat \<Rightarrow> u32 \<Rightarrow> u8 list \<Rightarrow> u8 list option" where
  "mcdi_in_set_dword ofst v payload = wr_range payload ofst (bytes_of_word v)"

definition mcdi_out_dword :: "efx_mcdi_req \<Rightarrow> nat \<Rightarrow> u32 option" where
  "mcdi_out_dword req ofst = do {
     buf \<leftarrow> emr_out_buf req;
     bytes \<leftarrow> rd_range buf ofst 4;
     Some (hd (words_of_bytes bytes)) }"

text \<open>\<open>__CPU_TO_BE_16\<close> on a little-endian processor.\<close>

definition cpu_to_be_16 :: "u16 \<Rightarrow> u16" where
  "cpu_to_be_16 v = push_bit 8 v OR drop_bit 8 v"

text \<open>\<open>efx_mcdi_execute\<close>, which asserts that MCDI is up.\<close>

definition efx_mcdi_execute :: "'m mc_env \<Rightarrow> u32 \<Rightarrow> u32 \<Rightarrow> efx_mcdi_req \<Rightarrow> 'm \<Rightarrow> (efx_mcdi_req \<times> 'm) option" where
  "efx_mcdi_execute env mod_flags features req m = do {
     efsys_assert (mod_flags AND EFX_MOD_MCDI \<noteq> 0);
     efsys_assert (features AND EFX_FEATURE_MCDI \<noteq> 0);
     Some (env_execute env (req\<lparr>emr_quiet := False\<rparr>) m) }"

definition efx_mcdi_execute_quiet :: "'m mc_env \<Rightarrow> u32 \<Rightarrow> u32 \<Rightarrow> efx_mcdi_req \<Rightarrow> 'm \<Rightarrow> (efx_mcdi_req \<times> 'm) option" where
  "efx_mcdi_execute_quiet env mod_flags features req m = do {
     efsys_assert (mod_flags AND EFX_MOD_MCDI \<noteq> 0);
     efsys_assert (features AND EFX_FEATURE_MCDI \<noteq> 0);
     Some (env_execute env (req\<lparr>emr_quiet := True\<rparr>) m) }"

text \<open>
  What the common code relies on: the response goes into the caller's buffer, which keeps its length.
\<close>

definition mc_env_ok :: "'m mc_env \<Rightarrow> bool" where
  "mc_env_ok env = (\<forall>req m. map_option length (emr_out_buf (fst (env_execute env req m))) = map_option length (emr_out_buf req))"

lemma mc_env_ok_buf:
  "mc_env_ok env \<Longrightarrow> emr_out_buf req = Some buf \<Longrightarrow> \<exists>buf'. emr_out_buf (fst (env_execute env req m)) = Some buf' \<and> length buf' = length buf"
  unfolding mc_env_ok_def by (metis map_option_eq_Some)

lemma mcdi_out_dword_Some:
  "emr_out_buf req = Some buf \<Longrightarrow> ofst + 4 \<le> length buf \<Longrightarrow> \<exists>w. mcdi_out_dword req ofst = Some w"
  by (simp add: mcdi_out_dword_def rd_range_def)

lemma length_bytes_of_word4: "length (bytes_of_word w) = 4"
  by (simp add: bytes_of_word_def)

lemma mcdi_in_set_Some:
  "ofst < length p \<Longrightarrow> mcdi_in_set_byte ofst b p = Some (p[ofst := b])"
  "ofst + 2 \<le> length p \<Longrightarrow> mcdi_in_set_word ofst w p = Some (take ofst p @ [ucast w, ucast (drop_bit 8 w)] @ drop (ofst + 2) p)"
  "ofst + 4 \<le> length p \<Longrightarrow> mcdi_in_set_dword ofst d p = Some (take ofst p @ bytes_of_word d @ drop (ofst + 4) p)"
  by (simp_all add: mcdi_in_set_byte_def mcdi_in_set_word_def mcdi_in_set_dword_def wr_range_def bytes_of_word_def eval_nat_numeral)

end
