(* ===== verification/Efx_Ef10_Filter.thy ===== *)
theory Efx_Ef10_Filter
  imports Efx_Filter Efx_Mc_Cmd Efx_Hash
begin

text \<open>
  \<open>src/common/ef10_filter.c\<close>: the packet filters of the EF10 family. The driver keeps a hash table of the filters it installed,
  each with the handle that the management controller gave it; the controller holds the filters themselves.

  The table entry's \<open>efe_spec\<close> is a pointer whose two low bits are flags; here it is an optional specification and two flags.
  \<open>EFSYS_LOCK\<close> is released while a request to the controller runs; each operation is one step here, so a busy entry is never
  seen, except after \<open>ef10_filter_restore\<close> failed. Waiting for a busy entry does not end then, and the result is \<open>None\<close>.
\<close>

section \<open>The table\<close>

record ef10_filter_handle =
  efh_lo :: u32
  efh_hi :: u32

record ef10_filter_entry =
  efe_spec :: "efx_filter_spec option"
  efe_busy :: bool
  efe_auto_old :: bool
  efe_handle :: ef10_filter_handle

definition EFX_EF10_FILTER_TBL_ROWS :: nat where "EFX_EF10_FILTER_TBL_ROWS = 8192"
definition EFX_EF10_FILTER_UNICAST_FILTERS_MAX :: nat where "EFX_EF10_FILTER_UNICAST_FILTERS_MAX = 2"
definition EFX_MAC_MULTICAST_LIST_MAX :: nat where "EFX_MAC_MULTICAST_LIST_MAX = 256"
definition EFX_EF10_FILTER_MULTICAST_FILTERS_MAX :: nat where
  "EFX_EF10_FILTER_MULTICAST_FILTERS_MAX = EFX_MAC_MULTICAST_LIST_MAX + 1"
definition EF10_FILTER_SEARCH_LIMIT :: nat where "EF10_FILTER_SEARCH_LIMIT = 200"

text \<open>\<open>eft_default_rxq\<close> is the index of the receive queue, or NULL.\<close>

record ef10_filter_table =
  eft_entry :: "ef10_filter_entry list"
  eft_default_rxq :: "u32 option"
  eft_using_rss :: bool
  eft_unicst_filter_indexes :: "nat list"
  eft_unicst_filter_count :: nat
  eft_mulcst_filter_indexes :: "nat list"
  eft_mulcst_filter_count :: nat
  eft_using_all_mulcst :: bool

definition zero_handle :: ef10_filter_handle where "zero_handle = \<lparr>efh_lo = 0, efh_hi = 0\<rparr>"

definition empty_entry :: ef10_filter_entry where
  "empty_entry = \<lparr>efe_spec = None, efe_busy = False, efe_auto_old = False, efe_handle = zero_handle\<rparr>"

definition zero_table :: ef10_filter_table where
  "zero_table = \<lparr>eft_entry = replicate EFX_EF10_FILTER_TBL_ROWS empty_entry, eft_default_rxq = None, eft_using_rss = False,
     eft_unicst_filter_indexes = replicate EFX_EF10_FILTER_UNICAST_FILTERS_MAX 0, eft_unicst_filter_count = 0,
     eft_mulcst_filter_indexes = replicate EFX_EF10_FILTER_MULTICAST_FILTERS_MAX 0, eft_mulcst_filter_count = 0,
     eft_using_all_mulcst = False\<rparr>"

text \<open>The family's part of the NIC: the table (NULL before \<open>ef10_filter_init\<close>), one item of its configuration, and the controller.\<close>

record 'm ef10_filters =
  ef_ef10_filter_table :: "ef10_filter_table option"
  enc_bug26807_workaround :: bool
  ef_mc :: 'm

type_synonym 'm ef10_nic = "'m ef10_filters filter_dev"

definition ef10_get_table :: "'m ef10_nic \<Rightarrow> ef10_filter_table option" where
  "ef10_get_table enp = ef_ef10_filter_table (fd_hw enp)"

definition ef10_put_table :: "ef10_filter_table \<Rightarrow> 'm ef10_nic \<Rightarrow> 'm ef10_nic" where
  "ef10_put_table t enp = enp\<lparr>fd_hw := (fd_hw enp)\<lparr>ef_ef10_filter_table := Some t\<rparr>\<rparr>"

definition ef10_put_mc :: "'m \<Rightarrow> 'm ef10_nic \<Rightarrow> 'm ef10_nic" where
  "ef10_put_mc m enp = enp\<lparr>fd_hw := (fd_hw enp)\<lparr>ef_mc := m\<rparr>\<rparr>"

text \<open>The entry accessors; each takes an index into \<open>eft_entry\<close>.\<close>

definition ef10_filter_entry_spec :: "ef10_filter_table \<Rightarrow> nat \<Rightarrow> efx_filter_spec option option" where
  "ef10_filter_entry_spec eftp index = do { e \<leftarrow> rd (eft_entry eftp) index; Some (efe_spec e) }"

definition ef10_filter_entry_is_busy :: "ef10_filter_table \<Rightarrow> nat \<Rightarrow> bool option" where
  "ef10_filter_entry_is_busy eftp index = do { e \<leftarrow> rd (eft_entry eftp) index; Some (efe_busy e) }"

definition ef10_filter_entry_is_auto_old :: "ef10_filter_table \<Rightarrow> nat \<Rightarrow> bool option" where
  "ef10_filter_entry_is_auto_old eftp index = do { e \<leftarrow> rd (eft_entry eftp) index; Some (efe_auto_old e) }"

definition ef10_entry_update :: "(ef10_filter_entry \<Rightarrow> ef10_filter_entry) \<Rightarrow> ef10_filter_table \<Rightarrow> nat \<Rightarrow> ef10_filter_table option" where
  "ef10_entry_update f eftp index = do {
     e \<leftarrow> rd (eft_entry eftp) index;
     Some (eftp\<lparr>eft_entry := (eft_entry eftp)[index := f e]\<rparr>) }"

text \<open>Storing the pointer clears the flags in its low bits.\<close>

definition ef10_filter_set_entry :: "ef10_filter_table \<Rightarrow> nat \<Rightarrow> efx_filter_spec option \<Rightarrow> ef10_filter_table option" where
  "ef10_filter_set_entry eftp index efsp =
     ef10_entry_update (\<lambda>e. e\<lparr>efe_spec := efsp, efe_busy := False, efe_auto_old := False\<rparr>) eftp index"

definition ef10_filter_set_entry_busy :: "ef10_filter_table \<Rightarrow> nat \<Rightarrow> ef10_filter_table option" where
  "ef10_filter_set_entry_busy eftp index = ef10_entry_update (\<lambda>e. e\<lparr>efe_busy := True\<rparr>) eftp index"

definition ef10_filter_set_entry_not_busy :: "ef10_filter_table \<Rightarrow> nat \<Rightarrow> ef10_filter_table option" where
  "ef10_filter_set_entry_not_busy eftp index = ef10_entry_update (\<lambda>e. e\<lparr>efe_busy := False\<rparr>) eftp index"

definition ef10_filter_set_entry_auto_old :: "ef10_filter_table \<Rightarrow> nat \<Rightarrow> ef10_filter_table option" where
  "ef10_filter_set_entry_auto_old eftp index = do {
     spec \<leftarrow> ef10_filter_entry_spec eftp index;
     efsys_assert (spec \<noteq> None);
     ef10_entry_update (\<lambda>e. e\<lparr>efe_auto_old := True\<rparr>) eftp index }"

definition ef10_filter_set_entry_not_auto_old :: "ef10_filter_table \<Rightarrow> nat \<Rightarrow> ef10_filter_table option" where
  "ef10_filter_set_entry_not_auto_old eftp index = do {
     eftp \<leftarrow> ef10_entry_update (\<lambda>e. e\<lparr>efe_auto_old := False\<rparr>) eftp index;
     spec \<leftarrow> ef10_filter_entry_spec eftp index;
     efsys_assert (spec \<noteq> None);
     Some eftp }"

definition ef10_set_handle :: "ef10_filter_handle \<Rightarrow> ef10_filter_table \<Rightarrow> nat \<Rightarrow> ef10_filter_table option" where
  "ef10_set_handle handle eftp index = ef10_entry_update (\<lambda>e. e\<lparr>efe_handle := handle\<rparr>) eftp index"

text \<open>The assertion that opens most functions.\<close>

definition ef10_filter_family :: "'m ef10_nic \<Rightarrow> bool" where
  "ef10_filter_family enp = (fd_family enp = EFX_FAMILY_HUNTINGTON \<or> fd_family enp = EFX_FAMILY_MEDFORD)"

definition ef10_filter_init :: "'m mc_env \<Rightarrow> 'm ef10_nic \<Rightarrow> (efx_rc \<times> 'm ef10_nic) option" where
  "ef10_filter_init env enp = do {
     efsys_assert (ef10_filter_family enp);
     let (ok, m) = env_alloc env (ef_mc (fd_hw enp));
     let enp = ef10_put_mc m enp;
     if \<not> ok then Some (ENOMEM, enp) else Some (RC_OK, ef10_put_table zero_table enp) }"

text \<open>The table is freed; the pointer keeps its value, which nothing follows until the next \<open>ef10_filter_init\<close>.\<close>

definition ef10_filter_fini :: "'m ef10_nic \<Rightarrow> 'm ef10_nic option" where
  "ef10_filter_fini enp = do { efsys_assert (ef10_filter_family enp); Some enp }"

section \<open>Requests\<close>

definition MC_CMD_FILTER_OP :: u32 where "MC_CMD_FILTER_OP = 0x8a"
definition MC_CMD_FILTER_OP_IN_LEN :: nat where "MC_CMD_FILTER_OP_IN_LEN = 108"
definition MC_CMD_FILTER_OP_OUT_LEN :: nat where "MC_CMD_FILTER_OP_OUT_LEN = 12"
definition MC_CMD_FILTER_OP_IN_OP_INSERT :: u32 where "MC_CMD_FILTER_OP_IN_OP_INSERT = 0x0"
definition MC_CMD_FILTER_OP_IN_OP_REMOVE :: u32 where "MC_CMD_FILTER_OP_IN_OP_REMOVE = 0x1"
definition MC_CMD_FILTER_OP_IN_OP_SUBSCRIBE :: u32 where "MC_CMD_FILTER_OP_IN_OP_SUBSCRIBE = 0x2"
definition MC_CMD_FILTER_OP_IN_OP_UNSUBSCRIBE :: u32 where "MC_CMD_FILTER_OP_IN_OP_UNSUBSCRIBE = 0x3"
definition MC_CMD_FILTER_OP_IN_OP_REPLACE :: u32 where "MC_CMD_FILTER_OP_IN_OP_REPLACE = 0x4"
definition EVB_PORT_ID_ASSIGNED :: u32 where "EVB_PORT_ID_ASSIGNED = 0x1000000"

definition ef10_mcdi_execute :: "'m mc_env \<Rightarrow> efx_mcdi_req \<Rightarrow> 'm ef10_nic \<Rightarrow> (efx_mcdi_req \<times> 'm ef10_nic) option" where
  "ef10_mcdi_execute env req enp = do {
     (req, m) \<leftarrow> efx_mcdi_execute env (fd_mod_flags enp) (fd_features enp) req (ef_mc (fd_hw enp));
     Some (req, ef10_put_mc m enp) }"

text \<open>\<open>EFX_MAC_ADDR_IS_MULTICAST\<close>.\<close>

definition efx_mac_is_multicast :: "u8 list \<Rightarrow> bool option" where
  "efx_mac_is_multicast mac = do { b \<leftarrow> rd mac 0; Some (bit b 0) }"

text \<open>The match fields of the request: one flag of the specification stands for two of the controller.\<close>

definition filter_match_fields :: "efx_filter_spec \<Rightarrow> u32 option" where
  "filter_match_fields spec = do {
     ig \<leftarrow> (if efs_match_flags spec AND EFX_FILTER_MATCH_LOC_MAC_IG \<noteq> 0
       then do {
         mc \<leftarrow> efx_mac_is_multicast (efs_loc_mac spec);
         Some (if mc then push_bit 30 1 else push_bit 31 1) }
       else Some 0);
     Some (ig OR (ucast (efs_match_flags spec) AND NOT (ucast EFX_FILTER_MATCH_LOC_MAC_IG))) }"

text \<open>The fields that only a new filter has: the addresses and ports that packets are matched against, in network byte order.\<close>

definition filter_op_in_tuple :: "efx_filter_spec \<Rightarrow> u8 list \<Rightarrow> u8 list option" where
  "filter_op_in_tuple spec payload = do {
     src_mac \<leftarrow> rd_range (efs_rem_mac spec) 0 6;
     payload \<leftarrow> wr_range payload 44 src_mac;
     dst_mac \<leftarrow> rd_range (efs_loc_mac spec) 0 6;
     payload \<leftarrow> wr_range payload 52 dst_mac;
     payload \<leftarrow> mcdi_in_set_word 50 (cpu_to_be_16 (efs_rem_port spec)) payload;
     payload \<leftarrow> mcdi_in_set_word 58 (cpu_to_be_16 (efs_loc_port spec)) payload;
     payload \<leftarrow> mcdi_in_set_word 60 (cpu_to_be_16 (efs_ether_type spec)) payload;
     payload \<leftarrow> mcdi_in_set_word 62 (cpu_to_be_16 (efs_inner_vid spec)) payload;
     payload \<leftarrow> mcdi_in_set_word 64 (cpu_to_be_16 (efs_outer_vid spec)) payload;
     payload \<leftarrow> mcdi_in_set_byte 66 (efs_ip_proto spec) payload;
     src_ip \<leftarrow> rd_range (bytes_of_words (efs_rem_host spec)) 0 16;
     payload \<leftarrow> wr_range payload 76 src_ip;
     dst_ip \<leftarrow> rd_range (bytes_of_words (efs_loc_host spec)) 0 16;
     wr_range payload 92 dst_ip }"

text \<open>The payload of \<open>efx_mcdi_filter_op_add\<close>.\<close>

definition filter_op_in_add :: "efx_filter_spec \<Rightarrow> u32 \<Rightarrow> ef10_filter_handle \<Rightarrow> u8 list option" where
  "filter_op_in_add spec filter_op handle = do {
     let payload = replicate MC_CMD_FILTER_OP_IN_LEN 0;
     payload \<leftarrow> (if filter_op = MC_CMD_FILTER_OP_IN_OP_REPLACE
       then do { payload \<leftarrow> mcdi_in_set_dword 4 (efh_lo handle) payload; mcdi_in_set_dword 8 (efh_hi handle) payload }
       else Some payload);
     payload \<leftarrow> mcdi_in_set_dword 0 filter_op payload;
     match_fields \<leftarrow> filter_match_fields spec;
     let rss = (efs_flags spec AND EFX_FILTER_FLAG_RX_RSS \<noteq> 0);
     payload \<leftarrow> mcdi_in_set_dword 12 EVB_PORT_ID_ASSIGNED payload;
     payload \<leftarrow> mcdi_in_set_dword 16 match_fields payload;
     payload \<leftarrow> mcdi_in_set_dword 20 1 payload;
     payload \<leftarrow> mcdi_in_set_dword 24 (ucast (efs_dmaq_id spec)) payload;
     payload \<leftarrow> (if rss then mcdi_in_set_dword 32 (efs_rss_context spec) payload else Some payload);
     payload \<leftarrow> mcdi_in_set_dword 28 (if rss then 1 else 0) payload;
     payload \<leftarrow> mcdi_in_set_dword 40 0xffffffff payload;
     (if filter_op \<noteq> MC_CMD_FILTER_OP_IN_OP_REPLACE then filter_op_in_tuple spec payload else Some payload) }"

text \<open>The result is the return code, the handle and the state.\<close>

definition efx_mcdi_filter_op_add ::
    "'m mc_env \<Rightarrow> 'm ef10_nic \<Rightarrow> efx_filter_spec \<Rightarrow> u32 \<Rightarrow> ef10_filter_handle \<Rightarrow> (efx_rc \<times> ef10_filter_handle \<times> 'm ef10_nic) option" where
  "efx_mcdi_filter_op_add env enp spec filter_op handle = do {
     efsys_assert (filter_op \<in> {MC_CMD_FILTER_OP_IN_OP_REPLACE, MC_CMD_FILTER_OP_IN_OP_INSERT, MC_CMD_FILTER_OP_IN_OP_SUBSCRIBE});
     payload \<leftarrow> filter_op_in_add spec filter_op handle;
     (req, enp) \<leftarrow> ef10_mcdi_execute env
       (mcdi_req MC_CMD_FILTER_OP payload MC_CMD_FILTER_OP_IN_LEN payload MC_CMD_FILTER_OP_OUT_LEN) enp;
     if emr_rc req \<noteq> RC_OK then Some (emr_rc req, handle, enp)
     else if emr_out_length_used req < MC_CMD_FILTER_OP_OUT_LEN then Some (EMSGSIZE, handle, enp)
     else do {
       lo \<leftarrow> mcdi_out_dword req 4;
       hi \<leftarrow> mcdi_out_dword req 8;
       Some (RC_OK, \<lparr>efh_lo = lo, efh_hi = hi\<rparr>, enp) } }"

definition filter_op_in_delete :: "u32 \<Rightarrow> ef10_filter_handle \<Rightarrow> u8 list option" where
  "filter_op_in_delete filter_op handle = do {
     payload \<leftarrow> mcdi_in_set_dword 0 filter_op (replicate MC_CMD_FILTER_OP_IN_LEN 0);
     payload \<leftarrow> mcdi_in_set_dword 4 (efh_lo handle) payload;
     mcdi_in_set_dword 8 (efh_hi handle) payload }"

definition efx_mcdi_filter_op_delete ::
    "'m mc_env \<Rightarrow> 'm ef10_nic \<Rightarrow> u32 \<Rightarrow> ef10_filter_handle \<Rightarrow> (efx_rc \<times> 'm ef10_nic) option" where
  "efx_mcdi_filter_op_delete env enp filter_op handle = do {
     efsys_assert (filter_op \<in> {MC_CMD_FILTER_OP_IN_OP_REMOVE, MC_CMD_FILTER_OP_IN_OP_UNSUBSCRIBE});
     payload \<leftarrow> filter_op_in_delete filter_op handle;
     (req, enp) \<leftarrow> ef10_mcdi_execute env
       (mcdi_req MC_CMD_FILTER_OP payload MC_CMD_FILTER_OP_IN_LEN payload MC_CMD_FILTER_OP_OUT_LEN) enp;
     if emr_rc req \<noteq> RC_OK then Some (emr_rc req, enp)
     else if emr_out_length_used req < MC_CMD_FILTER_OP_OUT_LEN then Some (EMSGSIZE, enp)
     else Some (RC_OK, enp) }"

section \<open>Comparing, hashing\<close>

definition ef10_filter_equal :: "efx_filter_spec \<Rightarrow> efx_filter_spec \<Rightarrow> bool" where
  "ef10_filter_equal left right =
     (efs_match_flags left = efs_match_flags right \<and> efs_rem_host left = efs_rem_host right \<and> efs_loc_host left = efs_loc_host right
      \<and> efs_rem_mac left = efs_rem_mac right \<and> efs_loc_mac left = efs_loc_mac right \<and> efs_rem_port left = efs_rem_port right
      \<and> efs_loc_port left = efs_loc_port right \<and> efs_inner_vid left = efs_inner_vid right \<and> efs_outer_vid left = efs_outer_vid right
      \<and> efs_ether_type left = efs_ether_type right \<and> efs_ip_proto left = efs_ip_proto right)"

definition ef10_filter_same_dest :: "efx_filter_spec \<Rightarrow> efx_filter_spec \<Rightarrow> bool" where
  "ef10_filter_same_dest left right =
     (if efs_flags left AND EFX_FILTER_FLAG_RX_RSS \<noteq> 0 \<and> efs_flags right AND EFX_FILTER_FLAG_RX_RSS \<noteq> 0
      then efs_rss_context left = efs_rss_context right
      else if NOT (efs_flags left) AND EFX_FILTER_FLAG_RX_RSS \<noteq> 0 \<and> NOT (efs_flags right) AND EFX_FILTER_FLAG_RX_RSS \<noteq> 0
      then efs_dmaq_id left = efs_dmaq_id right
      else False)"

text \<open>
  The bytes of a specification from \<open>efs_outer_vid\<close> to its end, as the compiler lays them out: one byte of padding behind
  \<open>efs_ip_proto\<close>, which \<open>memset\<close> clears when the specification is made.
\<close>

definition le_bytes16 :: "u16 \<Rightarrow> u8 list" where
  "le_bytes16 w = [ucast w, ucast (drop_bit 8 w)]"

definition filter_spec_tail :: "efx_filter_spec \<Rightarrow> u8 list" where
  "filter_spec_tail spec = le_bytes16 (efs_outer_vid spec) @ le_bytes16 (efs_inner_vid spec) @ efs_loc_mac spec @ efs_rem_mac spec
     @ le_bytes16 (efs_ether_type spec) @ [efs_ip_proto spec, 0] @ le_bytes16 (efs_loc_port spec) @ le_bytes16 (efs_rem_port spec)
     @ bytes_of_words (efs_rem_host spec) @ bytes_of_words (efs_loc_host spec)"

definition ef10_filter_hash :: "efx_filter_spec \<Rightarrow> u32 option" where
  "ef10_filter_hash spec = efx_hash_dwords (words_of_bytes (filter_spec_tail spec)) 14 0"

definition EFX_ETHER_TYPE_IPV6 :: u16 where "EFX_ETHER_TYPE_IPV6 = 0x86dd"

text \<open>The first byte of the local host address.\<close>

definition filter_loc_host0 :: "efx_filter_spec \<Rightarrow> u8 option" where
  "filter_loc_host0 spec = do { w \<leftarrow> rd (efs_loc_host spec) 0; Some (ucast w) }"

definition ef10_filter_is_exclusive :: "efx_filter_spec \<Rightarrow> bool option" where
  "ef10_filter_is_exclusive spec = do {
     mc \<leftarrow> efx_mac_is_multicast (efs_loc_mac spec);
     b \<leftarrow> filter_loc_host0 spec;
     Some (efs_match_flags spec AND EFX_FILTER_MATCH_LOC_MAC \<noteq> 0 \<and> \<not> mc
       \<or> efs_match_flags spec AND (EFX_FILTER_MATCH_ETHER_TYPE OR EFX_FILTER_MATCH_LOC_HOST)
           = EFX_FILTER_MATCH_ETHER_TYPE OR EFX_FILTER_MATCH_LOC_HOST
         \<and> (efs_ether_type spec = EFX_ETHER_TYPE_IPV4 \<and> b AND 0xf \<noteq> 0xe
            \<or> efs_ether_type spec = EFX_ETHER_TYPE_IPV6 \<and> b \<noteq> 0xff)) }"

definition EFX_FILTER_PRI_AUTO :: "2 word" where "EFX_FILTER_PRI_AUTO = 1"

section \<open>Insertion and removal\<close>

text \<open>The slots that a search visits, in order: depth 1 up to the limit.\<close>

definition ef10_filter_slots :: "u32 \<Rightarrow> nat list" where
  "ef10_filter_slots hash = map (\<lambda>depth. unat ((hash + of_nat depth) AND (of_nat EFX_EF10_FILTER_TBL_ROWS - 1))) [1..<EF10_FILTER_SEARCH_LIMIT + 1]"

datatype ef10_search = Search_busy | Search_failed efx_rc | Search_found nat

text \<open>One pass over the slots; \<open>ins_index\<close> is the first free one so far.\<close>

fun ef10_filter_search :: "ef10_filter_table \<Rightarrow> efx_filter_spec \<Rightarrow> bool \<Rightarrow> nat list \<Rightarrow> nat option \<Rightarrow> ef10_search option" where
  "ef10_filter_search eftp spec may_replace [] ins_index =
     Some (case ins_index of None \<Rightarrow> Search_failed EBUSY | Some i \<Rightarrow> Search_found i)"
| "ef10_filter_search eftp spec may_replace (i # slots) ins_index = do {
     entry \<leftarrow> ef10_filter_entry_spec eftp i;
     case entry of
       None \<Rightarrow> ef10_filter_search eftp spec may_replace slots (if ins_index = None then Some i else ins_index)
     | Some saved_spec \<Rightarrow>
         if ef10_filter_equal spec saved_spec then do {
           busy \<leftarrow> ef10_filter_entry_is_busy eftp i;
           if busy then Some Search_busy
           else if efs_priority saved_spec = EFX_FILTER_PRI_AUTO then Some (Search_found i)
           else do {
             exclusive \<leftarrow> ef10_filter_is_exclusive spec;
             if exclusive then Some (if may_replace then Search_found i else Search_failed EEXIST)
             else ef10_filter_search eftp spec may_replace slots ins_index } }
         else ef10_filter_search eftp spec may_replace slots ins_index }"

text \<open>The search is repeated as long as it meets a busy entry with the same match.\<close>

partial_function (option) ef10_filter_search_wait ::
    "ef10_filter_table \<Rightarrow> efx_filter_spec \<Rightarrow> bool \<Rightarrow> nat list \<Rightarrow> (efx_rc + nat) option" where
  "ef10_filter_search_wait eftp spec may_replace slots =
     ef10_filter_search eftp spec may_replace slots None \<bind> (\<lambda>r.
       case r of
         Search_busy \<Rightarrow> ef10_filter_search_wait eftp spec may_replace slots
       | Search_failed rc \<Rightarrow> Some (Inl rc)
       | Search_found i \<Rightarrow> Some (Inr i))"

text \<open>Inserting or replacing at a slot, after the software entry was prepared; \<open>saved_spec\<close> is the entry's specification.\<close>

definition ef10_filter_program ::
    "'m mc_env \<Rightarrow> 'm ef10_nic \<Rightarrow> efx_filter_spec \<Rightarrow> nat \<Rightarrow> efx_filter_spec \<Rightarrow> bool \<Rightarrow> ((efx_rc + nat) \<times> 'm ef10_nic) option" where
  "ef10_filter_program env enp spec ins_index saved_spec replacing = do {
     eftp \<leftarrow> ef10_get_table enp;
     eftp \<leftarrow> ef10_filter_set_entry_busy eftp ins_index;
     e \<leftarrow> rd (eft_entry eftp) ins_index;
     exclusive \<leftarrow> ef10_filter_is_exclusive spec;
     (rc, handle, enp) \<leftarrow> efx_mcdi_filter_op_add env (ef10_put_table eftp enp) spec
       (if replacing then MC_CMD_FILTER_OP_IN_OP_REPLACE
        else if exclusive then MC_CMD_FILTER_OP_IN_OP_INSERT else MC_CMD_FILTER_OP_IN_OP_SUBSCRIBE) (efe_handle e);
     eftp \<leftarrow> ef10_set_handle handle eftp ins_index;
     if rc \<noteq> RC_OK then do {
       eftp \<leftarrow> ef10_filter_set_entry_not_busy eftp ins_index;
       eftp \<leftarrow> ef10_filter_set_entry eftp ins_index None;
       Some (Inl rc, ef10_put_table eftp enp) }
     else do {
       eftp \<leftarrow> (if replacing
         then ef10_entry_update (\<lambda>e. e\<lparr>efe_spec := Some (saved_spec\<lparr>efs_priority := efs_priority spec, efs_flags := efs_flags spec,
                efs_rss_context := efs_rss_context spec, efs_dmaq_id := efs_dmaq_id spec\<rparr>)\<rparr>) eftp ins_index
         else Some eftp);
       eftp \<leftarrow> ef10_filter_set_entry_not_busy eftp ins_index;
       Some (Inr ins_index, ef10_put_table eftp enp) } }"

text \<open>The result is the error code, or the index that \<open>filter_id\<close> receives.\<close>

definition ef10_filter_add_internal ::
    "'m mc_env \<Rightarrow> 'm ef10_nic \<Rightarrow> efx_filter_spec \<Rightarrow> bool \<Rightarrow> ((efx_rc + nat) \<times> 'm ef10_nic) option" where
  "ef10_filter_add_internal env enp spec may_replace = do {
     efsys_assert (ef10_filter_family enp);
     let spec = spec\<lparr>efs_rss_context := fd_rss_context enp\<rparr>;
     eftp \<leftarrow> ef10_get_table enp;
     hash \<leftarrow> ef10_filter_hash spec;
     found \<leftarrow> ef10_filter_search_wait eftp spec may_replace (ef10_filter_slots hash);
     case found of
       Inl rc \<Rightarrow> Some (Inl rc, enp)
     | Inr ins_index \<Rightarrow> do {
         entry \<leftarrow> ef10_filter_entry_spec eftp ins_index;
         case entry of
           Some saved_spec \<Rightarrow>
             if efs_priority saved_spec = EFX_FILTER_PRI_AUTO then do {
               eftp \<leftarrow> ef10_filter_set_entry_not_auto_old eftp ins_index;
               Some (Inr ins_index, ef10_put_table eftp enp) }
             else ef10_filter_program env enp spec ins_index saved_spec True
         | None \<Rightarrow> do {
             let (ok, m) = env_alloc env (ef_mc (fd_hw enp));
             let enp = ef10_put_mc m enp;
             if \<not> ok then Some (Inl ENOMEM, enp)
             else do {
               eftp \<leftarrow> ef10_filter_set_entry eftp ins_index (Some spec);
               ef10_filter_program env (ef10_put_table eftp enp) spec ins_index spec False } } } }"

definition ef10_filter_add :: "'m mc_env \<Rightarrow> 'm ef10_nic \<Rightarrow> efx_filter_spec \<Rightarrow> bool \<Rightarrow> (efx_rc \<times> 'm ef10_nic) option" where
  "ef10_filter_add env enp spec may_replace = do {
     (r, enp) \<leftarrow> ef10_filter_add_internal env enp spec may_replace;
     Some (case r of Inl rc \<Rightarrow> rc | Inr _ \<Rightarrow> RC_OK, enp) }"

text \<open>Waiting until an entry is not busy.\<close>

partial_function (option) ef10_filter_wait :: "ef10_filter_table \<Rightarrow> nat \<Rightarrow> unit option" where
  "ef10_filter_wait table filter_idx =
     ef10_filter_entry_is_busy table filter_idx \<bind> (\<lambda>busy. if busy then ef10_filter_wait table filter_idx else Some ())"

definition ef10_filter_delete_internal :: "'m mc_env \<Rightarrow> 'm ef10_nic \<Rightarrow> nat \<Rightarrow> (efx_rc \<times> 'm ef10_nic) option" where
  "ef10_filter_delete_internal env enp filter_id = do {
     table \<leftarrow> ef10_get_table enp;
     let filter_idx = filter_id mod EFX_EF10_FILTER_TBL_ROWS;
     ef10_filter_wait table filter_idx;
     entry \<leftarrow> ef10_filter_entry_spec table filter_idx;
     case entry of
       None \<Rightarrow> Some (ENOENT, enp)
     | Some spec \<Rightarrow> do {
         table \<leftarrow> ef10_filter_set_entry_busy table filter_idx;
         exclusive \<leftarrow> ef10_filter_is_exclusive spec;
         e \<leftarrow> rd (eft_entry table) filter_idx;
         (rc, enp) \<leftarrow> efx_mcdi_filter_op_delete env (ef10_put_table table enp)
           (if exclusive then MC_CMD_FILTER_OP_IN_OP_REMOVE else MC_CMD_FILTER_OP_IN_OP_UNSUBSCRIBE) (efe_handle e);
         table \<leftarrow> ef10_filter_set_entry_not_busy table filter_idx;
         table \<leftarrow> ef10_filter_set_entry table filter_idx None;
         Some (rc, ef10_put_table table enp) } }"

text \<open>The first entry with the same match and destination.\<close>

fun ef10_filter_lookup :: "ef10_filter_table \<Rightarrow> efx_filter_spec \<Rightarrow> nat list \<Rightarrow> nat option option" where
  "ef10_filter_lookup table spec [] = Some None"
| "ef10_filter_lookup table spec (i # slots) = do {
     entry \<leftarrow> ef10_filter_entry_spec table i;
     case entry of
       None \<Rightarrow> ef10_filter_lookup table spec slots
     | Some saved_spec \<Rightarrow>
         if ef10_filter_equal spec saved_spec \<and> ef10_filter_same_dest spec saved_spec then Some (Some i)
         else ef10_filter_lookup table spec slots }"

definition ef10_filter_delete :: "'m mc_env \<Rightarrow> 'm ef10_nic \<Rightarrow> efx_filter_spec \<Rightarrow> (efx_rc \<times> 'm ef10_nic) option" where
  "ef10_filter_delete env enp spec = do {
     efsys_assert (ef10_filter_family enp);
     table \<leftarrow> ef10_get_table enp;
     hash \<leftarrow> ef10_filter_hash spec;
     found \<leftarrow> ef10_filter_lookup table spec (ef10_filter_slots hash);
     case found of
       None \<Rightarrow> Some (ENOENT, enp)
     | Some i \<Rightarrow> ef10_filter_delete_internal env enp i }"

text \<open>Restoring the hardware filters after a reset. An error leaves the entry busy.\<close>

fun ef10_filter_restore_loop :: "'m mc_env \<Rightarrow> 'm ef10_nic \<Rightarrow> nat list \<Rightarrow> (efx_rc \<times> 'm ef10_nic) option" where
  "ef10_filter_restore_loop env enp [] = Some (RC_OK, enp)"
| "ef10_filter_restore_loop env enp (tbl_id # ids) = do {
     eftp \<leftarrow> ef10_get_table enp;
     entry \<leftarrow> ef10_filter_entry_spec eftp tbl_id;
     busy \<leftarrow> ef10_filter_entry_is_busy eftp tbl_id;
     case entry of
       None \<Rightarrow> ef10_filter_restore_loop env enp ids
     | Some spec \<Rightarrow>
         if busy then ef10_filter_restore_loop env enp ids
         else do {
           eftp \<leftarrow> ef10_filter_set_entry_busy eftp tbl_id;
           exclusive \<leftarrow> ef10_filter_is_exclusive spec;
           e \<leftarrow> rd (eft_entry eftp) tbl_id;
           (rc, handle, enp) \<leftarrow> efx_mcdi_filter_op_add env (ef10_put_table eftp enp) spec
             (if exclusive then MC_CMD_FILTER_OP_IN_OP_INSERT else MC_CMD_FILTER_OP_IN_OP_SUBSCRIBE) (efe_handle e);
           eftp \<leftarrow> ef10_set_handle handle eftp tbl_id;
           if rc \<noteq> RC_OK then Some (rc, ef10_put_table eftp enp)
           else do {
             eftp \<leftarrow> ef10_filter_set_entry_not_busy eftp tbl_id;
             ef10_filter_restore_loop env (ef10_put_table eftp enp) ids } } }"

definition ef10_filter_restore :: "'m mc_env \<Rightarrow> 'm ef10_nic \<Rightarrow> (efx_rc \<times> 'm ef10_nic) option" where
  "ef10_filter_restore env enp = do {
     efsys_assert (ef10_filter_family enp);
     ef10_filter_restore_loop env enp [0..<EFX_EF10_FILTER_TBL_ROWS] }"

section \<open>Supported filters\<close>

definition MC_CMD_GET_PARSER_DISP_INFO :: u32 where "MC_CMD_GET_PARSER_DISP_INFO = 0xe4"
definition MC_CMD_GET_PARSER_DISP_INFO_OUT_LENMAX :: nat where "MC_CMD_GET_PARSER_DISP_INFO_OUT_LENMAX = 252"
definition MC_CMD_FILTER_OP_IN_MATCH_UNKNOWN_MCAST_DST_LBN :: u32 where "MC_CMD_FILTER_OP_IN_MATCH_UNKNOWN_MCAST_DST_LBN = 30"
definition MC_CMD_FILTER_OP_IN_MATCH_UNKNOWN_UCAST_DST_LBN :: u32 where "MC_CMD_FILTER_OP_IN_MATCH_UNKNOWN_UCAST_DST_LBN = 31"

text \<open>The flags for unknown addresses, as the loop over the list rewrites them.\<close>

fun disp_info_flags :: "bool \<Rightarrow> bool \<Rightarrow> u32 list \<Rightarrow> u32 list" where
  "disp_info_flags support_ucast support_mcast [] = []"
| "disp_info_flags support_ucast support_mcast (w # ws) =
     (let (w, support_ucast) = (if w AND MC_CMD_FILTER_OP_IN_MATCH_UNKNOWN_UCAST_DST_LBN \<noteq> 0
            then (w AND NOT MC_CMD_FILTER_OP_IN_MATCH_UNKNOWN_UCAST_DST_LBN, True) else (w, support_ucast));
          (w, support_mcast) = (if w AND MC_CMD_FILTER_OP_IN_MATCH_UNKNOWN_MCAST_DST_LBN \<noteq> 0
            then (w AND NOT MC_CMD_FILTER_OP_IN_MATCH_UNKNOWN_MCAST_DST_LBN, True) else (w, support_mcast))
      in if support_ucast \<and> support_mcast then (w AND ucast EFX_FILTER_MATCH_LOC_MAC_IG) # ws
         else w # disp_info_flags support_ucast support_mcast ws)"

text \<open>The caller's array is given as its bytes; the result is its new contents and the length.\<close>

definition efx_mcdi_get_parser_disp_info ::
    "'m mc_env \<Rightarrow> 'm ef10_nic \<Rightarrow> u8 list option \<Rightarrow> ((efx_rc + u8 list \<times> nat) \<times> 'm ef10_nic) option" where
  "efx_mcdi_get_parser_disp_info env enp list = do {
     payload \<leftarrow> mcdi_in_set_dword 0 1 (replicate MC_CMD_GET_PARSER_DISP_INFO_OUT_LENMAX 0);
     (req, enp) \<leftarrow> ef10_mcdi_execute env
       (mcdi_req MC_CMD_GET_PARSER_DISP_INFO payload 4 payload MC_CMD_GET_PARSER_DISP_INFO_OUT_LENMAX) enp;
     if emr_rc req \<noteq> RC_OK then Some (Inl (emr_rc req), enp)
     else do {
       n \<leftarrow> mcdi_out_dword req 4;
       if emr_out_length_used req < 8 + 4 * unat n then Some (Inl EMSGSIZE, enp)
       else do {
         buf \<leftarrow> emr_out_buf req;
         bytes \<leftarrow> rd_range buf 8 (unat n * 4);
         array \<leftarrow> list;
         array \<leftarrow> wr_range array 0 (bytes_of_words (disp_info_flags False False (words_of_bytes bytes)));
         Some (Inr (array, unat n), enp) } } }"

text \<open>The return code is the truth value of the comparison, not the error.\<close>

definition ef10_filter_supported_filters ::
    "'m mc_env \<Rightarrow> 'm ef10_nic \<Rightarrow> u8 list option \<Rightarrow> ((efx_rc + u8 list \<times> nat) \<times> 'm ef10_nic) option" where
  "ef10_filter_supported_filters env enp list = do {
     (r, enp) \<leftarrow> efx_mcdi_get_parser_disp_info env enp list;
     Some (case r of Inl _ \<Rightarrow> Inl (rc_of_u32 1) | Inr out \<Rightarrow> Inr out, enp) }"

section \<open>The filters of the station\<close>

text \<open>Adding a filter for the default receive queue; \<open>set_match\<close> is the last step that fills the specification.\<close>

definition ef10_filter_insert_auto ::
    "'m mc_env \<Rightarrow> 'm ef10_nic \<Rightarrow> 6 word \<Rightarrow> (efx_filter_spec \<Rightarrow> (efx_rc \<times> efx_filter_spec) option) \<Rightarrow> ((efx_rc + nat) \<times> 'm ef10_nic) option" where
  "ef10_filter_insert_auto env enp filter_flags set_match = do {
     eftp \<leftarrow> ef10_get_table enp;
     erp \<leftarrow> eft_default_rxq eftp;
     spec \<leftarrow> efx_filter_spec_init_rx EFX_FILTER_PRI_AUTO filter_flags erp;
     (_, spec) \<leftarrow> set_match spec;
     ef10_filter_add_internal env enp spec True }"

definition ef10_set_unicst :: "ef10_filter_table \<Rightarrow> nat \<Rightarrow> ef10_filter_table option" where
  "ef10_set_unicst eftp index = do {
     indexes \<leftarrow> wr (eft_unicst_filter_indexes eftp) (eft_unicst_filter_count eftp) index;
     let eftp = eftp\<lparr>eft_unicst_filter_indexes := indexes, eft_unicst_filter_count := eft_unicst_filter_count eftp + 1\<rparr>;
     efsys_assert (eft_unicst_filter_count eftp \<le> EFX_EF10_FILTER_UNICAST_FILTERS_MAX);
     Some eftp }"

definition ef10_insert_unicst ::
    "'m mc_env \<Rightarrow> 'm ef10_nic \<Rightarrow> 6 word \<Rightarrow> (efx_filter_spec \<Rightarrow> (efx_rc \<times> efx_filter_spec) option) \<Rightarrow> (efx_rc \<times> 'm ef10_nic) option" where
  "ef10_insert_unicst env enp filter_flags set_match = do {
     (r, enp) \<leftarrow> ef10_filter_insert_auto env enp filter_flags set_match;
     case r of
       Inl rc \<Rightarrow> Some (rc, enp)
     | Inr index \<Rightarrow> do {
         eftp \<leftarrow> ef10_get_table enp;
         eftp \<leftarrow> ef10_set_unicst eftp index;
         Some (RC_OK, ef10_put_table eftp enp) } }"

definition ef10_filter_insert_unicast :: "'m mc_env \<Rightarrow> 'm ef10_nic \<Rightarrow> u8 list \<Rightarrow> 6 word \<Rightarrow> (efx_rc \<times> 'm ef10_nic) option" where
  "ef10_filter_insert_unicast env enp addr filter_flags =
     ef10_insert_unicst env enp filter_flags (\<lambda>spec. efx_filter_spec_set_eth_local spec EFX_FILTER_SPEC_VID_UNSPEC (Some addr))"

definition ef10_filter_insert_all_unicast :: "'m mc_env \<Rightarrow> 'm ef10_nic \<Rightarrow> 6 word \<Rightarrow> (efx_rc \<times> 'm ef10_nic) option" where
  "ef10_filter_insert_all_unicast env enp filter_flags =
     ef10_insert_unicst env enp filter_flags (\<lambda>spec. Some (efx_filter_spec_set_uc_def spec))"

text \<open>
  The filters of a list of addresses. The result is the number of filters, with \<open>Some rc\<close> when the insertion stopped for a
  rollback.
\<close>

fun ef10_insert_addresses ::
    "'m mc_env \<Rightarrow> 6 word \<Rightarrow> bool \<Rightarrow> u8 list list \<Rightarrow> nat \<Rightarrow> 'm ef10_nic \<Rightarrow> (efx_rc option \<times> nat \<times> 'm ef10_nic) option" where
  "ef10_insert_addresses env filter_flags rollback [] filter_count enp = Some (None, filter_count, enp)"
| "ef10_insert_addresses env filter_flags rollback (addr # addrs) filter_count enp = do {
     (r, enp) \<leftarrow> ef10_filter_insert_auto env enp filter_flags
       (\<lambda>spec. efx_filter_spec_set_eth_local spec EFX_FILTER_SPEC_VID_UNSPEC (Some addr));
     case r of
       Inr index \<Rightarrow> do {
         eftp \<leftarrow> ef10_get_table enp;
         indexes \<leftarrow> wr (eft_mulcst_filter_indexes eftp) filter_count index;
         ef10_insert_addresses env filter_flags rollback addrs (filter_count + 1)
           (ef10_put_table (eftp\<lparr>eft_mulcst_filter_indexes := indexes\<rparr>) enp) }
     | Inl rc \<Rightarrow>
         if rollback then Some (Some rc, filter_count, enp)
         else ef10_insert_addresses env filter_flags rollback addrs filter_count enp }"

text \<open>Deleting the filters of the given positions of an index list; errors are ignored.\<close>

fun ef10_delete_indexes :: "'m mc_env \<Rightarrow> (ef10_filter_table \<Rightarrow> nat list) \<Rightarrow> nat list \<Rightarrow> 'm ef10_nic \<Rightarrow> 'm ef10_nic option" where
  "ef10_delete_indexes env indexes [] enp = Some enp"
| "ef10_delete_indexes env indexes (i # is) enp = do {
     eftp \<leftarrow> ef10_get_table enp;
     index \<leftarrow> rd (indexes eftp) i;
     (_, enp) \<leftarrow> ef10_filter_delete_internal env enp index;
     ef10_delete_indexes env indexes is enp }"

text \<open>The \<open>i\<close>th address is at \<open>&addrs[i * EFX_MAC_ADDR_LEN]\<close>.\<close>

definition mac_addresses :: "u8 list \<Rightarrow> nat \<Rightarrow> u8 list list" where
  "mac_addresses addrs count = map (\<lambda>i. drop (i * 6) addrs) [0..<count]"

definition ef10_filter_insert_multicast_list ::
    "'m mc_env \<Rightarrow> 'm ef10_nic \<Rightarrow> bool \<Rightarrow> bool \<Rightarrow> u8 list \<Rightarrow> u32 \<Rightarrow> 6 word \<Rightarrow> bool \<Rightarrow> (efx_rc \<times> 'm ef10_nic) option" where
  "ef10_filter_insert_multicast_list env enp mulcst brdcst addrs count filter_flags rollback =
     (let count = (if mulcst then count else 0) in
      if of_nat EFX_EF10_FILTER_MULTICAST_FILTERS_MAX < count + (if brdcst then 1 else 0) then Some (EINVAL, enp)
      else do {
        (stop, filter_count, enp) \<leftarrow> ef10_insert_addresses env filter_flags rollback
          (mac_addresses addrs (unat count) @ (if brdcst then [replicate 6 0xff] else [])) 0 enp;
        case stop of
          None \<Rightarrow> do {
            eftp \<leftarrow> ef10_get_table enp;
            Some (RC_OK, ef10_put_table (eftp\<lparr>eft_mulcst_filter_count := filter_count, eft_using_all_mulcst := False\<rparr>) enp) }
        | Some rc \<Rightarrow> do {
            enp \<leftarrow> ef10_delete_indexes env eft_mulcst_filter_indexes (rev [0..<filter_count]) enp;
            eftp \<leftarrow> ef10_get_table enp;
            Some (rc, ef10_put_table (eftp\<lparr>eft_mulcst_filter_count := 0\<rparr>) enp) } })"

definition ef10_filter_insert_all_multicast :: "'m mc_env \<Rightarrow> 'm ef10_nic \<Rightarrow> 6 word \<Rightarrow> (efx_rc \<times> 'm ef10_nic) option" where
  "ef10_filter_insert_all_multicast env enp filter_flags = do {
     (r, enp) \<leftarrow> ef10_filter_insert_auto env enp filter_flags (\<lambda>spec. Some (efx_filter_spec_set_mc_def spec));
     case r of
       Inl rc \<Rightarrow> Some (rc, enp)
     | Inr index \<Rightarrow> do {
         eftp \<leftarrow> ef10_get_table enp;
         indexes \<leftarrow> wr (eft_mulcst_filter_indexes eftp) 0 index;
         Some (RC_OK, ef10_put_table (eftp\<lparr>eft_mulcst_filter_indexes := indexes, eft_mulcst_filter_count := 1,
           eft_using_all_mulcst := True\<rparr>) enp) } }"

fun ef10_remove_old_loop :: "'m mc_env \<Rightarrow> nat list \<Rightarrow> 'm ef10_nic \<Rightarrow> 'm ef10_nic option" where
  "ef10_remove_old_loop env [] enp = Some enp"
| "ef10_remove_old_loop env (i # is) enp = do {
     table \<leftarrow> ef10_get_table enp;
     old \<leftarrow> ef10_filter_entry_is_auto_old table i;
     enp \<leftarrow> (if old then do { (_, enp) \<leftarrow> ef10_filter_delete_internal env enp i; Some enp } else Some enp);
     ef10_remove_old_loop env is enp }"

definition ef10_filter_remove_old :: "'m mc_env \<Rightarrow> 'm ef10_nic \<Rightarrow> 'm ef10_nic option" where
  "ef10_filter_remove_old env enp = ef10_remove_old_loop env [0..<EFX_EF10_FILTER_TBL_ROWS] enp"

section \<open>Reconfiguration\<close>

definition MC_CMD_GET_WORKAROUNDS :: u32 where "MC_CMD_GET_WORKAROUNDS = 0x59"
definition MC_CMD_GET_WORKAROUNDS_OUT_LEN :: nat where "MC_CMD_GET_WORKAROUNDS_OUT_LEN = 8"
definition MC_CMD_GET_WORKAROUNDS_OUT_BUG26807 :: u32 where "MC_CMD_GET_WORKAROUNDS_OUT_BUG26807 = 0x40"

text \<open>\<open>efx_mcdi_get_workarounds\<close> of \<open>efx_mcdi.c\<close>: the implemented and the enabled workarounds.\<close>

definition efx_mcdi_get_workarounds :: "'m mc_env \<Rightarrow> 'm ef10_nic \<Rightarrow> ((efx_rc + u32 \<times> u32) \<times> 'm ef10_nic) option" where
  "efx_mcdi_get_workarounds env enp = do {
     (req, enp) \<leftarrow> ef10_mcdi_execute env
       (mcdi_req MC_CMD_GET_WORKAROUNDS [] 0 (replicate MC_CMD_GET_WORKAROUNDS_OUT_LEN 0) MC_CMD_GET_WORKAROUNDS_OUT_LEN) enp;
     if emr_rc req \<noteq> RC_OK then Some (Inl (emr_rc req), enp)
     else do {
       implemented \<leftarrow> mcdi_out_dword req 0;
       enabled \<leftarrow> mcdi_out_dword req 4;
       Some (Inr (implemented, enabled), enp) } }"

definition ef10_set_workaround :: "bool \<Rightarrow> 'm ef10_nic \<Rightarrow> 'm ef10_nic" where
  "ef10_set_workaround b enp = enp\<lparr>fd_hw := (fd_hw enp)\<lparr>enc_bug26807_workaround := b\<rparr>\<rparr>"

definition ef10_filter_get_workarounds :: "'m mc_env \<Rightarrow> 'm ef10_nic \<Rightarrow> (efx_rc \<times> 'm ef10_nic) option" where
  "ef10_filter_get_workarounds env enp = do {
     (r, enp) \<leftarrow> efx_mcdi_get_workarounds env enp;
     Some (case r of
       Inr (implemented, enabled) \<Rightarrow>
         (RC_OK, ef10_set_workaround (implemented AND enabled AND MC_CMD_GET_WORKAROUNDS_OUT_BUG26807 \<noteq> 0) enp)
     | Inl rc \<Rightarrow> if rc = ENOTSUP then (RC_OK, ef10_set_workaround False enp) else (rc, enp)) }"

text \<open>Marking the filters of an index list as old.\<close>

fun ef10_mark_old :: "(ef10_filter_table \<Rightarrow> nat list) \<Rightarrow> nat list \<Rightarrow> ef10_filter_table \<Rightarrow> ef10_filter_table option" where
  "ef10_mark_old indexes [] table = Some table"
| "ef10_mark_old indexes (i # is) table = do {
     index \<leftarrow> rd (indexes table) i;
     table \<leftarrow> ef10_filter_set_entry_auto_old table index;
     ef10_mark_old indexes is table }"

text \<open>Clearing the marks, on the failure path.\<close>

fun ef10_clear_old :: "nat list \<Rightarrow> ef10_filter_table \<Rightarrow> ef10_filter_table option" where
  "ef10_clear_old [] table = Some table"
| "ef10_clear_old (i # is) table = do {
     old \<leftarrow> ef10_filter_entry_is_auto_old table i;
     table \<leftarrow> (if old then ef10_filter_set_entry_not_auto_old table i else Some table);
     ef10_clear_old is table }"

definition ef10_reconfigure_failed :: "'m ef10_nic \<Rightarrow> efx_rc \<Rightarrow> (efx_rc \<times> 'm ef10_nic) option" where
  "ef10_reconfigure_failed enp rc = do {
     table \<leftarrow> ef10_get_table enp;
     table \<leftarrow> ef10_clear_old [0..<EFX_EF10_FILTER_TBL_ROWS] table;
     Some (rc, ef10_put_table table enp) }"

text \<open>Without a default receive queue all filters of the station go.\<close>

definition ef10_remove_station :: "'m mc_env \<Rightarrow> 'm ef10_nic \<Rightarrow> 'm ef10_nic option" where
  "ef10_remove_station env enp = do {
     table \<leftarrow> ef10_get_table enp;
     enp \<leftarrow> ef10_delete_indexes env eft_unicst_filter_indexes [0..<eft_unicst_filter_count table] enp;
     table \<leftarrow> ef10_get_table enp;
     let enp = ef10_put_table (table\<lparr>eft_unicst_filter_count := 0\<rparr>) enp;
     enp \<leftarrow> ef10_delete_indexes env eft_mulcst_filter_indexes [0..<eft_mulcst_filter_count table] enp;
     table \<leftarrow> ef10_get_table enp;
     Some (ef10_put_table (table\<lparr>eft_mulcst_filter_count := 0\<rparr>) enp) }"

text \<open>Unicast filters: the result is the error of the second attempt, or the final error.\<close>

definition ef10_reconfigure_unicst ::
    "'m mc_env \<Rightarrow> 'm ef10_nic \<Rightarrow> u8 list \<Rightarrow> bool \<Rightarrow> 6 word \<Rightarrow> ((efx_rc + efx_rc) \<times> 'm ef10_nic) option" where
  "ef10_reconfigure_unicst env enp mac_addr all_unicst filter_flags = do {
     (rc, enp) \<leftarrow> ef10_filter_insert_unicast env enp mac_addr filter_flags;
     if all_unicst \<or> rc \<noteq> RC_OK then do {
       (all_unicst_rc, enp) \<leftarrow> ef10_filter_insert_all_unicast env enp filter_flags;
       Some (if rc \<noteq> RC_OK \<and> all_unicst_rc \<noteq> RC_OK then Inl rc else Inr all_unicst_rc, enp) }
     else Some (Inr RC_OK, enp) }"

text \<open>Multicast filters: the result is the error of the filter for all addresses when it was asked for, or the final error.\<close>

definition ef10_reconfigure_mulcst ::
    "'m mc_env \<Rightarrow> 'm ef10_nic \<Rightarrow> bool \<Rightarrow> bool \<Rightarrow> bool \<Rightarrow> u8 list \<Rightarrow> u32 \<Rightarrow> 6 word \<Rightarrow> ((efx_rc + efx_rc \<times> efx_rc) \<times> 'm ef10_nic) option" where
  "ef10_reconfigure_mulcst env enp mulcst all_mulcst brdcst addrs count filter_flags =
     (if all_mulcst then do {
        (all_mulcst_rc, enp) \<leftarrow> ef10_filter_insert_all_multicast env enp filter_flags;
        if all_mulcst_rc \<noteq> RC_OK then do {
          (rc, enp) \<leftarrow> ef10_filter_insert_multicast_list env enp True brdcst addrs count filter_flags False;
          Some (if rc \<noteq> RC_OK then Inl rc else Inr (rc, all_mulcst_rc), enp) }
        else Some (Inr (RC_OK, all_mulcst_rc), enp) }
      else do {
        (rc, enp) \<leftarrow> ef10_filter_insert_multicast_list env enp mulcst brdcst addrs count filter_flags True;
        if rc \<noteq> RC_OK then do {
          table \<leftarrow> ef10_get_table enp;
          enp \<leftarrow> (if \<not> eft_using_all_mulcst table \<and> enc_bug26807_workaround (fd_hw enp)
                   then ef10_filter_remove_old env enp else Some enp);
          (rc, enp) \<leftarrow> ef10_filter_insert_all_multicast env enp filter_flags;
          if rc \<noteq> RC_OK then do {
            (rc, enp) \<leftarrow> ef10_filter_insert_multicast_list env enp mulcst brdcst addrs count filter_flags False;
            Some (if rc \<noteq> RC_OK then Inl rc else Inr (rc, RC_OK), enp) }
          else Some (Inr (rc, RC_OK), enp) }
        else Some (Inr (rc, RC_OK), enp) })"

definition ef10_filter_reconfigure ::
    "'m mc_env \<Rightarrow> 'm ef10_nic \<Rightarrow> u8 list \<Rightarrow> bool \<Rightarrow> bool \<Rightarrow> bool \<Rightarrow> bool \<Rightarrow> u8 list \<Rightarrow> u32 \<Rightarrow> (efx_rc \<times> 'm ef10_nic) option" where
  "ef10_filter_reconfigure env enp mac_addr all_unicst mulcst all_mulcst brdcst addrs count = do {
     table \<leftarrow> ef10_get_table enp;
     if eft_default_rxq table = None then do { enp \<leftarrow> ef10_remove_station env enp; Some (RC_OK, enp) }
     else do {
       let filter_flags = (if eft_using_rss table then EFX_FILTER_FLAG_RX_RSS else 0);
       table \<leftarrow> ef10_mark_old eft_unicst_filter_indexes [0..<eft_unicst_filter_count table] table;
       table \<leftarrow> ef10_mark_old eft_mulcst_filter_indexes [0..<eft_mulcst_filter_count table] table;
       (u, enp) \<leftarrow> ef10_reconfigure_unicst env (ef10_put_table (table\<lparr>eft_unicst_filter_count := 0\<rparr>) enp) mac_addr all_unicst filter_flags;
       case u of
         Inl rc \<Rightarrow> ef10_reconfigure_failed enp rc
       | Inr all_unicst_rc \<Rightarrow> do {
           (rc, enp) \<leftarrow> ef10_filter_get_workarounds env enp;
           if rc \<noteq> RC_OK then ef10_reconfigure_failed enp rc
           else do {
             table \<leftarrow> ef10_get_table enp;
             enp \<leftarrow> (if eft_using_all_mulcst table \<noteq> all_mulcst \<and> enc_bug26807_workaround (fd_hw enp)
                      then ef10_filter_remove_old env enp else Some enp);
             (r, enp) \<leftarrow> ef10_reconfigure_mulcst env enp mulcst all_mulcst brdcst addrs count filter_flags;
             case r of
               Inl rc \<Rightarrow> ef10_reconfigure_failed enp rc
             | Inr (rc, all_mulcst_rc) \<Rightarrow> do {
                 enp \<leftarrow> ef10_filter_remove_old env enp;
                 Some (if all_unicst \<and> all_unicst_rc \<noteq> RC_OK \<or> all_mulcst \<and> all_mulcst_rc \<noteq> RC_OK then ENOTSUP else rc,
                       enp) } } } } }"

definition ef10_filter_get_default_rxq :: "'m ef10_nic \<Rightarrow> (u32 option \<times> bool) option" where
  "ef10_filter_get_default_rxq enp = do { table \<leftarrow> ef10_get_table enp; Some (eft_default_rxq table, eft_using_rss table) }"

definition EF10_RSS_CONTEXT_INVALID :: u32 where "EF10_RSS_CONTEXT_INVALID = 0xffffffff"

definition ef10_filter_default_rxq_set :: "'m ef10_nic \<Rightarrow> u32 \<Rightarrow> bool \<Rightarrow> 'm ef10_nic option" where
  "ef10_filter_default_rxq_set enp erp using_rss = do {
     table \<leftarrow> ef10_get_table enp;
     efsys_assert (\<not> using_rss \<or> fd_rss_context enp \<noteq> EF10_RSS_CONTEXT_INVALID);
     Some (ef10_put_table (table\<lparr>eft_using_rss := using_rss, eft_default_rxq := Some erp\<rparr>) enp) }"

definition ef10_filter_default_rxq_clear :: "'m ef10_nic \<Rightarrow> 'm ef10_nic option" where
  "ef10_filter_default_rxq_clear enp = do {
     table \<leftarrow> ef10_get_table enp;
     Some (ef10_put_table (table\<lparr>eft_default_rxq := None, eft_using_rss := False\<rparr>) enp) }"

text \<open>
  The table of operations that \<open>efx_filter.c\<close> dispatches to. The query for the supported filters changes nothing in the driver; the
  state of the controller behind it is not kept, as the interface of the model has no place for it.
\<close>

definition ef10_filter_ops :: "'m mc_env \<Rightarrow> 'm ef10_filters filter_ops" where
  "ef10_filter_ops env =
     \<lparr>efo_init = ef10_filter_init env, efo_fini = ef10_filter_fini, efo_restore = ef10_filter_restore env, efo_add = ef10_filter_add env,
      efo_delete = ef10_filter_delete env,
      efo_supported_filters = (\<lambda>enp list. map_option fst (ef10_filter_supported_filters env enp list)),
      efo_reconfigure = Some (ef10_filter_reconfigure env)\<rparr>"

end
