(* ===== verification/Efx_Ef10_State.thy ===== *)
theory Efx_Ef10_State
  imports Efx_Ef10_Filter
begin

text \<open>
  The EF10 filter table as a map from slots to specifications, its invariant, and what the search, the requests and the
  operations do in terms of it, whatever the controller answers.
\<close>

section \<open>Specifications\<close>

definition spec_ok :: "efx_filter_spec \<Rightarrow> bool" where
  "spec_ok s = (length (efs_loc_mac s) = 6 \<and> length (efs_rem_mac s) = 6 \<and> length (efs_rem_host s) = 4 \<and> length (efs_loc_host s) = 4)"

definition spec_hash :: "efx_filter_spec \<Rightarrow> u32" where
  "spec_hash s = the (ef10_filter_hash s)"

definition spec_excl :: "efx_filter_spec \<Rightarrow> bool" where
  "spec_excl s = the (ef10_filter_is_exclusive s)"

lemma length_bytes_of_words4 [simp]: "length (bytes_of_words ws) = 4 * length ws"
  by (induction ws) (simp_all add: bytes_of_word_def)

lemma length_filter_spec_tail: "spec_ok s \<Longrightarrow> length (filter_spec_tail s) = 56"
  by (simp add: filter_spec_tail_def spec_ok_def le_bytes16_def)

lemma filter_hash_Some [simp]: "spec_ok s \<Longrightarrow> ef10_filter_hash s = Some (spec_hash s)"
  by (simp add: spec_hash_def ef10_filter_hash_def efx_hash_dwords_def words_of_bytes_length length_filter_spec_tail Let_def)

lemma is_exclusive_Some [simp]: "spec_ok s \<Longrightarrow> ef10_filter_is_exclusive s = Some (spec_excl s)"
  by (simp add: spec_excl_def ef10_filter_is_exclusive_def efx_mac_is_multicast_def filter_loc_host0_def spec_ok_def)

text \<open>Equal specifications hash alike and are exclusive alike; the destination does not matter.\<close>

lemma equal_refl [simp]: "ef10_filter_equal s s"
  by (simp add: ef10_filter_equal_def)

lemma equal_sym: "ef10_filter_equal a b \<Longrightarrow> ef10_filter_equal b a"
  by (simp add: ef10_filter_equal_def)

lemma equal_trans: "ef10_filter_equal a b \<Longrightarrow> ef10_filter_equal b c \<Longrightarrow> ef10_filter_equal a c"
  by (simp add: ef10_filter_equal_def)

lemma equal_hash: "ef10_filter_equal a b \<Longrightarrow> spec_hash a = spec_hash b"
  by (simp add: ef10_filter_equal_def spec_hash_def ef10_filter_hash_def filter_spec_tail_def)

lemma equal_excl: "ef10_filter_equal a b \<Longrightarrow> spec_excl a = spec_excl b"
  by (simp add: ef10_filter_equal_def spec_excl_def ef10_filter_is_exclusive_def efx_mac_is_multicast_def filter_loc_host0_def)

lemma equal_update [simp]:
  "ef10_filter_equal (s\<lparr>efs_priority := p, efs_flags := f, efs_rss_context := r, efs_dmaq_id := q\<rparr>) t = ef10_filter_equal s t"
  "ef10_filter_equal (s\<lparr>efs_rss_context := r\<rparr>) t = ef10_filter_equal s t"
  by (simp_all add: ef10_filter_equal_def)

lemma spec_ok_update [simp]:
  "spec_ok (s\<lparr>efs_priority := p, efs_flags := f, efs_rss_context := r, efs_dmaq_id := q\<rparr>) = spec_ok s"
  "spec_ok (s\<lparr>efs_rss_context := r\<rparr>) = spec_ok s"
  by (simp_all add: spec_ok_def)

text \<open>The slots of a specification.\<close>

definition spec_slots :: "efx_filter_spec \<Rightarrow> nat list" where
  "spec_slots s = ef10_filter_slots (spec_hash s)"

lemma spec_slots_less: "i \<in> set (spec_slots s) \<Longrightarrow> i < EFX_EF10_FILTER_TBL_ROWS"
proof -
  have "unat (x AND 0x1fff :: u32) < 8192" for x
  proof -
    have "x AND 0x1fff \<le> 0x1fff" by (rule word_and_le1)
    then show ?thesis by (simp add: word_le_nat_alt)
  qed
  then show "i \<in> set (spec_slots s) \<Longrightarrow> i < EFX_EF10_FILTER_TBL_ROWS"
    by (auto simp: spec_slots_def ef10_filter_slots_def EFX_EF10_FILTER_TBL_ROWS_def)
qed

lemma equal_slots: "ef10_filter_equal a b \<Longrightarrow> spec_slots a = spec_slots b"
  by (simp add: spec_slots_def equal_hash)

section \<open>The table as a map\<close>

definition especs :: "ef10_filter_table \<Rightarrow> nat \<Rightarrow> efx_filter_spec option" where
  "especs t i = (if i < length (eft_entry t) then efe_spec (eft_entry t ! i) else None)"

definition ehandle :: "ef10_filter_table \<Rightarrow> nat \<Rightarrow> ef10_filter_handle" where
  "ehandle t i = efe_handle (eft_entry t ! i)"

definition eold :: "ef10_filter_table \<Rightarrow> nat \<Rightarrow> bool" where
  "eold t i = (i < length (eft_entry t) \<and> efe_auto_old (eft_entry t ! i))"

definition ebusy :: "ef10_filter_table \<Rightarrow> nat \<Rightarrow> bool" where
  "ebusy t i = (i < length (eft_entry t) \<and> efe_busy (eft_entry t ! i))"

text \<open>Writing one entry.\<close>

definition put_entry :: "nat \<Rightarrow> ef10_filter_entry \<Rightarrow> ef10_filter_table \<Rightarrow> ef10_filter_table" where
  "put_entry i e t = t\<lparr>eft_entry := (eft_entry t)[i := e]\<rparr>"

lemma put_entry_sel [simp]:
  "length (eft_entry (put_entry i e t)) = length (eft_entry t)"
  "eft_default_rxq (put_entry i e t) = eft_default_rxq t" "eft_using_rss (put_entry i e t) = eft_using_rss t"
  "eft_unicst_filter_indexes (put_entry i e t) = eft_unicst_filter_indexes t"
  "eft_unicst_filter_count (put_entry i e t) = eft_unicst_filter_count t"
  "eft_mulcst_filter_indexes (put_entry i e t) = eft_mulcst_filter_indexes t"
  "eft_mulcst_filter_count (put_entry i e t) = eft_mulcst_filter_count t"
  "eft_using_all_mulcst (put_entry i e t) = eft_using_all_mulcst t"
  "put_entry i e (put_entry i e' t) = put_entry i e t"
  by (simp_all add: put_entry_def)

lemma put_entry_nth: "i < length (eft_entry t) \<Longrightarrow> eft_entry (put_entry i e t) ! j = (if j = i then e else eft_entry t ! j)"
  by (simp add: put_entry_def)

lemma put_entry_view:
  assumes "i < length (eft_entry t)"
  shows "especs (put_entry i e t) = (especs t)(i := efe_spec e)" "eold (put_entry i e t) = (eold t)(i := efe_auto_old e)"
    "ebusy (put_entry i e t) = (ebusy t)(i := efe_busy e)" "ehandle (put_entry i e t) = (ehandle t)(i := efe_handle e)"
  using assms by (auto simp: especs_def eold_def ebusy_def ehandle_def put_entry_nth fun_eq_iff)

lemma entry_update_put:
  "i < length (eft_entry t) \<Longrightarrow> ef10_entry_update f t i = Some (put_entry i (f (eft_entry t ! i)) t)"
  by (simp add: ef10_entry_update_def put_entry_def)

text \<open>The accessors inside the table.\<close>

lemma entry_access [simp]:
  assumes "i < length (eft_entry t)"
  shows "ef10_filter_entry_spec t i = Some (especs t i)" "ef10_filter_entry_is_busy t i = Some (ebusy t i)"
    "ef10_filter_entry_is_auto_old t i = Some (eold t i)"
    "ef10_filter_set_entry t i efsp = Some (put_entry i ((eft_entry t ! i)\<lparr>efe_spec := efsp, efe_busy := False, efe_auto_old := False\<rparr>) t)"
    "ef10_filter_set_entry_busy t i = Some (put_entry i ((eft_entry t ! i)\<lparr>efe_busy := True\<rparr>) t)"
    "ef10_filter_set_entry_not_busy t i = Some (put_entry i ((eft_entry t ! i)\<lparr>efe_busy := False\<rparr>) t)"
    "ef10_set_handle h t i = Some (put_entry i ((eft_entry t ! i)\<lparr>efe_handle := h\<rparr>) t)"
  using assms
  by (simp_all add: ef10_filter_entry_spec_def ef10_filter_entry_is_busy_def ef10_filter_entry_is_auto_old_def ef10_filter_set_entry_def
      ef10_filter_set_entry_busy_def ef10_filter_set_entry_not_busy_def ef10_set_handle_def entry_update_put especs_def ebusy_def eold_def)

lemma set_entry_auto_old [simp]:
  assumes "i < length (eft_entry t)" "especs t i \<noteq> None"
  shows "ef10_filter_set_entry_auto_old t i = Some (put_entry i ((eft_entry t ! i)\<lparr>efe_auto_old := True\<rparr>) t)"
    "ef10_filter_set_entry_not_auto_old t i = Some (put_entry i ((eft_entry t ! i)\<lparr>efe_auto_old := False\<rparr>) t)"
  using assms
  by (auto simp: ef10_filter_set_entry_auto_old_def ef10_filter_set_entry_not_auto_old_def entry_update_put put_entry_view especs_def)

text \<open>
  The invariant. A filter lies in one of the slots that a search for it visits, and a filter that is exclusive is the only one
  with its match.
\<close>

definition ef10_tbl_inv :: "ef10_filter_table \<Rightarrow> bool" where
  "ef10_tbl_inv t = (length (eft_entry t) = EFX_EF10_FILTER_TBL_ROWS
     \<and> length (eft_unicst_filter_indexes t) = EFX_EF10_FILTER_UNICAST_FILTERS_MAX
     \<and> length (eft_mulcst_filter_indexes t) = EFX_EF10_FILTER_MULTICAST_FILTERS_MAX
     \<and> eft_unicst_filter_count t \<le> EFX_EF10_FILTER_UNICAST_FILTERS_MAX
     \<and> eft_mulcst_filter_count t \<le> EFX_EF10_FILTER_MULTICAST_FILTERS_MAX
     \<and> (\<forall>i. \<not> ebusy t i)
     \<and> (\<forall>i s. especs t i = Some s \<longrightarrow> spec_ok s \<and> i \<in> set (spec_slots s))
     \<and> (\<forall>i j s s'. especs t i = Some s \<longrightarrow> especs t j = Some s' \<longrightarrow> ef10_filter_equal s s' \<longrightarrow> spec_excl s \<longrightarrow> i = j))"

lemma tbl_invD:
  assumes "ef10_tbl_inv t"
  shows "length (eft_entry t) = EFX_EF10_FILTER_TBL_ROWS" "length (eft_unicst_filter_indexes t) = EFX_EF10_FILTER_UNICAST_FILTERS_MAX"
    "length (eft_mulcst_filter_indexes t) = EFX_EF10_FILTER_MULTICAST_FILTERS_MAX"
    "eft_unicst_filter_count t \<le> EFX_EF10_FILTER_UNICAST_FILTERS_MAX"
    "eft_mulcst_filter_count t \<le> EFX_EF10_FILTER_MULTICAST_FILTERS_MAX" "\<not> ebusy t i" "especs t i = Some s \<Longrightarrow> spec_ok s"
    "especs t i = Some s \<Longrightarrow> i \<in> set (spec_slots s)"
    "especs t i = Some s \<Longrightarrow> especs t j = Some s' \<Longrightarrow> ef10_filter_equal s s' \<Longrightarrow> spec_excl s \<Longrightarrow> i = j"
  using assms unfolding ef10_tbl_inv_def by blast+

lemma tbl_invI:
  assumes "length (eft_entry t) = EFX_EF10_FILTER_TBL_ROWS" "length (eft_unicst_filter_indexes t) = EFX_EF10_FILTER_UNICAST_FILTERS_MAX"
    "length (eft_mulcst_filter_indexes t) = EFX_EF10_FILTER_MULTICAST_FILTERS_MAX"
    "eft_unicst_filter_count t \<le> EFX_EF10_FILTER_UNICAST_FILTERS_MAX"
    "eft_mulcst_filter_count t \<le> EFX_EF10_FILTER_MULTICAST_FILTERS_MAX" "\<And>i. \<not> ebusy t i"
    "\<And>i s. especs t i = Some s \<Longrightarrow> spec_ok s \<and> i \<in> set (spec_slots s)"
    "\<And>i j s s'. especs t i = Some s \<Longrightarrow> especs t j = Some s' \<Longrightarrow> ef10_filter_equal s s' \<Longrightarrow> spec_excl s \<Longrightarrow> i = j"
  shows "ef10_tbl_inv t"
  using assms unfolding ef10_tbl_inv_def by blast

lemma especs_less: "especs t i = Some s \<Longrightarrow> i < length (eft_entry t)"
  by (simp add: especs_def split: if_splits)

text \<open>Removing a filter, changing flags and handles, and adding a filter with nothing in its way keep the invariant.\<close>

lemma tbl_inv_put_remove:
  assumes "ef10_tbl_inv t" "i < length (eft_entry t)" "efe_spec e = None" "\<not> efe_busy e"
  shows "ef10_tbl_inv (put_entry i e t)"
  using assms by (auto simp: ef10_tbl_inv_def put_entry_view)

lemma tbl_inv_put_same:
  assumes "ef10_tbl_inv t" "i < length (eft_entry t)" "efe_spec e = especs t i" "\<not> efe_busy e"
  shows "ef10_tbl_inv (put_entry i e t)"
proof -
  have "(especs t)(i := efe_spec e) = especs t" using assms(3) by (simp add: fun_upd_idem)
  with assms show ?thesis by (simp add: ef10_tbl_inv_def put_entry_view)
qed

text \<open>Nothing in the way: no equal filter if the filter is exclusive.\<close>

definition no_conflict :: "ef10_filter_table \<Rightarrow> efx_filter_spec \<Rightarrow> nat \<Rightarrow> bool" where
  "no_conflict t s i = (spec_excl s \<longrightarrow> (\<forall>j s'. especs t j = Some s' \<longrightarrow> ef10_filter_equal s s' \<longrightarrow> j = i))"

lemma tbl_inv_put_add:
  assumes inv: "ef10_tbl_inv t" and e: "efe_spec e = Some s" "\<not> efe_busy e" and s: "spec_ok s" "i \<in> set (spec_slots s)" "no_conflict t s i"
  shows "ef10_tbl_inv (put_entry i e t)"
proof -
  have i: "i < length (eft_entry t)" using spec_slots_less [OF s(2)] tbl_invD(1) [OF inv] by simp
  have excl: "j = k" if "((especs t)(i := Some s)) j = Some a" "((especs t)(i := Some s)) k = Some b" "ef10_filter_equal a b" "spec_excl a" for j k a b
  proof -
    consider "j = i" "k = i" | "j = i" "k \<noteq> i" | "j \<noteq> i" "k = i" | "j \<noteq> i" "k \<noteq> i" by blast
    then show ?thesis
    proof cases
      case 2
      then show ?thesis using that s(3) unfolding no_conflict_def by auto
    next
      case 3
      then show ?thesis using that s(3) equal_sym [OF that(3)] equal_excl [OF that(3)] unfolding no_conflict_def by auto
    next
      case 4
      then show ?thesis using that tbl_invD(9) [OF inv, of j a k b] by simp
    qed simp
  qed
  have ok: "spec_ok a \<and> j \<in> set (spec_slots a)" if "((especs t)(i := Some s)) j = Some a" for j a
    using that s tbl_invD(7,8) [OF inv, of j a] by (auto split: if_splits)
  note v = put_entry_view [OF i, of e, unfolded e(1)]
  show ?thesis
  proof (rule tbl_invI)
    show "\<not> ebusy (put_entry i e t) j" for j using tbl_invD(6) [OF inv, of j] e(2) by (simp add: v)
    show "spec_ok a \<and> j \<in> set (spec_slots a)" if "especs (put_entry i e t) j = Some a" for j a
      using that unfolding v by (rule ok)
    show "j = k" if "especs (put_entry i e t) j = Some a" "especs (put_entry i e t) k = Some b" "ef10_filter_equal a b" "spec_excl a" for j k a b
      using that unfolding v by (rule excl)
  qed (simp_all add: tbl_invD(1-5) [OF inv])
qed

section \<open>The search\<close>

text \<open>A filter that stops the search for a slot: it has the same match, and it is refreshed or excludes another one.\<close>

definition blocks :: "ef10_filter_table \<Rightarrow> efx_filter_spec \<Rightarrow> nat \<Rightarrow> bool" where
  "blocks t spec i = (case especs t i of None \<Rightarrow> False
     | Some s \<Rightarrow> ef10_filter_equal spec s \<and> (efs_priority s = EFX_FILTER_PRI_AUTO \<or> spec_excl spec))"

definition free_slot :: "ef10_filter_table \<Rightarrow> nat \<Rightarrow> bool" where
  "free_slot t i = (especs t i = None)"

text \<open>The slot for a filter: the first that blocks it, or else the first free one.\<close>

definition slot_for :: "ef10_filter_table \<Rightarrow> efx_filter_spec \<Rightarrow> bool \<Rightarrow> nat option \<Rightarrow> nat list \<Rightarrow> efx_rc + nat" where
  "slot_for t spec may_replace ins slots =
     (case find (blocks t spec) slots of
        Some i \<Rightarrow> if efs_priority (the (especs t i)) = EFX_FILTER_PRI_AUTO \<or> may_replace then Inr i else Inl EEXIST
      | None \<Rightarrow> (case (if ins = None then find (free_slot t) slots else ins) of None \<Rightarrow> Inl EBUSY | Some i \<Rightarrow> Inr i))"

lemma search_slot_for:
  assumes "spec_ok spec" "\<And>i. \<not> ebusy t i"
  shows "\<forall>i\<in>set slots. i < length (eft_entry t) \<Longrightarrow>
    ef10_filter_search t spec may_replace slots ins = Some (case slot_for t spec may_replace ins slots of Inl rc \<Rightarrow> Search_failed rc | Inr i \<Rightarrow> Search_found i)"
proof (induction slots arbitrary: ins)
  case Nil
  show ?case by (cases ins) (simp_all add: slot_for_def)
next
  case (Cons i slots)
  then show ?case using assms
    by (cases "especs t i"; cases ins) (auto simp: slot_for_def blocks_def free_slot_def split: option.splits)
qed

lemma search_wait_slot_for:
  assumes "spec_ok spec" "\<And>i. \<not> ebusy t i" "\<forall>i\<in>set slots. i < length (eft_entry t)"
  shows "ef10_filter_search_wait t spec may_replace slots = Some (slot_for t spec may_replace None slots)"
  by (subst ef10_filter_search_wait.simps) (simp add: search_slot_for [OF assms] split: sum.split)

lemma find_SomeD: "find P xs = Some x \<Longrightarrow> P x \<and> x \<in> set xs"
  by (metis find_Some_iff nth_mem)

text \<open>What the found slot holds.\<close>

lemma slot_forD:
  assumes "slot_for t spec may_replace None slots = Inr i"
  shows "i \<in> set slots"
    "especs t i = Some s \<Longrightarrow> ef10_filter_equal spec s \<and> (efs_priority s = EFX_FILTER_PRI_AUTO \<or> spec_excl spec \<and> may_replace)"
    "especs t i = None \<Longrightarrow> \<forall>j\<in>set slots. \<not> blocks t spec j"
  using assms
  by (auto simp: slot_for_def blocks_def free_slot_def find_None_iff split: option.splits if_splits dest!: find_SomeD)

section \<open>Requests to the controller\<close>

definition mcdi_is_up :: "'m ef10_nic \<Rightarrow> bool" where
  "mcdi_is_up enp = (fd_mod_flags enp AND EFX_MOD_MCDI \<noteq> 0 \<and> fd_features enp AND EFX_FEATURE_MCDI \<noteq> 0)"

lemma nic_put_simps [simp]:
  "ef10_get_table (ef10_put_table t enp) = Some t" "ef10_get_table (ef10_put_mc m enp) = ef10_get_table enp"
  "ef10_put_table t (ef10_put_table t' enp) = ef10_put_table t enp"
  "ef10_put_mc m (ef10_put_table t enp) = ef10_put_table t (ef10_put_mc m enp)"
  "ef10_put_mc m (ef10_put_mc m' enp) = ef10_put_mc m enp"
  "mcdi_is_up (ef10_put_table t enp) = mcdi_is_up enp" "mcdi_is_up (ef10_put_mc m enp) = mcdi_is_up enp"
  "ef10_filter_family (ef10_put_table t enp) = ef10_filter_family enp" "ef10_filter_family (ef10_put_mc m enp) = ef10_filter_family enp"
  "fd_rss_context (ef10_put_table t enp) = fd_rss_context enp" "fd_rss_context (ef10_put_mc m enp) = fd_rss_context enp"
  "ef_mc (fd_hw (ef10_put_table t enp)) = ef_mc (fd_hw enp)" "ef_mc (fd_hw (ef10_put_mc m enp)) = m"
  by (simp_all add: ef10_get_table_def ef10_put_table_def ef10_put_mc_def mcdi_is_up_def ef10_filter_family_def)

lemma ef10_execute_eq:
  "mcdi_is_up enp \<Longrightarrow> ef10_mcdi_execute env req enp
    = Some (fst (env_execute env (req\<lparr>emr_quiet := False\<rparr>) (ef_mc (fd_hw enp))),
            ef10_put_mc (snd (env_execute env (req\<lparr>emr_quiet := False\<rparr>) (ef_mc (fd_hw enp)))) enp)"
  by (simp add: ef10_mcdi_execute_def efx_mcdi_execute_def mcdi_is_up_def split: prod.split)

text \<open>The payload of a request fits its buffer.\<close>

lemma returns_in_set:
  "ofst < length p \<Longrightarrow> returns (\<lambda>q. length q = length p) (mcdi_in_set_byte ofst b p)"
  "ofst + 2 \<le> length p \<Longrightarrow> returns (\<lambda>q. length q = length p) (mcdi_in_set_word ofst w p)"
  "ofst + 4 \<le> length p \<Longrightarrow> returns (\<lambda>q. length q = length p) (mcdi_in_set_dword ofst d p)"
  "ofst + length bs \<le> length p \<Longrightarrow> returns (\<lambda>q. length q = length p) (wr_range p ofst bs)"
  by (simp_all add: mcdi_in_set_Some length_bytes_of_word4 wr_range_def)

lemma returns_rd_range: "i + n \<le> length xs \<Longrightarrow> returns (\<lambda>ys. length ys = n) (rd_range xs i n)"
  by (simp add: rd_range_def)

lemma returns_match_fields: "spec_ok s \<Longrightarrow> returns (\<lambda>_. True) (filter_match_fields s)"
  by (simp add: filter_match_fields_def efx_mac_is_multicast_def spec_ok_def)

lemma returns_in_tuple: "spec_ok s \<Longrightarrow> length p = 108 \<Longrightarrow> returns (\<lambda>q. length q = 108) (filter_op_in_tuple s p)"
  unfolding filter_op_in_tuple_def
  by (rule returns_bind [OF returns_rd_range] returns_bind [OF returns_in_set(1)] returns_bind [OF returns_in_set(2)]
      returns_bind [OF returns_in_set(4)] returns_mono [OF returns_in_set(4)] | simp add: spec_ok_def)+

lemma returns_in_dword:
  "length p = 108 \<Longrightarrow> ofst + 4 \<le> 108 \<Longrightarrow> (\<And>q. length q = 108 \<Longrightarrow> returns P (f q)) \<Longrightarrow> returns P (mcdi_in_set_dword ofst d p \<bind> f)"
  by (rule returns_bind [OF returns_in_set(3)]) simp_all

lemma returns_if_bind:
  "(b \<Longrightarrow> returns P (x \<bind> f)) \<Longrightarrow> (\<not> b \<Longrightarrow> returns P (y \<bind> f)) \<Longrightarrow> returns P ((if b then x else y) \<bind> f)"
  by simp

lemma returns_in_add: "spec_ok s \<Longrightarrow> returns (\<lambda>q. length q = 108) (filter_op_in_add s op h)"
  unfolding filter_op_in_add_def Let_def MC_CMD_FILTER_OP_IN_LEN_def
  by (rule conjI impI returns_if_bind returns_in_dword returns_bind [OF returns_match_fields] returns_mono [OF returns_in_set(3)] returns_in_tuple
      | simp add: bind_assoc)+

text \<open>The two requests come back with a return code; the controller is the only part of the state that changes.\<close>

lemma op_in_length: "MC_CMD_FILTER_OP_IN_LEN = 108" "MC_CMD_FILTER_OP_OUT_LEN = 12"
  by (simp_all add: MC_CMD_FILTER_OP_IN_LEN_def MC_CMD_FILTER_OP_OUT_LEN_def)

lemma out_handle:
  assumes "mc_env_ok env" "length p = 108" "req = mcdi_req cmd p 108 p 12"
  shows "\<exists>lo. mcdi_out_dword (fst (env_execute env (req\<lparr>emr_quiet := False\<rparr>) m)) 4 = Some lo"
    "\<exists>hi. mcdi_out_dword (fst (env_execute env (req\<lparr>emr_quiet := False\<rparr>) m)) 8 = Some hi"
proof -
  have "emr_out_buf (req\<lparr>emr_quiet := False\<rparr>) = Some p" by (simp add: assms(3) mcdi_req_def)
  from mc_env_ok_buf [OF assms(1) this, of m] obtain b
    where "emr_out_buf (fst (env_execute env (req\<lparr>emr_quiet := False\<rparr>) m)) = Some b" "length b = 108" using assms(2) by auto
  then show "\<exists>lo. mcdi_out_dword (fst (env_execute env (req\<lparr>emr_quiet := False\<rparr>) m)) 4 = Some lo"
    "\<exists>hi. mcdi_out_dword (fst (env_execute env (req\<lparr>emr_quiet := False\<rparr>) m)) 8 = Some hi"
    by (simp_all add: mcdi_out_dword_Some)
qed

lemma filter_op_add_returns:
  assumes "mc_env_ok env" "mcdi_is_up enp" "spec_ok s"
    "op \<in> {MC_CMD_FILTER_OP_IN_OP_REPLACE, MC_CMD_FILTER_OP_IN_OP_INSERT, MC_CMD_FILTER_OP_IN_OP_SUBSCRIBE}"
  obtains rc h' m' where "efx_mcdi_filter_op_add env enp s op h = Some (rc, h', ef10_put_mc m' enp)"
proof -
  obtain p where p: "filter_op_in_add s op h = Some p" "length p = 108" by (rule returnsE [OF returns_in_add [OF assms(3)]])
  let ?req = "mcdi_req MC_CMD_FILTER_OP p 108 p 12"
  obtain lo hi where "mcdi_out_dword (fst (env_execute env (?req\<lparr>emr_quiet := False\<rparr>) (ef_mc (fd_hw enp)))) 4 = Some lo"
    "mcdi_out_dword (fst (env_execute env (?req\<lparr>emr_quiet := False\<rparr>) (ef_mc (fd_hw enp)))) 8 = Some hi"
    using out_handle [OF assms(1) p(2) refl] by blast
  then have "\<exists>rc h' m'. efx_mcdi_filter_op_add env enp s op h = Some (rc, h', ef10_put_mc m' enp)"
    using assms(4) p by (cases "env_execute env (?req\<lparr>emr_quiet := False\<rparr>) (ef_mc (fd_hw enp))")
      (auto simp: efx_mcdi_filter_op_add_def ef10_execute_eq [OF assms(2)] op_in_length)
  then show ?thesis using that by blast
qed

lemma filter_op_delete_returns:
  assumes "mcdi_is_up enp" "op \<in> {MC_CMD_FILTER_OP_IN_OP_REMOVE, MC_CMD_FILTER_OP_IN_OP_UNSUBSCRIBE}"
  obtains rc m' where "efx_mcdi_filter_op_delete env enp op h = Some (rc, ef10_put_mc m' enp)"
proof -
  have "returns (\<lambda>p. length p = 108) (filter_op_in_delete op h)"
    unfolding filter_op_in_delete_def op_in_length
    by (rule returns_in_dword returns_mono [OF returns_in_set(3)] | simp)+
  then obtain p where "filter_op_in_delete op h = Some p" "length p = 108" by (rule returnsE)
  then have "\<exists>rc m'. efx_mcdi_filter_op_delete env enp op h = Some (rc, ef10_put_mc m' enp)"
    using assms(2) by (auto simp: efx_mcdi_filter_op_delete_def ef10_execute_eq [OF assms(1)] op_in_length)
  then show ?thesis using that by blast
qed

section \<open>Insertion and removal\<close>

text \<open>A NIC with a table.\<close>

definition ef10_has :: "'m ef10_nic \<Rightarrow> ef10_filter_table \<Rightarrow> bool" where
  "ef10_has enp t = (ef10_get_table enp = Some t \<and> ef10_filter_family enp \<and> mcdi_is_up enp)"

lemma ef10_has_put [simp]:
  "ef10_has enp t \<Longrightarrow> ef10_has (ef10_put_table t' enp) t'" "ef10_has (ef10_put_mc m enp) t = ef10_has enp t"
  by (simp_all add: ef10_has_def)

lemma ef10_hasD: "ef10_has enp t \<Longrightarrow> ef10_get_table enp = Some t" "ef10_has enp t \<Longrightarrow> ef10_filter_family enp" "ef10_has enp t \<Longrightarrow> mcdi_is_up enp"
  by (simp_all add: ef10_has_def)

lemma add_op_in: "(if a then MC_CMD_FILTER_OP_IN_OP_REPLACE else if b then MC_CMD_FILTER_OP_IN_OP_INSERT else MC_CMD_FILTER_OP_IN_OP_SUBSCRIBE)
    \<in> {MC_CMD_FILTER_OP_IN_OP_REPLACE, MC_CMD_FILTER_OP_IN_OP_INSERT, MC_CMD_FILTER_OP_IN_OP_SUBSCRIBE}"
  "(if b then MC_CMD_FILTER_OP_IN_OP_INSERT else MC_CMD_FILTER_OP_IN_OP_SUBSCRIBE)
    \<in> {MC_CMD_FILTER_OP_IN_OP_REPLACE, MC_CMD_FILTER_OP_IN_OP_INSERT, MC_CMD_FILTER_OP_IN_OP_SUBSCRIBE}"
  "(if b then MC_CMD_FILTER_OP_IN_OP_REMOVE else MC_CMD_FILTER_OP_IN_OP_UNSUBSCRIBE)
    \<in> {MC_CMD_FILTER_OP_IN_OP_REMOVE, MC_CMD_FILTER_OP_IN_OP_UNSUBSCRIBE}"
  by simp_all

text \<open>The entry of a replaced filter.\<close>

definition spec_replaced :: "efx_filter_spec \<Rightarrow> efx_filter_spec \<Rightarrow> efx_filter_spec" where
  "spec_replaced saved spec = saved\<lparr>efs_priority := efs_priority spec, efs_flags := efs_flags spec,
     efs_rss_context := efs_rss_context spec, efs_dmaq_id := efs_dmaq_id spec\<rparr>"

text \<open>What a call of \<open>ef10_filter_program\<close> leaves: the entry with the new specification, or no entry.\<close>

lemma program_returns:
  assumes env: "mc_env_ok env" and has: "ef10_has enp t" and spec: "spec_ok spec" and i: "i < length (eft_entry t)" "especs t i = Some saved"
  obtains rc h' m' where
    "efx_mcdi_filter_op_add env (ef10_put_table (put_entry i ((eft_entry t ! i)\<lparr>efe_busy := True\<rparr>) t) enp) spec
       (if replacing then MC_CMD_FILTER_OP_IN_OP_REPLACE else if spec_excl spec then MC_CMD_FILTER_OP_IN_OP_INSERT
        else MC_CMD_FILTER_OP_IN_OP_SUBSCRIBE) (ehandle t i)
     = Some (rc, h', ef10_put_mc m' (ef10_put_table (put_entry i ((eft_entry t ! i)\<lparr>efe_busy := True\<rparr>) t) enp))"
    "ef10_filter_program env enp spec i saved replacing = Some (if rc = RC_OK then Inr i else Inl rc,
       ef10_put_table (put_entry i
         (if rc = RC_OK then (eft_entry t ! i)\<lparr>efe_spec := Some (if replacing then spec_replaced saved spec else saved), efe_busy := False, efe_handle := h'\<rparr>
          else \<lparr>efe_spec = None, efe_busy = False, efe_auto_old = False, efe_handle = h'\<rparr>) t) (ef10_put_mc m' enp))"
proof -
  let ?e = "eft_entry t ! i"
  let ?tb = "put_entry i (?e\<lparr>efe_busy := True\<rparr>) t"
  let ?op = "if replacing then MC_CMD_FILTER_OP_IN_OP_REPLACE else if spec_excl spec then MC_CMD_FILTER_OP_IN_OP_INSERT
        else MC_CMD_FILTER_OP_IN_OP_SUBSCRIBE"
  have "mcdi_is_up (ef10_put_table ?tb enp)" using has by (simp add: ef10_has_def)
  then obtain rc h' m' where op: "efx_mcdi_filter_op_add env (ef10_put_table ?tb enp) spec ?op (ehandle t i)
      = Some (rc, h', ef10_put_mc m' (ef10_put_table ?tb enp))"
    by (rule filter_op_add_returns [OF env _ spec add_op_in(1)])
  have "ef10_filter_program env enp spec i saved replacing = Some (if rc = RC_OK then Inr i else Inl rc,
       ef10_put_table (put_entry i
         (if rc = RC_OK then ?e\<lparr>efe_spec := Some (if replacing then spec_replaced saved spec else saved), efe_busy := False, efe_handle := h'\<rparr>
          else \<lparr>efe_spec = None, efe_busy = False, efe_auto_old = False, efe_handle = h'\<rparr>) t) (ef10_put_mc m' enp))"
    using i op ef10_hasD(1) [OF has] spec
    by (cases ?e) (simp add: ef10_filter_program_def put_entry_nth ehandle_def entry_update_put spec_replaced_def especs_def)
  with op that show ?thesis by blast
qed

lemma program_ex:
  assumes "mc_env_ok env" "ef10_has enp t" "spec_ok spec" "i < length (eft_entry t)" "especs t i = Some saved"
  shows "\<exists>rc h' m'. ef10_filter_program env enp spec i saved replacing = Some (if rc = RC_OK then Inr i else Inl rc,
       ef10_put_table (put_entry i
         (if rc = RC_OK then (eft_entry t ! i)\<lparr>efe_spec := Some (if replacing then spec_replaced saved spec else saved), efe_busy := False, efe_handle := h'\<rparr>
          else \<lparr>efe_spec = None, efe_busy = False, efe_auto_old = False, efe_handle = h'\<rparr>) t) (ef10_put_mc m' enp))"
  by (rule program_returns [OF assms, of replacing]) blast

text \<open>A new filter at a free slot.\<close>

lemma program_new:
  assumes env: "mc_env_ok env" and has: "ef10_has enp t" and ok: "spec_ok spec" and i: "i < length (eft_entry t)"
  shows "\<exists>rc h' m'. ef10_filter_program env (ef10_put_table (put_entry i ((eft_entry t ! i)\<lparr>efe_spec := Some spec, efe_busy := False,
         efe_auto_old := False\<rparr>) t) enp) spec i spec False
     = Some (if rc = RC_OK then Inr i else Inl rc,
         ef10_put_table (put_entry i (if rc = RC_OK then \<lparr>efe_spec = Some spec, efe_busy = False, efe_auto_old = False, efe_handle = h'\<rparr>
            else \<lparr>efe_spec = None, efe_busy = False, efe_auto_old = False, efe_handle = h'\<rparr>) t) (ef10_put_mc m' enp))"
proof -
  let ?t = "put_entry i ((eft_entry t ! i)\<lparr>efe_spec := Some spec, efe_busy := False, efe_auto_old := False\<rparr>) t"
  have "ef10_has (ef10_put_table ?t enp) ?t" "i < length (eft_entry ?t)" "especs ?t i = Some spec"
    using has i by (simp_all add: put_entry_view)
  from program_ex [OF env this(1) ok this(2,3), of False] obtain rc h' m'
    where "ef10_filter_program env (ef10_put_table ?t enp) spec i spec False = Some (if rc = RC_OK then Inr i else Inl rc,
       ef10_put_table (put_entry i
         (if rc = RC_OK then (eft_entry ?t ! i)\<lparr>efe_spec := Some spec, efe_busy := False, efe_handle := h'\<rparr>
          else \<lparr>efe_spec = None, efe_busy = False, efe_auto_old = False, efe_handle = h'\<rparr>) ?t) (ef10_put_mc m' (ef10_put_table ?t enp)))"
    by (simp only: if_False) blast
  moreover have "(eft_entry ?t ! i)\<lparr>efe_spec := Some spec, efe_busy := False, efe_handle := h'\<rparr>
      = \<lparr>efe_spec = Some spec, efe_busy = False, efe_auto_old = False, efe_handle = h'\<rparr>"
    using i by (cases "eft_entry t ! i") (simp add: put_entry_nth)
  ultimately show ?thesis by (intro exI [of _ rc] exI [of _ h'] exI [of _ m']) (simp only: nic_put_simps put_entry_sel)
qed

text \<open>What \<open>ef10_filter_add_internal\<close> does to the table, for some answers of the allocator and the controller.\<close>

inductive add_step :: "ef10_filter_table \<Rightarrow> efx_filter_spec \<Rightarrow> bool \<Rightarrow> efx_rc + nat \<Rightarrow> ef10_filter_table \<Rightarrow> bool"
  for t spec may_replace where
  add_refused: "slot_for t spec may_replace None (spec_slots spec) = Inl rc \<Longrightarrow> add_step t spec may_replace (Inl rc) t"
| add_refreshed: "slot_for t spec may_replace None (spec_slots spec) = Inr i \<Longrightarrow> especs t i = Some s \<Longrightarrow> efs_priority s = EFX_FILTER_PRI_AUTO
    \<Longrightarrow> add_step t spec may_replace (Inr i) (put_entry i ((eft_entry t ! i)\<lparr>efe_auto_old := False\<rparr>) t)"
| add_nomem: "slot_for t spec may_replace None (spec_slots spec) = Inr i \<Longrightarrow> especs t i = None
    \<Longrightarrow> add_step t spec may_replace (Inl ENOMEM) t"
| add_new: "slot_for t spec may_replace None (spec_slots spec) = Inr i \<Longrightarrow> especs t i = None
    \<Longrightarrow> add_step t spec may_replace (Inr i) (put_entry i \<lparr>efe_spec = Some spec, efe_busy = False, efe_auto_old = False, efe_handle = h\<rparr> t)"
| add_replaced: "slot_for t spec may_replace None (spec_slots spec) = Inr i \<Longrightarrow> especs t i = Some s \<Longrightarrow> efs_priority s \<noteq> EFX_FILTER_PRI_AUTO
    \<Longrightarrow> add_step t spec may_replace (Inr i)
          (put_entry i ((eft_entry t ! i)\<lparr>efe_spec := Some (spec_replaced s spec), efe_busy := False, efe_handle := h\<rparr>) t)"
| add_dropped: "slot_for t spec may_replace None (spec_slots spec) = Inr i \<Longrightarrow> (\<And>s. especs t i = Some s \<Longrightarrow> efs_priority s \<noteq> EFX_FILTER_PRI_AUTO)
    \<Longrightarrow> rc \<noteq> RC_OK \<Longrightarrow> add_step t spec may_replace (Inl rc)
          (put_entry i \<lparr>efe_spec = None, efe_busy = False, efe_auto_old = False, efe_handle = h\<rparr> t)"

lemma slot_less:
  assumes "ef10_tbl_inv t" "slot_for t spec may_replace None (spec_slots spec) = Inr i"
  shows "i < length (eft_entry t)" "i \<in> set (spec_slots spec)"
  using slot_forD(1) [OF assms(2)] spec_slots_less tbl_invD(1) [OF assms(1)] by auto

lemma ef10_has_same [simp]: "ef10_has enp t \<Longrightarrow> ef10_put_table t enp = enp" "ef10_put_mc (ef_mc (fd_hw enp)) enp = enp"
  by (simp_all add: ef10_has_def ef10_get_table_def ef10_put_table_def ef10_put_mc_def)

text \<open>The parts of \<open>ef10_filter_add_internal\<close>, by what the search finds.\<close>

lemma add_internal_search:
  assumes has: "ef10_has enp t" and inv: "ef10_tbl_inv t" and ok: "spec_ok spec" and spec': "spec' = spec\<lparr>efs_rss_context := fd_rss_context enp\<rparr>"
  shows "ef10_filter_add_internal env enp spec may_replace =
    (case slot_for t spec' may_replace None (spec_slots spec') of
       Inl rc \<Rightarrow> Some (Inl rc, enp)
     | Inr i \<Rightarrow> (case especs t i of
         Some s \<Rightarrow> if efs_priority s = EFX_FILTER_PRI_AUTO
           then Some (Inr i, ef10_put_table (put_entry i ((eft_entry t ! i)\<lparr>efe_auto_old := False\<rparr>) t) enp)
           else ef10_filter_program env enp spec' i s True
       | None \<Rightarrow> (case env_alloc env (ef_mc (fd_hw enp)) of (good, m) \<Rightarrow>
           if good then ef10_filter_program env
             (ef10_put_table (put_entry i ((eft_entry t ! i)\<lparr>efe_spec := Some spec', efe_busy := False, efe_auto_old := False\<rparr>) t)
               (ef10_put_mc m enp)) spec' i spec' False
           else Some (Inl ENOMEM, ef10_put_mc m enp))))"
proof -
  have ok': "spec_ok spec'" using ok by (simp add: spec')
  have "\<forall>i\<in>set (spec_slots spec'). i < length (eft_entry t)" using spec_slots_less tbl_invD(1) [OF inv] by simp
  note search = search_wait_slot_for [OF ok' tbl_invD(6) [OF inv] this, of may_replace, folded spec_slots_def]
  show ?thesis
    using ef10_hasD(1,2) [OF has] ok' search slot_less [OF inv, of spec' may_replace]
    by (simp add: ef10_filter_add_internal_def spec' [symmetric] spec_slots_def [symmetric] Let_def split: sum.split option.split prod.split)
qed

lemma add_internal_step:
  assumes env: "mc_env_ok env" and has: "ef10_has enp t" and inv: "ef10_tbl_inv t" and ok: "spec_ok spec"
  obtains r t' m' where "ef10_filter_add_internal env enp spec may_replace = Some (r, ef10_put_table t' (ef10_put_mc m' enp))"
    "add_step t (spec\<lparr>efs_rss_context := fd_rss_context enp\<rparr>) may_replace r t'"
proof -
  define spec' where "spec' = spec\<lparr>efs_rss_context := fd_rss_context enp\<rparr>"
  have ok': "spec_ok spec'" using ok by (simp add: spec'_def)
  note eq = add_internal_search [OF has inv ok spec'_def, of env may_replace]
  have "\<exists>r t' m'. ef10_filter_add_internal env enp spec may_replace = Some (r, ef10_put_table t' (ef10_put_mc m' enp)) \<and> add_step t spec' may_replace r t'"
  proof (cases "slot_for t spec' may_replace None (spec_slots spec')")
    case (Inl rc)
    then show ?thesis using eq has add_refused [OF Inl]
      by (intro exI [of _ "Inl rc"] exI [of _ t] exI [of _ "ef_mc (fd_hw enp)"]) simp
  next
    case (Inr i)
    note i = slot_less(1) [OF inv Inr]
    show ?thesis
    proof (cases "especs t i")
      case None
      obtain good m where alloc: "env_alloc env (ef_mc (fd_hw enp)) = (good, m)" by fastforce
      from program_new [OF env _ ok' i, of "ef10_put_mc m enp"] has
      obtain rc h' m' where "ef10_filter_program env (ef10_put_table (put_entry i ((eft_entry t ! i)\<lparr>efe_spec := Some spec', efe_busy := False,
         efe_auto_old := False\<rparr>) t) (ef10_put_mc m enp)) spec' i spec' False = Some (if rc = RC_OK then Inr i else Inl rc,
         ef10_put_table (put_entry i (if rc = RC_OK then \<lparr>efe_spec = Some spec', efe_busy = False, efe_auto_old = False, efe_handle = h'\<rparr>
            else \<lparr>efe_spec = None, efe_busy = False, efe_auto_old = False, efe_handle = h'\<rparr>) t) (ef10_put_mc m' enp))"
        by auto
      moreover have ?thesis if "\<not> good"
        using eq Inr None alloc has that add_nomem [OF Inr None] by (intro exI [of _ "Inl ENOMEM"] exI [of _ t] exI [of _ m]) simp
      ultimately show ?thesis using eq Inr None alloc add_new [OF Inr None, of h'] add_dropped [OF Inr, of rc h']
        by (cases good; cases "rc = RC_OK") auto
    next
      case (Some s)
      show ?thesis
      proof (cases "efs_priority s = EFX_FILTER_PRI_AUTO")
        case True
        then show ?thesis using eq Inr Some add_refreshed [OF Inr Some]
          by (intro exI [of _ "Inr i"] exI [of _ "put_entry i ((eft_entry t ! i)\<lparr>efe_auto_old := False\<rparr>) t"] exI [of _ "ef_mc (fd_hw enp)"]) simp
      next
        case False
        from program_ex [OF env has ok' i Some, of True]
        obtain rc h' m' where "ef10_filter_program env enp spec' i s True = Some (if rc = RC_OK then Inr i else Inl rc, ef10_put_table (put_entry i
           (if rc = RC_OK then (eft_entry t ! i)\<lparr>efe_spec := Some (spec_replaced s spec'), efe_busy := False, efe_handle := h'\<rparr>
            else \<lparr>efe_spec = None, efe_busy = False, efe_auto_old = False, efe_handle = h'\<rparr>) t) (ef10_put_mc m' enp))"
          unfolding if_True by blast
        then show ?thesis using eq Inr Some False add_replaced [OF Inr Some False, of h'] add_dropped [OF Inr, of rc h']
          by (cases "rc = RC_OK") auto
      qed
    qed
  qed
  then show ?thesis using that unfolding spec'_def by blast
qed

text \<open>An installed filter of the automatic kind.\<close>

definition is_auto :: "ef10_filter_table \<Rightarrow> nat \<Rightarrow> bool" where
  "is_auto t i = (\<exists>s. especs t i = Some s \<and> efs_priority s = EFX_FILTER_PRI_AUTO)"

text \<open>The fields that an operation on one entry does not touch.\<close>

definition same_lists :: "ef10_filter_table \<Rightarrow> ef10_filter_table \<Rightarrow> bool" where
  "same_lists t t' = (eft_default_rxq t' = eft_default_rxq t \<and> eft_using_rss t' = eft_using_rss t
     \<and> eft_unicst_filter_indexes t' = eft_unicst_filter_indexes t \<and> eft_unicst_filter_count t' = eft_unicst_filter_count t
     \<and> eft_mulcst_filter_indexes t' = eft_mulcst_filter_indexes t \<and> eft_mulcst_filter_count t' = eft_mulcst_filter_count t
     \<and> eft_using_all_mulcst t' = eft_using_all_mulcst t)"

lemma same_lists_put [simp]: "same_lists t t" "same_lists t (put_entry i e t)"
  by (simp_all add: same_lists_def)

lemma add_step_lists: "add_step t spec may_replace r t' \<Longrightarrow> same_lists t t'"
  by (cases rule: add_step.cases) auto

lemma equal_replaced: "ef10_filter_equal (spec_replaced s spec) s" "spec_ok (spec_replaced s spec) = spec_ok s"
  by (simp_all add: spec_replaced_def)

lemma no_conflict_new:
  assumes inv: "ef10_tbl_inv t" and slot: "slot_for t spec may_replace None (spec_slots spec) = Inr i" "especs t i = None"
  shows "no_conflict t spec i"
  unfolding no_conflict_def
proof (intro impI allI)
  fix j s' assume "spec_excl spec" "especs t j = Some s'" "ef10_filter_equal spec s'"
  moreover from this have "j \<in> set (spec_slots spec)" using tbl_invD(8) [OF inv, of j s'] equal_slots [of spec s'] by simp
  moreover have "blocks t spec j" using calculation by (simp add: blocks_def)
  ultimately show "j = i" using slot_forD(3) [OF slot] by blast
qed

lemma no_conflict_replaced:
  assumes inv: "ef10_tbl_inv t" and s: "especs t i = Some s"
  shows "no_conflict t (spec_replaced s spec) i"
  unfolding no_conflict_def
proof (intro impI allI)
  fix j s' assume "spec_excl (spec_replaced s spec)" "especs t j = Some s'" "ef10_filter_equal (spec_replaced s spec) s'"
  moreover have "ef10_filter_equal (spec_replaced s spec) s" by (rule equal_replaced)
  ultimately have "spec_excl s" "ef10_filter_equal s s'" using equal_excl equal_sym equal_trans by blast+
  from tbl_invD(9) [OF inv s \<open>especs t j = Some s'\<close> this(2,1)] show "j = i" by simp
qed

lemma add_step_inv:
  assumes "add_step t spec may_replace r t'" and inv: "ef10_tbl_inv t" and ok: "spec_ok spec"
  shows "ef10_tbl_inv t'"
  using assms(1)
proof cases
  case (add_refreshed i s)
  from slot_less [OF inv add_refreshed(3)] tbl_invD(6) [OF inv, of i] show ?thesis unfolding add_refreshed(2)
    by (intro tbl_inv_put_same [OF inv]) (auto simp: especs_def ebusy_def)
next
  case (add_new i h)
  then show ?thesis using slot_less [OF inv add_new(3)] ok no_conflict_new [OF inv add_new(3,4)]
    by (auto intro!: tbl_inv_put_add [OF inv])
next
  case (add_replaced i s h)
  have "spec_ok (spec_replaced s spec)" "i \<in> set (spec_slots (spec_replaced s spec))"
    using tbl_invD(7,8) [OF inv add_replaced(4)] equal_replaced [of s spec] equal_slots [OF equal_replaced(1) [of s spec]] by simp_all
  then show ?thesis unfolding add_replaced(2) using no_conflict_replaced [OF inv add_replaced(4)]
    by (intro tbl_inv_put_add [OF inv]) simp_all
next
  case (add_dropped i rc h)
  then show ?thesis using slot_less [OF inv add_dropped(3)] by (auto intro!: tbl_inv_put_remove [OF inv])
qed (use inv in simp_all)

text \<open>Automatic filters survive, and no filter is marked as old.\<close>

lemma add_step_auto:
  assumes "add_step t spec may_replace r t'" and inv: "ef10_tbl_inv t"
  shows "is_auto t j \<Longrightarrow> especs t' j = especs t j" "eold t' j \<Longrightarrow> eold t j"
proof -
  from assms(1) have "(is_auto t j \<longrightarrow> especs t' j = especs t j) \<and> (eold t' j \<longrightarrow> eold t j)"
  proof cases
    case (add_replaced i s h)
    then show ?thesis using slot_less [OF inv add_replaced(3)] by (auto simp: put_entry_view is_auto_def eold_def)
  next
    case (add_refreshed i s)
    then show ?thesis using slot_less [OF inv add_refreshed(3)] by (auto simp: put_entry_view is_auto_def especs_def)
  next
    case (add_new i h)
    then show ?thesis using slot_less [OF inv add_new(3)] by (auto simp: put_entry_view is_auto_def)
  next
    case (add_dropped i rc h)
    then show ?thesis using slot_less [OF inv add_dropped(3)] by (auto simp: put_entry_view is_auto_def)
  qed simp_all
  then show "is_auto t j \<Longrightarrow> especs t' j = especs t j" "eold t' j \<Longrightarrow> eold t j" by blast+
qed

definition entry_same :: "ef10_filter_table \<Rightarrow> ef10_filter_table \<Rightarrow> nat \<Rightarrow> bool" where
  "entry_same t t' j = (especs t' j = especs t j \<and> eold t' j = eold t j)"

text \<open>An automatic filter that was added is there, fresh; a failure takes no automatic filter away.\<close>

lemma add_step_added:
  assumes "add_step t spec may_replace (Inr i) t'" and inv: "ef10_tbl_inv t" and auto: "efs_priority spec = EFX_FILTER_PRI_AUTO"
    and old: "\<And>j. eold t j \<Longrightarrow> is_auto t j"
  shows "i < EFX_EF10_FILTER_TBL_ROWS" "\<exists>s. especs t' i = Some s \<and> ef10_filter_equal spec s \<and> efs_priority s = EFX_FILTER_PRI_AUTO" "\<not> eold t' i"
    "j \<noteq> i \<Longrightarrow> entry_same t t' j"
proof -
  from assms(1) have "i < EFX_EF10_FILTER_TBL_ROWS
    \<and> (\<exists>s. especs t' i = Some s \<and> ef10_filter_equal spec s \<and> efs_priority s = EFX_FILTER_PRI_AUTO) \<and> \<not> eold t' i \<and> (j \<noteq> i \<longrightarrow> entry_same t t' j)"
  proof cases
    case (add_refreshed s)
    then show ?thesis using slot_less(1) [OF inv add_refreshed(2)] slot_forD(2) [OF add_refreshed(2,3)] tbl_invD(1) [OF inv]
      by (auto simp: put_entry_view entry_same_def especs_def)
  next
    case (add_new h)
    then show ?thesis using slot_less(1) [OF inv add_new(2)] auto tbl_invD(1) [OF inv] by (auto simp: put_entry_view entry_same_def)
  next
    case (add_replaced s h)
    have "\<not> eold t i" using old [of i] add_replaced(3,4) by (auto simp: is_auto_def)
    moreover have "ef10_filter_equal spec (spec_replaced s spec)"
      using slot_forD(2) [OF add_replaced(2,3)] equal_sym [OF equal_replaced(1)] by (blast intro: equal_trans)
    ultimately show ?thesis using slot_less(1) [OF inv add_replaced(2)] auto tbl_invD(1) [OF inv] unfolding add_replaced(1)
      by (auto simp: put_entry_view entry_same_def eold_def spec_replaced_def)
  qed
  then show "i < EFX_EF10_FILTER_TBL_ROWS" "\<exists>s. especs t' i = Some s \<and> ef10_filter_equal spec s \<and> efs_priority s = EFX_FILTER_PRI_AUTO"
    "\<not> eold t' i" "j \<noteq> i \<Longrightarrow> entry_same t t' j"
    by blast+
qed

lemma add_step_failed:
  assumes "add_step t spec may_replace (Inl rc) t'" and inv: "ef10_tbl_inv t" and old: "\<And>j. eold t j \<Longrightarrow> is_auto t j"
  shows "entry_same t t' j \<or> especs t' j = None \<and> \<not> eold t' j \<and> \<not> is_auto t j" "rc \<noteq> RC_OK"
proof -
  from assms(1) have "(entry_same t t' j \<or> especs t' j = None \<and> \<not> eold t' j \<and> \<not> is_auto t j) \<and> rc \<noteq> RC_OK"
  proof cases
    case add_refused
    then show ?thesis by (auto simp: entry_same_def slot_for_def split: option.splits if_splits)
  next
    case (add_dropped i h)
    then show ?thesis using slot_less(1) [OF inv add_dropped(2)] by (auto simp: put_entry_view entry_same_def is_auto_def)
  qed (simp_all add: entry_same_def)
  then show "entry_same t t' j \<or> especs t' j = None \<and> \<not> eold t' j \<and> \<not> is_auto t j" "rc \<noteq> RC_OK" by blast+
qed

text \<open>Removal empties the entry whatever the controller answers.\<close>

definition cleared :: "ef10_filter_entry \<Rightarrow> ef10_filter_entry" where
  "cleared e = e\<lparr>efe_spec := None, efe_busy := False, efe_auto_old := False\<rparr>"

lemma cleared_sel [simp]: "efe_spec (cleared e) = None" "\<not> efe_busy (cleared e)" "\<not> efe_auto_old (cleared e)" "efe_handle (cleared e) = efe_handle e"
  by (simp_all add: cleared_def)

lemma wait_idle: "i < length (eft_entry t) \<Longrightarrow> \<not> ebusy t i \<Longrightarrow> ef10_filter_wait t i = Some ()"
  by (subst ef10_filter_wait.simps) simp

lemma delete_internal_none:
  assumes "ef10_has enp t" "ef10_tbl_inv t" "i < EFX_EF10_FILTER_TBL_ROWS" "especs t i = None"
  shows "ef10_filter_delete_internal env enp i = Some (ENOENT, enp)"
  using assms tbl_invD(1,6) [OF assms(2)] ef10_hasD [OF assms(1)] by (simp add: ef10_filter_delete_internal_def wait_idle)

lemma delete_internal_some:
  assumes has: "ef10_has enp t" and inv: "ef10_tbl_inv t" and i: "i < EFX_EF10_FILTER_TBL_ROWS" "especs t i = Some s"
  obtains rc m' where
    "efx_mcdi_filter_op_delete env (ef10_put_table (put_entry i ((eft_entry t ! i)\<lparr>efe_busy := True\<rparr>) t) enp)
       (if spec_excl s then MC_CMD_FILTER_OP_IN_OP_REMOVE else MC_CMD_FILTER_OP_IN_OP_UNSUBSCRIBE) (ehandle t i)
     = Some (rc, ef10_put_mc m' (ef10_put_table (put_entry i ((eft_entry t ! i)\<lparr>efe_busy := True\<rparr>) t) enp))"
    "ef10_filter_delete_internal env enp i = Some (rc, ef10_put_table (put_entry i (cleared (eft_entry t ! i)) t) (ef10_put_mc m' enp))"
proof -
  let ?tb = "put_entry i ((eft_entry t ! i)\<lparr>efe_busy := True\<rparr>) t"
  have "mcdi_is_up (ef10_put_table ?tb enp)" using has by (simp add: ef10_has_def)
  then obtain rc m' where op: "efx_mcdi_filter_op_delete env (ef10_put_table ?tb enp)
       (if spec_excl s then MC_CMD_FILTER_OP_IN_OP_REMOVE else MC_CMD_FILTER_OP_IN_OP_UNSUBSCRIBE) (ehandle t i)
     = Some (rc, ef10_put_mc m' (ef10_put_table ?tb enp))"
    by (rule filter_op_delete_returns [OF _ add_op_in(3)])
  have "ef10_filter_delete_internal env enp i = Some (rc, ef10_put_table (put_entry i (cleared (eft_entry t ! i)) t) (ef10_put_mc m' enp))"
    using i op ef10_hasD(1) [OF has] tbl_invD(1,6) [OF inv] tbl_invD(7) [OF inv i(2)]
    by (simp add: ef10_filter_delete_internal_def wait_idle put_entry_nth ehandle_def cleared_def)
  with op that show ?thesis by blast
qed

text \<open>Both cases as a step on the table.\<close>

definition delete_step :: "ef10_filter_table \<Rightarrow> nat \<Rightarrow> ef10_filter_table" where
  "delete_step t i = (if especs t i = None then t else put_entry i (cleared (eft_entry t ! i)) t)"

lemma delete_internal_step:
  assumes has: "ef10_has enp t" and inv: "ef10_tbl_inv t" and i: "i < EFX_EF10_FILTER_TBL_ROWS"
  obtains rc m' where "ef10_filter_delete_internal env enp i = Some (rc, ef10_put_table (delete_step t i) (ef10_put_mc m' enp))"
proof (cases "especs t i")
  case None
  have "ef10_filter_delete_internal env enp i = Some (ENOENT, ef10_put_table (delete_step t i) (ef10_put_mc (ef_mc (fd_hw enp)) enp))"
    using delete_internal_none [OF has inv i None] has None by (simp add: delete_step_def)
  then show ?thesis by (rule that)
next
  case (Some s)
  show ?thesis by (rule delete_internal_some [OF has inv i Some]) (use that Some in \<open>auto simp: delete_step_def\<close>)
qed

lemma delete_step_lists [simp]: "same_lists t (delete_step t i)"
  by (simp add: delete_step_def)

lemma delete_step_inv: "ef10_tbl_inv t \<Longrightarrow> ef10_tbl_inv (delete_step t i)"
  by (cases "especs t i") (auto simp: delete_step_def dest: especs_less intro!: tbl_inv_put_remove)

lemma delete_step_view:
  "especs (delete_step t i) = (especs t)(i := None)" "eold (delete_step t i) j \<Longrightarrow> eold t j" "j \<noteq> i \<Longrightarrow> eold (delete_step t i) j = eold t j"
  by (cases "especs t i"; auto simp: delete_step_def put_entry_view dest!: especs_less split: if_splits)+

text \<open>The search for the filter to remove finds one with the same match and destination, if there is one.\<close>

lemma filter_lookup_find:
  "\<forall>i\<in>set slots. i < length (eft_entry t) \<Longrightarrow> ef10_filter_lookup t spec slots
    = Some (find (\<lambda>i. \<exists>s. especs t i = Some s \<and> ef10_filter_equal spec s \<and> ef10_filter_same_dest spec s) slots)"
  by (induction slots) (auto split: option.splits)

section \<open>Initialisation and restoring\<close>

lemma zero_table_view: "especs zero_table = Map.empty" "\<not> eold zero_table i" "\<not> ebusy zero_table i"
  by (auto simp: especs_def eold_def ebusy_def zero_table_def empty_entry_def fun_eq_iff)

lemma zero_table_inv: "ef10_tbl_inv zero_table"
  by (rule tbl_invI) (simp_all add: zero_table_view, simp_all add: zero_table_def)

text \<open>Restoring gives every filter a new handle, and stops with a busy entry at the first error.\<close>

definition restored_to :: "ef10_filter_table \<Rightarrow> ef10_filter_table \<Rightarrow> bool" where
  "restored_to t t' = (same_lists t t' \<and> length (eft_entry t') = length (eft_entry t) \<and> especs t' = especs t \<and> eold t' = eold t)"

lemma restored_to_put:
  assumes "i < length (eft_entry t)" "efe_spec e = especs t i" "efe_auto_old e = eold t i"
  shows "restored_to t (put_entry i e t)"
  using assms by (simp add: restored_to_def put_entry_view fun_upd_idem)

lemma restored_to_trans: "restored_to t t' \<Longrightarrow> restored_to t' t'' \<Longrightarrow> restored_to t t''"
  by (simp add: restored_to_def same_lists_def)

lemma restore_loop_returns:
  assumes env: "mc_env_ok env"
  shows "ef10_has enp t \<Longrightarrow> ef10_tbl_inv t \<Longrightarrow> \<forall>i\<in>set ids. i < EFX_EF10_FILTER_TBL_ROWS \<Longrightarrow>
    \<exists>rc t' m'. ef10_filter_restore_loop env enp ids = Some (rc, ef10_put_table t' (ef10_put_mc m' enp)) \<and> restored_to t t'
      \<and> (rc = RC_OK \<longrightarrow> ef10_tbl_inv t') \<and> (rc \<noteq> RC_OK \<longrightarrow> (\<exists>i\<in>set ids. ebusy t' i \<and> especs t' i \<noteq> None \<and> (\<forall>j. j \<noteq> i \<longrightarrow> \<not> ebusy t' j)))"
proof (induction ids arbitrary: enp t)
  case Nil
  then show ?case by (intro exI [of _ RC_OK] exI [of _ t] exI [of _ "ef_mc (fd_hw enp)"]) (simp add: restored_to_def)
next
  case (Cons i ids)
  note has = Cons.prems(1) note inv = Cons.prems(2)
  have i: "i < length (eft_entry t)" using Cons.prems tbl_invD(1) [OF inv] by simp
  show ?case
  proof (cases "especs t i")
    case None
    then have "ef10_filter_restore_loop env enp (i # ids) = ef10_filter_restore_loop env enp ids"
      using i ef10_hasD(1) [OF has] by simp
    moreover have "\<forall>i\<in>set ids. i < EFX_EF10_FILTER_TBL_ROWS" using Cons.prems(3) by simp
    from Cons.IH [OF has inv this] obtain rc t' m' where "ef10_filter_restore_loop env enp ids = Some (rc, ef10_put_table t' (ef10_put_mc m' enp))" "restored_to t t'"
      "rc = RC_OK \<longrightarrow> ef10_tbl_inv t'" "rc \<noteq> RC_OK \<longrightarrow> (\<exists>i\<in>set ids. ebusy t' i \<and> especs t' i \<noteq> None \<and> (\<forall>j. j \<noteq> i \<longrightarrow> \<not> ebusy t' j))"
      by blast
    ultimately show ?thesis by (intro exI [of _ rc] exI [of _ t'] exI [of _ m']) (simp only:, auto)
  next
    case (Some s)
    let ?e = "eft_entry t ! i"
    let ?tb = "put_entry i (?e\<lparr>efe_busy := True\<rparr>) t"
    have "mcdi_is_up (ef10_put_table ?tb enp)" using has by (simp add: ef10_has_def)
    then obtain rc h m where op: "efx_mcdi_filter_op_add env (ef10_put_table ?tb enp) s
        (if spec_excl s then MC_CMD_FILTER_OP_IN_OP_INSERT else MC_CMD_FILTER_OP_IN_OP_SUBSCRIBE) (ehandle t i)
        = Some (rc, h, ef10_put_mc m (ef10_put_table ?tb enp))"
      by (rule filter_op_add_returns [OF env _ tbl_invD(7) [OF inv Some] add_op_in(2)])
    let ?tn = "put_entry i (?e\<lparr>efe_busy := False, efe_handle := h\<rparr>) t"
    let ?tf = "put_entry i (?e\<lparr>efe_busy := True, efe_handle := h\<rparr>) t"
    have eq: "ef10_filter_restore_loop env enp (i # ids) = (if rc \<noteq> RC_OK then Some (rc, ef10_put_table ?tf (ef10_put_mc m enp))
        else ef10_filter_restore_loop env (ef10_put_table ?tn (ef10_put_mc m enp)) ids)"
      using i Some op ef10_hasD(1) [OF has] tbl_invD(6) [OF inv] tbl_invD(7) [OF inv Some]
      by (cases ?e) (simp add: put_entry_nth ehandle_def)
    have to: "restored_to t ?tn" "restored_to t ?tf" using i by (auto intro!: restored_to_put simp: especs_def eold_def)
    show ?thesis
    proof (cases "rc = RC_OK")
      case False
      have "ebusy ?tf i \<and> especs ?tf i \<noteq> None \<and> (\<forall>j. j \<noteq> i \<longrightarrow> \<not> ebusy ?tf j)"
        using i Some tbl_invD(6) [OF inv] by (simp add: put_entry_view) (simp add: especs_def)
      with False eq to(2) show ?thesis by (intro exI [of _ rc] exI [of _ ?tf] exI [of _ m]) simp
    next
      case True
      have "ef10_tbl_inv ?tn" using i by (auto intro!: tbl_inv_put_same [OF inv] simp: especs_def)
      moreover have "ef10_has (ef10_put_table ?tn (ef10_put_mc m enp)) ?tn" "\<forall>i\<in>set ids. i < EFX_EF10_FILTER_TBL_ROWS"
        using has Cons.prems(3) by simp_all
      ultimately obtain rc' t' m'
        where "ef10_filter_restore_loop env (ef10_put_table ?tn (ef10_put_mc m enp)) ids = Some (rc', ef10_put_table t' (ef10_put_mc m' enp))"
          "restored_to ?tn t'" "rc' = RC_OK \<longrightarrow> ef10_tbl_inv t'"
          "rc' \<noteq> RC_OK \<longrightarrow> (\<exists>i\<in>set ids. ebusy t' i \<and> especs t' i \<noteq> None \<and> (\<forall>j. j \<noteq> i \<longrightarrow> \<not> ebusy t' j))"
        using Cons.IH [of "ef10_put_table ?tn (ef10_put_mc m enp)" ?tn] unfolding nic_put_simps by blast
      then show ?thesis using eq True restored_to_trans [OF to(1)] by (intro exI [of _ rc'] exI [of _ t'] exI [of _ m']) auto
    qed
  qed
qed

end
