(* ===== verification/Efx_Ef10_Reconfig.thy ===== *)
theory Efx_Ef10_Reconfig
  imports Efx_Ef10_State
begin

text \<open>
  The reconfiguration of the station's filters: mark the old ones, insert, sweep what is still marked. The invariant of a pass
  and what every step does to it.
\<close>

section \<open>The NIC around the table\<close>

lemma view_update [simp]:
  "especs (t\<lparr>eft_unicst_filter_indexes := u\<rparr>) = especs t" "especs (t\<lparr>eft_unicst_filter_count := n\<rparr>) = especs t"
  "especs (t\<lparr>eft_mulcst_filter_indexes := u\<rparr>) = especs t" "especs (t\<lparr>eft_mulcst_filter_count := n\<rparr>) = especs t"
  "especs (t\<lparr>eft_using_all_mulcst := b\<rparr>) = especs t" "especs (t\<lparr>eft_using_rss := b\<rparr>) = especs t" "especs (t\<lparr>eft_default_rxq := q\<rparr>) = especs t"
  "eold (t\<lparr>eft_unicst_filter_indexes := u\<rparr>) = eold t" "eold (t\<lparr>eft_unicst_filter_count := n\<rparr>) = eold t"
  "eold (t\<lparr>eft_mulcst_filter_indexes := u\<rparr>) = eold t" "eold (t\<lparr>eft_mulcst_filter_count := n\<rparr>) = eold t"
  "eold (t\<lparr>eft_using_all_mulcst := b\<rparr>) = eold t" "eold (t\<lparr>eft_using_rss := b\<rparr>) = eold t" "eold (t\<lparr>eft_default_rxq := q\<rparr>) = eold t"
  "ebusy (t\<lparr>eft_unicst_filter_indexes := u\<rparr>) = ebusy t" "ebusy (t\<lparr>eft_unicst_filter_count := n\<rparr>) = ebusy t"
  "ebusy (t\<lparr>eft_mulcst_filter_indexes := u\<rparr>) = ebusy t" "ebusy (t\<lparr>eft_mulcst_filter_count := n\<rparr>) = ebusy t"
  "ebusy (t\<lparr>eft_using_all_mulcst := b\<rparr>) = ebusy t" "ebusy (t\<lparr>eft_using_rss := b\<rparr>) = ebusy t" "ebusy (t\<lparr>eft_default_rxq := q\<rparr>) = ebusy t"
  by (simp_all add: especs_def eold_def ebusy_def fun_eq_iff)

lemma tbl_inv_update:
  "ef10_tbl_inv t \<Longrightarrow> length u = EFX_EF10_FILTER_UNICAST_FILTERS_MAX \<Longrightarrow> n \<le> EFX_EF10_FILTER_UNICAST_FILTERS_MAX \<Longrightarrow>
    ef10_tbl_inv (t\<lparr>eft_unicst_filter_indexes := u, eft_unicst_filter_count := n\<rparr>)"
  "ef10_tbl_inv t \<Longrightarrow> length v = EFX_EF10_FILTER_MULTICAST_FILTERS_MAX \<Longrightarrow> ef10_tbl_inv (t\<lparr>eft_mulcst_filter_indexes := v\<rparr>)"
  "ef10_tbl_inv t \<Longrightarrow> n \<le> EFX_EF10_FILTER_UNICAST_FILTERS_MAX \<Longrightarrow> ef10_tbl_inv (t\<lparr>eft_unicst_filter_count := n\<rparr>)"
  "ef10_tbl_inv t \<Longrightarrow> k \<le> EFX_EF10_FILTER_MULTICAST_FILTERS_MAX \<Longrightarrow> ef10_tbl_inv (t\<lparr>eft_mulcst_filter_count := k\<rparr>)"
  "ef10_tbl_inv t \<Longrightarrow> ef10_tbl_inv (t\<lparr>eft_using_all_mulcst := b\<rparr>)"
  "ef10_tbl_inv t \<Longrightarrow> ef10_tbl_inv (t\<lparr>eft_using_rss := b, eft_default_rxq := q\<rparr>)"
  "ef10_tbl_inv t \<Longrightarrow> ef10_tbl_inv (t\<lparr>eft_default_rxq := q, eft_using_rss := b\<rparr>)"
  by (simp_all add: ef10_tbl_inv_def)

text \<open>An operation that changes no field of the NIC outside the family's part.\<close>

definition nic_keeps :: "'m ef10_nic \<Rightarrow> 'm ef10_nic \<Rightarrow> bool" where
  "nic_keeps enp enp' = (enp' = enp\<lparr>fd_hw := fd_hw enp'\<rparr>)"

lemma nic_keeps_refl [simp]: "nic_keeps enp enp" "nic_keeps enp (ef10_put_table t enp)" "nic_keeps enp (ef10_put_mc m enp)"
  "nic_keeps enp (ef10_set_workaround b enp)" "nic_keeps enp (ef10_put_table t (ef10_put_mc m enp))"
  by (simp_all add: nic_keeps_def ef10_put_table_def ef10_put_mc_def ef10_set_workaround_def)

lemma nic_keeps_trans: "nic_keeps a b \<Longrightarrow> nic_keeps b c \<Longrightarrow> nic_keeps a c"
  unfolding nic_keeps_def by (metis filter_dev.surjective filter_dev.update_convs(6))

lemma ef10_has_workaround [simp]: "ef10_has (ef10_set_workaround b enp) t = ef10_has enp t"
  by (simp add: ef10_has_def ef10_set_workaround_def ef10_get_table_def ef10_filter_family_def mcdi_is_up_def)

text \<open>A call comes back with a NIC whose table satisfies a predicate.\<close>

definition to_table :: "'m ef10_nic \<Rightarrow> (ef10_filter_table \<Rightarrow> bool) \<Rightarrow> 'm ef10_nic \<Rightarrow> bool" where
  "to_table enp P enp' = (nic_keeps enp enp' \<and> (\<exists>t'. ef10_has enp' t' \<and> P t'))"

lemma returns_pairE: assumes "returns (\<lambda>(a, b). P a b) m" obtains a b where "m = Some (a, b)" "P a b"
  using assms by (auto simp: returns_def)

lemma to_tableI: "ef10_has enp' t' \<Longrightarrow> nic_keeps enp enp' \<Longrightarrow> P t' \<Longrightarrow> to_table enp P enp'"
  by (auto simp: to_table_def)

lemma to_tableE: assumes "to_table enp P enp'" obtains t' where "ef10_has enp' t'" "nic_keeps enp enp'" "P t'"
  using assms by (auto simp: to_table_def)

lemma to_table_trans: "nic_keeps a b \<Longrightarrow> to_table b P c \<Longrightarrow> to_table a P c"
  by (auto simp: to_table_def dest: nic_keeps_trans)

lemma to_table_mono: "to_table a P b \<Longrightarrow> (\<And>t. P t \<Longrightarrow> Q t) \<Longrightarrow> to_table a Q b"
  by (auto simp: to_table_def)

section \<open>A pass\<close>

text \<open>An automatic filter for a unicast or multicast address.\<close>

definition mac_mc :: "efx_filter_spec \<Rightarrow> bool" where
  "mac_mc s = bit (efs_loc_mac s ! 0) 0"

definition auto_mac :: "ef10_filter_table \<Rightarrow> bool \<Rightarrow> nat \<Rightarrow> bool" where
  "auto_mac t mc i = (\<exists>s. especs t i = Some s \<and> efs_priority s = EFX_FILTER_PRI_AUTO \<and> mac_mc s = mc)"

text \<open>The tracked filters.\<close>

definition unicst_set :: "ef10_filter_table \<Rightarrow> nat set" where
  "unicst_set t = set (take (eft_unicst_filter_count t) (eft_unicst_filter_indexes t))"

definition mulcst_set :: "ef10_filter_table \<Rightarrow> nat set" where
  "mulcst_set t = set (take (eft_mulcst_filter_count t) (eft_mulcst_filter_indexes t))"

text \<open>
  The invariant of a pass: \<open>U\<close> and \<open>M\<close> are the filters inserted so far, none of them marked; \<open>K\<close> are old multicast filters still
  needed; each filter of \<open>Old\<close>, tracked before the pass, is gone, still marked, or inserted again.
\<close>

definition pass_inv :: "nat set \<Rightarrow> nat set \<Rightarrow> nat set \<Rightarrow> nat set \<Rightarrow> ef10_filter_table \<Rightarrow> bool" where
  "pass_inv Old U M K t = (ef10_tbl_inv t \<and> eft_default_rxq t \<noteq> None \<and> (\<forall>i. eold t i \<longrightarrow> is_auto t i)
     \<and> (\<forall>i\<in>U. auto_mac t False i \<and> \<not> eold t i) \<and> (\<forall>i\<in>M. auto_mac t True i \<and> \<not> eold t i) \<and> (\<forall>i\<in>K. auto_mac t True i)
     \<and> (\<forall>i\<in>Old. especs t i = None \<or> eold t i \<or> i \<in> U \<or> i \<in> M))"

lemma pass_invD:
  assumes "pass_inv Old U M K t"
  shows "ef10_tbl_inv t" "eft_default_rxq t \<noteq> None" "eold t i \<Longrightarrow> is_auto t i" "i \<in> U \<Longrightarrow> auto_mac t False i" "i \<in> U \<Longrightarrow> \<not> eold t i"
    "i \<in> M \<Longrightarrow> auto_mac t True i" "i \<in> M \<Longrightarrow> \<not> eold t i" "i \<in> K \<Longrightarrow> auto_mac t True i"
    "i \<in> Old \<Longrightarrow> especs t i = None \<or> eold t i \<or> i \<in> U \<or> i \<in> M"
  using assms unfolding pass_inv_def by blast+

lemma pass_invI:
  assumes "ef10_tbl_inv t" "eft_default_rxq t \<noteq> None" "\<And>i. eold t i \<Longrightarrow> is_auto t i" "\<And>i. i \<in> U \<Longrightarrow> auto_mac t False i \<and> \<not> eold t i"
    "\<And>i. i \<in> M \<Longrightarrow> auto_mac t True i \<and> \<not> eold t i" "\<And>i. i \<in> K \<Longrightarrow> auto_mac t True i"
    "\<And>i. i \<in> Old \<Longrightarrow> especs t i = None \<or> eold t i \<or> i \<in> U \<or> i \<in> M"
  shows "pass_inv Old U M K t"
  unfolding pass_inv_def using assms by simp

lemma auto_mac_auto: "auto_mac t mc i \<Longrightarrow> is_auto t i"
  by (auto simp: auto_mac_def is_auto_def)

lemma auto_mac_cong: "especs t' i = especs t i \<Longrightarrow> auto_mac t' mc i = auto_mac t mc i"
  by (simp add: auto_mac_def)

lemma equal_mac_mc: "ef10_filter_equal a b \<Longrightarrow> mac_mc a = mac_mc b"
  by (simp add: ef10_filter_equal_def mac_mc_def)

text \<open>Every automatic filter is still one after an insertion.\<close>

lemma add_step_auto_mac:
  assumes "add_step t spec may_replace r t'" "ef10_tbl_inv t" "auto_mac t mc i"
  shows "auto_mac t' mc i"
  using assms(3) auto_mac_cong [OF add_step_auto(1) [OF assms(1,2) auto_mac_auto [OF assms(3)]]] by simp

lemma pass_add_failed:
  assumes add: "add_step t spec may_replace (Inl rc) t'" and pass: "pass_inv Old U M K t" and ok: "spec_ok spec"
  shows "pass_inv Old U M K t'"
proof (rule pass_invI)
  note inv = pass_invD(1) [OF pass] note old = pass_invD(3) [OF pass]
  note same = add_step_failed(1) [OF add inv old] note auto = add_step_auto_mac [OF add inv] note keep = add_step_auto(2) [OF add inv]
  show "ef10_tbl_inv t'" by (rule add_step_inv [OF add inv ok])
  show "eft_default_rxq t' \<noteq> None" using add_step_lists [OF add] pass_invD(2) [OF pass] by (simp add: same_lists_def)
  show "is_auto t' i" if "eold t' i" for i using same [of i] that old [of i] by (auto simp: entry_same_def is_auto_def)
  show "auto_mac t' False i \<and> \<not> eold t' i" if "i \<in> U" for i using auto pass_invD(4,5) [OF pass that] keep by blast
  show "auto_mac t' True i \<and> \<not> eold t' i" if "i \<in> M" for i using auto pass_invD(6,7) [OF pass that] keep by blast
  show "auto_mac t' True i" if "i \<in> K" for i using auto pass_invD(8) [OF pass that] by blast
  show "especs t' i = None \<or> eold t' i \<or> i \<in> U \<or> i \<in> M" if "i \<in> Old" for i
    using same [of i] pass_invD(9) [OF pass that] by (auto simp: entry_same_def)
qed

lemma pass_add_done:
  assumes add: "add_step t spec may_replace (Inr i) t'" and pass: "pass_inv Old U M K t" and ok: "spec_ok spec"
    and auto: "efs_priority spec = EFX_FILTER_PRI_AUTO"
  shows "pass_inv Old (if mac_mc spec then U else insert i U) (if mac_mc spec then insert i M else M) K t'" "i < EFX_EF10_FILTER_TBL_ROWS"
proof -
  note inv = pass_invD(1) [OF pass] note old = pass_invD(3) [OF pass]
  note added = add_step_added [OF add inv auto old]
  note mac = add_step_auto_mac [OF add inv] note keep = add_step_auto(2) [OF add inv]
  have i: "auto_mac t' (mac_mc spec) i" using added(2) equal_mac_mc by (auto simp: auto_mac_def)
  show "i < EFX_EF10_FILTER_TBL_ROWS" by (rule added(1))
  show "pass_inv Old (if mac_mc spec then U else insert i U) (if mac_mc spec then insert i M else M) K t'"
  proof (rule pass_invI)
    show "ef10_tbl_inv t'" by (rule add_step_inv [OF add inv ok])
    show "eft_default_rxq t' \<noteq> None" using add_step_lists [OF add] pass_invD(2) [OF pass] by (simp add: same_lists_def)
    show "is_auto t' j" if "eold t' j" for j using added(4) [of j] that old [of j] added(3) by (cases "j = i") (auto simp: entry_same_def is_auto_def)
    show "auto_mac t' False j \<and> \<not> eold t' j" if "j \<in> (if mac_mc spec then U else insert i U)" for j
      using that i added(3) mac pass_invD(4,5) [OF pass, of j] keep by (auto split: if_splits)
    show "auto_mac t' True j \<and> \<not> eold t' j" if "j \<in> (if mac_mc spec then insert i M else M)" for j
      using that i added(3) mac pass_invD(6,7) [OF pass, of j] keep by (auto split: if_splits)
    show "auto_mac t' True j" if "j \<in> K" for j using mac pass_invD(8) [OF pass that] by blast
    show "especs t' j = None \<or> eold t' j \<or> j \<in> (if mac_mc spec then U else insert i U) \<or> j \<in> (if mac_mc spec then insert i M else M)"
      if "j \<in> Old" for j
      using added(4) [of j] pass_invD(9) [OF pass that] by (cases "j = i") (auto simp: entry_same_def)
  qed
qed

lemma pass_lists:
  assumes "pass_inv Old U M K t" "ef10_tbl_inv t'" "especs t' = especs t" "eold t' = eold t" "eft_default_rxq t' = eft_default_rxq t"
  shows "pass_inv Old U M K t'"
  using assms by (simp add: pass_inv_def is_auto_def auto_mac_def)

section \<open>Deleting\<close>

text \<open>The table after some filters were deleted.\<close>

definition deleted :: "nat set \<Rightarrow> ef10_filter_table \<Rightarrow> ef10_filter_table \<Rightarrow> bool" where
  "deleted D t t' = (ef10_tbl_inv t' \<and> same_lists t t' \<and> (\<forall>i. especs t' i = (if i \<in> D then None else especs t i))
     \<and> (\<forall>i. eold t' i \<longrightarrow> eold t i) \<and> (\<forall>i. i \<notin> D \<longrightarrow> eold t' i = eold t i)
     \<and> (\<forall>i\<in>D. especs t i \<noteq> None \<longrightarrow> \<not> eold t' i))"

lemma deletedD:
  assumes "deleted D t t'"
  shows "ef10_tbl_inv t'" "same_lists t t'" "especs t' i = (if i \<in> D then None else especs t i)" "eold t' i \<Longrightarrow> eold t i"
    "i \<notin> D \<Longrightarrow> eold t' i = eold t i" "i \<in> D \<Longrightarrow> especs t i \<noteq> None \<Longrightarrow> \<not> eold t' i"
  using assms by (simp_all add: deleted_def)

lemma deleted_empty: "ef10_tbl_inv t \<Longrightarrow> deleted {} t t"
  by (simp add: deleted_def)

lemma deleted_step: "ef10_tbl_inv t \<Longrightarrow> deleted {i} t (delete_step t i)"
  using delete_step_view [where t = t and i = i] delete_step_inv [of t i]
  by (auto simp: deleted_def delete_step_def put_entry_view dest: especs_less)

lemma deleted_trans:
  assumes a: "deleted D t t'" and b: "deleted D' t' t''"
  shows "deleted (D \<union> D') t t''"
  unfolding deleted_def
proof (intro conjI allI ballI impI)
  show "ef10_tbl_inv t''" by (rule deletedD(1) [OF b])
  show "same_lists t t''" using deletedD(2) [OF a] deletedD(2) [OF b] by (simp add: same_lists_def)
  show "especs t'' i = (if i \<in> D \<union> D' then None else especs t i)" for i using deletedD(3) [OF a, of i] deletedD(3) [OF b, of i] by simp
  show "eold t i" if "eold t'' i" for i using that deletedD(4) [OF a] deletedD(4) [OF b] by blast
  show "eold t'' i = eold t i" if "i \<notin> D \<union> D'" for i using that deletedD(5) [OF a, of i] deletedD(5) [OF b, of i] by simp
  show "\<not> eold t'' i" if "i \<in> D \<union> D'" "especs t i \<noteq> None" for i
    using that deletedD(3,6) [OF a, of i] deletedD(4,6) [OF b, of i] by (cases "i \<in> D") auto
qed

lemma delete_internal_deleted:
  assumes "ef10_has enp t" "ef10_tbl_inv t" "i < EFX_EF10_FILTER_TBL_ROWS"
  shows "returns (\<lambda>(_, enp'). to_table enp (deleted {i} t) enp') (ef10_filter_delete_internal env enp i)"
proof -
  obtain rc m where "ef10_filter_delete_internal env enp i = Some (rc, ef10_put_table (delete_step t i) (ef10_put_mc m enp))"
    by (rule delete_internal_step [OF assms, of env])
  moreover have "to_table enp (deleted {i} t) (ef10_put_table (delete_step t i) (ef10_put_mc m enp))"
    by (rule to_tableI [where t' = "delete_step t i"]) (use assms deleted_step [OF assms(2)] in simp_all)
  ultimately show ?thesis by simp
qed

lemma deleted_nth_index: "deleted D t t' \<Longrightarrow> eft_mulcst_filter_indexes t' = eft_mulcst_filter_indexes t"
  "deleted D t t' \<Longrightarrow> eft_unicst_filter_indexes t' = eft_unicst_filter_indexes t"
  by (simp_all add: deleted_def same_lists_def)

lemma delete_indexes_returns:
  assumes sel: "\<And>D a b. deleted D a b \<Longrightarrow> f b = f a"
  shows "ef10_has enp t \<Longrightarrow> ef10_tbl_inv t \<Longrightarrow> (\<And>i. i \<in> set is \<Longrightarrow> i < length (f t) \<and> f t ! i < EFX_EF10_FILTER_TBL_ROWS) \<Longrightarrow>
    returns (to_table enp (deleted (nth (f t) ` set is) t)) (ef10_delete_indexes env f is enp)"
proof (induction "is" arbitrary: enp t)
  case Nil
  then show ?case by (simp add: to_tableI deleted_empty)
next
  case (Cons i "is")
  have i: "i < length (f t)" "f t ! i < EFX_EF10_FILTER_TBL_ROWS" using Cons.prems(3) by simp_all
  obtain rc enp'
    where del: "ef10_filter_delete_internal env enp (f t ! i) = Some (rc, enp')" "to_table enp (deleted {f t ! i} t) enp'"
    by (rule returns_pairE [OF delete_internal_deleted [OF Cons.prems(1,2) i(2), of env]])
  from del(2) obtain t' where t': "ef10_has enp' t'" "nic_keeps enp enp'" "deleted {f t ! i} t t'" by (rule to_tableE)
  have "f t' = f t" using sel [OF t'(3)] .
  with Cons.IH [OF t'(1) deletedD(1) [OF t'(3)]] Cons.prems(3)
  have "returns (to_table enp' (deleted (nth (f t) ` set is) t')) (ef10_delete_indexes env f is enp')" by simp
  then have "returns (to_table enp (deleted ({f t ! i} \<union> nth (f t) ` set is) t)) (ef10_delete_indexes env f is enp')"
    by (rule returns_mono) (blast intro: to_table_trans [OF t'(2)] to_table_mono deleted_trans [OF t'(3)])
  then show ?case using i(1) del(1) ef10_hasD(1) [OF Cons.prems(1)] by simp
qed

text \<open>Sweeping: every marked filter goes.\<close>

lemma remove_old_loop_returns:
  "ef10_has enp t \<Longrightarrow> ef10_tbl_inv t \<Longrightarrow> \<forall>i\<in>set ids. i < EFX_EF10_FILTER_TBL_ROWS \<Longrightarrow> distinct ids \<Longrightarrow>
    returns (to_table enp (deleted {i \<in> set ids. eold t i} t)) (ef10_remove_old_loop env ids enp)"
proof (induction ids arbitrary: enp t)
  case Nil
  then show ?case by (simp add: to_tableI deleted_empty)
next
  case (Cons i ids)
  have i: "i < length (eft_entry t)" "i < EFX_EF10_FILTER_TBL_ROWS" using Cons.prems tbl_invD(1) by simp_all
  note has = ef10_hasD(1) [OF Cons.prems(1)]
  show ?case
  proof (cases "eold t i")
    case False
    have "{j \<in> set (i # ids). eold t j} = {j \<in> set ids. eold t j}" using False by auto
    moreover have "ef10_remove_old_loop env (i # ids) enp = ef10_remove_old_loop env ids enp" using False i has by simp
    ultimately show ?thesis using Cons.IH [OF Cons.prems(1,2)] Cons.prems(3,4) by simp
  next
    case True
    obtain rc enp'
      where del: "ef10_filter_delete_internal env enp i = Some (rc, enp')" "to_table enp (deleted {i} t) enp'"
      by (rule returns_pairE [OF delete_internal_deleted [OF Cons.prems(1,2) i(2), of env]])
    from del(2) obtain t' where t': "ef10_has enp' t'" "nic_keeps enp enp'" "deleted {i} t t'" by (rule to_tableE)
    have "{j \<in> set (i # ids). eold t j} = {i} \<union> {j \<in> set ids. eold t' j}"
      using True Cons.prems(4) deletedD(5) [OF t'(3)] by fastforce
    moreover have "returns (to_table enp' (deleted {j \<in> set ids. eold t' j} t')) (ef10_remove_old_loop env ids enp')"
      using Cons.IH [OF t'(1) deletedD(1) [OF t'(3)]] Cons.prems(3,4) by simp
    then have "returns (to_table enp (deleted ({i} \<union> {j \<in> set ids. eold t' j}) t)) (ef10_remove_old_loop env ids enp')"
      by (rule returns_mono) (blast intro: to_table_trans [OF t'(2)] to_table_mono deleted_trans [OF t'(3)])
    moreover have "ef10_remove_old_loop env (i # ids) enp = ef10_remove_old_loop env ids enp'" using True i has del(1) by simp
    ultimately show ?thesis by (simp only:)
  qed
qed

lemma eold_less: "ef10_tbl_inv t \<Longrightarrow> eold t i \<Longrightarrow> i < EFX_EF10_FILTER_TBL_ROWS"
  by (simp add: eold_def tbl_invD(1))

lemma remove_old_returns:
  assumes "ef10_has enp t" "ef10_tbl_inv t"
  shows "returns (to_table enp (deleted {i. eold t i} t)) (ef10_filter_remove_old env enp)"
proof -
  have "{i \<in> set [0..<EFX_EF10_FILTER_TBL_ROWS]. eold t i} = {i. eold t i}" using eold_less [OF assms(2)] by auto
  with remove_old_loop_returns [OF assms, of "[0..<EFX_EF10_FILTER_TBL_ROWS]" env] show ?thesis
    by (simp add: ef10_filter_remove_old_def)
qed

text \<open>What deletions do to the invariant of a pass.\<close>

lemma pass_deleted:
  assumes pass: "pass_inv Old U M K t" and del: "deleted D t t'" and D: "D \<inter> U = {}" "D \<inter> M' = {}" "M' \<subseteq> M" "M \<subseteq> M' \<union> D"
  shows "pass_inv Old U M' {} t'"
proof (rule pass_invI)
  note view = deletedD(3-5) [OF del]
  show "ef10_tbl_inv t'" by (rule deletedD(1) [OF del])
  show "eft_default_rxq t' \<noteq> None" using deletedD(2) [OF del] pass_invD(2) [OF pass] by (simp add: same_lists_def)
  show "is_auto t' i" if "eold t' i" for i
    using view(2) [OF that] pass_invD(3) [OF pass, of i] view(1) [of i] deletedD(6) [OF del, of i] that by (auto simp: is_auto_def)
  have same: "especs t' i = especs t i" "eold t' i = eold t i" if "i \<notin> D" for i using view that by simp_all
  show "auto_mac t' False i \<and> \<not> eold t' i" if "i \<in> U" for i
    using same [of i] pass_invD(4,5) [OF pass that] that D(1) auto_mac_cong [of t' i t] by blast
  show "auto_mac t' True i \<and> \<not> eold t' i" if "i \<in> M'" for i
    using same [of i] pass_invD(6,7) [OF pass, of i] that D(2,3) auto_mac_cong [of t' i t] by blast
  show "especs t' i = None \<or> eold t' i \<or> i \<in> U \<or> i \<in> M'" if "i \<in> Old" for i
    using same [of i] view(1) [of i] pass_invD(9) [OF pass that] D(4) by (cases "i \<in> D") auto
qed simp

section \<open>Inserting\<close>

text \<open>A last step of a specification that sets a unicast or multicast address.\<close>

definition match_ok :: "bool \<Rightarrow> (efx_filter_spec \<Rightarrow> (efx_rc \<times> efx_filter_spec) option) \<Rightarrow> bool" where
  "match_ok mc f = (\<forall>s. spec_ok s \<longrightarrow> efs_loc_mac s = replicate 6 0 \<longrightarrow>
     returns (\<lambda>(_, s'). spec_ok s' \<and> efs_priority s' = efs_priority s \<and> mac_mc s' = mc) (f s))"

lemma match_ok_uc_def: "match_ok False (\<lambda>s. Some (efx_filter_spec_set_uc_def s))"
  by (simp add: match_ok_def efx_filter_spec_set_uc_def_def spec_ok_def mac_mc_def)

lemma match_ok_mc_def: "match_ok True (\<lambda>s. Some (efx_filter_spec_set_mc_def s))"
  by (simp add: match_ok_def efx_filter_spec_set_mc_def_def spec_ok_def mac_mc_def)

lemma match_ok_eth:
  "6 \<le> length addr \<Longrightarrow> match_ok (bit (addr ! 0) 0) (\<lambda>s. efx_filter_spec_set_eth_local s EFX_FILTER_SPEC_VID_UNSPEC (Some addr))"
  by (simp add: match_ok_def efx_filter_spec_set_eth_local_def spec_ok_def mac_mc_def rd_range_def)

definition rx_flags_ok :: "6 word \<Rightarrow> bool" where
  "rx_flags_ok flags = (flags AND NOT (EFX_FILTER_FLAG_RX_RSS OR EFX_FILTER_FLAG_RX_SCATTER) = 0)"

lemma insert_auto_step:
  assumes env: "mc_env_ok env" and has: "ef10_has enp t" and inv: "ef10_tbl_inv t" and rxq: "eft_default_rxq t \<noteq> None"
    and flags: "rx_flags_ok flags" and f: "match_ok mc f"
  obtains r enp' t' spec where "ef10_filter_insert_auto env enp flags f = Some (r, enp')" "ef10_has enp' t'" "nic_keeps enp enp'"
    "add_step t spec True r t'" "spec_ok spec" "efs_priority spec = EFX_FILTER_PRI_AUTO" "mac_mc spec = mc"
proof -
  obtain q where q: "eft_default_rxq t = Some q" using rxq by blast
  let ?s = "zero_filter_spec\<lparr>efs_priority := EFX_FILTER_PRI_AUTO, efs_flags := EFX_FILTER_FLAG_RX OR flags,
       efs_rss_context := EFX_FILTER_SPEC_RSS_CONTEXT_DEFAULT, efs_dmaq_id := ucast (ucast q :: u16)\<rparr>"
  have "returns (\<lambda>(_, s'). spec_ok s' \<and> efs_priority s' = EFX_FILTER_PRI_AUTO \<and> mac_mc s' = mc) (f ?s)"
    using f [unfolded match_ok_def, rule_format, of ?s] by (simp add: spec_ok_def zero_filter_spec_def)
  then obtain rc s where s: "f ?s = Some (rc, s)" "spec_ok s \<and> efs_priority s = EFX_FILTER_PRI_AUTO \<and> mac_mc s = mc"
    by (rule returns_pairE)
  let ?s' = "s\<lparr>efs_rss_context := fd_rss_context enp\<rparr>"
  obtain r t' m' where add: "ef10_filter_add_internal env enp s True = Some (r, ef10_put_table t' (ef10_put_mc m' enp))" "add_step t ?s' True r t'"
    by (rule add_internal_step [OF env has inv]) (use s in blast)
  have "ef10_filter_insert_auto env enp flags f = ef10_filter_add_internal env enp s True"
    using ef10_hasD(1) [OF has] q flags s(1) by (simp add: ef10_filter_insert_auto_def efx_filter_spec_init_rx_def rx_flags_ok_def)
  with add(1) have "ef10_filter_insert_auto env enp flags f = Some (r, ef10_put_table t' (ef10_put_mc m' enp))" by simp
  moreover have "ef10_has (ef10_put_table t' (ef10_put_mc m' enp)) t'" using has by simp
  moreover have "spec_ok ?s'" "efs_priority ?s' = EFX_FILTER_PRI_AUTO" "mac_mc ?s' = mc" using s(2) by (simp_all add: mac_mc_def)
  ultimately show ?thesis using that add(2) by simp
qed

text \<open>An insertion inside a pass.\<close>

definition inserted :: "nat set \<Rightarrow> nat set \<Rightarrow> nat set \<Rightarrow> nat set \<Rightarrow> bool \<Rightarrow> ef10_filter_table \<Rightarrow> efx_rc + nat \<Rightarrow> ef10_filter_table \<Rightarrow> bool" where
  "inserted Old U M K mc t r t' = (same_lists t t' \<and> (case r of
       Inl rc \<Rightarrow> rc \<noteq> RC_OK \<and> pass_inv Old U M K t'
     | Inr i \<Rightarrow> i < EFX_EF10_FILTER_TBL_ROWS \<and> pass_inv Old (if mc then U else insert i U) (if mc then insert i M else M) K t'))"

lemma insert_auto_pass:
  assumes env: "mc_env_ok env" and has: "ef10_has enp t" and pass: "pass_inv Old U M K t" and flags: "rx_flags_ok flags" and f: "match_ok mc f"
  shows "returns (\<lambda>(r, enp'). to_table enp (inserted Old U M K mc t r) enp') (ef10_filter_insert_auto env enp flags f)"
proof -
  obtain r enp' t' spec where *: "ef10_filter_insert_auto env enp flags f = Some (r, enp')" "ef10_has enp' t'" "nic_keeps enp enp'"
    "add_step t spec True r t'" "spec_ok spec" "efs_priority spec = EFX_FILTER_PRI_AUTO" "mac_mc spec = mc"
    by (rule insert_auto_step [OF env has pass_invD(1,2) [OF pass] flags f])
  have "inserted Old U M K mc t r t'"
  proof (cases r)
    case (Inl rc)
    from pass_add_failed [OF *(4) [unfolded Inl] pass *(5)] add_step_failed(2) [OF *(4) [unfolded Inl] pass_invD(1,3) [OF pass]]
    show ?thesis using add_step_lists [OF *(4)] by (simp add: inserted_def Inl)
  next
    case (Inr i)
    from pass_add_done [OF *(4) [unfolded Inr] pass *(5,6)] show ?thesis using add_step_lists [OF *(4)] *(7) by (simp add: inserted_def Inr)
  qed
  with *(1-3) show ?thesis by (simp add: to_tableI)
qed

text \<open>The unicast filters.\<close>

definition same_mulcst :: "ef10_filter_table \<Rightarrow> ef10_filter_table \<Rightarrow> bool" where
  "same_mulcst t t' = (eft_default_rxq t' = eft_default_rxq t \<and> eft_using_rss t' = eft_using_rss t
     \<and> eft_mulcst_filter_indexes t' = eft_mulcst_filter_indexes t \<and> eft_mulcst_filter_count t' = eft_mulcst_filter_count t
     \<and> eft_using_all_mulcst t' = eft_using_all_mulcst t)"

lemma same_mulcst_trans: "same_mulcst a b \<Longrightarrow> same_mulcst b c \<Longrightarrow> same_mulcst a c"
  by (simp add: same_mulcst_def)

definition unicst_pass :: "nat set \<Rightarrow> nat set \<Rightarrow> nat set \<Rightarrow> nat \<Rightarrow> ef10_filter_table \<Rightarrow> bool" where
  "unicst_pass Old M K n t = (pass_inv Old (unicst_set t) M K t \<and> eft_unicst_filter_count t \<le> n)"

lemma unicst_set_same: "same_lists t t' \<Longrightarrow> unicst_set t' = unicst_set t"
  by (simp add: same_lists_def unicst_set_def)

lemma set_unicst_eq:
  assumes "ef10_tbl_inv t" "eft_unicst_filter_count t < EFX_EF10_FILTER_UNICAST_FILTERS_MAX"
  shows "ef10_set_unicst t i = Some (t\<lparr>eft_unicst_filter_indexes := (eft_unicst_filter_indexes t)[eft_unicst_filter_count t := i],
      eft_unicst_filter_count := eft_unicst_filter_count t + 1\<rparr>)"
    "unicst_set (t\<lparr>eft_unicst_filter_indexes := (eft_unicst_filter_indexes t)[eft_unicst_filter_count t := i],
      eft_unicst_filter_count := eft_unicst_filter_count t + 1\<rparr>) = insert i (unicst_set t)"
  using assms tbl_invD(2) [OF assms(1)] by (simp_all add: ef10_set_unicst_def unicst_set_def take_Suc_conv_app_nth)

lemma insert_unicst_returns:
  assumes env: "mc_env_ok env" and has: "ef10_has enp t" and pass: "unicst_pass Old M K n t" and n: "n < EFX_EF10_FILTER_UNICAST_FILTERS_MAX"
    and flags: "rx_flags_ok flags" and f: "match_ok False f"
  shows "returns (\<lambda>(rc, enp'). to_table enp (\<lambda>t'. unicst_pass Old M K (n + 1) t' \<and> same_mulcst t t') enp') (ef10_insert_unicst env enp flags f)"
proof -
  have p: "pass_inv Old (unicst_set t) M K t" "eft_unicst_filter_count t \<le> n" using pass by (simp_all add: unicst_pass_def)
  obtain r enp' where r: "ef10_filter_insert_auto env enp flags f = Some (r, enp')" "to_table enp (inserted Old (unicst_set t) M K False t r) enp'"
    by (rule returns_pairE [OF insert_auto_pass [OF env has p(1) flags f]])
  from r(2) obtain t' where t': "ef10_has enp' t'" "nic_keeps enp enp'" "inserted Old (unicst_set t) M K False t r t'" by (rule to_tableE)
  have lists: "same_lists t t'" using t'(3) by (simp add: inserted_def)
  have count: "eft_unicst_filter_count t' \<le> n" using lists p(2) by (simp add: same_lists_def)
  show ?thesis
  proof (cases r)
    case (Inl rc)
    then have "unicst_pass Old M K (n + 1) t' \<and> same_mulcst t t'"
      using t'(3) unicst_set_same [OF lists] count lists by (simp add: inserted_def unicst_pass_def same_lists_def same_mulcst_def)
    then show ?thesis using r(1) Inl to_tableI [OF t'(1,2)] by (simp add: ef10_insert_unicst_def)
  next
    case (Inr i)
    let ?t = "t'\<lparr>eft_unicst_filter_indexes := (eft_unicst_filter_indexes t')[eft_unicst_filter_count t' := i],
      eft_unicst_filter_count := eft_unicst_filter_count t' + 1\<rparr>"
    have ps: "pass_inv Old (insert i (unicst_set t)) M K t'" using t'(3) Inr by (simp add: inserted_def)
    note inv = pass_invD(1) [OF ps]
    note set = set_unicst_eq [OF inv le_less_trans [OF count n], of i]
    have "ef10_tbl_inv ?t" using inv count n by (intro tbl_inv_update(1)) (simp_all add: tbl_invD(2))
    from pass_lists [OF ps this] have "unicst_pass Old M K (n + 1) ?t \<and> same_mulcst t ?t"
      using set(2) unicst_set_same [OF lists] count lists by (simp add: unicst_pass_def same_lists_def same_mulcst_def)
    moreover have "ef10_has (ef10_put_table ?t enp') ?t" using t'(1) by simp
    moreover have "nic_keeps enp (ef10_put_table ?t enp')" using t'(2) nic_keeps_refl(2) by (rule nic_keeps_trans)
    ultimately have "to_table enp (\<lambda>t'. unicst_pass Old M K (n + 1) t' \<and> same_mulcst t t') (ef10_put_table ?t enp')" by (intro to_tableI)
    then show ?thesis using r(1) Inr set(1) ef10_hasD(1) [OF t'(1)] by (simp add: ef10_insert_unicst_def)
  qed
qed

text \<open>The multicast filters.\<close>

definition same_unicst :: "ef10_filter_table \<Rightarrow> ef10_filter_table \<Rightarrow> bool" where
  "same_unicst t t' = (eft_default_rxq t' = eft_default_rxq t \<and> eft_using_rss t' = eft_using_rss t
     \<and> eft_unicst_filter_indexes t' = eft_unicst_filter_indexes t \<and> eft_unicst_filter_count t' = eft_unicst_filter_count t)"

lemma same_unicst_trans: "same_unicst a b \<Longrightarrow> same_unicst b c \<Longrightarrow> same_unicst a c"
  by (simp add: same_unicst_def)

lemma same_unicst_lists: "same_lists t t' \<Longrightarrow> same_unicst t t'"
  by (simp add: same_lists_def same_unicst_def)

definition mulcst_pass :: "nat set \<Rightarrow> nat set \<Rightarrow> nat set \<Rightarrow> nat \<Rightarrow> ef10_filter_table \<Rightarrow> ef10_filter_table \<Rightarrow> bool" where
  "mulcst_pass Old U K n t t' = (pass_inv Old U (set (take n (eft_mulcst_filter_indexes t'))) K t' \<and> same_unicst t t')"

definition mc_addr :: "u8 list \<Rightarrow> bool" where
  "mc_addr a = (6 \<le> length a \<and> bit (a ! 0) 0)"

lemma mulcst_pass_store:
  assumes pass: "pass_inv Old U (insert i (set (take n (eft_mulcst_filter_indexes t)))) K t" and n: "n < EFX_EF10_FILTER_MULTICAST_FILTERS_MAX"
  shows "wr (eft_mulcst_filter_indexes t) n i = Some ((eft_mulcst_filter_indexes t)[n := i])"
    "pass_inv Old U (set (take (n + 1) ((eft_mulcst_filter_indexes t)[n := i]))) K (t\<lparr>eft_mulcst_filter_indexes := (eft_mulcst_filter_indexes t)[n := i]\<rparr>)"
proof -
  note inv = pass_invD(1) [OF pass] note len = tbl_invD(3) [OF inv]
  show "wr (eft_mulcst_filter_indexes t) n i = Some ((eft_mulcst_filter_indexes t)[n := i])" using n len by simp
  have "set (take (n + 1) ((eft_mulcst_filter_indexes t)[n := i])) = insert i (set (take n (eft_mulcst_filter_indexes t)))"
    using n len by (simp add: take_Suc_conv_app_nth)
  moreover have "ef10_tbl_inv (t\<lparr>eft_mulcst_filter_indexes := (eft_mulcst_filter_indexes t)[n := i]\<rparr>)"
    using inv len by (intro tbl_inv_update(2)) simp_all
  ultimately show "pass_inv Old U (set (take (n + 1) ((eft_mulcst_filter_indexes t)[n := i]))) K
      (t\<lparr>eft_mulcst_filter_indexes := (eft_mulcst_filter_indexes t)[n := i]\<rparr>)"
    using pass_lists [OF pass] by simp
qed

definition addresses_done :: "nat set \<Rightarrow> nat set \<Rightarrow> nat set \<Rightarrow> bool \<Rightarrow> nat \<Rightarrow> ef10_filter_table \<Rightarrow> 'm ef10_nic \<Rightarrow> efx_rc option \<times> nat \<times> 'm ef10_nic \<Rightarrow> bool"
  where "addresses_done Old U K rollback n t enp = (\<lambda>(stop, n', enp'). n' \<le> n \<and> (stop \<noteq> None \<longrightarrow> rollback \<and> stop \<noteq> Some RC_OK)
     \<and> to_table enp (mulcst_pass Old U K n' t) enp')"

lemma addresses_done_trans:
  "addresses_done Old U K rollback n t' enp' r \<Longrightarrow> nic_keeps enp enp' \<Longrightarrow> same_unicst t t' \<Longrightarrow> n \<le> n' \<Longrightarrow> addresses_done Old U K rollback n' t enp r"
  by (auto simp: addresses_done_def mulcst_pass_def elim!: to_table_trans [THEN to_table_mono] dest: same_unicst_trans)

lemma insert_addresses_returns:
  assumes env: "mc_env_ok env" and flags: "rx_flags_ok flags"
  shows "ef10_has enp t \<Longrightarrow> pass_inv Old U (set (take n (eft_mulcst_filter_indexes t))) K t \<Longrightarrow> \<forall>a\<in>set addrs. mc_addr a
    \<Longrightarrow> n + length addrs \<le> EFX_EF10_FILTER_MULTICAST_FILTERS_MAX
    \<Longrightarrow> returns (addresses_done Old U K rollback (n + length addrs) t enp) (ef10_insert_addresses env flags rollback addrs n enp)"
proof (induction addrs arbitrary: n enp t)
  case Nil
  then show ?case by (simp add: addresses_done_def mulcst_pass_def to_tableI same_unicst_def)
next
  case (Cons a addrs)
  note pass = Cons.prems(2)
  have a: "6 \<le> length a" "bit (a ! 0) 0" using Cons.prems(3) by (simp_all add: mc_addr_def)
  have f: "match_ok True (\<lambda>s. efx_filter_spec_set_eth_local s EFX_FILTER_SPEC_VID_UNSPEC (Some a))"
    using match_ok_eth [OF a(1)] a(2) by simp
  obtain r enp' where r: "ef10_filter_insert_auto env enp flags (\<lambda>s. efx_filter_spec_set_eth_local s EFX_FILTER_SPEC_VID_UNSPEC (Some a)) = Some (r, enp')"
      "to_table enp (inserted Old U (set (take n (eft_mulcst_filter_indexes t))) K True t r) enp'"
    by (rule returns_pairE [OF insert_auto_pass [OF env Cons.prems(1) pass flags f]])
  from r(2) obtain t' where t': "ef10_has enp' t'" "nic_keeps enp enp'" "inserted Old U (set (take n (eft_mulcst_filter_indexes t))) K True t r t'"
    by (rule to_tableE)
  have lists: "same_lists t t'" using t'(3) by (simp add: inserted_def)
  then have idx: "eft_mulcst_filter_indexes t' = eft_mulcst_filter_indexes t" by (simp add: same_lists_def)
  have addrs: "\<forall>a\<in>set addrs. mc_addr a" using Cons.prems(3) by simp
  show ?case
  proof (cases r)
    case (Inl rc)
    then have p: "pass_inv Old U (set (take n (eft_mulcst_filter_indexes t'))) K t'" "rc \<noteq> RC_OK" using t'(3) idx by (simp_all add: inserted_def)
    have "returns (addresses_done Old U K rollback (n + length addrs) t' enp') (ef10_insert_addresses env flags rollback addrs n enp')"
      using Cons.IH [OF t'(1) p(1) addrs] Cons.prems(4) by simp
    then have "returns (addresses_done Old U K rollback (n + length (a # addrs)) t enp) (ef10_insert_addresses env flags rollback addrs n enp')"
      by (rule returns_mono) (erule addresses_done_trans [OF _ t'(2) same_unicst_lists [OF lists]], simp)
    moreover have "addresses_done Old U K True (n + length (a # addrs)) t enp (Some rc, n, enp')"
      using to_tableI [OF t'(1,2), of "mulcst_pass Old U K n t"] p same_unicst_lists [OF lists] by (simp add: addresses_done_def mulcst_pass_def)
    ultimately show ?thesis using r(1) Inl by (cases rollback) simp_all
  next
    case (Inr i)
    let ?t = "t'\<lparr>eft_mulcst_filter_indexes := (eft_mulcst_filter_indexes t')[n := i]\<rparr>"
    have "pass_inv Old U (insert i (set (take n (eft_mulcst_filter_indexes t')))) K t'" using t'(3) Inr idx by (simp add: inserted_def)
    from mulcst_pass_store [OF this] Cons.prems(4)
    have wr: "wr (eft_mulcst_filter_indexes t') n i = Some ((eft_mulcst_filter_indexes t')[n := i])"
      and p: "pass_inv Old U (set (take (n + 1) (eft_mulcst_filter_indexes ?t))) K ?t" by simp_all
    have "returns (addresses_done Old U K rollback (n + 1 + length addrs) ?t (ef10_put_table ?t enp'))
        (ef10_insert_addresses env flags rollback addrs (n + 1) (ef10_put_table ?t enp'))"
      using Cons.IH [of "ef10_put_table ?t enp'" ?t "n + 1"] t'(1) p addrs Cons.prems(4) by simp
    moreover have "same_unicst t ?t" using same_unicst_lists [OF lists] by (simp add: same_unicst_def)
    moreover have "nic_keeps enp (ef10_put_table ?t enp')" using t'(2) nic_keeps_refl(2) by (rule nic_keeps_trans)
    ultimately have "returns (addresses_done Old U K rollback (n + length (a # addrs)) t enp)
        (ef10_insert_addresses env flags rollback addrs (n + 1) (ef10_put_table ?t enp'))"
      by (elim returns_mono) (erule addresses_done_trans, simp_all)
    then show ?thesis using r(1) Inr wr ef10_hasD(1) [OF t'(1)] by simp
  qed
qed

text \<open>The addresses of the caller: the list in memory, and the number of them.\<close>

definition mc_list :: "u8 list \<Rightarrow> u32 \<Rightarrow> bool" where
  "mc_list addrs count = (unat count \<le> EFX_MAC_MULTICAST_LIST_MAX \<and> 6 * unat count \<le> length addrs \<and> (\<forall>i<unat count. bit (addrs ! (6 * i)) 0))"

lemma mac_addresses_ok: "mc_list addrs count \<Longrightarrow> \<forall>a\<in>set (mac_addresses addrs (unat count)). mc_addr a"
  by (auto simp: mc_list_def mac_addresses_def mc_addr_def mult.commute)

lemma list_addresses_ok:
  assumes "mc_list addrs count"
  shows "\<forall>a\<in>set (mac_addresses addrs (unat (if mulcst then count else 0)) @ (if brdcst then [replicate 6 0xff] else [])). mc_addr a"
    "length (mac_addresses addrs (unat (if mulcst then count else 0)) @ (if brdcst then [replicate 6 (0xff :: u8)] else [])) \<le> EFX_EF10_FILTER_MULTICAST_FILTERS_MAX"
    "\<not> of_nat EFX_EF10_FILTER_MULTICAST_FILTERS_MAX < (if mulcst then count else 0) + (if brdcst then 1 else 0)"
proof -
  have "mc_addr (replicate 6 0xff)" by (simp add: mc_addr_def)
  with mac_addresses_ok [OF assms]
  show "\<forall>a\<in>set (mac_addresses addrs (unat (if mulcst then count else 0)) @ (if brdcst then [replicate 6 0xff] else [])). mc_addr a"
    by (auto simp: mac_addresses_def)
  show "length (mac_addresses addrs (unat (if mulcst then count else 0)) @ (if brdcst then [replicate 6 (0xff :: u8)] else [])) \<le> EFX_EF10_FILTER_MULTICAST_FILTERS_MAX"
    using assms by (simp add: mc_list_def mac_addresses_def EFX_EF10_FILTER_MULTICAST_FILTERS_MAX_def)
  have "unat count \<le> 256" using assms by (simp add: mc_list_def EFX_MAC_MULTICAST_LIST_MAX_def)
  then have "unat ((if mulcst then count else 0) + (if brdcst then 1 else 0)) \<le> 257"
    by (simp add: unat_word_ariths)
  then show "\<not> of_nat EFX_EF10_FILTER_MULTICAST_FILTERS_MAX < (if mulcst then count else 0) + (if brdcst then 1 else 0)"
    by (simp add: word_less_nat_alt EFX_EF10_FILTER_MULTICAST_FILTERS_MAX_def EFX_MAC_MULTICAST_LIST_MAX_def)
qed

definition list_done :: "nat set \<Rightarrow> nat set \<Rightarrow> bool \<Rightarrow> ef10_filter_table \<Rightarrow> 'm ef10_nic \<Rightarrow> efx_rc \<times> 'm ef10_nic \<Rightarrow> bool" where
  "list_done Old U rollback t enp = (\<lambda>(rc, enp'). (rc \<noteq> RC_OK \<longrightarrow> rollback)
     \<and> to_table enp (\<lambda>t'. pass_inv Old U (mulcst_set t') {} t' \<and> (rc \<noteq> RC_OK \<longrightarrow> mulcst_set t' = {}) \<and> same_unicst t t') enp')"

lemma auto_mac_disjoint: "pass_inv Old U M K t \<Longrightarrow> M \<inter> U = {}"
  unfolding pass_inv_def auto_mac_def by fastforce

lemma insert_multicast_list_returns:
  assumes env: "mc_env_ok env" and flags: "rx_flags_ok flags" and has: "ef10_has enp t" and pass: "pass_inv Old U {} {} t" and list: "mc_list addrs count"
  shows "returns (list_done Old U rollback t enp) (ef10_filter_insert_multicast_list env enp mulcst brdcst addrs count flags rollback)"
proof -
  let ?addrs = "mac_addresses addrs (unat (if mulcst then count else 0)) @ (if brdcst then [replicate 6 0xff] else [])"
  note ok = list_addresses_ok [OF list, of mulcst brdcst]
  have "returns (addresses_done Old U {} rollback (0 + length ?addrs) t enp) (ef10_insert_addresses env flags rollback ?addrs 0 enp)"
    by (rule insert_addresses_returns [OF env flags has _ ok(1)]) (use pass ok(2) in simp_all)
  then obtain stop n enp' where r: "ef10_insert_addresses env flags rollback ?addrs 0 enp = Some (stop, n, enp')"
      "n \<le> length ?addrs" "stop \<noteq> None \<longrightarrow> rollback \<and> stop \<noteq> Some RC_OK" "to_table enp (mulcst_pass Old U {} n t) enp'"
    by (auto simp: addresses_done_def returns_def)
  from r(4) obtain t' where t': "ef10_has enp' t'" "nic_keeps enp enp'" "mulcst_pass Old U {} n t t'" by (rule to_tableE)
  have p: "pass_inv Old U (set (take n (eft_mulcst_filter_indexes t'))) {} t'" "same_unicst t t'" using t'(3) by (simp_all add: mulcst_pass_def)
  note inv = pass_invD(1) [OF p(1)] have n: "n \<le> EFX_EF10_FILTER_MULTICAST_FILTERS_MAX" using r(2) ok(2) by simp
  show ?thesis
  proof (cases stop)
    case None
    let ?t = "t'\<lparr>eft_mulcst_filter_count := n, eft_using_all_mulcst := False\<rparr>"
    have "ef10_tbl_inv ?t" using tbl_inv_update(5) [OF tbl_inv_update(4) [OF inv n]] .
    then have "pass_inv Old U (mulcst_set ?t) {} ?t" using pass_lists [OF p(1)] by (simp add: mulcst_set_def)
    moreover have "ef10_has (ef10_put_table ?t enp') ?t" "nic_keeps enp (ef10_put_table ?t enp')" "same_unicst t ?t"
      using t'(1) nic_keeps_trans [OF t'(2) nic_keeps_refl(2)] p(2) by (simp_all add: same_unicst_def)
    ultimately have "list_done Old U rollback t enp (RC_OK, ef10_put_table ?t enp')" by (simp add: list_done_def to_tableI)
    then show ?thesis using r(1) ok(3) None ef10_hasD(1) [OF t'(1)] by (simp add: ef10_filter_insert_multicast_list_def)
  next
    case (Some rc)
    then have rc: "rollback" "rc \<noteq> RC_OK" using r(3) by simp_all
    let ?D = "nth (eft_mulcst_filter_indexes t') ` set (rev [0..<n])"
    have D: "?D = set (take n (eft_mulcst_filter_indexes t'))" 
      using nth_image [of n "eft_mulcst_filter_indexes t'"] n tbl_invD(3) [OF inv] by simp
    have "i < EFX_EF10_FILTER_TBL_ROWS" if "i \<in> set (take n (eft_mulcst_filter_indexes t'))" for i
      using pass_invD(6) [OF p(1) that] especs_less [of t' i] tbl_invD(1) [OF inv] by (auto simp: auto_mac_def)
    moreover have "eft_mulcst_filter_indexes t' ! i \<in> ?D" if "i < n" for i using that by simp
    ultimately have "eft_mulcst_filter_indexes t' ! i < EFX_EF10_FILTER_TBL_ROWS" if "i < n" for i using that unfolding D by blast
    then have "returns (to_table enp' (deleted ?D t')) (ef10_delete_indexes env eft_mulcst_filter_indexes (rev [0..<n]) enp')"
      using n tbl_invD(3) [OF inv] by (intro delete_indexes_returns [OF deleted_nth_index(1) t'(1) inv]) simp_all
    then obtain enp'' where del: "ef10_delete_indexes env eft_mulcst_filter_indexes (rev [0..<n]) enp' = Some enp''" "to_table enp' (deleted ?D t') enp''"
      by (rule returnsE)
    from del(2) obtain t'' where t'': "ef10_has enp'' t''" "nic_keeps enp' enp''" "deleted ?D t' t''" by (rule to_tableE)
    let ?t = "t''\<lparr>eft_mulcst_filter_count := 0\<rparr>"
    have "pass_inv Old U {} {} t''" by (rule pass_deleted [OF p(1) t''(3)]) (use auto_mac_disjoint [OF p(1)] D in simp_all)
    then have "pass_inv Old U (mulcst_set ?t) {} ?t" using pass_lists [OF _ tbl_inv_update(4) [OF deletedD(1) [OF t''(3)]]] by (simp add: mulcst_set_def)
    moreover have "ef10_has (ef10_put_table ?t enp'') ?t" "nic_keeps enp (ef10_put_table ?t enp'')" "same_unicst t ?t" "mulcst_set ?t = {}"
      using t''(1) nic_keeps_trans [OF nic_keeps_trans [OF t'(2) t''(2)] nic_keeps_refl(2)] p(2) same_unicst_lists [OF deletedD(2) [OF t''(3)]]
      by (simp_all add: same_unicst_def mulcst_set_def)
    ultimately have "list_done Old U rollback t enp (rc, ef10_put_table ?t enp'')" using rc by (simp add: list_done_def to_tableI)
    then show ?thesis using r(1) ok(3) Some del(1) ef10_hasD(1) [OF t''(1)] by (simp add: ef10_filter_insert_multicast_list_def)
  qed
qed

lemma insert_all_multicast_returns:
  assumes env: "mc_env_ok env" and flags: "rx_flags_ok flags" and has: "ef10_has enp t" and pass: "pass_inv Old U {} {} t"
  shows "returns (\<lambda>(rc, enp'). to_table enp (\<lambda>t'. same_unicst t t' \<and>
      (if rc = RC_OK then pass_inv Old U (mulcst_set t') {} t' else pass_inv Old U {} {} t')) enp') (ef10_filter_insert_all_multicast env enp flags)"
proof -
  obtain r enp' where r: "ef10_filter_insert_auto env enp flags (\<lambda>spec. Some (efx_filter_spec_set_mc_def spec)) = Some (r, enp')"
      "to_table enp (inserted Old U {} {} True t r) enp'"
    by (rule returns_pairE [OF insert_auto_pass [OF env has pass flags match_ok_mc_def]])
  from r(2) obtain t' where t': "ef10_has enp' t'" "nic_keeps enp enp'" "inserted Old U {} {} True t r t'" by (rule to_tableE)
  have lists: "same_unicst t t'" using t'(3) same_unicst_lists by (simp add: inserted_def)
  show ?thesis
  proof (cases r)
    case (Inl rc)
    then have "pass_inv Old U {} {} t'" "rc \<noteq> RC_OK" using t'(3) by (simp_all add: inserted_def)
    then show ?thesis using r(1) Inl to_tableI [OF t'(1,2)] lists by (simp add: ef10_filter_insert_all_multicast_def)
  next
    case (Inr i)
    let ?idx = "(eft_mulcst_filter_indexes t')[0 := i]"
    let ?t = "t'\<lparr>eft_mulcst_filter_indexes := ?idx, eft_mulcst_filter_count := 1, eft_using_all_mulcst := True\<rparr>"
    have p: "pass_inv Old U {i} {} t'" using t'(3) Inr by (simp add: inserted_def)
    note inv = pass_invD(1) [OF p]
    have len: "0 < length (eft_mulcst_filter_indexes t')"
      using tbl_invD(3) [OF inv] by (simp add: EFX_EF10_FILTER_MULTICAST_FILTERS_MAX_def)
    have "ef10_tbl_inv ?t" using inv tbl_invD(3) [OF inv]
      by (intro tbl_inv_update(2,4,5)) (simp_all add: EFX_EF10_FILTER_MULTICAST_FILTERS_MAX_def)
    then have "pass_inv Old U (mulcst_set ?t) {} ?t" using pass_lists [OF p] len by (cases "eft_mulcst_filter_indexes t'") (simp_all add: mulcst_set_def)
    moreover have "ef10_has (ef10_put_table ?t enp') ?t" "nic_keeps enp (ef10_put_table ?t enp')" "same_unicst t ?t"
      using t'(1) nic_keeps_trans [OF t'(2) nic_keeps_refl(2)] lists by (simp_all add: same_unicst_def)
    ultimately show ?thesis using r(1) Inr len ef10_hasD(1) [OF t'(1)] by (simp add: ef10_filter_insert_all_multicast_def to_tableI)
  qed
qed

section \<open>Marks\<close>

definition marked :: "nat set \<Rightarrow> ef10_filter_table \<Rightarrow> ef10_filter_table \<Rightarrow> bool" where
  "marked D t t' = (ef10_tbl_inv t' \<and> same_lists t t' \<and> especs t' = especs t \<and> (\<forall>i. eold t' i = (eold t i \<or> i \<in> D)))"

lemma mark_old_returns:
  assumes sel: "\<And>D a b. marked D a b \<Longrightarrow> f b = f a"
  shows "ef10_tbl_inv t \<Longrightarrow> (\<And>i. i \<in> set is \<Longrightarrow> i < length (f t) \<and> especs t (f t ! i) \<noteq> None) \<Longrightarrow>
    returns (marked (nth (f t) ` set is) t) (ef10_mark_old f is t)"
proof (induction "is" arbitrary: t)
  case Nil
  then show ?case by (simp add: marked_def)
next
  case (Cons i "is")
  let ?j = "f t ! i"
  have i: "i < length (f t)" "especs t ?j \<noteq> None" using Cons.prems(2) by simp_all
  then have j: "?j < length (eft_entry t)" by (auto dest: especs_less)
  let ?t = "put_entry ?j ((eft_entry t ! ?j)\<lparr>efe_auto_old := True\<rparr>) t"
  have e: "efe_spec (eft_entry t ! ?j) = especs t ?j" "\<not> efe_busy (eft_entry t ! ?j)"
    using j tbl_invD(6) [OF Cons.prems(1), of ?j] by (simp_all add: especs_def ebusy_def)
  have inv: "ef10_tbl_inv ?t" using e by (intro tbl_inv_put_same [OF Cons.prems(1) j]) simp_all
  have view: "especs ?t = especs t" "eold ?t = (eold t)(?j := True)" using j e(1) by (simp_all add: put_entry_view fun_upd_idem)
  then have m: "marked {?j} t ?t" using inv by (simp add: marked_def)
  note same = sel [OF m]
  have "returns (marked (nth (f ?t) ` set is) ?t) (ef10_mark_old f is ?t)"
    by (rule Cons.IH [OF inv]) (use Cons.prems(2) view(1) same in simp)
  then have "returns (marked (nth (f t) ` set (i # is)) t) (ef10_mark_old f is ?t)"
    by (rule returns_mono) (use same view in \<open>auto simp: marked_def same_lists_def\<close>)
  then show ?case using i j by simp
qed

lemma clear_old_returns:
  "ef10_tbl_inv t \<Longrightarrow> (\<And>i. eold t i \<Longrightarrow> especs t i \<noteq> None) \<Longrightarrow> \<forall>i\<in>set ids. i < EFX_EF10_FILTER_TBL_ROWS \<Longrightarrow>
    returns (\<lambda>t'. ef10_tbl_inv t' \<and> same_lists t t' \<and> especs t' = especs t \<and> (\<forall>i. eold t' i = (eold t i \<and> i \<notin> set ids))) (ef10_clear_old ids t)"
proof (induction ids arbitrary: t)
  case Nil
  then show ?case by simp
next
  case (Cons i ids)
  have i: "i < length (eft_entry t)" using Cons.prems tbl_invD(1) by simp
  show ?case
  proof (cases "eold t i")
    case False
    have "returns (\<lambda>t'. ef10_tbl_inv t' \<and> same_lists t t' \<and> especs t' = especs t \<and> (\<forall>i. eold t' i = (eold t i \<and> i \<notin> set ids))) (ef10_clear_old ids t)"
      using Cons.IH [OF Cons.prems(1,2)] Cons.prems(3) by simp
    then show ?thesis using i False by (auto elim!: returns_mono)
  next
    case True
    let ?t = "put_entry i ((eft_entry t ! i)\<lparr>efe_auto_old := False\<rparr>) t"
    have e: "efe_spec (eft_entry t ! i) = especs t i" "\<not> efe_busy (eft_entry t ! i)"
      using i tbl_invD(6) [OF Cons.prems(1), of i] by (simp_all add: especs_def ebusy_def)
    have inv: "ef10_tbl_inv ?t" using e by (intro tbl_inv_put_same [OF Cons.prems(1) i]) simp_all
    have view: "especs ?t = especs t" "eold ?t = (eold t)(i := False)" using i e(1) by (simp_all add: put_entry_view fun_upd_idem)
    have "returns (\<lambda>t'. ef10_tbl_inv t' \<and> same_lists ?t t' \<and> especs t' = especs ?t \<and> (\<forall>j. eold t' j = (eold ?t j \<and> j \<notin> set ids))) (ef10_clear_old ids ?t)"
      by (rule Cons.IH [OF inv]) (use Cons.prems view in \<open>auto split: if_splits\<close>)
    then have "returns (\<lambda>t'. ef10_tbl_inv t' \<and> same_lists t t' \<and> especs t' = especs t \<and> (\<forall>j. eold t' j = (eold t j \<and> j \<notin> set (i # ids)))) (ef10_clear_old ids ?t)"
      by (rule returns_mono) (use view in \<open>auto simp: same_lists_def\<close>)
    then show ?thesis using i True Cons.prems(2) [OF True] by simp
  qed
qed

section \<open>The whole reconfiguration\<close>

text \<open>
  Between operations no filter is marked, and every tracked filter is an automatic one for an address of its kind.
\<close>

definition ef10_idle :: "ef10_filter_table \<Rightarrow> bool" where
  "ef10_idle t = (ef10_tbl_inv t \<and> (\<forall>i. \<not> eold t i) \<and> (\<forall>i\<in>unicst_set t. auto_mac t False i) \<and> (\<forall>i\<in>mulcst_set t. auto_mac t True i))"

lemma ef10_idleD: "ef10_idle t \<Longrightarrow> ef10_tbl_inv t" "ef10_idle t \<Longrightarrow> \<not> eold t i" "ef10_idle t \<Longrightarrow> i \<in> unicst_set t \<Longrightarrow> auto_mac t False i"
  "ef10_idle t \<Longrightarrow> i \<in> mulcst_set t \<Longrightarrow> auto_mac t True i"
  by (simp_all add: ef10_idle_def)

text \<open>The fields of a pass: its start, its two ends.\<close>

lemma marked_sel: "marked D a b \<Longrightarrow> eft_unicst_filter_indexes b = eft_unicst_filter_indexes a"
  "marked D a b \<Longrightarrow> eft_mulcst_filter_indexes b = eft_mulcst_filter_indexes a"
  by (simp_all add: marked_def same_lists_def)

lemma set_take_nth: "n \<le> length xs \<Longrightarrow> nth xs ` set [0..<n] = set (take n xs)"
  using nth_image [of n xs] by simp

lemma idle_nth:
  assumes "ef10_idle t"
  shows "i < eft_unicst_filter_count t \<Longrightarrow> i < length (eft_unicst_filter_indexes t) \<and> auto_mac t False (eft_unicst_filter_indexes t ! i)"
    "i < eft_mulcst_filter_count t \<Longrightarrow> i < length (eft_mulcst_filter_indexes t) \<and> auto_mac t True (eft_mulcst_filter_indexes t ! i)"
  using assms tbl_invD(2-5) [OF ef10_idleD(1) [OF assms]]
  by (auto simp: ef10_idle_def unicst_set_def mulcst_set_def set_take_nth [symmetric])

lemma mulcst_set_lists: "same_lists t t' \<Longrightarrow> mulcst_set t' = mulcst_set t"
  by (simp add: same_lists_def mulcst_set_def)

lemma tracked_nth:
  assumes "ef10_tbl_inv t"
  shows "nth (eft_unicst_filter_indexes t) ` set [0..<eft_unicst_filter_count t] = unicst_set t"
    "nth (eft_mulcst_filter_indexes t) ` set [0..<eft_mulcst_filter_count t] = mulcst_set t"
  using tbl_invD(2-5) [OF assms] unfolding unicst_set_def mulcst_set_def by (intro set_take_nth; simp)+

lemma auto_mac_Some: "auto_mac t mc i \<Longrightarrow> especs t i \<noteq> None"
  by (auto simp: auto_mac_def)

lemma mark_all_returns:
  assumes idle: "ef10_idle t" and rxq: "eft_default_rxq t \<noteq> None"
  obtains t1 t2 where "ef10_mark_old eft_unicst_filter_indexes [0..<eft_unicst_filter_count t] t = Some t1"
    "ef10_mark_old eft_mulcst_filter_indexes [0..<eft_mulcst_filter_count t1] t1 = Some t2" "same_mulcst t t2"
    "unicst_pass (unicst_set t \<union> mulcst_set t) {} (mulcst_set t) 0 (t2\<lparr>eft_unicst_filter_count := 0\<rparr>)"
proof -
  note inv = ef10_idleD(1) [OF idle]
  have nth: "i < eft_unicst_filter_count t \<Longrightarrow> i < length (eft_unicst_filter_indexes t) \<and> especs t (eft_unicst_filter_indexes t ! i) \<noteq> None"
    "i < eft_mulcst_filter_count t \<Longrightarrow> i < length (eft_mulcst_filter_indexes t) \<and> especs t (eft_mulcst_filter_indexes t ! i) \<noteq> None" for i
    using idle_nth [OF idle] auto_mac_Some by blast+
  have "returns (marked (nth (eft_unicst_filter_indexes t) ` set [0..<eft_unicst_filter_count t]) t)
      (ef10_mark_old eft_unicst_filter_indexes [0..<eft_unicst_filter_count t] t)"
    by (rule mark_old_returns [OF marked_sel(1) inv]) (use nth(1) in auto)
  then obtain t1 where t1: "ef10_mark_old eft_unicst_filter_indexes [0..<eft_unicst_filter_count t] t = Some t1" "marked (unicst_set t) t t1"
    unfolding tracked_nth [OF inv] by (rule returnsE)
  have l1: "same_lists t t1" "especs t1 = especs t" "ef10_tbl_inv t1" using t1(2) by (simp_all add: marked_def)
  have "returns (marked (nth (eft_mulcst_filter_indexes t1) ` set [0..<eft_mulcst_filter_count t1]) t1)
      (ef10_mark_old eft_mulcst_filter_indexes [0..<eft_mulcst_filter_count t1] t1)"
    by (rule mark_old_returns [OF marked_sel(2) l1(3)]) (use nth(2) l1(1,2) in \<open>auto simp: same_lists_def\<close>)
  then obtain t2 where t2: "ef10_mark_old eft_mulcst_filter_indexes [0..<eft_mulcst_filter_count t1] t1 = Some t2" "marked (mulcst_set t) t1 t2"
    unfolding tracked_nth [OF l1(3)] mulcst_set_lists [OF l1(1)] by (rule returnsE)
  have t2': "same_lists t t2" "especs t2 = especs t" "ef10_tbl_inv t2" "eold t2 i = (i \<in> unicst_set t \<union> mulcst_set t)" for i
    using t1(2) t2(2) ef10_idleD(2) [OF idle] by (auto simp: marked_def same_lists_def)
  have "pass_inv (unicst_set t \<union> mulcst_set t) {} {} (mulcst_set t) (t2\<lparr>eft_unicst_filter_count := 0\<rparr>)"
  proof (rule pass_invI)
    show "ef10_tbl_inv (t2\<lparr>eft_unicst_filter_count := 0\<rparr>)" by (rule tbl_inv_update(3) [OF t2'(3)]) simp
    show "eft_default_rxq (t2\<lparr>eft_unicst_filter_count := 0\<rparr>) \<noteq> None" using rxq t2'(1) by (simp add: same_lists_def)
    have "is_auto t i" if "i \<in> unicst_set t \<union> mulcst_set t" for i using that ef10_idleD(3,4) [OF idle] auto_mac_auto by blast
    then show "is_auto (t2\<lparr>eft_unicst_filter_count := 0\<rparr>) i" if "eold (t2\<lparr>eft_unicst_filter_count := 0\<rparr>) i" for i
      using that t2'(2,4) by (simp add: is_auto_def)
    show "auto_mac (t2\<lparr>eft_unicst_filter_count := 0\<rparr>) True i" if "i \<in> mulcst_set t" for i
      using that ef10_idleD(4) [OF idle that] t2'(2) by (simp add: auto_mac_def)
  qed (use t2'(4) in auto)
  then have "unicst_pass (unicst_set t \<union> mulcst_set t) {} (mulcst_set t) 0 (t2\<lparr>eft_unicst_filter_count := 0\<rparr>)"
    by (simp add: unicst_pass_def unicst_set_def)
  moreover have "same_mulcst t t2" using t2'(1) by (simp add: same_lists_def same_mulcst_def)
  ultimately show ?thesis using that t1(1) t2(1) by blast
qed

text \<open>The unicast half.\<close>

lemma reconfigure_unicst_returns:
  assumes env: "mc_env_ok env" and flags: "rx_flags_ok flags" and has: "ef10_has enp t" and pass: "unicst_pass Old {} K 0 t"
    and mac: "length mac = 6" "\<not> bit (mac ! 0) 0"
  shows "returns (\<lambda>(u, enp'). to_table enp (\<lambda>t'. unicst_pass Old {} K 2 t' \<and> same_mulcst t t') enp') (ef10_reconfigure_unicst env enp mac all_unicst flags)"
proof -
  have two: "(0::nat) < EFX_EF10_FILTER_UNICAST_FILTERS_MAX" "1 < EFX_EF10_FILTER_UNICAST_FILTERS_MAX"
    by (simp_all add: EFX_EF10_FILTER_UNICAST_FILTERS_MAX_def)
  have f: "match_ok False (\<lambda>s. efx_filter_spec_set_eth_local s EFX_FILTER_SPEC_VID_UNSPEC (Some mac))"
    using match_ok_eth [of mac] mac by simp
  obtain rc enp1 where 1: "ef10_filter_insert_unicast env enp mac flags = Some (rc, enp1)"
      "to_table enp (\<lambda>t'. unicst_pass Old {} K (0 + 1) t' \<and> same_mulcst t t') enp1"
    unfolding ef10_filter_insert_unicast_def by (rule returns_pairE [OF insert_unicst_returns [OF env has pass two(1) flags f]])
  from 1(2) obtain t1 where t1: "ef10_has enp1 t1" "nic_keeps enp enp1" "unicst_pass Old {} K 1 t1 \<and> same_mulcst t t1" by (auto elim: to_tableE)
  show ?thesis
  proof (cases "all_unicst \<or> rc \<noteq> RC_OK")
    case False
    have "to_table enp (\<lambda>t'. unicst_pass Old {} K 2 t' \<and> same_mulcst t t') enp1"
      by (rule to_tableI [OF t1(1,2)]) (use t1(3) in \<open>simp add: unicst_pass_def\<close>)
    then show ?thesis using False 1(1) by (simp add: ef10_reconfigure_unicst_def)
  next
    case True
    obtain rc' enp2 where 2: "ef10_filter_insert_all_unicast env enp1 flags = Some (rc', enp2)"
        "to_table enp1 (\<lambda>t'. unicst_pass Old {} K (1 + 1) t' \<and> same_mulcst t1 t') enp2"
      unfolding ef10_filter_insert_all_unicast_def
      by (rule returns_pairE [OF insert_unicst_returns [OF env t1(1) conjunct1 [OF t1(3)] two(2) flags match_ok_uc_def]])
    have "to_table enp (\<lambda>t'. unicst_pass Old {} K 2 t' \<and> same_mulcst t t') enp2"
      using to_table_trans [OF t1(2) 2(2)] t1(3) by (auto elim!: to_table_mono dest: same_mulcst_trans simp: numeral_2_eq_2)
    then show ?thesis using True 1(1) 2(1) by (simp add: ef10_reconfigure_unicst_def)
  qed
qed

text \<open>The workarounds.\<close>

lemma get_workarounds_returns:
  assumes env: "mc_env_ok env" and has: "ef10_has enp t"
  shows "returns (\<lambda>(rc, enp'). to_table enp (\<lambda>t'. t' = t) enp') (ef10_filter_get_workarounds env enp)"
proof -
  let ?req = "mcdi_req MC_CMD_GET_WORKAROUNDS [] 0 (replicate MC_CMD_GET_WORKAROUNDS_OUT_LEN 0) MC_CMD_GET_WORKAROUNDS_OUT_LEN"
  obtain req' m where ex: "env_execute env (?req\<lparr>emr_quiet := False\<rparr>) (ef_mc (fd_hw enp)) = (req', m)" by fastforce
  have "emr_out_buf (?req\<lparr>emr_quiet := False\<rparr>) = Some (replicate 8 0)"
    by (simp add: mcdi_req_def MC_CMD_GET_WORKAROUNDS_OUT_LEN_def eval_nat_numeral)
  from mc_env_ok_buf [OF env this, of "ef_mc (fd_hw enp)"] obtain b where "emr_out_buf req' = Some b" "length b = 8" using ex by auto
  then obtain x y where out: "mcdi_out_dword req' 0 = Some x" "mcdi_out_dword req' 4 = Some y"
    using mcdi_out_dword_Some [of req' b 0] mcdi_out_dword_Some [of req' b 4] by auto
  have "ef10_mcdi_execute env ?req enp = Some (req', ef10_put_mc m enp)" using ef10_execute_eq [OF ef10_hasD(3) [OF has]] ex by simp
  then have "\<exists>rc. ef10_filter_get_workarounds env enp = Some (rc, ef10_put_mc m enp)
      \<or> (\<exists>b. ef10_filter_get_workarounds env enp = Some (rc, ef10_set_workaround b (ef10_put_mc m enp)))"
    using out by (cases "emr_rc req' = RC_OK") (auto simp: ef10_filter_get_workarounds_def efx_mcdi_get_workarounds_def)
  moreover have "nic_keeps enp (ef10_set_workaround b (ef10_put_mc m enp))" for b
    by (rule nic_keeps_trans [OF nic_keeps_refl(3) nic_keeps_refl(4)])
  ultimately show ?thesis using has by (auto intro!: to_tableI)
qed

text \<open>Sweeping inside a pass, unconditionally or not.\<close>

definition pass_to :: "nat set \<Rightarrow> nat set \<Rightarrow> nat set \<Rightarrow> ef10_filter_table \<Rightarrow> ef10_filter_table \<Rightarrow> bool" where
  "pass_to Old U M t t' = (pass_inv Old U M {} t' \<and> same_unicst t t')"

lemma pass_fewer: "pass_inv Old U M K t \<Longrightarrow> pass_inv Old U M {} t"
  by (simp add: pass_inv_def)

lemma remove_old_pass:
  assumes has: "ef10_has enp t" and pass: "pass_inv Old U M K t"
  shows "returns (to_table enp (\<lambda>t'. pass_inv Old U M {} t' \<and> (\<forall>i. \<not> eold t' i) \<and> same_lists t t')) (ef10_filter_remove_old env enp)"
proof (rule returns_mono [OF remove_old_returns [OF has pass_invD(1) [OF pass]]], erule to_table_mono)
  fix t' assume del: "deleted {i. eold t i} t t'"
  have "{i. eold t i} \<inter> U = {}" "{i. eold t i} \<inter> M = {}" using pass_invD(5,7) [OF pass] by blast+
  then have "pass_inv Old U M {} t'" by (intro pass_deleted [OF pass del]) simp_all
  moreover have "\<not> eold t' i" for i
    using deletedD(4,6) [OF del, of i] pass_invD(3) [OF pass, of i] by (auto simp: is_auto_def)
  ultimately show "pass_inv Old U M {} t' \<and> (\<forall>i. \<not> eold t' i) \<and> same_lists t t'" using deletedD(2) [OF del] by simp
qed

lemma remove_old_maybe:
  assumes "ef10_has enp t" "pass_inv Old U M K t"
  shows "returns (to_table enp (pass_to Old U M t)) (if b then ef10_filter_remove_old env enp else Some enp)"
proof (cases b)
  case True
  then show ?thesis using remove_old_pass [OF assms, of env] by (auto elim!: returns_mono to_table_mono simp: pass_to_def dest: same_unicst_lists)
next
  case False
  then show ?thesis using assms by (simp add: to_tableI pass_to_def same_unicst_def pass_fewer)
qed

text \<open>The multicast half.\<close>

definition mulcst_done :: "nat set \<Rightarrow> nat set \<Rightarrow> ef10_filter_table \<Rightarrow> ef10_filter_table \<Rightarrow> bool" where
  "mulcst_done Old U t t' = (pass_inv Old U (mulcst_set t') {} t' \<and> same_unicst t t')"

lemma to_mulcst_done: "to_table b (mulcst_done Old U t') c \<Longrightarrow> nic_keeps a b \<Longrightarrow> same_unicst t t' \<Longrightarrow> to_table a (mulcst_done Old U t) c"
  by (erule to_table_trans [THEN to_table_mono, rotated]) (auto simp: mulcst_done_def dest: same_unicst_trans)

lemma insert_list_final:
  assumes "mc_env_ok env" "rx_flags_ok flags" "ef10_has enp t" "pass_inv Old U {} {} t" "mc_list addrs count"
  obtains enp' where "ef10_filter_insert_multicast_list env enp mulcst brdcst addrs count flags False = Some (RC_OK, enp')"
    "to_table enp (mulcst_done Old U t) enp'"
proof -
  obtain rc enp' where "ef10_filter_insert_multicast_list env enp mulcst brdcst addrs count flags False = Some (rc, enp')"
    "list_done Old U False t enp (rc, enp')"
    using insert_multicast_list_returns [OF assms, of False mulcst brdcst] by (auto simp: returns_def)
  moreover from this(2) have "rc = RC_OK" "to_table enp (mulcst_done Old U t) enp'"
    by (auto simp: list_done_def elim: to_table_mono simp: mulcst_done_def)
  ultimately show ?thesis using that by simp
qed

text \<open>The filter for all addresses, or else the list.\<close>

lemma insert_all_or_list:
  assumes env: "mc_env_ok env" and flags: "rx_flags_ok flags" and has: "ef10_has enp t" and pass: "pass_inv Old U {} {} t" and list: "mc_list addrs count"
  obtains (all) enp' where "ef10_filter_insert_all_multicast env enp flags = Some (RC_OK, enp')" "to_table enp (mulcst_done Old U t) enp'"
  | (list) rc enp' enp'' where "ef10_filter_insert_all_multicast env enp flags = Some (rc, enp')" "rc \<noteq> RC_OK"
    "ef10_filter_insert_multicast_list env enp' mulcst brdcst addrs count flags False = Some (RC_OK, enp'')" "to_table enp (mulcst_done Old U t) enp''"
proof -
  obtain rc enp' where r: "ef10_filter_insert_all_multicast env enp flags = Some (rc, enp')"
     "to_table enp (\<lambda>t'. same_unicst t t' \<and> (if rc = RC_OK then pass_inv Old U (mulcst_set t') {} t' else pass_inv Old U {} {} t')) enp'"
    by (rule returns_pairE [OF insert_all_multicast_returns [OF env flags has pass]])
  from r(2) obtain t' where t': "ef10_has enp' t'" "nic_keeps enp enp'" "same_unicst t t'"
    "if rc = RC_OK then pass_inv Old U (mulcst_set t') {} t' else pass_inv Old U {} {} t'" by (auto elim!: to_tableE)
  show ?thesis
  proof (cases "rc = RC_OK")
    case True
    have "to_table enp (mulcst_done Old U t) enp'" by (rule to_tableI [OF t'(1,2)]) (use t'(3,4) True in \<open>simp add: mulcst_done_def\<close>)
    then show ?thesis using all r(1) True by simp
  next
    case False
    then have "pass_inv Old U {} {} t'" using t'(4) by simp
    from insert_list_final [OF env flags t'(1) this assms(5), where mulcst = mulcst and brdcst = brdcst]
    obtain enp'' where "ef10_filter_insert_multicast_list env enp' mulcst brdcst addrs count flags False = Some (RC_OK, enp'')"
      "to_table enp' (mulcst_done Old U t') enp''" by blast
    then show ?thesis using list [OF r(1) False] to_mulcst_done t'(2,3) by blast
  qed
qed

lemma reconfigure_mulcst_returns:
  assumes env: "mc_env_ok env" and flags: "rx_flags_ok flags" and has: "ef10_has enp t" and pass: "pass_inv Old U {} {} t" and list: "mc_list addrs count"
  obtains rc rc' enp' where "ef10_reconfigure_mulcst env enp mulcst all_mulcst brdcst addrs count flags = Some (Inr (rc, rc'), enp')"
    "to_table enp (mulcst_done Old U t) enp'"
proof (cases all_mulcst)
  case True
  show ?thesis
    by (rule insert_all_or_list [OF env flags has pass list, where mulcst = True and brdcst = brdcst])
      (use that True in \<open>simp_all add: ef10_reconfigure_mulcst_def\<close>)
next
  case False
  obtain rc enp1 where 1: "ef10_filter_insert_multicast_list env enp mulcst brdcst addrs count flags True = Some (rc, enp1)"
    "list_done Old U True t enp (rc, enp1)"
    using insert_multicast_list_returns [OF env flags has pass list, of True mulcst brdcst] by (auto simp: returns_def)
  then obtain t1 where t1: "ef10_has enp1 t1" "nic_keeps enp enp1" "pass_inv Old U (mulcst_set t1) {} t1" "rc \<noteq> RC_OK \<longrightarrow> mulcst_set t1 = {}"
      "same_unicst t t1"
    by (auto simp: list_done_def elim!: to_tableE)
  show ?thesis
  proof (cases "rc = RC_OK")
    case True
    have "to_table enp (mulcst_done Old U t) enp1" by (rule to_tableI [OF t1(1,2)]) (use t1(3,5) in \<open>simp add: mulcst_done_def\<close>)
    then show ?thesis using that 1(1) True False by (simp add: ef10_reconfigure_mulcst_def)
  next
    case rc: False
    then have pass1: "pass_inv Old U {} {} t1" using t1(3,4) by simp
    let ?b = "\<not> eft_using_all_mulcst t1 \<and> enc_bug26807_workaround (fd_hw enp1)"
    obtain enp2 where 2: "(if ?b then ef10_filter_remove_old env enp1 else Some enp1) = Some enp2" "to_table enp1 (pass_to Old U {} t1) enp2"
      by (rule returnsE [OF remove_old_maybe [OF t1(1) pass1]])
    from 2(2) obtain t2 where t2: "ef10_has enp2 t2" "nic_keeps enp1 enp2" "pass_inv Old U {} {} t2" "same_unicst t1 t2"
      by (auto simp: pass_to_def elim!: to_tableE)
    note keeps = nic_keeps_trans [OF t1(2) t2(2)] same_unicst_trans [OF t1(5) t2(4)]
    have eq: "ef10_reconfigure_mulcst env enp mulcst all_mulcst brdcst addrs count flags =
        ef10_filter_insert_all_multicast env enp2 flags \<bind> (\<lambda>(rc, enp). if rc \<noteq> RC_OK
          then ef10_filter_insert_multicast_list env enp mulcst brdcst addrs count flags False \<bind> (\<lambda>(rc, enp). Some (if rc \<noteq> RC_OK then Inl rc else Inr (rc, RC_OK), enp))
          else Some (Inr (rc, RC_OK), enp))"
      using False rc 1(1) 2(1) ef10_hasD(1) [OF t1(1)] by (simp add: ef10_reconfigure_mulcst_def)
    show ?thesis
      by (rule insert_all_or_list [OF env flags t2(1,3) list, where mulcst = mulcst and brdcst = brdcst])
        (use that eq to_mulcst_done [OF _ keeps] in \<open>simp_all\<close>)
  qed
qed

text \<open>The ends: success sweeps, failure clears the marks.\<close>

definition reconfigured :: "ef10_filter_table \<Rightarrow> efx_rc \<Rightarrow> ef10_filter_table \<Rightarrow> bool" where
  "reconfigured t rc t' = (ef10_idle t' \<and> eft_default_rxq t' = eft_default_rxq t
     \<and> (rc = RC_OK \<longrightarrow> (\<forall>i\<in>unicst_set t \<union> mulcst_set t. especs t' i = None \<or> i \<in> unicst_set t' \<union> mulcst_set t')))"

lemma final_sweep:
  assumes has: "ef10_has enp t1" and pass: "pass_inv (unicst_set t \<union> mulcst_set t) (unicst_set t1) (mulcst_set t1) {} t1"
    and rxq: "eft_default_rxq t1 = eft_default_rxq t"
  shows "returns (to_table enp (reconfigured t rc)) (ef10_filter_remove_old env enp)"
proof (rule returns_mono [OF remove_old_pass [OF has pass]], erule to_table_mono, elim conjE)
  fix t' assume p: "pass_inv (unicst_set t \<union> mulcst_set t) (unicst_set t1) (mulcst_set t1) {} t'" "\<forall>i. \<not> eold t' i" "same_lists t1 t'"
  have sets: "unicst_set t' = unicst_set t1" "mulcst_set t' = mulcst_set t1" using unicst_set_same [OF p(3)] mulcst_set_lists [OF p(3)] .
  have "ef10_idle t'" unfolding ef10_idle_def sets using pass_invD(1,4,6) [OF p(1)] p(2) by blast
  moreover have "\<forall>i\<in>unicst_set t \<union> mulcst_set t. especs t' i = None \<or> i \<in> unicst_set t1 \<union> mulcst_set t1"
    using pass_invD(9) [OF p(1)] p(2) by blast
  ultimately show "reconfigured t rc t'" using p(3) rxq sets by (simp add: reconfigured_def same_lists_def)
qed

lemma failed_returns:
  assumes has: "ef10_has enp t1" and pass: "unicst_pass Old {} (mulcst_set t) 2 t1" and same: "same_mulcst t t1" and rc: "rc \<noteq> RC_OK"
  shows "returns (\<lambda>(rc, enp'). to_table enp (reconfigured t rc) enp') (ef10_reconfigure_failed enp rc)"
proof -
  have p: "pass_inv Old (unicst_set t1) {} (mulcst_set t) t1" using pass by (simp add: unicst_pass_def)
  note inv = pass_invD(1) [OF p]
  have "especs t1 i \<noteq> None" if "eold t1 i" for i using pass_invD(3) [OF p that] by (auto simp: is_auto_def)
  from clear_old_returns [OF inv this, of "[0..<EFX_EF10_FILTER_TBL_ROWS]"]
  obtain t' where t': "ef10_clear_old [0..<EFX_EF10_FILTER_TBL_ROWS] t1 = Some t'" "ef10_tbl_inv t'" "same_lists t1 t'" "especs t' = especs t1"
    "\<And>i. eold t' i \<Longrightarrow> eold t1 i \<and> \<not> i < EFX_EF10_FILTER_TBL_ROWS" by (auto simp: returns_def)
  have "\<not> eold t' i" for i using t'(5) [of i] eold_less [OF inv, of i] by blast
  moreover have "mulcst_set t' = mulcst_set t" using mulcst_set_lists [OF t'(3)] same by (simp add: same_mulcst_def mulcst_set_def)
  ultimately have "ef10_idle t'"
    using t'(2,4) pass_invD(4,8) [OF p] unicst_set_same [OF t'(3)] by (simp add: ef10_idle_def auto_mac_def)
  then have "reconfigured t rc t'" using rc t'(3) same by (simp add: reconfigured_def same_lists_def same_mulcst_def)
  moreover have "ef10_has (ef10_put_table t' enp) t'" using has by simp
  ultimately show ?thesis using t'(1) ef10_hasD(1) [OF has] by (simp add: ef10_reconfigure_failed_def to_tableI)
qed

lemma remove_station_returns:
  assumes has: "ef10_has enp t" and idle: "ef10_idle t"
  shows "returns (to_table enp (reconfigured t RC_OK)) (ef10_remove_station env enp)"
proof -
  note inv = ef10_idleD(1) [OF idle]
  have row: "i < EFX_EF10_FILTER_TBL_ROWS" if "auto_mac t mc i" for i mc using that especs_less [of t i] tbl_invD(1) [OF inv] by (auto simp: auto_mac_def)
  have "returns (to_table enp (deleted (nth (eft_unicst_filter_indexes t) ` set [0..<eft_unicst_filter_count t]) t))
      (ef10_delete_indexes env eft_unicst_filter_indexes [0..<eft_unicst_filter_count t] enp)"
    by (rule delete_indexes_returns [OF deleted_nth_index(2) has inv]) (use idle_nth(1) [OF idle] row in auto)
  then obtain enp1 where 1: "ef10_delete_indexes env eft_unicst_filter_indexes [0..<eft_unicst_filter_count t] enp = Some enp1"
    "to_table enp (deleted (unicst_set t) t) enp1" unfolding tracked_nth [OF inv] by (rule returnsE)
  from 1(2) obtain t1 where t1: "ef10_has enp1 t1" "nic_keeps enp enp1" "deleted (unicst_set t) t t1" by (rule to_tableE)
  let ?t1 = "t1\<lparr>eft_unicst_filter_count := 0\<rparr>"
  note l1 = deletedD(2) [OF t1(3)]
  have inv1: "ef10_tbl_inv ?t1" by (rule tbl_inv_update(3) [OF deletedD(1) [OF t1(3)]]) simp
  have has1: "ef10_has (ef10_put_table ?t1 enp1) ?t1" using t1(1) by simp
  have m1: "mulcst_set ?t1 = mulcst_set t" using mulcst_set_lists [OF l1] by (simp add: mulcst_set_def)
  have "returns (to_table (ef10_put_table ?t1 enp1) (deleted (nth (eft_mulcst_filter_indexes ?t1) ` set [0..<eft_mulcst_filter_count ?t1]) ?t1))
      (ef10_delete_indexes env eft_mulcst_filter_indexes [0..<eft_mulcst_filter_count ?t1] (ef10_put_table ?t1 enp1))"
    by (rule delete_indexes_returns [OF deleted_nth_index(1) has1 inv1]) (use idle_nth(2) [OF idle] row l1 in \<open>auto simp: same_lists_def\<close>)
  then obtain enp2 where 2: "ef10_delete_indexes env eft_mulcst_filter_indexes [0..<eft_mulcst_filter_count ?t1] (ef10_put_table ?t1 enp1) = Some enp2"
    "to_table (ef10_put_table ?t1 enp1) (deleted (mulcst_set t) ?t1) enp2" unfolding tracked_nth [OF inv1] m1 by (rule returnsE)
  from 2(2) obtain t2 where t2: "ef10_has enp2 t2" "nic_keeps (ef10_put_table ?t1 enp1) enp2" "deleted (mulcst_set t) ?t1 t2" by (rule to_tableE)
  let ?t2 = "t2\<lparr>eft_mulcst_filter_count := 0\<rparr>"
  note l2 = deletedD(2) [OF t2(3)]
  have empty: "unicst_set ?t2 = {}" "mulcst_set ?t2 = {}" using l2 by (simp_all add: unicst_set_def mulcst_set_def same_lists_def)
  have "\<not> eold ?t2 i" for i using ef10_idleD(2) [OF idle, of i] deletedD(4) [OF t1(3), of i] deletedD(4) [OF t2(3), of i] by auto
  then have "ef10_idle ?t2" using tbl_inv_update(4) [OF deletedD(1) [OF t2(3)], of 0] empty by (simp add: ef10_idle_def)
  moreover have "especs ?t2 i = None" if "i \<in> unicst_set t \<union> mulcst_set t" for i
    using that deletedD(3) [OF t1(3), of i] deletedD(3) [OF t2(3), of i] by auto
  ultimately have "reconfigured t RC_OK ?t2" using l1 l2 by (simp add: reconfigured_def same_lists_def)
  moreover have "ef10_has (ef10_put_table ?t2 enp2) ?t2" using t2(1) by simp
  moreover have "nic_keeps enp (ef10_put_table ?t2 enp2)"
    using nic_keeps_trans [OF nic_keeps_trans [OF t1(2) nic_keeps_refl(2)] nic_keeps_trans [OF t2(2) nic_keeps_refl(2)]] .
  ultimately have "to_table enp (reconfigured t RC_OK) (ef10_put_table ?t2 enp2)" by (intro to_tableI)
  then show ?thesis using 1(1) 2(1) ef10_hasD(1) [OF has] ef10_hasD(1) [OF t1(1)] ef10_hasD(1) [OF t2(1)]
    by (simp add: ef10_remove_station_def)
qed

lemma rx_flags_ok_rss: "rx_flags_ok (if b then EFX_FILTER_FLAG_RX_RSS else 0)"
  by (simp add: rx_flags_ok_def EFX_FILTER_FLAG_RX_RSS_def EFX_FILTER_FLAG_RX_SCATTER_def)

text \<open>The multicast part of a reconfiguration with a default queue, from the query for the workarounds on.\<close>

lemma reconfigure_rest:
  assumes env: "mc_env_ok env" and flags: "rx_flags_ok flags" and has: "ef10_has enp t1"
    and pass: "unicst_pass (unicst_set t \<union> mulcst_set t) {} (mulcst_set t) 2 t1" and same: "same_mulcst t t1" and list: "mc_list addrs count"
  shows "returns (\<lambda>(rc, enp'). to_table enp (reconfigured t rc) enp') (do {
     (rc, enp) \<leftarrow> ef10_filter_get_workarounds env enp;
     if rc \<noteq> RC_OK then ef10_reconfigure_failed enp rc
     else do {
       table \<leftarrow> ef10_get_table enp;
       enp \<leftarrow> (if eft_using_all_mulcst table \<noteq> all_mulcst \<and> enc_bug26807_workaround (fd_hw enp)
                then ef10_filter_remove_old env enp else Some enp);
       (r, enp) \<leftarrow> ef10_reconfigure_mulcst env enp mulcst all_mulcst brdcst addrs count flags;
       case r of
         Inl rc \<Rightarrow> ef10_reconfigure_failed enp rc
       | Inr (rc, all_mulcst_rc) \<Rightarrow> do {
           enp \<leftarrow> ef10_filter_remove_old env enp;
           Some (f rc all_mulcst_rc, enp) } } })"
proof -
  let ?Old = "unicst_set t \<union> mulcst_set t"
  obtain rc enp2 where 2: "ef10_filter_get_workarounds env enp = Some (rc, enp2)" "to_table enp (\<lambda>t'. t' = t1) enp2"
    by (rule returns_pairE [OF get_workarounds_returns [OF env has]])
  from 2(2) have has2: "ef10_has enp2 t1" and keeps2: "nic_keeps enp enp2" by (auto elim: to_tableE)
  show ?thesis
  proof (cases "rc = RC_OK")
    case False
    have "returns (\<lambda>(rc, enp'). to_table enp (reconfigured t rc) enp') (ef10_reconfigure_failed enp2 rc)"
      by (rule returns_mono [OF failed_returns [OF has2 pass same False]]) (auto intro: to_table_trans [OF keeps2])
    then show ?thesis using 2(1) False by simp
  next
    case True
    have p: "pass_inv ?Old (unicst_set t1) {} (mulcst_set t) t1" using pass by (simp add: unicst_pass_def)
    let ?b = "eft_using_all_mulcst t1 \<noteq> all_mulcst \<and> enc_bug26807_workaround (fd_hw enp2)"
    obtain enp3 where 3: "(if ?b then ef10_filter_remove_old env enp2 else Some enp2) = Some enp3" "to_table enp2 (pass_to ?Old (unicst_set t1) {} t1) enp3"
      by (rule returnsE [OF remove_old_maybe [OF has2 p]])
    from 3(2) obtain t3 where t3: "ef10_has enp3 t3" "nic_keeps enp2 enp3" "pass_inv ?Old (unicst_set t1) {} {} t3" "same_unicst t1 t3"
      by (auto simp: pass_to_def elim!: to_tableE)
    obtain rc' rc'' enp4 where 4: "ef10_reconfigure_mulcst env enp3 mulcst all_mulcst brdcst addrs count flags = Some (Inr (rc', rc''), enp4)"
      "to_table enp3 (mulcst_done ?Old (unicst_set t1) t3) enp4"
      by (rule reconfigure_mulcst_returns [OF env flags t3(1,3) list])
    from 4(2) obtain t4 where t4: "ef10_has enp4 t4" "nic_keeps enp3 enp4" "pass_inv ?Old (unicst_set t1) (mulcst_set t4) {} t4" "same_unicst t3 t4"
      by (auto simp: mulcst_done_def elim!: to_tableE)
    have u: "unicst_set t4 = unicst_set t1" "eft_default_rxq t4 = eft_default_rxq t"
      using same t3(4) t4(4) by (simp_all add: same_mulcst_def same_unicst_def unicst_set_def)
    have "returns (to_table enp4 (reconfigured t (f rc' rc''))) (ef10_filter_remove_old env enp4)"
      by (rule final_sweep [OF t4(1) _ u(2)]) (use t4(3) u(1) in simp)
    then obtain enp5 where 5: "ef10_filter_remove_old env enp4 = Some enp5" "to_table enp4 (reconfigured t (f rc' rc'')) enp5" by (rule returnsE)
    have "to_table enp (reconfigured t (f rc' rc'')) enp5"
      using to_table_trans [OF nic_keeps_trans [OF keeps2 nic_keeps_trans [OF t3(2) t4(2)]] 5(2)] .
    then show ?thesis using 2(1) 3(1) 4(1) 5(1) True ef10_hasD(1) [OF has2] by simp
  qed
qed

lemma reconfigure_returns:
  assumes env: "mc_env_ok env" and has: "ef10_has enp t" and idle: "ef10_idle t" and mac: "length mac = 6" "\<not> bit (mac ! 0) 0"
    and list: "mc_list addrs count"
  shows "returns (\<lambda>(rc, enp'). to_table enp (reconfigured t rc) enp')
    (ef10_filter_reconfigure env enp mac all_unicst mulcst all_mulcst brdcst addrs count)"
proof (cases "eft_default_rxq t = None")
  case True
  obtain enp' where "ef10_remove_station env enp = Some enp'" "to_table enp (reconfigured t RC_OK) enp'"
    by (rule returnsE [OF remove_station_returns [OF has idle]])
  then show ?thesis using True ef10_hasD(1) [OF has] by (simp add: ef10_filter_reconfigure_def)
next
  case False
  let ?flags = "if eft_using_rss t then EFX_FILTER_FLAG_RX_RSS else 0"
  have flags: "rx_flags_ok ?flags" by (rule rx_flags_ok_rss)
  obtain t1 t2 where t2: "ef10_mark_old eft_unicst_filter_indexes [0..<eft_unicst_filter_count t] t = Some t1"
    "ef10_mark_old eft_mulcst_filter_indexes [0..<eft_mulcst_filter_count t1] t1 = Some t2" "same_mulcst t t2"
    "unicst_pass (unicst_set t \<union> mulcst_set t) {} (mulcst_set t) 0 (t2\<lparr>eft_unicst_filter_count := 0\<rparr>)"
    by (rule mark_all_returns [OF idle False])
  let ?t2 = "t2\<lparr>eft_unicst_filter_count := 0\<rparr>"
  have has2: "ef10_has (ef10_put_table ?t2 enp) ?t2" using has by simp
  obtain u enp3 where 3: "ef10_reconfigure_unicst env (ef10_put_table ?t2 enp) mac all_unicst ?flags = Some (u, enp3)"
    "to_table (ef10_put_table ?t2 enp) (\<lambda>t'. unicst_pass (unicst_set t \<union> mulcst_set t) {} (mulcst_set t) 2 t' \<and> same_mulcst ?t2 t') enp3"
    by (rule returns_pairE [OF reconfigure_unicst_returns [OF env flags has2 t2(4) mac]])
  from 3(2) obtain t3 where t3: "ef10_has enp3 t3" "nic_keeps (ef10_put_table ?t2 enp) enp3"
    "unicst_pass (unicst_set t \<union> mulcst_set t) {} (mulcst_set t) 2 t3" "same_mulcst ?t2 t3" by (auto elim!: to_tableE)
  have same: "same_mulcst t t3" using same_mulcst_trans [OF _ t3(4)] t2(3) by (simp add: same_mulcst_def)
  note keeps = nic_keeps_trans [OF nic_keeps_refl(2) t3(2)]
  have lift: "returns (\<lambda>(rc, enp'). to_table enp3 (reconfigured t rc) enp') m \<Longrightarrow> returns (\<lambda>(rc, enp'). to_table enp (reconfigured t rc) enp') m" for m
    by (erule returns_mono) (auto intro: to_table_trans [OF keeps])
  show ?thesis
  proof (cases "u = Inl RC_OK")
    case True
    have False using 3(1) unfolding ef10_reconfigure_unicst_def True by (auto split: Option.bind_splits if_splits)
    then show ?thesis ..
  next
    case u: False
    show ?thesis
    proof (cases u)
      case (Inl rc)
      with u have "rc \<noteq> RC_OK" by simp
      from lift [OF failed_returns [OF t3(1,3) same this]] show ?thesis
        using t2(1,2) 3(1) False Inl ef10_hasD(1) [OF has] by (auto simp: ef10_filter_reconfigure_def)
    next
      case (Inr a)
      from lift [OF reconfigure_rest [OF env flags t3(1,3) same list,
          where f = "\<lambda>rc r. if all_unicst \<and> a \<noteq> RC_OK \<or> all_mulcst \<and> r \<noteq> RC_OK then ENOTSUP else rc"
            and mulcst = mulcst and all_mulcst = all_mulcst and brdcst = brdcst]]
      show ?thesis using t2(1,2) 3(1) False Inr ef10_hasD(1) [OF has] by (auto simp: ef10_filter_reconfigure_def cong: if_cong)
    qed
  qed
qed

end
