(* ===== verification/Efx_Ef10_Filter_Props.thy ===== *)
theory Efx_Ef10_Filter_Props
  imports Efx_Ef10_Reconfig
begin

text \<open>
  The properties of the EF10 filters, at the interface of \<open>efx_filter.c\<close>: insertion, removal, reconfiguration and restoring from
  any reachable state, whatever the management controller answers.
\<close>

section \<open>The NIC\<close>

text \<open>A NIC with EF10 filters in use, between two calls.\<close>

definition ef10_filter_nic :: "'m mc_env \<Rightarrow> 'm ef10_filters filter_nic \<Rightarrow> ef10_filter_table \<Rightarrow> bool" where
  "ef10_filter_nic env n t = (filter_probed n \<and> filter_up n \<and> en_efop n = Some (ef10_filter_ops env) \<and> ef10_has (fn_dev n) t \<and> ef10_idle t)"

lemma filter_nicD:
  assumes "ef10_filter_nic env n t"
  shows "filter_probed n" "filter_up n" "en_efop n = Some (ef10_filter_ops env)" "ef10_has (fn_dev n) t" "ef10_idle t" "ef10_tbl_inv t"
  using assms by (simp_all add: ef10_filter_nic_def ef10_idle_def)

lemma filter_nicI:
  assumes "ef10_filter_nic env n t" "nic_keeps (fn_dev n) dev" "ef10_has dev t'" "ef10_idle t'"
  shows "ef10_filter_nic env (n\<lparr>fn_dev := dev\<rparr>) t'"
proof -
  have "fd_magic dev = fd_magic (fn_dev n)" "fd_mod_flags dev = fd_mod_flags (fn_dev n)"
    using assms(2) unfolding nic_keeps_def by (metis filter_dev.simps(1,3,9,11) filter_dev.select_convs filter_dev.surjective filter_dev.update_convs(6))+
  then show ?thesis using assms by (simp add: ef10_filter_nic_def filter_probed_def filter_up_def)
qed

section \<open>Insertion\<close>

text \<open>The filter is already there for the station; another one has its match; or it is new.\<close>

definition absorbed :: "ef10_filter_table \<Rightarrow> efx_filter_spec \<Rightarrow> bool" where
  "absorbed t spec = (\<exists>i s. especs t i = Some s \<and> ef10_filter_equal spec s \<and> efs_priority s = EFX_FILTER_PRI_AUTO)"

definition excluded :: "ef10_filter_table \<Rightarrow> efx_filter_spec \<Rightarrow> bool" where
  "excluded t spec = (spec_excl spec \<and> (\<exists>i s. especs t i = Some s \<and> ef10_filter_equal spec s))"

lemma in_slots: "ef10_tbl_inv t \<Longrightarrow> especs t i = Some s \<Longrightarrow> ef10_filter_equal spec s \<Longrightarrow> i \<in> set (spec_slots spec)"
  using tbl_invD(8) [of t i s] equal_slots [of spec s] by simp

lemma find_Some_ex: "x \<in> set xs \<Longrightarrow> P x \<Longrightarrow> \<exists>y. find P xs = Some y"
  by (cases "find P xs") (auto simp: find_None_iff)

lemma slot_for_absorbed:
  assumes inv: "ef10_tbl_inv t" and a: "absorbed t spec"
  obtains i s where "slot_for t spec may_replace None (spec_slots spec) = Inr i" "especs t i = Some s" "efs_priority s = EFX_FILTER_PRI_AUTO"
    "ef10_filter_equal spec s"
proof -
  obtain i s where i: "especs t i = Some s" "ef10_filter_equal spec s" "efs_priority s = EFX_FILTER_PRI_AUTO" using a by (auto simp: absorbed_def)
  then have "blocks t spec i" by (simp add: blocks_def)
  then obtain j where j: "find (blocks t spec) (spec_slots spec) = Some j" using find_Some_ex in_slots [OF inv i(1,2)] by metis
  then obtain s' where s': "especs t j = Some s'" "ef10_filter_equal spec s'" "efs_priority s' = EFX_FILTER_PRI_AUTO \<or> spec_excl spec"
    by (auto simp: blocks_def split: option.splits dest!: find_SomeD)
  have "efs_priority s' = EFX_FILTER_PRI_AUTO"
  proof (rule ccontr)
    assume "efs_priority s' \<noteq> EFX_FILTER_PRI_AUTO"
    with s'(3) have "spec_excl s" using equal_excl [OF i(2)] by simp
    from tbl_invD(9) [OF inv i(1) s'(1) equal_trans [OF equal_sym [OF i(2)] s'(2)] this] i s' \<open>efs_priority s' \<noteq> EFX_FILTER_PRI_AUTO\<close> show False by simp
  qed
  with j s' show ?thesis by (intro that) (simp_all add: slot_for_def)
qed

lemma slot_for_excluded:
  assumes inv: "ef10_tbl_inv t" and e: "excluded t spec" "\<not> absorbed t spec"
  shows "slot_for t spec False None (spec_slots spec) = Inl EEXIST"
proof -
  obtain i s where i: "especs t i = Some s" "ef10_filter_equal spec s" "spec_excl spec" using e by (auto simp: excluded_def)
  then have "blocks t spec i" by (simp add: blocks_def)
  then obtain j where j: "find (blocks t spec) (spec_slots spec) = Some j" using find_Some_ex in_slots [OF inv i(1,2)] by metis
  then obtain s' where "especs t j = Some s'" "ef10_filter_equal spec s'" by (auto simp: blocks_def split: option.splits dest!: find_SomeD)
  with e(2) j show ?thesis by (auto simp: slot_for_def absorbed_def)
qed

lemma slot_for_new:
  assumes "\<not> excluded t spec" "\<not> absorbed t spec"
  shows "slot_for t spec may_replace None (spec_slots spec) = (case find (free_slot t) (spec_slots spec) of None \<Rightarrow> Inl EBUSY | Some i \<Rightarrow> Inr i)"
proof -
  have "\<not> blocks t spec i" for i using assms by (auto simp: blocks_def excluded_def absorbed_def split: option.splits)
  then show ?thesis by (simp add: slot_for_def find_None_iff [THEN iffD2])
qed

text \<open>The requests do not look at the table.\<close>

lemma execute_table:
  "ef10_mcdi_execute env req (ef10_put_table t enp) = map_option (apsnd (ef10_put_table t)) (ef10_mcdi_execute env req enp)"
  by (simp add: ef10_mcdi_execute_def efx_mcdi_execute_def ef10_put_table_def ef10_put_mc_def split: prod.split)

lemma op_add_table:
  assumes "efx_mcdi_filter_op_add env enp s op h = Some (rc, h', enp')"
  shows "efx_mcdi_filter_op_add env (ef10_put_table t enp) s op h = Some (rc, h', ef10_put_table t enp')"
proof (cases "filter_op_in_add s op h")
  case (Some p)
  let ?x = "ef10_mcdi_execute env (mcdi_req MC_CMD_FILTER_OP p MC_CMD_FILTER_OP_IN_LEN p MC_CMD_FILTER_OP_OUT_LEN) enp"
  show ?thesis
  proof (cases ?x)
    case (Some y)
    with \<open>filter_op_in_add s op h = Some p\<close> show ?thesis
      using assms by (cases "mcdi_out_dword (fst y) 4"; cases "mcdi_out_dword (fst y) 8"; cases y)
        (auto simp: efx_mcdi_filter_op_add_def execute_table split: if_splits)
  qed (use assms Some in \<open>simp add: efx_mcdi_filter_op_add_def split: if_splits\<close>)
qed (use assms in \<open>simp add: efx_mcdi_filter_op_add_def split: if_splits\<close>)

lemma op_delete_table:
  assumes "efx_mcdi_filter_op_delete env enp op h = Some (rc, enp')"
  shows "efx_mcdi_filter_op_delete env (ef10_put_table t enp) op h = Some (rc, ef10_put_table t enp')"
proof (cases "filter_op_in_delete op h")
  case (Some p)
  let ?x = "ef10_mcdi_execute env (mcdi_req MC_CMD_FILTER_OP p MC_CMD_FILTER_OP_IN_LEN p MC_CMD_FILTER_OP_OUT_LEN) enp"
  show ?thesis
  proof (cases ?x)
    case (Some y)
    with \<open>filter_op_in_delete op h = Some p\<close> show ?thesis
      using assms by (cases y) (auto simp: efx_mcdi_filter_op_delete_def execute_table split: if_splits)
  qed (use assms Some in \<open>simp add: efx_mcdi_filter_op_delete_def split: if_splits\<close>)
qed (use assms in \<open>simp add: efx_mcdi_filter_op_delete_def split: if_splits\<close>)

lemma program_new_op:
  assumes env: "mc_env_ok env" and has: "ef10_has enp t" and ok: "spec_ok spec" and i: "i < length (eft_entry t)"
  obtains rc h m where
    "efx_mcdi_filter_op_add env enp spec (if spec_excl spec then MC_CMD_FILTER_OP_IN_OP_INSERT else MC_CMD_FILTER_OP_IN_OP_SUBSCRIBE) (ehandle t i)
      = Some (rc, h, ef10_put_mc m enp)"
    "ef10_filter_program env (ef10_put_table (put_entry i ((eft_entry t ! i)\<lparr>efe_spec := Some spec, efe_busy := False,
         efe_auto_old := False\<rparr>) t) enp) spec i spec False
     = Some (if rc = RC_OK then Inr i else Inl rc,
         ef10_put_table (put_entry i (if rc = RC_OK then \<lparr>efe_spec = Some spec, efe_busy = False, efe_auto_old = False, efe_handle = h\<rparr>
            else \<lparr>efe_spec = None, efe_busy = False, efe_auto_old = False, efe_handle = h\<rparr>) t) (ef10_put_mc m enp))"
proof -
  let ?e = "(eft_entry t ! i)\<lparr>efe_spec := Some spec, efe_busy := False, efe_auto_old := False\<rparr>"
  let ?op = "if spec_excl spec then MC_CMD_FILTER_OP_IN_OP_INSERT else MC_CMD_FILTER_OP_IN_OP_SUBSCRIBE"
  obtain rc h m where op: "efx_mcdi_filter_op_add env enp spec ?op (ehandle t i) = Some (rc, h, ef10_put_mc m enp)"
    by (rule filter_op_add_returns [OF env ef10_hasD(3) [OF has] ok add_op_in(2)])
  note op' = op_add_table [OF op, of "put_entry i (?e\<lparr>efe_busy := True\<rparr>) t"]
  have "ef10_filter_program env (ef10_put_table (put_entry i ?e t) enp) spec i spec False
     = Some (if rc = RC_OK then Inr i else Inl rc,
         ef10_put_table (put_entry i (if rc = RC_OK then \<lparr>efe_spec = Some spec, efe_busy = False, efe_auto_old = False, efe_handle = h\<rparr>
            else \<lparr>efe_spec = None, efe_busy = False, efe_auto_old = False, efe_handle = h\<rparr>) t) (ef10_put_mc m enp))"
    using i op' ok by (cases "eft_entry t ! i")
      (simp add: ef10_filter_program_def put_entry_nth ehandle_def entry_update_put especs_def)
  with op that show ?thesis by blast
qed

text \<open>The call of the common code.\<close>

lemma insert_call:
  assumes nic: "ef10_filter_nic env n t" and rx: "efs_flags spec AND EFX_FILTER_FLAG_RX \<noteq> 0"
  shows "efx_filter_insert n spec = map_option (\<lambda>(r, dev). (case r of Inl rc \<Rightarrow> rc | Inr _ \<Rightarrow> RC_OK, n\<lparr>fn_dev := dev\<rparr>))
      (ef10_filter_add_internal env (fn_dev n) spec False)"
  using filter_nicD(2,3) [OF nic] rx
  by (simp add: efx_filter_insert_def ef10_filter_ops_def ef10_filter_add_def option.map_comp o_def split: Option.bind_split)

lemma insert_absorbed:
  assumes nic: "ef10_filter_nic env n t" and spec: "spec_ok spec" "efs_flags spec AND EFX_FILTER_FLAG_RX \<noteq> 0"
    and spec': "spec' = spec\<lparr>efs_rss_context := fd_rss_context (fn_dev n)\<rparr>" and a: "absorbed t spec'"
  shows "\<exists>t'. efx_filter_insert n spec = Some (RC_OK, n\<lparr>fn_dev := ef10_put_table t' (fn_dev n)\<rparr>) \<and> especs t' = especs t \<and> ehandle t' = ehandle t
    \<and> same_lists t t'"
proof -
  note n = filter_nicD [OF nic] note inv = n(6)
  obtain i s where i: "slot_for t spec' False None (spec_slots spec') = Inr i" "especs t i = Some s" "efs_priority s = EFX_FILTER_PRI_AUTO"
    by (rule slot_for_absorbed [OF inv a])
  let ?t = "put_entry i ((eft_entry t ! i)\<lparr>efe_auto_old := False\<rparr>) t"
  have "especs ?t = especs t" "ehandle ?t = ehandle t" using especs_less [OF i(2)] i(2)
    by (auto simp: put_entry_view fun_upd_idem ehandle_def especs_def)
  then show ?thesis using insert_call [OF nic spec(2)] add_internal_search [OF n(4) inv spec(1) spec', of env False] i
    by (intro exI [of _ ?t]) simp
qed

section \<open>Properties of one call\<close>

text \<open>
  C20. Inserting a filter does exactly one of these. If the station already has an automatic filter for the same match, the call
  succeeds without a request and only refreshes that entry. If the filter is exclusive and any other filter has its match, it is EEXIST
  and nothing changes. Otherwise the filter goes to the first free slot of its probe sequence, EBUSY if there is none, ENOMEM if no memory
  is left; the controller is asked to insert it (subscribe, unless it is exclusive), its answer is the result of the call, and the filter
  is in the table with the controller's handle exactly if the answer was success.
\<close>
theorem efx_filter_insert_ef10:
  assumes env: "mc_env_ok env" and nic: "ef10_filter_nic env n t" and spec: "spec_ok spec" "efs_flags spec AND EFX_FILTER_FLAG_RX \<noteq> 0"
    and spec': "spec' = spec\<lparr>efs_rss_context := fd_rss_context (fn_dev n)\<rparr>"
  shows "if absorbed t spec'
     then \<exists>t'. efx_filter_insert n spec = Some (RC_OK, n\<lparr>fn_dev := ef10_put_table t' (fn_dev n)\<rparr>) \<and> especs t' = especs t \<and> ehandle t' = ehandle t
     else if excluded t spec' then efx_filter_insert n spec = Some (EEXIST, n)
     else (case find (free_slot t) (spec_slots spec') of
       None \<Rightarrow> efx_filter_insert n spec = Some (EBUSY, n)
     | Some i \<Rightarrow> (case env_alloc env (ef_mc (fd_hw (fn_dev n))) of (good, m) \<Rightarrow>
         if \<not> good then efx_filter_insert n spec = Some (ENOMEM, n\<lparr>fn_dev := ef10_put_mc m (fn_dev n)\<rparr>)
         else \<exists>rc h m' t'. efx_mcdi_filter_op_add env (ef10_put_mc m (fn_dev n)) spec'
               (if spec_excl spec' then MC_CMD_FILTER_OP_IN_OP_INSERT else MC_CMD_FILTER_OP_IN_OP_SUBSCRIBE) (ehandle t i)
               = Some (rc, h, ef10_put_mc m' (fn_dev n))
           \<and> efx_filter_insert n spec = Some (rc, n\<lparr>fn_dev := ef10_put_table t' (ef10_put_mc m' (fn_dev n))\<rparr>)
           \<and> especs t' = (if rc = RC_OK then (especs t)(i \<mapsto> spec') else especs t) \<and> ehandle t' = (ehandle t)(i := h)))"
proof -
  note n = filter_nicD [OF nic] note inv = n(6)
  note call = insert_call [OF nic spec(2)]
  note eq = add_internal_search [OF n(4) inv spec(1) spec', of env False]
  have A: "\<exists>t'. efx_filter_insert n spec = Some (RC_OK, n\<lparr>fn_dev := ef10_put_table t' (fn_dev n)\<rparr>) \<and> especs t' = especs t \<and> ehandle t' = ehandle t"
    if "absorbed t spec'" using insert_absorbed [OF nic spec spec' that] by blast
  have B: "efx_filter_insert n spec = Some (EEXIST, n)" if "\<not> absorbed t spec'" "excluded t spec'"
    using call eq slot_for_excluded [OF inv that(2,1)] by simp
  have C: "case find (free_slot t) (spec_slots spec') of
       None \<Rightarrow> efx_filter_insert n spec = Some (EBUSY, n)
     | Some i \<Rightarrow> (case env_alloc env (ef_mc (fd_hw (fn_dev n))) of (good, m) \<Rightarrow>
         if \<not> good then efx_filter_insert n spec = Some (ENOMEM, n\<lparr>fn_dev := ef10_put_mc m (fn_dev n)\<rparr>)
         else \<exists>rc h m' t'. efx_mcdi_filter_op_add env (ef10_put_mc m (fn_dev n)) spec'
               (if spec_excl spec' then MC_CMD_FILTER_OP_IN_OP_INSERT else MC_CMD_FILTER_OP_IN_OP_SUBSCRIBE) (ehandle t i)
               = Some (rc, h, ef10_put_mc m' (fn_dev n))
           \<and> efx_filter_insert n spec = Some (rc, n\<lparr>fn_dev := ef10_put_table t' (ef10_put_mc m' (fn_dev n))\<rparr>)
           \<and> especs t' = (if rc = RC_OK then (especs t)(i \<mapsto> spec') else especs t) \<and> ehandle t' = (ehandle t)(i := h))"
    if new: "\<not> absorbed t spec'" "\<not> excluded t spec'"
  proof (cases "find (free_slot t) (spec_slots spec')")
    case None
    then show ?thesis using call eq slot_for_new [OF new(2,1), of False] by simp
  next
    case (Some i)
    note slot = slot_for_new [OF new(2,1), of False, unfolded Some, simplified]
    have i: "especs t i = None" "i < length (eft_entry t)" using find_SomeD [OF Some] slot_less(1) [OF inv slot] by (simp_all add: free_slot_def)
    obtain good m where alloc: "env_alloc env (ef_mc (fd_hw (fn_dev n))) = (good, m)" by fastforce
    have has: "ef10_has (ef10_put_mc m (fn_dev n)) t" and ok: "spec_ok spec'" using n(4) spec spec' by simp_all
    obtain rc h m' where p: "efx_mcdi_filter_op_add env (ef10_put_mc m (fn_dev n)) spec'
        (if spec_excl spec' then MC_CMD_FILTER_OP_IN_OP_INSERT else MC_CMD_FILTER_OP_IN_OP_SUBSCRIBE) (ehandle t i)
        = Some (rc, h, ef10_put_mc m' (ef10_put_mc m (fn_dev n)))"
      "ef10_filter_program env (ef10_put_table (put_entry i ((eft_entry t ! i)\<lparr>efe_spec := Some spec', efe_busy := False,
         efe_auto_old := False\<rparr>) t) (ef10_put_mc m (fn_dev n))) spec' i spec' False
       = Some (if rc = RC_OK then Inr i else Inl rc,
         ef10_put_table (put_entry i (if rc = RC_OK then \<lparr>efe_spec = Some spec', efe_busy = False, efe_auto_old = False, efe_handle = h\<rparr>
            else \<lparr>efe_spec = None, efe_busy = False, efe_auto_old = False, efe_handle = h\<rparr>) t) (ef10_put_mc m' (ef10_put_mc m (fn_dev n))))"
      by (rule program_new_op [OF env has ok i(2)])
    let ?t = "put_entry i (if rc = RC_OK then \<lparr>efe_spec = Some spec', efe_busy = False, efe_auto_old = False, efe_handle = h\<rparr>
            else \<lparr>efe_spec = None, efe_busy = False, efe_auto_old = False, efe_handle = h\<rparr>) t"
    have "especs ?t = (if rc = RC_OK then (especs t)(i \<mapsto> spec') else especs t)" "ehandle ?t = (ehandle t)(i := h)"
      using i by (auto simp: put_entry_view fun_upd_idem)
    then show ?thesis using call eq slot i(1) alloc p Some by (cases "rc = RC_OK") auto
  qed
  show ?thesis using A B C by (simp only: if_split) blast
qed

text \<open>The filter that a removal takes: same match, same destination.\<close>

definition removable :: "ef10_filter_table \<Rightarrow> efx_filter_spec \<Rightarrow> nat \<Rightarrow> bool" where
  "removable t spec i = (\<exists>s. especs t i = Some s \<and> ef10_filter_equal spec s \<and> ef10_filter_same_dest spec s)"

lemma remove_call:
  assumes nic: "ef10_filter_nic env n t" and spec: "spec_ok spec" "efs_flags spec AND EFX_FILTER_FLAG_RX \<noteq> 0"
    and spec': "spec' = spec\<lparr>efs_rss_context := fd_rss_context (fn_dev n)\<rparr>"
  shows "efx_filter_remove n spec = (case find (removable t spec') (spec_slots spec') of
      None \<Rightarrow> Some (ENOENT, n)
    | Some i \<Rightarrow> map_option (\<lambda>(rc, dev). (rc, n\<lparr>fn_dev := dev\<rparr>)) (ef10_filter_delete_internal env (fn_dev n) i))"
proof -
  note n = filter_nicD [OF nic]
  have ok: "spec_ok spec'" using spec(1) spec' by simp
  have "\<forall>i\<in>set (spec_slots spec'). i < length (eft_entry t)" using spec_slots_less tbl_invD(1) [OF n(6)] by simp
  from filter_lookup_find [OF this, of spec', folded removable_def]
  show ?thesis using n(2,3) spec(2) ok ef10_hasD(1,2) [OF n(4)]
    by (simp add: efx_filter_remove_def ef10_filter_ops_def ef10_filter_delete_def spec' [symmetric] spec_slots_def [symmetric] removable_def [abs_def]
        split: option.split) (auto split: Option.bind_split)
qed

lemma delete_internal_op:
  assumes has: "ef10_has enp t" and inv: "ef10_tbl_inv t" and i: "especs t i = Some s"
  obtains rc m where
    "efx_mcdi_filter_op_delete env enp (if spec_excl s then MC_CMD_FILTER_OP_IN_OP_REMOVE else MC_CMD_FILTER_OP_IN_OP_UNSUBSCRIBE) (ehandle t i)
      = Some (rc, ef10_put_mc m enp)"
    "ef10_filter_delete_internal env enp i = Some (rc, ef10_put_table (delete_step t i) (ef10_put_mc m enp))"
proof -
  let ?op = "if spec_excl s then MC_CMD_FILTER_OP_IN_OP_REMOVE else MC_CMD_FILTER_OP_IN_OP_UNSUBSCRIBE"
  obtain rc m where op: "efx_mcdi_filter_op_delete env enp ?op (ehandle t i) = Some (rc, ef10_put_mc m enp)"
    by (rule filter_op_delete_returns [OF ef10_hasD(3) [OF has] add_op_in(3)])
  have row: "i < EFX_EF10_FILTER_TBL_ROWS" using especs_less [OF i] tbl_invD(1) [OF inv] by simp
  let ?tb = "put_entry i ((eft_entry t ! i)\<lparr>efe_busy := True\<rparr>) t"
  have "ef10_filter_delete_internal env enp i = Some (rc, ef10_put_table (delete_step t i) (ef10_put_mc m enp))"
    using i row op_delete_table [OF op, of ?tb] ef10_hasD(1) [OF has] tbl_invD(1,6) [OF inv] tbl_invD(7) [OF inv i]
    by (simp add: ef10_filter_delete_internal_def wait_idle put_entry_nth ehandle_def delete_step_def cleared_def)
  with op that show ?thesis by blast
qed

text \<open>
  C21. Removing a filter takes exactly one installed filter with the same match and destination out of the table, after asking the
  controller to remove it (unsubscribe, unless it is exclusive) by its handle; the result is the controller's answer. If no filter in
  the whole table has the same match and destination, it is ENOENT and nothing changes.
\<close>
theorem efx_filter_remove_ef10:
  assumes nic: "ef10_filter_nic env n t" and spec: "spec_ok spec" "efs_flags spec AND EFX_FILTER_FLAG_RX \<noteq> 0"
    and spec': "spec' = spec\<lparr>efs_rss_context := fd_rss_context (fn_dev n)\<rparr>"
  shows "if \<nexists>i. removable t spec' i then efx_filter_remove n spec = Some (ENOENT, n)
     else \<exists>i s rc m' t'. removable t spec' i \<and> especs t i = Some s
        \<and> efx_mcdi_filter_op_delete env (fn_dev n)
            (if spec_excl s then MC_CMD_FILTER_OP_IN_OP_REMOVE else MC_CMD_FILTER_OP_IN_OP_UNSUBSCRIBE) (ehandle t i)
          = Some (rc, ef10_put_mc m' (fn_dev n))
        \<and> efx_filter_remove n spec = Some (rc, n\<lparr>fn_dev := ef10_put_table t' (ef10_put_mc m' (fn_dev n))\<rparr>)
        \<and> especs t' = (especs t)(i := None)"
proof -
  note n = filter_nicD [OF nic] note call = remove_call [OF nic spec spec']
  show ?thesis
  proof (cases "find (removable t spec') (spec_slots spec')")
    case None
    have "\<not> removable t spec' i" for i
    proof
      assume r: "removable t spec' i"
      then have "i \<in> set (spec_slots spec')" using in_slots [OF n(6)] by (auto simp: removable_def)
      with None r show False by (auto simp: find_None_iff)
    qed
    then show ?thesis using call None by simp
  next
    case (Some i)
    then have r: "removable t spec' i" by (auto dest: find_SomeD)
    then obtain s where s: "especs t i = Some s" by (auto simp: removable_def)
    obtain rc m where op: "efx_mcdi_filter_op_delete env (fn_dev n)
        (if spec_excl s then MC_CMD_FILTER_OP_IN_OP_REMOVE else MC_CMD_FILTER_OP_IN_OP_UNSUBSCRIBE) (ehandle t i) = Some (rc, ef10_put_mc m (fn_dev n))"
      and del: "ef10_filter_delete_internal env (fn_dev n) i = Some (rc, ef10_put_table (delete_step t i) (ef10_put_mc m (fn_dev n)))"
      by (rule delete_internal_op [OF n(4,6) s])
    have "efx_filter_remove n spec = Some (rc, n\<lparr>fn_dev := ef10_put_table (delete_step t i) (ef10_put_mc m (fn_dev n))\<rparr>)"
      using call Some del by simp
    moreover have "\<not> (\<nexists>i. removable t spec' i)" using r by blast
    ultimately show ?thesis using r s op delete_step_view(1) [of t i] by (simp only: if_False) blast
  qed
qed

section \<open>Every sequence of calls\<close>

text \<open>
  The states reached by calls with sensible arguments: a station address that is no multicast address, at most 256 addresses of
  multicast groups, no removal of a filter of the station by hand, and after a reset a restore that succeeds.
\<close>

definition station_filter :: "ef10_filter_table \<Rightarrow> nat \<Rightarrow> bool" where
  "station_filter t i = (i \<in> unicst_set t \<union> mulcst_set t)"



lemma ef10_idle_lists:
  assumes "ef10_idle t" "same_lists t t'" "ef10_tbl_inv t'" "\<And>i. eold t' i \<Longrightarrow> eold t i" "\<And>i mc. auto_mac t mc i \<Longrightarrow> station_filter t i \<Longrightarrow> auto_mac t' mc i"
  shows "ef10_idle t'"
  using assms unicst_set_same [OF assms(2)] mulcst_set_lists [OF assms(2)] unfolding ef10_idle_def station_filter_def by blast

lemma insert_returns:
  assumes env: "mc_env_ok env" and nic: "ef10_filter_nic env n t" and spec: "spec_ok spec" "efs_flags spec AND EFX_FILTER_FLAG_RX \<noteq> 0"
  obtains rc n' t' where "efx_filter_insert n spec = Some (rc, n')" "ef10_filter_nic env n' t'"
proof -
  note n = filter_nicD [OF nic]
  obtain r t' m where add: "ef10_filter_add_internal env (fn_dev n) spec False = Some (r, ef10_put_table t' (ef10_put_mc m (fn_dev n)))"
    "add_step t (spec\<lparr>efs_rss_context := fd_rss_context (fn_dev n)\<rparr>) False r t'"
    by (rule add_internal_step [OF env n(4,6) spec(1)])
  have "ef10_idle t'"
    by (rule ef10_idle_lists [OF n(5) add_step_lists [OF add(2)] add_step_inv [OF add(2) n(6)]])
      (use spec(1) add_step_auto(2) [OF add(2) n(6)] add_step_auto_mac [OF add(2) n(6)] in auto)
  then have "ef10_filter_nic env (n\<lparr>fn_dev := ef10_put_table t' (ef10_put_mc m (fn_dev n))\<rparr>) t'"
    by (intro filter_nicI [OF nic]) (use n(4) in simp_all)
  moreover have "efx_filter_insert n spec = Some (case r of Inl rc \<Rightarrow> rc | Inr _ \<Rightarrow> RC_OK, n\<lparr>fn_dev := ef10_put_table t' (ef10_put_mc m (fn_dev n))\<rparr>)"
    using add(1) n(2,3) spec(2) by (simp add: efx_filter_insert_def ef10_filter_ops_def ef10_filter_add_def)
  ultimately show ?thesis using that by blast
qed



lemma reconfigure_call_returns:
  assumes env: "mc_env_ok env" and nic: "ef10_filter_nic env n t" and args: "length mac = 6" "\<not> bit (mac ! 0) 0" "mc_list addrs count"
  obtains rc dev t' where "efx_filter_reconfigure n mac all_unicst mulcst all_mulcst brdcst addrs count = Some (rc, n\<lparr>fn_dev := dev\<rparr>)"
    "ef10_has dev t'" "ef10_filter_nic env (n\<lparr>fn_dev := dev\<rparr>) t'" "reconfigured t rc t'"
proof -
  note n = filter_nicD [OF nic]
  obtain rc dev where r: "ef10_filter_reconfigure env (fn_dev n) mac all_unicst mulcst all_mulcst brdcst addrs count = Some (rc, dev)"
    "to_table (fn_dev n) (reconfigured t rc) dev"
    by (rule returns_pairE [OF reconfigure_returns [OF env n(4,5) args]])
  from r(2) obtain t' where t': "ef10_has dev t'" "nic_keeps (fn_dev n) dev" "reconfigured t rc t'" by (rule to_tableE)
  have "ef10_idle t'" using t'(3) by (simp add: reconfigured_def)
  note nic' = filter_nicI [OF nic t'(2,1) this]
  have "efx_filter_reconfigure n mac all_unicst mulcst all_mulcst brdcst addrs count = Some (rc, n\<lparr>fn_dev := dev\<rparr>)"
    using r(1) n(1-3) by (simp add: efx_filter_reconfigure_def ef10_filter_ops_def)
  with t'(1,3) nic' show ?thesis using that by blast
qed










lemma mark_old_none:
  assumes sel: "\<And>D a b. marked D a b \<Longrightarrow> f b = f a"
  shows "ef10_tbl_inv t \<Longrightarrow> k \<in> set is \<Longrightarrow> especs t (f t ! k) = None \<Longrightarrow> ef10_mark_old f is t = None"
proof (induction "is" arbitrary: t)
  case (Cons i "is")
  show ?case
  proof (cases "i < length (f t) \<and> especs t (f t ! i) \<noteq> None")
    case False
    then show ?thesis
      by (cases "f t ! i < length (eft_entry t)") (auto simp: ef10_filter_set_entry_auto_old_def ef10_filter_entry_spec_def especs_def
        split: Option.bind_splits)
  next
    case True
    then have "k \<noteq> i" using Cons.prems(3) by auto
    with Cons.prems(2) have k: "k \<in> set is" by simp
    have "returns (marked (nth (f t) ` set [i]) t) (ef10_mark_old f [i] t)"
      by (rule mark_old_returns [OF sel Cons.prems(1)]) (use True in auto)
    then obtain t' where t': "ef10_mark_old f [i] t = Some t'" "marked (nth (f t) ` set [i]) t t'" by (rule returnsE)
    have "ef10_mark_old f is t' = None"
      by (rule Cons.IH) (use t'(2) sel [OF t'(2)] k Cons.prems(3) in \<open>simp_all add: marked_def\<close>)
    then show ?thesis using t'(1) True by (auto split: Option.bind_splits)
  qed
qed simp

section \<open>Properties of every sequence of calls\<close>



text \<open>
  C23. A reconfiguration that reports success has swept the station's old filters: each filter that was tracked before is either
  removed from the table or tracked again. Without a default receive queue none is left.
\<close>
theorem efx_filter_reconfigure_sweeps:
  assumes "mc_env_ok env" "ef10_filter_nic env n t" "length mac = 6" "\<not> bit (mac ! 0) 0" "mc_list addrs count"
    and "efx_filter_reconfigure n mac all_unicst mulcst all_mulcst brdcst addrs count = Some (RC_OK, n')"
  shows "\<exists>t'. ef10_filter_nic env n' t' \<and> {i. station_filter t i} \<subseteq> {i. especs t' i = None} \<union> {i. station_filter t' i}"
proof -
  obtain rc dev t' where r: "efx_filter_reconfigure n mac all_unicst mulcst all_mulcst brdcst addrs count = Some (rc, n\<lparr>fn_dev := dev\<rparr>)"
    "ef10_filter_nic env (n\<lparr>fn_dev := dev\<rparr>) t'" "reconfigured t rc t'"
    by (rule reconfigure_call_returns [OF assms(1-5), of all_unicst mulcst all_mulcst brdcst])
  then have "rc = RC_OK" "n' = n\<lparr>fn_dev := dev\<rparr>" using assms(6) by simp_all
  have "especs t' i = None \<or> i \<in> unicst_set t' \<union> mulcst_set t'" if "i \<in> unicst_set t \<union> mulcst_set t" for i
    using r(3) \<open>rc = RC_OK\<close> that by (simp add: reconfigured_def)
  then have "{i. station_filter t i} \<subseteq> {i. especs t' i = None} \<union> {i. station_filter t' i}" unfolding station_filter_def by blast
  with r(2) show ?thesis unfolding \<open>n' = n\<lparr>fn_dev := dev\<rparr>\<close> by blast
qed

text \<open>
  C24. A filter that is inserted by hand for the address of the station is absorbed: the call reports success although no request is
  made and nothing is recorded. Removing that filter again deletes the station's own filter, and then the next
  reconfiguration fails its assertion.
\<close>
theorem efx_filter_insert_remove_auto:
  assumes env: "mc_env_ok env" and nic: "ef10_filter_nic env n t" and tracked: "i \<in> unicst_set t" "especs t i = Some s" "spec_excl s"
    and rxq: "eft_default_rxq t \<noteq> None"
    and spec: "spec_ok spec" "efs_flags spec AND EFX_FILTER_FLAG_RX \<noteq> 0" "ef10_filter_equal spec s"
      "ef10_filter_same_dest (spec\<lparr>efs_rss_context := fd_rss_context (fn_dev n)\<rparr>) s"
  shows "\<exists>dev rc n'. efx_filter_insert n spec = Some (RC_OK, n\<lparr>fn_dev := dev\<rparr>) \<and> ef_mc (fd_hw dev) = ef_mc (fd_hw (fn_dev n))
    \<and> efx_filter_remove (n\<lparr>fn_dev := dev\<rparr>) spec = Some (rc, n')
    \<and> efx_filter_reconfigure n' mac all_unicst mulcst all_mulcst brdcst addrs count = None"
proof -
  note n = filter_nicD [OF nic]
  define spec' where "spec' = spec\<lparr>efs_rss_context := fd_rss_context (fn_dev n)\<rparr>"
  have eq: "ef10_filter_equal spec' s" using spec(3) by (simp add: spec'_def)
  have "efs_priority s = EFX_FILTER_PRI_AUTO" using ef10_idleD(3) [OF n(5) tracked(1)] tracked(2) by (simp add: auto_mac_def)
  then have "absorbed t spec'" using tracked(2) eq by (auto simp: absorbed_def)
  from insert_absorbed [OF nic spec(1,2) spec'_def this] obtain t'
    where ins: "efx_filter_insert n spec = Some (RC_OK, n\<lparr>fn_dev := ef10_put_table t' (fn_dev n)\<rparr>)" and t': "especs t' = especs t" "same_lists t t'"
    by blast
  let ?n = "n\<lparr>fn_dev := ef10_put_table t' (fn_dev n)\<rparr>"
  obtain rc n1 t1 where "efx_filter_insert n spec = Some (rc, n1)" "ef10_filter_nic env n1 t1" by (rule insert_returns [OF env nic spec(1,2)])
  then have nic1: "ef10_filter_nic env ?n t'" using ins by (auto simp: ef10_filter_nic_def ef10_has_def)
  note n1 = filter_nicD [OF nic1]
  have rss: "fd_rss_context (fn_dev ?n) = fd_rss_context (fn_dev n)" by simp
  have r: "removable t' spec' i" using tracked(2) t'(1) eq spec(4) by (simp add: removable_def spec'_def)
  have only: "j = i" if "removable t' spec' j" for j
  proof -
    from that obtain s' where "especs t' j = Some s'" "ef10_filter_equal spec' s'" by (auto simp: removable_def)
    moreover have "especs t' i = Some s" using tracked(2) t'(1) by simp
    ultimately show ?thesis using tbl_invD(9) [OF n1(6), of i s j s'] equal_trans [OF equal_sym [OF eq]] tracked(3) by blast
  qed
  have "i \<in> set (spec_slots spec')" using in_slots [OF n1(6), of i s] tracked(2) t'(1) eq by simp
  with r obtain j where j: "find (removable t' spec') (spec_slots spec') = Some j" using find_Some_ex by metis
  then have "j = i" using only by (auto dest: find_SomeD)
  have s': "especs t' i = Some s" using tracked(2) t'(1) by simp
  obtain rc m where del: "ef10_filter_delete_internal env (fn_dev ?n) i = Some (rc, ef10_put_table (delete_step t' i) (ef10_put_mc m (fn_dev ?n)))"
    by (rule delete_internal_op [OF n1(4,6) s'])
  let ?n' = "n\<lparr>fn_dev := ef10_put_table (delete_step t' i) (ef10_put_mc m (fn_dev n))\<rparr>"
  have rem: "efx_filter_remove ?n spec = Some (rc, ?n')"
    using remove_call [OF nic1 spec(1,2) refl] j \<open>j = i\<close> del rss by (simp add: spec'_def)
  let ?t = "delete_step t' i"
  have l: "same_lists t ?t" using t'(2) delete_step_lists [of t' i] by (simp add: same_lists_def)
  have "i \<in> nth (eft_unicst_filter_indexes ?t) ` set [0..<eft_unicst_filter_count ?t]"
    using tracked(1) tracked_nth(1) [OF delete_step_inv [OF n1(6), of i]] unicst_set_same [OF l] by simp
  then obtain k where k: "k \<in> set [0..<eft_unicst_filter_count ?t]" "eft_unicst_filter_indexes ?t ! k = i" by (metis imageE)
  have "ef10_mark_old eft_unicst_filter_indexes [0..<eft_unicst_filter_count ?t] ?t = None"
    by (rule mark_old_none [OF marked_sel(1) delete_step_inv [OF n1(6)] k(1)]) (unfold k(2), simp_all add: delete_step_view(1))
  then have "ef10_filter_reconfigure env (fn_dev ?n') mac all_unicst mulcst all_mulcst brdcst addrs count = None"
    using rxq l by (auto simp: ef10_filter_reconfigure_def same_lists_def)
  then have "efx_filter_reconfigure ?n' mac all_unicst mulcst all_mulcst brdcst addrs count = None"
    by (simp add: efx_filter_reconfigure_def n(3) ef10_filter_ops_def)
  with ins rem show ?thesis by (intro exI [of _ "ef10_put_table t' (fn_dev n)"] exI [of _ rc] exI [of _ ?n']) simp
qed


section \<open>Witnesses\<close>

text \<open>A controller that accepts every request, and one that refuses; each counts the requests.\<close>

definition accepting_mc :: "nat mc_env" where
  "accepting_mc = \<lparr>env_execute = \<lambda>req m. (req\<lparr>emr_rc := RC_OK, emr_out_length_used := 12\<rparr>, m + 1), env_alloc = \<lambda>m. (True, m)\<rparr>"

definition refusing_mc :: "nat mc_env" where
  "refusing_mc = \<lparr>env_execute = \<lambda>req m. (req\<lparr>emr_rc := EIO\<rparr>, m + 1), env_alloc = \<lambda>m. (True, m)\<rparr>"

lemma mc_ok: "mc_env_ok accepting_mc" "mc_env_ok refusing_mc"
  by (simp_all add: mc_env_ok_def accepting_mc_def refusing_mc_def)

definition demo_dev :: "nat ef10_nic" where
  "demo_dev = \<lparr>fd_magic = EFX_NIC_MAGIC, fd_family = EFX_FAMILY_HUNTINGTON, fd_mod_flags = EFX_MOD_PROBE OR EFX_MOD_MCDI OR EFX_MOD_FILTER,
     fd_features = EFX_FEATURE_MCDI, fd_rss_context = 0,
     fd_hw = \<lparr>ef_ef10_filter_table = None, enc_bug26807_workaround = False, ef_mc = 0\<rparr>\<rparr>"

definition demo_nic :: "nat mc_env \<Rightarrow> ef10_filter_table \<Rightarrow> nat ef10_filters filter_nic" where
  "demo_nic env t = \<lparr>fn_dev = ef10_put_table t demo_dev, en_efop = Some (ef10_filter_ops env)\<rparr>"

lemma demo_nic: "ef10_idle t \<Longrightarrow> ef10_filter_nic env (demo_nic env t) t"
  by (simp add: ef10_filter_nic_def demo_nic_def ef10_has_def filter_probed_def filter_up_def)
    (simp add: demo_dev_def ef10_put_table_def ef10_get_table_def ef10_filter_family_def mcdi_is_up_def EFX_MOD_PROBE_def EFX_MOD_MCDI_def
      EFX_MOD_FILTER_def EFX_FEATURE_MCDI_def)

text \<open>A filter of the station, its manual twin, and a table with the former.\<close>

definition demo_spec :: "2 word \<Rightarrow> efx_filter_spec" where
  "demo_spec pri = zero_filter_spec\<lparr>efs_priority := pri, efs_flags := EFX_FILTER_FLAG_RX, efs_match_flags := EFX_FILTER_MATCH_LOC_MAC,
     efs_loc_mac := [2, 0, 0, 0, 0, 1]\<rparr>"

definition demo_slot :: nat where "demo_slot = hd (spec_slots (demo_spec EFX_FILTER_PRI_AUTO))"

definition demo_table :: ef10_filter_table where
  "demo_table = (put_entry demo_slot \<lparr>efe_spec = Some (demo_spec EFX_FILTER_PRI_AUTO), efe_busy = False, efe_auto_old = False, efe_handle = zero_handle\<rparr>
     zero_table)\<lparr>eft_unicst_filter_indexes := [demo_slot, 0], eft_unicst_filter_count := 1, eft_default_rxq := Some 0\<rparr>"

lemma demo_spec: "spec_ok (demo_spec p)" "efs_flags (demo_spec p) AND EFX_FILTER_FLAG_RX \<noteq> 0" "spec_excl (demo_spec p)"
  "ef10_filter_equal (demo_spec p) (demo_spec q)" "ef10_filter_same_dest ((demo_spec p)\<lparr>efs_rss_context := c\<rparr>) (demo_spec q)"
  "efs_priority (demo_spec p) = p" "\<not> mac_mc (demo_spec p)"
  by (simp_all add: demo_spec_def zero_filter_spec_def spec_ok_def spec_excl_def ef10_filter_is_exclusive_def efx_mac_is_multicast_def
      filter_loc_host0_def ef10_filter_equal_def ef10_filter_same_dest_def mac_mc_def EFX_FILTER_FLAG_RX_def EFX_FILTER_FLAG_RX_RSS_def
      EFX_FILTER_MATCH_LOC_MAC_def)

lemma zero_idle: "ef10_idle (zero_table\<lparr>eft_default_rxq := q\<rparr>)"
proof -
  have "ef10_tbl_inv (zero_table\<lparr>eft_default_rxq := q\<rparr>)" using zero_table_inv by (simp add: ef10_tbl_inv_def)
  then show ?thesis by (simp add: ef10_idle_def unicst_set_def mulcst_set_def zero_table_view) (simp add: zero_table_def)
qed

lemma hd_spec_slots: "hd (spec_slots s) \<in> set (spec_slots s)"
  unfolding spec_slots_def ef10_filter_slots_def by (rule list.set_sel) (simp add: EF10_FILTER_SEARCH_LIMIT_def)

lemma demo_slot_in: "demo_slot \<in> set (spec_slots (demo_spec EFX_FILTER_PRI_AUTO))"
  unfolding demo_slot_def by (rule hd_spec_slots)

lemma demo_table_view: "especs demo_table = [demo_slot \<mapsto> demo_spec EFX_FILTER_PRI_AUTO]" "\<not> eold demo_table i"
  "unicst_set demo_table = {demo_slot}" "mulcst_set demo_table = {}"
proof -
  have "demo_slot < length (eft_entry zero_table)" using spec_slots_less [OF demo_slot_in] tbl_invD(1) [OF zero_table_inv] by simp
  then show "especs demo_table = [demo_slot \<mapsto> demo_spec EFX_FILTER_PRI_AUTO]" "\<not> eold demo_table i"
    by (simp_all add: demo_table_def put_entry_view zero_table_view)
  show "unicst_set demo_table = {demo_slot}" "mulcst_set demo_table = {}"
    by (simp_all add: unicst_set_def mulcst_set_def demo_table_def) (simp add: zero_table_def)
qed

lemma demo_idle: "ef10_idle demo_table"
proof -
  have "ef10_tbl_inv (put_entry demo_slot \<lparr>efe_spec = Some (demo_spec EFX_FILTER_PRI_AUTO), efe_busy = False, efe_auto_old = False, efe_handle = zero_handle\<rparr>
     zero_table)"
    by (rule tbl_inv_put_add [OF zero_table_inv _ _ demo_spec(1) demo_slot_in]) (simp_all add: no_conflict_def zero_table_view)
  from tbl_inv_update(1) [OF this, of "[demo_slot, 0]" 1] have "ef10_tbl_inv demo_table"
    by (simp add: demo_table_def EFX_EF10_FILTER_UNICAST_FILTERS_MAX_def ef10_tbl_inv_def)
  then show ?thesis by (simp add: ef10_idle_def demo_table_view auto_mac_def demo_spec)
qed

lemma mc_answers:
  "efx_mcdi_filter_op_add accepting_mc enp s op h = Some (rc, h', enp') \<Longrightarrow> rc = RC_OK"
  "efx_mcdi_filter_op_add refusing_mc enp s op h = Some (rc, h', enp') \<Longrightarrow> rc = EIO"
  by (auto simp: efx_mcdi_filter_op_add_def ef10_mcdi_execute_def efx_mcdi_execute_def accepting_mc_def refusing_mc_def mcdi_req_def op_in_length
      split: Option.bind_splits if_splits)



theorem efx_filter_insert_ef10_witness:
  "\<exists>n'. efx_filter_insert (demo_nic accepting_mc zero_table) (demo_spec 3) = Some (RC_OK, n')"
proof -
  let ?n = "demo_nic accepting_mc zero_table"
  have "ef10_idle zero_table" using zero_idle [of None] by (simp add: zero_table_def)
  note w = efx_filter_insert_ef10 [OF mc_ok(1) demo_nic [OF this] demo_spec(1,2) [of 3] refl]
  let ?s = "(demo_spec 3)\<lparr>efs_rss_context := fd_rss_context (fn_dev ?n)\<rparr>"
  obtain i where i: "find (free_slot zero_table) (spec_slots ?s) = Some i"
    using find_Some_ex [OF hd_spec_slots, of "free_slot zero_table" ?s] by (auto simp: free_slot_def zero_table_view)
  have none: "\<not> absorbed zero_table ?s" "\<not> excluded zero_table ?s" by (simp_all add: absorbed_def excluded_def zero_table_view)
  have alloc: "env_alloc accepting_mc (ef_mc (fd_hw (fn_dev ?n))) = (True, ef_mc (fd_hw (fn_dev ?n)))" by (simp add: accepting_mc_def)
  from w obtain rc h m' t' where op: "efx_mcdi_filter_op_add accepting_mc (ef10_put_mc (ef_mc (fd_hw (fn_dev ?n))) (fn_dev ?n)) ?s
      (if spec_excl ?s then MC_CMD_FILTER_OP_IN_OP_INSERT else MC_CMD_FILTER_OP_IN_OP_SUBSCRIBE) (ehandle zero_table i)
      = Some (rc, h, ef10_put_mc m' (fn_dev ?n))"
    "efx_filter_insert ?n (demo_spec 3) = Some (rc, ?n\<lparr>fn_dev := ef10_put_table t' (ef10_put_mc m' (fn_dev ?n))\<rparr>)"
    unfolding if_not_P [OF none(1)] if_not_P [OF none(2)] i alloc by auto
  from op(2) mc_answers(1) [OF op(1)] show ?thesis by blast
qed

theorem efx_filter_remove_ef10_witness:
  "\<exists>rc n' t'. efx_filter_remove (demo_nic accepting_mc demo_table) (demo_spec 1) = Some (rc, n') \<and> ef10_get_table (fn_dev n') = Some t' \<and> especs t' = Map.empty"
proof -
  let ?n = "demo_nic accepting_mc demo_table" let ?s = "(demo_spec 1)\<lparr>efs_rss_context := fd_rss_context (fn_dev ?n)\<rparr>"
  note w = efx_filter_remove_ef10 [OF demo_nic [OF demo_idle, of accepting_mc] demo_spec(1,2) [of 1] refl]
  have r: "removable demo_table ?s i = (i = demo_slot)" for i
    using demo_spec(4,5) by (auto simp: removable_def demo_table_view)
  from w [unfolded r] obtain rc m' t'
    where "efx_filter_remove ?n (demo_spec 1) = Some (rc, ?n\<lparr>fn_dev := ef10_put_table t' (ef10_put_mc m' (fn_dev ?n))\<rparr>)"
      "especs t' = (especs demo_table)(demo_slot := None)"
    by (simp only: simp_thms not_False_eq_True if_False) blast
  then show ?thesis
    by (intro exI [of _ rc] exI [of _ "?n\<lparr>fn_dev := ef10_put_table t' (ef10_put_mc m' (fn_dev ?n))\<rparr>"] exI [of _ t']) (simp add: demo_table_view)
qed




lemma demo_list: "mc_list [1, 0, 94, 0, 0, 5] 1"
  by (simp add: mc_list_def EFX_MAC_MULTICAST_LIST_MAX_def)



theorem efx_filter_reconfigure_sweeps_witness:
  "\<exists>n' t'. efx_filter_reconfigure (demo_nic accepting_mc (demo_table\<lparr>eft_default_rxq := None\<rparr>)) [2, 0, 0, 0, 0, 9] False True False True
      [1, 0, 94, 0, 0, 5] 1 = Some (RC_OK, n')
    \<and> {demo_slot} \<subseteq> {i. especs t' i = None} \<union> {i. station_filter t' i}"
proof -
  let ?t = "demo_table\<lparr>eft_default_rxq := None\<rparr>" let ?n = "demo_nic accepting_mc ?t"
  have mac: "length [2, 0, 0, 0, 0, 9 :: u8] = 6" "\<not> bit ([2, 0, 0, 0, 0, 9 :: u8] ! 0) 0" by simp_all
  have idle: "ef10_idle ?t"
    using demo_idle by (simp add: ef10_idle_def unicst_set_def mulcst_set_def auto_mac_def ef10_tbl_inv_def)
  note nic = demo_nic [OF idle, of accepting_mc] note n = filter_nicD [OF nic]
  obtain dev where "ef10_remove_station accepting_mc (fn_dev ?n) = Some dev" by (rule returnsE [OF remove_station_returns [OF n(4,5)]])
  then have r: "efx_filter_reconfigure ?n [2, 0, 0, 0, 0, 9] False True False True [1, 0, 94, 0, 0, 5] 1 = Some (RC_OK, ?n\<lparr>fn_dev := dev\<rparr>)"
    using n(1-3) ef10_hasD(1) [OF n(4)] by (simp add: efx_filter_reconfigure_def ef10_filter_ops_def ef10_filter_reconfigure_def)
  have "{demo_slot} \<subseteq> {i. station_filter ?t i}"
    using demo_table_view(3) by (simp add: station_filter_def unicst_set_def)
  with efx_filter_reconfigure_sweeps [OF mc_ok(1) nic mac demo_list r] r show ?thesis by blast
qed

theorem efx_filter_insert_remove_auto_witness:
  "\<exists>dev rc n'. efx_filter_insert (demo_nic accepting_mc demo_table) (demo_spec 3) = Some (RC_OK, (demo_nic accepting_mc demo_table)\<lparr>fn_dev := dev\<rparr>)
    \<and> efx_filter_remove ((demo_nic accepting_mc demo_table)\<lparr>fn_dev := dev\<rparr>) (demo_spec 3) = Some (rc, n')
    \<and> efx_filter_reconfigure n' [2, 0, 0, 0, 0, 1] False True False True [] 0 = None"
proof -
  have "demo_slot \<in> unicst_set demo_table" "especs demo_table demo_slot = Some (demo_spec EFX_FILTER_PRI_AUTO)" "eft_default_rxq demo_table \<noteq> None"
    by (simp_all add: demo_table_view) (simp add: demo_table_def)
  from efx_filter_insert_remove_auto [OF mc_ok(1) demo_nic [OF demo_idle] this(1,2) demo_spec(3) this(3) demo_spec(1,2) [of 3] demo_spec(4,5)]
  show ?thesis by blast
qed


end
