(* ===== verification/Efx_Mon.thy ===== *)
theory Efx_Mon
  imports Efx_Mc_Cmd
begin

text \<open>
  Sensors of the board: \<open>src/common/mcdi_mon.c\<close> and \<open>src/common/efx_mon.c\<close>. The controller numbers its sensors in pages of 32,
  the last of each page being a flag that another page follows; the driver maps them to its own statistics.

  The code shifts \<open>1U\<close> by a sensor number that may exceed 31. The C standard leaves that undefined; what the processor does
  is the parameter \<open>shl\<close> of the definitions: \<open>c_shl\<close> is the standard (undefined is \<open>None\<close>), \<open>x86_shl\<close> the processors that take the
  shift count modulo 32.
\<close>

section \<open>Sensors and statistics\<close>

definition c_shl :: "nat \<Rightarrow> u32 option" where
  "c_shl n = (if n < 32 then Some (push_bit n 1) else None)"

definition x86_shl :: "nat \<Rightarrow> u32 option" where
  "x86_shl n = Some (push_bit (n mod 32) 1)"

definition MCDI_MON_NEXT_PAGE :: nat where "MCDI_MON_NEXT_PAGE = 0xfffe"
definition MCDI_MON_INVALID_SENSOR :: nat where "MCDI_MON_INVALID_SENSOR = 0xfffd"
definition MCDI_MON_PAGE_SIZE :: nat where "MCDI_MON_PAGE_SIZE = 0x20"
definition MC_CMD_SENSOR_PAGE0_NEXT :: nat where "MC_CMD_SENSOR_PAGE0_NEXT = 0x1f"
definition EFX_MON_MASK_ELEMENT_SIZE :: nat where "EFX_MON_MASK_ELEMENT_SIZE = 32"
definition EFX_MON_NSTATS :: nat where "EFX_MON_NSTATS = 77"
definition EFX_MON_STATS_PAGE_SIZE :: nat where "EFX_MON_STATS_PAGE_SIZE = 0x100"

definition MCDI_MON_PORT_NONE :: u16 where "MCDI_MON_PORT_NONE = 0x00"
definition MCDI_MON_PORT_P1 :: u16 where "MCDI_MON_PORT_P1 = 0x01"
definition MCDI_MON_PORT_P2 :: u16 where "MCDI_MON_PORT_P2 = 0x02"
definition MCDI_MON_PORT_Px :: u16 where "MCDI_MON_PORT_Px = 0xFFFF"

text \<open>The ports that have a sensor, and the statistic (an index of \<open>efx_mon_stat_e\<close>) that it feeds.\<close>

definition mcdi_sensor_map :: "(u16 \<times> nat) list" where
  "mcdi_sensor_map = (let px = MCDI_MON_PORT_Px; p1 = MCDI_MON_PORT_P1; p2 = MCDI_MON_PORT_P2;
      next_page = (MCDI_MON_PORT_NONE, MCDI_MON_NEXT_PAGE); no_sensor = (MCDI_MON_PORT_NONE, MCDI_MON_INVALID_SENSOR) in
    [
     (px, 7), (px, 6), (px, 10), (p1, 6), (p1, 11), (p2, 6), (p2, 11), (px, 12), (px, 13), (px, 14), (px, 0), (px, 15),
     (px, 4), (px, 16), (px, 17), (px, 18), (px, 19), (px, 20), (px, 21), (px, 22), (px, 23), (px, 24), (px, 25), (px, 26),
     (px, 27), (px, 28), (px, 29), (px, 30), (px, 31), (px, 32), (px, 33), next_page, (px, 34), (px, 35), (px, 36), (px,
     37), (px, 38), (px, 39), (px, 40), (px, 41), (px, 42), (px, 43), (px, 44), (px, 45), (px, 46), (px, 47), (p1, 48),
     (p2, 49), (px, 50), (px, 51), (px, 52), (px, 53), (px, 54), (px, 55), (px, 56), (px, 57), (px, 58), (px, 59), (px,
     60), no_sensor, no_sensor, no_sensor, no_sensor, next_page, (px, 61), (px, 62), (px, 63), (px, 64), (px, 65), (px,
     66), (px, 67), (px, 68), no_sensor, (px, 69), (px, 70), (px, 71), (px, 72), (px, 73), (px, 74), (px, 75), (px, 76)])"

datatype efx_mon_type = EFX_MON_INVALID | EFX_MON_SFC90X0 | EFX_MON_SFC91X0 | EFX_MON_SFC92X0

record efx_mon_stat_value =
  emsv_value :: u16
  emsv_state :: u16

text \<open>
  The parts of \<open>efx_nic_t\<close> in use. \<open>mask_allocated\<close> says whether the memory that \<open>enc_mcdi_sensor_maskp\<close> points to is allocated:
  an error path frees it and keeps the pointer. \<open>em_emop\<close> is whether the table of operations is set; there is only one.
\<close>

record 'm mon_nic =
  mo_family :: efx_family
  mo_mod_flags :: u32
  mo_features :: u32
  mo_emi_port :: u32
  enc_mon_type :: efx_mon_type
  enc_mon_stat_dma_buf_size :: nat
  enc_mcdi_sensor_maskp :: "u32 list option"
  enc_mcdi_sensor_mask_size :: nat
  enc_mon_stat_mask :: "u32 list"
  mask_allocated :: bool
  em_type :: efx_mon_type
  em_emop :: bool
  mo_mc :: 'm

section \<open>Decoding the readings\<close>

text \<open>
  One pass of the loop of \<open>mcdi_mon_decode_stats\<close>. Its variables are \<open>idx\<close>, \<open>page\<close>, \<open>stat_mask\<close> and the caller's statistics
  (NULL is \<open>None\<close>); \<open>esmp\<close> is the DMA buffer with the packed readings, if there is one.
\<close>

type_synonym mon_decode = "nat \<times> nat \<times> u32 list \<times> efx_mon_stat_value list option"

definition reading_of :: "u32 \<Rightarrow> efx_mon_stat_value" where
  "reading_of dword = \<lparr>emsv_value = ucast (efx_dword_field dword 0 16), emsv_state = ucast (efx_dword_field dword 16 8)\<rparr>"

definition mon_decode_reading :: "u32 list option \<Rightarrow> nat \<Rightarrow> nat \<Rightarrow> efx_mon_stat_value list option \<Rightarrow> efx_mon_stat_value list option option" where
  "mon_decode_reading esmp idx stat_id stat =
     (case (stat, esmp) of
        (Some values, Some mem) \<Rightarrow> do {
          dword \<leftarrow> rd mem (idx - 1);
          values \<leftarrow> wr values stat_id (reading_of dword);
          Some (Some values) }
      | _ \<Rightarrow> Some stat)"

definition mon_decode_sensor ::
    "(nat \<Rightarrow> u32 option) \<Rightarrow> u16 \<Rightarrow> u32 list \<Rightarrow> u32 list option \<Rightarrow> nat \<Rightarrow> mon_decode \<Rightarrow> mon_decode option" where
  "mon_decode_sensor shl port_mask sensor_mask esmp sensor st = (case st of (idx, page, stat_mask, stat) \<Rightarrow> do {
     (msm_port_mask, stat_id) \<leftarrow> rd mcdi_sensor_map sensor;
     if sensor mod MCDI_MON_PAGE_SIZE = MC_CMD_SENSOR_PAGE0_NEXT
     then do { efsys_assert (stat_id = MCDI_MON_NEXT_PAGE); Some (idx, page + 1, stat_mask, stat) }
     else do {
       smask \<leftarrow> rd sensor_mask page;
       sbit \<leftarrow> shl sensor;
       if NOT smask AND sbit \<noteq> 0 then Some (idx, page, stat_mask, stat)
       else do {
         let idx = idx + 1;
         if port_mask AND msm_port_mask = 0 then Some (idx, page, stat_mask, stat)
         else do {
           efsys_assert (stat_id < EFX_MON_NSTATS);
           old \<leftarrow> rd stat_mask (stat_id div EFX_MON_MASK_ELEMENT_SIZE);
           stat_mask \<leftarrow> wr stat_mask (stat_id div EFX_MON_MASK_ELEMENT_SIZE) (old OR push_bit (stat_id mod EFX_MON_MASK_ELEMENT_SIZE) 1);
           stat \<leftarrow> mon_decode_reading esmp idx stat_id stat;
           Some (idx, page, stat_mask, stat) } } } })"

fun mon_decode_loop ::
    "(nat \<Rightarrow> u32 option) \<Rightarrow> u16 \<Rightarrow> u32 list \<Rightarrow> u32 list option \<Rightarrow> nat list \<Rightarrow> mon_decode \<Rightarrow> mon_decode option" where
  "mon_decode_loop shl port_mask sensor_mask esmp [] st = Some st"
| "mon_decode_loop shl port_mask sensor_mask esmp (sensor # sensors) st = do {
     st \<leftarrow> mon_decode_sensor shl port_mask sensor_mask esmp sensor st;
     mon_decode_loop shl port_mask sensor_mask esmp sensors st }"

definition decode_port_mask :: "u32 \<Rightarrow> u16" where
  "decode_port_mask port = ucast (push_bit (unat port) 1 :: u32)"

text \<open>The result is the mask of the statistics (\<open>stat_maskp\<close>) and their values.\<close>

definition mcdi_mon_decode_stats ::
    "(nat \<Rightarrow> u32 option) \<Rightarrow> u32 \<Rightarrow> u32 list \<Rightarrow> nat \<Rightarrow> u32 list option \<Rightarrow> efx_mon_stat_value list option
     \<Rightarrow> (u32 list \<times> efx_mon_stat_value list option) option" where
  "mcdi_mon_decode_stats shl port sensor_mask sensor_mask_size esmp stat = do {
     let sensor_max = min (8 * sensor_mask_size) (length mcdi_sensor_map);
     efsys_assert (unat port < 32);
     let port_mask = decode_port_mask port;
     let stat_mask = replicate ((length mcdi_sensor_map + 31) div 32) 0;
     (_, _, stat_mask, stat) \<leftarrow> mon_decode_loop shl port_mask sensor_mask esmp [0..<sensor_max] (0, 0, stat_mask, stat);
     Some (stat_mask, stat) }"

text \<open>A sensor event: the statistic and its value, or \<open>ENOTSUP\<close> (not in the map) or \<open>ENODEV\<close> (another port).\<close>

definition event_port_mask :: "u32 \<Rightarrow> u16" where
  "event_port_mask port = (if port = 1 then MCDI_MON_PORT_P1 else MCDI_MON_PORT_P2)"

definition mcdi_mon_ev :: "u32 \<Rightarrow> u32 list option \<Rightarrow> nat \<Rightarrow> efx_qword \<Rightarrow> (efx_rc + nat \<times> efx_mon_stat_value) option" where
  "mcdi_mon_ev port maskp mask_size eqp = do {
     let sensor = unat (efx_qword_field eqp 0 8);
     let state = ucast (efx_qword_field eqp 8 8);
     let v = ucast (efx_qword_field eqp 16 16);
     efsys_assert (sensor < 8 * mask_size);
     efsys_assert (sensor mod MCDI_MON_PAGE_SIZE \<noteq> MC_CMD_SENSOR_PAGE0_NEXT);
     sensor_mask \<leftarrow> maskp;
     smask \<leftarrow> rd sensor_mask (sensor div MCDI_MON_PAGE_SIZE);
     efsys_assert (smask AND push_bit (sensor mod MCDI_MON_PAGE_SIZE) 1 \<noteq> 0);
     if length mcdi_sensor_map \<le> sensor then Some (Inl ENOTSUP)
     else do {
       let (msm_port_mask, stat_id) = mcdi_sensor_map ! sensor;
       if event_port_mask port AND msm_port_mask = 0 then Some (Inl ENODEV)
       else do {
         efsys_assert (stat_id < EFX_MON_NSTATS);
         Some (Inr (stat_id, \<lparr>emsv_value = v, emsv_state = state\<rparr>)) } } }"

section \<open>Names\<close>

text \<open>Two adjacent string literals are one string in C: the list has three entries.\<close>

definition efx_mon_names :: "string list" where
  "efx_mon_names = ['''', ''sfx90x0'', ''sfx91x0'' @ ''sfx92x0'']"

definition mon_type_index :: "efx_mon_type \<Rightarrow> nat" where
  "mon_type_index t = (case t of EFX_MON_INVALID \<Rightarrow> 0 | EFX_MON_SFC90X0 \<Rightarrow> 1 | EFX_MON_SFC91X0 \<Rightarrow> 2 | EFX_MON_SFC92X0 \<Rightarrow> 3)"

definition efx_mon_name :: "'m mon_nic \<Rightarrow> string option" where
  "efx_mon_name enp = do {
     efsys_assert (enc_mon_type enp \<noteq> EFX_MON_INVALID);
     efsys_assert (mon_type_index (enc_mon_type enp) < 4);
     rd efx_mon_names (mon_type_index (enc_mon_type enp)) }"

definition mon_stat_names :: "string list" where
  "mon_stat_names = [
     ''value_2_5v'', ''value_vccp1'', ''value_vcc'', ''value_5v'', ''value_12v'', ''value_vccp2'', ''value_ext_temp'',
     ''value_int_temp'', ''value_ain1'', ''value_ain2'', ''controller_cooling'', ''ext_cooling'', ''1v'', ''1_2v'',
     ''1_8v'', ''3_3v'', ''1_2va'', ''vref'', ''vaoe'', ''aoe_temperature'', ''psu_aoe_temperature'', ''psu_temperature'',
     ''fan0'', ''fan1'', ''fan2'', ''fan3'', ''fan4'', ''vaoe_in'', ''iaoe'', ''iaoe_in'', ''nic_power'', ''0_9v'',
     ''i0_9v'', ''i1_2v'', ''0_9v_adc'', ''controller_temperature2'', ''vreg_temperature'', ''vreg_0_9v_temperature'',
     ''vreg_1_2v_temperature'', ''int_vptat'', ''controller_internal_adc_temperature'', ''ext_vptat'',
     ''controller_external_adc_temperature'', ''ambient_temperature'', ''airflow'', ''vdd08d_vss08d_csr'',
     ''vdd08d_vss08d_csr_extadc'', ''hotpoint_temperature'', ''phy_power_switch_port0'', ''phy_power_switch_port1'',
     ''mum_vcc'', ''0v9_a'', ''i0v9_a'', ''0v9_a_temp'', ''0v9_b'', ''i0v9_b'', ''0v9_b_temp'', ''ccom_avreg_1v2_supply'',
     ''ccom_avreg_1v2_supply_ext_adc'', ''ccom_avreg_1v8_supply'', ''ccom_avreg_1v8_supply_ext_adc'',
     ''controller_master_vptat'', ''controller_master_internal_temp'', ''controller_master_vptat_ext_adc'',
     ''controller_master_internal_temp_ext_adc'', ''controller_slave_vptat'', ''controller_slave_internal_temp'',
     ''controller_slave_vptat_ext_adc'', ''controller_slave_internal_temp_ext_adc'', ''sodimm_vout'', ''sodimm_0_temp'',
     ''sodimm_1_temp'', ''phy0_vcc'', ''phy1_vcc'', ''controller_tdiode_temp'', ''board_front_temp'', ''board_back_temp'']"

definition efx_mon_stat_name :: "nat \<Rightarrow> string option" where
  "efx_mon_stat_name stat_id = do { efsys_assert (stat_id < EFX_MON_NSTATS); rd mon_stat_names stat_id }"

section \<open>Requests\<close>

definition MC_CMD_SENSOR_INFO :: u32 where "MC_CMD_SENSOR_INFO = 0x41"
definition MC_CMD_READ_SENSORS :: u32 where "MC_CMD_READ_SENSORS = 0x42"
definition MC_CMD_SENSOR_INFO_EXT_IN_LEN :: nat where "MC_CMD_SENSOR_INFO_EXT_IN_LEN = 4"
definition MC_CMD_SENSOR_INFO_OUT_LENMAX :: nat where "MC_CMD_SENSOR_INFO_OUT_LENMAX = 252"
definition MC_CMD_READ_SENSORS_EXT_IN_LEN :: nat where "MC_CMD_READ_SENSORS_EXT_IN_LEN = 12"

definition efx_mcdi_read_sensors :: "'m mc_env \<Rightarrow> 'm mon_nic \<Rightarrow> u64 \<Rightarrow> nat \<Rightarrow> (efx_rc \<times> 'm mon_nic) option" where
  "efx_mcdi_read_sensors env enp addr buf_size = do {
     payload \<leftarrow> mcdi_in_set_dword 0 (ucast (addr AND 0xffffffff)) (replicate MC_CMD_READ_SENSORS_EXT_IN_LEN 0);
     payload \<leftarrow> mcdi_in_set_dword 4 (ucast (drop_bit 32 addr)) payload;
     payload \<leftarrow> mcdi_in_set_dword 8 (of_nat buf_size) payload;
     (req, m) \<leftarrow> efx_mcdi_execute env (mo_mod_flags enp) (mo_features enp)
       (mcdi_req MC_CMD_READ_SENSORS payload MC_CMD_READ_SENSORS_EXT_IN_LEN payload 0) (mo_mc enp);
     Some (emr_rc req, enp\<lparr>mo_mc := m\<rparr>) }"

definition sensor_info_req :: "nat \<Rightarrow> efx_mcdi_req option" where
  "sensor_info_req page = do {
     payload \<leftarrow> mcdi_in_set_dword 0 (of_nat page) (replicate MC_CMD_SENSOR_INFO_OUT_LENMAX 0);
     Some (mcdi_req MC_CMD_SENSOR_INFO payload MC_CMD_SENSOR_INFO_EXT_IN_LEN payload MC_CMD_SENSOR_INFO_OUT_LENMAX) }"

text \<open>The loop ends when a page says that no other follows; the controller decides whether that happens.\<close>

partial_function (option) sensor_info_npages_loop :: "'m mc_env \<Rightarrow> nat \<Rightarrow> 'm mon_nic \<Rightarrow> (efx_rc \<times> nat \<times> 'm mon_nic) option" where
  "sensor_info_npages_loop env page enp = do {
     req \<leftarrow> sensor_info_req page;
     (req, m) \<leftarrow> efx_mcdi_execute_quiet env (mo_mod_flags enp) (mo_features enp) req (mo_mc enp);
     let enp = enp\<lparr>mo_mc := m\<rparr>;
     if emr_rc req \<noteq> RC_OK then Some (emr_rc req, 0, enp)
     else do {
       smask \<leftarrow> mcdi_out_dword req 0;
       if smask AND push_bit MC_CMD_SENSOR_PAGE0_NEXT 1 \<noteq> 0 then sensor_info_npages_loop env (page + 1) enp
       else Some (RC_OK, page + 1, enp) } }"

definition efx_mcdi_sensor_info_npages :: "'m mc_env \<Rightarrow> 'm mon_nic \<Rightarrow> (efx_rc \<times> nat \<times> 'm mon_nic) option" where
  "efx_mcdi_sensor_info_npages env enp = sensor_info_npages_loop env 0 enp"

function sensor_info_loop :: "'m mc_env \<Rightarrow> nat \<Rightarrow> nat \<Rightarrow> u32 list \<Rightarrow> 'm mon_nic \<Rightarrow> (efx_rc \<times> u32 list \<times> 'm mon_nic) option" where
  "sensor_info_loop env npages page sensor_maskp enp =
     (if page < npages
      then do {
        req \<leftarrow> sensor_info_req page;
        (req, m) \<leftarrow> efx_mcdi_execute env (mo_mod_flags enp) (mo_features enp) req (mo_mc enp);
        let enp = enp\<lparr>mo_mc := m\<rparr>;
        if emr_rc req \<noteq> RC_OK then Some (emr_rc req, sensor_maskp, enp)
        else do {
          smask \<leftarrow> mcdi_out_dword req 0;
          if page \<noteq> npages - 1 \<and> smask AND push_bit MC_CMD_SENSOR_PAGE0_NEXT 1 = 0 then Some (EINVAL, sensor_maskp, enp)
          else do {
            sensor_maskp \<leftarrow> wr sensor_maskp page smask;
            sensor_info_loop env npages (page + 1) sensor_maskp enp } } }
      else Some (RC_OK, sensor_maskp, enp))"
  by pat_completeness auto
termination by (relation "measure (\<lambda>(env, npages, page, sensor_maskp, enp). npages - page)") auto

declare sensor_info_loop.simps [simp del]

definition efx_mcdi_sensor_info :: "'m mc_env \<Rightarrow> nat \<Rightarrow> u32 list \<Rightarrow> 'm mon_nic \<Rightarrow> (efx_rc \<times> u32 list \<times> 'm mon_nic) option" where
  "efx_mcdi_sensor_info env npages sensor_maskp enp = do {
     (rc, sensor_maskp, enp) \<leftarrow> sensor_info_loop env npages 0 sensor_maskp enp;
     if rc \<noteq> RC_OK then Some (rc, sensor_maskp, enp)
     else do {
       lastp \<leftarrow> rd sensor_maskp (npages - 1);
       Some (if lastp AND push_bit MC_CMD_SENSOR_PAGE0_NEXT 1 \<noteq> 0 then EINVAL else RC_OK, sensor_maskp, enp) } }"

section \<open>Configuration and statistics\<close>

definition mon_type_of_family :: "efx_family \<Rightarrow> efx_mon_type option" where
  "mon_type_of_family family = (case family of
     EFX_FAMILY_SIENA \<Rightarrow> Some EFX_MON_SFC90X0 | EFX_FAMILY_HUNTINGTON \<Rightarrow> Some EFX_MON_SFC91X0 | _ \<Rightarrow> None)"

definition mcdi_mon_cfg_build :: "(nat \<Rightarrow> u32 option) \<Rightarrow> 'm mc_env \<Rightarrow> 'm mon_nic \<Rightarrow> (efx_rc \<times> 'm mon_nic) option" where
  "mcdi_mon_cfg_build shl env enp = (case mon_type_of_family (mo_family enp) of
     None \<Rightarrow> Some (EINVAL, enp)
   | Some mon_type \<Rightarrow> do {
       (rc, npages, enp) \<leftarrow> efx_mcdi_sensor_info_npages env (enp\<lparr>enc_mon_type := mon_type\<rparr>);
       if rc \<noteq> RC_OK then Some (rc, enp)
       else do {
         let enp = enp\<lparr>enc_mon_stat_dma_buf_size := npages * EFX_MON_STATS_PAGE_SIZE, enc_mcdi_sensor_mask_size := npages * 4\<rparr>;
         let (ok, m) = env_alloc env (mo_mc enp);
         let enp = enp\<lparr>mo_mc := m\<rparr>;
         if \<not> ok then Some (ENOMEM, enp\<lparr>enc_mcdi_sensor_maskp := None\<rparr>)
         else do {
           (rc, maskp, enp) \<leftarrow> efx_mcdi_sensor_info env npages (replicate npages 0) enp;
           let enp = enp\<lparr>enc_mcdi_sensor_maskp := Some maskp, mask_allocated := True\<rparr>;
           if rc \<noteq> RC_OK then Some (rc, enp\<lparr>mask_allocated := False\<rparr>)
           else do {
             (stat_mask, _) \<leftarrow> mcdi_mon_decode_stats shl (mo_emi_port enp) maskp (enc_mcdi_sensor_mask_size enp) None None;
             Some (RC_OK, enp\<lparr>enc_mon_stat_mask := stat_mask\<rparr>) } } } })"

definition mcdi_mon_cfg_free :: "'m mon_nic \<Rightarrow> 'm mon_nic option" where
  "mcdi_mon_cfg_free enp =
     (if enc_mcdi_sensor_maskp enp \<noteq> None
      then do { efsys_assert (mask_allocated enp); Some (enp\<lparr>mask_allocated := False\<rparr>) }
      else Some enp)"

text \<open>\<open>dma\<close> is what the DMA buffer at \<open>addr\<close> holds after the controller has executed the request.\<close>

definition mcdi_mon_stats_update ::
    "(nat \<Rightarrow> u32 option) \<Rightarrow> 'm mc_env \<Rightarrow> ('m \<Rightarrow> u32 list) \<Rightarrow> u64 \<Rightarrow> 'm mon_nic \<Rightarrow> efx_mon_stat_value list
     \<Rightarrow> (efx_rc \<times> efx_mon_stat_value list \<times> 'm mon_nic) option" where
  "mcdi_mon_stats_update shl env dma addr enp values = do {
     (rc, enp) \<leftarrow> efx_mcdi_read_sensors env enp addr (enc_mon_stat_dma_buf_size enp);
     if rc \<noteq> RC_OK then Some (rc, values, enp)
     else do {
       maskp \<leftarrow> enc_mcdi_sensor_maskp enp;
       efsys_assert (mask_allocated enp);
       (_, stat) \<leftarrow> mcdi_mon_decode_stats shl (mo_emi_port enp) maskp (enc_mcdi_sensor_mask_size enp) (Some (dma (mo_mc enp))) (Some values);
       Some (RC_OK, the stat, enp) } }"

definition EFX_MOD_MON :: u32 where "EFX_MOD_MON = 0x00000400"

definition efx_mon_init :: "'m mon_nic \<Rightarrow> (efx_rc \<times> 'm mon_nic) option" where
  "efx_mon_init enp = do {
     efsys_assert (mo_mod_flags enp AND EFX_MOD_PROBE \<noteq> 0);
     if mo_mod_flags enp AND EFX_MOD_MON \<noteq> 0 then Some (EINVAL, enp)
     else do {
       let enp = enp\<lparr>mo_mod_flags := mo_mod_flags enp OR EFX_MOD_MON, em_type := enc_mon_type enp\<rparr>;
       efsys_assert (enc_mon_type enp \<noteq> EFX_MON_INVALID);
       if em_type enp \<in> {EFX_MON_SFC90X0, EFX_MON_SFC91X0, EFX_MON_SFC92X0} then Some (RC_OK, enp\<lparr>em_emop := True\<rparr>)
       else Some (ENOTSUP, enp\<lparr>em_type := EFX_MON_INVALID, mo_mod_flags := mo_mod_flags enp AND NOT EFX_MOD_MON\<rparr>) } }"

definition efx_mon_stats_update ::
    "(nat \<Rightarrow> u32 option) \<Rightarrow> 'm mc_env \<Rightarrow> ('m \<Rightarrow> u32 list) \<Rightarrow> u64 \<Rightarrow> 'm mon_nic \<Rightarrow> efx_mon_stat_value list
     \<Rightarrow> (efx_rc \<times> efx_mon_stat_value list \<times> 'm mon_nic) option" where
  "efx_mon_stats_update shl env dma addr enp values = do {
     efsys_assert (mo_mod_flags enp AND EFX_MOD_MON \<noteq> 0);
     efsys_assert (em_emop enp);
     mcdi_mon_stats_update shl env dma addr enp values }"

definition efx_mon_fini :: "'m mon_nic \<Rightarrow> 'm mon_nic option" where
  "efx_mon_fini enp = do {
     efsys_assert (mo_mod_flags enp AND EFX_MOD_PROBE \<noteq> 0);
     efsys_assert (mo_mod_flags enp AND EFX_MOD_MON \<noteq> 0);
     Some (enp\<lparr>em_emop := False, em_type := EFX_MON_INVALID, mo_mod_flags := mo_mod_flags enp AND NOT EFX_MOD_MON\<rparr>) }"

end
