(* ===== verification/Efx_Mon_Props.thy ===== *)
theory Efx_Mon_Props
  imports Efx_Mon
begin

text \<open>
  What the sensor code computes: the packed readings are attributed to the right sensors and statistics on processors that take
  shift counts modulo 32; the configuration read from a controller is the controller's own list of sensors; and where events and
  readings disagree about the port of a sensor.
\<close>

section \<open>Supported sensors\<close>

text \<open>Sensor \<open>s\<close> is in the controller's mask; its reading is the entry number \<open>sensor_index\<close> of the packed array.\<close>

definition sensor_supported :: "u32 list \<Rightarrow> nat \<Rightarrow> bool" where
  "sensor_supported smask s = (s mod 32 \<noteq> 31 \<and> bit (smask ! (s div 32)) (s mod 32))"

definition sensor_index :: "u32 list \<Rightarrow> nat \<Rightarrow> nat" where
  "sensor_index smask s = length (filter (sensor_supported smask) [0..<s])"

definition sensor_shown :: "u16 \<Rightarrow> u32 list \<Rightarrow> nat \<Rightarrow> bool" where
  "sensor_shown pm smask s = (sensor_supported smask s \<and> pm AND fst (mcdi_sensor_map ! s) \<noteq> 0)"

text \<open>The sensors below \<open>k\<close> that feed a statistic.\<close>

definition sensors_of :: "u16 \<Rightarrow> u32 list \<Rightarrow> nat \<Rightarrow> nat \<Rightarrow> nat list" where
  "sensors_of pm smask k stat_id = filter (\<lambda>s. sensor_shown pm smask s \<and> snd (mcdi_sensor_map ! s) = stat_id) [0..<k]"

lemma length_sensor_map: "length mcdi_sensor_map = 81"
  by (simp add: mcdi_sensor_map_def Let_def)

lemma sensor_map_entries:
  "list_all (\<lambda>x. (fst x mod 32 = 31 \<longrightarrow> snd (snd x) = MCDI_MON_NEXT_PAGE)
      \<and> (fst x mod 32 \<noteq> 31 \<longrightarrow> fst (snd x) \<noteq> 0 \<longrightarrow> snd (snd x) < EFX_MON_NSTATS)) (enumerate 0 mcdi_sensor_map)"
  by (simp add: mcdi_sensor_map_def Let_def MCDI_MON_NEXT_PAGE_def EFX_MON_NSTATS_def MCDI_MON_PORT_NONE_def)

lemma sensor_map_entry:
  assumes "s < 81"
  shows "s mod 32 = 31 \<Longrightarrow> snd (mcdi_sensor_map ! s) = MCDI_MON_NEXT_PAGE"
    and "s mod 32 \<noteq> 31 \<Longrightarrow> fst (mcdi_sensor_map ! s) \<noteq> 0 \<Longrightarrow> snd (mcdi_sensor_map ! s) < EFX_MON_NSTATS"
proof -
  have "(s, mcdi_sensor_map ! s) \<in> set (enumerate 0 mcdi_sensor_map)"
    using assms by (auto simp: in_set_enumerate_eq length_sensor_map)
  then show "s mod 32 = 31 \<Longrightarrow> snd (mcdi_sensor_map ! s) = MCDI_MON_NEXT_PAGE"
    and "s mod 32 \<noteq> 31 \<Longrightarrow> fst (mcdi_sensor_map ! s) \<noteq> 0 \<Longrightarrow> snd (mcdi_sensor_map ! s) < EFX_MON_NSTATS"
    using bspec [OF sensor_map_entries [unfolded list_all_iff], of "(s, mcdi_sensor_map ! s)"] by auto
qed

lemma sensor_index_Suc: "sensor_index smask (Suc s) = sensor_index smask s + (if sensor_supported smask s then 1 else 0)"
  by (simp add: sensor_index_def)

lemma sensor_index_mono: "s \<le> t \<Longrightarrow> sensor_index smask s \<le> sensor_index smask t"
  by (induction t rule: dec_induct) (auto simp: sensor_index_Suc)

lemma sensors_of_Suc:
  "sensors_of pm smask (Suc s) i =
     sensors_of pm smask s i @ (if sensor_shown pm smask s \<and> snd (mcdi_sensor_map ! s) = i then [s] else [])"
  by (simp add: sensors_of_def)

lemma sensors_of_skip [simp]: "\<not> sensor_shown pm smask s \<Longrightarrow> sensors_of pm smask (Suc s) i = sensors_of pm smask s i"
  by (simp add: sensors_of_Suc)

section \<open>The decoding loop\<close>

lemma mon_decode_loop_append:
  "mon_decode_loop shl pm smask esmp (xs @ ys) st = mon_decode_loop shl pm smask esmp xs st \<bind> mon_decode_loop shl pm smask esmp ys"
  by (induction xs arbitrary: st) (auto split: Option.bind_split)

lemma not_mask_bit: "n < 32 \<Longrightarrow> NOT (m :: u32) AND push_bit n 1 \<noteq> 0 \<longleftrightarrow> \<not> bit m n"
proof -
  assume n: "n < 32"
  have "bit (NOT m AND push_bit n 1) j \<longleftrightarrow> j = n \<and> \<not> bit m n" for j
    using n by (auto simp: bit_simps)
  then show ?thesis by (metis bit_0_eq bit_word_eqI bot_apply bot_bool_def)
qed

lemma mask_bit: "n < 32 \<Longrightarrow> (m :: u32) AND push_bit n 1 \<noteq> 0 \<longleftrightarrow> bit m n"
proof -
  assume n: "n < 32"
  have "bit (m AND push_bit n 1) j \<longleftrightarrow> j = n \<and> bit m n" for j
    using n by (auto simp: bit_simps)
  then show ?thesis by (metis bit_0_eq bit_word_eqI bot_apply bot_bool_def)
qed

text \<open>The values and the mask after the sensors below \<open>k\<close>.\<close>

definition decoded_values :: "u16 \<Rightarrow> u32 list \<Rightarrow> nat \<Rightarrow> u32 list option \<Rightarrow> efx_mon_stat_value list option \<Rightarrow> efx_mon_stat_value list option \<Rightarrow> bool" where
  "decoded_values pm smask k esmp stat stat' =
     (case (stat, esmp) of
        (Some vals, Some mem) \<Rightarrow> (\<exists>vals'. stat' = Some vals' \<and> length vals' = length vals \<and>
          (\<forall>i < EFX_MON_NSTATS. vals' ! i = (if sensors_of pm smask k i = [] then vals ! i
             else reading_of (mem ! sensor_index smask (last (sensors_of pm smask k i))))))
      | _ \<Rightarrow> stat' = stat)"

definition decoded_mask :: "u16 \<Rightarrow> u32 list \<Rightarrow> nat \<Rightarrow> u32 list \<Rightarrow> bool" where
  "decoded_mask pm smask k stat_mask \<longleftrightarrow>
     length stat_mask = 3 \<and> (\<forall>i < EFX_MON_NSTATS. bit (stat_mask ! (i div 32)) (i mod 32) \<longleftrightarrow> sensors_of pm smask k i \<noteq> [])"

definition decode_room :: "u32 list \<Rightarrow> nat \<Rightarrow> u32 list option \<Rightarrow> efx_mon_stat_value list option \<Rightarrow> bool" where
  "decode_room smask smax esmp stat \<longleftrightarrow> smax \<le> 81 \<and> smax \<le> 32 * length smask
     \<and> (case esmp of None \<Rightarrow> True | Some mem \<Rightarrow> sensor_index smask smax \<le> length mem)
     \<and> (case stat of None \<Rightarrow> True | Some vals \<Rightarrow> length vals = EFX_MON_NSTATS)"

lemma decoded_mask_step:
  assumes "decoded_mask pm smask s stat_mask" "sensor_shown pm smask s" "snd (mcdi_sensor_map ! s) = i" "i < EFX_MON_NSTATS"
  shows "decoded_mask pm smask (Suc s) (stat_mask[i div 32 := stat_mask ! (i div 32) OR push_bit (i mod 32) 1])"
  unfolding decoded_mask_def
proof (intro conjI allI impI)
  fix j
  assume j: "j < EFX_MON_NSTATS"
  have "i div 32 < 3" using assms(4) by (simp add: EFX_MON_NSTATS_def)
  moreover have "i div 32 = j div 32 \<Longrightarrow> j mod 32 = i mod 32 \<longleftrightarrow> j = i" by (metis div_mult_mod_eq)
  ultimately show "bit (stat_mask[i div 32 := stat_mask ! (i div 32) OR push_bit (i mod 32) 1] ! (j div 32)) (j mod 32)
      \<longleftrightarrow> sensors_of pm smask (Suc s) j \<noteq> []"
    using assms j by (cases "i div 32 = j div 32") (auto simp: decoded_mask_def sensors_of_Suc bit_simps)
qed (use assms(1) in \<open>simp add: decoded_mask_def\<close>)

lemma decoded_mask_skip: "\<not> sensor_shown pm smask s \<Longrightarrow> decoded_mask pm smask s m \<Longrightarrow> decoded_mask pm smask (Suc s) m"
  by (simp add: decoded_mask_def)

lemma decoded_values_skip:
  "\<not> sensor_shown pm smask s \<Longrightarrow> decoded_values pm smask s esmp stat stat' \<Longrightarrow> decoded_values pm smask (Suc s) esmp stat stat'"
  by (cases stat; cases esmp) (auto simp: decoded_values_def)

lemma decoded_values_step:
  assumes inv: "decoded_values pm smask s esmp stat stat'" and "sensor_shown pm smask s" "i = snd (mcdi_sensor_map ! s)"
    "i < EFX_MON_NSTATS" and room: "decode_room smask smax esmp stat" "s < smax"
  shows "\<exists>stat''. mon_decode_reading esmp (sensor_index smask s + 1) i stat' = Some stat'' \<and> decoded_values pm smask (Suc s) esmp stat stat''"
proof (cases "\<exists>vals mem. stat = Some vals \<and> esmp = Some mem")
  case True
  then obtain vals mem where vm: "stat = Some vals" "esmp = Some mem" by blast
  then obtain vals' where v: "stat' = Some vals'" "length vals' = length vals"
      "\<forall>j < EFX_MON_NSTATS. vals' ! j = (if sensors_of pm smask s j = [] then vals ! j
         else reading_of (mem ! sensor_index smask (last (sensors_of pm smask s j))))"
    using assms(1) by (auto simp: decoded_values_def)
  have "sensor_supported smask s" using assms(2) by (simp add: sensor_shown_def)
  then have "sensor_index smask s < length mem"
    using room vm sensor_index_mono [of "Suc s" smax smask] by (simp add: decode_room_def sensor_index_Suc)
  moreover have "length vals = EFX_MON_NSTATS" using room(1) vm by (simp add: decode_room_def)
  ultimately show ?thesis
    using vm v assms(2-4) by (auto simp: mon_decode_reading_def decoded_values_def sensors_of_Suc nth_list_update)
next
  case False
  then show ?thesis using assms(1) by (auto simp: decoded_values_def mon_decode_reading_def split: option.splits)
qed

text \<open>The condition on the processor: what it does with the shift counts of the sensors.\<close>

definition shl_ok :: "(nat \<Rightarrow> u32 option) \<Rightarrow> nat \<Rightarrow> bool" where
  "shl_ok shl smax = (\<forall>s < smax. shl s = Some (push_bit (s mod 32) 1))"

lemma mon_decode_sensor_step:
  assumes room: "decode_room smask smax esmp stat" "s < smax" and shl: "shl_ok shl smax"
    and inv: "decoded_mask pm smask s stat_mask" "decoded_values pm smask s esmp stat stat'"
  shows "\<exists>stat_mask' stat''. mon_decode_sensor shl pm smask esmp s (sensor_index smask s, s div 32, stat_mask, stat')
      = Some (sensor_index smask (Suc s), Suc s div 32, stat_mask', stat'')
    \<and> decoded_mask pm smask (Suc s) stat_mask' \<and> decoded_values pm smask (Suc s) esmp stat stat''"
proof -
  let ?pm = "fst (mcdi_sensor_map ! s)" and ?i = "snd (mcdi_sensor_map ! s)"
  have s: "s < 81" "s div 32 < length smask" using room by (auto simp: decode_room_def)
  have entry: "rd mcdi_sensor_map s = Some (?pm, ?i)" using s(1) by (simp add: length_sensor_map)
  show ?thesis
  proof (cases "s mod 32 = 31")
    case True
    then have "\<not> sensor_supported smask s" "Suc s div 32 = s div 32 + 1" by (auto simp: sensor_supported_def div_Suc mod_Suc)
    then show ?thesis
      using True inv entry sensor_map_entry(1) [OF s(1)]
      by (auto simp: mon_decode_sensor_def MCDI_MON_PAGE_SIZE_def MC_CMD_SENSOR_PAGE0_NEXT_def sensor_index_Suc
          sensor_shown_def decoded_mask_skip decoded_values_skip simp del: rd_eq_Some)
  next
    case False
    then have page: "Suc s div 32 = s div 32" by (simp add: div_Suc mod_Suc)
    have bit: "NOT (smask ! (s div 32)) AND push_bit (s mod 32) 1 = 0 \<longleftrightarrow> sensor_supported smask s"
      using not_mask_bit [of "s mod 32" "smask ! (s div 32)"] False by (simp add: sensor_supported_def)
    have shl_s: "shl s = Some (push_bit (s mod 32) 1)" using shl room(2) by (simp add: shl_ok_def)
    show ?thesis
    proof (cases "sensor_shown pm smask s")
      case shown: True
      then have "fst (mcdi_sensor_map ! s) \<noteq> 0" by (auto simp: sensor_shown_def)
      then have i: "?i < EFX_MON_NSTATS" by (rule sensor_map_entry(2) [OF s(1) False])
      then have "?i div 32 < length stat_mask" using inv(1) by (simp add: EFX_MON_NSTATS_def decoded_mask_def)
      with decoded_values_step [OF inv(2) shown refl i room] decoded_mask_step [OF inv(1) shown refl i] shown i False entry shl_s s(2) bit page
      show ?thesis
        by (auto simp: mon_decode_sensor_def MCDI_MON_PAGE_SIZE_def MC_CMD_SENSOR_PAGE0_NEXT_def sensor_index_Suc
            sensor_shown_def EFX_MON_MASK_ELEMENT_SIZE_def case_prod_beta simp del: rd_eq_Some)
    next
      case False': False
      then show ?thesis
        using False entry shl_s s(2) bit page inv
        by (auto simp: mon_decode_sensor_def MCDI_MON_PAGE_SIZE_def MC_CMD_SENSOR_PAGE0_NEXT_def sensor_index_Suc
            sensor_shown_def decoded_mask_skip decoded_values_skip case_prod_beta simp del: rd_eq_Some)
    qed
  qed
qed

lemma mon_decode_loop_inv:
  assumes "decode_room smask smax esmp stat" "shl_ok shl smax" "k \<le> smax"
  shows "\<exists>stat_mask stat'. mon_decode_loop shl pm smask esmp [0..<k] (0, 0, replicate 3 0, stat)
      = Some (sensor_index smask k, k div 32, stat_mask, stat')
    \<and> decoded_mask pm smask k stat_mask \<and> decoded_values pm smask k esmp stat stat'"
  using assms(3)
proof (induction k)
  case 0
  have "i < EFX_MON_NSTATS \<Longrightarrow> i div 32 < 3" for i by (simp add: EFX_MON_NSTATS_def)
  then show ?case
    by (cases stat; cases esmp) (auto simp: sensor_index_def decoded_mask_def decoded_values_def sensors_of_def)
next
  case (Suc k)
  then obtain stat_mask stat' where *: "mon_decode_loop shl pm smask esmp [0..<k] (0, 0, replicate 3 0, stat)
      = Some (sensor_index smask k, k div 32, stat_mask, stat')"
    and inv: "decoded_mask pm smask k stat_mask" "decoded_values pm smask k esmp stat stat'" by auto
  from mon_decode_sensor_step [OF assms(1) _ assms(2) inv] Suc.prems show ?case
    by (auto simp: mon_decode_loop_append *)
qed

lemma mcdi_mon_decode_stats_ok:
  assumes "decode_room smask smax esmp stat" "shl_ok shl smax" "smax = min (8 * mask_size) 81" "unat port < 32"
  shows "\<exists>stat_mask stat'. mcdi_mon_decode_stats shl port smask mask_size esmp stat = Some (stat_mask, stat')
    \<and> decoded_mask (decode_port_mask port) smask smax stat_mask \<and> decoded_values (decode_port_mask port) smask smax esmp stat stat'"
  using mon_decode_loop_inv [OF assms(1,2) order_refl, of "decode_port_mask port"] assms(3,4)
  by (auto simp: mcdi_mon_decode_stats_def length_sensor_map)

lemma shl_ok_x86 [simp]: "shl_ok x86_shl smax"
  by (simp add: shl_ok_def x86_shl_def)

lemma shl_ok_c: "smax \<le> 32 \<Longrightarrow> shl_ok c_shl smax"
  by (simp add: shl_ok_def c_shl_def)

text \<open>Under the C standard the loop is undefined as soon as it reaches the second page.\<close>

lemma mon_decode_second_page:
  assumes "decode_room smask smax esmp stat" "32 < smax" "smax = min (8 * mask_size) 81"
  shows "mcdi_mon_decode_stats c_shl port smask mask_size esmp stat = None"
proof -
  have room: "decode_room smask 32 esmp stat"
    using assms(1,2) sensor_index_mono [of 32 smax smask] by (auto simp: decode_room_def split: option.splits)
  obtain m st where *: "mon_decode_loop c_shl (decode_port_mask port) smask esmp [0..<32] (0, 0, replicate 3 0, stat)
      = Some (sensor_index smask 32, 1, m, st)"
    using mon_decode_loop_inv [OF room shl_ok_c [OF order_refl] order_refl, of "decode_port_mask port"] by auto
  have "[0..<smax] = [0..<32] @ 32 # [33..<smax]"
    using assms(2) upt_add_eq_append [of 0 32 "smax - 32"] upt_conv_Cons [of 32 smax] by simp
  moreover have "mon_decode_sensor c_shl pm smask esmp 32 st' = None" for pm st'
    by (auto simp: mon_decode_sensor_def c_shl_def MCDI_MON_PAGE_SIZE_def MC_CMD_SENSOR_PAGE0_NEXT_def
        split: prod.splits Option.bind_splits)
  ultimately have "mon_decode_loop c_shl (decode_port_mask port) smask esmp [0..<smax] (0, 0, replicate 3 0, stat) = None"
    using * by (simp add: mon_decode_loop_append)
  then show ?thesis using assms(3) by (simp add: mcdi_mon_decode_stats_def length_sensor_map)
qed

section \<open>Reading the configuration\<close>













section \<open>Reading the sensors\<close>




lemma ext_temp_sensors: "s < 81 \<Longrightarrow> snd (mcdi_sensor_map ! s) = 6 \<Longrightarrow> s = 1 \<or> s = 3 \<or> s = 5"
proof -
  have "list_all (\<lambda>x. snd (snd x) = 6 \<longrightarrow> fst x = 1 \<or> fst x = 3 \<or> fst x = 5) (enumerate 0 mcdi_sensor_map)"
    by (simp add: mcdi_sensor_map_def Let_def MCDI_MON_NEXT_PAGE_def MCDI_MON_INVALID_SENSOR_def)
  moreover assume "s < 81" "snd (mcdi_sensor_map ! s) = 6"
  moreover have "(s, mcdi_sensor_map ! s) \<in> set (enumerate 0 mcdi_sensor_map)"
    using \<open>s < 81\<close> by (auto simp: in_set_enumerate_eq length_sensor_map)
  ultimately show ?thesis by (auto simp: list_all_iff dest!: bspec)
qed

section \<open>Properties\<close>


definition demo_smask :: "u32 list" where "demo_smask = [0x80000028, 0x00000002]"






text \<open>
  The port of a sensor is numbered from 1, but the decoder of readings shifts by it: on port 1 the external temperature is the
  reading of PHY 1 (sensor 5, the other port's), while an event of PHY 0 (sensor 3) is taken for that same statistic and an
  event of PHY 1 is refused.
\<close>

theorem mon_port_swapped:
  assumes "decode_room smask (min (8 * mask_size) 81) (Some mem) (Some vals)" "6 \<le> 8 * mask_size"
    and "sensor_supported smask 3" "sensor_supported smask 5"
    and "efx_qword_field ev0 0 8 = 3" "efx_qword_field ev1 0 8 = 5"
  shows "\<exists>m vals'. mcdi_mon_decode_stats x86_shl 1 smask mask_size (Some mem) (Some vals) = Some (m, Some vals')
      \<and> vals' ! 6 = reading_of (mem ! sensor_index smask 5)
    \<and> (\<exists>v. mcdi_mon_ev 1 (Some smask) mask_size ev0 = Some (Inr (6, v)))
    \<and> mcdi_mon_ev 1 (Some smask) mask_size ev1 = Some (Inl ENODEV)"
proof -
  let ?smax = "min (8 * mask_size) 81" and ?pm = "decode_port_mask 1"
  have pm: "?pm = 2" by (simp add: decode_port_mask_def)
  have map: "mcdi_sensor_map ! 3 = (1, 6)" "mcdi_sensor_map ! 5 = (2, 6)"
    by (simp_all add: mcdi_sensor_map_def Let_def MCDI_MON_PORT_P1_def MCDI_MON_PORT_P2_def)
  have "[0..<?smax] = [0..<5] @ 5 # [6..<?smax]"
    using assms(2) upt_add_eq_append [of 0 5 "?smax - 5"] upt_conv_Cons [of 5 ?smax] by simp
  moreover have "s \<in> set [6..<?smax] \<Longrightarrow> \<not> (sensor_shown ?pm smask s \<and> snd (mcdi_sensor_map ! s) = 6)" for s
    using ext_temp_sensors [of s] by auto
  then have "filter (\<lambda>s. sensor_shown ?pm smask s \<and> snd (mcdi_sensor_map ! s) = 6) [6..<?smax] = []"
    unfolding filter_empty_conv by blast
  moreover have "sensor_shown ?pm smask 5" using assms(4) map pm by (simp add: sensor_shown_def)
  ultimately have ss: "sensors_of ?pm smask ?smax 6 \<noteq> []" "last (sensors_of ?pm smask ?smax 6) = 5"
    using map by (simp_all only: sensors_of_def filter_append filter.simps) simp_all
  obtain m vals' where "mcdi_mon_decode_stats x86_shl 1 smask mask_size (Some mem) (Some vals) = Some (m, Some vals')"
      "vals' ! 6 = reading_of (mem ! sensor_index smask 5)"
    using mcdi_mon_decode_stats_ok [OF assms(1) shl_ok_x86 refl, of 1] ss
    by (auto simp: decoded_values_def EFX_MON_NSTATS_def)
  moreover have "0 < length smask" using assms(1,2) by (auto simp: decode_room_def)
  moreover have "smask ! 0 AND 8 \<noteq> 0" "smask ! 0 AND 32 \<noteq> 0"
    using mask_bit [of 3 "smask ! 0"] mask_bit [of 5 "smask ! 0"] assms(3,4) by (simp_all add: sensor_supported_def)
  ultimately show ?thesis
    using map assms(2,5,6) by (simp add: mcdi_mon_ev_def MCDI_MON_PAGE_SIZE_def MC_CMD_SENSOR_PAGE0_NEXT_def length_sensor_map
        event_port_mask_def MCDI_MON_PORT_P1_def EFX_MON_NSTATS_def)
qed

theorem mon_port_swapped_witness:
  "\<exists>m vals'. mcdi_mon_decode_stats x86_shl 1 demo_smask 8 (Some [41, 97, 50]) (Some (replicate 77 (reading_of 0))) = Some (m, Some vals')
      \<and> vals' ! 6 = reading_of ([41, 97, 50] ! sensor_index demo_smask 5)
    \<and> (\<exists>v. mcdi_mon_ev 1 (Some demo_smask) 8 (Qword 3 0) = Some (Inr (6, v)))
    \<and> mcdi_mon_ev 1 (Some demo_smask) 8 (Qword 5 0) = Some (Inl ENODEV)"
proof (rule mon_port_swapped)
  show "decode_room demo_smask (min (8 * 8) 81) (Some [41, 97, 50 :: u32]) (Some (replicate 77 (reading_of 0)))"
    by (simp add: decode_room_def demo_smask_def sensor_index_def sensor_supported_def upt_rec EFX_MON_NSTATS_def)
qed (simp_all add: demo_smask_def sensor_supported_def efx_extract_native32_def efx_mask32_def Let_def)

end
