(* ===== verification/Efx_Bar.thy ===== *)
theory Efx_Bar
  imports Efx_Oword
begin

text \<open>
  Registers of the controller in the memory of its BAR (the \<open>EFX_BAR_\<close> macros of \<open>src/common/efx_impl.h\<close>), and fields of
  quadwords by name. What was written is kept in the order of the writes; a register of 128 bits reads back what was written
  to it last. \<open>EFX_CHECK_REG\<close> compares the name of a register with the family and never fails; the locks are left out.
\<close>

section \<open>Named fields\<close>

text \<open>A field is named by its lowest bit and its width: \<open>EFX_QWORD_FIELD\<close>.\<close>

definition qfield :: "efx_qword \<Rightarrow> nat \<times> nat \<Rightarrow> u32" where
  "qfield eqp f = efx_qword_field eqp (fst f) (snd f)"

definition EFX_DWORD_0 :: "nat \<times> nat" where "EFX_DWORD_0 = (0, 32)"
definition EFX_DWORD_1 :: "nat \<times> nat" where "EFX_DWORD_1 = (32, 32)"

section \<open>Registers\<close>

datatype bar_write = Bar_writed nat u32 | Bar_writeq nat efx_qword | Bar_writeo nat efx_oword

record efx_bar =
  bar_regs :: "nat \<Rightarrow> efx_oword"
  bar_writes :: "bar_write list"

definition EFX_BAR_READO :: "nat \<Rightarrow> efx_bar \<Rightarrow> efx_oword" where
  "EFX_BAR_READO reg bar = bar_regs bar reg"

definition EFX_BAR_WRITEO :: "nat \<Rightarrow> efx_oword \<Rightarrow> efx_bar \<Rightarrow> efx_bar" where
  "EFX_BAR_WRITEO reg eop bar = bar\<lparr>bar_regs := (bar_regs bar)(reg := eop), bar_writes := bar_writes bar @ [Bar_writeo reg eop]\<rparr>"

definition EFX_BAR_WRITED :: "nat \<Rightarrow> u32 \<Rightarrow> efx_bar \<Rightarrow> efx_bar" where
  "EFX_BAR_WRITED reg ed bar = bar\<lparr>bar_writes := bar_writes bar @ [Bar_writed reg ed]\<rparr>"

text \<open>An entry of a table of registers: the offset of the table, the distance of its entries, and the index.\<close>

definition EFX_BAR_TBL_WRITEO :: "nat \<Rightarrow> nat \<Rightarrow> nat \<Rightarrow> efx_oword \<Rightarrow> efx_bar \<Rightarrow> efx_bar" where
  "EFX_BAR_TBL_WRITEO reg step index eop bar = EFX_BAR_WRITEO (reg + index * step) eop bar"

definition EFX_BAR_TBL_WRITED :: "nat \<Rightarrow> nat \<Rightarrow> nat \<Rightarrow> u32 \<Rightarrow> efx_bar \<Rightarrow> efx_bar" where
  "EFX_BAR_TBL_WRITED reg step index ed bar = EFX_BAR_WRITED (reg + index * step) ed bar"

text \<open>The third doubleword of an entry; a doorbell, which is a write of its own bus transaction; a write-combined quadword.\<close>

definition EFX_BAR_TBL_READO :: "nat \<Rightarrow> nat \<Rightarrow> nat \<Rightarrow> efx_bar \<Rightarrow> efx_oword" where
  "EFX_BAR_TBL_READO reg step index bar = EFX_BAR_READO (reg + index * step) bar"

definition EFX_BAR_TBL_WRITED3 :: "nat \<Rightarrow> nat \<Rightarrow> nat \<Rightarrow> u32 \<Rightarrow> efx_bar \<Rightarrow> efx_bar" where
  "EFX_BAR_TBL_WRITED3 reg step index ed bar = EFX_BAR_WRITED (reg + 3 * 4 + index * step) ed bar"

definition EFX_BAR_TBL_DOORBELL_WRITEO :: "nat \<Rightarrow> nat \<Rightarrow> nat \<Rightarrow> efx_oword \<Rightarrow> efx_bar \<Rightarrow> efx_bar" where
  "EFX_BAR_TBL_DOORBELL_WRITEO reg step index eop bar = EFX_BAR_WRITEO (reg + index * step) eop bar"

definition EFSYS_BAR_WC_WRITEQ :: "nat \<Rightarrow> efx_qword \<Rightarrow> efx_bar \<Rightarrow> efx_bar" where
  "EFSYS_BAR_WC_WRITEQ offset eqp bar = bar\<lparr>bar_writes := bar_writes bar @ [Bar_writeq offset eqp]\<rparr>"

lemma bar_regs_writed [simp]: "bar_regs (EFX_BAR_TBL_WRITED reg step index ed bar) = bar_regs bar"
  by (simp add: EFX_BAR_TBL_WRITED_def EFX_BAR_WRITED_def)

lemma bar_writes_writed [simp]:
  "bar_writes (EFX_BAR_TBL_WRITED reg step index ed bar) = bar_writes bar @ [Bar_writed (reg + index * step) ed]"
  by (simp add: EFX_BAR_TBL_WRITED_def EFX_BAR_WRITED_def)

lemma bar_writes_writeo [simp]:
  "bar_writes (EFX_BAR_TBL_WRITEO reg step index eop bar) = bar_writes bar @ [Bar_writeo (reg + index * step) eop]"
  by (simp add: EFX_BAR_TBL_WRITEO_def EFX_BAR_WRITEO_def)

end
