(* ===== verification/Efx_Ev_Regs.thy ===== *)
theory Efx_Ev_Regs
  imports Efx_Bar
begin

text \<open>
  The layouts of events and of the registers of event queues: \<open>src/common/efx_regs.h\<close> (Siena), \<open>efx_regs_ef10.h\<close>, the events of the
  management controller in \<open>efx_regs_mcdi.h\<close>, and the constants of \<open>efx.h\<close> that the event code uses. A field is a pair of its lowest bit and
  its width, an address a number of bytes from the start of the BAR.
\<close>

definition FSF_AZ_EV_CODE :: "nat \<times> nat" where "FSF_AZ_EV_CODE = (60, 4)"
definition FSF_AZ_EV_DATA_DW0 :: "nat \<times> nat" where "FSF_AZ_EV_DATA_DW0 = (0, 32)"
definition FSF_AZ_DRIVER_EV_SUBCODE :: "nat \<times> nat" where "FSF_AZ_DRIVER_EV_SUBCODE = (56, 4)"
definition FSF_AZ_DRIVER_EV_SUBDATA :: "nat \<times> nat" where "FSF_AZ_DRIVER_EV_SUBDATA = (0, 14)"
definition FSF_CZ_RX_EV_PKT_NOT_PARSED :: "nat \<times> nat" where "FSF_CZ_RX_EV_PKT_NOT_PARSED = (58, 1)"
definition FSF_CZ_RX_EV_IPV6_PKT :: "nat \<times> nat" where "FSF_CZ_RX_EV_IPV6_PKT = (57, 1)"
definition FSF_AZ_RX_EV_PKT_OK :: "nat \<times> nat" where "FSF_AZ_RX_EV_PKT_OK = (56, 1)"
definition FSF_AZ_RX_EV_PAUSE_FRM_ERR :: "nat \<times> nat" where "FSF_AZ_RX_EV_PAUSE_FRM_ERR = (55, 1)"
definition FSF_AZ_RX_EV_BUF_OWNER_ID_ERR :: "nat \<times> nat" where "FSF_AZ_RX_EV_BUF_OWNER_ID_ERR = (54, 1)"
definition FSF_AZ_RX_EV_IP_FRAG_ERR :: "nat \<times> nat" where "FSF_AZ_RX_EV_IP_FRAG_ERR = (53, 1)"
definition FSF_AZ_RX_EV_IP_HDR_CHKSUM_ERR :: "nat \<times> nat" where "FSF_AZ_RX_EV_IP_HDR_CHKSUM_ERR = (52, 1)"
definition FSF_AZ_RX_EV_TCP_UDP_CHKSUM_ERR :: "nat \<times> nat" where "FSF_AZ_RX_EV_TCP_UDP_CHKSUM_ERR = (51, 1)"
definition FSF_AZ_RX_EV_ETH_CRC_ERR :: "nat \<times> nat" where "FSF_AZ_RX_EV_ETH_CRC_ERR = (50, 1)"
definition FSF_AZ_RX_EV_FRM_TRUNC :: "nat \<times> nat" where "FSF_AZ_RX_EV_FRM_TRUNC = (49, 1)"
definition FSF_AZ_RX_EV_TOBE_DISC :: "nat \<times> nat" where "FSF_AZ_RX_EV_TOBE_DISC = (47, 1)"
definition FSF_AZ_RX_EV_PKT_TYPE :: "nat \<times> nat" where "FSF_AZ_RX_EV_PKT_TYPE = (44, 3)"
definition FSF_AZ_RX_EV_HDR_TYPE :: "nat \<times> nat" where "FSF_AZ_RX_EV_HDR_TYPE = (42, 2)"
definition FSF_AZ_RX_EV_MCAST_HASH_MATCH :: "nat \<times> nat" where "FSF_AZ_RX_EV_MCAST_HASH_MATCH = (40, 1)"
definition FSF_AZ_RX_EV_MCAST_PKT :: "nat \<times> nat" where "FSF_AZ_RX_EV_MCAST_PKT = (39, 1)"
definition FSF_AZ_RX_EV_Q_LABEL :: "nat \<times> nat" where "FSF_AZ_RX_EV_Q_LABEL = (32, 5)"
definition FSF_AZ_RX_EV_BYTE_CNT :: "nat \<times> nat" where "FSF_AZ_RX_EV_BYTE_CNT = (16, 14)"
definition FSF_AZ_RX_EV_DESC_PTR :: "nat \<times> nat" where "FSF_AZ_RX_EV_DESC_PTR = (0, 12)"
definition FSF_AZ_TX_EV_PKT_ERR :: "nat \<times> nat" where "FSF_AZ_TX_EV_PKT_ERR = (38, 1)"
definition FSF_AZ_TX_EV_PKT_TOO_BIG :: "nat \<times> nat" where "FSF_AZ_TX_EV_PKT_TOO_BIG = (37, 1)"
definition FSF_AZ_TX_EV_Q_LABEL :: "nat \<times> nat" where "FSF_AZ_TX_EV_Q_LABEL = (32, 5)"
definition FSF_AZ_TX_EV_WQ_FF_FULL :: "nat \<times> nat" where "FSF_AZ_TX_EV_WQ_FF_FULL = (15, 1)"
definition FSF_AZ_TX_EV_COMP :: "nat \<times> nat" where "FSF_AZ_TX_EV_COMP = (12, 1)"
definition FSF_AZ_TX_EV_DESC_PTR :: "nat \<times> nat" where "FSF_AZ_TX_EV_DESC_PTR = (0, 12)"
definition FSF_AZ_DRIVER_EV_RX_DESCQ_ID :: "nat \<times> nat" where "FSF_AZ_DRIVER_EV_RX_DESCQ_ID = (0, 12)"
definition FSF_AZ_DRIVER_EV_RX_FLUSH_FAIL :: "nat \<times> nat" where "FSF_AZ_DRIVER_EV_RX_FLUSH_FAIL = (12, 1)"

definition FSE_AZ_EV_CODE_DRV_GEN_EV :: u32 where "FSE_AZ_EV_CODE_DRV_GEN_EV = 7"
definition FSE_AZ_EV_CODE_GLOBAL_EV :: u32 where "FSE_AZ_EV_CODE_GLOBAL_EV = 6"
definition FSE_AZ_EV_CODE_DRIVER_EV :: u32 where "FSE_AZ_EV_CODE_DRIVER_EV = 5"
definition FSE_AZ_EV_CODE_TX_EV :: u32 where "FSE_AZ_EV_CODE_TX_EV = 2"
definition FSE_AZ_EV_CODE_RX_EV :: u32 where "FSE_AZ_EV_CODE_RX_EV = 0"
definition FSE_AZ_EV_CODE_MCDI_EVRESPONSE :: u32 where "FSE_AZ_EV_CODE_MCDI_EVRESPONSE = 0xc"
definition FSE_AZ_TX_DSC_ERROR_EV :: u32 where "FSE_AZ_TX_DSC_ERROR_EV = 15"
definition FSE_AZ_RX_DSC_ERROR_EV :: u32 where "FSE_AZ_RX_DSC_ERROR_EV = 14"
definition FSE_AZ_TIMER_EV :: u32 where "FSE_AZ_TIMER_EV = 10"
definition FSE_AZ_TX_PKT_NON_TCP_UDP :: u32 where "FSE_AZ_TX_PKT_NON_TCP_UDP = 9"
definition FSE_AZ_WAKE_UP_EV :: u32 where "FSE_AZ_WAKE_UP_EV = 6"
definition FSE_AZ_SRM_UPD_DONE_EV :: u32 where "FSE_AZ_SRM_UPD_DONE_EV = 5"
definition FSE_AZ_EVQ_NOT_EN_EV :: u32 where "FSE_AZ_EVQ_NOT_EN_EV = 3"
definition FSE_AZ_EVQ_INIT_DONE_EV :: u32 where "FSE_AZ_EVQ_INIT_DONE_EV = 2"
definition FSE_AZ_RX_DESCQ_FLS_DONE_EV :: u32 where "FSE_AZ_RX_DESCQ_FLS_DONE_EV = 1"
definition FSE_AZ_TX_DESCQ_FLS_DONE_EV :: u32 where "FSE_AZ_TX_DESCQ_FLS_DONE_EV = 0"
definition FSE_AZ_RX_EV_PKT_TYPE_VLAN :: u32 where "FSE_AZ_RX_EV_PKT_TYPE_VLAN = 3"
definition FSE_AZ_RX_EV_HDR_TYPE_OTHER :: u32 where "FSE_AZ_RX_EV_HDR_TYPE_OTHER = 3"
definition FSE_AZ_RX_EV_HDR_TYPE_IPV4V6_OTHER :: u32 where "FSE_AZ_RX_EV_HDR_TYPE_IPV4V6_OTHER = 2"
definition FSE_AZ_RX_EV_HDR_TYPE_IPV4V6_UDP :: u32 where "FSE_AZ_RX_EV_HDR_TYPE_IPV4V6_UDP = 1"
definition FSE_AZ_RX_EV_HDR_TYPE_IPV4V6_TCP :: u32 where "FSE_AZ_RX_EV_HDR_TYPE_IPV4V6_TCP = 0"

definition FRF_AZ_FLS_EVQ_ID :: "nat \<times> nat" where "FRF_AZ_FLS_EVQ_ID = (0, 12)"
definition FRF_AZ_EVQ_RPTR :: "nat \<times> nat" where "FRF_AZ_EVQ_RPTR = (0, 15)"
definition FRF_AZ_DRV_EV_QID :: "nat \<times> nat" where "FRF_AZ_DRV_EV_QID = (64, 12)"
definition FRF_CZ_TC_TIMER_MODE :: "nat \<times> nat" where "FRF_CZ_TC_TIMER_MODE = (14, 2)"
definition FRF_CZ_TC_TIMER_VAL :: "nat \<times> nat" where "FRF_CZ_TC_TIMER_VAL = (0, 14)"
definition FRF_CZ_TIMER_Q_EN :: "nat \<times> nat" where "FRF_CZ_TIMER_Q_EN = (33, 1)"
definition FRF_AZ_EVQ_EN :: "nat \<times> nat" where "FRF_AZ_EVQ_EN = (23, 1)"
definition FRF_AZ_EVQ_SIZE :: "nat \<times> nat" where "FRF_AZ_EVQ_SIZE = (20, 3)"
definition FRF_AZ_EVQ_BUF_BASE_ID :: "nat \<times> nat" where "FRF_AZ_EVQ_BUF_BASE_ID = (0, 20)"

definition FFE_CZ_TIMER_MODE_INT_HLDOFF :: u32 where "FFE_CZ_TIMER_MODE_INT_HLDOFF = 3"
definition FFE_CZ_TIMER_MODE_DIS :: u32 where "FFE_CZ_TIMER_MODE_DIS = 0"

definition FR_AZ_DP_CTRL_REG_OFST :: nat where "FR_AZ_DP_CTRL_REG_OFST = 0x00000250"
definition FR_AZ_EVQ_RPTR_REG_OFST :: nat where "FR_AZ_EVQ_RPTR_REG_OFST = 0x00fa0000"
definition FR_AZ_EVQ_RPTR_REG_STEP :: nat where "FR_AZ_EVQ_RPTR_REG_STEP = 16"
definition FR_AZ_DRV_EV_REG_OFST :: nat where "FR_AZ_DRV_EV_REG_OFST = 0x00000440"
definition FR_BZ_TIMER_COMMAND_REGP0_OFST :: nat where "FR_BZ_TIMER_COMMAND_REGP0_OFST = 0x00000420"
definition FR_BZ_TIMER_COMMAND_REGP0_STEP :: nat where "FR_BZ_TIMER_COMMAND_REGP0_STEP = 8192"
definition FR_AZ_TIMER_TBL_OFST :: nat where "FR_AZ_TIMER_TBL_OFST = 0x00f70000"
definition FR_AZ_TIMER_TBL_STEP :: nat where "FR_AZ_TIMER_TBL_STEP = 16"
definition FR_AZ_EVQ_PTR_TBL_OFST :: nat where "FR_AZ_EVQ_PTR_TBL_OFST = 0x00f60000"
definition FR_AZ_EVQ_PTR_TBL_STEP :: nat where "FR_AZ_EVQ_PTR_TBL_STEP = 16"

definition ESF_DZ_RX_BYTES :: "nat \<times> nat" where "ESF_DZ_RX_BYTES = (0, 14)"
definition ESF_DZ_RX_DSC_PTR_LBITS :: "nat \<times> nat" where "ESF_DZ_RX_DSC_PTR_LBITS = (48, 4)"
definition ESF_DZ_RX_QLABEL :: "nat \<times> nat" where "ESF_DZ_RX_QLABEL = (16, 5)"
definition ESF_DZ_RX_ETH_TAG_CLASS :: "nat \<times> nat" where "ESF_DZ_RX_ETH_TAG_CLASS = (39, 3)"
definition ESF_DZ_RX_MAC_CLASS :: "nat \<times> nat" where "ESF_DZ_RX_MAC_CLASS = (35, 1)"
definition ESF_DZ_RX_L3_CLASS :: "nat \<times> nat" where "ESF_DZ_RX_L3_CLASS = (42, 3)"
definition ESF_DZ_RX_L4_CLASS :: "nat \<times> nat" where "ESF_DZ_RX_L4_CLASS = (45, 3)"
definition ESF_DZ_RX_CONT :: "nat \<times> nat" where "ESF_DZ_RX_CONT = (14, 1)"
definition ESF_DZ_RX_DROP_EVENT :: "nat \<times> nat" where "ESF_DZ_RX_DROP_EVENT = (58, 1)"
definition ESF_DZ_RX_ECC_ERR :: "nat \<times> nat" where "ESF_DZ_RX_ECC_ERR = (29, 1)"
definition ESF_DZ_RX_ECRC_ERR :: "nat \<times> nat" where "ESF_DZ_RX_ECRC_ERR = (24, 1)"
definition ESF_DZ_RX_PARSE_INCOMPLETE :: "nat \<times> nat" where "ESF_DZ_RX_PARSE_INCOMPLETE = (15, 1)"
definition ESF_DZ_RX_IPCKSUM_ERR :: "nat \<times> nat" where "ESF_DZ_RX_IPCKSUM_ERR = (25, 1)"
definition ESF_DZ_RX_TCPUDP_CKSUM_ERR :: "nat \<times> nat" where "ESF_DZ_RX_TCPUDP_CKSUM_ERR = (26, 1)"
definition ESF_DZ_TX_DROP_EVENT :: "nat \<times> nat" where "ESF_DZ_TX_DROP_EVENT = (58, 1)"
definition ESF_DZ_TX_DESCR_INDX :: "nat \<times> nat" where "ESF_DZ_TX_DESCR_INDX = (0, 16)"
definition ESF_DZ_TX_QLABEL :: "nat \<times> nat" where "ESF_DZ_TX_QLABEL = (16, 5)"
definition ESF_DZ_DRV_CODE :: "nat \<times> nat" where "ESF_DZ_DRV_CODE = (60, 4)"
definition ESF_DZ_DRV_SUB_CODE :: "nat \<times> nat" where "ESF_DZ_DRV_SUB_CODE = (56, 4)"
definition ESF_DZ_DRV_SUB_DATA_DW0 :: "nat \<times> nat" where "ESF_DZ_DRV_SUB_DATA_DW0 = (0, 32)"
definition ESF_DZ_DRV_TMR_ID :: "nat \<times> nat" where "ESF_DZ_DRV_TMR_ID = (0, 14)"
definition ESF_DZ_DRV_EVQ_ID :: "nat \<times> nat" where "ESF_DZ_DRV_EVQ_ID = (0, 14)"

definition ESE_DZ_MAC_CLASS_UCAST :: u32 where "ESE_DZ_MAC_CLASS_UCAST = 0"
definition ESE_DZ_ETH_TAG_CLASS_VLAN1 :: u32 where "ESE_DZ_ETH_TAG_CLASS_VLAN1 = 1"
definition ESE_DZ_ETH_TAG_CLASS_VLAN2 :: u32 where "ESE_DZ_ETH_TAG_CLASS_VLAN2 = 2"
definition ESE_DZ_L3_CLASS_IP4 :: u32 where "ESE_DZ_L3_CLASS_IP4 = 1"
definition ESE_DZ_L3_CLASS_IP4_FRAG :: u32 where "ESE_DZ_L3_CLASS_IP4_FRAG = 4"
definition ESE_DZ_L3_CLASS_IP6 :: u32 where "ESE_DZ_L3_CLASS_IP6 = 2"
definition ESE_DZ_L3_CLASS_IP6_FRAG :: u32 where "ESE_DZ_L3_CLASS_IP6_FRAG = 6"
definition ESE_DZ_L4_CLASS_TCP :: u32 where "ESE_DZ_L4_CLASS_TCP = 1"
definition ESE_DZ_L4_CLASS_UDP :: u32 where "ESE_DZ_L4_CLASS_UDP = 2"
definition ESE_DZ_DRV_TIMER_EV :: u32 where "ESE_DZ_DRV_TIMER_EV = 3"
definition ESE_DZ_DRV_START_UP_EV :: u32 where "ESE_DZ_DRV_START_UP_EV = 2"
definition ESE_DZ_DRV_WAKE_UP_EV :: u32 where "ESE_DZ_DRV_WAKE_UP_EV = 1"

definition ERF_DZ_EVQ_RPTR :: "nat \<times> nat" where "ERF_DZ_EVQ_RPTR = (0, 15)"
definition ERF_DZ_TC_TIMER_MODE :: "nat \<times> nat" where "ERF_DZ_TC_TIMER_MODE = (14, 2)"
definition ERF_DZ_TC_TIMER_VAL :: "nat \<times> nat" where "ERF_DZ_TC_TIMER_VAL = (0, 14)"
definition ERF_DD_EVQ_IND_RPTR_FLAGS :: "nat \<times> nat" where "ERF_DD_EVQ_IND_RPTR_FLAGS = (8, 4)"
definition ERF_DD_EVQ_IND_RPTR :: "nat \<times> nat" where "ERF_DD_EVQ_IND_RPTR = (0, 8)"
definition ERF_DD_EVQ_IND_TIMER_FLAGS :: "nat \<times> nat" where "ERF_DD_EVQ_IND_TIMER_FLAGS = (10, 2)"
definition ERF_DD_EVQ_IND_TIMER_MODE :: "nat \<times> nat" where "ERF_DD_EVQ_IND_TIMER_MODE = (8, 2)"
definition ERF_DD_EVQ_IND_TIMER_VAL :: "nat \<times> nat" where "ERF_DD_EVQ_IND_TIMER_VAL = (0, 8)"

definition EFE_DD_EVQ_IND_RPTR_FLAGS_HIGH :: u32 where "EFE_DD_EVQ_IND_RPTR_FLAGS_HIGH = 8"
definition EFE_DD_EVQ_IND_RPTR_FLAGS_LOW :: u32 where "EFE_DD_EVQ_IND_RPTR_FLAGS_LOW = 9"
definition EFE_DD_EVQ_IND_TIMER_FLAGS :: u32 where "EFE_DD_EVQ_IND_TIMER_FLAGS = 3"

definition ER_DZ_EVQ_RPTR_REG_OFST :: nat where "ER_DZ_EVQ_RPTR_REG_OFST = 0x00000400"
definition ER_DZ_EVQ_RPTR_REG_STEP :: nat where "ER_DZ_EVQ_RPTR_REG_STEP = 8192"
definition ER_DZ_EVQ_TMR_REG_OFST :: nat where "ER_DZ_EVQ_TMR_REG_OFST = 0x00000420"
definition ER_DZ_EVQ_TMR_REG_STEP :: nat where "ER_DZ_EVQ_TMR_REG_STEP = 8192"
definition ER_DZ_TX_DESC_UPD_REG_OFST :: nat where "ER_DZ_TX_DESC_UPD_REG_OFST = 0x00000a10"
definition ER_DZ_TX_DESC_UPD_REG_STEP :: nat where "ER_DZ_TX_DESC_UPD_REG_STEP = 8192"

definition MCDI_EVENT_CODE :: "nat \<times> nat" where "MCDI_EVENT_CODE = (44, 8)"
definition MCDI_EVENT_DATA :: "nat \<times> nat" where "MCDI_EVENT_DATA = (0, 32)"
definition MCDI_EVENT_CMDDONE_SEQ :: "nat \<times> nat" where "MCDI_EVENT_CMDDONE_SEQ = (0, 8)"
definition MCDI_EVENT_CMDDONE_DATALEN :: "nat \<times> nat" where "MCDI_EVENT_CMDDONE_DATALEN = (8, 8)"
definition MCDI_EVENT_CMDDONE_ERRNO :: "nat \<times> nat" where "MCDI_EVENT_CMDDONE_ERRNO = (16, 8)"
definition MCDI_EVENT_FWALERT_DATA :: "nat \<times> nat" where "MCDI_EVENT_FWALERT_DATA = (8, 24)"
definition MCDI_EVENT_FWALERT_REASON :: "nat \<times> nat" where "MCDI_EVENT_FWALERT_REASON = (0, 8)"
definition MCDI_EVENT_TX_FLUSH_TO_DRIVER :: "nat \<times> nat" where "MCDI_EVENT_TX_FLUSH_TO_DRIVER = (12, 1)"
definition MCDI_EVENT_TX_FLUSH_TXQ :: "nat \<times> nat" where "MCDI_EVENT_TX_FLUSH_TXQ = (0, 12)"
definition MCDI_EVENT_RX_FLUSH_TO_DRIVER :: "nat \<times> nat" where "MCDI_EVENT_RX_FLUSH_TO_DRIVER = (12, 1)"
definition MCDI_EVENT_RX_FLUSH_RXQ :: "nat \<times> nat" where "MCDI_EVENT_RX_FLUSH_RXQ = (0, 12)"
definition MCDI_EVENT_MAC_STATS_DMA_GENERATION :: "nat \<times> nat" where "MCDI_EVENT_MAC_STATS_DMA_GENERATION = (0, 32)"
definition MCDI_EVENT_TX_ERR_DATA :: "nat \<times> nat" where "MCDI_EVENT_TX_ERR_DATA = (0, 32)"
definition MCDI_EVENT_RX_ERR_DATA :: "nat \<times> nat" where "MCDI_EVENT_RX_ERR_DATA = (0, 32)"

definition MCDI_EVENT_FWALERT_REASON_SRAM_ACCESS :: u32 where "MCDI_EVENT_FWALERT_REASON_SRAM_ACCESS = 0x1"
definition MCDI_EVENT_CODE_BADSSERT :: u32 where "MCDI_EVENT_CODE_BADSSERT = 0x1"
definition MCDI_EVENT_CODE_CMDDONE :: u32 where "MCDI_EVENT_CODE_CMDDONE = 0x3"
definition MCDI_EVENT_CODE_LINKCHANGE :: u32 where "MCDI_EVENT_CODE_LINKCHANGE = 0x4"
definition MCDI_EVENT_CODE_SENSOREVT :: u32 where "MCDI_EVENT_CODE_SENSOREVT = 0x5"
definition MCDI_EVENT_CODE_SCHEDERR :: u32 where "MCDI_EVENT_CODE_SCHEDERR = 0x6"
definition MCDI_EVENT_CODE_REBOOT :: u32 where "MCDI_EVENT_CODE_REBOOT = 0x7"
definition MCDI_EVENT_CODE_MAC_STATS_DMA :: u32 where "MCDI_EVENT_CODE_MAC_STATS_DMA = 0x8"
definition MCDI_EVENT_CODE_FWALERT :: u32 where "MCDI_EVENT_CODE_FWALERT = 0x9"
definition MCDI_EVENT_CODE_TX_ERR :: u32 where "MCDI_EVENT_CODE_TX_ERR = 0xb"
definition MCDI_EVENT_CODE_TX_FLUSH :: u32 where "MCDI_EVENT_CODE_TX_FLUSH = 0xc"
definition MCDI_EVENT_CODE_RX_FLUSH :: u32 where "MCDI_EVENT_CODE_RX_FLUSH = 0x10"
definition MCDI_EVENT_CODE_RX_ERR :: u32 where "MCDI_EVENT_CODE_RX_ERR = 0x11"
definition MCDI_EVENT_CODE_MC_REBOOT :: u32 where "MCDI_EVENT_CODE_MC_REBOOT = 0x15"

definition MC_CMD_INIT_EVQ :: u32 where "MC_CMD_INIT_EVQ = 0x80"
definition MC_CMD_FINI_EVQ :: u32 where "MC_CMD_FINI_EVQ = 0x83"
definition MC_CMD_DRIVER_EVENT :: u32 where "MC_CMD_DRIVER_EVENT = 0x86"

definition EFX_PKT_UNICAST :: u16 where "EFX_PKT_UNICAST = 0x0004"
definition EFX_PKT_VLAN_TAGGED :: u16 where "EFX_PKT_VLAN_TAGGED = 0x0010"
definition EFX_CKSUM_TCPUDP :: u16 where "EFX_CKSUM_TCPUDP = 0x0020"
definition EFX_CKSUM_IPV4 :: u16 where "EFX_CKSUM_IPV4 = 0x0040"
definition EFX_PKT_CONT :: u16 where "EFX_PKT_CONT = 0x0080"
definition EFX_CHECK_VLAN :: u16 where "EFX_CHECK_VLAN = 0x0100"
definition EFX_PKT_TCP :: u16 where "EFX_PKT_TCP = 0x0200"
definition EFX_PKT_UDP :: u16 where "EFX_PKT_UDP = 0x0400"
definition EFX_PKT_IPV4 :: u16 where "EFX_PKT_IPV4 = 0x0800"
definition EFX_PKT_IPV6 :: u16 where "EFX_PKT_IPV6 = 0x1000"
definition EFX_PKT_PREFIX_LEN :: u16 where "EFX_PKT_PREFIX_LEN = 0x2000"
definition EFX_ADDR_MISMATCH :: u16 where "EFX_ADDR_MISMATCH = 0x4000"
definition EFX_DISCARD :: u16 where "EFX_DISCARD = 0x8000"

definition EFX_EXCEPTION_RX_DSC_ERROR :: u32 where "EFX_EXCEPTION_RX_DSC_ERROR = 0x00000002"
definition EFX_EXCEPTION_TX_DSC_ERROR :: u32 where "EFX_EXCEPTION_TX_DSC_ERROR = 0x00000003"
definition EFX_EXCEPTION_UNKNOWN_SENSOREVT :: u32 where "EFX_EXCEPTION_UNKNOWN_SENSOREVT = 0x00000004"
definition EFX_EXCEPTION_FWALERT_SRAM :: u32 where "EFX_EXCEPTION_FWALERT_SRAM = 0x00000005"
definition EFX_EXCEPTION_UNKNOWN_FWALERT :: u32 where "EFX_EXCEPTION_UNKNOWN_FWALERT = 0x00000006"
definition EFX_EXCEPTION_RX_ERROR :: u32 where "EFX_EXCEPTION_RX_ERROR = 0x00000007"
definition EFX_EXCEPTION_TX_ERROR :: u32 where "EFX_EXCEPTION_TX_ERROR = 0x00000008"
definition EFX_EXCEPTION_EV_ERROR :: u32 where "EFX_EXCEPTION_EV_ERROR = 0x00000009"

definition EFX_EVQ_MAXNEVS :: nat where "EFX_EVQ_MAXNEVS = 32768"
definition EFX_EVQ_MINNEVS :: nat where "EFX_EVQ_MINNEVS = 512"
definition EFX_BUF_SIZE :: nat where "EFX_BUF_SIZE = 4096"
definition EFX_EV_RX_NLABELS :: nat where "EFX_EV_RX_NLABELS = 32"
definition EFX_MAXRSS_LEGACY :: nat where "EFX_MAXRSS_LEGACY = 16"

definition EFX_RESET_RXQ_ERR :: u32 where "EFX_RESET_RXQ_ERR = 0x00000002"
definition EFX_RESET_TXQ_ERR :: u32 where "EFX_RESET_TXQ_ERR = 0x00000004"

definition EFX_MOD_INTR :: u32 where "EFX_MOD_INTR = 0x00000020"
definition EFX_MOD_EV :: u32 where "EFX_MOD_EV = 0x00000040"
definition EFX_MOD_RX :: u32 where "EFX_MOD_RX = 0x00000080"
definition EFX_MOD_TX :: u32 where "EFX_MOD_TX = 0x00000100"

definition EFX_INTR_LINE :: nat where "EFX_INTR_LINE = 1"

text \<open>The address of \<open>ER_DD_EVQ_INDIRECT\<close> is derived from that of another register.\<close>

definition ER_DD_EVQ_INDIRECT_OFST :: nat where "ER_DD_EVQ_INDIRECT_OFST = ER_DZ_TX_DESC_UPD_REG_OFST + 2 * 4"
definition ER_DD_EVQ_INDIRECT_STEP :: nat where "ER_DD_EVQ_INDIRECT_STEP = ER_DZ_TX_DESC_UPD_REG_STEP"

definition EFX_EVQ_SIZE :: "nat \<Rightarrow> nat" where "EFX_EVQ_SIZE nevs = nevs * 8"
definition EFX_EVQ_NBUFS :: "nat \<Rightarrow> nat" where "EFX_EVQ_NBUFS nevs = EFX_EVQ_SIZE nevs div EFX_BUF_SIZE"

lemmas siena_rx_ev_fields = FSF_CZ_RX_EV_PKT_NOT_PARSED_def FSF_CZ_RX_EV_IPV6_PKT_def FSF_AZ_RX_EV_PKT_OK_def FSF_AZ_RX_EV_PAUSE_FRM_ERR_def
  FSF_AZ_RX_EV_BUF_OWNER_ID_ERR_def FSF_AZ_RX_EV_IP_FRAG_ERR_def FSF_AZ_RX_EV_IP_HDR_CHKSUM_ERR_def FSF_AZ_RX_EV_TCP_UDP_CHKSUM_ERR_def
  FSF_AZ_RX_EV_ETH_CRC_ERR_def FSF_AZ_RX_EV_FRM_TRUNC_def FSF_AZ_RX_EV_TOBE_DISC_def FSF_AZ_RX_EV_PKT_TYPE_def FSF_AZ_RX_EV_HDR_TYPE_def
  FSF_AZ_RX_EV_MCAST_HASH_MATCH_def FSF_AZ_RX_EV_MCAST_PKT_def FSF_AZ_RX_EV_Q_LABEL_def FSF_AZ_RX_EV_BYTE_CNT_def FSF_AZ_RX_EV_DESC_PTR_def

end
