(* ===== verification/Efx_Link.thy ===== *)
theory Efx_Link
  imports Efx_Mc_Cmd Efx_Bar
begin

text \<open>
  The state of the port (\<open>efx_port_t\<close> in \<open>src/common/efx_impl.h\<close>) and how the link state that the controller reports is decoded:
  \<open>siena_phy_link_ev\<close> of \<open>src/common/siena_phy.c\<close>, \<open>ef10_phy_link_ev\<close> of \<open>src/common/ef10_phy.c\<close>, and what they call.
\<close>

section \<open>The port\<close>

datatype efx_mac_type = EFX_MAC_INVALID | EFX_MAC_SIENA | EFX_MAC_HUNTINGTON | EFX_MAC_MEDFORD

datatype efx_link_mode =
  EFX_LINK_UNKNOWN | EFX_LINK_DOWN | EFX_LINK_10HDX | EFX_LINK_10FDX | EFX_LINK_100HDX | EFX_LINK_100FDX
  | EFX_LINK_1000HDX | EFX_LINK_1000FDX | EFX_LINK_10000FDX | EFX_LINK_40000FDX

datatype efx_phy_led_mode = EFX_PHY_LED_DEFAULT | EFX_PHY_LED_OFF | EFX_PHY_LED_ON | EFX_PHY_LED_FLASH

text \<open>\<open>ep_emop\<close> and \<open>ep_epop\<close> point to the tables of a family, and are named by the family; NULL is \<open>None\<close>.\<close>

record efx_port =
  ep_mac_type :: efx_mac_type
  ep_phy_type :: u32
  ep_port :: u8
  ep_mac_pdu :: u32
  ep_mac_addr :: "u8 list"
  ep_link_mode :: efx_link_mode
  ep_all_unicst :: bool
  ep_mulcst :: bool
  ep_all_mulcst :: bool
  ep_brdcst :: bool
  ep_fcntl :: u32
  ep_fcntl_autoneg :: bool
  ep_multicst_hash :: "efx_oword \<times> efx_oword"
  ep_mulcst_addr_list :: "u8 list"
  ep_mulcst_addr_count :: nat
  ep_loopback_type :: u32
  ep_loopback_link_mode :: efx_link_mode
  ep_phy_led_mode :: efx_phy_led_mode
  ep_fixed_port_type :: u32
  ep_module_type :: u32
  ep_adv_cap_mask :: u32
  ep_lp_cap_mask :: u32
  ep_default_adv_cap_mask :: u32
  ep_phy_cap_mask :: u32
  ep_mac_drain :: bool
  ep_mac_stats_pending :: bool
  ep_current_bist :: u32
  ep_emop :: "efx_family option"
  ep_epop :: "efx_family option"

section \<open>Capabilities\<close>

definition EFX_PHY_CAP_10HDX :: nat where "EFX_PHY_CAP_10HDX = 1"
definition EFX_PHY_CAP_10FDX :: nat where "EFX_PHY_CAP_10FDX = 2"
definition EFX_PHY_CAP_100HDX :: nat where "EFX_PHY_CAP_100HDX = 3"
definition EFX_PHY_CAP_100FDX :: nat where "EFX_PHY_CAP_100FDX = 4"
definition EFX_PHY_CAP_1000HDX :: nat where "EFX_PHY_CAP_1000HDX = 5"
definition EFX_PHY_CAP_1000FDX :: nat where "EFX_PHY_CAP_1000FDX = 6"
definition EFX_PHY_CAP_10000FDX :: nat where "EFX_PHY_CAP_10000FDX = 7"
definition EFX_PHY_CAP_PAUSE :: nat where "EFX_PHY_CAP_PAUSE = 8"
definition EFX_PHY_CAP_ASYM :: nat where "EFX_PHY_CAP_ASYM = 9"
definition EFX_PHY_CAP_AN :: nat where "EFX_PHY_CAP_AN = 10"
definition EFX_PHY_CAP_40000FDX :: nat where "EFX_PHY_CAP_40000FDX = 11"

definition MC_CMD_PHY_CAP_10HDX_LBN :: nat where "MC_CMD_PHY_CAP_10HDX_LBN = 1"
definition MC_CMD_PHY_CAP_10FDX_LBN :: nat where "MC_CMD_PHY_CAP_10FDX_LBN = 2"
definition MC_CMD_PHY_CAP_100HDX_LBN :: nat where "MC_CMD_PHY_CAP_100HDX_LBN = 3"
definition MC_CMD_PHY_CAP_100FDX_LBN :: nat where "MC_CMD_PHY_CAP_100FDX_LBN = 4"
definition MC_CMD_PHY_CAP_1000HDX_LBN :: nat where "MC_CMD_PHY_CAP_1000HDX_LBN = 5"
definition MC_CMD_PHY_CAP_1000FDX_LBN :: nat where "MC_CMD_PHY_CAP_1000FDX_LBN = 6"
definition MC_CMD_PHY_CAP_10000FDX_LBN :: nat where "MC_CMD_PHY_CAP_10000FDX_LBN = 7"
definition MC_CMD_PHY_CAP_PAUSE_LBN :: nat where "MC_CMD_PHY_CAP_PAUSE_LBN = 8"
definition MC_CMD_PHY_CAP_ASYM_LBN :: nat where "MC_CMD_PHY_CAP_ASYM_LBN = 9"
definition MC_CMD_PHY_CAP_AN_LBN :: nat where "MC_CMD_PHY_CAP_AN_LBN = 10"
definition MC_CMD_PHY_CAP_40000FDX_LBN :: nat where "MC_CMD_PHY_CAP_40000FDX_LBN = 11"

text \<open>One \<open>if\<close> of the decoders.\<close>

definition decode_cap_bit :: "u32 \<Rightarrow> nat \<Rightarrow> nat \<Rightarrow> u32 \<Rightarrow> u32" where
  "decode_cap_bit mcdi_cap lbn cap m = (if mcdi_cap AND push_bit lbn 1 \<noteq> 0 then m OR push_bit cap 1 else m)"

definition siena_phy_decode_cap :: "u32 \<Rightarrow> u32" where
  "siena_phy_decode_cap mcdi_cap =
     (let m = 0;
          m = decode_cap_bit mcdi_cap MC_CMD_PHY_CAP_10HDX_LBN EFX_PHY_CAP_10HDX m;
          m = decode_cap_bit mcdi_cap MC_CMD_PHY_CAP_10FDX_LBN EFX_PHY_CAP_10FDX m;
          m = decode_cap_bit mcdi_cap MC_CMD_PHY_CAP_100HDX_LBN EFX_PHY_CAP_100HDX m;
          m = decode_cap_bit mcdi_cap MC_CMD_PHY_CAP_100FDX_LBN EFX_PHY_CAP_100FDX m;
          m = decode_cap_bit mcdi_cap MC_CMD_PHY_CAP_1000HDX_LBN EFX_PHY_CAP_1000HDX m;
          m = decode_cap_bit mcdi_cap MC_CMD_PHY_CAP_1000FDX_LBN EFX_PHY_CAP_1000FDX m;
          m = decode_cap_bit mcdi_cap MC_CMD_PHY_CAP_10000FDX_LBN EFX_PHY_CAP_10000FDX m;
          m = decode_cap_bit mcdi_cap MC_CMD_PHY_CAP_PAUSE_LBN EFX_PHY_CAP_PAUSE m;
          m = decode_cap_bit mcdi_cap MC_CMD_PHY_CAP_ASYM_LBN EFX_PHY_CAP_ASYM m;
          m = decode_cap_bit mcdi_cap MC_CMD_PHY_CAP_AN_LBN EFX_PHY_CAP_AN m
      in m)"

definition mcdi_phy_decode_cap :: "u32 \<Rightarrow> u32" where
  "mcdi_phy_decode_cap mcdi_cap =
     (let m = 0;
          m = decode_cap_bit mcdi_cap MC_CMD_PHY_CAP_10HDX_LBN EFX_PHY_CAP_10HDX m;
          m = decode_cap_bit mcdi_cap MC_CMD_PHY_CAP_10FDX_LBN EFX_PHY_CAP_10FDX m;
          m = decode_cap_bit mcdi_cap MC_CMD_PHY_CAP_100HDX_LBN EFX_PHY_CAP_100HDX m;
          m = decode_cap_bit mcdi_cap MC_CMD_PHY_CAP_100FDX_LBN EFX_PHY_CAP_100FDX m;
          m = decode_cap_bit mcdi_cap MC_CMD_PHY_CAP_1000HDX_LBN EFX_PHY_CAP_1000HDX m;
          m = decode_cap_bit mcdi_cap MC_CMD_PHY_CAP_1000FDX_LBN EFX_PHY_CAP_1000FDX m;
          m = decode_cap_bit mcdi_cap MC_CMD_PHY_CAP_10000FDX_LBN EFX_PHY_CAP_10000FDX m;
          m = decode_cap_bit mcdi_cap MC_CMD_PHY_CAP_40000FDX_LBN EFX_PHY_CAP_40000FDX m;
          m = decode_cap_bit mcdi_cap MC_CMD_PHY_CAP_PAUSE_LBN EFX_PHY_CAP_PAUSE m;
          m = decode_cap_bit mcdi_cap MC_CMD_PHY_CAP_ASYM_LBN EFX_PHY_CAP_ASYM m;
          m = decode_cap_bit mcdi_cap MC_CMD_PHY_CAP_AN_LBN EFX_PHY_CAP_AN m
      in m)"

section \<open>Link mode and flow control\<close>

definition EFX_FCNTL_RESPOND :: u32 where "EFX_FCNTL_RESPOND = 0x00000001"
definition EFX_FCNTL_GENERATE :: u32 where "EFX_FCNTL_GENERATE = 0x00000002"
definition MC_CMD_FCNTL_OFF :: u32 where "MC_CMD_FCNTL_OFF = 0x0"
definition MC_CMD_FCNTL_RESPOND :: u32 where "MC_CMD_FCNTL_RESPOND = 0x1"
definition MC_CMD_FCNTL_BIDIR :: u32 where "MC_CMD_FCNTL_BIDIR = 0x2"
definition MC_CMD_FCNTL_AUTO :: u32 where "MC_CMD_FCNTL_AUTO = 0x3"
definition MC_CMD_FCNTL_GENERATE :: u32 where "MC_CMD_FCNTL_GENERATE = 0x5"
definition MC_CMD_GET_LINK_OUT_LINK_UP_LBN :: nat where "MC_CMD_GET_LINK_OUT_LINK_UP_LBN = 0"
definition MC_CMD_GET_LINK_OUT_FULL_DUPLEX_LBN :: nat where "MC_CMD_GET_LINK_OUT_FULL_DUPLEX_LBN = 1"

text \<open>The results are the link mode and the flow control.\<close>

definition siena_phy_decode_link_mode :: "u32 \<Rightarrow> u32 \<Rightarrow> u32 \<Rightarrow> efx_link_mode \<times> u32" where
  "siena_phy_decode_link_mode link_flags speed fcntl =
     (let fd = (link_flags AND push_bit MC_CMD_GET_LINK_OUT_FULL_DUPLEX_LBN 1 \<noteq> 0);
          up = (link_flags AND push_bit MC_CMD_GET_LINK_OUT_LINK_UP_LBN 1 \<noteq> 0);
          link_mode =
            (if \<not> up then EFX_LINK_DOWN
             else if speed = 10000 \<and> fd then EFX_LINK_10000FDX
             else if speed = 1000 then (if fd then EFX_LINK_1000FDX else EFX_LINK_1000HDX)
             else if speed = 100 then (if fd then EFX_LINK_100FDX else EFX_LINK_100HDX)
             else if speed = 10 then (if fd then EFX_LINK_10FDX else EFX_LINK_10HDX)
             else EFX_LINK_UNKNOWN);
          fc =
            (if fcntl = MC_CMD_FCNTL_OFF then 0
             else if fcntl = MC_CMD_FCNTL_RESPOND then EFX_FCNTL_RESPOND
             else if fcntl = MC_CMD_FCNTL_BIDIR then EFX_FCNTL_RESPOND OR EFX_FCNTL_GENERATE
             else 0)
      in (link_mode, fc))"

definition mcdi_phy_decode_link_mode :: "u32 \<Rightarrow> u32 \<Rightarrow> u32 \<Rightarrow> efx_link_mode \<times> u32" where
  "mcdi_phy_decode_link_mode link_flags speed fcntl =
     (let fd = (link_flags AND push_bit MC_CMD_GET_LINK_OUT_FULL_DUPLEX_LBN 1 \<noteq> 0);
          up = (link_flags AND push_bit MC_CMD_GET_LINK_OUT_LINK_UP_LBN 1 \<noteq> 0);
          link_mode =
            (if \<not> up then EFX_LINK_DOWN
             else if speed = 40000 \<and> fd then EFX_LINK_40000FDX
             else if speed = 10000 \<and> fd then EFX_LINK_10000FDX
             else if speed = 1000 then (if fd then EFX_LINK_1000FDX else EFX_LINK_1000HDX)
             else if speed = 100 then (if fd then EFX_LINK_100FDX else EFX_LINK_100HDX)
             else if speed = 10 then (if fd then EFX_LINK_10FDX else EFX_LINK_10HDX)
             else EFX_LINK_UNKNOWN);
          fc =
            (if fcntl = MC_CMD_FCNTL_OFF then 0
             else if fcntl = MC_CMD_FCNTL_RESPOND then EFX_FCNTL_RESPOND
             else if fcntl = MC_CMD_FCNTL_GENERATE then EFX_FCNTL_GENERATE
             else if fcntl = MC_CMD_FCNTL_BIDIR then EFX_FCNTL_RESPOND OR EFX_FCNTL_GENERATE
             else 0)
      in (link_mode, fc))"

text \<open>The fields of a link change event.\<close>

definition LINKCHANGE_LP_CAP :: "nat \<times> nat" where "LINKCHANGE_LP_CAP = (0, 16)"
definition LINKCHANGE_SPEED :: "nat \<times> nat" where "LINKCHANGE_SPEED = (16, 4)"
definition LINKCHANGE_FCNTL :: "nat \<times> nat" where "LINKCHANGE_FCNTL = (20, 4)"
definition LINKCHANGE_LINK_FLAGS :: "nat \<times> nat" where "LINKCHANGE_LINK_FLAGS = (24, 8)"

definition siena_phy_link_ev :: "efx_qword \<Rightarrow> efx_port \<Rightarrow> efx_link_mode \<times> efx_port" where
  "siena_phy_link_ev eqp epp =
     (let code = qfield eqp LINKCHANGE_SPEED;
          speed = (if code = 0x1 then 100 else if code = 0x2 then 1000 else if code = 0x3 then 10000 else 0);
          (link_mode, fcntl) = siena_phy_decode_link_mode (qfield eqp LINKCHANGE_LINK_FLAGS) speed (qfield eqp LINKCHANGE_FCNTL);
          lp_cap_mask = siena_phy_decode_cap (qfield eqp LINKCHANGE_LP_CAP);
          epp = epp\<lparr>ep_lp_cap_mask := lp_cap_mask\<rparr>;
          epp = (if ep_phy_cap_mask epp AND push_bit EFX_PHY_CAP_AN 1 \<noteq> 0 then epp\<lparr>ep_fcntl := fcntl\<rparr> else epp)
      in (link_mode, epp))"

definition ef10_phy_link_ev :: "efx_qword \<Rightarrow> efx_port \<Rightarrow> efx_link_mode \<times> efx_port" where
  "ef10_phy_link_ev eqp epp =
     (let code = qfield eqp LINKCHANGE_SPEED;
          speed = (if code = 0x1 then 100 else if code = 0x2 then 1000 else if code = 0x3 then 10000
                   else if code = 0x4 then 40000 else 0);
          (link_mode, fcntl) = mcdi_phy_decode_link_mode (qfield eqp LINKCHANGE_LINK_FLAGS) speed (qfield eqp LINKCHANGE_FCNTL);
          lp_cap_mask = mcdi_phy_decode_cap (qfield eqp LINKCHANGE_LP_CAP);
          epp = epp\<lparr>ep_lp_cap_mask := lp_cap_mask\<rparr>;
          epp = epp\<lparr>ep_fcntl := fcntl\<rparr>
      in (link_mode, epp))"

end
