(* ===== verification/Efx_Ev.thy ===== *)
theory Efx_Ev
  imports Efx_Ev_Regs Efx_Link Efx_Mon
begin

text \<open>
  Events (\<open>src/common/efx_ev.c\<close> and \<open>src/common/ef10_ev.c\<close>): what each kind of event of a queue does. The state is the queue
  (\<open>efx_evq_t\<close>), the parts of \<open>efx_nic_t\<close> that events touch, and the driver's own data, which its callbacks act on. A callback
  returns whether polling is to stop. A NULL callback is \<open>None\<close>.
\<close>

section \<open>Event queues\<close>

datatype efx_ev_qstat =
  EV_ALL | EV_RX | EV_RX_OK | EV_RX_FRM_TRUNC | EV_RX_TOBE_DISC | EV_RX_PAUSE_FRM_ERR | EV_RX_BUF_OWNER_ID_ERR
  | EV_RX_IPV4_HDR_CHKSUM_ERR | EV_RX_TCP_UDP_CHKSUM_ERR | EV_RX_ETH_CRC_ERR | EV_RX_IP_FRAG_ERR | EV_RX_MCAST_PKT
  | EV_RX_MCAST_HASH_MATCH | EV_RX_TCP_IPV4 | EV_RX_TCP_IPV6 | EV_RX_UDP_IPV4 | EV_RX_UDP_IPV6 | EV_RX_OTHER_IPV4
  | EV_RX_OTHER_IPV6 | EV_RX_NON_IP | EV_RX_BATCH | EV_TX | EV_TX_WQ_FF_FULL | EV_TX_PKT_ERR | EV_TX_PKT_TOO_BIG
  | EV_TX_UNEXPECTED | EV_GLOBAL | EV_GLOBAL_MNT | EV_DRIVER | EV_DRIVER_SRM_UPD_DONE | EV_DRIVER_TX_DESCQ_FLS_DONE
  | EV_DRIVER_RX_DESCQ_FLS_DONE | EV_DRIVER_RX_DESCQ_FLS_FAILED | EV_DRIVER_RX_DSC_ERROR | EV_DRIVER_TX_DSC_ERROR
  | EV_DRV_GEN | EV_MCDI_RESPONSE

definition efx_ev_qstat_names :: "(efx_ev_qstat \<times> string) list" where
  "efx_ev_qstat_names = [
     (EV_ALL, ''all''), (EV_RX, ''rx''), (EV_RX_OK, ''rx_ok''), (EV_RX_FRM_TRUNC, ''rx_frm_trunc''),
     (EV_RX_TOBE_DISC, ''rx_tobe_disc''), (EV_RX_PAUSE_FRM_ERR, ''rx_pause_frm_err''),
     (EV_RX_BUF_OWNER_ID_ERR, ''rx_buf_owner_id_err''), (EV_RX_IPV4_HDR_CHKSUM_ERR, ''rx_ipv4_hdr_chksum_err''),
     (EV_RX_TCP_UDP_CHKSUM_ERR, ''rx_tcp_udp_chksum_err''), (EV_RX_ETH_CRC_ERR, ''rx_eth_crc_err''),
     (EV_RX_IP_FRAG_ERR, ''rx_ip_frag_err''), (EV_RX_MCAST_PKT, ''rx_mcast_pkt''),
     (EV_RX_MCAST_HASH_MATCH, ''rx_mcast_hash_match''), (EV_RX_TCP_IPV4, ''rx_tcp_ipv4''), (EV_RX_TCP_IPV6, ''rx_tcp_ipv6''),
     (EV_RX_UDP_IPV4, ''rx_udp_ipv4''), (EV_RX_UDP_IPV6, ''rx_udp_ipv6''), (EV_RX_OTHER_IPV4, ''rx_other_ipv4''),
     (EV_RX_OTHER_IPV6, ''rx_other_ipv6''), (EV_RX_NON_IP, ''rx_non_ip''), (EV_RX_BATCH, ''rx_batch''), (EV_TX, ''tx''),
     (EV_TX_WQ_FF_FULL, ''tx_wq_ff_full''), (EV_TX_PKT_ERR, ''tx_pkt_err''), (EV_TX_PKT_TOO_BIG, ''tx_pkt_too_big''),
     (EV_TX_UNEXPECTED, ''tx_unexpected''), (EV_GLOBAL, ''global''), (EV_GLOBAL_MNT, ''global_mnt''), (EV_DRIVER, ''driver''),
     (EV_DRIVER_SRM_UPD_DONE, ''driver_srm_upd_done''), (EV_DRIVER_TX_DESCQ_FLS_DONE, ''driver_tx_descq_fls_done''),
     (EV_DRIVER_RX_DESCQ_FLS_DONE, ''driver_rx_descq_fls_done''), (EV_DRIVER_RX_DESCQ_FLS_FAILED, ''driver_rx_descq_fls_failed''),
     (EV_DRIVER_RX_DSC_ERROR, ''driver_rx_dsc_error''), (EV_DRIVER_TX_DSC_ERROR, ''driver_tx_dsc_error''),
     (EV_DRV_GEN, ''drv_gen''), (EV_MCDI_RESPONSE, ''mcdi_response'')]"

definition efx_ev_qstat_name :: "nat \<Rightarrow> string option" where
  "efx_ev_qstat_name stat_id = map_option snd (rd efx_ev_qstat_names stat_id)"

record efx_evq_rxq_state =
  eers_rx_read_ptr :: u32
  eers_rx_mask :: u32

text \<open>
  \<open>ee_esmp\<close> is the memory of the queue. The handlers \<open>ee_rx\<close> to \<open>ee_mcdi\<close> are set together, to those of a family; EF10 leaves
  \<open>ee_global\<close> NULL. \<open>ee_handlers\<close> is that family, \<open>None\<close> before they are set.
\<close>

record efx_evq =
  ee_index :: nat
  ee_mask :: u32
  ee_esmp :: "efx_qword list"
  ee_stat :: "efx_ev_qstat \<Rightarrow> u32"
  ee_handlers :: "efx_family option"
  ee_rxq_state :: "efx_evq_rxq_state list"

text \<open>
  The parts of \<open>efx_nic_t\<close>: the MCDI interface holds the family, the module flags and the features. \<open>en_eevop\<close> is the table of
  operations, named by its family.
\<close>

record 'c ev_nic =
  en_mcdi :: "'c mcdi_nic"
  en_reset_flags :: u32
  en_port :: efx_port
  en_sensor_maskp :: "u32 list option"
  en_sensor_mask_size :: nat
  en_bar :: efx_bar
  en_ev_qcount :: nat
  en_eevop :: "efx_family option"
  en_ei_type :: nat
  enc_evq_limit :: nat
  enc_buftbl_limit :: u32
  enc_evq_timer_max_us :: u32
  enc_evq_timer_quantum_ns :: u32
  enc_rx_batching_enabled :: bool
  enc_bug35388_workaround :: bool

abbreviation ev_mod_flags :: "'c ev_nic \<Rightarrow> u32" where "ev_mod_flags enp \<equiv> mn_mod_flags (en_mcdi enp)"
abbreviation ev_family :: "'c ev_nic \<Rightarrow> efx_family" where "ev_family enp \<equiv> md_family (mn_dev (en_mcdi enp))"
abbreviation ev_features :: "'c ev_nic \<Rightarrow> u32" where "ev_features enp \<equiv> md_features (mn_dev (en_mcdi enp))"

definition ev_set_mod_flags :: "u32 \<Rightarrow> 'c ev_nic \<Rightarrow> 'c ev_nic" where
  "ev_set_mod_flags flags enp = enp\<lparr>en_mcdi := (en_mcdi enp)\<lparr>mn_mod_flags := flags\<rparr>\<rparr>"

text \<open>The state that polling works on; \<open>es_hw\<close> is the state of the controller that writes events.\<close>

record ('c, 'd, 'h) ev_state =
  es_evq :: efx_evq
  es_nic :: "'c ev_nic"
  es_arg :: 'd
  es_hw :: 'h

type_synonym 'd ev_callback = "'d \<Rightarrow> (bool \<times> 'd) option"

record 'd efx_ev_callbacks =
  eec_initialized :: "'d ev_callback option"
  eec_rx :: "(u32 \<Rightarrow> u32 \<Rightarrow> u32 \<Rightarrow> u16 \<Rightarrow> 'd ev_callback) option"
  eec_tx :: "(u32 \<Rightarrow> u32 \<Rightarrow> 'd ev_callback) option"
  eec_exception :: "(u32 \<Rightarrow> u32 \<Rightarrow> 'd ev_callback) option"
  eec_rxq_flush_done :: "(u32 \<Rightarrow> 'd ev_callback) option"
  eec_rxq_flush_failed :: "(u32 \<Rightarrow> 'd ev_callback) option"
  eec_txq_flush_done :: "(u32 \<Rightarrow> 'd ev_callback) option"
  eec_software :: "(u16 \<Rightarrow> 'd ev_callback) option"
  eec_sram :: "(u32 \<Rightarrow> 'd ev_callback) option"
  eec_wake_up :: "(u32 \<Rightarrow> 'd ev_callback) option"
  eec_timer :: "(u32 \<Rightarrow> 'd ev_callback) option"
  eec_link_change :: "(efx_link_mode \<Rightarrow> 'd ev_callback) option"
  eec_monitor :: "(nat \<Rightarrow> efx_mon_stat_value \<Rightarrow> 'd ev_callback) option"
  eec_mac_stats :: "(u32 \<Rightarrow> 'd ev_callback) option"

type_synonym ('c, 'd, 'h) ev_result = "(bool \<times> ('c, 'd, 'h) ev_state) option"

definition ev_call :: "'d ev_callback \<Rightarrow> ('c, 'd, 'h) ev_state \<Rightarrow> ('c, 'd, 'h) ev_result" where
  "ev_call f st = do { (should_abort, arg) \<leftarrow> f (es_arg st); Some (should_abort, st\<lparr>es_arg := arg\<rparr>) }"

definition EFX_EV_QSTAT_INCR :: "efx_ev_qstat \<Rightarrow> ('c, 'd, 'h) ev_state \<Rightarrow> ('c, 'd, 'h) ev_state" where
  "EFX_EV_QSTAT_INCR stat st =
     st\<lparr>es_evq := (es_evq st)\<lparr>ee_stat := (ee_stat (es_evq st))(stat := ee_stat (es_evq st) stat + 1)\<rparr>\<rparr>"

text \<open>An \<open>if\<close> of the receive handlers: count and change the flags of the packet.\<close>

definition ev_note ::
    "bool \<Rightarrow> efx_ev_qstat \<Rightarrow> (u16 \<Rightarrow> u16) \<Rightarrow> u16 \<times> ('c, 'd, 'h) ev_state \<Rightarrow> u16 \<times> ('c, 'd, 'h) ev_state" where
  "ev_note c stat f x = (if c then (f (fst x), EFX_EV_QSTAT_INCR stat (snd x)) else x)"

section \<open>Siena\<close>

text \<open>Without scatter (\<open>EFSYS_OPT_RX_SCATTER\<close>) no event is ignored; the result is the flags.\<close>

definition siena_ev_rx_not_ok :: "efx_qword \<Rightarrow> u16 \<Rightarrow> ('c, 'd, 'h) ev_state \<Rightarrow> bool \<times> u16 \<times> ('c, 'd, 'h) ev_state" where
  "siena_ev_rx_not_ok eqp flags st =
     (let ignore = False;
          x = (flags, st);
          x = ev_note (qfield eqp FSF_AZ_RX_EV_TOBE_DISC \<noteq> 0) EV_RX_TOBE_DISC (\<lambda>f. f OR EFX_ADDR_MISMATCH) x;
          x = ev_note (qfield eqp FSF_AZ_RX_EV_FRM_TRUNC \<noteq> 0) EV_RX_FRM_TRUNC (\<lambda>f. f OR EFX_DISCARD) x;
          x = ev_note (qfield eqp FSF_AZ_RX_EV_ETH_CRC_ERR \<noteq> 0) EV_RX_ETH_CRC_ERR (\<lambda>f. f AND NOT EFX_ADDR_MISMATCH OR EFX_DISCARD) x;
          x = ev_note (qfield eqp FSF_AZ_RX_EV_PAUSE_FRM_ERR \<noteq> 0) EV_RX_PAUSE_FRM_ERR (\<lambda>f. f AND NOT EFX_ADDR_MISMATCH OR EFX_DISCARD) x;
          x = ev_note (qfield eqp FSF_AZ_RX_EV_BUF_OWNER_ID_ERR \<noteq> 0) EV_RX_BUF_OWNER_ID_ERR (\<lambda>f. f OR EFX_DISCARD) x;
          x = ev_note (qfield eqp FSF_AZ_RX_EV_IP_HDR_CHKSUM_ERR \<noteq> 0) EV_RX_IPV4_HDR_CHKSUM_ERR (\<lambda>f. f AND NOT EFX_CKSUM_IPV4) x;
          x = ev_note (qfield eqp FSF_AZ_RX_EV_TCP_UDP_CHKSUM_ERR \<noteq> 0) EV_RX_TCP_UDP_CHKSUM_ERR (\<lambda>f. f AND NOT EFX_CKSUM_TCPUDP) x;
          x = ev_note (qfield eqp FSF_AZ_RX_EV_IP_FRAG_ERR \<noteq> 0) EV_RX_IP_FRAG_ERR
                (\<lambda>f. f AND NOT (EFX_PKT_TCP OR EFX_PKT_UDP OR EFX_CKSUM_TCPUDP)) x
      in (ignore, x))"

text \<open>The flags and the counter that the type of the headers gives; the field has two bits, so one of the cases applies.\<close>

definition siena_rx_hdr_type :: "u32 \<Rightarrow> bool \<Rightarrow> u16 \<times> efx_ev_qstat" where
  "siena_rx_hdr_type hdr_type is_v6 =
     (if hdr_type = FSE_AZ_RX_EV_HDR_TYPE_IPV4V6_TCP then
        (if is_v6 then (EFX_PKT_TCP OR EFX_CKSUM_TCPUDP OR EFX_PKT_IPV6, EV_RX_TCP_IPV6)
         else (EFX_PKT_TCP OR EFX_CKSUM_TCPUDP OR (EFX_PKT_IPV4 OR EFX_CKSUM_IPV4), EV_RX_TCP_IPV4))
      else if hdr_type = FSE_AZ_RX_EV_HDR_TYPE_IPV4V6_UDP then
        (if is_v6 then (EFX_PKT_UDP OR EFX_CKSUM_TCPUDP OR EFX_PKT_IPV6, EV_RX_UDP_IPV6)
         else (EFX_PKT_UDP OR EFX_CKSUM_TCPUDP OR (EFX_PKT_IPV4 OR EFX_CKSUM_IPV4), EV_RX_UDP_IPV4))
      else if hdr_type = FSE_AZ_RX_EV_HDR_TYPE_IPV4V6_OTHER then
        (if is_v6 then (EFX_PKT_IPV6, EV_RX_OTHER_IPV6) else (EFX_PKT_IPV4 OR EFX_CKSUM_IPV4, EV_RX_OTHER_IPV4))
      else (0, EV_RX_NON_IP))"

text \<open>The parts of \<open>siena_ev_rx\<close>: what the header type and the error bits say, and then the address and VLAN flags.\<close>

definition siena_rx_headers :: "efx_qword \<Rightarrow> ('c, 'd, 'h) ev_state \<Rightarrow> bool \<times> u16 \<times> ('c, 'd, 'h) ev_state" where
  "siena_rx_headers eqp st =
     (let is_v6 = (qfield eqp FSF_CZ_RX_EV_IPV6_PKT \<noteq> 0);
          (flags, stat) = siena_rx_hdr_type (qfield eqp FSF_AZ_RX_EV_HDR_TYPE) is_v6;
          st = EFX_EV_QSTAT_INCR stat st
      in if qfield eqp FSF_AZ_RX_EV_PKT_OK = 0 then siena_ev_rx_not_ok eqp flags st else (False, flags, st))"

definition siena_rx_address :: "efx_qword \<Rightarrow> u16 \<times> ('c, 'd, 'h) ev_state \<Rightarrow> u16 \<times> ('c, 'd, 'h) ev_state" where
  "siena_rx_address eqp x =
     (let x = ev_note (NOT (fst x) AND EFX_DISCARD \<noteq> 0) EV_RX_OK (\<lambda>f. f) x;
          x = (if qfield eqp FSF_AZ_RX_EV_MCAST_PKT \<noteq> 0
               then let x = ev_note True EV_RX_MCAST_PKT (\<lambda>f. f) x
                    in if qfield eqp FSF_AZ_RX_EV_MCAST_HASH_MATCH \<noteq> 0 then ev_note True EV_RX_MCAST_HASH_MATCH (\<lambda>f. f) x
                       else (fst x OR EFX_ADDR_MISMATCH, snd x)
               else (fst x OR EFX_PKT_UNICAST, snd x));
          flags = fst x;
          flags = (if qfield eqp FSF_AZ_RX_EV_PKT_OK = 0 \<and> qfield eqp FSF_CZ_RX_EV_PKT_NOT_PARSED \<noteq> 0 then flags OR EFX_CHECK_VLAN else flags);
          flags = (if NOT flags AND EFX_CHECK_VLAN \<noteq> 0 \<and> FSE_AZ_RX_EV_PKT_TYPE_VLAN \<le> qfield eqp FSF_AZ_RX_EV_PKT_TYPE
                   then flags OR EFX_PKT_VLAN_TAGGED else flags)
      in (flags, snd x))"

definition siena_ev_rx :: "efx_qword \<Rightarrow> 'd efx_ev_callbacks \<Rightarrow> ('c, 'd, 'h) ev_state \<Rightarrow> ('c, 'd, 'h) ev_result" where
  "siena_ev_rx eqp eecp st =
     (let st = EFX_EV_QSTAT_INCR EV_RX st;
          desc = qfield eqp FSF_AZ_RX_EV_DESC_PTR;
          bytes = qfield eqp FSF_AZ_RX_EV_BYTE_CNT;
          label = qfield eqp FSF_AZ_RX_EV_Q_LABEL;
          (ignore, x) = siena_rx_headers eqp st
      in if ignore then Some (False, snd x)
         else
          let (flags, st) = siena_rx_address eqp x
          in do { f \<leftarrow> eec_rx eecp; ev_call (f label desc bytes flags) st })"

definition siena_ev_tx :: "efx_qword \<Rightarrow> 'd efx_ev_callbacks \<Rightarrow> ('c, 'd, 'h) ev_state \<Rightarrow> ('c, 'd, 'h) ev_result" where
  "siena_ev_tx eqp eecp st =
     (let st = EFX_EV_QSTAT_INCR EV_TX st
      in if qfield eqp FSF_AZ_TX_EV_COMP \<noteq> 0 \<and> qfield eqp FSF_AZ_TX_EV_PKT_ERR = 0
            \<and> qfield eqp FSF_AZ_TX_EV_PKT_TOO_BIG = 0 \<and> qfield eqp FSF_AZ_TX_EV_WQ_FF_FULL = 0
         then do { f \<leftarrow> eec_tx eecp; ev_call (f (qfield eqp FSF_AZ_TX_EV_Q_LABEL) (qfield eqp FSF_AZ_TX_EV_DESC_PTR)) st }
         else
          let st = (if qfield eqp FSF_AZ_TX_EV_PKT_ERR \<noteq> 0 then EFX_EV_QSTAT_INCR EV_TX_PKT_ERR st else st);
              st = (if qfield eqp FSF_AZ_TX_EV_PKT_TOO_BIG \<noteq> 0 then EFX_EV_QSTAT_INCR EV_TX_PKT_TOO_BIG st else st);
              st = (if qfield eqp FSF_AZ_TX_EV_WQ_FF_FULL \<noteq> 0 then EFX_EV_QSTAT_INCR EV_TX_WQ_FF_FULL st else st)
          in Some (False, EFX_EV_QSTAT_INCR EV_TX_UNEXPECTED st))"

definition siena_ev_global :: "('c, 'd, 'h) ev_state \<Rightarrow> ('c, 'd, 'h) ev_result" where
  "siena_ev_global st = Some (False, EFX_EV_QSTAT_INCR EV_GLOBAL st)"

definition siena_ev_driver :: "efx_qword \<Rightarrow> 'd efx_ev_callbacks \<Rightarrow> ('c, 'd, 'h) ev_state \<Rightarrow> ('c, 'd, 'h) ev_result" where
  "siena_ev_driver eqp eecp st =
     (let st = EFX_EV_QSTAT_INCR EV_DRIVER st;
          subcode = qfield eqp FSF_AZ_DRIVER_EV_SUBCODE;
          subdata = qfield eqp FSF_AZ_DRIVER_EV_SUBDATA
      in if subcode = FSE_AZ_TX_DESCQ_FLS_DONE_EV then do {
           let st = EFX_EV_QSTAT_INCR EV_DRIVER_TX_DESCQ_FLS_DONE st;
           f \<leftarrow> eec_txq_flush_done eecp;
           ev_call (f subdata) st }
         else if subcode = FSE_AZ_RX_DESCQ_FLS_DONE_EV then do {
           let rxq_index = qfield eqp FSF_AZ_DRIVER_EV_RX_DESCQ_ID;
           flush_done \<leftarrow> eec_rxq_flush_done eecp;
           flush_failed \<leftarrow> eec_rxq_flush_failed eecp;
           if qfield eqp FSF_AZ_DRIVER_EV_RX_FLUSH_FAIL \<noteq> 0
           then ev_call (flush_failed rxq_index) (EFX_EV_QSTAT_INCR EV_DRIVER_RX_DESCQ_FLS_FAILED st)
           else ev_call (flush_done rxq_index) (EFX_EV_QSTAT_INCR EV_DRIVER_RX_DESCQ_FLS_DONE st) }
         else if subcode = FSE_AZ_EVQ_INIT_DONE_EV then do { f \<leftarrow> eec_initialized eecp; ev_call f st }
         else if subcode = FSE_AZ_EVQ_NOT_EN_EV then Some (False, st)
         else if subcode = FSE_AZ_SRM_UPD_DONE_EV then do {
           let st = EFX_EV_QSTAT_INCR EV_DRIVER_SRM_UPD_DONE st;
           f \<leftarrow> eec_sram eecp;
           ev_call (f subdata) st }
         else if subcode = FSE_AZ_WAKE_UP_EV then do { f \<leftarrow> eec_wake_up eecp; ev_call (f subdata) st }
         else if subcode = FSE_AZ_TX_PKT_NON_TCP_UDP then Some (False, st)
         else if subcode = FSE_AZ_TIMER_EV then do { f \<leftarrow> eec_timer eecp; ev_call (f subdata) st }
         else if subcode = FSE_AZ_RX_DSC_ERROR_EV then do {
           let st = EFX_EV_QSTAT_INCR EV_DRIVER_RX_DSC_ERROR st;
           f \<leftarrow> eec_exception eecp;
           ev_call (f EFX_EXCEPTION_RX_DSC_ERROR 0) st }
         else if subcode = FSE_AZ_TX_DSC_ERROR_EV then do {
           let st = EFX_EV_QSTAT_INCR EV_DRIVER_TX_DSC_ERROR st;
           f \<leftarrow> eec_exception eecp;
           ev_call (f EFX_EXCEPTION_TX_DSC_ERROR 0) st }
         else Some (False, st))"

definition siena_ev_drv_gen :: "efx_qword \<Rightarrow> 'd efx_ev_callbacks \<Rightarrow> ('c, 'd, 'h) ev_state \<Rightarrow> ('c, 'd, 'h) ev_result" where
  "siena_ev_drv_gen eqp eecp st =
     (let st = EFX_EV_QSTAT_INCR EV_DRV_GEN st;
          data = qfield eqp FSF_AZ_EV_DATA_DW0
      in if 2 ^ 16 \<le> data then Some (True, st)
         else do { f \<leftarrow> eec_software eecp; ev_call (f (ucast data)) st })"

text \<open>The cases of \<open>siena_ev_mcdi\<close> and \<open>ef10_ev_mcdi\<close> that are the same code.\<close>

definition ev_mcdi_death :: "efx_rc \<Rightarrow> ('c, 'd, 'h) ev_state \<Rightarrow> ('c, 'd, 'h) ev_result" where
  "ev_mcdi_death rc st = do {
     m \<leftarrow> efx_mcdi_ev_death (en_mcdi (es_nic st)) rc;
     Some (False, st\<lparr>es_nic := (es_nic st)\<lparr>en_mcdi := m\<rparr>\<rparr>) }"

definition ev_mcdi_cmddone :: "efx_qword \<Rightarrow> ('c, 'd, 'h) ev_state \<Rightarrow> ('c, 'd, 'h) ev_result" where
  "ev_mcdi_cmddone eqp st = do {
     m \<leftarrow> efx_mcdi_ev_cpl (en_mcdi (es_nic st)) (qfield eqp MCDI_EVENT_CMDDONE_SEQ) (unat (qfield eqp MCDI_EVENT_CMDDONE_DATALEN))
            (qfield eqp MCDI_EVENT_CMDDONE_ERRNO);
     Some (False, st\<lparr>es_nic := (es_nic st)\<lparr>en_mcdi := m\<rparr>\<rparr>) }"

definition ev_mcdi_sensorevt :: "efx_qword \<Rightarrow> 'd efx_ev_callbacks \<Rightarrow> ('c, 'd, 'h) ev_state \<Rightarrow> ('c, 'd, 'h) ev_result" where
  "ev_mcdi_sensorevt eqp eecp st = do {
     let enp = es_nic st;
     r \<leftarrow> mcdi_mon_ev (emi_port (mn_emip (en_mcdi enp))) (en_sensor_maskp enp) (en_sensor_mask_size enp) eqp;
     case r of
       Inr (stat_id, v) \<Rightarrow> do { f \<leftarrow> eec_monitor eecp; ev_call (f stat_id v) st }
     | Inl rc \<Rightarrow>
         if rc = ENOTSUP
         then do { f \<leftarrow> eec_exception eecp; ev_call (f EFX_EXCEPTION_UNKNOWN_SENSOREVT (qfield eqp MCDI_EVENT_DATA)) st }
         else do { efsys_assert (rc = ENODEV); Some (False, st) } }"

definition ev_mcdi_mac_stats :: "efx_qword \<Rightarrow> 'd efx_ev_callbacks \<Rightarrow> ('c, 'd, 'h) ev_state \<Rightarrow> ('c, 'd, 'h) ev_result" where
  "ev_mcdi_mac_stats eqp eecp st =
     (case eec_mac_stats eecp of
        None \<Rightarrow> Some (False, st)
      | Some f \<Rightarrow> do { (_, st) \<leftarrow> ev_call (f (qfield eqp MCDI_EVENT_MAC_STATS_DMA_GENERATION)) st; Some (False, st) })"

definition ev_mcdi_fwalert :: "efx_qword \<Rightarrow> 'd efx_ev_callbacks \<Rightarrow> ('c, 'd, 'h) ev_state \<Rightarrow> ('c, 'd, 'h) ev_result" where
  "ev_mcdi_fwalert eqp eecp st = do {
     f \<leftarrow> eec_exception eecp;
     if qfield eqp MCDI_EVENT_FWALERT_REASON = MCDI_EVENT_FWALERT_REASON_SRAM_ACCESS
     then ev_call (f EFX_EXCEPTION_FWALERT_SRAM (qfield eqp MCDI_EVENT_FWALERT_DATA)) st
     else ev_call (f EFX_EXCEPTION_UNKNOWN_FWALERT (qfield eqp MCDI_EVENT_DATA)) st }"

definition ev_mcdi_linkchange ::
    "(efx_qword \<Rightarrow> efx_port \<Rightarrow> efx_link_mode \<times> efx_port) \<Rightarrow> efx_qword \<Rightarrow> 'd efx_ev_callbacks \<Rightarrow> ('c, 'd, 'h) ev_state \<Rightarrow> ('c, 'd, 'h) ev_result" where
  "ev_mcdi_linkchange phy_link_ev eqp eecp st = do {
     let (link_mode, port) = phy_link_ev eqp (en_port (es_nic st));
     let st = st\<lparr>es_nic := (es_nic st)\<lparr>en_port := port\<rparr>\<rparr>;
     f \<leftarrow> eec_link_change eecp;
     ev_call (f link_mode) st }"

definition siena_ev_mcdi :: "efx_qword \<Rightarrow> 'd efx_ev_callbacks \<Rightarrow> ('c, 'd, 'h) ev_state \<Rightarrow> ('c, 'd, 'h) ev_result" where
  "siena_ev_mcdi eqp eecp st = do {
     efsys_assert (ev_family (es_nic st) = EFX_FAMILY_SIENA);
     efsys_assert (eec_link_change eecp \<noteq> None);
     efsys_assert (eec_exception eecp \<noteq> None);
     efsys_assert (eec_monitor eecp \<noteq> None);
     let st = EFX_EV_QSTAT_INCR EV_MCDI_RESPONSE st;
     let code = qfield eqp MCDI_EVENT_CODE;
     if code = MCDI_EVENT_CODE_BADSSERT then ev_mcdi_death EINTR st
     else if code = MCDI_EVENT_CODE_CMDDONE then ev_mcdi_cmddone eqp st
     else if code = MCDI_EVENT_CODE_LINKCHANGE then ev_mcdi_linkchange siena_phy_link_ev eqp eecp st
     else if code = MCDI_EVENT_CODE_SENSOREVT then ev_mcdi_sensorevt eqp eecp st
     else if code = MCDI_EVENT_CODE_SCHEDERR then Some (False, st)
     else if code = MCDI_EVENT_CODE_REBOOT then ev_mcdi_death EIO st
     else if code = MCDI_EVENT_CODE_MAC_STATS_DMA then ev_mcdi_mac_stats eqp eecp st
     else if code = MCDI_EVENT_CODE_FWALERT then ev_mcdi_fwalert eqp eecp st
     else Some (False, st) }"

section \<open>EF10\<close>

text \<open>
  An EF10 receive event covers several packets: it carries the low bits of the position behind the last descriptor, from
  which \<open>eers_rx_read_ptr\<close> is moved on. The first part of \<open>ef10_ev_rx\<close> computes the number of descriptors and the new position.
\<close>

definition ef10_rx_desc_count :: "u32 \<Rightarrow> u32 \<Rightarrow> u32" where
  "ef10_rx_desc_count next_read_lbits read_ptr = (next_read_lbits - read_ptr) AND efx_mask32 (snd ESF_DZ_RX_DSC_PTR_LBITS)"

text \<open>The checksum and header flags, from \<open>eth_tag_class\<close> to the label \<open>deliver\<close>.\<close>

definition ef10_rx_l4 ::
    "u32 \<Rightarrow> efx_ev_qstat \<Rightarrow> efx_ev_qstat \<Rightarrow> efx_ev_qstat \<Rightarrow> u16 \<times> ('c, 'd, 'h) ev_state \<Rightarrow> u16 \<times> ('c, 'd, 'h) ev_state" where
  "ef10_rx_l4 l4_class tcp udp other x =
     (if l4_class = ESE_DZ_L4_CLASS_TCP then ev_note True tcp (\<lambda>f. f OR EFX_PKT_TCP) x
      else if l4_class = ESE_DZ_L4_CLASS_UDP then ev_note True udp (\<lambda>f. f OR EFX_PKT_UDP) x
      else ev_note True other (\<lambda>f. f) x)"

definition ef10_rx_parse :: "efx_qword \<Rightarrow> u16 \<times> ('c, 'd, 'h) ev_state \<Rightarrow> u16 \<times> ('c, 'd, 'h) ev_state" where
  "ef10_rx_parse eqp x =
     (let eth_tag_class = qfield eqp ESF_DZ_RX_ETH_TAG_CLASS;
          l3_class = qfield eqp ESF_DZ_RX_L3_CLASS;
          l4_class = qfield eqp ESF_DZ_RX_L4_CLASS;
          x = (if eth_tag_class = ESE_DZ_ETH_TAG_CLASS_VLAN1 \<or> eth_tag_class = ESE_DZ_ETH_TAG_CLASS_VLAN2
               then (fst x OR EFX_PKT_VLAN_TAGGED, snd x) else x);
          x = (if l3_class = ESE_DZ_L3_CLASS_IP4 \<or> l3_class = ESE_DZ_L3_CLASS_IP4_FRAG
               then let x = (fst x OR EFX_PKT_IPV4, snd x);
                        x = (if qfield eqp ESF_DZ_RX_IPCKSUM_ERR \<noteq> 0 then ev_note True EV_RX_IPV4_HDR_CHKSUM_ERR (\<lambda>f. f) x
                             else (fst x OR EFX_CKSUM_IPV4, snd x))
                    in ef10_rx_l4 l4_class EV_RX_TCP_IPV4 EV_RX_UDP_IPV4 EV_RX_OTHER_IPV4 x
               else if l3_class = ESE_DZ_L3_CLASS_IP6 \<or> l3_class = ESE_DZ_L3_CLASS_IP6_FRAG
               then ef10_rx_l4 l4_class EV_RX_TCP_IPV6 EV_RX_UDP_IPV6 EV_RX_OTHER_IPV6 (fst x OR EFX_PKT_IPV6, snd x)
               else ev_note True EV_RX_NON_IP (\<lambda>f. f) x)
      in if fst x AND (EFX_PKT_TCP OR EFX_PKT_UDP) \<noteq> 0
         then if qfield eqp ESF_DZ_RX_TCPUDP_CKSUM_ERR \<noteq> 0 then ev_note True EV_RX_TCP_UDP_CHKSUM_ERR (\<lambda>f. f) x
              else (fst x OR EFX_CKSUM_TCPUDP, snd x)
         else x)"

definition ev_set_rxq_state :: "efx_evq_rxq_state list \<Rightarrow> ('c, 'd, 'h) ev_state \<Rightarrow> ('c, 'd, 'h) ev_state" where
  "ev_set_rxq_state states st = st\<lparr>es_evq := (es_evq st)\<lparr>ee_rxq_state := states\<rparr>\<rparr>"

definition ev_resetting :: "'c ev_nic \<Rightarrow> bool" where
  "ev_resetting enp = (en_reset_flags enp AND (EFX_RESET_RXQ_ERR OR EFX_RESET_TXQ_ERR) \<noteq> 0)"

text \<open>From the discarding errors to the label \<open>deliver\<close> and the count of good packets.\<close>

definition ef10_rx_flags :: "efx_qword \<Rightarrow> u16 \<times> ('c, 'd, 'h) ev_state \<Rightarrow> u16 \<times> ('c, 'd, 'h) ev_state" where
  "ef10_rx_flags eqp x =
     (let x = (if qfield eqp ESF_DZ_RX_ECC_ERR \<noteq> 0 then ev_note True EV_RX_FRM_TRUNC (\<lambda>f. f OR EFX_DISCARD) x
               else if qfield eqp ESF_DZ_RX_ECRC_ERR \<noteq> 0 then ev_note True EV_RX_ETH_CRC_ERR (\<lambda>f. f OR EFX_DISCARD) x
               else if qfield eqp ESF_DZ_RX_PARSE_INCOMPLETE \<noteq> 0 then x
               else ef10_rx_parse eqp x)
      in ev_note (NOT (fst x) AND EFX_DISCARD \<noteq> 0) EV_RX_OK (\<lambda>f. f) x)"

definition ef10_ev_rx :: "efx_qword \<Rightarrow> 'd efx_ev_callbacks \<Rightarrow> ('c, 'd, 'h) ev_state \<Rightarrow> ('c, 'd, 'h) ev_result" where
  "ef10_ev_rx eqp eecp st = do {
     let st = EFX_EV_QSTAT_INCR EV_RX st;
     if ev_resetting (es_nic st) then Some (False, st)
     else do {
       let bytes = qfield eqp ESF_DZ_RX_BYTES;
       let next_read_lbits = qfield eqp ESF_DZ_RX_DSC_PTR_LBITS;
       let label = qfield eqp ESF_DZ_RX_QLABEL;
       if qfield eqp ESF_DZ_RX_DROP_EVENT \<noteq> 0 then Some (False, st)
       else do {
         let flags = 0;
         let flags = (if qfield eqp ESF_DZ_RX_CONT \<noteq> 0 then flags OR EFX_PKT_CONT else flags);
         let flags = (if qfield eqp ESF_DZ_RX_MAC_CLASS = ESE_DZ_MAC_CLASS_UCAST then flags OR EFX_PKT_UNICAST else flags);
         eersp \<leftarrow> rd (ee_rxq_state (es_evq st)) (unat label);
         let desc_count = ef10_rx_desc_count next_read_lbits (eers_rx_read_ptr eersp);
         let eersp = eersp\<lparr>eers_rx_read_ptr := eers_rx_read_ptr eersp + desc_count\<rparr>;
         states \<leftarrow> wr (ee_rxq_state (es_evq st)) (unat label) eersp;
         let st = ev_set_rxq_state states st;
         let x = ev_note (1 < desc_count) EV_RX_BATCH (\<lambda>f. f OR EFX_PKT_PREFIX_LEN) (flags, st);
         let last_used_id = (eers_rx_read_ptr eersp - 1) AND eers_rx_mask eersp;
         let (flags, st) = ef10_rx_flags eqp x;
         f \<leftarrow> eec_rx eecp;
         ev_call (f label last_used_id bytes flags) st } } }"

definition ef10_ev_tx :: "efx_qword \<Rightarrow> 'd efx_ev_callbacks \<Rightarrow> ('c, 'd, 'h) ev_state \<Rightarrow> ('c, 'd, 'h) ev_result" where
  "ef10_ev_tx eqp eecp st =
     (let st = EFX_EV_QSTAT_INCR EV_TX st
      in if ev_resetting (es_nic st) then Some (False, st)
         else if qfield eqp ESF_DZ_TX_DROP_EVENT \<noteq> 0 then Some (False, st)
         else do { f \<leftarrow> eec_tx eecp; ev_call (f (qfield eqp ESF_DZ_TX_QLABEL) (qfield eqp ESF_DZ_TX_DESCR_INDX)) st })"

definition ef10_ev_driver :: "efx_qword \<Rightarrow> 'd efx_ev_callbacks \<Rightarrow> ('c, 'd, 'h) ev_state \<Rightarrow> ('c, 'd, 'h) ev_result" where
  "ef10_ev_driver eqp eecp st =
     (let st = EFX_EV_QSTAT_INCR EV_DRIVER st;
          code = qfield eqp ESF_DZ_DRV_SUB_CODE
      in if code = ESE_DZ_DRV_TIMER_EV then do { f \<leftarrow> eec_timer eecp; ev_call (f (qfield eqp ESF_DZ_DRV_TMR_ID)) st }
         else if code = ESE_DZ_DRV_WAKE_UP_EV then do { f \<leftarrow> eec_wake_up eecp; ev_call (f (qfield eqp ESF_DZ_DRV_EVQ_ID)) st }
         else if code = ESE_DZ_DRV_START_UP_EV then do { f \<leftarrow> eec_initialized eecp; ev_call f st }
         else Some (False, st))"

definition ef10_ev_drv_gen :: "efx_qword \<Rightarrow> 'd efx_ev_callbacks \<Rightarrow> ('c, 'd, 'h) ev_state \<Rightarrow> ('c, 'd, 'h) ev_result" where
  "ef10_ev_drv_gen eqp eecp st =
     (let st = EFX_EV_QSTAT_INCR EV_DRV_GEN st;
          data = qfield eqp ESF_DZ_DRV_SUB_DATA_DW0
      in if 2 ^ 16 \<le> data then Some (True, st)
         else do { f \<leftarrow> eec_software eecp; ev_call (f (ucast data)) st })"

definition ev_mcdi_queue_err :: "u32 \<Rightarrow> u32 \<Rightarrow> u32 \<Rightarrow> 'd efx_ev_callbacks \<Rightarrow> ('c, 'd, 'h) ev_state \<Rightarrow> ('c, 'd, 'h) ev_result" where
  "ev_mcdi_queue_err reset_flag code data eecp st = do {
     let st = st\<lparr>es_nic := (es_nic st)\<lparr>en_reset_flags := en_reset_flags (es_nic st) OR reset_flag\<rparr>\<rparr>;
     f \<leftarrow> eec_exception eecp;
     (_, st) \<leftarrow> ev_call (f code data) st;
     Some (False, st) }"

definition ev_mcdi_flush ::
    "u32 \<Rightarrow> efx_ev_qstat \<Rightarrow> u32 \<Rightarrow> (u32 \<Rightarrow> 'd ev_callback) option \<Rightarrow> ('c, 'd, 'h) ev_state \<Rightarrow> ('c, 'd, 'h) ev_result" where
  "ev_mcdi_flush to_driver stat index flush_done st =
     (if to_driver \<noteq> 0 then Some (False, st)
      else do { f \<leftarrow> flush_done; ev_call (f index) (EFX_EV_QSTAT_INCR stat st) })"

definition ef10_ev_mcdi :: "efx_qword \<Rightarrow> 'd efx_ev_callbacks \<Rightarrow> ('c, 'd, 'h) ev_state \<Rightarrow> ('c, 'd, 'h) ev_result" where
  "ef10_ev_mcdi eqp eecp st = do {
     let st = EFX_EV_QSTAT_INCR EV_MCDI_RESPONSE st;
     let code = qfield eqp MCDI_EVENT_CODE;
     if code = MCDI_EVENT_CODE_BADSSERT then ev_mcdi_death EINTR st
     else if code = MCDI_EVENT_CODE_CMDDONE then ev_mcdi_cmddone eqp st
     else if code = MCDI_EVENT_CODE_LINKCHANGE then ev_mcdi_linkchange ef10_phy_link_ev eqp eecp st
     else if code = MCDI_EVENT_CODE_SENSOREVT then ev_mcdi_sensorevt eqp eecp st
     else if code = MCDI_EVENT_CODE_SCHEDERR then Some (False, st)
     else if code = MCDI_EVENT_CODE_REBOOT then ev_mcdi_death EIO st
     else if code = MCDI_EVENT_CODE_MC_REBOOT then ev_mcdi_death EIO st
     else if code = MCDI_EVENT_CODE_MAC_STATS_DMA then ev_mcdi_mac_stats eqp eecp st
     else if code = MCDI_EVENT_CODE_FWALERT then ev_mcdi_fwalert eqp eecp st
     else if code = MCDI_EVENT_CODE_TX_ERR
     then ev_mcdi_queue_err EFX_RESET_TXQ_ERR EFX_EXCEPTION_TX_ERROR (qfield eqp MCDI_EVENT_TX_ERR_DATA) eecp st
     else if code = MCDI_EVENT_CODE_TX_FLUSH
     then ev_mcdi_flush (qfield eqp MCDI_EVENT_TX_FLUSH_TO_DRIVER) EV_DRIVER_TX_DESCQ_FLS_DONE
            (qfield eqp MCDI_EVENT_TX_FLUSH_TXQ) (eec_txq_flush_done eecp) st
     else if code = MCDI_EVENT_CODE_RX_ERR
     then ev_mcdi_queue_err EFX_RESET_RXQ_ERR EFX_EXCEPTION_RX_ERROR (qfield eqp MCDI_EVENT_RX_ERR_DATA) eecp st
     else if code = MCDI_EVENT_CODE_RX_FLUSH
     then ev_mcdi_flush (qfield eqp MCDI_EVENT_RX_FLUSH_TO_DRIVER) EV_DRIVER_RX_DESCQ_FLS_DONE
            (qfield eqp MCDI_EVENT_RX_FLUSH_RXQ) (eec_rxq_flush_done eecp) st
     else Some (False, st) }"

section \<open>Dispatch\<close>

text \<open>A handler that is called through a NULL pointer is undefined; \<open>ee_global\<close> is tested first.\<close>

definition ev_handler_of ::
    "(efx_qword \<Rightarrow> 'd efx_ev_callbacks \<Rightarrow> ('c, 'd, 'h) ev_state \<Rightarrow> ('c, 'd, 'h) ev_result)
     \<Rightarrow> (efx_qword \<Rightarrow> 'd efx_ev_callbacks \<Rightarrow> ('c, 'd, 'h) ev_state \<Rightarrow> ('c, 'd, 'h) ev_result)
     \<Rightarrow> efx_qword \<Rightarrow> 'd efx_ev_callbacks \<Rightarrow> ('c, 'd, 'h) ev_state \<Rightarrow> ('c, 'd, 'h) ev_result" where
  "ev_handler_of siena ef10 eqp eecp st =
     (case ee_handlers (es_evq st) of
        None \<Rightarrow> None
      | Some family \<Rightarrow> if family = EFX_FAMILY_SIENA then siena eqp eecp st else ef10 eqp eecp st)"

definition siena_ev_bad :: "u32 \<Rightarrow> 'd efx_ev_callbacks \<Rightarrow> ('c, 'd, 'h) ev_state \<Rightarrow> ('c, 'd, 'h) ev_result" where
  "siena_ev_bad code eecp st = do {
     f \<leftarrow> eec_exception eecp;
     (_, st) \<leftarrow> ev_call (f EFX_EXCEPTION_EV_ERROR code) st;
     Some (True, st) }"

definition ev_dispatch :: "efx_qword \<Rightarrow> 'd efx_ev_callbacks \<Rightarrow> ('c, 'd, 'h) ev_state \<Rightarrow> ('c, 'd, 'h) ev_result" where
  "ev_dispatch ev eecp st =
     (let st = EFX_EV_QSTAT_INCR EV_ALL st;
          code = qfield ev FSF_AZ_EV_CODE
      in if code = FSE_AZ_EV_CODE_RX_EV then ev_handler_of siena_ev_rx ef10_ev_rx ev eecp st
         else if code = FSE_AZ_EV_CODE_TX_EV then ev_handler_of siena_ev_tx ef10_ev_tx ev eecp st
         else if code = FSE_AZ_EV_CODE_DRIVER_EV then ev_handler_of siena_ev_driver ef10_ev_driver ev eecp st
         else if code = FSE_AZ_EV_CODE_DRV_GEN_EV then ev_handler_of siena_ev_drv_gen ef10_ev_drv_gen ev eecp st
         else if code = FSE_AZ_EV_CODE_MCDI_EVRESPONSE then ev_handler_of siena_ev_mcdi ef10_ev_mcdi ev eecp st
         else if code = FSE_AZ_EV_CODE_GLOBAL_EV \<and> ee_handlers (es_evq st) = Some EFX_FAMILY_SIENA then siena_ev_global st
         else siena_ev_bad code eecp st)"

end
