(* ===== verification/Efx_Ev_Queue.thy ===== *)
theory Efx_Ev_Queue
  imports Efx_Ev
begin

text \<open>
  Event queues: polling, and their life cycle (\<open>src/common/efx_ev.c\<close>, \<open>src/common/ef10_ev.c\<close>). Polling runs against a controller that writes
  events at any time: \<open>dma\<close> is what it does to the memory of the queue between two reads of the driver. An offset counts quadwords.
\<close>

section \<open>Polling\<close>

definition EFX_EV_BATCH :: nat where "EFX_EV_BATCH = 8"

definition EFX_EV_PRESENT :: "efx_qword \<Rightarrow> bool" where
  "EFX_EV_PRESENT ev = (qfield ev EFX_DWORD_0 \<noteq> 0xffffffff \<and> qfield ev EFX_DWORD_1 \<noteq> 0xffffffff)"

type_synonym 'h ev_dma = "efx_qword list \<Rightarrow> 'h \<Rightarrow> efx_qword list \<times> 'h"

definition ev_put :: "efx_qword list \<Rightarrow> 'h \<Rightarrow> ('c, 'd, 'h) ev_state \<Rightarrow> ('c, 'd, 'h) ev_state" where
  "ev_put mem hw st = st\<lparr>es_evq := (es_evq st)\<lparr>ee_esmp := mem\<rparr>, es_hw := hw\<rparr>"

definition ev_hw_step :: "'h ev_dma \<Rightarrow> ('c, 'd, 'h) ev_state \<Rightarrow> ('c, 'd, 'h) ev_state" where
  "ev_hw_step dma st = (case dma (ee_esmp (es_evq st)) (es_hw st) of (mem, hw) \<Rightarrow> ev_put mem hw st)"

text \<open>Reading up to \<open>batch\<close> events.\<close>

fun qpoll_read :: "'h ev_dma \<Rightarrow> nat \<Rightarrow> nat \<Rightarrow> ('c, 'd, 'h) ev_state \<Rightarrow> (efx_qword list \<times> ('c, 'd, 'h) ev_state) option" where
  "qpoll_read dma offset 0 st = Some ([], st)"
| "qpoll_read dma offset (Suc batch) st = do {
     let st = ev_hw_step dma st;
     ev \<leftarrow> rd (ee_esmp (es_evq st)) offset;
     if \<not> EFX_EV_PRESENT ev then Some ([], st)
     else do { (evs, st) \<leftarrow> qpoll_read dma (offset + 1) batch st; Some (ev # evs, st) } }"

text \<open>Processing them; the result is their number up to the one that asked to stop.\<close>

fun qpoll_handle :: "'d efx_ev_callbacks \<Rightarrow> efx_qword list \<Rightarrow> ('c, 'd, 'h) ev_state \<Rightarrow> (nat \<times> ('c, 'd, 'h) ev_state) option" where
  "qpoll_handle eecp [] st = Some (0, st)"
| "qpoll_handle eecp (ev # evs) st = do {
     (should_abort, st) \<leftarrow> ev_dispatch ev eecp st;
     if should_abort then Some (1, st)
     else do { (total, st) \<leftarrow> qpoll_handle eecp evs st; Some (Suc total, st) } }"

partial_function (option) siena_ev_qpoll ::
    "'h ev_dma \<Rightarrow> 'd efx_ev_callbacks \<Rightarrow> u32 \<Rightarrow> ('c, 'd, 'h) ev_state \<Rightarrow> (u32 \<times> ('c, 'd, 'h) ev_state) option" where
  "siena_ev_qpoll dma eecp count st = do {
     let batch = EFX_EV_BATCH - unat (count AND of_nat (EFX_EV_BATCH - 1));
     (evs, st) \<leftarrow> qpoll_read dma (unat (count AND ee_mask (es_evq st))) batch st;
     (total, st) \<leftarrow> qpoll_handle eecp evs st;
     mem \<leftarrow> wr_range (ee_esmp (es_evq st)) (unat (count AND ee_mask (es_evq st))) (replicate total EFX_SET_QWORD);
     let st = ev_put mem (es_hw st) st;
     let count = count + of_nat total;
     if total = batch then siena_ev_qpoll dma eecp count st else Some (count, st) }"

definition efx_ev_qpoll ::
    "'h ev_dma \<Rightarrow> 'd efx_ev_callbacks \<Rightarrow> u32 \<Rightarrow> ('c, 'd, 'h) ev_state \<Rightarrow> (u32 \<times> ('c, 'd, 'h) ev_state) option" where
  "efx_ev_qpoll dma eecp count st = siena_ev_qpoll dma eecp count st"

definition efx_ev_qpending :: "efx_evq \<Rightarrow> u32 \<Rightarrow> bool option" where
  "efx_ev_qpending eep count = do {
     qword \<leftarrow> rd (ee_esmp eep) (unat (count AND ee_mask eep));
     Some (EFX_EV_PRESENT qword) }"

section \<open>Operations of the families\<close>

definition siena_ev_init :: "'c ev_nic \<Rightarrow> efx_rc \<times> 'c ev_nic" where
  "siena_ev_init enp =
     (let oword = EFX_BAR_READO FR_AZ_DP_CTRL_REG_OFST (en_bar enp);
          oword = efx_set_oword_field oword (fst FRF_AZ_FLS_EVQ_ID) (snd FRF_AZ_FLS_EVQ_ID) 0
      in (RC_OK, enp\<lparr>en_bar := EFX_BAR_WRITEO FR_AZ_DP_CTRL_REG_OFST oword (en_bar enp)\<rparr>))"

definition siena_ev_fini :: "'c ev_nic \<Rightarrow> 'c ev_nic" where "siena_ev_fini enp = enp"

definition ef10_ev_init :: "'c ev_nic \<Rightarrow> efx_rc \<times> 'c ev_nic" where "ef10_ev_init enp = (RC_OK, enp)"

definition ef10_ev_fini :: "'c ev_nic \<Rightarrow> 'c ev_nic" where "ef10_ev_fini enp = enp"

text \<open>\<open>ISP2\<close> on a \<open>size_t\<close>.\<close>

definition isp2 :: "nat \<Rightarrow> bool" where
  "isp2 n = ((of_nat n :: u64) AND (of_nat n - 1) = 0)"

definition evq_size_ok :: "nat \<Rightarrow> bool" where
  "evq_size_ok n = (isp2 n \<and> EFX_EVQ_MINNEVS \<le> n \<and> n \<le> EFX_EVQ_MAXNEVS)"

definition siena_evq_size :: "nat \<Rightarrow> nat" where
  "siena_evq_size n =
     (case find (\<lambda>s. 2 ^ s = n div EFX_EVQ_MINNEVS) [0..<7] of Some s \<Rightarrow> s | None \<Rightarrow> 7)"

definition siena_ev_qcreate :: "'c ev_nic \<Rightarrow> nat \<Rightarrow> nat \<Rightarrow> u32 \<Rightarrow> efx_evq \<Rightarrow> efx_rc \<times> 'c ev_nic \<times> efx_evq" where
  "siena_ev_qcreate enp index n buftbl_id eep =
     (if \<not> evq_size_ok n then (EINVAL, enp, eep)
      else if enc_evq_limit enp \<le> index then (EINVAL, enp, eep)
      else if en_ei_type enp = EFX_INTR_LINE \<and> EFX_MAXRSS_LEGACY \<le> index then (EINVAL, enp, eep)
      else
        let bits = siena_evq_size n
        in if enc_buftbl_limit enp \<le> buftbl_id + 2 ^ bits then (EINVAL, enp, eep)
           else
             let eep = eep\<lparr>ee_handlers := Some EFX_FAMILY_SIENA\<rparr>;
                 bar = EFX_BAR_TBL_WRITEO FR_AZ_TIMER_TBL_OFST FR_AZ_TIMER_TBL_STEP index
                         (efx_populate_oword [fset FRF_CZ_TIMER_Q_EN 1]) (en_bar enp);
                 bar = EFX_BAR_TBL_WRITEO FR_AZ_EVQ_PTR_TBL_OFST FR_AZ_EVQ_PTR_TBL_STEP index
                         (efx_populate_oword [fset FRF_AZ_EVQ_EN 1, fset FRF_AZ_EVQ_SIZE (of_nat bits), fset FRF_AZ_EVQ_BUF_BASE_ID buftbl_id]) bar
             in (RC_OK, enp\<lparr>en_bar := bar\<rparr>, eep))"

definition siena_ev_qdestroy :: "efx_evq \<Rightarrow> 'c ev_nic \<Rightarrow> 'c ev_nic" where
  "siena_ev_qdestroy eep enp =
     (let bar = EFX_BAR_TBL_WRITEO FR_AZ_EVQ_PTR_TBL_OFST FR_AZ_EVQ_PTR_TBL_STEP (ee_index eep) EFX_ZERO_OWORD (en_bar enp);
          bar = EFX_BAR_TBL_WRITEO FR_AZ_TIMER_TBL_OFST FR_AZ_TIMER_TBL_STEP (ee_index eep) EFX_ZERO_OWORD bar
      in enp\<lparr>en_bar := bar\<rparr>)"

definition siena_ev_qprime :: "efx_evq \<Rightarrow> u32 \<Rightarrow> 'c ev_nic \<Rightarrow> efx_rc \<times> 'c ev_nic" where
  "siena_ev_qprime eep count enp =
     (let rptr = count AND ee_mask eep;
          dword = efx_populate_dword [fset FRF_AZ_EVQ_RPTR rptr]
      in (RC_OK, enp\<lparr>en_bar := EFX_BAR_TBL_WRITED FR_AZ_EVQ_RPTR_REG_OFST FR_AZ_EVQ_RPTR_REG_STEP (ee_index eep) dword (en_bar enp)\<rparr>))"

definition siena_qpost_event :: "u16 \<Rightarrow> efx_qword" where
  "siena_qpost_event data = efx_populate_qword [fset FSF_AZ_EV_CODE FSE_AZ_EV_CODE_DRV_GEN_EV, fset FSF_AZ_EV_DATA_DW0 (ucast data)]"

definition siena_ev_qpost :: "efx_evq \<Rightarrow> u16 \<Rightarrow> 'c ev_nic \<Rightarrow> 'c ev_nic" where
  "siena_ev_qpost eep data enp =
     (let ev = siena_qpost_event data;
          oword = efx_populate_oword [fset FRF_AZ_DRV_EV_QID (of_nat (ee_index eep)),
                    fset EFX_DWORD_0 (qfield ev EFX_DWORD_0), fset EFX_DWORD_1 (qfield ev EFX_DWORD_1)]
      in enp\<lparr>en_bar := EFX_BAR_WRITEO FR_AZ_DRV_EV_REG_OFST oword (en_bar enp)\<rparr>)"

text \<open>The timer value in quanta; the product is a 32-bit one, and a division by zero is undefined.\<close>

definition ev_timer_val :: "'c ev_nic \<Rightarrow> u32 \<Rightarrow> u32 option" where
  "ev_timer_val enp us =
     (if enc_evq_timer_quantum_ns enp = 0 then None
      else let timer_val = us * 1000 div enc_evq_timer_quantum_ns enp
           in Some (if 0 < timer_val then timer_val - 1 else timer_val))"

definition siena_ev_qmoderate :: "efx_evq \<Rightarrow> u32 \<Rightarrow> 'c ev_nic \<Rightarrow> (efx_rc \<times> 'c ev_nic) option" where
  "siena_ev_qmoderate eep us enp =
     (if enc_evq_timer_max_us enp < us then Some (EINVAL, enp)
      else do {
        dword \<leftarrow> (if us = 0 then Some (efx_populate_dword [fset FRF_CZ_TC_TIMER_MODE FFE_CZ_TIMER_MODE_DIS, fset FRF_CZ_TC_TIMER_VAL 0])
                  else do {
                    timer_val \<leftarrow> ev_timer_val enp us;
                    Some (efx_populate_dword [fset FRF_CZ_TC_TIMER_MODE FFE_CZ_TIMER_MODE_INT_HLDOFF, fset FRF_CZ_TC_TIMER_VAL timer_val]) });
        Some (RC_OK, enp\<lparr>en_bar := EFX_BAR_TBL_WRITED FR_BZ_TIMER_COMMAND_REGP0_OFST FR_BZ_TIMER_COMMAND_REGP0_STEP (ee_index eep) dword (en_bar enp)\<rparr>) })"

definition siena_ev_qstats_update :: "efx_evq \<Rightarrow> (efx_ev_qstat \<Rightarrow> u64) \<Rightarrow> efx_evq \<times> (efx_ev_qstat \<Rightarrow> u64)" where
  "siena_ev_qstats_update eep stat = (eep\<lparr>ee_stat := (\<lambda>_. 0)\<rparr>, (\<lambda>s. stat s + ucast (ee_stat eep s)))"

section \<open>Requests of EF10\<close>

definition MC_CMD_INIT_EVQ_IN_LEN :: "nat \<Rightarrow> nat" where "MC_CMD_INIT_EVQ_IN_LEN num = 36 + 8 * num"
definition MC_CMD_INIT_EVQ_IN_LENMAX :: nat where "MC_CMD_INIT_EVQ_IN_LENMAX = 548"
definition MC_CMD_INIT_EVQ_OUT_LEN :: nat where "MC_CMD_INIT_EVQ_OUT_LEN = 4"

text \<open>The flags: interrupting, cut through, and merging of receive and transmit events.\<close>

definition init_evq_flags :: "bool \<Rightarrow> u32" where
  "init_evq_flags rx_batching = efx_populate_dword
     [(0, 1, 1), (1, 1, 0), (2, 1, 0), (3, 1, if rx_batching then 0 else 1), (4, 1, 1), (5, 1, 1)]"

fun init_evq_pages :: "nat \<Rightarrow> nat \<Rightarrow> u64 \<Rightarrow> u8 list \<Rightarrow> u8 list option" where
  "init_evq_pages ofst 0 addr payload = Some payload"
| "init_evq_pages ofst (Suc npages) addr payload = do {
     payload \<leftarrow> mcdi_in_set_dword ofst (ucast (addr AND 0xffffffff)) payload;
     payload \<leftarrow> mcdi_in_set_dword (ofst + 4) (ucast (drop_bit 32 addr)) payload;
     init_evq_pages (ofst + 8) npages (addr + of_nat EFX_BUF_SIZE) payload }"

definition efx_mcdi_init_evq ::
    "'c mcdi_nic mc_env \<Rightarrow> nat \<Rightarrow> u64 \<Rightarrow> nat \<Rightarrow> u32 \<Rightarrow> 'c ev_nic \<Rightarrow> (efx_rc \<times> 'c ev_nic) option" where
  "efx_mcdi_init_evq env instance_id addr nevs irq enp = do {
     let npages = EFX_EVQ_NBUFS nevs;
     if MC_CMD_INIT_EVQ_IN_LENMAX < MC_CMD_INIT_EVQ_IN_LEN npages then Some (EINVAL, enp)
     else do {
       let payload = replicate (max (MC_CMD_INIT_EVQ_IN_LEN (EFX_EVQ_NBUFS EFX_EVQ_MAXNEVS)) MC_CMD_INIT_EVQ_OUT_LEN) 0;
       payload \<leftarrow> mcdi_in_set_dword 0 (of_nat nevs) payload;
       payload \<leftarrow> mcdi_in_set_dword 4 (of_nat instance_id) payload;
       payload \<leftarrow> mcdi_in_set_dword 24 irq payload;
       payload \<leftarrow> mcdi_in_set_dword 16 (init_evq_flags (enc_rx_batching_enabled enp)) payload;
       payload \<leftarrow> mcdi_in_set_dword 20 0 payload;
       payload \<leftarrow> mcdi_in_set_dword 8 0 payload;
       payload \<leftarrow> mcdi_in_set_dword 12 0 payload;
       payload \<leftarrow> mcdi_in_set_dword 28 0 payload;
       payload \<leftarrow> mcdi_in_set_dword 32 0 payload;
       payload \<leftarrow> init_evq_pages 36 npages addr payload;
       (req, m) \<leftarrow> efx_mcdi_execute env (ev_mod_flags enp) (ev_features enp)
         (mcdi_req MC_CMD_INIT_EVQ payload (MC_CMD_INIT_EVQ_IN_LEN npages) payload MC_CMD_INIT_EVQ_OUT_LEN) (en_mcdi enp);
       let enp = enp\<lparr>en_mcdi := m\<rparr>;
       if emr_rc req \<noteq> RC_OK then Some (emr_rc req, enp)
       else if emr_out_length_used req < MC_CMD_INIT_EVQ_OUT_LEN then Some (EMSGSIZE, enp)
       else Some (RC_OK, enp) } }"

definition efx_mcdi_fini_evq :: "'c mcdi_nic mc_env \<Rightarrow> nat \<Rightarrow> 'c ev_nic \<Rightarrow> (efx_rc \<times> 'c ev_nic) option" where
  "efx_mcdi_fini_evq env instance_id enp = do {
     payload \<leftarrow> mcdi_in_set_dword 0 (of_nat instance_id) (replicate 4 0);
     (req, m) \<leftarrow> efx_mcdi_execute env (ev_mod_flags enp) (ev_features enp) (mcdi_req MC_CMD_FINI_EVQ payload 4 payload 0) (en_mcdi enp);
     Some (emr_rc req, enp\<lparr>en_mcdi := m\<rparr>) }"

definition efx_mcdi_driver_event :: "'c mcdi_nic mc_env \<Rightarrow> nat \<Rightarrow> efx_qword \<Rightarrow> 'c ev_nic \<Rightarrow> (efx_rc \<times> 'c ev_nic) option" where
  "efx_mcdi_driver_event env evq data enp = do {
     payload \<leftarrow> mcdi_in_set_dword 0 (of_nat evq) (replicate 12 0);
     payload \<leftarrow> mcdi_in_set_dword 4 (qfield data EFX_DWORD_0) payload;
     payload \<leftarrow> mcdi_in_set_dword 8 (qfield data EFX_DWORD_1) payload;
     (req, m) \<leftarrow> efx_mcdi_execute env (ev_mod_flags enp) (ev_features enp) (mcdi_req MC_CMD_DRIVER_EVENT payload 12 payload 0) (en_mcdi enp);
     Some (emr_rc req, enp\<lparr>en_mcdi := m\<rparr>) }"

definition ef10_ev_qcreate ::
    "'c mcdi_nic mc_env \<Rightarrow> 'c ev_nic \<Rightarrow> nat \<Rightarrow> u64 \<Rightarrow> nat \<Rightarrow> efx_evq \<Rightarrow> (efx_rc \<times> 'c ev_nic \<times> efx_evq) option" where
  "ef10_ev_qcreate env enp index addr n eep =
     (if \<not> evq_size_ok n then Some (EINVAL, enp, eep)
      else if enc_evq_limit enp \<le> index then Some (EINVAL, enp, eep)
      else do {
        let eep = eep\<lparr>ee_handlers := Some EFX_FAMILY_HUNTINGTON\<rparr>;
        (rc, enp) \<leftarrow> efx_mcdi_init_evq env index addr n (of_nat index) enp;
        Some (rc, enp, eep) })"

definition ef10_ev_qdestroy :: "'c mcdi_nic mc_env \<Rightarrow> efx_evq \<Rightarrow> 'c ev_nic \<Rightarrow> 'c ev_nic option" where
  "ef10_ev_qdestroy env eep enp = do {
     efsys_assert (ev_family enp = EFX_FAMILY_HUNTINGTON \<or> ev_family enp = EFX_FAMILY_MEDFORD);
     (_, enp) \<leftarrow> efx_mcdi_fini_evq env (ee_index eep) enp;
     Some enp }"

definition ef10_ev_qprime :: "efx_evq \<Rightarrow> u32 \<Rightarrow> 'c ev_nic \<Rightarrow> efx_rc \<times> 'c ev_nic" where
  "ef10_ev_qprime eep count enp =
     (let rptr = count AND ee_mask eep;
          width = snd ERF_DD_EVQ_IND_RPTR;
          bar = (if enc_bug35388_workaround enp then
                   let high = efx_populate_dword [fset ERF_DD_EVQ_IND_RPTR_FLAGS EFE_DD_EVQ_IND_RPTR_FLAGS_HIGH,
                                fset ERF_DD_EVQ_IND_RPTR (drop_bit width rptr)];
                       low = efx_populate_dword [fset ERF_DD_EVQ_IND_RPTR_FLAGS EFE_DD_EVQ_IND_RPTR_FLAGS_LOW,
                                fset ERF_DD_EVQ_IND_RPTR (rptr AND (push_bit width 1 - 1))]
                   in EFX_BAR_TBL_WRITED ER_DD_EVQ_INDIRECT_OFST ER_DD_EVQ_INDIRECT_STEP (ee_index eep) low
                        (EFX_BAR_TBL_WRITED ER_DD_EVQ_INDIRECT_OFST ER_DD_EVQ_INDIRECT_STEP (ee_index eep) high (en_bar enp))
                 else EFX_BAR_TBL_WRITED ER_DZ_EVQ_RPTR_REG_OFST ER_DZ_EVQ_RPTR_REG_STEP (ee_index eep)
                        (efx_populate_dword [fset ERF_DZ_EVQ_RPTR rptr]) (en_bar enp))
      in (RC_OK, enp\<lparr>en_bar := bar\<rparr>))"

definition ef10_qpost_event :: "u16 \<Rightarrow> efx_qword" where
  "ef10_qpost_event data = efx_populate_qword
     [fset ESF_DZ_DRV_CODE FSE_AZ_EV_CODE_DRV_GEN_EV, fset ESF_DZ_DRV_SUB_CODE 0, fset ESF_DZ_DRV_SUB_DATA_DW0 (ucast data)]"

definition ef10_ev_qpost :: "'c mcdi_nic mc_env \<Rightarrow> efx_evq \<Rightarrow> u16 \<Rightarrow> 'c ev_nic \<Rightarrow> 'c ev_nic option" where
  "ef10_ev_qpost env eep data enp = do {
     (_, enp) \<leftarrow> efx_mcdi_driver_event env (ee_index eep) (ef10_qpost_event data) enp;
     Some enp }"

definition ef10_ev_qmoderate :: "efx_evq \<Rightarrow> u32 \<Rightarrow> 'c ev_nic \<Rightarrow> (efx_rc \<times> 'c ev_nic) option" where
  "ef10_ev_qmoderate eep us enp =
     (if enc_evq_timer_max_us enp < us then Some (EINVAL, enp)
      else do {
        (timer_val, mode) \<leftarrow> (if us = 0 then Some (0, FFE_CZ_TIMER_MODE_DIS)
          else do { timer_val \<leftarrow> ev_timer_val enp us; Some (timer_val, FFE_CZ_TIMER_MODE_INT_HLDOFF) });
        let bar = (if enc_bug35388_workaround enp then
            EFX_BAR_TBL_WRITED ER_DD_EVQ_INDIRECT_OFST ER_DD_EVQ_INDIRECT_STEP (ee_index eep)
              (efx_populate_dword [fset ERF_DD_EVQ_IND_TIMER_FLAGS EFE_DD_EVQ_IND_TIMER_FLAGS,
                 fset ERF_DD_EVQ_IND_TIMER_MODE mode, fset ERF_DD_EVQ_IND_TIMER_VAL timer_val]) (en_bar enp)
          else EFX_BAR_TBL_WRITED ER_DZ_EVQ_TMR_REG_OFST ER_DZ_EVQ_TMR_REG_STEP (ee_index eep)
              (efx_populate_dword [fset ERF_DZ_TC_TIMER_MODE mode, fset ERF_DZ_TC_TIMER_VAL timer_val]) (en_bar enp));
        Some (RC_OK, enp\<lparr>en_bar := bar\<rparr>) })"

definition ef10_ev_qstats_update :: "efx_evq \<Rightarrow> (efx_ev_qstat \<Rightarrow> u64) \<Rightarrow> efx_evq \<times> (efx_ev_qstat \<Rightarrow> u64)" where
  "ef10_ev_qstats_update eep stat = (eep\<lparr>ee_stat := (\<lambda>_. 0)\<rparr>, (\<lambda>s. stat s + ucast (ee_stat eep s)))"

text \<open>\<open>erp->er_mask\<close> is the argument of \<open>ef10_ev_rxlabel_init\<close>.\<close>

definition ef10_ev_rxlabel_init :: "u32 \<Rightarrow> nat \<Rightarrow> efx_evq \<Rightarrow> efx_evq option" where
  "ef10_ev_rxlabel_init er_mask label eep = do {
     efsys_assert (label < length (ee_rxq_state eep));
     eersp \<leftarrow> rd (ee_rxq_state eep) label;
     efsys_assert (eers_rx_mask eersp = 0);
     states \<leftarrow> wr (ee_rxq_state eep) label \<lparr>eers_rx_read_ptr = 0, eers_rx_mask = er_mask\<rparr>;
     Some (eep\<lparr>ee_rxq_state := states\<rparr>) }"

definition ef10_ev_rxlabel_fini :: "nat \<Rightarrow> efx_evq \<Rightarrow> efx_evq option" where
  "ef10_ev_rxlabel_fini label eep = do {
     efsys_assert (label < length (ee_rxq_state eep));
     eersp \<leftarrow> rd (ee_rxq_state eep) label;
     efsys_assert (eers_rx_mask eersp \<noteq> 0);
     states \<leftarrow> wr (ee_rxq_state eep) label \<lparr>eers_rx_read_ptr = 0, eers_rx_mask = 0\<rparr>;
     Some (eep\<lparr>ee_rxq_state := states\<rparr>) }"

section \<open>The interface\<close>

text \<open>
  The table \<open>en_eevop\<close> of a family, NULL is \<open>None\<close>. Medford is not part of this build. A failing \<open>efx_ev_init\<close> clears the table and
  the flag of the module, also when the module had been initialised before.
\<close>

definition ev_init_failed :: "efx_rc \<Rightarrow> 'c ev_nic \<Rightarrow> (efx_rc \<times> 'c ev_nic) option" where
  "ev_init_failed rc enp = Some (rc, ev_set_mod_flags (ev_mod_flags enp AND NOT EFX_MOD_EV) (enp\<lparr>en_eevop := None\<rparr>))"

definition efx_ev_init :: "'c ev_nic \<Rightarrow> (efx_rc \<times> 'c ev_nic) option" where
  "efx_ev_init enp = do {
     efsys_assert (ev_mod_flags enp AND EFX_MOD_INTR \<noteq> 0);
     if ev_mod_flags enp AND EFX_MOD_EV \<noteq> 0 then ev_init_failed EINVAL enp
     else do {
       eevop \<leftarrow> (case ev_family enp of EFX_FAMILY_SIENA \<Rightarrow> Some EFX_FAMILY_SIENA | EFX_FAMILY_HUNTINGTON \<Rightarrow> Some EFX_FAMILY_HUNTINGTON | _ \<Rightarrow> None);
       efsys_assert (en_ev_qcount enp = 0);
       let (rc, enp) = (if eevop = EFX_FAMILY_SIENA then siena_ev_init enp else ef10_ev_init enp);
       if rc \<noteq> RC_OK then ev_init_failed rc enp
       else Some (RC_OK, ev_set_mod_flags (ev_mod_flags enp OR EFX_MOD_EV) (enp\<lparr>en_eevop := Some eevop\<rparr>)) } }"

definition efx_ev_fini :: "'c ev_nic \<Rightarrow> 'c ev_nic option" where
  "efx_ev_fini enp = do {
     efsys_assert (ev_mod_flags enp AND EFX_MOD_INTR \<noteq> 0);
     efsys_assert (ev_mod_flags enp AND EFX_MOD_EV \<noteq> 0);
     efsys_assert (ev_mod_flags enp AND EFX_MOD_RX = 0);
     efsys_assert (ev_mod_flags enp AND EFX_MOD_TX = 0);
     efsys_assert (en_ev_qcount enp = 0);
     eevop \<leftarrow> en_eevop enp;
     let enp = (if eevop = EFX_FAMILY_SIENA then siena_ev_fini enp else ef10_ev_fini enp);
     Some (ev_set_mod_flags (ev_mod_flags enp AND NOT EFX_MOD_EV) (enp\<lparr>en_eevop := None\<rparr>)) }"

definition evq_new :: "nat \<Rightarrow> nat \<Rightarrow> efx_qword list \<Rightarrow> efx_evq" where
  "evq_new index n esmp = \<lparr>ee_index = index, ee_mask = of_nat n - 1, ee_esmp = esmp, ee_stat = (\<lambda>_. 0), ee_handlers = None,
     ee_rxq_state = replicate EFX_EV_RX_NLABELS \<lparr>eers_rx_read_ptr = 0, eers_rx_mask = 0\<rparr>\<rparr>"

text \<open>\<open>esmp\<close> is the memory with its bus address \<open>addr\<close>; the queue is returned if the call succeeds.\<close>

definition efx_ev_qcreate ::
    "'c mcdi_nic mc_env \<Rightarrow> 'c ev_nic \<Rightarrow> nat \<Rightarrow> efx_qword list \<Rightarrow> u64 \<Rightarrow> nat \<Rightarrow> u32 \<Rightarrow> (efx_rc \<times> 'c ev_nic \<times> efx_evq option) option" where
  "efx_ev_qcreate env enp index esmp addr n buftbl_id = do {
     efsys_assert (ev_mod_flags enp AND EFX_MOD_EV \<noteq> 0);
     efsys_assert (en_ev_qcount enp + 1 < enc_evq_limit enp);
     let (ok, m) = env_alloc env (en_mcdi enp);
     let enp = enp\<lparr>en_mcdi := m\<rparr>;
     if \<not> ok then Some (ENOMEM, enp, None)
     else do {
       eevop \<leftarrow> en_eevop enp;
       (rc, enp, eep) \<leftarrow> (if eevop = EFX_FAMILY_SIENA then Some (siena_ev_qcreate enp index n buftbl_id (evq_new index n esmp))
                          else ef10_ev_qcreate env enp index addr n (evq_new index n esmp));
       if rc \<noteq> RC_OK then Some (rc, enp, None)
       else Some (RC_OK, enp\<lparr>en_ev_qcount := en_ev_qcount enp + 1\<rparr>, Some eep) } }"

definition efx_ev_qdestroy :: "'c mcdi_nic mc_env \<Rightarrow> efx_evq \<Rightarrow> 'c ev_nic \<Rightarrow> 'c ev_nic option" where
  "efx_ev_qdestroy env eep enp = do {
     efsys_assert (en_ev_qcount enp \<noteq> 0);
     let enp = enp\<lparr>en_ev_qcount := en_ev_qcount enp - 1\<rparr>;
     eevop \<leftarrow> en_eevop enp;
     if eevop = EFX_FAMILY_SIENA then Some (siena_ev_qdestroy eep enp) else ef10_ev_qdestroy env eep enp }"

definition efx_ev_qprime :: "efx_evq \<Rightarrow> u32 \<Rightarrow> 'c ev_nic \<Rightarrow> (efx_rc \<times> 'c ev_nic) option" where
  "efx_ev_qprime eep count enp =
     (if ev_mod_flags enp AND EFX_MOD_INTR = 0 then Some (EINVAL, enp)
      else do {
        eevop \<leftarrow> en_eevop enp;
        Some (if eevop = EFX_FAMILY_SIENA then siena_ev_qprime eep count enp else ef10_ev_qprime eep count enp) })"

definition efx_ev_qpost :: "'c mcdi_nic mc_env \<Rightarrow> efx_evq \<Rightarrow> u16 \<Rightarrow> 'c ev_nic \<Rightarrow> 'c ev_nic option" where
  "efx_ev_qpost env eep data enp = do {
     eevop \<leftarrow> en_eevop enp;
     if eevop = EFX_FAMILY_SIENA then Some (siena_ev_qpost eep data enp) else ef10_ev_qpost env eep data enp }"

definition efx_ev_qmoderate :: "efx_evq \<Rightarrow> u32 \<Rightarrow> 'c ev_nic \<Rightarrow> (efx_rc \<times> 'c ev_nic) option" where
  "efx_ev_qmoderate eep us enp = do {
     eevop \<leftarrow> en_eevop enp;
     if eevop = EFX_FAMILY_SIENA then siena_ev_qmoderate eep us enp else ef10_ev_qmoderate eep us enp }"

definition efx_ev_qstats_update :: "'c ev_nic \<Rightarrow> efx_evq \<Rightarrow> (efx_ev_qstat \<Rightarrow> u64) \<Rightarrow> (efx_evq \<times> (efx_ev_qstat \<Rightarrow> u64)) option" where
  "efx_ev_qstats_update enp eep stat = do {
     eevop \<leftarrow> en_eevop enp;
     Some (if eevop = EFX_FAMILY_SIENA then siena_ev_qstats_update eep stat else ef10_ev_qstats_update eep stat) }"

end
