(* ===== verification/Efx_Ev_Spec.thy ===== *)
theory Efx_Ev_Spec
  imports Efx_Ev_Queue
begin

text \<open>
  Polling as a queue: handlers leave the memory of the queue alone, so the events of a poll are handled one by one, in the order in
  which the controller wrote them.
\<close>

section \<open>Handlers leave the memory alone\<close>

text \<open>The memory, the mask and the state of the controller are replaced.\<close>

definition ev_fput :: "efx_qword list \<times> u32 \<times> 'h \<Rightarrow> ('c, 'd, 'h) ev_state \<Rightarrow> ('c, 'd, 'h) ev_state" where
  "ev_fput q st = st\<lparr>es_evq := (es_evq st)\<lparr>ee_esmp := fst q, ee_mask := fst (snd q)\<rparr>, es_hw := snd (snd q)\<rparr>"

lemma ev_fput_simps [simp]:
  "es_nic (ev_fput q st) = es_nic st" "es_arg (ev_fput q st) = es_arg st"
  "ee_rxq_state (es_evq (ev_fput q st)) = ee_rxq_state (es_evq st)" "ee_handlers (es_evq (ev_fput q st)) = ee_handlers (es_evq st)"
  by (simp_all add: ev_fput_def)

definition framed :: "(('c, 'd, 'h) ev_state \<Rightarrow> ('c, 'd, 'h) ev_result) \<Rightarrow> bool" where
  "framed h = (\<forall>q st. h (ev_fput q st) = map_option (apsnd (ev_fput q)) (h st))"

lemma framed_call: "ev_call f (ev_fput q st) = map_option (apsnd (ev_fput q)) (ev_call f st)"
  by (simp add: ev_call_def ev_fput_def map_option_bind comp_def case_prod_beta option.map_comp split: bind_splits)

lemma ev_fput_incr: "EFX_EV_QSTAT_INCR s (ev_fput q st) = ev_fput q (EFX_EV_QSTAT_INCR s st)"
  by (simp add: EFX_EV_QSTAT_INCR_def ev_fput_def)

lemma incr_simps [simp]:
  "es_nic (EFX_EV_QSTAT_INCR s st) = es_nic st" "es_arg (EFX_EV_QSTAT_INCR s st) = es_arg st" "es_hw (EFX_EV_QSTAT_INCR s st) = es_hw st"
  "ee_rxq_state (es_evq (EFX_EV_QSTAT_INCR s st)) = ee_rxq_state (es_evq st)"
  "ee_handlers (es_evq (EFX_EV_QSTAT_INCR s st)) = ee_handlers (es_evq st)"
  by (simp_all add: EFX_EV_QSTAT_INCR_def)

lemma ev_fput_note: "ev_note c s f (fl, ev_fput q st) = apsnd (ev_fput q) (ev_note c s f (fl, st))"
  by (simp add: ev_note_def ev_fput_incr)

lemma ev_fput_note': "ev_note c s f (apsnd (ev_fput q) x) = apsnd (ev_fput q) (ev_note c s f x)"
  by (simp add: ev_note_def ev_fput_incr)

lemma ev_fput_set:
  "ev_set_rxq_state r (ev_fput q st) = ev_fput q (ev_set_rxq_state r st)"
  "es_nic_update g (ev_fput q st) = ev_fput q (es_nic_update g st)"
  by (simp_all add: ev_set_rxq_state_def ev_fput_def)

lemmas ev_frame = ev_fput_incr ev_fput_note ev_fput_note' ev_fput_set framed_call option.map_comp Let_def

lemma ev_fput_rx_headers: "siena_rx_headers eqp (ev_fput q st) = apsnd (apsnd (ev_fput q)) (siena_rx_headers eqp st)"
  by (simp add: siena_rx_headers_def siena_ev_rx_not_ok_def ev_frame case_prod_beta)

lemma ev_fput_rx_address: "siena_rx_address eqp (apsnd (ev_fput q) x) = apsnd (ev_fput q) (siena_rx_address eqp x)"
  by (simp add: siena_rx_address_def ev_frame apsnd_def map_prod_def case_prod_beta)

lemma framed_siena_rx: "framed (siena_ev_rx eqp eecp)"
  unfolding framed_def
  by (simp add: siena_ev_rx_def ev_frame ev_fput_rx_headers ev_fput_rx_address case_prod_beta map_option_bind comp_def cong: bind_option_cong)

lemma ev_fput_rx_flags: "ef10_rx_flags eqp (apsnd (ev_fput q) x) = apsnd (ev_fput q) (ef10_rx_flags eqp x)"
  by (simp add: ef10_rx_flags_def ef10_rx_parse_def ef10_rx_l4_def ev_frame case_prod_beta)

lemma framed_ef10_rx: "framed (ef10_ev_rx eqp eecp)"
  unfolding framed_def
  by (simp add: ef10_ev_rx_def ev_frame ev_fput_rx_flags case_prod_beta map_option_bind comp_def cong: bind_option_cong)

lemma framed_if: "(\<And>q st. c (ev_fput q st) = c st) \<Longrightarrow> framed a \<Longrightarrow> framed b \<Longrightarrow> framed (\<lambda>st. if c st then a st else b st)"
  by (simp add: framed_def)

lemma framed_bind: "(\<And>x. framed (h x)) \<Longrightarrow> framed (\<lambda>st. m \<bind> (\<lambda>x. h x st))"
  by (cases m) (simp_all add: framed_def)

lemma framed_read: "(\<And>q st. m (ev_fput q st) = m st) \<Longrightarrow> (\<And>x. framed (h x)) \<Longrightarrow> framed (\<lambda>st. m st \<bind> (\<lambda>x. h x st))"
  by (simp add: framed_def map_option_bind comp_def cong: bind_option_cong)

lemma framed_stop: "framed (\<lambda>st. Some (b, st))" "framed (\<lambda>st. None)"
  by (simp_all add: framed_def)

lemma framed_ev_call: "framed (ev_call f)"
  by (simp add: framed_def framed_call)

lemma framed_let: "(\<And>x. framed (h x)) \<Longrightarrow> framed (\<lambda>st. Let m (\<lambda>x. h x st))"
  by (simp add: framed_def)

lemma framed_let_read: "(\<And>q st. m (ev_fput q st) = m st) \<Longrightarrow> (\<And>x. framed (h x)) \<Longrightarrow> framed (\<lambda>st. Let (m st) (\<lambda>x. h x st))"
  by (simp add: framed_def)

lemma framed_let_state: "(\<And>q st. m (ev_fput q st) = ev_fput q (m st)) \<Longrightarrow> framed h \<Longrightarrow> framed (\<lambda>st. Let (m st) h)"
  by (simp add: framed_def)

lemma framed_call_incr: "framed (\<lambda>st. ev_call f (EFX_EV_QSTAT_INCR s st))"
  by (simp add: framed_def framed_call ev_fput_incr)

lemma framed_discard: "framed h \<Longrightarrow> framed (\<lambda>st. h st \<bind> (\<lambda>(_, st). Some (b, st)))"
  by (simp add: framed_def option.map_comp map_option_bind bind_map_option comp_def case_prod_beta)

lemma framed_stop_state: "(\<And>q st. m (ev_fput q st) = ev_fput q (m st)) \<Longrightarrow> framed (\<lambda>st. Some (b, m st))"
  by (simp add: framed_def)

lemmas framed_rules = framed_stop framed_ev_call framed_call_incr framed_if framed_let framed_let_state framed_let_read framed_discard framed_bind framed_read framed_stop_state

lemma framed_tx: "framed (siena_ev_tx eqp eecp)" "framed (ef10_ev_tx eqp eecp)"
  unfolding siena_ev_tx_def ef10_ev_tx_def
  by (intro framed_rules; simp add: ev_fput_incr)+

lemma framed_driver: "framed (siena_ev_driver eqp eecp)" "framed (ef10_ev_driver eqp eecp)"
  unfolding siena_ev_driver_def ef10_ev_driver_def
  by (intro framed_rules; simp add: ev_fput_incr)+

lemma framed_drv_gen: "framed (siena_ev_drv_gen eqp eecp)" "framed (ef10_ev_drv_gen eqp eecp)"
  unfolding siena_ev_drv_gen_def ef10_ev_drv_gen_def
  by (intro framed_rules; simp add: ev_fput_incr)+

lemma framed_cases:
  "(\<And>a. framed (f a)) \<Longrightarrow> (\<And>b. framed (g b)) \<Longrightarrow> framed (\<lambda>st. case s of Inl a \<Rightarrow> f a st | Inr b \<Rightarrow> g b st)"
  "(\<And>a b. framed (p a b)) \<Longrightarrow> framed (\<lambda>st. case x of (a, b) \<Rightarrow> p a b st)"
  "framed n \<Longrightarrow> (\<And>a. framed (f a)) \<Longrightarrow> framed (\<lambda>st. case opt of None \<Rightarrow> n st | Some a \<Rightarrow> f a st)"
  by (simp_all add: framed_def split: sum.split prod.split option.split)

lemma framed_mcdi:
  "framed (ev_mcdi_death rc)" "framed (ev_mcdi_cmddone eqp)" "framed (ev_mcdi_linkchange link eqp eecp)" "framed (ev_mcdi_sensorevt eqp eecp)"
  "framed (ev_mcdi_mac_stats eqp eecp)" "framed (ev_mcdi_fwalert eqp eecp)" "framed (ev_mcdi_queue_err flag code data eecp)"
  "framed (ev_mcdi_flush drv stat index cb)"
  unfolding ev_mcdi_death_def ev_mcdi_cmddone_def ev_mcdi_linkchange_def ev_mcdi_sensorevt_def ev_mcdi_mac_stats_def ev_mcdi_fwalert_def
    ev_mcdi_queue_err_def ev_mcdi_flush_def
  by (intro framed_rules framed_cases; simp add: ev_fput_incr ev_fput_set)+

lemma framed_siena_mcdi: "framed (siena_ev_mcdi eqp eecp)"
  unfolding siena_ev_mcdi_def by (intro framed_rules framed_mcdi; simp add: ev_fput_incr)

lemma framed_ef10_mcdi: "framed (ef10_ev_mcdi eqp eecp)"
  unfolding ef10_ev_mcdi_def by (intro framed_rules framed_mcdi; simp add: ev_fput_incr)

lemma framed_handler: "framed (h ev eecp) \<Longrightarrow> framed (h' ev eecp) \<Longrightarrow> framed (ev_handler_of h h' ev eecp)"
  by (simp add: framed_def ev_handler_of_def split: option.split)

lemma framed_global: "framed siena_ev_global"
  unfolding siena_ev_global_def by (intro framed_rules) (simp add: ev_fput_incr)

lemma framed_bad: "framed (siena_ev_bad code eecp)"
  unfolding siena_ev_bad_def by (intro framed_rules; simp)

lemma framed_dispatch: "framed (ev_dispatch ev eecp)"
  unfolding ev_dispatch_def
  by (intro framed_rules framed_handler framed_siena_rx framed_ef10_rx framed_tx framed_driver framed_drv_gen framed_siena_mcdi framed_ef10_mcdi
      framed_global framed_bad; simp add: ev_fput_incr)

lemma ev_dispatch_fput: "ev_dispatch ev eecp (ev_fput q st) = map_option (apsnd (ev_fput q)) (ev_dispatch ev eecp st)"
  by (rule framed_dispatch [unfolded framed_def, rule_format])

lemma ev_dispatch_keeps:
  fixes st st' :: "('c, 'd, 'h) ev_state"
  assumes "ev_dispatch ev eecp st = Some (b, st')"
  shows "ee_esmp (es_evq st') = ee_esmp (es_evq st) \<and> ee_mask (es_evq st') = ee_mask (es_evq st) \<and> es_hw st' = es_hw st"
proof -
  let ?q = "(ee_esmp (es_evq st), ee_mask (es_evq st), es_hw st)"
  have "ev_fput ?q st = st" by (simp add: ev_fput_def)
  with assms ev_dispatch_fput [of ev eecp ?q st] have "st' = ev_fput ?q st'" by simp
  then have "f st' = f (ev_fput ?q st')" for f :: "('c, 'd, 'h) ev_state \<Rightarrow> efx_qword list \<times> u32 \<times> 'h" by simp
  from this [of "\<lambda>st. (ee_esmp (es_evq st), ee_mask (es_evq st), es_hw st)"] show ?thesis by (simp add: ev_fput_def)
qed

lemma ev_dispatch_put:
  fixes st :: "('c, 'd, 'h) ev_state"
  shows "ev_dispatch ev eecp (ev_put mem hw st) = map_option (apsnd (ev_put mem hw)) (ev_dispatch ev eecp st)"
proof -
  have e: "ev_put mem hw st = ev_fput (mem, ee_mask (es_evq st), hw) st" by (simp add: ev_fput_def ev_put_def)
  have "ev_fput (mem, ee_mask (es_evq st), hw) st' = ev_put mem hw st'" if "ee_mask (es_evq st') = ee_mask (es_evq st)" for st' :: "('c, 'd, 'h) ev_state"
    using that by (simp add: ev_fput_def ev_put_def)
  then show ?thesis
    unfolding e ev_dispatch_fput by (cases "ev_dispatch ev eecp st") (auto dest: ev_dispatch_keeps)
qed

lemma ev_put_simps [simp]:
  "es_nic (ev_put mem hw st) = es_nic st" "es_arg (ev_put mem hw st) = es_arg st" "es_hw (ev_put mem hw st) = hw"
  "ee_esmp (es_evq (ev_put mem hw st)) = mem" "ee_mask (es_evq (ev_put mem hw st)) = ee_mask (es_evq st)"
  "ev_put mem hw (ev_put mem' hw' st) = ev_put mem hw st"
  by (simp_all add: ev_put_def)

lemma ev_put_same: "ev_put (ee_esmp (es_evq st)) (es_hw st) st = st"
  by (simp add: ev_put_def)

end
