(* ===== verification/Efx_Ev_Poll.thy ===== *)
theory Efx_Ev_Poll
  imports Efx_Ev_Spec
begin

text \<open>
  Polling refines a queue. The controller writes events one by one into cleared slots of the ring (\<open>ev_write\<close>); the state of the ring is
  abstracted to the list of the events that were written and not yet handled.
\<close>

section \<open>Handling a list of events\<close>

text \<open>Dispatching all of them in order, with what each says about stopping.\<close>

fun run_events :: "'d efx_ev_callbacks \<Rightarrow> efx_qword list \<Rightarrow> ('c, 'd, 'h) ev_state \<Rightarrow> (bool list \<times> ('c, 'd, 'h) ev_state) option" where
  "run_events eecp [] st = Some ([], st)"
| "run_events eecp (ev # evs) st = do {
     (b, st) \<leftarrow> ev_dispatch ev eecp st;
     (bs, st) \<leftarrow> run_events eecp evs st;
     Some (b # bs, st) }"

lemma run_events_put: "run_events eecp evs (ev_put mem hw st) = map_option (apsnd (ev_put mem hw)) (run_events eecp evs st)"
  by (induction evs arbitrary: st)
    (auto simp: ev_dispatch_put bind_map_option map_option_bind comp_def case_prod_beta option.map_comp intro!: bind_option_cong)

lemma run_events_append:
  "run_events eecp (xs @ ys) st = do { (bs, st) \<leftarrow> run_events eecp xs st; (cs, st) \<leftarrow> run_events eecp ys st; Some (bs @ cs, st) }"
  by (induction xs arbitrary: st) (auto simp: case_prod_beta intro!: bind_option_cong)

lemma run_events_keeps:
  "run_events eecp evs st = Some (bs, st') \<Longrightarrow> length bs = length evs \<and> ee_esmp (es_evq st') = ee_esmp (es_evq st)
     \<and> ee_mask (es_evq st') = ee_mask (es_evq st) \<and> es_hw st' = es_hw st"
  by (induction evs arbitrary: st bs) (fastforce dest: ev_dispatch_keeps split: bind_splits)+

lemma run_events_take:
  assumes "run_events eecp evs st = Some (bs, st')"
  obtains st1 where "run_events eecp (take t evs) st = Some (take t bs, st1)" "run_events eecp (drop t evs) st1 = Some (drop t bs, st')"
proof -
  from assms obtain b1 st1 b2 where 1: "run_events eecp (take t evs) st = Some (b1, st1)" "run_events eecp (drop t evs) st1 = Some (b2, st')" "bs = b1 @ b2"
    using run_events_append [of eecp "take t evs" "drop t evs" st] by (auto split: bind_splits)
  have "length b1 = min (length evs) t" "length b2 = length evs - t" using run_events_keeps [OF 1(1)] run_events_keeps [OF 1(2)] by simp_all
  then have b: "b1 = take t bs" "b2 = drop t bs" using 1(3) by (cases "t \<le> length evs"; simp)+
  show thesis by (rule that) (use 1(1,2) in \<open>simp_all only: b\<close>)
qed

lemma qpoll_handle_run:
  assumes "run_events eecp evs st = Some (bs, st1)"
  shows "\<exists>t st'. qpoll_handle eecp evs st = Some (t, st') \<and> t \<le> length evs \<and> run_events eecp (take t evs) st = Some (take t bs, st')
    \<and> (\<forall>i. i + 1 < t \<longrightarrow> \<not> bs ! i) \<and> (t < length evs \<longrightarrow> 0 < t \<and> bs ! (t - 1))"
  using assms
proof (induction evs arbitrary: st bs)
  case (Cons ev evs)
  from Cons.prems obtain b st2 bs' where d: "ev_dispatch ev eecp st = Some (b, st2)" "run_events eecp evs st2 = Some (bs', st1)" "bs = b # bs'"
    by (auto split: bind_splits)
  show ?case
  proof (cases b)
    case True
    then show ?thesis using d by (intro exI [of _ 1] exI [of _ st2]) simp
  next
    case False
    from Cons.IH [OF d(2)] obtain t st' where t: "qpoll_handle eecp evs st2 = Some (t, st')" "t \<le> length evs"
        "run_events eecp (take t evs) st2 = Some (take t bs', st')" "\<forall>i. i + 1 < t \<longrightarrow> \<not> bs' ! i" "t < length evs \<longrightarrow> 0 < t \<and> bs' ! (t - 1)" by blast
    have "\<not> bs ! i" if "i + 1 < Suc t" for i using that t(4) False d(3) by (cases i) auto
    then show ?thesis using d(1,3) t(1-3,5) False by (intro exI [of _ "Suc t"] exI [of _ st']) auto
  qed
qed simp

section \<open>The ring\<close>

text \<open>Slot \<open>c + i\<close> of a ring of \<open>n\<close> slots holds the \<open>i\<close>-th waiting event; the others are cleared.\<close>

definition ring_mem :: "nat \<Rightarrow> nat \<Rightarrow> efx_qword list \<Rightarrow> efx_qword list \<Rightarrow> bool" where
  "ring_mem n c avail mem = (length mem = n \<and> length avail \<le> n \<and> (\<forall>ev \<in> set avail. EFX_EV_PRESENT ev)
     \<and> (\<forall>i < n. mem ! ((c + i) mod n) = (if i < length avail then avail ! i else EFX_SET_QWORD)))"

text \<open>A write of the controller, on the memory, the events that it has still to write, and its write pointer.\<close>

inductive ev_write :: "nat \<Rightarrow> efx_qword list \<times> efx_qword list \<times> nat \<Rightarrow> efx_qword list \<times> efx_qword list \<times> nat \<Rightarrow> bool" for n where
  "mem ! (w mod n) = EFX_SET_QWORD \<Longrightarrow> EFX_EV_PRESENT ev \<Longrightarrow> ev_write n (mem, ev # evs, w) (mem[w mod n := ev], evs, w + 1)"

definition ev_source :: "nat \<Rightarrow> 'h ev_dma \<Rightarrow> ('h \<Rightarrow> efx_qword list) \<Rightarrow> ('h \<Rightarrow> nat) \<Rightarrow> bool" where
  "ev_source n dma pending wptr = (\<forall>mem hw. case dma mem hw of (mem', hw') \<Rightarrow>
     length mem = n \<longrightarrow> (ev_write n)\<^sup>*\<^sup>* (mem, pending hw, wptr hw) (mem', pending hw', wptr hw'))"

lemma set_qword_absent: "\<not> EFX_EV_PRESENT EFX_SET_QWORD"
  by (simp add: EFX_EV_PRESENT_def EFX_SET_QWORD_def efx_populate_qword_def efx_insert_fields32_def efx_insert_field32_def
      efx_insert_native32_def qfield_def EFX_DWORD_0_def efx_extract_native32_def efx_mask32_def)

lemma mod_shift_inj: "(c + i) mod n = (c + j) mod n \<Longrightarrow> i < n \<Longrightarrow> j < n \<Longrightarrow> i = (j :: nat)"
proof (induction i j rule: linorder_wlog)
  case (le i j)
  then have "n dvd j - i" using mod_eq_dvd_iff_nat [of "c + i" "c + j" n] by simp
  then have "j - i = 0" using le(3,4) dvd_imp_le [of n "j - i"] by (cases "j - i = 0") auto
  then show ?case using le(1) by simp
qed simp

lemma ring_mem_write:
  assumes r: "ring_mem n c avail mem" and w: "w mod n = (c + length avail) mod n" "mem ! (w mod n) = EFX_SET_QWORD" "EFX_EV_PRESENT ev" and n: "0 < n"
  shows "ring_mem n c (avail @ [ev]) (mem[w mod n := ev])"
proof -
  have len: "length avail < n"
  proof (rule ccontr)
    assume "\<not> length avail < n"
    then have "length avail = n" using r by (simp add: ring_mem_def)
    then have "mem ! (w mod n) = avail ! 0" using r w(1) n by (auto simp: ring_mem_def dest!: spec [of _ 0])
    then have "EFX_EV_PRESENT (mem ! (w mod n))" using r n \<open>length avail = n\<close> by (auto simp: ring_mem_def)
    with w(2) set_qword_absent show False by simp
  qed
  have "mem[w mod n := ev] ! ((c + i) mod n) = (if i < length (avail @ [ev]) then (avail @ [ev]) ! i else EFX_SET_QWORD)" if i: "i < n" for i
  proof (cases "i = length avail")
    case True
    then show ?thesis using r w(1) n by (simp add: ring_mem_def)
  next
    case False
    have "(c + i) mod n \<noteq> (c + length avail) mod n"
      using mod_shift_inj [of c i n "length avail"] i len False by blast
    then have "mem[w mod n := ev] ! ((c + i) mod n) = mem ! ((c + i) mod n)" using w(1) by simp
    then show ?thesis using r i False by (simp add: ring_mem_def nth_append)
  qed
  then show ?thesis using r len w(3) by (auto simp: ring_mem_def)
qed

lemmas ev_writes_induct = converse_rtranclp_induct [of _ "(ax, ay, az)" "(bx, by, bz)", split_rule, consumes 1, case_names refl step]

lemma ring_mem_writes:
  "(ev_write n)\<^sup>*\<^sup>* (mem, pend, w) (mem', pend', w') \<Longrightarrow> ring_mem n c avail mem \<Longrightarrow> w mod n = (c + length avail) mod n \<Longrightarrow> 0 < n \<Longrightarrow>
   \<exists>evs. pend = evs @ pend' \<and> ring_mem n c (avail @ evs) mem' \<and> w' mod n = (c + length (avail @ evs)) mod n"
proof (induction arbitrary: avail rule: ev_writes_induct)
  case refl
  then show ?case by (intro exI [of _ "[]"]) simp
next
  case (step mem pend w mem1 pend1 w1)
  from step.hyps(1) obtain ev where s: "pend = ev # pend1" "mem1 = mem[w mod n := ev]" "w1 = w + 1" "mem ! (w mod n) = EFX_SET_QWORD" "EFX_EV_PRESENT ev"
    by (auto elim: ev_write.cases)
  have "w1 mod n = (c + length (avail @ [ev])) mod n" using step.prems(2) s(3) by (simp add: mod_Suc_eq_mod_add3 mod_Suc)
  with step.IH ring_mem_write [OF step.prems(1,2) s(4,5) step.prems(3)] s(2) step.prems(3)
  obtain evs where "pend1 = evs @ pend'" "ring_mem n c ((avail @ [ev]) @ evs) mem'" "w' mod n = (c + length ((avail @ [ev]) @ evs)) mod n" by blast
  then show ?case using s(1) by (intro exI [of _ "ev # evs"]) simp
qed

text \<open>Clearing the slots of the first \<open>t\<close> waiting events.\<close>

lemma ring_mem_clear:
  assumes r: "ring_mem n c avail mem" and t: "t \<le> length avail" "c mod n + t \<le> n"
  shows "\<exists>mem'. wr_range mem (c mod n) (replicate t EFX_SET_QWORD) = Some mem' \<and> ring_mem n (c + t) (drop t avail) mem'"
proof (cases "t = 0")
  case True
  then show ?thesis using r by (simp add: wr_range_def)
next
  case False
  let ?mem' = "take (c mod n) mem @ replicate t EFX_SET_QWORD @ drop (c mod n + t) mem"
  have len: "length mem = n" "length avail \<le> n" "\<forall>ev \<in> set avail. EFX_EV_PRESENT ev"
    and slot: "\<And>i. i < n \<Longrightarrow> mem ! ((c + i) mod n) = (if i < length avail then avail ! i else EFX_SET_QWORD)"
    using r by (auto simp: ring_mem_def)
  have n: "0 < n" using False t by (cases n) auto
  have new: "?mem' ! j = (if c mod n \<le> j \<and> j < c mod n + t then EFX_SET_QWORD else mem ! j)" if "j < n" for j
    using that t len n by (auto simp: nth_append min_def not_less)
  have cleared: "c mod n \<le> (c + i) mod n \<and> (c + i) mod n < c mod n + t \<longleftrightarrow> i < t" if i: "i < n" for i
  proof
    assume "i < t"
    then have "(c mod n + i) mod n = c mod n + i" using t by simp
    then show "c mod n \<le> (c + i) mod n \<and> (c + i) mod n < c mod n + t" using \<open>i < t\<close> by (simp add: mod_add_left_eq)
  next
    assume a: "c mod n \<le> (c + i) mod n \<and> (c + i) mod n < c mod n + t"
    define k where "k = (c + i) mod n - c mod n"
    have "k < t" "(c mod n + k) mod n = (c + i) mod n" using a t by (auto simp: k_def)
    then have "(c + k) mod n = (c + i) mod n" by (simp add: mod_add_left_eq)
    then have "k = i" using mod_shift_inj [of c k n i] i \<open>k < t\<close> t by simp
    then show "i < t" using \<open>k < t\<close> by simp
  qed
  have "?mem' ! ((c + t + i) mod n) = (if i < length (drop t avail) then drop t avail ! i else EFX_SET_QWORD)" if i: "i < n" for i
  proof (cases "t + i < n")
    case True
    then show ?thesis using new [of "(c + (t + i)) mod n"] cleared [of "t + i"] slot [of "t + i"] t(1) n by (auto simp: add.assoc)
  next
    case False
    define k where "k = t + i - n"
    have k: "k < t" "k < n" "(c + t + i) mod n = (c + k) mod n"
    proof -
      show "k < t" "k < n" using i False t n by (auto simp: k_def)
      have "c + t + i = c + k + n" using False by (simp add: k_def)
      then show "(c + t + i) mod n = (c + k) mod n" by (simp only: mod_add_self2)
    qed
    have "\<not> i < length (drop t avail)" using False len(2) by simp
    then show ?thesis using new [of "(c + k) mod n"] cleared [of k] k n by simp
  qed
  moreover have "wr_range mem (c mod n) (replicate t EFX_SET_QWORD) = Some ?mem'" using False t len by (simp add: wr_range_def)
  moreover have "length ?mem' = n" using t len n by simp
  ultimately show ?thesis using len t(1) by (auto simp: ring_mem_def dest: in_set_dropD)
qed

section \<open>A poll\<close>

definition ring_state ::
    "('h \<Rightarrow> nat) \<Rightarrow> nat \<Rightarrow> nat \<Rightarrow> efx_qword list \<Rightarrow> ('c, 'd, 'h) ev_state \<Rightarrow> bool" where
  "ring_state wptr n c avail st = (ring_mem n c avail (ee_esmp (es_evq st)) \<and> wptr (es_hw st) mod n = (c + length avail) mod n)"

lemma ring_state_step:
  assumes "ev_source n dma pending wptr" "ring_state wptr n c avail st" "0 < n"
  obtains mem hw new where "ev_hw_step dma st = ev_put mem hw st" "pending (es_hw st) = new @ pending hw"
    "ring_state wptr n c (avail @ new) (ev_put mem hw st)"
proof -
  obtain mem hw where d: "dma (ee_esmp (es_evq st)) (es_hw st) = (mem, hw)" by force
  have r: "ring_mem n c avail (ee_esmp (es_evq st))" "wptr (es_hw st) mod n = (c + length avail) mod n"
    using assms(2) by (simp_all add: ring_state_def)
  then have "length (ee_esmp (es_evq st)) = n" by (simp add: ring_mem_def)
  then have "(ev_write n)\<^sup>*\<^sup>* (ee_esmp (es_evq st), pending (es_hw st), wptr (es_hw st)) (mem, pending hw, wptr hw)"
    using assms(1) d by (auto simp: ev_source_def dest!: spec [of _ "ee_esmp (es_evq st)"] spec [of _ "es_hw st"])
  from ring_mem_writes [OF this r assms(3)] show thesis
    using that d by (auto simp: ring_state_def ev_hw_step_def)
qed

lemma qpoll_read_ring:
  assumes "ev_source n dma pending wptr" "0 < n" "ring_state wptr n c avail st" "j \<le> length avail" "0 < k \<longrightarrow> offset = (c + j) mod n"
    "offset + k \<le> n" "j + k \<le> n"
  shows "\<exists>evs mem hw new. qpoll_read dma offset k st = Some (evs, ev_put mem hw st) \<and> pending (es_hw st) = new @ pending hw
    \<and> ring_state wptr n c (avail @ new) (ev_put mem hw st) \<and> evs = take (length evs) (drop j (avail @ new)) \<and> length evs \<le> k
    \<and> j + length evs \<le> length (avail @ new) \<and> (length evs < k \<longrightarrow> length (avail @ new) = j + length evs)"
  using assms(3-7)
proof (induction k arbitrary: st avail j offset)
  case 0
  then show ?case
    by (intro exI [of _ "[]"] exI [of _ "ee_esmp (es_evq st)"] exI [of _ "es_hw st"]) (simp add: ev_put_same)
next
  case (Suc k)
  from ring_state_step [OF assms(1) Suc.prems(1) assms(2)] obtain mem hw new where
    s: "ev_hw_step dma st = ev_put mem hw st" "pending (es_hw st) = new @ pending hw" and r: "ring_state wptr n c (avail @ new) (ev_put mem hw st)" .
  have j: "j < n" "offset < n" using Suc.prems by simp_all
  have slot: "mem ! offset = (if j < length (avail @ new) then (avail @ new) ! j else EFX_SET_QWORD)" "length mem = n"
    "\<forall>ev \<in> set (avail @ new). EFX_EV_PRESENT ev"
    using r j Suc.prems(3) by (auto simp: ring_state_def ring_mem_def)
  show ?case
  proof (cases "EFX_EV_PRESENT (mem ! offset)")
    case False
    then have "\<not> j < length (avail @ new)" using slot by (metis nth_mem)
    then show ?thesis using s r slot(2) j(2) False Suc.prems(2)
      by (intro exI [of _ "[]"] exI [of _ mem] exI [of _ hw] exI [of _ new]) simp
  next
    case True
    then have jl: "j < length (avail @ new)" using slot(1) set_qword_absent by metis
    have "0 < k \<longrightarrow> offset + 1 = (c + Suc j) mod n"
      using Suc.prems(3,4) mod_Suc [of "c + j" n] by auto
    from Suc.IH [OF r _ this] jl Suc.prems(4,5) obtain evs mem' hw' new' where
      q: "qpoll_read dma (offset + 1) k (ev_put mem hw st) = Some (evs, ev_put mem' hw' (ev_put mem hw st))"
      "pending hw = new' @ pending hw'" "ring_state wptr n c ((avail @ new) @ new') (ev_put mem' hw' (ev_put mem hw st))"
      "evs = take (length evs) (drop (Suc j) ((avail @ new) @ new'))" "length evs \<le> k" "Suc j + length evs \<le> length ((avail @ new) @ new')"
      "length evs < k \<longrightarrow> length ((avail @ new) @ new') = Suc j + length evs"
      by (auto simp: Suc_le_eq)
    have d: "drop j ((avail @ new) @ new') = ((avail @ new) @ new') ! j # drop (Suc j) ((avail @ new) @ new')"
      by (rule Cons_nth_drop_Suc [symmetric]) (use jl in simp)
    have m: "mem ! offset = ((avail @ new) @ new') ! j" by (simp only: slot(1) nth_append_left [OF jl] jl if_True)
    have e: "mem ! offset # evs = take (length (mem ! offset # evs)) (drop j ((avail @ new) @ new'))"
      by (simp only: length_Cons take_Suc_Cons d m q(4) [symmetric])
    show ?thesis
    proof (intro exI conjI)
      show "qpoll_read dma offset (Suc k) st = Some (mem ! offset # evs, ev_put mem' hw' st)" using q(1) s(1) slot(2) j(2) True by simp
      show "pending (es_hw st) = (new @ new') @ pending hw'" using q(2) s(2) by simp
      show "ring_state wptr n c (avail @ (new @ new')) (ev_put mem' hw' st)" using q(3) by simp
      show "mem ! offset # evs = take (length (mem ! offset # evs)) (drop j (avail @ (new @ new')))" using e by (simp only: append_assoc)
    qed (use q(5-7) in simp_all)
  qed
qed

definition ring_size :: "nat \<Rightarrow> bool" where
  "ring_size n = (\<exists>k. 3 \<le> k \<and> k < 32 \<and> n = 2 ^ k)"

lemma unat_and_ring_mask: "ring_size n \<Longrightarrow> unat (count AND of_nat (n - 1) :: u32) = unat count mod n"
proof -
  assume "ring_size n"
  then obtain k where k: "k < 32" "n = 2 ^ k" by (auto simp: ring_size_def)
  then have "of_nat (n - 1) = (mask k :: u32)" by (simp add: mask_eq_exp_minus_1 of_nat_diff)
  then have "count AND of_nat (n - 1) = take_bit k count" by (simp only: take_bit_eq_mask)
  then have "unat (count AND of_nat (n - 1)) = take_bit k (unat count)" by (simp only: unsigned_take_bit_eq)
  then show ?thesis by (simp only: take_bit_eq_mod k(2))
qed

lemma ring_size_8: "ring_size n \<Longrightarrow> 8 dvd n" "ring_size n \<Longrightarrow> 8 \<le> n" "ring_size n \<Longrightarrow> n dvd 2 ^ 32"
proof -
  assume "ring_size n"
  then obtain k where k: "3 \<le> k" "k < 32" "n = 2 ^ k" by (auto simp: ring_size_def)
  show "8 dvd n" using le_imp_power_dvd [OF k(1), of "2 :: nat"] k(3) by simp
  show "8 \<le> n" using power_increasing [OF k(1), of "2 :: nat"] k(3) by simp
  show "n dvd 2 ^ 32" unfolding k(3) by (rule le_imp_power_dvd) (use k(2) in simp)
qed

lemma unat_count_add: "ring_size n \<Longrightarrow> unat (count + of_nat t :: u32) mod n = (unat count + t) mod n"
  using ring_size_8(3) [of n] by (simp add: unat_word_ariths unat_of_nat mod_mod_cancel mod_add_right_eq)

lemma ring_mem_mod: "c mod n = c' mod n \<Longrightarrow> ring_mem n c avail mem = ring_mem n c' avail mem"
proof -
  assume "c mod n = c' mod n"
  then have "(c + i) mod n = (c' + i) mod n" for i by (rule mod_add_cong) simp
  then show ?thesis by (simp add: ring_mem_def)
qed

lemma ring_state_mod: "c mod n = c' mod n \<Longrightarrow> ring_state wptr n c avail st = ring_state wptr n c' avail st"
proof -
  assume "c mod n = c' mod n"
  then show ?thesis unfolding ring_state_def using ring_mem_mod [of c n c'] mod_add_cong [of c n c' "length avail" "length avail"] by auto
qed

lemma batch_fits:
  assumes "ring_size n"
  shows "c mod n + (8 - c mod 8) \<le> n"
proof -
  from ring_size_8(1) [OF assms] obtain m where m: "n = 8 * m" ..
  have "0 < n" using ring_size_8(2) [OF assms] by simp
  then have "c mod n < n" by simp
  then have "c mod n div 8 < m" using m by (simp add: less_mult_imp_div_less mult.commute)
  then have "8 * (c mod n div 8) + 8 \<le> n" using m by simp
  moreover have "c mod n = 8 * (c mod n div 8) + c mod 8"
    using mult_div_mod_eq [of 8 "c mod n"] by (simp add: m mod_mod_cancel)
  ultimately show ?thesis using mod_less_divisor [of 8 c] by linarith
qed

lemma unat_and_7: "unat (count AND 7 :: u32) = unat count mod 8"
proof -
  have "ring_size 8" unfolding ring_size_def by (rule exI [of _ 3]) simp
  from unat_and_ring_mask [OF this, of count] show ?thesis by simp
qed

text \<open>One batch: \<open>t\<close> events are handled and their slots cleared.\<close>

lemma qpoll_batch:
  assumes src: "ev_source n dma pending wptr" and n: "ring_size n" and r: "ring_state wptr n (unat count) avail st"
    and m: "ee_mask (es_evq st) = of_nat (n - 1)" and run: "run_events eecp (avail @ pending (es_hw st)) st = Some (bs, stx)"
    and b: "b = 8 - unat count mod 8"
  obtains t mem hw sth avail' where
    "siena_ev_qpoll dma eecp count st = (if t = b then siena_ev_qpoll dma eecp (count + of_nat t) (ev_put mem hw sth) else Some (count + of_nat t, ev_put mem hw sth))"
    "avail @ pending (es_hw st) = take t (avail @ pending (es_hw st)) @ avail' @ pending hw" "t \<le> b" "t \<le> length (avail @ pending (es_hw st))"
    "ring_state wptr n (unat (count + of_nat t)) avail' (ev_put mem hw sth)"
    "run_events eecp (take t (avail @ pending (es_hw st))) st = Some (take t bs, sth)" "\<forall>i. i + 1 < t \<longrightarrow> \<not> bs ! i"
    "t \<noteq> b \<longrightarrow> avail' \<noteq> [] \<longrightarrow> 0 < t \<and> bs ! (t - 1)"
proof -
  let ?S = "avail @ pending (es_hw st)" and ?off = "unat count mod n"
  have off: "?off + b \<le> n" "b \<le> n" unfolding b using batch_fits [OF n] ring_size_8(2) [OF n] by simp_all
  from qpoll_read_ring [OF src _ r, of 0 b ?off] off ring_size_8(2) [OF n] obtain evs mem1 hw new where
    rd: "qpoll_read dma ?off b st = Some (evs, ev_put mem1 hw st)" "pending (es_hw st) = new @ pending hw"
      "ring_state wptr n (unat count) (avail @ new) (ev_put mem1 hw st)"
    and ev: "evs = take (length evs) (avail @ new)" "length evs \<le> b" "length evs \<le> length (avail @ new)"
      "length evs < b \<longrightarrow> length (avail @ new) = length evs" by auto
  have S: "?S = (avail @ new) @ pending hw" by (simp add: rd(2))
  have evS: "take k evs = take k ?S" if "k \<le> length evs" for k
    using that ev(3) by (subst ev(1)) (simp add: S min_def)
  from run_events_take [OF run, of "length evs"] obtain st2 where "run_events eecp evs st = Some (take (length evs) bs, st2)"
    using evS [of "length evs"] by auto
  then have "run_events eecp evs (ev_put mem1 hw st) = Some (take (length evs) bs, ev_put mem1 hw st2)" by (simp add: run_events_put)
  from qpoll_handle_run [OF this] obtain t st3 where h: "qpoll_handle eecp evs (ev_put mem1 hw st) = Some (t, st3)" "t \<le> length evs"
      "run_events eecp (take t evs) (ev_put mem1 hw st) = Some (take t (take (length evs) bs), st3)"
      "\<forall>i. i + 1 < t \<longrightarrow> \<not> take (length evs) bs ! i" "t < length evs \<longrightarrow> 0 < t \<and> take (length evs) bs ! (t - 1)" by blast
  obtain sth where sth: "run_events eecp (take t ?S) st = Some (take t bs, sth)" "st3 = ev_put mem1 hw sth"
    using h(2,3) evS [OF h(2)] by (auto simp: run_events_put min_def)
  have keep: "ee_mask (es_evq sth) = of_nat (n - 1)" using run_events_keeps [OF sth(1)] m by simp
  have tl: "t \<le> length (avail @ new)" "?off + t \<le> n" using h(2) ev(2,3) off by auto
  have u: "unat (count AND ee_mask (es_evq st)) = ?off" "unat (count AND ee_mask (es_evq sth)) = ?off"
    by (simp_all only: m keep unat_and_ring_mask [OF n])
  from ring_mem_clear [OF _ tl] rd(3) obtain mem where c: "wr_range mem1 ?off (replicate t EFX_SET_QWORD) = Some mem"
      "ring_mem n (unat count + t) (drop t (avail @ new)) mem" by (auto simp: ring_state_def)
  have "unat count + t + length (drop t (avail @ new)) = unat count + length (avail @ new)" using tl(1) by (simp only: length_drop)
  then have "wptr hw mod n = (unat count + t + length (drop t (avail @ new))) mod n" using rd(3) by (simp only: ring_state_def) simp
  with c(2) have "ring_state wptr n (unat count + t) (drop t (avail @ new)) (ev_put mem hw sth)" by (simp add: ring_state_def)
  then have 1: "ring_state wptr n (unat (count + of_nat t)) (drop t (avail @ new)) (ev_put mem hw sth)"
    using ring_state_mod unat_count_add [OF n] by metis
  have 2: "siena_ev_qpoll dma eecp count st
      = (if t = b then siena_ev_qpoll dma eecp (count + of_nat t) (ev_put mem hw sth) else Some (count + of_nat t, ev_put mem hw sth))"
    using rd(1) h(1) c(1)
    by (subst siena_ev_qpoll.simps) (simp add: EFX_EV_BATCH_def unat_and_7 u sth(2) b [symmetric] Let_def)
  have 3: "?S = take t ?S @ drop t (avail @ new) @ pending hw" 
  proof -
    have "take t ?S = take t (avail @ new)" using tl(1) by (simp only: S) simp
    then show ?thesis by (simp only: S) (simp only: append_assoc [symmetric] append_take_drop_id)
  qed
  show thesis
    by (rule that [OF 2 3 _ _ 1 sth(1)]) (use h ev tl(1) in \<open>auto simp: S\<close>)
qed

lemma batch_end: "(c + (8 - c mod 8)) mod 8 = (0 :: nat)"
proof -
  have "c + (8 - c mod 8) = 8 * (c div 8) + 8" using mult_div_mod_eq [of 8 c] mod_less_divisor [of 8 c] by linarith
  then show ?thesis by simp
qed

text \<open>The whole poll, by induction on the events that are left.\<close>

lemma siena_ev_qpoll_ring:
  assumes src: "ev_source n dma pending wptr" and n: "ring_size n"
  shows "ring_state wptr n (unat count) avail st \<Longrightarrow> ee_mask (es_evq st) = of_nat (n - 1)
    \<Longrightarrow> run_events eecp (avail @ pending (es_hw st)) st = Some (bs, stx)
    \<Longrightarrow> \<exists>h mem hw sth avail'. siena_ev_qpoll dma eecp count st = Some (count + of_nat h, ev_put mem hw sth)
      \<and> h \<le> length (avail @ pending (es_hw st)) \<and> drop h (avail @ pending (es_hw st)) = avail' @ pending hw
      \<and> ring_state wptr n (unat (count + of_nat h)) avail' (ev_put mem hw sth)
      \<and> run_events eecp (take h (avail @ pending (es_hw st))) st = Some (take h bs, sth)
      \<and> (\<forall>i. i + 1 < h \<and> bs ! i \<longrightarrow> (unat count + i + 1) mod 8 = 0) \<and> (avail' \<noteq> [] \<longrightarrow> 0 < h \<and> bs ! (h - 1))"
proof (induction "length (avail @ pending (es_hw st))" arbitrary: count avail st bs stx rule: less_induct)
  case less
  let ?S = "avail @ pending (es_hw st)"
  from qpoll_batch [OF src n less.prems refl] obtain t mem hw sth avail' where
    p: "siena_ev_qpoll dma eecp count st = (if t = 8 - unat count mod 8 then siena_ev_qpoll dma eecp (count + of_nat t) (ev_put mem hw sth)
        else Some (count + of_nat t, ev_put mem hw sth))"
    and S: "?S = take t ?S @ avail' @ pending hw" and "t \<le> 8 - unat count mod 8" and t: "t \<le> length ?S"
    and r: "ring_state wptr n (unat (count + of_nat t)) avail' (ev_put mem hw sth)"
    and run: "run_events eecp (take t ?S) st = Some (take t bs, sth)" and b: "\<forall>i. i + 1 < t \<longrightarrow> \<not> bs ! i"
    and e: "t \<noteq> 8 - unat count mod 8 \<longrightarrow> avail' \<noteq> [] \<longrightarrow> 0 < t \<and> bs ! (t - 1)" .
  have d: "drop t ?S = avail' @ pending hw" using S t by (metis append_eq_conv_conj length_take min_absorb2)
  show ?case
  proof (cases "t = 8 - unat count mod 8")
    case False
    show ?thesis
      by (intro exI [of _ t] exI [of _ mem] exI [of _ hw] exI [of _ sth] exI [of _ avail'] conjI) (use p False t d r run b e in auto)
  next
    case True
    then have pos: "0 < t" using mod_less_divisor [of 8 "unat count"] by linarith
    let ?st = "ev_put mem hw sth"
    have len: "length bs = length ?S" using run_events_keeps [OF less.prems(3)] by simp
    from run_events_take [OF less.prems(3), of t] run d have rest: "run_events eecp (avail' @ pending hw) sth = Some (drop t bs, stx)" by auto
    have m: "ee_mask (es_evq ?st) = of_nat (n - 1)" using run_events_keeps [OF run] less.prems(2) by simp
    have l: "length (avail' @ pending (es_hw ?st)) < length ?S" using d pos t length_drop [of t ?S] by (simp del: length_drop)
    have "run_events eecp (avail' @ pending (es_hw ?st)) ?st = Some (drop t bs, ev_put mem hw stx)" by (simp add: run_events_put rest)
    from less.hyps [OF l r m this, unfolded ev_put_simps(3)] obtain h mem2 hw2 sth2 avail2 where
      q: "siena_ev_qpoll dma eecp (count + of_nat t) ?st = Some (count + of_nat t + of_nat h, ev_put mem2 hw2 sth2)"
      "h \<le> length (avail' @ pending hw)" "drop h (avail' @ pending hw) = avail2 @ pending hw2"
      "ring_state wptr n (unat (count + of_nat t + of_nat h)) avail2 (ev_put mem2 hw2 sth2)"
      "run_events eecp (take h (avail' @ pending hw)) ?st = Some (take h (drop t bs), sth2)"
      "\<forall>i. i + 1 < h \<and> drop t bs ! i \<longrightarrow> (unat (count + of_nat t) + i + 1) mod 8 = 0" "avail2 \<noteq> [] \<longrightarrow> 0 < h \<and> drop t bs ! (h - 1)"
      by blast
    from q(5) obtain st2 where st2: "run_events eecp (take h (avail' @ pending hw)) sth = Some (take h (drop t bs), st2)" "sth2 = ev_put mem hw st2"
      by (auto simp: run_events_put simp del: take_append)
    have ab: "(unat count + i + 1) mod 8 = 0" if i: "i + 1 < t + h" "bs ! i" for i
    proof (cases "i < t")
      case True
      then have "i + 1 = 8 - unat count mod 8" using b i(2) \<open>t = _\<close> by (metis Suc_eq_plus1 Suc_lessI)
      then show ?thesis using batch_end [of "unat count"] by (simp only: add.assoc)
    next
      case False
      have "t \<le> length bs" using t len by simp
      then have "drop t bs ! (i - t)" using i(2) False by simp
      then have "(unat (count + of_nat t) + (i - t) + 1) mod 8 = 0" using i(1) False spec [OF q(6), of "i - t"] by linarith
      moreover have "unat (count + of_nat t) mod 8 = (unat count + t) mod 8" by (rule unat_count_add) (simp add: ring_size_def exI [of _ 3])
      then have "(unat (count + of_nat t) + (i - t + 1)) mod 8 = (unat count + t + (i - t + 1)) mod 8" by (rule mod_add_cong) simp
      ultimately show ?thesis using False by (simp add: add.assoc)
    qed
    have run2: "run_events eecp (take (t + h) ?S) st = Some (take (t + h) bs, st2)"
      using run st2(1) d by (simp add: take_add run_events_append run_events_put del: take_append drop_append)
    show ?thesis
    proof (intro exI conjI)
      show "siena_ev_qpoll dma eecp count st = Some (count + of_nat (t + h), ev_put mem2 hw2 st2)" using p q(1) st2(2) True by (simp add: add.assoc)
      show "t + h \<le> length ?S" using q(2) d t length_drop [of t ?S] by (simp del: length_drop)
      show "drop (t + h) ?S = avail2 @ pending hw2" using q(3) d by (metis drop_drop add.commute)
      show "ring_state wptr n (unat (count + of_nat (t + h))) avail2 (ev_put mem2 hw2 st2)" using q(4) st2(2) by (simp add: add.assoc)
      show "\<forall>i. i + 1 < t + h \<and> bs ! i \<longrightarrow> (unat count + i + 1) mod 8 = 0" using ab by blast
      show "avail2 \<noteq> [] \<longrightarrow> 0 < t + h \<and> bs ! (t + h - 1)" 
      proof
        assume "avail2 \<noteq> []"
        with q(7) have "0 < h" "drop t bs ! (h - 1)" by blast+
        moreover have "t \<le> length bs" using t len by simp
        moreover have "t + (h - 1) = t + h - 1" using \<open>0 < h\<close> by simp
        ultimately show "0 < t + h \<and> bs ! (t + h - 1)" using nth_drop [of t bs "h - 1"] by simp
      qed
    qed (use run2 in simp)
  qed
qed

end
