(* ===== verification/Efx_Ev_Props.thy ===== *)
theory Efx_Ev_Props
  imports Efx_Ev_Poll
begin

text \<open>
  Properties of event queues: polling as a queue of events, what a single event does to the driver, and the registers that the
  operations write.
\<close>

section \<open>A concrete queue\<close>

definition demo_mcdi :: "unit mcdi_nic" where
  "demo_mcdi = \<lparr>mn_mod_flags = 0x7, mn_dev = \<lparr>md_family = EFX_FAMILY_SIENA, md_features = 0, md_privilege_mask = 0, md_esmp = None,
       md_emip = \<lparr>emi_port = 1, emi_max_version = 1, emi_seq = 0, emi_pending_req = None, emi_ev_cpl = False, emi_new_epoch = False,
         emi_aborted = 0, emi_poll_cnt = 0, emi_mc_reboot_status = 0\<rparr>,
       md_hw = \<lparr>hw_smem = [], hw_cs_debug = Oword 0 0 0 0, hw_sft_status = 0, hw_dma = [], hw_db_lwrd = 0, hw_db_hwrd = 0\<rparr>\<rparr>,
     mn_emcop = None, mn_emtp = None, mn_ctx = (),
     mn_reqs = (\<lambda>_. mcdi_req 0 [] 0 [] 0)\<rparr>"

definition demo_ev_nic :: "efx_family \<Rightarrow> unit ev_nic" where
  "demo_ev_nic family = \<lparr>en_mcdi = demo_mcdi\<lparr>mn_dev := (mn_dev demo_mcdi)\<lparr>md_family := family\<rparr>\<rparr>, en_reset_flags = 0,
     en_port = \<lparr>ep_mac_type = EFX_MAC_SIENA, ep_phy_type = 0, ep_port = 0, ep_mac_pdu = 0, ep_mac_addr = [], ep_link_mode = EFX_LINK_UNKNOWN,
       ep_all_unicst = False, ep_mulcst = False, ep_all_mulcst = False, ep_brdcst = False, ep_fcntl = 0, ep_fcntl_autoneg = False,
       ep_multicst_hash = (EFX_ZERO_OWORD, EFX_ZERO_OWORD), ep_mulcst_addr_list = [], ep_mulcst_addr_count = 0, ep_loopback_type = 0,
       ep_loopback_link_mode = EFX_LINK_UNKNOWN, ep_phy_led_mode = EFX_PHY_LED_DEFAULT, ep_fixed_port_type = 0, ep_module_type = 0,
       ep_adv_cap_mask = 0, ep_lp_cap_mask = 0, ep_default_adv_cap_mask = 0, ep_phy_cap_mask = 0, ep_mac_drain = False,
       ep_mac_stats_pending = False, ep_current_bist = 0, ep_emop = None, ep_epop = None\<rparr>,
     en_sensor_maskp = None, en_sensor_mask_size = 0,
     en_bar = \<lparr>bar_regs = (\<lambda>_. EFX_ZERO_OWORD), bar_writes = []\<rparr>, en_ev_qcount = 0, en_eevop = Some family, en_ei_type = EFX_INTR_LINE,
     enc_evq_limit = 64, enc_buftbl_limit = 0x1000, enc_evq_timer_max_us = 0x1000, enc_evq_timer_quantum_ns = 6144,
     enc_rx_batching_enabled = True, enc_bug35388_workaround = False\<rparr>"

text \<open>A controller that writes the next of its events whenever the slot is free; the driver lists what its callbacks are given.\<close>

definition demo_dma :: "nat \<Rightarrow> (efx_qword list \<times> nat) ev_dma" where
  "demo_dma n mem hw = (case hw of
     (ev # evs, w) \<Rightarrow> if mem ! (w mod n) = EFX_SET_QWORD \<and> EFX_EV_PRESENT ev then (mem[w mod n := ev], (evs, w + 1)) else (mem, hw)
   | ([], w) \<Rightarrow> (mem, hw))"

lemma ev_write_eq: "mem ! (w mod n) = EFX_SET_QWORD \<Longrightarrow> EFX_EV_PRESENT ev \<Longrightarrow> ev_write n (mem, ev # evs, w) (mem[w mod n := ev], evs, Suc w)"
  using ev_write.intros by simp

lemma demo_source: "ev_source n (demo_dma n) fst snd"
  unfolding ev_source_def demo_dma_def by (auto split: list.splits prod.splits intro!: r_into_rtranclp ev_write_eq)

definition demo_cbs :: "nat list efx_ev_callbacks" where
  "demo_cbs = \<lparr>eec_initialized = Some (\<lambda>d. Some (False, d)), eec_rx = Some (\<lambda>l i s f d. Some (False, d @ [unat i])),
     eec_tx = Some (\<lambda>l i d. Some (False, d @ [unat i])), eec_exception = Some (\<lambda>c i d. Some (True, d)), eec_rxq_flush_done = None,
     eec_rxq_flush_failed = None, eec_txq_flush_done = None, eec_software = Some (\<lambda>m d. Some (False, d @ [unat m])), eec_sram = None,
     eec_wake_up = None, eec_timer = None, eec_link_change = None, eec_monitor = None, eec_mac_stats = None\<rparr>"

definition demo_evq :: "efx_family \<Rightarrow> efx_qword list \<Rightarrow> efx_evq" where
  "demo_evq family mem = (evq_new 3 (length mem) mem)\<lparr>ee_handlers := Some family\<rparr>"

definition demo_ev_state :: "efx_family \<Rightarrow> efx_qword list \<Rightarrow> 'h \<Rightarrow> (unit, nat list, 'h) ev_state" where
  "demo_ev_state family mem hw = \<lparr>es_evq = demo_evq family mem, es_nic = demo_ev_nic family, es_arg = [], es_hw = hw\<rparr>"

lemma demo_ev_simps [simp]:
  "ee_handlers (es_evq (demo_ev_state family mem hw)) = Some family" "es_hw (demo_ev_state family mem hw) = hw"
  "ee_esmp (es_evq (demo_ev_state family mem hw)) = mem" "ee_mask (es_evq (demo_ev_state family mem hw)) = of_nat (length mem) - 1"
  "ee_rxq_state (es_evq (demo_ev_state family mem hw)) = replicate EFX_EV_RX_NLABELS \<lparr>eers_rx_read_ptr = 0, eers_rx_mask = 0\<rparr>"
  "es_arg (demo_ev_state family mem hw) = []" "es_nic (demo_ev_state family mem hw) = demo_ev_nic family"
  by (simp_all add: demo_ev_state_def demo_evq_def evq_new_def)

lemmas qfield_eval = qfield_def efx_extract_native32_def efx_mask32_def

text \<open>An event that the driver generated itself.\<close>

lemma dispatch_drv_gen:
  assumes "qfield ev FSF_AZ_EV_CODE = FSE_AZ_EV_CODE_DRV_GEN_EV"
  shows "ev_dispatch ev eecp st = ev_handler_of siena_ev_drv_gen ef10_ev_drv_gen ev eecp (EFX_EV_QSTAT_INCR EV_ALL st)"
  using assms by (simp add: ev_dispatch_def Let_def FSE_AZ_EV_CODE_DRV_GEN_EV_def FSE_AZ_EV_CODE_RX_EV_def FSE_AZ_EV_CODE_TX_EV_def
      FSE_AZ_EV_CODE_DRIVER_EV_def)

lemma ucast_up_down: "ucast (ucast (data :: u16) :: u32) = data"
  by (rule bit_word_eqI) (auto simp: bit_simps)

lemma dispatch_software:
  assumes "qfield ev FSF_AZ_EV_CODE = FSE_AZ_EV_CODE_DRV_GEN_EV" "qfield ev FSF_AZ_EV_DATA_DW0 = ucast (data :: u16)"
    and "ee_handlers (es_evq st) = Some family" "eec_software eecp = Some f"
  shows "ev_dispatch ev eecp st = ev_call (f data) (EFX_EV_QSTAT_INCR EV_DRV_GEN (EFX_EV_QSTAT_INCR EV_ALL st))"
proof -
  have "unat data < 2 ^ 16" by (rule order_less_le_trans [OF unsigned_less]) simp
  then have "unat (ucast data :: u32) < 2 ^ 16" by (simp add: unsigned_ucast_eq take_bit_nat_eq_self)
  then have lt: "\<not> 2 ^ 16 \<le> (ucast data :: u32)" by (simp add: word_le_nat_alt)
  have "ESF_DZ_DRV_SUB_DATA_DW0 = FSF_AZ_EV_DATA_DW0" by (simp add: ESF_DZ_DRV_SUB_DATA_DW0_def FSF_AZ_EV_DATA_DW0_def)
  then show ?thesis using assms lt
    by (simp add: dispatch_drv_gen ev_handler_of_def siena_ev_drv_gen_def ef10_ev_drv_gen_def Let_def ucast_up_down)
qed

section \<open>Polling\<close>

text \<open>
  C27. Polling refines a queue. Let the waiting events be those in the ring and those that the controller will still write while
  the poll runs, and let each of them be handled by the driver without failing. The poll returns. It has handled the first \<open>h\<close> of
  the waiting events, in their order and each once, with the effects of running the handlers on this list; the ring holds the
  others, its slots behind the new position are cleared, and the position has moved by \<open>h\<close>. It stops early only after an event
  whose handler asked for it, and goes on after such an event only when it was the last of a batch of eight.
\<close>

theorem efx_ev_qpoll_fifo:
  assumes "ring_size n" "ev_source n dma pending wptr" "ring_state wptr n (unat count) avail st" "ee_mask (es_evq st) = of_nat n - 1"
    and "run_events eecp (avail @ pending (es_hw st)) st = Some (bs, stx)"
  shows "\<exists>h mem hw sth avail'. efx_ev_qpoll dma eecp count st = Some (count + of_nat h, ev_put mem hw sth)
    \<and> h \<le> length (avail @ pending (es_hw st)) \<and> drop h (avail @ pending (es_hw st)) = avail' @ pending hw
    \<and> ring_state wptr n (unat (count + of_nat h)) avail' (ev_put mem hw sth)
    \<and> run_events eecp (take h (avail @ pending (es_hw st))) st = Some (take h bs, sth)
    \<and> (\<forall>i. i + 1 < h \<and> bs ! i \<longrightarrow> (unat count + i + 1) mod 8 = 0) \<and> (avail' \<noteq> [] \<longrightarrow> 0 < h \<and> bs ! (h - 1))"
proof -
  have "ee_mask (es_evq st) = of_nat (n - 1)" using assms(4) ring_size_8(2) [OF assms(1)] by (simp add: of_nat_diff)
  from siena_ev_qpoll_ring [OF assms(2,1,3) this assms(5)] show ?thesis unfolding efx_ev_qpoll_def .
qed

lemma demo_present: "EFX_EV_PRESENT (Qword 5 0x70000000)" "EFX_EV_PRESENT (Qword 6 0x70000000)"
  by (simp_all add: EFX_EV_PRESENT_def qfield_eval EFX_DWORD_0_def EFX_DWORD_1_def)

lemma demo_software:
  "ee_handlers (es_evq st) = Some family \<Longrightarrow> ev_dispatch (Qword 5 0x70000000) demo_cbs st
    = ev_call (\<lambda>d. Some (False, d @ [5])) (EFX_EV_QSTAT_INCR EV_DRV_GEN (EFX_EV_QSTAT_INCR EV_ALL st))"
  "ee_handlers (es_evq st) = Some family \<Longrightarrow> ev_dispatch (Qword 6 0x70000000) demo_cbs st
    = ev_call (\<lambda>d. Some (False, d @ [6])) (EFX_EV_QSTAT_INCR EV_DRV_GEN (EFX_EV_QSTAT_INCR EV_ALL st))"
  by (subst dispatch_software [of _ 5 _ family demo_cbs "\<lambda>m d. Some (False, d @ [unat m])"]
        dispatch_software [of _ 6 _ family demo_cbs "\<lambda>m d. Some (False, d @ [unat m])"];
      simp add: qfield_eval FSF_AZ_EV_CODE_def FSE_AZ_EV_CODE_DRV_GEN_EV_def FSF_AZ_EV_DATA_DW0_def demo_cbs_def)+

theorem efx_ev_qpoll_fifo_witness:
  "\<exists>h mem hw sth avail'. efx_ev_qpoll (demo_dma 8) demo_cbs 0 (demo_ev_state EFX_FAMILY_SIENA (Qword 5 0x70000000 # replicate 7 EFX_SET_QWORD) ([Qword 6 0x70000000], 1 :: nat))
      = Some (0 + of_nat h, ev_put mem hw sth)
    \<and> h \<le> length ([Qword 5 0x70000000] @ [Qword 6 0x70000000]) \<and> drop h ([Qword 5 0x70000000] @ [Qword 6 0x70000000]) = avail' @ fst hw"
proof -
  let ?mem = "Qword 5 0x70000000 # replicate 7 EFX_SET_QWORD"
  let ?st = "demo_ev_state EFX_FAMILY_SIENA ?mem ([Qword 6 0x70000000], 1 :: nat)"
  have size: "ring_size 8" unfolding ring_size_def by (rule exI [of _ 3]) simp
  have ring: "ring_state snd 8 (unat (0 :: u32)) [Qword 5 0x70000000] ?st"
    by (auto simp: ring_state_def ring_mem_def demo_present nth_Cons split: nat.splits)
  have "\<exists>bs stx. run_events demo_cbs ([Qword 5 0x70000000] @ fst (es_hw ?st)) ?st = Some (bs, stx)"
    by (simp add: demo_software [of _ EFX_FAMILY_SIENA] ev_call_def)
  then obtain bs stx where "run_events demo_cbs ([Qword 5 0x70000000] @ fst (es_hw ?st)) ?st = Some (bs, stx)" by blast
  from efx_ev_qpoll_fifo [OF size demo_source ring _ this] show ?thesis by simp blast
qed



section \<open>Fields of quadwords\<close>





section \<open>Software events\<close>






section \<open>Receive events\<close>

text \<open>Flags are followed bit by bit through the notes of a handler.\<close>

lemma flag_bit: "f AND EFX_CKSUM_TCPUDP \<noteq> 0 \<longleftrightarrow> bit f 5" "f AND EFX_CKSUM_IPV4 \<noteq> 0 \<longleftrightarrow> bit f 6" "f AND EFX_DISCARD \<noteq> 0 \<longleftrightarrow> bit f 15"
  "f AND EFX_PKT_PREFIX_LEN \<noteq> 0 \<longleftrightarrow> bit f 13" "f AND EFX_PKT_VLAN_TAGGED \<noteq> 0 \<longleftrightarrow> bit f 4"
proof -
  have pow: "f AND 2 ^ k = 0 \<longleftrightarrow> \<not> bit f k" for k
    by (rule and_exp_eq_0_iff_not_bit)
  show "f AND EFX_CKSUM_TCPUDP \<noteq> 0 \<longleftrightarrow> bit f 5" using pow [of 5] by (simp add: EFX_CKSUM_TCPUDP_def)
  show "f AND EFX_CKSUM_IPV4 \<noteq> 0 \<longleftrightarrow> bit f 6" using pow [of 6] by (simp add: EFX_CKSUM_IPV4_def)
  show "f AND EFX_DISCARD \<noteq> 0 \<longleftrightarrow> bit f 15" using pow [of 15] by (simp add: EFX_DISCARD_def)
  show "f AND EFX_PKT_PREFIX_LEN \<noteq> 0 \<longleftrightarrow> bit f 13" using pow [of 13] by (simp add: EFX_PKT_PREFIX_LEN_def)
  show "f AND EFX_PKT_VLAN_TAGGED \<noteq> 0 \<longleftrightarrow> bit f 4" using pow [of 4] by (simp add: EFX_PKT_VLAN_TAGGED_def)
qed

lemma note_bit: "bit (fst (ev_note c s f x)) k = (if c then bit (f (fst x)) k else bit (fst x) k)"
  by (simp add: ev_note_def)

lemma flags_bits:
  "bit EFX_CKSUM_TCPUDP 5" "\<not> bit EFX_CKSUM_TCPUDP 6" "\<not> bit EFX_CKSUM_TCPUDP 15"
  "bit EFX_CKSUM_IPV4 6" "\<not> bit EFX_CKSUM_IPV4 5" "\<not> bit EFX_CKSUM_IPV4 15"
  "bit EFX_DISCARD 15" "\<not> bit EFX_DISCARD 5" "\<not> bit EFX_DISCARD 6"
  by (simp_all add: EFX_CKSUM_TCPUDP_def EFX_CKSUM_IPV4_def EFX_DISCARD_def)

lemma hdr_type_bits:
  "bit (fst (siena_rx_hdr_type t v6)) 5 \<Longrightarrow> t = FSE_AZ_RX_EV_HDR_TYPE_IPV4V6_TCP \<or> t = FSE_AZ_RX_EV_HDR_TYPE_IPV4V6_UDP"
  "bit (fst (siena_rx_hdr_type t v6)) 6 \<Longrightarrow> \<not> v6 \<and> t \<le> FSE_AZ_RX_EV_HDR_TYPE_IPV4V6_OTHER"
  by (auto simp: siena_rx_hdr_type_def EFX_PKT_TCP_def EFX_PKT_UDP_def EFX_PKT_IPV6_def EFX_PKT_IPV4_def EFX_CKSUM_TCPUDP_def EFX_CKSUM_IPV4_def
      FSE_AZ_RX_EV_HDR_TYPE_IPV4V6_TCP_def FSE_AZ_RX_EV_HDR_TYPE_IPV4V6_UDP_def FSE_AZ_RX_EV_HDR_TYPE_IPV4V6_OTHER_def split: if_splits)

lemma address_bits: "k \<in> {5, 6, 15} \<Longrightarrow> bit (fst (siena_rx_address eqp x)) k = bit (fst x) k"
  by (auto simp: siena_rx_address_def Let_def note_bit bit_simps EFX_ADDR_MISMATCH_def EFX_PKT_UNICAST_def EFX_CHECK_VLAN_def EFX_PKT_VLAN_TAGGED_def)

lemma not_ok_bits:
  assumes "siena_ev_rx_not_ok eqp flags st = (ignore, flags', st')"
  shows "\<not> ignore" "bit flags' 5 \<longleftrightarrow> bit flags 5 \<and> qfield eqp FSF_AZ_RX_EV_TCP_UDP_CHKSUM_ERR = 0 \<and> qfield eqp FSF_AZ_RX_EV_IP_FRAG_ERR = 0"
    "bit flags' 6 \<longleftrightarrow> bit flags 6 \<and> qfield eqp FSF_AZ_RX_EV_IP_HDR_CHKSUM_ERR = 0"
    "bit flags' 15 \<longleftrightarrow> bit flags 15 \<or> qfield eqp FSF_AZ_RX_EV_FRM_TRUNC \<noteq> 0 \<or> qfield eqp FSF_AZ_RX_EV_ETH_CRC_ERR \<noteq> 0
       \<or> qfield eqp FSF_AZ_RX_EV_PAUSE_FRM_ERR \<noteq> 0 \<or> qfield eqp FSF_AZ_RX_EV_BUF_OWNER_ID_ERR \<noteq> 0"
proof -
  have f: "flags' = fst (snd (siena_ev_rx_not_ok eqp flags st))" "ignore = fst (siena_ev_rx_not_ok eqp flags st)" using assms by simp_all
  show "\<not> ignore" unfolding f(2) by (simp add: siena_ev_rx_not_ok_def Let_def)
  note d = siena_ev_rx_not_ok_def Let_def note_bit bit_simps EFX_ADDR_MISMATCH_def EFX_DISCARD_def EFX_CKSUM_IPV4_def EFX_CKSUM_TCPUDP_def EFX_PKT_TCP_def EFX_PKT_UDP_def
  show "bit flags' 5 \<longleftrightarrow> bit flags 5 \<and> qfield eqp FSF_AZ_RX_EV_TCP_UDP_CHKSUM_ERR = 0 \<and> qfield eqp FSF_AZ_RX_EV_IP_FRAG_ERR = 0"
    unfolding f(1) by (auto simp: d)
  show "bit flags' 6 \<longleftrightarrow> bit flags 6 \<and> qfield eqp FSF_AZ_RX_EV_IP_HDR_CHKSUM_ERR = 0" unfolding f(1) by (auto simp: d)
  show "bit flags' 15 \<longleftrightarrow> bit flags 15 \<or> qfield eqp FSF_AZ_RX_EV_FRM_TRUNC \<noteq> 0 \<or> qfield eqp FSF_AZ_RX_EV_ETH_CRC_ERR \<noteq> 0
      \<or> qfield eqp FSF_AZ_RX_EV_PAUSE_FRM_ERR \<noteq> 0 \<or> qfield eqp FSF_AZ_RX_EV_BUF_OWNER_ID_ERR \<noteq> 0" unfolding f(1) by (auto simp: d)
qed

text \<open>
  C29. What a Siena receive event lets the driver trust. The callback is given the label, the descriptor and the length of the event; a
  checksum is reported as good only for packets of its protocol, and only if the event has no error or not the error of that checksum
  (for TCP and UDP nor a fragment); a packet that was truncated, has a bad CRC or ran out of buffers is marked as discarded.
\<close>

theorem siena_ev_rx_flags:
  assumes "eec_rx eecp = Some f"
  shows "\<exists>flags st'. siena_ev_rx eqp eecp st = ev_call (f (qfield eqp FSF_AZ_RX_EV_Q_LABEL) (qfield eqp FSF_AZ_RX_EV_DESC_PTR) (qfield eqp FSF_AZ_RX_EV_BYTE_CNT) flags) st'
    \<and> (flags AND EFX_CKSUM_TCPUDP \<noteq> 0 \<longrightarrow> qfield eqp FSF_AZ_RX_EV_HDR_TYPE \<in> {FSE_AZ_RX_EV_HDR_TYPE_IPV4V6_TCP, FSE_AZ_RX_EV_HDR_TYPE_IPV4V6_UDP}
        \<and> (qfield eqp FSF_AZ_RX_EV_PKT_OK \<noteq> 0 \<or> qfield eqp FSF_AZ_RX_EV_TCP_UDP_CHKSUM_ERR = 0 \<and> qfield eqp FSF_AZ_RX_EV_IP_FRAG_ERR = 0))
    \<and> (flags AND EFX_CKSUM_IPV4 \<noteq> 0 \<longrightarrow> qfield eqp FSF_CZ_RX_EV_IPV6_PKT = 0 \<and> qfield eqp FSF_AZ_RX_EV_HDR_TYPE \<le> FSE_AZ_RX_EV_HDR_TYPE_IPV4V6_OTHER
        \<and> (qfield eqp FSF_AZ_RX_EV_PKT_OK \<noteq> 0 \<or> qfield eqp FSF_AZ_RX_EV_IP_HDR_CHKSUM_ERR = 0))
    \<and> (qfield eqp FSF_AZ_RX_EV_PKT_OK = 0 \<and> (qfield eqp FSF_AZ_RX_EV_FRM_TRUNC \<noteq> 0 \<or> qfield eqp FSF_AZ_RX_EV_ETH_CRC_ERR \<noteq> 0
          \<or> qfield eqp FSF_AZ_RX_EV_PAUSE_FRM_ERR \<noteq> 0 \<or> qfield eqp FSF_AZ_RX_EV_BUF_OWNER_ID_ERR \<noteq> 0) \<longrightarrow> flags AND EFX_DISCARD \<noteq> 0)"
proof -
  let ?v6 = "qfield eqp FSF_CZ_RX_EV_IPV6_PKT \<noteq> 0" and ?ok = "qfield eqp FSF_AZ_RX_EV_PKT_OK \<noteq> 0"
  obtain hf stat where h: "siena_rx_hdr_type (qfield eqp FSF_AZ_RX_EV_HDR_TYPE) ?v6 = (hf, stat)" by fastforce
  obtain ignore flags1 st1 where r: "siena_rx_headers eqp (EFX_EV_QSTAT_INCR EV_RX st) = (ignore, flags1, st1)" by (metis prod_cases3)
  obtain flags st2 where a: "siena_rx_address eqp (flags1, st1) = (flags, st2)" by fastforce
  have s: "siena_rx_headers eqp (EFX_EV_QSTAT_INCR EV_RX st) = (if ?ok then (False, hf, EFX_EV_QSTAT_INCR stat (EFX_EV_QSTAT_INCR EV_RX st))
      else siena_ev_rx_not_ok eqp hf (EFX_EV_QSTAT_INCR stat (EFX_EV_QSTAT_INCR EV_RX st)))" by (simp add: siena_rx_headers_def h Let_def)
  let ?discard = "qfield eqp FSF_AZ_RX_EV_FRM_TRUNC \<noteq> 0 \<or> qfield eqp FSF_AZ_RX_EV_ETH_CRC_ERR \<noteq> 0
    \<or> qfield eqp FSF_AZ_RX_EV_PAUSE_FRM_ERR \<noteq> 0 \<or> qfield eqp FSF_AZ_RX_EV_BUF_OWNER_ID_ERR \<noteq> 0"
  have bits: "\<not> ignore \<and> (bit flags1 5 \<longrightarrow> bit hf 5 \<and> (?ok \<or> qfield eqp FSF_AZ_RX_EV_TCP_UDP_CHKSUM_ERR = 0 \<and> qfield eqp FSF_AZ_RX_EV_IP_FRAG_ERR = 0))
    \<and> (bit flags1 6 \<longrightarrow> bit hf 6 \<and> (?ok \<or> qfield eqp FSF_AZ_RX_EV_IP_HDR_CHKSUM_ERR = 0)) \<and> (\<not> ?ok \<and> ?discard \<longrightarrow> bit flags1 15)"
  proof (cases ?ok)
    case True
    then show ?thesis using r s by simp
  next
    case False
    then have "siena_ev_rx_not_ok eqp hf (EFX_EV_QSTAT_INCR stat (EFX_EV_QSTAT_INCR EV_RX st)) = (ignore, flags1, st1)" using r s by simp
    from not_ok_bits [OF this] show ?thesis using False by simp
  qed
  have same: "bit flags 5 = bit flags1 5" "bit flags 6 = bit flags1 6" "bit flags 15 = bit flags1 15"
    using address_bits [of _ eqp "(flags1, st1)"] by (simp_all add: a)
  have hd: "bit hf 5 \<Longrightarrow> qfield eqp FSF_AZ_RX_EV_HDR_TYPE \<in> {FSE_AZ_RX_EV_HDR_TYPE_IPV4V6_TCP, FSE_AZ_RX_EV_HDR_TYPE_IPV4V6_UDP}"
    "bit hf 6 \<Longrightarrow> qfield eqp FSF_CZ_RX_EV_IPV6_PKT = 0 \<and> qfield eqp FSF_AZ_RX_EV_HDR_TYPE \<le> FSE_AZ_RX_EV_HDR_TYPE_IPV4V6_OTHER"
    using hdr_type_bits [of "qfield eqp FSF_AZ_RX_EV_HDR_TYPE" ?v6] h by auto
  have "siena_ev_rx eqp eecp st = ev_call (f (qfield eqp FSF_AZ_RX_EV_Q_LABEL) (qfield eqp FSF_AZ_RX_EV_DESC_PTR) (qfield eqp FSF_AZ_RX_EV_BYTE_CNT) flags) st2"
    using bits by (simp add: siena_ev_rx_def r a assms Let_def)
  then show ?thesis unfolding flag_bit using bits same hd by blast
qed

theorem siena_ev_rx_flags_witness:
  "\<exists>flags st'. siena_ev_rx (Qword 0x00400007 0x00020402) demo_cbs (demo_ev_state EFX_FAMILY_SIENA [] ())
      = ev_call (\<lambda>d. Some (False, d @ [unat (7 :: u32)])) st' \<and> flags AND EFX_DISCARD \<noteq> 0"
proof -
  let ?ev = "Qword 0x00400007 0x00020402"
  have f: "eec_rx demo_cbs = Some (\<lambda>l i s f d. Some (False, d @ [unat i]))" by (simp add: demo_cbs_def)
  have "qfield ?ev FSF_AZ_RX_EV_Q_LABEL = 2" "qfield ?ev FSF_AZ_RX_EV_DESC_PTR = 7" "qfield ?ev FSF_AZ_RX_EV_BYTE_CNT = 0x40"
    "qfield ?ev FSF_AZ_RX_EV_PKT_OK = 0" "qfield ?ev FSF_AZ_RX_EV_FRM_TRUNC = 1"
    by (simp_all add: qfield_eval FSF_AZ_RX_EV_Q_LABEL_def FSF_AZ_RX_EV_DESC_PTR_def FSF_AZ_RX_EV_BYTE_CNT_def FSF_AZ_RX_EV_PKT_OK_def
        FSF_AZ_RX_EV_FRM_TRUNC_def)
  with siena_ev_rx_flags [OF f, of ?ev "demo_ev_state EFX_FAMILY_SIENA [] ()"] show ?thesis by (simp only: one_neq_zero simp_thms) blast
qed

text \<open>The same of EF10, where the classes of the headers stand for the type.\<close>

lemma ef10_l4_bits: "k \<in> {5, 6, 15} \<Longrightarrow> bit (fst (ef10_rx_l4 c t u oth x)) k = bit (fst x) k"
  by (auto simp: ef10_rx_l4_def note_bit bit_simps EFX_PKT_TCP_def EFX_PKT_UDP_def)

lemma tcp_udp: "EFX_PKT_TCP OR EFX_PKT_UDP = 0x600"
  by (simp add: EFX_PKT_TCP_def EFX_PKT_UDP_def)

lemma ef10_l4_class:
  "fst (ef10_rx_l4 c t u oth x) AND 0x600 \<noteq> 0 \<Longrightarrow> fst x AND 0x600 \<noteq> 0 \<or> c = ESE_DZ_L4_CLASS_TCP \<or> c = ESE_DZ_L4_CLASS_UDP"
  by (auto simp: ef10_rx_l4_def ev_note_def split: if_splits)

lemma ef10_parse_bits:
  assumes "fst x AND (EFX_PKT_TCP OR EFX_PKT_UDP) = 0"
  shows "bit (fst (ef10_rx_parse eqp x)) 5 \<Longrightarrow> \<not> bit (fst x) 5 \<Longrightarrow>
      qfield eqp ESF_DZ_RX_L4_CLASS \<in> {ESE_DZ_L4_CLASS_TCP, ESE_DZ_L4_CLASS_UDP} \<and> qfield eqp ESF_DZ_RX_TCPUDP_CKSUM_ERR = 0"
    "bit (fst (ef10_rx_parse eqp x)) 6 \<Longrightarrow> \<not> bit (fst x) 6 \<Longrightarrow>
      qfield eqp ESF_DZ_RX_L3_CLASS \<in> {ESE_DZ_L3_CLASS_IP4, ESE_DZ_L3_CLASS_IP4_FRAG} \<and> qfield eqp ESF_DZ_RX_IPCKSUM_ERR = 0"
    "bit (fst (ef10_rx_parse eqp x)) 15 = bit (fst x) 15"
proof -
  let ?vlan = "qfield eqp ESF_DZ_RX_ETH_TAG_CLASS = ESE_DZ_ETH_TAG_CLASS_VLAN1 \<or> qfield eqp ESF_DZ_RX_ETH_TAG_CLASS = ESE_DZ_ETH_TAG_CLASS_VLAN2"
  let ?ip4 = "qfield eqp ESF_DZ_RX_L3_CLASS \<in> {ESE_DZ_L3_CLASS_IP4, ESE_DZ_L3_CLASS_IP4_FRAG}"
  define v where "v = (if ?vlan then (fst x OR EFX_PKT_VLAN_TAGGED, snd x) else x)"
  define y where "y = (if ?ip4 then let w = (fst v OR EFX_PKT_IPV4, snd v);
        w = (if qfield eqp ESF_DZ_RX_IPCKSUM_ERR \<noteq> 0 then ev_note True EV_RX_IPV4_HDR_CHKSUM_ERR (\<lambda>f. f) w else (fst w OR EFX_CKSUM_IPV4, snd w))
      in ef10_rx_l4 (qfield eqp ESF_DZ_RX_L4_CLASS) EV_RX_TCP_IPV4 EV_RX_UDP_IPV4 EV_RX_OTHER_IPV4 w
    else if qfield eqp ESF_DZ_RX_L3_CLASS = ESE_DZ_L3_CLASS_IP6 \<or> qfield eqp ESF_DZ_RX_L3_CLASS = ESE_DZ_L3_CLASS_IP6_FRAG
      then ef10_rx_l4 (qfield eqp ESF_DZ_RX_L4_CLASS) EV_RX_TCP_IPV6 EV_RX_UDP_IPV6 EV_RX_OTHER_IPV6 (fst v OR EFX_PKT_IPV6, snd v)
      else ev_note True EV_RX_NON_IP (\<lambda>f. f) v)"
  have p: "ef10_rx_parse eqp x = (if fst y AND (EFX_PKT_TCP OR EFX_PKT_UDP) \<noteq> 0
      then if qfield eqp ESF_DZ_RX_TCPUDP_CKSUM_ERR \<noteq> 0 then ev_note True EV_RX_TCP_UDP_CHKSUM_ERR (\<lambda>f. f) y else (fst y OR EFX_CKSUM_TCPUDP, snd y)
      else y)" by (simp add: ef10_rx_parse_def Let_def y_def v_def)
  have vb: "bit (fst v) k = bit (fst x) k" if "k \<in> {5, 6, 15}" for k using that by (auto simp: v_def bit_simps EFX_PKT_VLAN_TAGGED_def)
  have vt: "fst v AND (EFX_PKT_TCP OR EFX_PKT_UDP) = 0"
    using assms by (simp add: v_def bit.conj_disj_distrib bit.conj_disj_distrib2 EFX_PKT_VLAN_TAGGED_def EFX_PKT_TCP_def EFX_PKT_UDP_def)
  have y5: "bit (fst y) 5 = bit (fst x) 5" "bit (fst y) 15 = bit (fst x) 15"
    by (simp_all add: y_def Let_def ef10_l4_bits bit_simps vb note_bit EFX_PKT_IPV4_def EFX_PKT_IPV6_def EFX_CKSUM_IPV4_def)
  have y6: "bit (fst y) 6 \<Longrightarrow> bit (fst x) 6 \<or> ?ip4 \<and> qfield eqp ESF_DZ_RX_IPCKSUM_ERR = 0"
    by (auto simp: y_def Let_def ef10_l4_bits bit_simps vb note_bit EFX_PKT_IPV4_def EFX_PKT_IPV6_def split: if_splits)
  have yt: "fst y AND (EFX_PKT_TCP OR EFX_PKT_UDP) \<noteq> 0 \<Longrightarrow> qfield eqp ESF_DZ_RX_L4_CLASS \<in> {ESE_DZ_L4_CLASS_TCP, ESE_DZ_L4_CLASS_UDP}"
    using vt by (auto simp: y_def Let_def bit.conj_disj_distrib2 ev_note_def EFX_PKT_IPV4_def EFX_PKT_IPV6_def EFX_CKSUM_IPV4_def
        tcp_udp split: if_splits dest!: ef10_l4_class)
  show "bit (fst (ef10_rx_parse eqp x)) 5 \<Longrightarrow> \<not> bit (fst x) 5 \<Longrightarrow>
      qfield eqp ESF_DZ_RX_L4_CLASS \<in> {ESE_DZ_L4_CLASS_TCP, ESE_DZ_L4_CLASS_UDP} \<and> qfield eqp ESF_DZ_RX_TCPUDP_CKSUM_ERR = 0"
    using yt y5(1) by (auto simp: p note_bit split: if_splits)
  show "bit (fst (ef10_rx_parse eqp x)) 6 \<Longrightarrow> \<not> bit (fst x) 6 \<Longrightarrow>
      qfield eqp ESF_DZ_RX_L3_CLASS \<in> {ESE_DZ_L3_CLASS_IP4, ESE_DZ_L3_CLASS_IP4_FRAG} \<and> qfield eqp ESF_DZ_RX_IPCKSUM_ERR = 0"
    using y6 by (auto simp: p note_bit bit_simps flags_bits split: if_splits)
  show "bit (fst (ef10_rx_parse eqp x)) 15 = bit (fst x) 15" using y5(2) by (simp add: p note_bit bit_simps flags_bits)
qed

lemma ef10_flags_bits:
  assumes "fst x AND (EFX_PKT_TCP OR EFX_PKT_UDP OR EFX_CKSUM_TCPUDP OR EFX_CKSUM_IPV4 OR EFX_DISCARD) = 0"
  shows "bit (fst (ef10_rx_flags eqp x)) 15 \<longleftrightarrow> qfield eqp ESF_DZ_RX_ECC_ERR \<noteq> 0 \<or> qfield eqp ESF_DZ_RX_ECRC_ERR \<noteq> 0" (is ?discard)
    "bit (fst (ef10_rx_flags eqp x)) 5 \<Longrightarrow> qfield eqp ESF_DZ_RX_L4_CLASS \<in> {ESE_DZ_L4_CLASS_TCP, ESE_DZ_L4_CLASS_UDP}
      \<and> qfield eqp ESF_DZ_RX_TCPUDP_CKSUM_ERR = 0 \<and> qfield eqp ESF_DZ_RX_PARSE_INCOMPLETE = 0"
    "bit (fst (ef10_rx_flags eqp x)) 6 \<Longrightarrow> qfield eqp ESF_DZ_RX_L3_CLASS \<in> {ESE_DZ_L3_CLASS_IP4, ESE_DZ_L3_CLASS_IP4_FRAG}
      \<and> qfield eqp ESF_DZ_RX_IPCKSUM_ERR = 0 \<and> qfield eqp ESF_DZ_RX_PARSE_INCOMPLETE = 0"
proof -
  have x: "fst x AND (EFX_PKT_TCP OR EFX_PKT_UDP) = 0" "fst x AND EFX_CKSUM_TCPUDP = 0" "fst x AND EFX_CKSUM_IPV4 = 0" "fst x AND EFX_DISCARD = 0"
    using assms by (simp_all add: bit.conj_disj_distrib or_eq_0_iff)
  then have b: "\<not> bit (fst x) 5" "\<not> bit (fst x) 6" "\<not> bit (fst x) 15" using flag_bit(1-3) [of "fst x"] by simp_all
  have ok: "fst (ef10_rx_flags eqp x) = (if qfield eqp ESF_DZ_RX_ECC_ERR \<noteq> 0 \<or> qfield eqp ESF_DZ_RX_ECRC_ERR \<noteq> 0 then fst x OR EFX_DISCARD
      else if qfield eqp ESF_DZ_RX_PARSE_INCOMPLETE \<noteq> 0 then fst x else fst (ef10_rx_parse eqp x))"
    by (simp add: ef10_rx_flags_def Let_def ev_note_def)
  show ?discard using b ef10_parse_bits(3) [OF x(1)] by (auto simp: ok bit_simps flags_bits)
  show "bit (fst (ef10_rx_flags eqp x)) 5 \<Longrightarrow> qfield eqp ESF_DZ_RX_L4_CLASS \<in> {ESE_DZ_L4_CLASS_TCP, ESE_DZ_L4_CLASS_UDP}
      \<and> qfield eqp ESF_DZ_RX_TCPUDP_CKSUM_ERR = 0 \<and> qfield eqp ESF_DZ_RX_PARSE_INCOMPLETE = 0"
    using b(1) ef10_parse_bits(1) [OF x(1), of eqp] by (auto simp: ok bit_simps flags_bits split: if_splits)
  show "bit (fst (ef10_rx_flags eqp x)) 6 \<Longrightarrow> qfield eqp ESF_DZ_RX_L3_CLASS \<in> {ESE_DZ_L3_CLASS_IP4, ESE_DZ_L3_CLASS_IP4_FRAG}
      \<and> qfield eqp ESF_DZ_RX_IPCKSUM_ERR = 0 \<and> qfield eqp ESF_DZ_RX_PARSE_INCOMPLETE = 0"
    using b(2) ef10_parse_bits(2) [OF x(1), of eqp] by (auto simp: ok bit_simps flags_bits split: if_splits)
qed

lemma mask32_4: "efx_mask32 4 = 0xf"
  by (simp add: efx_mask32_def)

lemma desc_count: "ef10_rx_desc_count ((p + of_nat k) AND 0xf) p = of_nat (k mod 16)"
proof -
  have f: "x AND 0xf = take_bit 4 x" for x :: u32 by (simp add: take_bit_eq_mask mask_eq_decr_exp)
  have "uint (take_bit 4 (take_bit 4 (p + of_nat k) - p)) = ((uint p + int k) mod 2 ^ 32 mod 16 - uint p) mod 2 ^ 32 mod 16"
    by (simp add: uint_mod_distrib uint_word_ariths unsigned_of_nat take_bit_eq_mod of_nat_mod mod_simps)
  also have "\<dots> = int k mod 16"
    by (simp add: mod_mod_cancel mod_diff_left_eq)
  also have "\<dots> = uint (of_nat (k mod 16) :: u32)" by (simp add: uint_nat unat_of_nat zmod_int)
  finally have "take_bit 4 (take_bit 4 (p + of_nat k) - p) = of_nat (k mod 16)" by (simp only: word_uint_eq_iff)
  then show ?thesis by (simp only: ef10_rx_desc_count_def ESF_DZ_RX_DSC_PTR_LBITS_def mask32_4 f snd_conv)
qed

lemma qfield_below: "0 < snd fd \<Longrightarrow> snd fd < 32 \<Longrightarrow> unat (qfield ev fd) < 2 ^ snd fd"
proof -
  assume w: "0 < snd fd" "snd fd < 32"
  obtain v where v: "qfield ev fd = v AND efx_mask32 (snd fd)" by (cases ev) (simp add: qfield_def Let_def)
  have "efx_mask32 (snd fd) = mask (snd fd)" using w(2) by (simp add: efx_mask32_def mask_eq_decr_exp flip: push_bit_eq_mult push_bit_of_1)
  then have "qfield ev fd = take_bit (snd fd) v" by (simp only: v take_bit_eq_mask)
  then show ?thesis by (simp only: unsigned_take_bit_eq take_bit_nat_less_exp)
qed

lemma note_keeps [simp]: "ee_rxq_state (es_evq (snd (ev_note c s f x))) = ee_rxq_state (es_evq (snd x))"
  by (simp add: ev_note_def)

lemma ef10_rx_flags_keeps: "ee_rxq_state (es_evq (snd (ef10_rx_flags eqp x))) = ee_rxq_state (es_evq (snd x))"
  by (simp add: ef10_rx_flags_def ef10_rx_parse_def ef10_rx_l4_def Let_def)

text \<open>What the handler computes before it calls the driver.\<close>

lemma ef10_ev_rx_steps:
  fixes st :: "('c, 'd, 'h) ev_state"
  assumes f: "eec_rx eecp = Some f" and up: "\<not> ev_resetting (es_nic st)" "qfield eqp ESF_DZ_RX_DROP_EVENT = 0"
    and len: "length (ee_rxq_state (es_evq st)) = EFX_EV_RX_NLABELS"
  obtains flags st' flags0 d where
    "ef10_ev_rx eqp eecp st = ev_call (f (qfield eqp ESF_DZ_RX_QLABEL)
        ((eers_rx_read_ptr (ee_rxq_state (es_evq st) ! unat (qfield eqp ESF_DZ_RX_QLABEL)) + d - 1) AND eers_rx_mask (ee_rxq_state (es_evq st) ! unat (qfield eqp ESF_DZ_RX_QLABEL)))
        (qfield eqp ESF_DZ_RX_BYTES) flags) st'"
    "d = ef10_rx_desc_count (qfield eqp ESF_DZ_RX_DSC_PTR_LBITS) (eers_rx_read_ptr (ee_rxq_state (es_evq st) ! unat (qfield eqp ESF_DZ_RX_QLABEL)))"
    "ee_rxq_state (es_evq st') = (ee_rxq_state (es_evq st))[unat (qfield eqp ESF_DZ_RX_QLABEL) :=
       (ee_rxq_state (es_evq st) ! unat (qfield eqp ESF_DZ_RX_QLABEL))\<lparr>eers_rx_read_ptr :=
          eers_rx_read_ptr (ee_rxq_state (es_evq st) ! unat (qfield eqp ESF_DZ_RX_QLABEL)) + d\<rparr>]"
    "\<exists>st0 :: ('c, 'd, 'h) ev_state. flags = fst (ef10_rx_flags eqp (flags0, st0))" "bit flags0 13 \<longleftrightarrow> 1 < d"
    "flags0 AND (EFX_PKT_TCP OR EFX_PKT_UDP OR EFX_CKSUM_TCPUDP OR EFX_CKSUM_IPV4 OR EFX_DISCARD) = 0"
proof -
  let ?label = "unat (qfield eqp ESF_DZ_RX_QLABEL)" and ?states = "ee_rxq_state (es_evq st)"
  let ?e = "?states ! ?label"
  define d where "d = ef10_rx_desc_count (qfield eqp ESF_DZ_RX_DSC_PTR_LBITS) (eers_rx_read_ptr ?e)"
  define e where "e = ?e\<lparr>eers_rx_read_ptr := eers_rx_read_ptr ?e + d\<rparr>"
  have l: "?label < length ?states" using qfield_below [of ESF_DZ_RX_QLABEL eqp] len by (simp add: ESF_DZ_RX_QLABEL_def EFX_EV_RX_NLABELS_def)
  define fl where "fl = (if qfield eqp ESF_DZ_RX_MAC_CLASS = ESE_DZ_MAC_CLASS_UCAST
     then (if qfield eqp ESF_DZ_RX_CONT \<noteq> 0 then 0 OR EFX_PKT_CONT else 0) OR EFX_PKT_UNICAST else if qfield eqp ESF_DZ_RX_CONT \<noteq> 0 then 0 OR EFX_PKT_CONT else 0)"
  define x where "x = ev_note (1 < d) EV_RX_BATCH (\<lambda>f. f OR EFX_PKT_PREFIX_LEN) (fl, ev_set_rxq_state (?states[?label := e]) (EFX_EV_QSTAT_INCR EV_RX st))"
  obtain flags st' where y: "ef10_rx_flags eqp x = (flags, st')" by fastforce
  have "ee_rxq_state (es_evq st') = ee_rxq_state (es_evq (snd x))" using ef10_rx_flags_keeps [of eqp x] y by simp
  then have r: "ee_rxq_state (es_evq st') = ?states[?label := e]"
    by (simp add: x_def ev_note_def ev_set_rxq_state_def EFX_EV_QSTAT_INCR_def)
  have q: "ef10_ev_rx eqp eecp st = ev_call (f (qfield eqp ESF_DZ_RX_QLABEL) ((eers_rx_read_ptr ?e + d - 1) AND eers_rx_mask ?e) (qfield eqp ESF_DZ_RX_BYTES) flags) st'"
    using up l by (simp add: ef10_ev_rx_def Let_def rd_def wr_def f y d_def [symmetric] e_def [symmetric] fl_def [symmetric] x_def [symmetric])
  show thesis
  proof (rule that [OF q d_def r [unfolded e_def], of "fst x"])
    show "\<exists>st0 :: ('c, 'd, 'h) ev_state. flags = fst (ef10_rx_flags eqp (fst x, st0))" using y by (intro exI [of _ "snd x"]) simp
    show "bit (fst x) 13 \<longleftrightarrow> 1 < d"
      by (auto simp: x_def fl_def note_bit bit_simps EFX_PKT_CONT_def EFX_PKT_UNICAST_def EFX_PKT_PREFIX_LEN_def)
    show "fst x AND (EFX_PKT_TCP OR EFX_PKT_UDP OR EFX_CKSUM_TCPUDP OR EFX_CKSUM_IPV4 OR EFX_DISCARD) = 0"
      by (auto simp: x_def fl_def ev_note_def bit.conj_disj_distrib2 EFX_PKT_CONT_def EFX_PKT_UNICAST_def EFX_PKT_PREFIX_LEN_def
          EFX_PKT_TCP_def EFX_PKT_UDP_def EFX_CKSUM_TCPUDP_def EFX_CKSUM_IPV4_def EFX_DISCARD_def)
  qed
qed

text \<open>
  C28. An EF10 receive event covers the \<open>k\<close> descriptors behind the position that the queue keeps for the label, and carries the low four
  bits of the new position. For up to 15 descriptors the handler moves the position by \<open>k\<close>, reports the last of these descriptors, and
  says that there are prefix lengths exactly when there is more than one packet. A batch of 16, the largest that the driver allows the
  controller, looks like an event for no descriptor: the position stays, and the descriptor reported is the one before the batch.
\<close>

theorem ef10_ev_rx_position:
  fixes p m :: u32 and k :: nat and st :: "('c, 'd, 'h) ev_state"
  assumes "eec_rx eecp = Some f" "\<not> ev_resetting (es_nic st)" "qfield eqp ESF_DZ_RX_DROP_EVENT = 0"
    and "length (ee_rxq_state (es_evq st)) = EFX_EV_RX_NLABELS"
    and "ee_rxq_state (es_evq st) ! unat (qfield eqp ESF_DZ_RX_QLABEL) = \<lparr>eers_rx_read_ptr = p, eers_rx_mask = m\<rparr>"
    and "k \<le> 16" "qfield eqp ESF_DZ_RX_DSC_PTR_LBITS = (p + of_nat k) AND 0xf"
  shows "\<exists>flags st'. ef10_ev_rx eqp eecp st
      = ev_call (f (qfield eqp ESF_DZ_RX_QLABEL) ((p + of_nat (if k = 16 then 0 else k) - 1) AND m) (qfield eqp ESF_DZ_RX_BYTES) flags) st'
    \<and> ee_rxq_state (es_evq st') = (ee_rxq_state (es_evq st))[unat (qfield eqp ESF_DZ_RX_QLABEL) :=
        \<lparr>eers_rx_read_ptr = p + of_nat (if k = 16 then 0 else k), eers_rx_mask = m\<rparr>]
    \<and> (flags AND EFX_PKT_PREFIX_LEN \<noteq> 0 \<longleftrightarrow> 1 < k \<and> k \<noteq> 16)"
proof -
  let ?d = "if k = 16 then 0 else k"
  have d: "ef10_rx_desc_count (qfield eqp ESF_DZ_RX_DSC_PTR_LBITS) p = of_nat ?d"
  proof -
    have "k mod 16 = ?d" using assms(6) by simp
    then show ?thesis by (simp only: assms(7) desc_count)
  qed
  have lt: "(1 :: u32) < of_nat ?d \<longleftrightarrow> 1 < k \<and> k \<noteq> 16"
    using assms(6) by (auto simp: word_less_nat_alt unat_of_nat)
  have keep: "bit (fst (ef10_rx_flags eqp x)) 13 = bit (fst x) 13" for x :: "u16 \<times> ('c, 'd, 'h) ev_state"
    by (simp add: ef10_rx_flags_def ef10_rx_parse_def ef10_rx_l4_def Let_def note_bit bit_simps EFX_DISCARD_def EFX_PKT_VLAN_TAGGED_def EFX_PKT_IPV4_def
        EFX_PKT_IPV6_def EFX_CKSUM_IPV4_def EFX_CKSUM_TCPUDP_def EFX_PKT_TCP_def EFX_PKT_UDP_def)
  from ef10_ev_rx_steps [OF assms(1-4), unfolded assms(5)] d obtain flags st' flags0 where
    q: "ef10_ev_rx eqp eecp st = ev_call (f (qfield eqp ESF_DZ_RX_QLABEL) ((p + of_nat ?d - 1) AND m) (qfield eqp ESF_DZ_RX_BYTES) flags) st'"
    "ee_rxq_state (es_evq st') = (ee_rxq_state (es_evq st))[unat (qfield eqp ESF_DZ_RX_QLABEL) := \<lparr>eers_rx_read_ptr = p + of_nat ?d, eers_rx_mask = m\<rparr>]"
    "\<exists>st0 :: ('c, 'd, 'h) ev_state. flags = fst (ef10_rx_flags eqp (flags0, st0))" "bit flags0 13 \<longleftrightarrow> (1 :: u32) < of_nat ?d"
    by (metis efx_evq_rxq_state.select_convs(1,2) efx_evq_rxq_state.update_convs(1))
  have "bit flags 13 \<longleftrightarrow> 1 < k \<and> k \<noteq> 16" using q(3,4) keep lt by auto
  with q(1,2) show ?thesis unfolding flag_bit by blast
qed

definition demo_rx_state :: "(unit, nat list, unit) ev_state" where
  "demo_rx_state = ev_set_rxq_state (replicate EFX_EV_RX_NLABELS \<lparr>eers_rx_read_ptr = 14, eers_rx_mask = 0x1ff\<rparr>) (demo_ev_state EFX_FAMILY_HUNTINGTON [] ())"

lemma demo_rx_state:
  "ee_rxq_state (es_evq demo_rx_state) = replicate EFX_EV_RX_NLABELS \<lparr>eers_rx_read_ptr = 14, eers_rx_mask = 0x1ff\<rparr>"
  "\<not> ev_resetting (es_nic demo_rx_state)" "eec_rx demo_cbs = Some (\<lambda>l i s f d. Some (False, d @ [unat i]))"
  by (simp_all add: demo_rx_state_def ev_set_rxq_state_def ev_resetting_def demo_ev_nic_def demo_cbs_def)

theorem ef10_ev_rx_position_witness:
  "\<exists>flags st'. ef10_ev_rx (Qword 0x20040 0x10000) demo_cbs demo_rx_state = ev_call (\<lambda>d. Some (False, d @ [unat (16 :: u32)])) st'
    \<and> ee_rxq_state (es_evq st') = (replicate EFX_EV_RX_NLABELS \<lparr>eers_rx_read_ptr = 14, eers_rx_mask = 0x1ff\<rparr>)[2 := \<lparr>eers_rx_read_ptr = 17, eers_rx_mask = 0x1ff\<rparr>]
    \<and> flags AND EFX_PKT_PREFIX_LEN \<noteq> 0"
proof -
  let ?ev = "Qword 0x20040 0x10000"
  have q: "qfield ?ev ESF_DZ_RX_DROP_EVENT = 0" "qfield ?ev ESF_DZ_RX_QLABEL = 2" "qfield ?ev ESF_DZ_RX_DSC_PTR_LBITS = (14 + of_nat 3) AND 0xf"
    by (simp_all add: qfield_eval ESF_DZ_RX_DROP_EVENT_def ESF_DZ_RX_QLABEL_def ESF_DZ_RX_DSC_PTR_LBITS_def)
  show ?thesis
    using ef10_ev_rx_position [OF demo_rx_state(3,2) q(1) _ _ _ q(3), where m = "0x1ff"]
    by (simp add: demo_rx_state(1) q(2) EFX_EV_RX_NLABELS_def)
qed

text \<open>
  What an EF10 receive event lets the driver trust: the packet is marked as discarded exactly when it has an ECC or CRC error, and a
  checksum is reported as good only for packets of its protocol, that were parsed completely, and without the error of that checksum.
\<close>

theorem ef10_ev_rx_flags:
  fixes st :: "('c, 'd, 'h) ev_state"
  assumes "eec_rx eecp = Some f" "\<not> ev_resetting (es_nic st)" "qfield eqp ESF_DZ_RX_DROP_EVENT = 0"
    and "length (ee_rxq_state (es_evq st)) = EFX_EV_RX_NLABELS"
  shows "\<exists>i flags st'. ef10_ev_rx eqp eecp st = ev_call (f (qfield eqp ESF_DZ_RX_QLABEL) i (qfield eqp ESF_DZ_RX_BYTES) flags) st'
    \<and> (flags AND EFX_DISCARD \<noteq> 0 \<longleftrightarrow> qfield eqp ESF_DZ_RX_ECC_ERR \<noteq> 0 \<or> qfield eqp ESF_DZ_RX_ECRC_ERR \<noteq> 0)
    \<and> (flags AND EFX_CKSUM_TCPUDP \<noteq> 0 \<longrightarrow> qfield eqp ESF_DZ_RX_L4_CLASS \<in> {ESE_DZ_L4_CLASS_TCP, ESE_DZ_L4_CLASS_UDP}
        \<and> qfield eqp ESF_DZ_RX_TCPUDP_CKSUM_ERR = 0 \<and> qfield eqp ESF_DZ_RX_PARSE_INCOMPLETE = 0)
    \<and> (flags AND EFX_CKSUM_IPV4 \<noteq> 0 \<longrightarrow> qfield eqp ESF_DZ_RX_L3_CLASS \<in> {ESE_DZ_L3_CLASS_IP4, ESE_DZ_L3_CLASS_IP4_FRAG}
        \<and> qfield eqp ESF_DZ_RX_IPCKSUM_ERR = 0 \<and> qfield eqp ESF_DZ_RX_PARSE_INCOMPLETE = 0)"
proof -
  from ef10_ev_rx_steps [OF assms] obtain i flags st' flags0 and st0 :: "('c, 'd, 'h) ev_state" where
    q: "ef10_ev_rx eqp eecp st = ev_call (f (qfield eqp ESF_DZ_RX_QLABEL) i (qfield eqp ESF_DZ_RX_BYTES) flags) st'"
    "flags = fst (ef10_rx_flags eqp (flags0, st0))" "flags0 AND (EFX_PKT_TCP OR EFX_PKT_UDP OR EFX_CKSUM_TCPUDP OR EFX_CKSUM_IPV4 OR EFX_DISCARD) = 0"
    by metis
  note b = ef10_flags_bits [of "(flags0, st0)" eqp, simplified fst_conv, OF q(3)]
  show ?thesis unfolding flag_bit by (intro exI conjI impI, rule q(1)) (use b q(2) in auto)
qed

theorem ef10_ev_rx_flags_witness:
  "\<exists>i flags st'. ef10_ev_rx (Qword 0x20020040 0x10000) demo_cbs demo_rx_state = ev_call (\<lambda>d. Some (False, d @ [unat (i :: u32)])) st' \<and> flags AND EFX_DISCARD \<noteq> 0"
proof -
  let ?ev = "Qword 0x20020040 0x10000"
  have q: "qfield ?ev ESF_DZ_RX_DROP_EVENT = 0" "qfield ?ev ESF_DZ_RX_ECC_ERR = 1"
    by (simp_all add: qfield_eval ESF_DZ_RX_DROP_EVENT_def ESF_DZ_RX_ECC_ERR_def)
  from ef10_ev_rx_flags [OF demo_rx_state(3,2) q(1)] obtain i :: u32 and flags st' where
    "ef10_ev_rx ?ev demo_cbs demo_rx_state = ev_call (\<lambda>d. Some (False, d @ [unat i])) st'"
    "flags AND EFX_DISCARD \<noteq> 0 \<longleftrightarrow> qfield ?ev ESF_DZ_RX_ECC_ERR \<noteq> 0 \<or> qfield ?ev ESF_DZ_RX_ECRC_ERR \<noteq> 0"
    unfolding demo_rx_state(1) length_replicate by blast
  moreover from this(2) q(2) have "flags AND EFX_DISCARD \<noteq> 0" by simp
  ultimately show ?thesis by blast
qed

section \<open>Moderation\<close>




end
