(* ===== verification/Efx_Ev_Wf.thy ===== *)
theory Efx_Ev_Wf
  imports Efx_Ev_Props
begin

text \<open>
  Well-formed event queues: \<open>efx_ev_qcreate\<close> makes one, every operation keeps it one, and in it no event that the hardware may write,
  other than those of the management controller, makes a handler fail.
\<close>

section \<open>The invariant\<close>

text \<open>
  A queue of a family: a power of two of slots, at least one batch, all of them in the memory; the mask belongs to this number, there is a
  position for every label, and the handlers are set.
\<close>

definition evq_wf :: "efx_family \<Rightarrow> efx_evq \<Rightarrow> bool" where
  "evq_wf family eep = (ring_size (length (ee_esmp eep)) \<and> ee_mask eep = of_nat (length (ee_esmp eep)) - 1
     \<and> length (ee_rxq_state eep) = EFX_EV_RX_NLABELS \<and> ee_handlers eep = Some family)"

lemma isp2_power:
  assumes "isp2 n" "8 \<le> n" "n \<le> 32768"
  shows "ring_size n"
proof -
  obtain k where k: "2 ^ k \<le> n" "n < 2 ^ (k + 1)" using ex_power_ivl1 [of 2 n] assms(2) by auto
  have "(2 :: nat) ^ k \<le> 2 ^ 15" using k(1) assms(3) by simp
  then have k15: "k \<le> 15" by (rule power_le_imp_le_exp [rotated]) simp
  have "(2 :: nat) ^ 3 < 2 ^ (k + 1)" using k(2) assms(2) by simp
  then have k3: "3 \<le> k" using power_less_imp_less_exp [of "2 :: nat" 3 "k + 1"] by simp
  have "n = 2 ^ k"
  proof (rule ccontr)
    assume "n \<noteq> 2 ^ k"
    then have "2 ^ k \<le> n - 1" using k(1) by simp
    then have "n div 2 ^ k = 1" "(n - 1) div 2 ^ k = 1" using k by (simp_all add: div_nat_eqI)
    then have "bit n k" "bit (n - 1) k" by (simp_all add: bit_iff_odd)
    then have "bit (n AND (n - 1)) k" by (simp add: bit_and_iff)
    moreover have "n AND (n - 1) = unat (of_nat n AND of_nat (n - 1) :: u64)" using assms(3) by (simp only: unsigned_and_eq) (simp add: unat_of_nat)
    moreover have "of_nat n AND of_nat (n - 1) = (0 :: u64)" using assms(1,2) by (simp add: isp2_def of_nat_diff)
    ultimately show False by simp
  qed
  with k3 k15 show ?thesis by (auto simp: ring_size_def)
qed

section \<open>Handlers keep the queue\<close>

definition ev_view :: "('c, 'd, 'h) ev_state \<Rightarrow> efx_family option \<times> nat" where
  "ev_view st = (ee_handlers (es_evq st), length (ee_rxq_state (es_evq st)))"

definition keeping :: "(('c, 'd, 'h) ev_state \<Rightarrow> ('c, 'd, 'h) ev_result) \<Rightarrow> bool" where
  "keeping h = (\<forall>st b st'. h st = Some (b, st') \<longrightarrow> ev_view st' = ev_view st)"

lemma view_simps [simp]:
  "ev_view (EFX_EV_QSTAT_INCR s st) = ev_view st" "ev_view (es_nic_update g st) = ev_view st" "ev_view (snd (ev_note c s f x)) = ev_view (snd x)"
  "ev_view (ev_put mem hw st) = ev_view st"
  by (simp_all add: ev_view_def EFX_EV_QSTAT_INCR_def ev_note_def ev_put_def)

lemma keeping_stop: "keeping (\<lambda>st. Some (b, st))" "keeping (\<lambda>st. None)"
  by (simp_all add: keeping_def)

lemma keeping_call: "keeping (ev_call f)" "keeping (\<lambda>st. ev_call f (EFX_EV_QSTAT_INCR s st))"
  by (auto simp: keeping_def ev_call_def ev_view_def EFX_EV_QSTAT_INCR_def split: bind_splits)

lemma call_view: "ev_call f st = Some (b, st') \<Longrightarrow> ev_view st' = ev_view st"
  using keeping_call(1) unfolding keeping_def by blast

lemma view_set [simp]: "length r = length (ee_rxq_state (es_evq st)) \<Longrightarrow> ev_view (ev_set_rxq_state r st) = ev_view st"
  by (simp add: ev_view_def ev_set_rxq_state_def)

lemma keeping_if: "keeping h \<Longrightarrow> keeping k \<Longrightarrow> keeping (\<lambda>st. if c st then h st else k st)"
  by (simp add: keeping_def)

lemma keeping_let: "(\<And>x. keeping (p x)) \<Longrightarrow> keeping (\<lambda>st. Let m (\<lambda>x. p x st))"
  by (simp add: keeping_def)

lemma keeping_let_state: "(\<And>st. ev_view (m st) = ev_view st) \<Longrightarrow> keeping h \<Longrightarrow> keeping (\<lambda>st. Let (m st) h)"
  by (auto simp: keeping_def Let_def)

lemma keeping_let_read: "(\<And>x. keeping (p x)) \<Longrightarrow> keeping (\<lambda>st. Let (m st) (\<lambda>x. p x st))"
  by (simp add: keeping_def Let_def)

lemma keeping_bind: "(\<And>x. keeping (p x)) \<Longrightarrow> keeping (\<lambda>st. m \<bind> (\<lambda>x. p x st))"
  by (cases m) (simp_all add: keeping_def)

lemma keeping_read: "(\<And>x. keeping (p x)) \<Longrightarrow> keeping (\<lambda>st. m st \<bind> (\<lambda>x. p x st))"
  by (auto simp: keeping_def split: bind_splits)

lemma keeping_discard: "keeping h \<Longrightarrow> keeping (\<lambda>st. h st \<bind> (\<lambda>(_, st). Some (b, st)))"
  by (auto simp: keeping_def split: bind_splits)

lemma keeping_stop_state: "(\<And>st. ev_view (m st) = ev_view st) \<Longrightarrow> keeping (\<lambda>st. Some (b, m st))"
  by (simp add: keeping_def)

lemma keeping_cases:
  "(\<And>a. keeping (f a)) \<Longrightarrow> (\<And>b. keeping (g b)) \<Longrightarrow> keeping (\<lambda>st. case s of Inl a \<Rightarrow> f a st | Inr b \<Rightarrow> g b st)"
  "(\<And>a b. keeping (p a b)) \<Longrightarrow> keeping (\<lambda>st. case x of (a, b) \<Rightarrow> p a b st)"
  "keeping n \<Longrightarrow> (\<And>a. keeping (f a)) \<Longrightarrow> keeping (\<lambda>st. case opt of None \<Rightarrow> n st | Some a \<Rightarrow> f a st)"
  by (simp_all add: keeping_def split: sum.split prod.split option.split)

lemmas keep_rules = keeping_stop keeping_call keeping_if keeping_let keeping_let_state keeping_let_read keeping_discard keeping_bind keeping_read
  keeping_stop_state keeping_cases

lemma view_flags [simp]:
  "ev_view (snd (snd (siena_rx_headers eqp st))) = ev_view st" "ev_view (snd (siena_rx_address eqp x)) = ev_view (snd x)"
  "ev_view (snd (ef10_rx_flags eqp y)) = ev_view (snd y)"
  by (simp_all add: siena_rx_headers_def siena_rx_address_def siena_ev_rx_not_ok_def ef10_rx_flags_def ef10_rx_parse_def ef10_rx_l4_def Let_def case_prod_beta)

lemma keeping_rx: "keeping (siena_ev_rx eqp eecp :: ('c, 'd, 'h) ev_state \<Rightarrow> _)"
  unfolding keeping_def
proof (intro allI impI)
  fix st st' :: "('c, 'd, 'h) ev_state" and b
  assume h: "siena_ev_rx eqp eecp st = Some (b, st')"
  let ?x = "siena_rx_headers eqp (EFX_EV_QSTAT_INCR EV_RX st)"
  have "ev_view (snd (siena_rx_address eqp (snd ?x))) = ev_view st" by simp
  with h keeping_call(1) show "ev_view st' = ev_view st"
    by (fastforce simp: siena_ev_rx_def Let_def case_prod_beta keeping_def split: if_splits bind_splits)
qed

lemma keeping_ef10_rx: "keeping (ef10_ev_rx eqp eecp :: ('c, 'd, 'h) ev_state \<Rightarrow> _)"
  unfolding keeping_def
proof (intro allI impI)
  fix st st' :: "('c, 'd, 'h) ev_state" and b
  assume "ef10_ev_rx eqp eecp st = Some (b, st')"
  then show "ev_view st' = ev_view st"
    by (auto simp: ef10_ev_rx_def Let_def case_prod_beta wr_def dest!: call_view split: if_splits bind_splits)
qed

lemma keeping_others:
  "keeping (siena_ev_tx eqp eecp)" "keeping (ef10_ev_tx eqp eecp)" "keeping (siena_ev_driver eqp eecp)" "keeping (ef10_ev_driver eqp eecp)"
  "keeping (siena_ev_drv_gen eqp eecp)" "keeping (ef10_ev_drv_gen eqp eecp)" "keeping siena_ev_global" "keeping (siena_ev_bad code eecp)"
  unfolding siena_ev_tx_def ef10_ev_tx_def siena_ev_driver_def ef10_ev_driver_def siena_ev_drv_gen_def ef10_ev_drv_gen_def
    siena_ev_global_def siena_ev_bad_def
  by (intro keep_rules; simp)+

lemma keeping_mcdi:
  "keeping (ev_mcdi_death rc)" "keeping (ev_mcdi_cmddone eqp)" "keeping (ev_mcdi_linkchange link eqp eecp)" "keeping (ev_mcdi_sensorevt eqp eecp)"
  "keeping (ev_mcdi_mac_stats eqp eecp)" "keeping (ev_mcdi_fwalert eqp eecp)" "keeping (ev_mcdi_queue_err flag code data eecp)"
  "keeping (ev_mcdi_flush drv stat index cb)"
  unfolding ev_mcdi_death_def ev_mcdi_cmddone_def ev_mcdi_linkchange_def ev_mcdi_sensorevt_def ev_mcdi_mac_stats_def ev_mcdi_fwalert_def
    ev_mcdi_queue_err_def ev_mcdi_flush_def
  by (intro keep_rules; simp)+

lemma keeping_mcdi_ev: "keeping (siena_ev_mcdi eqp eecp)" "keeping (ef10_ev_mcdi eqp eecp)"
  unfolding siena_ev_mcdi_def ef10_ev_mcdi_def by (intro keep_rules keeping_mcdi; simp)+

lemma keeping_handler: "keeping (h ev eecp) \<Longrightarrow> keeping (k ev eecp) \<Longrightarrow> keeping (ev_handler_of h k ev eecp)"
  by (simp add: keeping_def ev_handler_of_def split: option.split)

lemma keeping_dispatch: "keeping (ev_dispatch ev eecp)"
  unfolding ev_dispatch_def
  by (intro keep_rules keeping_handler keeping_rx keeping_ef10_rx keeping_others keeping_mcdi_ev; simp)

section \<open>Operations keep the invariant\<close>

definition evq_view :: "('c, 'd, 'h) ev_state \<Rightarrow> (efx_family option \<times> nat) \<times> nat \<times> u32" where
  "evq_view st = (ev_view st, length (ee_esmp (es_evq st)), ee_mask (es_evq st))"

lemma evq_wf_view: "evq_view st' = evq_view st \<Longrightarrow> evq_wf family (es_evq st') = evq_wf family (es_evq st)"
  by (simp add: evq_wf_def ev_view_def evq_view_def)

lemma dispatch_view: "ev_dispatch ev eecp st = Some (b, st') \<Longrightarrow> evq_view st' = evq_view st"
  using keeping_dispatch [unfolded keeping_def, rule_format, of ev eecp st b st'] ev_dispatch_keeps [of ev eecp st b st'] by (simp add: evq_view_def)

lemma put_view: "length mem = length (ee_esmp (es_evq st)) \<Longrightarrow> evq_view (ev_put mem hw st) = evq_view st"
  by (simp add: evq_view_def)

lemma read_view:
  assumes dma: "\<And>mem hw. length (fst (dma mem hw)) = length mem"
  shows "qpoll_read dma offset n st = Some (evs, st') \<Longrightarrow> evq_view st' = evq_view st"
proof (induction n arbitrary: offset st evs)
  case (Suc n)
  have "evq_view (ev_hw_step dma st) = evq_view st"
    using dma [of "ee_esmp (es_evq st)" "es_hw st"] by (simp add: ev_hw_step_def case_prod_beta put_view)
  with Suc show ?case by (fastforce simp: Let_def split: if_splits bind_splits)
qed simp

lemma handle_view: "qpoll_handle eecp evs st = Some (t, st') \<Longrightarrow> evq_view st' = evq_view st"
proof (induction evs arbitrary: st t)
  case (Cons ev evs)
  then show ?case by (fastforce dest: dispatch_view split: if_splits bind_splits)
qed simp

lemma qpoll_step:
  assumes ih: "\<And>dma eecp count st y. f dma eecp count st = Some y \<Longrightarrow> (\<forall>mem hw. length (fst (dma mem hw)) = length mem) \<longrightarrow> evq_view (snd y) = evq_view st"
    and body: "(let batch = EFX_EV_BATCH - unat (count AND of_nat (EFX_EV_BATCH - 1)) in
        qpoll_read dma (unat (count AND ee_mask (es_evq st))) batch st \<bind> (\<lambda>(evs, st). qpoll_handle eecp evs st \<bind> (\<lambda>(total, st).
          wr_range (ee_esmp (es_evq st)) (unat (count AND ee_mask (es_evq st))) (replicate total EFX_SET_QWORD) \<bind> (\<lambda>mem.
            let st = ev_put mem (es_hw st) st; count = count + of_nat total
            in if total = batch then f dma eecp count st else Some (count, st))))) = Some y"
    and d: "\<forall>mem hw. length (fst (dma mem hw)) = length mem"
  shows "evq_view (snd y) = evq_view st"
proof -
  from body obtain evs st1 t st2 mem where
    r: "qpoll_read dma (unat (count AND ee_mask (es_evq st))) (EFX_EV_BATCH - unat (count AND of_nat (EFX_EV_BATCH - 1))) st = Some (evs, st1)"
    and h: "qpoll_handle eecp evs st1 = Some (t, st2)"
    and m: "wr_range (ee_esmp (es_evq st2)) (unat (count AND ee_mask (es_evq st2))) (replicate t EFX_SET_QWORD) = Some mem"
    and y: "y = (count + of_nat t, ev_put mem (es_hw st2) st2) \<or> f dma eecp (count + of_nat t) (ev_put mem (es_hw st2) st2) = Some y"
    by (auto simp: Let_def split: bind_splits if_splits)
  have v: "evq_view (ev_put mem (es_hw st2) st2) = evq_view st"
    using read_view [OF d [rule_format] r] handle_view [OF h] put_view [OF wr_range_length [OF m], of "es_hw st2"] by simp
  from y show "evq_view (snd y) = evq_view st"
  proof
    assume "f dma eecp (count + of_nat t) (ev_put mem (es_hw st2) st2) = Some y"
    from ih [OF this] d v show ?thesis by simp
  qed (use v in simp)
qed

lemma qpoll_view:
  assumes "siena_ev_qpoll dma eecp count st = Some y"
  shows "(\<forall>mem hw. length (fst (dma mem hw)) = length mem) \<longrightarrow> evq_view (snd y) = evq_view st"
  by (rule siena_ev_qpoll.raw_induct [OF _ assms, of "\<lambda>dma eecp count st y. (\<forall>mem hw. length (fst (dma mem hw)) = length mem) \<longrightarrow> evq_view (snd y) = evq_view st"])
    (rule impI, rule qpoll_step, assumption+)

lemma qcreate_wf:
  assumes c: "efx_ev_qcreate env enp index esmp addr n buftbl_id = Some (RC_OK, enp', Some eep)" and n: "length esmp = n"
    and f: "en_eevop enp = Some family" "family = EFX_FAMILY_SIENA \<or> family = EFX_FAMILY_HUNTINGTON"
  shows "evq_wf family eep"
proof -
  have ok: "ring_size n" if "evq_size_ok n" using that isp2_power [of n] by (simp add: evq_size_ok_def EFX_EVQ_MINNEVS_def EFX_EVQ_MAXNEVS_def)
  have new: "evq_wf family ((evq_new index n esmp)\<lparr>ee_handlers := Some family\<rparr>)" if "evq_size_ok n"
    using ok [OF that] n by (simp add: evq_wf_def evq_new_def)
  have "evq_size_ok n \<and> eep = (evq_new index n esmp)\<lparr>ee_handlers := Some family\<rparr>"
    using c f by (auto simp: efx_ev_qcreate_def siena_ev_qcreate_def ef10_ev_qcreate_def Let_def case_prod_beta split: if_splits bind_splits prod.splits)
  with new show ?thesis by simp
qed

text \<open>
  C32. Event queues are well formed. A successful \<open>efx_ev_qcreate\<close> yields a queue whose size is a power of two between 512 and 32768 and
  fills its memory, whose mask belongs to that size, with a position for every receive label and the handlers of its family. Handling an
  event keeps this, whatever the event and the callbacks do, and so does a poll, whatever the controller writes into the memory meanwhile.
\<close>

theorem evq_wf_kept:
  assumes "en_eevop enp = Some family" "family = EFX_FAMILY_SIENA \<or> family = EFX_FAMILY_HUNTINGTON" "length esmp = n"
    and "\<And>mem hw. length (fst (dma mem hw)) = length mem"
  shows "(\<forall>enp' eep. efx_ev_qcreate env enp index esmp addr n buftbl_id = Some (RC_OK, enp', Some eep) \<longrightarrow> evq_wf family eep)
    \<and> (\<forall>b st'. ev_dispatch ev eecp st = Some (b, st') \<and> evq_wf family (es_evq st) \<longrightarrow> evq_wf family (es_evq st'))
    \<and> (\<forall>count' st'. efx_ev_qpoll dma eecp count st = Some (count', st') \<and> evq_wf family (es_evq st) \<longrightarrow> evq_wf family (es_evq st'))"
proof (intro conjI allI impI)
  fix enp' eep
  assume "efx_ev_qcreate env enp index esmp addr n buftbl_id = Some (RC_OK, enp', Some eep)"
  then show "evq_wf family eep" by (rule qcreate_wf [OF _ assms(3,1,2)])
next
  fix b st'
  assume "ev_dispatch ev eecp st = Some (b, st') \<and> evq_wf family (es_evq st)"
  then show "evq_wf family (es_evq st')" using evq_wf_view [OF dispatch_view] by blast
next
  fix count' st'
  assume "efx_ev_qpoll dma eecp count st = Some (count', st') \<and> evq_wf family (es_evq st)"
  then show "evq_wf family (es_evq st')" using qpoll_view [of dma eecp count st "(count', st')"] assms(4) evq_wf_view [of st' st family]
    by (simp add: efx_ev_qpoll_def)
qed

definition demo_env :: "unit mcdi_nic mc_env" where
  "demo_env = \<lparr>env_execute = (\<lambda>r m. (r\<lparr>emr_rc := RC_OK, emr_out_length_used := emr_out_length r\<rparr>, m)), env_alloc = (\<lambda>m. (True, m))\<rparr>"

definition demo_up_nic :: "unit ev_nic" where
  "demo_up_nic = ev_set_mod_flags (EFX_MOD_EV OR EFX_MOD_INTR) (demo_ev_nic EFX_FAMILY_SIENA)"

theorem evq_wf_kept_witness:
  "\<exists>enp' eep. efx_ev_qcreate demo_env demo_up_nic 3 (replicate 512 EFX_SET_QWORD) 0 512 16 = Some (RC_OK, enp', Some eep) \<and> evq_wf EFX_FAMILY_SIENA eep"
proof -
  have up: "en_eevop demo_up_nic = Some EFX_FAMILY_SIENA" by (simp add: demo_up_nic_def ev_set_mod_flags_def demo_ev_nic_def)
  have "\<exists>enp' eep. efx_ev_qcreate demo_env demo_up_nic 3 (replicate 512 EFX_SET_QWORD) 0 512 16 = Some (RC_OK, enp', Some eep)"
    by (simp add: efx_ev_qcreate_def demo_up_nic_def ev_set_mod_flags_def demo_env_def demo_ev_nic_def siena_ev_qcreate_def evq_size_ok_def isp2_def
        EFX_EVQ_MINNEVS_def EFX_EVQ_MAXNEVS_def EFX_MOD_EV_def EFX_MOD_INTR_def EFX_INTR_LINE_def EFX_MAXRSS_LEGACY_def siena_evq_size_def upt_rec Let_def)
  with evq_wf_kept [OF up _ length_replicate, of "\<lambda>mem hw. (mem, hw)"] show ?thesis by auto blast
qed

section \<open>Events that the hardware may write\<close>

text \<open>The callbacks that a driver must supply, each of which returns.\<close>

definition eecp_ready :: "'d efx_ev_callbacks \<Rightarrow> bool" where
  "eecp_ready eecp = (
     (\<exists>f. eec_initialized eecp = Some f \<and> (\<forall>d. f d \<noteq> None)) \<and> (\<exists>f. eec_rx eecp = Some f \<and> (\<forall>l i s fl d. f l i s fl d \<noteq> None))
   \<and> (\<exists>f. eec_tx eecp = Some f \<and> (\<forall>l i d. f l i d \<noteq> None)) \<and> (\<exists>f. eec_exception eecp = Some f \<and> (\<forall>c i d. f c i d \<noteq> None))
   \<and> (\<exists>f. eec_rxq_flush_done eecp = Some f \<and> (\<forall>i d. f i d \<noteq> None)) \<and> (\<exists>f. eec_rxq_flush_failed eecp = Some f \<and> (\<forall>i d. f i d \<noteq> None))
   \<and> (\<exists>f. eec_txq_flush_done eecp = Some f \<and> (\<forall>i d. f i d \<noteq> None)) \<and> (\<exists>f. eec_software eecp = Some f \<and> (\<forall>m d. f m d \<noteq> None))
   \<and> (\<exists>f. eec_sram eecp = Some f \<and> (\<forall>c d. f c d \<noteq> None)) \<and> (\<exists>f. eec_wake_up eecp = Some f \<and> (\<forall>l d. f l d \<noteq> None))
   \<and> (\<exists>f. eec_timer eecp = Some f \<and> (\<forall>l d. f l d \<noteq> None)))"

lemma call_None: "ev_call f st = None \<longleftrightarrow> f (es_arg st) = None"
  by (auto simp: ev_call_def split: bind_splits)

lemma if_None: "(if c then a else b) = None \<longleftrightarrow> (if c then a = None else b = None)"
  by simp

lemma handlers_total:
  assumes "eecp_ready eecp"
  shows "siena_ev_rx ev eecp st \<noteq> None" "siena_ev_tx ev eecp st \<noteq> None" "ef10_ev_tx ev eecp st \<noteq> None" "siena_ev_driver ev eecp st \<noteq> None"
    "ef10_ev_driver ev eecp st \<noteq> None" "siena_ev_drv_gen ev eecp st \<noteq> None" "ef10_ev_drv_gen ev eecp st \<noteq> None" "siena_ev_bad code eecp st \<noteq> None"
    "length (ee_rxq_state (es_evq st)) = EFX_EV_RX_NLABELS \<Longrightarrow> ef10_ev_rx ev eecp st \<noteq> None"
proof -
  from assms obtain f1 f2 f3 f4 f5 f6 f7 f8 f9 f10 f11 where f:
    "eec_initialized eecp = Some f1" "eec_rx eecp = Some f2" "eec_tx eecp = Some f3" "eec_exception eecp = Some f4"
    "eec_rxq_flush_done eecp = Some f5" "eec_rxq_flush_failed eecp = Some f6" "eec_txq_flush_done eecp = Some f7" "eec_software eecp = Some f8"
    "eec_sram eecp = Some f9" "eec_wake_up eecp = Some f10" "eec_timer eecp = Some f11"
    and t: "\<And>d. f1 d \<noteq> None" "\<And>l i s fl d. f2 l i s fl d \<noteq> None" "\<And>l i d. f3 l i d \<noteq> None" "\<And>c i d. f4 c i d \<noteq> None" "\<And>i d. f5 i d \<noteq> None"
      "\<And>i d. f6 i d \<noteq> None" "\<And>i d. f7 i d \<noteq> None" "\<And>m d. f8 m d \<noteq> None" "\<And>c d. f9 c d \<noteq> None" "\<And>l d. f10 l d \<noteq> None" "\<And>l d. f11 l d \<noteq> None"
    by (auto simp: eecp_ready_def simp del: not_None_eq)
  note e = Let_def case_prod_beta Option.bind.simps f t call_None if_None option.simps simp_thms if_cancel not_False_eq_True
  show "siena_ev_rx ev eecp st \<noteq> None" unfolding siena_ev_rx_def by (simp only: e)
  show "siena_ev_tx ev eecp st \<noteq> None" unfolding siena_ev_tx_def by (simp only: e)
  show "ef10_ev_tx ev eecp st \<noteq> None" unfolding ef10_ev_tx_def by (simp only: e)
  show "siena_ev_driver ev eecp st \<noteq> None" unfolding siena_ev_driver_def by (simp only: e)
  show "ef10_ev_driver ev eecp st \<noteq> None" unfolding ef10_ev_driver_def by (simp only: e)
  show "siena_ev_drv_gen ev eecp st \<noteq> None" unfolding siena_ev_drv_gen_def by (simp only: e)
  show "ef10_ev_drv_gen ev eecp st \<noteq> None" unfolding ef10_ev_drv_gen_def by (simp only: e)
  have "ev_call (f4 EFX_EXCEPTION_EV_ERROR code) st \<noteq> None" by (simp only: e)
  then show "siena_ev_bad code eecp st \<noteq> None" unfolding siena_ev_bad_def by (auto simp: f)
  assume len: "length (ee_rxq_state (es_evq st)) = EFX_EV_RX_NLABELS"
  have "unat (qfield ev ESF_DZ_RX_QLABEL) < EFX_EV_RX_NLABELS" using qfield_below [of ESF_DZ_RX_QLABEL ev] by (simp add: ESF_DZ_RX_QLABEL_def EFX_EV_RX_NLABELS_def)
  with len show "ef10_ev_rx ev eecp st \<noteq> None"
    by (simp add: ef10_ev_rx_def rd_def wr_def Let_def case_prod_beta f call_None t if_None del: not_None_eq)
qed

text \<open>
  C33. No event that the hardware writes makes the driver fail, other than one of the management controller: for a well-formed queue and a
  driver that supplies the callbacks, dispatching any 64 bits calls no NULL pointer, stays inside the table of label positions, returns, and
  leaves the queue well formed.
\<close>

theorem ev_dispatch_safe:
  assumes "evq_wf family (es_evq st)" "eecp_ready eecp" "qfield ev FSF_AZ_EV_CODE \<noteq> FSE_AZ_EV_CODE_MCDI_EVRESPONSE"
  shows "\<exists>b st'. ev_dispatch ev eecp st = Some (b, st') \<and> evq_wf family (es_evq st')"
proof -
  have "ev_dispatch ev eecp st \<noteq> None"
    using assms(1,3)
    by (simp add: ev_dispatch_def ev_handler_of_def Let_def evq_wf_def siena_ev_global_def if_None handlers_total [OF assms(2)] del: not_None_eq)
  with assms(1) show ?thesis using evq_wf_view [OF dispatch_view] by fastforce
qed

definition demo_all_cbs :: "nat list efx_ev_callbacks" where
  "demo_all_cbs = demo_cbs\<lparr>eec_rxq_flush_done := Some (\<lambda>i d. Some (False, d)), eec_rxq_flush_failed := Some (\<lambda>i d. Some (False, d)),
     eec_txq_flush_done := Some (\<lambda>i d. Some (False, d)), eec_sram := Some (\<lambda>c d. Some (False, d)), eec_wake_up := Some (\<lambda>l d. Some (False, d)),
     eec_timer := Some (\<lambda>l d. Some (False, d))\<rparr>"

theorem ev_dispatch_safe_witness:
  "\<exists>b st'. ev_dispatch (Qword 0xdeadbeef 0x5eadbeef) demo_all_cbs (demo_ev_state EFX_FAMILY_SIENA (replicate 8 EFX_SET_QWORD) ()) = Some (b, st')
    \<and> evq_wf EFX_FAMILY_SIENA (es_evq st')"
proof (rule ev_dispatch_safe)
  have "ring_size 8" unfolding ring_size_def by (rule exI [of _ 3]) simp
  then show "evq_wf EFX_FAMILY_SIENA (es_evq (demo_ev_state EFX_FAMILY_SIENA (replicate 8 EFX_SET_QWORD) ()))" by (simp add: evq_wf_def)
qed (auto simp: eecp_ready_def demo_all_cbs_def demo_cbs_def qfield_eval FSF_AZ_EV_CODE_def FSE_AZ_EV_CODE_MCDI_EVRESPONSE_def)

section \<open>Initialising twice\<close>

text \<open>
  Initialising the event module a second time is refused with EINVAL, but the failure path clears the module's flag and its table of
  operations: the module that was running is left unusable, and destroying, posting to or creating a queue afterwards fails an assertion or
  follows a NULL pointer.
\<close>

theorem efx_ev_init_twice:
  assumes "ev_mod_flags enp AND EFX_MOD_INTR \<noteq> 0" "ev_mod_flags enp AND EFX_MOD_EV \<noteq> 0"
  shows "\<exists>enp'. efx_ev_init enp = Some (EINVAL, enp') \<and> ev_mod_flags enp' AND EFX_MOD_EV = 0 \<and> en_eevop enp' = None
    \<and> efx_ev_qdestroy env eep enp' = None \<and> efx_ev_qpost env eep data enp' = None \<and> efx_ev_fini enp' = None
    \<and> efx_ev_qcreate env enp' index esmp addr n buftbl_id = None"
proof -
  let ?enp = "ev_set_mod_flags (ev_mod_flags enp AND NOT EFX_MOD_EV) (enp\<lparr>en_eevop := None\<rparr>)"
  have z: "(x AND NOT y) AND y = 0" for x y :: u32 by (rule bit_word_eqI) (auto simp: bit_simps)
  have f: "ev_mod_flags ?enp AND EFX_MOD_EV = 0" "en_eevop ?enp = None" by (simp_all add: ev_set_mod_flags_def z)
  have "efx_ev_init enp = Some (EINVAL, ?enp)" using assms by (simp add: efx_ev_init_def ev_init_failed_def)
  moreover have "efx_ev_qdestroy env eep ?enp = None" "efx_ev_qpost env eep data ?enp = None" "efx_ev_fini ?enp = None"
    "efx_ev_qcreate env ?enp index esmp addr n buftbl_id = None"
    using f by (simp_all add: efx_ev_qdestroy_def efx_ev_qpost_def efx_ev_fini_def efx_ev_qcreate_def efsys_assert_def ev_set_mod_flags_def)
  ultimately show ?thesis using f by blast
qed

theorem efx_ev_init_twice_witness:
  "\<exists>enp'. efx_ev_init demo_up_nic = Some (EINVAL, enp') \<and> ev_mod_flags enp' AND EFX_MOD_EV = 0 \<and> en_eevop enp' = None
    \<and> efx_ev_qdestroy demo_env (demo_evq EFX_FAMILY_SIENA []) enp' = None \<and> efx_ev_qpost demo_env (demo_evq EFX_FAMILY_SIENA []) 1 enp' = None
    \<and> efx_ev_fini enp' = None \<and> efx_ev_qcreate demo_env enp' 0 [] 0 512 0 = None"
  by (rule efx_ev_init_twice) (simp_all add: demo_up_nic_def ev_set_mod_flags_def demo_ev_nic_def EFX_MOD_EV_def EFX_MOD_INTR_def)

end
