(* ===== verification/Efx_Dp_Regs.thy ===== *)
theory Efx_Dp_Regs
  imports Efx_Ev_Regs
begin

text \<open>
  Constants of the descriptor queues: fields as pairs of lowest bit and width, offsets and steps of registers, commands, limits
  (\<open>src/common/efx_regs.h\<close>, \<open>efx_regs_ef10.h\<close>, \<open>efx_regs_mcdi.h\<close>, \<open>efx.h\<close>, \<open>efx_impl.h\<close>, \<open>hunt_impl.h\<close>).
\<close>

section \<open>Transmit\<close>

definition FRF_AZ_TX_RX_SPACER :: "nat \<times> nat" where "FRF_AZ_TX_RX_SPACER = (64, 8)"
definition FRF_AZ_TX_RX_SPACER_EN :: "nat \<times> nat" where "FRF_AZ_TX_RX_SPACER_EN = (57, 1)"
definition FRF_AZ_TX_ONE_PKT_PER_Q :: "nat \<times> nat" where "FRF_AZ_TX_ONE_PKT_PER_Q = (18, 1)"
definition FRF_AZ_TX_PUSH_EN :: "nat \<times> nat" where "FRF_AZ_TX_PUSH_EN = (89, 1)"
definition FRF_AZ_TX_DIS_NON_IP_EV :: "nat \<times> nat" where "FRF_AZ_TX_DIS_NON_IP_EV = (17, 1)"
definition FRF_AZ_TX_PREF_THRESHOLD :: "nat \<times> nat" where "FRF_AZ_TX_PREF_THRESHOLD = (19, 2)"
definition FRF_AZ_TX_PREF_WD_TMR :: "nat \<times> nat" where "FRF_AZ_TX_PREF_WD_TMR = (22, 22)"
definition FRF_BZ_TX_FLUSH_MIN_LEN_EN :: "nat \<times> nat" where "FRF_BZ_TX_FLUSH_MIN_LEN_EN = (7, 1)"
definition FRF_AZ_TX_NO_EOP_DISC_EN :: "nat \<times> nat" where "FRF_AZ_TX_NO_EOP_DISC_EN = (5, 1)"
definition FSF_AZ_TX_KER_CONT :: "nat \<times> nat" where "FSF_AZ_TX_KER_CONT = (62, 1)"
definition FSF_AZ_TX_KER_BYTE_COUNT :: "nat \<times> nat" where "FSF_AZ_TX_KER_BYTE_COUNT = (48, 14)"
definition FSF_AZ_TX_KER_BUF_ADDR_DW0 :: "nat \<times> nat" where "FSF_AZ_TX_KER_BUF_ADDR_DW0 = (0, 32)"
definition FSF_AZ_TX_KER_BUF_ADDR_DW1 :: "nat \<times> nat" where "FSF_AZ_TX_KER_BUF_ADDR_DW1 = (32, 14)"
definition FRF_AZ_TX_DESC_WPTR :: "nat \<times> nat" where "FRF_AZ_TX_DESC_WPTR = (96, 12)"
definition FRF_AZ_TX_PACE :: "nat \<times> nat" where "FRF_AZ_TX_PACE = (0, 5)"
definition FRF_AZ_TX_FLUSH_DESCQ_CMD :: "nat \<times> nat" where "FRF_AZ_TX_FLUSH_DESCQ_CMD = (12, 1)"
definition FRF_AZ_TX_FLUSH_DESCQ :: "nat \<times> nat" where "FRF_AZ_TX_FLUSH_DESCQ = (0, 12)"
definition FRF_AZ_TX_DC_HW_RPTR :: "nat \<times> nat" where "FRF_AZ_TX_DC_HW_RPTR = (80, 6)"
definition FRF_AZ_TX_DESCQ_HW_RPTR :: "nat \<times> nat" where "FRF_AZ_TX_DESCQ_HW_RPTR = (68, 12)"
definition FRF_AZ_TX_DESCQ_EN :: "nat \<times> nat" where "FRF_AZ_TX_DESCQ_EN = (88, 1)"
definition FRF_AZ_TX_DESCQ_BUF_BASE_ID :: "nat \<times> nat" where "FRF_AZ_TX_DESCQ_BUF_BASE_ID = (36, 20)"
definition FRF_AZ_TX_DESCQ_EVQ_ID :: "nat \<times> nat" where "FRF_AZ_TX_DESCQ_EVQ_ID = (24, 12)"
definition FRF_AZ_TX_DESCQ_OWNER_ID :: "nat \<times> nat" where "FRF_AZ_TX_DESCQ_OWNER_ID = (10, 14)"
definition FRF_AZ_TX_DESCQ_LABEL :: "nat \<times> nat" where "FRF_AZ_TX_DESCQ_LABEL = (5, 5)"
definition FRF_AZ_TX_DESCQ_SIZE :: "nat \<times> nat" where "FRF_AZ_TX_DESCQ_SIZE = (3, 2)"
definition FRF_AZ_TX_DESCQ_TYPE :: "nat \<times> nat" where "FRF_AZ_TX_DESCQ_TYPE = (1, 2)"
definition FRF_BZ_TX_NON_IP_DROP_DIS :: "nat \<times> nat" where "FRF_BZ_TX_NON_IP_DROP_DIS = (91, 1)"
definition FRF_BZ_TX_IP_CHKSM_DIS :: "nat \<times> nat" where "FRF_BZ_TX_IP_CHKSM_DIS = (90, 1)"
definition FRF_BZ_TX_TCP_CHKSM_DIS :: "nat \<times> nat" where "FRF_BZ_TX_TCP_CHKSM_DIS = (89, 1)"

definition FR_AZ_TX_RESERVED_REG_OFST :: nat where "FR_AZ_TX_RESERVED_REG_OFST = 0x00000a80"
definition FR_AZ_TX_CFG_REG_OFST :: nat where "FR_AZ_TX_CFG_REG_OFST = 0x00000a50"
definition FR_BZ_TX_DESC_UPD_REGP0_OFST :: nat where "FR_BZ_TX_DESC_UPD_REGP0_OFST = 0x00000a10"
definition FR_BZ_TX_DESC_UPD_REGP0_STEP :: nat where "FR_BZ_TX_DESC_UPD_REGP0_STEP = 8192"
definition FR_BZ_TX_PACE_TBL_OFST :: nat where "FR_BZ_TX_PACE_TBL_OFST = 0x00f80000"
definition FR_AZ_TX_PACE_TBL_OFST :: nat where "FR_AZ_TX_PACE_TBL_OFST = FR_BZ_TX_PACE_TBL_OFST"
definition FR_AZ_TX_PACE_TBL_STEP :: nat where "FR_AZ_TX_PACE_TBL_STEP = 16"
definition FR_AZ_TX_FLUSH_DESCQ_REG_OFST :: nat where "FR_AZ_TX_FLUSH_DESCQ_REG_OFST = 0x00000a00"
definition FR_AZ_TX_DESC_PTR_TBL_OFST :: nat where "FR_AZ_TX_DESC_PTR_TBL_OFST = 0x00f50000"
definition FR_AZ_TX_DESC_PTR_TBL_STEP :: nat where "FR_AZ_TX_DESC_PTR_TBL_STEP = 16"

definition ESF_DZ_TX_KER_TYPE :: "nat \<times> nat" where "ESF_DZ_TX_KER_TYPE = (63, 1)"
definition ESF_DZ_TX_KER_CONT :: "nat \<times> nat" where "ESF_DZ_TX_KER_CONT = (62, 1)"
definition ESF_DZ_TX_KER_BYTE_CNT :: "nat \<times> nat" where "ESF_DZ_TX_KER_BYTE_CNT = (48, 14)"
definition ESF_DZ_TX_KER_BUF_ADDR_DW0 :: "nat \<times> nat" where "ESF_DZ_TX_KER_BUF_ADDR_DW0 = (0, 32)"
definition ESF_DZ_TX_KER_BUF_ADDR_DW1 :: "nat \<times> nat" where "ESF_DZ_TX_KER_BUF_ADDR_DW1 = (32, 16)"
definition ESF_DZ_TX_DESC_IS_OPT :: "nat \<times> nat" where "ESF_DZ_TX_DESC_IS_OPT = (63, 1)"
definition ESF_DZ_TX_OPTION_TYPE :: "nat \<times> nat" where "ESF_DZ_TX_OPTION_TYPE = (60, 3)"
definition ESF_DZ_TX_OPTION_UDP_TCP_CSUM :: "nat \<times> nat" where "ESF_DZ_TX_OPTION_UDP_TCP_CSUM = (1, 1)"
definition ESF_DZ_TX_OPTION_IP_CSUM :: "nat \<times> nat" where "ESF_DZ_TX_OPTION_IP_CSUM = (0, 1)"
definition ESF_DZ_TX_PIO_CONT :: "nat \<times> nat" where "ESF_DZ_TX_PIO_CONT = (59, 1)"
definition ESF_DZ_TX_PIO_BYTE_CNT :: "nat \<times> nat" where "ESF_DZ_TX_PIO_BYTE_CNT = (32, 12)"
definition ESF_DZ_TX_PIO_BUF_ADDR :: "nat \<times> nat" where "ESF_DZ_TX_PIO_BUF_ADDR = (0, 12)"
definition ESF_DZ_TX_TSO_TCP_FLAGS :: "nat \<times> nat" where "ESF_DZ_TX_TSO_TCP_FLAGS = (48, 8)"
definition ESF_DZ_TX_TSO_IP_ID :: "nat \<times> nat" where "ESF_DZ_TX_TSO_IP_ID = (32, 16)"
definition ESF_DZ_TX_TSO_TCP_SEQNO :: "nat \<times> nat" where "ESF_DZ_TX_TSO_TCP_SEQNO = (0, 32)"
definition ESF_DZ_TX_TSO_OPTION_TYPE :: "nat \<times> nat" where "ESF_DZ_TX_TSO_OPTION_TYPE = (56, 4)"
definition ESF_DZ_TX_TSO_TCP_MSS :: "nat \<times> nat" where "ESF_DZ_TX_TSO_TCP_MSS = (32, 16)"
definition ESF_DZ_TX_VLAN_OP :: "nat \<times> nat" where "ESF_DZ_TX_VLAN_OP = (32, 2)"
definition ESF_DZ_TX_VLAN_TAG1 :: "nat \<times> nat" where "ESF_DZ_TX_VLAN_TAG1 = (0, 16)"
definition ERF_DZ_TX_DESC_WPTR :: "nat \<times> nat" where "ERF_DZ_TX_DESC_WPTR = (64, 12)"
definition ERF_DZ_TX_DESC_HWORD :: "nat \<times> nat" where "ERF_DZ_TX_DESC_HWORD = (32, 32)"
definition ERF_DZ_TX_DESC_LWORD :: "nat \<times> nat" where "ERF_DZ_TX_DESC_LWORD = (0, 32)"

definition ESE_DZ_TX_OPTION_DESC_CRC_CSUM :: u32 where "ESE_DZ_TX_OPTION_DESC_CRC_CSUM = 0"
definition ESE_DZ_TX_OPTION_DESC_TSO :: u32 where "ESE_DZ_TX_OPTION_DESC_TSO = 7"
definition ESE_DZ_TX_OPTION_DESC_VLAN :: u32 where "ESE_DZ_TX_OPTION_DESC_VLAN = 6"
definition ESE_DZ_TX_TSO_OPTION_DESC_FATSO2A :: u32 where "ESE_DZ_TX_TSO_OPTION_DESC_FATSO2A = 2"
definition ESE_DZ_TX_TSO_OPTION_DESC_FATSO2B :: u32 where "ESE_DZ_TX_TSO_OPTION_DESC_FATSO2B = 3"

definition ER_DZ_TX_PIOBUF_OFST :: nat where "ER_DZ_TX_PIOBUF_OFST = 0x00001000"
definition ER_DZ_TX_PIOBUF_STEP :: nat where "ER_DZ_TX_PIOBUF_STEP = 8192"

definition MC_CMD_INIT_TXQ :: u32 where "MC_CMD_INIT_TXQ = 0x82"
definition MC_CMD_FINI_TXQ :: u32 where "MC_CMD_FINI_TXQ = 0x85"
definition MC_CMD_ALLOC_PIOBUF :: u32 where "MC_CMD_ALLOC_PIOBUF = 0x8f"
definition MC_CMD_FREE_PIOBUF :: u32 where "MC_CMD_FREE_PIOBUF = 0x90"
definition MC_CMD_LINK_PIOBUF :: u32 where "MC_CMD_LINK_PIOBUF = 0x92"
definition MC_CMD_UNLINK_PIOBUF :: u32 where "MC_CMD_UNLINK_PIOBUF = 0x93"

definition EFX_TXQ_MINNDESCS :: nat where "EFX_TXQ_MINNDESCS = 512"
definition EFX_TXQ_MAX_BUFS :: nat where "EFX_TXQ_MAX_BUFS = 8"
definition EFX_EV_TX_NLABELS :: nat where "EFX_EV_TX_NLABELS = 32"

definition EFX_TXQ_CKSUM_IPV4 :: u16 where "EFX_TXQ_CKSUM_IPV4 = 0x0001"
definition EFX_TXQ_CKSUM_TCPUDP :: u16 where "EFX_TXQ_CKSUM_TCPUDP = 0x0002"
definition EFX_TXQ_FATSOV2 :: u16 where "EFX_TXQ_FATSOV2 = 0x0004"

definition EFX_MOD_NIC :: u32 where "EFX_MOD_NIC = 0x00000010"

definition EFX_FEATURE_PIO_BUFFERS :: u32 where "EFX_FEATURE_PIO_BUFFERS = 0x00000800"

section \<open>Receive\<close>

definition FRF_BZ_RX_DESC_PUSH_EN :: "nat \<times> nat" where "FRF_BZ_RX_DESC_PUSH_EN = (43, 1)"
definition FRF_BZ_RX_HASH_ALG :: "nat \<times> nat" where "FRF_BZ_RX_HASH_ALG = (45, 1)"
definition FRF_BZ_RX_IP_HASH :: "nat \<times> nat" where "FRF_BZ_RX_IP_HASH = (46, 1)"
definition FRF_BZ_RX_TCP_SUP :: "nat \<times> nat" where "FRF_BZ_RX_TCP_SUP = (48, 1)"
definition FRF_BZ_RX_HASH_INSRT_HDR :: "nat \<times> nat" where "FRF_BZ_RX_HASH_INSRT_HDR = (44, 1)"
definition FRF_BZ_RX_USR_BUF_SIZE :: "nat \<times> nat" where "FRF_BZ_RX_USR_BUF_SIZE = (19, 9)"
definition FRF_CZ_RX_RSS_IPV6_THASH_ENABLE :: "nat \<times> nat" where "FRF_CZ_RX_RSS_IPV6_THASH_ENABLE = (66, 1)"
definition FRF_CZ_RX_RSS_IPV6_IP_THASH_ENABLE :: "nat \<times> nat" where "FRF_CZ_RX_RSS_IPV6_IP_THASH_ENABLE = (65, 1)"
definition FRF_CZ_RX_RSS_IPV6_TCP_SUPPRESS :: "nat \<times> nat" where "FRF_CZ_RX_RSS_IPV6_TCP_SUPPRESS = (64, 1)"
definition FRF_BZ_RX_RSS_TKEY :: "nat \<times> nat" where "FRF_BZ_RX_RSS_TKEY = (96, 32)"
definition FRF_CZ_RX_RSS_IPV6_TKEY_HI :: "nat \<times> nat" where "FRF_CZ_RX_RSS_IPV6_TKEY_HI = (0, 64)"
definition FRF_CZ_RX_RSS_IPV6_TKEY_MID :: "nat \<times> nat" where "FRF_CZ_RX_RSS_IPV6_TKEY_MID = (0, 128)"
definition FRF_CZ_RX_RSS_IPV6_TKEY_LO :: "nat \<times> nat" where "FRF_CZ_RX_RSS_IPV6_TKEY_LO = (0, 128)"
definition FRF_BZ_IT_QUEUE :: "nat \<times> nat" where "FRF_BZ_IT_QUEUE = (0, 6)"
definition FSF_AZ_RX_KER_BUF_SIZE :: "nat \<times> nat" where "FSF_AZ_RX_KER_BUF_SIZE = (48, 14)"
definition FSF_AZ_RX_KER_BUF_ADDR_DW0 :: "nat \<times> nat" where "FSF_AZ_RX_KER_BUF_ADDR_DW0 = (0, 32)"
definition FSF_AZ_RX_KER_BUF_ADDR_DW1 :: "nat \<times> nat" where "FSF_AZ_RX_KER_BUF_ADDR_DW1 = (32, 14)"
definition FRF_AZ_RX_DESC_WPTR :: "nat \<times> nat" where "FRF_AZ_RX_DESC_WPTR = (96, 12)"
definition FRF_AZ_RX_FLUSH_DESCQ_CMD :: "nat \<times> nat" where "FRF_AZ_RX_FLUSH_DESCQ_CMD = (24, 1)"
definition FRF_AZ_RX_FLUSH_DESCQ :: "nat \<times> nat" where "FRF_AZ_RX_FLUSH_DESCQ = (0, 12)"
definition FRF_AZ_RX_DC_HW_RPTR :: "nat \<times> nat" where "FRF_AZ_RX_DC_HW_RPTR = (80, 6)"
definition FRF_AZ_RX_DESCQ_HW_RPTR :: "nat \<times> nat" where "FRF_AZ_RX_DESCQ_HW_RPTR = (68, 12)"
definition FRF_AZ_RX_DESCQ_EN :: "nat \<times> nat" where "FRF_AZ_RX_DESCQ_EN = (0, 1)"
definition FRF_AZ_RX_DESCQ_BUF_BASE_ID :: "nat \<times> nat" where "FRF_AZ_RX_DESCQ_BUF_BASE_ID = (36, 20)"
definition FRF_AZ_RX_DESCQ_EVQ_ID :: "nat \<times> nat" where "FRF_AZ_RX_DESCQ_EVQ_ID = (24, 12)"
definition FRF_AZ_RX_DESCQ_OWNER_ID :: "nat \<times> nat" where "FRF_AZ_RX_DESCQ_OWNER_ID = (10, 14)"
definition FRF_AZ_RX_DESCQ_LABEL :: "nat \<times> nat" where "FRF_AZ_RX_DESCQ_LABEL = (5, 5)"
definition FRF_AZ_RX_DESCQ_SIZE :: "nat \<times> nat" where "FRF_AZ_RX_DESCQ_SIZE = (3, 2)"
definition FRF_AZ_RX_DESCQ_TYPE :: "nat \<times> nat" where "FRF_AZ_RX_DESCQ_TYPE = (2, 1)"
definition FRF_AZ_RX_DESCQ_JUMBO :: "nat \<times> nat" where "FRF_AZ_RX_DESCQ_JUMBO = (1, 1)"

definition FR_AZ_RX_CFG_REG_OFST :: nat where "FR_AZ_RX_CFG_REG_OFST = 0x00000800"
definition FR_BZ_RX_INDIRECTION_TBL_OFST :: nat where "FR_BZ_RX_INDIRECTION_TBL_OFST = 0x00fb0000"
definition FR_BZ_RX_INDIRECTION_TBL_STEP :: nat where "FR_BZ_RX_INDIRECTION_TBL_STEP = 16"
definition FR_BZ_RX_INDIRECTION_TBL_ROWS :: nat where "FR_BZ_RX_INDIRECTION_TBL_ROWS = 128"
definition FR_CZ_RX_RSS_IPV6_REG1_OFST :: nat where "FR_CZ_RX_RSS_IPV6_REG1_OFST = 0x000008d0"
definition FR_CZ_RX_RSS_IPV6_REG2_OFST :: nat where "FR_CZ_RX_RSS_IPV6_REG2_OFST = 0x000008e0"
definition FR_CZ_RX_RSS_IPV6_REG3_OFST :: nat where "FR_CZ_RX_RSS_IPV6_REG3_OFST = 0x000008f0"
definition FR_BZ_RX_RSS_TKEY_REG_OFST :: nat where "FR_BZ_RX_RSS_TKEY_REG_OFST = 0x00000860"
definition FR_BZ_RX_DESC_UPD_REGP0_OFST :: nat where "FR_BZ_RX_DESC_UPD_REGP0_OFST = 0x00000830"
definition FR_BZ_RX_DESC_UPD_REGP0_STEP :: nat where "FR_BZ_RX_DESC_UPD_REGP0_STEP = 8192"
definition FR_AZ_RX_FLUSH_DESCQ_REG_OFST :: nat where "FR_AZ_RX_FLUSH_DESCQ_REG_OFST = 0x00000820"
definition FR_AZ_RX_DESC_PTR_TBL_OFST :: nat where "FR_AZ_RX_DESC_PTR_TBL_OFST = 0x00f40000"
definition FR_AZ_RX_DESC_PTR_TBL_STEP :: nat where "FR_AZ_RX_DESC_PTR_TBL_STEP = 16"

definition ESF_DZ_RX_KER_BYTE_CNT :: "nat \<times> nat" where "ESF_DZ_RX_KER_BYTE_CNT = (48, 14)"
definition ESF_DZ_RX_KER_BUF_ADDR_DW0 :: "nat \<times> nat" where "ESF_DZ_RX_KER_BUF_ADDR_DW0 = (0, 32)"
definition ESF_DZ_RX_KER_BUF_ADDR_DW1 :: "nat \<times> nat" where "ESF_DZ_RX_KER_BUF_ADDR_DW1 = (32, 16)"
definition ERF_DZ_RX_DESC_WPTR :: "nat \<times> nat" where "ERF_DZ_RX_DESC_WPTR = (0, 12)"

definition ER_DZ_RX_DESC_UPD_REG_OFST :: nat where "ER_DZ_RX_DESC_UPD_REG_OFST = 0x00000830"
definition ER_DZ_RX_DESC_UPD_REG_STEP :: nat where "ER_DZ_RX_DESC_UPD_REG_STEP = 8192"

definition EF10_RX_WPTR_ALIGN :: u32 where "EF10_RX_WPTR_ALIGN = 8"

definition MC_CMD_INIT_RXQ :: u32 where "MC_CMD_INIT_RXQ = 0x81"
definition MC_CMD_FINI_RXQ :: u32 where "MC_CMD_FINI_RXQ = 0x84"
definition MC_CMD_RSS_CONTEXT_ALLOC :: u32 where "MC_CMD_RSS_CONTEXT_ALLOC = 0x9e"
definition MC_CMD_RSS_CONTEXT_FREE :: u32 where "MC_CMD_RSS_CONTEXT_FREE = 0x9f"
definition MC_CMD_RSS_CONTEXT_SET_FLAGS :: u32 where "MC_CMD_RSS_CONTEXT_SET_FLAGS = 0xe1"
definition MC_CMD_RSS_CONTEXT_SET_KEY :: u32 where "MC_CMD_RSS_CONTEXT_SET_KEY = 0xa0"
definition MC_CMD_RSS_CONTEXT_SET_TABLE :: u32 where "MC_CMD_RSS_CONTEXT_SET_TABLE = 0xa2"
definition EVB_PORT_ID_ASSIGNED :: u32 where "EVB_PORT_ID_ASSIGNED = 0x1000000"

definition EFX_RXQ_MINNDESCS :: nat where "EFX_RXQ_MINNDESCS = 512"
definition EFX_RXQ_MAXNDESCS :: nat where "EFX_RXQ_MAXNDESCS = 4096"
definition EFX_MAXRSS :: nat where "EFX_MAXRSS = 64"

section \<open>Derived limits\<close>

definition EFX_TXQ_MAXNDESCS :: "bool \<Rightarrow> nat" where
  "EFX_TXQ_MAXNDESCS workaround = (if workaround then 2048 else 4096)"

definition EFX_TXQ_LIMIT :: "u32 \<Rightarrow> u32" where "EFX_TXQ_LIMIT ndescs = ndescs - 16"
definition EFX_RXQ_LIMIT :: "u32 \<Rightarrow> u32" where "EFX_RXQ_LIMIT ndescs = ndescs - 16"
definition EFX_TXQ_NBUFS :: "nat \<Rightarrow> nat" where "EFX_TXQ_NBUFS ndescs = ndescs * 8 div EFX_BUF_SIZE"
definition EFX_RXQ_NBUFS :: "nat \<Rightarrow> nat" where "EFX_RXQ_NBUFS ndescs = ndescs * 8 div EFX_BUF_SIZE"

definition MC_CMD_INIT_TXQ_IN_LEN :: "nat \<Rightarrow> nat" where "MC_CMD_INIT_TXQ_IN_LEN num = 28 + 8 * num"
definition MC_CMD_INIT_TXQ_IN_DMA_ADDR_MAXNUM :: nat where "MC_CMD_INIT_TXQ_IN_DMA_ADDR_MAXNUM = 28"
definition MC_CMD_INIT_RXQ_IN_LEN :: "nat \<Rightarrow> nat" where "MC_CMD_INIT_RXQ_IN_LEN num = 28 + 8 * num"
definition MC_CMD_ERR_EALREADY :: u32 where "MC_CMD_ERR_EALREADY = 114"
definition EF10_RSS_CONTEXT_INVALID :: u32 where "EF10_RSS_CONTEXT_INVALID = 0xffffffff"
definition EFX_PIOBUF_HANDLE_INVALID :: u32 where "EFX_PIOBUF_HANDLE_INVALID = 0xffffffff"
definition EF10_MAX_PIOBUF_NBUFS :: nat where "EF10_MAX_PIOBUF_NBUFS = 16"

end
