(* ===== verification/Efx_Txq.thy ===== *)
theory Efx_Txq
  imports Efx_Dp_Regs Efx_Ev_Queue
begin

text \<open>
  Transmit queues (\<open>src/common/efx_tx.c\<close>, \<open>src/common/ef10_tx.c\<close>) and the buffers for programmed I/O that EF10 shares out among
  them (\<open>src/common/ef10_nic.c\<close>). The state of the controller is that of the event code with the counts, tables and limits of the
  descriptor queues. A queue is passed and returned; its memory \<open>et_esmp\<close> is indexed by descriptor.
\<close>

section \<open>State\<close>

datatype efx_rx_hash_support = EFX_RX_HASH_UNAVAILABLE | EFX_RX_HASH_AVAILABLE
datatype efx_rx_scale_support = EFX_RX_SCALE_UNAVAILABLE | EFX_RX_SCALE_EXCLUSIVE | EFX_RX_SCALE_SHARED

record 'c dp_nic =
  en_evn :: "'c ev_nic"
  en_etxop :: "efx_family option"
  en_tx_qcount :: nat
  en_erxop :: "efx_family option"
  en_rx_qcount :: nat
  en_hash_support :: efx_rx_hash_support
  en_rss_support :: efx_rx_scale_support
  en_rss_context :: u32
  enc_txq_limit :: nat
  enc_rxq_limit :: nat
  enc_clk_mult :: u32
  enc_rx_disable_scatter_supported :: bool
  enc_piobuf_size :: u32
  edc_pio_alloc_size :: u32
  ena_piobuf_handle :: "u32 list"
  ena_piobuf_count :: nat
  ena_pio_alloc_map :: "u32 list"

abbreviation dp_mod_flags :: "'c dp_nic \<Rightarrow> u32" where "dp_mod_flags enp \<equiv> ev_mod_flags (en_evn enp)"
abbreviation dp_family :: "'c dp_nic \<Rightarrow> efx_family" where "dp_family enp \<equiv> ev_family (en_evn enp)"
abbreviation dp_features :: "'c dp_nic \<Rightarrow> u32" where "dp_features enp \<equiv> ev_features (en_evn enp)"
abbreviation dp_bar :: "'c dp_nic \<Rightarrow> efx_bar" where "dp_bar enp \<equiv> en_bar (en_evn enp)"
abbreviation dp_mcdi :: "'c dp_nic \<Rightarrow> 'c mcdi_nic" where "dp_mcdi enp \<equiv> en_mcdi (en_evn enp)"

definition dp_set_bar :: "efx_bar \<Rightarrow> 'c dp_nic \<Rightarrow> 'c dp_nic" where
  "dp_set_bar bar enp = enp\<lparr>en_evn := (en_evn enp)\<lparr>en_bar := bar\<rparr>\<rparr>"

definition dp_set_mcdi :: "'c mcdi_nic \<Rightarrow> 'c dp_nic \<Rightarrow> 'c dp_nic" where
  "dp_set_mcdi m enp = enp\<lparr>en_evn := (en_evn enp)\<lparr>en_mcdi := m\<rparr>\<rparr>"

definition dp_set_mod_flags :: "u32 \<Rightarrow> 'c dp_nic \<Rightarrow> 'c dp_nic" where
  "dp_set_mod_flags flags enp = enp\<lparr>en_evn := ev_set_mod_flags flags (en_evn enp)\<rparr>"

text \<open>\<open>efx_mcdi_execute\<close> and its quiet variant, on this state.\<close>

definition dp_execute :: "'c mcdi_nic mc_env \<Rightarrow> efx_mcdi_req \<Rightarrow> 'c dp_nic \<Rightarrow> (efx_mcdi_req \<times> 'c dp_nic) option" where
  "dp_execute env req enp = do {
     (req, m) \<leftarrow> efx_mcdi_execute env (dp_mod_flags enp) (dp_features enp) req (dp_mcdi enp);
     Some (req, dp_set_mcdi m enp) }"

definition dp_execute_quiet :: "'c mcdi_nic mc_env \<Rightarrow> efx_mcdi_req \<Rightarrow> 'c dp_nic \<Rightarrow> (efx_mcdi_req \<times> 'c dp_nic) option" where
  "dp_execute_quiet env req enp = do {
     (req, m) \<leftarrow> efx_mcdi_execute_quiet env (dp_mod_flags enp) (dp_features enp) req (dp_mcdi enp);
     Some (req, dp_set_mcdi m enp) }"

datatype efx_tx_qstat = TX_POST | TX_POST_PIO

definition efx_tx_qstat_names :: "(efx_tx_qstat \<times> string) list" where
  "efx_tx_qstat_names = [(TX_POST, ''post''), (TX_POST_PIO, ''post_pio'')]"

definition efx_tx_qstat_name :: "nat \<Rightarrow> string option" where
  "efx_tx_qstat_name stat_id = map_option snd (rd efx_tx_qstat_names stat_id)"

record efx_txq =
  et_index :: nat
  et_mask :: u32
  et_esmp :: "efx_qword list"
  et_pio_bufnum :: nat
  et_pio_blknum :: nat
  et_pio_write_offset :: u32
  et_pio_offset :: u32
  et_pio_size :: u64
  et_stat :: "efx_tx_qstat \<Rightarrow> u32"

record efx_buffer =
  eb_addr :: u64
  eb_size :: u64
  eb_eop :: bool

definition EFX_TX_QSTAT_INCR :: "efx_tx_qstat \<Rightarrow> efx_txq \<Rightarrow> efx_txq" where
  "EFX_TX_QSTAT_INCR stat etp = etp\<lparr>et_stat := (et_stat etp)(stat := et_stat etp stat + 1)\<rparr>"

section \<open>Descriptors\<close>

text \<open>The assertion that a fragment stays in its page of 4096 bytes: \<open>P2ROUNDUP (addr + 1, 4096) >= addr + size\<close>.\<close>

definition p2roundup :: "u64 \<Rightarrow> u64 \<Rightarrow> u64" where
  "p2roundup x align = - (- x AND - align)"

definition fragment_ok :: "u64 \<Rightarrow> u64 \<Rightarrow> bool" where
  "fragment_ok addr len = (addr + len \<le> p2roundup (addr + 1) 4096)"

definition siena_tx_desc :: "u64 \<Rightarrow> u64 \<Rightarrow> bool \<Rightarrow> efx_qword" where
  "siena_tx_desc addr len eop = efx_populate_qword
     [fset FSF_AZ_TX_KER_CONT (if eop then 0 else 1), fset FSF_AZ_TX_KER_BYTE_COUNT (ucast len),
      fset FSF_AZ_TX_KER_BUF_ADDR_DW0 (ucast (addr AND 0xffffffff)), fset FSF_AZ_TX_KER_BUF_ADDR_DW1 (ucast (drop_bit 32 addr))]"

definition ef10_tx_desc :: "u64 \<Rightarrow> u64 \<Rightarrow> bool \<Rightarrow> efx_qword" where
  "ef10_tx_desc addr len eop = efx_populate_qword
     [fset ESF_DZ_TX_KER_TYPE 0, fset ESF_DZ_TX_KER_CONT (if eop then 0 else 1), fset ESF_DZ_TX_KER_BYTE_CNT (ucast len),
      fset ESF_DZ_TX_KER_BUF_ADDR_DW0 (ucast (addr AND 0xffffffff)), fset ESF_DZ_TX_KER_BUF_ADDR_DW1 (ucast (drop_bit 32 addr))]"

definition siena_tx_qdesc_dma_create :: "u64 \<Rightarrow> u64 \<Rightarrow> bool \<Rightarrow> efx_qword option" where
  "siena_tx_qdesc_dma_create addr len eop = do {
     efsys_assert (fragment_ok addr len);
     Some (siena_tx_desc addr len eop) }"

definition ef10_tx_qdesc_dma_create :: "u64 \<Rightarrow> u64 \<Rightarrow> bool \<Rightarrow> efx_qword option" where
  "ef10_tx_qdesc_dma_create addr len eop = do {
     efsys_assert (fragment_ok addr len);
     Some (ef10_tx_desc addr len eop) }"

definition ef10_tx_qdesc_tso_create :: "u16 \<Rightarrow> u32 \<Rightarrow> u8 \<Rightarrow> efx_qword" where
  "ef10_tx_qdesc_tso_create ipv4_id tcp_seq tcp_flags = efx_populate_qword
     [fset ESF_DZ_TX_DESC_IS_OPT 1, fset ESF_DZ_TX_OPTION_TYPE ESE_DZ_TX_OPTION_DESC_TSO, fset ESF_DZ_TX_TSO_TCP_FLAGS (ucast tcp_flags),
      fset ESF_DZ_TX_TSO_IP_ID (ucast ipv4_id), fset ESF_DZ_TX_TSO_TCP_SEQNO tcp_seq]"

definition EFX_TX_FATSOV2_OPT_NDESCS :: nat where "EFX_TX_FATSOV2_OPT_NDESCS = 2"

definition ef10_tx_qdesc_tso2_create :: "u16 \<Rightarrow> u32 \<Rightarrow> u16 \<Rightarrow> nat \<Rightarrow> efx_qword list option" where
  "ef10_tx_qdesc_tso2_create ipv4_id tcp_seq tcp_mss count = do {
     efsys_assert (EFX_TX_FATSOV2_OPT_NDESCS \<le> count);
     Some [efx_populate_qword
             [fset ESF_DZ_TX_DESC_IS_OPT 1, fset ESF_DZ_TX_OPTION_TYPE ESE_DZ_TX_OPTION_DESC_TSO,
              fset ESF_DZ_TX_TSO_OPTION_TYPE ESE_DZ_TX_TSO_OPTION_DESC_FATSO2A,
              fset ESF_DZ_TX_TSO_IP_ID (ucast ipv4_id), fset ESF_DZ_TX_TSO_TCP_SEQNO tcp_seq],
           efx_populate_qword
             [fset ESF_DZ_TX_DESC_IS_OPT 1, fset ESF_DZ_TX_OPTION_TYPE ESE_DZ_TX_OPTION_DESC_TSO,
              fset ESF_DZ_TX_TSO_OPTION_TYPE ESE_DZ_TX_TSO_OPTION_DESC_FATSO2B, fset ESF_DZ_TX_TSO_TCP_MSS (ucast tcp_mss)]] }"

definition ef10_tx_qdesc_vlantci_create :: "u16 \<Rightarrow> efx_qword" where
  "ef10_tx_qdesc_vlantci_create tci = efx_populate_qword
     [fset ESF_DZ_TX_DESC_IS_OPT 1, fset ESF_DZ_TX_OPTION_TYPE ESE_DZ_TX_OPTION_DESC_VLAN,
      fset ESF_DZ_TX_VLAN_OP (if tci \<noteq> 0 then 1 else 0), fset ESF_DZ_TX_VLAN_TAG1 (ucast tci)]"

section \<open>Posting\<close>

text \<open>Writing a list of descriptors behind \<open>added\<close>; the counters run freely and wrap at \<open>2 ^ 32\<close>.\<close>

fun desc_write :: "u32 \<Rightarrow> efx_qword list \<Rightarrow> u32 \<Rightarrow> efx_qword list \<Rightarrow> (efx_qword list \<times> u32) option" where
  "desc_write m [] added mem = Some (mem, added)"
| "desc_write m (d # ds) added mem = do {
     mem \<leftarrow> wr mem (unat (added AND m)) d;
     desc_write m ds (added + 1) mem }"

text \<open>The loop of \<open>siena_tx_qpost\<close> and of \<open>ef10_tx_qpost\<close> over the buffers.\<close>

fun siena_qpost_loop :: "u32 \<Rightarrow> efx_buffer list \<Rightarrow> u32 \<Rightarrow> efx_qword list \<Rightarrow> (efx_qword list \<times> u32) option" where
  "siena_qpost_loop m [] added mem = Some (mem, added)"
| "siena_qpost_loop m (ebp # eb) added mem = do {
     efsys_assert (fragment_ok (eb_addr ebp) (eb_size ebp));
     mem \<leftarrow> wr mem (unat (added AND m)) (siena_tx_desc (eb_addr ebp) (eb_size ebp) (eb_eop ebp));
     siena_qpost_loop m eb (added + 1) mem }"

fun ef10_qpost_loop :: "u32 \<Rightarrow> efx_buffer list \<Rightarrow> u32 \<Rightarrow> efx_qword list \<Rightarrow> (efx_qword list \<times> u32) option" where
  "ef10_qpost_loop m [] added mem = Some (mem, added)"
| "ef10_qpost_loop m (ebp # eb) added mem = do {
     efsys_assert (fragment_ok (eb_addr ebp) (eb_size ebp));
     mem \<leftarrow> wr mem (unat (added AND m)) (ef10_tx_desc (eb_addr ebp) (eb_size ebp) (eb_eop ebp));
     ef10_qpost_loop m eb (added + 1) mem }"

definition siena_tx_qpost :: "efx_txq \<Rightarrow> efx_buffer list \<Rightarrow> u32 \<Rightarrow> u32 \<Rightarrow> (efx_rc \<times> efx_txq \<times> u32) option" where
  "siena_tx_qpost etp eb completed added =
     (if EFX_TXQ_LIMIT (et_mask etp + 1) < added - completed + of_nat (length eb) then Some (ENOSPC, etp, added)
      else do {
        (mem, added) \<leftarrow> siena_qpost_loop (et_mask etp) eb added (et_esmp etp);
        Some (RC_OK, EFX_TX_QSTAT_INCR TX_POST (etp\<lparr>et_esmp := mem\<rparr>), added) })"

definition ef10_tx_qpost :: "efx_txq \<Rightarrow> efx_buffer list \<Rightarrow> u32 \<Rightarrow> u32 \<Rightarrow> (efx_rc \<times> efx_txq \<times> u32) option" where
  "ef10_tx_qpost etp eb completed added =
     (if EFX_TXQ_LIMIT (et_mask etp + 1) < added - completed + of_nat (length eb) then Some (ENOSPC, etp, added)
      else do {
        (mem, added) \<leftarrow> ef10_qpost_loop (et_mask etp) eb added (et_esmp etp);
        Some (RC_OK, EFX_TX_QSTAT_INCR TX_POST (etp\<lparr>et_esmp := mem\<rparr>), added) })"

definition siena_tx_qdesc_post :: "efx_txq \<Rightarrow> efx_qword list \<Rightarrow> u32 \<Rightarrow> u32 \<Rightarrow> (efx_rc \<times> efx_txq \<times> u32) option" where
  "siena_tx_qdesc_post etp ed completed added =
     (if EFX_TXQ_LIMIT (et_mask etp + 1) < added - completed + of_nat (length ed) then Some (ENOSPC, etp, added)
      else do {
        (mem, added) \<leftarrow> desc_write (et_mask etp) ed added (et_esmp etp);
        Some (RC_OK, EFX_TX_QSTAT_INCR TX_POST (etp\<lparr>et_esmp := mem\<rparr>), added) })"

definition ef10_tx_qdesc_post :: "efx_txq \<Rightarrow> efx_qword list \<Rightarrow> u32 \<Rightarrow> u32 \<Rightarrow> (efx_rc \<times> efx_txq \<times> u32) option" where
  "ef10_tx_qdesc_post etp ed completed added =
     (if EFX_TXQ_LIMIT (et_mask etp + 1) < added - completed + of_nat (length ed) then Some (ENOSPC, etp, added)
      else do {
        (mem, added) \<leftarrow> desc_write (et_mask etp) ed added (et_esmp etp);
        Some (RC_OK, EFX_TX_QSTAT_INCR TX_POST (etp\<lparr>et_esmp := mem\<rparr>), added) })"

section \<open>Pushing\<close>

definition siena_tx_qpush :: "efx_txq \<Rightarrow> u32 \<Rightarrow> u32 \<Rightarrow> 'c dp_nic \<Rightarrow> 'c dp_nic" where
  "siena_tx_qpush etp added pushed enp =
     (let wptr = added AND et_mask etp;
          oword = efx_populate_oword [fset FRF_AZ_TX_DESC_WPTR wptr];
          dword = efx_populate_dword [fset EFX_DWORD_0 (efx_oword_field oword 96 32)]
      in dp_set_bar (EFX_BAR_TBL_WRITED3 FR_BZ_TX_DESC_UPD_REGP0_OFST FR_BZ_TX_DESC_UPD_REGP0_STEP (et_index etp) dword (dp_bar enp)) enp)"

text \<open>EF10 pushes the first new descriptor together with the doorbell.\<close>

definition ef10_tx_qpush :: "efx_txq \<Rightarrow> u32 \<Rightarrow> u32 \<Rightarrow> 'c dp_nic \<Rightarrow> 'c dp_nic option" where
  "ef10_tx_qpush etp added pushed enp = do {
     let wptr = added AND et_mask etp;
     desc \<leftarrow> rd (et_esmp etp) (unat (pushed AND et_mask etp));
     let oword = efx_populate_oword [fset ERF_DZ_TX_DESC_WPTR wptr, fset ERF_DZ_TX_DESC_HWORD (qfield desc EFX_DWORD_1),
                   fset ERF_DZ_TX_DESC_LWORD (qfield desc EFX_DWORD_0)];
     Some (dp_set_bar (EFX_BAR_TBL_DOORBELL_WRITEO ER_DZ_TX_DESC_UPD_REG_OFST ER_DZ_TX_DESC_UPD_REG_STEP (et_index etp) oword (dp_bar enp)) enp) }"

section \<open>Life cycle on Siena\<close>

definition oset :: "nat \<times> nat \<Rightarrow> u32 \<Rightarrow> efx_oword \<Rightarrow> efx_oword" where
  "oset f v oword = efx_set_oword_field oword (fst f) (snd f) v"

definition siena_tx_init :: "'c dp_nic \<Rightarrow> efx_rc \<times> 'c dp_nic" where
  "siena_tx_init enp =
     (let oword = EFX_BAR_READO FR_AZ_TX_RESERVED_REG_OFST (dp_bar enp);
          oword = oset FRF_AZ_TX_RX_SPACER 0xfe oword;
          oword = oset FRF_AZ_TX_RX_SPACER_EN 1 oword;
          oword = oset FRF_AZ_TX_ONE_PKT_PER_Q 1 oword;
          oword = oset FRF_AZ_TX_PUSH_EN 0 oword;
          oword = oset FRF_AZ_TX_DIS_NON_IP_EV 1 oword;
          oword = oset FRF_AZ_TX_PREF_THRESHOLD 2 oword;
          oword = oset FRF_AZ_TX_PREF_WD_TMR 0x3fffff oword;
          oword = oset FRF_BZ_TX_FLUSH_MIN_LEN_EN 1 oword;
          bar = EFX_BAR_WRITEO FR_AZ_TX_RESERVED_REG_OFST oword (dp_bar enp);
          oword = EFX_BAR_READO FR_AZ_TX_CFG_REG_OFST bar;
          oword = oset FRF_AZ_TX_NO_EOP_DISC_EN 0 oword;
          bar = EFX_BAR_WRITEO FR_AZ_TX_CFG_REG_OFST oword bar
      in (RC_OK, dp_set_bar bar enp))"

definition siena_tx_fini :: "'c dp_nic \<Rightarrow> 'c dp_nic" where "siena_tx_fini enp = enp"

text \<open>
  The size field of a queue. The loop stops at the largest size without a match. The bound on \<open>n\<close> is that of event queues.
\<close>

definition txq_size_ok :: "nat \<Rightarrow> bool" where
  "txq_size_ok n = (isp2 n \<and> EFX_TXQ_MINNDESCS \<le> n \<and> n \<le> EFX_EVQ_MAXNEVS)"

definition siena_txq_size :: "bool \<Rightarrow> nat \<Rightarrow> nat" where
  "siena_txq_size workaround n =
     (let sizes = takeWhile (\<lambda>s. 2 ^ s \<le> EFX_TXQ_MAXNDESCS workaround div EFX_TXQ_MINNDESCS) [0..<32]
      in case find (\<lambda>s. 2 ^ s = n div EFX_TXQ_MINNDESCS) sizes of Some s \<Rightarrow> s | None \<Rightarrow> length sizes)"

definition siena_tx_qcreate ::
    "'c dp_nic \<Rightarrow> nat \<Rightarrow> nat \<Rightarrow> nat \<Rightarrow> u32 \<Rightarrow> u16 \<Rightarrow> efx_evq \<Rightarrow> efx_txq \<Rightarrow> (efx_rc \<times> 'c dp_nic) option" where
  "siena_tx_qcreate enp index label n buftbl_id flags eep etp = do {
     efsys_assert (label < EFX_EV_TX_NLABELS);
     if \<not> txq_size_ok n then Some (EINVAL, enp)
     else if enc_txq_limit enp \<le> index then Some (EINVAL, enp)
     else
       let bits = siena_txq_size (enc_bug35388_workaround (en_evn enp)) n
       in if enc_buftbl_limit (en_evn enp) \<le> buftbl_id + 2 ^ bits then Some (EINVAL, enp)
          else
            let oword = efx_populate_oword
                  [fset FRF_AZ_TX_DESCQ_BUF_BASE_ID buftbl_id, fset FRF_AZ_TX_DESCQ_EVQ_ID (of_nat (ee_index eep)), fset FRF_AZ_TX_DESCQ_OWNER_ID 0,
                   fset FRF_AZ_TX_DESCQ_LABEL (of_nat label), fset FRF_AZ_TX_DESCQ_SIZE (of_nat bits), fset FRF_AZ_TX_DESCQ_TYPE 0];
                oword = oset FRF_BZ_TX_NON_IP_DROP_DIS 1 oword;
                oword = oset FRF_BZ_TX_IP_CHKSM_DIS (if flags AND EFX_TXQ_CKSUM_IPV4 \<noteq> 0 then 0 else 1) oword;
                oword = oset FRF_BZ_TX_TCP_CHKSM_DIS (if flags AND EFX_TXQ_CKSUM_TCPUDP \<noteq> 0 then 0 else 1) oword
            in Some (RC_OK, dp_set_bar (EFX_BAR_TBL_WRITEO FR_AZ_TX_DESC_PTR_TBL_OFST FR_AZ_TX_DESC_PTR_TBL_STEP (et_index etp) oword (dp_bar enp)) enp) }"

definition siena_tx_qdestroy :: "efx_txq \<Rightarrow> 'c dp_nic \<Rightarrow> 'c dp_nic" where
  "siena_tx_qdestroy etp enp =
     dp_set_bar (EFX_BAR_TBL_WRITEO FR_AZ_TX_DESC_PTR_TBL_OFST FR_AZ_TX_DESC_PTR_TBL_STEP (et_index etp) EFX_ZERO_OWORD (dp_bar enp)) enp"

definition EFX_MAX_PACE_VALUE :: nat where "EFX_MAX_PACE_VALUE = 20"

text \<open>The least pace value with \<open>ns \<le> timer_period * 2 ^ pace_val\<close>; a multiplier of zero divides by zero.\<close>

definition tx_pace_val :: "u32 \<Rightarrow> u32 \<Rightarrow> nat option" where
  "tx_pace_val clk_mult ns =
     (if ns = 0 then Some 0
      else do {
        efsys_assert (clk_mult \<noteq> 0);
        let timer_period = 104 div clk_mult;
        Some (case find (\<lambda>p. ns \<le> push_bit p timer_period) [1..<EFX_MAX_PACE_VALUE + 1] of Some p \<Rightarrow> p | None \<Rightarrow> EFX_MAX_PACE_VALUE + 1) })"

definition siena_tx_qpace :: "efx_txq \<Rightarrow> u32 \<Rightarrow> 'c dp_nic \<Rightarrow> (efx_rc \<times> 'c dp_nic) option" where
  "siena_tx_qpace etp ns enp = do {
     pace_val \<leftarrow> tx_pace_val (enc_clk_mult enp) ns;
     if EFX_MAX_PACE_VALUE < pace_val then Some (EINVAL, enp)
     else
       let oword = efx_populate_oword [fset FRF_AZ_TX_PACE (of_nat pace_val)]
       in Some (RC_OK, dp_set_bar (EFX_BAR_TBL_WRITEO FR_AZ_TX_PACE_TBL_OFST FR_AZ_TX_PACE_TBL_STEP (et_index etp) oword (dp_bar enp)) enp) }"

definition ef10_tx_qpace :: "efx_txq \<Rightarrow> u32 \<Rightarrow> 'c dp_nic \<Rightarrow> efx_rc \<times> 'c dp_nic" where
  "ef10_tx_qpace etp ns enp = (RC_OK, enp)"

definition efx_tx_qpace :: "efx_txq \<Rightarrow> u32 \<Rightarrow> 'c dp_nic \<Rightarrow> (efx_rc \<times> 'c dp_nic) option" where
  "efx_tx_qpace etp ns enp = do {
     etxop \<leftarrow> en_etxop enp;
     if etxop = EFX_FAMILY_SIENA then siena_tx_qpace etp ns enp else Some (ef10_tx_qpace etp ns enp) }"

definition siena_tx_qflush :: "efx_txq \<Rightarrow> 'c dp_nic \<Rightarrow> (efx_rc \<times> 'c dp_nic) option" where
  "siena_tx_qflush etp enp = do {
     (_, enp) \<leftarrow> efx_tx_qpace etp 0 enp;
     let oword = efx_populate_oword [fset FRF_AZ_TX_FLUSH_DESCQ_CMD 1, fset FRF_AZ_TX_FLUSH_DESCQ (of_nat (et_index etp))];
     Some (RC_OK, dp_set_bar (EFX_BAR_WRITEO FR_AZ_TX_FLUSH_DESCQ_REG_OFST oword (dp_bar enp)) enp) }"

definition siena_tx_qenable :: "efx_txq \<Rightarrow> 'c dp_nic \<Rightarrow> 'c dp_nic" where
  "siena_tx_qenable etp enp =
     (let oword = EFX_BAR_TBL_READO FR_AZ_TX_DESC_PTR_TBL_OFST FR_AZ_TX_DESC_PTR_TBL_STEP (et_index etp) (dp_bar enp);
          oword = oset FRF_AZ_TX_DC_HW_RPTR 0 oword;
          oword = oset FRF_AZ_TX_DESCQ_HW_RPTR 0 oword;
          oword = oset FRF_AZ_TX_DESCQ_EN 1 oword
      in dp_set_bar (EFX_BAR_TBL_WRITEO FR_AZ_TX_DESC_PTR_TBL_OFST FR_AZ_TX_DESC_PTR_TBL_STEP (et_index etp) oword (dp_bar enp)) enp)"

definition siena_tx_qstats_update :: "efx_txq \<Rightarrow> (efx_tx_qstat \<Rightarrow> u64) \<Rightarrow> efx_txq \<times> (efx_tx_qstat \<Rightarrow> u64)" where
  "siena_tx_qstats_update etp stat = (etp\<lparr>et_stat := (\<lambda>_. 0)\<rparr>, (\<lambda>s. stat s + ucast (et_stat etp s)))"

section \<open>Life cycle on EF10\<close>

definition init_txq_flags :: "u16 \<Rightarrow> u32" where
  "init_txq_flags flags = efx_populate_dword
     [(0, 1, 0), (1, 1, if flags AND EFX_TXQ_CKSUM_IPV4 \<noteq> 0 then 0 else 1), (2, 1, if flags AND EFX_TXQ_CKSUM_TCPUDP \<noteq> 0 then 0 else 1),
      (12, 1, if flags AND EFX_TXQ_FATSOV2 \<noteq> 0 then 1 else 0), (3, 1, 0), (4, 4, 0), (8, 1, 0)]"

definition efx_mcdi_init_txq ::
    "'c mcdi_nic mc_env \<Rightarrow> nat \<Rightarrow> nat \<Rightarrow> nat \<Rightarrow> nat \<Rightarrow> u16 \<Rightarrow> u64 \<Rightarrow> 'c dp_nic \<Rightarrow> (efx_rc \<times> 'c dp_nic) option" where
  "efx_mcdi_init_txq env n target_evq label instance_id flags addr enp = do {
     efsys_assert (EFX_TXQ_NBUFS (EFX_TXQ_MAXNDESCS (enc_bug35388_workaround (en_evn enp))) \<le> EFX_TXQ_MAX_BUFS);
     let npages = EFX_TXQ_NBUFS n;
     if MC_CMD_INIT_TXQ_IN_DMA_ADDR_MAXNUM < npages then Some (EINVAL, enp)
     else do {
       let payload = replicate (MC_CMD_INIT_TXQ_IN_LEN EFX_TXQ_MAX_BUFS) 0;
       payload \<leftarrow> mcdi_in_set_dword 0 (of_nat n) payload;
       payload \<leftarrow> mcdi_in_set_dword 4 (of_nat target_evq) payload;
       payload \<leftarrow> mcdi_in_set_dword 8 (of_nat label) payload;
       payload \<leftarrow> mcdi_in_set_dword 12 (of_nat instance_id) payload;
       payload \<leftarrow> mcdi_in_set_dword 16 (init_txq_flags flags) payload;
       payload \<leftarrow> mcdi_in_set_dword 20 0 payload;
       payload \<leftarrow> mcdi_in_set_dword 24 EVB_PORT_ID_ASSIGNED payload;
       payload \<leftarrow> init_evq_pages 28 npages addr payload;
       (req, enp) \<leftarrow> dp_execute env (mcdi_req MC_CMD_INIT_TXQ payload (MC_CMD_INIT_TXQ_IN_LEN npages) payload 0) enp;
       Some (emr_rc req, enp) } }"

text \<open>
  The code compares the error, which \<open>efx_mcdi\<close> has translated to the error numbers of the host, with the number of the protocol.
\<close>

definition efx_mcdi_fini_txq :: "'c mcdi_nic mc_env \<Rightarrow> nat \<Rightarrow> 'c dp_nic \<Rightarrow> (efx_rc \<times> 'c dp_nic) option" where
  "efx_mcdi_fini_txq env instance_id enp = do {
     payload \<leftarrow> mcdi_in_set_dword 0 (of_nat instance_id) (replicate 4 0);
     (req, enp) \<leftarrow> dp_execute env (mcdi_req MC_CMD_FINI_TXQ payload 4 payload 0) enp;
     if emr_rc req \<noteq> RC_OK \<and> emr_rc req \<noteq> RC_RAW MC_CMD_ERR_EALREADY then Some (emr_rc req, enp) else Some (RC_OK, enp) }"

definition ef10_tx_init :: "'c dp_nic \<Rightarrow> efx_rc \<times> 'c dp_nic" where "ef10_tx_init enp = (RC_OK, enp)"
definition ef10_tx_fini :: "'c dp_nic \<Rightarrow> 'c dp_nic" where "ef10_tx_fini enp = enp"

text \<open>A new queue starts with an option descriptor that clears the push collector; the result is the queue and \<open>added\<close>.\<close>

definition ef10_tx_noop_desc :: "u16 \<Rightarrow> efx_qword" where
  "ef10_tx_noop_desc flags = efx_populate_qword
     [fset ESF_DZ_TX_DESC_IS_OPT 1, fset ESF_DZ_TX_OPTION_TYPE ESE_DZ_TX_OPTION_DESC_CRC_CSUM,
      fset ESF_DZ_TX_OPTION_UDP_TCP_CSUM (if flags AND EFX_TXQ_CKSUM_TCPUDP \<noteq> 0 then 1 else 0),
      fset ESF_DZ_TX_OPTION_IP_CSUM (if flags AND EFX_TXQ_CKSUM_IPV4 \<noteq> 0 then 1 else 0)]"

definition ef10_tx_qcreate ::
    "'c mcdi_nic mc_env \<Rightarrow> 'c dp_nic \<Rightarrow> nat \<Rightarrow> nat \<Rightarrow> u64 \<Rightarrow> nat \<Rightarrow> u16 \<Rightarrow> efx_evq \<Rightarrow> efx_txq \<Rightarrow> (efx_rc \<times> 'c dp_nic \<times> efx_txq \<times> u32) option" where
  "ef10_tx_qcreate env enp index label addr n flags eep etp = do {
     (rc, enp) \<leftarrow> efx_mcdi_init_txq env n (ee_index eep) label index flags addr enp;
     if rc \<noteq> RC_OK then Some (rc, enp, etp, 0)
     else do {
       mem \<leftarrow> wr (et_esmp etp) 0 (ef10_tx_noop_desc flags);
       let etp = etp\<lparr>et_esmp := mem\<rparr>;
       enp \<leftarrow> ef10_tx_qpush etp 1 0 enp;
       Some (RC_OK, enp, etp, 1) } }"

definition ef10_tx_qdestroy :: "efx_txq \<Rightarrow> 'c dp_nic \<Rightarrow> 'c dp_nic" where "ef10_tx_qdestroy etp enp = enp"

definition ef10_tx_qflush :: "'c mcdi_nic mc_env \<Rightarrow> efx_txq \<Rightarrow> 'c dp_nic \<Rightarrow> (efx_rc \<times> 'c dp_nic) option" where
  "ef10_tx_qflush env etp enp = efx_mcdi_fini_txq env (et_index etp) enp"

definition ef10_tx_qenable :: "efx_txq \<Rightarrow> 'c dp_nic \<Rightarrow> 'c dp_nic" where "ef10_tx_qenable etp enp = enp"

definition ef10_tx_qstats_update :: "efx_txq \<Rightarrow> (efx_tx_qstat \<Rightarrow> u64) \<Rightarrow> efx_txq \<times> (efx_tx_qstat \<Rightarrow> u64)" where
  "ef10_tx_qstats_update etp stat = (etp\<lparr>et_stat := (\<lambda>_. 0)\<rparr>, (\<lambda>s. stat s + ucast (et_stat etp s)))"

end
