(* ===== verification/Efx_Pio.thy ===== *)
theory Efx_Pio
  imports Efx_Txq
begin

text \<open>
  Buffers for programmed I/O: the requests of \<open>src/common/ef10_nic.c\<close> that allocate them, the allocator that shares their blocks out,
  and their use by transmit queues (\<open>src/common/ef10_tx.c\<close>); then the interface of \<open>src/common/efx_tx.c\<close>.
\<close>

section \<open>Requests\<close>

definition efx_mcdi_alloc_piobuf :: "'c mcdi_nic mc_env \<Rightarrow> 'c dp_nic \<Rightarrow> (efx_rc \<times> u32 \<times> 'c dp_nic) option" where
  "efx_mcdi_alloc_piobuf env enp = do {
     let payload = replicate 4 0;
     (req, enp) \<leftarrow> dp_execute_quiet env (mcdi_req MC_CMD_ALLOC_PIOBUF payload 0 payload 4) enp;
     if emr_rc req \<noteq> RC_OK then Some (emr_rc req, 0, enp)
     else if emr_out_length_used req < 4 then Some (EMSGSIZE, 0, enp)
     else do {
       handle \<leftarrow> mcdi_out_dword req 0;
       Some (RC_OK, handle, enp) } }"

definition efx_mcdi_free_piobuf :: "'c mcdi_nic mc_env \<Rightarrow> u32 \<Rightarrow> 'c dp_nic \<Rightarrow> (efx_rc \<times> 'c dp_nic) option" where
  "efx_mcdi_free_piobuf env handle enp = do {
     payload \<leftarrow> mcdi_in_set_dword 0 handle (replicate 4 0);
     (req, enp) \<leftarrow> dp_execute_quiet env (mcdi_req MC_CMD_FREE_PIOBUF payload 4 payload 0) enp;
     Some (emr_rc req, enp) }"

definition efx_mcdi_link_piobuf :: "'c mcdi_nic mc_env \<Rightarrow> nat \<Rightarrow> u32 \<Rightarrow> 'c dp_nic \<Rightarrow> (efx_rc \<times> 'c dp_nic) option" where
  "efx_mcdi_link_piobuf env vi_index handle enp = do {
     payload \<leftarrow> mcdi_in_set_dword 0 handle (replicate 8 0);
     payload \<leftarrow> mcdi_in_set_dword 4 (of_nat vi_index) payload;
     (req, enp) \<leftarrow> dp_execute env (mcdi_req MC_CMD_LINK_PIOBUF payload 8 payload 0) enp;
     Some (emr_rc req, enp) }"

definition efx_mcdi_unlink_piobuf :: "'c mcdi_nic mc_env \<Rightarrow> nat \<Rightarrow> 'c dp_nic \<Rightarrow> (efx_rc \<times> 'c dp_nic) option" where
  "efx_mcdi_unlink_piobuf env vi_index enp = do {
     payload \<leftarrow> mcdi_in_set_dword 0 (of_nat vi_index) (replicate 4 0);
     (req, enp) \<leftarrow> dp_execute env (mcdi_req MC_CMD_UNLINK_PIOBUF payload 4 payload 0) enp;
     Some (emr_rc req, enp) }"

section \<open>The buffers\<close>

fun free_piobufs_loop :: "'c mcdi_nic mc_env \<Rightarrow> nat list \<Rightarrow> 'c dp_nic \<Rightarrow> 'c dp_nic option" where
  "free_piobufs_loop env [] enp = Some enp"
| "free_piobufs_loop env (i # is) enp = do {
     handle \<leftarrow> rd (ena_piobuf_handle enp) i;
     (_, enp) \<leftarrow> efx_mcdi_free_piobuf env handle enp;
     handles \<leftarrow> wr (ena_piobuf_handle enp) i EFX_PIOBUF_HANDLE_INVALID;
     free_piobufs_loop env is (enp\<lparr>ena_piobuf_handle := handles\<rparr>) }"

definition ef10_nic_free_piobufs :: "'c mcdi_nic mc_env \<Rightarrow> 'c dp_nic \<Rightarrow> 'c dp_nic option" where
  "ef10_nic_free_piobufs env enp = do {
     enp \<leftarrow> free_piobufs_loop env [0..<ena_piobuf_count enp] enp;
     Some (enp\<lparr>ena_piobuf_count := 0\<rparr>) }"

text \<open>Allocating up to \<open>max_piobuf_count\<close> buffers; when the controller refuses one, those allocated before are freed.\<close>

fun alloc_piobufs_loop :: "'c mcdi_nic mc_env \<Rightarrow> nat list \<Rightarrow> 'c dp_nic \<Rightarrow> 'c dp_nic option" where
  "alloc_piobufs_loop env [] enp = Some enp"
| "alloc_piobufs_loop env (i # is) enp = do {
     (rc, handle, enp) \<leftarrow> efx_mcdi_alloc_piobuf env enp;
     if rc \<noteq> RC_OK then ef10_nic_free_piobufs env enp
     else do {
       handles \<leftarrow> wr (ena_piobuf_handle enp) i handle;
       maps \<leftarrow> wr (ena_pio_alloc_map enp) i 0;
       alloc_piobufs_loop env is (enp\<lparr>ena_piobuf_handle := handles, ena_pio_alloc_map := maps, ena_piobuf_count := ena_piobuf_count enp + 1\<rparr>) } }"

definition ef10_nic_alloc_piobufs :: "'c mcdi_nic mc_env \<Rightarrow> nat \<Rightarrow> 'c dp_nic \<Rightarrow> 'c dp_nic option" where
  "ef10_nic_alloc_piobufs env max_piobuf_count enp = do {
     efsys_assert (max_piobuf_count \<le> length (ena_piobuf_handle enp));
     alloc_piobufs_loop env [0..<max_piobuf_count] (enp\<lparr>ena_piobuf_count := 0\<rparr>) }"

section \<open>Blocks of a buffer\<close>

text \<open>The first buffer with an unused block, and the block; a buffer whose map is full is passed over.\<close>

fun pio_find :: "nat \<Rightarrow> u32 list \<Rightarrow> nat list \<Rightarrow> (nat \<times> nat) option option" where
  "pio_find blk_per_buf maps [] = Some None"
| "pio_find blk_per_buf maps (buf # bufs) = do {
     map \<leftarrow> rd maps buf;
     if NOT map = 0 then pio_find blk_per_buf maps bufs
     else do {
       efsys_assert (blk_per_buf \<le> 8 * 4);
       case find (\<lambda>blk. map AND push_bit blk 1 = 0) [0..<blk_per_buf] of
         Some blk \<Rightarrow> Some (Some (buf, blk))
       | None \<Rightarrow> pio_find blk_per_buf maps bufs } }"

text \<open>The result: buffer, handle, block, offset, and the size of the block.\<close>

definition ef10_nic_pio_alloc :: "'c dp_nic \<Rightarrow> (efx_rc \<times> (nat \<times> u32 \<times> nat \<times> u32 \<times> u64) option \<times> 'c dp_nic) option" where
  "ef10_nic_pio_alloc enp = do {
     efsys_assert (dp_family enp = EFX_FAMILY_HUNTINGTON \<or> dp_family enp = EFX_FAMILY_MEDFORD);
     if edc_pio_alloc_size enp = 0 \<or> ena_piobuf_count enp = 0 then Some (ENOMEM, None, enp)
     else do {
       let blk_per_buf = unat (enc_piobuf_size enp div edc_pio_alloc_size enp);
       found \<leftarrow> pio_find blk_per_buf (ena_pio_alloc_map enp) [0..<ena_piobuf_count enp];
       case found of
         None \<Rightarrow> Some (ENOMEM, None, enp)
       | Some (buf, blk) \<Rightarrow> do {
           map \<leftarrow> rd (ena_pio_alloc_map enp) buf;
           maps \<leftarrow> wr (ena_pio_alloc_map enp) buf (map OR push_bit blk 1);
           handle \<leftarrow> rd (ena_piobuf_handle enp) buf;
           Some (RC_OK, Some (buf, handle, blk, of_nat blk * edc_pio_alloc_size enp, ucast (edc_pio_alloc_size enp)),
             enp\<lparr>ena_pio_alloc_map := maps\<rparr>) } } }"

definition ef10_nic_pio_free :: "nat \<Rightarrow> nat \<Rightarrow> 'c dp_nic \<Rightarrow> (efx_rc \<times> 'c dp_nic) option" where
  "ef10_nic_pio_free bufnum blknum enp =
     (if ena_piobuf_count enp \<le> bufnum \<or> 8 * 4 \<le> blknum then Some (EINVAL, enp)
      else do {
        map \<leftarrow> rd (ena_pio_alloc_map enp) bufnum;
        if map AND push_bit blknum 1 = 0 then Some (ENOENT, enp)
        else do {
          maps \<leftarrow> wr (ena_pio_alloc_map enp) bufnum (map AND NOT (push_bit blknum 1));
          Some (RC_OK, enp\<lparr>ena_pio_alloc_map := maps\<rparr>) } })"

definition ef10_nic_pio_link :: "'c mcdi_nic mc_env \<Rightarrow> nat \<Rightarrow> u32 \<Rightarrow> 'c dp_nic \<Rightarrow> (efx_rc \<times> 'c dp_nic) option" where
  "ef10_nic_pio_link env vi_index handle enp = efx_mcdi_link_piobuf env vi_index handle enp"

definition ef10_nic_pio_unlink :: "'c mcdi_nic mc_env \<Rightarrow> nat \<Rightarrow> 'c dp_nic \<Rightarrow> (efx_rc \<times> 'c dp_nic) option" where
  "ef10_nic_pio_unlink env vi_index enp = efx_mcdi_unlink_piobuf env vi_index enp"

section \<open>Transmit queues with a block\<close>

definition ef10_tx_qpio_enable :: "'c mcdi_nic mc_env \<Rightarrow> efx_txq \<Rightarrow> 'c dp_nic \<Rightarrow> (efx_rc \<times> efx_txq \<times> 'c dp_nic) option" where
  "ef10_tx_qpio_enable env etp enp =
     (if et_pio_size etp \<noteq> 0 then Some (EALREADY, etp, enp)
      else do {
        (rc, out, enp) \<leftarrow> ef10_nic_pio_alloc enp;
        if rc \<noteq> RC_OK then Some (rc, etp, enp)
        else do {
          (bufnum, handle, blknum, offset, sz) \<leftarrow> out;
          let etp = etp\<lparr>et_pio_bufnum := bufnum, et_pio_blknum := blknum, et_pio_offset := offset, et_pio_size := sz\<rparr>;
          efsys_assert (et_pio_size etp \<noteq> 0);
          (rc, enp) \<leftarrow> ef10_nic_pio_link env (et_index etp) handle enp;
          if rc \<noteq> RC_OK then do {
            (_, enp) \<leftarrow> ef10_nic_pio_free (et_pio_bufnum etp) (et_pio_blknum etp) enp;
            Some (rc, etp\<lparr>et_pio_size := 0\<rparr>, enp) }
          else Some (RC_OK, etp\<lparr>et_pio_write_offset :=
                 of_nat bufnum * of_nat ER_DZ_TX_PIOBUF_STEP + of_nat ER_DZ_TX_PIOBUF_OFST + et_pio_offset etp\<rparr>, enp) } })"

definition ef10_tx_qpio_disable :: "'c mcdi_nic mc_env \<Rightarrow> efx_txq \<Rightarrow> 'c dp_nic \<Rightarrow> (efx_txq \<times> 'c dp_nic) option" where
  "ef10_tx_qpio_disable env etp enp =
     (if et_pio_size etp = 0 then Some (etp, enp)
      else do {
        (_, enp) \<leftarrow> ef10_nic_pio_unlink env (et_index etp) enp;
        (_, enp) \<leftarrow> ef10_nic_pio_free (et_pio_bufnum etp) (et_pio_blknum etp) enp;
        Some (etp\<lparr>et_pio_size := 0, et_pio_write_offset := 0\<rparr>, enp) })"

text \<open>Copying a packet by quadwords; the cast of the buffer reads eight bytes at a time.\<close>

function pio_write_loop :: "u32 \<Rightarrow> u32 \<Rightarrow> u8 list \<Rightarrow> efx_bar \<Rightarrow> efx_bar option" where
  "pio_write_loop limit write_offset buffer bar =
     (if write_offset < limit then
        if length buffer < 8 then None
        else pio_write_loop limit (write_offset + 8) (drop 8 buffer)
               (EFSYS_BAR_WC_WRITEQ (unat write_offset) (case words_of_bytes (take 8 buffer) of lo # hi # _ \<Rightarrow> Qword lo hi) bar)
      else Some bar)"
  by auto

termination by (relation "measure (\<lambda>(_, _, buffer, _). length buffer)") auto

definition ef10_tx_qpio_write :: "efx_txq \<Rightarrow> u8 list \<Rightarrow> u64 \<Rightarrow> u64 \<Rightarrow> 'c dp_nic \<Rightarrow> (efx_rc \<times> 'c dp_nic) option" where
  "ef10_tx_qpio_write etp buffer len offset enp = do {
     efsys_assert (len mod 8 = 0);
     if et_pio_size etp = 0 then Some (ENOENT, enp)
     else if et_pio_size etp < offset + len then Some (ENOSPC, enp)
     else do {
       let write_offset = ucast (ucast (et_pio_write_offset etp) + offset);
       bar \<leftarrow> pio_write_loop (ucast (ucast write_offset + len)) write_offset buffer (dp_bar enp);
       Some (RC_OK, dp_set_bar bar enp) } }"

definition ef10_tx_pio_desc :: "u64 \<Rightarrow> u32 \<Rightarrow> efx_qword" where
  "ef10_tx_pio_desc pkt_length pio_offset = efx_populate_qword
     [fset ESF_DZ_TX_DESC_IS_OPT 1, fset ESF_DZ_TX_OPTION_TYPE 1, fset ESF_DZ_TX_PIO_CONT 0,
      fset ESF_DZ_TX_PIO_BYTE_CNT (ucast pkt_length), fset ESF_DZ_TX_PIO_BUF_ADDR pio_offset]"

definition ef10_tx_qpio_post :: "efx_txq \<Rightarrow> u64 \<Rightarrow> u32 \<Rightarrow> u32 \<Rightarrow> (efx_rc \<times> efx_txq \<times> u32) option" where
  "ef10_tx_qpio_post etp pkt_length completed added =
     (if EFX_TXQ_LIMIT (et_mask etp + 1) < added - completed + 1 then Some (ENOSPC, etp, added)
      else if et_pio_size etp = 0 then Some (ENOENT, etp, added)
      else do {
        mem \<leftarrow> wr (et_esmp etp) (unat (added AND et_mask etp)) (ef10_tx_pio_desc pkt_length (et_pio_offset etp));
        Some (RC_OK, EFX_TX_QSTAT_INCR TX_POST_PIO (etp\<lparr>et_esmp := mem\<rparr>), added + 1) })"

section \<open>The interface\<close>

text \<open>
  The table \<open>en_etxop\<close> is named by its family; the PIO and option-descriptor operations of Siena are NULL. A failing \<open>efx_tx_init\<close>
  clears the table and the module flag.
\<close>

definition tx_init_failed :: "efx_rc \<Rightarrow> 'c dp_nic \<Rightarrow> (efx_rc \<times> 'c dp_nic) option" where
  "tx_init_failed rc enp = Some (rc, dp_set_mod_flags (dp_mod_flags enp AND NOT EFX_MOD_TX) (enp\<lparr>en_etxop := None\<rparr>))"

definition efx_tx_init :: "'c dp_nic \<Rightarrow> (efx_rc \<times> 'c dp_nic) option" where
  "efx_tx_init enp = do {
     efsys_assert (dp_mod_flags enp AND EFX_MOD_NIC \<noteq> 0);
     if dp_mod_flags enp AND EFX_MOD_EV = 0 then tx_init_failed EINVAL enp
     else if dp_mod_flags enp AND EFX_MOD_TX \<noteq> 0 then tx_init_failed EINVAL enp
     else do {
       etxop \<leftarrow> (case dp_family enp of EFX_FAMILY_SIENA \<Rightarrow> Some EFX_FAMILY_SIENA | EFX_FAMILY_HUNTINGTON \<Rightarrow> Some EFX_FAMILY_HUNTINGTON | _ \<Rightarrow> None);
       efsys_assert (en_tx_qcount enp = 0);
       let (rc, enp) = (if etxop = EFX_FAMILY_SIENA then siena_tx_init enp else ef10_tx_init enp);
       if rc \<noteq> RC_OK then tx_init_failed rc enp
       else Some (RC_OK, dp_set_mod_flags (dp_mod_flags enp OR EFX_MOD_TX) (enp\<lparr>en_etxop := Some etxop\<rparr>)) } }"

definition efx_tx_fini :: "'c dp_nic \<Rightarrow> 'c dp_nic option" where
  "efx_tx_fini enp = do {
     efsys_assert (dp_mod_flags enp AND EFX_MOD_NIC \<noteq> 0);
     efsys_assert (dp_mod_flags enp AND EFX_MOD_TX \<noteq> 0);
     efsys_assert (en_tx_qcount enp = 0);
     etxop \<leftarrow> en_etxop enp;
     let enp = (if etxop = EFX_FAMILY_SIENA then siena_tx_fini enp else ef10_tx_fini enp);
     Some (dp_set_mod_flags (dp_mod_flags enp AND NOT EFX_MOD_TX) (enp\<lparr>en_etxop := None\<rparr>)) }"

definition txq_new :: "nat \<Rightarrow> nat \<Rightarrow> efx_qword list \<Rightarrow> efx_txq" where
  "txq_new index n esmp = \<lparr>et_index = index, et_mask = of_nat n - 1, et_esmp = esmp, et_pio_bufnum = 0, et_pio_blknum = 0,
     et_pio_write_offset = 0, et_pio_offset = 0, et_pio_size = 0, et_stat = (\<lambda>_. 0)\<rparr>"

text \<open>The result: the code, the state, the queue if the call succeeds, and \<open>added\<close>.\<close>

definition efx_tx_qcreate ::
    "'c mcdi_nic mc_env \<Rightarrow> 'c dp_nic \<Rightarrow> nat \<Rightarrow> nat \<Rightarrow> efx_qword list \<Rightarrow> u64 \<Rightarrow> nat \<Rightarrow> u32 \<Rightarrow> u16 \<Rightarrow> efx_evq \<Rightarrow>
     (efx_rc \<times> 'c dp_nic \<times> efx_txq option \<times> u32) option" where
  "efx_tx_qcreate env enp index label esmp addr n buftbl_id flags eep = do {
     efsys_assert (dp_mod_flags enp AND EFX_MOD_TX \<noteq> 0);
     efsys_assert (en_tx_qcount enp + 1 < enc_txq_limit enp);
     let (ok, m) = env_alloc env (dp_mcdi enp);
     let enp = dp_set_mcdi m enp;
     if \<not> ok then Some (ENOMEM, enp, None, 0)
     else do {
       etxop \<leftarrow> en_etxop enp;
       (rc, enp, etp, added) \<leftarrow> (if etxop = EFX_FAMILY_SIENA then do {
             (rc, enp) \<leftarrow> siena_tx_qcreate enp index label n buftbl_id flags eep (txq_new index n esmp);
             Some (rc, enp, txq_new index n esmp, 0) }
           else ef10_tx_qcreate env enp index label addr n flags eep (txq_new index n esmp));
       if rc \<noteq> RC_OK then Some (rc, enp, None, added)
       else Some (RC_OK, enp\<lparr>en_tx_qcount := en_tx_qcount enp + 1\<rparr>, Some etp, added) } }"

definition efx_tx_qdestroy :: "efx_txq \<Rightarrow> 'c dp_nic \<Rightarrow> 'c dp_nic option" where
  "efx_tx_qdestroy etp enp = do {
     efsys_assert (en_tx_qcount enp \<noteq> 0);
     let enp = enp\<lparr>en_tx_qcount := en_tx_qcount enp - 1\<rparr>;
     etxop \<leftarrow> en_etxop enp;
     Some (if etxop = EFX_FAMILY_SIENA then siena_tx_qdestroy etp enp else ef10_tx_qdestroy etp enp) }"

definition efx_tx_qpost :: "'c dp_nic \<Rightarrow> efx_txq \<Rightarrow> efx_buffer list \<Rightarrow> u32 \<Rightarrow> u32 \<Rightarrow> (efx_rc \<times> efx_txq \<times> u32) option" where
  "efx_tx_qpost enp etp eb completed added = do {
     etxop \<leftarrow> en_etxop enp;
     if etxop = EFX_FAMILY_SIENA then siena_tx_qpost etp eb completed added else ef10_tx_qpost etp eb completed added }"

definition efx_tx_qpush :: "efx_txq \<Rightarrow> u32 \<Rightarrow> u32 \<Rightarrow> 'c dp_nic \<Rightarrow> 'c dp_nic option" where
  "efx_tx_qpush etp added pushed enp = do {
     etxop \<leftarrow> en_etxop enp;
     if etxop = EFX_FAMILY_SIENA then Some (siena_tx_qpush etp added pushed enp) else ef10_tx_qpush etp added pushed enp }"

definition efx_tx_qflush :: "'c mcdi_nic mc_env \<Rightarrow> efx_txq \<Rightarrow> 'c dp_nic \<Rightarrow> (efx_rc \<times> 'c dp_nic) option" where
  "efx_tx_qflush env etp enp = do {
     etxop \<leftarrow> en_etxop enp;
     if etxop = EFX_FAMILY_SIENA then siena_tx_qflush etp enp else ef10_tx_qflush env etp enp }"

definition efx_tx_qenable :: "efx_txq \<Rightarrow> 'c dp_nic \<Rightarrow> 'c dp_nic option" where
  "efx_tx_qenable etp enp = do {
     etxop \<leftarrow> en_etxop enp;
     Some (if etxop = EFX_FAMILY_SIENA then siena_tx_qenable etp enp else ef10_tx_qenable etp enp) }"

definition efx_tx_qpio_enable :: "'c mcdi_nic mc_env \<Rightarrow> efx_txq \<Rightarrow> 'c dp_nic \<Rightarrow> (efx_rc \<times> efx_txq \<times> 'c dp_nic) option" where
  "efx_tx_qpio_enable env etp enp =
     (if NOT (dp_features enp) AND EFX_FEATURE_PIO_BUFFERS \<noteq> 0 then Some (ENOTSUP, etp, enp)
      else do {
        etxop \<leftarrow> en_etxop enp;
        if etxop = EFX_FAMILY_SIENA then Some (ENOTSUP, etp, enp) else ef10_tx_qpio_enable env etp enp })"

definition efx_tx_qpio_disable :: "'c mcdi_nic mc_env \<Rightarrow> efx_txq \<Rightarrow> 'c dp_nic \<Rightarrow> (efx_txq \<times> 'c dp_nic) option" where
  "efx_tx_qpio_disable env etp enp = do {
     etxop \<leftarrow> en_etxop enp;
     if etxop = EFX_FAMILY_SIENA then Some (etp, enp) else ef10_tx_qpio_disable env etp enp }"

definition efx_tx_qpio_write :: "efx_txq \<Rightarrow> u8 list \<Rightarrow> u64 \<Rightarrow> u64 \<Rightarrow> 'c dp_nic \<Rightarrow> (efx_rc \<times> 'c dp_nic) option" where
  "efx_tx_qpio_write etp buffer buf_length pio_buf_offset enp = do {
     etxop \<leftarrow> en_etxop enp;
     if etxop = EFX_FAMILY_SIENA then Some (ENOTSUP, enp) else ef10_tx_qpio_write etp buffer buf_length pio_buf_offset enp }"

definition efx_tx_qpio_post :: "'c dp_nic \<Rightarrow> efx_txq \<Rightarrow> u64 \<Rightarrow> u32 \<Rightarrow> u32 \<Rightarrow> (efx_rc \<times> efx_txq \<times> u32) option" where
  "efx_tx_qpio_post enp etp pkt_length completed added = do {
     etxop \<leftarrow> en_etxop enp;
     if etxop = EFX_FAMILY_SIENA then Some (ENOTSUP, etp, added) else ef10_tx_qpio_post etp pkt_length completed added }"

definition efx_tx_qdesc_post :: "'c dp_nic \<Rightarrow> efx_txq \<Rightarrow> efx_qword list \<Rightarrow> u32 \<Rightarrow> u32 \<Rightarrow> (efx_rc \<times> efx_txq \<times> u32) option" where
  "efx_tx_qdesc_post enp etp ed completed added = do {
     etxop \<leftarrow> en_etxop enp;
     if etxop = EFX_FAMILY_SIENA then siena_tx_qdesc_post etp ed completed added else ef10_tx_qdesc_post etp ed completed added }"

definition efx_tx_qdesc_dma_create :: "'c dp_nic \<Rightarrow> u64 \<Rightarrow> u64 \<Rightarrow> bool \<Rightarrow> efx_qword option" where
  "efx_tx_qdesc_dma_create enp addr len eop = do {
     etxop \<leftarrow> en_etxop enp;
     if etxop = EFX_FAMILY_SIENA then siena_tx_qdesc_dma_create addr len eop else ef10_tx_qdesc_dma_create addr len eop }"

definition efx_tx_qdesc_tso_create :: "'c dp_nic \<Rightarrow> u16 \<Rightarrow> u32 \<Rightarrow> u8 \<Rightarrow> efx_qword option" where
  "efx_tx_qdesc_tso_create enp ipv4_id tcp_seq tcp_flags = do {
     etxop \<leftarrow> en_etxop enp;
     efsys_assert (etxop \<noteq> EFX_FAMILY_SIENA);
     Some (ef10_tx_qdesc_tso_create ipv4_id tcp_seq tcp_flags) }"

definition efx_tx_qdesc_tso2_create :: "'c dp_nic \<Rightarrow> u16 \<Rightarrow> u32 \<Rightarrow> u16 \<Rightarrow> nat \<Rightarrow> efx_qword list option" where
  "efx_tx_qdesc_tso2_create enp ipv4_id tcp_seq mss count = do {
     etxop \<leftarrow> en_etxop enp;
     efsys_assert (etxop \<noteq> EFX_FAMILY_SIENA);
     ef10_tx_qdesc_tso2_create ipv4_id tcp_seq mss count }"

definition efx_tx_qdesc_vlantci_create :: "'c dp_nic \<Rightarrow> u16 \<Rightarrow> efx_qword option" where
  "efx_tx_qdesc_vlantci_create enp tci = do {
     etxop \<leftarrow> en_etxop enp;
     efsys_assert (etxop \<noteq> EFX_FAMILY_SIENA);
     Some (ef10_tx_qdesc_vlantci_create tci) }"

definition efx_tx_qstats_update :: "'c dp_nic \<Rightarrow> efx_txq \<Rightarrow> (efx_tx_qstat \<Rightarrow> u64) \<Rightarrow> (efx_txq \<times> (efx_tx_qstat \<Rightarrow> u64)) option" where
  "efx_tx_qstats_update enp etp stat = do {
     etxop \<leftarrow> en_etxop enp;
     Some (if etxop = EFX_FAMILY_SIENA then siena_tx_qstats_update etp stat else ef10_tx_qstats_update etp stat) }"

end
