(* ===== verification/Efx_Rxq.thy ===== *)
theory Efx_Rxq
  imports Efx_Txq
begin

text \<open>
  Receive queues and receive-side scaling (\<open>src/common/efx_rx.c\<close>, \<open>src/common/ef10_rx.c\<close>). Scatter is not part of this build. A hash
  algorithm and a queue type are numbers, as a C enum is; a hash key and an indirection table are lists of their length.
\<close>

section \<open>State\<close>

definition EFX_RX_HASHALG_LFSR :: nat where "EFX_RX_HASHALG_LFSR = 0"
definition EFX_RX_HASHALG_TOEPLITZ :: nat where "EFX_RX_HASHALG_TOEPLITZ = 1"
definition EFX_RX_HASH_IPV4 :: nat where "EFX_RX_HASH_IPV4 = 0"
definition EFX_RX_HASH_TCPIPV4 :: nat where "EFX_RX_HASH_TCPIPV4 = 1"
definition EFX_RX_HASH_IPV6 :: nat where "EFX_RX_HASH_IPV6 = 2"
definition EFX_RX_HASH_TCPIPV6 :: nat where "EFX_RX_HASH_TCPIPV6 = 3"
definition EFX_RXQ_TYPE_DEFAULT :: nat where "EFX_RXQ_TYPE_DEFAULT = 0"
definition EFX_RXQ_TYPE_SCATTER :: nat where "EFX_RXQ_TYPE_SCATTER = 1"
definition EFX_FEATURE_IPV6 :: u32 where "EFX_FEATURE_IPV6 = 0x00000001"

record efx_rxq =
  er_index :: nat
  er_label :: nat
  er_mask :: u32
  er_esmp :: "efx_qword list"

section \<open>Posting and pushing\<close>

definition siena_rx_desc :: "u64 \<Rightarrow> u64 \<Rightarrow> efx_qword" where
  "siena_rx_desc len addr = efx_populate_qword
     [fset FSF_AZ_RX_KER_BUF_SIZE (ucast len), fset FSF_AZ_RX_KER_BUF_ADDR_DW0 (ucast (addr AND 0xffffffff)),
      fset FSF_AZ_RX_KER_BUF_ADDR_DW1 (ucast (drop_bit 32 addr))]"

definition ef10_rx_desc :: "u64 \<Rightarrow> u64 \<Rightarrow> efx_qword" where
  "ef10_rx_desc len addr = efx_populate_qword
     [fset ESF_DZ_RX_KER_BYTE_CNT (ucast len), fset ESF_DZ_RX_KER_BUF_ADDR_DW0 (ucast (addr AND 0xffffffff)),
      fset ESF_DZ_RX_KER_BUF_ADDR_DW1 (ucast (drop_bit 32 addr))]"

fun siena_rx_qpost_loop :: "u32 \<Rightarrow> u64 \<Rightarrow> u64 list \<Rightarrow> u32 \<Rightarrow> efx_qword list \<Rightarrow> efx_qword list option" where
  "siena_rx_qpost_loop m len [] rxid mem = Some mem"
| "siena_rx_qpost_loop m len (addr # addrs) rxid mem = do {
     mem \<leftarrow> wr mem (unat rxid) (siena_rx_desc len addr);
     siena_rx_qpost_loop m len addrs ((rxid + 1) AND m) mem }"

fun ef10_rx_qpost_loop :: "u32 \<Rightarrow> u64 \<Rightarrow> u64 list \<Rightarrow> u32 \<Rightarrow> efx_qword list \<Rightarrow> efx_qword list option" where
  "ef10_rx_qpost_loop m len [] rxid mem = Some mem"
| "ef10_rx_qpost_loop m len (addr # addrs) rxid mem = do {
     mem \<leftarrow> wr mem (unat rxid) (ef10_rx_desc len addr);
     ef10_rx_qpost_loop m len addrs ((rxid + 1) AND m) mem }"

definition siena_rx_qpost :: "efx_rxq \<Rightarrow> u64 list \<Rightarrow> u64 \<Rightarrow> u32 \<Rightarrow> u32 \<Rightarrow> efx_rxq option" where
  "siena_rx_qpost erp addrp len completed added = do {
     efsys_assert (added - completed + of_nat (length addrp) \<le> EFX_RXQ_LIMIT (er_mask erp + 1));
     mem \<leftarrow> siena_rx_qpost_loop (er_mask erp) len addrp (added AND er_mask erp) (er_esmp erp);
     Some (erp\<lparr>er_esmp := mem\<rparr>) }"

definition ef10_rx_qpost :: "efx_rxq \<Rightarrow> u64 list \<Rightarrow> u64 \<Rightarrow> u32 \<Rightarrow> u32 \<Rightarrow> efx_rxq option" where
  "ef10_rx_qpost erp addrp len completed added = do {
     efsys_assert (added - completed + of_nat (length addrp) \<le> EFX_RXQ_LIMIT (er_mask erp + 1));
     mem \<leftarrow> ef10_rx_qpost_loop (er_mask erp) len addrp (added AND er_mask erp) (er_esmp erp);
     Some (erp\<lparr>er_esmp := mem\<rparr>) }"

text \<open>Pushing returns the new \<open>pushed\<close>; EF10 pushes only whole groups of eight descriptors.\<close>

definition siena_rx_qpush :: "efx_rxq \<Rightarrow> u32 \<Rightarrow> u32 \<Rightarrow> 'c dp_nic \<Rightarrow> u32 \<times> 'c dp_nic" where
  "siena_rx_qpush erp added pushed enp =
     (let wptr = added AND er_mask erp;
          oword = efx_populate_oword [fset FRF_AZ_RX_DESC_WPTR wptr];
          dword = efx_populate_dword [fset EFX_DWORD_0 (efx_oword_field oword 96 32)]
      in (added, dp_set_bar (EFX_BAR_TBL_WRITED3 FR_BZ_RX_DESC_UPD_REGP0_OFST FR_BZ_RX_DESC_UPD_REGP0_STEP (er_index erp) dword (dp_bar enp)) enp))"

definition p2align :: "u32 \<Rightarrow> u32 \<Rightarrow> u32" where "p2align x align = x AND - align"

definition ef10_rx_qpush :: "efx_rxq \<Rightarrow> u32 \<Rightarrow> u32 \<Rightarrow> 'c dp_nic \<Rightarrow> u32 \<times> 'c dp_nic" where
  "ef10_rx_qpush erp added pushed enp =
     (let wptr = p2align added EF10_RX_WPTR_ALIGN
      in if pushed = wptr then (pushed, enp)
         else
           let dword = efx_populate_dword [fset ERF_DZ_RX_DESC_WPTR (wptr AND er_mask erp)]
           in (wptr, dp_set_bar (EFX_BAR_TBL_WRITED ER_DZ_RX_DESC_UPD_REG_OFST ER_DZ_RX_DESC_UPD_REG_STEP (er_index erp) dword (dp_bar enp)) enp))"

section \<open>Scaling on Siena\<close>

definition siena_rx_init :: "'c dp_nic \<Rightarrow> efx_rc \<times> 'c dp_nic" where
  "siena_rx_init enp =
     (let oword = EFX_BAR_READO FR_AZ_RX_CFG_REG_OFST (dp_bar enp);
          oword = oset FRF_BZ_RX_DESC_PUSH_EN 0 oword;
          oword = oset FRF_BZ_RX_HASH_ALG 0 oword;
          oword = oset FRF_BZ_RX_IP_HASH 0 oword;
          oword = oset FRF_BZ_RX_TCP_SUP 0 oword;
          oword = oset FRF_BZ_RX_HASH_INSRT_HDR 0 oword;
          oword = oset FRF_BZ_RX_USR_BUF_SIZE (0x3000 div 32) oword;
          bar = EFX_BAR_WRITEO FR_AZ_RX_CFG_REG_OFST oword (dp_bar enp);
          bar = foldl (\<lambda>bar index. EFX_BAR_TBL_WRITEO FR_BZ_RX_INDIRECTION_TBL_OFST FR_BZ_RX_INDIRECTION_TBL_STEP index EFX_ZERO_OWORD bar)
                  bar [0..<FR_BZ_RX_INDIRECTION_TBL_ROWS]
      in (RC_OK, (dp_set_bar bar enp)\<lparr>en_rss_support := EFX_RX_SCALE_EXCLUSIVE, en_hash_support := EFX_RX_HASH_AVAILABLE\<rparr>))"

definition siena_rx_fini :: "'c dp_nic \<Rightarrow> 'c dp_nic" where "siena_rx_fini enp = enp"

definition EFX_RX_LFSR_HASH :: "bool \<Rightarrow> 'c dp_nic \<Rightarrow> 'c dp_nic" where
  "EFX_RX_LFSR_HASH insrt enp =
     (let oword = EFX_BAR_READO FR_AZ_RX_CFG_REG_OFST (dp_bar enp);
          oword = oset FRF_BZ_RX_HASH_ALG 0 oword;
          oword = oset FRF_BZ_RX_IP_HASH 0 oword;
          oword = oset FRF_BZ_RX_TCP_SUP 0 oword;
          oword = oset FRF_BZ_RX_HASH_INSRT_HDR (if insrt then 1 else 0) oword;
          bar = EFX_BAR_WRITEO FR_AZ_RX_CFG_REG_OFST oword (dp_bar enp);
          bar = (if dp_family enp = EFX_FAMILY_SIENA then
                   EFX_BAR_WRITEO FR_CZ_RX_RSS_IPV6_REG3_OFST
                     (oset FRF_CZ_RX_RSS_IPV6_THASH_ENABLE 0 (EFX_BAR_READO FR_CZ_RX_RSS_IPV6_REG3_OFST bar)) bar
                 else bar)
      in dp_set_bar bar enp)"

definition EFX_RX_TOEPLITZ_IPV4_HASH :: "bool \<Rightarrow> bool \<Rightarrow> bool \<Rightarrow> 'c dp_nic \<Rightarrow> 'c dp_nic" where
  "EFX_RX_TOEPLITZ_IPV4_HASH insrt ip tcp enp =
     (let oword = EFX_BAR_READO FR_AZ_RX_CFG_REG_OFST (dp_bar enp);
          oword = oset FRF_BZ_RX_HASH_ALG 1 oword;
          oword = oset FRF_BZ_RX_IP_HASH (if ip then 1 else 0) oword;
          oword = oset FRF_BZ_RX_TCP_SUP (if tcp then 0 else 1) oword;
          oword = oset FRF_BZ_RX_HASH_INSRT_HDR (if insrt then 1 else 0) oword
      in dp_set_bar (EFX_BAR_WRITEO FR_AZ_RX_CFG_REG_OFST oword (dp_bar enp)) enp)"

definition EFX_RX_TOEPLITZ_IPV6_HASH :: "bool \<Rightarrow> bool \<Rightarrow> 'c dp_nic \<Rightarrow> efx_rc \<times> 'c dp_nic" where
  "EFX_RX_TOEPLITZ_IPV6_HASH ip tcp enp =
     (let oword = EFX_BAR_READO FR_CZ_RX_RSS_IPV6_REG3_OFST (dp_bar enp);
          oword = oset FRF_CZ_RX_RSS_IPV6_THASH_ENABLE 1 oword;
          oword = oset FRF_CZ_RX_RSS_IPV6_IP_THASH_ENABLE (if ip then 1 else 0) oword;
          oword = oset FRF_CZ_RX_RSS_IPV6_TCP_SUPPRESS (if tcp then 0 else 1) oword
      in (RC_OK, dp_set_bar (EFX_BAR_WRITEO FR_CZ_RX_RSS_IPV6_REG3_OFST oword (dp_bar enp)) enp))"

definition siena_rx_scale_mode_set :: "nat \<Rightarrow> u32 \<Rightarrow> bool \<Rightarrow> 'c dp_nic \<Rightarrow> efx_rc \<times> 'c dp_nic" where
  "siena_rx_scale_mode_set alg types insrt enp =
     (if alg = EFX_RX_HASHALG_LFSR then (RC_OK, EFX_RX_LFSR_HASH insrt enp)
      else if alg = EFX_RX_HASHALG_TOEPLITZ then
        let enp = EFX_RX_TOEPLITZ_IPV4_HASH insrt (types AND push_bit EFX_RX_HASH_IPV4 1 \<noteq> 0) (types AND push_bit EFX_RX_HASH_TCPIPV4 1 \<noteq> 0) enp;
            (rc, enp) = EFX_RX_TOEPLITZ_IPV6_HASH (types AND push_bit EFX_RX_HASH_IPV6 1 \<noteq> 0) (types AND push_bit EFX_RX_HASH_TCPIPV6 1 \<noteq> 0) enp
        in if rc \<noteq> RC_OK then (rc, EFX_RX_LFSR_HASH False enp) else (RC_OK, enp)
      else (EINVAL, EFX_RX_LFSR_HASH False enp))"

text \<open>The bytes of a register, \<open>eo_u8\<close>; a part of the key goes into the bytes below \<open>offset\<close>, the first into the highest.\<close>

fun key_write :: "nat \<Rightarrow> u8 list \<Rightarrow> efx_oword \<Rightarrow> efx_oword \<times> u8 list" where
  "key_write 0 key oword = (oword, key)"
| "key_write (Suc offset) [] oword = (oword, [])"
| "key_write (Suc offset) (k # key) oword = key_write offset key (efx_set_oword_field oword (8 * offset) 8 (ucast k))"

fun key_verify :: "nat \<Rightarrow> u8 list \<Rightarrow> efx_oword \<Rightarrow> bool \<times> u8 list" where
  "key_verify 0 key oword = (True, key)"
| "key_verify (Suc offset) [] oword = (True, [])"
| "key_verify (Suc offset) (k # key) oword =
     (if efx_oword_field oword (8 * offset) 8 \<noteq> ucast k then (False, key) else key_verify offset key oword)"

definition key_offset :: "nat \<times> nat \<Rightarrow> nat" where "key_offset f = (fst f + snd f) div 8"

definition siena_rx_scale_key_set :: "u8 list \<Rightarrow> 'c dp_nic \<Rightarrow> efx_rc \<times> 'c dp_nic" where
  "siena_rx_scale_key_set key enp =
     (let (oword, _) = key_write (key_offset FRF_BZ_RX_RSS_TKEY) key EFX_ZERO_OWORD;
          bar = EFX_BAR_WRITEO FR_BZ_RX_RSS_TKEY_REG_OFST oword (dp_bar enp);
          (ok, _) = key_verify (key_offset FRF_BZ_RX_RSS_TKEY) key (EFX_BAR_READO FR_BZ_RX_RSS_TKEY_REG_OFST bar)
      in if \<not> ok then (EFAULT, dp_set_bar bar enp)
         else if dp_features enp AND EFX_FEATURE_IPV6 = 0 then (RC_OK, dp_set_bar bar enp)
         else
           let (oword, rest) = key_write (key_offset FRF_CZ_RX_RSS_IPV6_TKEY_HI) key (EFX_BAR_READO FR_CZ_RX_RSS_IPV6_REG3_OFST bar);
               bar = EFX_BAR_WRITEO FR_CZ_RX_RSS_IPV6_REG3_OFST oword bar;
               (oword, rest) = key_write (key_offset FRF_CZ_RX_RSS_IPV6_TKEY_MID) rest EFX_ZERO_OWORD;
               bar = EFX_BAR_WRITEO FR_CZ_RX_RSS_IPV6_REG2_OFST oword bar;
               (oword, rest) = key_write (key_offset FRF_CZ_RX_RSS_IPV6_TKEY_LO) rest EFX_ZERO_OWORD;
               bar = EFX_BAR_WRITEO FR_CZ_RX_RSS_IPV6_REG1_OFST oword bar;
               (ok3, rest) = key_verify (key_offset FRF_CZ_RX_RSS_IPV6_TKEY_HI) key (EFX_BAR_READO FR_CZ_RX_RSS_IPV6_REG3_OFST bar);
               (ok2, rest) = key_verify (key_offset FRF_CZ_RX_RSS_IPV6_TKEY_MID) rest (EFX_BAR_READO FR_CZ_RX_RSS_IPV6_REG2_OFST bar);
               (ok1, rest) = key_verify (key_offset FRF_CZ_RX_RSS_IPV6_TKEY_LO) rest (EFX_BAR_READO FR_CZ_RX_RSS_IPV6_REG1_OFST bar)
           in (if ok3 \<and> ok2 \<and> ok1 then RC_OK else EFAULT, dp_set_bar bar enp))"

definition rss_entry :: "u32 list \<Rightarrow> nat \<Rightarrow> u32" where
  "rss_entry table index = (if 0 < length table then table ! (index mod length table) else 0)"

definition siena_rx_scale_tbl_set :: "u32 list \<Rightarrow> 'c dp_nic \<Rightarrow> efx_rc \<times> 'c dp_nic" where
  "siena_rx_scale_tbl_set table enp =
     (if FR_BZ_RX_INDIRECTION_TBL_ROWS < length table then (EINVAL, enp)
      else
        let bar = foldl (\<lambda>bar index. EFX_BAR_TBL_WRITEO FR_BZ_RX_INDIRECTION_TBL_OFST FR_BZ_RX_INDIRECTION_TBL_STEP index
                            (efx_populate_oword [fset FRF_BZ_IT_QUEUE (rss_entry table index)]) bar)
                    (dp_bar enp) [0..<FR_BZ_RX_INDIRECTION_TBL_ROWS];
            ok = list_all (\<lambda>index.
                   efx_oword_field (EFX_BAR_TBL_READO FR_BZ_RX_INDIRECTION_TBL_OFST FR_BZ_RX_INDIRECTION_TBL_STEP index bar)
                     (fst FRF_BZ_IT_QUEUE) (snd FRF_BZ_IT_QUEUE) = rss_entry table index) (rev [0..<FR_BZ_RX_INDIRECTION_TBL_ROWS])
        in (if ok then RC_OK else EFAULT, dp_set_bar bar enp))"

definition siena_rx_prefix_hash :: "nat \<Rightarrow> u8 list \<Rightarrow> u32 option" where
  "siena_rx_prefix_hash func buffer =
     (if func = EFX_RX_HASHALG_TOEPLITZ then do {
        b12 \<leftarrow> rd buffer 12; b13 \<leftarrow> rd buffer 13; b14 \<leftarrow> rd buffer 14; b15 \<leftarrow> rd buffer 15;
        Some (push_bit 24 (ucast b12) OR push_bit 16 (ucast b13) OR push_bit 8 (ucast b14) OR ucast b15) }
      else if func = EFX_RX_HASHALG_LFSR then do {
        b14 \<leftarrow> rd buffer 14; b15 \<leftarrow> rd buffer 15;
        Some (push_bit 8 (ucast b14) OR ucast b15) }
      else None)"

definition siena_rx_prefix_pktlen :: "u8 list \<Rightarrow> (efx_rc \<times> u16) option" where
  "siena_rx_prefix_pktlen buffer = None"

section \<open>Life cycle on Siena\<close>

definition rxq_size_ok :: "nat \<Rightarrow> bool" where
  "rxq_size_ok n = (isp2 n \<and> EFX_RXQ_MINNDESCS \<le> n \<and> n \<le> EFX_RXQ_MAXNDESCS)"

definition siena_rxq_size :: "nat \<Rightarrow> nat" where
  "siena_rxq_size n =
     (let sizes = takeWhile (\<lambda>s. 2 ^ s \<le> EFX_RXQ_MAXNDESCS div EFX_RXQ_MINNDESCS) [0..<32]
      in case find (\<lambda>s. 2 ^ s = n div EFX_RXQ_MINNDESCS) sizes of Some s \<Rightarrow> s | None \<Rightarrow> length sizes)"

definition siena_rx_qcreate ::
    "'c dp_nic \<Rightarrow> nat \<Rightarrow> nat \<Rightarrow> nat \<Rightarrow> nat \<Rightarrow> u32 \<Rightarrow> efx_evq \<Rightarrow> efx_rxq \<Rightarrow> (efx_rc \<times> 'c dp_nic) option" where
  "siena_rx_qcreate enp index label rxq_type n buftbl_id eep erp = do {
     efsys_assert (label < EFX_EV_RX_NLABELS);
     efsys_assert (en_rx_qcount enp + 1 < enc_rxq_limit enp);
     if \<not> rxq_size_ok n then Some (EINVAL, enp)
     else if enc_rxq_limit enp \<le> index then Some (EINVAL, enp)
     else
       let bits = siena_rxq_size n
       in if enc_buftbl_limit (en_evn enp) \<le> buftbl_id + 2 ^ bits then Some (EINVAL, enp)
          else if rxq_type \<noteq> EFX_RXQ_TYPE_DEFAULT then Some (EINVAL, enp)
          else
            let oword = efx_populate_oword
                  [fset FRF_AZ_RX_DESCQ_BUF_BASE_ID buftbl_id, fset FRF_AZ_RX_DESCQ_EVQ_ID (of_nat (ee_index eep)), fset FRF_AZ_RX_DESCQ_OWNER_ID 0,
                   fset FRF_AZ_RX_DESCQ_LABEL (of_nat label), fset FRF_AZ_RX_DESCQ_SIZE (of_nat bits), fset FRF_AZ_RX_DESCQ_TYPE 0,
                   fset FRF_AZ_RX_DESCQ_JUMBO 0]
            in Some (RC_OK, dp_set_bar (EFX_BAR_TBL_WRITEO FR_AZ_RX_DESC_PTR_TBL_OFST FR_AZ_RX_DESC_PTR_TBL_STEP (er_index erp) oword (dp_bar enp)) enp) }"

definition siena_rx_qdestroy :: "efx_rxq \<Rightarrow> 'c dp_nic \<Rightarrow> 'c dp_nic option" where
  "siena_rx_qdestroy erp enp = do {
     efsys_assert (en_rx_qcount enp \<noteq> 0);
     let enp = enp\<lparr>en_rx_qcount := en_rx_qcount enp - 1\<rparr>;
     Some (dp_set_bar (EFX_BAR_TBL_WRITEO FR_AZ_RX_DESC_PTR_TBL_OFST FR_AZ_RX_DESC_PTR_TBL_STEP (er_index erp) EFX_ZERO_OWORD (dp_bar enp)) enp) }"

definition siena_rx_qflush :: "efx_rxq \<Rightarrow> 'c dp_nic \<Rightarrow> efx_rc \<times> 'c dp_nic" where
  "siena_rx_qflush erp enp =
     (let oword = efx_populate_oword [fset FRF_AZ_RX_FLUSH_DESCQ_CMD 1, fset FRF_AZ_RX_FLUSH_DESCQ (of_nat (er_index erp))]
      in (RC_OK, dp_set_bar (EFX_BAR_WRITEO FR_AZ_RX_FLUSH_DESCQ_REG_OFST oword (dp_bar enp)) enp))"

definition siena_rx_qenable :: "efx_rxq \<Rightarrow> 'c dp_nic \<Rightarrow> 'c dp_nic" where
  "siena_rx_qenable erp enp =
     (let oword = EFX_BAR_TBL_READO FR_AZ_RX_DESC_PTR_TBL_OFST FR_AZ_RX_DESC_PTR_TBL_STEP (er_index erp) (dp_bar enp);
          oword = oset FRF_AZ_RX_DC_HW_RPTR 0 oword;
          oword = oset FRF_AZ_RX_DESCQ_HW_RPTR 0 oword;
          oword = oset FRF_AZ_RX_DESCQ_EN 1 oword
      in dp_set_bar (EFX_BAR_TBL_WRITEO FR_AZ_RX_DESC_PTR_TBL_OFST FR_AZ_RX_DESC_PTR_TBL_STEP (er_index erp) oword (dp_bar enp)) enp)"

end
