(* ===== verification/Efx_Rx.thy ===== *)
theory Efx_Rx
  imports Efx_Rxq
begin

text \<open>
  The receive operations of EF10 (\<open>src/common/ef10_rx.c\<close>): requests to the controller for queues and for the context of receive-side
  scaling; and the interface of \<open>src/common/efx_rx.c\<close>.
\<close>

section \<open>Requests\<close>

definition init_rxq_flags :: "bool \<Rightarrow> u32" where
  "init_rxq_flags disable_scatter = efx_populate_dword
     [(0, 1, 0), (1, 1, 0), (2, 1, 0), (3, 4, 0), (8, 1, 1), (9, 1, if disable_scatter then 1 else 0)]"

definition efx_mcdi_init_rxq ::
    "'c mcdi_nic mc_env \<Rightarrow> nat \<Rightarrow> nat \<Rightarrow> nat \<Rightarrow> nat \<Rightarrow> u64 \<Rightarrow> bool \<Rightarrow> 'c dp_nic \<Rightarrow> (efx_rc \<times> 'c dp_nic) option" where
  "efx_mcdi_init_rxq env n target_evq label instance_id addr disable_scatter enp = do {
     let npages = EFX_RXQ_NBUFS n;
     efsys_assert (n \<le> EFX_RXQ_MAXNDESCS);
     let payload = replicate (MC_CMD_INIT_RXQ_IN_LEN (EFX_RXQ_NBUFS EFX_RXQ_MAXNDESCS)) 0;
     payload \<leftarrow> mcdi_in_set_dword 0 (of_nat n) payload;
     payload \<leftarrow> mcdi_in_set_dword 4 (of_nat target_evq) payload;
     payload \<leftarrow> mcdi_in_set_dword 8 (of_nat label) payload;
     payload \<leftarrow> mcdi_in_set_dword 12 (of_nat instance_id) payload;
     payload \<leftarrow> mcdi_in_set_dword 16 (init_rxq_flags disable_scatter) payload;
     payload \<leftarrow> mcdi_in_set_dword 20 0 payload;
     payload \<leftarrow> mcdi_in_set_dword 24 EVB_PORT_ID_ASSIGNED payload;
     payload \<leftarrow> init_evq_pages 28 npages addr payload;
     (req, enp) \<leftarrow> dp_execute env (mcdi_req MC_CMD_INIT_RXQ payload (MC_CMD_INIT_RXQ_IN_LEN npages) payload 0) enp;
     Some (emr_rc req, enp) }"

definition efx_mcdi_fini_rxq :: "'c mcdi_nic mc_env \<Rightarrow> nat \<Rightarrow> 'c dp_nic \<Rightarrow> (efx_rc \<times> 'c dp_nic) option" where
  "efx_mcdi_fini_rxq env instance_id enp = do {
     payload \<leftarrow> mcdi_in_set_dword 0 (of_nat instance_id) (replicate 4 0);
     (req, enp) \<leftarrow> dp_execute env (mcdi_req MC_CMD_FINI_RXQ payload 4 payload 0) enp;
     if emr_rc req \<noteq> RC_OK \<and> emr_rc req \<noteq> RC_RAW MC_CMD_ERR_EALREADY then Some (emr_rc req, enp) else Some (RC_OK, enp) }"

definition efx_mcdi_rss_context_alloc ::
    "'c mcdi_nic mc_env \<Rightarrow> efx_rx_scale_support \<Rightarrow> nat \<Rightarrow> 'c dp_nic \<Rightarrow> (efx_rc \<times> u32 \<times> 'c dp_nic) option" where
  "efx_mcdi_rss_context_alloc env scale_support num_queues enp =
     (if EFX_MAXRSS < num_queues then Some (EINVAL, 0, enp)
      else case (case scale_support of EFX_RX_SCALE_EXCLUSIVE \<Rightarrow> Some 0 | EFX_RX_SCALE_SHARED \<Rightarrow> Some 1 | _ \<Rightarrow> None) of
        None \<Rightarrow> Some (EINVAL, 0, enp)
      | Some context_type \<Rightarrow> do {
          let payload = replicate 12 0;
          payload \<leftarrow> mcdi_in_set_dword 0 EVB_PORT_ID_ASSIGNED payload;
          payload \<leftarrow> mcdi_in_set_dword 4 context_type payload;
          payload \<leftarrow> mcdi_in_set_dword 8 (of_nat num_queues) payload;
          (req, enp) \<leftarrow> dp_execute env (mcdi_req MC_CMD_RSS_CONTEXT_ALLOC payload 12 payload 4) enp;
          if emr_rc req \<noteq> RC_OK then Some (emr_rc req, 0, enp)
          else if emr_out_length_used req < 4 then Some (EMSGSIZE, 0, enp)
          else do {
            rss_context \<leftarrow> mcdi_out_dword req 0;
            if rss_context = EF10_RSS_CONTEXT_INVALID then Some (ENOENT, 0, enp) else Some (RC_OK, rss_context, enp) } })"

definition efx_mcdi_rss_context_free :: "'c mcdi_nic mc_env \<Rightarrow> u32 \<Rightarrow> 'c dp_nic \<Rightarrow> (efx_rc \<times> 'c dp_nic) option" where
  "efx_mcdi_rss_context_free env rss_context enp =
     (if rss_context = EF10_RSS_CONTEXT_INVALID then Some (EINVAL, enp)
      else do {
        payload \<leftarrow> mcdi_in_set_dword 0 rss_context (replicate 4 0);
        (req, enp) \<leftarrow> dp_execute env (mcdi_req MC_CMD_RSS_CONTEXT_FREE payload 4 payload 0) enp;
        Some (emr_rc req, enp) })"

definition rss_flags :: "u32 \<Rightarrow> u32" where
  "rss_flags types = efx_populate_dword
     [(0, 1, if types AND push_bit EFX_RX_HASH_IPV4 1 \<noteq> 0 then 1 else 0), (1, 1, if types AND push_bit EFX_RX_HASH_TCPIPV4 1 \<noteq> 0 then 1 else 0),
      (2, 1, if types AND push_bit EFX_RX_HASH_IPV6 1 \<noteq> 0 then 1 else 0), (3, 1, if types AND push_bit EFX_RX_HASH_TCPIPV6 1 \<noteq> 0 then 1 else 0)]"

definition efx_mcdi_rss_context_set_flags :: "'c mcdi_nic mc_env \<Rightarrow> u32 \<Rightarrow> u32 \<Rightarrow> 'c dp_nic \<Rightarrow> (efx_rc \<times> 'c dp_nic) option" where
  "efx_mcdi_rss_context_set_flags env rss_context types enp =
     (if rss_context = EF10_RSS_CONTEXT_INVALID then Some (EINVAL, enp)
      else do {
        payload \<leftarrow> mcdi_in_set_dword 0 rss_context (replicate 8 0);
        payload \<leftarrow> mcdi_in_set_dword 4 (rss_flags types) payload;
        (req, enp) \<leftarrow> dp_execute env (mcdi_req MC_CMD_RSS_CONTEXT_SET_FLAGS payload 8 payload 0) enp;
        Some (emr_rc req, enp) })"

definition efx_mcdi_rss_context_set_key :: "'c mcdi_nic mc_env \<Rightarrow> u32 \<Rightarrow> u8 list \<Rightarrow> 'c dp_nic \<Rightarrow> (efx_rc \<times> 'c dp_nic) option" where
  "efx_mcdi_rss_context_set_key env rss_context key enp =
     (if rss_context = EF10_RSS_CONTEXT_INVALID then Some (EINVAL, enp)
      else do {
        payload \<leftarrow> mcdi_in_set_dword 0 rss_context (replicate 44 0);
        efsys_assert (length key = 40);
        payload \<leftarrow> wr_range payload 4 key;
        (req, enp) \<leftarrow> dp_execute env (mcdi_req MC_CMD_RSS_CONTEXT_SET_KEY payload 44 payload 0) enp;
        Some (emr_rc req, enp) })"

definition efx_mcdi_rss_context_set_table :: "'c mcdi_nic mc_env \<Rightarrow> u32 \<Rightarrow> u32 list \<Rightarrow> 'c dp_nic \<Rightarrow> (efx_rc \<times> 'c dp_nic) option" where
  "efx_mcdi_rss_context_set_table env rss_context table enp =
     (if rss_context = EF10_RSS_CONTEXT_INVALID then Some (EINVAL, enp)
      else do {
        payload \<leftarrow> mcdi_in_set_dword 0 rss_context (replicate 132 0);
        payload \<leftarrow> wr_range payload 4 (map (\<lambda>i. ucast (rss_entry table i)) [0..<128]);
        (req, enp) \<leftarrow> dp_execute env (mcdi_req MC_CMD_RSS_CONTEXT_SET_TABLE payload 132 payload 0) enp;
        Some (emr_rc req, enp) })"

section \<open>Operations of EF10\<close>

definition ef10_rx_init :: "'c mcdi_nic mc_env \<Rightarrow> 'c dp_nic \<Rightarrow> (efx_rc \<times> 'c dp_nic) option" where
  "ef10_rx_init env enp = do {
     (rc, rss_context, enp) \<leftarrow> efx_mcdi_rss_context_alloc env EFX_RX_SCALE_EXCLUSIVE EFX_MAXRSS enp;
     Some (RC_OK,
       if rc = RC_OK then enp\<lparr>en_rss_context := rss_context, en_rss_support := EFX_RX_SCALE_EXCLUSIVE, en_hash_support := EFX_RX_HASH_AVAILABLE\<rparr>
       else enp\<lparr>en_rss_support := EFX_RX_SCALE_UNAVAILABLE, en_hash_support := EFX_RX_HASH_UNAVAILABLE\<rparr>) }"

definition ef10_rx_fini :: "'c mcdi_nic mc_env \<Rightarrow> 'c dp_nic \<Rightarrow> 'c dp_nic option" where
  "ef10_rx_fini env enp = do {
     enp \<leftarrow> (if en_rss_support enp \<noteq> EFX_RX_SCALE_UNAVAILABLE then do {
               (_, enp) \<leftarrow> efx_mcdi_rss_context_free env (en_rss_context enp) enp;
               Some enp }
             else Some enp);
     Some (enp\<lparr>en_rss_context := 0, en_rss_support := EFX_RX_SCALE_UNAVAILABLE\<rparr>) }"

definition ef10_rx_scale_mode_set :: "'c mcdi_nic mc_env \<Rightarrow> nat \<Rightarrow> u32 \<Rightarrow> bool \<Rightarrow> 'c dp_nic \<Rightarrow> (efx_rc \<times> 'c dp_nic) option" where
  "ef10_rx_scale_mode_set env alg types insrt enp = do {
     efsys_assert (alg = EFX_RX_HASHALG_TOEPLITZ);
     efsys_assert insrt;
     if en_rss_support enp = EFX_RX_SCALE_UNAVAILABLE then Some (ENOTSUP, enp)
     else efx_mcdi_rss_context_set_flags env (en_rss_context enp) types enp }"

definition ef10_rx_scale_key_set :: "'c mcdi_nic mc_env \<Rightarrow> u8 list \<Rightarrow> 'c dp_nic \<Rightarrow> (efx_rc \<times> 'c dp_nic) option" where
  "ef10_rx_scale_key_set env key enp =
     (if en_rss_support enp = EFX_RX_SCALE_UNAVAILABLE then Some (ENOTSUP, enp)
      else efx_mcdi_rss_context_set_key env (en_rss_context enp) key enp)"

definition ef10_rx_scale_tbl_set :: "'c mcdi_nic mc_env \<Rightarrow> u32 list \<Rightarrow> 'c dp_nic \<Rightarrow> (efx_rc \<times> 'c dp_nic) option" where
  "ef10_rx_scale_tbl_set env table enp =
     (if en_rss_support enp = EFX_RX_SCALE_UNAVAILABLE then Some (ENOTSUP, enp)
      else efx_mcdi_rss_context_set_table env (en_rss_context enp) table enp)"

definition ef10_rx_prefix_pktlen :: "u8 list \<Rightarrow> (efx_rc \<times> u16) option" where
  "ef10_rx_prefix_pktlen buffer = do {
     b8 \<leftarrow> rd buffer 8; b9 \<leftarrow> rd buffer 9;
     Some (RC_OK, ucast b8 OR push_bit 8 (ucast b9)) }"

definition ef10_rx_prefix_hash :: "nat \<Rightarrow> u8 list \<Rightarrow> u32 option" where
  "ef10_rx_prefix_hash func buffer =
     (if func = EFX_RX_HASHALG_TOEPLITZ then do {
        b0 \<leftarrow> rd buffer 0; b1 \<leftarrow> rd buffer 1; b2 \<leftarrow> rd buffer 2; b3 \<leftarrow> rd buffer 3;
        Some (ucast b0 OR push_bit 8 (ucast b1) OR push_bit 16 (ucast b2) OR push_bit 24 (ucast b3)) }
      else None)"

definition ef10_rx_qflush :: "'c mcdi_nic mc_env \<Rightarrow> efx_rxq \<Rightarrow> 'c dp_nic \<Rightarrow> (efx_rc \<times> 'c dp_nic) option" where
  "ef10_rx_qflush env erp enp = efx_mcdi_fini_rxq env (er_index erp) enp"

definition ef10_rx_qenable :: "efx_rxq \<Rightarrow> 'c dp_nic \<Rightarrow> 'c dp_nic" where "ef10_rx_qenable erp enp = enp"

text \<open>Creating and destroying a queue also sets up its label in the event queue, which is returned.\<close>

definition ef10_rx_qcreate ::
    "'c mcdi_nic mc_env \<Rightarrow> 'c dp_nic \<Rightarrow> nat \<Rightarrow> nat \<Rightarrow> nat \<Rightarrow> u64 \<Rightarrow> nat \<Rightarrow> efx_evq \<Rightarrow> efx_rxq \<Rightarrow> (efx_rc \<times> 'c dp_nic \<times> efx_rxq \<times> efx_evq) option" where
  "ef10_rx_qcreate env enp index label rxq_type addr n eep erp = do {
     efsys_assert (label < EFX_EV_RX_NLABELS);
     efsys_assert (en_rx_qcount enp + 1 < enc_rxq_limit enp);
     if \<not> rxq_size_ok n then Some (EINVAL, enp, erp, eep)
     else if enc_rxq_limit enp \<le> index then Some (EINVAL, enp, erp, eep)
     else do {
       let disable_scatter = (rxq_type \<noteq> EFX_RXQ_TYPE_SCATTER \<and> enc_rx_disable_scatter_supported enp);
       (rc, enp) \<leftarrow> efx_mcdi_init_rxq env n (ee_index eep) label index addr disable_scatter enp;
       if rc \<noteq> RC_OK then Some (rc, enp, erp, eep)
       else do {
         let erp = erp\<lparr>er_label := label\<rparr>;
         eep \<leftarrow> ef10_ev_rxlabel_init (er_mask erp) label eep;
         Some (RC_OK, enp, erp, eep) } } }"

definition ef10_rx_qdestroy :: "efx_rxq \<Rightarrow> efx_evq \<Rightarrow> 'c dp_nic \<Rightarrow> (efx_evq \<times> 'c dp_nic) option" where
  "ef10_rx_qdestroy erp eep enp = do {
     eep \<leftarrow> ef10_ev_rxlabel_fini (er_label erp) eep;
     efsys_assert (en_rx_qcount enp \<noteq> 0);
     Some (eep, enp\<lparr>en_rx_qcount := en_rx_qcount enp - 1\<rparr>) }"

section \<open>The interface\<close>

definition rx_init_failed :: "efx_rc \<Rightarrow> 'c dp_nic \<Rightarrow> (efx_rc \<times> 'c dp_nic) option" where
  "rx_init_failed rc enp = Some (rc, dp_set_mod_flags (dp_mod_flags enp AND NOT EFX_MOD_RX) (enp\<lparr>en_erxop := None\<rparr>))"

definition efx_rx_init :: "'c mcdi_nic mc_env \<Rightarrow> 'c dp_nic \<Rightarrow> (efx_rc \<times> 'c dp_nic) option" where
  "efx_rx_init env enp = do {
     efsys_assert (dp_mod_flags enp AND EFX_MOD_NIC \<noteq> 0);
     if dp_mod_flags enp AND EFX_MOD_EV = 0 then rx_init_failed EINVAL enp
     else if dp_mod_flags enp AND EFX_MOD_RX \<noteq> 0 then rx_init_failed EINVAL enp
     else do {
       erxop \<leftarrow> (case dp_family enp of EFX_FAMILY_SIENA \<Rightarrow> Some EFX_FAMILY_SIENA | EFX_FAMILY_HUNTINGTON \<Rightarrow> Some EFX_FAMILY_HUNTINGTON | _ \<Rightarrow> None);
       (rc, enp) \<leftarrow> (if erxop = EFX_FAMILY_SIENA then Some (siena_rx_init enp) else ef10_rx_init env enp);
       if rc \<noteq> RC_OK then rx_init_failed rc enp
       else Some (RC_OK, dp_set_mod_flags (dp_mod_flags enp OR EFX_MOD_RX) (enp\<lparr>en_erxop := Some erxop\<rparr>)) } }"

definition efx_rx_fini :: "'c mcdi_nic mc_env \<Rightarrow> 'c dp_nic \<Rightarrow> 'c dp_nic option" where
  "efx_rx_fini env enp = do {
     efsys_assert (dp_mod_flags enp AND EFX_MOD_NIC \<noteq> 0);
     efsys_assert (dp_mod_flags enp AND EFX_MOD_RX \<noteq> 0);
     efsys_assert (en_rx_qcount enp = 0);
     erxop \<leftarrow> en_erxop enp;
     enp \<leftarrow> (if erxop = EFX_FAMILY_SIENA then Some (siena_rx_fini enp) else ef10_rx_fini env enp);
     Some (dp_set_mod_flags (dp_mod_flags enp AND NOT EFX_MOD_RX) (enp\<lparr>en_erxop := None\<rparr>)) }"

text \<open>The output pointer of the queries may be NULL: \<open>supportp\<close> says whether it is not.\<close>

definition efx_rx_hash_support_get :: "bool \<Rightarrow> 'c dp_nic \<Rightarrow> (efx_rc \<times> efx_rx_hash_support option) option" where
  "efx_rx_hash_support_get supportp enp = do {
     efsys_assert (dp_mod_flags enp AND EFX_MOD_RX \<noteq> 0);
     Some (if \<not> supportp then (EINVAL, None) else (RC_OK, Some (en_hash_support enp))) }"

definition efx_rx_scale_support_get :: "bool \<Rightarrow> 'c dp_nic \<Rightarrow> (efx_rc \<times> efx_rx_scale_support option) option" where
  "efx_rx_scale_support_get supportp enp = do {
     efsys_assert (dp_mod_flags enp AND EFX_MOD_RX \<noteq> 0);
     Some (if \<not> supportp then (EINVAL, None) else (RC_OK, Some (en_rss_support enp))) }"

definition efx_rx_scale_mode_set :: "'c mcdi_nic mc_env \<Rightarrow> nat \<Rightarrow> u32 \<Rightarrow> bool \<Rightarrow> 'c dp_nic \<Rightarrow> (efx_rc \<times> 'c dp_nic) option" where
  "efx_rx_scale_mode_set env alg types insrt enp = do {
     efsys_assert (dp_mod_flags enp AND EFX_MOD_RX \<noteq> 0);
     erxop \<leftarrow> en_erxop enp;
     if erxop = EFX_FAMILY_SIENA then Some (siena_rx_scale_mode_set alg types insrt enp) else ef10_rx_scale_mode_set env alg types insrt enp }"

definition efx_rx_scale_key_set :: "'c mcdi_nic mc_env \<Rightarrow> u8 list \<Rightarrow> 'c dp_nic \<Rightarrow> (efx_rc \<times> 'c dp_nic) option" where
  "efx_rx_scale_key_set env key enp = do {
     efsys_assert (dp_mod_flags enp AND EFX_MOD_RX \<noteq> 0);
     erxop \<leftarrow> en_erxop enp;
     if erxop = EFX_FAMILY_SIENA then Some (siena_rx_scale_key_set key enp) else ef10_rx_scale_key_set env key enp }"

definition efx_rx_scale_tbl_set :: "'c mcdi_nic mc_env \<Rightarrow> u32 list \<Rightarrow> 'c dp_nic \<Rightarrow> (efx_rc \<times> 'c dp_nic) option" where
  "efx_rx_scale_tbl_set env table enp = do {
     efsys_assert (dp_mod_flags enp AND EFX_MOD_RX \<noteq> 0);
     erxop \<leftarrow> en_erxop enp;
     if erxop = EFX_FAMILY_SIENA then Some (siena_rx_scale_tbl_set table enp) else ef10_rx_scale_tbl_set env table enp }"

definition efx_rx_qpost :: "'c dp_nic \<Rightarrow> efx_rxq \<Rightarrow> u64 list \<Rightarrow> u64 \<Rightarrow> u32 \<Rightarrow> u32 \<Rightarrow> efx_rxq option" where
  "efx_rx_qpost enp erp addrp len completed added = do {
     erxop \<leftarrow> en_erxop enp;
     if erxop = EFX_FAMILY_SIENA then siena_rx_qpost erp addrp len completed added else ef10_rx_qpost erp addrp len completed added }"

definition efx_rx_qpush :: "efx_rxq \<Rightarrow> u32 \<Rightarrow> u32 \<Rightarrow> 'c dp_nic \<Rightarrow> (u32 \<times> 'c dp_nic) option" where
  "efx_rx_qpush erp added pushed enp = do {
     erxop \<leftarrow> en_erxop enp;
     Some (if erxop = EFX_FAMILY_SIENA then siena_rx_qpush erp added pushed enp else ef10_rx_qpush erp added pushed enp) }"

definition efx_rx_qflush :: "'c mcdi_nic mc_env \<Rightarrow> efx_rxq \<Rightarrow> 'c dp_nic \<Rightarrow> (efx_rc \<times> 'c dp_nic) option" where
  "efx_rx_qflush env erp enp = do {
     erxop \<leftarrow> en_erxop enp;
     if erxop = EFX_FAMILY_SIENA then Some (siena_rx_qflush erp enp) else ef10_rx_qflush env erp enp }"

definition efx_rx_qenable :: "efx_rxq \<Rightarrow> 'c dp_nic \<Rightarrow> 'c dp_nic option" where
  "efx_rx_qenable erp enp = do {
     erxop \<leftarrow> en_erxop enp;
     Some (if erxop = EFX_FAMILY_SIENA then siena_rx_qenable erp enp else ef10_rx_qenable erp enp) }"

definition rxq_new :: "nat \<Rightarrow> nat \<Rightarrow> efx_qword list \<Rightarrow> efx_rxq" where
  "rxq_new index n esmp = \<lparr>er_index = index, er_label = 0, er_mask = of_nat n - 1, er_esmp = esmp\<rparr>"

definition efx_rx_qcreate ::
    "'c mcdi_nic mc_env \<Rightarrow> 'c dp_nic \<Rightarrow> nat \<Rightarrow> nat \<Rightarrow> nat \<Rightarrow> efx_qword list \<Rightarrow> u64 \<Rightarrow> nat \<Rightarrow> u32 \<Rightarrow> efx_evq \<Rightarrow>
     (efx_rc \<times> 'c dp_nic \<times> efx_rxq option \<times> efx_evq) option" where
  "efx_rx_qcreate env enp index label rxq_type esmp addr n buftbl_id eep = do {
     efsys_assert (dp_mod_flags enp AND EFX_MOD_RX \<noteq> 0);
     let (ok, m) = env_alloc env (dp_mcdi enp);
     let enp = dp_set_mcdi m enp;
     if \<not> ok then Some (ENOMEM, enp, None, eep)
     else do {
       erxop \<leftarrow> en_erxop enp;
       (rc, enp, erp, eep) \<leftarrow> (if erxop = EFX_FAMILY_SIENA then do {
             (rc, enp) \<leftarrow> siena_rx_qcreate enp index label rxq_type n buftbl_id eep (rxq_new index n esmp);
             Some (rc, enp, rxq_new index n esmp, eep) }
           else ef10_rx_qcreate env enp index label rxq_type addr n eep (rxq_new index n esmp));
       if rc \<noteq> RC_OK then Some (rc, enp, None, eep)
       else Some (RC_OK, enp\<lparr>en_rx_qcount := en_rx_qcount enp + 1\<rparr>, Some erp, eep) } }"

definition efx_rx_qdestroy :: "efx_rxq \<Rightarrow> efx_evq \<Rightarrow> 'c dp_nic \<Rightarrow> (efx_evq \<times> 'c dp_nic) option" where
  "efx_rx_qdestroy erp eep enp = do {
     erxop \<leftarrow> en_erxop enp;
     if erxop = EFX_FAMILY_SIENA then do { enp \<leftarrow> siena_rx_qdestroy erp enp; Some (eep, enp) } else ef10_rx_qdestroy erp eep enp }"

definition efx_psuedo_hdr_pkt_length_get :: "'c dp_nic \<Rightarrow> u8 list \<Rightarrow> (efx_rc \<times> u16) option" where
  "efx_psuedo_hdr_pkt_length_get enp buffer = do {
     erxop \<leftarrow> en_erxop enp;
     if erxop = EFX_FAMILY_SIENA then siena_rx_prefix_pktlen buffer else ef10_rx_prefix_pktlen buffer }"

definition efx_psuedo_hdr_hash_get :: "'c dp_nic \<Rightarrow> nat \<Rightarrow> u8 list \<Rightarrow> u32 option" where
  "efx_psuedo_hdr_hash_get enp func buffer = do {
     efsys_assert (en_hash_support enp = EFX_RX_HASH_AVAILABLE);
     erxop \<leftarrow> en_erxop enp;
     if erxop = EFX_FAMILY_SIENA then siena_rx_prefix_hash func buffer else ef10_rx_prefix_hash func buffer }"

end
