(* ===== verification/Efx_Ring.thy ===== *)
theory Efx_Ring
  imports Efx_Ev_Poll Efx_Pio Efx_Rx
begin

text \<open>
  The contract of a descriptor ring: posting items behind the outstanding ones appends their descriptors to the list of outstanding
  descriptors. The locale \<open>desc_ring\<close> states what the loops that post have in common; it is interpreted on the five loops of the two
  families. The producer's counters run freely and wrap at \<open>2 ^ 32\<close>; a slot is the counter modulo the size of the ring.
\<close>

section \<open>The outstanding descriptors\<close>

definition ring_slice :: "nat \<Rightarrow> efx_qword list \<Rightarrow> u32 \<Rightarrow> nat \<Rightarrow> efx_qword list" where
  "ring_slice n mem first k = map (\<lambda>i. mem ! ((unat first + i) mod n)) [0..<k]"

lemma ring_slice_length [simp]: "length (ring_slice n mem first k) = k"
  by (simp add: ring_slice_def)

lemma ring_slice_nth: "i < k \<Longrightarrow> ring_slice n mem first k ! i = mem ! ((unat first + i) mod n)"
  by (simp add: ring_slice_def)

lemma ring_slice_drop:
  assumes "ring_size n"
  shows "drop c (ring_slice n mem first k) = ring_slice n mem (first + of_nat c) (k - c)"
proof (rule nth_equalityI)
  fix i assume "i < length (drop c (ring_slice n mem first k))"
  moreover have "(unat (first + of_nat c) + i) mod n = (unat first + (c + i)) mod n"
    using unat_count_add [OF assms, of first c] by (metis mod_add_left_eq add.assoc)
  ultimately show "drop c (ring_slice n mem first k) ! i = ring_slice n mem (first + of_nat c) (k - c) ! i"
    by (simp add: ring_slice_nth)
qed simp

text \<open>Writing the slot behind a slice that does not fill the ring extends the slice.\<close>

lemma ring_slice_write:
  assumes "ring_size n" "length mem = n" "k < n" "w = (unat first + k) mod n"
  shows "ring_slice n (mem[w := d]) first (Suc k) = ring_slice n mem first k @ [d]"
proof (rule nth_equalityI)
  have n: "0 < n" using ring_size_8(2) [OF assms(1)] by simp
  fix i assume i: "i < length (ring_slice n (mem[w := d]) first (Suc k))"
  show "ring_slice n (mem[w := d]) first (Suc k) ! i = (ring_slice n mem first k @ [d]) ! i"
  proof (cases "i = k")
    case True
    have "w < length mem" using n assms(2,4) by simp
    then show ?thesis using True assms(4) by (simp add: ring_slice_nth nth_append)
  next
    case False
    with i have "i < k" by simp
    then have "(unat first + i) mod n \<noteq> w" using mod_shift_inj [of "unat first" i n k] assms(3,4) by auto
    with \<open>i < k\<close> show ?thesis by (simp add: ring_slice_nth nth_append)
  qed
qed simp

section \<open>Posting\<close>

locale desc_ring =
  fixes post :: "u32 \<Rightarrow> 'b list \<Rightarrow> u32 \<Rightarrow> efx_qword list \<Rightarrow> efx_qword list option"
    and desc :: "'b \<Rightarrow> efx_qword"
    and item_ok :: "'b \<Rightarrow> bool"
  assumes post_Nil: "post m [] added mem = Some mem"
    and post_Cons: "ring_size n \<Longrightarrow> m = of_nat (n - 1) \<Longrightarrow> post m (b # bs) added mem =
      (if item_ok b then wr mem (unat (added AND m)) (desc b) \<bind> post m bs (added + 1) else None)"
begin

lemma post_step:
  "ring_size n \<Longrightarrow> length mem = n \<Longrightarrow> item_ok b \<Longrightarrow>
     post (of_nat (n - 1)) (b # bs) added mem = post (of_nat (n - 1)) bs (added + 1) (mem[unat added mod n := desc b])"
proof -
  assume n: "ring_size n" and mem: "length mem = n" and ok: "item_ok b"
  have "0 < n" using ring_size_8(2) [OF n] by simp
  then have "unat added mod n < length mem" using mem by simp
  then have "wr mem (unat added mod n) (desc b) = Some (mem[unat added mod n := desc b])" by (simp add: wr_Some)
  then show ?thesis by (simp only: post_Cons [OF n refl] ok if_True unat_and_ring_mask [OF n] Option.bind.simps)
qed

lemma post_appends:
  assumes n: "ring_size n"
  shows "length mem = n \<Longrightarrow> list_all item_ok bs \<Longrightarrow> k + length bs \<le> n \<Longrightarrow> unat added mod n = (unat first + k) mod n \<Longrightarrow>
    \<exists>mem'. post (of_nat (n - 1)) bs added mem = Some mem' \<and> length mem' = n
      \<and> ring_slice n mem' first (k + length bs) = ring_slice n mem first k @ map desc bs"
proof (induction bs arbitrary: added mem k)
  case Nil
  then show ?case by (simp add: post_Nil)
next
  case (Cons b bs)
  let ?mem = "mem[unat added mod n := desc b]"
  have "unat (added + 1) mod n = (unat first + Suc k) mod n"
    using unat_count_add [OF n, of added 1] Cons.prems(4) mod_add_cong [OF Cons.prems(4), of 1 1] by simp
  then obtain mem' where "post (of_nat (n - 1)) bs (added + 1) ?mem = Some mem'" "length mem' = n"
    "ring_slice n mem' first (Suc k + length bs) = ring_slice n ?mem first (Suc k) @ map desc bs"
    using Cons.IH [of ?mem "Suc k" "added + 1"] Cons.prems(1-3) by auto
  moreover have "ring_slice n ?mem first (Suc k) = ring_slice n mem first k @ [desc b]"
    using ring_slice_write [OF n Cons.prems(1) _ Cons.prems(4)] Cons.prems(3) by simp
  ultimately show ?case using post_step [OF n Cons.prems(1)] Cons.prems(2) by simp
qed

lemma post_refuses:
  assumes n: "ring_size n"
  shows "length mem = n \<Longrightarrow> \<not> list_all item_ok bs \<Longrightarrow> post (of_nat (n - 1)) bs added mem = None"
proof (induction bs arbitrary: added mem)
  case (Cons b bs)
  show ?case
  proof (cases "item_ok b")
    case True
    then have "post (of_nat (n - 1)) bs (added + 1) (mem[unat added mod n := desc b]) = None"
      using Cons.IH [of "mem[unat added mod n := desc b]"] Cons.prems by simp
    then show ?thesis by (simp only: post_step [OF n Cons.prems(1) True])
  qed (simp only: post_Cons [OF n refl] if_False)
qed simp

end

section \<open>The loops of the families\<close>

text \<open>The transmit loops also return the counter.\<close>

lemma qpost_loop_added:
  "desc_write m ds added mem = map_option (\<lambda>mem. (mem, added + of_nat (length ds))) (map_option fst (desc_write m ds added mem))"
  "siena_qpost_loop m eb added mem = map_option (\<lambda>mem. (mem, added + of_nat (length eb))) (map_option fst (siena_qpost_loop m eb added mem))"
  "ef10_qpost_loop m eb added mem = map_option (\<lambda>mem. (mem, added + of_nat (length eb))) (map_option fst (ef10_qpost_loop m eb added mem))"
proof -
  have "desc_write m ds added mem = Some (mem', a) \<Longrightarrow> a = added + of_nat (length ds)" for mem' a
    by (induction ds arbitrary: added mem) (fastforce split: Option.bind_splits)+
  then show "desc_write m ds added mem = map_option (\<lambda>mem. (mem, added + of_nat (length ds))) (map_option fst (desc_write m ds added mem))"
    by (cases "desc_write m ds added mem") auto
  have "siena_qpost_loop m eb added mem = Some (mem', a) \<Longrightarrow> a = added + of_nat (length eb)" for mem' a
    by (induction eb arbitrary: added mem) (fastforce split: Option.bind_splits if_splits)+
  then show "siena_qpost_loop m eb added mem = map_option (\<lambda>mem. (mem, added + of_nat (length eb))) (map_option fst (siena_qpost_loop m eb added mem))"
    by (cases "siena_qpost_loop m eb added mem") auto
  have "ef10_qpost_loop m eb added mem = Some (mem', a) \<Longrightarrow> a = added + of_nat (length eb)" for mem' a
    by (induction eb arbitrary: added mem) (fastforce split: Option.bind_splits if_splits)+
  then show "ef10_qpost_loop m eb added mem = map_option (\<lambda>mem. (mem, added + of_nat (length eb))) (map_option fst (ef10_qpost_loop m eb added mem))"
    by (cases "ef10_qpost_loop m eb added mem") auto
qed

definition buffer_ok :: "efx_buffer \<Rightarrow> bool" where "buffer_ok ebp = fragment_ok (eb_addr ebp) (eb_size ebp)"

interpretation dw: desc_ring "\<lambda>m ds added mem. map_option fst (desc_write m ds added mem)" "\<lambda>d. d" "\<lambda>_. True"
  by unfold_locales (auto simp: map_option_case split: Option.bind_splits option.splits)

interpretation sq: desc_ring "\<lambda>m eb added mem. map_option fst (siena_qpost_loop m eb added mem)"
    "\<lambda>ebp. siena_tx_desc (eb_addr ebp) (eb_size ebp) (eb_eop ebp)" buffer_ok
  by unfold_locales (auto simp: buffer_ok_def map_option_case split: Option.bind_splits option.splits)

interpretation eq: desc_ring "\<lambda>m eb added mem. map_option fst (ef10_qpost_loop m eb added mem)"
    "\<lambda>ebp. ef10_tx_desc (eb_addr ebp) (eb_size ebp) (eb_eop ebp)" buffer_ok
  by unfold_locales (auto simp: buffer_ok_def map_option_case split: Option.bind_splits option.splits)

text \<open>The receive loops carry the slot and not the counter.\<close>

lemma slot_step: "ring_size n \<Longrightarrow> m = of_nat (n - 1) \<Longrightarrow> ((added AND m) + 1) AND m = (added + 1) AND (m :: u32)"
proof -
  assume n: "ring_size n" "m = of_nat (n - 1)"
  have s: "unat (c + 1 :: u32) mod n = (unat c + 1) mod n" for c using unat_count_add [OF n(1), of c 1] by simp
  have "unat (((added AND m) + 1) AND m) = unat ((added + 1) AND m)"
    unfolding n(2) unat_and_ring_mask [OF n(1)] s by (simp only: mod_add_left_eq)
  then show ?thesis by (rule word_unat_eq_iff [THEN iffD2])
qed

interpretation sr: desc_ring "\<lambda>m addrs added mem. siena_rx_qpost_loop m len addrs (added AND m) mem" "siena_rx_desc len" "\<lambda>_. True" for len
  by unfold_locales (auto simp: slot_step split: Option.bind_splits)

interpretation er: desc_ring "\<lambda>m addrs added mem. ef10_rx_qpost_loop m len addrs (added AND m) mem" "ef10_rx_desc len" "\<lambda>_. True" for len
  by unfold_locales (auto simp: slot_step split: Option.bind_splits)

section \<open>What the hardware fetches\<close>

text \<open>The controller keeps its read pointer and fetches up to the write pointer that it was given.\<close>

definition hw_fetch :: "nat \<Rightarrow> efx_qword list \<Rightarrow> nat \<Rightarrow> nat \<Rightarrow> efx_qword list" where
  "hw_fetch n mem rptr wptr = map (\<lambda>i. mem ! ((rptr + i) mod n)) [0..<(wptr + n - rptr) mod n]"

lemma hw_fetch_slice:
  assumes n: "ring_size n" and k: "k < n"
  shows "hw_fetch n mem (unat pushed mod n) (unat (pushed + of_nat k) mod n) = ring_slice n mem pushed k"
proof -
  let ?r = "unat pushed mod n"
  have pos: "0 < n" using ring_size_8(2) [OF n] by simp
  have "unat (pushed + of_nat k) mod n = (?r + k) mod n" using unat_count_add [OF n, of pushed k] by (simp add: mod_add_left_eq)
  then have "(unat (pushed + of_nat k) mod n + n - ?r) mod n = ((?r + k) mod n + (n - ?r)) mod n"
    using pos by (simp add: Nat.add_diff_assoc less_imp_le)
  also have "\<dots> = (?r + k + (n - ?r)) mod n" by (rule mod_add_left_eq)
  also have "?r + k + (n - ?r) = k + n" using pos mod_less_divisor [of n "unat pushed"] by linarith
  finally have "(unat (pushed + of_nat k) mod n + n - ?r) mod n = k" using k by simp
  then show ?thesis by (simp add: hw_fetch_def ring_slice_def mod_add_left_eq)
qed

end
