(* ===== verification/Efx_Tx_Props.thy ===== *)
theory Efx_Tx_Props
  imports Efx_Ring Efx_Ev_Wf
begin

text \<open>
  Properties of transmit queues: posting and pushing as operations on the list of outstanding descriptors, what the controller reads
  from them, and the sizes of queues.
\<close>

section \<open>Posting\<close>

text \<open>
  A queue of \<open>n\<close> slots with its outstanding descriptors: those posted and not yet completed. Sixteen slots stay unused.
\<close>

definition txq_ring :: "nat \<Rightarrow> efx_txq \<Rightarrow> u32 \<Rightarrow> u32 \<Rightarrow> efx_qword list \<Rightarrow> bool" where
  "txq_ring n etp completed added pend = (ring_size n \<and> 16 \<le> n \<and> et_mask etp = of_nat (n - 1) \<and> length (et_esmp etp) = n
     \<and> length pend \<le> n - 16 \<and> added = completed + of_nat (length pend) \<and> ring_slice n (et_esmp etp) completed (length pend) = pend)"

definition tx_desc :: "efx_family \<Rightarrow> efx_buffer \<Rightarrow> efx_qword" where
  "tx_desc family ebp = (if family = EFX_FAMILY_SIENA then siena_tx_desc (eb_addr ebp) (eb_size ebp) (eb_eop ebp)
                         else ef10_tx_desc (eb_addr ebp) (eb_size ebp) (eb_eop ebp))"

lemma ring_size_bound: "ring_size n \<Longrightarrow> n \<le> 2 ^ 31"
  unfolding ring_size_def using power_increasing [of _ 31 "2 :: nat"] by fastforce

lemma ring_room:
  assumes "ring_size n" "16 \<le> n" "m = of_nat (n - 1)" "added = completed + of_nat p" "p + k < 2 ^ 32"
  shows "((m + 1 :: u32) - 16 < added - completed + of_nat k) = (n - 16 < p + k)"
proof -
  have n: "n < 2 ^ 32" using ring_size_bound [OF assms(1)] by simp
  have "m + 1 - 16 = of_nat (n - 16)" using assms(2,3) by (simp add: of_nat_diff)
  moreover have "added - completed + of_nat k = of_nat (p + k)" using assms(4) by simp
  moreover have "(of_nat (n - 16) :: u32) < of_nat (p + k) \<longleftrightarrow> n - 16 < p + k"
    using n assms(5) by (simp add: word_less_nat_alt unat_of_nat del: of_nat_add)
  ultimately show ?thesis by simp
qed

lemmas txq_room = ring_room [of _ "et_mask _", folded EFX_TXQ_LIMIT_def]

lemma tx_loops:
  assumes "ring_size n" "length mem = n" "list_all buffer_ok eb" "k + length eb \<le> n" "added = first + of_nat k"
  shows "\<exists>mem'. (if family = EFX_FAMILY_SIENA then siena_qpost_loop (of_nat (n - 1)) eb added mem else ef10_qpost_loop (of_nat (n - 1)) eb added mem)
      = Some (mem', added + of_nat (length eb)) \<and> length mem' = n
      \<and> ring_slice n mem' first (k + length eb) = ring_slice n mem first k @ map (tx_desc family) eb"
proof -
  have a: "unat added mod n = (unat first + k) mod n" using unat_count_add [OF assms(1)] assms(5) by simp
  show ?thesis
  proof (cases "family = EFX_FAMILY_SIENA")
    case True
    from sq.post_appends [OF assms(1-4) a] show ?thesis
      by (subst qpost_loop_added(2)) (auto simp: True tx_desc_def)
  next
    case False
    from eq.post_appends [OF assms(1-4) a] show ?thesis
      by (subst qpost_loop_added(3)) (auto simp: False tx_desc_def)
  qed
qed

lemma qpost_full:
  assumes "txq_ring n etp completed added pend" "en_etxop enp = Some family" "length pend + length eb < 2 ^ 32" "n - 16 < length pend + length eb"
  shows "efx_tx_qpost enp etp eb completed added = Some (ENOSPC, etp, added)"
  using txq_room [of n etp added completed "length pend" "length eb"] assms
  by (simp add: txq_ring_def efx_tx_qpost_def siena_tx_qpost_def ef10_tx_qpost_def)

lemma qpost_appends:
  assumes r: "txq_ring n etp completed added pend" and op: "en_etxop enp = Some family"
    and fit: "length pend + length eb \<le> n - 16" and ok: "list_all buffer_ok eb"
  obtains etp' where "efx_tx_qpost enp etp eb completed added = Some (RC_OK, etp', added + of_nat (length eb))"
    "txq_ring n etp' completed (added + of_nat (length eb)) (pend @ map (tx_desc family) eb)" "et_index etp' = et_index etp"
proof -
  have n: "ring_size n" "16 \<le> n" "et_mask etp = of_nat (n - 1)" "length (et_esmp etp) = n" "added = completed + of_nat (length pend)"
    "ring_slice n (et_esmp etp) completed (length pend) = pend" using r by (simp_all add: txq_ring_def)
  have "length pend + length eb < 2 ^ 32" using fit ring_size_bound [OF n(1)] by simp
  then have room: "\<not> EFX_TXQ_LIMIT (et_mask etp + 1) < added - completed + of_nat (length eb)"
    using txq_room [OF n(1-3,5)] fit by simp
  have "length pend + length eb \<le> n" using fit by simp
  from tx_loops [OF n(1,4) ok this n(5), of family] obtain mem' where
    m: "(if family = EFX_FAMILY_SIENA then siena_qpost_loop (of_nat (n - 1)) eb added (et_esmp etp) else ef10_qpost_loop (of_nat (n - 1)) eb added (et_esmp etp))
      = Some (mem', added + of_nat (length eb))" "length mem' = n"
      "ring_slice n mem' completed (length pend + length eb) = pend @ map (tx_desc family) eb" using n(6) by auto
  show thesis
  proof (rule that)
    show "efx_tx_qpost enp etp eb completed added = Some (RC_OK, EFX_TX_QSTAT_INCR TX_POST (etp\<lparr>et_esmp := mem'\<rparr>), added + of_nat (length eb))"
      using m(1) room by (cases "family = EFX_FAMILY_SIENA") (simp_all add: efx_tx_qpost_def op siena_tx_qpost_def ef10_tx_qpost_def n(3))
    show "txq_ring n (EFX_TX_QSTAT_INCR TX_POST (etp\<lparr>et_esmp := mem'\<rparr>)) completed (added + of_nat (length eb)) (pend @ map (tx_desc family) eb)"
      using n(1-3,5) m(2,3) fit by (simp add: txq_ring_def EFX_TX_QSTAT_INCR_def)
  qed (simp add: EFX_TX_QSTAT_INCR_def)
qed

text \<open>Completion drops the oldest descriptors.\<close>

lemma txq_ring_complete:
  "txq_ring n etp completed added pend \<Longrightarrow> c \<le> length pend \<Longrightarrow> txq_ring n etp (completed + of_nat c) added (drop c pend)"
  using ring_slice_drop [of n c "et_esmp etp" completed "length pend"] by (auto simp: txq_ring_def of_nat_diff)

section \<open>What the controller reads\<close>

definition dma_addr :: "u32 \<Rightarrow> u32 \<Rightarrow> u64" where "dma_addr dw0 dw1 = push_bit 32 (ucast dw1) OR ucast dw0"

definition tx_desc_read :: "efx_family \<Rightarrow> efx_qword \<Rightarrow> efx_buffer" where
  "tx_desc_read family d =
     (if family = EFX_FAMILY_SIENA then
        \<lparr>eb_addr = dma_addr (qfield d FSF_AZ_TX_KER_BUF_ADDR_DW0) (qfield d FSF_AZ_TX_KER_BUF_ADDR_DW1),
         eb_size = ucast (qfield d FSF_AZ_TX_KER_BYTE_COUNT), eb_eop = (qfield d FSF_AZ_TX_KER_CONT = 0)\<rparr>
      else
        \<lparr>eb_addr = dma_addr (qfield d ESF_DZ_TX_KER_BUF_ADDR_DW0) (qfield d ESF_DZ_TX_KER_BUF_ADDR_DW1),
         eb_size = ucast (qfield d ESF_DZ_TX_KER_BYTE_CNT), eb_eop = (qfield d ESF_DZ_TX_KER_CONT = 0)\<rparr>)"

text \<open>Addresses of the width that the family supports, and sizes that fit the byte count.\<close>

definition dma_width :: "efx_family \<Rightarrow> nat" where "dma_width family = (if family = EFX_FAMILY_SIENA then 46 else 48)"

definition buffer_fits :: "efx_family \<Rightarrow> efx_buffer \<Rightarrow> bool" where
  "buffer_fits family ebp = (unat (eb_addr ebp) < 2 ^ dma_width family \<and> unat (eb_size ebp) < 2 ^ 14)"

lemma fits_bit64: "unat (v :: u64) < 2 ^ w \<Longrightarrow> bit v i \<Longrightarrow> i < w"
proof (rule ccontr)
  assume v: "unat v < 2 ^ w" and b: "bit v i" and i: "\<not> i < w"
  have "take_bit w v = v" by (rule word_unat_eq_iff [THEN iffD2]) (simp add: unsigned_take_bit_eq take_bit_nat_eq_self v)
  then have "bit (take_bit w v) i" using b by simp
  with i show False by (simp add: bit_simps)
qed

lemma dma_addr_split: "dma_addr (ucast (addr AND 0xffffffff)) (ucast (drop_bit 32 addr)) = (addr :: u64)"
proof (rule bit_word_eqI)
  fix i assume "i < LENGTH(64)"
  have ff: "(0xffffffff :: u64) = mask 32" by (simp add: mask_eq_exp_minus_1)
  show "bit (dma_addr (ucast (addr AND 0xffffffff)) (ucast (drop_bit 32 addr))) i = bit addr i"
    using \<open>i < LENGTH(64)\<close> unfolding dma_addr_def ff by (auto simp: bit_simps not_less)
qed

lemma dma_parts:
  "unat (ucast (addr AND 0xffffffff) :: u32) < 2 ^ 32"
  "unat addr < 2 ^ (32 + w) \<Longrightarrow> unat (ucast (drop_bit 32 (addr :: u64)) :: u32) < 2 ^ w"
  "unat v < 2 ^ w \<Longrightarrow> unat (ucast (v :: u64) :: u32) < 2 ^ w"
  "unat (v :: u64) < 2 ^ 14 \<Longrightarrow> ucast (ucast v :: u32) = v"
proof -
  show "unat (ucast (addr AND 0xffffffff) :: u32) < 2 ^ 32" using unsigned_less [of "ucast (addr AND 0xffffffff) :: u32"] by simp
  show "unat addr < 2 ^ (32 + w) \<Longrightarrow> unat (ucast (drop_bit 32 addr) :: u32) < 2 ^ w"
    by (rule unat_field_bound) (auto simp: bit_simps dest: fits_bit64)
  show "unat v < 2 ^ w \<Longrightarrow> unat (ucast v :: u32) < 2 ^ w"
    by (rule unat_field_bound) (auto simp: bit_simps dest: fits_bit64)
  show "unat v < 2 ^ 14 \<Longrightarrow> ucast (ucast v :: u32) = v"
    by (rule bit_word_eqI) (auto simp: bit_simps dest: fits_bit64 [of v 14, simplified])
qed

lemma siena_desc_fields:
  assumes "unat len < 2 ^ 14" "unat addr < 2 ^ 46"
  shows "qfield (siena_tx_desc addr len eop) FSF_AZ_TX_KER_CONT = (if eop then 0 else 1)"
    "qfield (siena_tx_desc addr len eop) FSF_AZ_TX_KER_BYTE_COUNT = ucast len"
    "qfield (siena_tx_desc addr len eop) FSF_AZ_TX_KER_BUF_ADDR_DW0 = ucast (addr AND 0xffffffff)"
    "qfield (siena_tx_desc addr len eop) FSF_AZ_TX_KER_BUF_ADDR_DW1 = ucast (drop_bit 32 addr)"
  unfolding qfield_def siena_tx_desc_def
  by (rule qword_populate_get; use dma_parts(1) [of addr] dma_parts(2) [of addr 14] dma_parts(3) [of len 14] assms in
      \<open>simp add: oword_layout_def field_ok_def fset_def FSF_AZ_TX_KER_CONT_def FSF_AZ_TX_KER_BYTE_COUNT_def
        FSF_AZ_TX_KER_BUF_ADDR_DW0_def FSF_AZ_TX_KER_BUF_ADDR_DW1_def\<close>)+

lemma ef10_desc_fields:
  assumes "unat len < 2 ^ 14" "unat addr < 2 ^ 48"
  shows "qfield (ef10_tx_desc addr len eop) ESF_DZ_TX_KER_CONT = (if eop then 0 else 1)"
    "qfield (ef10_tx_desc addr len eop) ESF_DZ_TX_KER_BYTE_CNT = ucast len"
    "qfield (ef10_tx_desc addr len eop) ESF_DZ_TX_KER_BUF_ADDR_DW0 = ucast (addr AND 0xffffffff)"
    "qfield (ef10_tx_desc addr len eop) ESF_DZ_TX_KER_BUF_ADDR_DW1 = ucast (drop_bit 32 addr)"
  unfolding qfield_def ef10_tx_desc_def
  by (rule qword_populate_get; use dma_parts(1) [of addr] dma_parts(2) [of addr 16] dma_parts(3) [of len 14] assms in
      \<open>simp add: oword_layout_def field_ok_def fset_def ESF_DZ_TX_KER_TYPE_def ESF_DZ_TX_KER_CONT_def ESF_DZ_TX_KER_BYTE_CNT_def
        ESF_DZ_TX_KER_BUF_ADDR_DW0_def ESF_DZ_TX_KER_BUF_ADDR_DW1_def\<close>)+

lemma tx_desc_read: "buffer_fits family ebp \<Longrightarrow> tx_desc_read family (tx_desc family ebp) = ebp"
  by (cases "family = EFX_FAMILY_SIENA")
    (simp_all add: tx_desc_read_def tx_desc_def buffer_fits_def dma_width_def siena_desc_fields ef10_desc_fields dma_addr_split dma_parts)

section \<open>The doorbell\<close>

text \<open>The write pointer that the controller takes from a write to the doorbell of queue \<open>index\<close>.\<close>

definition tx_doorbell :: "efx_family \<Rightarrow> nat \<Rightarrow> bar_write \<Rightarrow> nat option" where
  "tx_doorbell family index wrt = (case wrt of
     Bar_writed reg d \<Rightarrow>
       if family = EFX_FAMILY_SIENA \<and> reg = FR_BZ_TX_DESC_UPD_REGP0_OFST + 3 * 4 + index * FR_BZ_TX_DESC_UPD_REGP0_STEP
       then Some (unat (efx_dword_field d (fst FRF_AZ_TX_DESC_WPTR - 96) (snd FRF_AZ_TX_DESC_WPTR))) else None
   | Bar_writeo reg ow \<Rightarrow>
       if family \<noteq> EFX_FAMILY_SIENA \<and> reg = ER_DZ_TX_DESC_UPD_REG_OFST + index * ER_DZ_TX_DESC_UPD_REG_STEP
       then Some (unat (efx_oword_field ow (fst ERF_DZ_TX_DESC_WPTR) (snd ERF_DZ_TX_DESC_WPTR))) else None
   | Bar_writeq reg q \<Rightarrow> None)"

text \<open>The descriptor that EF10 pushes with it.\<close>

definition tx_pushed :: "bar_write \<Rightarrow> efx_qword option" where
  "tx_pushed wrt = (case wrt of
     Bar_writeo reg ow \<Rightarrow> Some (Qword (efx_oword_field ow (fst ERF_DZ_TX_DESC_LWORD) (snd ERF_DZ_TX_DESC_LWORD))
                                      (efx_oword_field ow (fst ERF_DZ_TX_DESC_HWORD) (snd ERF_DZ_TX_DESC_HWORD)))
   | _ \<Rightarrow> None)"

lemma siena_wptr_dword:
  assumes "unat w < 2 ^ 12"
  shows "efx_dword_field (efx_populate_dword [fset EFX_DWORD_0 (efx_oword_field (efx_populate_oword [(96, 12, w)]) 96 32)]) 0 12 = w"
proof (rule bit_word_eqI)
  fix i assume "i < LENGTH(32)"
  let ?d = "efx_oword_field (efx_populate_oword [(96, 12, w)]) 96 32"
  have "oword_layout [(0, 32, ?d)]" using unsigned_less [of ?d] by (simp add: oword_layout_def field_ok_def del: efx_oword_field.simps)
  from dword_populate_get [OF this, of 0 32 ?d] have "efx_dword_field (efx_populate_dword [(0, 32, ?d)]) 0 32 = ?d" by simp
  then have b: "bit (efx_populate_dword [(0, 32, ?d)]) i = bit ?d i" using \<open>i < LENGTH(32)\<close>
      bit_dword_field [of 32 0 "efx_populate_dword [(0, 32, ?d)]" i] by simp
  have "bit ?d i \<longleftrightarrow> i < 32 \<and> obit (efx_populate_oword [(96, 12, w)]) (96 + i)" by (rule bit_oword_field) simp_all
  also have "\<dots> \<longleftrightarrow> bit w i" using assms \<open>i < LENGTH(32)\<close> by (subst obit_populate) auto
  finally have "bit ?d i = bit w i" .
  then show "bit (efx_dword_field (efx_populate_dword [fset EFX_DWORD_0 ?d]) 0 12) i = bit w i"
    using b fits_bit [OF assms, of i] by (auto simp: bit_dword_field fset_def EFX_DWORD_0_def)
qed

lemma qpush_doorbell:
  assumes op: "en_etxop enp = Some family" and n: "ring_size n" "n \<le> 4096" "et_mask etp = of_nat (n - 1)" "length (et_esmp etp) = n"
  shows "\<exists>enp' wrt. efx_tx_qpush etp added pushed enp = Some enp' \<and> bar_writes (dp_bar enp') = bar_writes (dp_bar enp) @ [wrt]
    \<and> tx_doorbell family (et_index etp) wrt = Some (unat added mod n)
    \<and> (family \<noteq> EFX_FAMILY_SIENA \<longrightarrow> tx_pushed wrt = Some (et_esmp etp ! (unat pushed mod n)))"
proof -
  let ?w = "added AND et_mask etp"
  have w: "unat ?w = unat added mod n" using unat_and_ring_mask [OF n(1)] n(3) by simp
  have pos: "0 < n" using ring_size_8(2) [OF n(1)] by simp
  then have "unat ?w < n" using w by simp
  then have fits: "unat ?w < 2 ^ 12" using n(2) by simp
  show ?thesis
  proof (cases "family = EFX_FAMILY_SIENA")
    case True
    have "efx_dword_field (efx_populate_dword [fset EFX_DWORD_0 (efx_oword_field (efx_populate_oword [fset FRF_AZ_TX_DESC_WPTR ?w]) 96 32)]) 0 12 = ?w"
      using siena_wptr_dword [OF fits] by (simp add: fset_def FRF_AZ_TX_DESC_WPTR_def)
    then show ?thesis using True op w
      by (simp add: efx_tx_qpush_def siena_tx_qpush_def Let_def dp_set_bar_def EFX_BAR_TBL_WRITED3_def EFX_BAR_WRITED_def tx_doorbell_def
          FRF_AZ_TX_DESC_WPTR_def del: efx_oword_field.simps)
  next
    case False
    let ?d = "et_esmp etp ! (unat pushed mod n)"
    let ?fs = "[(64, 12, ?w), (32, 32, qfield ?d EFX_DWORD_1), (0, 32, qfield ?d EFX_DWORD_0)]"
    have "unat pushed mod n < n" using pos by simp
    then have rd: "rd (et_esmp etp) (unat (pushed AND et_mask etp)) = Some ?d"
      using unat_and_ring_mask [OF n(1), of pushed] n(3,4) by (simp add: rd_Some)
    have "oword_layout ?fs" using fits unsigned_less [of "qfield ?d EFX_DWORD_1"] unsigned_less [of "qfield ?d EFX_DWORD_0"]
      by (simp add: oword_layout_def field_ok_def)
    from conjunct1 [OF oword_populate_fields [OF this]]
    have f: "efx_oword_field (efx_populate_oword ?fs) 64 12 = ?w" "efx_oword_field (efx_populate_oword ?fs) 32 32 = qfield ?d EFX_DWORD_1"
      "efx_oword_field (efx_populate_oword ?fs) 0 32 = qfield ?d EFX_DWORD_0" by (simp_all del: efx_oword_field.simps)
    have q: "Qword (qfield ?d EFX_DWORD_0) (qfield ?d EFX_DWORD_1) = ?d"
      by (cases ?d) (simp add: qfield_def EFX_DWORD_0_def EFX_DWORD_1_def efx_extract_native32_def Let_def efx_mask32_def)
    show ?thesis using False op rd f w q
      by (simp add: efx_tx_qpush_def ef10_tx_qpush_def Let_def dp_set_bar_def EFX_BAR_TBL_DOORBELL_WRITEO_def EFX_BAR_WRITEO_def tx_doorbell_def
          tx_pushed_def fset_def ERF_DZ_TX_DESC_WPTR_def ERF_DZ_TX_DESC_HWORD_def ERF_DZ_TX_DESC_LWORD_def del: efx_oword_field.simps)
  qed
qed

text \<open>
  C35. Posting and pushing refines a queue. Let some descriptors be outstanding in a ring of at most 4096 slots, the controller having
  fetched the first \<open>j\<close> of them. Posting buffers that fit appends their descriptors to the outstanding ones; if they do not leave
  sixteen slots free, the post is refused with ENOSPC and changes nothing. After the push that follows, the controller fetches exactly
  the outstanding descriptors that it has not seen, in their order, then the new ones, and reads from these the buffers that the driver
  posted: addresses, sizes and ends of packets. EF10 gets the first of them with the doorbell.
\<close>

theorem efx_tx_post_push:
  assumes "txq_ring n etp completed added pend" "n \<le> 4096" "en_etxop enp = Some family"
    and "length pend + length eb < 2 ^ 32" "list_all buffer_ok eb" "list_all (buffer_fits family) eb" "j \<le> length pend"
  shows "if n - 16 < length pend + length eb then efx_tx_qpost enp etp eb completed added = Some (ENOSPC, etp, added)
    else \<exists>etp' added' enp' wrt wptr descs. efx_tx_qpost enp etp eb completed added = Some (RC_OK, etp', added')
      \<and> txq_ring n etp' completed added' (pend @ descs) \<and> map (tx_desc_read family) descs = eb
      \<and> efx_tx_qpush etp' added' (completed + of_nat j) enp = Some enp' \<and> bar_writes (dp_bar enp') = bar_writes (dp_bar enp) @ [wrt]
      \<and> tx_doorbell family (et_index etp) wrt = Some wptr
      \<and> hw_fetch n (et_esmp etp') (unat (completed + of_nat j) mod n) wptr = drop j pend @ descs
      \<and> (family \<noteq> EFX_FAMILY_SIENA \<and> drop j pend @ descs \<noteq> [] \<longrightarrow> tx_pushed wrt = Some (hd (drop j pend @ descs)))"
proof (cases "n - 16 < length pend + length eb")
  case True
  then show ?thesis using qpost_full [OF assms(1,3,4)] by simp
next
  case False
  let ?descs = "map (tx_desc family) eb" and ?pushed = "completed + of_nat j"
  from False have "length pend + length eb \<le> n - 16" by simp
  from qpost_appends [OF assms(1,3) this assms(5)] obtain etp' where post: "efx_tx_qpost enp etp eb completed added = Some (RC_OK, etp', added + of_nat (length eb))"
    and r: "txq_ring n etp' completed (added + of_nat (length eb)) (pend @ ?descs)" and i: "et_index etp' = et_index etp" by metis
  have n: "ring_size n" "et_mask etp' = of_nat (n - 1)" "length (et_esmp etp') = n" "16 \<le> n" "length (pend @ ?descs) \<le> n - 16"
    and a: "added + of_nat (length eb) = completed + of_nat (length (pend @ ?descs))" using r by (simp_all add: txq_ring_def)
  have jl: "j \<le> length (pend @ ?descs)" using assms(7) by simp
  let ?k = "length (pend @ ?descs) - j"
  have p: "added + of_nat (length eb) = ?pushed + of_nat ?k" using a jl by (simp add: of_nat_diff)
  have sl: "ring_slice n (et_esmp etp') ?pushed ?k = drop j (pend @ ?descs)"
    using txq_ring_complete [OF r jl] unfolding txq_ring_def by (simp only: length_drop)
  moreover have k: "?k < n" using n(4,5) by linarith
  ultimately have fetch: "hw_fetch n (et_esmp etp') (unat ?pushed mod n) (unat (added + of_nat (length eb)) mod n) = drop j pend @ ?descs"
    using hw_fetch_slice [OF n(1) k, of "et_esmp etp'" ?pushed] assms(7) unfolding p by simp
  have first: "et_esmp etp' ! (unat ?pushed mod n) = hd (drop j pend @ ?descs)" if ne: "drop j pend @ ?descs \<noteq> []"
  proof -
    have d: "drop j (pend @ ?descs) = drop j pend @ ?descs" using assms(7) by simp
    with ne have "0 < ?k" by (metis length_drop length_greater_0_conv)
    from ring_slice_nth [OF this, of n "et_esmp etp'" ?pushed] show ?thesis
      unfolding sl d by (simp only: add_0_right hd_conv_nth [OF ne])
  qed
  have reads: "map (tx_desc_read family) ?descs = eb"
    using assms(6) by (auto simp: list_all_iff tx_desc_read intro!: map_idI)
  obtain enp' wrt where "efx_tx_qpush etp' (added + of_nat (length eb)) ?pushed enp = Some enp'" "bar_writes (dp_bar enp') = bar_writes (dp_bar enp) @ [wrt]"
    "tx_doorbell family (et_index etp) wrt = Some (unat (added + of_nat (length eb)) mod n)"
    "family \<noteq> EFX_FAMILY_SIENA \<longrightarrow> tx_pushed wrt = Some (et_esmp etp' ! (unat ?pushed mod n))"
    using qpush_doorbell [OF assms(3) n(1) assms(2) n(2,3)] i by metis
  then show ?thesis using False post r reads fetch first by metis
qed

text \<open>A controller, and an EF10 queue of 512 slots with two outstanding descriptors, the second at the wrap of the counter.\<close>

definition demo_dp_nic :: "efx_family \<Rightarrow> unit dp_nic" where
  "demo_dp_nic family = \<lparr>en_evn = demo_ev_nic family, en_etxop = Some family, en_tx_qcount = 0, en_erxop = Some family, en_rx_qcount = 0,
     en_hash_support = EFX_RX_HASH_AVAILABLE, en_rss_support = EFX_RX_SCALE_EXCLUSIVE, en_rss_context = 0, enc_txq_limit = 64,
     enc_rxq_limit = 64, enc_clk_mult = 1, enc_rx_disable_scatter_supported = True, enc_piobuf_size = 2048, edc_pio_alloc_size = 1024,
     ena_piobuf_handle = [7], ena_piobuf_count = 1, ena_pio_alloc_map = [0]\<rparr>"

definition demo_txq :: efx_txq where
  "demo_txq = (txq_new 2 512 (replicate 512 (Qword 1 2)))"

lemma demo_ring: "ring_size 512" "ring_size 4096" "ring_size 32"
  unfolding ring_size_def by (rule exI [of _ 9], simp, rule exI [of _ 12], simp, rule exI [of _ 5], simp)

lemma demo_txq: "txq_ring 512 demo_txq 0xffffffff 1 [Qword 1 2, Qword 1 2]" "et_index demo_txq = 2"
proof -
  have s: "[0..<2] = [0, Suc 0]" by (simp add: upt_rec)
  show "txq_ring 512 demo_txq 0xffffffff 1 [Qword 1 2, Qword 1 2]"
    by (simp add: txq_ring_def demo_txq_def txq_new_def ring_slice_def s demo_ring)
qed (simp add: demo_txq_def txq_new_def)

theorem efx_tx_post_push_witness:
  "\<exists>etp' added' enp' wrt wptr d.
      efx_tx_qpost (demo_dp_nic EFX_FAMILY_HUNTINGTON) demo_txq [\<lparr>eb_addr = 0x123456789000, eb_size = 64, eb_eop = True\<rparr>] 0xffffffff 1 = Some (RC_OK, etp', added')
    \<and> tx_desc_read EFX_FAMILY_HUNTINGTON d = \<lparr>eb_addr = 0x123456789000, eb_size = 64, eb_eop = True\<rparr>
    \<and> efx_tx_qpush etp' added' 0 (demo_dp_nic EFX_FAMILY_HUNTINGTON) = Some enp' \<and> bar_writes (dp_bar enp') = bar_writes (dp_bar (demo_dp_nic EFX_FAMILY_HUNTINGTON)) @ [wrt]
    \<and> tx_doorbell EFX_FAMILY_HUNTINGTON 2 wrt = Some wptr \<and> hw_fetch 512 (et_esmp etp') 0 wptr = [Qword 1 2, d]"
proof -
  let ?eb = "[\<lparr>eb_addr = 0x123456789000, eb_size = 64, eb_eop = True\<rparr>]"
  have op: "en_etxop (demo_dp_nic EFX_FAMILY_HUNTINGTON) = Some EFX_FAMILY_HUNTINGTON" by (simp add: demo_dp_nic_def)
  have ok: "list_all buffer_ok ?eb" by (simp add: buffer_ok_def fragment_ok_def p2roundup_def)
  have fits: "list_all (buffer_fits EFX_FAMILY_HUNTINGTON) ?eb" by (simp add: buffer_fits_def dma_width_def)
  have wrap: "(4294967296 :: u32) = 0" by (rule word_unat_eq_iff [THEN iffD2]) simp
  from efx_tx_post_push [OF demo_txq(1) _ op _ ok fits, of 1] show ?thesis by (auto simp: demo_txq(2) wrap)
qed

section \<open>The size of a queue on Siena\<close>

lemma obit_oset:
  "k < 128 \<Longrightarrow> 0 < snd f \<Longrightarrow> snd f \<le> 32 \<Longrightarrow> unat v < 2 ^ snd f \<Longrightarrow>
    obit (oset f v ow) k = (if fst f \<le> k \<and> k < fst f + snd f then bit v (k - fst f) else obit ow k)"
  by (simp add: oset_def obit_set_oword_field)











section \<open>The request for a queue on EF10\<close>

definition page_words :: "nat \<Rightarrow> u64 \<Rightarrow> u32 list" where
  "page_words npages addr = concat (map (\<lambda>i. [ucast ((addr + of_nat (i * EFX_BUF_SIZE)) AND 0xffffffff), ucast (drop_bit 32 (addr + of_nat (i * EFX_BUF_SIZE)))]) [0..<npages])"

lemma page_words_Suc:
  "page_words (Suc npages) addr = ucast (addr AND 0xffffffff) # ucast (drop_bit 32 addr) # page_words npages (addr + of_nat EFX_BUF_SIZE)"
proof -
  have "addr + of_nat (Suc i * EFX_BUF_SIZE) = addr + of_nat EFX_BUF_SIZE + of_nat (i * EFX_BUF_SIZE)" for i by simp
  then show ?thesis unfolding page_words_def upt_conv_Cons [OF zero_less_Suc] map_Suc_upt [symmetric]
    by (simp del: upt_Suc of_nat_add of_nat_mult mult_Suc add: comp_def add.assoc)
qed

lemma length_page_words [simp]: "length (page_words npages addr) = 2 * npages"
  by (induction npages arbitrary: addr) (simp_all add: page_words_Suc, simp add: page_words_def)

lemma length_request_words [simp]: "length (bytes_of_words ws) = 4 * length ws"
  by (induction ws) (simp_all add: length_bytes_of_word4)





end
