(* ===== verification/Efx_Rx_Props.thy ===== *)
theory Efx_Rx_Props
  imports Efx_Tx_Props
begin

text \<open>
  Properties of receive queues: posting and pushing as operations on the list of outstanding descriptors, and the indirection table of
  receive-side scaling.
\<close>

section \<open>Posting and pushing\<close>

definition rxq_ring :: "nat \<Rightarrow> efx_rxq \<Rightarrow> u32 \<Rightarrow> u32 \<Rightarrow> efx_qword list \<Rightarrow> bool" where
  "rxq_ring n erp completed added pend = (ring_size n \<and> 16 \<le> n \<and> er_mask erp = of_nat (n - 1) \<and> length (er_esmp erp) = n
     \<and> length pend \<le> n - 16 \<and> added = completed + of_nat (length pend) \<and> ring_slice n (er_esmp erp) completed (length pend) = pend)"

definition rx_desc :: "efx_family \<Rightarrow> u64 \<Rightarrow> u64 \<Rightarrow> efx_qword" where
  "rx_desc family len addr = (if family = EFX_FAMILY_SIENA then siena_rx_desc len addr else ef10_rx_desc len addr)"

lemma rxq_room:
  assumes "rxq_ring n erp completed added pend" "length pend + k < 2 ^ 32"
  shows "(added - completed + of_nat k \<le> EFX_RXQ_LIMIT (er_mask erp + 1)) = (length pend + k \<le> n - 16)"
proof -
  have n: "ring_size n" "16 \<le> n" "er_mask erp = of_nat (n - 1)" "added = completed + of_nat (length pend)" using assms(1) by (simp_all add: rxq_ring_def)
  show ?thesis unfolding EFX_RXQ_LIMIT_def not_less [symmetric] using ring_room [OF n assms(2)] by (rule arg_cong [of _ _ Not])
qed

lemma rx_loops:
  assumes "ring_size n" "length mem = n" "k + length addrs \<le> n" "added = first + of_nat k"
  shows "\<exists>mem'. (if family = EFX_FAMILY_SIENA then siena_rx_qpost_loop (of_nat (n - 1)) len addrs (added AND of_nat (n - 1)) mem
        else ef10_rx_qpost_loop (of_nat (n - 1)) len addrs (added AND of_nat (n - 1)) mem) = Some mem' \<and> length mem' = n
      \<and> ring_slice n mem' first (k + length addrs) = ring_slice n mem first k @ map (rx_desc family len) addrs"
proof -
  have a: "unat added mod n = (unat first + k) mod n" using unat_count_add [OF assms(1)] assms(4) by simp
  have all: "list_all (\<lambda>_. True) addrs" by (simp add: list_all_iff)
  show ?thesis
    using sr.post_appends [OF assms(1,2) all assms(3) a, of len] er.post_appends [OF assms(1,2) all assms(3) a, of len]
    by (cases "family = EFX_FAMILY_SIENA") (simp_all add: rx_desc_def [abs_def])
qed

lemma rx_qpost_full:
  assumes "rxq_ring n erp completed added pend" "en_erxop enp = Some family" "length pend + length addrs < 2 ^ 32" "n - 16 < length pend + length addrs"
  shows "efx_rx_qpost enp erp addrs len completed added = None"
proof -
  have "\<not> added - completed + of_nat (length addrs) \<le> EFX_RXQ_LIMIT (er_mask erp + 1)" using rxq_room [OF assms(1,3)] assms(4) by simp
  then show ?thesis by (simp add: efx_rx_qpost_def assms(2) siena_rx_qpost_def ef10_rx_qpost_def efsys_assert_def)
qed

lemma rx_qpost_appends:
  assumes r: "rxq_ring n erp completed added pend" and op: "en_erxop enp = Some family" and fit: "length pend + length addrs \<le> n - 16"
  obtains erp' where "efx_rx_qpost enp erp addrs len completed added = Some erp'"
    "rxq_ring n erp' completed (added + of_nat (length addrs)) (pend @ map (rx_desc family len) addrs)" "er_index erp' = er_index erp"
proof -
  have n: "ring_size n" "16 \<le> n" "er_mask erp = of_nat (n - 1)" "length (er_esmp erp) = n" "added = completed + of_nat (length pend)"
    "ring_slice n (er_esmp erp) completed (length pend) = pend" using r by (simp_all add: rxq_ring_def)
  have "length pend + length addrs < 2 ^ 32" using fit ring_size_bound [OF n(1)] by simp
  then have room: "added - completed + of_nat (length addrs) \<le> EFX_RXQ_LIMIT (er_mask erp + 1)"
    using rxq_room [OF r] fit by simp
  have "length pend + length addrs \<le> n" using fit by simp
  from rx_loops [OF n(1,4) this n(5), of family len] obtain mem' where
    m: "(if family = EFX_FAMILY_SIENA then siena_rx_qpost_loop (of_nat (n - 1)) len addrs (added AND of_nat (n - 1)) (er_esmp erp)
        else ef10_rx_qpost_loop (of_nat (n - 1)) len addrs (added AND of_nat (n - 1)) (er_esmp erp)) = Some mem'" "length mem' = n"
      "ring_slice n mem' completed (length pend + length addrs) = pend @ map (rx_desc family len) addrs" using n(6) by auto
  show thesis
  proof (rule that)
    show "efx_rx_qpost enp erp addrs len completed added = Some (erp\<lparr>er_esmp := mem'\<rparr>)"
      using m(1) room by (cases "family = EFX_FAMILY_SIENA")
        (simp_all only: efx_rx_qpost_def op siena_rx_qpost_def ef10_rx_qpost_def n(3) efsys_assert_def simp_thms if_True if_False Option.bind.simps)
    show "rxq_ring n (erp\<lparr>er_esmp := mem'\<rparr>) completed (added + of_nat (length addrs)) (pend @ map (rx_desc family len) addrs)"
      using n(1-3,5) m(2,3) fit by (simp add: rxq_ring_def)
  qed simp
qed

section \<open>What the controller reads\<close>

definition rx_desc_read :: "efx_family \<Rightarrow> efx_qword \<Rightarrow> u64 \<times> u64" where
  "rx_desc_read family d =
     (if family = EFX_FAMILY_SIENA then
        (dma_addr (qfield d FSF_AZ_RX_KER_BUF_ADDR_DW0) (qfield d FSF_AZ_RX_KER_BUF_ADDR_DW1), ucast (qfield d FSF_AZ_RX_KER_BUF_SIZE))
      else
        (dma_addr (qfield d ESF_DZ_RX_KER_BUF_ADDR_DW0) (qfield d ESF_DZ_RX_KER_BUF_ADDR_DW1), ucast (qfield d ESF_DZ_RX_KER_BYTE_CNT)))"

lemma siena_rx_fields:
  assumes "unat len < 2 ^ 14" "unat addr < 2 ^ 46"
  shows "qfield (siena_rx_desc len addr) FSF_AZ_RX_KER_BUF_SIZE = ucast len"
    "qfield (siena_rx_desc len addr) FSF_AZ_RX_KER_BUF_ADDR_DW0 = ucast (addr AND 0xffffffff)"
    "qfield (siena_rx_desc len addr) FSF_AZ_RX_KER_BUF_ADDR_DW1 = ucast (drop_bit 32 addr)"
  unfolding qfield_def siena_rx_desc_def
  by (rule qword_populate_get; use dma_parts(1) [of addr] dma_parts(2) [of addr 14] dma_parts(3) [of len 14] assms in
      \<open>simp add: oword_layout_def field_ok_def fset_def FSF_AZ_RX_KER_BUF_SIZE_def FSF_AZ_RX_KER_BUF_ADDR_DW0_def FSF_AZ_RX_KER_BUF_ADDR_DW1_def\<close>)+

lemma ef10_rx_fields:
  assumes "unat len < 2 ^ 14" "unat addr < 2 ^ 48"
  shows "qfield (ef10_rx_desc len addr) ESF_DZ_RX_KER_BYTE_CNT = ucast len"
    "qfield (ef10_rx_desc len addr) ESF_DZ_RX_KER_BUF_ADDR_DW0 = ucast (addr AND 0xffffffff)"
    "qfield (ef10_rx_desc len addr) ESF_DZ_RX_KER_BUF_ADDR_DW1 = ucast (drop_bit 32 addr)"
  unfolding qfield_def ef10_rx_desc_def
  by (rule qword_populate_get; use dma_parts(1) [of addr] dma_parts(2) [of addr 16] dma_parts(3) [of len 14] assms in
      \<open>simp add: oword_layout_def field_ok_def fset_def ESF_DZ_RX_KER_BYTE_CNT_def ESF_DZ_RX_KER_BUF_ADDR_DW0_def ESF_DZ_RX_KER_BUF_ADDR_DW1_def\<close>)+

lemma rx_desc_read:
  "unat addr < 2 ^ dma_width family \<Longrightarrow> unat len < 2 ^ 14 \<Longrightarrow> rx_desc_read family (rx_desc family len addr) = (addr, len)"
  by (cases "family = EFX_FAMILY_SIENA")
    (simp_all add: rx_desc_read_def rx_desc_def dma_width_def siena_rx_fields ef10_rx_fields dma_addr_split dma_parts)

section \<open>The doorbell\<close>

definition rx_doorbell :: "efx_family \<Rightarrow> nat \<Rightarrow> bar_write \<Rightarrow> nat option" where
  "rx_doorbell family index wrt = (case wrt of
     Bar_writed reg d \<Rightarrow>
       if family = EFX_FAMILY_SIENA then
         if reg = FR_BZ_RX_DESC_UPD_REGP0_OFST + 3 * 4 + index * FR_BZ_RX_DESC_UPD_REGP0_STEP
         then Some (unat (efx_dword_field d (fst FRF_AZ_RX_DESC_WPTR - 96) (snd FRF_AZ_RX_DESC_WPTR))) else None
       else
         if reg = ER_DZ_RX_DESC_UPD_REG_OFST + index * ER_DZ_RX_DESC_UPD_REG_STEP
         then Some (unat (efx_dword_field d (fst ERF_DZ_RX_DESC_WPTR) (snd ERF_DZ_RX_DESC_WPTR))) else None
   | _ \<Rightarrow> None)"

text \<open>EF10 rounds the counter down to a whole group of eight.\<close>

lemma p2align_8: "p2align x 8 = x - of_nat (unat x mod 8)"
proof -
  have m: "(mask 3 :: u32) = 7" by (simp add: mask_eq_exp_minus_1)
  have n: "NOT (7 :: u32) = - 8" by simp
  have "x AND 7 = of_nat (unat x mod 8)"
  proof (rule word_unat_eq_iff [THEN iffD2])
    have "unat (x AND 7) = unat (take_bit 3 x)" unfolding take_bit_eq_mask m ..
    also have "\<dots> = unat x mod 8" unfolding unsigned_take_bit_eq by (simp add: take_bit_eq_mod)
    also have "unat x mod 8 = unat (of_nat (unat x mod 8) :: u32)" 
      using mod_less_divisor [of 8 "unat x"] by (simp only: unat_of_nat) simp
    finally show "unat (x AND 7) = unat (of_nat (unat x mod 8) :: u32)" .
  qed
  moreover have "(x AND 7) + (x AND NOT 7) = x"
    by (subst disjunctive_add_eq_or; rule bit_word_eqI) (auto simp: bit_simps)
  ultimately show ?thesis unfolding p2align_def n by (simp add: eq_diff_eq add.commute)
qed

lemma ef10_group:
  assumes "unat pushed mod 8 = 0" "k < 2 ^ 32"
  shows "p2align (pushed + of_nat k) 8 = pushed + of_nat (k - k mod 8)"
proof -
  have "unat (pushed + of_nat k) mod 8 = (unat pushed + k) mod 8"
    by (rule unat_count_add) (simp add: ring_size_def exI [of _ 3])
  also have "\<dots> = k mod 8" using mod_add_left_eq [of "unat pushed" 8 k] assms(1) by simp
  finally have r: "unat (pushed + of_nat k) mod 8 = k mod 8" .
  have "(of_nat (k - k mod 8) :: u32) = of_nat k - of_nat (k mod 8)" by (rule of_nat_diff) simp
  then show ?thesis unfolding p2align_8 r by (simp only: add_diff_eq)
qed

text \<open>The push writes the counter that it returns, unless EF10 has no whole group to push.\<close>

definition rx_pushes :: "efx_family \<Rightarrow> nat \<Rightarrow> nat" where
  "rx_pushes family k = (if family = EFX_FAMILY_SIENA then k else k - k mod 8)"

lemma rx_qpush_doorbell:
  assumes op: "en_erxop enp = Some family" and n: "ring_size n" "n \<le> 4096" "er_mask erp = of_nat (n - 1)" "k < n"
    and g: "family \<noteq> EFX_FAMILY_SIENA \<Longrightarrow> unat pushed mod 8 = 0"
  shows "\<exists>enp'. efx_rx_qpush erp (pushed + of_nat k) pushed enp = Some (pushed + of_nat (rx_pushes family k), enp')
    \<and> (family \<noteq> EFX_FAMILY_SIENA \<and> rx_pushes family k = 0 \<and> enp' = enp \<or>
       (\<exists>wrt. bar_writes (dp_bar enp') = bar_writes (dp_bar enp) @ [wrt]
          \<and> rx_doorbell family (er_index erp) wrt = Some (unat (pushed + of_nat (rx_pushes family k)) mod n)))"
proof -
  let ?new = "pushed + of_nat (rx_pushes family k)"
  let ?w = "?new AND er_mask erp"
  have w: "unat ?w = unat ?new mod n" using unat_and_ring_mask [OF n(1)] n(3) by simp
  have "0 < n" using ring_size_8(2) [OF n(1)] by simp
  then have "unat ?new mod n < n" by (rule mod_less_divisor)
  with w n(2) have fits: "unat ?w < 2 ^ 12" by simp
  have k: "k < 2 ^ 32" using n(2,4) by simp
  show ?thesis
  proof (cases "family = EFX_FAMILY_SIENA")
    case True
    have "efx_dword_field (efx_populate_dword [fset EFX_DWORD_0 (efx_oword_field (efx_populate_oword [fset FRF_AZ_RX_DESC_WPTR ?w]) 96 32)]) 0 12 = ?w"
      using siena_wptr_dword [OF fits] by (simp add: fset_def FRF_AZ_RX_DESC_WPTR_def)
    then show ?thesis using True op w
      by (simp add: efx_rx_qpush_def siena_rx_qpush_def rx_pushes_def Let_def dp_set_bar_def EFX_BAR_TBL_WRITED3_def EFX_BAR_WRITED_def rx_doorbell_def
          FRF_AZ_RX_DESC_WPTR_def del: efx_oword_field.simps)
  next
    case False
    have e: "p2align (pushed + of_nat k) EF10_RX_WPTR_ALIGN = ?new"
      using ef10_group [OF g [OF False] k] False by (simp only: EF10_RX_WPTR_ALIGN_def rx_pushes_def if_False)
    have small: "rx_pushes family k < 2 ^ 32" using False k by (simp add: rx_pushes_def)
    have same: "(of_nat (rx_pushes family k) = (0 :: u32)) = (rx_pushes family k = 0)"
      unfolding word_unat_eq_iff unat_of_nat using small by simp
    have "oword_layout [(0, 12, ?w)]" using fits by (simp add: oword_layout_def field_ok_def)
    from dword_populate_get [OF this, of 0 12 ?w] have "efx_dword_field (efx_populate_dword [fset ERF_DZ_RX_DESC_WPTR ?w]) 0 12 = ?w"
      by (simp add: fset_def ERF_DZ_RX_DESC_WPTR_def)
    then show ?thesis using False op w
      by (cases "rx_pushes family k = 0")
        (simp_all add: efx_rx_qpush_def ef10_rx_qpush_def e same Let_def dp_set_bar_def rx_doorbell_def ERF_DZ_RX_DESC_WPTR_def)
  qed
qed

text \<open>
  C36. Posting and pushing refines a queue. Let some descriptors be outstanding in a ring of at most 4096 slots, of which the controller
  was given the first \<open>j\<close>. Buffers that would leave fewer than sixteen slots free fail an assertion; otherwise their descriptors are
  appended, and the controller reads from them the addresses and the length that were posted. The push hands over everything on Siena
  and all but at most seven on EF10, and returns the new counter; the controller then fetches exactly what was handed over, in its
  order, and on EF10 the counter stays a multiple of eight.
\<close>

theorem efx_rx_post_push:
  assumes "rxq_ring n erp completed added pend" "n \<le> 4096" "en_erxop enp = Some family" "length pend + length addrs < 2 ^ 32"
    and "list_all (\<lambda>addr. unat addr < 2 ^ dma_width family) addrs" "unat len < 2 ^ 14" "j \<le> length pend"
    and "family \<noteq> EFX_FAMILY_SIENA \<longrightarrow> unat (completed + of_nat j) mod 8 = 0"
  shows "if n - 16 < length pend + length addrs then efx_rx_qpost enp erp addrs len completed added = None
    else \<exists>erp' added' enp' descs j'. efx_rx_qpost enp erp addrs len completed added = Some erp'
      \<and> added' = added + of_nat (length addrs) \<and> rxq_ring n erp' completed added' (pend @ descs)
      \<and> map (rx_desc_read family) descs = map (\<lambda>addr. (addr, len)) addrs
      \<and> efx_rx_qpush erp' added' (completed + of_nat j) enp = Some (completed + of_nat j', enp')
      \<and> j \<le> j' \<and> j' \<le> length (pend @ descs) \<and> length (pend @ descs) - j' < (if family = EFX_FAMILY_SIENA then 1 else 8)
      \<and> (family \<noteq> EFX_FAMILY_SIENA \<longrightarrow> unat (completed + of_nat j') mod 8 = 0)
      \<and> (family \<noteq> EFX_FAMILY_SIENA \<and> j' = j \<and> enp' = enp \<or>
         (\<exists>wrt wptr. bar_writes (dp_bar enp') = bar_writes (dp_bar enp) @ [wrt] \<and> rx_doorbell family (er_index erp) wrt = Some wptr
            \<and> hw_fetch n (er_esmp erp') (unat (completed + of_nat j) mod n) wptr = drop j (take j' (pend @ descs))))"
proof (cases "n - 16 < length pend + length addrs")
  case True
  then show ?thesis using rx_qpost_full [OF assms(1,3,4)] by simp
next
  case False
  let ?descs = "map (rx_desc family len) addrs" and ?pushed = "completed + of_nat j" and ?added = "added + of_nat (length addrs)"
  from False have "length pend + length addrs \<le> n - 16" by simp
  from rx_qpost_appends [OF assms(1,3) this] obtain erp' where post: "efx_rx_qpost enp erp addrs len completed added = Some erp'"
    and r: "rxq_ring n erp' completed ?added (pend @ ?descs)" and i: "er_index erp' = er_index erp" by metis
  define k where "k = length (pend @ ?descs) - j"
  define j' where "j' = j + rx_pushes family k"
  have n: "ring_size n" "er_mask erp' = of_nat (n - 1)" "16 \<le> n" "length (pend @ ?descs) \<le> n - 16"
    and a: "?added = completed + of_nat (length (pend @ ?descs))"
    and sl: "ring_slice n (er_esmp erp') completed (length (pend @ ?descs)) = pend @ ?descs" using r by (simp_all add: rxq_ring_def)
  have jk: "length (pend @ ?descs) = j + k" using assms(7) by (simp add: k_def)
  then have p: "?added = ?pushed + of_nat k" "k < n" using a n(3,4) by simp_all
  have j': "j \<le> j'" "j' \<le> length (pend @ ?descs)" "completed + of_nat j' = ?pushed + of_nat (rx_pushes family k)" "rx_pushes family k \<le> k"
    by (simp_all add: j'_def jk rx_pushes_def del: length_append)
  have rest: "length (pend @ ?descs) - j' < (if family = EFX_FAMILY_SIENA then 1 else 8)"
    by (simp add: j'_def jk rx_pushes_def del: length_append)
  have mult: "family \<noteq> EFX_FAMILY_SIENA \<longrightarrow> unat (completed + of_nat j') mod 8 = 0"
  proof
    assume that: "family \<noteq> EFX_FAMILY_SIENA"
    have "unat (?pushed + of_nat (rx_pushes family k)) mod 8 = (unat ?pushed + rx_pushes family k) mod 8"
      by (rule unat_count_add) (simp add: ring_size_def exI [of _ 3])
    also have "\<dots> = 0" using that assms(8) mod_add_left_eq [of "unat ?pushed" 8 "rx_pushes family k"] by (simp add: rx_pushes_def)
    finally show "unat (completed + of_nat j') mod 8 = 0" unfolding j'(3) .
  qed
  have g: "family \<noteq> EFX_FAMILY_SIENA \<Longrightarrow> unat ?pushed mod 8 = 0" using assms(8) by simp
  from rx_qpush_doorbell [OF assms(3) n(1) assms(2) n(2) p(2) g] obtain enp' where
    push: "efx_rx_qpush erp' ?added ?pushed enp = Some (completed + of_nat j', enp')"
    and wr: "family \<noteq> EFX_FAMILY_SIENA \<and> rx_pushes family k = 0 \<and> enp' = enp \<or>
       (\<exists>wrt. bar_writes (dp_bar enp') = bar_writes (dp_bar enp) @ [wrt] \<and> rx_doorbell family (er_index erp) wrt = Some (unat (completed + of_nat j') mod n))"
    unfolding p(1) j'(3) i by metis
  have "hw_fetch n (er_esmp erp') (unat ?pushed mod n) (unat (completed + of_nat j') mod n) = ring_slice n (er_esmp erp') ?pushed (rx_pushes family k)"
    unfolding j'(3) by (rule hw_fetch_slice [OF n(1)]) (use j'(4) p(2) in simp)
  also have "\<dots> = take (rx_pushes family k) (ring_slice n (er_esmp erp') ?pushed k)"
    using j'(4) by (simp add: ring_slice_def take_map take_upt)
  also have "ring_slice n (er_esmp erp') ?pushed k = drop j (pend @ ?descs)"
    using ring_slice_drop [OF n(1), of j "er_esmp erp'" completed "j + k"] sl unfolding jk by simp
  also have "take (rx_pushes family k) (drop j (pend @ ?descs)) = drop j (take j' (pend @ ?descs))" unfolding j'_def by (simp only: take_drop add.commute [of j])
  finally have fetch: "hw_fetch n (er_esmp erp') (unat ?pushed mod n) (unat (completed + of_nat j') mod n) = drop j (take j' (pend @ ?descs))" .
  have reads: "map (rx_desc_read family) ?descs = map (\<lambda>addr. (addr, len)) addrs"
    using assms(5,6) by (auto simp: list_all_iff rx_desc_read)
  have writes: "family \<noteq> EFX_FAMILY_SIENA \<and> j' = j \<and> enp' = enp \<or> (\<exists>wrt wptr. bar_writes (dp_bar enp') = bar_writes (dp_bar enp) @ [wrt]
      \<and> rx_doorbell family (er_index erp) wrt = Some wptr \<and> hw_fetch n (er_esmp erp') (unat ?pushed mod n) wptr = drop j (take j' (pend @ ?descs)))"
    using wr fetch by (auto simp: j'_def)
  show ?thesis unfolding if_not_P [OF False]
    by (rule exI [of _ erp'], rule exI [of _ ?added], rule exI [of _ enp'], rule exI [of _ ?descs], rule exI [of _ j'])
      (intro conjI post refl r reads push j'(1,2) rest mult writes)
qed

definition demo_rxq :: efx_rxq where "demo_rxq = rxq_new 2 512 (replicate 512 (Qword 1 2))"

lemma demo_rxq: "rxq_ring 512 demo_rxq 0xfffffffe 0 [Qword 1 2, Qword 1 2]" "er_index demo_rxq = 2"
proof -
  have s: "[0..<2] = [0, Suc 0]" by (simp add: upt_rec)
  have wrap: "(4294967296 :: u32) = 0" by (rule word_unat_eq_iff [THEN iffD2]) simp
  show "rxq_ring 512 demo_rxq 0xfffffffe 0 [Qword 1 2, Qword 1 2]"
    by (simp add: rxq_ring_def demo_rxq_def rxq_new_def ring_slice_def s demo_ring wrap)
qed (simp add: demo_rxq_def rxq_new_def)

theorem efx_rx_post_push_witness:
  "\<exists>erp' enp' j'. efx_rx_qpost (demo_dp_nic EFX_FAMILY_HUNTINGTON) demo_rxq (replicate 9 0x12345000) 2048 0xfffffffe 0 = Some erp'
    \<and> efx_rx_qpush erp' 9 0 (demo_dp_nic EFX_FAMILY_HUNTINGTON) = Some (0xfffffffe + of_nat j', enp') \<and> 2 \<le> j' \<and> 11 - j' < 8 \<and> j' \<le> 11"
proof -
  have op: "en_erxop (demo_dp_nic EFX_FAMILY_HUNTINGTON) = Some EFX_FAMILY_HUNTINGTON" by (simp add: demo_dp_nic_def)
  have fits: "list_all (\<lambda>addr. unat addr < 2 ^ dma_width EFX_FAMILY_HUNTINGTON) (replicate 9 (0x12345000 :: u64))" by (simp add: list_all_iff dma_width_def)
  have wrap: "(4294967296 :: u32) = 0" by (rule word_unat_eq_iff [THEN iffD2]) simp
  have mult: "EFX_FAMILY_HUNTINGTON \<noteq> EFX_FAMILY_SIENA \<longrightarrow> unat (0xfffffffe + of_nat 2 :: u32) mod 8 = 0" by (simp add: wrap)
  have room: "\<not> 512 - 16 < length [Qword 1 2, Qword 1 2] + length (replicate 9 (0x12345000 :: u64))" by simp
  have prem: "512 \<le> (4096 :: nat)" "length [Qword 1 2, Qword 1 2] + length (replicate 9 (0x12345000 :: u64)) < 2 ^ 32"
    "unat (2048 :: u64) < 2 ^ 14" "2 \<le> length [Qword 1 2, Qword 1 2]" by simp_all
  from efx_rx_post_push [OF demo_rxq(1) prem(1) op prem(2) fits prem(3,4) mult, unfolded if_not_P [OF room]] obtain erp' added' enp' descs j' where
    r: "efx_rx_qpost (demo_dp_nic EFX_FAMILY_HUNTINGTON) demo_rxq (replicate 9 0x12345000) 2048 0xfffffffe 0 = Some erp'"
    "added' = 0 + of_nat (length (replicate 9 (0x12345000 :: u64)))" "efx_rx_qpush erp' added' (0xfffffffe + of_nat 2) (demo_dp_nic EFX_FAMILY_HUNTINGTON) = Some (0xfffffffe + of_nat j', enp')"
    "2 \<le> j'" "j' \<le> length ([Qword 1 2, Qword 1 2] @ descs)" "length ([Qword 1 2, Qword 1 2] @ descs) - j' < (if EFX_FAMILY_HUNTINGTON = EFX_FAMILY_SIENA then 1 else 8)"
    "map (rx_desc_read EFX_FAMILY_HUNTINGTON) descs = map (\<lambda>addr. (addr, 2048)) (replicate 9 0x12345000)"
    by (elim exE conjE) (rule that; assumption)
  have "length descs = 9" using arg_cong [OF r(7), of length] by simp
  with r(1-6) show ?thesis by (auto simp: wrap)
qed

section \<open>The indirection table on Siena\<close>

lemma bar_regs_tbl_writeo: "bar_regs (EFX_BAR_TBL_WRITEO reg step index eop bar) = (bar_regs bar)(reg + index * step := eop)"
  by (simp add: EFX_BAR_TBL_WRITEO_def EFX_BAR_WRITEO_def)

lemma foldl_tbl_write:
  assumes "0 < step"
  shows "bar_regs (foldl (\<lambda>bar index. EFX_BAR_TBL_WRITEO reg step index (f index) bar) bar [0..<k]) r
    = (if \<exists>i < k. r = reg + i * step then f ((r - reg) div step) else bar_regs bar r)"
proof (induction k)
  case (Suc k)
  have "(r - reg) div step = k" if "r = reg + k * step"
    unfolding that using assms nonzero_mult_div_cancel_right [of step k] by simp
  moreover have "(\<exists>i < Suc k. r = reg + i * step) = ((\<exists>i < k. r = reg + i * step) \<or> r = reg + k * step)" by (auto simp: less_Suc_eq)
  ultimately show ?case unfolding upt_Suc_append [OF le0] foldl_append
    using Suc by (cases "r = reg + k * step") (simp_all only: bar_regs_tbl_writeo foldl.simps fun_upd_apply if_True if_False simp_thms)
qed simp

lemma foldl_tbl_read:
  "0 < step \<Longrightarrow> i < k \<Longrightarrow> EFX_BAR_TBL_READO reg step i (foldl (\<lambda>bar index. EFX_BAR_TBL_WRITEO reg step index (f index) bar) bar [0..<k]) = f i"
  by (auto simp: EFX_BAR_TBL_READO_def EFX_BAR_READO_def foldl_tbl_write)

lemma it_queue_field: "efx_oword_field (efx_populate_oword [(0, 6, v)]) 0 6 = v AND 0x3f"
proof (rule bit_word_eqI)
  fix j assume j: "j < LENGTH(32)"
  have m: "(0x3f :: u32) = mask 6" by (simp add: mask_eq_exp_minus_1)
  have "obit (efx_populate_oword [(0, 6, v)]) j = bit v j" using j
    by (simp add: efx_populate_oword_def bit_insert_fields32 bit_insert_field32 [of j 6 0, simplified])
  then show "bit (efx_oword_field (efx_populate_oword [(0, 6, v)]) 0 6) j = bit (v AND 0x3f) j"
    unfolding m by (subst bit_oword_field) (auto simp: bit_simps)
qed

lemma and_3f: "(v AND 0x3f = v) = (unat (v :: u32) < 64)"
proof -
  have m: "(0x3f :: u32) = mask 6" by (simp add: mask_eq_exp_minus_1)
  have "(v AND 0x3f = v) = (take_bit 6 v = v)" unfolding m take_bit_eq_mask ..
  also have "\<dots> = (take_bit 6 (unat v) = unat v)" unfolding word_unat_eq_iff unsigned_take_bit_eq ..
  also have "\<dots> = (unat v < 64)" by (simp add: take_bit_nat_eq_self_iff)
  finally show ?thesis .
qed

text \<open>
  C38. The indirection table on Siena. A table of more than 128 entries is refused with EINVAL and nothing is written. Otherwise all 128
  rows of the hardware are written, the table repeated cyclically, no other register changes, and the rows read back as the entries
  exactly if every entry is a queue that fits the six bits of a row: then the call succeeds, else it returns EFAULT.
\<close>

theorem siena_rx_scale_tbl_set:
  assumes "dp_mod_flags enp AND EFX_MOD_RX \<noteq> 0" "en_erxop enp = Some EFX_FAMILY_SIENA" "table \<noteq> []"
  shows "if 128 < length table then efx_rx_scale_tbl_set env table enp = Some (EINVAL, enp)
    else \<exists>enp'. efx_rx_scale_tbl_set env table enp = Some (if list_all (\<lambda>q. unat q < 64) table then RC_OK else EFAULT, enp')
      \<and> (\<forall>i < 128. efx_oword_field (EFX_BAR_TBL_READO FR_BZ_RX_INDIRECTION_TBL_OFST FR_BZ_RX_INDIRECTION_TBL_STEP i (dp_bar enp')) 0 6
            = table ! (i mod length table) AND 0x3f)
      \<and> (\<forall>r. (\<forall>i < 128. r \<noteq> FR_BZ_RX_INDIRECTION_TBL_OFST + i * FR_BZ_RX_INDIRECTION_TBL_STEP) \<longrightarrow> bar_regs (dp_bar enp') r = bar_regs (dp_bar enp) r)"
proof (cases "128 < length table")
  case True
  then show ?thesis using assms by (simp add: efx_rx_scale_tbl_set_def siena_rx_scale_tbl_set_def FR_BZ_RX_INDIRECTION_TBL_ROWS_def)
next
  case False
  define bar where "bar = foldl (\<lambda>bar index. EFX_BAR_TBL_WRITEO FR_BZ_RX_INDIRECTION_TBL_OFST FR_BZ_RX_INDIRECTION_TBL_STEP index
                            (efx_populate_oword [fset FRF_BZ_IT_QUEUE (rss_entry table index)]) bar) (dp_bar enp) [0..<128]"
  have step: "0 < FR_BZ_RX_INDIRECTION_TBL_STEP" by (simp add: FR_BZ_RX_INDIRECTION_TBL_STEP_def)
  have f: "FRF_BZ_IT_QUEUE = (0, 6)" by (simp add: FRF_BZ_IT_QUEUE_def)
  have entry: "rss_entry table i = table ! (i mod length table)" for i using assms(3) by (simp add: rss_entry_def)
  have row: "efx_oword_field (EFX_BAR_TBL_READO FR_BZ_RX_INDIRECTION_TBL_OFST FR_BZ_RX_INDIRECTION_TBL_STEP i bar) 0 6
      = table ! (i mod length table) AND 0x3f" if "i < 128" for i
    unfolding bar_def foldl_tbl_read [OF step that] entry f fset_def fst_conv snd_conv by (rule it_queue_field)
  have "list_all (\<lambda>i. efx_oword_field (EFX_BAR_TBL_READO FR_BZ_RX_INDIRECTION_TBL_OFST FR_BZ_RX_INDIRECTION_TBL_STEP i bar)
        (fst FRF_BZ_IT_QUEUE) (snd FRF_BZ_IT_QUEUE) = rss_entry table i) (rev [0..<128]) = (\<forall>i < 128. unat (table ! (i mod length table)) < 64)"
    unfolding list_all_iff f fst_conv snd_conv entry using row by (simp add: and_3f Ball_def)
  also have "\<dots> = list_all (\<lambda>q. unat q < 64) table"
    unfolding list_all_length
  proof safe
    fix i assume all: "\<forall>i < 128. unat (table ! (i mod length table)) < 64" and i: "i < length table"
    with False have "i < 128" by simp
    with all have "unat (table ! (i mod length table)) < 64" by blast
    with i show "unat (table ! i) < 64" by simp
  next
    fix i assume "\<forall>i < length table. unat (table ! i) < 64"
    with assms(3) show "unat (table ! (i mod length table)) < 64" by simp
  qed
  finally have ok: "list_all (\<lambda>i. efx_oword_field (EFX_BAR_TBL_READO FR_BZ_RX_INDIRECTION_TBL_OFST FR_BZ_RX_INDIRECTION_TBL_STEP i bar)
        (fst FRF_BZ_IT_QUEUE) (snd FRF_BZ_IT_QUEUE) = rss_entry table i) (rev [0..<128]) = list_all (\<lambda>q. unat q < 64) table" .
  have set: "efx_rx_scale_tbl_set env table enp = Some (if list_all (\<lambda>q. unat q < 64) table then RC_OK else EFAULT, dp_set_bar bar enp)"
    using assms False by (simp only: efx_rx_scale_tbl_set_def siena_rx_scale_tbl_set_def FR_BZ_RX_INDIRECTION_TBL_ROWS_def Let_def bar_def [symmetric] ok efsys_assert_def
        if_True if_False Option.bind.simps simp_thms)
  have put: "dp_bar (dp_set_bar bar enp) = bar" by (simp add: dp_set_bar_def)
  have other: "bar_regs bar r = bar_regs (dp_bar enp) r" if "\<forall>i < 128. r \<noteq> FR_BZ_RX_INDIRECTION_TBL_OFST + i * FR_BZ_RX_INDIRECTION_TBL_STEP" for r
    using that unfolding bar_def foldl_tbl_write [OF step] by auto
  have rows: "\<forall>i < 128. efx_oword_field (EFX_BAR_TBL_READO FR_BZ_RX_INDIRECTION_TBL_OFST FR_BZ_RX_INDIRECTION_TBL_STEP i bar) 0 6
      = table ! (i mod length table) AND 0x3f" by (intro allI impI row)
  have others: "\<forall>r. (\<forall>i < 128. r \<noteq> FR_BZ_RX_INDIRECTION_TBL_OFST + i * FR_BZ_RX_INDIRECTION_TBL_STEP) \<longrightarrow> bar_regs bar r = bar_regs (dp_bar enp) r"
    by (intro allI impI) (rule other)
  show ?thesis unfolding if_not_P [OF False]
    by (rule exI [of _ "dp_set_bar bar enp"], unfold put) (rule conjI [OF set conjI [OF rows others]])
qed

theorem siena_rx_scale_tbl_set_witness:
  "\<exists>enp'. efx_rx_scale_tbl_set demo_env [0, 1, 64] (dp_set_mod_flags EFX_MOD_RX (demo_dp_nic EFX_FAMILY_SIENA)) = Some (EFAULT, enp')"
proof -
  have "dp_mod_flags (dp_set_mod_flags EFX_MOD_RX (demo_dp_nic EFX_FAMILY_SIENA)) AND EFX_MOD_RX \<noteq> 0"
    "en_erxop (dp_set_mod_flags EFX_MOD_RX (demo_dp_nic EFX_FAMILY_SIENA)) = Some EFX_FAMILY_SIENA"
    by (simp_all add: dp_set_mod_flags_def demo_dp_nic_def ev_set_mod_flags_def EFX_MOD_RX_def)
  from siena_rx_scale_tbl_set [OF this, of "[0, 1, 64]" demo_env] show ?thesis by auto
qed

end
