(* ===== verification/Efx_Pio_Props.thy ===== *)
theory Efx_Pio_Props
  imports Efx_Tx_Props
begin

text \<open>
  The blocks of the buffers for programmed I/O. The locale \<open>block_alloc\<close> is the contract between the allocator of the controller's
  code and the transmit queues that own blocks; it is interpreted on \<open>ef10_nic_pio_alloc\<close> and \<open>ef10_nic_pio_free\<close>.
\<close>

section \<open>The contract of an allocator\<close>

locale block_alloc =
  fixes good :: "'s \<Rightarrow> bool"
    and used :: "'s \<Rightarrow> 'b set"
    and blocks :: "'s \<Rightarrow> 'b set"
    and alloc :: "'s \<Rightarrow> ('b \<times> 's) option"
    and free :: "'b \<Rightarrow> 's \<Rightarrow> 's option"
  assumes alloc_Some: "good s \<Longrightarrow> alloc s = Some (b, s') \<Longrightarrow> good s' \<and> b \<in> blocks s \<and> b \<notin> used s \<and> used s' = insert b (used s) \<and> blocks s' = blocks s"
    and alloc_None: "good s \<Longrightarrow> alloc s = None \<Longrightarrow> blocks s \<subseteq> used s"
    and free_used: "good s \<Longrightarrow> b \<in> used s \<Longrightarrow> \<exists>s'. free b s = Some s' \<and> good s' \<and> used s' = used s - {b} \<and> blocks s' = blocks s"
begin

text \<open>Every used block has exactly one owner.\<close>

definition owns :: "'s \<Rightarrow> 'b option list \<Rightarrow> bool" where
  "owns s os = (used s = {b. Some b \<in> set os}
     \<and> (\<forall>i j b. i < length os \<longrightarrow> j < length os \<longrightarrow> os ! i = Some b \<longrightarrow> os ! j = Some b \<longrightarrow> i = j))"

lemma owns_once: "owns s os \<Longrightarrow> i < length os \<Longrightarrow> j < length os \<Longrightarrow> os ! i = Some b \<Longrightarrow> os ! j = Some b \<Longrightarrow> i = j"
  unfolding owns_def by blast

lemma owns_taken:
  assumes "owns s os" "b \<notin> used s" "used s' = insert b (used s)" "i < length os" "os ! i = None"
  shows "owns s' (os[i := Some b])"
proof -
  have b: "Some b \<notin> set os" and u: "used s = {b. Some b \<in> set os}" using assms(1,2) by (simp_all add: owns_def)
  have "{c. Some c \<in> set (os[i := Some b])} = insert b {c. Some c \<in> set os}"
  proof (rule set_eqI)
    fix c
    have "Some c \<in> set (os[i := Some b]) \<longleftrightarrow> c = b \<or> (\<exists>j < length os. j \<noteq> i \<and> os ! j = Some c)"
      using assms(4) by (auto simp: in_set_conv_nth nth_list_update)
    also have "\<dots> \<longleftrightarrow> c = b \<or> Some c \<in> set os" using assms(5) by (auto simp: in_set_conv_nth)
    finally show "c \<in> {c. Some c \<in> set (os[i := Some b])} \<longleftrightarrow> c \<in> insert b {c. Some c \<in> set os}" by simp
  qed
  moreover have "j = k" if "j < length os" "k < length os" "os[i := Some b] ! j = Some c" "os[i := Some b] ! k = Some c" for j k c
    using that b owns_once [OF assms(1) that(1,2)] nth_mem [of j os] nth_mem [of k os] by (cases "j = i"; cases "k = i") auto
  ultimately show ?thesis using assms(3) u unfolding owns_def length_list_update by blast
qed

lemma owns_used: "owns s os \<Longrightarrow> i < length os \<Longrightarrow> os ! i = Some b \<Longrightarrow> b \<in> used s"
  unfolding owns_def by (metis mem_Collect_eq nth_mem)

lemma owns_released:
  assumes "owns s os" "used s' = used s - {b}" "i < length os" "os ! i = Some b"
  shows "owns s' (os[i := None])"
proof -
  have u: "used s = {b. Some b \<in> set os}" using assms(1) by (simp add: owns_def)
  have other: "os ! j \<noteq> Some b" if "j < length os" "j \<noteq> i" for j
    using owns_once [OF assms(1) that(1) assms(3) _ assms(4)] that(2) by blast
  have "{c. Some c \<in> set (os[i := None])} = {c. Some c \<in> set os} - {b}"
  proof (rule set_eqI)
    fix c
    have "Some c \<in> set (os[i := None]) \<longleftrightarrow> (\<exists>j < length os. j \<noteq> i \<and> os ! j = Some c)"
      using assms(3) by (auto simp: in_set_conv_nth nth_list_update)
    also have "\<dots> \<longleftrightarrow> Some c \<in> set os \<and> c \<noteq> b" using other assms(3,4) by (auto simp: in_set_conv_nth)
    finally show "c \<in> {c. Some c \<in> set (os[i := None])} \<longleftrightarrow> c \<in> {c. Some c \<in> set os} - {b}" by simp
  qed
  moreover have "j = k" if "j < length os" "k < length os" "os[i := None] ! j = Some c" "os[i := None] ! k = Some c" for j k c
    using that owns_once [OF assms(1) that(1,2)] by (cases "j = i"; cases "k = i") auto
  ultimately show "owns s' (os[i := None])" using assms(2) u unfolding owns_def length_list_update by blast
qed

text \<open>Allocating for an owner without a block, and giving an owner's block back; when no block is left, every block has its owner.\<close>

lemma owns_alloc:
  "good s \<Longrightarrow> owns s os \<Longrightarrow> alloc s = Some (b, s') \<Longrightarrow> i < length os \<Longrightarrow> os ! i = None \<Longrightarrow> owns s' (os[i := Some b])"
  using alloc_Some [of s b s'] owns_taken by blast

lemma owns_free:
  "good s \<Longrightarrow> owns s os \<Longrightarrow> i < length os \<Longrightarrow> os ! i = Some b \<Longrightarrow>
     \<exists>s'. free b s = Some s' \<and> good s' \<and> blocks s' = blocks s \<and> owns s' (os[i := None])"
  using free_used [of s b] owns_used [of s os i b] owns_released [of s os _ b i] by metis

lemma owns_all: "good s \<Longrightarrow> owns s os \<Longrightarrow> alloc s = None \<Longrightarrow> b \<in> blocks s \<Longrightarrow> Some b \<in> set os"
  using alloc_None [of s] unfolding owns_def by blast

end

section \<open>The allocator\<close>

definition pio_blks :: "'c dp_nic \<Rightarrow> nat" where
  "pio_blks enp = unat (enc_piobuf_size enp div edc_pio_alloc_size enp)"

definition pio_good :: "'c dp_nic \<Rightarrow> bool" where
  "pio_good enp = (dp_family enp = EFX_FAMILY_HUNTINGTON \<and> edc_pio_alloc_size enp \<noteq> 0 \<and> pio_blks enp \<le> 32
     \<and> ena_piobuf_count enp \<le> length (ena_pio_alloc_map enp) \<and> ena_piobuf_count enp \<le> length (ena_piobuf_handle enp))"

definition pio_blocks :: "'c dp_nic \<Rightarrow> (nat \<times> nat) set" where
  "pio_blocks enp = {..<ena_piobuf_count enp} \<times> {..<pio_blks enp}"

definition pio_used :: "'c dp_nic \<Rightarrow> (nat \<times> nat) set" where
  "pio_used enp = {(buf, blk). buf < ena_piobuf_count enp \<and> bit (ena_pio_alloc_map enp ! buf) blk}"

definition pio_take :: "'c dp_nic \<Rightarrow> ((nat \<times> nat) \<times> 'c dp_nic) option" where
  "pio_take enp = (case ef10_nic_pio_alloc enp of Some (RC_OK, Some (buf, _, blk, _), enp) \<Rightarrow> Some ((buf, blk), enp) | _ \<Rightarrow> None)"

definition pio_give :: "nat \<times> nat \<Rightarrow> 'c dp_nic \<Rightarrow> 'c dp_nic option" where
  "pio_give b enp = (case ef10_nic_pio_free (fst b) (snd b) enp of Some (RC_OK, enp) \<Rightarrow> Some enp | _ \<Rightarrow> None)"

lemma unused_bit: "(m AND push_bit blk 1 = (0 :: u32)) = (\<not> bit m blk)"
  by (simp only: bit_iff_and_push_bit_not_eq_0 not_not)

lemma not_zero_bits: "NOT m = (0 :: u32) \<Longrightarrow> k < 32 \<Longrightarrow> bit m k"
proof -
  assume "NOT m = 0" "k < 32"
  then have "\<not> bit (NOT m) k" by simp
  with \<open>k < 32\<close> show "bit m k" by (simp add: bit_simps)
qed

lemma pio_find_spec:
  assumes "n \<le> 32"
  shows "\<forall>b \<in> set bufs. b < length maps \<Longrightarrow> \<exists>r. pio_find n maps bufs = Some r \<and>
    (case r of None \<Rightarrow> \<forall>b \<in> set bufs. \<forall>k < n. bit (maps ! b) k | Some (b, k) \<Rightarrow> b \<in> set bufs \<and> k < n \<and> \<not> bit (maps ! b) k)"
proof (induction bufs)
  case (Cons b bufs)
  then obtain r where r: "pio_find n maps bufs = Some r"
    "case r of None \<Rightarrow> \<forall>b \<in> set bufs. \<forall>k < n. bit (maps ! b) k | Some (b, k) \<Rightarrow> b \<in> set bufs \<and> k < n \<and> \<not> bit (maps ! b) k" by auto
  have m: "rd maps b = Some (maps ! b)" using Cons.prems by (simp add: rd_Some)
  show ?case
  proof (cases "NOT (maps ! b) = 0")
    case True
    then have "bit (maps ! b) k" if "k < n" for k using not_zero_bits [of "maps ! b" k] that assms by simp
    then show ?thesis using r True m by (auto split: option.splits)
  next
    case False
    show ?thesis
    proof (cases "find (\<lambda>blk. maps ! b AND push_bit blk 1 = 0) [0..<n]")
      case None
      then have all: "bit (maps ! b) k" if "k < n" for k using that unfolding find_None_iff by (auto simp only: unused_bit set_upt atLeastLessThan_iff not_not)
      show ?thesis using r False None all m assms unfolding pio_find.simps by (simp split: option.splits) blast
    next
      case (Some k)
      then have "k < n" "\<not> bit (maps ! b) k" by (auto simp only: find_Some_iff unused_bit length_upt nth_upt diff_zero add_0)
      then show ?thesis using r False Some m assms unfolding pio_find.simps by simp
    qed
  qed
qed simp

lemma pio_take_spec:
  assumes g: "pio_good enp"
  shows "\<exists>rc out enp'. ef10_nic_pio_alloc enp = Some (rc, out, enp') \<and>
    (if rc = RC_OK then \<exists>buf blk. out = Some (buf, ena_piobuf_handle enp ! buf, blk, of_nat blk * edc_pio_alloc_size enp, ucast (edc_pio_alloc_size enp))
        \<and> (buf, blk) \<in> pio_blocks enp \<and> (buf, blk) \<notin> pio_used enp \<and> pio_good enp' \<and> pio_used enp' = insert (buf, blk) (pio_used enp)
        \<and> (\<exists>maps. enp' = enp\<lparr>ena_pio_alloc_map := maps\<rparr>)
     else rc = ENOMEM \<and> enp' = enp \<and> pio_blocks enp \<subseteq> pio_used enp)"
proof (cases "ena_piobuf_count enp = 0")
  case True
  then show ?thesis using g by (auto simp: pio_good_def ef10_nic_pio_alloc_def pio_blocks_def)
next
  case False
  let ?bufs = "[0..<ena_piobuf_count enp]" and ?maps = "ena_pio_alloc_map enp"
  have len: "\<forall>b \<in> set ?bufs. b < length ?maps" "ena_piobuf_count enp \<le> length (ena_piobuf_handle enp)" and n: "pio_blks enp \<le> 32"
    and fam: "dp_family enp = EFX_FAMILY_HUNTINGTON" "edc_pio_alloc_size enp \<noteq> 0" using g by (auto simp: pio_good_def)
  from pio_find_spec [OF n len(1)] obtain r where r: "pio_find (pio_blks enp) ?maps ?bufs = Some r"
    "case r of None \<Rightarrow> \<forall>b \<in> set ?bufs. \<forall>k < pio_blks enp. bit (?maps ! b) k | Some (b, k) \<Rightarrow> b \<in> set ?bufs \<and> k < pio_blks enp \<and> \<not> bit (?maps ! b) k" by blast
  show ?thesis
  proof (cases r)
    case None
    then have "ef10_nic_pio_alloc enp = Some (ENOMEM, None, enp)" using r(1) fam False by (simp add: ef10_nic_pio_alloc_def pio_blks_def)
    moreover have "pio_blocks enp \<subseteq> pio_used enp" using r(2) None by (auto simp: pio_blocks_def pio_used_def)
    ultimately show ?thesis by simp
  next
    case (Some p)
    obtain buf blk where p: "p = (buf, blk)" by (cases p)
    have b: "buf < ena_piobuf_count enp" "blk < pio_blks enp" "\<not> bit (?maps ! buf) blk" using r(2) by (simp_all add: Some p)
    have bl: "buf < length ?maps" "buf < length (ena_piobuf_handle enp)" using b(1) len by auto
    let ?enp' = "enp\<lparr>ena_pio_alloc_map := ?maps[buf := ?maps ! buf OR push_bit blk 1]\<rparr>"
    have a: "ef10_nic_pio_alloc enp = Some (RC_OK, Some (buf, ena_piobuf_handle enp ! buf, blk, of_nat blk * edc_pio_alloc_size enp, ucast (edc_pio_alloc_size enp)), ?enp')"
      using r(1) fam False bl by (simp add: ef10_nic_pio_alloc_def pio_blks_def Some p)
    have "bit (?maps ! buf OR push_bit blk 1) k = (bit (?maps ! buf) k \<or> k = blk)" for k
      using b(2) n by (auto simp: bit_simps simp del: push_bit_of_1)
    then have u: "pio_used ?enp' = insert (buf, blk) (pio_used enp)"
      using b(1) bl(1) by (auto simp: pio_used_def nth_list_update split: if_splits)
    have "pio_good ?enp'" using g by (simp add: pio_good_def pio_blks_def)
    then show ?thesis using a u b by (auto simp: pio_blocks_def pio_used_def)
  qed
qed

lemma pio_give_spec:
  assumes g: "pio_good enp" and b: "(buf, blk) \<in> pio_used enp"
  shows "\<exists>enp'. ef10_nic_pio_free buf blk enp = Some (RC_OK, enp') \<and> pio_good enp' \<and> pio_used enp' = pio_used enp - {(buf, blk)}
    \<and> (\<exists>maps. enp' = enp\<lparr>ena_pio_alloc_map := maps\<rparr>)"
proof -
  let ?maps = "ena_pio_alloc_map enp"
  define m where "m = ?maps ! buf AND NOT (push_bit blk 1)"
  let ?enp' = "enp\<lparr>ena_pio_alloc_map := ?maps[buf := m]\<rparr>"
  have bb: "buf < ena_piobuf_count enp" "bit (?maps ! buf) blk" using b by (simp_all add: pio_used_def)
  then have k: "blk < 32" using bit_imp_le_length [OF bb(2)] by simp
  have bl: "buf < length ?maps" using bb(1) g by (simp add: pio_good_def)
  have "?maps ! buf AND push_bit blk 1 \<noteq> 0" unfolding unused_bit using bb(2) by simp
  then have f: "ef10_nic_pio_free buf blk enp = Some (RC_OK, ?enp')"
    using bb(1) k bl by (simp add: ef10_nic_pio_free_def m_def del: push_bit_of_1)
  have bits: "bit m j = (bit (?maps ! buf) j \<and> j \<noteq> blk)" for j
  proof (cases "j < 32")
    case True
    have "bit (push_bit blk (1 :: u32)) j = (j = blk)" using True unfolding bit_push_bit_iff bit_1_iff by auto
    then show ?thesis using True unfolding m_def bit_and_iff by (simp add: bit_not_iff del: push_bit_of_1)
  next
    case False
    then have "\<not> bit x j" for x :: u32 using bit_imp_le_length [of x j] by auto
    then show ?thesis by simp
  qed
  have u: "pio_used ?enp' = pio_used enp - {(buf, blk)}"
  proof (rule set_eqI)
    fix p :: "nat \<times> nat"
    obtain a b where p: "p = (a, b)" by (cases p)
    show "p \<in> pio_used ?enp' \<longleftrightarrow> p \<in> pio_used enp - {(buf, blk)}"
      using bl by (cases "a = buf") (simp_all add: p pio_used_def bits)
  qed
  have "pio_good ?enp'" using g by (simp add: pio_good_def pio_blks_def)
  with f u show ?thesis by blast
qed

lemma pio_blocks_map [simp]: "pio_blocks (enp\<lparr>ena_pio_alloc_map := maps\<rparr>) = pio_blocks enp"
  by (simp add: pio_blocks_def pio_blks_def)

interpretation pio: block_alloc pio_good pio_used pio_blocks pio_take pio_give
proof unfold_locales
  fix enp :: "'c dp_nic" and b enp'
  assume g: "pio_good enp" and t: "pio_take enp = Some (b, enp')"
  from pio_take_spec [OF g] obtain rc out enp'' where "ef10_nic_pio_alloc enp = Some (rc, out, enp'')"
    "if rc = RC_OK then \<exists>buf blk. out = Some (buf, ena_piobuf_handle enp ! buf, blk, of_nat blk * edc_pio_alloc_size enp, ucast (edc_pio_alloc_size enp))
        \<and> (buf, blk) \<in> pio_blocks enp \<and> (buf, blk) \<notin> pio_used enp \<and> pio_good enp'' \<and> pio_used enp'' = insert (buf, blk) (pio_used enp)
        \<and> (\<exists>maps. enp'' = enp\<lparr>ena_pio_alloc_map := maps\<rparr>)
     else rc = ENOMEM \<and> enp'' = enp \<and> pio_blocks enp \<subseteq> pio_used enp" by blast
  with t show "pio_good enp' \<and> b \<in> pio_blocks enp \<and> b \<notin> pio_used enp \<and> pio_used enp' = insert b (pio_used enp) \<and> pio_blocks enp' = pio_blocks enp"
    by (auto simp: pio_take_def split: if_splits)
next
  fix enp :: "'c dp_nic"
  assume g: "pio_good enp" and t: "pio_take enp = None"
  from pio_take_spec [OF g] t show "pio_blocks enp \<subseteq> pio_used enp" by (auto simp: pio_take_def split: if_splits)
next
  fix enp :: "'c dp_nic" and b
  assume g: "pio_good enp" and b: "b \<in> pio_used enp"
  obtain buf blk where p: "b = (buf, blk)" by (cases b)
  from pio_give_spec [OF g b [unfolded p]]
  show "\<exists>enp'. pio_give b enp = Some enp' \<and> pio_good enp' \<and> pio_used enp' = pio_used enp - {b} \<and> pio_blocks enp' = pio_blocks enp"
    by (auto simp: pio_give_def p)
qed

section \<open>Transmit queues that come and go\<close>

definition pio_owner :: "efx_txq \<Rightarrow> (nat \<times> nat) option" where
  "pio_owner etp = (if et_pio_size etp \<noteq> 0 then Some (et_pio_bufnum etp, et_pio_blknum etp) else None)"

definition pio_placed :: "'c dp_nic \<Rightarrow> efx_txq \<Rightarrow> bool" where
  "pio_placed enp etp = (et_pio_size etp \<noteq> 0 \<longrightarrow>
     et_pio_offset etp = of_nat (et_pio_blknum etp) * edc_pio_alloc_size enp \<and> et_pio_size etp = ucast (edc_pio_alloc_size enp))"

definition pio_inv :: "'c dp_nic \<Rightarrow> efx_txq list \<Rightarrow> bool" where
  "pio_inv enp qs = (pio_good enp \<and> pio.owns enp (map pio_owner qs) \<and> pio_used enp \<subseteq> pio_blocks enp \<and> list_all (pio_placed enp) qs)"

text \<open>A request to the controller does not change the family of the device.\<close>

definition mc_env_family :: "'c mcdi_nic mc_env \<Rightarrow> bool" where
  "mc_env_family env = (\<forall>req m. md_family (mn_dev (snd (env_execute env req m))) = md_family (mn_dev m))"

lemma dp_execute_frame:
  assumes "mc_env_family env" "dp_execute env req enp = Some (req', enp')"
  shows "\<exists>m. enp' = dp_set_mcdi m enp \<and> md_family (mn_dev m) = dp_family enp"
proof -
  obtain r m where x: "env_execute env (req\<lparr>emr_quiet := False\<rparr>) (dp_mcdi enp) = (r, m)" by (cases "env_execute env (req\<lparr>emr_quiet := False\<rparr>) (dp_mcdi enp)")
  have "enp' = dp_set_mcdi m enp" using assms(2) by (auto simp: dp_execute_def efx_mcdi_execute_def x split: if_splits)
  moreover have "md_family (mn_dev m) = dp_family enp" using assms(1) x unfolding mc_env_family_def by (metis snd_conv)
  ultimately show ?thesis by blast
qed

lemma pio_link_frame:
  "mc_env_family env \<Longrightarrow> ef10_nic_pio_link env i handle enp = Some (rc, enp') \<Longrightarrow>
    \<exists>m. enp' = dp_set_mcdi m enp \<and> md_family (mn_dev m) = dp_family enp"
  unfolding ef10_nic_pio_link_def efx_mcdi_link_piobuf_def
  by (auto split: Option.bind_splits dest!: dp_execute_frame)

lemma pio_unlink_frame:
  "mc_env_family env \<Longrightarrow> ef10_nic_pio_unlink env i enp = Some (rc, enp') \<Longrightarrow>
    \<exists>m. enp' = dp_set_mcdi m enp \<and> md_family (mn_dev m) = dp_family enp"
  unfolding ef10_nic_pio_unlink_def efx_mcdi_unlink_piobuf_def
  by (auto split: Option.bind_splits dest!: dp_execute_frame)

lemma pio_set_mcdi [simp]:
  "pio_used (dp_set_mcdi m enp) = pio_used enp" "pio_blocks (dp_set_mcdi m enp) = pio_blocks enp"
  "edc_pio_alloc_size (dp_set_mcdi m enp) = edc_pio_alloc_size enp"
  "md_family (mn_dev m) = dp_family enp \<Longrightarrow> pio_good (dp_set_mcdi m enp) = pio_good enp"
  by (simp_all add: pio_used_def pio_blocks_def pio_blks_def pio_good_def dp_set_mcdi_def)

lemma pio_inv_set_mcdi: "md_family (mn_dev m) = dp_family enp \<Longrightarrow> pio_inv (dp_set_mcdi m enp) qs = pio_inv enp qs"
  by (simp add: pio_inv_def pio.owns_def pio_placed_def [abs_def])

lemma pio_inv_taken:
  assumes inv: "pio_inv enp qs" and i: "i < length qs" "et_pio_size (qs ! i) = 0"
    and a: "(buf, blk) \<in> pio_blocks enp" "(buf, blk) \<notin> pio_used enp" "pio_used enp' = insert (buf, blk) (pio_used enp)" "pio_good enp'"
      "enp' = enp\<lparr>ena_pio_alloc_map := maps\<rparr>"
    and etp: "et_pio_bufnum etp = buf" "et_pio_blknum etp = blk" "et_pio_offset etp = of_nat blk * edc_pio_alloc_size enp"
      "et_pio_size etp = ucast (edc_pio_alloc_size enp)" "et_pio_size etp \<noteq> 0"
  shows "pio_inv enp' (qs[i := etp])"
proof -
  have o: "pio.owns enp (map pio_owner qs)" and placed: "list_all (pio_placed enp) qs" using inv by (simp_all add: pio_inv_def)
  have n: "map pio_owner qs ! i = None" using i by (simp add: pio_owner_def)
  have il: "i < length (map pio_owner qs)" using i by simp
  have "Some (buf, blk) \<notin> set (map pio_owner qs)" using a(2) o unfolding pio.owns_def by blast
  have "pio.owns enp' ((map pio_owner qs)[i := Some (buf, blk)])"
    by (rule pio.owns_taken [OF o a(2,3) il n])
  moreover have "(map pio_owner qs)[i := Some (buf, blk)] = map pio_owner (qs[i := etp])" using etp by (simp add: map_update pio_owner_def)
  moreover have "pio_placed enp' = pio_placed enp" by (rule ext) (simp add: pio_placed_def a(5))
  moreover have "list_all (pio_placed enp) (qs[i := etp])"
    using placed etp set_update_subset_insert [of qs i etp] by (auto simp: list_all_iff pio_placed_def)
  ultimately show ?thesis using inv a by (auto simp: pio_inv_def)
qed

lemma pio_inv_released:
  assumes inv: "pio_inv enp qs" and i: "i < length qs" "et_pio_size (qs ! i) \<noteq> 0"
    and a: "pio_used enp' = pio_used enp - {(et_pio_bufnum (qs ! i), et_pio_blknum (qs ! i))}" "pio_good enp'" "enp' = enp\<lparr>ena_pio_alloc_map := maps\<rparr>"
    and etp: "et_pio_size etp = 0"
  shows "pio_inv enp' (qs[i := etp])"
proof -
  have o: "pio.owns enp (map pio_owner qs)" and placed: "list_all (pio_placed enp) qs" using inv by (simp_all add: pio_inv_def)
  have n: "map pio_owner qs ! i = Some (et_pio_bufnum (qs ! i), et_pio_blknum (qs ! i))" using i by (simp add: pio_owner_def)
  have il: "i < length (map pio_owner qs)" using i by simp
  have "pio.owns enp' ((map pio_owner qs)[i := None])" by (rule pio.owns_released [OF o a(1) il n])
  moreover have "(map pio_owner qs)[i := None] = map pio_owner (qs[i := etp])" using etp by (simp add: map_update pio_owner_def)
  moreover have "pio_placed enp' = pio_placed enp" by (rule ext) (simp add: pio_placed_def a(3))
  moreover have "list_all (pio_placed enp) (qs[i := etp])"
    using placed etp set_update_subset_insert [of qs i etp] by (auto simp: list_all_iff pio_placed_def)
  ultimately show ?thesis using inv a by (auto simp: pio_inv_def)
qed

lemma txq_owner_none: "et_pio_size etp = 0 \<Longrightarrow> pio_owner etp = None" by (simp add: pio_owner_def)

lemma pio_inv_replace_none:
  assumes "pio_inv enp qs" "i < length qs" "et_pio_size (qs ! i) = 0" "et_pio_size etp = 0"
  shows "pio_inv enp (qs[i := etp])"
proof -
  have "map pio_owner (qs[i := etp]) = map pio_owner qs"
    using assms(2-4) by (simp add: map_update pio_owner_def list_update_same_conv)
  moreover have "list_all (pio_placed enp) (qs[i := etp])"
    using assms(1,4) set_update_subset_insert [of qs i etp] by (auto simp: pio_inv_def list_all_iff pio_placed_def)
  ultimately show ?thesis using assms(1) by (simp add: pio_inv_def del: map_update)
qed

lemma pio_enable_inv:
  assumes env: "mc_env_family env" and inv: "pio_inv enp qs" and i: "i < length qs"
    and e: "ef10_tx_qpio_enable env (qs ! i) enp = Some (rc, etp, enp')"
  shows "pio_inv enp' (qs[i := etp])"
proof (cases "et_pio_size (qs ! i) = 0")
  case False
  then show ?thesis using e inv by (auto simp: ef10_tx_qpio_enable_def)
next
  case True
  have g: "pio_good enp" using inv by (simp add: pio_inv_def)
  from pio_take_spec [OF g] obtain rc1 out enp1 where t: "ef10_nic_pio_alloc enp = Some (rc1, out, enp1)"
    "if rc1 = RC_OK then \<exists>buf blk. out = Some (buf, ena_piobuf_handle enp ! buf, blk, of_nat blk * edc_pio_alloc_size enp, ucast (edc_pio_alloc_size enp))
        \<and> (buf, blk) \<in> pio_blocks enp \<and> (buf, blk) \<notin> pio_used enp \<and> pio_good enp1 \<and> pio_used enp1 = insert (buf, blk) (pio_used enp)
        \<and> (\<exists>maps. enp1 = enp\<lparr>ena_pio_alloc_map := maps\<rparr>)
     else rc1 = ENOMEM \<and> enp1 = enp \<and> pio_blocks enp \<subseteq> pio_used enp" by blast
  show ?thesis
  proof (cases "rc1 = RC_OK")
    case False
    then show ?thesis using e t True inv by (auto simp: ef10_tx_qpio_enable_def)
  next
    case ok: True
    then obtain buf blk maps where o: "out = Some (buf, ena_piobuf_handle enp ! buf, blk, of_nat blk * edc_pio_alloc_size enp, ucast (edc_pio_alloc_size enp))"
      "(buf, blk) \<in> pio_blocks enp" "(buf, blk) \<notin> pio_used enp" "pio_good enp1" "pio_used enp1 = insert (buf, blk) (pio_used enp)"
      "enp1 = enp\<lparr>ena_pio_alloc_map := maps\<rparr>" using t(2) by auto
    let ?etp = "(qs ! i)\<lparr>et_pio_bufnum := buf, et_pio_blknum := blk, et_pio_offset := of_nat blk * edc_pio_alloc_size enp,
        et_pio_size := ucast (edc_pio_alloc_size enp)\<rparr>"
    from e t(1) ok o(1) True obtain rc2 enp2 where l: "ef10_nic_pio_link env (et_index ?etp) (ena_piobuf_handle enp ! buf) enp1 = Some (rc2, enp2)"
      and sz: "et_pio_size ?etp \<noteq> 0"
      and r: "if rc2 \<noteq> RC_OK then \<exists>rc3. ef10_nic_pio_free buf blk enp2 = Some (rc3, enp') \<and> etp = ?etp\<lparr>et_pio_size := 0\<rparr>
        else enp' = enp2 \<and> etp = ?etp\<lparr>et_pio_write_offset :=
                 of_nat buf * of_nat ER_DZ_TX_PIOBUF_STEP + of_nat ER_DZ_TX_PIOBUF_OFST + et_pio_offset ?etp\<rparr>"
      by (auto simp: ef10_tx_qpio_enable_def Let_def split: Option.bind_splits if_splits prod.splits)
    from pio_link_frame [OF env l] obtain m where m: "enp2 = dp_set_mcdi m enp1" "md_family (mn_dev m) = dp_family enp1" by blast
    have taken: "pio_inv enp1 (qs[i := etp'])" if "et_pio_bufnum etp' = buf" "et_pio_blknum etp' = blk"
      "et_pio_offset etp' = of_nat blk * edc_pio_alloc_size enp" "et_pio_size etp' = ucast (edc_pio_alloc_size enp)" for etp'
      by (rule pio_inv_taken [OF inv i True o(2,3,5,4,6) that]) (use sz that(4) in simp)
    show ?thesis
    proof (cases "rc2 = RC_OK")
      case True
      then show ?thesis using r taken [of etp] pio_inv_set_mcdi [OF m(2)] m(1) by simp
    next
      case False
      have inv2: "pio_inv enp2 (qs[i := ?etp])" using taken [of ?etp] pio_inv_set_mcdi [OF m(2)] m(1) by simp
      then have g2: "pio_good enp2" by (simp add: pio_inv_def)
      have "(buf, blk) \<in> pio_used enp2" using o(5) m(1) by simp
      from pio_give_spec [OF g2 this] obtain enp3 maps3 where f: "ef10_nic_pio_free buf blk enp2 = Some (RC_OK, enp3)" "pio_good enp3"
        "pio_used enp3 = pio_used enp2 - {(buf, blk)}" "enp3 = enp2\<lparr>ena_pio_alloc_map := maps3\<rparr>" by blast
      have "enp' = enp3" "et_pio_size etp = 0" using r False f(1) by auto
      moreover have "pio_inv enp3 ((qs[i := ?etp])[i := etp])"
        by (rule pio_inv_released [OF inv2 _ _ _ f(2,4)]) (use i sz f(3) \<open>et_pio_size etp = 0\<close> in simp_all)
      ultimately show ?thesis by simp
    qed
  qed
qed

lemma pio_disable_inv:
  assumes env: "mc_env_family env" and inv: "pio_inv enp qs" and i: "i < length qs"
    and e: "ef10_tx_qpio_disable env (qs ! i) enp = Some (etp, enp')"
  shows "pio_inv enp' (qs[i := etp])"
proof (cases "et_pio_size (qs ! i) = 0")
  case True
  then show ?thesis using e inv by (auto simp: ef10_tx_qpio_disable_def)
next
  case False
  let ?buf = "et_pio_bufnum (qs ! i)" and ?blk = "et_pio_blknum (qs ! i)"
  from e False obtain rc1 enp1 rc2 where l: "ef10_nic_pio_unlink env (et_index (qs ! i)) enp = Some (rc1, enp1)"
    and f: "ef10_nic_pio_free ?buf ?blk enp1 = Some (rc2, enp')" and etp: "et_pio_size etp = 0"
    by (auto simp: ef10_tx_qpio_disable_def split: Option.bind_splits prod.splits)
  from pio_unlink_frame [OF env l] obtain m where m: "enp1 = dp_set_mcdi m enp" "md_family (mn_dev m) = dp_family enp" by blast
  have inv1: "pio_inv enp1 qs" using inv pio_inv_set_mcdi [OF m(2)] m(1) by simp
  then have g: "pio_good enp1" and o: "pio.owns enp1 (map pio_owner qs)" by (simp_all add: pio_inv_def)
  have "(?buf, ?blk) \<in> pio_used enp1" by (rule pio.owns_used [OF o, of i]) (use i False in \<open>simp_all add: pio_owner_def\<close>)
  from pio_give_spec [OF g this] obtain enp2 maps where s: "ef10_nic_pio_free ?buf ?blk enp1 = Some (RC_OK, enp2)" "pio_good enp2"
    "pio_used enp2 = pio_used enp1 - {(?buf, ?blk)}" "enp2 = enp1\<lparr>ena_pio_alloc_map := maps\<rparr>" by blast
  have "enp' = enp2" using s(1) f by simp
  with pio_inv_released [OF inv1 i False s(3,2,4) etp] show ?thesis by simp
qed

section \<open>What queues can reach\<close>

text \<open>Any sequence of calls that enable or disable the block of some queue, with any response of the controller.\<close>

inductive pio_reach :: "'c mcdi_nic mc_env \<Rightarrow> 'c dp_nic \<times> efx_txq list \<Rightarrow> 'c dp_nic \<times> efx_txq list \<Rightarrow> bool"
  for env :: "'c mcdi_nic mc_env" and s :: "'c dp_nic \<times> efx_txq list" where
  pio_reach_start: "pio_reach env s s"
| pio_reach_enable: "pio_reach env s (enp, qs) \<Longrightarrow> i < length qs \<Longrightarrow> ef10_tx_qpio_enable env (qs ! i) enp = Some (rc, etp, enp') \<Longrightarrow>
    pio_reach env s (enp', qs[i := etp])"
| pio_reach_disable: "pio_reach env s (enp, qs) \<Longrightarrow> i < length qs \<Longrightarrow> ef10_tx_qpio_disable env (qs ! i) enp = Some (etp, enp') \<Longrightarrow>
    pio_reach env s (enp', qs[i := etp])"

lemma pio_reach_inv:
  assumes env: "mc_env_family env" and s: "pio_inv (fst s) (snd s)"
  shows "pio_reach env s t \<Longrightarrow> pio_inv (fst t) (snd t)"
  by (induction rule: pio_reach.induct) (use s pio_enable_inv [OF env] pio_disable_inv [OF env] in auto)

text \<open>The start: buffers without a used block, queues without one.\<close>

definition pio_fresh :: "'c dp_nic \<Rightarrow> efx_txq list \<Rightarrow> bool" where
  "pio_fresh enp qs = (pio_good enp \<and> list_all (\<lambda>m. m = 0) (ena_pio_alloc_map enp) \<and> list_all (\<lambda>etp. et_pio_size etp = 0) qs)"

lemma pio_fresh_inv: "pio_fresh enp qs \<Longrightarrow> pio_inv enp qs"
proof -
  assume f: "pio_fresh enp qs"
  have none: "map pio_owner qs ! i = None" if "i < length qs" for i using f that by (simp add: pio_fresh_def pio_owner_def list_all_length)
  have "pio_used enp = {}" using f by (auto simp: pio_fresh_def pio_good_def pio_used_def list_all_length)
  moreover have "Some b \<notin> set (map pio_owner qs)" for b using f by (auto simp: pio_fresh_def pio_owner_def list_all_iff)
  ultimately have "pio.owns enp (map pio_owner qs)" using none by (simp add: pio.owns_def)
  then show ?thesis using f \<open>pio_used enp = {}\<close> by (simp add: pio_inv_def pio_fresh_def list_all_iff pio_placed_def)
qed

text \<open>A block as bytes of its buffer.\<close>

lemma pio_bytes:
  assumes "pio_placed enp etp" "et_pio_size etp \<noteq> 0" "et_pio_blknum etp < pio_blks enp"
  shows "unat (et_pio_offset etp) = et_pio_blknum etp * unat (edc_pio_alloc_size enp) \<and> unat (et_pio_size etp) = unat (edc_pio_alloc_size enp)
    \<and> unat (et_pio_offset etp) + unat (et_pio_size etp) \<le> unat (enc_piobuf_size enp)"
proof -
  let ?a = "unat (edc_pio_alloc_size enp)" and ?k = "et_pio_blknum etp" and ?p = "unat (enc_piobuf_size enp)"
  have "?k < ?p div ?a" using assms(3) by (simp add: pio_blks_def unat_div)
  then have "Suc ?k \<le> ?p div ?a" by simp
  then have "Suc ?k * ?a \<le> ?p div ?a * ?a" by (rule mult_le_mono1)
  from le_trans [OF this div_times_less_eq_dividend] have le: "?k * ?a + ?a \<le> ?p" by (simp add: add.commute)
  have p: "?p < 2 ^ 32" using unsigned_less [of "enc_piobuf_size enp"] by simp
  have "?a < 2 ^ 64" using unsigned_less [of "edc_pio_alloc_size enp", where 'a = nat] by simp
  then have sz: "unat (et_pio_size etp) = ?a" using assms(1,2) by (simp add: pio_placed_def unsigned_ucast_eq take_bit_nat_eq_self)
  have "0 < ?a" using assms(2) sz by (metis gr0I unat_eq_0)
  then have "?k \<le> ?k * ?a" by simp
  then have "?k < 2 ^ 32" using le p by linarith
  then have "unat (of_nat ?k :: u32) = ?k" by (simp add: unat_of_nat)
  then have "unat (et_pio_offset etp) = ?k * ?a" using assms(1,2) le p by (simp add: pio_placed_def unat_mult_lem [THEN iffD1])
  with le sz show ?thesis by simp
qed

text \<open>
  C37. Whatever transmit queues enable and disable their blocks, in any order, with any answers of the controller to the requests that link
  and unlink them, every enabled queue has a block inside an allocated buffer, the blocks of two queues never overlap, and the map of the
  used blocks records exactly the blocks of the enabled queues: none leaks, also when linking fails.
\<close>

theorem pio_blocks_disjoint:
  assumes "mc_env_family env" "pio_fresh enp0 qs0" "pio_reach env (enp0, qs0) (enp, qs)"
  shows "(\<forall>etp \<in> set qs. et_pio_size etp \<noteq> 0 \<longrightarrow> et_pio_bufnum etp < ena_piobuf_count enp
        \<and> unat (et_pio_offset etp) + unat (et_pio_size etp) \<le> unat (enc_piobuf_size enp))
    \<and> (\<forall>i < length qs. \<forall>j < length qs. i \<noteq> j \<and> et_pio_size (qs ! i) \<noteq> 0 \<and> et_pio_size (qs ! j) \<noteq> 0
        \<and> et_pio_bufnum (qs ! i) = et_pio_bufnum (qs ! j) \<longrightarrow>
          unat (et_pio_offset (qs ! i)) + unat (et_pio_size (qs ! i)) \<le> unat (et_pio_offset (qs ! j))
          \<or> unat (et_pio_offset (qs ! j)) + unat (et_pio_size (qs ! j)) \<le> unat (et_pio_offset (qs ! i)))
    \<and> pio_used enp = {(et_pio_bufnum etp, et_pio_blknum etp) |etp. etp \<in> set qs \<and> et_pio_size etp \<noteq> 0}"
proof -
  have inv: "pio_inv enp qs" using pio_reach_inv [OF assms(1) _ assms(3)] pio_fresh_inv [OF assms(2)] by simp
  then have o: "pio.owns enp (map pio_owner qs)" and inside: "pio_used enp \<subseteq> pio_blocks enp" and placed: "list_all (pio_placed enp) qs"
    by (simp_all add: pio_inv_def)
  have used: "pio_used enp = {(et_pio_bufnum etp, et_pio_blknum etp) |etp. etp \<in> set qs \<and> et_pio_size etp \<noteq> 0}"
    using o unfolding pio.owns_def by (force simp: pio_owner_def split: if_splits)
  have block: "et_pio_bufnum etp < ena_piobuf_count enp \<and> et_pio_blknum etp < pio_blks enp \<and> pio_placed enp etp"
    if "etp \<in> set qs" "et_pio_size etp \<noteq> 0" for etp
    using that used inside placed by (auto simp: pio_blocks_def list_all_iff)
  have apart: "unat (et_pio_offset (qs ! i)) + unat (et_pio_size (qs ! i)) \<le> unat (et_pio_offset (qs ! j))
          \<or> unat (et_pio_offset (qs ! j)) + unat (et_pio_size (qs ! j)) \<le> unat (et_pio_offset (qs ! i))"
    if ij: "i < length qs" "j < length qs" "i \<noteq> j" "et_pio_size (qs ! i) \<noteq> 0" "et_pio_size (qs ! j) \<noteq> 0" "et_pio_bufnum (qs ! i) = et_pio_bufnum (qs ! j)" for i j
  proof -
    let ?a = "unat (edc_pio_alloc_size enp)"
    have bi: "unat (et_pio_offset (qs ! i)) = et_pio_blknum (qs ! i) * ?a" "unat (et_pio_size (qs ! i)) = ?a"
      using pio_bytes [of enp "qs ! i"] block [of "qs ! i"] ij by simp_all
    have bj: "unat (et_pio_offset (qs ! j)) = et_pio_blknum (qs ! j) * ?a" "unat (et_pio_size (qs ! j)) = ?a"
      using pio_bytes [of enp "qs ! j"] block [of "qs ! j"] ij by simp_all
    have "et_pio_blknum (qs ! i) \<noteq> et_pio_blknum (qs ! j)"
      using pio.owns_once [OF o, of i j] ij by (auto simp: pio_owner_def)
    then have "Suc (et_pio_blknum (qs ! i)) \<le> et_pio_blknum (qs ! j) \<or> Suc (et_pio_blknum (qs ! j)) \<le> et_pio_blknum (qs ! i)" by linarith
    then have "Suc (et_pio_blknum (qs ! i)) * ?a \<le> et_pio_blknum (qs ! j) * ?a \<or> Suc (et_pio_blknum (qs ! j)) * ?a \<le> et_pio_blknum (qs ! i) * ?a"
      using mult_le_mono1 by blast
    then show ?thesis unfolding bi bj by (simp add: add.commute)
  qed
  have all: "\<forall>etp \<in> set qs. et_pio_size etp \<noteq> 0 \<longrightarrow> et_pio_bufnum etp < ena_piobuf_count enp
        \<and> unat (et_pio_offset etp) + unat (et_pio_size etp) \<le> unat (enc_piobuf_size enp)"
    using block pio_bytes by blast
  show ?thesis using all used apart by blast
qed

text \<open>Two queues with two blocks of one buffer.\<close>

definition demo_pio_nic :: "unit dp_nic" where
  "demo_pio_nic = dp_set_mcdi (demo_mcdi\<lparr>mn_dev := (mn_dev demo_mcdi)\<lparr>md_family := EFX_FAMILY_HUNTINGTON, md_features := EFX_FEATURE_MCDI\<rparr>\<rparr>)
     (demo_dp_nic EFX_FAMILY_HUNTINGTON)"

lemma demo_pio_reach:
  "\<exists>enp p q. pio_reach demo_env (demo_pio_nic, [txq_new 0 512 [], txq_new 1 512 []]) (enp, [p, q])
     \<and> et_pio_size p = 1024 \<and> et_pio_size q = 1024 \<and> et_pio_bufnum p = 0 \<and> et_pio_bufnum q = 0"
proof -
  have f: "pio_find 2 [0] [0] = Some (Some (0, 0))" "pio_find 2 [1] [0] = Some (Some (0, 1))" by (simp_all add: upt_rec)
  have e: "\<exists>q'. ef10_tx_qpio_enable demo_env q (demo_pio_nic\<lparr>ena_pio_alloc_map := [m]\<rparr>) = Some (RC_OK, q', demo_pio_nic\<lparr>ena_pio_alloc_map := [m OR push_bit blk 1]\<rparr>)
      \<and> et_pio_size q' = 1024 \<and> et_pio_bufnum q' = 0"
    if "pio_find 2 [m] [0] = Some (Some (0, blk))" "et_pio_size q = 0" for q m blk
    using that by (simp add: ef10_tx_qpio_enable_def ef10_nic_pio_alloc_def demo_pio_nic_def demo_dp_nic_def dp_set_mcdi_def demo_ev_nic_def demo_mcdi_def
        ef10_nic_pio_link_def efx_mcdi_link_piobuf_def dp_execute_def efx_mcdi_execute_def demo_env_def mcdi_in_set_Some length_bytes_of_word4 EFX_MOD_MCDI_def EFX_FEATURE_MCDI_def
        mcdi_req_def Let_def)
  have start: "demo_pio_nic = demo_pio_nic\<lparr>ena_pio_alloc_map := [0]\<rparr>" by (simp add: demo_pio_nic_def demo_dp_nic_def dp_set_mcdi_def)
  have z: "et_pio_size (txq_new i 512 []) = 0" for i by (simp add: txq_new_def)
  from e [OF f(1) z, of 0] obtain p where p: "ef10_tx_qpio_enable demo_env (txq_new 0 512 []) demo_pio_nic = Some (RC_OK, p, demo_pio_nic\<lparr>ena_pio_alloc_map := [1]\<rparr>)"
    "et_pio_size p = 1024" "et_pio_bufnum p = 0" by (auto simp flip: start)
  from e [OF f(2) z, of 1] obtain q where q: "ef10_tx_qpio_enable demo_env (txq_new 1 512 []) (demo_pio_nic\<lparr>ena_pio_alloc_map := [1]\<rparr>)
      = Some (RC_OK, q, demo_pio_nic\<lparr>ena_pio_alloc_map := [1 OR push_bit 1 1]\<rparr>)" "et_pio_size q = 1024" "et_pio_bufnum q = 0" by blast
  have "pio_reach demo_env (demo_pio_nic, [txq_new 0 512 [], txq_new 1 512 []]) (demo_pio_nic\<lparr>ena_pio_alloc_map := [1]\<rparr>, [p, txq_new 1 512 []])"
    using pio_reach_enable [OF pio_reach_start [of demo_env "(demo_pio_nic, [txq_new 0 512 [], txq_new 1 512 []])"], of 0] p(1) by simp
  from pio_reach_enable [OF this, of 1] q p(2,3) show ?thesis by auto
qed

theorem pio_blocks_disjoint_witness:
  "\<exists>enp p q. pio_reach demo_env (demo_pio_nic, [txq_new 0 512 [], txq_new 1 512 []]) (enp, [p, q]) \<and> et_pio_size p = 1024 \<and> et_pio_size q = 1024
     \<and> (unat (et_pio_offset p) + 1024 \<le> unat (et_pio_offset q) \<or> unat (et_pio_offset q) + 1024 \<le> unat (et_pio_offset p))"
proof -
  from demo_pio_reach obtain enp p q where r: "pio_reach demo_env (demo_pio_nic, [txq_new 0 512 [], txq_new 1 512 []]) (enp, [p, q])"
    and pq: "et_pio_size p = 1024" "et_pio_size q = 1024" "et_pio_bufnum p = 0" "et_pio_bufnum q = 0" by blast
  have fam: "mc_env_family demo_env" by (simp add: mc_env_family_def demo_env_def)
  have fresh: "pio_fresh demo_pio_nic [txq_new 0 512 [], txq_new 1 512 []]"
    by (simp add: pio_fresh_def pio_good_def demo_pio_nic_def demo_dp_nic_def dp_set_mcdi_def demo_mcdi_def pio_blks_def txq_new_def demo_ev_nic_def)
  from conjunct1 [OF conjunct2 [OF pio_blocks_disjoint [OF fam fresh r]], rule_format, of 0 1] pq r show ?thesis by auto
qed

end
