(* ===== verification/Spec2Isabelle.thy ===== *)
theory Spec2Isabelle
  imports Efx_Crc32 Efx_Hash Efx_Nvram Efx_Bootcfg_Spec Efx_Ef10_Props Efx_Filter_Props Efx_Mcdi_Props Efx_Vpd_Props Efx_Ef10_Filter_Props Efx_Mon_Props Efx_Ev_Wf Efx_Tx_Props Efx_Rx_Props Efx_Pio_Props
begin

text \<open>
  A model of the common code of the \<open>sfxge\<close> driver for Solarflare network controllers (\<open>src/common\<close>, "libefx"), and the
  theorems that make its parts correct.

  \<^bold>\<open>The program.\<close> An illumos driver (\<open>src/sfxge*.c\<close>) sits on a library that is shared between operating systems
  (\<open>src/common/efx_*.c\<close>) and that dispatches, through tables of functions, to the code of a controller family
  (\<open>siena_*.c\<close>, \<open>ef10_*.c\<close>). The families reach the hardware through registers and through requests to the management
  controller (MCDI). The theories follow this division; they cover the parts of the library whose behaviour is decided in
  the driver and not by the hardware.

  \<^bold>\<open>Conventions.\<close> A C function becomes a HOL function of the same name. State that it changes is passed and returned. The
  outer \<open>option\<close> of a result is \<open>None\<close> where the C has undefined behaviour or a failed assertion (an access outside a
  buffer, a NULL pointer followed, \<open>EFSYS_ASSERT\<close>), so a theorem that a call is \<open>Some\<close> is a safety theorem; an error that
  the code returns is a value of \<open>efx_rc\<close>. Integers whose wrap-around or truncation matters are words of their width.
  Memory is zeroed when it is allocated; \<open>char\<close> is signed; the build selects Siena and Huntington, accessors of 32 bits
  and no licensing, as \<open>src/efsys.h\<close> does. Locks are not modelled: each operation is one step. Probes are left out.

  \<^bold>\<open>The theories.\<close>
  \<^item> \<open>Efx_Prelude\<close>: return codes, bounds-checked memory, facts on words. \<open>Efx_Interfaces\<close>: the contracts that several
    components share, as locales: additive checksums, and open-addressing tables.
  \<^item> \<open>Efx_Crc32\<close> (\<open>efx_crc32.c\<close>) and \<open>Efx_Hash\<close> (\<open>efx_hash.c\<close>): the table-driven CRC equals the bitwise one and detects
    errors; the hash's mixing step is a bijection, and the byte variants agree with the dword variant.
  \<^item> \<open>Efx_Oword\<close> (\<open>efx_types.h\<close>): the bit fields of 128-bit registers and table rows.
  \<^item> \<open>Efx_Nvram\<close> (\<open>efx_nvram.c\<close>): the NVRAM interface over a table of operations that is a parameter, its life cycle as an
    inductive predicate, and the locale \<open>nvram_store\<close>, the contract of a partition store that behaves like memory,
    interpreted on the interface's own operations over such a store.
  \<^item> \<open>Efx_Bootcfg\<close>, \<open>Efx_Bootcfg_Spec\<close> (\<open>efx_bootcfg.c\<close>): the boot configuration block, its grammar, and that what was written
    is read back.
  \<^item> \<open>Efx_Tlv\<close>, \<open>Efx_Tlv_Spec\<close>, \<open>Efx_Ef10_Buffer\<close>, \<open>Efx_Ef10_Buffer_Spec\<close>, \<open>Efx_Ef10_Props\<close> (\<open>ef10_nvram.c\<close>): the cursor over
    tag-length-value segments, its editing operations, the partition buffers; the specification is the list of items.
  \<^item> \<open>Efx_Filter\<close> (\<open>efx_filter.c\<close>): filter specifications and the filter interface. \<open>Efx_Siena_Filter\<close>: the Siena half of the file,
    four hash tables mirrored in memory. \<open>Efx_Siena_Spec\<close>: the search as the first hit of a probe sequence, by the locale
    \<open>probe_table\<close> interpreted on the driver's hash. \<open>Efx_Siena_State\<close>: invariant, operations, reachable states.
    \<open>Efx_Filter_Props\<close>: insertion and removal as operations on multisets of filters.
  \<^item> \<open>Efx_Mcdi\<close> (\<open>efx_mcdi.c\<close>, \<open>siena_mcdi.c\<close>, \<open>ef10_mcdi.c\<close>): requests to the management controller. The state is the interface
    (\<open>efx_mcdi_iface_t\<close>: sequence number, pending request, credits for completions of aborted requests), the request, and the
    device: Siena's shared memory and doorbell, or EF10's DMA buffer. The controller is a parameter: what it writes, and when.
    \<open>Efx_Mcdi_Channel\<close>: the locale \<open>mcdi_channel\<close>, the laws of a transport (a request is laid out as its header and payload,
    a response is read from where the controller put it), interpreted on both families. \<open>Efx_Mcdi_Spec\<close>: a reply as a value and
    its outcome for the request. \<open>Efx_Mcdi_Driver\<close> (\<open>sfxge_mcdi.c\<close>): acquiring the interface, polling, attaching.
    \<open>Efx_Mcdi_Exec\<close>: executing a request inside the locale. \<open>Efx_Mcdi_Credit\<close>: the interleavings of the driver with the
    controller's events, as an inductive predicate and its invariant. \<open>Efx_Mcdi_Props\<close>: their properties on both transports.
  \<^item> \<open>Efx_Vpd\<close> (\<open>efx_vpd.c\<close>): vital product data, a buffer of tagged resources with keywords. \<open>Efx_Vpd_Spec\<close>: a hunk as a list of
    resources and the rule by which every loop passes over what it does not look for. \<open>Efx_Vpd_Set\<close>: setting a keyword as an
    operation on the list of keywords. \<open>Efx_Vpd_Props\<close>: bounds on arbitrary buffers, round trip.
  \<^item> \<open>Efx_Mc_Cmd\<close> (\<open>efx_mcdi.h\<close>): one command to the controller as the common code builds it. What executes it, and the kernel's
    allocator, are the parameter \<open>mc_env\<close> over a state of its own; the only law used is that a response stays in its buffer.
  \<^item> \<open>Efx_Ef10_Filter\<close> (\<open>ef10_filter.c\<close>): the hash table of the EF10 filters, its requests, and the mark-and-sweep
    reconfiguration of the station's own filters. \<open>Efx_Ef10_State\<close>: the table as a map from slots, its invariant, and each
    operation as a step of it. \<open>Efx_Ef10_Reconfig\<close>: the invariant of a reconfiguration pass. \<open>Efx_Ef10_Filter_Props\<close>: the
    properties for reachable states and any controller.
  \<^item> \<open>Efx_Mon\<close>, \<open>Efx_Mon_Props\<close> (\<open>mcdi_mon.c\<close>, \<open>efx_mon.c\<close>): the sensors of the board. The controller lists its sensors in pages and
    packs the readings of the supported ones; a statistic gets the reading of the last sensor that feeds it.
  \<^item> \<open>Efx_Bar\<close>, \<open>Efx_Ev_Regs\<close>: the registers of the device as a map with the list of the writes, and the constants of the event code.
    \<open>Efx_Link\<close> (\<open>siena_phy.c\<close>, \<open>ef10_phy.c\<close>): the port's state, and the decoding of capabilities, link modes and link events.
  \<^item> \<open>Efx_Ev\<close> (\<open>efx_ev.c\<close>, \<open>ef10_ev.c\<close>): decoding one event and calling the driver. The callbacks are a parameter, functions on a state of
    the driver. \<open>Efx_Ev_Queue\<close>: polling, and the life cycle of queues. \<open>Efx_Ev_Spec\<close>: handlers neither read nor write the ring.
    \<open>Efx_Ev_Poll\<close>: the ring as a queue of waiting events. The controller is a function on the memory of the ring that runs before
    each read of the driver; the only law, \<open>ev_source\<close>, is that it writes its next events into cleared slots, in their order. Polling
    is a partial function, and shown to return. \<open>Efx_Ev_Props\<close>, \<open>Efx_Ev_Wf\<close>: the properties.
  \<^item> \<open>Efx_Dp_Regs\<close>: the constants of the descriptor queues. \<open>Efx_Txq\<close> (\<open>efx_tx.c\<close>, \<open>ef10_tx.c\<close>): the state \<open>dp_nic\<close>, descriptors, posting,
    pushing, the life cycle on both families. \<open>Efx_Pio\<close> (\<open>ef10_nic.c\<close>, \<open>ef10_tx.c\<close>, \<open>efx_tx.c\<close>): buffers for programmed I/O, the allocator of
    their blocks, and the interface of transmit queues. \<open>Efx_Rxq\<close>, \<open>Efx_Rx\<close> (\<open>efx_rx.c\<close>, \<open>ef10_rx.c\<close>): receive queues and receive-side
    scaling. \<open>Efx_Ring\<close>: the locale \<open>desc_ring\<close>, what a loop that posts descriptors does to the outstanding ones, interpreted on the five
    loops of the families, and what a controller fetches between two values of its write pointer. \<open>Efx_Tx_Props\<close>, \<open>Efx_Rx_Props\<close>: posting
    and pushing as operations on a queue, sizes, requests, the indirection table. \<open>Efx_Pio_Props\<close>: the locale \<open>block_alloc\<close>, the contract
    of an allocator with owners, interpreted on the code's allocator, and the invariant of all sequences of calls.

  \<^bold>\<open>How the parts meet.\<close> The NVRAM and filter interfaces call a table of operations of the family; the Siena filter
  operations are such a table, and the boot configuration is read and written through the NVRAM interface. The driver
  executes MCDI requests through the transport of the family, whose replies come from the controller. Callbacks into the
  driver (exceptions, completions) and the restart of the datapath after a reboot are recorded in the state as effects.

  \<^bold>\<open>Bounds.\<close> Recursions follow lists or have a measure. The search of a filter table is bounded by \<open>FILTER_CTL_SRCH_MAX\<close> (Siena) and
  \<open>EF10_FILTER_SEARCH_LIMIT\<close>, as in the code; waiting for a busy EF10 entry is a partial function, which is defined in every
  reachable state. The polling loop of a request is a partial function; that it returns is proved from the driver's clock, whatever the
  controller does between two polls.

  \<^bold>\<open>Not modelled.\<close> The wrappers that build a single MCDI command (versions, statistics, PHY and board queries), the transfers
  between VPD or TLV buffers and flash, licensing (compiled out), the rest of the registers, interrupts and reset
  sequences, and the illumos glue other than \<open>sfxge_mcdi.c\<close>.
\<close>

end
